(* ===== verification/Prelude.thy ===== *)
theory Prelude imports Main begin

text \<open>
  Shared vocabulary of the development: JavaScript strings as lists of UTF-16 code units, the
  string methods the sources call (\<open>trim\<close>, \<open>split\<close>, \<open>join\<close>, \<open>startsWith\<close>,
  \<open>includes\<close>, \<open>indexOf\<close>, \<open>slice\<close>), plain objects with the key order of insertion,
  and the generic lemmas about them that the component theories share.

  A code unit is a natural number; JavaScript strings are the lists whose elements are below
  65536, and every definition here treats the other lists uniformly, so that a statement over all
  lists covers all strings. ASCII literals of the source are written \<^term>\<open>lit ''...''\<close>.
\<close>

named_theorems lit_simps
named_theorems unit_defs

type_synonym jstr = "nat list"

definition lit :: "string \<Rightarrow> jstr" where
  "lit s = map of_char s"

lemma lit_Nil [simp, lit_simps]: "lit [] = []"
  by (simp add: lit_def)

lemma lit_Cons [lit_simps]: "lit (c # s) = of_char c # lit s"
  by (simp add: lit_def)

lemma length_lit [simp]: "length (lit s) = length s"
  by (simp add: lit_def)

lemma lit_eq_Nil [simp]: "lit s = [] \<longleftrightarrow> s = []"
  by (simp add: lit_def)

lemma lit_inject: "lit s = lit t \<longleftrightarrow> s = t"
  unfolding lit_def by (rule inj_map_eq_map) (simp add: inj_def)

subsection \<open>Code units the sources name\<close>

abbreviation (input) c_tab :: nat where "c_tab \<equiv> 9"
abbreviation (input) c_nl :: nat where "c_nl \<equiv> 10"
abbreviation (input) c_cr :: nat where "c_cr \<equiv> 13"
abbreviation (input) c_sp :: nat where "c_sp \<equiv> 32"
abbreviation (input) c_dq :: nat where "c_dq \<equiv> 34"
abbreviation (input) c_hash :: nat where "c_hash \<equiv> 35"
abbreviation (input) c_sq :: nat where "c_sq \<equiv> 39"
abbreviation (input) c_comma :: nat where "c_comma \<equiv> 44"
abbreviation (input) c_dash :: nat where "c_dash \<equiv> 45"
abbreviation (input) c_dot :: nat where "c_dot \<equiv> 46"
abbreviation (input) c_colon :: nat where "c_colon \<equiv> 58"
abbreviation (input) c_eq :: nat where "c_eq \<equiv> 61"
abbreviation (input) c_lb :: nat where "c_lb \<equiv> 91"
abbreviation (input) c_bs :: nat where "c_bs \<equiv> 92"
abbreviation (input) c_rb :: nat where "c_rb \<equiv> 93"
abbreviation (input) c_lc :: nat where "c_lc \<equiv> 123"
abbreviation (input) c_bar :: nat where "c_bar \<equiv> 124"
abbreviation (input) c_rc :: nat where "c_rc \<equiv> 125"

text \<open>
  Character classes: \<open>is_ws\<close> is \<open>\s\<close> and what \<open>trim\<close> removes (white space and line
  terminators), \<open>is_lt\<close> the line terminators, \<open>is_word\<close> is \<open>\w\<close>, \<open>is_digit\<close> is
  \<open>\d\<close>, \<open>is_blank\<close> is the class of a space and a tab.
\<close>

definition is_lt :: "nat \<Rightarrow> bool" where
  "is_lt c \<longleftrightarrow> c = 10 \<or> c = 13 \<or> c = 8232 \<or> c = 8233"

definition is_ws :: "nat \<Rightarrow> bool" where
  "is_ws c \<longleftrightarrow> (9 \<le> c \<and> c \<le> 13) \<or> c = 32 \<or> c = 160 \<or> c = 5760 \<or> (8192 \<le> c \<and> c \<le> 8202)
     \<or> c = 8232 \<or> c = 8233 \<or> c = 8239 \<or> c = 8287 \<or> c = 12288 \<or> c = 65279"

definition is_digit :: "nat \<Rightarrow> bool" where
  "is_digit c \<longleftrightarrow> 48 \<le> c \<and> c \<le> 57"

definition is_alpha :: "nat \<Rightarrow> bool" where
  "is_alpha c \<longleftrightarrow> (65 \<le> c \<and> c \<le> 90) \<or> (97 \<le> c \<and> c \<le> 122)"

definition is_word :: "nat \<Rightarrow> bool" where
  "is_word c \<longleftrightarrow> is_alpha c \<or> is_digit c \<or> c = 95"

definition is_blank :: "nat \<Rightarrow> bool" where
  "is_blank c \<longleftrightarrow> c = 32 \<or> c = 9"

definition is_hex :: "nat \<Rightarrow> bool" where
  "is_hex c \<longleftrightarrow> is_digit c \<or> (65 \<le> c \<and> c \<le> 70) \<or> (97 \<le> c \<and> c \<le> 102)"

definition is_quote :: "nat \<Rightarrow> bool" where
  "is_quote c \<longleftrightarrow> c = c_dq \<or> c = c_sq"

definition is_ctrl :: "nat \<Rightarrow> bool" where
  "is_ctrl c \<longleftrightarrow> c \<le> 31 \<or> c = 127"

declare is_lt_def [unit_defs] is_ws_def [unit_defs] is_digit_def [unit_defs] is_alpha_def [unit_defs]
  is_word_def [unit_defs] is_blank_def [unit_defs] is_hex_def [unit_defs] is_quote_def [unit_defs]
  is_ctrl_def [unit_defs]

subsection \<open>String methods\<close>

definition trimStart :: "jstr \<Rightarrow> jstr" where
  "trimStart s = dropWhile is_ws s"

definition trimEnd :: "jstr \<Rightarrow> jstr" where
  "trimEnd s = rev (dropWhile is_ws (rev s))"

definition trim :: "jstr \<Rightarrow> jstr" where
  "trim s = trimEnd (trimStart s)"

fun startsWith :: "jstr \<Rightarrow> jstr \<Rightarrow> bool" where
  "startsWith s [] = True"
| "startsWith [] (p # ps) = False"
| "startsWith (c # s) (p # ps) = (c = p \<and> startsWith s ps)"

definition endsWith :: "jstr \<Rightarrow> jstr \<Rightarrow> bool" where
  "endsWith s p = startsWith (rev s) (rev p)"

text \<open>First occurrence of \<open>p\<close> in \<open>s\<close>, as an offset from the start of \<open>s\<close>.\<close>

fun indexOf :: "jstr \<Rightarrow> jstr \<Rightarrow> nat option" where
  "indexOf [] p = (if p = [] then Some 0 else None)"
| "indexOf (c # s) p = (if startsWith (c # s) p then Some 0 else map_option Suc (indexOf s p))"

definition includesStr :: "jstr \<Rightarrow> jstr \<Rightarrow> bool" where
  "includesStr s p \<longleftrightarrow> indexOf s p \<noteq> None"

definition slice :: "jstr \<Rightarrow> nat \<Rightarrow> nat \<Rightarrow> jstr" where
  "slice s i j = take (j - i) (drop i s)"

text \<open>Comparison of texts by \<open><\<close>, unit by unit.\<close>

fun text_less :: "jstr \<Rightarrow> jstr \<Rightarrow> bool" where
  "text_less _ [] = False"
| "text_less [] (_ # _) = True"
| "text_less (a # s) (b # t) = (a < b \<or> a = b \<and> text_less s t)"

text \<open>\<open>s.split(c)\<close> for a one-unit separator: always at least one part.\<close>

fun split_on :: "nat \<Rightarrow> jstr \<Rightarrow> jstr list" where
  "split_on d [] = [[]]"
| "split_on d (c # s) =
     (if c = d then [] # split_on d s
      else (case split_on d s of [] \<Rightarrow> [[c]] | p # ps \<Rightarrow> (c # p) # ps))"

text \<open>\<open>s.split(/\r?\n/)\<close>\<close>

fun splitLines :: "jstr \<Rightarrow> jstr list" where
  "splitLines [] = [[]]"
| "splitLines (c # s) =
     (if c = c_nl then [] # splitLines s
      else if c = c_cr \<and> startsWith s [c_nl] then splitLines s
      else (case splitLines s of [] \<Rightarrow> [[c]] | p # ps \<Rightarrow> (c # p) # ps))"

fun join :: "jstr \<Rightarrow> jstr list \<Rightarrow> jstr" where
  "join d [] = []"
| "join d [x] = x"
| "join d (x # y # ys) = x @ d @ join d (y # ys)"

text \<open>\<open>xs.filter(Boolean)\<close> on strings keeps the non-empty ones.\<close>

abbreviation truthy :: "jstr list \<Rightarrow> jstr list" where
  "truthy \<equiv> filter (\<lambda>s. s \<noteq> [])"

subsection \<open>Generic lemmas\<close>

lemma length_dropWhile_less_Suc [simp]: "length (dropWhile P s) < Suc (length s)"
  by (simp add: length_dropWhile_le le_imp_less_Suc)

lemma length_trimStart [simp]: "length (trimStart s) \<le> length s"
  by (simp add: trimStart_def length_dropWhile_le)

lemma length_trimEnd [simp]: "length (trimEnd s) \<le> length s"
  unfolding trimEnd_def by (metis length_dropWhile_le length_rev)

lemma length_trim [simp]: "length (trim s) \<le> length s"
  unfolding trim_def by (meson le_trans length_trimEnd length_trimStart)

lemma startsWith_iff: "startsWith s p \<longleftrightarrow> (\<exists>r. s = p @ r)"
  by (induction s p rule: startsWith.induct) auto

lemma startsWith_append [simp]: "startsWith (p @ s) p"
  by (auto simp: startsWith_iff)

lemma startsWith_snocD: "startsWith s (p @ [c]) \<Longrightarrow> length p < length s"
  by (auto simp: startsWith_iff)

lemma startsWith_single [simp]: "startsWith s [c] \<longleftrightarrow> (\<exists>r. s = c # r)"
  by (auto simp: startsWith_iff)

lemma startsWith_length: "startsWith s p \<Longrightarrow> length p \<le> length s"
  by (auto simp: startsWith_iff)

lemma length_slice [simp]: "length (slice s i j) = min (j - i) (length s - i)"
  by (simp add: slice_def min.commute)

lemma slice_inner_shorter: "v \<noteq> [] \<Longrightarrow> length (slice v 1 (length v - 1)) < length v"
  by (cases v) auto

subsection \<open>Texts split, joined and trimmed\<close>

lemma split_on_not_Nil [simp]: "split_on d s \<noteq> []"
  by (induction d s rule: split_on.induct) (auto split: list.splits)

lemma split_on_plain: "c \<notin> set a \<Longrightarrow> split_on c a = [a]"
  by (induction a) auto

lemma split_on_append: "c \<notin> set a \<Longrightarrow> split_on c (a @ c # s) = a # split_on c s"
  by (induction a) auto

lemma join_Cons: "xs \<noteq> [] \<Longrightarrow> join d (x # xs) = x @ d @ join d xs"
  by (cases xs) auto

lemma join_push: "xs \<noteq> [] \<Longrightarrow> join d ((c # hd xs) # tl xs) = c # join d xs"
  by (cases xs; cases "tl xs") auto

lemma join_split_on [simp]: "join [d] (split_on d s) = s"
proof (induction d s rule: split_on.induct)
  case (2 d c s)
  show ?case
  proof (cases "c = d")
    case True
    with 2 show ?thesis by (simp add: join_Cons)
  next
    case False
    obtain p ps where "split_on d s = p # ps" by (cases "split_on d s") simp_all
    with 2 False join_push [of "p # ps" "[d]" c] show ?thesis by simp
  qed
qed simp

lemma split_on_join: "xs \<noteq> [] \<Longrightarrow> \<forall>x\<in>set xs. d \<notin> set x \<Longrightarrow> split_on d (join [d] xs) = xs"
proof (induction xs)
  case (Cons x xs)
  then show ?case by (cases xs) (simp_all add: split_on_plain split_on_append)
qed simp

lemma split_on_parts: "x \<in> set (split_on d s) \<Longrightarrow> d \<notin> set x \<and> set x \<subseteq> set s"
proof (induction d s arbitrary: x rule: split_on.induct)
  case (2 d c s)
  show ?case
  proof (cases "c = d")
    case True
    with 2 show ?thesis by auto
  next
    case False
    obtain p ps where p: "split_on d s = p # ps" by (cases "split_on d s") simp_all
    with 2(2)[OF False] have "d \<notin> set p \<and> set p \<subseteq> set s" "\<And>y. y \<in> set ps \<Longrightarrow> d \<notin> set y \<and> set y \<subseteq> set s" by auto
    with 2(3) False p show ?thesis by auto
  qed
qed simp

lemma trim_parts: "\<exists>a b. s = a @ trim s @ b"
proof -
  have "s = takeWhile is_ws s @ trimStart s" by (simp add: trimStart_def)
  moreover have "trimStart s = trim s @ rev (takeWhile is_ws (rev (trimStart s)))"
    unfolding trim_def trimEnd_def by (metis rev_append rev_rev_ident takeWhile_dropWhile_id)
  ultimately show ?thesis by metis
qed

text \<open>Texts that start and end with something else than white space are the trimmed ones.\<close>

lemma trim_fixed: "s = [] \<or> \<not> is_ws (hd s) \<and> \<not> is_ws (last s) \<Longrightarrow> trim s = s"
proof (cases s)
  case (Cons c r)
  assume a: "s = [] \<or> \<not> is_ws (hd s) \<and> \<not> is_ws (last s)"
  then have "trimStart s = s" using Cons by (simp add: trimStart_def)
  moreover have "rev s = last s # rev (butlast s)" using Cons by (metis append_butlast_last_id list.distinct(1) rev_eq_Cons_iff rev_rev_ident)
  then have "dropWhile is_ws (rev s) = rev s" using a Cons by simp
  ultimately show ?thesis by (simp add: trim_def trimEnd_def)
qed (simp add: trim_def trimStart_def trimEnd_def)

lemma last_dropWhile: "dropWhile P s \<noteq> [] \<Longrightarrow> last (dropWhile P s) = last s"
  by (induction s) (auto split: if_splits)

lemma trim_ends: "trim s = [] \<or> \<not> is_ws (hd (trim s)) \<and> \<not> is_ws (last (trim s))"
proof (cases "trim s = []")
  case False
  let ?r = "dropWhile is_ws (rev (trimStart s))"
  have t: "trim s = rev ?r" by (simp add: trim_def trimEnd_def)
  with False have r: "?r \<noteq> []" by simp
  then have "\<not> is_ws (hd ?r)" using hd_dropWhile by blast
  moreover have "last ?r = hd (trimStart s)" "trimStart s \<noteq> []" using last_dropWhile [OF r] r by (auto simp: last_rev)
  moreover have "\<not> is_ws (hd (trimStart s))" using \<open>trimStart s \<noteq> []\<close> hd_dropWhile unfolding trimStart_def by blast
  ultimately show ?thesis unfolding t using r by (simp add: hd_rev last_rev)
qed simp

lemma trim_trim [simp]: "trim (trim s) = trim s"
  by (rule trim_fixed) (rule trim_ends)

lemma set_trim: "set (trim s) \<subseteq> set s"
  using trim_parts [of s] by (metis Un_iff set_append subsetI)

lemma trim_white: "trim s = s \<Longrightarrow> list_all is_ws a \<Longrightarrow> list_all is_ws b \<Longrightarrow> trim (a @ s @ b) = s"
proof -
  assume s: "trim s = s" and a: "list_all is_ws a" and b: "list_all is_ws b"
  show ?thesis
  proof (cases "s = []")
    case True
    have "dropWhile is_ws (a @ b) = []" using a b by (simp add: list_all_iff)
    then have "trimStart (a @ s @ b) = []" using True by (simp add: trimStart_def)
    with True show ?thesis by (simp add: trim_def trimEnd_def)
  next
    case False
    then have h: "\<not> is_ws (hd s)" "\<not> is_ws (last s)" using trim_ends [of s] s by auto
    have "dropWhile is_ws (a @ s @ b) = s @ b"
      using a h(1) False by (cases s) (auto simp: list_all_iff dropWhile_append)
    moreover have "rev s = last s # rev (butlast s)" using False by (metis append_butlast_last_id rev_eq_Cons_iff rev_rev_ident)
    then have "dropWhile is_ws (rev s) = rev s" using h(2) by (metis dropWhile.simps(2))
    then have "dropWhile is_ws (rev b @ rev s) = rev s" using b by (simp add: list_all_iff dropWhile_append)
    ultimately show ?thesis by (simp add: trim_def trimStart_def trimEnd_def)
  qed
qed

text \<open>Folding a fallible step over a list; the first failure is the result.\<close>

fun foldM :: "('a \<Rightarrow> 'b \<Rightarrow> 'b option) \<Rightarrow> 'a list \<Rightarrow> 'b \<Rightarrow> 'b option" where
  "foldM f [] b = Some b"
| "foldM f (x # xs) b = (case f x b of None \<Rightarrow> None | Some b' \<Rightarrow> foldM f xs b')"

lemma foldM_cong [fundef_cong]:
  "xs = ys \<Longrightarrow> a = b \<Longrightarrow> (\<And>x c. x \<in> set ys \<Longrightarrow> f x c = g x c) \<Longrightarrow> foldM f xs a = foldM g ys b"
proof (induction xs arbitrary: ys a b)
  case Nil
  then show ?case by simp
next
  case (Cons x xs)
  then show ?case by (auto split: option.splits)
qed

text \<open>Plain objects keep their keys in the order of insertion; assigning to a key it has keeps its
  place.\<close>

fun obj_set :: "'k \<Rightarrow> 'v \<Rightarrow> ('k \<times> 'v) list \<Rightarrow> ('k \<times> 'v) list" where
  "obj_set k v [] = [(k, v)]"
| "obj_set k v ((k', v') # o') = (if k' = k then (k, v) # o' else (k', v') # obj_set k v o')"

text \<open>Assigning a string to \<open>__proto__\<close> changes nothing (a prototype is an object or \<open>null\<close>), and
  \<open>k in o\<close> also finds the names every object inherits.\<close>

definition obj_put :: "jstr \<Rightarrow> 'v \<Rightarrow> (jstr \<times> 'v) list \<Rightarrow> (jstr \<times> 'v) list" where
  "obj_put k v ob = (if k = lit ''__proto__'' then ob else obj_set k v ob)"

definition inherited_names :: "jstr list" where
  "inherited_names = map lit [''__proto__'', ''constructor'', ''hasOwnProperty'', ''isPrototypeOf'',
     ''propertyIsEnumerable'', ''toLocaleString'', ''toString'', ''valueOf'', ''__defineGetter__'',
     ''__defineSetter__'', ''__lookupGetter__'', ''__lookupSetter__'']"

definition key_in :: "jstr \<Rightarrow> (jstr \<times> 'v) list \<Rightarrow> bool" where
  "key_in k ob \<longleftrightarrow> k \<in> fst ` set ob \<or> k \<in> set inherited_names"

lemma map_of_obj_set [simp]: "map_of (obj_set k v ob) = (map_of ob)(k \<mapsto> v)"
  by (induction k v ob rule: obj_set.induct) auto

lemma keys_obj_set:
  "map fst (obj_set k v ob) = (if k \<in> fst ` set ob then map fst ob else map fst ob @ [k])"
  by (induction k v ob rule: obj_set.induct) auto

lemma distinct_obj_set [simp]: "distinct (map fst ob) \<Longrightarrow> distinct (map fst (obj_set k v ob))"
  by (auto simp: keys_obj_set)

end
