(* ===== verification/Regex.thy ===== *)
theory Regex imports Prelude begin

text \<open>
  The regular expressions of the sources, with the matching rule of ECMAScript: alternatives are
  tried in order, quantifiers are greedy, a capture keeps the text of its last iteration, and the
  first way to match in that order is the match. \<open>runs r m\<close> lists every way \<open>r\<close> can match
  from the point \<open>m\<close>, in the order the backtracking matcher would find them, so that the match of
  the source is the first element.

  A point holds the text before it (reversed), the text after it and the captures read so far. The
  assertions \<open>^\<close> and \<open>$\<close> have a multi-line form (flag \<open>m\<close>) and a whole-text form; \<open>\b\<close>
  and look-ahead are there because the sources use them.
\<close>

datatype re =
    REmpty
  | RCls "nat \<Rightarrow> bool"
  | RSeq re re
  | RAlt re re
  | RStar re
  | RStarLazy re
  | RCap nat re
  | RBack nat
  | RBol
  | RStart
  | REnd
  | RWordB
  | RLook bool re

type_synonym caps = "(nat \<times> jstr) list"

record point =
  behind :: jstr
  ahead :: jstr
  caps :: caps

definition cap :: "point \<Rightarrow> nat \<Rightarrow> jstr option" where
  "cap m i = map_of (caps m) i"

definition word_at :: "jstr \<Rightarrow> bool" where
  "word_at s \<longleftrightarrow> (case s of [] \<Rightarrow> False | c # _ \<Rightarrow> is_word c)"

text \<open>Iterations of a quantified body: an iteration that consumes nothing is refused, so the
  remaining length bounds their number and \<open>star_runs\<close> takes it as its fuel.\<close>

fun star_runs :: "(point \<Rightarrow> point list) \<Rightarrow> nat \<Rightarrow> point \<Rightarrow> point list" where
  "star_runs f 0 m = [m]"
| "star_runs f (Suc n) m =
     concat (map (\<lambda>m'. if length (ahead m') < length (ahead m) then star_runs f n m' else []) (f m)) @ [m]"

fun lazy_runs :: "(point \<Rightarrow> point list) \<Rightarrow> nat \<Rightarrow> point \<Rightarrow> point list" where
  "lazy_runs f 0 m = [m]"
| "lazy_runs f (Suc n) m =
     m # concat (map (\<lambda>m'. if length (ahead m') < length (ahead m) then lazy_runs f n m' else []) (f m))"

definition eat :: "point \<Rightarrow> nat \<Rightarrow> point" where
  "eat m n = m\<lparr>behind := rev (take n (ahead m)) @ behind m, ahead := drop n (ahead m)\<rparr>"

fun runs :: "re \<Rightarrow> point \<Rightarrow> point list" where
  "runs REmpty m = [m]"
| "runs (RCls P) m = (case ahead m of [] \<Rightarrow> [] | c # s \<Rightarrow> (if P c then [eat m 1] else []))"
| "runs (RSeq r1 r2) m = concat (map (runs r2) (runs r1 m))"
| "runs (RAlt r1 r2) m = runs r1 m @ runs r2 m"
| "runs (RStar r) m = star_runs (runs r) (length (ahead m)) m"
| "runs (RStarLazy r) m = lazy_runs (runs r) (length (ahead m)) m"
| "runs (RCap i r) m =
     map (\<lambda>m'. m'\<lparr>caps := (i, take (length (ahead m) - length (ahead m')) (ahead m)) # caps m'\<rparr>) (runs r m)"
| "runs (RBack i) m =
     (case cap m i of None \<Rightarrow> [m]
      | Some w \<Rightarrow> (if startsWith (ahead m) w then [eat m (length w)] else []))"
| "runs RBol m = (case behind m of [] \<Rightarrow> [m] | c # _ \<Rightarrow> (if is_lt c then [m] else []))"
| "runs RStart m = (if behind m = [] then [m] else [])"
| "runs REnd m = (if ahead m = [] then [m] else [])"
| "runs RWordB m = (if word_at (behind m) \<noteq> word_at (ahead m) then [m] else [])"
| "runs (RLook b r) m = (if (runs r m \<noteq> []) = b then [m] else [])"

subsection \<open>Derived forms\<close>

abbreviation chr_r :: "nat \<Rightarrow> re" where "chr_r c \<equiv> RCls (\<lambda>x. x = c)"

fun str_r :: "jstr \<Rightarrow> re" where
  "str_r [] = REmpty"
| "str_r (c # s) = RSeq (chr_r c) (str_r s)"

fun seq_r :: "re list \<Rightarrow> re" where
  "seq_r [] = REmpty"
| "seq_r [r] = r"
| "seq_r (r # r' # rs) = RSeq r (seq_r (r' # rs))"

fun alt_r :: "re list \<Rightarrow> re" where
  "alt_r [] = RCls (\<lambda>_. False)"
| "alt_r [r] = r"
| "alt_r (r # r' # rs) = RAlt r (alt_r (r' # rs))"

definition opt_r :: "re \<Rightarrow> re" where "opt_r r = RAlt r REmpty"

definition plus_r :: "re \<Rightarrow> re" where "plus_r r = RSeq r (RStar r)"

text \<open>\<open>r{m,n}\<close>: \<open>m\<close> copies, then up to \<open>n - m\<close> optional ones, greedy.\<close>

fun upto_r :: "nat \<Rightarrow> re \<Rightarrow> re" where
  "upto_r 0 r = REmpty"
| "upto_r (Suc n) r = RAlt (RSeq r (upto_r n r)) REmpty"

fun rep_r :: "nat \<Rightarrow> nat \<Rightarrow> re \<Rightarrow> re" where
  "rep_r 0 n r = upto_r n r"
| "rep_r (Suc m) n r = RSeq r (rep_r m (n - 1) r)"

subsection \<open>Using an expression\<close>

definition at_point :: "jstr \<Rightarrow> nat \<Rightarrow> point" where
  "at_point s i = \<lparr>behind = rev (take i s), ahead = drop i s, caps = []\<rparr>"

text \<open>A match found by \<open>exec\<close>: where it starts, where it ends, its captures.\<close>

record mtch =
  m_index :: nat
  m_end :: nat
  m_caps :: caps

definition match_at :: "re \<Rightarrow> jstr \<Rightarrow> nat \<Rightarrow> mtch option" where
  "match_at r s i = (case runs r (at_point s i) of [] \<Rightarrow> None
     | m # _ \<Rightarrow> Some \<lparr>m_index = i, m_end = length (behind m), m_caps = caps m\<rparr>)"

text \<open>\<open>exec\<close> with \<open>lastIndex = i\<close>: the first start from \<open>i\<close> on where the expression matches.\<close>

fun exec_from :: "re \<Rightarrow> jstr \<Rightarrow> nat \<Rightarrow> nat \<Rightarrow> mtch option" where
  "exec_from r s i 0 = match_at r s i"
| "exec_from r s i (Suc n) = (case match_at r s i of Some m \<Rightarrow> Some m | None \<Rightarrow> exec_from r s (Suc i) n)"

definition exec :: "re \<Rightarrow> jstr \<Rightarrow> nat \<Rightarrow> mtch option" where
  "exec r s i = (if i \<le> length s then exec_from r s i (length s - i) else None)"

definition test :: "re \<Rightarrow> jstr \<Rightarrow> bool" where
  "test r s \<longleftrightarrow> exec r s 0 \<noteq> None"

definition m_cap :: "mtch \<Rightarrow> nat \<Rightarrow> jstr option" where
  "m_cap m i = map_of (m_caps m) i"

definition m_text :: "jstr \<Rightarrow> mtch \<Rightarrow> jstr" where
  "m_text s m = slice s (m_index m) (m_end m)"

text \<open>\<open>matchAll\<close> of a global expression: after an empty match the search moves on by one.\<close>

fun match_all_from :: "nat \<Rightarrow> re \<Rightarrow> jstr \<Rightarrow> nat \<Rightarrow> mtch list" where
  "match_all_from 0 r s i = []"
| "match_all_from (Suc n) r s i =
     (case exec r s i of None \<Rightarrow> []
      | Some m \<Rightarrow> m # match_all_from n r s (if m_end m = m_index m then Suc (m_end m) else m_end m))"

definition matchAll :: "re \<Rightarrow> jstr \<Rightarrow> mtch list" where
  "matchAll r s = match_all_from (Suc (length s)) r s 0"

text \<open>\<open>s.replace(r, f)\<close> for a global \<open>r\<close>: the matches replaced, what lies between them kept.\<close>

fun splice :: "jstr \<Rightarrow> nat \<Rightarrow> (mtch \<Rightarrow> jstr) \<Rightarrow> mtch list \<Rightarrow> jstr" where
  "splice s pos f [] = drop pos s"
| "splice s pos f (m # ms) = slice s pos (m_index m) @ f m @ splice s (m_end m) f ms"

definition replaceAll :: "re \<Rightarrow> (mtch \<Rightarrow> jstr) \<Rightarrow> jstr \<Rightarrow> jstr" where
  "replaceAll r f s = splice s 0 f (matchAll r s)"

subsection \<open>What a match consumes\<close>

text \<open>Least number of units a match of the expression consumes.\<close>

fun re_min :: "re \<Rightarrow> nat" where
  "re_min (RCls P) = 1"
| "re_min (RSeq r1 r2) = re_min r1 + re_min r2"
| "re_min (RAlt r1 r2) = min (re_min r1) (re_min r2)"
| "re_min (RCap i r) = re_min r"
| "re_min _ = 0"

text \<open>A later point of the same text: at least \<open>k\<close> units further on.\<close>

definition advances :: "nat \<Rightarrow> point \<Rightarrow> point \<Rightarrow> bool" where
  "advances k m m' \<longleftrightarrow> length (ahead m') + k \<le> length (ahead m)
     \<and> rev (behind m') @ ahead m' = rev (behind m) @ ahead m"

lemma advances_refl [simp]: "advances 0 m m"
  by (simp add: advances_def)

lemma advances_trans: "advances j m m' \<Longrightarrow> advances k m' m'' \<Longrightarrow> advances (j + k) m m''"
  by (simp add: advances_def)

lemma advances_weaken: "advances k m m' \<Longrightarrow> j \<le> k \<Longrightarrow> advances j m m'"
  by (simp add: advances_def)

lemma advances_eat: "n \<le> length (ahead m) \<Longrightarrow> advances n m (eat m n)"
  by (simp add: advances_def eat_def)

lemma advances_caps [simp]: "advances k m (m'\<lparr>caps := c\<rparr>) = advances k m m'"
  by (simp add: advances_def)

lemma star_runs_advances:
  assumes "\<And>m m'. m' \<in> set (f m) \<Longrightarrow> advances 0 m m'"
  shows "m' \<in> set (star_runs f n m) \<Longrightarrow> advances 0 m m'"
  by (induction n arbitrary: m m')
    (auto split: if_splits dest!: assms intro: advances_trans [of 0 _ _ 0, simplified])

lemma lazy_runs_advances:
  assumes "\<And>m m'. m' \<in> set (f m) \<Longrightarrow> advances 0 m m'"
  shows "m' \<in> set (lazy_runs f n m) \<Longrightarrow> advances 0 m m'"
  by (induction n arbitrary: m m')
    (auto split: if_splits dest!: assms intro: advances_trans [of 0 _ _ 0, simplified])

lemma runs_advances: "m' \<in> set (runs r m) \<Longrightarrow> advances (re_min r) m m'"
proof (induction r arbitrary: m m')
  case (RCls P)
  then show ?case by (cases "ahead m") (auto split: if_splits intro!: advances_eat)
next
  case (RSeq r1 r2)
  then show ?case by simp (blast intro: advances_trans)
next
  case (RAlt r1 r2)
  then show ?case by simp (metis advances_weaken min.cobounded1 min.cobounded2)
next
  case (RStar r)
  have "advances 0 n n'" if "n' \<in> set (runs r n)" for n n'
    using RStar.IH [OF that] by (rule advances_weaken) simp
  with RStar.prems show ?case using star_runs_advances [of "runs r"] by simp
next
  case (RStarLazy r)
  have "advances 0 n n'" if "n' \<in> set (runs r n)" for n n'
    using RStarLazy.IH [OF that] by (rule advances_weaken) simp
  with RStarLazy.prems show ?case using lazy_runs_advances [of "runs r"] by simp
next
  case (RCap i r)
  then show ?case by auto
next
  case (RBack i)
  then show ?case
    by (auto split: option.splits if_splits dest: startsWith_length
        intro: advances_weaken [OF advances_eat])
next
  case RBol
  then show ?case by (auto split: list.splits if_splits)
qed (auto split: if_splits)

lemma match_at_bounds:
  assumes "match_at r s i = Some m" and "i \<le> length s"
  shows "m_index m = i \<and> i + re_min r \<le> m_end m \<and> m_end m \<le> length s"
proof -
  from assms(1) obtain p where p: "p \<in> set (runs r (at_point s i))"
    and m: "m = \<lparr>m_index = i, m_end = length (behind p), m_caps = caps p\<rparr>"
    by (auto simp: match_at_def split: list.splits)
  from runs_advances [OF p] have len: "length (ahead p) + re_min r \<le> length s - i"
    and tx: "rev (behind p) @ ahead p = rev (behind (at_point s i)) @ ahead (at_point s i)"
    by (auto simp: advances_def at_point_def)
  from tx have "rev (behind p) @ ahead p = s" by (simp add: at_point_def)
  then have "length (behind p) + length (ahead p) = length s"
    by (metis length_append length_rev)
  with len m assms(2) show ?thesis by simp
qed

lemma exec_from_bounds:
  "exec_from r s i n = Some m \<Longrightarrow> i + n \<le> length s \<Longrightarrow>
     i \<le> m_index m \<and> m_index m + re_min r \<le> m_end m \<and> m_end m \<le> length s"
  by (induction r s i n rule: exec_from.induct) (auto split: option.splits dest!: match_at_bounds)

lemma exec_bounds:
  "exec r s i = Some m \<Longrightarrow> i \<le> m_index m \<and> m_index m + re_min r \<le> m_end m \<and> m_end m \<le> length s"
  by (auto simp: exec_def split: if_splits dest!: exec_from_bounds)

lemma exec_le: "exec r s i = Some m \<Longrightarrow> i \<le> length s"
  by (auto simp: exec_def split: if_splits)

subsection \<open>Units a match is made of\<close>

text \<open>Every class of the expression is within \<open>P\<close>: what it consumes is made of such units.\<close>

fun re_within :: "(nat \<Rightarrow> bool) \<Rightarrow> re \<Rightarrow> bool" where
  "re_within P (RCls Q) = (\<forall>c. Q c \<longrightarrow> P c)"
| "re_within P (RSeq r1 r2) = (re_within P r1 \<and> re_within P r2)"
| "re_within P (RAlt r1 r2) = (re_within P r1 \<and> re_within P r2)"
| "re_within P (RStar r) = re_within P r"
| "re_within P (RStarLazy r) = re_within P r"
| "re_within P (RCap i r) = re_within P r"
| "re_within P (RBack i) = False"
| "re_within P _ = True"

definition eats :: "(nat \<Rightarrow> bool) \<Rightarrow> point \<Rightarrow> point \<Rightarrow> bool" where
  "eats P m m' \<longleftrightarrow> (\<exists>w. ahead m = w @ ahead m' \<and> behind m' = rev w @ behind m \<and> list_all P w)"

lemma eats_refl [simp]: "eats P m m"
  by (simp add: eats_def)

lemma eats_trans: "eats P m m' \<Longrightarrow> eats P m' m'' \<Longrightarrow> eats P m m''"
  unfolding eats_def by (elim exE conjE) (rule_tac x = "w @ wa" in exI, simp)

lemma star_runs_eats:
  "(\<And>m m'. m' \<in> set (f m) \<Longrightarrow> eats P m m') \<Longrightarrow> m' \<in> set (star_runs f n m) \<Longrightarrow> eats P m m'"
  by (induction n arbitrary: m m') (auto split: if_splits, meson eats_trans)

lemma lazy_runs_eats:
  "(\<And>m m'. m' \<in> set (f m) \<Longrightarrow> eats P m m') \<Longrightarrow> m' \<in> set (lazy_runs f n m) \<Longrightarrow> eats P m m'"
  by (induction n arbitrary: m m') (auto split: if_splits, meson eats_trans)

lemma runs_eats: "re_within P r \<Longrightarrow> m' \<in> set (runs r m) \<Longrightarrow> eats P m m'"
proof (induction r arbitrary: m m')
  case (RCls Q)
  then show ?case by (cases "ahead m") (auto simp: eats_def eat_def split: if_splits)
next
  case (RSeq r1 r2)
  then show ?case by simp (blast intro: eats_trans)
next
  case (RStar r)
  then show ?case using star_runs_eats [of "runs r" P] by auto
next
  case (RStarLazy r)
  then show ?case using lazy_runs_eats [of "runs r" P] by auto
next
  case (RCap i r)
  then show ?case by (auto simp: eats_def)
next
  case RBol
  then show ?case by (auto split: list.splits if_splits)
qed (auto split: if_splits)

lemma re_within_derived [simp]:
  "re_within P (seq_r rs) = list_all (re_within P) rs"
  "re_within P (opt_r r) = re_within P r"
  "re_within P (plus_r r) = re_within P r"
  by (induction rs rule: seq_r.induct) (auto simp: opt_r_def plus_r_def)

lemma re_within_upto: "re_within P r \<Longrightarrow> re_within P (upto_r n r)"
  by (induction n) auto

lemma re_within_rep: "re_within P r \<Longrightarrow> re_within P (rep_r i n r)"
  by (induction i n r rule: rep_r.induct) (auto intro: re_within_upto)

lemma runs_seq_end: "m' \<in> set (runs (seq_r (rs @ [REnd])) m) \<Longrightarrow> ahead m' = []"
proof (induction rs arbitrary: m)
  case (Cons r rs)
  then show ?case by (cases "rs @ [REnd]") auto
qed (auto split: if_splits)

lemma match_at_runs: "match_at r s i = Some x \<Longrightarrow> \<exists>m. m \<in> set (runs r (at_point s i))"
  by (auto simp: match_at_def split: list.splits)

lemma exec_from_runs: "exec_from r s i n = Some x \<Longrightarrow> \<exists>j m. m \<in> set (runs r (at_point s j))"
  by (induction r s i n rule: exec_from.induct) (auto split: option.splits dest!: match_at_runs)

lemma test_anchored:
  assumes "test (seq_r (RStart # rs @ [REnd])) s" and "list_all (re_within P) rs"
  shows "list_all P s"
proof -
  let ?r = "seq_r (RStart # rs @ [REnd])"
  obtain r' where r': "?r = RSeq RStart r'" "r' = seq_r (rs @ [REnd])" by (cases "rs @ [REnd]") auto
  from assms(1) obtain i m where m: "m \<in> set (runs ?r (at_point s i))"
    by (auto simp: test_def exec_def dest: exec_from_runs split: if_splits)
  then have behind: "behind (at_point s i) = []" and m': "m \<in> set (runs r' (at_point s i))"
    by (auto simp: r'(1) split: if_splits)
  have "eats P (at_point s i) m" using assms(2) m' r'(2) by (intro runs_eats) auto
  moreover have "ahead m = []" using m' r'(2) by (auto dest: runs_seq_end)
  moreover have "ahead (at_point s i) = s" using behind by (auto simp: at_point_def)
  ultimately show ?thesis by (auto simp: eats_def)
qed

end
