(* ===== verification/Toml_Lex.thy ===== *)
theory Toml_Lex imports Regex begin

text \<open>
  The lexical layer of \<open>panel/templates/assets/js/toml.js\<close>: comments, the \<open>=\<close> of a line,
  dotted keys, bracket depth, string values (quoting and unquoting) and the splitting of inline
  arrays and tables. The scanning loops of the source walk an index over the string; here they
  recurse on the remaining text and count the units passed, and the open quote is
  \<open>Some\<close> of its character.
\<close>

abbreviation dq3 :: jstr where "dq3 \<equiv> [c_dq, c_dq, c_dq]"
abbreviation sq3 :: jstr where "sq3 \<equiv> [c_sq, c_sq, c_sq]"

subsection \<open>Multi-line strings\<close>

text \<open>\<open>multilineClose\<close>: the scan from index 3, \<open>d\<close> the three opening units. One or two more
  quotes after the closing delimiter belong to the string.\<close>

definition extra_quotes :: "nat \<Rightarrow> jstr \<Rightarrow> nat" where
  "extra_quotes q s = (case s of c1 # c2 # _ \<Rightarrow> (if c1 = q then (if c2 = q then 2 else 1) else 0)
     | [c1] \<Rightarrow> (if c1 = q then 1 else 0) | [] \<Rightarrow> 0)"

fun close_from :: "jstr \<Rightarrow> jstr \<Rightarrow> nat option" where
  "close_from d [] = None"
| "close_from d (c # s) =
     (if length (c # s) < 3 then None
      else if d = dq3 \<and> c = c_bs then map_option (\<lambda>k. k + 2) (close_from d (drop 1 s))
      else if startsWith (c # s) d then Some (extra_quotes (hd d) (drop 2 s) + 3)
      else map_option Suc (close_from d s))"

definition multilineClose :: "jstr \<Rightarrow> nat option" where
  "multilineClose raw = (if length raw < 3 then None
     else map_option (\<lambda>k. k + 3) (close_from (take 3 raw) (drop 3 raw)))"

subsection \<open>Comments and the equals sign of a line\<close>

definition opens_multiline :: "jstr \<Rightarrow> bool" where
  "opens_multiline s \<longleftrightarrow> startsWith s dq3 \<or> startsWith s sq3"

text \<open>Offset of the \<open>#\<close> that starts the comment, outside strings; \<open>None\<close> when there is none (or
  a multi-line string is left open).\<close>

function comment_pos :: "nat option \<Rightarrow> jstr \<Rightarrow> nat option" where
  "comment_pos q [] = None"
| "comment_pos (Some q) (c # s) =
     (if c = c_bs \<and> q = c_dq then map_option (\<lambda>k. k + 2) (comment_pos (Some q) (drop 1 s))
      else map_option Suc (comment_pos (if c = q then None else Some q) s))"
| "comment_pos None (c # s) =
     (if opens_multiline (c # s) then
        (case multilineClose (c # s) of None \<Rightarrow> None
         | Some e \<Rightarrow> map_option (\<lambda>k. k + e) (comment_pos None (drop (e - 1) s)))
      else if c = c_dq \<or> c = c_sq then map_option Suc (comment_pos (Some c) s)
      else if c = c_hash then Some 0
      else map_option Suc (comment_pos None s))"
  by pat_completeness auto
termination
  by (relation "measure (\<lambda>(q, s). length s)") auto

definition splitComment :: "jstr \<Rightarrow> jstr \<times> jstr" where
  "splitComment v = (case comment_pos None v of
     None \<Rightarrow> (trim v, []) | Some i \<Rightarrow> (trim (take i v), trim (drop i v)))"

definition stripComment :: "jstr \<Rightarrow> jstr" where
  "stripComment v = fst (splitComment v)"

fun key_end :: "nat option \<Rightarrow> jstr \<Rightarrow> nat option" where
  "key_end q [] = None"
| "key_end (Some q) (c # s) =
     (if c = c_bs \<and> q = c_dq then map_option (\<lambda>k. k + 2) (key_end (Some q) (drop 1 s))
      else map_option Suc (key_end (if c = q then None else Some q) s))"
| "key_end None (c # s) =
     (if c = c_dq \<or> c = c_sq then map_option Suc (key_end (Some c) s)
      else if c = c_hash then None
      else if c = c_eq then Some 0
      else map_option Suc (key_end None s))"

text \<open>\<open>None\<close> is the source's -1.\<close>

definition keyEnd :: "jstr \<Rightarrow> nat option" where
  "keyEnd line = key_end None line"

subsection \<open>Dotted keys\<close>

text \<open>The segments of a path, split on the dots outside quotes; \<open>cur\<close> is the segment being read.\<close>

fun key_segs :: "nat option \<Rightarrow> jstr \<Rightarrow> jstr \<Rightarrow> jstr list" where
  "key_segs q cur [] = [cur]"
| "key_segs (Some q) cur (c # s) =
     (if c = c_bs \<and> q = c_dq then key_segs (Some q) (cur @ c # take 1 s) (drop 1 s)
      else key_segs (if c = q then None else Some q) (cur @ [c]) s)"
| "key_segs None cur (c # s) =
     (if c = c_dq \<or> c = c_sq then key_segs (Some c) (cur @ [c]) s
      else if c = c_dot then cur # key_segs None [] s
      else key_segs None (cur @ [c]) s)"

text \<open>\<open>x.replace(/^(["'])([\w-]+)\1$/, '$2')\<close>, with the class of the middle a parameter.\<close>

definition unquote_name :: "(nat \<Rightarrow> bool) \<Rightarrow> jstr \<Rightarrow> jstr" where
  "unquote_name P x = (case x of
     q # y # r \<Rightarrow> (if is_quote q \<and> r \<noteq> [] \<and> last r = q \<and> list_all P (y # butlast r) then y # butlast r else x)
   | _ \<Rightarrow> x)"

definition keyPath :: "jstr \<Rightarrow> jstr" where
  "keyPath s = join [c_dot] (map (\<lambda>x. unquote_name (\<lambda>c. is_word c \<or> c = c_dash) (trim x)) (key_segs None [] s))"

text \<open>\<open>code.replace(/^\[\[?|\]\]?$/g, '')\<close>: up to two brackets at each end. On a text that is all
  brackets the first alternative takes its part before the second one is tried.\<close>

definition strip_brackets :: "jstr \<Rightarrow> jstr" where
  "strip_brackets s =
     (let a = (if startsWith s [c_lb, c_lb] then drop 2 s else if startsWith s [c_lb] then drop 1 s else s)
      in if endsWith a [c_rb, c_rb] then take (length a - 2) a
         else if endsWith a [c_rb] then take (length a - 1) a else a)"

datatype kind = Proxies | Visitors

definition kind_name :: "kind \<Rightarrow> jstr" where
  "kind_name k = (case k of Proxies \<Rightarrow> lit ''proxies'' | Visitors \<Rightarrow> lit ''visitors'')"

definition kind_of :: "jstr \<Rightarrow> kind option" where
  "kind_of name = (if name = lit ''proxies'' then Some Proxies
     else if name = lit ''visitors'' then Some Visitors else None)"

definition blockKind :: "jstr \<Rightarrow> kind option" where
  "blockKind line =
     (let code = fst (splitComment (trim line))
      in if \<not> startsWith code [c_lb, c_lb] \<or> \<not> endsWith code [c_rb, c_rb] then None
         else kind_of (keyPath (slice code 2 (length code - 2))))"

text \<open>\<open>/^(?:proxies|visitors)\./\<close>, and the rest of the name after it (\<open>/^(?:proxies|visitors)\.(.+)$/\<close>
  captures the same rest when it is not empty and has no line break).\<close>

definition sub_of_block :: "jstr \<Rightarrow> jstr option" where
  "sub_of_block name = (if startsWith name (lit ''proxies.'') then Some (drop 8 name)
     else if startsWith name (lit ''visitors.'') then Some (drop 9 name) else None)"

definition isBlockSub :: "jstr \<Rightarrow> bool" where
  "isBlockSub line =
     (let code = fst (splitComment (trim line))
      in startsWith code [c_lb] \<and> sub_of_block (keyPath (strip_brackets code)) \<noteq> None)"

subsection \<open>Depth of brackets\<close>

fun bracket_depth :: "nat option \<Rightarrow> jstr \<Rightarrow> int" where
  "bracket_depth q [] = 0"
| "bracket_depth (Some q) (c # s) =
     (if c = c_bs \<and> q = c_dq then bracket_depth (Some q) (drop 1 s)
      else bracket_depth (if c = q then None else Some q) s)"
| "bracket_depth None (c # s) =
     (if c = c_dq \<or> c = c_sq then bracket_depth (Some c) s
      else if c = c_lb then bracket_depth None s + 1
      else if c = c_rb then bracket_depth None s - 1
      else bracket_depth None s)"

definition bracketDepth :: "jstr \<Rightarrow> int" where
  "bracketDepth s = bracket_depth None s"

fun open_depth :: "nat option \<Rightarrow> jstr \<Rightarrow> int" where
  "open_depth q [] = 0"
| "open_depth (Some q) (c # s) =
     (if c = c_bs \<and> q = c_dq then open_depth (Some q) (drop 1 s)
      else open_depth (if c = q then None else Some q) s)"
| "open_depth None (c # s) =
     (if c = c_dq \<or> c = c_sq then open_depth (Some c) s
      else if c = c_hash then 0
      else if c = c_lb \<or> c = c_lc then open_depth None s + 1
      else if c = c_rb \<or> c = c_rc then open_depth None s - 1
      else open_depth None s)"

definition openDepth :: "jstr \<Rightarrow> int" where
  "openDepth s = open_depth None s"

text \<open>\<open>scan_end\<close>: offset just after the bracket that closes the one read first. A comment is
  skipped with its line break; depth may go below zero, as in the source.\<close>

definition drop_line :: "jstr \<Rightarrow> nat" where
  "drop_line s = length (takeWhile (\<lambda>c. c \<noteq> c_nl) s)"

fun scan_end :: "int \<Rightarrow> nat option \<Rightarrow> jstr \<Rightarrow> nat option" where
  "scan_end dp q [] = None"
| "scan_end dp (Some q) (c # s) =
     (if c = c_bs \<and> q = c_dq then map_option (\<lambda>k. k + 2) (scan_end dp (Some q) (drop 1 s))
      else map_option Suc (scan_end dp (if c = q then None else Some q) s))"
| "scan_end dp None (c # s) =
     (if c = c_dq \<or> c = c_sq then map_option Suc (scan_end dp (Some c) s)
      else if c = c_hash then
        map_option (\<lambda>k. k + (drop_line s + 2)) (scan_end dp None (drop (drop_line s + 1) s))
      else if c = c_lb \<or> c = c_lc then map_option Suc (scan_end (dp + 1) None s)
      else if c = c_rb \<or> c = c_rc then
        (if dp - 1 = 0 then Some 1 else map_option Suc (scan_end (dp - 1) None s))
      else map_option Suc (scan_end dp None s))"

definition scanEnd :: "jstr \<Rightarrow> nat \<Rightarrow> nat option" where
  "scanEnd s start = map_option (\<lambda>k. start + k) (scan_end 0 None (drop start s))"

end
