(* ===== verification/Toml_Strings.thy ===== *)
theory Toml_Strings imports Toml_Lex begin

text \<open>
  String values of \<open>toml.js\<close>: reading (\<open>unescapeBasic\<close>, \<open>multilineValue\<close>, \<open>unquote\<close>) and
  writing (\<open>str\<close>), the comments put back around generated lines (\<open>annotate\<close>), and the splitting of
  inline values (\<open>splitTop\<close>, \<open>inlineLines\<close>).

  \<open>String.fromCodePoint\<close> raises a \<open>RangeError\<close> above U+10FFFF: reading \<open>\UFFFFFFFF\<close> raises, and
  every function that reads a string value returns an option whose \<open>None\<close> is that exception.
\<close>

subsection \<open>Reading a string value\<close>

definition hex_val :: "nat \<Rightarrow> nat" where
  "hex_val c = (if is_digit c then c - 48 else if c \<le> 70 then c - 55 else c - 87)"

text \<open>\<open>parseInt(s, 16)\<close> on hexadecimal digits.\<close>

definition parseHex :: "jstr \<Rightarrow> nat" where
  "parseHex s = foldl (\<lambda>n c. 16 * n + hex_val c) 0 s"

definition fromCodePoint :: "nat \<Rightarrow> jstr option" where
  "fromCodePoint n = (if n \<le> 65535 then Some [n]
     else if n \<le> 1114111 then Some [55296 + (n - 65536) div 1024, 56320 + (n - 65536) mod 1024]
     else None)"

definition hex_run :: "nat \<Rightarrow> jstr \<Rightarrow> bool" where
  "hex_run n s \<longleftrightarrow> n \<le> length s \<and> list_all is_hex (take n s)"

definition simple_escape :: "nat \<Rightarrow> nat option" where
  "simple_escape d = (if d = 98 then Some 8 else if d = 116 then Some 9 else if d = 110 then Some 10
     else if d = 102 then Some 12 else if d = 114 then Some 13
     else if d = c_dq \<or> d = c_bs then Some d else None)"

text \<open>Rest after \<open>[ \t]*\n\s*\<close>, the line continuation of a multi-line string.\<close>

definition continuation :: "jstr \<Rightarrow> jstr option" where
  "continuation s = (case dropWhile is_blank s of
     c # r \<Rightarrow> (if c = c_nl then Some (dropWhile is_ws r) else None) | [] \<Rightarrow> None)"

lemma continuation_shorter: "continuation s = Some r \<Longrightarrow> length r < length s"
proof -
  assume a: "continuation s = Some r"
  then obtain u where u: "dropWhile is_blank s = c_nl # u" and r: "r = dropWhile is_ws u"
    by (auto simp: continuation_def split: list.splits if_splits)
  have "length (c_nl # u) \<le> length s"
    unfolding u [symmetric] by (rule length_dropWhile_le)
  moreover have "length r \<le> length u"
    unfolding r by (rule length_dropWhile_le)
  ultimately show ?thesis by simp
qed

function unescapeBasic :: "jstr \<Rightarrow> jstr option" where
  "unescapeBasic [] = Some []"
| "unescapeBasic (c # s) =
     (if c \<noteq> c_bs then map_option (Cons c) (unescapeBasic s)
      else (case s of [] \<Rightarrow> Some [c]
        | d # t \<Rightarrow>
          (case simple_escape d of Some u \<Rightarrow> map_option (Cons u) (unescapeBasic t)
           | None \<Rightarrow>
             if d = 117 \<and> hex_run 4 t then
               (case fromCodePoint (parseHex (take 4 t)) of None \<Rightarrow> None
                | Some w \<Rightarrow> map_option ((@) w) (unescapeBasic (drop 4 t)))
             else if d = 85 \<and> hex_run 8 t then
               (case fromCodePoint (parseHex (take 8 t)) of None \<Rightarrow> None
                | Some w \<Rightarrow> map_option ((@) w) (unescapeBasic (drop 8 t)))
             else (case continuation s of Some r \<Rightarrow> unescapeBasic r
                   | None \<Rightarrow> map_option (Cons c) (unescapeBasic s)))))"
  by pat_completeness auto
termination
  by (relation "measure length") (auto dest: continuation_shorter)

declare unescapeBasic.simps(2) [simp del]

text \<open>\<open>Some None\<close>: the text is not a multi-line string.\<close>

definition drop_first_nl :: "jstr \<Rightarrow> jstr" where
  "drop_first_nl s = (case s of c # r \<Rightarrow> (if c = c_nl then r else s) | [] \<Rightarrow> s)"

definition multilineValue :: "jstr \<Rightarrow> jstr option option" where
  "multilineValue raw =
     (let d = take 3 raw; body = drop 3 raw
      in if d \<noteq> dq3 \<and> d \<noteq> sq3 then Some None
         else (case close_from d body of None \<Rightarrow> Some None
           | Some k \<Rightarrow> let txt = drop_first_nl (take (k - 3) body)
                      in if d = dq3 then map_option Some (unescapeBasic txt) else Some (Some txt)))"

definition quoted_by :: "nat \<Rightarrow> jstr \<Rightarrow> bool" where
  "quoted_by q raw \<longleftrightarrow> 2 \<le> length raw \<and> startsWith raw [q] \<and> endsWith raw [q]"

definition unquote :: "jstr \<Rightarrow> jstr option" where
  "unquote raw = (case multilineValue raw of None \<Rightarrow> None
     | Some (Some v) \<Rightarrow> Some v
     | Some None \<Rightarrow>
         if quoted_by c_dq raw then unescapeBasic (slice raw 1 (length raw - 1))
         else if quoted_by c_sq raw then Some (slice raw 1 (length raw - 1))
         else Some raw)"

subsection \<open>Writing a string value\<close>

definition hex_digit :: "nat \<Rightarrow> nat" where
  "hex_digit n = (if n < 10 then 48 + n else 87 + n)"

text \<open>\<open>c.charCodeAt(0).toString(16).padStart(4, '0')\<close> for a control character (below 256).\<close>

definition hex4 :: "nat \<Rightarrow> jstr" where
  "hex4 c = [48, 48, hex_digit (c div 16 mod 16), hex_digit (c mod 16)]"

definition esc1 :: "nat \<Rightarrow> jstr" where
  "esc1 c = (if c = c_bs then [c_bs, c_bs] else if c = c_dq then [c_bs, c_dq]
     else if c = 8 then [c_bs, 98] else if c = 9 then [c_bs, 116] else if c = 10 then [c_bs, 110]
     else if c = 12 then [c_bs, 102] else if c = 13 then [c_bs, 114]
     else if is_ctrl c then [c_bs, 117] @ hex4 c else [c])"

text \<open>Offset of the closing \<open>}}\<close> of a template action, with no control character before it.\<close>

fun act_close :: "jstr \<Rightarrow> nat option" where
  "act_close [] = None"
| "act_close (c # s) =
     (if startsWith (c # s) [c_rc, c_rc] then Some 0
      else if is_ctrl c then None else map_option Suc (act_close s))"

definition action_len :: "jstr \<Rightarrow> nat option" where
  "action_len s = (if startsWith s [c_lc, c_lc] then map_option (\<lambda>k. k + 4) (act_close (drop 2 s)) else None)"

function esc_text :: "jstr \<Rightarrow> jstr" where
  "esc_text [] = []"
| "esc_text (c # s) = (case action_len (c # s) of
     Some k \<Rightarrow> take k (c # s) @ esc_text (drop (k - 1) s)
   | None \<Rightarrow> esc1 c @ esc_text s)"
  by pat_completeness auto
termination
  by (relation "measure length") auto

definition str :: "jstr \<Rightarrow> jstr" where
  "str v = c_dq # esc_text v @ [c_dq]"

subsection \<open>Comments around generated lines\<close>

text \<open>A note of a key: the comment lines before it and the comment at the end of its line.\<close>

record knote =
  note_before :: "jstr list"
  note_eol :: jstr

type_synonym notemap = "(jstr \<times> knote) list"

definition head_key :: jstr where
  "head_key = lit ''[[]]''"

definition note_of :: "notemap \<Rightarrow> jstr \<Rightarrow> knote option" where
  "note_of nm line =
     (if line = lit ''[[proxies]]'' \<or> line = lit ''[[visitors]]'' then map_of nm head_key
      else (case keyEnd line of
          Some e \<Rightarrow> if 0 < e \<and> \<not> startsWith line [c_lc] \<and> \<not> startsWith line [c_lb]
                   then map_of nm (trim (take e line)) else None
        | None \<Rightarrow> None))"

definition annotate_line :: "notemap \<Rightarrow> jstr \<Rightarrow> jstr list" where
  "annotate_line nm line = (case note_of nm line of None \<Rightarrow> [line]
     | Some n \<Rightarrow> note_before n @ [if note_eol n = [] then line else line @ [c_sp] @ note_eol n])"

definition annotate :: "jstr list \<Rightarrow> notemap \<Rightarrow> jstr list" where
  "annotate ls nm = concat (map (annotate_line nm) ls)"

subsection \<open>Splitting inline values\<close>

fun split_top :: "int \<Rightarrow> nat option \<Rightarrow> jstr \<Rightarrow> jstr list \<Rightarrow> jstr \<Rightarrow> (jstr \<times> jstr list) list" where
  "split_top dp q cur ns [] = [(trim cur, ns)]"
| "split_top dp (Some q) cur ns (c # s) =
     (if c = c_bs \<and> q = c_dq then split_top dp (Some q) (cur @ c # take 1 s) ns (drop 1 s)
      else split_top dp (if c = q then None else Some q) (cur @ [c]) ns s)"
| "split_top dp None cur ns (c # s) =
     (if c = c_dq \<or> c = c_sq then split_top dp (Some c) (cur @ [c]) ns s
      else if c = c_hash then
        split_top dp None cur (ns @ [trim (c # take (drop_line s) s)]) (drop (drop_line s + 1) s)
      else if c = c_lb \<or> c = c_lc then split_top (dp + 1) None (cur @ [c]) ns s
      else if c = c_rb \<or> c = c_rc then split_top (dp - 1) None (cur @ [c]) ns s
      else if c = c_comma \<and> dp = 0 then (trim cur, ns) # split_top dp None [] [] s
      else split_top dp None (cur @ [c]) ns s)"

definition splitTop :: "jstr \<Rightarrow> (jstr \<times> jstr list) list" where
  "splitTop s = filter (\<lambda>(t, ns). t \<noteq> [] \<or> ns \<noteq> []) (split_top 0 None [] [] s)"

text \<open>\<open>key.replace(/^(["'])(.*)\1$/, '$2')\<close>\<close>

definition unquote_key :: "jstr \<Rightarrow> jstr" where
  "unquote_key x = (case x of
     q # r \<Rightarrow> (if is_quote q \<and> r \<noteq> [] \<and> last r = q \<and> list_all (\<lambda>c. \<not> is_lt c) (butlast r) then butlast r else x)
   | [] \<Rightarrow> x)"

text \<open>\<open>val.replace(/\s*\n\s*/g, ' ')\<close>: a run of white space with a line break in it becomes a space.\<close>

function collapse_nl :: "jstr \<Rightarrow> jstr" where
  "collapse_nl [] = []"
| "collapse_nl (c # s) =
     (if is_ws c then
        (if c_nl \<in> set (takeWhile is_ws (c # s)) then [c_sp] else takeWhile is_ws (c # s))
          @ collapse_nl (dropWhile is_ws s)
      else c # collapse_nl s)"
  by pat_completeness auto
termination
  by (relation "measure length") (auto simp: le_imp_less_Suc length_dropWhile_le)

lemma split_top_length:
  "list_all (\<lambda>x. length (fst x) \<le> length cur + length s) (split_top dp q cur nts s)"
proof (induction dp q cur nts s rule: split_top.induct)
  case (1 dp q cur ns)
  then show ?case by simp
next
  case (2 dp q cur ns c s)
  then show ?case by (cases s) (auto elim: list.pred_mono_strong)
next
  case (3 dp cur ns c s)
  have "length (trim cur) \<le> length cur + Suc (length s)"
    using length_trim [of cur] by linarith
  with 3 show ?case by (auto elim!: list.pred_mono_strong)
qed

lemma splitTop_length: "(t, ns) \<in> set (splitTop s) \<Longrightarrow> length t \<le> length s"
  using split_top_length [of "[]" s 0 None "[]"] by (auto simp: splitTop_def list_all_iff)

lemma inline_value_shorter:
  assumes "(part, ns) \<in> set (splitTop body)" and "v = trim (drop (Suc e) part)" and "startsWith v [c_lc]"
  shows "length (slice v (Suc 0) (length v - Suc 0)) < length body"
proof -
  have "length (slice v 1 (length v - 1)) < length v"
    using assms(3) by (intro slice_inner_shorter) auto
  moreover have "length v \<le> length part"
    unfolding assms(2) using length_trim [of "drop (Suc e) part"] by simp
  ultimately show ?thesis
    using splitTop_length [OF assms(1)] by (simp del: length_slice)
qed

text \<open>\<open>inlineLines\<close>: the lines of a table; a nested table gives dotted keys.\<close>

function inlineLines :: "jstr \<Rightarrow> jstr \<Rightarrow> jstr list" where
  "inlineLines body prefix =
     concat (map (\<lambda>(part, _). case keyEnd part of None \<Rightarrow> []
       | Some e \<Rightarrow>
         (let key = unquote_key (trim (take e part)); v = trim (drop (e + 1) part)
          in if startsWith v [c_lc] \<and> endsWith v [c_rc]
             then inlineLines (slice v 1 (length v - 1)) (prefix @ key @ [c_dot])
             else [prefix @ key @ lit '' = '' @ collapse_nl v])) (splitTop body))"
  by pat_completeness auto
termination
  by (relation "measure (\<lambda>(b, p). length b)")
    (auto simp del: length_slice startsWith_single intro!: inline_value_shorter)

declare inlineLines.simps [simp del]

end
