(* ===== verification/Toml_Inline.thy ===== *)
theory Toml_Inline imports Toml_Strings begin

text \<open>
  Inline tables of \<open>toml.js\<close> (\<open>auth = { token = "..." }\<close>): their elements with the positions of key
  and value (\<open>inlineItems\<close>), reading (\<open>inlineValues\<close>) and editing in place (\<open>inlineDrop\<close>,
  \<open>inlineAdd\<close>, \<open>inlineSet\<close>). Positions are indices into the text; \<open>None\<close> is the source's -1 or
  \<open>null\<close>. Where a string value is read, an outer \<open>None\<close> is the exception of \<open>unescapeBasic\<close>.
\<close>

subsection \<open>Elements of an inline table\<close>

fun quote_end :: "nat \<Rightarrow> jstr \<Rightarrow> nat option" where
  "quote_end q [] = None"
| "quote_end q (c # s) =
     (if q = c_dq \<and> c = c_bs then map_option (\<lambda>k. k + 2) (quote_end q (drop 1 s))
      else if c = q then Some 1
      else if c = c_nl then None
      else map_option Suc (quote_end q s))"

definition bare_unit :: "nat \<Rightarrow> bool" where
  "bare_unit c \<longleftrightarrow> c \<noteq> c_comma \<and> c \<noteq> c_rc \<and> c \<noteq> c_hash \<and> c \<noteq> c_nl"

definition upto_close :: "nat \<Rightarrow> nat option \<Rightarrow> nat option" where
  "upto_close close r = (case r of None \<Rightarrow> None | Some e \<Rightarrow> if e > close then None else Some e)"

definition inlineValueEnd :: "jstr \<Rightarrow> nat \<Rightarrow> nat \<Rightarrow> nat option" where
  "inlineValueEnd s vs close =
     (let t = drop vs s in
      if opens_multiline t then upto_close close (map_option ((+) vs) (multilineClose t))
      else case t of
        [] \<Rightarrow> None
      | c # _ \<Rightarrow>
        if is_quote c then map_option ((+) (vs + 1)) (quote_end c (slice s (vs + 1) close))
        else if c = c_lc \<or> c = c_lb then upto_close close (scanEnd s vs)
        else (let n = length (trimEnd (takeWhile bare_unit (slice s vs close)))
              in if n = 0 then None else Some (vs + n)))"

text \<open>Units of a key up to \<open>=\<close> or a unit no key holds; an escape at the very end counts the unit
  after the end, as the index of the source does.\<close>

definition key_stop :: "nat \<Rightarrow> bool" where
  "key_stop d \<longleftrightarrow> d \<in> {c_eq, c_comma, c_hash, c_nl, c_lc, c_rc, c_lb, c_rb}"

fun key_scan :: "nat option \<Rightarrow> jstr \<Rightarrow> nat" where
  "key_scan q [] = 0"
| "key_scan (Some q) (d # s) =
     (if d = c_bs \<and> q = c_dq then 2 + key_scan (Some q) (drop 1 s)
      else Suc (key_scan (if d = q then None else Some q) s))"
| "key_scan None (d # s) =
     (if d = c_dq \<or> d = c_sq then Suc (key_scan (Some d) s)
      else if key_stop d then 0
      else Suc (key_scan None s))"

record item =
  it_key :: jstr
  it_ks :: nat
  it_vs :: nat
  it_ve :: nat

definition unit_at :: "jstr \<Rightarrow> nat \<Rightarrow> nat option" where
  "unit_at s i = (if i < length s then Some (s ! i) else None)"

definition read_item :: "jstr \<Rightarrow> nat \<Rightarrow> nat \<Rightarrow> item option" where
  "read_item s close ks =
     (let i = ks + key_scan None (slice s ks close)
      in if unit_at s i \<noteq> Some c_eq then None
         else (let key = keyPath (slice s ks i);
                   vs = i + 1 + length (takeWhile is_blank (slice s (i + 1) close))
               in case (if vs < close then inlineValueEnd s vs close else None) of
                    None \<Rightarrow> None
                  | Some ve \<Rightarrow> if key = [] then None
                      else Some \<lparr>it_key = key, it_ks = ks, it_vs = vs, it_ve = ve\<rparr>))"

lemma scan_end_pos: "scan_end dp q s = Some k \<Longrightarrow> 0 < k"
  by (induction dp q s arbitrary: k rule: scan_end.induct) (auto split: if_splits)

lemma scanEnd_gt: "scanEnd s i = Some e \<Longrightarrow> i < e"
  by (auto simp: scanEnd_def dest: scan_end_pos)

lemma quote_end_pos: "quote_end q s = Some k \<Longrightarrow> 0 < k"
  by (induction q s arbitrary: k rule: quote_end.induct) (auto split: if_splits)

lemma multilineClose_pos: "multilineClose s = Some k \<Longrightarrow> 0 < k"
  by (auto simp: multilineClose_def split: if_splits)

lemma inlineValueEnd_gt: "inlineValueEnd s vs close = Some ve \<Longrightarrow> vs < ve"
  by (auto simp: inlineValueEnd_def upto_close_def Let_def
      dest: scanEnd_gt quote_end_pos multilineClose_pos split: if_splits option.splits list.splits)

lemma read_item_order:
  assumes "read_item s close ks = Some it"
  shows "it_ks it = ks \<and> ks < it_vs it \<and> it_vs it < it_ve it \<and> it_vs it < close \<and> it_key it \<noteq> []"
  using assms inlineValueEnd_gt
  by (auto simp: read_item_def Let_def split: if_splits option.splits)

function items_from :: "jstr \<Rightarrow> nat \<Rightarrow> nat \<Rightarrow> item list option" where
  "items_from s close i =
     (if i < close then
        (let c = s ! i in
         if is_ws c \<or> c = c_comma then items_from s close (i + 1)
         else if c = c_hash then
           items_from s close (i + 1 + length (takeWhile (\<lambda>x. x \<noteq> c_nl) (slice s (i + 1) close)))
         else (case read_item s close i of
             None \<Rightarrow> None
           | Some it \<Rightarrow> map_option (Cons it) (items_from s close (it_ve it))))
      else Some [])"
  by pat_completeness auto
termination
  by (relation "measure (\<lambda>(s, close, i). close - i)") (auto dest!: read_item_order)

declare items_from.simps [simp del]

definition inlineItems :: "jstr \<Rightarrow> nat \<Rightarrow> (item list \<times> nat) option" where
  "inlineItems s opn = (case scanEnd s opn of None \<Rightarrow> None
     | Some e \<Rightarrow> map_option (\<lambda>its. (its, e - 1)) (items_from s (e - 1) (opn + 1)))"

subsection \<open>Order of the positions\<close>

lemma upto_close_SomeD: "upto_close close r = Some e \<Longrightarrow> r = Some e \<and> e \<le> close"
  by (auto simp: upto_close_def split: option.splits if_splits)

lemma quote_end_le: "quote_end q s = Some k \<Longrightarrow> k \<le> length s"
proof (induction q s arbitrary: k rule: quote_end.induct)
  case (1 q)
  then show ?case by simp
next
  case (2 q c s)
  then show ?case by (cases s) (auto split: if_splits)
qed

lemma inlineValueEnd_le:
  assumes "inlineValueEnd s vs close = Some ve" and "vs < close"
  shows "ve \<le> close"
proof -
  have t: "length (trimEnd (takeWhile bare_unit (slice s vs close))) \<le> close - vs"
    by (rule order_trans [OF length_trimEnd], rule order_trans [OF length_takeWhile_le]) simp
  show ?thesis
    using assms t
    by (auto simp: inlineValueEnd_def Let_def
        dest!: upto_close_SomeD quote_end_le split: if_splits list.splits)
qed

lemma read_item_close: "read_item s close ks = Some it \<Longrightarrow> it_ve it \<le> close"
  by (auto simp: read_item_def Let_def split: if_splits option.splits intro: inlineValueEnd_le)

text \<open>Elements follow one another: each key starts where the value before it has ended.\<close>

fun items_ordered :: "nat \<Rightarrow> nat \<Rightarrow> item list \<Rightarrow> bool" where
  "items_ordered i close [] = True"
| "items_ordered i close (it # its) \<longleftrightarrow>
     i \<le> it_ks it \<and> it_ks it < it_vs it \<and> it_vs it < it_ve it \<and> it_ve it \<le> close
       \<and> it_key it \<noteq> [] \<and> items_ordered (it_ve it) close its"

lemma items_ordered_mono: "items_ordered j close its \<Longrightarrow> i \<le> j \<Longrightarrow> items_ordered i close its"
  by (cases its) auto

lemma items_from_ordered: "items_from s close i = Some its \<Longrightarrow> items_ordered i close its"
proof (induction s close i arbitrary: its rule: items_from.induct)
  case (1 s close i)
  note IH = "1.IH" and eq = "1.prems"
  show ?case
  proof (cases "i < close")
    case False
    with eq show ?thesis by (simp add: items_from.simps)
  next
    case i: True
    let ?c = "s ! i"
    consider "is_ws ?c \<or> ?c = c_comma" | "\<not> (is_ws ?c \<or> ?c = c_comma)" "?c = c_hash"
      | "\<not> (is_ws ?c \<or> ?c = c_comma)" "?c \<noteq> c_hash" by blast
    then show ?thesis
    proof cases
      case 1
      with IH(1) [OF i refl 1] eq i show ?thesis
        by (auto simp: items_from.simps [of s close i] Let_def intro: items_ordered_mono)
    next
      case 2
      with IH(2) [OF i refl 2] eq i show ?thesis
        by (auto simp: items_from.simps [of s close i] Let_def intro: items_ordered_mono)
    next
      case 3
      with eq i obtain it its' where it: "read_item s close i = Some it" and its: "its = it # its'"
        and rest: "items_from s close (it_ve it) = Some its'"
        by (auto simp: items_from.simps [of s close i] Let_def split: option.splits)
      from IH(3) [OF i refl 3 it rest] read_item_order [OF it] read_item_close [OF it] its
      show ?thesis by simp
    qed
  qed
qed

lemma items_ordered_mem:
  "items_ordered i close its \<Longrightarrow> it \<in> set its \<Longrightarrow>
     i \<le> it_ks it \<and> it_ks it < it_vs it \<and> it_vs it < it_ve it \<and> it_ve it \<le> close \<and> it_key it \<noteq> []"
proof (induction its arbitrary: i)
  case Nil
  then show ?case by simp
next
  case (Cons x its)
  then show ?case using items_ordered_mono [of "it_ve x" close its i] by fastforce
qed

subsection \<open>Reading an inline table\<close>

lemma inlineItems_ordered: "inlineItems s opn = Some (its, close) \<Longrightarrow> items_ordered (opn + 1) close its"
  by (auto simp: inlineItems_def split: option.splits dest: items_from_ordered)

lemma scan_end_nonempty: "scan_end dp q (drop i s) = Some k \<Longrightarrow> i < length s"
  by (rule ccontr) simp

lemma scan_end_le: "\<forall>k. scan_end dp q s = Some k \<longrightarrow> k \<le> length s"
proof (induction dp q s rule: scan_end.induct)
  case (1 dp q)
  then show ?case by simp
next
  case (2 dp q c s)
  have "1 < length s" if "scan_end dp (Some q) (drop 1 s) = Some j" for j
    using scan_end_nonempty [OF that] .
  note len = this
  show ?case
  proof (cases "c = c_bs \<and> q = c_dq")
    case True
    have "j + 2 \<le> Suc (length s)" if "scan_end dp (Some q) (drop 1 s) = Some j" for j
      using len [OF that] "2.IH"(1) [OF True, rule_format, OF that] by simp
    with True show ?thesis by auto
  next
    case False
    with "2.IH"(2) [OF False] show ?thesis by auto
  qed
next
  case (3 dp c s)
  have "drop_line s + 1 < length s" if "scan_end dp None (drop (drop_line s + 1) s) = Some j" for j
    using scan_end_nonempty [OF that] by simp
  with 3 show ?case by auto
qed

lemma scanEnd_le: "scanEnd s i = Some e \<Longrightarrow> e \<le> length s"
proof -
  assume "scanEnd s i = Some e"
  then obtain k where k: "scan_end 0 None (drop i s) = Some k" "e = i + k"
    by (auto simp: scanEnd_def)
  from scan_end_le k(1) have "k \<le> length s - i" by (metis length_drop)
  moreover have "i < length s"
    using k(1) by (rule scan_end_nonempty)
  ultimately show ?thesis using k(2) by simp
qed

lemma inlineItems_close: "inlineItems s opn = Some (its, close) \<Longrightarrow> opn \<le> close \<and> close < length s"
  using scanEnd_gt scanEnd_le by (fastforce simp: inlineItems_def split: option.splits)

definition item_value :: "jstr \<Rightarrow> item \<Rightarrow> jstr" where
  "item_value s it = slice s (it_vs it) (it_ve it)"

lemma item_value_shorter:
  assumes "inlineItems s opn = Some (its, close)" and "it \<in> set its"
  shows "length (item_value s it) < length s"
  using items_ordered_mem [OF inlineItems_ordered [OF assms(1)] assms(2)] inlineItems_close [OF assms(1)]
  by (auto simp: item_value_def)

function inlineValues :: "jstr \<Rightarrow> jstr \<Rightarrow> (jstr \<times> jstr) list \<Rightarrow> (jstr \<times> jstr) list option" where
  "inlineValues raw pre into = (case inlineItems raw 0 of
     None \<Rightarrow> Some into
   | Some (its, close) \<Rightarrow>
       foldM (\<lambda>it ob.
         let v = item_value raw it; k = pre @ [c_dot] @ it_key it
         in (case unquote v of None \<Rightarrow> None
           | Some x \<Rightarrow>
               if startsWith v [c_lc] then inlineValues v k (obj_put k x ob) else Some (obj_put k x ob)))
       its into)"
  by pat_completeness auto
termination
  by (relation "measure (\<lambda>(raw, pre, into). length raw)") (auto intro: item_value_shorter)

declare inlineValues.simps [simp del]

subsection \<open>Editing an inline table\<close>

text \<open>Start of the line of position \<open>i\<close>, and the next line break from \<open>i\<close> on.\<close>

definition line_start :: "jstr \<Rightarrow> nat \<Rightarrow> nat" where
  "line_start s i = length (take i s) - length (takeWhile (\<lambda>c. c \<noteq> c_nl) (rev (take i s)))"

definition pos_from :: "nat \<Rightarrow> jstr \<Rightarrow> nat \<Rightarrow> nat option" where
  "pos_from c s i = map_option ((+) i) (indexOf (drop i s) [c])"

definition comma_next :: "jstr \<Rightarrow> bool" where
  "comma_next s \<longleftrightarrow> startsWith (dropWhile is_blank s) [c_comma]"

text \<open>\<open>/^[ \t]*,?[ \t]*(?:#.*)?$/\<close>\<close>

definition tail_only :: "jstr \<Rightarrow> bool" where
  "tail_only s =
     (let r = dropWhile is_blank s;
          u = (if startsWith r [c_comma] then dropWhile is_blank (tl r) else r)
      in case u of [] \<Rightarrow> True | c # w \<Rightarrow> c = c_hash \<and> list_all (\<lambda>x. \<not> is_lt x) w)"

definition cut_out :: "jstr \<Rightarrow> nat \<Rightarrow> nat \<Rightarrow> jstr" where
  "cut_out s i j = take i s @ drop j s"

definition inlineDrop :: "jstr \<Rightarrow> item list \<Rightarrow> nat \<Rightarrow> nat \<Rightarrow> jstr" where
  "inlineDrop s its k close =
     (let it = its ! k;
          nxt = (if k + 1 < length its then Some (its ! (k + 1)) else None);
          ls = line_start s (it_ks it);
          nl = pos_from c_nl s (it_ve it);
          own = comma_next (drop (it_ve it) s);
          alone = (case nl of None \<Rightarrow> False
            | Some n \<Rightarrow> trim (slice s ls (it_ks it)) = []
                \<and> n < (case nxt of Some x \<Rightarrow> it_ks x | None \<Rightarrow> close)
                \<and> tail_only (slice s (it_ve it) n));
          cut = cut_out s ls (the nl + 1)
      in case nxt of
           Some x \<Rightarrow> if alone \<and> own then cut else cut_out s (it_ks it) (it_ks x)
         | None \<Rightarrow>
             if 0 < k then
               (let prev = its ! (k - 1)
                in case pos_from c_comma s (it_ve prev) of
                     None \<Rightarrow> cut_out s (it_ve prev) (it_ve it)
                   | Some sep \<Rightarrow>
                       if sep > it_ks it then cut_out s (it_ve prev) (it_ve it)
                       else if \<not> alone then cut_out s sep (it_ve it)
                       else if own then cut else cut_out cut sep (sep + 1))
             else if alone then cut
             else take (it_ks it) s @
               (let r = drop (it_ve it) s in if comma_next r then tl (dropWhile is_blank r) else r))"

definition inlineAdd :: "jstr \<Rightarrow> nat \<Rightarrow> item list \<Rightarrow> nat \<Rightarrow> jstr \<Rightarrow> jstr" where
  "inlineAdd s opn its close line =
     (if its = [] then
        (if trim (slice s (opn + 1) close) = [] then take (opn + 1) s @ [c_sp] @ line @ [c_sp] @ drop close s
         else (let ls = line_start s close
               in take ls s @ [c_sp, c_sp] @ line @ [c_nl] @ drop ls s))
      else
        (let lst = last its
         in case pos_from c_nl s (it_ve lst) of
              None \<Rightarrow> take (it_ve lst) s @ [c_comma, c_sp] @ line @ drop (it_ve lst) s
            | Some nl \<Rightarrow>
                if nl > close then take (it_ve lst) s @ [c_comma, c_sp] @ line @ drop (it_ve lst) s
                else
                  (let ind = takeWhile is_blank (drop (line_start s (it_ks lst)) s);
                       own = comma_next (drop (it_ve lst) s);
                       out = take (nl + 1) s @ ind @ line @ (if own then [c_comma] else []) @ [c_nl] @ drop (nl + 1) s
                   in if own then out else take (it_ve lst) out @ [c_comma] @ drop (it_ve lst) out)))"

definition inlineEmpty :: "jstr \<Rightarrow> nat \<Rightarrow> bool" where
  "inlineEmpty s opn \<longleftrightarrow> (case inlineItems s opn of None \<Rightarrow> False
     | Some (its, close) \<Rightarrow> its = [] \<and> trim (slice s (opn + 1) close) = [])"

fun findIndex :: "('a \<Rightarrow> bool) \<Rightarrow> 'a list \<Rightarrow> nat option" where
  "findIndex P [] = None"
| "findIndex P (x # xs) = (if P x then Some 0 else map_option Suc (findIndex P xs))"

lemma findIndex_SomeD: "findIndex P xs = Some k \<Longrightarrow> k < length xs \<and> P (xs ! k)"
  by (induction xs arbitrary: k) (auto split: if_splits)

text \<open>\<open>inlineSet\<close>: \<open>Some None\<close> is the \<open>null\<close> of the source (the key cannot be stored there), \<open>raw\<close>
  is \<open>None\<close> where the source passes \<open>undefined\<close> (the key is removed).\<close>

function inlineSet :: "jstr \<Rightarrow> nat \<Rightarrow> jstr \<Rightarrow> jstr option \<Rightarrow> jstr option option" where
  "inlineSet s opn path raw = (case inlineItems s opn of
     None \<Rightarrow> Some None
   | Some (its, close) \<Rightarrow>
       (case findIndex (\<lambda>it. it_key it = path) its of
          Some k \<Rightarrow>
            (case raw of
               None \<Rightarrow> Some (Some (inlineDrop s its k close))
             | Some w \<Rightarrow>
                 (let it = its ! k
                  in case (unquote (item_value s it), unquote w) of
                       (Some a, Some b) \<Rightarrow>
                         Some (Some (if a = b then s else take (it_vs it) s @ w @ drop (it_ve it) s))
                     | _ \<Rightarrow> None))
        | None \<Rightarrow>
            (case findIndex (\<lambda>it. startsWith path (it_key it @ [c_dot])) its of
               Some p \<Rightarrow>
                 (let it = its ! p
                  in if unit_at s (it_vs it) \<noteq> Some c_lc then Some None
                     else
                       (case inlineSet s (it_vs it) (drop (length (it_key it) + 1) path) raw of
                          None \<Rightarrow> None
                        | Some None \<Rightarrow> Some None
                        | Some (Some sub) \<Rightarrow>
                            if sub = s \<or> \<not> inlineEmpty sub (it_vs it) then Some (Some sub)
                            else (case inlineItems sub opn of
                                    None \<Rightarrow> Some None
                                  | Some (us, uclose) \<Rightarrow> Some (Some (inlineDrop sub us p uclose)))))
             | None \<Rightarrow>
                 if list_ex (\<lambda>it. startsWith (it_key it) (path @ [c_dot])) its then Some None
                 else (case raw of None \<Rightarrow> Some (Some s)
                       | Some w \<Rightarrow> Some (Some (inlineAdd s opn its close (path @ lit '' = '' @ w)))))))"
  by pat_completeness auto
termination
  by (relation "measure (\<lambda>(s, opn, path, raw). length path)") (auto dest!: findIndex_SomeD startsWith_snocD)

declare inlineSet.simps [simp del]

end
