(* ===== verification/Toml_Text.thy ===== *)
theory Toml_Text imports Toml_Inline begin

text \<open>
  The text of a configuration file before it is read (\<open>toml.js\<close>): the expressions of the port-range
  template lines and of the block headers, the lines inside multi-line strings, the first block of a
  text (\<open>findBlock\<close>), the inline form of the blocks (\<open>expandInline\<close>) and the normalisation of the
  text (\<open>prep\<close>).
\<close>

subsection \<open>Expressions of the template lines and block headers\<close>

abbreviation ws_star :: re where "ws_star \<equiv> RStar (RCls is_ws)"
abbreviation ws_plus :: re where "ws_plus \<equiv> plus_r (RCls is_ws)"
abbreviation blank_star :: re where "blank_star \<equiv> RStar (RCls is_blank)"
abbreviation in_quotes_r :: "nat \<Rightarrow> re" where
  "in_quotes_r i \<equiv> seq_r [chr_r c_dq, RCap i (RStar (RCls (\<lambda>c. c \<noteq> c_dq))), chr_r c_dq]"

definition RANGE_LINE :: re where
  "RANGE_LINE = seq_r [str_r (lit ''{{''), opt_r (chr_r c_dash), ws_star, str_r (lit ''range''), ws_plus,
     str_r (lit ''$_,''), ws_star, str_r (lit ''$v''), ws_star, str_r (lit '':=''), ws_star,
     RAlt (seq_r [str_r (lit ''parseNumberRangePair''), ws_plus, in_quotes_r 1, ws_plus, in_quotes_r 2])
          (seq_r [str_r (lit ''parseNumberRange''), ws_plus, in_quotes_r 3]),
     ws_star, opt_r (chr_r c_dash), str_r (lit ''}}'')]"

definition RANGE_RE :: re where
  "RANGE_RE = seq_r [RStart, RANGE_LINE, REnd]"

definition END_RE :: re where
  "END_RE = seq_r [RStart, str_r (lit ''{{''), opt_r (chr_r c_dash), ws_star, str_r (lit ''end''), ws_star,
     opt_r (chr_r c_dash), str_r (lit ''}}''), REnd]"

definition LOOP_FIRST :: re where
  "LOOP_FIRST = seq_r [str_r (lit ''{{''), ws_star, str_r (lit ''$v''), opt_r (str_r (lit ''.First'')),
     ws_star, str_r (lit ''}}'')]"

definition LOOP_SECOND :: re where
  "LOOP_SECOND = seq_r [str_r (lit ''{{''), ws_star, str_r (lit ''$v''), opt_r (str_r (lit ''.Second'')),
     ws_star, str_r (lit ''}}'')]"

definition rest_of_line :: re where
  "rest_of_line = seq_r [opt_r (seq_r [chr_r c_hash, RStar (RCls (\<lambda>c. c \<noteq> c_cr \<and> c \<noteq> c_nl))]),
     opt_r (chr_r c_cr), chr_r c_nl]"

definition quote_opt :: re where
  "quote_opt = opt_r (RCls is_quote)"

definition kinds_r :: re where
  "kinds_r = RAlt (str_r (lit ''proxies'')) (str_r (lit ''visitors''))"

definition BLOCK_RE :: re where
  "BLOCK_RE = seq_r [RBol, blank_star,
     opt_r (seq_r [RANGE_LINE, blank_star, rest_of_line, RStar (RSeq blank_star rest_of_line), blank_star]),
     str_r (lit ''[[''), blank_star, RCap 4 quote_opt, RCap 5 kinds_r, RBack 4, blank_star, str_r (lit '']]'')]"

text \<open>\<open>/^[ \t]*["']?(proxies|visitors)["']?[ \t]*=[ \t]*\[/gm\<close>\<close>

definition INLINE_RE :: re where
  "INLINE_RE = seq_r [RBol, blank_star, quote_opt, RCap 1 kinds_r, quote_opt, blank_star, chr_r c_eq,
     blank_star, chr_r c_lb]"

lemma re_min_BLOCK_RE: "0 < re_min BLOCK_RE"
  by (simp add: BLOCK_RE_def kinds_r_def quote_opt_def opt_r_def lit_simps)

lemma re_min_INLINE_RE: "0 < re_min INLINE_RE"
  by (simp add: INLINE_RE_def kinds_r_def quote_opt_def opt_r_def lit_simps)

subsection \<open>Lines inside multi-line strings\<close>

text \<open>The delimiter a value starts with (empty: none), and the one it leaves open on its line.\<close>

definition delim_of :: "jstr \<Rightarrow> jstr" where
  "delim_of v = (if startsWith v dq3 then dq3 else if startsWith v sq3 then sq3 else [])"

definition left_open :: "jstr \<Rightarrow> jstr" where
  "left_open v = (if delim_of v \<noteq> [] \<and> \<not> includesStr (drop 3 v) (delim_of v) then delim_of v else [])"

definition value_after :: "jstr \<Rightarrow> nat \<Rightarrow> jstr" where
  "value_after line e = trim (drop (e + 1) line)"

definition opened_by :: "jstr \<Rightarrow> jstr" where
  "opened_by line = (if startsWith (trimStart line) [c_hash] then []
     else (case keyEnd line of None \<Rightarrow> [] | Some e \<Rightarrow> left_open (value_after line e)))"

fun string_lines :: "jstr \<Rightarrow> nat \<Rightarrow> jstr list \<Rightarrow> nat list" where
  "string_lines d off [] = []"
| "string_lines d off (line # ls) =
     (if d \<noteq> [] then off # string_lines (if includesStr line d then [] else d) (off + length line + 1) ls
      else string_lines (opened_by line) (off + length line + 1) ls)"

definition multilineStringLines :: "jstr \<Rightarrow> nat list" where
  "multilineStringLines s = string_lines [] 0 (split_on c_nl s)"

subsection \<open>The first block\<close>

function find_block_from :: "jstr \<Rightarrow> nat \<Rightarrow> nat option" where
  "find_block_from s i = (case exec BLOCK_RE s i of
     None \<Rightarrow> None
   | Some m \<Rightarrow>
       if m_index m \<in> set (multilineStringLines s) \<or> line_start s (m_end m) \<in> set (multilineStringLines s)
       then find_block_from s (m_index m + 1) else Some (m_index m))"
  by pat_completeness auto
termination
proof (relation "measure (\<lambda>(s, i). Suc (length s) - i)")
  fix s i m
  assume "exec BLOCK_RE s i = Some m"
  from exec_bounds [OF this] re_min_BLOCK_RE
  show "((s, m_index m + 1), (s, i)) \<in> measure (\<lambda>(s, i). Suc (length s) - i)" by auto
qed simp

declare find_block_from.simps [simp del]

definition findBlock :: "jstr \<Rightarrow> nat option" where
  "findBlock s = find_block_from s 0"

subsection \<open>Inline form of the blocks\<close>

text \<open>What one element of \<open>proxies = [ ... ]\<close> becomes.\<close>

definition expand_element :: "jstr \<Rightarrow> jstr \<times> jstr list \<Rightarrow> jstr list" where
  "expand_element name el = (case el of (t, ns) \<Rightarrow>
     if t = [] then [join [c_nl] ns]
     else if \<not> (startsWith t [c_lc] \<and> endsWith t [c_rc]) then []
     else [join [c_nl] ns @ (if ns \<noteq> [] then [c_nl] else []) @ lit ''[['' @ name @ lit '']]'' @ [c_nl]
             @ join [c_nl] (inlineLines (slice t 1 (length t - 1)) [])])"

record expansion =
  x_result :: jstr
  x_extra :: "jstr list"
  x_pos :: nat
  x_found :: bool

function expand_from :: "jstr \<Rightarrow> nat \<Rightarrow> expansion \<Rightarrow> expansion" where
  "expand_from s i x = (case exec INLINE_RE s i of
     None \<Rightarrow> x
   | Some m \<Rightarrow>
       if m_index m \<in> set (multilineStringLines s) then expand_from s (m_end m) x
       else (case scanEnd s (m_end m - 1) of
           None \<Rightarrow> expand_from s (m_end m) x
         | Some e \<Rightarrow>
             expand_from s e
               \<lparr>x_result = x_result x @ slice s (x_pos x) (m_index m),
                x_extra = x_extra x @ concat (map (expand_element (the (m_cap m 1)))
                                              (splitTop (slice s (m_end m) (e - 1)))),
                x_pos = e, x_found = True\<rparr>))"
  by pat_completeness auto
termination
proof (relation "measure (\<lambda>(s, i, x). Suc (length s) - i)")
  fix s i m and x y :: expansion
  assume m: "exec INLINE_RE s i = Some m"
  from exec_bounds [OF m] re_min_INLINE_RE have b: "i < m_end m" "m_end m \<le> length s" by auto
  then show "((s, m_end m, x), (s, i, y)) \<in> measure (\<lambda>(s, i, x). Suc (length s) - i)" by auto
  show "((s, m_end m, x), (s, i, y)) \<in> measure (\<lambda>(s, i, x). Suc (length s) - i)" using b by auto
  fix e assume "scanEnd s (m_end m - 1) = Some e"
  from scanEnd_gt [OF this] scanEnd_le [OF this] b
  show "((s, e, z), (s, i, y)) \<in> measure (\<lambda>(s, i, x). Suc (length s) - i)" for z :: expansion by auto
qed simp

declare expand_from.simps [simp del]

definition expandInline :: "jstr \<Rightarrow> jstr" where
  "expandInline s =
     (let x = expand_from s 0 \<lparr>x_result = [], x_extra = [], x_pos = 0, x_found = False\<rparr>
      in if \<not> x_found x then s
         else (let rest = trimEnd (x_result x @ drop (x_pos x) s) @ [c_nl]
               in if x_extra x = [] then rest
                  else rest @ [c_nl] @ join [c_nl, c_nl] (x_extra x) @ [c_nl]))"

subsection \<open>Normalisation\<close>

definition strip_bom :: "jstr \<Rightarrow> jstr" where
  "strip_bom s = (case s of c # r \<Rightarrow> (if c = 65279 then r else s) | [] \<Rightarrow> s)"

text \<open>\<open>s.replace(/\r(?!\n)/g, '\n')\<close>\<close>

fun lone_cr :: "jstr \<Rightarrow> jstr" where
  "lone_cr [] = []"
| "lone_cr (c # s) = (if c = c_cr \<and> \<not> startsWith s [c_nl] then c_nl else c) # lone_cr s"

definition prep :: "jstr \<Rightarrow> jstr" where
  "prep s = expandInline (lone_cr (strip_bom s))"

end
