(* ===== verification/Toml_Parse.thy ===== *)
theory Toml_Parse imports Toml_Text begin

text \<open>
  The reader of \<open>toml.js\<close>: \<open>parseToml\<close>, the parts of a file (\<open>stripBlocks\<close>,
  \<open>extractBlocks\<close>, \<open>tablesAfterBlocks\<close>) and what belongs to the comments between them
  (\<open>dropTrailingComments\<close>).

  The loop of \<open>parseToml\<close> is a step on a state and the lines left: a step takes the line at hand and
  the lines a multi-line value continues on. The block being read is the last one of the list of its
  kind, which the source mutates through an alias.
\<close>

subsection \<open>Blocks and the state of the reader\<close>

record block =
  b_vals :: "(jstr \<times> jstr) list"
  b_raw :: "(jstr \<times> jstr) list"
  b_order :: "jstr list"
  b_comments :: "jstr list"
  b_notes :: notemap
  b_range :: "(jstr \<times> jstr) option"

record pstate =
  p_vals :: "(jstr \<times> jstr) list"
  p_proxies :: "block list"
  p_visitors :: "block list"
  p_cur :: "kind option"
  p_prefix :: jstr
  p_section :: jstr
  p_range :: "(jstr \<times> jstr) option"
  p_comments :: "jstr list"
  p_seen :: bool
  p_any :: bool

definition init_pstate :: pstate where
  "init_pstate = \<lparr>p_vals = [], p_proxies = [], p_visitors = [], p_cur = None, p_prefix = [],
     p_section = [], p_range = None, p_comments = [], p_seen = False, p_any = False\<rparr>"

definition push_block :: "kind \<Rightarrow> block \<Rightarrow> pstate \<Rightarrow> pstate" where
  "push_block k b st = (case k of
     Proxies \<Rightarrow> st\<lparr>p_proxies := p_proxies st @ [b]\<rparr>
   | Visitors \<Rightarrow> st\<lparr>p_visitors := p_visitors st @ [b]\<rparr>)"

definition change_last :: "('a \<Rightarrow> 'a) \<Rightarrow> 'a list \<Rightarrow> 'a list" where
  "change_last f xs = (if xs = [] then [] else butlast xs @ [f (last xs)])"

definition change_block :: "kind \<Rightarrow> (block \<Rightarrow> block) \<Rightarrow> pstate \<Rightarrow> pstate" where
  "change_block k f st = (case k of
     Proxies \<Rightarrow> st\<lparr>p_proxies := change_last f (p_proxies st)\<rparr>
   | Visitors \<Rightarrow> st\<lparr>p_visitors := change_last f (p_visitors st)\<rparr>)"

subsection \<open>Values over several lines\<close>

fun take_until :: "jstr \<Rightarrow> jstr list \<Rightarrow> jstr list \<times> jstr list" where
  "take_until d [] = ([], [])"
| "take_until d (l # ls) = (if includesStr l d then ([l], ls)
     else (let (a, r) = take_until d ls in (l # a, r)))"

fun take_open :: "int \<Rightarrow> jstr list \<Rightarrow> jstr list \<times> jstr list" where
  "take_open d [] = ([], [])"
| "take_open d (l # ls) = (if d > 0 then (let (a, r) = take_open (d + openDepth l) ls in (l # a, r))
     else ([], l # ls))"

fun take_array :: "jstr list \<Rightarrow> jstr list \<Rightarrow> jstr list \<Rightarrow> jstr list \<times> jstr list \<times> jstr list" where
  "take_array parts inner [] = (parts, inner, [])"
| "take_array parts inner (l # ls) =
     (if bracketDepth (join [c_nl] parts) > 0 then
        (let (more, nt) = splitComment l
         in take_array (if more \<noteq> [] then parts @ [more] else parts)
                       (if nt \<noteq> [] then inner @ [nt] else inner) ls)
      else (parts, inner, l # ls))"

text \<open>What a \<open>key = value\<close> line gives: raw value, comment at the end, comments inside an array, and
  the lines left. \<open>raw_line\<close> is the untrimmed line, \<open>line\<close> the trimmed one, \<open>e\<close> the position of
  its \<open>=\<close>.\<close>

definition read_value :: "bool \<Rightarrow> jstr \<Rightarrow> jstr \<Rightarrow> nat \<Rightarrow> jstr list \<Rightarrow> (jstr \<times> jstr \<times> jstr list) \<times> jstr list" where
  "read_value in_block raw_line line e rest =
     (let (raw0, eol0) = splitComment (drop (e + 1) line);
          rest0 = value_after line e;
          d = left_open rest0
      in if d \<noteq> [] then
           (let lead = length raw_line - length (trimStart raw_line);
                (more, rest1) = take_until d rest
            in ((join [c_nl] (trimStart (drop (lead + e + 1) raw_line) # more), [], []), rest1))
         else if \<not> in_block \<and> startsWith raw0 [c_lc] \<and> openDepth rest0 > 0 then
           (let (more, rest1) = take_open (openDepth rest0) rest
            in ((join [c_nl] (rest0 # more), [], []), rest1))
         else if startsWith raw0 [c_lb] \<and> bracketDepth raw0 > 0 then
           (let (parts, inner, rest1) = take_array [raw0] [] rest
            in if eol0 \<noteq> [] then ((join [c_nl] parts, [], eol0 # inner), rest1)
               else ((join [c_nl] parts, [], inner), rest1))
         else ((raw0, eol0, []), rest))"

subsection \<open>One line\<close>

definition is_comment :: "jstr \<Rightarrow> bool" where
  "is_comment line \<longleftrightarrow> startsWith line [c_hash]"

definition open_block :: "kind \<Rightarrow> jstr \<Rightarrow> pstate \<Rightarrow> pstate" where
  "open_block k head_eol st =
     (push_block k
        \<lparr>b_vals = [], b_raw = [], b_order = [], b_comments = p_comments st,
         b_notes = (if head_eol \<noteq> [] then [(head_key, \<lparr>note_before = [], note_eol = head_eol\<rparr>)] else []),
         b_range = p_range st\<rparr> st)
     \<lparr>p_cur := Some k, p_comments := [], p_seen := True, p_range := None, p_prefix := []\<rparr>"

text \<open>\<open>name.match(/^(?:proxies|visitors)\.(.+)$/)\<close>\<close>

definition sub_table :: "jstr \<Rightarrow> jstr option" where
  "sub_table name = (case sub_of_block name of None \<Rightarrow> None
     | Some r \<Rightarrow> if r \<noteq> [] \<and> list_all (\<lambda>c. \<not> is_lt c) r then Some r else None)"

definition table_line :: "jstr \<Rightarrow> jstr list \<Rightarrow> pstate \<Rightarrow> pstate" where
  "table_line line pending st =
     (let st1 = (if p_cur st \<noteq> None \<and> isBlockSub line then st else st\<lparr>p_any := True\<rparr>);
          name = keyPath (strip_brackets (fst (splitComment line)))
      in case (p_cur st1, sub_table name) of
           (Some k, Some sub) \<Rightarrow>
             (let eol = snd (splitComment line)
              in st1\<lparr>p_prefix := sub @ [c_dot],
                     p_comments := (if eol \<noteq> [] then pending @ [eol] else pending)\<rparr>)
         | _ \<Rightarrow> st1\<lparr>p_cur := None, p_prefix := [], p_section := name\<rparr>)"

definition put_key :: "jstr \<Rightarrow> jstr \<Rightarrow> jstr \<Rightarrow> jstr list \<Rightarrow> jstr \<Rightarrow> block \<Rightarrow> block" where
  "put_key k v raw bef eol b =
     b\<lparr>b_order := (if key_in k (b_raw b) then b_order b else b_order b @ [k]),
       b_vals := obj_put k v (b_vals b),
       b_raw := obj_put k raw (b_raw b),
       b_notes := (if bef \<noteq> [] \<or> eol \<noteq> []
                   then obj_set k \<lparr>note_before = bef, note_eol = eol\<rparr> (b_notes b) else b_notes b)\<rparr>"

definition block_key :: "jstr \<Rightarrow> jstr" where
  "block_key s = unquote_name (\<lambda>c. is_word c \<or> c = c_dot \<or> c = c_dash) (trim s)"

definition value_line :: "jstr \<Rightarrow> jstr \<Rightarrow> nat \<Rightarrow> jstr list \<Rightarrow> jstr list \<Rightarrow> pstate \<Rightarrow> (pstate \<times> jstr list) option" where
  "value_line raw_line line e pending rest st =
     (let ((raw, eol, inner), rest1) = read_value (p_cur st \<noteq> None) raw_line line e rest
      in case unquote raw of None \<Rightarrow> None
         | Some v \<Rightarrow>
           (case p_cur st of
              Some k \<Rightarrow>
                Some (change_block k (put_key (p_prefix st @ block_key (take e line)) v raw (pending @ inner) eol) st, rest1)
            | None \<Rightarrow>
                (let key = keyPath (take e line);
                     full = (if p_section st \<noteq> [] then p_section st @ [c_dot] @ key else key);
                     vals = obj_put full v (p_vals st)
                 in map_option (\<lambda>vs. (st\<lparr>p_any := True, p_vals := vs\<rparr>, rest1))
                      (if startsWith raw [c_lc] then inlineValues raw full vals else Some vals))))"

definition range_of :: "mtch \<Rightarrow> jstr \<times> jstr" where
  "range_of m = (case m_cap m 3 of Some v \<Rightarrow> (v, [])
     | None \<Rightarrow> (case (m_cap m 1, m_cap m 2) of (Some a, Some b) \<Rightarrow> (a, b) | _ \<Rightarrow> ([], [])))"

definition parse_step :: "jstr \<Rightarrow> jstr list \<Rightarrow> pstate \<Rightarrow> (pstate \<times> jstr list) option" where
  "parse_step raw_line rest st0 =
     (let line = trim raw_line;
          st1 = (if is_comment line \<and> (p_seen st0 \<or> p_any st0)
                 then st0\<lparr>p_comments := p_comments st0 @ [line]\<rparr> else st0)
      in if line = [] \<or> is_comment line then Some (st1, rest)
         else
           (let (code, nt) = (if startsWith line (lit ''{{'') then splitComment line else (line, []));
                rm = exec RANGE_RE code 0;
                st2 = (if (rm \<noteq> None \<or> test END_RE code) \<and> nt \<noteq> []
                       then st1\<lparr>p_comments := p_comments st1 @ [nt]\<rparr> else st1)
            in case rm of
                 Some m \<Rightarrow> Some (st2\<lparr>p_range := Some (range_of m)\<rparr>, rest)
               | None \<Rightarrow>
                 if test END_RE code then Some (st2, rest)
                 else (case blockKind line of
                     Some k \<Rightarrow>
                       Some (open_block k (if startsWith line (lit ''[['') then snd (splitComment line) else []) st2, rest)
                   | None \<Rightarrow>
                       (let pending = p_comments st2; st3 = st2\<lparr>p_comments := []\<rparr>
                        in if startsWith line [c_lb] then Some (table_line line pending st3, rest)
                           else (case keyEnd line of
                               None \<Rightarrow> Some (st3, rest)
                             | Some e \<Rightarrow> value_line raw_line line e pending rest st3)))))"

lemma take_until_le: "length (snd (take_until d ls)) \<le> length ls"
  by (induction ls) (auto simp: Let_def split: prod.splits)

lemma take_open_le: "length (snd (take_open d ls)) \<le> length ls"
  by (induction ls arbitrary: d) (auto simp: Let_def split: prod.splits intro: le_SucI dest: spec,
      metis le_SucI snd_conv)

lemma take_array_le: "length (snd (snd (take_array p i ls))) \<le> length ls"
  by (induction ls arbitrary: p i) (auto split: prod.splits intro: le_SucI)

lemma read_value_le: "length (snd (read_value b r l e rest)) \<le> length rest"
  using take_until_le [of "left_open (value_after l e)" rest] take_open_le [of "openDepth (value_after l e)" rest]
    take_array_le [of "[fst (splitComment (drop (e + 1) l))]" "[]" rest]
  by (auto simp: read_value_def Let_def split: prod.splits)

lemma value_line_le:
  assumes "value_line r l e pend rest st = Some (st', rest')"
  shows "length rest' \<le> length rest"
proof -
  have "rest' = snd (read_value (p_cur st \<noteq> None) r l e rest)"
    using assms by (auto simp: value_line_def Let_def split: prod.splits option.splits if_splits)
  then show ?thesis using read_value_le by simp
qed

lemma parse_step_le: "parse_step raw rest st = Some (st', rest') \<Longrightarrow> length rest' \<le> length rest"
  by (auto simp: parse_step_def Let_def dest: value_line_le split: prod.splits option.splits if_splits)

function parse_lines :: "jstr list \<Rightarrow> pstate \<Rightarrow> pstate option" where
  "parse_lines [] st = Some st"
| "parse_lines (l # ls) st = (case parse_step l ls st of None \<Rightarrow> None
     | Some (st', ls') \<Rightarrow> parse_lines ls' st')"
  by pat_completeness auto
termination
  by (relation "measure (\<lambda>(ls, st). length ls)") (auto dest: parse_step_le)

text \<open>\<open>out.trailing\<close> is the list of comments left at the end; \<open>None\<close> is the exception of
  \<open>unescapeBasic\<close>.\<close>

record parsed =
  o_vals :: "(jstr \<times> jstr) list"
  o_proxies :: "block list"
  o_visitors :: "block list"
  o_trailing :: "jstr list"

definition parseToml :: "jstr \<Rightarrow> parsed option" where
  "parseToml s = map_option (\<lambda>st. \<lparr>o_vals = p_vals st, o_proxies = p_proxies st,
       o_visitors = p_visitors st, o_trailing = p_comments st\<rparr>)
     (parse_lines (splitLines (prep s)) init_pstate)"

subsection \<open>Parts of a file\<close>

text \<open>Offsets of the lines of a text (\<open>starts\<close>).\<close>

fun offsets :: "nat \<Rightarrow> jstr list \<Rightarrow> nat list" where
  "offsets off [] = []"
| "offsets off (l # ls) = off # offsets (off + length l + 1) ls"

definition blank_or_comment :: "jstr \<Rightarrow> bool" where
  "blank_or_comment l \<longleftrightarrow> trim l = [] \<or> is_comment (trim l)"

definition crlf :: jstr where
  "crlf = [c_cr, c_nl]"

fun drop_notes :: "nat list \<Rightarrow> (nat \<times> jstr) list \<Rightarrow> (nat \<times> jstr) list" where
  "drop_notes inside [] = []"
| "drop_notes inside ((at, l) # r) =
     (if at \<notin> set inside \<and> blank_or_comment l then drop_notes inside r else (at, l) # r)"

definition dropTrailingComments :: "jstr \<Rightarrow> jstr" where
  "dropTrailingComments base =
     (let ls = splitLines base
      in if \<not> list_ex (\<lambda>l. \<not> blank_or_comment l) ls then base
         else join (if includesStr base crlf then crlf else [c_nl])
                (map snd (rev (drop_notes (multilineStringLines base)
                   (rev (zip (offsets 0 (split_on c_nl base)) ls))))))"

definition stripBlocks :: "jstr \<Rightarrow> jstr" where
  "stripBlocks s0 =
     (let s = prep s0
      in case findBlock s of
           Some i \<Rightarrow> dropTrailingComments (trimEnd (take i s))
         | None \<Rightarrow> trimEnd s)"

definition extractBlocks :: "jstr \<Rightarrow> jstr" where
  "extractBlocks s0 = (let s = prep s0 in case findBlock s of Some i \<Rightarrow> trim (drop i s) | None \<Rightarrow> [])"

subsection \<open>Tables after the blocks\<close>

record tstate =
  t_out :: "jstr list"
  t_seen :: bool
  t_in :: bool
  t_buf :: "jstr list"
  t_above :: "jstr list"
  t_arr :: int
  t_delim :: jstr
  t_pinned :: nat

definition trim_buf :: "bool \<Rightarrow> tstate \<Rightarrow> tstate" where
  "trim_buf with_range st =
     st\<lparr>t_buf := take (t_pinned st) (t_buf st) @
        rev (dropWhile (\<lambda>l. blank_or_comment l \<or> (with_range \<and> test RANGE_RE (fst (splitComment (trim l)))))
               (rev (drop (t_pinned st) (t_buf st))))\<rparr>"

definition flush_buf :: "tstate \<Rightarrow> tstate" where
  "flush_buf st0 = (let st = trim_buf True st0
     in st\<lparr>t_out := (if t_buf st \<noteq> [] then t_out st @ [join [c_nl] (t_buf st)] else t_out st),
           t_buf := [], t_pinned := 0\<rparr>)"

definition note_value :: "jstr \<Rightarrow> tstate \<Rightarrow> tstate" where
  "note_value line st = (case (if startsWith line [c_lb] then None else keyEnd line) of
     None \<Rightarrow> st
   | Some e \<Rightarrow>
       if left_open (value_after line e) \<noteq> [] then st\<lparr>t_delim := left_open (value_after line e)\<rparr>
       else st\<lparr>t_arr := max 0 (bracketDepth (fst (splitComment (drop (e + 1) line))))\<rparr>)"

definition table_step :: "tstate \<Rightarrow> jstr \<Rightarrow> tstate" where
  "table_step st raw =
     (let line = trim raw
      in if t_arr st > 0 then
           st\<lparr>t_arr := max 0 (t_arr st + bracketDepth (fst (splitComment line))),
              t_buf := (if t_in st then t_buf st @ [raw] else t_buf st)\<rparr>
         else if t_delim st \<noteq> [] then
           st\<lparr>t_delim := (if includesStr raw (t_delim st) then [] else t_delim st),
              t_buf := (if t_in st then t_buf st @ [raw] else t_buf st),
              t_pinned := (if t_in st then length (t_buf st) + 1 else t_pinned st)\<rparr>
         else
           (let st1 = note_value line st
            in if blockKind line \<noteq> None then (if t_in st1 then flush_buf st1 else st1)\<lparr>t_in := False, t_seen := True\<rparr>
               else if \<not> t_seen st1 then st1
               else
                 (let st2 = (if startsWith line [c_lb] \<and> \<not> isBlockSub line
                             then st1\<lparr>t_buf := (if t_in st1 then t_buf st1 else t_above st1), t_in := True\<rparr>
                             else st1)
                  in if t_in st2 then st2\<lparr>t_buf := t_buf st2 @ [raw]\<rparr>
                     else if is_comment line then st2\<lparr>t_above := t_above st2 @ [raw]\<rparr>
                     else if line \<noteq> [] then st2\<lparr>t_above := []\<rparr>
                     else st2)))"

definition init_tstate :: tstate where
  "init_tstate = \<lparr>t_out = [], t_seen = False, t_in = False, t_buf = [], t_above = [], t_arr = 0,
     t_delim = [], t_pinned = 0\<rparr>"

definition tablesAfterBlocks :: "jstr \<Rightarrow> jstr" where
  "tablesAfterBlocks s =
     (let st = foldl table_step init_tstate (splitLines (prep s));
          fin = trim_buf False st
      in join [c_nl, c_nl]
           (if t_in st \<and> t_buf fin \<noteq> [] then t_out fin @ [join [c_nl] (t_buf fin)] else t_out st))"

end
