(* ===== verification/Toml_Addr.thy ===== *)
theory Toml_Addr imports Toml_Parse begin

text \<open>
  Addresses, ports and numbers of \<open>toml.js\<close>: \<open>unbracket\<close>, \<open>unbracketConnection\<close>,
  \<open>joinHostPort\<close>, \<open>fixHostPort\<close>, \<open>portSpecCount\<close>, \<open>isPortRange\<close>, \<open>rangeNames\<close>,
  \<open>tunnelNameOk\<close>, \<open>intText\<close>, and the conversions between numbers and text they use.
\<close>

subsection \<open>Numbers and text\<close>

text \<open>Decimal text of a natural number, and the number a text of digits stands for.\<close>

fun digits :: "nat \<Rightarrow> jstr" where
  "digits n = (if n < 10 then [48 + n] else digits (n div 10) @ [48 + n mod 10])"

declare digits.simps [simp del]

definition number :: "jstr \<Rightarrow> nat" where
  "number s = foldl (\<lambda>n c. 10 * n + (c - 48)) 0 s"

text \<open>\<open>Number(s)\<close> for the texts a numeric field holds: white space around, an optional sign and
  decimal digits; the empty text is 0. The other numeric literals of the language (fractions,
  exponents, hexadecimal) count as \<open>NaN\<close> here, and integers are exact.\<close>

datatype jsnum = NaN | Whole int

definition all_digits :: "jstr \<Rightarrow> bool" where
  "all_digits s \<longleftrightarrow> s \<noteq> [] \<and> list_all is_digit s"

definition toNumber :: "jstr \<Rightarrow> jsnum" where
  "toNumber s0 = (let s = trim s0 in
     if s = [] then Whole 0
     else if all_digits s then Whole (int (number s))
     else if hd s = c_dash \<and> all_digits (tl s) then Whole (- int (number (tl s)))
     else if hd s = 43 \<and> all_digits (tl s) then Whole (int (number (tl s)))
     else NaN)"

definition num_text :: "jsnum \<Rightarrow> jstr" where
  "num_text n = (case n of NaN \<Rightarrow> lit ''NaN''
     | Whole i \<Rightarrow> if i < 0 then c_dash # digits (nat (- i)) else digits (nat i))"

definition num_pos :: "jsnum \<Rightarrow> bool" where
  "num_pos n \<longleftrightarrow> (case n of NaN \<Rightarrow> False | Whole i \<Rightarrow> 0 < i)"

text \<open>\<open>Boolean(n)\<close>: neither 0 nor \<open>NaN\<close>.\<close>

definition num_true :: "jsnum \<Rightarrow> bool" where
  "num_true n \<longleftrightarrow> (case n of NaN \<Rightarrow> False | Whole i \<Rightarrow> i \<noteq> 0)"

subsection \<open>Addresses\<close>

text \<open>\<open>/^\[(.*)\]$/\<close> on the trimmed text; \<open>None\<close> is a missing value.\<close>

definition in_brackets :: "jstr \<Rightarrow> jstr option" where
  "in_brackets s = (case s of
     c # r \<Rightarrow> (if c = c_lb \<and> r \<noteq> [] \<and> last r = c_rb \<and> list_all (\<lambda>x. \<not> is_lt x) (butlast r)
              then Some (butlast r) else None)
   | [] \<Rightarrow> None)"

definition unbracket :: "jstr option \<Rightarrow> jstr" where
  "unbracket addr = (case addr of None \<Rightarrow> []
     | Some a \<Rightarrow> (case in_brackets (trim a) of Some x \<Rightarrow> x | None \<Rightarrow> a))"

text \<open>\<open>/^(\s*)([\w.]+)(\s*=\s*)(["'])\[([^\]"']*)\]\4([\s\S]*)$/\<close>\<close>

definition ADDR_LINE :: re where
  "ADDR_LINE = seq_r [RStart, RCap 1 ws_star, RCap 2 (plus_r (RCls (\<lambda>c. is_word c \<or> c = c_dot))),
     RCap 3 (seq_r [ws_star, chr_r c_eq, ws_star]), RCap 4 (RCls is_quote), chr_r c_lb,
     RCap 5 (RStar (RCls (\<lambda>c. c \<noteq> c_rb \<and> \<not> is_quote c))), chr_r c_rb, RBack 4,
     RCap 6 (RStar (RCls (\<lambda>c. True))), REnd]"

text \<open>\<open>/^\[+|\]+.*$/g\<close>\<close>

definition HEAD_BRACKETS :: re where
  "HEAD_BRACKETS = RAlt (RSeq RStart (plus_r (chr_r c_lb)))
     (seq_r [plus_r (chr_r c_rb), RStar (RCls (\<lambda>c. \<not> is_lt c)), REnd])"

definition address_keys :: "jstr list" where
  "address_keys = [lit ''serverAddr'', lit ''dnsServer'', lit ''webServer.addr'']"

definition cap_of :: "mtch \<Rightarrow> nat \<Rightarrow> jstr" where
  "cap_of m i = (case m_cap m i of Some w \<Rightarrow> w | None \<Rightarrow> [])"

definition unbracket_line :: "jstr \<Rightarrow> jstr \<Rightarrow> jstr" where
  "unbracket_line section line = (case exec ADDR_LINE line 0 of None \<Rightarrow> line
     | Some m \<Rightarrow>
       if (if section \<noteq> [] then section @ [c_dot] @ cap_of m 2 else cap_of m 2) \<notin> set address_keys then line
       else cap_of m 1 @ cap_of m 2 @ cap_of m 3 @ cap_of m 4 @ cap_of m 5 @ cap_of m 4 @ cap_of m 6)"

text \<open>The lines with their offsets; \<open>section\<close> is \<open>None\<close> from the first \<open>[[block]]\<close> on.\<close>

fun unbracket_lines :: "nat list \<Rightarrow> jstr option \<Rightarrow> nat \<Rightarrow> jstr list \<Rightarrow> jstr list" where
  "unbracket_lines inside section off [] = []"
| "unbracket_lines inside section off (line # ls) =
     (let next_off = off + length line + 1; head = trim line
      in if off \<in> set inside then line # unbracket_lines inside section next_off ls
         else (case section of
             None \<Rightarrow> line # unbracket_lines inside None next_off ls
           | Some sec \<Rightarrow>
               if startsWith head [c_lb, c_lb] then line # unbracket_lines inside None next_off ls
               else if startsWith head [c_lb] then
                 line # unbracket_lines inside (Some (trim (replaceAll HEAD_BRACKETS (\<lambda>_. []) head))) next_off ls
               else unbracket_line sec line # unbracket_lines inside section next_off ls))"

definition unbracketConnection :: "jstr \<Rightarrow> jstr" where
  "unbracketConnection s = join [c_nl] (unbracket_lines (multilineStringLines s) (Some []) 0 (split_on c_nl s))"

text \<open>The port is the text the template literal prints.\<close>

definition joinHostPort :: "jstr \<Rightarrow> jstr \<Rightarrow> jstr" where
  "joinHostPort host port =
     (if c_colon \<in> set host \<and> \<not> startsWith host [c_lb] then [c_lb] @ host @ [c_rb, c_colon] @ port
      else host @ [c_colon] @ port)"

text \<open>\<open>/^([^[\]]*:[^[\]]*):(\d+)$/\<close>: the digits at the end, the colon before them, and a part before
  it with a colon and no bracket. The port holds no colon, so the split is at the last one.\<close>

definition last_colon :: "jstr \<Rightarrow> (jstr \<times> jstr) option" where
  "last_colon s = (let port = rev (takeWhile (\<lambda>c. c \<noteq> c_colon) (rev s));
                       pre = take (length s - length port) s
                   in if pre = [] then None else Some (butlast pre, port))"

definition fixHostPort :: "jstr \<Rightarrow> jstr" where
  "fixHostPort s = (case last_colon s of None \<Rightarrow> s
     | Some (host, port) \<Rightarrow>
         if all_digits port \<and> c_colon \<in> set host \<and> c_lb \<notin> set host \<and> c_rb \<notin> set host
         then joinHostPort host port else s)"

subsection \<open>Ports\<close>

text \<open>\<open>PORT_SPEC_RE\<close>: parts separated by commas, each \<open>\d{1,5}\<close> or \<open>\d{1,5}-\d{1,5}\<close>.\<close>

definition port_text :: "jstr \<Rightarrow> bool" where
  "port_text s \<longleftrightarrow> all_digits s \<and> length s \<le> 5"

definition port_part :: "jstr \<Rightarrow> bool" where
  "port_part s \<longleftrightarrow> (case split_on c_dash s of [a] \<Rightarrow> port_text a | [a, b] \<Rightarrow> port_text a \<and> port_text b | _ \<Rightarrow> False)"

definition no_ws :: "jstr \<Rightarrow> jstr" where
  "no_ws s = filter (\<lambda>c. \<not> is_ws c) s"

text \<open>\<open>const [a, b = a] = part.split('-').map(Number)\<close>\<close>

definition part_bounds :: "jstr \<Rightarrow> jsnum \<times> jsnum" where
  "part_bounds s = (case split_on c_dash s of [] \<Rightarrow> (NaN, NaN) | [a] \<Rightarrow> (toNumber a, toNumber a)
     | a # b # _ \<Rightarrow> (toNumber a, toNumber b))"

text \<open>The parts have passed \<open>PORT_SPEC_RE\<close> here: their bounds are numbers.\<close>

fun count_parts :: "int \<Rightarrow> jstr list \<Rightarrow> int" where
  "count_parts tot [] = tot"
| "count_parts tot (p # ps) = (case part_bounds p of
     (Whole a, Whole b) \<Rightarrow>
       if a < 1 \<or> b > 65535 \<or> a > b then 0 else count_parts (tot + (b - a + 1)) ps
   | _ \<Rightarrow> 0)"

definition portSpecCount :: "jstr \<Rightarrow> int" where
  "portSpecCount spec = (let parts = split_on c_comma (no_ws spec)
     in if list_all port_part parts then count_parts 0 parts else 0)"

definition isPortRange :: "jstr \<Rightarrow> bool" where
  "isPortRange spec \<longleftrightarrow> c_dash \<in> set spec \<or> c_comma \<in> set spec"

definition MAX_RANGE_PORTS :: nat where "MAX_RANGE_PORTS = 1000"

definition PORT_TOKEN :: jstr where "PORT_TOKEN = lit ''{port}''"

text \<open>The ports of a part: none when a bound is \<open>NaN\<close>. The list of names stops growing at 65535.\<close>

definition part_ports :: "jstr \<Rightarrow> jsnum list" where
  "part_ports s = (case part_bounds s of (Whole a, Whole b) \<Rightarrow> map Whole [a..b] | _ \<Rightarrow> [])"

fun range_names :: "jstr \<Rightarrow> jstr list \<Rightarrow> jstr list \<Rightarrow> jstr list" where
  "range_names base names [] = names"
| "range_names base names (p # ps) = range_names base
     (names @ take (65535 - length names) (map (\<lambda>port. base @ [c_dash] @ num_text port) (part_ports p))) ps"

definition rangeNames :: "jstr \<Rightarrow> jstr \<Rightarrow> jstr list" where
  "rangeNames base spec = range_names base [] (split_on c_comma (no_ws spec))"

text \<open>\<open>[...name].length\<close> counts code points: a high surrogate followed by a low one is one.\<close>

fun code_points :: "jstr \<Rightarrow> nat" where
  "code_points [] = 0"
| "code_points [c] = 1"
| "code_points (c # d # s) =
     (if 55296 \<le> c \<and> c \<le> 56319 \<and> 56320 \<le> d \<and> d \<le> 57343 then Suc (code_points s)
      else Suc (code_points (d # s)))"

text \<open>\<open>/[\s\p{Cc}]/u\<close>: white space or a control character (U+0000..1F, U+007F..9F).\<close>

definition name_unit :: "nat \<Rightarrow> bool" where
  "name_unit c \<longleftrightarrow> \<not> is_ws c \<and> \<not> c \<le> 31 \<and> \<not> (127 \<le> c \<and> c \<le> 159)"

definition tunnelNameOk :: "jstr \<Rightarrow> bool" where
  "tunnelNameOk name \<longleftrightarrow> code_points name \<le> 64 \<and> list_all name_unit name"

text \<open>\<open>/^\d+(?:_\d+)*$/\<close>: the parts between underscores are digits.\<close>

definition intText :: "jstr \<Rightarrow> jstr" where
  "intText t = (if list_all all_digits (split_on 95 t) then filter (\<lambda>c. c \<noteq> 95) t else t)"

definition randomPort :: "nat \<Rightarrow> jstr" where
  "randomPort draw = digits (10000 + draw mod 22768)"

subsection \<open>Lemmas on numbers and parts\<close>

lemma digits_not_Nil [simp]: "digits n \<noteq> []"
  by (subst digits.simps) auto

lemma digits_all: "list_all is_digit (digits n)"
proof (induction n rule: digits.induct)
  case (1 n)
  show ?case
  proof (cases "n < 10")
    case True
    then show ?thesis by (subst digits.simps) (simp add: is_digit_def)
  next
    case False
    moreover have "is_digit (48 + n mod 10)" by (auto simp: is_digit_def)
    ultimately show ?thesis using 1 by (subst digits.simps) simp
  qed
qed

lemma all_digits_digits [simp]: "all_digits (digits n)"
  by (simp add: all_digits_def digits_all)

lemma number_append: "number (s @ [c]) = 10 * number s + (c - 48)"
  by (simp add: number_def)

lemma number_digits [simp]: "number (digits n) = n"
proof (induction n rule: digits.induct)
  case (1 n)
  show ?case
  proof (cases "n < 10")
    case True
    then show ?thesis by (subst digits.simps) (simp add: number_def)
  next
    case False
    with 1 show ?thesis by (subst digits.simps) (simp add: number_append)
  qed
qed

lemma digits_inject [simp]: "digits m = digits n \<longleftrightarrow> m = n"
  by (metis number_digits)

end
