(* ===== verification/Toml_Generate.thy ===== *)
theory Toml_Generate imports Toml_Addr begin

text \<open>
  The configurations \<open>toml.js\<close> writes from the form (\<open>generateServer\<close>, \<open>generateClient\<close>) and the
  keys and raw values read back from them (\<open>generatedRaws\<close>). A form is the object of values of
  \<open>pages/config.js\<close>: cleaned strings, booleans for the switches.
\<close>

subsection \<open>Lines\<close>

text \<open>\<open>`key = ${text}`\<close>, and the same with a string value.\<close>

definition kv :: "string \<Rightarrow> jstr \<Rightarrow> jstr" where
  "kv k v = lit k @ lit '' = '' @ v"

definition kstr :: "string \<Rightarrow> jstr \<Rightarrow> jstr" where
  "kstr k v = kv k (str v)"

definition kaddr :: "string \<Rightarrow> jstr \<Rightarrow> jstr" where
  "kaddr k v = kstr k (unbracket (Some v))"

definition on :: "bool \<Rightarrow> 'a list \<Rightarrow> 'a list" where
  "on b ls = (if b then ls else [])"

definition lines_text :: "jstr list \<Rightarrow> jstr" where
  "lines_text ls = join [c_nl] ls @ [c_nl]"

text \<open>\<open>`# ${name}.toml (em dash) ${generatedBy}`\<close>\<close>

definition file_head :: "jstr \<Rightarrow> jstr \<Rightarrow> jstr" where
  "file_head name by_text = lit ''# '' @ name @ lit ''.toml '' @ [8212, c_sp] @ by_text"

subsection \<open>Server\<close>

record server_form =
  s_bindAddr :: jstr
  s_bindPort :: jstr
  s_proxyBindAddr :: jstr
  s_kcpEnabled :: bool
  s_kcpBindPort :: jstr
  s_quicEnabled :: bool
  s_quicBindPort :: jstr
  s_vhostHttpEnabled :: bool
  s_vhostHTTPPort :: jstr
  s_vhostHttpsEnabled :: bool
  s_vhostHTTPSPort :: jstr
  s_maxPortsPerClient :: jstr
  s_authMethod :: jstr
  s_authToken :: jstr
  s_logTo :: jstr
  s_logLevel :: jstr
  s_logMaxDays :: jstr
  s_webEnabled :: bool
  s_webAddr :: jstr
  s_webPort :: jstr
  s_webUser :: jstr
  s_webPassword :: jstr
  s_tlsEnabled :: bool
  s_tlsCert :: jstr
  s_tlsKey :: jstr
  s_tlsCa :: jstr
  s_tlsForce :: bool
  s_maxPoolCount :: jstr
  s_heartbeatTimeout :: jstr

definition auth_lines :: "jstr \<Rightarrow> jstr \<Rightarrow> jstr list" where
  "auth_lines meth token = [[], lit ''[auth]'', kstr ''method'' meth] @ on (token \<noteq> []) [kstr ''token'' token]"

definition log_lines :: "jstr \<Rightarrow> jstr \<Rightarrow> jstr \<Rightarrow> jstr list" where
  "log_lines to level days = [[], lit ''[log]'', kstr ''to'' to, kstr ''level'' level, kv ''maxDays'' days]"

definition web_lines :: "bool \<Rightarrow> jstr \<Rightarrow> jstr \<Rightarrow> jstr \<Rightarrow> jstr \<Rightarrow> jstr list" where
  "web_lines enabled addr port user pass = on enabled
     ([[], lit ''[webServer]'', kaddr ''addr'' addr, kv ''port'' port]
      @ on (user \<noteq> []) [kstr ''user'' user] @ on (pass \<noteq> []) [kstr ''password'' pass])"

definition generateServer :: "server_form \<Rightarrow> jstr \<Rightarrow> jstr \<Rightarrow> jstr" where
  "generateServer v name by_text =
     (let pool = toNumber (s_maxPoolCount v); hbt = toNumber (s_heartbeatTimeout v)
      in lines_text (
        [file_head name by_text, [], kaddr ''bindAddr'' (s_bindAddr v), kv ''bindPort'' (s_bindPort v)]
        @ on (s_proxyBindAddr v \<noteq> []) [kaddr ''proxyBindAddr'' (s_proxyBindAddr v)]
        @ on (s_kcpEnabled v) [kv ''kcpBindPort'' (s_kcpBindPort v)]
        @ on (s_quicEnabled v) [kv ''quicBindPort'' (s_quicBindPort v)]
        @ on (s_vhostHttpEnabled v) [kv ''vhostHTTPPort'' (s_vhostHTTPPort v)]
        @ on (s_vhostHttpsEnabled v) [kv ''vhostHTTPSPort'' (s_vhostHTTPSPort v)]
        @ on (num_pos (toNumber (s_maxPortsPerClient v))) [kv ''maxPortsPerClient'' (s_maxPortsPerClient v)]
        @ auth_lines (s_authMethod v) (s_authToken v)
        @ log_lines (s_logTo v) (s_logLevel v) (s_logMaxDays v)
        @ web_lines (s_webEnabled v) (s_webAddr v) (s_webPort v) (s_webUser v) (s_webPassword v)
        @ on (s_tlsEnabled v)
            ([[], lit ''[transport.tls]'', kstr ''certFile'' (s_tlsCert v), kstr ''keyFile'' (s_tlsKey v)]
             @ on (s_tlsCa v \<noteq> []) [kstr ''trustedCaFile'' (s_tlsCa v)]
             @ on (s_tlsForce v) [lit ''force = true''])
        @ on (pool \<noteq> Whole 5 \<or> hbt \<noteq> Whole 90)
            [[], lit ''[transport]'', kv ''maxPoolCount'' (num_text pool), kv ''heartbeatTimeout'' (num_text hbt)]))"

subsection \<open>Client\<close>

record client_form =
  c_serverAddr :: jstr
  c_serverPort :: jstr
  c_dnsServer :: jstr
  c_protocol :: jstr
  c_proxyURL :: jstr
  c_poolCount :: jstr
  c_heartbeatInterval :: jstr
  c_authMethod :: jstr
  c_authToken :: jstr
  c_logTo :: jstr
  c_logLevel :: jstr
  c_logMaxDays :: jstr
  c_tlsEnabled :: bool
  c_tlsCert :: jstr
  c_tlsKey :: jstr
  c_tlsCa :: jstr
  c_tlsServerName :: jstr
  c_webEnabled :: bool
  c_webAddr :: jstr
  c_webPort :: jstr
  c_webUser :: jstr
  c_webPassword :: jstr

definition generateClient :: "client_form \<Rightarrow> jstr \<Rightarrow> jstr \<Rightarrow> jstr" where
  "generateClient v name by_text =
     (let pool = toNumber (c_poolCount v); hbi = toNumber (c_heartbeatInterval v); tcp = (c_protocol v = lit ''tcp'')
      in lines_text (
        [file_head name by_text, [], kaddr ''serverAddr'' (c_serverAddr v), kv ''serverPort'' (c_serverPort v)]
        @ on (c_dnsServer v \<noteq> []) [kaddr ''dnsServer'' (c_dnsServer v)]
        @ auth_lines (c_authMethod v) (c_authToken v)
        @ log_lines (c_logTo v) (c_logLevel v) (c_logMaxDays v)
        @ on (\<not> tcp \<or> c_proxyURL v \<noteq> [] \<or> pool \<noteq> Whole 5 \<or> hbi \<noteq> Whole 30 \<or> c_tlsEnabled v)
            ([[], lit ''[transport]'']
             @ on (\<not> tcp) [kstr ''protocol'' (c_protocol v)]
             @ on (c_proxyURL v \<noteq> []) [kstr ''proxyURL'' (c_proxyURL v)]
             @ on (pool \<noteq> Whole 5) [kv ''poolCount'' (num_text pool)]
             @ on (hbi \<noteq> Whole 30) [kv ''heartbeatInterval'' (num_text hbi)])
        @ on (c_tlsEnabled v)
            ([[], lit ''[transport.tls]'', kstr ''certFile'' (c_tlsCert v), kstr ''keyFile'' (c_tlsKey v)]
             @ on (c_tlsCa v \<noteq> []) [kstr ''trustedCaFile'' (c_tlsCa v)]
             @ on (c_tlsServerName v \<noteq> []) [kstr ''serverName'' (c_tlsServerName v)])
        @ web_lines (c_webEnabled v) (c_webAddr v) (c_webPort v) (c_webUser v) (c_webPassword v)))"

subsection \<open>Reading a generated configuration\<close>

definition raws_step :: "jstr \<Rightarrow> jstr \<times> (jstr \<times> jstr) list \<Rightarrow> jstr \<times> (jstr \<times> jstr) list" where
  "raws_step line st = (case st of (section, out) \<Rightarrow>
     let tr = trim line
     in if tr = [] \<or> is_comment tr then (section, out)
        else if startsWith tr [c_lb] then (slice tr 1 (length tr - 1), out)
        else (case keyEnd tr of None \<Rightarrow> (section, out)
          | Some e \<Rightarrow>
              if 0 < e then
                (section, obj_set ((if section \<noteq> [] then section @ [c_dot] else []) @ trim (take e tr))
                            (fst (splitComment (drop (e + 1) tr))) out)
              else (section, out)))"

definition generatedRaws :: "jstr \<Rightarrow> (jstr \<times> jstr) list" where
  "generatedRaws s = snd (fold raws_step (split_on c_nl s) ([], []))"

end
