(* ===== verification/Toml_Scan.thy ===== *)
theory Toml_Scan imports Toml_Generate begin

text \<open>
  The map of a configuration file before a merge (\<open>scanConnection\<close> of \<open>toml.js\<close>): the entries
  \<open>key = value\<close> of the connection part with their lines, the table headers, the first block, the
  depth of template blocks in front of each line and the lines inside a value.
\<close>

subsection \<open>Template actions\<close>

text \<open>\<open>/\{\{-?\s*(if|range|with|block|define|else|end)\b/g\<close>\<close>

definition TPL_ACTION :: re where
  "TPL_ACTION = seq_r [str_r (lit ''{{''), opt_r (chr_r c_dash), ws_star,
     RCap 1 (alt_r (map (\<lambda>w. str_r (lit w)) [''if'', ''range'', ''with'', ''block'', ''define'', ''else'', ''end''])),
     RWordB]"

definition action_delta :: "jstr option \<Rightarrow> int" where
  "action_delta w = (if w = Some (lit ''end'') then -1 else if w \<noteq> Some (lit ''else'') then 1 else 0)"

definition tplDelta :: "jstr \<Rightarrow> int" where
  "tplDelta line = sum_list (map (\<lambda>m. action_delta (m_cap m 1)) (matchAll TPL_ACTION line))"

text \<open>\<open>/^\{\{-?\s*(?:end|else)\b/\<close>\<close>

definition TPL_CLOSING :: re where
  "TPL_CLOSING = seq_r [RStart, str_r (lit ''{{''), opt_r (chr_r c_dash), ws_star,
     RAlt (str_r (lit ''end'')) (str_r (lit ''else'')), RWordB]"

definition tplClosing :: "jstr \<Rightarrow> bool" where
  "tplClosing line = test TPL_CLOSING (trim line)"

subsection \<open>Entries and headers\<close>

record entry =
  e_key :: jstr
  e_table :: jstr
  e_start :: nat
  e_end :: nat
  e_eq :: nat

record header =
  h_name :: jstr
  h_array :: bool
  h_line :: nat

record scan =
  sc_entries :: "entry list"
  sc_headers :: "header list"
  sc_heads :: "nat list"
  sc_first :: "nat option"
  sc_depth :: "nat list"
  sc_body :: "nat list"
  sc_tdepth :: nat
  sc_table :: "jstr option"
  sc_in :: bool

definition init_scan :: scan where
  "init_scan = \<lparr>sc_entries = [], sc_headers = [], sc_heads = [], sc_first = None, sc_depth = [],
     sc_body = [], sc_tdepth = 0, sc_table = Some [], sc_in = False\<rparr>"

text \<open>Lines a value continues on after its own line.\<close>

definition value_extent :: "jstr \<Rightarrow> jstr list \<Rightarrow> nat" where
  "value_extent rest after = (
     if left_open rest \<noteq> [] then length (fst (take_until (left_open rest) after))
     else if delim_of rest = [] then length (fst (take_open (openDepth rest) after))
     else 0)"

text \<open>A header line: \<open>tr\<close> is the trimmed line, \<open>i\<close> its index.\<close>

definition scan_header :: "jstr \<Rightarrow> nat \<Rightarrow> scan \<Rightarrow> scan" where
  "scan_header tr i st =
     (let code = fst (splitComment tr); array = startsWith code [c_lb, c_lb];
          name = keyPath (strip_brackets code); st1 = st\<lparr>sc_heads := sc_heads st @ [i]\<rparr>
      in if array \<and> kind_of name \<noteq> None then
           st1\<lparr>sc_in := True, sc_first := (if sc_first st = None then Some i else sc_first st)\<rparr>
         else if sc_in st \<and> sub_of_block name \<noteq> None then st1
         else st1\<lparr>sc_in := False, sc_table := (if array then None else Some name),
                  sc_headers := sc_headers st @ [\<lparr>h_name = name, h_array = array, h_line = i\<rparr>]\<rparr>)"

definition scan_value :: "jstr \<Rightarrow> nat \<Rightarrow> nat \<Rightarrow> nat \<Rightarrow> scan \<Rightarrow> scan" where
  "scan_value line i e ext st =
     (let st1 = (case (sc_in st, sc_table st) of
          (False, Some table) \<Rightarrow>
            (let k = keyPath (take e line)
             in st\<lparr>sc_entries := sc_entries st @
                   [\<lparr>e_key = (if table \<noteq> [] then table @ [c_dot] @ k else k), e_table = table,
                     e_start = i, e_end = i + ext, e_eq = e\<rparr>]\<rparr>)
        | _ \<Rightarrow> st)
      in st1\<lparr>sc_depth := sc_depth st1 @ replicate ext (sc_tdepth st),
             sc_body := sc_body st1 @ [i + 1..<i + 1 + ext]\<rparr>)"

function scan_from :: "nat \<Rightarrow> jstr list \<Rightarrow> scan \<Rightarrow> scan" where
  "scan_from i [] st = st"
| "scan_from i (line # ls) st0 =
     (let tr = trim line; st = st0\<lparr>sc_depth := sc_depth st0 @ [sc_tdepth st0]\<rparr>
      in if startsWith tr (lit ''{{'') then
           scan_from (i + 1) ls (st\<lparr>sc_tdepth := nat (int (sc_tdepth st) + tplDelta tr)\<rparr>)
         else if tr = [] \<or> is_comment tr then scan_from (i + 1) ls st
         else if startsWith tr [c_lb] then scan_from (i + 1) ls (scan_header tr i st)
         else (case keyEnd line of
             None \<Rightarrow> scan_from (i + 1) ls st
           | Some e \<Rightarrow>
               (let ext = value_extent (value_after line e) ls
                in scan_from (i + 1 + ext) (drop ext ls) (scan_value line i e ext st))))"
  by pat_completeness auto
termination
  by (relation "measure (\<lambda>(i, ls, st). length ls)") auto

declare scan_from.simps(2) [simp del]

definition scanConnection :: "jstr list \<Rightarrow> scan" where
  "scanConnection ls = (let st = scan_from 0 ls init_scan in st\<lparr>sc_depth := sc_depth st @ [sc_tdepth st]\<rparr>)"

end
