(* ===== verification/Toml_Quotes.thy ===== *)
theory Toml_Quotes imports Toml_Scan begin

text \<open>
  The interface every scanning loop of \<open>toml.js\<close> shares: inside a quoted string a backslash of a
  double-quoted string skips the unit after it, the quote that opened the string closes it, any other
  unit is passed. What a client relies on is proved once in the locale and interpreted for the five
  loops (comments, keys, the two bracket depths, the closing bracket).

  On top of it: what \<open>str\<close> writes is one quoted string for each of these loops, has no control
  character, and reads back as the value it was made from.
\<close>

subsection \<open>Bodies of quoted strings\<close>

text \<open>Every backslash has a unit after it, and no quote is left bare.\<close>

fun dq_body :: "jstr \<Rightarrow> bool" where
  "dq_body [] = True"
| "dq_body (c # s) = (if c = c_bs then (case s of [] \<Rightarrow> False | d # t \<Rightarrow> dq_body t) else c \<noteq> c_dq \<and> dq_body s)"

lemma dq_body_append: "dq_body a \<Longrightarrow> dq_body (a @ b) = dq_body b"
proof (induction a rule: dq_body.induct)
  case (2 c s)
  then show ?case by (cases s) (auto split: if_splits)
qed simp

lemma dq_body_plain: "c_bs \<notin> set s \<Longrightarrow> c_dq \<notin> set s \<Longrightarrow> dq_body s"
  by (induction s) auto

subsection \<open>The interface\<close>

locale quote_scan =
  fixes scan :: "nat option \<Rightarrow> jstr \<Rightarrow> 'r"
    and shift :: "nat \<Rightarrow> 'r \<Rightarrow> 'r"
  assumes shift_0: "shift 0 r = r"
    and shift_shift: "shift m (shift n r) = shift (m + n) r"
    and escape: "scan (Some c_dq) (c_bs # d # s) = shift 2 (scan (Some c_dq) s)"
    and close: "q = c_dq \<or> q = c_sq \<Longrightarrow> scan (Some q) (q # s) = shift 1 (scan None s)"
    and pass: "c \<noteq> q \<Longrightarrow> \<not> (c = c_bs \<and> q = c_dq) \<Longrightarrow> scan (Some q) (c # s) = shift 1 (scan (Some q) s)"
begin

lemma scan_body: "dq_body b \<Longrightarrow> scan (Some c_dq) (b @ c_dq # s) = shift (length b + 1) (scan None s)"
proof (induction b rule: dq_body.induct)
  case 1
  then show ?case by (simp add: close)
next
  case (2 c b)
  show ?case
  proof (cases "c = c_bs")
    case True
    with 2 obtain d t where b: "b = d # t" and t: "dq_body t"
      by (auto split: list.splits)
    with 2 True have "scan (Some c_dq) (t @ c_dq # s) = shift (length t + 1) (scan None s)" by simp
    with True b show ?thesis by (simp add: escape shift_shift)
  next
    case False
    with 2 show ?thesis by (simp add: pass shift_shift)
  qed
qed

lemma scan_literal: "c_sq \<notin> set b \<Longrightarrow> scan (Some c_sq) (b @ c_sq # s) = shift (length b + 1) (scan None s)"
  by (induction b) (auto simp: close pass shift_shift)

end

text \<open>The loops that open a string on any quote.\<close>

locale quote_open = quote_scan +
  assumes open_q: "q = c_dq \<or> q = c_sq \<Longrightarrow> scan None (q # s) = shift 1 (scan (Some q) s)"
begin

lemma scan_string: "dq_body b \<Longrightarrow> scan None (c_dq # b @ c_dq # s) = shift (length b + 2) (scan None s)"
  by (simp add: open_q scan_body shift_shift)

lemma scan_literal_string:
  "c_sq \<notin> set b \<Longrightarrow> scan None (c_sq # b @ c_sq # s) = shift (length b + 2) (scan None s)"
  by (simp add: open_q scan_literal shift_shift)

end

subsection \<open>The five loops\<close>

abbreviation (input) shift_pos :: "nat \<Rightarrow> nat option \<Rightarrow> nat option" where
  "shift_pos n \<equiv> map_option (\<lambda>k. k + n)"

lemma shift_pos_0: "shift_pos 0 r = r"
  by (cases r) auto

lemma shift_pos_add: "shift_pos m (shift_pos n r) = shift_pos (m + n) r"
  by (cases r) auto

lemma shift_pos_Suc: "shift_pos 1 r = map_option Suc r"
  by (cases r) auto

lemmas shift_pos_simps = shift_pos_0 shift_pos_add shift_pos_Suc

interpretation cm: quote_scan comment_pos shift_pos
  by unfold_locales (auto simp: shift_pos_simps option.map_ident)

interpretation ke: quote_open key_end shift_pos
  by unfold_locales (auto simp: shift_pos_simps option.map_ident)

interpretation bd: quote_open bracket_depth "\<lambda>n r. r"
  by unfold_locales auto

interpretation od: quote_open open_depth "\<lambda>n r. r"
  by unfold_locales auto

interpretation se: quote_open "scan_end dp" shift_pos for dp
  by unfold_locales (auto simp: shift_pos_simps option.map_ident)

subsection \<open>Template actions in a value\<close>

text \<open>\<open>str\<close> copies a template action as it is: the units of its actions (\<open>{{ .Envs.X }}\<close>) avoid \<open>X\<close>.\<close>

function actions_avoid :: "nat set \<Rightarrow> jstr \<Rightarrow> bool" where
  "actions_avoid X [] = True"
| "actions_avoid X (c # s) = (case action_len (c # s) of
     Some k \<Rightarrow> set (take k (c # s)) \<inter> X = {} \<and> actions_avoid X (drop (k - 1) s)
   | None \<Rightarrow> actions_avoid X s)"
  by pat_completeness auto
termination
  by (relation "measure (\<lambda>(X, s). length s)") auto

lemma action_len_None: "c \<noteq> c_lc \<Longrightarrow> action_len (c # s) = None"
  by (cases s) (auto simp: action_len_def)

lemma actions_avoid_plain: "c_lc \<notin> set v \<Longrightarrow> actions_avoid X v"
  by (induction v) (auto simp: action_len_None)

lemma actions_avoid_mono: "actions_avoid X v \<Longrightarrow> Y \<subseteq> X \<Longrightarrow> actions_avoid Y v"
proof (induction X v rule: actions_avoid.induct)
  case (2 X c s)
  then show ?case by (cases "action_len (c # s)") auto
qed simp

lemma act_close_units: "act_close s = Some k \<Longrightarrow> list_all (\<lambda>c. \<not> is_ctrl c) (take (k + 2) s)"
proof (induction s arbitrary: k)
  case Nil
  then show ?case by simp
next
  case (Cons c s)
  show ?case
  proof (cases "startsWith (c # s) [c_rc, c_rc]")
    case True
    then obtain r where "c # s = [c_rc, c_rc] @ r" by (auto simp: startsWith_iff)
    moreover from Cons.prems True have "k = 0" by simp
    ultimately show ?thesis by (simp add: is_ctrl_def)
  next
    case False
    with Cons show ?thesis by (auto split: if_splits)
  qed
qed

lemma action_units: "action_len s = Some k \<Longrightarrow> list_all (\<lambda>c. \<not> is_ctrl c) (take k s)"
proof -
  assume a: "action_len s = Some k"
  then have "startsWith s [c_lc, c_lc]"
    by (simp add: action_len_def split: if_splits)
  then obtain r where s: "s = [c_lc, c_lc] @ r"
    by (auto simp: startsWith_iff)
  with a obtain j where j: "act_close r = Some j" "k = j + 4"
    by (auto simp: action_len_def)
  from act_close_units [OF j(1)] show ?thesis
    by (simp add: s j(2) is_ctrl_def numeral_eq_Suc)
qed

lemma action_pos: "action_len s = Some k \<Longrightarrow> 0 < k"
  by (auto simp: action_len_def split: if_splits)

subsection \<open>What \<open>str\<close> writes\<close>

lemma hex_digit_cases: "n < 16 \<Longrightarrow> is_hex (hex_digit n) \<and> hex_val (hex_digit n) = n \<and> \<not> is_ctrl (hex_digit n)"
  by (auto simp: hex_digit_def hex_val_def unit_defs)

lemma hex_digit_plain [simp]: "n < 16 \<Longrightarrow> hex_digit n \<noteq> 92 \<and> hex_digit n \<noteq> 34"
  by (auto simp: hex_digit_def)

lemma esc1_body: "dq_body (esc1 c)"
  by (auto simp: esc1_def hex4_def)

lemma esc1_units: "list_all (\<lambda>c. \<not> is_ctrl c) (esc1 c)"
  using hex_digit_cases by (auto simp: esc1_def hex4_def unit_defs)

lemma esc_text_body: "actions_avoid {c_bs, c_dq} v \<Longrightarrow> dq_body (esc_text v)"
proof (induction v rule: esc_text.induct)
  case 1
  then show ?case by simp
next
  case (2 c s)
  show ?case
  proof (cases "action_len (c # s)")
    case None
    with 2 show ?thesis by (simp add: dq_body_append [OF esc1_body])
  next
    case (Some k)
    with 2 have "dq_body (take k (c # s))" by (intro dq_body_plain) auto
    moreover have "dq_body (esc_text (drop (k - 1) s))" using 2 Some by simp
    ultimately show ?thesis using Some by (simp only: esc_text.simps option.case dq_body_append)
  qed
qed

lemma esc_text_units: "list_all (\<lambda>c. \<not> is_ctrl c) (esc_text v)"
proof (induction v rule: esc_text.induct)
  case 1
  then show ?case by simp
next
  case (2 c s)
  show ?case
  proof (cases "action_len (c # s)")
    case None
    with 2 esc1_units [of c] show ?thesis by simp
  next
    case (Some k)
    with 2 action_units [OF Some] show ?thesis
      by (simp only: esc_text.simps option.case list_all_append)
  qed
qed

lemma str_units: "list_all (\<lambda>c. \<not> is_ctrl c) (str v)"
  using esc_text_units [of v] by (simp add: str_def is_ctrl_def)

subsection \<open>Reading it back\<close>

lemma unescape_plain: "c_bs \<notin> set w \<Longrightarrow> unescapeBasic (w @ s) = map_option ((@) w) (unescapeBasic s)"
proof (induction w)
  case Nil
  then show ?case by (simp add: option.map_ident)
next
  case (Cons c w)
  then show ?case by (cases "unescapeBasic s") (simp_all add: unescapeBasic.simps(2))
qed

lemma parseHex_hex4: "c < 256 \<Longrightarrow> parseHex (hex4 c) = c"
  using hex_digit_cases [of "c div 16 mod 16"] hex_digit_cases [of "c mod 16"]
  by (simp add: parseHex_def hex4_def) (simp add: hex_val_def is_digit_def)

lemma hex_run_hex4: "hex_run 4 (hex4 c @ s)"
  using hex_digit_cases [of "c div 16 mod 16"] hex_digit_cases [of "c mod 16"]
  by (simp add: hex_run_def hex4_def) (simp add: unit_defs)

lemma unescape_u4:
  "c < 256 \<Longrightarrow> unescapeBasic (c_bs # 117 # hex4 c @ s) = map_option (Cons c) (unescapeBasic s)"
proof -
  assume c: "c < 256"
  have "take 4 (hex4 c @ s) = hex4 c" "drop 4 (hex4 c @ s) = s" by (simp_all add: hex4_def)
  with c hex_run_hex4 [of c s] parseHex_hex4 [of c] show ?thesis
    by (cases "unescapeBasic s") (simp_all add: unescapeBasic.simps(2) simple_escape_def fromCodePoint_def)
qed

lemma unescape_esc1: "unescapeBasic (esc1 c @ s) = map_option (Cons c) (unescapeBasic s)"
proof -
  consider "c \<in> {c_bs, c_dq, 8, 9, 10, 12, 13}" | "c \<notin> {c_bs, c_dq, 8, 9, 10, 12, 13}" "is_ctrl c"
    | "c \<notin> {c_bs, c_dq, 8, 9, 10, 12, 13}" "\<not> is_ctrl c" by blast
  then show ?thesis
  proof cases
    case 1
    then show ?thesis by (auto simp: esc1_def unescapeBasic.simps(2) simple_escape_def)
  next
    case 2
    then have "esc1 c = c_bs # 117 # hex4 c" "c < 256" by (auto simp: esc1_def is_ctrl_def)
    then show ?thesis by (simp add: unescape_u4)
  next
    case 3
    then show ?thesis by (simp add: esc1_def unescapeBasic.simps(2))
  qed
qed

lemma unescape_esc_text: "actions_avoid {c_bs} v \<Longrightarrow> unescapeBasic (esc_text v) = Some v"
proof (induction v rule: esc_text.induct)
  case 1
  then show ?case by simp
next
  case (2 c s)
  show ?case
  proof (cases "action_len (c # s)")
    case None
    with 2 show ?thesis by (simp add: unescape_esc1)
  next
    case (Some k)
    with 2 have bs: "c_bs \<notin> set (take k (c # s))" and rest: "actions_avoid {c_bs} (drop (k - 1) s)"
      by auto
    have "esc_text (c # s) = take k (c # s) @ esc_text (drop (k - 1) s)" using Some by simp
    moreover have "take k (c # s) @ drop (k - 1) s = c # s"
      using action_pos [OF Some] by (cases k) simp_all
    ultimately show ?thesis
      using 2(2) [OF Some rest] unescape_plain [OF bs] by simp
  qed
qed

lemma esc_text_no_quote: "esc_text v \<noteq> c_dq # r"
proof (cases v)
  case (Cons c s)
  show ?thesis
  proof (cases "action_len (c # s)")
    case None
    then show ?thesis using Cons by (auto simp: esc1_def)
  next
    case (Some k)
    moreover then have "c = c_lc" using action_len_None by fastforce
    ultimately show ?thesis using Cons action_pos [OF Some] by (cases k) auto
  qed
qed simp

lemma str_single: "\<not> opens_multiline (str v)"
  using esc_text_no_quote [of v] by (auto simp: str_def opens_multiline_def startsWith_iff append_eq_Cons_conv)

lemma unquote_str: "actions_avoid {c_bs} v \<Longrightarrow> unquote (str v) = Some v"
proof -
  assume a: "actions_avoid {c_bs} v"
  have "take 3 (str v) \<noteq> dq3 \<and> take 3 (str v) \<noteq> sq3"
    using str_single [of v] append_take_drop_id [of 3 "str v"]
    by (metis opens_multiline_def startsWith_append)
  then have "multilineValue (str v) = Some None" by (simp add: multilineValue_def)
  moreover have "quoted_by c_dq (str v)" by (simp add: quoted_by_def str_def endsWith_def)
  moreover have "slice (str v) 1 (length (str v) - 1) = esc_text v" by (simp add: str_def slice_def)
  ultimately show ?thesis using unescape_esc_text [OF a] by (simp add: unquote_def)
qed

lemma trimEnd_snoc: "\<not> is_ws c \<Longrightarrow> trimEnd (s @ [c]) = s @ [c]"
  by (simp add: trimEnd_def)

lemma trim_snoc: "\<not> is_ws a \<Longrightarrow> \<not> is_ws c \<Longrightarrow> trim (a # s @ [c]) = a # s @ [c]"
  using trimEnd_snoc [of c "a # s"] by (simp add: trim_def trimStart_def)

lemma trim_str [simp]: "trim (str v) = str v"
  unfolding str_def by (rule trim_snoc) (simp_all add: is_ws_def)

lemma comment_pos_str: "actions_avoid {c_bs, c_dq} v \<Longrightarrow> comment_pos None (str v) = None"
  using str_single [of v] cm.scan_body [OF esc_text_body, of v "[]"] by (simp add: str_def)

lemma splitComment_str: "actions_avoid {c_bs, c_dq} v \<Longrightarrow> splitComment (str v) = (str v, [])"
  by (simp add: splitComment_def comment_pos_str)

subsection \<open>Lines of the form \<open>key = value\<close>\<close>

definition plain_key :: "jstr \<Rightarrow> bool" where
  "plain_key k \<longleftrightarrow> k \<noteq> [] \<and> list_all (\<lambda>c. is_word c \<or> c = c_dot \<or> c = c_dash) k"

definition value_text :: "jstr \<Rightarrow> jstr \<Rightarrow> jstr" where
  "value_text k v = k @ [c_sp, c_eq, c_sp] @ v"

lemma key_unit: "is_word c \<or> c = c_dot \<or> c = c_dash \<Longrightarrow>
    c \<noteq> c_dq \<and> c \<noteq> c_sq \<and> c \<noteq> c_hash \<and> c \<noteq> c_eq \<and> c \<noteq> c_lb \<and> c \<noteq> c_lc \<and> \<not> is_ws c"
  by (auto simp: unit_defs)

lemma key_end_plain: "list_all (\<lambda>c. is_word c \<or> c = c_dot \<or> c = c_dash) k \<Longrightarrow>
    key_end None (k @ s) = map_option (\<lambda>n. n + length k) (key_end None s)"
proof (induction k)
  case Nil
  then show ?case by (simp add: option.map_ident)
next
  case (Cons c k)
  then show ?case using key_unit [of c] by (cases "key_end None s") simp_all
qed

lemma keyEnd_value_text: "plain_key k \<Longrightarrow> keyEnd (value_text k v) = Some (length k + 1)"
  by (simp add: keyEnd_def value_text_def plain_key_def key_end_plain)

lemma trimStart_str: "trimStart (str v) = str v"
  by (simp add: trimStart_def str_def is_ws_def)

lemma drop_value_text: "drop (Suc (Suc (length k))) (value_text k v) = c_sp # v"
  by (simp add: value_text_def)

lemma trim_sp: "trim (c_sp # s) = trim s"
  by (simp add: trim_def trimStart_def is_ws_def)

lemma opens_multiline_hd: "opens_multiline (c # s) \<Longrightarrow> c = c_dq \<or> c = c_sq"
  by (auto simp: opens_multiline_def startsWith_iff)

lemma comment_pos_sp: "comment_pos None (c_sp # s) = map_option Suc (comment_pos None s)"
  using opens_multiline_hd [of c_sp s] by auto

lemma splitComment_sp: "splitComment (c_sp # s) = splitComment s"
  by (simp add: splitComment_def comment_pos_sp trim_sp option.case_eq_if option.map_sel del: comment_pos.simps)

lemma bracketDepth_str: "actions_avoid {c_bs, c_dq} v \<Longrightarrow> bracketDepth (str v) = 0"
  using bd.scan_string [OF esc_text_body, of v "[]"] by (simp add: bracketDepth_def str_def)

lemma openDepth_str: "actions_avoid {c_bs, c_dq} v \<Longrightarrow> openDepth (str v) = 0"
  using od.scan_string [OF esc_text_body, of v "[]"] by (simp add: openDepth_def str_def)

lemma left_open_str [simp]: "left_open (str v) = []"
  using str_single [of v] by (auto simp: left_open_def delim_of_def opens_multiline_def)

lemma comment_pos_str_note: "actions_avoid {c_bs, c_dq} v \<Longrightarrow>
    comment_pos None (str v @ c_sp # c_hash # s) = Some (length (str v) + 1)"
  using cm.scan_body [OF esc_text_body, of v "c_sp # c_hash # s"] str_single [of v]
  by (cases "esc_text v") (auto simp: str_def opens_multiline_def startsWith_iff append_eq_Cons_conv
      Cons_eq_append_conv)

lemma trim_str_sp: "trim (str v @ [c_sp]) = str v"
proof -
  have "trimEnd (s @ [c_dq, c_sp]) = s @ [c_dq]" for s by (simp add: trimEnd_def is_ws_def)
  from this [of "c_dq # esc_text v"] show ?thesis
    by (simp add: trim_def str_def trimStart_def is_ws_def)
qed

lemma splitComment_str_note: "actions_avoid {c_bs, c_dq} v \<Longrightarrow>
    splitComment (str v @ c_sp # c_hash # s) = (str v, trim (c_hash # s))"
  by (simp add: splitComment_def comment_pos_str_note trim_str_sp)

subsection \<open>Properties\<close>

text \<open>C3. A value written by \<open>str\<close> after a plain key is read back from its line: \<open>keyEnd\<close> finds the
  \<open>=\<close> the line was written with, \<open>splitComment\<close> cuts nothing from the value, and \<open>unquote\<close>
  gives the value, whatever quotes, backslashes, \<open>#\<close>, line breaks and control characters it holds.
  The one condition is that its template actions hold neither a backslash nor a double quote.\<close>

theorem written_line_reads_back:
  assumes "plain_key k" and "actions_avoid {c_bs, c_dq} v"
  shows "keyEnd (value_text k (str v)) = Some (length k + 1)
    \<and> splitComment (drop (length k + 2) (value_text k (str v))) = (str v, [])
    \<and> unquote (str v) = Some v"
  using assms keyEnd_value_text splitComment_str splitComment_sp unquote_str actions_avoid_mono [of _ v "{c_bs}"]
  by (simp add: drop_value_text numeral_2_eq_2)

definition tricky_value :: jstr where
  "tricky_value = [c_dq, c_hash, c_bs, c_nl, 7, c_sp, c_eq, c_lb] @ lit ''{{ .Envs.TOKEN }}''"

lemma tricky_avoids: "actions_avoid {c_bs, c_dq} tricky_value"
  by (simp add: tricky_value_def lit_simps action_len_def is_ctrl_def)

theorem written_line_reads_back_witness:
  "keyEnd (value_text (lit ''auth.token'') (str tricky_value)) = Some 11
    \<and> splitComment (drop 12 (value_text (lit ''auth.token'') (str tricky_value))) = (str tricky_value, [])
    \<and> unquote (str tricky_value) = Some tricky_value"
proof -
  have "plain_key (lit ''auth.token'')" by (simp add: plain_key_def lit_simps unit_defs)
  from written_line_reads_back [OF this tricky_avoids] show ?thesis by (simp add: numeral_eq_Suc)
qed

text \<open>What \<open>str\<close> writes holds no control character: it never breaks a line, whatever the value.\<close>

theorem str_one_line: "list_all (\<lambda>c. \<not> is_ctrl c) (str v) \<and> splitLines (str v) = [str v]"
proof -
  have "splitLines s = [s]" if "list_all (\<lambda>c. \<not> is_ctrl c) s" for s
    using that by (induction s rule: splitLines.induct) (auto simp: is_ctrl_def)
  then show ?thesis using str_units by blast
qed

text \<open>The comment written after a quoted value is cut off where it starts and the value keeps all its
  units, \<open>#\<close> included.\<close>

theorem note_after_string:
  assumes "actions_avoid {c_bs, c_dq} v"
  shows "splitComment (str v @ c_sp # c_hash # s) = (str v, trim (c_hash # s))"
  using assms by (rule splitComment_str_note)

theorem note_after_string_witness:
  "splitComment (str tricky_value @ c_sp # c_hash # lit '' c'') = (str tricky_value, [c_hash, c_sp, 99])"
  using note_after_string [OF tricky_avoids, of "lit '' c''"]
  by (simp add: lit_simps trim_def trimStart_def trimEnd_def is_ws_def)

text \<open>The brackets and braces inside a quoted value never count: the depths of \<open>bracketDepth\<close> and
  \<open>openDepth\<close> are those of the rest of the line, and \<open>scanEnd\<close> passes over the value whole.\<close>

theorem string_brackets_hidden:
  assumes "actions_avoid {c_bs, c_dq} v"
  shows "bracketDepth (str v @ s) = bracketDepth s \<and> openDepth (str v @ s) = openDepth s
    \<and> scan_end d None (str v @ s) = map_option (\<lambda>k. k + length (str v)) (scan_end d None s)"
  using assms esc_text_body [of v] bd.scan_string [of "esc_text v" s] od.scan_string [of "esc_text v" s]
    se.scan_string [of "esc_text v" d s]
  by (simp add: bracketDepth_def openDepth_def str_def)

theorem string_brackets_hidden_witness:
  "bracketDepth (str tricky_value @ [c_rb]) = -1 \<and> openDepth (str tricky_value @ [c_rc]) = -1"
  using string_brackets_hidden [OF tricky_avoids, of "[c_rb]" 0] string_brackets_hidden [OF tricky_avoids, of "[c_rc]" 0]
  by (simp add: bracketDepth_def openDepth_def)

end
