(* ===== verification/Toml_Merge.thy ===== *)
theory Toml_Merge imports Toml_Scan begin

text \<open>
  \<open>mergeConnection\<close> of \<open>toml.js\<close>: the keys a form changed, written into the text of an existing file.
  The state of the merge is explicit: the lines dropped, the lines replaced, the lines added in front
  of a line, the inline tables edited, the tables to add. Raised errors are values: \<open>Raised\<close> is the
  exception of a string value that cannot be read, \<open>Refused\<close> the error that carries the keys an
  inline value cannot hold.
\<close>

subsection \<open>Values of an entry\<close>

definition entryValue :: "jstr \<Rightarrow> nat \<Rightarrow> jstr \<times> jstr" where
  "entryValue s e = (let rest = value_after s e
     in if opens_multiline rest then
          (case multilineClose rest of
             Some close \<Rightarrow> (take close rest, snd (splitComment (drop close rest)))
           | None \<Rightarrow> splitComment rest)
        else splitComment rest)"

definition inlineOpen :: "jstr \<Rightarrow> nat \<Rightarrow> nat option" where
  "inlineOpen s e = (let r = drop (e + 1) s; i = e + 1 + length (takeWhile is_ws r)
     in if startsWith (dropWhile is_ws r) [c_lc] then Some i else None)"

fun shared_segs :: "jstr list \<Rightarrow> jstr list \<Rightarrow> nat" where
  "shared_segs (x # xs) (y # ys) = (if x = y then Suc (shared_segs xs ys) else 0)"
| "shared_segs _ _ = 0"

definition sharedSegs :: "jstr \<Rightarrow> jstr \<Rightarrow> nat" where
  "sharedSegs a b = shared_segs (split_on c_dot a) (split_on c_dot b)"

subsection \<open>Positions\<close>

definition isNote :: "jstr \<Rightarrow> bool" where
  "isNote l \<longleftrightarrow> is_comment (trim l) \<or> startsWith (trim l) (lit ''{{'')"

text \<open>\<open>passable (q, blank)\<close> looks at line \<open>q - 1\<close>; here \<open>i\<close> is that line.\<close>

definition passable :: "jstr list \<Rightarrow> scan \<Rightarrow> bool \<Rightarrow> nat \<Rightarrow> bool" where
  "passable ls sc blank i \<longleftrightarrow> i \<notin> set (sc_body sc) \<and> (isNote (ls ! i) \<or> (blank \<and> trim (ls ! i) = []))"

fun above :: "jstr list \<Rightarrow> scan \<Rightarrow> nat \<Rightarrow> bool \<Rightarrow> nat \<Rightarrow> nat" where
  "above ls sc base blank 0 = 0"
| "above ls sc base blank (Suc i) =
     (if passable ls sc blank i \<and> \<not> tplClosing (ls ! i) \<and> base \<le> sc_depth sc ! i
      then above ls sc base blank i else Suc i)"

fun leave_blocks :: "scan \<Rightarrow> nat \<Rightarrow> nat \<Rightarrow> nat" where
  "leave_blocks sc base 0 = 0"
| "leave_blocks sc base (Suc i) = (if sc_depth sc ! (Suc i) > base then leave_blocks sc base i else Suc i)"

definition outside :: "jstr list \<Rightarrow> scan \<Rightarrow> nat \<Rightarrow> bool \<Rightarrow> nat \<Rightarrow> nat" where
  "outside ls sc base blank q =
     (if sc_depth sc ! q \<le> base then q else above ls sc base blank (leave_blocks sc base q))"

subsection \<open>State of a merge\<close>

record merge =
  mg_drop :: "nat list"
  mg_put :: "(nat \<times> jstr) list"
  mg_before :: "(nat \<times> jstr list) list"
  mg_inline :: "(entry \<times> jstr) list"
  mg_tables :: "(jstr \<times> jstr list) list"
  mg_refused :: "jstr list"
  mg_root :: "jstr list"
  mg_rootAt :: int

definition init_merge :: merge where
  "init_merge = \<lparr>mg_drop = [], mg_put = [], mg_before = [], mg_inline = [], mg_tables = [],
     mg_refused = [], mg_root = [], mg_rootAt = -1\<rparr>"

definition push_to :: "'k \<Rightarrow> 'v list \<Rightarrow> ('k \<times> 'v list) list \<Rightarrow> ('k \<times> 'v list) list" where
  "push_to k vs m = obj_set k ((case map_of m k of None \<Rightarrow> [] | Some ws \<Rightarrow> ws) @ vs) m"

definition add_before :: "nat \<Rightarrow> jstr list \<Rightarrow> merge \<Rightarrow> merge" where
  "add_before q ls mg = mg\<lparr>mg_before := push_to q ls (mg_before mg)\<rparr>"

definition drop_lines :: "nat \<Rightarrow> nat \<Rightarrow> merge \<Rightarrow> merge" where
  "drop_lines i j mg = mg\<lparr>mg_drop := mg_drop mg @ [i..<Suc j]\<rparr>"

definition replace_entry :: "entry \<Rightarrow> jstr \<Rightarrow> merge \<Rightarrow> merge" where
  "replace_entry e s mg = drop_lines (e_start e + 1) (e_end e) (mg\<lparr>mg_put := obj_set (e_start e) s (mg_put mg)\<rparr>)"

definition entry_text :: "jstr list \<Rightarrow> entry \<Rightarrow> jstr" where
  "entry_text ls e = join [c_nl] (take (e_end e + 1 - e_start e) (drop (e_start e) ls))"

subsection \<open>One key\<close>

text \<open>A key the file has as an entry: its line goes, stays, or gets the new value.\<close>

definition merge_entry :: "jstr list \<Rightarrow> jstr option \<Rightarrow> entry \<Rightarrow> merge \<Rightarrow> merge option" where
  "merge_entry ls raw e mg = (case raw of
     None \<Rightarrow> Some (drop_lines (e_start e) (e_end e) mg)
   | Some w \<Rightarrow>
       (let old = entry_text ls e; (oldRaw, eol) = entryValue old (e_eq e)
        in case (unquote oldRaw, unquote w) of
             (Some a, Some b) \<Rightarrow>
               Some (if a = b then mg
                 else replace_entry e (take (e_eq e + 1) old @ takeWhile is_blank (drop (e_eq e + 1) old) @ w
                        @ (if eol \<noteq> [] then c_sp # eol else [])) mg)
           | _ \<Rightarrow> None))"

text \<open>A key inside the value of the entry \<open>e\<close>.\<close>

definition merge_inline :: "jstr list \<Rightarrow> jstr \<Rightarrow> jstr option \<Rightarrow> entry \<Rightarrow> merge \<Rightarrow> merge option" where
  "merge_inline ls key raw e mg =
     (let cur = (case map_of (mg_inline mg) e of Some s \<Rightarrow> s | None \<Rightarrow> entry_text ls e);
          nxt = (case inlineOpen cur (e_eq e) of None \<Rightarrow> Some None
            | Some opn \<Rightarrow> inlineSet cur opn (drop (length (e_key e) + 1) key) raw)
      in case nxt of
           None \<Rightarrow> None
         | Some (Some s) \<Rightarrow> Some (mg\<lparr>mg_inline := obj_set e s (mg_inline mg)\<rparr>)
         | Some None \<Rightarrow> Some (if raw \<noteq> None then mg\<lparr>mg_refused := mg_refused mg @ [key]\<rparr> else mg))"

text \<open>The longest table that contains the section, the empty text for the root.\<close>

definition home_table :: "header list \<Rightarrow> jstr \<Rightarrow> jstr" where
  "home_table hs sec = fold (\<lambda>h home.
     if \<not> h_array h \<and> (sec = h_name h \<or> startsWith sec (h_name h @ [c_dot])) \<and> length (h_name h) > length home
     then h_name h else home) hs []"

definition best_entry :: "jstr \<Rightarrow> entry list \<Rightarrow> entry option" where
  "best_entry key es = fold (\<lambda>e best. case best of
     None \<Rightarrow> Some e
   | Some b \<Rightarrow> if sharedSegs (e_key e) key \<ge> sharedSegs (e_key b) key then Some e else Some b) es None"

definition dotted_style :: "scan \<Rightarrow> bool" where
  "dotted_style sc \<longleftrightarrow> \<not> list_ex (\<lambda>h. \<not> h_array h) (sc_headers sc) \<and> list_ex (\<lambda>e. c_dot \<in> set (e_key e)) (sc_entries sc)"

definition home_line :: "scan \<Rightarrow> jstr \<Rightarrow> nat" where
  "home_line sc home = (case find (\<lambda>h. h_name h = home \<and> \<not> h_array h) (sc_headers sc) of
     Some h \<Rightarrow> h_line h | None \<Rightarrow> 0)"

text \<open>A key the file does not have, with its raw value.\<close>

definition merge_new :: "jstr list \<Rightarrow> scan \<Rightarrow> jstr \<Rightarrow> jstr \<Rightarrow> merge \<Rightarrow> merge" where
  "merge_new ls sc key raw mg =
     (let segs = split_on c_dot key; sec = join [c_dot] (butlast segs);
          home = home_table (sc_headers sc) sec;
          inHome = filter (\<lambda>e. e_table e = home) (sc_entries sc);
          own = drop (length home + 1) key;
          child = (if home \<noteq> [] then home @ [c_dot] @ hd (split_on c_dot own) else hd segs)
      in if sec \<noteq> [] \<and> sec \<noteq> home \<and> \<not> dotted_style sc
            \<and> \<not> list_ex (\<lambda>e. startsWith (e_key e) (child @ [c_dot])) inHome
         then mg\<lparr>mg_tables := push_to sec [last segs @ lit '' = '' @ raw] (mg_tables mg)\<rparr>
         else
           (let line = (if home \<noteq> [] then own else key) @ lit '' = '' @ raw
            in case best_entry key inHome of
                 Some b \<Rightarrow>
                   (let q = outside ls sc (if home \<noteq> [] then sc_depth sc ! (home_line sc home + 1) else 0) False (e_end b + 1);
                        mg1 = add_before q [line] mg
                    in if home = [] then mg1\<lparr>mg_rootAt := max (mg_rootAt mg1) (int q)\<rparr> else mg1)
               | None \<Rightarrow>
                   if home \<noteq> [] then add_before (home_line sc home + 1) [line] mg
                   else mg\<lparr>mg_root := mg_root mg @ [line]\<rparr>))"

definition merge_key :: "jstr list \<Rightarrow> scan \<Rightarrow> (jstr \<times> jstr) list \<Rightarrow> jstr \<Rightarrow> merge \<Rightarrow> merge option" where
  "merge_key ls sc want key mg =
     (let raw = map_of want key; found = filter (\<lambda>e. e_key e = key) (sc_entries sc)
      in if found \<noteq> [] then foldM (merge_entry ls raw) found mg
         else (case find (\<lambda>e. startsWith key (e_key e @ [c_dot])) (sc_entries sc) of
             Some e \<Rightarrow> merge_inline ls key raw e mg
           | None \<Rightarrow> Some (case raw of None \<Rightarrow> mg | Some w \<Rightarrow> merge_new ls sc key w mg)))"

subsection \<open>After the keys\<close>

text \<open>\<open>inlineOpen\<close> finds the brace of every text of \<open>inline\<close>: it was found when the text was edited,
  and the edits are after it.\<close>

definition merge_host :: "jstr list \<Rightarrow> bool \<Rightarrow> entry \<times> jstr \<Rightarrow> merge \<Rightarrow> merge" where
  "merge_host ls cr es mg = (case es of (e, s) \<Rightarrow>
     if (case inlineOpen s (e_eq e) of Some opn \<Rightarrow> inlineEmpty s opn | None \<Rightarrow> False)
     then drop_lines (e_start e) (e_end e) mg
     else if s = entry_text ls e then mg
     else replace_entry e (join (if cr then crlf else [c_nl]) (split_on c_nl s)) mg)"

definition tables_at :: "jstr list \<Rightarrow> scan \<Rightarrow> merge \<Rightarrow> int" where
  "tables_at ls sc mg = (if mg_tables mg = [] then -1
     else int (outside ls sc 0 True (above ls sc 0 True (case sc_first sc of Some i \<Rightarrow> i | None \<Rightarrow> length ls))))"

fun skip_blank_up :: "jstr list \<Rightarrow> nat \<Rightarrow> nat" where
  "skip_blank_up ls 0 = 0"
| "skip_blank_up ls (Suc i) = (if trim (ls ! i) = [] then skip_blank_up ls i else Suc i)"

definition first_head :: "jstr list \<Rightarrow> scan \<Rightarrow> nat" where
  "first_head ls sc = fold min (map h_line (sc_headers sc)) (case sc_first sc of Some i \<Rightarrow> i | None \<Rightarrow> length ls)"

definition add_root :: "jstr list \<Rightarrow> scan \<Rightarrow> merge \<Rightarrow> merge" where
  "add_root ls sc mg =
     (if mg_root mg = [] then mg
      else (let n = length ls; q0 = first_head ls sc;
                q1 = (if q0 < n then above ls sc 0 False q0 else skip_blank_up ls q0);
                q = outside ls sc 0 False q1;
                joined = (mg_tables mg \<noteq> [] \<and> tables_at ls sc mg \<le> int q)
            in add_before q (mg_root mg @ (if \<not> joined \<and> q < n \<and> trim (ls ! q) \<noteq> [] then [[]] else []))
                 (mg\<lparr>mg_rootAt := max (mg_rootAt mg) (int q)\<rparr>)))"

definition table_lines :: "bool \<Rightarrow> (jstr \<times> jstr list) list \<Rightarrow> jstr list" where
  "table_lines gap ts = fold (\<lambda>(sec, kvs) acc.
     acc @ (if acc \<noteq> [] \<or> gap then [[]] else []) @ [[c_lb] @ sec @ [c_rb]] @ kvs) ts []"

definition add_tables :: "jstr list \<Rightarrow> scan \<Rightarrow> merge \<Rightarrow> merge" where
  "add_tables ls sc mg =
     (if mg_tables mg = [] then mg
      else (let q = nat (max (tables_at ls sc mg) (mg_rootAt mg));
                new = table_lines (q > 0 \<or> map_of (mg_before mg) q \<noteq> None) (mg_tables mg)
            in add_before q (new @ (if q < length ls \<and> trim (ls ! q) \<noteq> [] then [[]] else [])) mg))"

text \<open>A table the merge has emptied: its header goes, with the blank lines around it.\<close>

definition next_head :: "jstr list \<Rightarrow> scan \<Rightarrow> header \<Rightarrow> nat" where
  "next_head ls sc h = fold min (filter (\<lambda>x. x > h_line h) (sc_heads sc)) (length ls)"

text \<open>Lines of the table below its header.\<close>

definition region_of :: "jstr list \<Rightarrow> scan \<Rightarrow> header \<Rightarrow> nat list" where
  "region_of ls sc h = [h_line h + 1..<next_head ls sc h]"

definition emptied :: "jstr list \<Rightarrow> scan \<Rightarrow> header \<Rightarrow> merge \<Rightarrow> bool" where
  "emptied ls sc h mg \<longleftrightarrow>
     list_ex (\<lambda>e. e_start e > h_line h \<and> e_start e < next_head ls sc h) (sc_entries sc)
     \<and> list_all (\<lambda>j. j \<in> set (mg_drop mg) \<or> trim (ls ! j) = []) (region_of ls sc h)
     \<and> \<not> (list_ex (\<lambda>j. map_of (mg_before mg) j \<noteq> None) (region_of ls sc h)
          \<or> map_of (mg_before mg) (next_head ls sc h) \<noteq> None)
     \<and> \<not> h_array h"

text \<open>The lines dropped once a table goes: one blank line stays between what comes before and after it,
  and the last line break of the file stays.\<close>

definition drop_table :: "jstr list \<Rightarrow> header \<Rightarrow> nat list \<Rightarrow> bool \<Rightarrow> nat list \<Rightarrow> nat list" where
  "drop_table ls h region at_end dropped0 =
     (let gap = (0 < h_line h \<and> trim (ls ! (h_line h - 1)) = []);
          dropped = dropped0 @ [h_line h];
          blanks = filter (\<lambda>j. j \<notin> set dropped) region;
          all = dropped @ region
      in if at_end then
           (if ls ! (length ls - 1) = [] then removeAll (length ls - 1) all else all)
           @ (if gap then [h_line h - 1] else [])
         else if \<not> gap \<and> blanks \<noteq> [] then removeAll (last blanks) all else all)"

definition drop_header :: "jstr list \<Rightarrow> scan \<Rightarrow> header \<Rightarrow> merge \<Rightarrow> merge" where
  "drop_header ls sc h mg =
     (if emptied ls sc h mg
      then mg\<lparr>mg_drop := drop_table ls h (region_of ls sc h) (next_head ls sc h = length ls) (mg_drop mg)\<rparr>
      else mg)"

definition out_line :: "jstr list \<Rightarrow> merge \<Rightarrow> nat \<Rightarrow> jstr list" where
  "out_line ls mg i =
     (case map_of (mg_before mg) i of None \<Rightarrow> [] | Some b \<Rightarrow> b)
     @ (if i < length ls \<and> i \<notin> set (mg_drop mg)
        then [case map_of (mg_put mg) i of Some s \<Rightarrow> s | None \<Rightarrow> ls ! i] else [])"

definition out_lines :: "jstr list \<Rightarrow> merge \<Rightarrow> jstr list" where
  "out_lines ls mg = concat (map (out_line ls mg) [0..<Suc (length ls)])"

datatype merged = Raised | Refused "jstr list" | Merged jstr

definition merge_src :: "jstr \<Rightarrow> jstr" where
  "merge_src s = lone_cr (strip_bom s)"

definition merge_keys :: "(jstr \<times> jstr) list \<Rightarrow> jstr list \<Rightarrow> jstr list" where
  "merge_keys want touched = filter (\<lambda>k. k \<in> set touched) (map fst want)
     @ filter (\<lambda>k. k \<notin> fst ` set want) (rev (remdups (rev touched)))"

text \<open>The lines and the state after the keys, as they are written.\<close>

definition finish_merge :: "jstr list \<Rightarrow> scan \<Rightarrow> bool \<Rightarrow> merge \<Rightarrow> merge" where
  "finish_merge ls sc cr mg =
     fold (drop_header ls sc) (sc_headers sc)
       (add_tables ls sc (add_root ls sc (fold (merge_host ls cr) (mg_inline mg) mg)))"

definition mergeConnection :: "jstr \<Rightarrow> jstr \<Rightarrow> jstr list \<Rightarrow> merged" where
  "mergeConnection s generated touched =
     (let src = merge_src s; cr = includesStr src crlf; ls = splitLines src; sc = scanConnection ls;
          want = generatedRaws generated
      in case foldM (merge_key ls sc want) (merge_keys want touched) init_merge of
           None \<Rightarrow> Raised
         | Some mg \<Rightarrow>
             if mg_refused mg \<noteq> [] then Refused (mg_refused mg)
             else Merged (join (if cr then crlf else [c_nl]) (out_lines ls (finish_merge ls sc cr mg))))"

end
