(* ===== verification/Toml_Frame.thy ===== *)
theory Toml_Frame imports Toml_Quotes Toml_Merge "HOL-Library.Sublist" "HOL-Library.Code_Target_Nat" begin

text \<open>
  What \<open>mergeConnection\<close> guarantees: the scan of a file records positions inside it, a merge of no key
  changes nothing, a merge keeps every line the keys do not reach, a value it writes reads back, and
  the keys it refuses are keys it was asked for. The invariant of the merge state (\<open>merge_ok\<close>) says
  which lines may be dropped or replaced; every step of the merge preserves it.
\<close>

subsection \<open>What a scan records\<close>

text \<open>Entries lie within the file and start on a line whose \<open>=\<close> is where they say; headers and heads
  lie within the file.\<close>

definition entry_ok :: "jstr list \<Rightarrow> entry \<Rightarrow> bool" where
  "entry_ok ls e \<longleftrightarrow> e_start e \<le> e_end e \<and> e_end e < length ls \<and> keyEnd (ls ! e_start e) = Some (e_eq e)"

definition scan_ok :: "jstr list \<Rightarrow> scan \<Rightarrow> bool" where
  "scan_ok ls sc \<longleftrightarrow> list_all (entry_ok ls) (sc_entries sc) \<and> list_all (\<lambda>h. h_line h < length ls) (sc_headers sc)
     \<and> list_all (\<lambda>i. i < length ls) (sc_heads sc)"

lemma scan_ok_simps [simp]:
  "scan_ok ls (sc\<lparr>sc_depth := d\<rparr>) = scan_ok ls sc"
  "scan_ok ls (sc\<lparr>sc_tdepth := t\<rparr>) = scan_ok ls sc"
  by (simp_all add: scan_ok_def)

lemma value_extent_le: "value_extent rest after \<le> length after"
proof -
  have 1: "length (fst (take_until d after)) \<le> length after" for d
    by (induction after) (auto simp: Let_def split: prod.splits)
  have 2: "length (fst (take_open k after)) \<le> length after" for k
    by (induction after arbitrary: k) (auto simp: Let_def split: prod.splits, metis fst_conv)
  show ?thesis using 1 2 by (simp add: value_extent_def)
qed

lemma scan_header_ok: "scan_ok ls st \<Longrightarrow> i < length ls \<Longrightarrow> scan_ok ls (scan_header tr i st)"
  by (auto simp: scan_header_def scan_ok_def Let_def)

lemma scan_value_ok:
  assumes "scan_ok ls st" and "i + ext < length ls" and "keyEnd (ls ! i) = Some e"
  shows "scan_ok ls (scan_value (ls ! i) i e ext st)"
  using assms by (auto simp: scan_value_def scan_ok_def entry_ok_def Let_def split: option.splits bool.splits)

lemma drop_ConsD: "drop i xs = y # ys \<Longrightarrow> i < length xs \<and> y = xs ! i \<and> drop (Suc i) xs = ys"
proof (induction xs arbitrary: i)
  case (Cons x xs)
  then show ?case by (cases i) auto
qed simp

lemma scan_from_ok:
  "drop i all = ls \<Longrightarrow> i \<le> length all \<Longrightarrow> scan_ok all st \<Longrightarrow> scan_ok all (scan_from i ls st)"
proof (induction i ls st rule: scan_from.induct)
  case (1 i st)
  then show ?case by simp
next
  case (2 i line ls st0)
  let ?tr = "trim line" and ?st = "st0\<lparr>sc_depth := sc_depth st0 @ [sc_tdepth st0]\<rparr>"
  from drop_ConsD [OF "2.prems"(1)] have i: "i < length all" and line: "line = all ! i"
    and rest: "drop (i + 1) all = ls" by auto
  have ok: "scan_ok all ?st" using "2.prems" by simp
  note unf = scan_from.simps(2) [of i line ls st0]
  consider (tpl) "startsWith ?tr (lit ''{{'')"
    | (skip) "\<not> startsWith ?tr (lit ''{{'')" "?tr = [] \<or> is_comment ?tr"
    | (head) "\<not> startsWith ?tr (lit ''{{'')" "\<not> (?tr = [] \<or> is_comment ?tr)" "startsWith ?tr [c_lb]"
    | (none) "\<not> startsWith ?tr (lit ''{{'')" "\<not> (?tr = [] \<or> is_comment ?tr)" "\<not> startsWith ?tr [c_lb]"
        "keyEnd line = None"
    | (val) e where "\<not> startsWith ?tr (lit ''{{'')" "\<not> (?tr = [] \<or> is_comment ?tr)" "\<not> startsWith ?tr [c_lb]"
        "keyEnd line = Some e"
    by (cases "keyEnd line") auto
  then show ?case
  proof cases
    case tpl
    with 2(1) [OF refl refl tpl rest] i ok show ?thesis by (simp add: unf Let_def)
  next
    case skip
    with 2(2) [OF refl refl skip rest] i ok show ?thesis by (simp add: unf Let_def)
  next
    case head
    with 2(3) [OF refl refl head rest] i ok scan_header_ok show ?thesis by (simp add: unf Let_def)
  next
    case none
    with 2(4) [OF refl refl none rest] i ok show ?thesis by (simp add: unf Let_def)
  next
    case val
    let ?ext = "value_extent (value_after line e) ls"
    have len: "i + ?ext < length all"
      using value_extent_le [of "value_after line e" ls] length_drop [of "i + 1" all] i unfolding rest by linarith
    then have ok': "scan_ok all (scan_value line i e ?ext ?st)"
      using scan_value_ok [OF ok len] val(4) line by simp
    have dr: "drop (i + 1 + ?ext) all = drop ?ext ls"
      using rest by (metis add.commute drop_drop)
    show ?thesis
      using 2(5) [OF refl refl val refl dr _ ok'] len val by (simp add: unf Let_def)
  qed
qed

lemma scanConnection_ok: "scan_ok ls (scanConnection ls)"
proof -
  have "scan_ok ls (scan_from 0 ls init_scan)"
    by (rule scan_from_ok) (simp_all add: scan_ok_def init_scan_def)
  then show ?thesis by (simp add: scanConnection_def Let_def)
qed


subsection \<open>A merge of nothing\<close>

lemma trim_blank: "trim s = [] \<Longrightarrow> list_all is_ws s"
proof -
  assume "trim s = []"
  then have "list_all is_ws (dropWhile is_ws s)"
    by (simp add: trim_def trimStart_def trimEnd_def dropWhile_eq_Nil_conv list_all_iff)
  then have "dropWhile is_ws s = []"
    using hd_dropWhile [of is_ws s] by (cases "dropWhile is_ws s") auto
  then show ?thesis by (simp add: dropWhile_eq_Nil_conv list_all_iff)
qed

lemma key_end_blank: "list_all is_ws s \<Longrightarrow> key_end None s = None"
  by (induction s) (auto simp: is_ws_def)

lemma keyEnd_not_blank: "keyEnd l = Some e \<Longrightarrow> trim l \<noteq> []"
  using key_end_blank trim_blank by (auto simp: keyEnd_def)

lemma not_emptied:
  assumes "scan_ok ls sc" and "mg_drop mg = []"
  shows "\<not> emptied ls sc h mg"
proof
  assume em: "emptied ls sc h mg"
  then obtain e where e: "e \<in> set (sc_entries sc)" "e_start e > h_line h" "e_start e < next_head ls sc h"
    by (auto simp: emptied_def list_ex_iff)
  with em assms(2) have "trim (ls ! e_start e) = []"
    by (auto simp: emptied_def region_of_def list_all_iff)
  moreover from e(1) assms(1) have "keyEnd (ls ! e_start e) = Some (e_eq e)"
    by (auto simp: scan_ok_def entry_ok_def list_all_iff)
  ultimately show False using keyEnd_not_blank by blast
qed

lemma drop_header_idle: "scan_ok ls sc \<Longrightarrow> mg_drop mg = [] \<Longrightarrow> drop_header ls sc h mg = mg"
  by (simp add: drop_header_def not_emptied)

lemma fold_idle: "(\<And>h. h \<in> set hs \<Longrightarrow> f h mg = mg) \<Longrightarrow> fold f hs mg = mg"
  by (induction hs) auto

lemma finish_merge_idle:
  assumes "scan_ok ls sc"
  shows "finish_merge ls sc cr init_merge = init_merge"
proof -
  have "add_tables ls sc (add_root ls sc (fold (merge_host ls cr) (mg_inline init_merge) init_merge)) = init_merge"
    by (simp add: init_merge_def add_root_def add_tables_def)
  then show ?thesis
    using drop_header_idle [OF assms] by (simp add: finish_merge_def fold_idle init_merge_def)
qed

lemma out_lines_init: "out_lines ls init_merge = ls"
proof -
  have "concat (map (out_line ls init_merge) [0..<length ls]) = map (\<lambda>i. ls ! i) [0..<length ls]"
  proof -
    have "map (out_line ls init_merge) [0..<length ls] = map (\<lambda>i. [ls ! i]) [0..<length ls]"
      by (rule map_cong) (auto simp: out_line_def init_merge_def)
    then show ?thesis by (simp only: concat_map_singleton)
  qed
  then show ?thesis by (simp add: out_lines_def map_nth out_line_def init_merge_def)
qed

lemma merge_nothing: "mergeConnection s g [] =
    Merged (join (if includesStr (merge_src s) crlf then crlf else [c_nl]) (splitLines (merge_src s)))"
  using finish_merge_idle [OF scanConnection_ok [of "splitLines (merge_src s)"]]
  by (simp add: mergeConnection_def Let_def merge_keys_def out_lines_init)
    (simp add: init_merge_def)

lemma includesStr_Cons: "\<not> includesStr (c # s) p \<Longrightarrow> \<not> includesStr s p"
  by (auto simp: includesStr_def split: if_splits)

lemma splitLines_not_Nil [simp]: "splitLines s \<noteq> []"
  by (induction s rule: splitLines.induct) (auto split: list.splits)

lemma join_splitLines: "\<not> includesStr s crlf \<Longrightarrow> join [c_nl] (splitLines s) = s"
proof (induction s rule: splitLines.induct)
  case 1
  then show ?case by simp
next
  case (2 c s)
  from includesStr_Cons [OF "2.prems"] have rest: "\<not> includesStr s crlf" .
  have "\<not> (c = c_cr \<and> startsWith s [c_nl])"
    using "2.prems" by (auto simp: includesStr_def crlf_def)
  moreover have "splitLines s = hd (splitLines s) # tl (splitLines s)" by simp
  ultimately show ?case using 2 rest join_push [of "splitLines s" "[c_nl]" c]
    by (cases "splitLines s") (auto simp: join_Cons)
qed


subsection \<open>The lines a merge keeps\<close>

text \<open>An entry the keys reach: its own key, or a key inside its value.\<close>

definition reached :: "jstr list \<Rightarrow> entry \<Rightarrow> bool" where
  "reached keys e \<longleftrightarrow> e_key e \<in> set keys \<or> list_ex (\<lambda>k. startsWith k (e_key e @ [c_dot])) keys"

definition in_reached :: "jstr list \<Rightarrow> scan \<Rightarrow> nat \<Rightarrow> bool" where
  "in_reached keys sc i \<longleftrightarrow> list_ex (\<lambda>e. reached keys e \<and> e_start e \<le> i \<and> i \<le> e_end e) (sc_entries sc)"

definition may_drop :: "jstr list \<Rightarrow> jstr list \<Rightarrow> scan \<Rightarrow> nat \<Rightarrow> bool" where
  "may_drop keys ls sc i \<longleftrightarrow> in_reached keys sc i \<or> trim (ls ! i) = [] \<or> i \<in> h_line ` set (sc_headers sc)"

definition merge_ok :: "jstr list \<Rightarrow> jstr list \<Rightarrow> scan \<Rightarrow> merge \<Rightarrow> bool" where
  "merge_ok keys ls sc mg \<longleftrightarrow> list_all (may_drop keys ls sc) (mg_drop mg)
     \<and> list_all (in_reached keys sc) (map fst (mg_put mg))
     \<and> list_all (\<lambda>e. e \<in> set (sc_entries sc) \<and> reached keys e) (map fst (mg_inline mg))"

lemma in_reachedI:
  "e \<in> set (sc_entries sc) \<Longrightarrow> reached keys e \<Longrightarrow> e_start e \<le> i \<Longrightarrow> i \<le> e_end e \<Longrightarrow> in_reached keys sc i"
  by (auto simp: in_reached_def list_ex_iff)

lemma merge_ok_frame [simp]:
  "merge_ok keys ls sc (mg\<lparr>mg_before := b\<rparr>) = merge_ok keys ls sc mg"
  "merge_ok keys ls sc (mg\<lparr>mg_tables := t\<rparr>) = merge_ok keys ls sc mg"
  "merge_ok keys ls sc (mg\<lparr>mg_refused := r\<rparr>) = merge_ok keys ls sc mg"
  "merge_ok keys ls sc (mg\<lparr>mg_root := s\<rparr>) = merge_ok keys ls sc mg"
  "merge_ok keys ls sc (mg\<lparr>mg_rootAt := q\<rparr>) = merge_ok keys ls sc mg"
  "merge_ok keys ls sc (add_before p w mg) = merge_ok keys ls sc mg"
  by (simp_all add: merge_ok_def add_before_def)

lemma drop_entry_ok:
  assumes "merge_ok keys ls sc mg" and "e \<in> set (sc_entries sc)" and "reached keys e"
  shows "merge_ok keys ls sc (drop_lines (e_start e) (e_end e) mg)"
  using assms by (auto simp: merge_ok_def drop_lines_def may_drop_def list_all_iff intro: in_reachedI)

lemma all_keys_obj_set: "list_all P (map fst (obj_set k v ob)) \<longleftrightarrow> P k \<and> list_all P (map fst ob)"
  by (auto simp: keys_obj_set list_all_iff)

lemma replace_entry_ok:
  assumes "merge_ok keys ls sc mg" and "e \<in> set (sc_entries sc)" and "reached keys e" and "e_start e \<le> e_end e"
  shows "merge_ok keys ls sc (replace_entry e s mg)"
proof -
  have "in_reached keys sc (e_start e)" using assms by (auto intro: in_reachedI)
  then have "list_all (in_reached keys sc) (map fst (obj_set (e_start e) s (mg_put mg)))"
    using assms(1) by (simp add: merge_ok_def all_keys_obj_set del: list.pred_map)
  with assms show ?thesis
    by (auto simp: replace_entry_def drop_lines_def merge_ok_def may_drop_def list_all_iff intro: in_reachedI)
qed

lemma merge_entry_ok:
  assumes "merge_entry ls raw e mg = Some mg'" and "merge_ok keys ls sc mg"
    and "e \<in> set (sc_entries sc)" and "reached keys e" and "entry_ok ls e"
  shows "merge_ok keys ls sc mg'"
  using assms drop_entry_ok [OF assms(2-4)] replace_entry_ok [OF assms(2-4)]
  by (auto simp: merge_entry_def Let_def entry_ok_def split: option.splits prod.splits if_splits)

lemma merge_inline_ok:
  assumes "merge_inline ls key raw e mg = Some mg'" and "merge_ok keys ls sc mg"
    and "e \<in> set (sc_entries sc)" and "reached keys e"
  shows "merge_ok keys ls sc mg'"
proof -
  have "merge_ok keys ls sc (mg\<lparr>mg_inline := obj_set e s (mg_inline mg)\<rparr>)" for s
    using assms by (simp add: merge_ok_def all_keys_obj_set del: list.pred_map)
  with assms show ?thesis
    by (auto simp: merge_inline_def Let_def split: option.splits if_splits)
qed

lemma merge_new_ok: "merge_ok keys ls sc mg \<Longrightarrow> merge_ok keys ls sc (merge_new ls sc key raw mg)"
  by (auto simp: merge_new_def Let_def split: option.splits)

lemma foldM_invariant:
  assumes "\<And>x b b'. x \<in> set xs \<Longrightarrow> P b \<Longrightarrow> f x b = Some b' \<Longrightarrow> P b'"
  shows "foldM f xs b = Some b' \<Longrightarrow> P b \<Longrightarrow> P b'"
  using assms
proof (induction xs arbitrary: b)
  case (Cons x xs)
  then obtain c where c: "f x b = Some c" "foldM f xs c = Some b'" by (auto split: option.splits)
  show ?case
    by (rule Cons.IH [OF c(2)]) (use Cons.prems c(1) in auto)
qed simp

lemma merge_key_ok:
  assumes "merge_key ls sc want key mg = Some mg'" and "merge_ok keys ls sc mg" and "key \<in> set keys"
    and "scan_ok ls sc"
  shows "merge_ok keys ls sc mg'"
proof -
  let ?found = "filter (\<lambda>e. e_key e = key) (sc_entries sc)"
  have ok: "entry_ok ls e" if "e \<in> set (sc_entries sc)" for e
    using that assms(4) by (auto simp: scan_ok_def list_all_iff)
  show ?thesis
  proof (cases "?found = []")
    case False
    with assms(1) have "foldM (merge_entry ls (map_of want key)) ?found mg = Some mg'"
      by (simp add: merge_key_def Let_def)
    then show ?thesis
      using foldM_invariant [of ?found "merge_ok keys ls sc" "merge_entry ls (map_of want key)" mg mg']
        merge_entry_ok ok assms(2,3) by (auto simp: reached_def)
  next
    case True
    have "e \<in> set (sc_entries sc) \<and> reached keys e"
      if "find (\<lambda>e. startsWith key (e_key e @ [c_dot])) (sc_entries sc) = Some e" for e
      using that assms(3) by (auto simp: find_Some_iff reached_def list_ex_iff)
    with True assms merge_inline_ok merge_new_ok show ?thesis
      by (auto simp: merge_key_def Let_def split: option.splits)
  qed
qed


lemma fold_inv: "(\<And>x b. x \<in> set xs \<Longrightarrow> P b \<Longrightarrow> P (f x b)) \<Longrightarrow> P b \<Longrightarrow> P (fold f xs b)"
  by (induction xs arbitrary: b) auto

lemma merge_host_ok:
  assumes "merge_ok keys ls sc mg" and "e \<in> set (sc_entries sc)" and "reached keys e" and "entry_ok ls e"
  shows "merge_ok keys ls sc (merge_host ls cr (e, s) mg)"
  using assms drop_entry_ok [OF assms(1-3)] replace_entry_ok [OF assms(1-3)]
  by (simp add: merge_host_def entry_ok_def)

lemma drop_table_subset:
  "set (drop_table ls h region at_end dropped)
    \<subseteq> set dropped \<union> set region \<union> {h_line h} \<union> {i. trim (ls ! i) = []}"
  by (auto simp: drop_table_def Let_def split: if_splits)

lemma drop_header_ok:
  assumes "merge_ok keys ls sc mg" and "h \<in> set (sc_headers sc)"
  shows "merge_ok keys ls sc (drop_header ls sc h mg)"
proof (cases "emptied ls sc h mg")
  case True
  have "may_drop keys ls sc i"
    if "i \<in> set (drop_table ls h (region_of ls sc h) (next_head ls sc h = length ls) (mg_drop mg))" for i
  proof -
    have "set (mg_drop mg) \<subseteq> Collect (may_drop keys ls sc)"
      using assms(1) by (auto simp: merge_ok_def list_all_iff)
    moreover then have "set (region_of ls sc h) \<subseteq> Collect (may_drop keys ls sc)"
      using True by (auto simp: emptied_def list_all_iff may_drop_def)
    moreover have "may_drop keys ls sc (h_line h)" using assms(2) by (simp add: may_drop_def)
    ultimately show ?thesis
      using subsetD [OF drop_table_subset that] by (auto simp: may_drop_def)
  qed
  with assms(1) show ?thesis by (simp add: drop_header_def merge_ok_def list_all_iff)
next
  case False
  with assms(1) show ?thesis by (simp add: drop_header_def)
qed

lemma add_root_ok: "merge_ok keys ls sc (add_root ls sc mg) = merge_ok keys ls sc mg"
  unfolding add_root_def Let_def by (simp only: merge_ok_frame if_cancel split: if_split) simp

lemma add_tables_ok: "merge_ok keys ls sc (add_tables ls sc mg) = merge_ok keys ls sc mg"
  unfolding add_tables_def Let_def by (simp only: merge_ok_frame if_cancel split: if_split) simp

lemma finish_merge_ok:
  assumes "merge_ok keys ls sc mg" and "scan_ok ls sc"
  shows "merge_ok keys ls sc (finish_merge ls sc cr mg)"
proof -
  have hosts: "e \<in> set (sc_entries sc) \<and> reached keys e" if "(e, s) \<in> set (mg_inline mg)" for e s
    using assms(1) that by (force simp: merge_ok_def list_all_iff)
  have "entry_ok ls e" if "e \<in> set (sc_entries sc)" for e
    using that assms(2) by (auto simp: scan_ok_def list_all_iff)
  with hosts have "merge_ok keys ls sc (fold (merge_host ls cr) (mg_inline mg) mg)"
    using assms(1) by (intro fold_inv [where P = "merge_ok keys ls sc"]) (auto intro: merge_host_ok)
  then have "merge_ok keys ls sc (add_tables ls sc (add_root ls sc (fold (merge_host ls cr) (mg_inline mg) mg)))"
    by (simp only: add_tables_ok add_root_ok)
  then show ?thesis
    unfolding finish_merge_def by (intro fold_inv [where P = "merge_ok keys ls sc"]) (auto intro: drop_header_ok)
qed

lemma out_line_kept:
  assumes "merge_ok keys ls sc mg" and "\<not> may_drop keys ls sc i" and "i < length ls"
  shows "\<exists>b. out_line ls mg i = b @ [ls ! i]"
proof -
  have "i \<notin> set (mg_drop mg)" using assms(1,2) by (auto simp: merge_ok_def list_all_iff)
  moreover have "map_of (mg_put mg) i = None"
    using assms(1,2) by (auto simp: merge_ok_def list_all_iff may_drop_def map_of_eq_None_iff)
  ultimately show ?thesis using assms(3) by (simp add: out_line_def)
qed

lemma subseq_concat:
  assumes "\<And>i. i \<in> set is \<Longrightarrow> P i \<Longrightarrow> \<exists>b. g i = b @ [f i]"
  shows "subseq (map f (filter P is)) (concat (map g is))"
  using assms
proof (induction "is")
  case (Cons i "is")
  then have IH: "subseq (map f (filter P is)) (concat (map g is))" by simp
  show ?case
  proof (cases "P i")
    case True
    with Cons obtain b where "g i = b @ [f i]" by auto
    moreover have "subseq [f i] (b @ [f i])" by (simp add: subseq_drop_many)
    ultimately show ?thesis using True list_emb_append_mono [OF _ IH, of "[f i]" "b @ [f i]"] by simp
  next
    case False
    with IH show ?thesis by (simp add: list_emb_append2)
  qed
qed simp

definition merge_lines :: "jstr \<Rightarrow> jstr list" where
  "merge_lines s = splitLines (merge_src s)"

definition merge_eol :: "jstr \<Rightarrow> jstr" where
  "merge_eol s = (if includesStr (merge_src s) crlf then crlf else [c_nl])"

text \<open>Lines that are not blank, not a table header and not part of an entry the keys reach.\<close>

definition kept_lines :: "jstr \<Rightarrow> jstr list \<Rightarrow> jstr list" where
  "kept_lines s touched = (let ls = merge_lines s
     in map (\<lambda>i. ls ! i) (filter (\<lambda>i. \<not> may_drop touched ls (scanConnection ls) i) [0..<length ls]))"

lemma merge_ok_touched:
  assumes "merge_ok keys ls sc mg" and "set keys \<subseteq> set touched"
  shows "merge_ok touched ls sc mg"
proof -
  have 1: "reached touched e" if "reached keys e" for e
    using that assms(2) by (auto simp: reached_def list_ex_iff)
  then have 2: "in_reached touched sc i" if "in_reached keys sc i" for i
    using that by (auto simp: in_reached_def list_ex_iff)
  with 1 assms(1) show ?thesis
    by (auto simp: merge_ok_def may_drop_def list_all_iff)
qed

lemma merge_keeps:
  assumes "mergeConnection s g touched = Merged t"
  shows "\<exists>outs. t = join (merge_eol s) outs \<and> subseq (kept_lines s touched) outs"
proof -
  let ?ls = "merge_lines s" and ?cr = "includesStr (merge_src s) crlf"
  let ?sc = "scanConnection ?ls" and ?want = "generatedRaws g"
  let ?keys = "merge_keys ?want touched"
  from assms obtain mg where fold: "foldM (merge_key ?ls ?sc ?want) ?keys init_merge = Some mg"
    and t: "t = join (merge_eol s) (out_lines ?ls (finish_merge ?ls ?sc ?cr mg))"
    by (auto simp: mergeConnection_def merge_lines_def merge_eol_def Let_def split: option.splits if_splits)
  have "merge_ok ?keys ?ls ?sc mg"
    using foldM_invariant [of ?keys "merge_ok ?keys ?ls ?sc", OF _ fold] merge_key_ok scanConnection_ok
    by (force simp: merge_ok_def init_merge_def)
  moreover have "set ?keys \<subseteq> set touched" by (auto simp: merge_keys_def)
  ultimately have "merge_ok touched ?ls ?sc (finish_merge ?ls ?sc ?cr mg)"
    using merge_ok_touched finish_merge_ok scanConnection_ok by blast
  from out_line_kept [OF this]
  have "subseq (map (\<lambda>i. ?ls ! i) (filter (\<lambda>i. \<not> may_drop touched ?ls ?sc i) [0..<length ?ls]))
      (concat (map (out_line ?ls (finish_merge ?ls ?sc ?cr mg)) [0..<length ?ls]))"
    by (intro subseq_concat) auto
  then have "subseq (kept_lines s touched) (out_lines ?ls (finish_merge ?ls ?sc ?cr mg))"
    by (simp add: kept_lines_def out_lines_def Let_def list_emb_append2 subseq_rev_drop_many)
  with t show ?thesis by blast
qed

subsection \<open>A replaced value reads back\<close>

lemma key_end_nonempty: "key_end q (drop i s) = Some k \<Longrightarrow> i < length s"
  by (rule ccontr) simp

lemma key_end_append: "key_end q s = Some k \<Longrightarrow> key_end q (s @ t) = Some k"
proof (induction q s arbitrary: k rule: key_end.induct)
  case (2 q c s)
  then show ?case using key_end_nonempty [of "Some q" 1 s] by (cases s) (auto split: if_splits)
qed (auto split: if_splits)

lemma key_end_take: "key_end q s = Some k \<Longrightarrow> key_end q (take (Suc k) s @ t) = Some k"
proof (induction q s arbitrary: k rule: key_end.induct)
  case (2 q c s)
  then show ?case using key_end_nonempty [of "Some q" 1 s] by (cases s) (auto split: if_splits)
qed (auto split: if_splits)

lemma key_end_less: "key_end q s = Some k \<Longrightarrow> k < length s"
proof (induction q s arbitrary: k rule: key_end.induct)
  case (2 q c s)
  then show ?case using key_end_nonempty [of "Some q" 1 s] by (cases s) (auto split: if_splits)
qed (auto split: if_splits)

lemma entry_text_head:
  assumes "entry_ok ls e"
  shows "\<exists>t. entry_text ls e = ls ! e_start e @ t"
proof -
  have "take (e_end e + 1 - e_start e) (drop (e_start e) ls)
      = ls ! e_start e # take (e_end e - e_start e) (drop (Suc (e_start e)) ls)"
    using assms by (simp add: entry_ok_def Cons_nth_drop_Suc [symmetric] Suc_diff_le)
  then have "entry_text ls e = join [c_nl] (ls ! e_start e # take (e_end e - e_start e) (drop (Suc (e_start e)) ls))"
    unfolding entry_text_def by simp
  then show ?thesis by (cases "take (e_end e - e_start e) (drop (Suc (e_start e)) ls)") auto
qed

lemma trimEnd_append: "trimEnd b \<noteq> [] \<Longrightarrow> trimEnd (a @ b) = a @ trimEnd b"
  by (auto simp: trimEnd_def dropWhile_append dropWhile_eq_Nil_conv)

lemma trimEnd_Cons: "\<not> is_ws c \<Longrightarrow> \<exists>r. trimEnd (c # s) = c # r"
proof -
  assume "\<not> is_ws c"
  then have "trimEnd (c # s) = c # rev (dropWhile is_ws (rev s))"
    by (auto simp: trimEnd_def dropWhile_append)
  then show ?thesis by blast
qed

lemma trimStart_blanks: "list_all is_blank w \<Longrightarrow> trimStart (w @ s) = trimStart s"
  by (induction w) (auto simp: trimStart_def is_blank_def is_ws_def)

lemma comment_pos_hash: "comment_pos q s = Some i \<Longrightarrow> \<exists>r. drop i s = c_hash # r"
proof (induction q s arbitrary: i rule: comment_pos.induct)
  case (2 q c s)
  then show ?case by (cases s) (auto split: if_splits)
next
  case (3 c s)
  show ?case
  proof (cases "opens_multiline (c # s)")
    case True
    with 3 obtain e j where e: "multilineClose (c # s) = Some e" and j: "comment_pos None (drop (e - 1) s) = Some j"
      and i: "i = j + e" by (auto split: option.splits)
    have "0 < e" using e by (auto simp: multilineClose_def split: if_splits)
    with 3(1) [OF True e j] i show ?thesis by (cases e) (auto simp: add.commute)
  next
    case False
    with 3 show ?thesis by (auto split: if_splits)
  qed
qed simp

lemma splitComment_note: "splitComment s = (a, n) \<Longrightarrow> n \<noteq> [] \<Longrightarrow> \<exists>r. n = c_hash # r"
proof -
  assume "splitComment s = (a, n)" "n \<noteq> []"
  then obtain i where i: "comment_pos None s = Some i" and n: "n = trim (drop i s)"
    by (auto simp: splitComment_def split: option.splits)
  from comment_pos_hash [OF i] obtain r where "drop i s = c_hash # r" by blast
  then show ?thesis
    using n trimEnd_Cons [of c_hash r] by (auto simp: trim_def trimStart_def is_ws_def)
qed

lemma entryValue_note: "entryValue s e = (a, n) \<Longrightarrow> n \<noteq> [] \<Longrightarrow> \<exists>r. n = c_hash # r"
  by (auto simp: entryValue_def Let_def intro: splitComment_note split: if_splits option.splits
      dest!: splitComment_note [OF surjective_pairing])

text \<open>The text after the \<open>=\<close> of a rewritten line.\<close>

lemma written_value:
  assumes "actions_avoid {c_bs, c_dq} v" and "list_all is_blank w" and "n = [] \<or> (\<exists>r. n = c_hash # r)"
    and "p \<noteq> []"
  shows "fst (entryValue (p @ w @ str v @ (if n \<noteq> [] then c_sp # n else [])) (length p - 1)) = str v"
proof -
  let ?tail = "if n \<noteq> [] then c_sp # n else []"
  have val: "value_after (p @ w @ str v @ ?tail) (length p - 1) = trimEnd (str v @ ?tail)"
    using assms(2,4) by (simp add: value_after_def trim_def trimStart_blanks)
      (simp add: trimStart_def str_def is_ws_def)
  have "trimEnd (str v @ ?tail) = str v \<or> (\<exists>r. trimEnd (str v @ ?tail) = str v @ c_sp # c_hash # r)"
  proof (cases "n = []")
    case True
    then show ?thesis using trimEnd_snoc [of c_dq "c_dq # esc_text v"] by (simp add: str_def is_ws_def)
  next
    case False
    with assms(3) obtain r where n: "n = c_hash # r" by blast
    obtain r' where r': "trimEnd (c_hash # r) = c_hash # r'"
      using trimEnd_Cons [of c_hash r] by (auto simp: is_ws_def)
    from trimEnd_append [of "c_hash # r" "[c_sp]"] r' have "trimEnd (c_sp # c_hash # r) = c_sp # c_hash # r'" by simp
    with trimEnd_append [of "c_sp # c_hash # r" "str v"] n show ?thesis by simp
  qed
  then obtain r where r: "trimEnd (str v @ ?tail) = str v @ r" "r = [] \<or> (\<exists>u. r = c_sp # c_hash # u)"
    by fastforce
  have plain: "\<not> opens_multiline (str v @ r)"
    using str_single [of v] r(2) esc_text_no_quote [of v] by (cases "esc_text v")
      (auto simp: str_def opens_multiline_def startsWith_iff)
  have "fst (splitComment (str v @ r)) = str v"
    using r(2) splitComment_str [OF assms(1)] splitComment_str_note [OF assms(1)] by auto
  then show ?thesis unfolding entryValue_def val r(1) Let_def using plain by simp
qed


text \<open>What the merge of a key the file has leaves: its entry as it is when the value was already there,
  else a line with the same key, the same \<open>=\<close> and the new value.\<close>

definition line_holds :: "jstr \<Rightarrow> nat \<Rightarrow> jstr \<Rightarrow> bool" where
  "line_holds line e v \<longleftrightarrow> keyEnd line = Some e \<and> unquote (fst (entryValue line e)) = Some v"

lemma merge_entry_written:
  assumes "merge_entry ls (Some (str v)) e mg = Some mg'" and "entry_ok ls e"
    and "actions_avoid {c_bs, c_dq} v"
  shows "(mg' = mg \<and> line_holds (entry_text ls e) (e_eq e) v)
    \<or> (\<exists>line. map_of (mg_put mg') (e_start e) = Some line \<and> line_holds line (e_eq e) v
          \<and> take (e_eq e) line = take (e_eq e) (ls ! e_start e))"
proof -
  let ?old = "entry_text ls e" and ?k = "e_eq e"
  obtain raw n where rn: "entryValue ?old ?k = (raw, n)" by fastforce
  have uq: "unquote (str v) = Some v"
    using assms(3) actions_avoid_mono unquote_str by blast
  from entry_text_head [OF assms(2)] obtain t where t: "?old = ls ! e_start e @ t" by blast
  have k: "key_end None (ls ! e_start e) = Some ?k" using assms(2) by (simp add: entry_ok_def keyEnd_def)
  then have old: "keyEnd ?old = Some ?k" unfolding keyEnd_def t by (rule key_end_append)
  from k key_end_less have len: "?k < length (ls ! e_start e)" by blast
  from assms(1) rn uq obtain a where a: "unquote raw = Some a"
    by (auto simp: merge_entry_def Let_def split: option.splits)
  show ?thesis
  proof (cases "a = v")
    case True
    with assms(1) rn uq a old show ?thesis by (simp add: merge_entry_def Let_def line_holds_def)
  next
    case False
    let ?line = "take (?k + 1) ?old @ takeWhile is_blank (drop (?k + 1) ?old) @ str v @ (if n \<noteq> [] then c_sp # n else [])"
    from False assms(1) rn uq a have mg': "mg' = replace_entry e ?line mg"
      by (simp add: merge_entry_def Let_def)
    have "keyEnd ?line = Some ?k"
      using key_end_take [of None ?old ?k] old by (simp add: keyEnd_def)
    moreover have "fst (entryValue ?line ?k) = str v"
    proof -
      have "length (take (?k + 1) ?old) - 1 = ?k" "take (?k + 1) ?old \<noteq> []" using t len by auto
      moreover have "list_all is_blank (takeWhile is_blank (drop (?k + 1) ?old))"
        by (auto simp: list_all_iff dest: set_takeWhileD)
      ultimately show ?thesis
        using written_value [OF assms(3) _ _ \<open>take (?k + 1) ?old \<noteq> []\<close>] entryValue_note [OF rn] by metis
    qed
    moreover have "take ?k ?line = take ?k (ls ! e_start e)" using t len by simp
    ultimately show ?thesis
      using uq by (simp add: mg' replace_entry_def drop_lines_def line_holds_def)
  qed
qed

subsection \<open>The keys refused\<close>

definition refused_ok :: "(jstr \<times> jstr) list \<Rightarrow> jstr list \<Rightarrow> merge \<Rightarrow> bool" where
  "refused_ok want keys mg \<longleftrightarrow> set (mg_refused mg) \<subseteq> set keys \<inter> fst ` set want"

lemma merge_entry_refused: "merge_entry ls raw e mg = Some mg' \<Longrightarrow> mg_refused mg' = mg_refused mg"
  by (auto simp: merge_entry_def Let_def replace_entry_def drop_lines_def split: option.splits prod.splits if_splits)

lemma merge_inline_refused:
  "merge_inline ls key raw e mg = Some mg' \<Longrightarrow>
     set (mg_refused mg') \<subseteq> set (mg_refused mg) \<union> (if raw \<noteq> None then {key} else {})"
  by (auto simp: merge_inline_def Let_def split: option.splits if_splits)

lemma merge_new_refused: "mg_refused (merge_new ls sc key raw mg) = mg_refused mg"
  by (auto simp: merge_new_def Let_def add_before_def split: option.splits)

lemma merge_key_refused:
  assumes "merge_key ls sc want key mg = Some mg'" and "refused_ok want keys mg" and "key \<in> set keys"
  shows "refused_ok want keys mg'"
proof (cases "filter (\<lambda>e. e_key e = key) (sc_entries sc) = []")
  case False
  with assms(1) have "foldM (merge_entry ls (map_of want key)) (filter (\<lambda>e. e_key e = key) (sc_entries sc)) mg = Some mg'"
    by (simp add: merge_key_def Let_def)
  then show ?thesis
    by (rule foldM_invariant [rotated]) (use assms(2) in \<open>auto simp: refused_ok_def dest!: merge_entry_refused\<close>)
next
  case True
  have new: "set (mg_refused mg) \<union> (if map_of want key \<noteq> None then {key} else {}) \<subseteq> set keys \<inter> fst ` set want"
    using assms(2,3) map_of_eq_None_iff [of want key] by (simp add: refused_ok_def)
  show ?thesis
  proof (cases "find (\<lambda>e. startsWith key (e_key e @ [c_dot])) (sc_entries sc)")
    case None
    with True assms(1,2) show ?thesis
      by (auto simp: merge_key_def Let_def refused_ok_def merge_new_refused split: option.splits)
  next
    case (Some e)
    with True assms(1) have "merge_inline ls key (map_of want key) e mg = Some mg'"
      by (simp add: merge_key_def Let_def)
    from subset_trans [OF merge_inline_refused [OF this] new] show ?thesis by (simp add: refused_ok_def)
  qed
qed

lemma merge_refuses:
  assumes "mergeConnection s g touched = Refused ks"
  shows "ks \<noteq> [] \<and> set ks \<subseteq> set touched \<inter> fst ` set (generatedRaws g)"
proof -
  let ?ls = "merge_lines s" and ?want = "generatedRaws g"
  let ?keys = "merge_keys ?want touched"
  from assms obtain mg where fold: "foldM (merge_key ?ls (scanConnection ?ls) ?want) ?keys init_merge = Some mg"
    and ks: "ks = mg_refused mg" "ks \<noteq> []"
    by (auto simp: mergeConnection_def merge_lines_def Let_def split: option.splits if_splits)
  have "refused_ok ?want ?keys mg"
  proof (rule foldM_invariant [OF _ fold])
    show "refused_ok ?want ?keys b'" if "key \<in> set ?keys" "refused_ok ?want ?keys b"
      "merge_key ?ls (scanConnection ?ls) ?want key b = Some b'" for key b b'
      using merge_key_refused that by blast
    show "refused_ok ?want ?keys init_merge" by (simp add: refused_ok_def init_merge_def)
  qed
  with ks show ?thesis by (auto simp: refused_ok_def merge_keys_def)
qed

subsection \<open>A concrete file\<close>

definition ex_file :: jstr where
  "ex_file = lit ''# head'' @ [c_nl] @ lit ''[log]'' @ [c_nl] @ lit ''to = 1'' @ [c_nl] @ lit ''b = 2'' @ [c_nl]"

definition ex_gen :: jstr where
  "ex_gen = lit ''[log]'' @ [c_nl] @ lit ''to = 3'' @ [c_nl]"

definition ex_lines :: "jstr list" where
  "ex_lines = [lit ''# head'', lit ''[log]'', lit ''to = 1'', lit ''b = 2'', []]"

definition ex_scan :: scan where
  "ex_scan = \<lparr>sc_entries =
     [\<lparr>e_key = lit ''log.to'', e_table = lit ''log'', e_start = 2, e_end = 2, e_eq = 3\<rparr>,
      \<lparr>e_key = lit ''log.b'', e_table = lit ''log'', e_start = 3, e_end = 3, e_eq = 2\<rparr>],
     sc_headers = [\<lparr>h_name = lit ''log'', h_array = False, h_line = 1\<rparr>], sc_heads = [1], sc_first = None,
     sc_depth = [0, 0, 0, 0, 0, 0], sc_body = [], sc_tdepth = 0, sc_table = Some (lit ''log''), sc_in = False\<rparr>"

definition ex_merge :: merge where
  "ex_merge = init_merge\<lparr>mg_put := [(2, lit ''to = 3'')]\<rparr>"

definition ex_out :: "jstr list" where
  "ex_out = [lit ''# head'', lit ''[log]'', lit ''to = 3'', lit ''b = 2'', []]"

lemma ex_eval:
  "splitLines (merge_src ex_file) = ex_lines"
  "includesStr (merge_src ex_file) crlf = False"
  "scanConnection ex_lines = ex_scan"
  "generatedRaws ex_gen = [(lit ''log.to'', [51])]"
  "merge_keys [(lit ''log.to'', [51])] [lit ''log.to''] = [lit ''log.to'']"
  "merge_key ex_lines ex_scan [(lit ''log.to'', [51])] (lit ''log.to'') init_merge = Some ex_merge"
  "mg_refused ex_merge = []"
  "finish_merge ex_lines ex_scan False ex_merge = ex_merge"
  "out_lines ex_lines ex_merge = ex_out"
  by code_simp+

lemma ex_merged: "mergeConnection ex_file ex_gen [lit ''log.to''] = Merged (join [c_nl] ex_out)"
  by (simp add: mergeConnection_def Let_def ex_eval)

lemma ex_kept: "kept_lines ex_file [lit ''log.to''] = [lit ''# head'', lit ''b = 2'']"
  unfolding kept_lines_def merge_lines_def ex_eval Let_def by code_simp

definition ex_inline :: jstr where
  "ex_inline = lit ''log = 1''"

lemma ex_inline_eval:
  "splitLines (merge_src ex_inline) = [lit ''log = 1'']"
  "includesStr (merge_src ex_inline) crlf = False"
  "map mg_refused (case merge_key [lit ''log = 1''] (scanConnection [lit ''log = 1'']) [(lit ''log.to'', [51])]
     (lit ''log.to'') init_merge of Some mg \<Rightarrow> [mg] | None \<Rightarrow> []) = [[lit ''log.to'']]"
  by code_simp+

lemma ex_refused: "mergeConnection ex_inline ex_gen [lit ''log.to''] = Refused [lit ''log.to'']"
  using ex_inline_eval(3)
  by (auto simp: mergeConnection_def Let_def ex_inline_eval(1,2) ex_eval(4,5) split: option.splits)

subsection \<open>Properties\<close>



text \<open>C5. A merge keeps, in order and unchanged, every line of the file that is not blank, not a table
  header and not part of an entry whose key, or whose inline table, the touched keys reach: comments,
  templates, tunnels, unknown keys.\<close>

theorem merge_keeps_other_lines:
  assumes "mergeConnection s g touched = Merged t"
  shows "\<exists>outs. t = join (merge_eol s) outs \<and> subseq (kept_lines s touched) outs"
  using assms by (rule merge_keeps)

theorem merge_keeps_other_lines_witness:
  "\<exists>outs. join [c_nl] ex_out = join (merge_eol ex_file) outs \<and> subseq [lit ''# head'', lit ''b = 2''] outs"
  using merge_keeps_other_lines [OF ex_merged] by (simp add: ex_kept)


definition ex_entry :: entry where
  "ex_entry = \<lparr>e_key = lit ''a'', e_table = [], e_start = 0, e_end = 0, e_eq = 2\<rparr>"

lemma ex_entry_eval:
  "merge_entry [lit ''a = 1 # n''] (Some (str [c_hash])) ex_entry init_merge
     = Some (init_merge\<lparr>mg_put := [(0, lit ''a = '' @ [c_dq, c_hash, c_dq] @ lit '' # n'')]\<rparr>)"
  "entry_ok [lit ''a = 1 # n''] ex_entry"
  by code_simp+


text \<open>C7. A refused merge writes nothing and names at least one key, and only keys that were asked for
  and have a value in the generated configuration.\<close>

theorem refused_keys_were_asked:
  assumes "mergeConnection s g touched = Refused ks"
  shows "ks \<noteq> [] \<and> set ks \<subseteq> set touched \<inter> fst ` set (generatedRaws g)"
  using assms by (rule merge_refuses)

theorem refused_keys_were_asked_witness:
  "set [lit ''log.to''] \<subseteq> fst ` set (generatedRaws ex_gen)"
  using refused_keys_were_asked [OF ex_refused] by simp

end
