(* ===== verification/Toml_Tunnels.thy ===== *)
theory Toml_Tunnels imports Toml_Addr begin

text \<open>
  Tunnels and visitors of \<open>toml.js\<close>: the entries of the interface read from the blocks of a file
  (\<open>proxyFromBlock\<close>, \<open>visitorFromBlock\<close>), the TCP + UDP pairs (\<open>splitPair\<close>, \<open>pairProxies\<close>),
  the names frpc creates, the blocks written back (\<open>generateProxy\<close>, \<open>generateVisitor\<close>) and the
  whole file (\<open>composeClientConfig\<close>). The counter of \<open>uid\<close> is passed along.
\<close>

subsection \<open>Types\<close>

definition t_tcp :: jstr where "t_tcp = lit ''tcp''"
definition t_udp :: jstr where "t_udp = lit ''udp''"
definition TCP_UDP :: jstr where "TCP_UDP = lit ''both''"

definition PROXY_TYPES :: "jstr list" where
  "PROXY_TYPES = map lit [''tcp'', ''udp'', ''http'', ''https'', ''stcp'', ''xtcp'']"

definition hasRemotePort :: "jstr \<Rightarrow> bool" where
  "hasRemotePort ty \<longleftrightarrow> ty = t_tcp \<or> ty = t_udp \<or> ty = TCP_UDP"

definition hasDomains :: "jstr \<Rightarrow> bool" where
  "hasDomains ty \<longleftrightarrow> ty = lit ''http'' \<or> ty = lit ''https''"

definition hasSecret :: "jstr \<Rightarrow> bool" where
  "hasSecret ty \<longleftrightarrow> ty = lit ''stcp'' \<or> ty = lit ''xtcp''"

definition PROXY_KEYS :: "jstr list" where
  "PROXY_KEYS = map lit [''name'', ''type'', ''localIP'', ''localPort'', ''remotePort'', ''customDomains'',
     ''secretKey'', ''transport.useCompression'', ''transport.useEncryption'',
     ''transport.proxyProtocolVersion'']"

definition VISITOR_KEYS :: "jstr list" where
  "VISITOR_KEYS = map lit [''name'', ''type'', ''serverName'', ''secretKey'', ''bindAddr'', ''bindPort'']"

text \<open>\<open>notes\<close> and the \<open>udp\<close> fields are missing (\<open>None\<close>) on the objects that do not have them.\<close>

record proxy =
  p_uid :: nat
  p_name :: jstr
  p_type :: jstr
  p_localIP :: jstr
  p_localPort :: jstr
  p_remotePort :: jstr
  p_domains :: jstr
  p_secretKey :: jstr
  p_proxyProtocol :: jstr
  p_compression :: bool
  p_encryption :: bool
  p_extras :: "(jstr \<times> jstr) list"
  p_cmts :: "jstr list"
  p_notes :: "notemap option"
  p_udpComments :: "jstr list option"
  p_udpNotes :: "notemap option"

record visitor =
  v_uid :: nat
  v_name :: jstr
  v_type :: jstr
  v_serverName :: jstr
  v_secretKey :: jstr
  v_bindAddr :: jstr
  v_bindPort :: jstr
  v_serverPorts :: jstr
  v_extras :: "(jstr \<times> jstr) list"
  v_comments :: "jstr list"
  v_notes :: "notemap option"

definition isRanged :: "proxy \<Rightarrow> bool" where
  "isRanged p \<longleftrightarrow> isPortRange (p_localPort p) \<or> (hasRemotePort (p_type p) \<and> isPortRange (p_remotePort p))"

definition isVisitorRanged :: "visitor \<Rightarrow> bool" where
  "isVisitorRanged v \<longleftrightarrow> isPortRange (v_bindPort v)"

subsection \<open>Entries from blocks\<close>

text \<open>A value of a block, the empty text when it is missing (\<open>v.key || ''\<close>).\<close>

definition bval :: "block \<Rightarrow> string \<Rightarrow> jstr" where
  "bval b k = (case map_of (b_vals b) (lit k) of Some v \<Rightarrow> v | None \<Rightarrow> [])"

definition or_else :: "jstr \<Rightarrow> jstr \<Rightarrow> jstr" where
  "or_else s d = (if s \<noteq> [] then s else d)"

definition extrasOf :: "block \<Rightarrow> jstr list \<Rightarrow> (jstr \<times> jstr) list" where
  "extrasOf b known = map (\<lambda>k. (k, case map_of (b_raw b) k of Some r \<Rightarrow> r | None \<Rightarrow> []))
     (filter (\<lambda>k. k \<notin> set known) (b_order b))"

text \<open>\<open>s.replace(new RegExp(`-?${LOOP}$`), '')\<close>: the first match, if any, is removed.\<close>

definition drop_suffix :: "re \<Rightarrow> jstr \<Rightarrow> jstr" where
  "drop_suffix loop s = (case exec (seq_r [opt_r (chr_r c_dash), loop, REnd]) s 0 of
     None \<Rightarrow> s | Some m \<Rightarrow> cut_out s (m_index m) (m_end m))"

definition domain_list :: "jstr \<Rightarrow> jstr list" where
  "domain_list s = truthy (map trim (split_on c_comma s))"

definition comma_join :: "jstr list \<Rightarrow> jstr" where
  "comma_join = join [c_comma, c_sp]"

definition block_domains :: "block \<Rightarrow> jstr" where
  "block_domains b = comma_join (domain_list
     (filter (\<lambda>c. \<not> is_quote c \<and> c \<noteq> c_lb \<and> c \<noteq> c_rb) (bval b ''customDomains'')))"

definition proxyFromBlock :: "block \<Rightarrow> nat \<Rightarrow> proxy \<times> nat" where
  "proxyFromBlock b seq =
     (let range = b_range b; domains = block_domains b; ty = bval b ''type'';
          remote = intText (bval b ''remotePort'')
      in (\<lparr>p_uid = seq + 1,
           p_name = (if range \<noteq> None then drop_suffix LOOP_FIRST (bval b ''name'') else bval b ''name''),
           p_type = (if ty \<in> set PROXY_TYPES then ty else or_else ty t_tcp),
           p_localIP = or_else (bval b ''localIP'') (lit ''127.0.0.1''),
           p_localPort = (case range of Some (local, _) \<Rightarrow> local | None \<Rightarrow> intText (bval b ''localPort'')),
           p_remotePort = (case range of Some (_, rem) \<Rightarrow> rem
             | None \<Rightarrow> if num_true (toNumber remote) then remote else []),
           p_domains = (if range \<noteq> None then replaceAll LOOP_FIRST (\<lambda>_. PORT_TOKEN) domains else domains),
           p_secretKey = bval b ''secretKey'',
           p_proxyProtocol = bval b ''transport.proxyProtocolVersion'',
           p_compression = (bval b ''transport.useCompression'' = lit ''true''),
           p_encryption = (bval b ''transport.useEncryption'' = lit ''true''),
           p_extras = extrasOf b PROXY_KEYS, p_cmts = b_comments b, p_notes = Some (b_notes b),
           p_udpComments = None, p_udpNotes = None\<rparr>, seq + 1))"

definition visitorFromBlock :: "block \<Rightarrow> nat \<Rightarrow> visitor \<times> nat" where
  "visitorFromBlock b seq =
     (let range = b_range b
      in (\<lparr>v_uid = seq + 1,
           v_name = (if range \<noteq> None then drop_suffix LOOP_FIRST (bval b ''name'') else bval b ''name''),
           v_type = or_else (bval b ''type'') (lit ''stcp''),
           v_serverName = (if range \<noteq> None then drop_suffix LOOP_SECOND (bval b ''serverName'')
                           else bval b ''serverName''),
           v_secretKey = bval b ''secretKey'',
           v_bindAddr = or_else (bval b ''bindAddr'') (lit ''127.0.0.1''),
           v_bindPort = (case range of Some (local, _) \<Rightarrow> local | None \<Rightarrow> intText (bval b ''bindPort'')),
           v_serverPorts = (case range of Some (local, rem) \<Rightarrow> if rem \<noteq> [] \<and> rem \<noteq> local then rem else []
             | None \<Rightarrow> []),
           v_extras = extrasOf b VISITOR_KEYS, v_comments = b_comments b, v_notes = Some (b_notes b)\<rparr>, seq + 1))"

definition newProxy :: "nat \<Rightarrow> proxy \<times> nat" where
  "newProxy seq = (\<lparr>p_uid = seq + 1, p_name = [], p_type = t_tcp, p_localIP = lit ''127.0.0.1'', p_localPort = [],
     p_remotePort = [], p_domains = [], p_secretKey = [], p_proxyProtocol = [], p_compression = False,
     p_encryption = False, p_extras = [], p_cmts = [], p_notes = None, p_udpComments = None,
     p_udpNotes = None\<rparr>, seq + 1)"

definition newVisitor :: "nat \<Rightarrow> visitor \<times> nat" where
  "newVisitor seq = (\<lparr>v_uid = seq + 1, v_name = [], v_type = lit ''stcp'', v_serverName = [], v_secretKey = [],
     v_bindAddr = lit ''127.0.0.1'', v_bindPort = [], v_serverPorts = [], v_extras = [], v_comments = [],
     v_notes = None\<rparr>, seq + 1)"

subsection \<open>TCP + UDP pairs\<close>

definition splitPair :: "proxy \<Rightarrow> proxy list" where
  "splitPair p = (if p_type p \<noteq> TCP_UDP then [p]
     else (let q = p\<lparr>p_udpComments := None, p_udpNotes := None\<rparr>
           in [q\<lparr>p_name := p_name p @ lit ''-tcp'', p_type := t_tcp\<rparr>,
               q\<lparr>p_name := p_name p @ lit ''-udp'', p_type := t_udp,
                 p_cmts := (case p_udpComments p of Some c \<Rightarrow> c | None \<Rightarrow> []),
                 p_notes := (case p_udpNotes p of Some n \<Rightarrow> Some n | None \<Rightarrow> p_notes q)\<rparr>]))"

text \<open>\<open>rest\<close>: everything but the identity, the name, the type and the comments. Whether \<open>notes\<close> is
  there decides the place of its key in the serialised object.\<close>

definition same_rest :: "proxy \<Rightarrow> proxy \<Rightarrow> bool" where
  "same_rest p q \<longleftrightarrow>
     p_localIP p = p_localIP q \<and> p_localPort p = p_localPort q \<and> p_remotePort p = p_remotePort q
     \<and> p_domains p = p_domains q \<and> p_secretKey p = p_secretKey q \<and> p_proxyProtocol p = p_proxyProtocol q
     \<and> p_compression p = p_compression q \<and> p_encryption p = p_encryption q \<and> p_extras p = p_extras q
     \<and> (p_notes p = None \<longleftrightarrow> p_notes q = None)"

text \<open>\<open>/^(.+)-tcp$/.exec(p.name)?.[1]\<close> of a tcp tunnel with a public port.\<close>

definition tcp_base :: "proxy \<Rightarrow> jstr option" where
  "tcp_base p = (let n = p_name p; base = take (length n - 4) n
     in if p_type p = t_tcp \<and> p_remotePort p \<noteq> [] \<and> endsWith n (lit ''-tcp'') \<and> base \<noteq> []
           \<and> list_all (\<lambda>c. \<not> is_lt c) base then Some base else None)"

text \<open>The objects are told apart by their position; \<open>mates\<close> maps a position to the one of its mate.\<close>

definition mate_at :: "proxy list \<Rightarrow> (nat \<times> nat) list \<Rightarrow> proxy \<Rightarrow> jstr \<Rightarrow> nat option" where
  "mate_at ps mates p base = find (\<lambda>j. p_type (ps ! j) = t_udp \<and> p_name (ps ! j) = base @ lit ''-udp''
     \<and> map_of mates j = None \<and> same_rest (ps ! j) p) [0..<length ps]"

definition mates_step :: "proxy list \<Rightarrow> nat \<Rightarrow> (nat \<times> nat) list \<Rightarrow> (nat \<times> nat) list" where
  "mates_step ps i mates = (case tcp_base (ps ! i) of None \<Rightarrow> mates
     | Some base \<Rightarrow> if map_of mates i \<noteq> None then mates
         else (case mate_at ps mates (ps ! i) base of None \<Rightarrow> mates
           | Some j \<Rightarrow> (i, j) # (j, i) # mates))"

definition mates_of :: "proxy list \<Rightarrow> (nat \<times> nat) list" where
  "mates_of ps = fold (mates_step ps) [0..<length ps] []"

definition join_pair :: "proxy \<Rightarrow> proxy \<Rightarrow> proxy" where
  "join_pair tcp udp = tcp\<lparr>p_name := take (length (p_name tcp) - 4) (p_name tcp), p_type := TCP_UDP,
     p_udpComments := Some (p_cmts udp),
     p_udpNotes := Some (case p_notes udp of Some n \<Rightarrow> n | None \<Rightarrow> [])\<rparr>"

fun pair_out :: "proxy list \<Rightarrow> (nat \<times> nat) list \<Rightarrow> nat list \<Rightarrow> nat list \<Rightarrow> proxy list" where
  "pair_out ps mates don [] = []"
| "pair_out ps mates don (i # is) =
     (if i \<in> set don then pair_out ps mates don is
      else (case map_of mates i of
          None \<Rightarrow> ps ! i # pair_out ps mates don is
        | Some j \<Rightarrow>
            (if p_type (ps ! i) = t_tcp then join_pair (ps ! i) (ps ! j) else join_pair (ps ! j) (ps ! i))
              # pair_out ps mates (j # don) is))"

definition pairProxies :: "proxy list \<Rightarrow> proxy list" where
  "pairProxies ps = pair_out ps (mates_of ps) [] [0..<length ps]"

subsection \<open>Names frpc creates\<close>

definition own_names :: "proxy \<Rightarrow> jstr list" where
  "own_names p = (if isRanged p then rangeNames (p_name p) (p_localPort p) else [p_name p])"

text \<open>The two tunnels of a pair are tcp and udp: the recursion of the source goes one level down.\<close>

definition frpcNames :: "proxy \<Rightarrow> jstr list" where
  "frpcNames p = (if p_type p = TCP_UDP then concat (map own_names (splitPair p)) else own_names p)"

definition visitorNames :: "visitor \<Rightarrow> jstr list" where
  "visitorNames v = (if isVisitorRanged v then rangeNames (v_name v) (v_bindPort v) else [v_name v])"

subsection \<open>Blocks written back\<close>

text \<open>\<open>s.split(t).join(u)\<close> for a non-empty \<open>t\<close>.\<close>

function replace_sub :: "jstr \<Rightarrow> jstr \<Rightarrow> jstr \<Rightarrow> jstr" where
  "replace_sub t u [] = []"
| "replace_sub t u (c # s) =
     (if t \<noteq> [] \<and> startsWith (c # s) t then u @ replace_sub t u (drop (length t - 1) s)
      else c # replace_sub t u s)"
  by pat_completeness auto
termination
  by (relation "measure (\<lambda>(t, u, s). length s)") auto

definition extra_line :: "jstr \<times> jstr \<Rightarrow> jstr" where
  "extra_line kr = fst kr @ lit '' = '' @ snd kr"

definition annotated :: "jstr list \<Rightarrow> notemap option \<Rightarrow> jstr list" where
  "annotated ls nm = (case nm of None \<Rightarrow> ls | Some n \<Rightarrow> annotate ls n)"

definition range_pair_head :: "jstr \<Rightarrow> jstr \<Rightarrow> jstr" where
  "range_pair_head a b = lit ''{{- range $_, $v := parseNumberRangePair '' @ [c_dq] @ a @ [c_dq, c_sp, c_dq] @ b
     @ [c_dq] @ lit '' }}''"

definition range_head :: "jstr \<Rightarrow> jstr" where
  "range_head a = lit ''{{- range $_, $v := parseNumberRange '' @ [c_dq] @ a @ [c_dq] @ lit '' }}''"

definition domains_line :: "bool \<Rightarrow> jstr \<Rightarrow> jstr \<Rightarrow> jstr" where
  "domains_line ranged port domains = lit ''customDomains = ['' @
     comma_join (map (\<lambda>d. if ranged then replace_sub PORT_TOKEN port (str d) else str d) (domain_list domains))
     @ [c_rb]"

definition proxy_lines :: "proxy \<Rightarrow> jstr list" where
  "proxy_lines p =
     (let ranged = isRanged p; pair = ranged \<and> hasRemotePort (p_type p);
          port = lit (if pair then ''{{ $v.First }}'' else ''{{ $v }}'')
      in (if ranged
          then [if pair then range_pair_head (p_localPort p) (p_remotePort p) else range_head (p_localPort p),
                lit ''[[proxies]]'', lit ''name = '' @ str (p_name p @ [c_dash] @ port),
                lit ''type = '' @ str (p_type p)]
          else [lit ''[[proxies]]'', lit ''name = '' @ str (p_name p), lit ''type = '' @ str (p_type p)])
         @ (if p_localIP p \<noteq> [] then [lit ''localIP = '' @ str (unbracket (Some (p_localIP p)))] else [])
         @ (if ranged then [lit ''localPort = '' @ port]
            else if p_localPort p \<noteq> [] then [lit ''localPort = '' @ p_localPort p] else [])
         @ (if pair then [lit ''remotePort = {{ $v.Second }}'']
            else if hasRemotePort (p_type p) \<and> p_remotePort p \<noteq> [] then [lit ''remotePort = '' @ p_remotePort p] else [])
         @ (if hasDomains (p_type p) \<and> p_domains p \<noteq> [] then [domains_line ranged port (p_domains p)] else [])
         @ (if hasSecret (p_type p) \<and> p_secretKey p \<noteq> [] then [lit ''secretKey = '' @ str (p_secretKey p)] else [])
         @ (if p_compression p then [lit ''transport.useCompression = true''] else [])
         @ (if p_encryption p then [lit ''transport.useEncryption = true''] else [])
         @ (if p_proxyProtocol p \<noteq> [] then [lit ''transport.proxyProtocolVersion = '' @ str (p_proxyProtocol p)] else [])
         @ map extra_line (p_extras p)
         @ (if ranged then [lit ''{{- end }}''] else []))"

definition generateProxy :: "proxy \<Rightarrow> jstr" where
  "generateProxy p = join [c_nl] (p_cmts p @ annotated (proxy_lines p) (p_notes p))"

definition visitor_lines :: "visitor \<Rightarrow> jstr list" where
  "visitor_lines v =
     (let ranged = isVisitorRanged v
      in (if ranged
          then [range_pair_head (v_bindPort v) (or_else (v_serverPorts v) (v_bindPort v)), lit ''[[visitors]]'',
                lit ''name = '' @ str (v_name v @ lit ''-{{ $v.First }}''), lit ''type = '' @ str (v_type v)]
          else [lit ''[[visitors]]'', lit ''name = '' @ str (v_name v), lit ''type = '' @ str (v_type v)])
         @ (if v_serverName v \<noteq> []
            then [lit ''serverName = '' @ str (if ranged then v_serverName v @ lit ''-{{ $v.Second }}'' else v_serverName v)]
            else [])
         @ (if v_secretKey v \<noteq> [] then [lit ''secretKey = '' @ str (v_secretKey v)] else [])
         @ (if v_bindAddr v \<noteq> [] then [lit ''bindAddr = '' @ str (unbracket (Some (v_bindAddr v)))] else [])
         @ (if ranged then [lit ''bindPort = {{ $v.First }}'']
            else if v_bindPort v \<noteq> [] then [lit ''bindPort = '' @ v_bindPort v] else [])
         @ map extra_line (v_extras v)
         @ (if ranged then [lit ''{{- end }}''] else []))"

definition generateVisitor :: "visitor \<Rightarrow> jstr" where
  "generateVisitor v = join [c_nl] (v_comments v @ annotated (visitor_lines v) (v_notes v))"

subsection \<open>The whole file\<close>

text \<open>\<open>text.replace(/\r?\n/g, '\r\n')\<close>\<close>

definition to_crlf :: "jstr \<Rightarrow> jstr" where
  "to_crlf s = join crlf (splitLines s)"

definition client_blocks :: "proxy list \<Rightarrow> visitor list \<Rightarrow> jstr list" where
  "client_blocks proxies visitors = map generateProxy (concat (map splitPair proxies))
     @ map generateVisitor (filter (\<lambda>v. v_name v \<noteq> []) visitors)"

definition composeClientConfig :: "jstr \<Rightarrow> proxy list \<Rightarrow> visitor list \<Rightarrow> jstr option" where
  "composeClientConfig base0 proxies visitors =
     (let baseText = prep base0; blocks0 = client_blocks proxies visitors;
          base1 = unbracketConnection (stripBlocks baseText)
      in case parseToml baseText of None \<Rightarrow> None
         | Some cfg \<Rightarrow>
             (let tr = o_trailing cfg; none = (findBlock baseText = None);
                  moved = (none \<and> blocks0 \<noteq> [] \<and> tr \<noteq> []);
                  base = (if moved then dropTrailingComments base1 else base1);
                  blocks = (if moved then join [c_nl] (tr @ [hd blocks0]) # tl blocks0 else blocks0);
                  trailing = (if none then [] else join [c_nl] tr);
                  out = join [c_nl, c_nl] (truthy ([base, tablesAfterBlocks baseText] @ blocks @ [trailing])) @ [c_nl]
              in Some (if includesStr baseText crlf then to_crlf out else out)))"

end
