(* ===== verification/Json.thy ===== *)
theory Json imports Toml_Strings begin

text \<open>
  \<open>JSON.parse\<close> as the sources use it: objects keep their members (the last of two equal keys wins),
  numbers keep their text. The recursion carries a fuel; twice the length of the text and two more are enough
  of it (\<open>Json_Fuel\<close>), since each nested call follows at least one unit read. \<open>None\<close> is the \<open>SyntaxError\<close>.
\<close>

datatype json = JNull | JBool bool | JNum jstr | JStr jstr | JArr "json list" | JObj "(jstr \<times> json) list"

definition json_ws :: "nat \<Rightarrow> bool" where
  "json_ws c \<longleftrightarrow> c = 32 \<or> c = 9 \<or> c = 10 \<or> c = 13"

definition json_skip :: "jstr \<Rightarrow> jstr" where
  "json_skip s = dropWhile json_ws s"

definition json_escape :: "nat \<Rightarrow> nat option" where
  "json_escape d = map_of [(c_dq, c_dq), (c_bs, c_bs), (47, 47), (98, 8), (102, 12), (110, 10), (114, 13), (116, 9)] d"

text \<open>The units of a string after its opening quote, and the text after the closing one.\<close>

fun json_chars :: "jstr \<Rightarrow> (jstr \<times> jstr) option" where
  "json_chars [] = None"
| "json_chars (c # s) =
     (if c = c_dq then Some ([], s)
      else if c < 32 then None
      else if c = c_bs then
        (case s of [] \<Rightarrow> None
         | d # t \<Rightarrow>
           (case json_escape d of Some u \<Rightarrow> map_option (apfst (Cons u)) (json_chars t)
            | None \<Rightarrow> if d = 117 \<and> hex_run 4 t
                then map_option (apfst (Cons (parseHex (take 4 t)))) (json_chars (drop 4 t)) else None))
      else map_option (apfst (Cons c)) (json_chars s))"

definition digit_run :: "jstr \<Rightarrow> jstr" where
  "digit_run s = takeWhile is_digit s"

text \<open>\<open>-?(0|[1-9]\d*)(\.\d+)?([eE][+-]?\d+)?\<close>: number of units, \<open>None\<close> when there is no number.\<close>

definition int_part :: "jstr \<Rightarrow> nat option" where
  "int_part s = (let d = digit_run s in
     if d = [] then None else if hd d = 48 then Some 1 else Some (length d))"

definition frac_part :: "jstr \<Rightarrow> nat" where
  "frac_part s = (case s of c # t \<Rightarrow> (if c = c_dot \<and> digit_run t \<noteq> [] then 1 + length (digit_run t) else 0) | [] \<Rightarrow> 0)"

definition exp_part :: "jstr \<Rightarrow> nat" where
  "exp_part s = (case s of
     c # t \<Rightarrow>
       (if c = 101 \<or> c = 69 then
          (let k = (case t of d # _ \<Rightarrow> (if d = 43 \<or> d = c_dash then 1 else 0) | [] \<Rightarrow> 0); r = digit_run (drop k t)
           in if r = [] then 0 else 1 + k + length r)
        else 0)
   | [] \<Rightarrow> 0)"

definition json_number :: "jstr \<Rightarrow> nat option" where
  "json_number s =
     (let k = (if startsWith s [c_dash] then 1 else 0)
      in case int_part (drop k s) of None \<Rightarrow> None
         | Some i \<Rightarrow> let f = frac_part (drop (k + i) s) in Some (k + i + f + exp_part (drop (k + i + f) s)))"

fun json_value :: "nat \<Rightarrow> jstr \<Rightarrow> (json \<times> jstr) option"
  and json_items :: "nat \<Rightarrow> jstr \<Rightarrow> json list \<Rightarrow> (json \<times> jstr) option"
  and json_members :: "nat \<Rightarrow> jstr \<Rightarrow> (jstr \<times> json) list \<Rightarrow> (json \<times> jstr) option" where
  "json_value 0 s = None"
| "json_value (Suc n) s0 = (case json_skip s0 of
     [] \<Rightarrow> None
   | c # s \<Rightarrow>
       if c = c_lc then
         (if startsWith (json_skip s) [c_rc] then Some (JObj [], tl (json_skip s)) else json_members n s [])
       else if c = c_lb then
         (if startsWith (json_skip s) [c_rb] then Some (JArr [], tl (json_skip s)) else json_items n s [])
       else if c = c_dq then map_option (apfst JStr) (json_chars s)
       else if startsWith (c # s) (lit ''true'') then Some (JBool True, drop 3 s)
       else if startsWith (c # s) (lit ''false'') then Some (JBool False, drop 4 s)
       else if startsWith (c # s) (lit ''null'') then Some (JNull, drop 3 s)
       else map_option (\<lambda>k. (JNum (take k (c # s)), drop k (c # s))) (json_number (c # s)))"
| "json_items 0 s xs = None"
| "json_items (Suc n) s xs = (case json_value n s of
     None \<Rightarrow> None
   | Some (v, r) \<Rightarrow> (case json_skip r of
       [] \<Rightarrow> None
     | c # t \<Rightarrow> if c = c_rb then Some (JArr (xs @ [v]), t)
                else if c = c_comma then json_items n t (xs @ [v]) else None))"
| "json_members 0 s ms = None"
| "json_members (Suc n) s ms = (case json_skip s of
     [] \<Rightarrow> None
   | q # s1 \<Rightarrow>
       if q \<noteq> c_dq then None
       else (case json_chars s1 of
           None \<Rightarrow> None
         | Some (k, r) \<Rightarrow> (case json_skip r of
             [] \<Rightarrow> None
           | c # t \<Rightarrow>
               if c \<noteq> c_colon then None
               else (case json_value n t of
                   None \<Rightarrow> None
                 | Some (v, r2) \<Rightarrow> (case json_skip r2 of
                     [] \<Rightarrow> None
                   | d # u \<Rightarrow> if d = c_rc then Some (JObj (obj_set k v ms), u)
                              else if d = c_comma then json_members n u (obj_set k v ms) else None)))))"

definition parseJson :: "jstr \<Rightarrow> json option" where
  "parseJson s = (case json_value (2 * length s + 2) s of
     Some (v, r) \<Rightarrow> if json_skip r = [] then Some v else None | None \<Rightarrow> None)"

declare json_value.simps [simp del] json_items.simps [simp del] json_members.simps [simp del]

lemma json_skip_Nil [simp]: "json_skip [] = []"
  by (simp add: json_skip_def)

lemma json_skip_unit [simp]: "\<not> json_ws c \<Longrightarrow> json_skip (c # s) = c # s"
  by (simp add: json_skip_def)

text \<open>A string without quotes, backslashes and control characters is read as it is written.\<close>

lemma json_chars_plain:
  "list_all (\<lambda>c. c \<noteq> c_dq \<and> c \<noteq> c_bs \<and> 32 \<le> c) v \<Longrightarrow> json_chars (v @ c_dq # s) = Some (v, s)"
  by (induction v) auto

end
