(* ===== verification/Js_Text.thy ===== *)
theory Js_Text imports Prelude begin

text \<open>
  Texts as bytes and in lower case: the UTF-8 encoding of \<open>TextEncoder\<close> and of query strings, and
  \<open>toLowerCase\<close> on ASCII letters.
\<close>

definition lower :: "jstr \<Rightarrow> jstr" where
  "lower s = map (\<lambda>c. if 65 \<le> c \<and> c \<le> 90 then c + 32 else c) s"

text \<open>\<open>TextEncoder\<close>: UTF-8, a lone surrogate is encoded as U+FFFD.\<close>

definition utf8_point :: "nat \<Rightarrow> nat list" where
  "utf8_point p = (if p < 128 then [p]
     else if p < 2048 then [192 + p div 64, 128 + p mod 64]
     else if p < 65536 then [224 + p div 4096, 128 + p div 64 mod 64, 128 + p mod 64]
     else [240 + p div 262144, 128 + p div 4096 mod 64, 128 + p div 64 mod 64, 128 + p mod 64])"

definition high_surrogate :: "nat \<Rightarrow> bool" where
  "high_surrogate c \<longleftrightarrow> 55296 \<le> c \<and> c \<le> 56319"

definition low_surrogate :: "nat \<Rightarrow> bool" where
  "low_surrogate c \<longleftrightarrow> 56320 \<le> c \<and> c \<le> 57343"

fun points :: "jstr \<Rightarrow> nat list" where
  "points [] = []"
| "points [c] = [if high_surrogate c \<or> low_surrogate c then 65533 else c]"
| "points (c # d # s) =
     (if high_surrogate c \<and> low_surrogate d then (65536 + (c - 55296) * 1024 + (d - 56320)) # points s
      else (if high_surrogate c \<or> low_surrogate c then 65533 else c) # points (d # s))"

definition utf8 :: "jstr \<Rightarrow> nat list" where
  "utf8 s = concat (map utf8_point (points s))"

lemma points_ascii: "list_all (\<lambda>c. c < 128) s \<Longrightarrow> points s = s"
  by (induction s rule: points.induct) (auto simp: high_surrogate_def low_surrogate_def)

lemma utf8_ascii: "list_all (\<lambda>c. c < 128) s \<Longrightarrow> utf8 s = s"
proof -
  assume a: "list_all (\<lambda>c. c < 128) s"
  then have "concat (map utf8_point s) = s"
    by (induction s) (simp_all add: utf8_point_def)
  with a show ?thesis by (simp add: utf8_def points_ascii)
qed

end
