(* ===== verification/Stats_Logic.thy ===== *)
theory Stats_Logic imports Json Toml_Addr "HOL-Library.Word" Js_Text begin

unbundle bit_operations_syntax

text \<open>
  The rules of the statistics receiver (\<open>tools/stats-worker/logic.js\<close>): the counter key of a ping,
  days, the redirection of the old host name, the comparison of secrets and the password of the
  private area.

  A date is its number of milliseconds since 1970, from 1970 on; \<open>toISOString\<close> counts the years and
  months from there. A URL is the record of the parts the sources read; parsing it, base64 and UTF-8
  decoding and SHA-256 belong to the platform and are parameters.
\<close>

definition KEEP_DAYS :: nat where "KEEP_DAYS = 400"
definition PER_IP_DAY :: nat where "PER_IP_DAY = 30"
definition MAX_PER_DAY :: nat where "MAX_PER_DAY = 5000"
definition MAX_BODY :: nat where "MAX_BODY = 1024"
definition PRIVE_MAX_FAILS :: nat where "PRIVE_MAX_FAILS = 10"
definition PRIVE_FAIL_WINDOW :: int where "PRIVE_FAIL_WINDOW = 600"

subsection \<open>The key of a ping\<close>

definition alnum :: "nat \<Rightarrow> bool" where
  "alnum c \<longleftrightarrow> is_alpha c \<or> is_digit c"

abbreviation digits_r :: re where "digits_r \<equiv> rep_r 1 4 (RCls is_digit)"

text \<open>\<open>/^[0-9]{1,4}\.[0-9]{1,4}\.[0-9]{1,4}(-[0-9A-Za-z.]{1,20})?(\+[0-9A-Za-z.-]{1,60})?$/\<close>\<close>

definition VERSION_RE :: re where
  "VERSION_RE = seq_r [RStart, digits_r, chr_r c_dot, digits_r, chr_r c_dot, digits_r,
     opt_r (RCap 1 (RSeq (chr_r c_dash) (rep_r 1 20 (RCls (\<lambda>c. alnum c \<or> c = c_dot))))),
     opt_r (RCap 2 (RSeq (chr_r 43) (rep_r 1 60 (RCls (\<lambda>c. alnum c \<or> c = c_dot \<or> c = c_dash))))), REnd]"

definition ARCHS :: "jstr list" where
  "ARCHS = map lit [''amd64'', ''arm64'', ''arm'']"

definition INSTALLS :: "jstr list" where
  "INSTALLS = map lit [''script'', ''apt'', ''docker'']"

definition countedVersion :: "jstr \<Rightarrow> jstr" where
  "countedVersion v = (case indexOf v [43] of None \<Rightarrow> v
     | Some i \<Rightarrow> if startsWith (drop (i + 1) v) (lit ''dev'') then take i v @ lit ''+dev'' else take i v)"

definition str_member :: "(jstr \<times> json) list \<Rightarrow> string \<Rightarrow> jstr option" where
  "str_member ms k = (case map_of ms (lit k) of Some (JStr s) \<Rightarrow> Some s | _ \<Rightarrow> None)"

text \<open>The body is a string; an unknown version, architecture or install method gives \<open>null\<close>.\<close>

definition pingKey :: "jstr \<Rightarrow> jstr option" where
  "pingKey body = (if length body > MAX_BODY then None
     else (case parseJson body of
         Some (JObj ms) \<Rightarrow>
           (case (str_member ms ''version'', str_member ms ''arch'', str_member ms ''install'') of
              (Some version, Some arch, Some install) \<Rightarrow>
                if test VERSION_RE version \<and> arch \<in> set ARCHS \<and> install \<in> set INSTALLS
                then Some (countedVersion version @ [c_bar] @ arch @ [c_bar] @ install) else None
            | _ \<Rightarrow> None)
       | _ \<Rightarrow> None))"

subsection \<open>Days\<close>

definition leap :: "nat \<Rightarrow> bool" where
  "leap y \<longleftrightarrow> y mod 4 = 0 \<and> (y mod 100 \<noteq> 0 \<or> y mod 400 = 0)"

definition year_days :: "nat \<Rightarrow> nat" where
  "year_days y = (if leap y then 366 else 365)"

definition month_days :: "nat \<Rightarrow> nat list" where
  "month_days y = [31, if leap y then 29 else 28, 31, 30, 31, 30, 31, 31, 30, 31, 30, 31]"

lemma year_days_pos [simp]: "0 < year_days y"
  by (simp add: year_days_def)

function year_of :: "nat \<Rightarrow> nat \<Rightarrow> nat \<times> nat" where
  "year_of y d = (if d < year_days y then (y, d) else year_of (y + 1) (d - year_days y))"
  by pat_completeness auto
termination
proof (relation "measure snd")
  fix y d
  assume "\<not> d < year_days y"
  with year_days_pos [of y] show "((y + 1, d - year_days y), (y, d)) \<in> measure snd"
    by (simp del: year_days_pos)
qed simp

declare year_of.simps [simp del]

fun month_of :: "nat list \<Rightarrow> nat \<Rightarrow> nat \<Rightarrow> nat \<times> nat" where
  "month_of [] m d = (m, d)"
| "month_of (l # ls) m d = (if d < l then (m, d) else month_of ls (m + 1) (d - l))"

definition pad2 :: "nat \<Rightarrow> jstr" where
  "pad2 n = [48 + n div 10 mod 10, 48 + n mod 10]"

definition pad4 :: "nat \<Rightarrow> jstr" where
  "pad4 n = [48 + n div 1000 mod 10, 48 + n div 100 mod 10, 48 + n div 10 mod 10, 48 + n mod 10]"

text \<open>\<open>YYYY-MM-DD\<close> of a day counted from 1970-01-01, up to the year 9999.\<close>

definition day_text :: "nat \<Rightarrow> jstr" where
  "day_text d = (let (y, r) = year_of 1970 d; (m, e) = month_of (month_days y) 1 r
     in pad4 y @ [c_dash] @ pad2 m @ [c_dash] @ pad2 (e + 1))"

definition dayOf :: "nat \<Rightarrow> jstr" where
  "dayOf ms = day_text (ms div 86400000)"

definition oldestKept :: "nat \<Rightarrow> jstr" where
  "oldestKept ms = dayOf (ms - KEEP_DAYS * 86400000)"

subsection \<open>Redirection of the old host name\<close>

record url =
  u_hostname :: jstr
  u_pathname :: jstr
  u_search :: jstr
  u_origin :: jstr

text \<open>\<open>s.replace(/\/+$/, '')\<close>\<close>

definition no_end_slash :: "jstr \<Rightarrow> jstr" where
  "no_end_slash s = rev (dropWhile (\<lambda>c. c = 47) (rev s))"

definition drop_final_dot :: "jstr \<Rightarrow> jstr" where
  "drop_final_dot s = (if endsWith s [c_dot] then butlast s else s)"

definition redirectTarget :: "url \<Rightarrow> jstr \<Rightarrow> jstr \<Rightarrow> jstr \<Rightarrow> jstr option" where
  "redirectTarget u meth oldHost newSite =
     (if drop_final_dot (lower (u_hostname u)) \<noteq> lower oldHost then None
      else if meth \<noteq> lit ''GET'' \<and> meth \<noteq> lit ''HEAD'' then None
      else if no_end_slash (u_pathname u) = lit ''/api/ping'' then None
      else Some (no_end_slash newSite @ u_pathname u @ u_search u))"

subsection \<open>Secrets\<close>

definition byte_at :: "nat list \<Rightarrow> nat \<Rightarrow> nat" where
  "byte_at x i = (if i < length x then x ! i else 0)"

text \<open>The loop runs over every position of the longer text; nothing stops it earlier.\<close>

definition sameSecret :: "jstr \<Rightarrow> jstr \<Rightarrow> bool" where
  "sameSecret a b =
     (let x = utf8 a; y = utf8 b
      in fold (\<lambda>i diff. diff OR (byte_at x i XOR byte_at y i)) [0..<max (length x) (length y)]
           (length x XOR length y) = 0)"

definition privateKey :: "jstr option \<Rightarrow> jstr option" where
  "privateKey v = (case v of None \<Rightarrow> None
     | Some s \<Rightarrow> let h = lower (trim s)
         in if length h = 64 \<and> list_all (\<lambda>c. is_digit c \<or> (97 \<le> c \<and> c \<le> 102)) h then Some h else None)"

text \<open>\<open>/^Basic +([A-Za-z0-9+/]+={0,2}) *$/i\<close>\<close>

definition BASIC_RE :: re where
  "BASIC_RE = seq_r ([RStart] @ map (\<lambda>c. RCls (\<lambda>x. x = c \<or> x + 32 = c)) (lit ''basic'')
     @ [plus_r (chr_r c_sp),
        RCap 1 (RSeq (plus_r (RCls (\<lambda>c. alnum c \<or> c = 43 \<or> c = 47))) (upto_r 2 (chr_r c_eq))),
        RStar (chr_r c_sp), REnd])"

text \<open>\<open>decode\<close> is \<open>atob\<close> followed by the strict UTF-8 decoding; \<open>None\<close> when one of them fails.\<close>

definition basicPassword :: "(jstr \<Rightarrow> jstr option) \<Rightarrow> jstr option \<Rightarrow> jstr option" where
  "basicPassword decode header =
     (case exec BASIC_RE (case header of Some h \<Rightarrow> h | None \<Rightarrow> []) 0 of None \<Rightarrow> None
      | Some m \<Rightarrow> (case decode (cap_of m 1) of None \<Rightarrow> None
          | Some s \<Rightarrow> (case indexOf s [c_colon] of None \<Rightarrow> None | Some i \<Rightarrow> Some (drop (i + 1) s))))"

text \<open>\<open>Math.ceil(x / 1000)\<close>, and the wait; \<open>None\<close> is a first refusal that is not a number.\<close>

definition ceil_div :: "int \<Rightarrow> int \<Rightarrow> int" where
  "ceil_div a b = - ((- a) div b)"

definition retryAfter :: "int option \<Rightarrow> int \<Rightarrow> int" where
  "retryAfter firstFail now = (case firstFail of None \<Rightarrow> PRIVE_FAIL_WINDOW
     | Some first \<Rightarrow> min PRIVE_FAIL_WINDOW (max 1 (ceil_div (first + PRIVE_FAIL_WINDOW * 1000 - now) 1000)))"

end
