(* ===== verification/Stats_Worker.thy ===== *)
theory Stats_Worker imports Stats_Logic begin

text \<open>
  The Cloudflare worker (\<open>tools/stats-worker/worker.js\<close>): the handlers of \<open>/api/ping\<close> and of the
  private area over the tables of the D1 database (\<open>schema.sql\<close>). A handler is a function of the
  request and the database; the same steps, one database call each, are those of the interleaved
  system of \<open>Stats_Concurrency\<close>. SHA-256 (\<open>sha\<close>), the salted hash of the address (\<open>ip_hash\<close>),
  base64 with UTF-8 (\<open>decode\<close>) and what the page shows (\<open>page\<close>, from \<open>Stats_Render\<close> and the
  releases of GitHub) are arguments.
\<close>

subsection \<open>The database\<close>

type_synonym counters = "((jstr \<times> jstr) \<times> nat) list"

record db =
  db_ips :: counters
  db_pings :: counters
  db_fails :: "int list"

definition count_of :: "(jstr \<times> jstr) \<Rightarrow> counters \<Rightarrow> nat" where
  "count_of k t = (case map_of t k of Some n \<Rightarrow> n | None \<Rightarrow> 0)"

text \<open>\<open>INSERT ... VALUES (k, 1) ON CONFLICT DO UPDATE SET n = n + 1\<close>; the new count is \<open>RETURNING n\<close>.\<close>

definition bump :: "(jstr \<times> jstr) \<Rightarrow> counters \<Rightarrow> counters" where
  "bump k t = obj_set k (count_of k t + 1) t"

text \<open>\<open>SELECT COALESCE(SUM(n), 0) ... WHERE day = ?1\<close>\<close>

definition day_total :: "jstr \<Rightarrow> counters \<Rightarrow> nat" where
  "day_total day t = sum_list (map snd (filter (\<lambda>r. fst (fst r) = day) t))"

text \<open>\<open>DELETE ... WHERE day < ?1\<close>\<close>

definition delete_before :: "jstr \<Rightarrow> counters \<Rightarrow> counters" where
  "delete_before day t = filter (\<lambda>r. \<not> text_less (fst (fst r)) day) t"

subsection \<open>Responses\<close>

record response =
  r_status :: nat
  r_headers :: "(jstr \<times> jstr) list"
  r_body :: "jstr option"

text \<open>\<open>text(status, body, headers)\<close>: the headers given override \<open>Cache-Control\<close>.\<close>

definition text_r :: "nat \<Rightarrow> string \<Rightarrow> (jstr \<times> jstr) list \<Rightarrow> response" where
  "text_r status body headers = \<lparr>r_status = status,
     r_headers = fold (\<lambda>(k, v) hs. obj_set k v hs) headers [(lit ''Cache-Control'', lit ''no-store'')],
     r_body = Some (lit body)\<rparr>"

definition redirect_301 :: "jstr \<Rightarrow> response" where
  "redirect_301 to = \<lparr>r_status = 301, r_headers = [(lit ''Location'', to)], r_body = None\<rparr>"

definition ROBOTS :: "(jstr \<times> jstr) list" where
  "ROBOTS = [(lit ''X-Robots-Tag'', lit ''noindex, nofollow'')]"

definition PAGE_HEADERS :: "(jstr \<times> jstr) list" where
  "PAGE_HEADERS = ROBOTS @
     [(lit ''Cache-Control'', lit ''no-store''),
      (lit ''Content-Security-Policy'',
        lit ''default-src '' @ [c_sq] @ lit ''none'' @ [c_sq] @ lit ''; style-src '' @ [c_sq] @ lit ''unsafe-inline'' @ [c_sq]
        @ lit ''; base-uri '' @ [c_sq] @ lit ''none'' @ [c_sq] @ lit ''; form-action '' @ [c_sq] @ lit ''none'' @ [c_sq]
        @ lit ''; frame-ancestors '' @ [c_sq] @ lit ''none'' @ [c_sq]),
      (lit ''X-Content-Type-Options'', lit ''nosniff''), (lit ''Referrer-Policy'', lit ''no-referrer''),
      (lit ''X-Frame-Options'', lit ''DENY'')]"

definition too_many :: "(jstr \<times> jstr) list \<Rightarrow> response" where
  "too_many headers = text_r 429 ''429 Too Many Requests'' headers"

subsection \<open>Requests\<close>

record request =
  q_url :: url
  q_method :: jstr
  q_body :: jstr
  q_ip :: "jstr option"
  q_auth :: "jstr option"

record env =
  e_old :: jstr
  e_site :: jstr
  e_salt :: "jstr option"
  e_key :: "jstr option"

subsection \<open>POST /api/ping\<close>

text \<open>The first database call: the counter of the address, then the answer it may give.\<close>

definition count_ip :: "jstr \<Rightarrow> jstr \<Rightarrow> db \<Rightarrow> db \<times> nat" where
  "count_ip day ip d = (let t = bump (day, ip) (db_ips d) in (d\<lparr>db_ips := t\<rparr>, count_of (day, ip) t))"

definition over_ip :: "nat \<Rightarrow> bool" where
  "over_ip n \<longleftrightarrow> n > PER_IP_DAY"

definition over_day :: "jstr \<Rightarrow> db \<Rightarrow> bool" where
  "over_day day d \<longleftrightarrow> day_total day (db_pings d) \<ge> MAX_PER_DAY"

definition count_ping :: "jstr \<Rightarrow> jstr \<Rightarrow> db \<Rightarrow> db" where
  "count_ping day key d = d\<lparr>db_pings := bump (day, key) (db_pings d)\<rparr>"

text \<open>The batch of \<open>waitUntil\<close>: addresses of past days, counters beyond the kept duration.\<close>

definition housekeeping :: "jstr \<Rightarrow> jstr \<Rightarrow> db \<Rightarrow> db" where
  "housekeeping day oldest d =
     d\<lparr>db_ips := delete_before day (db_ips d), db_pings := delete_before oldest (db_pings d)\<rparr>"

definition retry_hour :: "(jstr \<times> jstr) list" where
  "retry_hour = [(lit ''Retry-After'', lit ''3600'')]"

definition ping :: "(jstr \<Rightarrow> jstr \<Rightarrow> jstr \<Rightarrow> jstr) \<Rightarrow> request \<Rightarrow> env \<Rightarrow> nat \<Rightarrow> db \<Rightarrow> db \<times> response" where
  "ping ip_hash q en now d =
     (if q_method q \<noteq> lit ''POST'' then (d, text_r 405 ''405 Method Not Allowed'' [(lit ''Allow'', lit ''POST'')])
      else (case (if length (q_body q) > MAX_BODY then None else pingKey (q_body q)) of
          None \<Rightarrow> (d, text_r 400 ''400 Bad Request'' [])
        | Some key \<Rightarrow>
            (let day = dayOf now;
                 ip = ip_hash (case q_ip q of Some a \<Rightarrow> (if a \<noteq> [] then a else lit ''inconnue'') | None \<Rightarrow> lit ''inconnue'')
                        day (case e_salt en of Some s \<Rightarrow> s | None \<Rightarrow> []);
                 (d1, n) = count_ip day ip d
             in if over_ip n then (d1, too_many retry_hour)
                else if over_day day d1 then (d1, too_many retry_hour)
                else (housekeeping day (oldestKept now) (count_ping day key d1),
                      \<lparr>r_status = 204, r_headers = [(lit ''Cache-Control'', lit ''no-store'')], r_body = None\<rparr>))))"

subsection \<open>The private area\<close>

definition window_ms :: int where
  "window_ms = PRIVE_FAIL_WINDOW * 1000"

text \<open>\<open>SELECT COUNT(*), MIN(at) FROM fails WHERE at > since\<close>\<close>

definition recent_fails :: "int \<Rightarrow> db \<Rightarrow> int list" where
  "recent_fails since d = filter (\<lambda>t. t > since) (db_fails d)"

definition first_fail :: "int list \<Rightarrow> int option" where
  "first_fail ts = (if ts = [] then None else Some (fold min (tl ts) (hd ts)))"

definition add_fail :: "int \<Rightarrow> int \<Rightarrow> db \<Rightarrow> db" where
  "add_fail since now d = d\<lparr>db_fails := filter (\<lambda>t. \<not> t \<le> since) (db_fails d) @ [now]\<rparr>"

definition unauthorized :: response where
  "unauthorized = text_r 401 ''401 Unauthorized''
     (ROBOTS @ [(lit ''WWW-Authenticate'',
        lit ''Basic realm='' @ [c_dq] @ lit ''FRP Manager'' @ [c_dq] @ lit '', charset='' @ [c_dq] @ lit ''UTF-8'' @ [c_dq])])"

text \<open>\<open>None\<close> is the \<open>null\<close> that lets the request through.\<close>

definition privateGate ::
  "(jstr \<Rightarrow> jstr) \<Rightarrow> (jstr \<Rightarrow> jstr option) \<Rightarrow> request \<Rightarrow> jstr \<Rightarrow> int \<Rightarrow> db \<Rightarrow> db \<times> response option" where
  "privateGate sha decode q key now d =
     (let since = now - window_ms; recent = recent_fails since d
      in if length recent \<ge> PRIVE_MAX_FAILS then
           (d, Some (too_many (ROBOTS @ [(lit ''Retry-After'', num_text (Whole (retryAfter (first_fail recent) now)))])))
         else (case basicPassword decode (q_auth q) of
             None \<Rightarrow> (d, Some unauthorized)
           | Some password \<Rightarrow>
               if sameSecret (sha password) key then (d, None)
               else (add_fail since now d, Some unauthorized)))"

definition html_type :: jstr where "html_type = lit ''text/html; charset=utf-8''"
definition json_type :: jstr where "json_type = lit ''application/json; charset=utf-8''"

text \<open>\<open>page json pings\<close> is the body built from the rows of \<open>pings\<close>, ordered by day and key.\<close>

definition row_less :: "(jstr \<times> jstr) \<Rightarrow> (jstr \<times> jstr) \<Rightarrow> bool" where
  "row_less a b \<longleftrightarrow> text_less (fst a) (fst b) \<or> fst a = fst b \<and> text_less (snd a) (snd b)"

fun insert_row :: "((jstr \<times> jstr) \<times> nat) \<Rightarrow> counters \<Rightarrow> counters" where
  "insert_row r [] = [r]"
| "insert_row r (x # xs) = (if row_less (fst x) (fst r) then x # insert_row r xs else r # x # xs)"

definition ordered_rows :: "counters \<Rightarrow> counters" where
  "ordered_rows t = foldr insert_row t []"

definition is_get :: "request \<Rightarrow> bool" where
  "is_get q \<longleftrightarrow> q_method q = lit ''GET'' \<or> q_method q = lit ''HEAD''"

definition prive ::
  "(jstr \<Rightarrow> jstr) \<Rightarrow> (jstr \<Rightarrow> jstr option) \<Rightarrow> (bool \<Rightarrow> counters \<Rightarrow> jstr) \<Rightarrow> request \<Rightarrow> env \<Rightarrow> int \<Rightarrow> db
     \<Rightarrow> db \<times> response" where
  "prive sha decode page q en now d =
     (case privateKey (e_key en) of
        None \<Rightarrow> (d, text_r 404 ''404 Not Found'' [])
      | Some key \<Rightarrow>
          if \<not> is_get q then (d, text_r 405 ''405 Method Not Allowed'' (ROBOTS @ [(lit ''Allow'', lit ''GET, HEAD'')]))
          else if u_pathname (q_url q) = lit ''/prive''
          then (d, redirect_301 (u_origin (q_url q) @ lit ''/prive/'' @ u_search (q_url q)))
          else (case privateGate sha decode q key now d of
              (d1, Some denied) \<Rightarrow> (d1, denied)
            | (d1, None) \<Rightarrow>
                (let js = (u_pathname (q_url q) = lit ''/prive/stats.json'')
                 in if \<not> js \<and> u_pathname (q_url q) \<noteq> lit ''/prive/'' then (d1, text_r 404 ''404 Not Found'' ROBOTS)
                    else (d1, \<lparr>r_status = 200,
                      r_headers = PAGE_HEADERS @ [(lit ''Content-Type'', if js then json_type else html_type)],
                      r_body = (if q_method q = lit ''HEAD'' then None else Some (page js (ordered_rows (db_pings d1))))\<rparr>))))"

subsection \<open>Routes\<close>

definition route_path :: "url \<Rightarrow> jstr" where
  "route_path u = (let p = no_end_slash (u_pathname u) in if p \<noteq> [] then p else [47])"

definition fetch ::
  "(jstr \<Rightarrow> jstr \<Rightarrow> jstr \<Rightarrow> jstr) \<Rightarrow> (jstr \<Rightarrow> jstr) \<Rightarrow> (jstr \<Rightarrow> jstr option) \<Rightarrow> (bool \<Rightarrow> counters \<Rightarrow> jstr)
     \<Rightarrow> request \<Rightarrow> env \<Rightarrow> nat \<Rightarrow> db \<Rightarrow> db \<times> response" where
  "fetch ip_hash sha decode page q en now d =
     (if route_path (q_url q) = lit ''/api/ping'' then ping ip_hash q en now d
      else (case redirectTarget (q_url q) (q_method q) (e_old en) (e_site en) of
          Some (c # to) \<Rightarrow> (d, redirect_301 (c # to))
        | _ \<Rightarrow>
            if u_pathname (q_url q) = lit ''/prive'' \<or> startsWith (u_pathname (q_url q)) (lit ''/prive/'')
            then prive sha decode page q en (int now) d
            else (d, text_r 404 ''404 Not Found'' [])))"

end
