(* ===== verification/Stats_Tables.thy ===== *)
theory Stats_Tables imports Stats_Worker begin

text \<open>
  The interface of the counter tables: what a reader of the worker's handlers may rely on, stated
  as locales and proved for the rows of the database. \<open>counter_table\<close> is a table of counts with the
  upsert of the worker, \<open>day_table\<close> one whose keys have a day, with its daily sum and the deletion of
  past days.
\<close>

locale counter_table =
  fixes count :: "'k \<Rightarrow> 't \<Rightarrow> nat" and up :: "'k \<Rightarrow> 't \<Rightarrow> 't"
  assumes count_up: "count j (up k t) = (if j = k then count k t + 1 else count j t)"
begin

lemma count_same: "count k (up k t) = count k t + 1"
  by (simp add: count_up)

lemma count_other: "j \<noteq> k \<Longrightarrow> count j (up k t) = count j t"
  by (simp add: count_up)

lemma count_ups: "count k (fold up ks t) = count k t + count_list ks k"
  by (induction ks arbitrary: t) (auto simp: count_up)

end

locale day_table = counter_table +
  fixes day :: "'k \<Rightarrow> 'd" and total :: "'d \<Rightarrow> 't \<Rightarrow> nat" and remove :: "'d \<Rightarrow> 't \<Rightarrow> 't"
    and past :: "'d \<Rightarrow> 'd \<Rightarrow> bool"
  assumes total_up: "total e (up k t) = (if day k = e then total e t + 1 else total e t)"
    and total_remove: "total e (remove f t) \<le> total e t"
    and count_remove: "count k (remove f t) = (if past (day k) f then 0 else count k t)"
begin

lemma total_ups: "total e (fold up ks t) = total e t + length (filter (\<lambda>k. day k = e) ks)"
  by (induction ks arbitrary: t) (auto simp: total_up)

lemma count_kept: "\<not> past (day k) f \<Longrightarrow> count k (remove f t) = count k t"
  by (simp add: count_remove)

end

subsection \<open>The rows\<close>

lemma count_of_bump: "count_of j (bump k t) = (if j = k then count_of k t + 1 else count_of j t)"
  by (simp add: count_of_def bump_def)

lemma sum_obj_set: "day_total e (obj_set k v t) + (if fst k = e then count_of k t else 0)
    = day_total e t + (if fst k = e then v else 0)"
proof (induction k v t rule: obj_set.induct)
  case (1 k v)
  then show ?case by (simp add: day_total_def count_of_def)
next
  case (2 k v k' v' o')
  show ?case
  proof (cases "k' = k")
    case True
    then show ?thesis by (simp add: day_total_def count_of_def)
  next
    case False
    with 2 [OF False] show ?thesis by (cases "fst k = e") (simp_all add: day_total_def count_of_def)
  qed
qed

lemma day_total_bump: "day_total e (bump k t) = (if fst k = e then day_total e t + 1 else day_total e t)"
  using sum_obj_set [of e k "count_of k t + 1" t] by (auto simp: bump_def split: if_splits)

lemma day_total_delete: "day_total e (delete_before f t) \<le> day_total e t"
  by (induction t) (auto simp: day_total_def delete_before_def)

lemma map_of_filter_key: "map_of (filter (\<lambda>r. P (fst r)) t) k = (if P k then map_of t k else None)"
  by (induction t) auto

lemma count_of_delete: "count_of k (delete_before f t) = (if text_less (fst k) f then 0 else count_of k t)"
  using map_of_filter_key [of "\<lambda>x. \<not> text_less (fst x) f" t k] by (simp add: count_of_def delete_before_def)

interpretation ct: day_table count_of bump fst day_total delete_before text_less
  by unfold_locales (simp_all add: count_of_bump day_total_bump day_total_delete count_of_delete)

end
