(* ===== verification/Stats_Gate.thy ===== *)
theory Stats_Gate imports Stats_Tables "HOL-Library.Code_Target_Nat" begin

unbundle bit_operations_syntax

text \<open>
  The private area of the statistics worker: the comparison of secrets, the wait announced by
  \<open>Retry-After\<close>, the gate and its lock-out over a sequence of requests, and what the routes of
  \<open>fetch\<close> let through.
\<close>

subsection \<open>Secrets\<close>

lemma fold_or_0: "fold (\<lambda>i diff. diff OR f i) is (a :: nat) = 0 \<longleftrightarrow> a = 0 \<and> (\<forall>i \<in> set is. f i = 0)"
  by (induction "is" arbitrary: a) (auto simp: or_eq_0_iff)

lemma xor_0_iff: "(a :: nat) XOR b = 0 \<longleftrightarrow> a = b"
proof
  assume "a XOR b = 0"
  then have "bit a n = bit b n" for n
    using bit_xor_iff [of a b n] by auto
  then show "a = b" by (simp add: bit_eq_iff)
qed simp

lemma sameSecret_iff: "sameSecret a b \<longleftrightarrow> utf8 a = utf8 b"
proof -
  let ?x = "utf8 a" and ?y = "utf8 b"
  have "sameSecret a b \<longleftrightarrow> length ?x = length ?y \<and>
      (\<forall>i < max (length ?x) (length ?y). byte_at ?x i = byte_at ?y i)"
    by (auto simp: sameSecret_def Let_def fold_or_0 xor_0_iff)
  also have "\<dots> \<longleftrightarrow> ?x = ?y"
    by (auto simp: byte_at_def list_eq_iff_nth_eq)
  finally show ?thesis .
qed

lemma privateKey_ascii: "privateKey v = Some h \<Longrightarrow> list_all (\<lambda>c. c < 128) h \<and> length h = 64"
  by (auto simp: privateKey_def Let_def list_all_iff is_digit_def split: option.splits if_splits)

lemma utf8_ascii_eq: "list_all (\<lambda>c. c < 128) k \<Longrightarrow> list_all (\<lambda>c. c < 128) s \<Longrightarrow> utf8 s = utf8 k \<longleftrightarrow> s = k"
  by (simp add: utf8_ascii)

subsection \<open>Waiting\<close>

lemma ceil_div_bounds: "0 < b \<Longrightarrow> a \<le> ceil_div a b * b \<and> (ceil_div a b - 1) * b < a"
proof -
  assume b: "0 < b"
  have "(- a) div b * b + (- a) mod b = - a" by simp
  then have "ceil_div a b * b = a + (- a) mod b" unfolding ceil_div_def by (simp only: mult_minus_left)
  moreover have "0 \<le> (- a) mod b" "(- a) mod b < b" using b by auto
  ultimately show ?thesis by (simp add: left_diff_distrib)
qed

lemma retryAfter_bounds: "1 \<le> retryAfter f now \<and> retryAfter f now \<le> 600"
  by (simp add: retryAfter_def PRIVE_FAIL_WINDOW_def split: option.split)

lemma retryAfter_enough:
  assumes "now - window_ms < first" and "first \<le> now"
  shows "first \<le> (now + retryAfter (Some first) now * 1000) - window_ms
    \<and> (retryAfter (Some first) now = 1 \<or> first > (now + (retryAfter (Some first) now - 1) * 1000) - window_ms)"
  using assms ceil_div_bounds [of 1000 "first + 600 * 1000 - now"]
  by (auto simp: retryAfter_def window_ms_def PRIVE_FAIL_WINDOW_def min_def max_def split: if_splits)

subsection \<open>The gate\<close>

lemma gate_open:
  assumes "privateGate sha decode q key now d = (d', None)"
  shows "d' = d \<and> length (recent_fails (now - window_ms) d) < PRIVE_MAX_FAILS
    \<and> (\<exists>pw. basicPassword decode (q_auth q) = Some pw \<and> utf8 (sha pw) = utf8 key)"
  using assms by (auto simp: privateGate_def Let_def sameSecret_iff split: if_splits option.splits)

text \<open>The private area seen by a sequence of requests in the order of time: each one runs the gate at
  its own time on the refusals the ones before it left.\<close>

inductive gate_reach :: "(jstr \<Rightarrow> jstr) \<Rightarrow> (jstr \<Rightarrow> jstr option) \<Rightarrow> jstr \<Rightarrow> int \<Rightarrow> db \<Rightarrow> bool"
  for sha decode key where
  start: "gate_reach sha decode key now d" if "db_fails d = []"
| wait: "gate_reach sha decode key later d" if "gate_reach sha decode key now d" and "now \<le> later"
| guess: "gate_reach sha decode key now (fst (privateGate sha decode q key now d))"
    if "gate_reach sha decode key now d"

lemma gate_fails:
  "db_fails (fst (privateGate sha decode q key now d)) = db_fails d
   \<or> length (recent_fails (now - window_ms) d) < PRIVE_MAX_FAILS
     \<and> db_fails (fst (privateGate sha decode q key now d)) = recent_fails (now - window_ms) d @ [now]"
  by (auto simp: privateGate_def Let_def add_fail_def recent_fails_def not_le split: option.splits)

lemma length_filter_mono: "(\<And>x. P x \<Longrightarrow> Q x) \<Longrightarrow> length (filter P xs) \<le> length (filter Q xs)"
  by (induction xs) auto

lemma recent_fails_later: "now \<le> later \<Longrightarrow>
    length (recent_fails (later - window_ms) d) \<le> length (recent_fails (now - window_ms) d)"
  unfolding recent_fails_def by (rule length_filter_mono) simp

lemma gate_reach_bound:
  "gate_reach sha decode key now d \<Longrightarrow>
     length (recent_fails (now - window_ms) d) \<le> PRIVE_MAX_FAILS \<and> (\<forall>t \<in> set (db_fails d). t \<le> now)"
proof (induction rule: gate_reach.induct)
  case (start d now)
  then show ?case by (simp add: recent_fails_def)
next
  case (wait now d later)
  then show ?case using recent_fails_later [of now later d] by fastforce
next
  case (guess now d q)
  let ?d' = "fst (privateGate sha decode q key now d)"
  show ?case using gate_fails [of sha decode q key now d]
  proof
    assume "db_fails ?d' = db_fails d"
    with guess.IH show ?thesis by (simp add: recent_fails_def)
  next
    assume new: "length (recent_fails (now - window_ms) d) < PRIVE_MAX_FAILS
      \<and> db_fails ?d' = recent_fails (now - window_ms) d @ [now]"
    then have "recent_fails (now - window_ms) ?d' = recent_fails (now - window_ms) d @ [now]"
      by (simp add: recent_fails_def window_ms_def PRIVE_FAIL_WINDOW_def)
    with new guess.IH show ?thesis by (auto simp: recent_fails_def)
  qed
qed


lemma fold_min_mem: "fold min xs (x :: int) \<in> insert x (set xs)"
proof (induction xs arbitrary: x)
  case (Cons y ys)
  from Cons.IH [of "min y x"] show ?case by (auto simp: min_def split: if_splits)
qed simp

lemma first_fail_mem: "ts \<noteq> [] \<Longrightarrow> \<exists>m. first_fail ts = Some m \<and> m \<in> set ts"
  using fold_min_mem [of "tl ts" "hd ts"] by (cases ts) (auto simp: first_fail_def)

lemma length_filter_strict:
  "(\<And>x. P x \<Longrightarrow> Q x) \<Longrightarrow> m \<in> set xs \<Longrightarrow> Q m \<Longrightarrow> \<not> P m \<Longrightarrow> length (filter P xs) < length (filter Q xs)"
proof (induction xs)
  case (Cons x xs)
  show ?case
  proof (cases "x = m")
    case True
    with Cons.prems length_filter_mono [of P Q xs] show ?thesis by (simp add: less_Suc_eq_le)
  next
    case False
    with Cons show ?thesis by auto
  qed
qed simp

lemma gate_unlocks:
  assumes "gate_reach sha decode key now d"
    and "length (recent_fails (now - window_ms) d) \<ge> PRIVE_MAX_FAILS"
    and "later = now + retryAfter (first_fail (recent_fails (now - window_ms) d)) now * 1000"
  shows "length (recent_fails (later - window_ms) d) < PRIVE_MAX_FAILS"
proof -
  let ?r = "recent_fails (now - window_ms) d"
  from assms(2) have "?r \<noteq> []" by (auto simp: PRIVE_MAX_FAILS_def)
  from first_fail_mem [OF this] obtain m where m: "first_fail ?r = Some m" "m \<in> set ?r" by blast
  from gate_reach_bound [OF assms(1)] m have "now - window_ms < m" "m \<le> now" and bound: "length ?r \<le> PRIVE_MAX_FAILS"
    by (auto simp: recent_fails_def)
  with retryAfter_enough [of now m] m assms(3) have out: "m \<le> later - window_ms" by simp
  have "length (recent_fails (later - window_ms) d) < length ?r"
    unfolding recent_fails_def
  proof (rule length_filter_strict)
    show "m \<in> set (db_fails d)" "now - window_ms < m" "\<not> later - window_ms < m"
      using m(2) out by (auto simp: recent_fails_def)
    show "now - window_ms < x" if "later - window_ms < x" for x
      using that retryAfter_bounds [of "first_fail ?r" now] assms(3) by simp
  qed
  with bound show ?thesis by simp
qed

subsection \<open>Routes\<close>

lemma text_r_status [simp]: "r_status (text_r st b hs) = st"
  by (simp add: text_r_def)

lemma too_many_status [simp]: "r_status (too_many hs) = 429"
  by (simp add: too_many_def)

lemma ping_status: "r_status (snd (ping ip_hash q en now d)) \<in> {204, 400, 405, 429}"
  by (simp add: ping_def Let_def split: option.split prod.split)

lemma gate_status: "privateGate sha decode q key now d = (d', Some r) \<Longrightarrow> r_status r = 401 \<or> r_status r = 429"
  by (auto simp: privateGate_def Let_def unauthorized_def split: if_splits option.splits)

lemma redirect_method: "redirectTarget u meth old site = Some to \<Longrightarrow>
    (meth = lit ''GET'' \<or> meth = lit ''HEAD'') \<and> no_end_slash (u_pathname u) \<noteq> lit ''/api/ping''
    \<and> to = no_end_slash site @ u_pathname u @ u_search u"
  by (auto simp: redirectTarget_def split: if_splits)

lemma prive_page:
  assumes "prive sha decode page q en now d = (d', r)" and "r_status r = 200"
  shows "\<exists>key pw. privateKey (e_key en) = Some key \<and> basicPassword decode (q_auth q) = Some pw
    \<and> utf8 (sha pw) = utf8 key \<and> length (recent_fails (now - window_ms) d) < PRIVE_MAX_FAILS \<and> is_get q \<and> d' = d"
proof -
  from assms obtain key where key: "privateKey (e_key en) = Some key" and get: "is_get q"
    by (auto simp: prive_def split: option.splits if_splits)
  have np: "u_pathname (q_url q) \<noteq> lit ''/prive''"
    using assms key get by (auto simp: prive_def redirect_301_def)
  obtain g where g: "privateGate sha decode q key now d = g" by blast
  show ?thesis
  proof (cases "snd g")
    case (Some denied)
    with assms key get np g gate_status [of sha decode q key now d "fst g" denied] show ?thesis
      by (cases g) (auto simp: prive_def)
  next
    case None
    with assms key get np g have "privateGate sha decode q key now d = (d', None)"
      by (cases g) (auto simp: prive_def Let_def split: if_splits)
    from gate_open [OF this] key get show ?thesis by blast
  qed
qed

lemma fetch_page:
  assumes "fetch ip_hash sha decode page q en now d = (d', r)" and "r_status r = 200"
  shows "prive sha decode page q en (int now) d = (d', r)"
  using assms ping_status [of ip_hash q en now d]
  by (auto simp: fetch_def redirect_301_def split: if_splits option.splits list.splits)

subsection \<open>Properties\<close>

text \<open>C8. A page of the worker is only served to a request that carries the password: the answer 200
  means that the area has a key, that the SHA-256 hash of the password of the request is that key
  (byte for byte), and that fewer than ten refusals were counted in the last ten minutes.\<close>

theorem page_needs_password:
  assumes "fetch ip_hash sha decode page q en now d = (d', r)" and "r_status r = 200"
  shows "\<exists>key pw. privateKey (e_key en) = Some key \<and> basicPassword decode (q_auth q) = Some pw
    \<and> utf8 (sha pw) = utf8 key \<and> length (recent_fails (int now - window_ms) d) < PRIVE_MAX_FAILS \<and> is_get q \<and> d' = d"
  using prive_page [OF fetch_page [OF assms] assms(2)] .

definition ex_sha :: "jstr \<Rightarrow> jstr" where
  "ex_sha s = (if s = lit ''pw'' then replicate 64 97 else replicate 64 98)"

definition ex_decode :: "jstr \<Rightarrow> jstr option" where
  "ex_decode s = (if s = lit ''eDpwdw=='' then Some (lit ''x:pw'') else None)"

definition ex_env :: env where
  "ex_env = \<lparr>e_old = lit ''old.fr'', e_site = lit ''https://new.org/'', e_salt = None, e_key = Some (replicate 64 65)\<rparr>"

definition ex_request :: "jstr option \<Rightarrow> request" where
  "ex_request auth = \<lparr>q_url = \<lparr>u_hostname = lit ''new.org'', u_pathname = lit ''/prive/'', u_search = [],
      u_origin = lit ''https://new.org''\<rparr>, q_method = lit ''HEAD'', q_body = [], q_ip = None, q_auth = auth\<rparr>"

definition ex_db :: db where
  "ex_db = \<lparr>db_ips = [], db_pings = [], db_fails = [7]\<rparr>"

lemma ex_fetch: "r_status (snd (fetch (\<lambda>a b c. a) ex_sha ex_decode (\<lambda>js rows. [])
    (ex_request (Some (lit ''Basic eDpwdw==''))) ex_env 1000000 ex_db)) = 200"
  by code_simp

theorem page_needs_password_witness:
  "\<exists>key pw. privateKey (e_key ex_env) = Some key \<and> ex_sha pw = key"
proof -
  let ?f = "fetch (\<lambda>a b c. a) ex_sha ex_decode (\<lambda>js rows. []) (ex_request (Some (lit ''Basic eDpwdw==''))) ex_env 1000000 ex_db"
  have "?f = (fst ?f, snd ?f)" by simp
  from page_needs_password [OF this ex_fetch] obtain key pw
    where k: "privateKey (e_key ex_env) = Some key" and u: "utf8 (ex_sha pw) = utf8 key" by blast
  have "list_all (\<lambda>c. c < 128) (ex_sha pw)" by (simp add: ex_sha_def list_all_iff)
  with u privateKey_ascii [OF k] k show ?thesis by (auto simp: utf8_ascii)
qed




definition wrong_guess :: "db \<Rightarrow> db" where
  "wrong_guess d = fst (privateGate ex_sha ex_decode (ex_request (Some (lit ''Basic eDpwdw==''))) [] 5 d)"

definition fails_db :: "nat \<Rightarrow> db" where
  "fails_db n = \<lparr>db_ips = [], db_pings = [], db_fails = replicate n 5\<rparr>"

lemma wrong_guess_step: "n < 10 \<Longrightarrow> wrong_guess (fails_db n) = fails_db (Suc n)"
proof -
  assume n: "n < 10"
  have "basicPassword ex_decode (Some (lit ''Basic eDpwdw=='')) = Some (lit ''pw'')" by code_simp
  moreover have "sameSecret (ex_sha (lit ''pw'')) [] = False" by code_simp
  moreover have "recent_fails (5 - window_ms) (fails_db n) = replicate n 5"
    by (simp add: recent_fails_def fails_db_def window_ms_def PRIVE_FAIL_WINDOW_def)
  ultimately show ?thesis
    using n by (simp add: wrong_guess_def privateGate_def ex_request_def PRIVE_MAX_FAILS_def)
      (simp add: add_fail_def fails_db_def window_ms_def PRIVE_FAIL_WINDOW_def replicate_append_same)
qed

lemma ten_guesses_reach: "n \<le> 10 \<Longrightarrow> gate_reach ex_sha ex_decode [] 5 (fails_db n)"
proof (induction n)
  case 0
  then show ?case by (intro gate_reach.start) (simp add: fails_db_def)
next
  case (Suc n)
  then have "gate_reach ex_sha ex_decode [] 5 (wrong_guess (fails_db n))"
    unfolding wrong_guess_def by (intro gate_reach.guess) simp
  with Suc.prems show ?case by (simp add: wrong_guess_step)
qed

lemma ten_guesses_eval: "recent_fails (5 - window_ms) (fails_db 10) = replicate 10 5"
  by (simp add: recent_fails_def fails_db_def window_ms_def PRIVE_FAIL_WINDOW_def)


text \<open>\<open>sameSecret\<close> accepts exactly the texts whose UTF-8 bytes are equal, although its loop never
  stops at the first difference.\<close>

theorem sameSecret_exact: "sameSecret a b \<longleftrightarrow> utf8 a = utf8 b"
  by (rule sameSecret_iff)

text \<open>Redirections never touch a ping nor a method other than GET and HEAD, and lead to the new site
  with the path and query of the request; the private area only redirects to its own path.\<close>

theorem redirect_safe:
  assumes "fetch ip_hash sha decode page q en now d = (d', r)" and "r_status r = 301"
  shows "is_get q \<and> route_path (q_url q) \<noteq> lit ''/api/ping'' \<and> d' = d
    \<and> (\<exists>to. r = redirect_301 to
        \<and> (to = no_end_slash (e_site en) @ u_pathname (q_url q) @ u_search (q_url q)
            \<or> to = u_origin (q_url q) @ lit ''/prive/'' @ u_search (q_url q)))"
proof -
  have p: "prive sha decode page q en t d = (d', r) \<Longrightarrow>
      is_get q \<and> d' = d \<and> r = redirect_301 (u_origin (q_url q) @ lit ''/prive/'' @ u_search (q_url q))" for t
    using assms(2) by (auto simp: prive_def Let_def dest!: gate_status split: option.splits if_splits prod.splits)
  show ?thesis
    using assms ping_status [of ip_hash q en now d] p [of "int now"] redirect_method [of "q_url q" "q_method q" "e_old en" "e_site en"]
    by (auto simp: fetch_def is_get_def split: if_splits option.splits list.splits)
qed

lemma ex_redirect: "r_status (snd (fetch (\<lambda>a b c. a) ex_sha ex_decode (\<lambda>js rows. [])
    (ex_request None\<lparr>q_url := \<lparr>u_hostname = lit ''OLD.fr.'', u_pathname = lit ''/a'', u_search = [], u_origin = []\<rparr>\<rparr>)
      ex_env 1000000 ex_db)) = 301"
  by code_simp

theorem redirect_safe_witness:
  "is_get (ex_request None\<lparr>q_url := \<lparr>u_hostname = lit ''OLD.fr.'', u_pathname = lit ''/a'', u_search = [], u_origin = []\<rparr>\<rparr>)"
  using redirect_safe [OF surjective_pairing ex_redirect] by simp

end
