(* ===== verification/Stats_Concurrency.thy ===== *)
theory Stats_Concurrency imports Stats_Tables "HOL-Library.Code_Target_Nat" begin

text \<open>
  Requests to \<open>/api/ping\<close> handled at the same time. Every database call of the handler is one step;
  between two of them the steps of the other requests may come in any order. A job is a request that
  has passed the checks of its method and body: its day, the hash of its address, its key, the count
  it got and the phase it is in.
\<close>

datatype phase = Arrived | Counted | Checked | Stored | Answered nat

record job =
  j_day :: jstr
  j_oldest :: jstr
  j_ip :: jstr
  j_key :: jstr
  j_n :: nat
  j_phase :: phase

type_synonym pings_state = "db \<times> job list"

text \<open>Before its ping is stored or refused.\<close>

definition active :: "job \<Rightarrow> bool" where
  "active j \<longleftrightarrow> j_phase j = Arrived \<or> j_phase j = Counted \<or> j_phase j = Checked"

definition count_job :: "db \<Rightarrow> job \<Rightarrow> db \<times> job" where
  "count_job d j = (let (d', n) = count_ip (j_day j) (j_ip j) d
     in (d', j\<lparr>j_n := n, j_phase := (if over_ip n then Answered 429 else Counted)\<rparr>))"

definition check_job :: "db \<Rightarrow> job \<Rightarrow> job" where
  "check_job d j = j\<lparr>j_phase := (if over_day (j_day j) d then Answered 429 else Checked)\<rparr>"

text \<open>\<open>lim\<close>: how many requests may be in the handler at once.\<close>

inductive ping_step :: "nat \<Rightarrow> pings_state \<Rightarrow> pings_state \<Rightarrow> bool" for lim where
  arrive: "length (filter active js) < lim \<Longrightarrow> j_phase j = Arrived \<Longrightarrow> ping_step lim (d, js) (d, js @ [j])"
| count: "i < length js \<Longrightarrow> j_phase (js ! i) = Arrived \<Longrightarrow> count_job d (js ! i) = (d', j) \<Longrightarrow>
    ping_step lim (d, js) (d', js[i := j])"
| check: "i < length js \<Longrightarrow> j_phase (js ! i) = Counted \<Longrightarrow>
    ping_step lim (d, js) (d, js[i := check_job d (js ! i)])"
| store: "i < length js \<Longrightarrow> j_phase (js ! i) = Checked \<Longrightarrow>
    ping_step lim (d, js) (count_ping (j_day (js ! i)) (j_key (js ! i)) d, js[i := (js ! i)\<lparr>j_phase := Stored\<rparr>])"
| clean: "i < length js \<Longrightarrow> j_phase (js ! i) = Stored \<Longrightarrow>
    ping_step lim (d, js)
      (housekeeping (j_day (js ! i)) (j_oldest (js ! i)) d, js[i := (js ! i)\<lparr>j_phase := Answered 204\<rparr>])"

inductive ping_reach :: "nat \<Rightarrow> db \<Rightarrow> pings_state \<Rightarrow> bool" for lim d0 where
  init: "ping_reach lim d0 (d0, [])"
| step: "ping_reach lim d0 s \<Longrightarrow> ping_step lim s s' \<Longrightarrow> ping_reach lim d0 s'"

inductive_cases ping_stepE: "ping_step lim (d, js) s'"

inductive_simps ping_step_pair: "ping_step lim (d, js) (d', js')"

subsection \<open>Counting jobs\<close>

lemma length_filter_update: "i < length js \<Longrightarrow>
    length (filter P (js[i := x])) + (if P (js ! i) then 1 else 0) = length (filter P js) + (if P x then 1 else 0)"
proof (induction js arbitrary: i)
  case (Cons j js)
  then show ?case by (cases i) auto
qed simp

definition checked_on :: "jstr \<Rightarrow> job \<Rightarrow> bool" where
  "checked_on day j \<longleftrightarrow> j_phase j = Checked \<and> j_day j = day"

lemma checked_active: "length (filter (checked_on day) js) \<le> length (filter active js)"
  by (induction js) (auto simp: checked_on_def active_def)

subsection \<open>The limit of a day\<close>

definition day_inv :: "nat \<Rightarrow> jstr \<Rightarrow> pings_state \<Rightarrow> bool" where
  "day_inv lim day s \<longleftrightarrow> length (filter active (snd s)) \<le> lim
     \<and> day_total day (db_pings (fst s)) + length (filter (checked_on day) (snd s)) < MAX_PER_DAY + lim"

lemma active_update: "i < length js \<Longrightarrow> active (js ! i) \<or> \<not> active j \<Longrightarrow>
    length (filter active (js[i := j])) \<le> length (filter active js)"
  using length_filter_update [of i js active j] by (auto split: if_splits)

lemma day_inv_step:
  assumes "ping_step lim s s'" and "day_inv lim day s"
  shows "day_inv lim day s'"
  using assms
proof (induction rule: ping_step.induct)
  case (arrive js j d)
  then show ?case by (simp add: day_inv_def checked_on_def)
next
  case (count i js d d' j)
  then have j: "\<not> checked_on day j" "db_pings d' = db_pings d" "\<not> checked_on day (js ! i)" "active (js ! i)"
    by (auto simp: count_job_def count_ip_def Let_def checked_on_def active_def split: if_splits)
  then have "length (filter (checked_on day) (js[i := j])) = length (filter (checked_on day) js)"
    using length_filter_update [of i js "checked_on day" j] count by simp
  with j count active_update [of i js j] show ?case by (simp add: day_inv_def)
next
  case (check i js d)
  let ?j = "check_job d (js ! i)"
  have act: "length (filter active (js[i := ?j])) \<le> length (filter active js)"
    using check active_update by (simp add: active_def)
  show ?case
  proof (cases "checked_on day ?j")
    case True
    then have "day_total day (db_pings d) < MAX_PER_DAY"
      by (auto simp: checked_on_def check_job_def over_day_def split: if_splits)
    with act check checked_active [of day "js[i := ?j]"] show ?thesis by (simp add: day_inv_def)
  next
    case False
    then have "length (filter (checked_on day) (js[i := ?j])) \<le> length (filter (checked_on day) js)"
      using length_filter_update [of i js "checked_on day" ?j] check by simp
    with check act show ?thesis by (simp add: day_inv_def)
  qed
next
  case (store i js d)
  let ?j = "(js ! i)\<lparr>j_phase := Stored\<rparr>"
  have act: "length (filter active (js[i := ?j])) \<le> length (filter active js)"
    using store active_update by (simp add: active_def)
  have "length (filter (checked_on day) (js[i := ?j])) + (if j_day (js ! i) = day then 1 else 0)
      = length (filter (checked_on day) js)"
    using length_filter_update [of i js "checked_on day" ?j] store by (auto simp: checked_on_def)
  with act store show ?case
    by (auto simp: day_inv_def count_ping_def ct.total_up split: if_splits)
next
  case (clean i js d)
  let ?j = "(js ! i)\<lparr>j_phase := Answered 204\<rparr>"
  have act: "length (filter active (js[i := ?j])) \<le> length (filter active js)"
    using clean active_update by (simp add: active_def)
  have "length (filter (checked_on day) (js[i := ?j])) = length (filter (checked_on day) js)"
    using length_filter_update [of i js "checked_on day" ?j] clean by (auto simp: checked_on_def)
  with act clean ct.total_remove [of day "j_oldest (js ! i)" "db_pings d"] show ?case
    by (simp add: day_inv_def housekeeping_def)
qed

lemma ping_reach_day:
  assumes "ping_reach lim d0 s" and "day_total day (db_pings d0) < MAX_PER_DAY + lim"
  shows "day_inv lim day s"
  using assms(1)
proof (induction rule: ping_reach.induct)
  case init
  with assms(2) show ?case by (simp add: day_inv_def)
next
  case (step s s')
  then show ?case by (blast intro: day_inv_step)
qed

subsection \<open>The limit of an address\<close>

definition counted_for :: "jstr \<Rightarrow> jstr \<Rightarrow> job \<Rightarrow> bool" where
  "counted_for day ip j \<longleftrightarrow> j_day j = day \<and> j_ip j = ip \<and> j_phase j \<noteq> Arrived"

text \<open>The counts the jobs of an address got are different and below its counter.\<close>

definition ip_inv :: "jstr \<Rightarrow> jstr \<Rightarrow> pings_state \<Rightarrow> bool" where
  "ip_inv day ip s \<longleftrightarrow>
     (\<forall>i < length (snd s). counted_for day ip (snd s ! i) \<longrightarrow>
        1 \<le> j_n (snd s ! i) \<and> j_n (snd s ! i) \<le> count_of (day, ip) (db_ips (fst s)))
     \<and> (\<forall>i < length (snd s). \<forall>k < length (snd s). counted_for day ip (snd s ! i) \<longrightarrow>
          counted_for day ip (snd s ! k) \<longrightarrow> j_n (snd s ! i) = j_n (snd s ! k) \<longrightarrow> i = k)"

definition no_later_day :: "jstr \<Rightarrow> job list \<Rightarrow> bool" where
  "no_later_day day js \<longleftrightarrow> list_all (\<lambda>j. \<not> text_less day (j_day j)) js"

lemma no_later_update: "no_later_day day (js[i := j]) \<Longrightarrow> i < length js \<Longrightarrow> j_day j = j_day (js ! i) \<Longrightarrow> no_later_day day js"
  unfolding no_later_day_def list_all_length
  by (metis length_list_update nth_list_update_eq nth_list_update_neq)

text \<open>A job that keeps its day, address and count, and the counter of the address unchanged.\<close>

lemma ip_inv_update:
  assumes "ip_inv day ip (d, js)" and "i < length js" and "j_day j = j_day (js ! i)" and "j_ip j = j_ip (js ! i)"
    and "j_n j = j_n (js ! i)" and "j_phase (js ! i) \<noteq> Arrived" and "j_phase j \<noteq> Arrived"
    and "count_of (day, ip) (db_ips d') = count_of (day, ip) (db_ips d)"
  shows "ip_inv day ip (d', js[i := j])"
proof -
  have same: "counted_for day ip (js[i := j] ! k) = counted_for day ip (js ! k) \<and> j_n (js[i := j] ! k) = j_n (js ! k)"
    for k using assms by (cases "k = i") (auto simp: counted_for_def)
  from assms(1,8) same show ?thesis by (simp add: ip_inv_def)
qed

lemma ip_inv_count:
  assumes "ip_inv day ip (d, js)" and "i < length js" and "j_phase (js ! i) = Arrived"
    and "count_job d (js ! i) = (d', j)"
  shows "ip_inv day ip (d', js[i := j])"
proof -
  let ?k = "(j_day (js ! i), j_ip (js ! i))"
  have j: "j_day j = j_day (js ! i)" "j_ip j = j_ip (js ! i)" "j_n j = count_of ?k (db_ips d) + 1"
      "j_phase j \<noteq> Arrived" and d': "db_ips d' = bump ?k (db_ips d)"
    using assms(4) by (auto simp: count_job_def count_ip_def Let_def ct.count_same split: if_splits)
  have "\<not> counted_for day ip (js ! i)" using assms(3) by (simp add: counted_for_def)
  show ?thesis
  proof (cases "?k = (day, ip)")
    case True
    with d' j have cnt: "count_of (day, ip) (db_ips d') = j_n j" by (simp add: ct.count_same)
    with j True have old: "count_of (day, ip) (db_ips d) < j_n j" by simp
    have bound: "1 \<le> j_n (js ! k) \<and> j_n (js ! k) < j_n j"
      if "k < length js" "counted_for day ip (js ! k)" for k
      using assms(1) old that by (fastforce simp: ip_inv_def)
    have "1 \<le> j_n (js[i := j] ! k) \<and> j_n (js[i := j] ! k) \<le> j_n j"
      if "k < length js" "counted_for day ip (js[i := j] ! k)" for k
      using that bound [of k] j(3) by (cases "k = i") auto
    moreover have "k = m"
      if "k < length js" "m < length js" "counted_for day ip (js[i := j] ! k)" "counted_for day ip (js[i := j] ! m)"
        "j_n (js[i := j] ! k) = j_n (js[i := j] ! m)" for k m
    proof (cases "k = i \<or> m = i")
      case True
      with that bound [of k] bound [of m] show ?thesis by (cases "k = i"; cases "m = i") auto
    next
      case False
      with that assms(1) show ?thesis by (auto simp: ip_inv_def)
    qed
    ultimately show ?thesis using cnt by (simp add: ip_inv_def)
  next
    case False
    then have "\<not> counted_for day ip j" using j by (auto simp: counted_for_def)
    with \<open>\<not> counted_for day ip (js ! i)\<close>
    have "counted_for day ip (js[i := j] ! k) = (counted_for day ip (js ! k))
        \<and> (counted_for day ip (js ! k) \<longrightarrow> js[i := j] ! k = js ! k)" for k
      by (cases "k = i") (use assms(2) in auto)
    moreover have "count_of (day, ip) (db_ips d') = count_of (day, ip) (db_ips d)"
      using ct.count_other [of "(day, ip)" ?k "db_ips d"] False d' by metis
    ultimately show ?thesis using assms(1) by (simp add: ip_inv_def)
  qed
qed

lemma ip_inv_step:
  assumes "ping_step lim s s'" and "no_later_day day (snd s) \<longrightarrow> ip_inv day ip s" and "no_later_day day (snd s')"
  shows "ip_inv day ip s'"
  using assms
proof (induction rule: ping_step.induct)
  case (arrive js j d)
  then show ?case by (auto simp: ip_inv_def no_later_day_def counted_for_def nth_append less_Suc_eq)
next
  case (count i js d d' j)
  then have "j_day j = j_day (js ! i)" by (auto simp: count_job_def Let_def split: prod.splits)
  with count have "ip_inv day ip (d, js)" by (auto dest: no_later_update)
  with count show ?case by (blast intro: ip_inv_count)
next
  case (check i js d)
  then have "ip_inv day ip (d, js)" by (auto simp: check_job_def dest: no_later_update)
  then show ?case by (rule ip_inv_update) (use check in \<open>auto simp: check_job_def\<close>)
next
  case (store i js d)
  then have "ip_inv day ip (d, js)" by (auto dest: no_later_update)
  then show ?case by (rule ip_inv_update) (use store in \<open>auto simp: count_ping_def\<close>)
next
  case (clean i js d)
  then have nl: "no_later_day day js" by (auto dest: no_later_update)
  with clean have "ip_inv day ip (d, js)" and "\<not> text_less day (j_day (js ! i))"
    by (auto simp: no_later_day_def list_all_length)
  then show ?case
    by (intro ip_inv_update [of day ip d js]) (use clean in \<open>auto simp: housekeeping_def ct.count_kept\<close>)
qed

lemma ping_reach_ip:
  assumes "ping_reach lim d0 s"
  shows "no_later_day day (snd s) \<longrightarrow> ip_inv day ip s"
  using assms
proof (induction rule: ping_reach.induct)
  case init
  then show ?case by (simp add: ip_inv_def)
next
  case (step s s')
  then show ?case by (blast intro: ip_inv_step)
qed

text \<open>Requests of an address that passed its limit.\<close>

definition passed :: "jstr \<Rightarrow> jstr \<Rightarrow> job list \<Rightarrow> nat set" where
  "passed day ip js = {i. i < length js \<and> counted_for day ip (js ! i) \<and> \<not> over_ip (j_n (js ! i))}"

lemma passed_bound: "ip_inv day ip s \<Longrightarrow> card (passed day ip (snd s)) \<le> PER_IP_DAY"
proof -
  assume inv: "ip_inv day ip s"
  have "inj_on (\<lambda>i. j_n (snd s ! i)) (passed day ip (snd s))"
    using inv by (auto simp: ip_inv_def passed_def inj_on_def)
  moreover have "(\<lambda>i. j_n (snd s ! i)) ` passed day ip (snd s) \<subseteq> {1..PER_IP_DAY}"
    using inv by (auto simp: ip_inv_def passed_def over_ip_def)
  ultimately have "card (passed day ip (snd s)) \<le> card {1..PER_IP_DAY}"
    by (rule card_inj_on_le) simp
  then show ?thesis by simp
qed


subsection \<open>The handler runs these steps\<close>

text \<open>The job of a request that has passed the checks of \<open>ping\<close>.\<close>

definition job_of :: "(jstr \<Rightarrow> jstr \<Rightarrow> jstr \<Rightarrow> jstr) \<Rightarrow> request \<Rightarrow> env \<Rightarrow> nat \<Rightarrow> jstr \<Rightarrow> job" where
  "job_of ip_hash q en now key = \<lparr>j_day = dayOf now, j_oldest = oldestKept now,
     j_ip = ip_hash (case q_ip q of Some a \<Rightarrow> (if a \<noteq> [] then a else lit ''inconnue'') | None \<Rightarrow> lit ''inconnue'')
              (dayOf now) (case e_salt en of Some s \<Rightarrow> s | None \<Rightarrow> []),
     j_key = key, j_n = 0, j_phase = Arrived\<rparr>"

lemma count_job_count_ip: "count_ip (j_day j) (j_ip j) d = (d', n) \<Longrightarrow>
    count_job d j = (d', j\<lparr>j_n := n, j_phase := (if over_ip n then Answered 429 else Counted)\<rparr>)"
  by (simp add: count_job_def)

lemma run_job:
  assumes "length (filter active js) < lim" and "j_phase j = Arrived"
    and "count_ip (j_day j) (j_ip j) d = (d1, n)"
  defines "d2 \<equiv> (if over_ip n \<or> over_day (j_day j) d1 then d1
      else housekeeping (j_day j) (j_oldest j) (count_ping (j_day j) (j_key j) d1))"
    and "st \<equiv> (if over_ip n \<or> over_day (j_day j) d1 then 429 else 204)"
  shows "(ping_step lim)\<^sup>*\<^sup>* (d, js) (d2, js @ [j\<lparr>j_n := n, j_phase := Answered st\<rparr>])"
proof -
  let ?c = "j\<lparr>j_n := n, j_phase := Counted\<rparr>"
  have 1: "ping_step lim (d, js) (d, js @ [j])" using assms(1,2) by (rule ping_step.arrive)
  have 2: "ping_step lim (d, js @ [j]) (d1, js @ [j\<lparr>j_n := n, j_phase := (if over_ip n then Answered 429 else Counted)\<rparr>])"
    using ping_step.count [of "length js" "js @ [j]" d d1] count_job_count_ip [OF assms(3)] assms(2) by simp
  show ?thesis
  proof (cases "over_ip n")
    case True
    with 1 2 show ?thesis unfolding d2_def st_def by (auto intro: converse_rtranclp_into_rtranclp)
  next
    case ok: False
    have 3: "ping_step lim (d1, js @ [?c]) (d1, js @ [check_job d1 ?c])"
      using ping_step.check [of "length js" "js @ [?c]" lim d1] by simp
    show ?thesis
    proof (cases "over_day (j_day j) d1")
      case True
      with 1 2 3 ok show ?thesis unfolding d2_def st_def
        by (auto simp: check_job_def intro: converse_rtranclp_into_rtranclp)
    next
      case False
      let ?k = "j\<lparr>j_n := n, j_phase := Checked\<rparr>" and ?s = "j\<lparr>j_n := n, j_phase := Stored\<rparr>"
      have 4: "ping_step lim (d1, js @ [?k]) (count_ping (j_day j) (j_key j) d1, js @ [?s])"
        using ping_step.store [of "length js" "js @ [?k]" lim d1] by simp
      have 5: "ping_step lim (count_ping (j_day j) (j_key j) d1, js @ [?s])
          (housekeeping (j_day j) (j_oldest j) (count_ping (j_day j) (j_key j) d1), js @ [j\<lparr>j_n := n, j_phase := Answered 204\<rparr>])"
        using ping_step.clean [of "length js" "js @ [?s]" lim "count_ping (j_day j) (j_key j) d1"] by simp
      have "check_job d1 ?c = ?k" using False by (simp add: check_job_def)
      with 1 2 3 4 5 ok False show ?thesis unfolding d2_def st_def
        by (auto intro: converse_rtranclp_into_rtranclp)
    qed
  qed
qed

lemma ping_runs_job:
  assumes "q_method q = lit ''POST''" and "pingKey (q_body q) = Some key"
    and "length (filter active js) < lim" and "ping ip_hash q en now d = (d', r)"
  shows "\<exists>n. (ping_step lim)\<^sup>*\<^sup>* (d, js)
    (d', js @ [(job_of ip_hash q en now key)\<lparr>j_n := n, j_phase := Answered (r_status r)\<rparr>])"
proof -
  let ?j = "job_of ip_hash q en now key"
  obtain d1 n where c: "count_ip (j_day ?j) (j_ip ?j) d = (d1, n)" by fastforce
  have "\<not> length (q_body q) > MAX_BODY" using assms(2) by (auto simp: pingKey_def split: if_splits)
  then have "d' = (if over_ip n \<or> over_day (j_day ?j) d1 then d1
      else housekeeping (j_day ?j) (j_oldest ?j) (count_ping (j_day ?j) (j_key ?j) d1))
    \<and> r_status r = (if over_ip n \<or> over_day (j_day ?j) d1 then 429 else 204)"
    using assms(1,2,4) c by (auto simp: ping_def job_of_def Let_def too_many_def text_r_def split: if_splits)
  with run_job [OF assms(3) _ c] show ?thesis by (auto simp: job_of_def)
qed


subsection \<open>Two requests at once\<close>

definition full_db :: db where
  "full_db = \<lparr>db_ips = [], db_pings = [(([49], [107]), 4999)], db_fails = []\<rparr>"

definition ex_job :: "nat \<Rightarrow> job" where
  "ex_job ip = \<lparr>j_day = [49], j_oldest = [48], j_ip = [ip], j_key = [107], j_n = 0, j_phase = Arrived\<rparr>"

definition with_phase :: "phase \<Rightarrow> nat \<Rightarrow> job" where
  "with_phase ph ip = (ex_job ip)\<lparr>j_n := 1, j_phase := ph\<rparr>"

definition ips_db :: "nat \<Rightarrow> counters \<Rightarrow> db" where
  "ips_db n ps = \<lparr>db_ips = take n [(([49], [1]), 1), (([49], [2]), 1)], db_pings = ps, db_fails = []\<rparr>"

lemma two_at_once:
  "ping_reach 2 full_db (ips_db 2 [(([49], [107]), 5001)], [with_phase Stored 1, with_phase Stored 2])"
proof -
  let ?ps = "[(([49], [107]), 4999)] :: counters"
  have 0: "ping_reach 2 full_db (ips_db 0 ?ps, [])"
    using ping_reach.init [of 2 full_db] by (simp add: full_db_def ips_db_def)
  have 1: "ping_step 2 (ips_db 0 ?ps, []) (ips_db 0 ?ps, [ex_job 1])"
    using ping_step.arrive [of "[]" 2 "ex_job 1"] by (simp add: ex_job_def)
  have 2: "ping_step 2 (ips_db 0 ?ps, [ex_job 1]) (ips_db 0 ?ps, [ex_job 1, ex_job 2])"
    using ping_step.arrive [of "[ex_job 1]" 2 "ex_job 2"] by (simp add: ex_job_def)
  have 3: "ping_step 2 (ips_db 0 ?ps, [ex_job 1, ex_job 2]) (ips_db 1 ?ps, [with_phase Counted 1, ex_job 2])"
    using ping_step.count [of 0 "[ex_job 1, ex_job 2]" "ips_db 0 ?ps" "ips_db 1 ?ps" "with_phase Counted 1"]
    by (simp add: ex_job_def with_phase_def count_job_def count_ip_def ips_db_def bump_def count_of_def over_ip_def PER_IP_DAY_def)
  have 4: "ping_step 2 (ips_db 1 ?ps, [with_phase Counted 1, ex_job 2]) (ips_db 2 ?ps, [with_phase Counted 1, with_phase Counted 2])"
    using ping_step.count [of 1 "[with_phase Counted 1, ex_job 2]" "ips_db 1 ?ps" "ips_db 2 ?ps" "with_phase Counted 2"]
    by (simp add: ex_job_def with_phase_def count_job_def count_ip_def ips_db_def bump_def count_of_def over_ip_def PER_IP_DAY_def)
  have 5: "ping_step 2 (ips_db 2 ?ps, [with_phase Counted 1, with_phase Counted 2]) (ips_db 2 ?ps, [with_phase Checked 1, with_phase Counted 2])"
    using ping_step.check [of 0 "[with_phase Counted 1, with_phase Counted 2]" 2 "ips_db 2 ?ps"]
    by (simp add: with_phase_def ex_job_def check_job_def over_day_def ips_db_def day_total_def MAX_PER_DAY_def)
  have 6: "ping_step 2 (ips_db 2 ?ps, [with_phase Checked 1, with_phase Counted 2]) (ips_db 2 ?ps, [with_phase Checked 1, with_phase Checked 2])"
    using ping_step.check [of 1 "[with_phase Checked 1, with_phase Counted 2]" 2 "ips_db 2 ?ps"]
    by (simp add: with_phase_def ex_job_def check_job_def over_day_def ips_db_def day_total_def MAX_PER_DAY_def)
  have 7: "ping_step 2 (ips_db 2 ?ps, [with_phase Checked 1, with_phase Checked 2])
      (ips_db 2 [(([49], [107]), 5000)], [with_phase Stored 1, with_phase Checked 2])"
    using ping_step.store [of 0 "[with_phase Checked 1, with_phase Checked 2]" 2 "ips_db 2 ?ps"]
    by (simp add: with_phase_def ex_job_def count_ping_def ips_db_def bump_def count_of_def)
  have 8: "ping_step 2 (ips_db 2 [(([49], [107]), 5000)], [with_phase Stored 1, with_phase Checked 2])
      (ips_db 2 [(([49], [107]), 5001)], [with_phase Stored 1, with_phase Stored 2])"
    using ping_step.store [of 1 "[with_phase Stored 1, with_phase Checked 2]" 2 "ips_db 2 [(([49], [107]), 5000)]"]
    by (simp add: with_phase_def ex_job_def count_ping_def ips_db_def bump_def count_of_def)
  from ping_reach.step [OF 0 1] have "ping_reach 2 full_db (ips_db 0 ?ps, [ex_job 1])" .
  from ping_reach.step [OF ping_reach.step [OF ping_reach.step [OF this 2] 3] 4]
  have "ping_reach 2 full_db (ips_db 2 ?ps, [with_phase Counted 1, with_phase Counted 2])" .
  from ping_reach.step [OF ping_reach.step [OF this 5] 6]
  have "ping_reach 2 full_db (ips_db 2 ?ps, [with_phase Checked 1, with_phase Checked 2])" .
  from ping_reach.step [OF ping_reach.step [OF this 7] 8] show ?thesis .
qed

lemma two_at_once_latest: "no_later_day [49] [with_phase Stored 1, with_phase Stored 2]"
  by (simp add: no_later_day_def with_phase_def ex_job_def)

subsection \<open>Properties\<close>

text \<open>C11. However the database calls of simultaneous requests interleave, with at most \<open>lim\<close> of them
  in the handler at once, the pings counted for a day stay below \<open>MAX_PER_DAY + lim\<close>; with one request
  at a time they never pass \<open>MAX_PER_DAY\<close>.\<close>

theorem day_limit_concurrent:
  assumes "ping_reach lim d0 s" and "day_total day (db_pings d0) < MAX_PER_DAY + lim"
  shows "day_total day (db_pings (fst s)) < MAX_PER_DAY + lim"
  using ping_reach_day [OF assms] by (simp add: day_inv_def)

theorem day_limit_concurrent_witness:
  "day_total [49] (db_pings (fst (ips_db 2 [(([49], [107]), 5001)], [with_phase Stored 1, with_phase Stored 2]))) < MAX_PER_DAY + 2"
  by (rule day_limit_concurrent [OF two_at_once]) (simp add: full_db_def day_total_def MAX_PER_DAY_def)

text \<open>C12. The bound above is reached: with two requests at once, both read the sum before either stores
  its ping, and 5001 pings are counted where the limit is 5000.\<close>

theorem day_limit_exceeded:
  "\<exists>d0 s. day_total [49] (db_pings d0) < MAX_PER_DAY \<and> ping_reach 2 d0 s
    \<and> day_total [49] (db_pings (fst s)) = MAX_PER_DAY + 1"
proof (intro exI conjI)
  show "ping_reach 2 full_db (ips_db 2 [(([49], [107]), 5001)], [with_phase Stored 1, with_phase Stored 2])"
    by (rule two_at_once)
qed (simp_all add: full_db_def ips_db_def day_total_def MAX_PER_DAY_def)



text \<open>C14. The handler \<open>ping\<close> is a run of these steps: for an accepted body it takes the database where
  arriving, counting, checking, storing and cleaning up take it, and its status is the one of the job.\<close>

theorem ping_refines_steps:
  assumes "q_method q = lit ''POST''" and "pingKey (q_body q) = Some key"
    and "length (filter active js) < lim" and "ping ip_hash q en now d = (d', r)"
  shows "\<exists>n. (ping_step lim)\<^sup>*\<^sup>* (d, js)
    (d', js @ [(job_of ip_hash q en now key)\<lparr>j_n := n, j_phase := Answered (r_status r)\<rparr>])"
  using assms by (rule ping_runs_job)

definition ex_ping :: request where
  "ex_ping = \<lparr>q_url = \<lparr>u_hostname = [], u_pathname = lit ''/api/ping'', u_search = [], u_origin = []\<rparr>,
     q_method = lit ''POST'', q_body = [c_lc, c_dq] @ lit ''version'' @ [c_dq, c_colon, c_dq] @ lit ''0.4.1'' @ [c_dq, c_comma, c_dq]
       @ lit ''arch'' @ [c_dq, c_colon, c_dq] @ lit ''arm'' @ [c_dq, c_comma, c_dq] @ lit ''install'' @ [c_dq, c_colon, c_dq]
       @ lit ''apt'' @ [c_dq, c_rc], q_ip = None, q_auth = None\<rparr>"

definition ex_penv :: env where
  "ex_penv = \<lparr>e_old = [], e_site = [], e_salt = None, e_key = None\<rparr>"

lemma ex_ping_key: "pingKey (q_body ex_ping) = Some (lit ''0.4.1|arm|apt'')"
  by code_simp

theorem ping_refines_steps_witness:
  "\<exists>d' r n. (ping_step 1)\<^sup>*\<^sup>* (full_db, [])
    (d', [(job_of (\<lambda>a b c. a) ex_ping ex_penv 1000000 (lit ''0.4.1|arm|apt''))\<lparr>j_n := n, j_phase := Answered r\<rparr>])"
proof -
  have "q_method ex_ping = lit ''POST''" by (simp add: ex_ping_def)
  from ping_refines_steps [OF this ex_ping_key, of "[]" 1 "\<lambda>a b c. a" ex_penv 1000000 full_db] show ?thesis
    by (metis append_Nil filter.simps(1) list.size(3) surj_pair zero_less_one)
qed

end
