(* ===== verification/Sort_By.thy ===== *)
theory Sort_By imports Main begin

text \<open>
  Sorting with a comparison function, as \<open>Array.prototype.sort\<close> does it: the result holds the same values,
  in order when the comparison orders the values with different keys.
\<close>

text \<open>\<open>Array.prototype.sort\<close> is stable.\<close>

fun sort_into :: "('a \<Rightarrow> 'a \<Rightarrow> int) \<Rightarrow> 'a \<Rightarrow> 'a list \<Rightarrow> 'a list" where
  "sort_into cmp x [] = [x]"
| "sort_into cmp x (y # ys) = (if cmp x y \<le> 0 then x # y # ys else y # sort_into cmp x ys)"

definition sort_by :: "('a \<Rightarrow> 'a \<Rightarrow> int) \<Rightarrow> 'a list \<Rightarrow> 'a list" where
  "sort_by cmp xs = foldr (sort_into cmp) xs []"

text \<open>A comparison that orders the values with different keys.\<close>

locale comparison =
  fixes cmp :: "'a \<Rightarrow> 'a \<Rightarrow> int" and key :: "'a \<Rightarrow> 'k"
  assumes comp_total: "key x \<noteq> key y \<Longrightarrow> cmp x y \<le> 0 \<or> cmp y x \<le> 0"
    and comp_trans: "cmp x y \<le> 0 \<Longrightarrow> cmp y z \<le> 0 \<Longrightarrow> cmp x z \<le> 0"
begin

lemma set_sort_into: "set (sort_into cmp x ys) = insert x (set ys)"
  by (induction ys) auto

lemma sorted_sort_into:
  "sorted_wrt (\<lambda>x y. cmp x y \<le> 0) ys \<Longrightarrow> key x \<notin> key ` set ys
     \<Longrightarrow> sorted_wrt (\<lambda>x y. cmp x y \<le> 0) (sort_into cmp x ys)"
proof (induction ys)
  case (Cons y ys)
  then show ?case using comp_total [of x y] comp_trans [of x y] by (auto simp: set_sort_into)
qed simp

lemma set_sort_by: "set (sort_by cmp xs) = set xs"
  by (induction xs) (simp_all add: sort_by_def set_sort_into)

lemma sorted_sort_by: "distinct (map key xs) \<Longrightarrow> sorted_wrt (\<lambda>x y. cmp x y \<le> 0) (sort_by cmp xs)"
proof (induction xs)
  case (Cons x xs)
  then show ?case using set_sort_by [of xs] by (simp add: sort_by_def sorted_sort_into)
qed (simp add: sort_by_def)

end

end
