(* ===== verification/Stats_Render.thy ===== *)
theory Stats_Render imports Stats_Logic Sort_By begin

text \<open>
  The dashboard of the statistics receiver (\<open>tools/stats-worker/render.js\<close>): the sums over the rows of
  the database, the order of the versions, the releases of GitHub and the HTML of the page.

  Counts are natural numbers (the sources use doubles, exact below 2 to the 53). The quotient of a
  percentage is a double in the source and is rounded here as a double is. A percentage is its number of
  tenths. The collation of two pre-release texts (\<open>localeCompare\<close>) and the style sheet are arguments.
\<close>

definition CHART_DAYS :: nat where "CHART_DAYS = 30"
definition GITHUB_TTL :: nat where "GITHUB_TTL = 1800"
definition GITHUB_ERROR_TTL :: nat where "GITHUB_ERROR_TTL = 300"

subsection \<open>Escaping\<close>

definition esc_unit :: "nat \<Rightarrow> jstr" where
  "esc_unit c = (if c = 38 then lit ''&amp;'' else if c = 60 then lit ''&lt;'' else if c = 62 then lit ''&gt;''
     else if c = 34 then lit ''&quot;'' else if c = 39 then lit ''&#39;'' else [c])"

definition escapeHtml :: "jstr \<Rightarrow> jstr" where
  "escapeHtml s = concat (map esc_unit s)"

subsection \<open>Days\<close>

text \<open>\<open>new Date(`${today}T00:00:00Z`)\<close> as a number of days from 1970: a text \<open>YYYY-MM-DD\<close> whose month
  and day exist. The other texts are invalid dates here.\<close>

definition days_before :: "nat \<Rightarrow> nat" where
  "days_before y = sum_list (map year_days [1970..<y])"

definition parseDay :: "jstr \<Rightarrow> nat option" where
  "parseDay s = (case split_on c_dash s of
     [y, m, d] \<Rightarrow>
       (let Y = number y; M = number m; D = number d in
        if list_all all_digits [y, m, d] \<and> length y = 4 \<and> length m = 2 \<and> length d = 2
          \<and> 1970 \<le> Y \<and> 1 \<le> M \<and> M \<le> 12 \<and> 1 \<le> D \<and> D \<le> month_days Y ! (M - 1)
        then Some (days_before Y + sum_list (take (M - 1) (month_days Y)) + (D - 1)) else None)
   | _ \<Rightarrow> None)"

text \<open>\<open>None\<close>: \<open>toISOString\<close> raises on an invalid date.\<close>

definition lastDays :: "jstr \<Rightarrow> nat \<Rightarrow> jstr list option" where
  "lastDays today count = (case parseDay today of None \<Rightarrow> None
     | Some d \<Rightarrow> Some (map (\<lambda>back. dayOf (d * 86400000 - back * 86400000)) (rev [0..<count])))"

subsection \<open>Percentages\<close>

text \<open>\<open>a / b\<close> rounded to the nearest integer, to the even one on a tie.\<close>

definition round_even :: "nat \<Rightarrow> nat \<Rightarrow> nat" where
  "round_even a b = (let q = a div b; r = a mod b
     in if 2 * r < b \<or> 2 * r = b \<and> even q then q else q + 1)"

text \<open>Smallest shift that gives \<open>n / d\<close> the 53 bits of a double.\<close>

function shift_for :: "nat \<Rightarrow> nat \<Rightarrow> nat \<Rightarrow> nat" where
  "shift_for n d s = (if n = 0 \<or> 2 ^ 52 * d \<le> n * 2 ^ s then s else shift_for n d (s + 1))"
  by pat_completeness auto
termination
proof (relation "measure (\<lambda>(n, d, s). 2 ^ 52 * d - n * 2 ^ s)")
  fix n d s :: nat
  assume a: "\<not> (n = 0 \<or> 2 ^ 52 * d \<le> n * 2 ^ s)"
  then have "n * 2 ^ s < n * 2 ^ (s + 1)" by simp
  with a show "((n, d, s + 1), (n, d, s)) \<in> measure (\<lambda>(n, d, s). 2 ^ 52 * d - n * 2 ^ s)"
    by (simp only: in_measure split_conv) linarith
qed simp

declare shift_for.simps [simp del]

text \<open>The product of a 53-bit integer and 1000 takes at most 63 bits: those dropped to come back to 53.\<close>

definition drop_for :: "nat \<Rightarrow> nat" where
  "drop_for a = length (filter (\<lambda>k. 2 ^ (53 + k) \<le> a) [0..<11])"

text \<open>\<open>Math.round((n / total) * 1000)\<close> in doubles, for a quotient below 2 to the 53.\<close>

definition round_tenths :: "nat \<Rightarrow> nat \<Rightarrow> nat" where
  "round_tenths n d = (let s = shift_for n d 0; q = round_even (n * 2 ^ s) d;
       k = drop_for (q * 1000); p = round_even (q * 1000) (2 ^ k)
     in (2 * p * 2 ^ k + 2 ^ s) div 2 ^ (s + 1))"

definition percent :: "nat \<Rightarrow> nat \<Rightarrow> nat" where
  "percent n tot = (if tot > 0 then round_tenths n tot else 0)"

subsection \<open>Versions\<close>

definition VERSION_RANK_RE :: re where
  "VERSION_RANK_RE = seq_r [RStart, RCap 1 (plus_r (RCls is_digit)), chr_r c_dot,
     RCap 2 (plus_r (RCls is_digit)), chr_r c_dot, RCap 3 (plus_r (RCls is_digit)),
     opt_r (RSeq (chr_r c_dash) (RCap 4 (RStar (RCls (\<lambda>c. c \<noteq> 43))))),
     opt_r (RCap 5 (str_r (lit ''+dev''))), REnd]"

record rank =
  rk_nums :: "nat list"
  rk_stage :: nat
  rk_pre :: jstr

definition versionRank :: "jstr \<Rightarrow> rank option" where
  "versionRank v = (case exec VERSION_RANK_RE v 0 of None \<Rightarrow> None
     | Some m \<Rightarrow> Some \<lparr>rk_nums = [number (cap_of m 1), number (cap_of m 2), number (cap_of m 3)],
         rk_stage = (if cap_of m 5 \<noteq> [] then 2 else if cap_of m 4 \<noteq> [] then 0 else 1),
         rk_pre = cap_of m 4\<rparr>)"

text \<open>The first difference of two lists of numbers, the larger number first.\<close>

fun first_diff :: "nat list \<Rightarrow> nat list \<Rightarrow> int option" where
  "first_diff (x # xs) (y # ys) = (if x \<noteq> y then Some (int y - int x) else first_diff xs ys)"
| "first_diff _ _ = None"

definition compareVersions :: "(jstr \<Rightarrow> jstr \<Rightarrow> int) \<Rightarrow> jstr \<Rightarrow> jstr \<Rightarrow> int" where
  "compareVersions collate a b = (case (versionRank a, versionRank b) of
     (Some x, Some y) \<Rightarrow>
       (case first_diff (rk_nums x) (rk_nums y) of Some d \<Rightarrow> d
        | None \<Rightarrow> if rk_stage x \<noteq> rk_stage y then int (rk_stage y) - int (rk_stage x)
                  else collate (rk_pre y) (rk_pre x))
   | (Some x, None) \<Rightarrow> -1
   | (None, Some y) \<Rightarrow> 1
   | (None, None) \<Rightarrow> if text_less a b then -1 else if text_less b a then 1 else 0)"

subsection \<open>Sums over the counters\<close>

type_synonym row = "(jstr \<times> jstr) \<times> nat"

record share =
  sh_value :: jstr
  sh_last30 :: nat
  sh_total :: nat
  sh_pct30 :: nat
  sh_pct :: nat

type_synonym dim = "(jstr \<times> (nat \<times> nat)) list"

record tally =
  ta_total :: nat
  ta_last30 :: nat
  ta_last7 :: nat
  ta_today :: nat
  ta_perDay :: "(jstr \<times> nat) list"
  ta_dims :: "dim list"
  ta_days :: "(jstr \<times> (jstr \<times> nat) list) list"

definition init_tally :: tally where
  "init_tally = \<lparr>ta_total = 0, ta_last30 = 0, ta_last7 = 0, ta_today = 0, ta_perDay = [],
     ta_dims = [[], [], []], ta_days = []\<rparr>"

text \<open>\<open>parts[i] || 'inconnue'\<close>\<close>

definition part_of :: "jstr list \<Rightarrow> nat \<Rightarrow> jstr" where
  "part_of parts i = (if i < length parts \<and> parts ! i \<noteq> [] then parts ! i else lit ''inconnue'')"

definition add_dim :: "jstr \<Rightarrow> bool \<Rightarrow> nat \<Rightarrow> dim \<Rightarrow> dim" where
  "add_dim v recent n m = (let (l, t) = (case map_of m v of Some e \<Rightarrow> e | None \<Rightarrow> (0, 0))
     in obj_set v (if recent then l + n else l, t + n) m)"

definition add_row :: "jstr list \<Rightarrow> jstr \<Rightarrow> row \<Rightarrow> tally \<Rightarrow> tally" where
  "add_row window30 today r t =
     (let ((day, key), n) = r in
      if n = 0 then t
      else
        (let recent = (day \<in> set window30);
             parts = split_on c_bar key;
             day_keys = (case map_of (ta_days t) day of Some o1 \<Rightarrow> o1 | None \<Rightarrow> []);
             per = (case map_of (ta_perDay t) day of Some k \<Rightarrow> k | None \<Rightarrow> 0)
         in \<lparr>ta_total = ta_total t + n,
             ta_last30 = (if recent then ta_last30 t + n else ta_last30 t),
             ta_last7 = (if day \<in> set (drop (length window30 - 7) window30) then ta_last7 t + n else ta_last7 t),
             ta_today = (if day = today then ta_today t + n else ta_today t),
             ta_perDay = obj_set day (per + n) (ta_perDay t),
             ta_dims = map (\<lambda>(i, m). add_dim (part_of parts i) recent n m) (enumerate 0 (ta_dims t)),
             ta_days = obj_set day (obj_set key n day_keys) (ta_days t)\<rparr>))"

definition byCount :: "share \<Rightarrow> share \<Rightarrow> int" where
  "byCount a b = (if sh_total b \<noteq> sh_total a then int (sh_total b) - int (sh_total a)
     else if sh_last30 b \<noteq> sh_last30 a then int (sh_last30 b) - int (sh_last30 a)
     else if text_less (sh_value a) (sh_value b) then -1 else 1)"

definition byVersion :: "(jstr \<Rightarrow> jstr \<Rightarrow> int) \<Rightarrow> share \<Rightarrow> share \<Rightarrow> int" where
  "byVersion collate a b = compareVersions collate (sh_value a) (sh_value b)"

definition breakdown :: "tally \<Rightarrow> dim \<Rightarrow> (share \<Rightarrow> share \<Rightarrow> int) \<Rightarrow> share list" where
  "breakdown t m cmp = sort_by cmp (map (\<lambda>(v, (l, n)).
     \<lparr>sh_value = v, sh_last30 = l, sh_total = n, sh_pct30 = percent l (ta_last30 t), sh_pct = percent n (ta_total t)\<rparr>) m)"

record summary =
  su_today :: nat
  su_last7 :: nat
  su_last30 :: nat
  su_total :: nat
  su_days30 :: "(jstr \<times> nat) list"
  su_version :: "share list"
  su_arch :: "share list"
  su_install :: "share list"
  su_days :: "(jstr \<times> (jstr \<times> nat) list) list"

definition summary_of :: "(jstr \<Rightarrow> jstr \<Rightarrow> int) \<Rightarrow> jstr list \<Rightarrow> tally \<Rightarrow> summary" where
  "summary_of collate window30 t =
     \<lparr>su_today = ta_today t, su_last7 = ta_last7 t, su_last30 = ta_last30 t, su_total = ta_total t,
      su_days30 = map (\<lambda>day. (day, case map_of (ta_perDay t) day of Some k \<Rightarrow> k | None \<Rightarrow> 0)) window30,
      su_version = breakdown t (ta_dims t ! 0) (byVersion collate),
      su_arch = breakdown t (ta_dims t ! 1) byCount,
      su_install = breakdown t (ta_dims t ! 2) byCount,
      su_days = ta_days t\<rparr>"

definition summarize :: "(jstr \<Rightarrow> jstr \<Rightarrow> int) \<Rightarrow> row list \<Rightarrow> jstr \<Rightarrow> summary option" where
  "summarize collate rows today = (case lastDays today CHART_DAYS of None \<Rightarrow> None
     | Some window30 \<Rightarrow> Some (summary_of collate window30 (fold (add_row window30 today) rows init_tally)))"

subsection \<open>Releases of GitHub\<close>

text \<open>A member of a value: \<open>undefined\<close> is \<open>None\<close>.\<close>

definition js_member :: "json \<Rightarrow> string \<Rightarrow> json option" where
  "js_member v k = (case v of JObj ms \<Rightarrow> map_of ms (lit k) | _ \<Rightarrow> None)"

text \<open>\<open>String(v)\<close>; the text of a number is the one it is written with.\<close>

fun js_string :: "json \<Rightarrow> jstr" where
  "js_string JNull = lit ''null''"
| "js_string (JBool b) = (if b then lit ''true'' else lit ''false'')"
| "js_string (JNum t) = t"
| "js_string (JStr s) = s"
| "js_string (JArr xs) = join [c_comma] (map (\<lambda>x. if x = JNull then [] else js_string x) xs)"
| "js_string (JObj ms) = lit ''[object Object]''"

text \<open>\<open>Number.isSafeInteger(v) && v > 0\<close>, for numbers written with digits only.\<close>

definition downloads :: "json option \<Rightarrow> nat" where
  "downloads v = (case v of Some (JNum t) \<Rightarrow> (if all_digits t \<and> number t < 2 ^ 53 then number t else 0) | _ \<Rightarrow> 0)"

record release =
  rel_tag :: jstr
  rel_pre :: bool
  rel_published :: jstr
  rel_zip :: nat
  rel_deb :: nat
  rel_total :: nat

definition js_str_or_empty :: "json option \<Rightarrow> jstr" where
  "js_str_or_empty v = (case v of Some (JStr s) \<Rightarrow> s | _ \<Rightarrow> [])"

definition add_asset :: "json \<Rightarrow> nat \<times> nat \<Rightarrow> nat \<times> nat" where
  "add_asset a zd = (case js_member a ''name'' of
     Some (JStr name) \<Rightarrow>
       (if name = lit ''frp-manager.zip'' then (fst zd + downloads (js_member a ''download_count''), snd zd)
        else if endsWith name (lit ''.deb'') then (fst zd, snd zd + downloads (js_member a ''download_count''))
        else zd)
   | _ \<Rightarrow> zd)"

definition release_of :: "json \<Rightarrow> release" where
  "release_of r = (let (z, d) = fold add_asset (case js_member r ''assets'' of Some (JArr xs) \<Rightarrow> xs | _ \<Rightarrow> []) (0, 0)
     in \<lparr>rel_tag = (case js_member r ''tag_name'' of None \<Rightarrow> [] | Some JNull \<Rightarrow> [] | Some v \<Rightarrow> js_string v),
         rel_pre = (js_member r ''prerelease'' = Some (JBool True)),
         rel_published = js_str_or_empty (js_member r ''published_at''),
         rel_zip = z, rel_deb = d, rel_total = z + d\<rparr>)"

fun js_object :: "json \<Rightarrow> bool" where
  "js_object (JArr _) = True"
| "js_object (JObj _) = True"
| "js_object _ = False"

definition releasesFrom :: "json \<Rightarrow> release list option" where
  "releasesFrom v = (case v of JArr xs \<Rightarrow> Some (map release_of (filter js_object xs)) | _ \<Rightarrow> None)"

text \<open>Totals of the zip files, the packages, and both.\<close>

definition releaseTotals :: "release list \<Rightarrow> nat \<times> nat \<times> nat" where
  "releaseTotals rs = fold (\<lambda>r (z, d, t). (z + rel_zip r, d + rel_deb r, t + rel_total r)) rs (0, 0, 0)"

subsection \<open>Data of the dashboard\<close>

record github =
  gh_releases :: "release list option"
  gh_error :: jstr
  gh_fetched :: jstr

definition pad3 :: "nat \<Rightarrow> jstr" where
  "pad3 n = [48 + n div 100 mod 10, 48 + n div 10 mod 10, 48 + n mod 10]"

definition isoText :: "nat \<Rightarrow> jstr" where
  "isoText ms = dayOf ms @ lit ''T'' @ pad2 (ms div 3600000 mod 24) @ [c_colon] @ pad2 (ms div 60000 mod 60)
     @ [c_colon] @ pad2 (ms div 1000 mod 60) @ [c_dot] @ pad3 (ms mod 1000) @ lit ''Z''"

record stats =
  st_generated :: jstr
  st_today :: jstr
  st_keep :: nat
  st_pings :: summary
  st_releases :: "release list option"
  st_totals :: "(nat \<times> nat \<times> nat) option"
  st_error :: jstr
  st_fetched :: jstr

definition statsData :: "(jstr \<Rightarrow> jstr \<Rightarrow> int) \<Rightarrow> row list \<Rightarrow> nat \<Rightarrow> github \<Rightarrow> stats option" where
  "statsData collate rows now g = (case summarize collate rows (dayOf now) of None \<Rightarrow> None
     | Some su \<Rightarrow> Some \<lparr>st_generated = isoText now, st_today = dayOf now, st_keep = KEEP_DAYS, st_pings = su,
         st_releases = gh_releases g, st_totals = map_option releaseTotals (gh_releases g),
         st_error = (case gh_releases g of Some _ \<Rightarrow> []
            | None \<Rightarrow> if gh_error g \<noteq> [] then gh_error g else lit ''donn'' @ [233] @ lit ''es GitHub absentes''),
         st_fetched = gh_fetched g\<rparr>)"

subsection \<open>Formatting\<close>

text \<open>A narrow no-break space where the number of digits left is a multiple of three.\<close>

definition formatInt :: "nat \<Rightarrow> jstr" where
  "formatInt n = (let s = digits n; k = length s
     in concat (map (\<lambda>i. (if 0 < i \<and> (k - i) mod 3 = 0 then [8239] else []) @ [s ! i]) [0..<k]))"

definition formatPct :: "nat \<Rightarrow> jstr" where
  "formatPct p = digits (p div 10) @ [c_comma] @ [48 + p mod 10] @ [160, 37]"

definition DATE_RE :: re where
  "DATE_RE = seq_r [RStart, RCap 1 (rep_r 4 4 (RCls is_digit)), chr_r c_dash, RCap 2 (rep_r 2 2 (RCls is_digit)),
     chr_r c_dash, RCap 3 (rep_r 2 2 (RCls is_digit))]"

definition DATE_TIME_RE :: re where
  "DATE_TIME_RE = seq_r [RStart, RCap 1 (rep_r 4 4 (RCls is_digit)), chr_r c_dash, RCap 2 (rep_r 2 2 (RCls is_digit)),
     chr_r c_dash, RCap 3 (rep_r 2 2 (RCls is_digit)), chr_r 84, RCap 4 (rep_r 2 2 (RCls is_digit)), chr_r c_colon,
     RCap 5 (rep_r 2 2 (RCls is_digit))]"

definition em_dash :: jstr where "em_dash = [8212]"

definition frDate :: "jstr \<Rightarrow> jstr" where
  "frDate t = (case exec DATE_RE t 0 of None \<Rightarrow> em_dash
     | Some m \<Rightarrow> cap_of m 3 @ [47] @ cap_of m 2 @ [47] @ cap_of m 1)"

definition frDateTime :: "jstr \<Rightarrow> jstr" where
  "frDateTime t = (case exec DATE_TIME_RE t 0 of None \<Rightarrow> em_dash
     | Some m \<Rightarrow> cap_of m 3 @ [47] @ cap_of m 2 @ [47] @ cap_of m 1 @ lit '' '' @ [224] @ lit '' '' @ cap_of m 4 @ [c_colon] @ cap_of m 5
         @ lit '' UTC'')"

definition shortDay :: "jstr \<Rightarrow> jstr" where
  "shortDay day = Prelude.slice day 8 10 @ [47] @ Prelude.slice day 5 7"

definition sends :: "nat \<Rightarrow> jstr" where
  "sends n = formatInt n @ lit '' envoi'' @ (if n > 1 then lit ''s'' else [])"

subsection \<open>Tables\<close>

text \<open>A cell is markup written by the sources or data, which is escaped.\<close>

datatype cell = Markup jstr | Data jstr

record col =
  co_label :: jstr
  co_num :: bool
  co_cls :: jstr

definition cellHtml :: "cell \<Rightarrow> jstr" where
  "cellHtml c = (case c of Markup html \<Rightarrow> html | Data s \<Rightarrow> escapeHtml s)"

definition col_class :: "col \<Rightarrow> jstr" where
  \<open>col_class c = (let names = join [c_sp] (truthy [if co_num c then lit ''num'' else [], co_cls c])
     in if names \<noteq> [] then lit '' class="'' @ names @ lit ''"'' else [])\<close>

definition table_line :: "col list \<Rightarrow> cell list \<Rightarrow> jstr" where
  \<open>table_line columns r = lit ''<tr>'' @ concat (map (\<lambda>(i, c). lit ''<td'' @ col_class (columns ! i) @ lit ''>'' @ cellHtml c @ lit ''</td>'')
     (enumerate 0 r)) @ lit ''</tr>''\<close>

definition html_table :: "col list \<Rightarrow> cell list list \<Rightarrow> cell list option \<Rightarrow> jstr" where
  \<open>html_table columns rows foot = lit ''<div class="scroll"><table>'' @ [10] @ lit ''<thead><tr>'' @ concat (map (\<lambda>c. lit ''<th scope="col"'' @ col_class c @ lit ''>'' @ escapeHtml (co_label c) @ lit ''</th>'') columns)
     @ lit ''</tr></thead>'' @ [10] @ lit ''<tbody>'' @ join [c_nl] (map (table_line columns) rows) @ lit ''</tbody>''
     @ (case foot of None \<Rightarrow> [] | Some f \<Rightarrow> [10] @ lit ''<tfoot>'' @ table_line columns f @ lit ''</tfoot>'') @ [10] @ lit ''</table></div>''\<close>

definition plain_col :: "jstr \<Rightarrow> col" where
  "plain_col label = \<lparr>co_label = label, co_num = False, co_cls = []\<rparr>"

definition num_col :: "jstr \<Rightarrow> col" where
  "num_col label = \<lparr>co_label = label, co_num = True, co_cls = []\<rparr>"

definition share_cells :: "share \<Rightarrow> cell list" where
  "share_cells e = [Data (sh_value e), Data (formatInt (sh_last30 e)), Data (formatPct (sh_pct30 e)),
     Data (formatInt (sh_total e)), Data (formatPct (sh_pct e))]"

definition breakdownTable :: "jstr \<Rightarrow> share list \<Rightarrow> jstr" where
  \<open>breakdownTable label es = (if es = [] then lit ''<p class="muted">Aucun envoi.</p>''
     else html_table [plain_col label, num_col (lit ''30 jours''), num_col (lit ''Part''), num_col (lit ''Total''), num_col (lit ''Part'')]
       (map share_cells es) None)\<close>

text \<open>Text of a number of tenths as a number of the language prints.\<close>

definition tenths_text :: "nat \<Rightarrow> jstr" where
  "tenths_text k = (if k mod 10 = 0 then digits (k div 10) else digits (k div 10) @ [c_dot] @ [48 + k mod 10])"

definition bar_height :: "nat \<Rightarrow> nat \<Rightarrow> nat" where
  "bar_height n most = (if n > 0 then max 20 (round_tenths n most) else 0)"

definition day_column :: "jstr \<Rightarrow> nat \<Rightarrow> jstr \<times> nat \<Rightarrow> jstr" where
  \<open>day_column today most dn = (let (day, n) = dn; now = (day = today);
       tip = shortDay day @ lit '' : '' @ sends n @ (if now then lit '' (en cours)'' else []);
       bar = (if n > 0 then lit ''<span class="bar'' @ (if now then lit '' now'' else []) @ lit ''" style="height:''
                @ tenths_text (bar_height n most) @ lit ''%"></span>'' else [])
     in lit ''<span class="col" title="'' @ escapeHtml tip @ lit ''">'' @ bar @ lit ''</span>'')\<close>

definition day_tick :: "nat \<Rightarrow> nat \<times> jstr \<times> nat \<Rightarrow> jstr" where
  \<open>day_tick k idn = (let (i, (day, n)) = idn in lit ''<span>''
     @ (if (k - 1 - i) mod 7 = 0 then lit ''<b>'' @ escapeHtml (shortDay day) @ lit ''</b>'' else []) @ lit ''</span>'')\<close>

definition day_cells :: "jstr \<Rightarrow> jstr \<times> nat \<Rightarrow> cell list" where
  \<open>day_cells today dn = (let (day, n) = dn
     in [Data (if day = today then frDate day @ lit '' (en cours)'' else frDate day), Data (formatInt n)])\<close>

definition dayChart :: "(jstr \<times> nat) list \<Rightarrow> jstr \<Rightarrow> jstr" where
  \<open>dayChart days30 today =
     (let most = fold max (map snd days30) 1; first = fst (hd days30); final = fst (last days30);
          cols = concat (map (day_column today most) days30);
          ticks = concat (map (day_tick (length days30)) (enumerate 0 days30))
      in lit ''<figure class="chart">'' @ [10] @ lit ''<div class="ymax" aria-hidden="true"><span>'' @ formatInt most @ lit ''</span></div>'' @ [10] @ lit ''<div class="cols" role="img" aria-label="'' @ escapeHtml (lit ''Envois par jour du '' @ frDate first @ lit '' au '' @ frDate final
         @ lit '' : au plus '' @ sends most @ lit '' par jour'') @ lit ''">'' @ cols @ lit ''</div>'' @ [10] @ lit ''<div class="ticks" aria-hidden="true">'' @ ticks @ lit ''</div>'' @ [10] @ lit ''<figcaption>Envois par jour, '' @ escapeHtml (frDate first) @ lit '' '' @ [8211] @ lit '' '' @ escapeHtml (frDate final)
         @ lit '' (UTC). La derni'' @ [232] @ lit ''re barre, att'' @ [233] @ lit ''nu'' @ [233] @ lit ''e, est la journ'' @ [233] @ lit ''e en cours.</figcaption>'' @ [10] @ lit ''</figure>'' @ [10] @ lit ''<details><summary>Chiffres jour par jour</summary>'' @ [10] @ html_table [plain_col (lit ''Jour''), num_col (lit ''Envois'')]
         (map (day_cells today) (rev days30)) None
      @ [10] @ lit ''</details>'')\<close>

definition kind_cell :: "release \<Rightarrow> cell" where
  \<open>kind_cell r = Markup (if rel_pre r then lit ''<span class="tag pre">pr'' @ [233] @ lit ''-release</span>''
     else lit ''<span class="tag">d'' @ [233] @ lit ''finitive</span>'')\<close>

definition tag_cell :: "release \<Rightarrow> cell" where
  \<open>tag_cell r = Markup (escapeHtml (rel_tag r)
     @ (if rel_pre r then lit '' <span class="tag pre narrow">pr'' @ [233] @ lit ''-release</span>'' else []))\<close>

definition release_cells :: "release \<Rightarrow> cell list" where
  "release_cells r = [tag_cell r, kind_cell r, Data (frDate (rel_published r)), Data (formatInt (rel_zip r)),
     Data (formatInt (rel_deb r)), Data (formatInt (rel_total r))]"

definition release_table :: "release list \<Rightarrow> (nat \<times> nat \<times> nat) option \<Rightarrow> jstr" where
  \<open>release_table rs totals = (let (z, d, t) = (case totals of Some x \<Rightarrow> x | None \<Rightarrow> (0, 0, 0))
     in html_table [plain_col (lit ''Version''), \<lparr>co_label = lit ''Type'', co_num = False, co_cls = lit ''wide''\<rparr>,
               plain_col (lit ''Date''), num_col (lit ''zip''), num_col (lit ''.deb''), num_col (lit ''Total'')]
             (map release_cells rs)
             (Some [Data (lit ''Total''), Data [], Data [], Data (formatInt z), Data (formatInt d), Data (formatInt t)]))\<close>

definition fetched_note :: "jstr \<Rightarrow> jstr" where
  \<open>fetched_note at = (if at \<noteq> [] then [10] @ lit ''<p class="meta">Chiffres de GitHub relev'' @ [233] @ lit ''s le '' @ escapeHtml (frDateTime at) @ lit '', gard'' @ [233] @ lit ''s 30 minutes.</p>'' else [])\<close>

definition releasesSection :: "stats \<Rightarrow> jstr" where
  \<open>releasesSection data = (case st_releases data of
     None \<Rightarrow> lit ''<p class="error" role="status">T'' @ [233] @ lit ''l'' @ [233] @ lit ''chargements indisponibles : '' @ escapeHtml (st_error data)
       @ lit ''. R'' @ [233] @ lit ''essayez plus tard.</p>''
   | Some rs \<Rightarrow>
       if rs = [] then lit ''<p class="muted">Aucune release publi'' @ [233] @ lit ''e.</p>''
       else release_table rs (st_totals data) @ fetched_note (st_fetched data))\<close>

subsection \<open>The page\<close>

definition tile :: "jstr \<Rightarrow> nat \<Rightarrow> jstr" where
  \<open>tile label n = lit ''<div class="tile"><span class="label">'' @ escapeHtml label @ lit ''</span><span class="value">''
     @ formatInt n @ lit ''</span></div>''\<close>

definition panels :: "stats \<Rightarrow> jstr" where
  \<open>panels data = (let p = st_pings data in
     if su_total p > 0 then dayChart (su_days30 p) (st_today data) @ [10] @ lit ''<h3>Par version</h3>'' @ [10] @ breakdownTable (lit ''Version'') (su_version p) @ [10] @ lit ''<div class="grid2">'' @ [10] @ lit ''<div><h3>Par architecture</h3>'' @ [10] @ breakdownTable (lit ''Architecture'') (su_arch p) @ lit ''</div>'' @ [10] @ lit ''<div><h3>Par m'' @ [233] @ lit ''thode d'' @ [39] @ lit ''installation</h3>'' @ [10] @ breakdownTable (lit ''Installation'') (su_install p) @ lit ''</div>'' @ [10] @ lit ''</div>''
     else lit ''<p class="muted">Aucun envoi re'' @ [231] @ lit ''u pour l'' @ [39] @ lit ''instant : un panel n'' @ [39] @ lit ''envoie rien tant que son administrateur n'' @ [39] @ lit ''a pas accept'' @ [233] @ lit '' les statistiques anonymes.</p>'')\<close>

definition page_head :: "jstr \<Rightarrow> jstr" where
  \<open>page_head style = lit ''<!doctype html>'' @ [10] @ lit ''<html lang="fr">'' @ [10] @ lit ''<head>'' @ [10] @ lit ''<meta charset="utf-8">'' @ [10] @ lit ''<meta name="viewport" content="width=device-width, initial-scale=1">'' @ [10] @ lit ''<meta name="robots" content="noindex, nofollow">'' @ [10] @ lit ''<meta name="color-scheme" content="light dark">'' @ [10] @ lit ''<title>Espace priv'' @ [233] @ lit '' '' @ [8212] @ lit '' FRP Manager</title>'' @ [10] @ lit ''<style>'' @ style @ lit ''</style>'' @ [10] @ lit ''</head>'' @ [10] @ lit ''<body>'' @ [10] @ lit ''<main>'' @ [10] @ lit ''<header>'' @ [10] @ lit ''<p class="eyebrow">FRP Manager</p>'' @ [10] @ lit ''<h1>Espace priv'' @ [233] @ lit ''</h1>'' @ [10] @ lit ''<p class="note">Chiffres anonymes ; les envois ne comptent que les panels dont l'' @ [39] @ lit ''administrateur a accept'' @ [233] @ lit '' les statistiques.</p>'' @ [10] @ lit ''<p class="meta">Page g'' @ [233] @ lit ''n'' @ [233] @ lit ''r'' @ [233] @ lit ''e le ''\<close>

definition renderPage :: "jstr \<Rightarrow> stats \<Rightarrow> jstr" where
  \<open>renderPage style data = (let p = st_pings data in page_head style @ escapeHtml (frDateTime (st_generated data))
     @ lit ''. Jours en UTC.</p>'' @ [10] @ lit ''</header>'' @ [10, 10] @ lit ''<section aria-labelledby="envois">'' @ [10] @ lit ''<h2 id="envois">Envois des panels</h2>'' @ [10] @ lit ''<p class="muted">Un panel envoie au plus un signal par jour (version, architecture, m'' @ [233] @ lit ''thode d'' @ [39] @ lit ''installation) : le nombre d'' @ [39] @ lit ''un jour donne '' @ [224] @ lit '' peu pr'' @ [232] @ lit ''s celui des panels actifs ce jour-l'' @ [224] @ lit ''. Les compteurs sont gard'' @ [233] @ lit ''s ''
     @ formatInt (st_keep data) @ lit '' jours, sans adresse IP ni identifiant.</p>'' @ [10] @ lit ''<div class="tiles">'' @ [10] @ tile (lit ''Aujourd'' @ [39] @ lit ''hui (en cours)'') (su_today p) @ [c_nl] @ tile (lit ''7 derniers jours'') (su_last7 p) @ [c_nl]
     @ tile (lit ''30 derniers jours'') (su_last30 p) @ [c_nl]
     @ tile (lit ''Total ('' @ formatInt (st_keep data) @ lit '' jours)'') (su_total p) @ [10] @ lit ''</div>'' @ [10] @ panels data @ [10] @ lit ''</section>'' @ [10, 10] @ lit ''<section aria-labelledby="telechargements">'' @ [10] @ lit ''<h2 id="telechargements">T'' @ [233] @ lit ''l'' @ [233] @ lit ''chargements des releases GitHub</h2>'' @ [10] @ lit ''<p class="muted">Compteurs de GitHub : chaque mise '' @ [224] @ lit '' jour d'' @ [39] @ lit ''un panel par son bouton t'' @ [233] @ lit ''l'' @ [233] @ lit ''charge <code>frp-manager.zip</code> ; les <code>.deb</code> sont ceux t'' @ [233] @ lit ''l'' @ [233] @ lit ''charg'' @ [233] @ lit ''s depuis GitHub, pas depuis le d'' @ [233] @ lit ''p'' @ [244] @ lit ''t apt. Un t'' @ [233] @ lit ''l'' @ [233] @ lit ''chargement n'' @ [39] @ lit ''est pas une installation active, et les images Docker n'' @ [39] @ lit ''ont pas de compteur public.</p>'' @ [10] @ releasesSection data @ [10] @ lit ''</section>'' @ [10, 10] @ lit ''<footer>Les m'' @ [234] @ lit ''mes donn'' @ [233] @ lit ''es en JSON : <a href="stats.json">stats.json</a>.</footer>'' @ [10] @ lit ''</main>'' @ [10] @ lit ''</body>'' @ [10] @ lit ''</html>'' @ [10])\<close>

end
