(* ===== verification/Stats_Html.thy ===== *)
theory Stats_Html imports Stats_Render begin

text \<open>
  Safety of the HTML of the dashboard. The marks of a text are its angle brackets and quotes, the
  characters that open and close tags and attribute values. Whatever the texts of the data, the marks of
  the page are those the sources write: they depend on the shape of the data only (how many rows, which
  releases are pre-releases, which counts are zero), never on a version, a tag or an error message.
\<close>

definition mark :: "nat \<Rightarrow> bool" where
  "mark c \<longleftrightarrow> c = 60 \<or> c = 62 \<or> c = 34 \<or> c = 39"

definition marks :: "jstr \<Rightarrow> jstr" where
  "marks s = filter mark s"

lemma marks_append [simp]: "marks (a @ b) = marks a @ marks b"
  by (simp add: marks_def)

lemma marks_Nil [simp]: "marks [] = []"
  by (simp add: marks_def)

lemma marks_concat: "marks (concat xs) = concat (map marks xs)"
  by (induction xs) auto

lemma marks_esc_unit [simp]: "marks (esc_unit c) = []"
  by (simp add: esc_unit_def marks_def mark_def lit_simps)

lemma marks_escape [simp]: "marks (escapeHtml s) = []"
  by (induction s) (simp_all add: escapeHtml_def)

lemma marks_none: "list_all (\<lambda>c. \<not> mark c) s \<Longrightarrow> marks s = []"
  by (induction s) (auto simp: marks_def)

lemma marks_digits [simp]: "marks (digits n) = []"
  using digits_all [of n] by (intro marks_none) (auto simp: list_all_iff is_digit_def mark_def)

lemma marks_formatInt [simp]: "marks (formatInt n) = []"
proof (rule marks_none)
  have "\<not> mark (digits n ! i)" if "i < length (digits n)" for i
    using digits_all [of n] nth_mem [OF that] by (auto simp: list_all_iff is_digit_def mark_def)
  then show "list_all (\<lambda>c. \<not> mark c) (formatInt n)"
    by (auto simp: formatInt_def Let_def list_all_iff mark_def)
qed

lemma marks_tenths [simp]: "marks (tenths_text k) = []"
proof -
  have "\<not> mark (48 + k mod 10)" by (simp add: mark_def) presburger
  then show ?thesis by (simp add: tenths_text_def marks_def [of "[_, _]"] mark_def)
qed

text \<open>Marks a cell brings.\<close>

fun cell_marks :: "cell \<Rightarrow> jstr" where
  "cell_marks (Markup h) = marks h"
| "cell_marks (Data s) = []"

lemma marks_cell [simp]: "marks (cellHtml c) = cell_marks c"
  by (cases c) (simp_all add: cellHtml_def)

lemma map_enumerate_cong:
  assumes "\<And>i c c'. g c = g c' \<Longrightarrow> h (i, c) = h (i, c')"
  shows "map g r = map g r' \<Longrightarrow> map h (enumerate k r) = map h (enumerate k r')"
proof (induction r arbitrary: r' k)
  case (Cons c r)
  then obtain c' s where r': "r' = c' # s" "g c = g c'" "map g r = map g s" by (cases r') auto
  with assms [of c c' k] Cons.IH [of s "Suc k"] show ?case by simp
qed simp

lemma marks_line:
  "map cell_marks r = map cell_marks r' \<Longrightarrow> marks (table_line cols r) = marks (table_line cols r')"
proof -
  assume a: "map cell_marks r = map cell_marks r'"
  have "map (marks \<circ> (\<lambda>(i, c). lit ''<td'' @ col_class (cols ! i) @ lit ''>'' @ cellHtml c @ lit ''</td>'')) (enumerate 0 r)
      = map (marks \<circ> (\<lambda>(i, c). lit ''<td'' @ col_class (cols ! i) @ lit ''>'' @ cellHtml c @ lit ''</td>'')) (enumerate 0 r')"
    by (rule map_enumerate_cong [OF _ a]) (simp add: comp_def)
  then show ?thesis by (simp only: table_line_def marks_append marks_concat map_map)
qed

lemma marks_join: "map marks xs = map marks ys \<Longrightarrow> marks (join d xs) = marks (join d ys)"
proof (induction d xs arbitrary: ys rule: join.induct)
  case (1 d)
  then show ?case by simp
next
  case (2 d x)
  then show ?case by (cases ys) auto
next
  case (3 d x y zs)
  then obtain x' y' zs' where "ys = x' # y' # zs'" by (cases ys; cases "tl ys") auto
  with 3 show ?case by auto
qed

lemma marks_table:
  assumes "map (map cell_marks) rows = map (map cell_marks) rows'"
    and "map_option (map cell_marks) foot = map_option (map cell_marks) foot'"
  shows "marks (html_table cols rows foot) = marks (html_table cols rows' foot')"
proof -
  have "map marks (map (table_line cols) rows) = map marks (map (table_line cols) rows')"
    using assms(1)
  proof (induction rows arbitrary: rows')
    case (Cons r rows)
    then obtain r' s where "rows' = r' # s" "map cell_marks r = map cell_marks r'"
      "map (map cell_marks) rows = map (map cell_marks) s" by (cases rows') auto
    with Cons.IH [of s] marks_line [of r r' cols] show ?case by simp
  qed simp
  moreover have "marks (case foot of None \<Rightarrow> [] | Some f \<Rightarrow> [10] @ lit ''<tfoot>'' @ table_line cols f @ lit ''</tfoot>'')
    = marks (case foot' of None \<Rightarrow> [] | Some f \<Rightarrow> [10] @ lit ''<tfoot>'' @ table_line cols f @ lit ''</tfoot>'')"
  proof (cases foot)
    case None
    with assms(2) show ?thesis by simp
  next
    case (Some f)
    with assms(2) obtain g where "foot' = Some g" "map cell_marks f = map cell_marks g" by (cases foot') auto
    with Some marks_line [of f g cols] show ?thesis by (simp only: option.case marks_append)
  qed
  ultimately show ?thesis
    unfolding html_table_def marks_append by (simp only: marks_join [of "map (table_line cols) rows" "map (table_line cols) rows'"])
qed

lemma rows_marks:
  "(\<And>x. map cell_marks (f x) = k) \<Longrightarrow> length xs = length ys \<Longrightarrow>
     map (map cell_marks) (map f xs) = map (map cell_marks) (map f ys)"
  by (simp add: comp_def map_replicate_const)

lemma share_marks: "map cell_marks (share_cells e) = [[], [], [], [], []]"
  by (simp add: share_cells_def)

lemma marks_breakdown:
  assumes "length es = length es'"
  shows "marks (breakdownTable label es) = marks (breakdownTable label es')"
proof -
  have "marks (html_table cols (map share_cells es) None) = marks (html_table cols (map share_cells es') None)" for cols
    by (rule marks_table [OF rows_marks [OF share_marks assms] refl])
  with assms show ?thesis unfolding breakdownTable_def by (cases es; cases es') simp_all
qed

lemma day_marks: "map cell_marks (day_cells today dn) = [[], []]"
  by (cases dn) (simp add: day_cells_def)

lemma marks_day_column: "marks (day_column today most (day, n)) = marks (day_column today' most' (day', if 0 < n then 1 else 0))"
proof -
  have now: "marks (if b then lit '' now'' else []) = []" for b
    by (simp add: marks_def mark_def lit_simps)
  show ?thesis
    by (cases "0 < n") (simp_all only: day_column_def Let_def split_conv marks_append marks_escape marks_tenths now
        if_True if_False zero_less_one less_numeral_extra)
qed

lemma marks_day_tick: "marks (day_tick k (i, (day, n))) = marks (day_tick k (i, (day', n')))"
  by (simp add: day_tick_def)

lemma marks_chart:
  assumes "map (\<lambda>dn. 0 < snd dn) days = map (\<lambda>dn. 0 < snd dn) days'"
  shows "marks (dayChart days today) = marks (dayChart days' today')"
proof -
  from assms have len: "length days = length days'" by (metis length_map)
  have cols: "map (marks \<circ> day_column today most) days = map (marks \<circ> day_column today' most') days'" for most most'
    using assms
  proof (induction days arbitrary: days')
    case (Cons dn days)
    then obtain dn' ds where "days' = dn' # ds" "0 < snd dn \<longleftrightarrow> 0 < snd dn'"
      "map (\<lambda>dn. 0 < snd dn) days = map (\<lambda>dn. 0 < snd dn) ds" by (cases days') auto
    with Cons.IH [of ds] marks_day_column [of today most "fst dn" "snd dn" today' most' "fst dn'"]
      marks_day_column [of today' most' "fst dn'" "snd dn'" today' most' "fst dn'"] show ?case by simp
  qed simp
  have tick: "map (marks \<circ> day_tick k) (enumerate i days) = map (marks \<circ> day_tick k) (enumerate i days')" for k i
    by (rule map_enumerate_cong [of "\<lambda>_. ()"])
      (auto simp: marks_day_tick len map_replicate_const intro: marks_day_tick)
  have tab: "marks (html_table cols (map (day_cells today) (rev days)) None)
      = marks (html_table cols (map (day_cells today') (rev days')) None)" for cols
  proof (rule marks_table)
    show "map (map cell_marks) (map (day_cells today) (rev days)) = map (map cell_marks) (map (day_cells today') (rev days'))"
      by (simp add: comp_def day_marks map_replicate_const len)
  qed simp
  show ?thesis
    by (simp only: dayChart_def Let_def marks_append marks_escape marks_formatInt marks_concat map_map len tick tab
        cols [of "fold max (map snd days) 1" "fold max (map snd days') 1"])
qed

lemma release_marks: "rel_pre r = rel_pre r' \<Longrightarrow> map cell_marks (release_cells r) = map cell_marks (release_cells r')"
  by (simp add: release_cells_def tag_cell_def kind_cell_def)

lemma rows_release:
  "map rel_pre rs = map rel_pre rs' \<Longrightarrow>
     map (map cell_marks) (map release_cells rs) = map (map cell_marks) (map release_cells rs')"
proof (induction rs arbitrary: rs')
  case (Cons r rs)
  then obtain r' s where "rs' = r' # s" "rel_pre r = rel_pre r'" "map rel_pre rs = map rel_pre s" by (cases rs') auto
  with Cons.IH [of s] release_marks [of r r'] show ?case by simp
qed simp

lemma marks_releases:
  assumes "map_option (map rel_pre) (st_releases d) = map_option (map rel_pre) (st_releases d')"
    and "st_fetched d = [] \<longleftrightarrow> st_fetched d' = []"
  shows "marks (releasesSection d) = marks (releasesSection d')"
proof (cases "st_releases d")
  case None
  with assms(1) have "st_releases d' = None" by (cases "st_releases d'") auto
  with None show ?thesis by (simp only: releasesSection_def option.case marks_append marks_escape)
next
  case (Some rs)
  with assms(1) obtain rs' where rs': "st_releases d' = Some rs'" "map rel_pre rs = map rel_pre rs'"
    by (cases "st_releases d'") auto
  then have emp: "rs = [] \<longleftrightarrow> rs' = []" by auto
  have tab: "marks (release_table rs t) = marks (release_table rs' t')" for t t'
    by (cases t; cases t')
      (auto simp: release_table_def simp del: map_map intro!: marks_table rows_release rs'(2))
  have fet: "marks (fetched_note (st_fetched d)) = marks (fetched_note (st_fetched d'))"
    using assms(2) by (cases "st_fetched d = []") (simp_all only: fetched_note_def if_True if_False simp_thms marks_append marks_escape)
  show ?thesis
    unfolding releasesSection_def Some rs'(1)
    by (simp only: option.case emp if_distrib [of marks] marks_append fet tab [of "st_totals d" "st_totals d'"])
qed

definition page_shape :: "stats \<Rightarrow> (bool \<times> bool list \<times> nat \<times> nat \<times> nat) \<times> bool list option \<times> bool" where
  "page_shape d = (let p = st_pings d in
     ((0 < su_total p, map (\<lambda>dn. 0 < snd dn) (su_days30 p), length (su_version p), length (su_arch p), length (su_install p)),
      map_option (map rel_pre) (st_releases d), st_fetched d = []))"

lemma marks_panels:
  assumes "page_shape d = page_shape d'"
  shows "marks (panels d) = marks (panels d')"
proof -
  from assms have tot: "0 < su_total (st_pings d) \<longleftrightarrow> 0 < su_total (st_pings d')"
    and days: "map (\<lambda>dn. 0 < snd dn) (su_days30 (st_pings d)) = map (\<lambda>dn. 0 < snd dn) (su_days30 (st_pings d'))"
    and lens: "length (su_version (st_pings d)) = length (su_version (st_pings d'))"
      "length (su_arch (st_pings d)) = length (su_arch (st_pings d'))"
      "length (su_install (st_pings d)) = length (su_install (st_pings d'))"
    by (simp_all add: page_shape_def Let_def)
  show ?thesis
    by (simp only: panels_def Let_def tot if_distrib [of marks] marks_append marks_chart [OF days, of _ "st_today d'"]
        marks_breakdown [OF lens(1)] marks_breakdown [OF lens(2)] marks_breakdown [OF lens(3)])
qed

lemma page_marks:
  assumes "page_shape d = page_shape d'"
  shows "marks (renderPage style d) = marks (renderPage style d')"
proof -
  from assms have "marks (releasesSection d) = marks (releasesSection d')"
    by (intro marks_releases) (simp_all add: page_shape_def Let_def)
  with marks_panels [OF assms] show ?thesis
    by (simp only: renderPage_def tile_def Let_def marks_append marks_escape marks_formatInt)
qed

lemma esc_unit_split: "esc_unit a @ s = esc_unit b @ t \<Longrightarrow> a = b \<and> s = t"
  by (auto simp: esc_unit_def lit_simps split: if_splits)

lemma escape_inject: "escapeHtml s = escapeHtml t \<longleftrightarrow> s = t"
proof
  have len: "esc_unit c \<noteq> []" for c by (simp add: esc_unit_def lit_simps)
  show "escapeHtml s = escapeHtml t \<Longrightarrow> s = t"
  proof (induction s arbitrary: t)
    case Nil
    then show ?case using len by (cases t) (auto simp: escapeHtml_def)
  next
    case (Cons a s)
    then obtain b t' where t: "t = b # t'" using len by (cases t) (auto simp: escapeHtml_def)
    with Cons.prems have "esc_unit a @ escapeHtml s = esc_unit b @ escapeHtml t'" by (simp add: escapeHtml_def)
    from esc_unit_split [OF this] Cons.IH t show ?case by simp
  qed
qed simp

subsection \<open>Properties\<close>

text \<open>C15. The tags and quotes of the page do not depend on the texts of the data: two states of the
  counters and releases with the same shape give pages with the same sequence of angle brackets and
  quotes, so that no version, tag, date or error message can open a tag or end an attribute.\<close>

theorem page_markup_fixed:
  assumes "page_shape d = page_shape d'"
  shows "marks (renderPage style d) = marks (renderPage style d')"
  using assms by (rule page_marks)

definition ex_stats :: "jstr \<Rightarrow> stats" where
  "ex_stats e = \<lparr>st_generated = [], st_today = [], st_keep = 400,
     st_pings = \<lparr>su_today = 0, su_last7 = 0, su_last30 = 0, su_total = 0, su_days30 = [], su_version = [],
       su_arch = [], su_install = [], su_days = []\<rparr>,
     st_releases = None, st_totals = None, st_error = e, st_fetched = []\<rparr>"

theorem page_markup_fixed_witness:
  "marks (renderPage [] (ex_stats (lit ''<script>alert(1)</script>''))) = marks (renderPage [] (ex_stats (lit ''HTTP 500'')))"
  by (rule page_markup_fixed) (simp add: page_shape_def ex_stats_def)

text \<open>Escaping loses nothing: two texts with the same escaped form are equal.\<close>

theorem escape_keeps_text: "escapeHtml s = escapeHtml t \<longleftrightarrow> s = t"
  by (rule escape_inject)

end
