(* ===== verification/Stats_Keys.thy ===== *)
theory Stats_Keys imports Stats_Tables "HOL-Library.Code_Target_Nat" begin

text \<open>
  Counter keys and days of the statistics worker: a key has three parts that \<open>split('|')\<close> gives back, a
  valid ping gives its key, and the texts of days are ordered as the days are, which the deletions of
  the database rely on.
\<close>

subsection \<open>Counter keys\<close>

definition version_unit :: "nat \<Rightarrow> bool" where
  "version_unit c \<longleftrightarrow> alnum c \<or> c = c_dot \<or> c = c_dash \<or> c = 43"

lemma version_units: "test VERSION_RE v \<Longrightarrow> list_all version_unit v"
proof -
  assume t: "test VERSION_RE v"
  let ?rs = "[digits_r, chr_r c_dot, digits_r, chr_r c_dot, digits_r,
     opt_r (RCap 1 (RSeq (chr_r c_dash) (rep_r 1 20 (RCls (\<lambda>c. alnum c \<or> c = c_dot))))),
     opt_r (RCap 2 (RSeq (chr_r 43) (rep_r 1 60 (RCls (\<lambda>c. alnum c \<or> c = c_dot \<or> c = c_dash)))))]"
  have "VERSION_RE = seq_r (RStart # ?rs @ [REnd])" by (simp only: VERSION_RE_def append.simps)
  moreover have "list_all (re_within version_unit) ?rs"
    by (simp add: re_within_rep del: rep_r.simps upto_r.simps)
      (intro conjI re_within_rep; auto simp: version_unit_def alnum_def)
  ultimately show ?thesis using t test_anchored [of ?rs v version_unit] by simp
qed


lemma counted_units: "list_all version_unit v \<Longrightarrow> list_all version_unit (countedVersion v)"
  by (auto simp: countedVersion_def list_all_iff lit_simps version_unit_def alnum_def is_alpha_def
      dest: in_set_takeD split: option.splits)

lemma no_bar_units: "list_all version_unit v \<Longrightarrow> c_bar \<notin> set v"
  by (auto simp: list_all_iff version_unit_def alnum_def unit_defs)

lemma no_bar_kinds: "a \<in> set ARCHS \<or> a \<in> set INSTALLS \<Longrightarrow> c_bar \<notin> set a"
  by (auto simp: ARCHS_def INSTALLS_def lit_simps)

lemma pingKey_parts:
  assumes "pingKey body = Some key"
  shows "\<exists>v a i. key = v @ [c_bar] @ a @ [c_bar] @ i \<and> list_all version_unit v \<and> a \<in> set ARCHS
    \<and> i \<in> set INSTALLS \<and> split_on c_bar key = [v, a, i]"
proof -
  from assms obtain v a i where k: "key = countedVersion v @ [c_bar] @ a @ [c_bar] @ i"
    and t: "test VERSION_RE v" and ai: "a \<in> set ARCHS" "i \<in> set INSTALLS"
    by (auto simp: pingKey_def split: if_splits option.splits json.splits)
  from counted_units [OF version_units [OF t]] have u: "list_all version_unit (countedVersion v)" .
  have "split_on c_bar key = [countedVersion v, a, i]"
    using no_bar_units [OF u] no_bar_kinds [of a] no_bar_kinds [of i] ai
    by (simp add: k split_on_append split_on_plain)
  with k u ai show ?thesis by blast
qed

text \<open>The body a panel sends.\<close>

definition quoted :: "jstr \<Rightarrow> jstr" where
  "quoted s = c_dq # s @ [c_dq]"

definition ping_body :: "jstr \<Rightarrow> jstr \<Rightarrow> jstr \<Rightarrow> jstr" where
  "ping_body v a i = [c_lc] @ quoted (lit ''version'') @ [c_colon] @ quoted v @ [c_comma]
     @ quoted (lit ''arch'') @ [c_colon] @ quoted a @ [c_comma]
     @ quoted (lit ''install'') @ [c_colon] @ quoted i @ [c_rc]"

definition json_plain :: "jstr \<Rightarrow> bool" where
  "json_plain v \<longleftrightarrow> list_all (\<lambda>c. c \<noteq> c_dq \<and> c \<noteq> c_bs \<and> 32 \<le> c) v"

lemma json_chars_quoted: "json_plain v \<Longrightarrow> json_chars (v @ c_dq # s) = Some (v, s)"
  by (simp add: json_plain_def json_chars_plain)

lemma json_value_string: "json_plain v \<Longrightarrow> json_value (Suc n) (c_dq # v @ c_dq # s) = Some (JStr v, s)"
  by (simp add: json_value.simps json_ws_def json_chars_quoted)

lemma json_member_more:
  assumes "json_plain k" and "json_plain v"
  shows "json_members (Suc (Suc n)) (c_dq # k @ c_dq # c_colon # c_dq # v @ c_dq # c_comma # s) ms
    = json_members (Suc n) s (obj_set k (JStr v) ms)"
  using assms by (subst json_members.simps) (simp add: json_ws_def json_chars_quoted json_value_string)

lemma json_member_last:
  assumes "json_plain k" and "json_plain v"
  shows "json_members (Suc (Suc n)) (c_dq # k @ c_dq # c_colon # c_dq # v @ c_dq # c_rc # s) ms
    = Some (JObj (obj_set k (JStr v) ms), s)"
  using assms by (subst json_members.simps) (simp add: json_ws_def json_chars_quoted json_value_string)

lemma json_plain_keys: "json_plain (lit ''version'')" "json_plain (lit ''arch'')" "json_plain (lit ''install'')"
  by (simp_all add: json_plain_def lit_simps)

lemma parse_ping_body:
  assumes "json_plain v" and "json_plain a" and "json_plain i"
  shows "parseJson (ping_body v a i)
    = Some (JObj [(lit ''version'', JStr v), (lit ''arch'', JStr a), (lit ''install'', JStr i)])"
proof -
  obtain n where n: "2 * length (ping_body v a i) + 2 = Suc (Suc (Suc (Suc (Suc (Suc (Suc n))))))"
    by (rule that [of "2 * length (ping_body v a i) - 5"]) (simp add: ping_body_def quoted_def)
  have body: "ping_body v a i = c_lc # c_dq # lit ''version'' @ c_dq # c_colon # c_dq # v @ c_dq # c_comma
      # c_dq # lit ''arch'' @ c_dq # c_colon # c_dq # a @ c_dq # c_comma
      # c_dq # lit ''install'' @ c_dq # c_colon # c_dq # i @ c_dq # c_rc # []"
    by (simp add: ping_body_def quoted_def)
  have "json_value (Suc (Suc (Suc (Suc (Suc (Suc (Suc n))))))) (ping_body v a i)
    = json_members (Suc (Suc (Suc (Suc (Suc (Suc n)))))) (tl (ping_body v a i)) []"
    by (subst json_value.simps) (simp add: body json_ws_def)
  also have "\<dots> = Some (JObj [(lit ''version'', JStr v), (lit ''arch'', JStr a), (lit ''install'', JStr i)], [])"
    by (simp add: body json_member_more json_member_last json_plain_keys assms)
      (simp add: lit_simps)
  finally show ?thesis unfolding parseJson_def n by simp
qed

lemma units_plain: "list_all version_unit v \<Longrightarrow> json_plain v"
  by (auto simp: json_plain_def list_all_iff version_unit_def alnum_def unit_defs)

lemma kinds_plain: "a \<in> set ARCHS \<or> a \<in> set INSTALLS \<Longrightarrow> json_plain a"
  by (auto simp: ARCHS_def INSTALLS_def lit_simps json_plain_def)

lemma pingKey_body:
  assumes "test VERSION_RE v" and "a \<in> set ARCHS" and "i \<in> set INSTALLS"
    and "length (ping_body v a i) \<le> MAX_BODY"
  shows "pingKey (ping_body v a i) = Some (countedVersion v @ [c_bar] @ a @ [c_bar] @ i)"
  using assms parse_ping_body [of v a i] units_plain [OF version_units] kinds_plain
  by (simp add: pingKey_def str_member_def) (simp add: lit_simps)

subsection \<open>Days in order\<close>

lemma text_less_prefix: "text_less (p @ a) (p @ b) = text_less a b"
  by (induction p) auto

lemma text_less_append: "length a = length b \<Longrightarrow> text_less a b \<Longrightarrow> text_less (a @ x) (b @ y)"
  by (induction a b rule: text_less.induct) auto

lemma text_less_irrefl [simp]: "\<not> text_less a a"
  by (induction a) auto

lemma text_less_trans: "text_less a b \<Longrightarrow> text_less b c \<Longrightarrow> text_less a c"
proof (induction a b arbitrary: c rule: text_less.induct)
  case (2 b t)
  then show ?case by (cases c) auto
next
  case (3 a s b t)
  then show ?case by (cases c) auto
qed simp

lemma text_less_total: "a \<noteq> b \<Longrightarrow> text_less a b \<or> text_less b a"
proof (induction a arbitrary: b)
  case Nil
  then show ?case by (cases b) auto
next
  case (Cons x a)
  then show ?case by (cases b) auto
qed

lemma year_of_ge: "y \<le> fst (year_of y d)"
proof (induction y d rule: year_of.induct)
  case (1 y d)
  then show ?case by (cases "d < year_days y") (auto simp: year_of.simps [of y d])
qed

lemma year_of_bound: "snd (year_of y d) < year_days (fst (year_of y d))"
proof (induction y d rule: year_of.induct)
  case (1 y d)
  then show ?case by (cases "d < year_days y") (auto simp: year_of.simps [of y d])
qed

lemma year_of_mono: "d1 < d2 \<Longrightarrow>
    fst (year_of y d1) < fst (year_of y d2)
    \<or> fst (year_of y d1) = fst (year_of y d2) \<and> snd (year_of y d1) < snd (year_of y d2)"
proof (induction y d1 arbitrary: d2 rule: year_of.induct)
  case (1 y d1)
  show ?case
  proof (cases "d2 < year_days y")
    case True
    with 1 show ?thesis by (simp add: year_of.simps [of y])
  next
    case False
    show ?thesis
    proof (cases "d1 < year_days y")
      case True
      with False year_of_ge [of "y + 1" "d2 - year_days y"] show ?thesis by (simp add: year_of.simps [of y])
    next
      case d1: False
      have "d1 - year_days y < d2 - year_days y" using 1(2) d1 by simp
      from 1(1) [OF d1 this] d1 False show ?thesis by (simp add: year_of.simps [of y])
    qed
  qed
qed

lemma month_of_ge: "m \<le> fst (month_of ls m d)"
  by (induction ls m d rule: month_of.induct) auto

lemma month_of_mono: "d1 < d2 \<Longrightarrow>
    fst (month_of ls m d1) < fst (month_of ls m d2)
    \<or> fst (month_of ls m d1) = fst (month_of ls m d2) \<and> snd (month_of ls m d1) < snd (month_of ls m d2)"
proof (induction ls arbitrary: m d1 d2)
  case (Cons l ls)
  show ?case
  proof (cases "d1 < l \<and> \<not> d2 < l")
    case True
    with month_of_ge [of "m + 1" ls "d2 - l"] show ?thesis by simp
  next
    case False
    with Cons.prems Cons.IH [of "d1 - l" "d2 - l" "m + 1"] show ?thesis by auto
  qed
qed simp

lemma month_of_bound: "d < sum_list ls \<Longrightarrow> list_all (\<lambda>l. l \<le> b) ls \<Longrightarrow>
    fst (month_of ls m d) < m + length ls \<and> snd (month_of ls m d) < b"
proof (induction ls arbitrary: m d)
  case (Cons l ls)
  then show ?case using Cons.IH [of "d - l" "m + 1"] by auto
qed simp

lemma month_days_sum: "sum_list (month_days y) = year_days y" "list_all (\<lambda>l. l \<le> 31) (month_days y)"
    "length (month_days y) = 12"
  by (simp_all add: month_days_def year_days_def)

lemma div_mod_less: "a < b \<Longrightarrow> a div k < b div k \<or> a div k = b div k \<and> a mod k < b mod (k :: nat)"
  by (metis add_less_cancel_left div_le_mono div_mult_mod_eq le_neq_implies_less less_imp_le_nat)

lemma pad2_less: "a < b \<Longrightarrow> b < 100 \<Longrightarrow> text_less (pad2 a) (pad2 b)"
proof -
  assume "a < b" "b < 100"
  then have "b div 10 < 10" "a div 10 < 10" by auto
  with div_mod_less [OF \<open>a < b\<close>, of 10] show ?thesis by (auto simp: pad2_def)
qed

lemma pad4_less: "a < b \<Longrightarrow> b < 10000 \<Longrightarrow> text_less (pad4 a) (pad4 b)"
proof -
  assume "a < b" "b < 10000"
  have pad: "pad4 n = pad2 (n div 100) @ pad2 (n mod 100)" for n
    by (simp add: pad4_def pad2_def div_mult2_eq [symmetric] mod_mult2_eq [of n 10 10, simplified] add.commute
        mod_mod_cancel)
  from div_mod_less [OF \<open>a < b\<close>, of 100] show ?thesis
  proof
    assume "a div 100 < b div 100"
    with \<open>b < 10000\<close> have "text_less (pad2 (a div 100)) (pad2 (b div 100))" by (intro pad2_less) auto
    then show ?thesis unfolding pad by (intro text_less_append) (auto simp: pad2_def)
  next
    assume "a div 100 = b div 100 \<and> a mod 100 < b mod 100"
    then show ?thesis unfolding pad using pad2_less [of "a mod 100" "b mod 100"] by (simp add: text_less_prefix)
  qed
qed

lemma day_text_less:
  assumes "d1 < d2" and "fst (year_of 1970 d2) < 10000"
  shows "text_less (day_text d1) (day_text d2)"
proof -
  obtain y1 r1 y2 r2 where y: "year_of 1970 d1 = (y1, r1)" "year_of 1970 d2 = (y2, r2)" by fastforce
  obtain m1 e1 m2 e2 where m: "month_of (month_days y1) 1 r1 = (m1, e1)" "month_of (month_days y2) 1 r2 = (m2, e2)"
    by fastforce
  have b2: "m2 < 13" "e2 < 31"
    using month_of_bound [of r2 "month_days y2" 31 1] month_days_sum [of y2] year_of_bound [of 1970 d2] y m by auto
  have len: "length (pad4 y1) = length (pad4 y2)" "length (pad2 m1) = length (pad2 m2)" by (simp_all add: pad4_def pad2_def)
  have dtx: "day_text d1 = pad4 y1 @ ([c_dash] @ pad2 m1) @ [c_dash] @ pad2 (e1 + 1)"
    "day_text d2 = pad4 y2 @ ([c_dash] @ pad2 m2) @ [c_dash] @ pad2 (e2 + 1)"
    using y m by (simp_all add: day_text_def)
  from year_of_mono [OF assms(1), of 1970] y consider "y1 < y2" | "y1 = y2" "r1 < r2" by auto
  then show ?thesis
  proof cases
    case 1
    with assms(2) y len show ?thesis unfolding dtx by (intro text_less_append pad4_less) auto
  next
    case 2
    with month_of_mono [OF 2(2), of "month_days y1" 1] m consider "m1 < m2" | "m1 = m2" "e1 < e2" by auto
    then show ?thesis
    proof cases
      case 1
      then have "text_less ([c_dash] @ pad2 m1) ([c_dash] @ pad2 m2)"
        using b2 by (simp only: text_less_prefix) (rule pad2_less, auto)
      with len 2 show ?thesis unfolding dtx by (simp only: text_less_prefix) (rule text_less_append, auto)
    next
      case same: 2
      from same have "text_less (pad2 (e1 + 1)) (pad2 (e2 + 1))" using b2 by (intro pad2_less) auto
      with same 2 show ?thesis unfolding dtx by (simp only: text_less_prefix)
    qed
  qed
qed

subsection \<open>Properties\<close>

text \<open>Whatever body is accepted, its key is \<open>version|arch|install\<close>: a version made of letters,
  digits, dots, dashes and plus signs, a known architecture and a known install method, and splitting
  the key on the bar gives the three back.\<close>

theorem ping_key_shape:
  assumes "pingKey body = Some key"
  shows "\<exists>v a i. key = v @ [c_bar] @ a @ [c_bar] @ i \<and> list_all version_unit v \<and> a \<in> set ARCHS
    \<and> i \<in> set INSTALLS \<and> split_on c_bar key = [v, a, i]"
  using assms by (rule pingKey_parts)

lemma ex_key: "pingKey (ping_body (lit ''0.4.1+dev.3.gabc'') (lit ''arm64'') (lit ''docker''))
    = Some (lit ''0.4.1+dev|arm64|docker'')"
  by code_simp

theorem ping_key_shape_witness:
  "\<exists>v a i. split_on c_bar (lit ''0.4.1+dev|arm64|docker'') = [v, a, i] \<and> a \<in> set ARCHS"
  using ping_key_shape [OF ex_key] by blast

text \<open>A ping that carries a version of the accepted form, a known architecture and a known install
  method, in the JSON a panel writes, is counted under its version, architecture and method.\<close>

theorem valid_ping_counted:
  assumes "test VERSION_RE v" and "a \<in> set ARCHS" and "i \<in> set INSTALLS"
    and "length (ping_body v a i) \<le> MAX_BODY"
  shows "pingKey (ping_body v a i) = Some (countedVersion v @ [c_bar] @ a @ [c_bar] @ i)"
  using assms by (rule pingKey_body)

theorem valid_ping_counted_witness:
  "pingKey (ping_body (lit ''0.5.0-rc.1'') (lit ''amd64'') (lit ''apt'')) = Some (lit ''0.5.0-rc.1|amd64|apt'')"
proof -
  have "test VERSION_RE (lit ''0.5.0-rc.1'')" by code_simp
  moreover have "lit ''amd64'' \<in> set ARCHS" "lit ''apt'' \<in> set INSTALLS" by (simp_all add: ARCHS_def INSTALLS_def)
  moreover have "length (ping_body (lit ''0.5.0-rc.1'') (lit ''amd64'') (lit ''apt'')) \<le> MAX_BODY" by code_simp
  moreover have "countedVersion (lit ''0.5.0-rc.1'') = lit ''0.5.0-rc.1''" by code_simp
  ultimately show ?thesis using valid_ping_counted [of "lit ''0.5.0-rc.1''" "lit ''amd64''" "lit ''apt''"]
    by (simp add: lit_simps)
qed

text \<open>Until the year 9999 the texts of two days are ordered as the days: the deletions of the
  database, which compare texts, remove exactly the earlier days.\<close>

theorem days_in_order:
  assumes "fst (year_of 1970 d1) < 10000" and "fst (year_of 1970 d2) < 10000"
  shows "text_less (day_text d1) (day_text d2) \<longleftrightarrow> d1 < d2"
  using day_text_less [of d1 d2] day_text_less [of d2 d1] assms text_less_trans text_less_irrefl
  by (metis linorder_neqE_nat)

theorem days_in_order_witness: "text_less (day_text 20000) (day_text 20001) \<longleftrightarrow> (20000 :: nat) < 20001"
proof (rule days_in_order)
  show "fst (year_of 1970 20000) < 10000" "fst (year_of 1970 20001) < 10000" by code_simp+
qed

end
