(* ===== verification/Stats_Sums.thy ===== *)
theory Stats_Sums imports Stats_Render Stats_Keys "HOL-Library.Multiset" "HOL-Library.Code_Target_Nat" begin

text \<open>
  The figures of the dashboard: the days of the window are read back and distinct, a percentage is the
  nearest tenth although the source computes it in doubles, the sums by version, architecture, install
  method and day agree, and the lists are sorted permutations. \<open>comparison\<close> is the interface between
  the sort and the two orders of the sources.
\<close>

subsection \<open>Percentages\<close>

lemma round_even_near:
  assumes "0 < b"
  shows "\<bar>2 * int (round_even a b) * int b - 2 * int a\<bar> \<le> int b"
proof -
  have dm: "int a = int (a div b) * int b + int (a mod b)"
    by (metis div_mult_mod_eq of_nat_add of_nat_mult)
  have lt: "a mod b < b" using assms by simp
  show ?thesis
  proof (cases "2 * (a mod b) < b \<or> 2 * (a mod b) = b \<and> even (a div b)")
    case True
    then have "round_even a b = a div b" by (auto simp: round_even_def Let_def)
    with dm True show ?thesis by (simp add: algebra_simps) linarith
  next
    case False
    then have "round_even a b = a div b + 1" by (auto simp: round_even_def Let_def)
    moreover have "b \<le> 2 * (a mod b)" using False by auto
    ultimately show ?thesis using dm lt by (simp add: algebra_simps)
  qed
qed

lemma shift_for_spec:
  assumes "0 < n" and "n * 2 ^ s < 2 ^ 52 * d"
  shows "2 ^ 52 * d \<le> n * 2 ^ shift_for n d s \<and> n * 2 ^ shift_for n d s < 2 ^ 53 * d \<and> s < shift_for n d s"
  using assms
proof (induction n d s rule: shift_for.induct)
  case (1 n d s)
  then have step: "shift_for n d s = shift_for n d (s + 1)"
    by (subst shift_for.simps) simp
  show ?case
  proof (cases "n * 2 ^ (s + 1) < 2 ^ 52 * d")
    case True
    with 1 step show ?thesis by auto
  next
    case False
    then have "shift_for n d (s + 1) = s + 1" by (subst shift_for.simps) simp
    with False step 1 show ?thesis by simp
  qed
qed

lemma drop_for_bound: "drop_for a \<le> 11"
  unfolding drop_for_def by (rule le_trans [OF length_filter_le]) simp

lemma drop_for_10:
  assumes "a < 2 ^ 63"
  shows "drop_for a \<le> 10"
proof -
  have "[0..<11] = [0..<10] @ [10]" using upt_Suc_append [of 0 10] by simp
  with assms have "filter (\<lambda>k. 2 ^ (53 + k) \<le> a) [0..<11] = filter (\<lambda>k. 2 ^ (53 + k) \<le> a) [0..<10]" by simp
  then show ?thesis unfolding drop_for_def using length_filter_le [of "\<lambda>k. 2 ^ (53 + k) \<le> a" "[0..<10]"] by simp
qed

lemma round_close:
  fixes A B R d n :: int
  assumes "\<bar>d * A - 1000 * n * B\<bar> \<le> 1012 * d" and "2 * B * R \<le> 2 * A + B" and "2 * A + B < 2 * B * R + 2 * B"
    and "2024 * d < B" and "0 < d"
  shows "2 * \<bar>R * d - 1000 * n\<bar> \<le> d"
proof (rule ccontr)
  assume "\<not> 2 * \<bar>R * d - 1000 * n\<bar> \<le> d"
  then have "d + 1 \<le> 2 * (R * d - 1000 * n) \<or> d + 1 \<le> 2 * (1000 * n - R * d)" by (simp add: abs_if split: if_splits)
  from assms(1) have e: "d * A - 1000 * n * B \<le> 1012 * d" "1000 * n * B - d * A \<le> 1012 * d"
    by (simp_all add: abs_le_iff algebra_simps)
  show False
    using \<open>d + 1 \<le> 2 * (R * d - 1000 * n) \<or> d + 1 \<le> 2 * (1000 * n - R * d)\<close>
  proof (elim disjE)
    assume "d + 1 \<le> 2 * (R * d - 1000 * n)"
    then have "(d + 1) * B \<le> 2 * (R * d - 1000 * n) * B" using assms by (intro mult_right_mono) auto
    moreover have "2 * B * R * d \<le> (2 * A + B) * d" using assms by (intro mult_right_mono) auto
    ultimately have "B \<le> 2 * (d * A - 1000 * n * B)" by (simp add: algebra_simps)
    also have "\<dots> \<le> 2 * (1012 * d)" using e(1) by (intro mult_left_mono) auto
    finally show False using assms(4) by simp
  next
    assume "d + 1 \<le> 2 * (1000 * n - R * d)"
    then have "(d + 1) * B \<le> 2 * (1000 * n - R * d) * B" using assms by (intro mult_right_mono) auto
    moreover have "(2 * A + B) * d \<le> (2 * B * R + 2 * B) * d" using assms by (intro mult_right_mono) auto
    ultimately have "B \<le> 2 * (1000 * n * B - d * A)" by (simp add: algebra_simps)
    also have "\<dots> \<le> 2 * (1012 * d)" using e(2) by (intro mult_left_mono) auto
    finally show False using assms(4) by simp
  qed
qed

lemma int_div_bounds:
  fixes a c :: int
  assumes "0 < c"
  shows "c * (a div c) \<le> a" "a < c * (a div c) + c"
proof -
  have "a = c * (a div c) + a mod c" by simp
  with pos_mod_sign [OF assms, of a] pos_mod_bound [OF assms, of a]
  show "c * (a div c) \<le> a" "a < c * (a div c) + c" by linarith+
qed

lemma round_tenths_near:
  assumes "n \<le> d" and "0 < d" and "d < 2 ^ 41"
  shows "2 * \<bar>int (round_tenths n d) * int d - 1000 * int n\<bar> \<le> int d"
proof (cases "n = 0")
  case True
  then have "round_tenths n d = 0"
    using assms by (simp add: round_tenths_def shift_for.simps round_even_def drop_for_def)
  with True show ?thesis by simp
next
  case False
  define s where "s = shift_for n d 0"
  define q where "q = round_even (n * 2 ^ s) d"
  define k where "k = drop_for (q * 1000)"
  define p where "p = round_even (q * 1000) (2 ^ k)"
  have s: "2 ^ 52 * d \<le> n * 2 ^ s" "n * 2 ^ s < 2 ^ 53 * d"
    using shift_for_spec [of n 0 d] False assms by (auto simp: s_def)
  have q: "\<bar>2 * int q * int d - 2 * (int n * 2 ^ s)\<bar> \<le> int d"
    using round_even_near [OF assms(2), of "n * 2 ^ s"] by (simp add: q_def)
  have "2 * int q * int d < (2 ^ 54 + 1) * int d"
  proof -
    have "int (n * 2 ^ s) < int (2 ^ 53 * d)" using s(2) by (simp only: of_nat_less_iff)
    then have "int n * 2 ^ s < 2 ^ 53 * int d" by simp
    with q show ?thesis unfolding abs_le_iff by (simp add: algebra_simps)
  qed
  then have "2 * int q < 2 ^ 54 + 1" using assms(2) mult_less_cancel_right_pos [of "int d" "2 * int q" "2 ^ 54 + 1"] by simp
  then have "q * 1000 < 2 ^ 63" by simp
  then have k: "k \<le> 10" unfolding k_def by (rule drop_for_10)
  have p: "\<bar>2 * int p * 2 ^ k - 2 * (int q * 1000)\<bar> \<le> 2 ^ k"
    using round_even_near [of "2 ^ k" "q * 1000"] by (simp add: p_def)
  have "(2 :: int) ^ k \<le> 2 ^ 10" using k by (intro power_increasing) auto
  with p have p': "\<bar>int p * 2 ^ k - 1000 * int q\<bar> \<le> 512" by simp
  have "\<bar>int d * (int p * 2 ^ k) - 1000 * (int q * int d)\<bar> \<le> 512 * int d"
  proof -
    have "int d * \<bar>int p * 2 ^ k - 1000 * int q\<bar> \<le> int d * 512" using p' by (intro mult_left_mono) auto
    moreover have "int d * \<bar>int p * 2 ^ k - 1000 * int q\<bar> = \<bar>int d * (int p * 2 ^ k) - 1000 * (int q * int d)\<bar>"
      by (subst abs_of_nat [of d, symmetric], subst abs_mult [symmetric]) (simp add: algebra_simps)
    ultimately show ?thesis by simp
  qed
  moreover have "\<bar>1000 * (int q * int d) - 1000 * int n * 2 ^ s\<bar> \<le> 500 * int d"
    using q by (simp add: abs_if algebra_simps split: if_splits)
  ultimately have err: "\<bar>int d * (int p * 2 ^ k) - 1000 * int n * 2 ^ s\<bar> \<le> 1012 * int d" by linarith
  have "2 ^ 52 * d \<le> d * 2 ^ s" using s(1) assms(1) by (meson le_trans mult_le_mono1)
  then have "(2 :: nat) ^ 52 \<le> 2 ^ s" using assms(2) by simp
  moreover have "2024 * d < 2 ^ 52" using assms(3) by simp
  ultimately have "int (2024 * d) < int (2 ^ s)" unfolding of_nat_less_iff by linarith
  then have big: "2024 * int d < 2 ^ s" by simp
  have res: "round_tenths n d = (2 * p * 2 ^ k + 2 ^ s) div 2 ^ (s + 1)"
    by (simp add: round_tenths_def Let_def s_def q_def k_def p_def)
  have dv: "int (round_tenths n d) = (2 * (int p * 2 ^ k) + 2 ^ s) div (2 * 2 ^ s)"
    by (simp add: res zdiv_int algebra_simps)
  have pos: "(0 :: int) < 2 * 2 ^ s" by simp
  note bd = int_div_bounds [OF pos, of "2 * (int p * 2 ^ k) + 2 ^ s", folded dv]
  show ?thesis by (rule round_close [OF err bd big]) (use assms(2) in simp)
qed

subsection \<open>The text of a day is read back\<close>

lemma year_of_days: "days_before y + d = days_before (fst (year_of y d)) + snd (year_of y d)"
  if "1970 \<le> y"
  using that
proof (induction y d rule: year_of.induct)
  case (1 y d)
  show ?case
  proof (cases "d < year_days y")
    case True
    then show ?thesis by (simp add: year_of.simps [of y d])
  next
    case False
    have "days_before (y + 1) = days_before y + year_days y"
      using 1(2) by (simp add: days_before_def)
    with False 1 show ?thesis by (simp add: year_of.simps [of y d])
  qed
qed

lemma month_of_days: "d < sum_list ls \<Longrightarrow> month_of ls m d = (k, e) \<Longrightarrow>
    d = sum_list (take (k - m) ls) + e \<and> m \<le> k \<and> k < m + length ls \<and> e < ls ! (k - m)"
proof (induction ls arbitrary: m d)
  case (Cons l ls)
  show ?case
  proof (cases "d < l")
    case False
    with Cons.prems have "d - l < sum_list ls" "month_of ls (m + 1) (d - l) = (k, e)" by auto
    from Cons.IH [OF this] have ih: "d - l = sum_list (take (k - (m + 1)) ls) + e" "m + 1 \<le> k"
      "k < m + 1 + length ls" "e < ls ! (k - (m + 1))" by auto
    then have "k - m = Suc (k - (m + 1))" by simp
    with False ih show ?thesis by simp
  qed (use Cons.prems in auto)
qed simp

lemma number_pad2: "n < 100 \<Longrightarrow> number (pad2 n) = n"
  by (simp add: number_def pad2_def)

lemma number_pad4: "n < 10000 \<Longrightarrow> number (pad4 n) = n"
proof -
  assume "n < 10000"
  then have "n div 10 div 10 div 10 < 10" by auto
  moreover have "n div 100 = n div 10 div 10" "n div 1000 = n div 10 div 10 div 10"
    by (simp_all add: div_mult2_eq [symmetric])
  ultimately show ?thesis by (simp add: number_def pad4_def)
qed

lemma pad_digits: "all_digits (pad2 n)" "all_digits (pad4 n)" "length (pad2 n) = 2" "length (pad4 n) = 4"
proof -
  have "x mod 10 \<le> 9" for x :: nat by presburger
  then show "all_digits (pad2 n)" "all_digits (pad4 n)" "length (pad2 n) = 2" "length (pad4 n) = 4"
    by (simp_all add: all_digits_def pad2_def pad4_def is_digit_def)
qed

lemma pad_no_dash: "c_dash \<notin> set (pad2 n)" "c_dash \<notin> set (pad4 n)"
  by (simp_all add: pad2_def pad4_def)

lemma parse_day_text:
  assumes "fst (year_of 1970 d) < 10000"
  shows "parseDay (day_text d) = Some d"
proof -
  obtain y r where y: "year_of 1970 d = (y, r)" by fastforce
  obtain m e where m: "month_of (month_days y) 1 r = (m, e)" by fastforce
  have r: "r < sum_list (month_days y)" using year_of_bound [of 1970 d] y by (simp add: month_days_sum)
  note md = month_of_days [OF r m]
  have y': "1970 \<le> y" "y < 10000" using year_of_ge [of 1970 d] y assms by auto
  have ml: "month_days y ! (m - 1) \<le> 31"
    using md month_days_sum [of y] by (auto simp: list_all_length)
  have "d = days_before y + r" using year_of_days [of 1970 d] y by (simp add: days_before_def)
  moreover have "split_on c_dash (day_text d) = [pad4 y, pad2 m, pad2 (e + 1)]"
    using y m by (simp add: day_text_def split_on_append split_on_plain pad_no_dash)
  moreover have "m < 13" "e + 1 < 100" using md ml month_days_sum [of y] by auto
  ultimately show ?thesis
    using md y' by (simp add: parseDay_def number_pad2 number_pad4 pad_digits Let_def)
qed

lemma day_text_year_mono: "d1 \<le> d2 \<Longrightarrow> fst (year_of 1970 d2) < 10000 \<Longrightarrow> fst (year_of 1970 d1) < 10000"
  using year_of_mono [of d1 d2 1970] by (cases "d1 = d2") auto

lemma day_text_inj:
  assumes "fst (year_of 1970 d1) < 10000" and "fst (year_of 1970 d2) < 10000" and "day_text d1 = day_text d2"
  shows "d1 = d2"
  using trans [OF parse_day_text [OF assms(1), unfolded assms(3), symmetric] parse_day_text [OF assms(2)]]
  by (simp only: option.inject)

lemma last_days:
  assumes "fst (year_of 1970 d) < 10000"
  shows "lastDays (day_text d) n = Some (map (\<lambda>back. day_text (d - back)) (rev [0..<n]))"
proof -
  have "(d * 86400000 - b * 86400000) div 86400000 = d - b" for b :: nat
  proof -
    have "d * 86400000 - b * 86400000 = (d - b) * 86400000" by (simp only: diff_mult_distrib)
    then show ?thesis by simp
  qed
  then have "dayOf (d * 86400000 - b * 86400000) = day_text (d - b)" for b by (simp only: dayOf_def)
  then show ?thesis by (simp only: lastDays_def parse_day_text [OF assms] option.case)
qed

lemma last_days_distinct:
  assumes "fst (year_of 1970 d) < 10000" and "n \<le> d + 1" and "lastDays (day_text d) n = Some w"
  shows "distinct w"
proof -
  have w: "w = map (\<lambda>back. day_text (d - back)) (rev [0..<n])" using last_days [OF assms(1)] assms(3) by simp
  have "inj_on (\<lambda>back. day_text (d - back)) {0..<n}"
  proof (rule inj_onI)
    fix a b assume a: "a \<in> {0..<n}" "b \<in> {0..<n}" "day_text (d - a) = day_text (d - b)"
    then have "d - a = d - b"
      by (intro day_text_inj) (use day_text_year_mono [of "d - a" d] day_text_year_mono [of "d - b" d] assms in auto)
    with a assms(2) show "a = b" by auto
  qed
  then show ?thesis by (simp add: w distinct_map)
qed

subsection \<open>Numbers of the page\<close>

lemma format_int_digits: "filter (\<lambda>c. c \<noteq> 8239) (formatInt n) = digits n"
proof -
  have ne: "digits n ! i \<noteq> 8239" if "i < length (digits n)" for i
    using digits_all [of n] nth_mem [OF that] by (auto simp: list_all_iff is_digit_def)
  have "concat (map (\<lambda>i. filter (\<lambda>c. c \<noteq> 8239) ((if 0 < i \<and> (k - i) mod 3 = 0 then [8239] else []) @ [digits n ! i])) [0..<m])
      = take m (digits n)" if "m \<le> length (digits n)" for k m
    using that
  proof (induction m)
    case (Suc m)
    then show ?case using ne [of m] by (simp add: take_Suc_conv_app_nth)
  qed simp
  from this [of "length (digits n)"] show ?thesis
    by (simp add: formatInt_def Let_def filter_concat comp_def)
qed

lemma format_int_inject: "formatInt m = formatInt n \<longleftrightarrow> m = n"
  by (metis format_int_digits number_digits)

subsection \<open>Sorting\<close>

lemma mset_sort_into: "mset (sort_into cmp x ys) = add_mset x (mset ys)"
  by (induction ys) auto

lemma mset_sort_by: "mset (sort_by cmp xs) = mset xs"
  by (induction xs) (simp_all add: sort_by_def mset_sort_into)

lemma sum_sort_by: "sum_list (map f (sort_by cmp xs)) = sum_list (map f xs)" for f :: "'a \<Rightarrow> nat"
  by (metis mset_map mset_sort_by sum_mset_sum_list)

lemma byCount_le: "byCount a b \<le> 0 \<longleftrightarrow>
    sh_total b < sh_total a \<or> sh_total b = sh_total a \<and> (sh_last30 b < sh_last30 a
      \<or> sh_last30 b = sh_last30 a \<and> text_less (sh_value a) (sh_value b))"
  by (auto simp: byCount_def)

lemma text_less_asym: "text_less a b \<Longrightarrow> \<not> text_less b a"
  using text_less_trans text_less_irrefl by blast

interpretation by_count: comparison byCount sh_value
proof unfold_locales
  show "byCount x y \<le> 0 \<or> byCount y x \<le> 0" if "sh_value x \<noteq> sh_value y" for x y
    using text_less_total [OF that] by (auto simp: byCount_le)
  show "byCount x z \<le> 0" if "byCount x y \<le> 0" "byCount y z \<le> 0" for x y z
    using that text_less_trans [of "sh_value x" "sh_value y" "sh_value z"] by (auto simp: byCount_le)
qed

lemma first_diff_nonzero: "first_diff xs ys = Some d \<Longrightarrow> d \<noteq> 0"
  by (induction xs ys rule: first_diff.induct) (auto split: if_splits)

lemma first_diff_None: "length xs = length ys \<Longrightarrow> first_diff xs ys = None \<longleftrightarrow> xs = ys"
  by (induction xs ys rule: first_diff.induct) auto

lemma first_diff_flip: "first_diff ys xs = map_option uminus (first_diff xs ys)"
  by (induction xs ys rule: first_diff.induct) auto

lemma first_diff_trans:
  "first_diff xs ys = Some d \<Longrightarrow> d < 0 \<Longrightarrow> first_diff ys zs = Some e \<Longrightarrow> e < 0 \<Longrightarrow>
     \<exists>f. first_diff xs zs = Some f \<and> f < 0"
proof (induction xs ys arbitrary: zs rule: first_diff.induct)
  case (1 x xs y ys)
  then show ?case by (cases zs) (auto split: if_splits)
qed simp_all

definition rank_le :: "(jstr \<Rightarrow> jstr \<Rightarrow> int) \<Rightarrow> rank \<Rightarrow> rank \<Rightarrow> bool" where
  "rank_le collate x y \<longleftrightarrow> (\<exists>d. first_diff (rk_nums x) (rk_nums y) = Some d \<and> d < 0)
     \<or> rk_nums x = rk_nums y \<and> (rk_stage y < rk_stage x
       \<or> rk_stage y = rk_stage x \<and> collate (rk_pre y) (rk_pre x) \<le> 0)"

lemma versionRank_nums: "versionRank v = Some x \<Longrightarrow> length (rk_nums x) = 3"
  by (auto simp: versionRank_def split: option.splits)

lemma compareVersions_le: "compareVersions collate a b \<le> 0 \<longleftrightarrow>
    (case (versionRank a, versionRank b) of (Some x, Some y) \<Rightarrow> rank_le collate x y
     | (Some x, None) \<Rightarrow> True | (None, Some y) \<Rightarrow> False | (None, None) \<Rightarrow> \<not> text_less b a)"
proof (cases "versionRank a")
  case None
  then show ?thesis using text_less_asym by (cases "versionRank b") (auto simp: compareVersions_def)
next
  case (Some x)
  show ?thesis
  proof (cases "versionRank b")
    case None
    with Some show ?thesis by (simp add: compareVersions_def)
  next
    case (Some y)
    note len = versionRank_nums [OF \<open>versionRank a = Some x\<close>] versionRank_nums [OF Some]
    from Some \<open>versionRank a = Some x\<close> show ?thesis
      using first_diff_nonzero [of "rk_nums x" "rk_nums y"] first_diff_None [of "rk_nums x" "rk_nums y"] len
      by (cases "first_diff (rk_nums x) (rk_nums y)") (auto simp: compareVersions_def rank_le_def)
  qed
qed

lemma rank_le_trans:
  assumes "\<And>x y z. collate x y \<le> 0 \<Longrightarrow> collate y z \<le> 0 \<Longrightarrow> collate x z \<le> 0"
  shows "rank_le collate x y \<Longrightarrow> rank_le collate y z \<Longrightarrow> rank_le collate x z"
  unfolding rank_le_def
  using first_diff_trans [of "rk_nums x" "rk_nums y" _ "rk_nums z"] assms [of "rk_pre z" "rk_pre y" "rk_pre x"]
  by auto

lemma rank_le_total:
  assumes "\<And>x y. collate x y \<le> 0 \<or> collate y x \<le> 0" and "length (rk_nums x) = length (rk_nums y)"
  shows "rank_le collate x y \<or> rank_le collate y x"
proof (cases "first_diff (rk_nums x) (rk_nums y)")
  case None
  with assms show ?thesis by (auto simp: rank_le_def first_diff_None)
next
  case (Some d)
  then show ?thesis
    using first_diff_nonzero [OF Some] first_diff_flip [of "rk_nums y" "rk_nums x"] by (auto simp: rank_le_def)
qed

lemma text_less_or: "text_less a b \<Longrightarrow> text_less a c \<or> text_less c b"
  using text_less_total [of c b] text_less_trans [of a b c] by auto

lemma comparison_versions:
  assumes tot: "\<And>x y. collate x y \<le> 0 \<or> collate y x \<le> 0"
    and tra: "\<And>x y z. collate x y \<le> 0 \<Longrightarrow> collate y z \<le> 0 \<Longrightarrow> collate x z \<le> 0"
  shows "comparison (byVersion collate) sh_value"
proof unfold_locales
  show "byVersion collate x y \<le> 0 \<or> byVersion collate y x \<le> 0" for x y
    using rank_le_total [OF tot] text_less_asym versionRank_nums
    by (auto simp: byVersion_def compareVersions_le split: option.splits)
  have rt: "rank_le collate a b \<Longrightarrow> rank_le collate b c \<Longrightarrow> rank_le collate a c" for a b c
    by (rule rank_le_trans) (rule tra)
  show "byVersion collate x z \<le> 0" if "byVersion collate x y \<le> 0" "byVersion collate y z \<le> 0" for x y z
  proof (cases "versionRank (sh_value x)"; cases "versionRank (sh_value y)"; cases "versionRank (sh_value z)")
    fix a b c
    assume "versionRank (sh_value x) = Some a" "versionRank (sh_value y) = Some b" "versionRank (sh_value z) = Some c"
    with that rt [of a b c] show ?thesis by (simp add: byVersion_def compareVersions_le)
  next
    assume "versionRank (sh_value x) = None" "versionRank (sh_value y) = None" "versionRank (sh_value z) = None"
    with that text_less_or [of "sh_value z" "sh_value x" "sh_value y"] show ?thesis
      by (auto simp: byVersion_def compareVersions_le)
  qed (use that in \<open>simp_all add: byVersion_def compareVersions_le\<close>)
qed

subsection \<open>Sums\<close>

lemma sum_obj_set_fun:
  "sum_list (map (\<lambda>kv. f (snd kv)) (obj_set k v ob)) + (case map_of ob k of Some x \<Rightarrow> f x | None \<Rightarrow> 0)
    = sum_list (map (\<lambda>kv. f (snd kv)) ob) + (f v :: nat)"
  by (induction k v ob rule: obj_set.induct) auto

lemma sum_add_dim:
  "sum_list (map (\<lambda>kv. snd (snd kv)) (add_dim v recent n m)) = sum_list (map (\<lambda>kv. snd (snd kv)) m) + n"
  "sum_list (map (\<lambda>kv. fst (snd kv)) (add_dim v recent n m)) = sum_list (map (\<lambda>kv. fst (snd kv)) m) + (if recent then n else 0)"
proof -
  obtain l t where old: "(case map_of m v of Some e \<Rightarrow> e | None \<Rightarrow> (0, 0)) = (l, t)" by fastforce
  then have add: "add_dim v recent n m = obj_set v (if recent then l + n else l, t + n) m" by (simp add: add_dim_def)
  have oldv: "(case map_of m v of Some x \<Rightarrow> snd x | None \<Rightarrow> 0) = t" "(case map_of m v of Some x \<Rightarrow> fst x | None \<Rightarrow> 0) = l"
    using old by (auto split: option.splits)
  show "sum_list (map (\<lambda>kv. snd (snd kv)) (add_dim v recent n m)) = sum_list (map (\<lambda>kv. snd (snd kv)) m) + n"
    using sum_obj_set_fun [of snd v "(if recent then l + n else l, t + n)" m] unfolding add oldv by simp
  show "sum_list (map (\<lambda>kv. fst (snd kv)) (add_dim v recent n m)) = sum_list (map (\<lambda>kv. fst (snd kv)) m) + (if recent then n else 0)"
    using sum_obj_set_fun [of fst v "(if recent then l + n else l, t + n)" m] unfolding add oldv by (cases recent) simp_all
qed

definition per_day :: "tally \<Rightarrow> jstr \<Rightarrow> nat" where
  "per_day t day = (case map_of (ta_perDay t) day of Some k \<Rightarrow> k | None \<Rightarrow> 0)"

definition week_of :: "jstr list \<Rightarrow> jstr list" where
  "week_of w = drop (length w - 7) w"

definition tally_ok :: "jstr list \<Rightarrow> jstr \<Rightarrow> tally \<Rightarrow> bool" where
  "tally_ok w today t \<longleftrightarrow> length (ta_dims t) = 3
     \<and> list_all (\<lambda>m. sum_list (map (\<lambda>kv. snd (snd kv)) m) = ta_total t
          \<and> sum_list (map (\<lambda>kv. fst (snd kv)) m) = ta_last30 t) (ta_dims t)
     \<and> sum_list (map (per_day t) w) = ta_last30 t
     \<and> sum_list (map (per_day t) (week_of w)) = ta_last7 t
     \<and> per_day t today = ta_today t"

lemma tally_ok_init: "tally_ok w today init_tally"
  by (simp add: tally_ok_def init_tally_def per_day_def comp_def)

lemma sum_one_day: "distinct w \<Longrightarrow>
    sum_list (map (\<lambda>d. if d = day then f d + n else f d) w) = sum_list (map f w) + (if day \<in> set w then n else (0 :: nat))"
  by (induction w) auto

lemma per_day_add:
  "0 < n \<Longrightarrow> per_day (add_row w today ((day, key), n) t) = (\<lambda>d. if d = day then per_day t d + n else per_day t d)"
  by (rule ext) (simp add: add_row_def per_day_def Let_def)

lemma tally_ok_add:
  assumes "distinct w" and "tally_ok w today t"
  shows "tally_ok w today (add_row w today r t)"
proof -
  obtain day key n where r: "r = ((day, key), n)" by (metis prod.exhaust)
  show ?thesis
  proof (cases "n = 0")
    case True
    with assms(2) show ?thesis by (simp add: r add_row_def)
  next
    case False
    have "distinct (week_of w)" using assms(1) by (simp add: week_of_def)
    note sums = sum_one_day [OF assms(1), where f = "per_day t" and day = day and n = n]
      sum_one_day [OF this, where f = "per_day t" and day = day and n = n]
    obtain a b c where dims: "ta_dims t = [a, b, c]"
      using assms(2) by (auto simp: tally_ok_def length_Suc_conv numeral_3_eq_3)
    from False have per: "per_day (add_row w today r t) = (\<lambda>d. if d = day then per_day t d + n else per_day t d)"
      unfolding r by (intro per_day_add) simp
    have "ta_total (add_row w today r t) = ta_total t + n"
      "ta_last30 (add_row w today r t) = ta_last30 t + (if day \<in> set w then n else 0)"
      "ta_last7 (add_row w today r t) = ta_last7 t + (if day \<in> set (week_of w) then n else 0)"
      "ta_today (add_row w today r t) = ta_today t + (if day = today then n else 0)"
      "ta_dims (add_row w today r t) = map (\<lambda>(i, m). add_dim (part_of (split_on c_bar key) i) (day \<in> set w) n m) [(0, a), (Suc 0, b), (Suc (Suc 0), c)]"
      using False by (simp_all add: r add_row_def Let_def dims week_of_def)
    with assms(2) sums show ?thesis
      by (cases "day = today") (simp_all add: tally_ok_def per dims sum_add_dim)
  qed
qed

lemma tally_ok_fold: "distinct w \<Longrightarrow> tally_ok w today t \<Longrightarrow> tally_ok w today (fold (add_row w today) rows t)"
  by (induction rows arbitrary: t) (simp_all add: tally_ok_add)

lemma total_add: "ta_total (add_row w today r t) = ta_total t + snd r"
  by (cases r; cases "fst r") (auto simp: add_row_def Let_def)

lemma total_fold: "ta_total (fold (add_row w today) rows t) = ta_total t + sum_list (map snd rows)"
  by (induction rows arbitrary: t) (simp_all add: total_add)

definition shares_ok :: "summary \<Rightarrow> share list \<Rightarrow> bool" where
  "shares_ok su es \<longleftrightarrow> sum_list (map sh_total es) = su_total su \<and> sum_list (map sh_last30 es) = su_last30 su"

lemma distinct_add_dim: "distinct (map fst m) \<Longrightarrow> distinct (map fst (add_dim v recent n m))"
  by (simp add: add_dim_def split: prod.split)

lemma distinct_add_row:
  "list_all (\<lambda>m. distinct (map fst m)) (ta_dims t) \<Longrightarrow> list_all (\<lambda>m. distinct (map fst m)) (ta_dims (add_row w today r t))"
  by (auto simp: add_row_def Let_def list_all_iff in_set_enumerate_eq distinct_add_dim split: prod.split)

lemma distinct_fold:
  "list_all (\<lambda>m. distinct (map fst m)) (ta_dims t) \<Longrightarrow>
     list_all (\<lambda>m. distinct (map fst m)) (ta_dims (fold (add_row w today) rows t))"
  by (induction rows arbitrary: t) (simp_all add: distinct_add_row)

lemma breakdown_sorted:
  assumes "comparison cmp sh_value" and "distinct (map fst m)"
  shows "sorted_wrt (\<lambda>x y. cmp x y \<le> 0) (breakdown t m cmp)"
  unfolding breakdown_def using assms(2)
  by (intro comparison.sorted_sort_by [OF assms(1)]) (simp add: comp_def split_def)

lemma breakdown_sums:
  "sum_list (map sh_total (breakdown t m cmp)) = sum_list (map (\<lambda>kv. snd (snd kv)) m)"
  "sum_list (map sh_last30 (breakdown t m cmp)) = sum_list (map (\<lambda>kv. fst (snd kv)) m)"
  unfolding breakdown_def sum_sort_by map_map comp_def by (simp_all add: split_def)

lemma summary_sums:
  assumes "distinct w" and "su = summary_of collate w (fold (add_row w today) rows init_tally)"
  shows "su_total su = sum_list (map snd rows)"
    and "list_all (shares_ok su) [su_version su, su_arch su, su_install su]"
    and "su_last30 su = sum_list (map snd (su_days30 su))"
    and "su_last7 su = sum_list (map snd (drop (length w - 7) (su_days30 su)))"
proof -
  define t where "t = fold (add_row w today) rows init_tally"
  have ok: "tally_ok w today t" unfolding t_def by (rule tally_ok_fold [OF assms(1) tally_ok_init])
  then obtain a b c where dims: "ta_dims t = [a, b, c]"
    by (auto simp: tally_ok_def length_Suc_conv numeral_3_eq_3)
  have su: "su = summary_of collate w t" using assms(2) by (simp add: t_def)
  show "su_total su = sum_list (map snd rows)"
    by (simp add: su summary_of_def t_def total_fold init_tally_def)
  show "list_all (shares_ok su) [su_version su, su_arch su, su_install su]"
    using ok by (simp add: su summary_of_def shares_ok_def breakdown_sums dims tally_ok_def)
  have days: "map snd (su_days30 su) = map (per_day t) w"
    by (simp add: su summary_of_def per_day_def comp_def)
  show "su_last30 su = sum_list (map snd (su_days30 su))"
    unfolding days using ok by (simp add: su summary_of_def tally_ok_def)
  show "su_last7 su = sum_list (map snd (drop (length w - 7) (su_days30 su)))"
    unfolding drop_map [symmetric] days using ok by (simp add: su summary_of_def tally_ok_def week_of_def drop_map)
qed

subsection \<open>The dashboard\<close>

lemma percent_near:
  assumes "n \<le> tot" and "tot < 2 ^ 41"
  shows "2 * \<bar>int (percent n tot) * int tot - 1000 * int n\<bar> \<le> int tot \<and> percent n tot \<le> 1000"
proof (cases "tot = 0")
  case True
  with assms show ?thesis by (simp add: percent_def)
next
  case False
  then have near: "2 * \<bar>int (percent n tot) * int tot - 1000 * int n\<bar> \<le> int tot"
    using round_tenths_near [OF assms(1) _ assms(2)] by (simp add: percent_def)
  have "percent n tot \<le> 1000"
  proof (rule ccontr)
    assume "\<not> percent n tot \<le> 1000"
    then have "1001 * int tot \<le> int (percent n tot) * int tot" by (intro mult_right_mono) auto
    with near assms(1) False show False by (simp add: abs_if split: if_splits)
  qed
  with near show ?thesis by simp
qed

lemma stats_data_sums:
  assumes year: "fst (year_of 1970 (now div 86400000)) < 10000" and start: "30 * 86400000 \<le> now"
  shows "\<exists>st. statsData collate rows now g = Some st
    \<and> su_total (st_pings st) = sum_list (map snd rows)
    \<and> list_all (shares_ok (st_pings st)) [su_version (st_pings st), su_arch (st_pings st), su_install (st_pings st)]
    \<and> su_last30 (st_pings st) = sum_list (map snd (su_days30 (st_pings st)))
    \<and> su_last7 (st_pings st) = sum_list (map snd (drop 23 (su_days30 (st_pings st))))
    \<and> length (su_days30 (st_pings st)) = 30
    \<and> last (su_days30 (st_pings st)) = (st_today st, su_today (st_pings st))"
proof -
  define d where "d = now div 86400000"
  define w where "w = map (\<lambda>back. day_text (d - back)) (rev [0..<30])"
  define t where "t = fold (add_row w (dayOf now)) rows init_tally"
  define su where "su = summary_of collate w t"
  have d: "fst (year_of 1970 d) < 10000" "30 \<le> d + 1"
    using year start by (auto simp: d_def less_eq_div_iff_mult_less_eq)
  have w: "lastDays (dayOf now) CHART_DAYS = Some w"
    unfolding dayOf_def CHART_DAYS_def w_def d_def [symmetric] by (rule last_days [OF d(1)])
  then have dist: "distinct w"
    using last_days_distinct [OF d] by (simp add: dayOf_def CHART_DAYS_def d_def)
  have "rev [0..<30] = rev [1..<30] @ [0]" by (simp add: upt_conv_Cons)
  then have lw: "last w = dayOf now" "length w = 30" by (simp_all add: w_def dayOf_def d_def)
  have data: "\<exists>st. statsData collate rows now g = Some st \<and> st_pings st = su \<and> st_today st = dayOf now"
    by (simp add: statsData_def summarize_def w su_def t_def)
  have "tally_ok w (dayOf now) t" unfolding t_def by (rule tally_ok_fold [OF dist tally_ok_init])
  moreover have "w \<noteq> []" using lw(2) by auto
  ultimately have "last (su_days30 su) = (dayOf now, su_today su)"
    using lw(1) by (simp add: su_def summary_of_def last_map tally_ok_def per_day_def)
  with data summary_sums [OF dist su_def [unfolded t_def]] lw(2) show ?thesis
    by (auto simp: su_def summary_of_def)
qed

lemma summary_sorted:
  assumes "\<And>x y. collate x y \<le> 0 \<or> collate y x \<le> 0"
    and "\<And>x y z. collate x y \<le> 0 \<Longrightarrow> collate y z \<le> 0 \<Longrightarrow> collate x z \<le> 0"
    and "summarize collate rows today = Some su"
  shows "sorted_wrt (\<lambda>a b. compareVersions collate (sh_value a) (sh_value b) \<le> 0) (su_version su)
    \<and> sorted_wrt (\<lambda>a b. sh_total b \<le> sh_total a) (su_arch su)"
proof -
  from assms(3) obtain w t where su: "su = summary_of collate w t" and t: "t = fold (add_row w today) rows init_tally"
    by (auto simp: summarize_def split: option.splits)
  have dims: "list_all (\<lambda>m. distinct (map fst m)) (ta_dims t)"
    unfolding t by (rule distinct_fold) (simp add: init_tally_def)
  have len: "length (ta_dims t) = 3"
    unfolding t by (induction rows rule: rev_induct) (simp_all add: init_tally_def add_row_def Let_def split: prod.split)
  have d: "distinct (map fst (ta_dims t ! 0))" "distinct (map fst (ta_dims t ! 1))"
    using dims len by (auto simp: list_all_length)
  have "comparison (byVersion collate) sh_value" by (rule comparison_versions) (rule assms(1), rule assms(2))
  from breakdown_sorted [OF this d(1)] have "sorted_wrt (\<lambda>a b. byVersion collate a b \<le> 0) (su_version su)"
    by (simp add: su summary_of_def)
  moreover from breakdown_sorted [OF by_count.comparison_axioms d(2)]
  have "sorted_wrt (\<lambda>a b. byCount a b \<le> 0) (su_arch su)" by (simp add: su summary_of_def)
  then have "sorted_wrt (\<lambda>a b. sh_total b \<le> sh_total a) (su_arch su)"
    by (rule sorted_wrt_mono_rel [rotated]) (auto simp: byCount_le)
  ultimately show ?thesis by (simp add: byVersion_def)
qed

subsection \<open>Properties\<close>

text \<open>C16. A percentage computed in doubles is, for counts below 2 to the 41, a nearest number of tenths
  of the exact quotient, and never above 100.0.\<close>

theorem percent_nearest:
  assumes "n \<le> tot" and "tot < 2 ^ 41"
  shows "2 * \<bar>int (percent n tot) * int tot - 1000 * int n\<bar> \<le> int tot \<and> percent n tot \<le> 1000"
  using assms by (rule percent_near)

theorem percent_nearest_witness:
  "2 * \<bar>int (percent 2 3) * 3 - 2000\<bar> \<le> 3 \<and> percent 2 3 \<le> 1000"
  using percent_nearest [of 2 3] by simp

text \<open>C17. The figures of the dashboard agree: the total is the number of pings in the database, the
  totals and the 30-day counts by version, by architecture and by install method add up to the totals
  of the page, the counts of the chart add up to the 30-day total, those of its last seven days to the
  7-day total, and its last column is today. No date raises.\<close>

theorem figures_agree:
  assumes "fst (year_of 1970 (now div 86400000)) < 10000" and "30 * 86400000 \<le> now"
  shows "\<exists>st. statsData collate rows now g = Some st
    \<and> su_total (st_pings st) = sum_list (map snd rows)
    \<and> list_all (shares_ok (st_pings st)) [su_version (st_pings st), su_arch (st_pings st), su_install (st_pings st)]
    \<and> su_last30 (st_pings st) = sum_list (map snd (su_days30 (st_pings st)))
    \<and> su_last7 (st_pings st) = sum_list (map snd (drop 23 (su_days30 (st_pings st))))
    \<and> length (su_days30 (st_pings st)) = 30
    \<and> last (su_days30 (st_pings st)) = (st_today st, su_today (st_pings st))"
  using assms by (rule stats_data_sums)

theorem figures_agree_witness:
  "\<exists>st. statsData (\<lambda>a b. 0) [((dayOf 1700000000000, lit ''0.5.0|arm64|apt''), 3)] 1700000000000
      \<lparr>gh_releases = None, gh_error = [], gh_fetched = []\<rparr> = Some st \<and> su_total (st_pings st) = 3"
proof -
  have "fst (year_of 1970 (1700000000000 div 86400000)) < 10000" by code_simp
  moreover have "30 * 86400000 \<le> (1700000000000 :: nat)" by simp
  ultimately show ?thesis
    using figures_agree [of 1700000000000 "\<lambda>a b. 0" "[((dayOf 1700000000000, lit ''0.5.0|arm64|apt''), 3)]"
        "\<lparr>gh_releases = None, gh_error = [], gh_fetched = []\<rparr>"] by auto
qed

text \<open>The versions are listed from the newest to the oldest for every total collation of the
  pre-release texts, and the architectures by decreasing totals.\<close>

theorem lists_sorted:
  assumes "\<And>x y. collate x y \<le> 0 \<or> collate y x \<le> 0"
    and "\<And>x y z. collate x y \<le> 0 \<Longrightarrow> collate y z \<le> 0 \<Longrightarrow> collate x z \<le> 0"
    and "summarize collate rows today = Some su"
  shows "sorted_wrt (\<lambda>a b. compareVersions collate (sh_value a) (sh_value b) \<le> 0) (su_version su)
    \<and> sorted_wrt (\<lambda>a b. sh_total b \<le> sh_total a) (su_arch su)"
  using assms by (rule summary_sorted)

theorem lists_sorted_witness:
  "\<exists>su. summarize (\<lambda>a b. 0) [((lit ''2026-01-02'', lit ''0.5.0|arm64|apt''), 3)] (lit ''2026-01-03'') = Some su
    \<and> sorted_wrt (\<lambda>a b. compareVersions (\<lambda>a b. 0) (sh_value a) (sh_value b) \<le> 0) (su_version su)"
proof -
  have day: "parseDay (lit ''2026-01-03'') = Some 20456" by code_simp
  have "summarize (\<lambda>a b. 0) [((lit ''2026-01-02'', lit ''0.5.0|arm64|apt''), 3)] (lit ''2026-01-03'') \<noteq> None"
    using day by (simp add: summarize_def lastDays_def)
  then obtain su where "summarize (\<lambda>a b. 0) [((lit ''2026-01-02'', lit ''0.5.0|arm64|apt''), 3)] (lit ''2026-01-03'') = Some su"
    by blast
  with lists_sorted [of "\<lambda>a b. 0", OF _ _ this] show ?thesis by auto
qed

text \<open>Until the year 9999 the text of a day is read back as that day, so that the window of the
  chart is the last days up to today.\<close>

theorem day_text_read_back:
  assumes "fst (year_of 1970 d) < 10000"
  shows "parseDay (day_text d) = Some d"
  using assms by (rule parse_day_text)

theorem day_text_read_back_witness: "parseDay (day_text 19782) = Some 19782"
  by (rule day_text_read_back) code_simp

end
