(* ===== verification/Page_Config.thy ===== *)
theory Page_Config imports Toml_Frame begin

text \<open>
  The settings page of an instance (\<open>pages/config.js\<close>): the schema of the two forms, the controls built
  from a file, the values read back from them, the keys of the changed fields and what saving writes.

  A control is a check box or a one-line field; setting the value of a one-line field removes its line
  breaks, and a drop-down list takes one of its options or nothing. \<open>S.snapshot\<close>, the JSON of the
  values, is kept as the list of names and values itself (\<open>None\<close> is the empty text). Labels, hints,
  layout and the button that draws a port are in \<open>View_Config\<close>.
\<close>

subsection \<open>Schema\<close>

datatype field_kind = Text | Number | Secret | Select "jstr list" | Switch

text \<open>\<open>f_with\<close> is the switch of a field whose key is written only when it is on (\<open>optionalToggle\<close>).\<close>

record cfield =
  f_name :: jstr
  f_key :: jstr
  f_kind :: field_kind
  f_def :: jstr
  f_addr :: bool
  f_with :: "jstr option"

text \<open>\<open>s_toggle\<close>: the name of the switch of the section and the key that says whether it is on.\<close>

record csection =
  s_id :: jstr
  s_advanced :: bool
  s_toggle :: "(jstr \<times> jstr) option"
  s_fields :: "cfield list"

definition fld :: "string \<Rightarrow> string \<Rightarrow> field_kind \<Rightarrow> string \<Rightarrow> cfield" where
  "fld name key kind def = \<lparr>f_name = lit name, f_key = lit key, f_kind = kind, f_def = lit def, f_addr = False, f_with = None\<rparr>"

definition fld_addr :: "string \<Rightarrow> string \<Rightarrow> string \<Rightarrow> cfield" where
  "fld_addr name key def = (fld name key Text def)\<lparr>f_addr := True\<rparr>"

definition fld_with :: "string \<Rightarrow> string \<Rightarrow> string \<Rightarrow> string \<Rightarrow> cfield" where
  "fld_with name key def switch = (fld name key Number def)\<lparr>f_with := Some (lit switch)\<rparr>"

definition sect :: "string \<Rightarrow> bool \<Rightarrow> (string \<times> string) option \<Rightarrow> cfield list \<Rightarrow> csection" where
  "sect i adv tog fs = \<lparr>s_id = lit i, s_advanced = adv, s_toggle = map_option (map_prod lit lit) tog, s_fields = fs\<rparr>"

definition LOG_LEVELS :: "jstr list" where
  "LOG_LEVELS = map lit [''trace'', ''debug'', ''info'', ''warn'', ''error'']"

definition auth_methods :: field_kind where
  "auth_methods = Select (map lit [''token'', ''oidc''])"

definition SCHEMA_frps :: "csection list" where
  "SCHEMA_frps =
     [sect ''connection'' False None
        [fld ''bindPort'' ''bindPort'' Number ''7000'', fld_addr ''bindAddr'' ''bindAddr'' ''0.0.0.0'',
         fld_addr ''proxyBindAddr'' ''proxyBindAddr'' ''''],
      sect ''auth'' False None
        [fld ''authMethod'' ''auth.method'' auth_methods ''token'', fld ''authToken'' ''auth.token'' Secret ''''],
      sect ''dashboard'' False (Some (''webEnabled'', ''webServer.port''))
        [fld ''webPort'' ''webServer.port'' Number ''7500'', fld_addr ''webAddr'' ''webServer.addr'' ''0.0.0.0'',
         fld ''webUser'' ''webServer.user'' Text ''admin'', fld ''webPassword'' ''webServer.password'' Secret ''''],
      sect ''tls'' True (Some (''tlsEnabled'', ''transport.tls.certFile''))
        [fld ''tlsCert'' ''transport.tls.certFile'' Text '''', fld ''tlsKey'' ''transport.tls.keyFile'' Text '''',
         fld ''tlsCa'' ''transport.tls.trustedCaFile'' Text '''', fld ''tlsForce'' ''transport.tls.force'' Switch ''''],
      sect ''extraPorts'' True None
        [fld_with ''kcpBindPort'' ''kcpBindPort'' ''7000'' ''kcpEnabled'',
         fld_with ''quicBindPort'' ''quicBindPort'' ''7002'' ''quicEnabled'',
         fld_with ''vhostHTTPPort'' ''vhostHTTPPort'' ''80'' ''vhostHttpEnabled'',
         fld_with ''vhostHTTPSPort'' ''vhostHTTPSPort'' ''443'' ''vhostHttpsEnabled''],
      sect ''limits'' True None
        [fld ''maxPortsPerClient'' ''maxPortsPerClient'' Number ''0'',
         fld ''maxPoolCount'' ''transport.maxPoolCount'' Number ''5'',
         fld ''heartbeatTimeout'' ''transport.heartbeatTimeout'' Number ''90''],
      sect ''logs'' True None
        [fld ''logTo'' ''log.to'' Text ''/var/log/frp/frps.log'', fld ''logLevel'' ''log.level'' (Select LOG_LEVELS) ''info'',
         fld ''logMaxDays'' ''log.maxDays'' Number ''3'']]"

definition SCHEMA_frpc :: "csection list" where
  "SCHEMA_frpc =
     [sect ''server'' False None
        [fld_addr ''serverAddr'' ''serverAddr'' '''', fld ''serverPort'' ''serverPort'' Number ''7000'',
         fld ''protocol'' ''transport.protocol'' (Select (map lit [''tcp'', ''kcp'', ''quic'', ''websocket'', ''wss''])) ''tcp''],
      sect ''auth'' False None
        [fld ''authMethod'' ''auth.method'' auth_methods ''token'', fld ''authToken'' ''auth.token'' Secret ''''],
      sect ''tls'' True (Some (''tlsEnabled'', ''transport.tls.certFile''))
        [fld ''tlsCert'' ''transport.tls.certFile'' Text '''', fld ''tlsKey'' ''transport.tls.keyFile'' Text '''',
         fld ''tlsCa'' ''transport.tls.trustedCaFile'' Text '''',
         fld ''tlsServerName'' ''transport.tls.serverName'' Text ''''],
      sect ''localDashboard'' True (Some (''webEnabled'', ''webServer.port''))
        [fld ''webPort'' ''webServer.port'' Number ''7400'', fld_addr ''webAddr'' ''webServer.addr'' ''127.0.0.1'',
         fld ''webUser'' ''webServer.user'' Text ''admin'', fld ''webPassword'' ''webServer.password'' Secret ''''],
      sect ''network'' True None
        [fld ''poolCount'' ''transport.poolCount'' Number ''5'',
         fld ''heartbeatInterval'' ''transport.heartbeatInterval'' Number ''30'', fld_addr ''dnsServer'' ''dnsServer'' '''',
         fld ''proxyURL'' ''transport.proxyURL'' Text ''''],
      sect ''logs'' True None
        [fld ''logTo'' ''log.to'' Text ''/var/log/frp/frpc.log'', fld ''logLevel'' ''log.level'' (Select LOG_LEVELS) ''info'',
         fld ''logMaxDays'' ''log.maxDays'' Number ''3'']]"

definition SCHEMA :: "bool \<Rightarrow> csection list" where
  "SCHEMA frps = (if frps then SCHEMA_frps else SCHEMA_frpc)"

subsection \<open>Controls and values\<close>

datatype control = Box bool | Line jstr
datatype fvalue = VBool bool | VText jstr

record cpage =
  cp_controls :: "(jstr \<times> control) list"
  cp_addrs :: "jstr list"
  cp_bracketed :: "(jstr \<times> jstr) list"
  cp_multiline :: "(jstr \<times> jstr) list"
  cp_loaded :: "(jstr \<times> fvalue) list"
  cp_snapshot :: "(jstr \<times> fvalue) list option"

text \<open>\<open>replace(/[\r\n]/g, '')\<close>, which is also what a one-line field keeps of a value.\<close>

definition one_line :: "jstr \<Rightarrow> jstr" where
  "one_line s = filter (\<lambda>c. c \<noteq> c_cr \<and> c \<noteq> c_nl) s"

definition control_value :: "cpage \<Rightarrow> jstr \<Rightarrow> control \<Rightarrow> fvalue" where
  "control_value S name c = (case c of
     Box b \<Rightarrow> VBool b
   | Line s \<Rightarrow>
       VText (let plain = (if name \<in> set (cp_addrs S) then unbracket (Some (trim s)) else trim s)
         in case map_of (cp_multiline S) name of
              Some orig \<Rightarrow> (if s = one_line orig then orig else plain)
            | None \<Rightarrow> plain))"

definition form_values :: "cpage \<Rightarrow> (jstr \<times> fvalue) list" where
  "form_values S = map (\<lambda>(name, c). (name, control_value S name c)) (cp_controls S)"

definition isDirty :: "bool \<Rightarrow> cpage \<Rightarrow> bool" where
  "isDirty can_write S \<longleftrightarrow> can_write \<and> cp_snapshot S \<noteq> None \<and> Some (form_values S) \<noteq> cp_snapshot S"

subsection \<open>Building the form\<close>

type_synonym cfg = "(jstr \<times> jstr) list"

text \<open>A key with a value that is not empty.\<close>

definition has_key :: "cfg \<Rightarrow> jstr \<Rightarrow> bool" where
  "has_key cfg k \<longleftrightarrow> (case map_of cfg k of Some v \<Rightarrow> v \<noteq> [] | None \<Rightarrow> False)"

definition raw_or_def :: "cfg \<Rightarrow> cfield \<Rightarrow> jstr" where
  "raw_or_def cfg f = (case map_of cfg (f_key f) of Some v \<Rightarrow> (if v \<noteq> [] then v else f_def f) | None \<Rightarrow> f_def f)"

definition raw_of :: "cfg \<Rightarrow> cfield \<Rightarrow> jstr" where
  "raw_of cfg f = (case map_of cfg (f_key f) of Some v \<Rightarrow> v | None \<Rightarrow> [])"

definition section_on :: "csection \<Rightarrow> cfg \<Rightarrow> bool" where
  "section_on sec cfg \<longleftrightarrow> (case s_toggle sec of None \<Rightarrow> True | Some (_, key) \<Rightarrow> has_key cfg key)"

definition put_control :: "jstr \<Rightarrow> control \<Rightarrow> cpage \<Rightarrow> cpage" where
  "put_control name c S = S\<lparr>cp_controls := obj_set name c (cp_controls S)\<rparr>"

definition is_select :: "field_kind \<Rightarrow> bool" where
  "is_select k \<longleftrightarrow> (case k of Select _ \<Rightarrow> True | _ \<Rightarrow> False)"

definition note_multiline :: "cfg \<Rightarrow> cfield \<Rightarrow> cpage \<Rightarrow> cpage" where
  "note_multiline cfg f S =
     (if \<not> is_select (f_kind f) \<and> list_ex (\<lambda>c. c = c_cr \<or> c = c_nl) (raw_of cfg f)
      then S\<lparr>cp_multiline := obj_set (f_name f) (raw_of cfg f) (cp_multiline S)\<rparr> else S)"

text \<open>A bracketed address is to be fixed only when its key is written (its section is on).\<close>

definition note_address :: "csection \<Rightarrow> cfg \<Rightarrow> cfield \<Rightarrow> cpage \<Rightarrow> cpage" where
  "note_address sec cfg f S =
     (let raw = raw_of cfg f;
          S1 = S\<lparr>cp_addrs := (if f_name f \<in> set (cp_addrs S) then cp_addrs S else cp_addrs S @ [f_name f])\<rparr>
      in if raw \<noteq> [] \<and> unbracket (Some raw) \<noteq> raw \<and> section_on sec cfg
         then S1\<lparr>cp_bracketed := obj_set (f_name f) raw (cp_bracketed S1)\<rparr> else S1)"

definition field_line :: "cfg \<Rightarrow> cfield \<Rightarrow> jstr" where
  "field_line cfg f = (case f_kind f of
     Select opts \<Rightarrow> (if raw_or_def cfg f \<in> set opts then raw_or_def cfg f else [])
   | Secret \<Rightarrow> one_line (raw_or_def cfg f)
   | _ \<Rightarrow> one_line (if f_addr f then unbracket (Some (raw_or_def cfg f)) else raw_or_def cfg f))"

definition is_address :: "cfield \<Rightarrow> bool" where
  "is_address f \<longleftrightarrow> f_addr f \<and> (case f_kind f of Select _ \<Rightarrow> False | Secret \<Rightarrow> False | _ \<Rightarrow> True)"

definition build_field :: "csection \<Rightarrow> cfg \<Rightarrow> cfield \<Rightarrow> cpage \<Rightarrow> cpage" where
  "build_field sec cfg f S =
     (if f_kind f = Switch then put_control (f_name f) (Box (raw_of cfg f = lit ''true'')) S
      else
        (let S1 = note_multiline cfg f S;
             S2 = (if is_address f then note_address sec cfg f S1 else S1);
             S3 = put_control (f_name f) (Line (field_line cfg f)) S2
         in case f_with f of None \<Rightarrow> S3 | Some sw \<Rightarrow> put_control sw (Box (has_key cfg (f_key f))) S3))"

definition buildFields :: "cfg \<Rightarrow> csection \<Rightarrow> cpage \<Rightarrow> cpage" where
  "buildFields cfg sec S = fold (build_field sec cfg) (s_fields sec)
     (case s_toggle sec of None \<Rightarrow> S | Some (name, key) \<Rightarrow> put_control name (Box (has_key cfg key)) S)"

definition init_cpage :: cpage where
  "init_cpage = \<lparr>cp_controls = [], cp_addrs = [], cp_bracketed = [], cp_multiline = [], cp_loaded = [],
     cp_snapshot = None\<rparr>"

text \<open>The main sections first, then the advanced ones.\<close>

definition build_form :: "bool \<Rightarrow> cfg \<Rightarrow> cpage" where
  "build_form frps cfg = fold (buildFields cfg)
     (filter (\<lambda>s. \<not> s_advanced s) (SCHEMA frps) @ filter s_advanced (SCHEMA frps)) init_cpage"

text \<open>\<open>{ ...S.loaded, ...S.bracketed }\<close>\<close>

definition with_brackets :: "cpage \<Rightarrow> (jstr \<times> fvalue) list" where
  "with_brackets S = fold (\<lambda>(name, raw). obj_set name (VText raw)) (cp_bracketed S) (cp_loaded S)"

definition load_form :: "bool \<Rightarrow> bool \<Rightarrow> cfg \<Rightarrow> cpage" where
  "load_form frps discarded cfg =
     (let S = build_form frps cfg; S1 = S\<lparr>cp_loaded := form_values S\<rparr>
      in S1\<lparr>cp_snapshot := Some (if discarded then cp_loaded S1 else with_brackets S1)\<rparr>)"

text \<open>\<open>None\<close>: reading the file raised, the form is not built.\<close>

definition load :: "bool \<Rightarrow> bool \<Rightarrow> jstr \<Rightarrow> cpage option" where
  "load frps discarded content = map_option (\<lambda>p. load_form frps discarded (o_vals p)) (parseToml content)"

subsection \<open>Saving\<close>

text \<open>\<open>String(v[name])\<close>, a missing value being the text \<open>undefined\<close>.\<close>

definition value_text :: "(jstr \<times> fvalue) list \<Rightarrow> jstr \<Rightarrow> jstr" where
  "value_text v name = (case map_of v name of None \<Rightarrow> lit ''undefined''
     | Some (VBool b) \<Rightarrow> (if b then lit ''true'' else lit ''false'') | Some (VText s) \<Rightarrow> s)"

definition changed :: "cpage \<Rightarrow> (jstr \<times> fvalue) list \<Rightarrow> jstr option \<Rightarrow> bool" where
  "changed S v name = (case name of None \<Rightarrow> False | Some n \<Rightarrow> value_text v n \<noteq> value_text (cp_loaded S) n)"

definition field_touched :: "cpage \<Rightarrow> (jstr \<times> fvalue) list \<Rightarrow> csection \<Rightarrow> cfield \<Rightarrow> bool" where
  "field_touched S v sec f \<longleftrightarrow> changed S v (Some (f_name f)) \<or> changed S v (map_option fst (s_toggle sec))
     \<or> changed S v (f_with f) \<or> f_name f \<in> fst ` set (cp_bracketed S)"

definition touchedKeys :: "bool \<Rightarrow> cpage \<Rightarrow> (jstr \<times> fvalue) list \<Rightarrow> jstr list" where
  "touchedKeys frps S v =
     concat (map (\<lambda>sec. map f_key (filter (field_touched S v sec) (s_fields sec))) (SCHEMA frps))"

text \<open>The values the generators read (\<open>v.bindAddr\<close>, ...).\<close>

definition val_s :: "(jstr \<times> fvalue) list \<Rightarrow> string \<Rightarrow> jstr" where
  "val_s v n = (case map_of v (lit n) of Some (VText s) \<Rightarrow> s | _ \<Rightarrow> [])"

definition val_b :: "(jstr \<times> fvalue) list \<Rightarrow> string \<Rightarrow> bool" where
  "val_b v n = (case map_of v (lit n) of Some (VBool b) \<Rightarrow> b | _ \<Rightarrow> False)"

definition server_form_of :: "(jstr \<times> fvalue) list \<Rightarrow> server_form" where
  "server_form_of v = \<lparr>s_bindAddr = val_s v ''bindAddr'', s_bindPort = val_s v ''bindPort'',
     s_proxyBindAddr = val_s v ''proxyBindAddr'',
     s_kcpEnabled = val_b v ''kcpEnabled'', s_kcpBindPort = val_s v ''kcpBindPort'',
     s_quicEnabled = val_b v ''quicEnabled'', s_quicBindPort = val_s v ''quicBindPort'',
     s_vhostHttpEnabled = val_b v ''vhostHttpEnabled'', s_vhostHTTPPort = val_s v ''vhostHTTPPort'',
     s_vhostHttpsEnabled = val_b v ''vhostHttpsEnabled'', s_vhostHTTPSPort = val_s v ''vhostHTTPSPort'',
     s_maxPortsPerClient = val_s v ''maxPortsPerClient'', s_authMethod = val_s v ''authMethod'',
     s_authToken = val_s v ''authToken'', s_logTo = val_s v ''logTo'', s_logLevel = val_s v ''logLevel'',
     s_logMaxDays = val_s v ''logMaxDays'', s_webEnabled = val_b v ''webEnabled'', s_webAddr = val_s v ''webAddr'',
     s_webPort = val_s v ''webPort'', s_webUser = val_s v ''webUser'', s_webPassword = val_s v ''webPassword'',
     s_tlsEnabled = val_b v ''tlsEnabled'', s_tlsCert = val_s v ''tlsCert'', s_tlsKey = val_s v ''tlsKey'',
     s_tlsCa = val_s v ''tlsCa'', s_tlsForce = val_b v ''tlsForce'', s_maxPoolCount = val_s v ''maxPoolCount'',
     s_heartbeatTimeout = val_s v ''heartbeatTimeout''\<rparr>"

definition client_form_of :: "(jstr \<times> fvalue) list \<Rightarrow> client_form" where
  "client_form_of v = \<lparr>c_serverAddr = val_s v ''serverAddr'', c_serverPort = val_s v ''serverPort'',
     c_dnsServer = val_s v ''dnsServer'', c_protocol = val_s v ''protocol'', c_proxyURL = val_s v ''proxyURL'',
     c_poolCount = val_s v ''poolCount'', c_heartbeatInterval = val_s v ''heartbeatInterval'',
     c_authMethod = val_s v ''authMethod'', c_authToken = val_s v ''authToken'', c_logTo = val_s v ''logTo'',
     c_logLevel = val_s v ''logLevel'', c_logMaxDays = val_s v ''logMaxDays'', c_tlsEnabled = val_b v ''tlsEnabled'',
     c_tlsCert = val_s v ''tlsCert'', c_tlsKey = val_s v ''tlsKey'', c_tlsCa = val_s v ''tlsCa'',
     c_tlsServerName = val_s v ''tlsServerName'', c_webEnabled = val_b v ''webEnabled'', c_webAddr = val_s v ''webAddr'',
     c_webPort = val_s v ''webPort'', c_webUser = val_s v ''webUser'', c_webPassword = val_s v ''webPassword''\<rparr>"

text \<open>The file read again, \<open>None\<close> when that failed. Nothing is posted on a failure.\<close>

datatype save_result = Unreadable | Not_stored "jstr list" | Failed | Posted jstr

definition mergeIntoFile :: "(bool \<times> jstr) option \<Rightarrow> jstr \<Rightarrow> jstr list \<Rightarrow> save_result" where
  "mergeIntoFile file generated touched = (case file of None \<Rightarrow> Unreadable
     | Some (exists, content) \<Rightarrow>
         if \<not> exists \<or> trim content = [] then Posted generated
         else (case mergeConnection content generated touched of
             Merged s \<Rightarrow> Posted s | Refused ks \<Rightarrow> Not_stored ks | Raised \<Rightarrow> Failed))"

definition generated_of :: "bool \<Rightarrow> (jstr \<times> fvalue) list \<Rightarrow> jstr \<Rightarrow> jstr \<Rightarrow> jstr" where
  "generated_of frps v iid by_text =
     (if frps then generateServer (server_form_of v) iid by_text else generateClient (client_form_of v) iid by_text)"

definition save_content :: "bool \<Rightarrow> cpage \<Rightarrow> jstr \<Rightarrow> jstr \<Rightarrow> (bool \<times> jstr) option \<Rightarrow> save_result" where
  "save_content frps S iid by_text file =
     mergeIntoFile file (generated_of frps (form_values S) iid by_text) (touchedKeys frps S (form_values S))"

text \<open>The page once the server has accepted the content.\<close>

definition show_address :: "(jstr \<times> fvalue) list \<Rightarrow> jstr \<Rightarrow> cpage \<Rightarrow> cpage" where
  "show_address v name S = (case map_of v name of Some (VText s) \<Rightarrow> put_control name (Line (one_line s)) S | _ \<Rightarrow> S)"

definition saved_page :: "cpage \<Rightarrow> cpage" where
  "saved_page S =
     (let v = form_values S;
          S1 = fold (show_address v) (cp_addrs S) S;
          S2 = S1\<lparr>cp_multiline := filter (\<lambda>(name, orig). map_of v name = Some (VText orig)) (cp_multiline S1),
                 cp_bracketed := []\<rparr>;
          S3 = S2\<lparr>cp_loaded := form_values S2\<rparr>
      in S3\<lparr>cp_snapshot := Some (cp_loaded S3)\<rparr>)"

end
