(* ===== verification/Page_Config_Saves.thy ===== *)
theory Page_Config_Saves imports Page_Config begin

text \<open>
  What saving the settings page does to a file. The invariant \<open>page_ok\<close> of the form under construction
  (every control is built once; a bracketed address is shown without its brackets) gives when the save
  bar is shown; with the frame of the merge it gives what a save may change.
\<close>

subsection \<open>One-line fields and brackets\<close>

lemma length_one_line [simp]: "length (one_line s) \<le> length s"
  by (simp add: one_line_def)

lemma length_unbracket: "length (unbracket (Some a)) \<le> length a"
proof (cases "in_brackets (trim a)")
  case (Some x)
  then have "length x \<le> length (trim a)" by (auto simp: in_brackets_def split: list.splits if_splits)
  with Some show ?thesis by (simp add: unbracket_def le_trans [OF _ length_trim])
qed (simp add: unbracket_def)

lemma unbracket_changed:
  assumes "unbracket (Some raw) \<noteq> raw"
  shows "length (unbracket (Some raw)) < length raw"
    and "length (one_line (unbracket (Some raw))) < length (one_line raw)"
proof -
  from assms obtain x where x: "in_brackets (trim raw) = Some x" "unbracket (Some raw) = x"
    by (auto simp: unbracket_def split: option.splits)
  from x(1) have t: "trim raw = c_lb # x @ [c_rb]"
    by (auto simp: in_brackets_def split: list.splits if_splits) (metis append_butlast_last_id)
  obtain a b where "raw = a @ trim raw @ b" using trim_parts by blast
  with t have raw: "raw = a @ c_lb # x @ [c_rb] @ b" by simp
  then have "length raw = length a + length x + length b + 2" by simp
  with x(2) show "length (unbracket (Some raw)) < length raw" by simp
  have "one_line raw = one_line a @ c_lb # one_line x @ [c_rb] @ one_line b"
    unfolding raw one_line_def by simp
  with x(2) show "length (one_line (unbracket (Some raw))) < length (one_line raw)" by simp
qed

subsection \<open>Names of the controls\<close>

definition add_name :: "jstr \<Rightarrow> jstr list \<Rightarrow> jstr list" where
  "add_name n ns = (if n \<in> set ns then ns else ns @ [n])"

definition field_names :: "cfield \<Rightarrow> jstr list" where
  "field_names f = f_name f # (case f_with f of None \<Rightarrow> [] | Some n \<Rightarrow> [n])"

definition section_names :: "csection \<Rightarrow> jstr list" where
  "section_names sec = (case s_toggle sec of None \<Rightarrow> [] | Some (n, _) \<Rightarrow> [n]) @ concat (map field_names (s_fields sec))"

definition form_sections :: "bool \<Rightarrow> csection list" where
  "form_sections frps = filter (\<lambda>s. \<not> s_advanced s) (SCHEMA frps) @ filter s_advanced (SCHEMA frps)"

definition form_names :: "bool \<Rightarrow> jstr list" where
  "form_names frps = concat (map section_names (form_sections frps))"

lemma distinct_form_names: "distinct (form_names True)" "distinct (form_names False)"
  by code_simp+

text \<open>A switch has no field of its own with it: only ports are optional.\<close>

definition names_of :: "cpage \<Rightarrow> jstr list" where
  "names_of S = map fst (cp_controls S)"

text \<open>What building keeps: a bracketed value has an address field that shows it without brackets.\<close>

definition bracket_ok :: "cpage \<Rightarrow> jstr \<Rightarrow> jstr \<Rightarrow> bool" where
  "bracket_ok S n raw \<longleftrightarrow> n \<in> set (cp_addrs S)
     \<and> (map_of (cp_multiline S) n = None \<or> map_of (cp_multiline S) n = Some raw)
     \<and> (\<exists>s. map_of (cp_controls S) n = Some (Line s) \<and> length s < length raw \<and> s \<noteq> one_line raw)"

definition page_ok :: "cpage \<Rightarrow> bool" where
  "page_ok S \<longleftrightarrow> distinct (names_of S) \<and> distinct (map fst (cp_bracketed S))
     \<and> fst ` set (cp_bracketed S) \<subseteq> set (names_of S) \<and> fst ` set (cp_multiline S) \<subseteq> set (names_of S)
     \<and> (\<forall>(n, raw) \<in> set (cp_bracketed S). bracket_ok S n raw)"

lemma names_put: "names_of (put_control n c S) = add_name n (names_of S)"
  by (simp add: names_of_def put_control_def add_name_def keys_obj_set image_def)

lemma put_ok:
  assumes "page_ok S" and "n \<notin> set (names_of S)"
  shows "page_ok (put_control n c S)"
proof -
  have "bracket_ok (put_control n c S) m raw" if "(m, raw) \<in> set (cp_bracketed S)" for m raw
  proof -
    from that assms have "m \<noteq> n" by (force simp: page_ok_def)
    with that assms show ?thesis by (auto simp: page_ok_def bracket_ok_def put_control_def)
  qed
  with assms show ?thesis
    by (auto simp: page_ok_def names_put add_name_def) (auto simp: put_control_def)
qed

lemma set_obj_set: "set (obj_set k v ob) \<subseteq> insert (k, v) (set ob)"
  by (induction k v ob rule: obj_set.induct) auto

text \<open>The page once a field that is not a switch has its control.\<close>

definition line_page :: "csection \<Rightarrow> cfg \<Rightarrow> cfield \<Rightarrow> cpage \<Rightarrow> cpage" where
  "line_page sec cfg f S = put_control (f_name f) (Line (field_line cfg f))
     (if is_address f then note_address sec cfg f (note_multiline cfg f S) else note_multiline cfg f S)"

lemmas line_page_defs = line_page_def put_control_def note_multiline_def note_address_def Let_def

lemma line_page_parts:
  "cp_controls (line_page sec cfg f S) = obj_set (f_name f) (Line (field_line cfg f)) (cp_controls S)"
  "m \<noteq> f_name f \<Longrightarrow> map_of (cp_multiline (line_page sec cfg f S)) m = map_of (cp_multiline S) m"
  "set (cp_addrs S) \<subseteq> set (cp_addrs (line_page sec cfg f S))"
  "fst ` set (cp_multiline (line_page sec cfg f S)) \<subseteq> insert (f_name f) (fst ` set (cp_multiline S))"
  "f_name f \<notin> fst ` set (cp_multiline S) \<Longrightarrow>
     map_of (cp_multiline (line_page sec cfg f S)) (f_name f) \<in> {None, Some (raw_of cfg f)}"
  "cp_bracketed (line_page sec cfg f S) = cp_bracketed S
     \<or> cp_bracketed (line_page sec cfg f S) = obj_set (f_name f) (raw_of cfg f) (cp_bracketed S)
        \<and> is_address f \<and> raw_of cfg f \<noteq> [] \<and> unbracket (Some (raw_of cfg f)) \<noteq> raw_of cfg f
        \<and> f_name f \<in> set (cp_addrs (line_page sec cfg f S))"
  using set_obj_set [of "f_name f" "raw_of cfg f" "cp_multiline S"]
  by (auto simp: line_page_defs map_of_eq_None_iff)

lemma line_bracket_ok:
  assumes "is_address f" and "raw_of cfg f \<noteq> []" and "unbracket (Some (raw_of cfg f)) \<noteq> raw_of cfg f"
    and "f_name f \<in> set (cp_addrs (line_page sec cfg f S))" and "f_name f \<notin> fst ` set (cp_multiline S)"
  shows "bracket_ok (line_page sec cfg f S) (f_name f) (raw_of cfg f)"
proof -
  have "raw_or_def cfg f = raw_of cfg f" using assms(2) by (auto simp: raw_of_def raw_or_def_def split: option.splits)
  with assms(1) have line: "field_line cfg f = one_line (unbracket (Some (raw_of cfg f)))"
    by (auto simp: is_address_def field_line_def split: field_kind.splits)
  have "length (field_line cfg f) < length (raw_of cfg f)"
    unfolding line using unbracket_changed(1) [OF assms(3)] by (rule le_less_trans [OF length_one_line])
  moreover have "field_line cfg f \<noteq> one_line (raw_of cfg f)"
    unfolding line using unbracket_changed(2) [OF assms(3)] by auto
  ultimately show ?thesis
    using assms(4) line_page_parts(5) [OF assms(5), of sec cfg] by (auto simp: bracket_ok_def line_page_parts(1))
qed

lemma line_page_ok:
  assumes S: "page_ok S" and nf: "f_name f \<notin> set (names_of S)"
  shows "page_ok (line_page sec cfg f S)" and "names_of (line_page sec cfg f S) = names_of S @ [f_name f]"
proof -
  let ?T = "line_page sec cfg f S"
  show names: "names_of ?T = names_of S @ [f_name f]"
    using nf by (auto simp: names_of_def line_page_parts(1) keys_obj_set)
  have nm: "f_name f \<notin> fst ` set (cp_multiline S)" and nb: "f_name f \<notin> fst ` set (cp_bracketed S)"
    using S nf by (auto simp: page_ok_def)
  have old: "bracket_ok ?T m r" if "(m, r) \<in> set (cp_bracketed S)" for m r
  proof -
    from that nb have "m \<noteq> f_name f" by force
    with that S line_page_parts(2) [of m f sec cfg S] line_page_parts(3) [of S sec cfg f] show ?thesis
      by (auto simp: page_ok_def bracket_ok_def line_page_parts(1))
  qed
  from line_page_parts(6) [of sec cfg f S] show "page_ok ?T"
  proof
    assume "cp_bracketed ?T = cp_bracketed S"
    with S nf old names line_page_parts(4) [of sec cfg f S] show ?thesis by (fastforce simp: page_ok_def)
  next
    assume b: "cp_bracketed ?T = obj_set (f_name f) (raw_of cfg f) (cp_bracketed S) \<and> is_address f \<and> raw_of cfg f \<noteq> []
      \<and> unbracket (Some (raw_of cfg f)) \<noteq> raw_of cfg f \<and> f_name f \<in> set (cp_addrs ?T)"
    then have "bracket_ok ?T (f_name f) (raw_of cfg f)" using line_bracket_ok nm by blast
    then have all: "bracket_ok ?T m r" if "(m, r) \<in> set (cp_bracketed ?T)" for m r
      using that b old set_obj_set [of "f_name f" "raw_of cfg f" "cp_bracketed S"] by auto
    have "fst ` set (cp_bracketed ?T) \<subseteq> insert (f_name f) (fst ` set (cp_bracketed S))"
      using b set_obj_set [of "f_name f" "raw_of cfg f" "cp_bracketed S"] by auto
    have d: "distinct (map fst (cp_bracketed ?T))" using b S by (simp add: page_ok_def)
    have nm2: "distinct (names_of ?T)" "insert (f_name f) (set (names_of S)) = set (names_of ?T)"
      using S nf names by (auto simp: page_ok_def)
    have sub: "fst ` set (cp_multiline S) \<subseteq> set (names_of S)" "fst ` set (cp_bracketed S) \<subseteq> set (names_of S)"
      using S by (simp_all add: page_ok_def)
    have "fst ` set (cp_bracketed ?T) \<subseteq> set (names_of ?T)"
      using \<open>fst ` set (cp_bracketed ?T) \<subseteq> insert (f_name f) (fst ` set (cp_bracketed S))\<close> sub(2)
      unfolding nm2(2) [symmetric] by blast
    moreover have "fst ` set (cp_multiline ?T) \<subseteq> set (names_of ?T)"
      using line_page_parts(4) [of sec cfg f S] sub(1) unfolding nm2(2) [symmetric] by blast
    ultimately show ?thesis using d nm2(1) all by (simp add: page_ok_def split_def)
  qed
qed

lemma field_ok:
  assumes S: "page_ok S" and fresh: "set (field_names f) \<inter> set (names_of S) = {}" and dist: "distinct (field_names f)"
  shows "page_ok (build_field sec cfg f S) \<and> set (names_of (build_field sec cfg f S)) \<subseteq> set (field_names f) \<union> set (names_of S)"
proof (cases "f_kind f = Switch")
  case True
  with put_ok [OF S, of "f_name f"] fresh show ?thesis
    by (auto simp: build_field_def field_names_def names_put add_name_def)
next
  case False
  have nf: "f_name f \<notin> set (names_of S)" using fresh by (auto simp: field_names_def)
  note L = line_page_ok [OF S nf, of sec cfg]
  have b: "build_field sec cfg f S = (case f_with f of None \<Rightarrow> line_page sec cfg f S
      | Some sw \<Rightarrow> put_control sw (Box (has_key cfg (f_key f))) (line_page sec cfg f S))"
    using False by (cases "f_with f") (simp_all add: build_field_def line_page_def Let_def)
  show ?thesis
  proof (cases "f_with f")
    case None
    with L show ?thesis by (auto simp: b field_names_def)
  next
    case (Some sw)
    with fresh dist have "sw \<notin> set (names_of (line_page sec cfg f S))" by (auto simp: L(2) field_names_def)
    with put_ok [OF L(1) this] L(2) Some show ?thesis by (auto simp: b field_names_def names_put add_name_def)
  qed
qed

lemma fields_ok:
  assumes "page_ok S" and "set (concat (map field_names fs)) \<inter> set (names_of S) = {}" and "distinct (concat (map field_names fs))"
  shows "page_ok (fold (build_field sec cfg) fs S)
    \<and> set (names_of (fold (build_field sec cfg) fs S)) \<subseteq> set (concat (map field_names fs)) \<union> set (names_of S)"
  using assms
proof (induction fs arbitrary: S)
  case (Cons f fs)
  then have f: "page_ok (build_field sec cfg f S)"
    "set (names_of (build_field sec cfg f S)) \<subseteq> set (field_names f) \<union> set (names_of S)"
    using field_ok [of S f sec cfg] by auto
  then have "set (concat (map field_names fs)) \<inter> set (names_of (build_field sec cfg f S)) = {}"
    using Cons.prems by fastforce
  from Cons.IH [OF f(1) this] Cons.prems(3) f(2) show ?case by auto
qed simp

lemma section_ok:
  assumes "page_ok S" and "set (section_names sec) \<inter> set (names_of S) = {}" and "distinct (section_names sec)"
  shows "page_ok (buildFields cfg sec S)
    \<and> set (names_of (buildFields cfg sec S)) \<subseteq> set (section_names sec) \<union> set (names_of S)"
proof (cases "s_toggle sec")
  case None
  with fields_ok [OF assms(1), where fs = "s_fields sec" and sec = sec and cfg = cfg] assms show ?thesis
    by (simp add: buildFields_def section_names_def)
next
  case (Some nk)
  obtain n k where nk: "nk = (n, k)" by fastforce
  let ?S = "put_control n (Box (has_key cfg k)) S"
  have n: "n \<notin> set (names_of S)" "n \<notin> set (concat (map field_names (s_fields sec)))"
    using assms(2,3) Some nk by (auto simp: section_names_def)
  have names: "set (names_of ?S) = insert n (set (names_of S))" by (auto simp: names_put add_name_def)
  let ?F = "concat (map field_names (s_fields sec))"
  have "set ?F \<inter> set (names_of ?S) = {}" "distinct ?F"
    using assms(2,3) Some nk n(2) by (auto simp: names section_names_def)
  note F = fields_ok [OF put_ok [OF assms(1) n(1)] this, of sec cfg]
  have "buildFields cfg sec S = fold (build_field sec cfg) (s_fields sec) ?S"
    using Some nk by (simp add: buildFields_def)
  moreover have "set (section_names sec) = insert n (set ?F)" using Some nk by (simp add: section_names_def)
  ultimately show ?thesis using F names by (simp only:) blast
qed

lemma sections_ok:
  assumes "page_ok S" and "set (concat (map section_names secs)) \<inter> set (names_of S) = {}"
    and "distinct (concat (map section_names secs))"
  shows "page_ok (fold (buildFields cfg) secs S)"
  using assms
proof (induction secs arbitrary: S)
  case (Cons sec secs)
  then have f: "page_ok (buildFields cfg sec S)"
    "set (names_of (buildFields cfg sec S)) \<subseteq> set (section_names sec) \<union> set (names_of S)"
    using section_ok [of S sec cfg] by auto
  then have "set (concat (map section_names secs)) \<inter> set (names_of (buildFields cfg sec S)) = {}"
    using Cons.prems by fastforce
  from Cons.IH [OF f(1) this] Cons.prems(3) show ?case by simp
qed simp

lemma form_ok: "page_ok (build_form frps cfg)"
proof -
  have "distinct (concat (map section_names (form_sections frps)))"
    using distinct_form_names by (cases frps) (simp_all only: form_names_def)
  moreover have "page_ok init_cpage" by (simp add: page_ok_def init_cpage_def names_of_def)
  ultimately show ?thesis
    unfolding build_form_def form_sections_def [symmetric] by (intro sections_ok) (simp_all add: init_cpage_def names_of_def)
qed

subsection \<open>Dirty pages\<close>

lemma form_values_frame [simp]:
  "form_values (S\<lparr>cp_loaded := l\<rparr>) = form_values S"
  "form_values (S\<lparr>cp_snapshot := x\<rparr>) = form_values S"
  by (simp_all add: form_values_def control_value_def cong: control.case_cong)

lemma map_of_form_values: "map_of (form_values S) n = map_option (control_value S n) (map_of (cp_controls S) n)"
proof -
  have "map_of (map (\<lambda>(name, c). (name, control_value S name c)) cs) n = map_option (control_value S n) (map_of cs n)" for cs
    by (induction cs) auto
  then show ?thesis by (simp add: form_values_def)
qed

lemma bracket_value:
  assumes "bracket_ok S n raw"
  shows "map_of (form_values S) n \<noteq> Some (VText raw)"
proof -
  from assms obtain s where s: "map_of (cp_controls S) n = Some (Line s)" "length s < length raw" "s \<noteq> one_line raw"
    "n \<in> set (cp_addrs S)" "map_of (cp_multiline S) n = None \<or> map_of (cp_multiline S) n = Some raw"
    by (auto simp: bracket_ok_def)
  have "length (unbracket (Some (trim s))) < length raw"
    using length_unbracket [of "trim s"] length_trim [of s] s(2) by linarith
  then have "unbracket (Some (trim s)) \<noteq> raw" by auto
  moreover have "control_value S n (Line s) = VText (unbracket (Some (trim s)))"
    using s(5) s(3,4) by (elim disjE) (simp_all add: control_value_def)
  ultimately show ?thesis using s(1) by (simp add: map_of_form_values)
qed

lemma map_of_override:
  "distinct (map fst bs) \<Longrightarrow> (n, raw) \<in> set bs \<Longrightarrow>
     map_of (fold (\<lambda>(name, raw). obj_set name (VText raw)) bs l) n = Some (VText raw)"
proof (induction bs arbitrary: l)
  case (Cons b bs)
  obtain m r where b: "b = (m, r)" by fastforce
  have keep: "map_of (fold (\<lambda>(name, raw). obj_set name (VText raw)) cs k) n = map_of k n" if "n \<notin> fst ` set cs" for cs k
    using that by (induction cs arbitrary: k) auto
  from Cons show ?case
  proof (cases "n = m")
    case True
    with Cons.prems b have "r = raw" "n \<notin> fst ` set bs" by (auto simp: rev_image_eqI)
    with True b keep show ?thesis by simp
  qed (use b in auto)
qed simp

lemma load_dirty:
  "isDirty w (load_form frps False cfg) \<longleftrightarrow> w \<and> cp_bracketed (load_form frps False cfg) \<noteq> []"
proof -
  let ?S = "build_form frps cfg"
  have vals: "form_values (load_form frps False cfg) = form_values ?S" "cp_bracketed (load_form frps False cfg) = cp_bracketed ?S"
    by (simp_all add: load_form_def Let_def)
  have snap: "cp_snapshot (load_form frps False cfg)
      = Some (fold (\<lambda>(name, raw). obj_set name (VText raw)) (cp_bracketed ?S) (form_values ?S))"
    by (simp add: load_form_def Let_def with_brackets_def)
  show ?thesis
  proof (cases "cp_bracketed ?S")
    case Nil
    then show ?thesis by (simp add: isDirty_def vals snap)
  next
    case (Cons b bs)
    then obtain n raw where m: "(n, raw) \<in> set (cp_bracketed ?S)" by (cases b) auto
    then have "bracket_ok ?S n raw" "distinct (map fst (cp_bracketed ?S))"
      using form_ok [of frps cfg] by (auto simp: page_ok_def)
    then have "map_of (form_values ?S) n \<noteq> map_of (fold (\<lambda>(name, raw). obj_set name (VText raw)) (cp_bracketed ?S) (form_values ?S)) n"
      using bracket_value map_of_override [OF _ m] by simp
    then have "form_values ?S \<noteq> fold (\<lambda>(name, raw). obj_set name (VText raw)) (cp_bracketed ?S) (form_values ?S)" by metis
    with Cons show ?thesis by (simp add: isDirty_def vals snap)
  qed
qed

subsection \<open>Keys written\<close>

lemma touched_nothing:
  assumes "form_values S = cp_loaded S" and "cp_bracketed S = []"
  shows "touchedKeys frps S (form_values S) = []"
  using assms by (simp add: touchedKeys_def field_touched_def changed_def filter_False split: option.splits)

text \<open>The keys a control writes: its field, or the fields of the section or port it switches.\<close>

definition keys_of_control :: "bool \<Rightarrow> jstr \<Rightarrow> jstr list" where
  "keys_of_control frps n = concat (map (\<lambda>sec. map f_key
     (filter (\<lambda>f. f_name f = n \<or> map_option fst (s_toggle sec) = Some n \<or> f_with f = Some n) (s_fields sec))) (SCHEMA frps))"

lemma set_concat_mono:
  "(\<And>x. x \<in> set xs \<Longrightarrow> set (f x) \<subseteq> set (g x)) \<Longrightarrow> set (concat (map f xs)) \<subseteq> set (concat (map g xs))"
  by (induction xs) auto

lemma set_map_filter_mono: "(\<And>x. P x \<Longrightarrow> Q x) \<Longrightarrow> set (map f (filter P xs)) \<subseteq> set (map f (filter Q xs))"
  by auto

lemma touched_one:
  assumes "cp_bracketed S = []" and "\<And>m. m \<noteq> n \<Longrightarrow> map_of (form_values S) m = map_of (cp_loaded S) m"
  shows "set (touchedKeys frps S (form_values S)) \<subseteq> set (keys_of_control frps n)"
proof -
  have same: "changed S (form_values S) x \<Longrightarrow> x = Some n" for x
  proof (rule ccontr)
    assume c: "changed S (form_values S) x" "x \<noteq> Some n"
    then obtain m where "x = Some m" "m \<noteq> n" by (cases x) (auto simp: changed_def)
    with assms(2) [of m] c(1) show False by (simp add: changed_def value_text_def)
  qed
  have imp: "field_touched S (form_values S) sec f \<Longrightarrow>
      f_name f = n \<or> map_option fst (s_toggle sec) = Some n \<or> f_with f = Some n" for sec f
    using assms(1) by (auto simp: field_touched_def dest: same)
  have "set (map f_key (filter (field_touched S (form_values S) sec) fs)) \<subseteq> set (map f_key
      (filter (\<lambda>f. f_name f = n \<or> map_option fst (s_toggle sec) = Some n \<or> f_with f = Some n) fs))" for sec fs
    by (rule set_map_filter_mono) (rule imp)
  then show ?thesis unfolding touchedKeys_def keys_of_control_def by (rule set_concat_mono)
qed

lemma may_drop_mono: "set a \<subseteq> set b \<Longrightarrow> may_drop a ls sc i \<Longrightarrow> may_drop b ls sc i"
  by (auto simp: may_drop_def in_reached_def reached_def list_ex_iff)

lemma subseq_filter_mono: "(\<And>x. P x \<Longrightarrow> Q x) \<Longrightarrow> subseq (filter P xs) (filter Q xs)"
  by (induction xs) auto

lemma kept_lines_mono: "set a \<subseteq> set b \<Longrightarrow> subseq (kept_lines s b) (kept_lines s a)"
  unfolding kept_lines_def Let_def
  by (intro subseq_map subseq_filter_mono) (use may_drop_mono in blast)

lemma save_same:
  assumes "form_values S = cp_loaded S" and "cp_bracketed S = []" and "trim content \<noteq> []"
    and "\<not> includesStr (merge_src content) crlf"
  shows "save_content frps S iid by_text (Some (True, content)) = Posted (merge_src content)"
  using assms touched_nothing [OF assms(1,2)]
  by (simp add: save_content_def mergeIntoFile_def merge_nothing join_splitLines)

lemma save_one:
  assumes "cp_bracketed S = []" and "\<And>m. m \<noteq> n \<Longrightarrow> map_of (form_values S) m = map_of (cp_loaded S) m"
    and "trim content \<noteq> []" and "save_content frps S iid by_text (Some (True, content)) = Posted t"
  shows "\<exists>outs. t = join (merge_eol content) outs \<and> subseq (kept_lines content (keys_of_control frps n)) outs"
proof -
  from assms(3,4) have "mergeConnection content (generated_of frps (form_values S) iid by_text) (touchedKeys frps S (form_values S)) = Merged t"
    by (auto simp: save_content_def mergeIntoFile_def split: merged.splits)
  from merge_keeps [OF this] obtain outs where "t = join (merge_eol content) outs"
    "subseq (kept_lines content (touchedKeys frps S (form_values S))) outs" by blast
  moreover have "set (touchedKeys frps S (form_values S)) \<subseteq> set (keys_of_control frps n)"
    by (rule touched_one) (use assms(1,2) in auto)
  ultimately show ?thesis using kept_lines_mono subseq_order.order_trans by blast
qed

lemma saved_clean:
  "\<not> isDirty w (saved_page S)"
  "touchedKeys frps (saved_page S) (form_values (saved_page S)) = []"
proof -
  have l: "form_values (saved_page S) = cp_loaded (saved_page S)" "cp_bracketed (saved_page S) = []"
    "cp_snapshot (saved_page S) = Some (cp_loaded (saved_page S))"
    by (simp_all add: saved_page_def Let_def)
  then show "\<not> isDirty w (saved_page S)" by (simp add: isDirty_def)
  show "touchedKeys frps (saved_page S) (form_values (saved_page S)) = []" by (rule touched_nothing [OF l(1,2)])
qed

lemma values_put_other: "m \<noteq> n \<Longrightarrow> map_of (form_values (put_control n c S)) m = map_of (form_values S) m"
proof -
  assume "m \<noteq> n"
  moreover have "control_value (put_control n c S) m = control_value S m"
    by (rule ext) (simp add: put_control_def control_value_def cong: control.case_cong)
  ultimately show ?thesis by (simp add: map_of_form_values) (simp add: put_control_def)
qed

subsection \<open>Properties\<close>


definition ex_page :: cpage where
  "ex_page = load_form True False [(lit ''bindPort'', lit ''7001''), (lit ''log.to'', lit ''a'' @ [c_nl] @ lit ''b'')]"

definition ex_content :: jstr where
  "ex_content = lit ''# mine'' @ [c_nl] @ lit ''bindPort = 7001'' @ [c_nl] @ lit ''[other]'' @ [c_nl] @ lit ''x = 1''"

lemma ex_page_loaded: "form_values ex_page = cp_loaded ex_page" "cp_bracketed ex_page = []"
  by (simp_all add: ex_page_def load_form_def Let_def) code_simp

lemma ex_content_eval: "trim ex_content \<noteq> []" "\<not> includesStr (merge_src ex_content) crlf" "merge_src ex_content = ex_content"
  by code_simp+



definition ex_changed :: cpage where
  "ex_changed = put_control (lit ''bindPort'') (Line (lit ''7005'')) ex_page"

definition ex_lines_c :: "jstr list" where
  "ex_lines_c = [lit ''# mine'', lit ''bindPort = 7001'', lit ''[other]'', lit ''x = 1'']"

definition ex_want :: "(jstr \<times> jstr) list" where
  \<open>ex_want = [(lit ''bindAddr'', lit ''"0.0.0.0"''), (lit ''bindPort'', lit ''7005''), (lit ''auth.method'', lit ''"token"''),
     (lit ''log.to'', lit ''"a'' @ [c_bs] @ lit ''nb"''), (lit ''log.level'', lit ''"info"''), (lit ''log.maxDays'', lit ''3'')]\<close>

definition ex_mg :: merge where
  "ex_mg = init_merge\<lparr>mg_put := [(1, lit ''bindPort = 7005'')]\<rparr>"

definition ex_saved :: "jstr list" where
  "ex_saved = [lit ''# mine'', lit ''bindPort = 7005'', lit ''[other]'', lit ''x = 1'']"

lemma ex_touched: "touchedKeys True ex_changed (form_values ex_changed) = [lit ''bindPort'']"
  by code_simp

lemma ex_generated: "generatedRaws (generated_of True (form_values ex_changed) (lit ''frps'') []) = ex_want"
  by code_simp

lemma ex_merge_eval:
  "splitLines ex_content = ex_lines_c"
  "foldM (merge_key ex_lines_c (scanConnection ex_lines_c) ex_want) (merge_keys ex_want [lit ''bindPort'']) init_merge = Some ex_mg"
  "mg_refused ex_mg = []"
  "out_lines ex_lines_c (finish_merge ex_lines_c (scanConnection ex_lines_c) False ex_mg) = ex_saved"
  by code_simp+

lemma ex_saved_eval:
  "save_content True ex_changed (lit ''frps'') [] (Some (True, ex_content)) = Posted (join [c_nl] ex_saved)"
  using ex_content_eval
  by (simp add: save_content_def mergeIntoFile_def mergeConnection_def ex_touched ex_generated ex_merge_eval Let_def)

lemma ex_kept_config:
  "kept_lines ex_content (keys_of_control True (lit ''bindPort'')) = [lit ''# mine'', lit ''x = 1'']"
  by code_simp


text \<open>A page just loaded shows the save bar exactly when an address of the file is written between
  brackets in a section that is on, and the account may write.\<close>

theorem loaded_form_clean:
  "isDirty w (load_form frps False cfg) \<longleftrightarrow> w \<and> cp_bracketed (load_form frps False cfg) \<noteq> []"
  by (rule load_dirty)

text \<open>After a save the page has nothing left to save: the bar is hidden and no key is written.\<close>

theorem saved_form_clean:
  "\<not> isDirty w (saved_page S) \<and> touchedKeys frps (saved_page S) (form_values (saved_page S)) = []"
  by (intro conjI saved_clean)

end
