(* ===== verification/Page_Tunnels.thy ===== *)
theory Page_Tunnels imports Toml_Tunnels begin

text \<open>
  The tunnels page of an frpc (\<open>pages/tunnels.js\<close>): the draft of the tunnels and visitors, what its two
  editors accept, what is shown and copied for a tunnel, loading and saving.

  A message is the key of its translation with its parameters; no message is \<open>None\<close>. The translated
  texts an address can fall back to are an argument. \<open>S.snapshot\<close>, the JSON of the two lists, is the lists
  themselves (\<open>None\<close> is the empty text). The status frpc gives is a function from the name of a tunnel.
  The markup is in \<open>View_Tunnels\<close>, requests under way in \<open>Page_Tunnels_Sessions\<close>; answers are arguments here.
\<close>

datatype vmsg = VPort | VPortSpec | VRangeTooBig nat | VRangeRemote | VRangeCount int int | VRequired
  | VDomainPort | VDomainPortSingle | VNameFormat | VNameTaken | VNameClash jstr | VBothRemote
  | VVisitorNameClash jstr | VRangeCountVisitor int int

subsection \<open>Ports and domains\<close>

definition validPort :: "jstr \<Rightarrow> bool" where
  "validPort v \<longleftrightarrow> port_text v \<and> 1 \<le> number v \<and> number v \<le> 65535"

text \<open>\<open>isRanged\<close> on the three values of the editor.\<close>

definition ranged_at :: "jstr \<Rightarrow> jstr \<Rightarrow> jstr \<Rightarrow> bool" where
  "ranged_at kind local remote \<longleftrightarrow> isPortRange local \<or> (hasRemotePort kind \<and> isPortRange remote)"

text \<open>The errors of the local and of the public port.\<close>

definition local_range_error :: "jstr \<Rightarrow> vmsg option" where
  "local_range_error local = (let nl = portSpecCount local in
     if nl = 0 then Some VPortSpec else if nl > int MAX_RANGE_PORTS then Some (VRangeTooBig MAX_RANGE_PORTS) else None)"

definition portErrors :: "jstr \<Rightarrow> jstr \<Rightarrow> jstr \<Rightarrow> vmsg option \<times> vmsg option" where
  "portErrors kind local remote =
     (if \<not> ranged_at kind local remote then
        (if validPort local then None else Some VPort,
         if \<not> hasRemotePort kind \<or> remote = [] \<or> validPort remote then None else Some VPort)
      else if \<not> hasRemotePort kind then (local_range_error local, None)
      else
        (let nl = portSpecCount local; nr = portSpecCount remote
         in (local_range_error local,
             if remote = [] then Some VRangeRemote else if nr = 0 then Some VPortSpec
             else if nl \<noteq> 0 \<and> nr \<noteq> nl then Some (VRangeCount nl nr) else None)))"

definition domainError :: "jstr \<Rightarrow> bool \<Rightarrow> jstr \<Rightarrow> vmsg option" where
  "domainError kind ranged s =
     (if \<not> hasDomains kind then None
      else
        (let ds = truthy (map trim (split_on c_comma s)) in
         if ranged \<and> ds = [] then Some VRequired
         else if ranged then (if list_ex (\<lambda>d. \<not> includesStr d PORT_TOKEN) ds then Some VDomainPort else None)
         else if list_ex (\<lambda>d. includesStr d PORT_TOKEN) ds then Some VDomainPortSingle else None))"

definition rangeHintKey :: "jstr \<Rightarrow> string" where
  "rangeHintKey kind = (if hasRemotePort kind then ''tunnels.fields.rangeHint''
     else if hasDomains kind then ''tunnels.fields.rangeHintDomains'' else ''tunnels.fields.rangeHintPrivate'')"

text \<open>TCP + UDP behaves as TCP (\<open>kindOf\<close>).\<close>

definition kind_of_type :: "jstr \<Rightarrow> jstr" where
  "kind_of_type tp = (if tp = TCP_UDP then t_tcp else tp)"

subsection \<open>The page\<close>

record tpage =
  tp_baseText :: jstr
  tp_serverAddr :: jstr
  tp_baseFix :: bool
  tp_docker :: bool
  tp_proxies :: "proxy list"
  tp_visitors :: "visitor list"
  tp_snapshot :: "(proxy list \<times> visitor list) option"

definition isDirty_t :: "bool \<Rightarrow> tpage \<Rightarrow> bool" where
  "isDirty_t can_write S \<longleftrightarrow> can_write \<and> tp_snapshot S \<noteq> None
     \<and> (tp_baseFix S \<or> Some (tp_proxies S, tp_visitors S) \<noteq> tp_snapshot S)"

text \<open>State of a row against the saved list: new, unchanged or changed.\<close>

datatype row_state = New | Same | Changed

definition stateOf_p :: "tpage \<Rightarrow> proxy \<Rightarrow> row_state" where
  "stateOf_p S p = (case find (\<lambda>x. p_uid x = p_uid p) (case tp_snapshot S of Some (ps, _) \<Rightarrow> ps | None \<Rightarrow> []) of
     None \<Rightarrow> New | Some q \<Rightarrow> if q = p then Same else Changed)"

definition stateOf_v :: "tpage \<Rightarrow> visitor \<Rightarrow> row_state" where
  "stateOf_v S v = (case find (\<lambda>x. v_uid x = v_uid v) (case tp_snapshot S of Some (_, vs) \<Rightarrow> vs | None \<Rightarrow> []) of
     None \<Rightarrow> New | Some w \<Rightarrow> if w = v then Same else Changed)"

subsection \<open>Loading\<close>

fun proxies_from :: "block list \<Rightarrow> nat \<Rightarrow> proxy list \<times> nat" where
  "proxies_from [] seq = ([], seq)"
| "proxies_from (b # bs) seq = (let (p, s1) = proxyFromBlock b seq; (ps, s2) = proxies_from bs s1 in (p # ps, s2))"

fun visitors_from :: "block list \<Rightarrow> nat \<Rightarrow> visitor list \<times> nat" where
  "visitors_from [] seq = ([], seq)"
| "visitors_from (b # bs) seq = (let (v, s1) = visitorFromBlock b seq; (vs, s2) = visitors_from bs s1 in (v # vs, s2))"

definition fixed_ip :: "jstr \<Rightarrow> jstr" where
  "fixed_ip a = (if a \<noteq> [] then unbracket (Some a) else a)"

definition fix_proxy :: "proxy \<Rightarrow> proxy" where
  "fix_proxy p = p\<lparr>p_localIP := fixed_ip (p_localIP p)\<rparr>"

definition fix_visitor :: "visitor \<Rightarrow> visitor" where
  "fix_visitor v = v\<lparr>v_bindAddr := fixed_ip (v_bindAddr v)\<rparr>"

text \<open>\<open>answer\<close> is the configuration file and whether it is that of a container; \<open>None\<close> a failed request.
  A file that cannot be read leaves empty lists, as a failed request does. \<open>discarded\<close> takes the fixed
  lists as the reference.\<close>

definition load_t :: "bool \<Rightarrow> (jstr \<times> bool) option \<Rightarrow> nat \<Rightarrow> tpage \<Rightarrow> tpage \<times> nat" where
  "load_t discarded answer seq S0 =
     (let S = S0\<lparr>tp_baseFix := False\<rparr>;
          failed = (\<lambda>T. T\<lparr>tp_proxies := [], tp_visitors := [], tp_snapshot := Some ([], [])\<rparr>)
      in case answer of None \<Rightarrow> (failed S, seq)
         | Some (content, docker) \<Rightarrow>
             (let S1 = S\<lparr>tp_baseText := content, tp_docker := docker\<rparr>
              in case parseToml content of None \<Rightarrow> (failed S1, seq)
                 | Some cfg \<Rightarrow>
                     (let (ps, s1) = proxies_from (o_proxies cfg) seq;
                          (vs, s2) = visitors_from (o_visitors cfg) s1;
                          base = stripBlocks content;
                          ps' = pairProxies (map fix_proxy ps); vs' = map fix_visitor vs
                      in (S1\<lparr>tp_serverAddr := (case map_of (o_vals cfg) (lit ''serverAddr'') of Some a \<Rightarrow> a | None \<Rightarrow> []),
                             tp_proxies := ps', tp_visitors := vs',
                             tp_baseFix := (\<not> discarded \<and> unbracketConnection base \<noteq> base),
                             tp_snapshot := Some (if discarded then (ps', vs') else (pairProxies ps, vs))\<rparr>, s2))))"

subsection \<open>Addresses shown and copied\<close>

text \<open>A port open without a number: frps picks one.\<close>

definition serverPicked :: "proxy \<Rightarrow> bool" where
  "serverPicked p \<longleftrightarrow> hasRemotePort (p_type p) \<and> p_remotePort p = []"

text \<open>\<open>tr\<close> gives the translated texts; \<open>live\<close> the address frps gave to a tunnel (empty: none known).\<close>

definition publicEndpoint :: "(string \<Rightarrow> jstr) \<Rightarrow> jstr \<Rightarrow> (jstr \<Rightarrow> jstr) \<Rightarrow> proxy \<Rightarrow> jstr" where
  "publicEndpoint tr serverAddr live p =
     (if hasRemotePort (p_type p) then
        (if p_remotePort p \<noteq> [] then joinHostPort (or_else serverAddr (tr ''tunnels.server'')) (p_remotePort p)
         else or_else (fixHostPort (live (p_name p))) (tr ''tunnels.randomPort''))
      else if hasDomains (p_type p) then or_else (p_domains p) (tr ''tunnels.noDomain'')
      else tr ''tunnels.privateOnly'')"

definition bare_port :: "jstr \<Rightarrow> bool" where
  "bare_port s \<longleftrightarrow> startsWith s [c_colon] \<and> all_digits (drop 1 s)"

definition publicCopyValue :: "jstr \<Rightarrow> (jstr \<Rightarrow> jstr) \<Rightarrow> proxy \<Rightarrow> jstr" where
  "publicCopyValue serverAddr live p =
     (if isRanged p then []
      else if hasRemotePort (p_type p) then
        (if p_remotePort p \<noteq> [] then (if serverAddr \<noteq> [] then joinHostPort serverAddr (p_remotePort p) else [])
         else if bare_port (live (p_name p))
         then (if serverAddr \<noteq> [] then joinHostPort serverAddr (drop 1 (live (p_name p))) else [])
         else fixHostPort (live (p_name p)))
      else if hasDomains (p_type p) \<and> p_domains p \<noteq> [] \<and> \<not> includesStr (p_domains p) [c_comma] then p_domains p
      else [])"

text \<open>Pieces of an address: text, a place where the line may break, and a part of the port.\<close>

datatype piece = Piece jstr | Break | Port_piece jstr

text \<open>\<open>s.split(/(?<=[...])/)\<close>: after every unit of the class but the last unit of the text.\<close>

fun split_after :: "(nat \<Rightarrow> bool) \<Rightarrow> (nat \<Rightarrow> bool) \<Rightarrow> jstr \<Rightarrow> jstr list" where
  "split_after P Q [] = [[]]"
| "split_after P Q [c] = [[c]]"
| "split_after P Q (c # d # s) =
     (if P c \<and> Q d then [c] # split_after P Q (d # s)
      else (case split_after P Q (d # s) of [] \<Rightarrow> [[c]] | p # ps \<Rightarrow> (c # p) # ps))"

fun with_breaks :: "(jstr \<Rightarrow> piece) \<Rightarrow> jstr list \<Rightarrow> piece list" where
  "with_breaks f [] = []"
| "with_breaks f [s] = [f s]"
| "with_breaks f (s # t # ss) = f s # Break # with_breaks f (t # ss)"

definition port_unit :: "nat \<Rightarrow> bool" where
  "port_unit c \<longleftrightarrow> is_digit c \<or> c = c_comma \<or> c = c_dash"

definition breakable :: "jstr \<Rightarrow> piece list" where
  "breakable s =
     (let port = rev (takeWhile (\<lambda>c. c \<noteq> c_colon) (rev s)); i = length s - length port - 1;
          has_port = (c_colon \<in> set s \<and> 0 < i \<and> port \<noteq> [] \<and> list_all port_unit port);
          host = (if has_port then take i s else s);
          parts = (if startsWith host [c_lb] \<or> includesStr host [c_colon]
                   then split_after (\<lambda>c. c = c_colon) (\<lambda>d. d \<noteq> c_colon) host
                   else if host \<noteq> [] \<and> list_all (\<lambda>c. is_digit c \<or> c = c_dot) host then [host]
                   else split_after (\<lambda>c. c = c_dot \<or> c = c_comma \<or> c = c_dash) (\<lambda>_. True) host)
      in with_breaks Piece parts
         @ (if has_port then Break # with_breaks Port_piece (split_after (\<lambda>c. c = c_comma) (\<lambda>_. True) (drop i s)) else []))"

subsection \<open>Tunnel editor\<close>

text \<open>The values of the controls when the form is submitted.\<close>

record proxy_form =
  fp_type :: jstr
  fp_name :: jstr
  fp_localIP :: jstr
  fp_localPort :: jstr
  fp_remotePort :: jstr
  fp_domains :: jstr
  fp_secret :: jstr
  fp_protocol :: jstr
  fp_encryption :: bool
  fp_compression :: bool

datatype ctl = C_name | C_localIP | C_localPort | C_remotePort | C_domains | C_serverName | C_bindPort | C_serverPorts

text \<open>The draft with the values of the form (\<open>Object.assign(draft, values, ...)\<close>).\<close>

definition edited_proxy :: "proxy \<Rightarrow> proxy_form \<Rightarrow> proxy" where
  "edited_proxy draft f = draft\<lparr>p_name := trim (fp_name f), p_localIP := unbracket (Some (trim (fp_localIP f))),
     p_localPort := no_ws (fp_localPort f), p_remotePort := no_ws (fp_remotePort f), p_type := fp_type f,
     p_domains := trim (fp_domains f), p_secretKey := fp_secret f, p_proxyProtocol := fp_protocol f,
     p_encryption := fp_encryption f, p_compression := fp_compression f\<rparr>"

definition others_p :: "proxy list \<Rightarrow> proxy \<Rightarrow> proxy list" where
  "others_p ps draft = filter (\<lambda>p. p_uid p \<noteq> p_uid draft) ps"

definition taken_names :: "proxy list \<Rightarrow> jstr list" where
  "taken_names ps = map p_name ps @ concat (map frpcNames ps)"

definition name_clash :: "proxy list \<Rightarrow> proxy \<Rightarrow> jstr option" where
  "name_clash others new = find (\<lambda>n. n \<in> set (taken_names others)) (p_name new # frpcNames new)"

definition name_error :: "proxy option \<Rightarrow> proxy list \<Rightarrow> proxy \<Rightarrow> vmsg option" where
  "name_error existing others new =
     (if p_name new = [] then Some VRequired
      else if (case existing of Some e \<Rightarrow> p_name new \<noteq> p_name e | None \<Rightarrow> True) \<and> \<not> tunnelNameOk (p_name new)
      then Some VNameFormat
      else (case name_clash others new of None \<Rightarrow> None
        | Some n \<Rightarrow> if n = p_name new then Some VNameTaken else if n \<noteq> [] then Some (VNameClash n) else None))"

text \<open>The errors, control by control, and the page once there is none.\<close>

definition proxy_errors :: "proxy option \<Rightarrow> proxy list \<Rightarrow> proxy \<Rightarrow> proxy_form \<Rightarrow> (ctl \<times> vmsg option) list" where
  "proxy_errors existing others new f =
     (let kind = kind_of_type (p_type new); ports = portErrors kind (p_localPort new) (p_remotePort new)
      in [(C_name, name_error existing others new),
          (C_localIP, if p_localIP new = [] then Some VRequired else None),
          (C_localPort, fst ports),
          (C_remotePort, if p_type new = TCP_UDP \<and> p_remotePort new = [] then Some VBothRemote else snd ports),
          (C_domains, domainError kind (ranged_at kind (p_localPort new) (p_remotePort new)) (fp_domains f))])"

definition submit_proxy :: "proxy option \<Rightarrow> proxy_form \<Rightarrow> nat \<Rightarrow> tpage \<Rightarrow> (ctl \<times> vmsg) list + tpage \<times> nat" where
  "submit_proxy existing f seq S =
     (let (draft, seq') = (case existing of Some e \<Rightarrow> (e, seq) | None \<Rightarrow> newProxy seq);
          new = edited_proxy draft f;
          errs = proxy_errors existing (others_p (tp_proxies S) draft) new f
      in if list_ex (\<lambda>e. snd e \<noteq> None) errs then Inl (map (\<lambda>(c, e). (c, the e)) (filter (\<lambda>e. snd e \<noteq> None) errs))
         else Inr (S\<lparr>tp_proxies := (case existing of
                  Some _ \<Rightarrow> map (\<lambda>p. if p_uid p = p_uid draft then new else p) (tp_proxies S)
                | None \<Rightarrow> tp_proxies S @ [new])\<rparr>, seq'))"

definition removeProxy :: "proxy \<Rightarrow> tpage \<Rightarrow> tpage" where
  "removeProxy p S = S\<lparr>tp_proxies := filter (\<lambda>x. p_uid x \<noteq> p_uid p) (tp_proxies S)\<rparr>"

subsection \<open>Visitor editor\<close>

record visitor_form =
  fv_type :: jstr
  fv_name :: jstr
  fv_serverName :: jstr
  fv_secret :: jstr
  fv_bindAddr :: jstr
  fv_bindPort :: jstr
  fv_serverPorts :: jstr

definition edited_visitor :: "visitor \<Rightarrow> visitor_form \<Rightarrow> visitor" where
  "edited_visitor draft f =
     (let bp = no_ws (fv_bindPort f); sp = (if isPortRange bp then no_ws (fv_serverPorts f) else [])
      in draft\<lparr>v_name := trim (fv_name f), v_type := fv_type f, v_serverName := trim (fv_serverName f),
           v_secretKey := fv_secret f, v_bindAddr := unbracket (Some (trim (fv_bindAddr f))), v_bindPort := bp,
           v_serverPorts := (if sp = bp then [] else sp)\<rparr>)"

definition visitor_taken :: "visitor list \<Rightarrow> jstr list" where
  "visitor_taken vs = concat (map (\<lambda>v. v_name v # visitorNames v) vs)"

definition visitor_name_error :: "visitor list \<Rightarrow> visitor \<Rightarrow> vmsg option" where
  "visitor_name_error others new =
     (if v_name new = [] then Some VRequired
      else (case find (\<lambda>n. n \<in> set (visitor_taken others)) (v_name new # visitorNames new) of None \<Rightarrow> None
        | Some n \<Rightarrow> if n = v_name new then Some VNameTaken else if n \<noteq> [] then Some (VVisitorNameClash n) else None))"

definition visitor_errors :: "visitor list \<Rightarrow> visitor \<Rightarrow> visitor_form \<Rightarrow> (ctl \<times> vmsg option) list" where
  "visitor_errors others new f =
     (let bp = v_bindPort new; ranged = isPortRange bp; sp = (if ranged then no_ws (fv_serverPorts f) else []);
          nb = (if ranged then portSpecCount bp else 0); ns = (if sp \<noteq> [] then portSpecCount sp else nb)
      in [(C_name, visitor_name_error others new),
          (C_serverName, if v_serverName new = [] then Some VRequired else None),
          (C_bindPort, if \<not> ranged then (if validPort bp then None else Some VPort)
             else if nb = 0 then Some VPortSpec
             else if nb > int MAX_RANGE_PORTS then Some (VRangeTooBig MAX_RANGE_PORTS) else None),
          (C_serverPorts, if \<not> ranged \<or> sp = [] then None else if ns = 0 then Some VPortSpec
             else if nb \<noteq> 0 \<and> ns \<noteq> nb then Some (VRangeCountVisitor nb ns) else None)])"

definition submit_visitor :: "visitor option \<Rightarrow> visitor_form \<Rightarrow> nat \<Rightarrow> tpage \<Rightarrow> (ctl \<times> vmsg) list + tpage \<times> nat" where
  "submit_visitor existing f seq S =
     (let (draft, seq') = (case existing of Some e \<Rightarrow> (e, seq) | None \<Rightarrow> newVisitor seq);
          new = edited_visitor draft f;
          errs = visitor_errors (filter (\<lambda>v. v_uid v \<noteq> v_uid draft) (tp_visitors S)) new f
      in if list_ex (\<lambda>e. snd e \<noteq> None) errs then Inl (map (\<lambda>(c, e). (c, the e)) (filter (\<lambda>e. snd e \<noteq> None) errs))
         else Inr (S\<lparr>tp_visitors := (case existing of
                  Some _ \<Rightarrow> map (\<lambda>v. if v_uid v = v_uid draft then new else v) (tp_visitors S)
                | None \<Rightarrow> tp_visitors S @ [new])\<rparr>, seq'))"

definition removeVisitor :: "visitor \<Rightarrow> tpage \<Rightarrow> tpage" where
  "removeVisitor v S = S\<lparr>tp_visitors := filter (\<lambda>x. v_uid x \<noteq> v_uid v) (tp_visitors S)\<rparr>"

subsection \<open>Saving\<close>

text \<open>The content posted: the file read again at the last moment, the one loaded when that failed.\<close>

definition save_text :: "jstr option \<Rightarrow> tpage \<Rightarrow> jstr option" where
  "save_text current S = composeClientConfig (case current of Some c \<Rightarrow> c | None \<Rightarrow> tp_baseText S)
     (tp_proxies S) (tp_visitors S)"

text \<open>The page once the server has accepted the content.\<close>

definition saved_t :: "jstr \<Rightarrow> tpage \<Rightarrow> tpage" where
  "saved_t content S = S\<lparr>tp_baseText := content, tp_snapshot := Some (tp_proxies S, tp_visitors S)\<rparr>"

end
