(* ===== verification/Page_Tunnels_Pairs.thy ===== *)
theory Page_Tunnels_Pairs imports Page_Tunnels "HOL-Library.Multiset" "HOL-Library.Code_Target_Nat" begin

text \<open>
  TCP + UDP pairs: opening a configuration groups tunnels into one entry, saving writes the two tunnels of
  an entry; together they keep every tunnel.
\<close>

subsection \<open>Mates\<close>

text \<open>What \<open>mates\<close> holds: it is symmetric, and two mates are a tcp and an udp tunnel of one entry.\<close>

definition mate_pair :: "proxy list \<Rightarrow> nat \<Rightarrow> nat \<Rightarrow> bool" where
  "mate_pair ps i j \<longleftrightarrow> i < length ps \<and> j < length ps \<and> p_type (ps ! j) = t_udp \<and> same_rest (ps ! j) (ps ! i)
     \<and> (\<exists>base. tcp_base (ps ! i) = Some base \<and> p_name (ps ! j) = base @ lit ''-udp'')"

definition mates_ok :: "proxy list \<Rightarrow> (nat \<times> nat) list \<Rightarrow> bool" where
  "mates_ok ps m \<longleftrightarrow> (\<forall>i j. map_of m i = Some j \<longrightarrow> map_of m j = Some i \<and> (mate_pair ps i j \<or> mate_pair ps j i))"

lemma mates_okD: "mates_ok ps m \<Longrightarrow> map_of m i = Some j \<Longrightarrow>
  map_of m j = Some i \<and> (mate_pair ps i j \<or> mate_pair ps j i)"
  unfolding mates_ok_def by blast

lemma tcp_not_udp [simp]: "t_tcp \<noteq> t_udp" "t_udp \<noteq> t_tcp" "TCP_UDP \<noteq> t_tcp" "TCP_UDP \<noteq> t_udp"
  "t_tcp \<noteq> TCP_UDP" "t_udp \<noteq> TCP_UDP"
  by (simp_all add: t_tcp_def t_udp_def TCP_UDP_def lit_simps)

lemma tcp_base_type: "tcp_base p = Some b \<Longrightarrow> p_type p = t_tcp"
  by (auto simp: tcp_base_def Let_def split: if_splits)

lemma tcp_base_name: "tcp_base p = Some b \<Longrightarrow> p_name p = b @ lit ''-tcp''"
proof -
  assume a: "tcp_base p = Some b"
  then have b: "b = take (length (p_name p) - 4) (p_name p)" and e: "endsWith (p_name p) (lit ''-tcp'')"
    by (auto simp: tcp_base_def Let_def split: if_splits)
  from e obtain r where "rev (p_name p) = rev (lit ''-tcp'') @ r" by (auto simp: endsWith_def startsWith_iff)
  then have "p_name p = rev r @ lit ''-tcp''" by (metis rev_append rev_rev_ident)
  with b show ?thesis by simp
qed

lemma mate_pair_neq: "mate_pair ps i j \<Longrightarrow> i \<noteq> j"
  by (auto simp: mate_pair_def dest!: tcp_base_type)

lemma mate_pair_bound: "mate_pair ps i j \<or> mate_pair ps j i \<Longrightarrow> j < length ps"
  by (auto simp: mate_pair_def)

lemma mate_pair_types: "mate_pair ps i j \<Longrightarrow> p_type (ps ! i) = t_tcp" "mate_pair ps i j \<Longrightarrow> p_type (ps ! j) = t_udp"
  by (auto simp: mate_pair_def dest!: tcp_base_type)

lemma mates_step_ok: "mates_ok ps m \<Longrightarrow> i < length ps \<Longrightarrow> mates_ok ps (mates_step ps i m)"
proof (cases "\<exists>base j. tcp_base (ps ! i) = Some base \<and> map_of m i = None \<and> mate_at ps m (ps ! i) base = Some j")
  case True
  assume ok: "mates_ok ps m" and i: "i < length ps"
  from True obtain base j where t: "tcp_base (ps ! i) = Some base" "map_of m i = None"
    and j: "mate_at ps m (ps ! i) base = Some j" by auto
  from j have "map_of m j = None" "j < length ps" "p_type (ps ! j) = t_udp" "p_name (ps ! j) = base @ lit ''-udp''"
    "same_rest (ps ! j) (ps ! i)" by (auto simp: mate_at_def find_Some_iff)
  then have mp: "mate_pair ps i j" and nj: "map_of m j = None" using t i by (auto simp: mate_pair_def)
  have step: "mates_step ps i m = (i, j) # (j, i) # m" using t j by (simp add: mates_step_def)
  have free: "x \<noteq> i" "x \<noteq> j" if "map_of m x = Some y" for x y using that t nj by auto
  have free2: "y \<noteq> i" "y \<noteq> j" if "map_of m x = Some y" for x y
    using that ok t nj unfolding mates_ok_def by (metis option.distinct(1))+
  show ?thesis
    unfolding step mates_ok_def
  proof (intro allI impI)
    fix x y assume xy: "map_of ((i, j) # (j, i) # m) x = Some y"
    have "x = i \<and> y = j \<or> x \<noteq> i \<and> x = j \<and> y = i \<or> x \<noteq> i \<and> x \<noteq> j \<and> map_of m x = Some y"
      using xy by (simp split: if_splits)
    then consider "x = i" "y = j" | "x = j" "y = i" "x \<noteq> i" | "map_of m x = Some y" "x \<noteq> i" "x \<noteq> j" by blast
    then show "map_of ((i, j) # (j, i) # m) y = Some x \<and> (mate_pair ps x y \<or> mate_pair ps y x)"
    proof cases
      case 1 with mp mate_pair_neq [OF mp] show ?thesis by auto
    next
      case 2 with mp show ?thesis by auto
    next
      case 3
      then show ?thesis using mates_okD [OF ok 3(1)] free2 [OF 3(1)] by simp
    qed
  qed
qed (auto simp: mates_step_def split: option.splits)

lemma mates_of_ok: "mates_ok ps (mates_of ps)"
proof -
  have run: "mates_ok ps (fold (mates_step ps) ks m)" if "mates_ok ps m" "\<forall>i\<in>set ks. i < length ps" for ks m
    using that by (induction ks arbitrary: m) (auto simp: mates_step_ok)
  show ?thesis unfolding mates_of_def by (rule run) (simp_all add: mates_ok_def)
qed

subsection \<open>Every tunnel is kept\<close>

text \<open>What a tunnel is once written: everything but its number on the page.\<close>

definition tunnel_of :: "proxy \<Rightarrow> proxy" where
  "tunnel_of p = p\<lparr>p_uid := 0\<rparr>"

definition written_tunnels :: "proxy list \<Rightarrow> proxy list" where
  "written_tunnels ps = map tunnel_of (concat (map splitPair ps))"

lemma written_Cons:
  "mset (written_tunnels (p # ps)) = mset (written_tunnels [p]) + mset (written_tunnels ps)"
  by (simp add: written_tunnels_def)

text \<open>A tunnel read from a file: no comments for an udp mate, and its own notes.\<close>

definition as_read :: "proxy \<Rightarrow> bool" where
  "as_read p \<longleftrightarrow> p_udpComments p = None \<and> p_udpNotes p = None \<and> p_notes p \<noteq> None"

lemma join_pair_written:
  assumes "mate_pair ps i j" "as_read (ps ! i)" "as_read (ps ! j)"
  shows "written_tunnels [join_pair (ps ! i) (ps ! j)] = written_tunnels [ps ! i] @ written_tunnels [ps ! j]"
proof -
  obtain base where "p_name (ps ! i) = base @ lit ''-tcp''" "p_name (ps ! j) = base @ lit ''-udp''"
    "p_type (ps ! i) = t_tcp" "p_type (ps ! j) = t_udp" "same_rest (ps ! j) (ps ! i)"
    using assms(1) tcp_base_name tcp_base_type unfolding mate_pair_def by blast
  then show ?thesis using assms(2,3)
    by (cases "ps ! i"; cases "ps ! j")
      (auto simp: written_tunnels_def splitPair_def join_pair_def tunnel_of_def as_read_def same_rest_def Let_def)
qed

lemma pair_out_written:
  assumes ok: "mates_ok ps m" and read: "\<forall>p\<in>set ps. as_read p"
  shows "distinct ks \<Longrightarrow> \<forall>i\<in>set ks. i < length ps \<Longrightarrow>
     (\<And>i j. i \<in> set ks - set don \<Longrightarrow> map_of m i = Some j \<Longrightarrow> j \<in> set ks - set don) \<Longrightarrow>
     mset (written_tunnels (pair_out ps m don ks)) = (\<Sum>k\<in>set ks - set don. mset (written_tunnels [ps ! k]))"
proof (induction ks arbitrary: don)
  case Nil
  then show ?case by (simp add: written_tunnels_def)
next
  case (Cons i ks)
  have i: "i < length ps" "i \<notin> set ks" and ks: "distinct ks" "\<forall>i\<in>set ks. i < length ps" using Cons.prems by auto
  have closed: "l \<in> insert i (set ks) - set don" if "k \<in> insert i (set ks) - set don" "map_of m k = Some l" for k l
    using Cons.prems(3) [of k l] that by simp
  consider "i \<in> set don" | "i \<notin> set don" "map_of m i = None" | j where "i \<notin> set don" "map_of m i = Some j" by blast
  then show ?case
  proof cases
    case 1
    then have "insert i (set ks) - set don = set ks - set don" by blast
    with closed have "l \<in> set ks - set don" if "k \<in> set ks - set don" "map_of m k = Some l" for k l using that by blast
    from Cons.IH [OF ks this] 1 show ?thesis by (simp add: insert_Diff_if)
  next
    case 2
    have "l \<noteq> i" if "map_of m k = Some l" for k l using mates_okD [OF ok that] 2 by auto
    with closed have inner: "l \<in> set ks - set don" if "k \<in> set ks - set don" "map_of m k = Some l" for k l using that by blast
    have split: "set (i # ks) - set don = insert i (set ks - set don)" using 2 by auto
    have "mset (written_tunnels (pair_out ps m don (i # ks))) =
        mset (written_tunnels [ps ! i]) + mset (written_tunnels (pair_out ps m don ks))"
      using 2 by (simp add: written_Cons [of "ps ! i" "pair_out ps m don ks"])
    then show ?thesis unfolding split using i Cons.IH [OF ks inner] by simp
  next
    case (3 j)
    note ji = mates_okD [OF ok 3(2)]
    have neq: "j \<noteq> i" using ji mate_pair_neq by blast
    have jin: "j \<in> set ks - set don" using closed [of i j] 3 neq by blast
    have other: "l \<noteq> j \<and> l \<noteq> i" if "map_of m k = Some l" "k \<noteq> i" "k \<noteq> j" for k l
      using mates_okD [OF ok that(1)] ji 3(2) that(2,3) by auto
    have inner: "l \<in> set ks - set (j # don)"
      if "k \<in> set ks - set (j # don)" "map_of m k = Some l" for k l
    proof -
      from that have k: "k \<noteq> i" "k \<noteq> j" "k \<in> insert i (set ks) - set don" using i by auto
      show ?thesis using closed [OF k(3) that(2)] other [OF that(2) k(1,2)] by simp
    qed
    have IH: "mset (written_tunnels (pair_out ps m (j # don) ks))
        = (\<Sum>k\<in>set ks - set (j # don). mset (written_tunnels [ps ! k]))"
      by (rule Cons.IH [OF ks inner])
    have split: "set (i # ks) - set don = insert i (insert j (set ks - set (j # don)))" using 3 jin by auto
    have read: "as_read (ps ! i)" "as_read (ps ! j)" using read i jin ks by auto
    have "(if p_type (ps ! i) = t_tcp then join_pair (ps ! i) (ps ! j) else join_pair (ps ! j) (ps ! i)) = q \<Longrightarrow>
        mset (written_tunnels [q]) = mset (written_tunnels [ps ! i]) + mset (written_tunnels [ps ! j])" for q
      using ji read join_pair_written mate_pair_types by (auto simp: join_pair_written)
    then have "mset (written_tunnels (pair_out ps m don (i # ks))) =
        mset (written_tunnels [ps ! i]) + mset (written_tunnels [ps ! j]) + mset (written_tunnels (pair_out ps m (j # don) ks))"
      using 3 by (simp add: written_Cons [of _ "pair_out ps m (j # don) ks"])
    then show ?thesis unfolding split using IH neq i by (simp add: add.assoc)
  qed
qed

lemma written_nth: "mset (written_tunnels ps) = (\<Sum>k\<in>{..<length ps}. mset (written_tunnels [ps ! k]))"
proof (induction ps rule: rev_induct)
  case Nil
  then show ?case by (simp add: written_tunnels_def)
next
  case (snoc p ps)
  have "(\<Sum>k<length ps. mset (written_tunnels [(ps @ [p]) ! k])) = (\<Sum>k<length ps. mset (written_tunnels [ps ! k]))"
    by (rule sum.cong) (auto simp: nth_append)
  with snoc show ?case by (simp add: written_tunnels_def)
qed

lemma pairing_keeps_tunnels_all:
  "\<forall>p\<in>set ps. as_read p \<Longrightarrow> mset (written_tunnels (pairProxies ps)) = mset (written_tunnels ps)"
proof -
  assume a: "\<forall>p\<in>set ps. as_read p"
  have "j < length ps" if "map_of (mates_of ps) i = Some j" for i j
    using mates_okD [OF mates_of_ok that] mate_pair_bound by blast
  then have "mset (written_tunnels (pairProxies ps)) = (\<Sum>k\<in>set [0..<length ps] - set []. mset (written_tunnels [ps ! k]))"
    unfolding pairProxies_def by (intro pair_out_written [OF mates_of_ok a]) simp_all
  then show ?thesis by (simp add: written_nth [of ps] atLeast0LessThan)
qed

lemma proxies_from_read: "\<forall>p\<in>set (fst (proxies_from bs seq)). as_read p"
  by (induction bs arbitrary: seq)
    (auto simp: proxyFromBlock_def as_read_def Let_def split: prod.splits dest: prod.inject [THEN iffD1] fstI)

lemma fix_proxies_read: "\<forall>p\<in>set ps. as_read p \<Longrightarrow> \<forall>p\<in>set (map fix_proxy ps). as_read p"
  by (auto simp: as_read_def fix_proxy_def)

lemma load_keeps_tunnels:
  assumes "load_t discarded (Some (content, docker)) seq S0 = (S, seq')" "parseToml content = Some cfg"
  shows "mset (written_tunnels (tp_proxies S))
    = mset (written_tunnels (map fix_proxy (fst (proxies_from (o_proxies cfg) seq))))"
proof -
  obtain ps s1 where ps: "proxies_from (o_proxies cfg) seq = (ps, s1)" by fastforce
  have "tp_proxies S = pairProxies (map fix_proxy ps)"
    using assms ps by (auto simp: load_t_def Let_def split: prod.splits)
  moreover have "\<forall>p\<in>set ps. as_read p" using proxies_from_read [of "o_proxies cfg" seq] ps by simp
  ultimately show ?thesis by (simp add: ps pairing_keeps_tunnels_all fix_proxies_read)
qed

subsection \<open>Properties\<close>

text \<open>C22. Opening the tunnels page never loses, adds or changes a tunnel: the entries of the draft, each
  TCP + UDP entry split again into its two tunnels, are the tunnels read from the file (with the brackets of
  their addresses removed), as multisets, their comments and notes included.\<close>

theorem opening_keeps_tunnels:
  assumes "load_t discarded (Some (content, docker)) seq S0 = (S, seq')" "parseToml content = Some cfg"
  shows "mset (written_tunnels (tp_proxies S))
    = mset (written_tunnels (map fix_proxy (fst (proxies_from (o_proxies cfg) seq))))"
  by (rule load_keeps_tunnels [OF assms])

definition pair_file :: jstr where
  \<open>pair_file = join [c_nl] (map lit [''[[proxies]]'', ''name="a-udp"'', ''type="udp"'', ''remotePort=9'',
     ''[[proxies]]'', ''name="a-tcp"'', ''remotePort=9''])\<close>

definition empty_tpage :: tpage where
  "empty_tpage = \<lparr>tp_baseText = [], tp_serverAddr = [], tp_baseFix = False, tp_docker = False, tp_proxies = [],
     tp_visitors = [], tp_snapshot = None\<rparr>"

theorem opening_keeps_tunnels_witness:
  "mset (written_tunnels (tp_proxies (fst (load_t False (Some (pair_file, False)) 0 empty_tpage))))
    = mset (written_tunnels (map fix_proxy (fst (proxies_from (o_proxies (the (parseToml pair_file))) 0))))"
proof (rule opening_keeps_tunnels)
  show "load_t False (Some (pair_file, False)) 0 empty_tpage
    = (fst (load_t False (Some (pair_file, False)) 0 empty_tpage), snd (load_t False (Some (pair_file, False)) 0 empty_tpage))"
    by simp
  have "parseToml pair_file \<noteq> None" by code_simp
  then show "parseToml pair_file = Some (the (parseToml pair_file))" by simp
qed

end
