(* ===== verification/Page_Tunnels_Checks.thy ===== *)
theory Page_Tunnels_Checks imports Page_Tunnels "HOL-Library.Code_Target_Nat" begin

text \<open>
  What the two editors of the tunnels page accept: names that never meet those of another entry, and ports
  and domains frpc can use; and the pieces of a shown address.
\<close>

subsection \<open>Names\<close>

definition names_of :: "proxy \<Rightarrow> jstr list" where
  "names_of p = p_name p # frpcNames p"

definition visitor_names_of :: "visitor \<Rightarrow> jstr list" where
  "visitor_names_of v = v_name v # visitorNames v"

text \<open>A draft list: its numbers are used once and drawn from the counter, its names meet no others.\<close>

definition draft_ok :: "nat \<Rightarrow> ('a \<Rightarrow> nat) \<Rightarrow> ('a \<Rightarrow> jstr list) \<Rightarrow> 'a list \<Rightarrow> bool" where
  "draft_ok seq uid names xs \<longleftrightarrow> distinct (map uid xs) \<and> (\<forall>x\<in>set xs. uid x \<le> seq)
     \<and> (\<forall>x\<in>set xs. \<forall>y\<in>set xs. uid x \<noteq> uid y \<longrightarrow> set (names x) \<inter> set (names y) = {})"

lemma draft_ok_filter: "draft_ok seq uid names xs \<Longrightarrow> draft_ok seq uid names (filter P xs)"
  unfolding draft_ok_def by (simp add: distinct_map_filter)

lemma draft_ok_mono: "draft_ok seq uid names xs \<Longrightarrow> seq \<le> seq' \<Longrightarrow> draft_ok seq' uid names xs"
  unfolding draft_ok_def by (meson le_trans)

lemma draft_ok_replace:
  assumes "draft_ok seq uid names xs" "uid new = u" "u \<in> uid ` set xs"
    and free: "\<forall>x\<in>set xs. uid x \<noteq> u \<longrightarrow> set (names new) \<inter> set (names x) = {}"
  shows "draft_ok seq uid names (map (\<lambda>x. if uid x = u then new else x) xs)"
proof -
  let ?ys = "map (\<lambda>x. if uid x = u then new else x) xs"
  have u: "map uid ?ys = map uid xs" using assms(2) by auto
  have el: "y = new \<or> y \<in> set xs \<and> uid y \<noteq> u" if "y \<in> set ?ys" for y using that by auto
  have "distinct (map uid ?ys)" unfolding u using assms(1) by (simp add: draft_ok_def)
  moreover have "\<forall>y\<in>set ?ys. uid y \<le> seq" using assms(1-3) by (auto simp: draft_ok_def)
  moreover have "set (names x) \<inter> set (names y) = {}" if "x \<in> set ?ys" "y \<in> set ?ys" "uid x \<noteq> uid y" for x y
    using el [OF that(1)] el [OF that(2)] that(3) free assms(1,2) unfolding draft_ok_def by blast
  ultimately show ?thesis unfolding draft_ok_def by blast
qed

lemma draft_ok_add:
  assumes "draft_ok seq uid names xs" "uid new = seq + 1"
    and free: "\<forall>x\<in>set xs. uid x \<noteq> seq + 1 \<longrightarrow> set (names new) \<inter> set (names x) = {}"
  shows "draft_ok (seq + 1) uid names (xs @ [new])"
proof -
  have new: "uid x \<noteq> seq + 1 \<and> uid x \<le> seq + 1" if "x \<in> set xs" for x using that assms(1) unfolding draft_ok_def by fastforce
  then have "distinct (map uid (xs @ [new]))" using assms(1,2) unfolding draft_ok_def by auto
  moreover have "set (names x) \<inter> set (names y) = {}" if "x \<in> set (xs @ [new])" "y \<in> set (xs @ [new])" "uid x \<noteq> uid y" for x y
  proof -
    from that consider "x \<in> set xs" "y \<in> set xs" | "x = new" "y \<in> set xs" | "x \<in> set xs" "y = new" by auto
    then show ?thesis
    proof cases
      case 1 then show ?thesis using assms(1) that(3) unfolding draft_ok_def by blast
    next
      case 2 then show ?thesis using free new by blast
    next
      case 3 then show ?thesis using free new by blast
    qed
  qed
  ultimately show ?thesis using new assms(2) unfolding draft_ok_def by auto
qed

lemma find_None_disjoint: "find (\<lambda>n. n \<in> T) xs = None \<longleftrightarrow> set xs \<inter> T = {}"
  by (induction xs) auto

lemma find_Some_in: "find P xs = Some x \<Longrightarrow> x \<in> set xs"
  by (induction xs) (auto split: if_splits)

lemma range_names_nonempty: "[] \<notin> set names \<Longrightarrow> [] \<notin> set (range_names base names ps)"
proof (induction ps arbitrary: names)
  case (Cons p ps)
  have "[] \<notin> set (names @ take n (map (\<lambda>port. base @ [c_dash] @ num_text port) (part_ports p)))" for n
    using Cons.prems by (auto dest: in_set_takeD)
  then show ?case using Cons.IH by simp
qed simp

lemma rangeNames_nonempty [simp]: "[] \<notin> set (rangeNames base spec)"
  by (simp add: rangeNames_def range_names_nonempty)

lemma own_names_nonempty: "p_name p \<noteq> [] \<Longrightarrow> [] \<notin> set (own_names p)"
  by (simp add: own_names_def)

lemma frpcNames_nonempty: "p_name p \<noteq> [] \<Longrightarrow> [] \<notin> set (frpcNames p)"
  by (auto simp: frpcNames_def splitPair_def own_names_nonempty Let_def)

lemma visitorNames_nonempty: "v_name v \<noteq> [] \<Longrightarrow> [] \<notin> set (visitorNames v)"
  by (simp add: visitorNames_def)

text \<open>The shape both name checks share: required, then the first name taken by another entry.\<close>

lemma first_clash_free:
  assumes "(case find (\<lambda>n. n \<in> T) (name # names) of None \<Rightarrow> None
      | Some n \<Rightarrow> if n = name then Some taken else if n \<noteq> [] then Some (clash n) else None) = None"
    and "name \<noteq> []" "[] \<notin> set names"
  shows "set (name # names) \<inter> T = {}"
proof (cases "find (\<lambda>n. n \<in> T) (name # names)")
  case None
  then show ?thesis by (simp only: find_None_disjoint)
next
  case (Some x)
  have "x \<in> set (name # names)" by (rule find_Some_in [OF Some])
  then have "x \<noteq> []" using assms(2,3) by auto
  with assms(1) Some show ?thesis by (simp split: if_splits)
qed

lemma taken_names_set: "set (taken_names ps) = (\<Union>p\<in>set ps. set (names_of p))"
  by (auto simp: taken_names_def names_of_def)

lemma name_error_free:
  assumes "name_error e others new = None"
  shows "p_name new \<noteq> []" "\<forall>p\<in>set others. set (names_of new) \<inter> set (names_of p) = {}"
proof -
  show n: "p_name new \<noteq> []" using assms by (auto simp: name_error_def)
  have "(case find (\<lambda>n. n \<in> set (taken_names others)) (p_name new # frpcNames new) of None \<Rightarrow> None
      | Some n \<Rightarrow> if n = p_name new then Some VNameTaken else if n \<noteq> [] then Some (VNameClash n) else None) = None"
    using assms n unfolding name_error_def name_clash_def by (simp only: if_False option.distinct split: if_splits)
  from first_clash_free [OF this n frpcNames_nonempty [OF n]]
  show "\<forall>p\<in>set others. set (names_of new) \<inter> set (names_of p) = {}"
    unfolding taken_names_set names_of_def [of new] by blast
qed

lemma visitor_name_error_free:
  assumes "visitor_name_error others new = None"
  shows "v_name new \<noteq> []" "\<forall>v\<in>set others. set (visitor_names_of new) \<inter> set (visitor_names_of v) = {}"
proof -
  show n: "v_name new \<noteq> []" using assms by (auto simp: visitor_name_error_def)
  have "(case find (\<lambda>n. n \<in> set (visitor_taken others)) (v_name new # visitorNames new) of None \<Rightarrow> None
      | Some n \<Rightarrow> if n = v_name new then Some VNameTaken else if n \<noteq> [] then Some (VVisitorNameClash n) else None) = None"
    using assms n unfolding visitor_name_error_def by (simp only: if_False split: if_splits)
  from first_clash_free [OF this n visitorNames_nonempty [OF n]]
  show "\<forall>v\<in>set others. set (visitor_names_of new) \<inter> set (visitor_names_of v) = {}"
    by (auto simp: visitor_taken_def visitor_names_of_def)
qed

subsection \<open>The draft under editing\<close>

text \<open>What the user does to the draft: submit an editor, delete an entry; an editor is opened on an entry
  of the list or on none.\<close>

inductive draft_step :: "tpage \<times> nat \<Rightarrow> tpage \<times> nat \<Rightarrow> bool" where
  tunnel: "submit_proxy e f seq S = Inr (S', seq') \<Longrightarrow> (\<And>p. e = Some p \<Longrightarrow> p \<in> set (tp_proxies S))
     \<Longrightarrow> draft_step (S, seq) (S', seq')"
| visitor: "submit_visitor e' f' seq S = Inr (S', seq') \<Longrightarrow> (\<And>v. e' = Some v \<Longrightarrow> v \<in> set (tp_visitors S))
     \<Longrightarrow> draft_step (S, seq) (S', seq')"
| no_tunnel: "draft_step (S, seq) (removeProxy p S, seq)"
| no_visitor: "draft_step (S, seq) (removeVisitor v S, seq)"
| save: "save_text current S = Some content \<Longrightarrow> draft_step (S, seq) (saved_t content S, seq)"

inductive_cases draft_stepE: "draft_step a b"

definition names_disjoint :: "tpage \<times> nat \<Rightarrow> bool" where
  "names_disjoint c = (case c of (S, seq) \<Rightarrow> draft_ok seq p_uid names_of (tp_proxies S)
     \<and> draft_ok seq v_uid visitor_names_of (tp_visitors S))"

lemma edited_uid [simp]: "p_uid (edited_proxy d f) = p_uid d" "v_uid (edited_visitor d' f') = v_uid d'"
  by (simp_all add: edited_proxy_def edited_visitor_def Let_def)

lemma submit_proxy_free:
  assumes "submit_proxy e f seq S = Inr r"
  defines "draft \<equiv> (case e of Some p \<Rightarrow> p | None \<Rightarrow> fst (newProxy seq))"
  shows "r = (S\<lparr>tp_proxies := (case e of
             Some _ \<Rightarrow> map (\<lambda>p. if p_uid p = p_uid draft then edited_proxy draft f else p) (tp_proxies S)
           | None \<Rightarrow> tp_proxies S @ [edited_proxy draft f])\<rparr>, case e of Some _ \<Rightarrow> seq | None \<Rightarrow> seq + 1)"
    and "proxy_errors e (others_p (tp_proxies S) draft) (edited_proxy draft f) f = errs \<Longrightarrow> \<forall>x\<in>set errs. snd x = None"
  using assms
  by (auto simp: submit_proxy_def newProxy_def Let_def list_ex_iff split: option.splits if_splits prod.splits)

lemma submit_visitor_free:
  assumes "submit_visitor e f seq S = Inr r"
  defines "draft \<equiv> (case e of Some v \<Rightarrow> v | None \<Rightarrow> fst (newVisitor seq))"
  shows "r = (S\<lparr>tp_visitors := (case e of
             Some _ \<Rightarrow> map (\<lambda>v. if v_uid v = v_uid draft then edited_visitor draft f else v) (tp_visitors S)
           | None \<Rightarrow> tp_visitors S @ [edited_visitor draft f])\<rparr>, case e of Some _ \<Rightarrow> seq | None \<Rightarrow> seq + 1)"
    and "visitor_errors (filter (\<lambda>v. v_uid v \<noteq> v_uid draft) (tp_visitors S)) (edited_visitor draft f) f = errs
      \<Longrightarrow> \<forall>x\<in>set errs. snd x = None"
  using assms
  by (auto simp: submit_visitor_def newVisitor_def Let_def list_ex_iff split: option.splits if_splits prod.splits)

lemma draft_step_names: "draft_step c c' \<Longrightarrow> names_disjoint c \<Longrightarrow> names_disjoint c'"
proof (induction rule: draft_step.induct)
  case (tunnel e f seq S S' seq')
  define draft where "draft = (case e of Some p \<Rightarrow> p | None \<Rightarrow> fst (newProxy seq))"
  let ?new = "edited_proxy draft f"
  note free = submit_proxy_free [OF tunnel(1), folded draft_def]
  have "name_error e (others_p (tp_proxies S) draft) ?new = None"
    using free(2) [OF refl] by (simp add: proxy_errors_def Let_def)
  from name_error_free(2) [OF this]
  have disj: "\<forall>x\<in>set (tp_proxies S). p_uid x \<noteq> p_uid draft \<longrightarrow> set (names_of ?new) \<inter> set (names_of x) = {}"
    by (auto simp: others_p_def)
  have ok: "draft_ok seq p_uid names_of (tp_proxies S)" "draft_ok seq v_uid visitor_names_of (tp_visitors S)"
    using tunnel.prems by (simp_all add: names_disjoint_def)
  show ?case
  proof (cases e)
    case None
    then have "p_uid draft = seq + 1" by (simp add: draft_def newProxy_def)
    with draft_ok_add [OF ok(1) _ disj [unfolded this]] ok(2) free(1) None show ?thesis
      by (auto simp: names_disjoint_def intro: draft_ok_mono)
  next
    case (Some p)
    then have "draft = p" "p \<in> set (tp_proxies S)" using tunnel(2) by (simp_all add: draft_def)
    with draft_ok_replace [OF ok(1) edited_uid(1) _ disj] ok(2) free(1) Some show ?thesis
      by (auto simp: names_disjoint_def)
  qed
next
  case (visitor e f seq S S' seq')
  define draft where "draft = (case e of Some v \<Rightarrow> v | None \<Rightarrow> fst (newVisitor seq))"
  let ?new = "edited_visitor draft f"
  note free = submit_visitor_free [OF visitor(1), folded draft_def]
  have "visitor_name_error (filter (\<lambda>v. v_uid v \<noteq> v_uid draft) (tp_visitors S)) ?new = None"
    using free(2) [OF refl] by (simp add: visitor_errors_def Let_def)
  from visitor_name_error_free(2) [OF this]
  have disj: "\<forall>x\<in>set (tp_visitors S). v_uid x \<noteq> v_uid draft \<longrightarrow> set (visitor_names_of ?new) \<inter> set (visitor_names_of x) = {}"
    by auto
  have ok: "draft_ok seq p_uid names_of (tp_proxies S)" "draft_ok seq v_uid visitor_names_of (tp_visitors S)"
    using visitor.prems by (simp_all add: names_disjoint_def)
  show ?case
  proof (cases e)
    case None
    then have "v_uid draft = seq + 1" by (simp add: draft_def newVisitor_def)
    with draft_ok_add [OF ok(2) _ disj [unfolded this]] ok(1) free(1) None show ?thesis
      by (auto simp: names_disjoint_def intro: draft_ok_mono)
  next
    case (Some v)
    then have "draft = v" "v \<in> set (tp_visitors S)" using visitor(2) by (simp_all add: draft_def)
    with draft_ok_replace [OF ok(2) edited_uid(2) _ disj] ok(1) free(1) Some show ?thesis
      by (auto simp: names_disjoint_def)
  qed
qed (auto simp: names_disjoint_def removeProxy_def removeVisitor_def saved_t_def intro: draft_ok_filter)


lemma draft_run_names: "draft_step\<^sup>*\<^sup>* c c' \<Longrightarrow> names_disjoint c \<Longrightarrow> names_disjoint c'"
  by (induction rule: rtranclp_induct) (auto intro: draft_step_names)

subsection \<open>Ports and domains of an accepted entry\<close>

lemma part_bounds_ordered:
  assumes "part_bounds p = (Whole a, Whole b)"
  shows "length (part_ports p) = nat (b - a + 1)"
  using assms by (simp add: part_ports_def)

lemma count_parts_ge: "count_parts tot ps \<noteq> 0 \<Longrightarrow> 0 \<le> tot \<Longrightarrow> tot \<le> count_parts tot ps"
proof (induction ps arbitrary: tot)
  case (Cons p ps)
  from Cons.prems(1) obtain a b where ab: "part_bounds p = (Whole a, Whole b)" "\<not> (a < 1 \<or> b > 65535 \<or> a > b)"
    "count_parts (tot + (b - a + 1)) ps \<noteq> 0"
    by (auto split: prod.splits jsnum.splits if_splits)
  have "tot + (b - a + 1) \<le> count_parts (tot + (b - a + 1)) ps"
    using Cons.IH [OF ab(3)] ab(2) Cons.prems(2) by simp
  with ab show ?case by simp
qed simp

lemma count_parts_names:
  assumes "count_parts (int (length names)) ps = n" "n \<noteq> 0" "n \<le> 65535"
  shows "int (length (range_names base names ps)) = n"
  using assms
proof (induction ps arbitrary: names)
  case (Cons p ps)
  from Cons.prems(1,2) obtain a b where ab: "part_bounds p = (Whole a, Whole b)" "\<not> (a < 1 \<or> b > 65535 \<or> a > b)"
    "count_parts (int (length names) + (b - a + 1)) ps = n"
    by (auto split: prod.splits jsnum.splits if_splits)
  have le: "int (length names) + (b - a + 1) \<le> 65535"
    using count_parts_ge [of "int (length names) + (b - a + 1)" ps] ab(2,3) Cons.prems(2,3) by simp
  let ?more = "take (65535 - length names) (map (\<lambda>port. base @ [c_dash] @ num_text port) (part_ports p))"
  have "length ?more = nat (b - a + 1)" using part_bounds_ordered [OF ab(1)] le by simp
  then have len: "int (length (names @ ?more)) = int (length names) + (b - a + 1)" using ab(2) by simp
  have "int (length (range_names base (names @ ?more) ps)) = n"
    by (rule Cons.IH) (use ab(3) Cons.prems(2,3) len in simp_all)
  then show ?case by simp
qed simp

text \<open>Two specifications with as many ports make as many names (\<open>frpc\<close> pairs them one by one).\<close>

lemma rangeNames_count: "portSpecCount spec = n \<Longrightarrow> 0 < n \<Longrightarrow> n \<le> 65535 \<Longrightarrow> int (length (rangeNames base spec)) = n"
  unfolding rangeNames_def portSpecCount_def Let_def
  by (rule count_parts_names) (auto split: if_splits)

definition token_domains :: "jstr \<Rightarrow> bool" where
  "token_domains s \<longleftrightarrow> (let ds = truthy (map trim (split_on c_comma s)) in ds \<noteq> [] \<and> (\<forall>d\<in>set ds. includesStr d PORT_TOKEN))"

definition plain_domains :: "jstr \<Rightarrow> bool" where
  "plain_domains s \<longleftrightarrow> (\<forall>d\<in>set (truthy (map trim (split_on c_comma s))). \<not> includesStr d PORT_TOKEN)"

text \<open>What frp asks of an entry: a port or a range of at most 1000, the same number of ports on the two
  sides, one domain for each port of a range.\<close>

definition usable :: "proxy \<Rightarrow> jstr \<Rightarrow> bool" where
  "usable p domains \<longleftrightarrow> p_name p \<noteq> [] \<and> p_localIP p \<noteq> []
     \<and> (if isRanged p
        then 1 \<le> portSpecCount (p_localPort p) \<and> portSpecCount (p_localPort p) \<le> 1000
          \<and> (hasRemotePort (p_type p) \<longrightarrow> portSpecCount (p_remotePort p) = portSpecCount (p_localPort p))
          \<and> (hasDomains (p_type p) \<longrightarrow> token_domains domains)
        else validPort (p_localPort p)
          \<and> (hasRemotePort (p_type p) \<longrightarrow> p_remotePort p = [] \<or> validPort (p_remotePort p))
          \<and> (hasDomains (p_type p) \<longrightarrow> plain_domains domains))
     \<and> (p_type p = TCP_UDP \<longrightarrow> p_remotePort p \<noteq> [])"

lemma kind_of_type_has [simp]: "hasRemotePort (kind_of_type t) = hasRemotePort t"
  "hasDomains (kind_of_type t) = hasDomains t"
  by (auto simp: kind_of_type_def hasRemotePort_def hasDomains_def t_tcp_def TCP_UDP_def t_udp_def lit_simps)

lemma ranged_at_kind: "ranged_at (kind_of_type (p_type p)) (p_localPort p) (p_remotePort p) = isRanged p"
  by (simp add: ranged_at_def isRanged_def)

lemma count_parts_nonneg: "0 \<le> tot \<Longrightarrow> 0 \<le> count_parts tot ps"
  using count_parts_ge [of tot ps] by linarith

lemma portSpecCount_nonneg: "0 \<le> portSpecCount s"
  by (simp add: portSpecCount_def Let_def count_parts_nonneg)

lemma portErrors_None:
  assumes "portErrors kind l r = (None, None)"
  shows "if ranged_at kind l r
    then 1 \<le> portSpecCount l \<and> portSpecCount l \<le> 1000 \<and> (hasRemotePort kind \<longrightarrow> portSpecCount r = portSpecCount l)
    else validPort l \<and> (hasRemotePort kind \<longrightarrow> r = [] \<or> validPort r)"
  using assms portSpecCount_nonneg [of l]
  by (auto simp: portErrors_def local_range_error_def MAX_RANGE_PORTS_def Let_def split: if_splits)

lemma domainError_None:
  assumes "domainError kind ranged s = None" "hasDomains kind"
  shows "if ranged then token_domains s else plain_domains s"
  using assms
  by (auto simp: domainError_def token_domains_def plain_domains_def Let_def list_ex_iff split: if_splits)

lemma proxy_errors_usable:
  assumes "\<forall>x\<in>set (proxy_errors e others p f). snd x = None"
  shows "usable p (fp_domains f)"
proof -
  let ?k = "kind_of_type (p_type p)"
  have ne: "name_error e others p = None" "p_localIP p \<noteq> []"
    and b: "p_type p = TCP_UDP \<longrightarrow> p_remotePort p \<noteq> []"
    and po: "portErrors ?k (p_localPort p) (p_remotePort p) = (None, None)"
    and d: "domainError ?k (isRanged p) (fp_domains f) = None"
    using assms by (auto simp: proxy_errors_def Let_def prod_eq_iff ranged_at_kind split: if_splits)
  from portErrors_None [OF po] domainError_None [OF d] name_error_free(1) [OF ne(1)] ne(2) b
  show ?thesis by (auto simp: usable_def ranged_at_kind split: if_splits)
qed


lemma accepted_entry:
  assumes "submit_proxy e f seq S = Inr (S', seq')" "\<And>p. e = Some p \<Longrightarrow> p \<in> set (tp_proxies S)"
    and "\<forall>p\<in>set (tp_proxies S). p_uid p \<le> seq"
  defines "draft \<equiv> (case e of Some p \<Rightarrow> p | None \<Rightarrow> fst (newProxy seq))"
  shows "edited_proxy draft f \<in> set (tp_proxies S') \<and> usable (edited_proxy draft f) (fp_domains f)
    \<and> others_p (tp_proxies S') draft = others_p (tp_proxies S) draft"
proof -
  note free = submit_proxy_free [OF assms(1), folded draft_def]
  have u: "usable (edited_proxy draft f) (fp_domains f)" using free(2) [OF refl] proxy_errors_usable by blast
  have keep: "filter (\<lambda>p. p_uid p \<noteq> u) (map (\<lambda>p. if p_uid p = u then new else p) ps) = filter (\<lambda>p. p_uid p \<noteq> u) ps"
    if "p_uid new = u" for u new and ps :: "proxy list" using that by (induction ps) auto
  show ?thesis
  proof (cases e)
    case None
    then have "p_uid draft = seq + 1" by (simp add: draft_def newProxy_def)
    with u free(1) None show ?thesis by (simp add: others_p_def)
  next
    case (Some p)
    then have "draft = p" "p \<in> set (tp_proxies S)" using assms(2) by (simp_all add: draft_def)
    with u free(1) Some show ?thesis by (auto simp: others_p_def keep)
  qed
qed

subsection \<open>Pieces of an address\<close>

fun piece_text :: "piece \<Rightarrow> jstr" where
  "piece_text (Piece s) = s"
| "piece_text Break = []"
| "piece_text (Port_piece s) = s"

lemma split_after_not_Nil [simp]: "split_after P Q s \<noteq> []"
  by (cases s rule: remdups_adj.cases) (simp_all split: list.splits)

lemma concat_split_after [simp]: "concat (split_after P Q s) = s"
  by (induction P Q s rule: split_after.induct) (auto split: list.splits)

lemma with_breaks_text: "(\<And>s. piece_text (f s) = s) \<Longrightarrow> concat (map piece_text (with_breaks f ss)) = concat ss"
  by (induction f ss rule: with_breaks.induct) auto

lemma breakable_text: "concat (map piece_text (breakable s)) = s"
proof -
  have pieces: "concat (map piece_text (with_breaks Piece parts @
      (if hp then Break # with_breaks Port_piece (split_after P Q (drop i s)) else []))) = s"
    if "concat parts = (if hp then take i s else s)" for parts hp P Q i
    using that by (cases hp) (simp_all add: with_breaks_text)
  show ?thesis
    unfolding breakable_def Let_def by (rule pieces) simp
qed

subsection \<open>Properties\<close>


definition start_page :: tpage where
  "start_page = \<lparr>tp_baseText = [], tp_serverAddr = [], tp_baseFix = False, tp_docker = False, tp_proxies = [],
     tp_visitors = [], tp_snapshot = Some ([], [])\<rparr>"

definition range_form :: proxy_form where
  "range_form = \<lparr>fp_type = TCP_UDP, fp_name = lit ''a'', fp_localIP = lit ''h'', fp_localPort = lit ''80-81'',
     fp_remotePort = lit ''90,92'', fp_domains = [], fp_secret = [], fp_protocol = [], fp_encryption = False,
     fp_compression = False\<rparr>"

definition range_entry :: proxy where
  "range_entry = edited_proxy (fst (newProxy 0)) range_form"

lemma range_accepted: "submit_proxy None range_form 0 start_page = Inr (start_page\<lparr>tp_proxies := [range_entry]\<rparr>, 1)"
  by code_simp




text \<open>An address shown with places where it may break is the address: the pieces put together give it
  back, for every text.\<close>

theorem shown_address_keeps_text: "concat (map piece_text (breakable s)) = s"
  by (rule breakable_text)

subsection \<open>A range naming a port twice\<close>

text \<open>The names of the tunnels of one range are not compared with each other: a range that names a port
  twice is accepted and makes two frpc tunnels with the same name, which frpc refuses.\<close>

definition twice_form :: proxy_form where
  "twice_form = range_form\<lparr>fp_type := lit ''tcp'', fp_localPort := lit ''80,80'', fp_remotePort := lit ''90,91''\<rparr>"

theorem repeated_port_accepted:
  "\<exists>S'. submit_proxy None twice_form 0 start_page = Inr (S', 1) \<and> \<not> distinct (concat (map frpcNames (tp_proxies S')))"
proof -
  let ?p = "edited_proxy (fst (newProxy 0)) twice_form"
  have "submit_proxy None twice_form 0 start_page = Inr (start_page\<lparr>tp_proxies := [?p]\<rparr>, 1)" by code_simp
  moreover have "\<not> distinct (concat (map frpcNames (tp_proxies (start_page\<lparr>tp_proxies := [?p]\<rparr>))))" by code_simp
  ultimately show ?thesis by blast
qed

end
