(* ===== verification/Page_Firewall.thy ===== *)
theory Page_Firewall imports Page_Config begin

text \<open>
  The firewall page (\<open>pages/firewall.js\<close>): the draft of the rules and its editor, the sources of a rule as
  text, the quick blocks, the community lists, what the page shows of rules and ports, applying the draft.

  The snapshot is compared as JSON text in the source, so a rule keeps the order of its keys (\<open>r_keys\<close>) and a
  source whether its note comes first. A rule is told from the others by its place in the list, as its
  object is in the source. Messages are the keys of their translations. The markup is in the \<open>View_Firewall\<close> theories; random identifiers and
  the answers of the server are arguments. Numbers of networks are exact (below 2^53).
\<close>

subsection \<open>Sources of a rule\<close>

datatype src_addr = Cidr jstr | Asn nat

record source =
  so_addr :: src_addr
  so_note :: jstr
  so_note_first :: bool

text \<open>\<open>asn\<close> 0 never occurs: the server refuses it and \<open>textToSources\<close> drops it.\<close>

definition sourceLabel :: "source \<Rightarrow> jstr" where
  "sourceLabel s = (case so_addr s of Asn n \<Rightarrow> lit ''AS'' @ digits n | Cidr c \<Rightarrow> c)"

definition source_line :: "source \<Rightarrow> jstr" where
  "source_line s = (if so_note s \<noteq> [] then sourceLabel s @ lit ''  # '' @ so_note s else sourceLabel s)"

definition sourcesToText :: "source list \<Rightarrow> jstr" where
  "sourcesToText ss = join [c_nl] (map source_line ss)"

text \<open>\<open>/^AS\s*(\d+)$/i\<close>: the digits.\<close>

definition as_digits :: "jstr \<Rightarrow> jstr option" where
  "as_digits v = (case v of
     a # s # r \<Rightarrow> (if a \<in> {65, 97} \<and> s \<in> {83, 115} \<and> all_digits (dropWhile is_ws r)
       then Some (dropWhile is_ws r) else None)
   | _ \<Rightarrow> None)"

definition line_source :: "jstr \<Rightarrow> source" where
  "line_source line = (case split_on c_hash line of
     [] \<Rightarrow> \<lparr>so_addr = Cidr [], so_note = [], so_note_first = False\<rparr>
   | addr # note \<Rightarrow> \<lparr>so_addr = (case as_digits (trim addr) of Some d \<Rightarrow> Asn (number d) | None \<Rightarrow> Cidr (trim addr)),
       so_note = trim (join [c_hash] note), so_note_first = False\<rparr>)"

definition source_given :: "source \<Rightarrow> bool" where
  "source_given s \<longleftrightarrow> so_addr s \<noteq> Asn 0 \<and> so_addr s \<noteq> Cidr []"

definition textToSources :: "jstr \<Rightarrow> source list" where
  "textToSources text = filter source_given (map line_source (split_on c_nl text))"

text \<open>What a text area gives back for a value: its line ends are line feeds.\<close>

fun area_text :: "jstr \<Rightarrow> jstr" where
  "area_text [] = []"
| "area_text (c # s) = (if c = c_cr then (if startsWith s [c_nl] then area_text s else c_nl # area_text s)
     else c # area_text s)"

subsection \<open>Rules and the page\<close>

record frule =
  r_id :: jstr
  r_name :: jstr
  r_mode :: jstr
  r_ports :: jstr
  r_sources :: "source list"
  r_enabled :: bool
  r_frps :: "jstr option"
  r_list :: "jstr option"
  r_keys :: "jstr list"

record fport =
  fp_start :: int
  fp_end :: int
  fp_frps :: jstr

text \<open>The state: the answer of the server (\<open>S.data\<close>) and the draft. \<open>S.snapshot\<close> is \<open>None\<close> when empty.\<close>

record fpage =
  d_enabled :: bool
  d_rules :: "frule list"
  d_frps :: "jstr list"
  d_client_ip :: jstr
  fw_frps :: jstr
  fw_enabled :: bool
  fw_rules :: "frule list"
  fw_snapshot :: "(bool \<times> frule list) option"

definition isDirty_f :: "bool \<Rightarrow> fpage \<Rightarrow> bool" where
  "isDirty_f can_manage S \<longleftrightarrow> can_manage \<and> fw_snapshot S \<noteq> None \<and> Some (fw_enabled S, fw_rules S) \<noteq> fw_snapshot S"

text \<open>A missing or empty \<open>frps\<close>.\<close>

definition frps_text :: "jstr option \<Rightarrow> jstr" where
  "frps_text f = (case f of Some x \<Rightarrow> x | None \<Rightarrow> [])"

definition ofFrps :: "fpage \<Rightarrow> jstr \<Rightarrow> bool" where
  "ofFrps S frps \<longleftrightarrow> frps = [] \<or> frps = fw_frps S"

definition orphan :: "fpage \<Rightarrow> jstr \<Rightarrow> bool" where
  "orphan S frps \<longleftrightarrow> frps \<noteq> [] \<and> frps \<notin> set (d_frps S)"

definition shownRule :: "fpage \<Rightarrow> frule \<Rightarrow> bool" where
  "shownRule S r \<longleftrightarrow> ofFrps S (frps_text (r_frps r)) \<or> orphan S (frps_text (r_frps r))"

subsection \<open>Loading, giving up, applying\<close>

text \<open>\<open>saved\<close> is the last frps chosen; the second result is the one to remember, if any. \<open>None\<close> is a failed
  request, which changes nothing.\<close>

definition load_f :: "(bool \<times> frule list \<times> jstr list \<times> jstr) option \<Rightarrow> jstr \<Rightarrow> fpage \<Rightarrow> fpage \<times> jstr option" where
  "load_f answer saved S = (case answer of None \<Rightarrow> (S, None)
     | Some (enabled, rules, frps, ip) \<Rightarrow>
         (let S1 = S\<lparr>d_enabled := enabled, d_rules := rules, d_frps := frps, d_client_ip := ip,
                fw_enabled := enabled, fw_rules := rules, fw_snapshot := Some (enabled, rules)\<rparr>
          in if fw_frps S \<in> set frps then (S1, Some (fw_frps S))
             else (S1\<lparr>fw_frps := (if saved \<in> set frps then saved else case frps of f # _ \<Rightarrow> f | [] \<Rightarrow> [])\<rparr>, None)))"

definition discard_f :: "fpage \<Rightarrow> fpage" where
  "discard_f S = S\<lparr>fw_enabled := d_enabled S, fw_rules := d_rules S\<rparr>"

text \<open>What applying posts: \<open>verdict\<close> is the answer of the test of the client's own address, whether a port
  is blocked (\<open>None\<close>: the test failed or was refused), \<open>go\<close> the confirmation.\<close>

definition save_f :: "bool option \<Rightarrow> bool \<Rightarrow> fpage \<Rightarrow> (bool \<times> frule list) option" where
  "save_f verdict go S =
     (if fw_enabled S \<and> d_client_ip S \<noteq> [] \<and> verdict = Some True \<and> \<not> go then None
      else Some (fw_enabled S, fw_rules S))"

subsection \<open>What is shown\<close>

text \<open>The screen for a state of the server.\<close>

datatype fscreen = NoFrps | NoNetfilter | NoNftStandalone | NoNftDocker | NoNft | Rules

definition screen :: "bool \<Rightarrow> bool \<Rightarrow> bool \<Rightarrow> bool \<Rightarrow> bool \<Rightarrow> fscreen" where
  "screen has_frps available no_netfilter standalone in_docker =
     (if \<not> has_frps then NoFrps
      else if \<not> available \<and> no_netfilter then NoNetfilter
      else if \<not> available \<and> standalone then NoNftStandalone
      else if \<not> available then (if in_docker then NoNftDocker else NoNft)
      else Rules)"

datatype fstate = Pending | On nat | Idle | Off

definition status_badge :: "bool \<Rightarrow> bool \<Rightarrow> fpage \<Rightarrow> fstate" where
  "status_badge can_manage active S =
     (if isDirty_f can_manage S then Pending
      else if fw_enabled S \<and> active then On (length (filter (\<lambda>r. r_enabled r \<and> shownRule S r) (fw_rules S)))
      else if fw_enabled S then Idle else Off)"

definition int_text :: "int \<Rightarrow> jstr" where
  "int_text i = num_text (Whole i)"

definition portText :: "fport \<Rightarrow> jstr" where
  "portText p = (if fp_start p = fp_end p then int_text (fp_start p)
     else int_text (fp_start p) @ [c_dash] @ int_text (fp_end p))"

text \<open>\<open>split(/[,\s]+/).filter(Boolean)\<close>: the parts between commas and white space.\<close>

definition spec_parts :: "jstr \<Rightarrow> jstr list" where
  "spec_parts s = truthy (split_on c_comma (map (\<lambda>c. if is_ws c then c_comma else c) s))"

definition spec_bounds :: "jstr \<Rightarrow> jsnum \<times> jsnum" where
  "spec_bounds part = (case map toNumber (split_on c_dash part) of
     [] \<Rightarrow> (NaN, NaN) | [a] \<Rightarrow> (a, a) | a # b # _ \<Rightarrow> (a, if num_true b then b else a))"

definition parseSpec :: "jstr \<Rightarrow> (jsnum \<times> jsnum) list" where
  "parseSpec spec = map spec_bounds (spec_parts spec)"

text \<open>A comparison with \<open>NaN\<close> is false.\<close>

definition num_le :: "jsnum \<Rightarrow> jsnum \<Rightarrow> bool" where
  "num_le a b = (case (a, b) of (Whole i, Whole j) \<Rightarrow> i \<le> j | _ \<Rightarrow> False)"

definition ruleCovers :: "frule \<Rightarrow> fport \<Rightarrow> bool" where
  "ruleCovers r p =
     (if r_ports r = lit ''*'' then frps_text (r_frps r) = [] \<or> fp_frps p = frps_text (r_frps r)
      else list_ex (\<lambda>(a, b). num_le a (Whole (fp_end p)) \<and> num_le (Whole (fp_start p)) b) (parseSpec (r_ports r)))"

text \<open>The rules named beside a port.\<close>

definition port_rules :: "fpage \<Rightarrow> fport \<Rightarrow> frule list" where
  "port_rules S p = filter (\<lambda>r. ruleCovers r p) (if fw_enabled S then filter r_enabled (fw_rules S) else [])"

definition ruleTitle :: "(string \<Rightarrow> jstr) \<Rightarrow> frule \<Rightarrow> jstr" where
  "ruleTitle tr r = (if r_name r \<noteq> [] then r_name r
     else tr (if r_mode r = lit ''allow'' then ''firewall.untitledAllow'' else ''firewall.untitledBlock''))"

datatype frow = NewRule | SameRule | ChangedRule

definition rule_state :: "fpage \<Rightarrow> frule \<Rightarrow> frow" where
  "rule_state S r = (case find (\<lambda>x. r_id x = r_id r) (case fw_snapshot S of Some (_, rs) \<Rightarrow> rs | None \<Rightarrow> []) of
     None \<Rightarrow> NewRule | Some q \<Rightarrow> if q = r then SameRule else ChangedRule)"

text \<open>The sources of a row: the first two, and how many more.\<close>

definition row_sources :: "frule \<Rightarrow> jstr" where
  "row_sources r = join (lit '', '') (map sourceLabel (take 2 (r_sources r)))
     @ (if length (r_sources r) > 2 then lit '' +'' @ digits (length (r_sources r) - 2) else [])"

datatype fago = Ago_s int | Ago_m int | Ago_h int

definition ago :: "int \<Rightarrow> fago" where
  "ago seconds = (if seconds < 60 then Ago_s (max 1 seconds)
     else if seconds < 3600 then Ago_m (seconds div 60) else Ago_h (seconds div 3600))"

subsection \<open>Quick blocks and community lists\<close>

text \<open>The optional \<open>frps\<close> key of a new rule comes last.\<close>

definition newRuleFrps :: "fpage \<Rightarrow> jstr option" where
  "newRuleFrps S = (if fw_frps S \<noteq> [] then Some (fw_frps S) else None)"

definition frps_key :: "fpage \<Rightarrow> jstr list" where
  "frps_key S = (if fw_frps S \<noteq> [] then [lit ''frps''] else [])"

definition quick_new :: "jstr \<Rightarrow> jstr \<Rightarrow> fpage \<Rightarrow> frule" where
  "quick_new rid name S = \<lparr>r_id = rid, r_name = name, r_mode = lit ''block'', r_ports = lit ''*'', r_sources = [], r_enabled = True,
     r_frps = newRuleFrps S, r_list = None,
     r_keys = map lit [''id'', ''name'', ''mode'', ''ports'', ''sources'', ''enabled''] @ frps_key S\<rparr>"

definition is_quick :: "fpage \<Rightarrow> jstr \<Rightarrow> frule \<Rightarrow> bool" where
  "is_quick S name r \<longleftrightarrow> r_mode r = lit ''block'' \<and> r_ports r = lit ''*'' \<and> r_name r = name \<and> ofFrps S (frps_text (r_frps r))"

definition add_source :: "source \<Rightarrow> frule \<Rightarrow> frule" where
  "add_source src r = r\<lparr>r_enabled := True, r_sources :=
     (if list_ex (\<lambda>x. sourceLabel x = sourceLabel src) (r_sources r) then r_sources r
      else r_sources r @ [src\<lparr>so_note_first := True\<rparr>])\<rparr>"

fun update_first :: "('a \<Rightarrow> bool) \<Rightarrow> ('a \<Rightarrow> 'a) \<Rightarrow> 'a list \<Rightarrow> 'a list" where
  "update_first P f [] = []"
| "update_first P f (x # xs) = (if P x then f x # xs else x # update_first P f xs)"

text \<open>\<open>rid\<close> is the identifier drawn, \<open>name\<close> the translated name of the rule.\<close>

definition quickBlock :: "jstr \<Rightarrow> jstr \<Rightarrow> source \<Rightarrow> fpage \<Rightarrow> fpage" where
  "quickBlock rid name src S = S\<lparr>fw_rules := update_first (is_quick S name) (add_source src)
     (if list_ex (is_quick S name) (fw_rules S) then fw_rules S else fw_rules S @ [quick_new rid name S])\<rparr>"

text \<open>A list of the catalogue, and what the server knows of the lists in use.\<close>

record flist =
  l_id :: jstr
  l_name :: jstr
  l_mode :: jstr
  l_author :: jstr
  l_updated :: jstr
  l_sources :: "source list"

record flist_info =
  i_name :: jstr
  i_author :: jstr
  i_updated :: jstr
  i_count :: nat

definition listInfo :: "(jstr \<Rightarrow> flist_info option) \<Rightarrow> flist list option \<Rightarrow> jstr \<Rightarrow> flist_info option" where
  "listInfo known catalog i = (case known i of Some k \<Rightarrow> Some k
     | None \<Rightarrow> (case find (\<lambda>l. l_id l = i) (case catalog of Some c \<Rightarrow> c | None \<Rightarrow> []) of None \<Rightarrow> None
         | Some l \<Rightarrow> Some \<lparr>i_name = l_name l, i_author = l_author l, i_updated = l_updated l, i_count = length (l_sources l)\<rparr>))"

text \<open>Subscribing: a list of allowed addresses asks first (\<open>go\<close>).\<close>

definition subscribe :: "jstr \<Rightarrow> bool \<Rightarrow> flist \<Rightarrow> fpage \<Rightarrow> fpage" where
  "subscribe rid go l S = (if l_mode l = lit ''allow'' \<and> \<not> go then S
     else S\<lparr>fw_rules := fw_rules S @ [\<lparr>r_id = rid, r_name = l_name l, r_mode = l_mode l, r_ports = lit ''*'', r_sources = [],
       r_enabled = True, r_frps = newRuleFrps S, r_list = Some (l_id l),
       r_keys = map lit [''id'', ''name'', ''mode'', ''ports'', ''sources'', ''list'', ''enabled''] @ frps_key S\<rparr>]\<rparr>)"

definition publishable :: "fpage \<Rightarrow> frule list" where
  "publishable S = filter (\<lambda>r. r_sources r \<noteq> []) (fw_rules S)"

text \<open>Adding the sources of a rule to the text of a publication, and the client's own address to a rule.\<close>

definition publish_add :: "frule \<Rightarrow> jstr \<Rightarrow> jstr" where
  "publish_add r text = join [c_nl] (truthy [trim text, sourcesToText
     (filter (\<lambda>x. sourceLabel x \<notin> sourceLabel ` set (textToSources text)) (r_sources r))])"

definition add_my_ip :: "jstr \<Rightarrow> jstr \<Rightarrow> jstr \<Rightarrow> jstr" where
  "add_my_ip ip note text = (if list_ex (\<lambda>x. so_addr x = Cidr ip) (textToSources text) then text
     else trim (trim text @ [c_nl] @ ip @ lit ''  # '' @ note))"

text \<open>A port added to the field of the ports of a rule.\<close>

definition add_port :: "fport \<Rightarrow> jstr \<Rightarrow> jstr" where
  "add_port p cur = (let parts = spec_parts cur
     in if portText p \<in> set parts then cur else join (lit '', '') (parts @ [portText p]))"

subsection \<open>Rule editor\<close>

text \<open>The values of the controls; \<open>ff_frps\<close> is \<open>None\<close> when there is no choice of the frps.\<close>

record fw_form =
  ff_name :: jstr
  ff_mode :: jstr
  ff_all :: bool
  ff_ports :: jstr
  ff_sources :: jstr
  ff_frps :: "jstr option"
  ff_unsubscribed :: bool

definition select_value :: "jstr list \<Rightarrow> jstr \<Rightarrow> jstr" where
  "select_value options v = (if v \<in> set options then v else [])"

definition frps_choice :: "fpage \<Rightarrow> jstr \<Rightarrow> jstr option" where
  "frps_choice S frps = (if length (d_frps S) > 1 \<or> orphan S frps
     then Some (select_value (d_frps S @ [[]] @ (if orphan S frps then [frps] else [])) frps) else None)"

text \<open>The controls as the editor opens.\<close>

definition open_form_f :: "fpage \<Rightarrow> frule \<Rightarrow> fw_form" where
  "open_form_f S r = \<lparr>ff_name = one_line (r_name r), ff_mode = r_mode r, ff_all = (r_ports r = lit ''*''),
     ff_ports = (if r_ports r = lit ''*'' then [] else one_line (r_ports r)), ff_sources = area_text (sourcesToText (r_sources r)),
     ff_frps = frps_choice S (frps_text (r_frps r)), ff_unsubscribed = False\<rparr>"

definition new_draft :: "fpage \<Rightarrow> frule" where
  "new_draft S = \<lparr>r_id = [], r_name = [], r_mode = lit ''allow'', r_ports = lit ''*'', r_sources = [], r_enabled = True,
     r_frps = newRuleFrps S, r_list = None,
     r_keys = map lit [''id'', ''name'', ''mode'', ''ports'', ''sources'', ''enabled''] @ frps_key S\<rparr>"

text \<open>A value that is not empty; the empty ones lose their key.\<close>

definition given :: "jstr option \<Rightarrow> jstr option" where
  "given v = (if frps_text v = [] then None else v)"

definition add_key :: "jstr \<Rightarrow> jstr list \<Rightarrow> jstr list" where
  "add_key k ks = (if k \<in> set ks then ks else ks @ [k])"

definition keep_key :: "jstr \<Rightarrow> jstr option \<Rightarrow> jstr list \<Rightarrow> jstr list" where
  "keep_key k v ks = (if v = None then filter (\<lambda>x. x \<noteq> k) ks else ks)"

definition edited_rule :: "frule \<Rightarrow> fw_form \<Rightarrow> frule" where
  "edited_rule draft f =
     (let frps = given (case ff_frps f of Some v \<Rightarrow> Some v | None \<Rightarrow> r_frps draft);
          lst = (if ff_unsubscribed f then None else given (r_list draft));
          keys = (if ff_frps f \<noteq> None then add_key (lit ''frps'') (r_keys draft) else r_keys draft)
      in draft\<lparr>r_name := trim (ff_name f), r_mode := ff_mode f, r_ports := (if ff_all f then lit ''*'' else trim (ff_ports f)),
           r_sources := textToSources (ff_sources f), r_frps := frps, r_list := lst,
           r_keys := keep_key (lit ''frps'') frps (keep_key (lit ''list'') lst keys)\<rparr>)"

text \<open>The page once the editor is submitted on the rule at \<open>i\<close>, or on a new one: a rule that blocks needs
  something to block.\<close>

definition editRule :: "nat option \<Rightarrow> jstr \<Rightarrow> fw_form \<Rightarrow> fpage \<Rightarrow> fpage" where
  "editRule at rid f S =
     (let r = edited_rule (case at of Some i \<Rightarrow> fw_rules S ! i | None \<Rightarrow> new_draft S) f
      in if r_mode r = lit ''block'' \<and> r_sources r = [] \<and> r_list r = None then S
         else (case at of Some i \<Rightarrow> S\<lparr>fw_rules := (fw_rules S)[i := r]\<rparr>
           | None \<Rightarrow> S\<lparr>fw_rules := fw_rules S @ [r\<lparr>r_id := rid\<rparr>]\<rparr>))"

definition removeRule :: "nat \<Rightarrow> fpage \<Rightarrow> fpage" where
  "removeRule i S = S\<lparr>fw_rules := take i (fw_rules S) @ drop (Suc i) (fw_rules S)\<rparr>"

definition switch_rule :: "nat \<Rightarrow> bool \<Rightarrow> fpage \<Rightarrow> fpage" where
  "switch_rule i x S = S\<lparr>fw_rules := (fw_rules S)[i := (fw_rules S ! i)\<lparr>r_enabled := x\<rparr>]\<rparr>"

definition switch_all :: "bool \<Rightarrow> fpage \<Rightarrow> fpage" where
  "switch_all x S = S\<lparr>fw_enabled := x\<rparr>"

end
