(* ===== verification/Page_Firewall_Rules.thy ===== *)
theory Page_Firewall_Rules imports Page_Firewall "HOL-Library.Code_Target_Nat" begin

text \<open>
  The draft of the firewall page: the text of the sources of a rule is read back as these sources, what the
  editor makes is always well formed, and opening and closing it changes nothing.
\<close>

subsection \<open>Sources as text\<close>

text \<open>What a source of the page is: a network number above 0 or an address that is neither empty nor a
  number, one line, without the mark of a note.\<close>

definition one_text :: "jstr \<Rightarrow> bool" where
  "one_text s \<longleftrightarrow> trim s = s \<and> c_nl \<notin> set s \<and> c_cr \<notin> set s"

definition source_ok :: "source \<Rightarrow> bool" where
  "source_ok s \<longleftrightarrow> one_text (so_note s) \<and> (case so_addr s of Asn n \<Rightarrow> 0 < n
     | Cidr c \<Rightarrow> one_text c \<and> c \<noteq> [] \<and> c_hash \<notin> set c \<and> as_digits c = None)"

lemma is_digit_not_ws: "is_digit c \<Longrightarrow> \<not> is_ws c \<and> c \<noteq> c_hash \<and> c \<noteq> c_nl \<and> c \<noteq> c_cr"
  by (auto simp: unit_defs)

lemma digits_digit: "c \<in> set (digits n) \<Longrightarrow> is_digit c"
  using digits_all [of n] by (simp add: list_all_iff)

lemma dropWhile_digits: "dropWhile is_ws (digits n) = digits n"
  using digits_digit [of "hd (digits n)" n] is_digit_not_ws by (cases "digits n") auto

lemma as_digits_label: "as_digits ([65, 83] @ digits n) = Some (digits n)"
  by (simp add: as_digits_def dropWhile_digits)

lemma label_AS: "so_addr s = Asn n \<Longrightarrow> sourceLabel s = [65, 83] @ digits n"
  by (simp add: sourceLabel_def lit_simps)

lemma label_ok:
  assumes "source_ok s"
  shows "sourceLabel s \<noteq> [] \<and> trim (sourceLabel s) = sourceLabel s \<and> c_hash \<notin> set (sourceLabel s)
    \<and> c_nl \<notin> set (sourceLabel s) \<and> c_cr \<notin> set (sourceLabel s)"
proof (cases "so_addr s")
  case (Asn n)
  have l: "last (digits n) \<in> set (digits n)" by simp
  have "trim ([65, 83] @ digits n) = [65, 83] @ digits n"
    using is_digit_not_ws [OF digits_digit [OF l]] by (intro trim_fixed) (simp add: unit_defs)
  with Asn show ?thesis using digits_digit is_digit_not_ws by (auto simp: label_AS)
next
  case (Cidr c)
  with assms show ?thesis by (simp add: source_ok_def one_text_def sourceLabel_def)
qed

lemma line_units: "source_ok s \<Longrightarrow> c_nl \<notin> set (source_line s) \<and> c_cr \<notin> set (source_line s)"
  using label_ok [of s] by (auto simp: source_line_def source_ok_def one_text_def lit_simps)

lemma line_source_split:
  assumes "split_on c_hash l = a # ns" "trim a = t"
  shows "line_source l = \<lparr>so_addr = (case as_digits t of Some d \<Rightarrow> Asn (number d) | None \<Rightarrow> Cidr t),
    so_note = trim (join [c_hash] ns), so_note_first = False\<rparr>"
  unfolding line_source_def assms(1) list.case assms(2) by (rule refl)

lemma line_source_back:
  assumes ok: "source_ok s" and first: "\<not> so_note_first s"
  shows "line_source (source_line s) = s"
proof -
  note lab = label_ok [OF ok]
  have addr: "(case as_digits (trim (sourceLabel s)) of Some d \<Rightarrow> Asn (number d) | None \<Rightarrow> Cidr (trim (sourceLabel s))) = so_addr s"
  proof (cases "so_addr s")
    case (Asn n)
    with lab show ?thesis by (simp only: label_AS as_digits_label option.case number_digits)
  next
    case (Cidr c)
    with lab ok show ?thesis by (simp add: sourceLabel_def source_ok_def)
  qed
  show ?thesis
  proof (cases "so_note s = []")
    case True
    with lab have "split_on c_hash (source_line s) = [sourceLabel s]" by (simp add: source_line_def split_on_plain)
    with addr True first show ?thesis by (simp add: line_source_def trim_fixed)
  next
    case False
    have blanks: "list_all is_ws [c_sp, c_sp]" "list_all is_ws [c_sp]" by (simp_all add: unit_defs)
    have line: "source_line s = (sourceLabel s @ [c_sp, c_sp]) @ c_hash # (c_sp # so_note s)"
      using False by (simp add: source_line_def lit_simps)
    have "split_on c_hash (source_line s) = (sourceLabel s @ [c_sp, c_sp]) # split_on c_hash (c_sp # so_note s)"
      unfolding line using lab by (intro split_on_append) simp
    moreover have "trim (sourceLabel s @ [c_sp, c_sp]) = trim (sourceLabel s)"
      using trim_white [of "sourceLabel s" "[]" "[c_sp, c_sp]"] lab blanks by simp
    moreover have "trim (c_sp # so_note s) = so_note s"
      using trim_white [of "so_note s" "[c_sp]" "[]"] ok blanks by (simp add: source_ok_def one_text_def)
    ultimately show ?thesis using addr first
      by (simp add: line_source_split [where a = "sourceLabel s @ [c_sp, c_sp]"] del: split_on.simps)
  qed
qed

lemma source_ok_given: "source_ok s \<Longrightarrow> source_given s"
  by (auto simp: source_ok_def source_given_def split: src_addr.splits)

lemma sources_back:
  assumes "\<forall>s\<in>set ss. source_ok s \<and> \<not> so_note_first s"
  shows "textToSources (sourcesToText ss) = ss"
proof (cases "ss = []")
  case True
  then show ?thesis
    by (simp add: textToSources_def sourcesToText_def line_source_def source_given_def as_digits_def trim_fixed)
next
  case False
  then have "split_on c_nl (sourcesToText ss) = map source_line ss"
    unfolding sourcesToText_def using assms line_units by (intro split_on_join) auto
  moreover have "map line_source (map source_line ss) = ss"
    using assms line_source_back by (simp add: map_idI)
  moreover have "filter source_given ss = ss" using assms source_ok_given by simp
  ultimately show ?thesis by (simp add: textToSources_def)
qed

lemma area_text_plain: "c_cr \<notin> set s \<Longrightarrow> area_text s = s"
  by (induction s rule: area_text.induct) auto

lemma area_text_units: "c_cr \<notin> set (area_text s)"
  by (induction s rule: area_text.induct) auto

lemma sourcesToText_plain: "\<forall>s\<in>set ss. source_ok s \<Longrightarrow> c_cr \<notin> set (sourcesToText ss)"
proof -
  have "d \<notin> set (join [c_nl] xs)" if "\<forall>x\<in>set xs. d \<notin> set x" "d \<noteq> c_nl" for d xs
    using that by (induction "[c_nl]" xs rule: join.induct) auto
  moreover assume "\<forall>s\<in>set ss. source_ok s"
  ultimately show ?thesis using line_units unfolding sourcesToText_def by simp
qed

lemma line_source_ok:
  assumes "c_nl \<notin> set l" "c_cr \<notin> set l" "source_given (line_source l)"
  shows "source_ok (line_source l)" "\<not> so_note_first (line_source l)"
proof -
  obtain a ns where sp: "split_on c_hash l = a # ns" by (cases "split_on c_hash l") simp_all
  have a: "c_hash \<notin> set a" "set a \<subseteq> set l" using split_on_parts [of a c_hash l] sp by auto
  have "l = join [c_hash] (a # ns)" using join_split_on [of c_hash l] sp by simp
  then have "set (join [c_hash] ns) \<subseteq> set l" by (cases ns) auto
  then have "one_text (trim (join [c_hash] ns))" using assms(1,2) set_trim unfolding one_text_def by (meson subsetD trim_trim)
  moreover have "one_text (trim a)" "c_hash \<notin> set (trim a)"
    using a assms(1,2) set_trim [of a] by (auto simp: one_text_def)
  moreover have "0 < number d" if "as_digits (trim a) = Some d"
    using assms(3) that sp by (auto simp: line_source_def source_given_def)
  ultimately show "source_ok (line_source l)"
    using assms(3) sp by (auto simp: line_source_def source_ok_def source_given_def split: option.splits)
  show "\<not> so_note_first (line_source l)" using sp by (simp add: line_source_def)
qed

lemma textToSources_ok: "c_cr \<notin> set t \<Longrightarrow> s \<in> set (textToSources t) \<Longrightarrow> source_ok s \<and> \<not> so_note_first s"
proof -
  assume t: "c_cr \<notin> set t" and s: "s \<in> set (textToSources t)"
  then obtain l where l: "l \<in> set (split_on c_nl t)" "s = line_source l" "source_given s" by (auto simp: textToSources_def)
  with split_on_parts [OF l(1)] t show ?thesis using line_source_ok [of l] by auto
qed

subsection \<open>Rules\<close>

text \<open>A rule of the page: one-line texts, well-formed sources, and a key exactly when it has a value.\<close>

definition key_iff :: "jstr \<Rightarrow> jstr option \<Rightarrow> jstr list \<Rightarrow> bool" where
  "key_iff k v ks \<longleftrightarrow> v \<noteq> Some [] \<and> (k \<in> set ks \<longleftrightarrow> v \<noteq> None)"

definition rule_ok :: "frule \<Rightarrow> bool" where
  "rule_ok r \<longleftrightarrow> one_text (r_name r) \<and> one_text (r_ports r) \<and> (\<forall>s\<in>set (r_sources r). source_ok s)
     \<and> key_iff (lit ''frps'') (r_frps r) (r_keys r) \<and> key_iff (lit ''list'') (r_list r) (r_keys r)
     \<and> (r_mode r = lit ''block'' \<longrightarrow> r_sources r \<noteq> [] \<or> r_list r \<noteq> None)"

definition form_ok :: "fw_form \<Rightarrow> bool" where
  "form_ok f \<longleftrightarrow> one_line (ff_name f) = ff_name f \<and> one_line (ff_ports f) = ff_ports f \<and> area_text (ff_sources f) = ff_sources f"

lemma one_line_iff: "one_line s = s \<longleftrightarrow> c_nl \<notin> set s \<and> c_cr \<notin> set s"
  by (auto simp: one_line_def filter_id_conv)

lemma one_text_trim: "one_line s = s \<Longrightarrow> one_text (trim s)"
  using set_trim [of s] by (auto simp: one_text_def one_line_iff)

lemma one_text_line: "one_text s \<Longrightarrow> one_line s = s \<and> trim s = s"
  by (simp add: one_text_def one_line_iff)

lemma keys_neq [simp]: "lit ''frps'' \<noteq> lit ''list''" "lit ''list'' \<noteq> lit ''frps''"
  by (simp_all add: lit_simps)

lemma keep_key_iff: "v \<noteq> Some [] \<Longrightarrow> v \<noteq> None \<longrightarrow> k \<in> set ks \<Longrightarrow> key_iff k v (keep_key k v ks)"
  by (auto simp: key_iff_def keep_key_def)

lemma keep_key_other: "k \<noteq> k' \<Longrightarrow> key_iff k v (keep_key k' v' ks) = key_iff k v ks"
  by (auto simp: key_iff_def keep_key_def)

lemma add_key_other: "k \<noteq> k' \<Longrightarrow> key_iff k v (add_key k' ks) = key_iff k v ks"
  by (auto simp: key_iff_def add_key_def)

lemma given_some: "given v \<noteq> Some []" "given v \<noteq> None \<Longrightarrow> v \<noteq> None"
  by (auto simp: given_def frps_text_def split: option.splits if_splits)

lemma given_id: "v \<noteq> Some [] \<Longrightarrow> given v = v"
  by (cases v) (auto simp: given_def frps_text_def)

lemma edited_rule_ok:
  assumes "form_ok f" "key_iff (lit ''frps'') (r_frps d) (r_keys d)" "key_iff (lit ''list'') (r_list d) (r_keys d)"
    and "\<not> (r_mode (edited_rule d f) = lit ''block'' \<and> r_sources (edited_rule d f) = [] \<and> r_list (edited_rule d f) = None)"
  shows "rule_ok (edited_rule d f)"
proof -
  let ?frps = "given (case ff_frps f of Some v \<Rightarrow> Some v | None \<Rightarrow> r_frps d)"
  let ?list = "if ff_unsubscribed f then None else given (r_list d)"
  let ?keys = "if ff_frps f \<noteq> None then add_key (lit ''frps'') (r_keys d) else r_keys d"
  have r: "edited_rule d f = d\<lparr>r_name := trim (ff_name f), r_mode := ff_mode f, r_ports := (if ff_all f then lit ''*'' else trim (ff_ports f)),
      r_sources := textToSources (ff_sources f), r_frps := ?frps, r_list := ?list,
      r_keys := keep_key (lit ''frps'') ?frps (keep_key (lit ''list'') ?list ?keys)\<rparr>"
    by (simp add: edited_rule_def Let_def)
  have "one_text (lit ''*'')" by (simp add: one_text_def lit_simps) (simp add: trim_fixed unit_defs)
  then have texts: "one_text (trim (ff_name f))" "one_text (if ff_all f then lit ''*'' else trim (ff_ports f))"
    using assms(1) by (auto simp: form_ok_def one_text_trim)
  have src: "\<forall>s\<in>set (textToSources (ff_sources f)). source_ok s"
    using assms(1) area_text_units [of "ff_sources f"] textToSources_ok by (auto simp: form_ok_def)
  have "?frps \<noteq> None \<longrightarrow> lit ''frps'' \<in> set ?keys"
    using assms(2) given_some(2) by (auto simp: key_iff_def add_key_def split: option.splits)
  then have k1: "key_iff (lit ''frps'') ?frps (keep_key (lit ''frps'') ?frps (keep_key (lit ''list'') ?list ?keys))"
    using given_some(1) by (intro keep_key_iff) (auto simp: keep_key_def)
  have "?list \<noteq> None \<longrightarrow> lit ''list'' \<in> set ?keys"
    using assms(3) given_some(2) by (auto simp: key_iff_def add_key_def)
  then have "key_iff (lit ''list'') ?list (keep_key (lit ''list'') ?list ?keys)"
    using given_some(1) by (intro keep_key_iff) auto
  then have k2: "key_iff (lit ''list'') ?list (keep_key (lit ''frps'') ?frps (keep_key (lit ''list'') ?list ?keys))"
    by (simp add: keep_key_other)
  show ?thesis
    using texts src k1 k2 assms(4) unfolding rule_ok_def r by auto
qed

lemma edited_same:
  assumes r: "rule_ok r" and srcs: "\<forall>s\<in>set (r_sources r). \<not> so_note_first s"
  shows "edited_rule r (open_form_f S r) = r"
proof -
  have src: "textToSources (area_text (sourcesToText (r_sources r))) = r_sources r"
    using r srcs sources_back sourcesToText_plain area_text_plain by (simp add: rule_ok_def)
  have texts: "trim (one_line (r_name r)) = r_name r" "trim (one_line (r_ports r)) = r_ports r"
    using r one_text_line by (simp_all add: rule_ok_def)
  have kf: "key_iff (lit ''frps'') (r_frps r) (r_keys r)" and kl: "key_iff (lit ''list'') (r_list r) (r_keys r)"
    using r by (simp_all add: rule_ok_def)
  have lst: "given (r_list r) = r_list r" using kl by (simp add: key_iff_def given_id)
  have keepl: "keep_key (lit ''list'') (r_list r) ks = ks" if "lit ''list'' \<in> set ks \<longrightarrow> lit ''list'' \<in> set (r_keys r)" for ks
    using kl that by (auto simp: keep_key_def key_iff_def filter_id_conv)
  show ?thesis
  proof (cases "frps_choice S (frps_text (r_frps r))")
    case None
    have "keep_key (lit ''frps'') (r_frps r) (r_keys r) = r_keys r"
      using kf by (auto simp: keep_key_def key_iff_def filter_id_conv)
    with None src texts lst keepl [of "r_keys r"] kf show ?thesis
      by (simp add: edited_rule_def open_form_f_def Let_def key_iff_def given_id)
  next
    case (Some v)
    then have v: "v = frps_text (r_frps r)"
      by (auto simp: frps_choice_def select_value_def orphan_def split: if_splits)
    have gv: "given (Some v) = r_frps r"
      using kf by (cases "r_frps r") (auto simp: v given_def frps_text_def key_iff_def)
    have "keep_key (lit ''frps'') (r_frps r) (add_key (lit ''frps'') (r_keys r)) = r_keys r"
      using kf by (auto simp: keep_key_def add_key_def key_iff_def filter_id_conv)
    with Some src texts lst keepl [of "add_key (lit ''frps'') (r_keys r)"] gv show ?thesis
      by (simp add: edited_rule_def open_form_f_def Let_def add_key_def)
  qed
qed

lemma unchanged_editor:
  assumes "i < length (fw_rules S)" "rule_ok (fw_rules S ! i)" "\<forall>s\<in>set (r_sources (fw_rules S ! i)). \<not> so_note_first s"
  shows "editRule (Some i) rid (open_form_f S (fw_rules S ! i)) S = S"
  using edited_same [OF assms(2,3), of S] assms(1) by (simp add: editRule_def Let_def list_update_id)
subsection \<open>Every operation keeps the rules well formed\<close>

definition rules_ok :: "fpage \<Rightarrow> bool" where
  "rules_ok S \<longleftrightarrow> (\<forall>r\<in>set (fw_rules S). rule_ok r) \<and> (\<forall>r\<in>set (d_rules S). rule_ok r)"

text \<open>What the user and the answers of the server do to the page.\<close>

inductive fw_step :: "fpage \<Rightarrow> fpage \<Rightarrow> bool" where
  edit: "form_ok f \<Longrightarrow> (\<And>i. at = Some i \<Longrightarrow> i < length (fw_rules S)) \<Longrightarrow> fw_step S (editRule at rid f S)"
| remove: "fw_step S (removeRule i S)"
| switch: "i < length (fw_rules S) \<Longrightarrow> fw_step S (switch_rule i x S)"
| switch_page: "fw_step S (switch_all x S)"
| quick: "source_ok src \<Longrightarrow> one_text name \<Longrightarrow> fw_step S (quickBlock rid name src S)"
| list_added: "one_text (l_name l) \<Longrightarrow> l_id l \<noteq> [] \<Longrightarrow> fw_step S (subscribe rid go l S)"
| discard: "fw_step S (discard_f S)"
| loaded: "(\<And>e rs fs ip. answer = Some (e, rs, fs, ip) \<Longrightarrow> \<forall>r\<in>set rs. rule_ok r) \<Longrightarrow> fw_step S (fst (load_f answer saved S))"
| frps_chosen: "fw_step S (S\<lparr>fw_frps := v\<rparr>)"

lemma one_text_star: "one_text (lit ''*'')"
  by (simp add: one_text_def lit_simps) (simp add: trim_fixed unit_defs)

lemma new_keys:
  assumes "''frps'' \<notin> set ks"
  shows "key_iff (lit ''frps'') (newRuleFrps S) (map lit ks @ frps_key S)"
    and "key_iff (lit ''list'') v (map lit ks @ frps_key S) \<longleftrightarrow> v \<noteq> Some [] \<and> (''list'' \<in> set ks \<longleftrightarrow> v \<noteq> None)"
  using assms by (auto simp: key_iff_def newRuleFrps_def frps_key_def lit_inject)

lemma new_draft_keys: "key_iff (lit ''frps'') (r_frps (new_draft S)) (r_keys (new_draft S))"
  "key_iff (lit ''list'') (r_list (new_draft S)) (r_keys (new_draft S))"
  unfolding new_draft_def frule.simps by (simp_all add: new_keys del: list.map)

lemma editRule_ok:
  assumes "rules_ok S" "form_ok f" "\<And>i. at = Some i \<Longrightarrow> i < length (fw_rules S)"
  shows "rules_ok (editRule at rid f S)"
proof -
  define d where "d = (case at of Some i \<Rightarrow> fw_rules S ! i | None \<Rightarrow> new_draft S)"
  let ?r = "edited_rule d f"
  have keys: "key_iff (lit ''frps'') (r_frps d) (r_keys d)" "key_iff (lit ''list'') (r_list d) (r_keys d)"
    using assms(1,3) new_draft_keys by (auto simp: d_def rules_ok_def rule_ok_def split: option.splits)
  show ?thesis
  proof (cases "r_mode ?r = lit ''block'' \<and> r_sources ?r = [] \<and> r_list ?r = None")
    case True
    with assms(1) show ?thesis by (simp add: editRule_def d_def Let_def)
  next
    case False
    have r: "rule_ok ?r" by (rule edited_rule_ok [OF assms(2) keys False])
    then have r': "rule_ok (?r\<lparr>r_id := rid\<rparr>)" by (simp add: rule_ok_def)
    show ?thesis
    proof (cases at)
      case None
      with r' False assms(1) show ?thesis by (auto simp: editRule_def d_def Let_def rules_ok_def)
    next
      case (Some i)
      then have "editRule at rid f S = S\<lparr>fw_rules := (fw_rules S)[i := ?r]\<rparr>" using False by (auto simp: editRule_def d_def Let_def)
      moreover have "set ((fw_rules S)[i := ?r]) \<subseteq> insert ?r (set (fw_rules S))" by (rule set_update_subset_insert)
      ultimately show ?thesis using r assms(1) by (auto simp: rules_ok_def)
    qed
  qed
qed

lemma update_first_in: "x \<in> set (update_first P f xs) \<Longrightarrow> x \<in> set xs \<or> (\<exists>y\<in>set xs. P y \<and> x = f y)"
  by (induction xs) (auto split: if_splits)

lemma update_first_append: "\<forall>x\<in>set xs. \<not> P x \<Longrightarrow> P y \<Longrightarrow> update_first P f (xs @ [y]) = xs @ [f y]"
  by (induction xs) auto

lemma quick_new_sources: "rule_ok (add_source src (quick_new rid name S))" if "source_ok src" "one_text name"
proof -
  have "source_ok (src\<lparr>so_note_first := True\<rparr>)" using that(1) by (simp add: source_ok_def)
  with that(2) one_text_star show ?thesis
    unfolding rule_ok_def add_source_def quick_new_def frule.simps by (simp add: new_keys del: list.map)
qed

lemma add_source_ok: "rule_ok r \<Longrightarrow> source_ok src \<Longrightarrow> rule_ok (add_source src r)"
  by (auto simp: rule_ok_def add_source_def source_ok_def)

lemma quickBlock_ok: "rules_ok S \<Longrightarrow> source_ok src \<Longrightarrow> one_text name \<Longrightarrow> rules_ok (quickBlock rid name src S)"
proof -
  assume a: "rules_ok S" "source_ok src" "one_text name"
  show ?thesis
  proof (cases "list_ex (is_quick S name) (fw_rules S)")
    case True
    with a show ?thesis by (auto simp: rules_ok_def quickBlock_def add_source_ok dest!: update_first_in)
  next
    case False
    then have "\<forall>r\<in>set (fw_rules S). \<not> is_quick S name r" by (simp add: list_ex_iff)
    moreover have "is_quick S name (quick_new rid name S)"
      by (simp add: is_quick_def quick_new_def newRuleFrps_def ofFrps_def frps_text_def)
    ultimately have "update_first (is_quick S name) (add_source src) (fw_rules S @ [quick_new rid name S])
        = fw_rules S @ [add_source src (quick_new rid name S)]"
      by (rule update_first_append)
    with a False quick_new_sources show ?thesis by (auto simp: rules_ok_def quickBlock_def)
  qed
qed

lemma subscribe_ok: "rules_ok S \<Longrightarrow> one_text (l_name l) \<Longrightarrow> l_id l \<noteq> [] \<Longrightarrow> rules_ok (subscribe rid go l S)"
  using one_text_star
  by (auto simp: rules_ok_def subscribe_def rule_ok_def new_keys simp del: list.map)

lemma removeRule_ok: "rules_ok S \<Longrightarrow> rules_ok (removeRule i S)"
  by (auto simp: rules_ok_def removeRule_def dest: in_set_takeD in_set_dropD)

lemma switch_rule_ok: "rules_ok S \<Longrightarrow> i < length (fw_rules S) \<Longrightarrow> rules_ok (switch_rule i x S)"
proof -
  assume a: "rules_ok S" "i < length (fw_rules S)"
  then have "rule_ok ((fw_rules S ! i)\<lparr>r_enabled := x\<rparr>)" by (auto simp: rules_ok_def rule_ok_def)
  with a show ?thesis
    using set_update_subset_insert [of "fw_rules S" i "(fw_rules S ! i)\<lparr>r_enabled := x\<rparr>"]
    by (auto simp: rules_ok_def switch_rule_def)
qed

lemma load_ok: "rules_ok S \<Longrightarrow> (\<And>e rs fs ip. answer = Some (e, rs, fs, ip) \<Longrightarrow> \<forall>r\<in>set rs. rule_ok r)
    \<Longrightarrow> rules_ok (fst (load_f answer saved S))"
  by (auto simp: rules_ok_def load_f_def Let_def split: option.splits list.splits)

lemma fw_step_ok: "fw_step S S' \<Longrightarrow> rules_ok S \<Longrightarrow> rules_ok S'"
proof (induction rule: fw_step.induct)
  case (loaded answer saved S)
  show ?case by (rule load_ok [OF loaded.prems loaded.hyps])
next
  case (edit f at S rid)
  show ?case by (rule editRule_ok [OF edit.prems edit.hyps])
qed (simp_all add: removeRule_ok switch_rule_ok quickBlock_ok subscribe_ok, simp_all add: rules_ok_def discard_f_def switch_all_def)

lemma fw_run_ok: "fw_step\<^sup>*\<^sup>* S S' \<Longrightarrow> rules_ok S \<Longrightarrow> rules_ok S'"
  by (induction rule: rtranclp_induct) (auto intro: fw_step_ok)
subsection \<open>Ports of a rule\<close>

text \<open>The ports a specification names, when its bounds are numbers in order.\<close>

definition spec_ports :: "jstr \<Rightarrow> int set" where
  "spec_ports spec = {n. \<exists>a b. (Whole a, Whole b) \<in> set (parseSpec spec) \<and> a \<le> n \<and> n \<le> b}"

definition spec_ordered :: "jstr \<Rightarrow> bool" where
  "spec_ordered spec \<longleftrightarrow> (\<forall>(a, b)\<in>set (parseSpec spec). \<exists>i j. a = Whole i \<and> b = Whole j \<and> i \<le> j)"

lemma covers_ports:
  assumes "r_ports r \<noteq> lit ''*''" "fp_start p \<le> fp_end p" "spec_ordered (r_ports r)"
  shows "ruleCovers r p \<longleftrightarrow> {fp_start p..fp_end p} \<inter> spec_ports (r_ports r) \<noteq> {}"
proof
  assume "ruleCovers r p"
  then obtain a b where ab: "(a, b) \<in> set (parseSpec (r_ports r))" "num_le a (Whole (fp_end p))" "num_le (Whole (fp_start p)) b"
    using assms(1) by (auto simp: ruleCovers_def list_ex_iff)
  then obtain i j where ij: "a = Whole i" "b = Whole j" "i \<le> j" using assms(3) unfolding spec_ordered_def by blast
  then have "max i (fp_start p) \<le> j" "i \<le> max i (fp_start p)" "(Whole i, Whole j) \<in> set (parseSpec (r_ports r))"
    using ab by (auto simp: num_le_def)
  then have "max i (fp_start p) \<in> spec_ports (r_ports r)" unfolding spec_ports_def by blast
  moreover have "max i (fp_start p) \<in> {fp_start p..fp_end p}" using ab(2) ij assms(2) by (simp add: num_le_def)
  ultimately show "{fp_start p..fp_end p} \<inter> spec_ports (r_ports r) \<noteq> {}" by blast
next
  assume "{fp_start p..fp_end p} \<inter> spec_ports (r_ports r) \<noteq> {}"
  then obtain n i j where "(Whole i, Whole j) \<in> set (parseSpec (r_ports r))" "i \<le> n" "n \<le> j" "fp_start p \<le> n" "n \<le> fp_end p"
    by (auto simp: spec_ports_def)
  then show "ruleCovers r p" using assms(1)
    by (auto simp: ruleCovers_def list_ex_iff num_le_def intro!: bexI [of _ "(Whole i, Whole j)"])
qed

subsection \<open>Quick blocks\<close>

lemma quick_after: "is_quick S name r \<Longrightarrow> is_quick S name (add_source src r)"
  by (simp add: is_quick_def add_source_def)

lemma add_source_label: "\<exists>x\<in>set (r_sources (add_source src r)). sourceLabel x = sourceLabel src"
  by (auto simp: add_source_def list_ex_iff sourceLabel_def)

lemma add_source_again: "add_source src (add_source src r) = add_source src r"
proof -
  have "list_ex (\<lambda>x. sourceLabel x = sourceLabel src) (r_sources (add_source src r))"
    using add_source_label [of src r] by (simp add: list_ex_iff)
  then show ?thesis by (simp add: add_source_def)
qed

lemma update_first_again: "(\<And>x. P x \<Longrightarrow> P (f x)) \<Longrightarrow> (\<And>x. f (f x) = f x) \<Longrightarrow> update_first P f (update_first P f xs) = update_first P f xs"
  by (induction xs) auto

lemma update_first_ex: "list_ex P xs \<Longrightarrow> (\<And>x. P x \<Longrightarrow> P (f x)) \<Longrightarrow> \<exists>x\<in>set xs. P x \<and> f x \<in> set (update_first P f xs)"
  by (induction xs) auto

lemma quick_new_quick: "is_quick S name (quick_new rid name S)"
  by (simp add: is_quick_def quick_new_def newRuleFrps_def ofFrps_def frps_text_def)

lemma is_quick_page [simp]: "is_quick (S\<lparr>fw_rules := x\<rparr>) name = is_quick S name"
  by (rule ext) (simp add: is_quick_def ofFrps_def)

lemma quickBlock_blocks:
  fixes rid name :: jstr and src :: source and S :: fpage
  defines "S' \<equiv> quickBlock rid name src S"
  shows "\<exists>r\<in>set (fw_rules S'). r_enabled r \<and> is_quick S' name r \<and> shownRule S' r \<and> (\<exists>x\<in>set (r_sources r). sourceLabel x = sourceLabel src)"
    and "quickBlock rid' name src S' = S'"
proof -
  let ?rs = "if list_ex (is_quick S name) (fw_rules S) then fw_rules S else fw_rules S @ [quick_new rid name S]"
  have ex: "list_ex (is_quick S name) ?rs" using quick_new_quick by simp
  obtain r where r: "is_quick S name r" "add_source src r \<in> set (update_first (is_quick S name) (add_source src) ?rs)"
    using update_first_ex [of "is_quick S name" ?rs "add_source src", OF ex quick_after] by blast
  have S': "S' = S\<lparr>fw_rules := update_first (is_quick S name) (add_source src) ?rs\<rparr>" by (simp add: S'_def quickBlock_def)
  have q: "is_quick S name (add_source src r)" by (rule quick_after [OF r(1)])
  then have "shownRule S' (add_source src r)" by (simp add: S' shownRule_def is_quick_def ofFrps_def)
  moreover have "r_enabled (add_source src r)" by (simp add: add_source_def)
  ultimately show "\<exists>r\<in>set (fw_rules S'). r_enabled r \<and> is_quick S' name r \<and> shownRule S' r \<and> (\<exists>x\<in>set (r_sources r). sourceLabel x = sourceLabel src)"
    using r(2) q add_source_label [of src r] unfolding S' by auto
  have "list_ex (is_quick S name) (update_first (is_quick S name) (add_source src) ?rs)"
    by (rule list_ex_iff [THEN iffD2]) (use r(2) q in blast)
  then show "quickBlock rid' name src S' = S'"
    using update_first_again [of "is_quick S name" "add_source src" ?rs, OF quick_after add_source_again]
    by (simp add: S' quickBlock_def)
qed

subsection \<open>Properties\<close>

text \<open>C23. From rules as the server gives them, every sequence of operations of the page keeps each rule well
  formed: texts on one line without outer blanks, sources that their text reads back, the optional keys there
  exactly when they have a value, and never a blocking rule with nothing to block.\<close>

theorem firewall_rules_typed: "fw_step\<^sup>*\<^sup>* S S' \<Longrightarrow> rules_ok S \<Longrightarrow> rules_ok S'"
  by (rule fw_run_ok)

definition ex_fpage :: fpage where
  "ex_fpage = \<lparr>d_enabled = True, d_rules = [], d_frps = [lit ''frps''], d_client_ip = [], fw_frps = lit ''frps'',
     fw_enabled = True, fw_rules = [], fw_snapshot = Some (True, [])\<rparr>"

definition ex_source :: source where
  "ex_source = \<lparr>so_addr = Asn 64500, so_note = lit ''scan'', so_note_first = False\<rparr>"

lemma ex_source_ok: "source_ok ex_source"
  by (simp add: source_ok_def ex_source_def one_text_def lit_simps) (simp add: trim_fixed unit_defs)

lemma ex_quick_step: "fw_step ex_fpage (quickBlock (lit ''1a'') (lit ''Quick'') ex_source ex_fpage)"
proof (rule fw_step.quick [OF ex_source_ok])
  show "one_text (lit ''Quick'')" by (simp add: one_text_def lit_simps) (simp add: trim_fixed unit_defs)
qed

theorem firewall_rules_typed_witness: "rules_ok (quickBlock (lit ''1a'') (lit ''Quick'') ex_source ex_fpage)"
proof (rule firewall_rules_typed)
  show "fw_step\<^sup>*\<^sup>* ex_fpage (quickBlock (lit ''1a'') (lit ''Quick'') ex_source ex_fpage)"
    by (rule r_into_rtranclp) (rule ex_quick_step)
qed (simp add: rules_ok_def ex_fpage_def)


definition ex_rule :: frule where
  "ex_rule = \<lparr>r_id = lit ''a1'', r_name = lit ''Home'', r_mode = lit ''allow'', r_ports = lit ''7000'', r_sources = [ex_source],
     r_enabled = True, r_frps = Some (lit ''frps''), r_list = None, r_keys = map lit [''enabled'', ''frps'', ''id'']\<rparr>"

lemma ex_rule_ok: "rule_ok ex_rule"
  using ex_source_ok
  by (simp add: rule_ok_def ex_rule_def one_text_def key_iff_def lit_simps) (simp add: trim_fixed unit_defs)


text \<open>The page shows a rule beside a port exactly when the ports of the rule and those of the entry have a
  port in common, for specifications whose bounds are in order.\<close>

theorem rule_covers_ports:
  assumes "r_ports r \<noteq> lit ''*''" "fp_start p \<le> fp_end p" "spec_ordered (r_ports r)"
  shows "ruleCovers r p \<longleftrightarrow> {fp_start p..fp_end p} \<inter> spec_ports (r_ports r) \<noteq> {}"
  by (rule covers_ports [OF assms])

lemma ex_spec: "parseSpec (lit ''7000, 8000-8100'') = [(Whole 7000, Whole 7000), (Whole 8000, Whole 8100)]"
  by code_simp

theorem rule_covers_ports_witness:
  "ruleCovers (ex_rule\<lparr>r_ports := lit ''7000, 8000-8100''\<rparr>) \<lparr>fp_start = 8100, fp_end = 8200, fp_frps = []\<rparr>"
proof -
  let ?r = "ex_rule\<lparr>r_ports := lit ''7000, 8000-8100''\<rparr>" and ?p = "\<lparr>fp_start = 8100, fp_end = 8200, fp_frps = []\<rparr>"
  have "r_ports ?r \<noteq> lit ''*''" by (simp add: lit_simps)
  moreover have "spec_ordered (r_ports ?r)" by (simp add: spec_ordered_def ex_spec)
  moreover have "(Whole 8000, Whole 8100) \<in> set (parseSpec (r_ports ?r))" by (simp add: ex_spec)
  then have "8100 \<in> spec_ports (r_ports ?r)" unfolding spec_ports_def by fastforce
  then have "8100 \<in> {fp_start ?p..fp_end ?p} \<inter> spec_ports (r_ports ?r)" by simp
  then have "{fp_start ?p..fp_end ?p} \<inter> spec_ports (r_ports ?r) \<noteq> {}" by blast
  ultimately show ?thesis using rule_covers_ports [of ?r ?p] by simp
qed

text \<open>After a quick block of an address or an operator, a rule the page shows is enabled, blocks every port
  and has this source; the same quick block again changes nothing.\<close>

theorem quick_block_once:
  "(\<exists>r\<in>set (fw_rules (quickBlock rid name src S)). r_enabled r \<and> r_mode r = lit ''block'' \<and> r_ports r = lit ''*''
      \<and> shownRule (quickBlock rid name src S) r \<and> (\<exists>x\<in>set (r_sources r). sourceLabel x = sourceLabel src))
    \<and> quickBlock rid' name src (quickBlock rid name src S) = quickBlock rid name src S"
  using quickBlock_blocks(1) [of rid name src S] quickBlock_blocks(2) [of rid' name src rid S] by (auto simp: is_quick_def)

end
