(* ===== verification/Page_Firewall_Feed.thy ===== *)
theory Page_Firewall_Feed imports Main begin

text \<open>
  The blocked connections of the firewall page (\<open>blockedSection\<close> of \<open>pages/firewall.js\<close>): a WebSocket, a
  request every five seconds while there is none, new attempts with growing delays, and the end of it all
  when the page is left. The handlers are functions on the variables of the section; the browser decides
  which event comes next (\<open>feed_step\<close>): a socket opens only while it is connecting, ends at most once, a
  timer fires only while it is set. The rows shown are in \<open>View_Firewall\<close>, here only which of the texts is shown.
\<close>

subsection \<open>Answers and what is shown\<close>

record answer =
  a_ok :: bool
  a_msg :: bool
  a_available :: bool
  a_entries :: nat
  a_total :: nat

datatype shown = ServerMessage | GenericError | Unavailable | Empty | Table nat bool

text \<open>\<open>show\<close>: a table says whether there are more entries than it has.\<close>

definition shown_for :: "answer \<Rightarrow> shown" where
  "shown_for d = (if \<not> a_ok d then (if a_msg d then ServerMessage else GenericError)
     else if \<not> a_available d then Unavailable
     else if a_entries d = 0 then Empty
     else Table (a_entries d) (a_total d > a_entries d))"

subsection \<open>State\<close>

text \<open>The sockets made so far, in order: \<open>Closing\<close> after \<open>close()\<close>. \<open>f_ws\<close> is the current one.\<close>

datatype sock = Connecting | Opened | Closing | Ended

record feed =
  f_ws :: "nat option"
  f_socks :: "sock list"
  f_poll :: bool
  f_retry :: "nat option"
  f_ago :: bool
  f_fails :: nat
  f_stopped :: bool
  f_pill :: bool
  f_last :: "answer option"

definition WS_MAX_FAILS :: nat where "WS_MAX_FAILS = 3"

definition startPolling :: "feed \<Rightarrow> feed" where
  "startPolling F = F\<lparr>f_poll := True\<rparr>"

text \<open>\<open>ws\<close>: the browser has WebSocket.\<close>

definition connect :: "bool \<Rightarrow> feed \<Rightarrow> feed" where
  "connect ws F = (if f_stopped F \<or> \<not> ws then startPolling F
     else F\<lparr>f_ws := Some (length (f_socks F)), f_socks := f_socks F @ [Connecting]\<rparr>)"

definition on_open :: "nat \<Rightarrow> feed \<Rightarrow> feed" where
  "on_open i F = F\<lparr>f_socks := (f_socks F)[i := Opened], f_fails := 0, f_pill := True, f_poll := False\<rparr>"

definition receive :: "answer \<Rightarrow> feed \<Rightarrow> feed" where
  "receive d F = F\<lparr>f_last := Some d\<rparr>"

definition on_message :: "answer option \<Rightarrow> feed \<Rightarrow> feed" where
  "on_message d F = (case d of Some a \<Rightarrow> receive a F | None \<Rightarrow> F)"

definition retry_delay :: "nat \<Rightarrow> nat" where
  "retry_delay fails = min 30000 (1000 * 2 ^ fails)"

definition on_close :: "nat \<Rightarrow> feed \<Rightarrow> feed" where
  "on_close i F =
     (let opened = (f_socks F ! i = Opened); F1 = F\<lparr>f_socks := (f_socks F)[i := Ended]\<rparr>
      in if f_ws F \<noteq> Some i \<or> f_stopped F then F1
         else (let F2 = startPolling (F1\<lparr>f_ws := None, f_pill := False\<rparr>);
                   fails = (if opened then f_fails F else Suc (f_fails F));
                   F3 = F2\<lparr>f_fails := fails\<rparr>
               in if \<not> opened \<and> fails \<ge> WS_MAX_FAILS then F3
                  else F3\<lparr>f_retry := Some (retry_delay fails)\<rparr>))"

definition on_retry :: "bool \<Rightarrow> feed \<Rightarrow> feed" where
  "on_retry ws F = connect ws (F\<lparr>f_retry := None\<rparr>)"

definition stop :: "feed \<Rightarrow> feed" where
  "stop F = (let F1 = F\<lparr>f_stopped := True, f_ago := False, f_poll := False, f_retry := None\<rparr>
     in case f_ws F of None \<Rightarrow> F1 | Some i \<Rightarrow> F1\<lparr>f_ws := None, f_socks := (f_socks F)[i := Closing]\<rparr>)"

definition start_feed :: "bool \<Rightarrow> feed" where
  "start_feed ws = connect ws \<lparr>f_ws = None, f_socks = [], f_poll = False, f_retry = None, f_ago = True, f_fails = 0,
     f_stopped = False, f_pill = False, f_last = None\<rparr>"

subsection \<open>Events\<close>

inductive feed_step :: "bool \<Rightarrow> feed \<Rightarrow> feed \<Rightarrow> bool" for ws where
  opens: "i < length (f_socks F) \<Longrightarrow> f_socks F ! i = Connecting \<Longrightarrow> feed_step ws F (on_open i F)"
| message: "i < length (f_socks F) \<Longrightarrow> f_socks F ! i = Opened \<Longrightarrow> feed_step ws F (on_message d F)"
| polled: "f_poll F \<Longrightarrow> feed_step ws F (receive d F)"
| ends: "i < length (f_socks F) \<Longrightarrow> f_socks F ! i \<noteq> Ended \<Longrightarrow> feed_step ws F (on_close i F)"
| retry: "f_retry F \<noteq> None \<Longrightarrow> feed_step ws F (on_retry ws F)"
| left: "feed_step ws F (stop F)"

inductive feed_reached :: "bool \<Rightarrow> feed \<Rightarrow> bool" for ws where
  start: "feed_reached ws (start_feed ws)"
| step: "feed_reached ws F \<Longrightarrow> feed_step ws F F' \<Longrightarrow> feed_reached ws F'"

subsection \<open>Invariant\<close>

text \<open>Left: no timer is set and no socket is current. Open: the badge is shown and nothing is polled. Neither:
  requests are sent, and a new attempt is planned unless three in a row never opened.\<close>

definition left_ok :: "feed \<Rightarrow> bool" where
  "left_ok F \<longleftrightarrow> \<not> f_poll F \<and> f_retry F = None \<and> \<not> f_ago F \<and> f_ws F = None
     \<and> (\<forall>i<length (f_socks F). f_socks F ! i \<in> {Closing, Ended})"

definition socket_ok :: "feed \<Rightarrow> nat \<Rightarrow> bool" where
  "socket_ok F i \<longleftrightarrow> i < length (f_socks F) \<and> f_socks F ! i \<in> {Connecting, Opened} \<and> f_retry F = None
     \<and> f_fails F < WS_MAX_FAILS \<and> (f_pill F \<longleftrightarrow> f_socks F ! i = Opened) \<and> (f_socks F ! i = Opened \<longrightarrow> \<not> f_poll F \<and> f_fails F = 0)"

definition polling_ok :: "bool \<Rightarrow> feed \<Rightarrow> bool" where
  "polling_ok ws F \<longleftrightarrow> f_poll F \<and> \<not> f_pill F \<and> (f_retry F \<noteq> None \<longrightarrow> f_fails F < WS_MAX_FAILS)
     \<and> (ws \<longrightarrow> f_retry F \<noteq> None \<or> f_fails F = WS_MAX_FAILS)"

definition feed_ok :: "bool \<Rightarrow> feed \<Rightarrow> bool" where
  "feed_ok ws F \<longleftrightarrow>
     (if f_stopped F then left_ok F
      else f_ago F \<and> (\<forall>j<length (f_socks F). f_ws F \<noteq> Some j \<longrightarrow> f_socks F ! j = Ended)
        \<and> (case f_ws F of Some i \<Rightarrow> socket_ok F i | None \<Rightarrow> polling_ok ws F))"

lemmas feed_defs = feed_ok_def left_ok_def socket_ok_def polling_ok_def

lemma start_feed_ok: "feed_ok ws (start_feed ws)"
  by (simp add: feed_defs start_feed_def connect_def startPolling_def WS_MAX_FAILS_def)

lemma connecting_is_current: "feed_ok ws F \<Longrightarrow> i < length (f_socks F) \<Longrightarrow> f_socks F ! i \<in> {Connecting, Opened}
    \<Longrightarrow> \<not> f_stopped F \<and> f_ws F = Some i"
proof -
  assume a: "feed_ok ws F" "i < length (f_socks F)" "f_socks F ! i \<in> {Connecting, Opened}"
  then have "f_socks F ! i \<noteq> Closing" "f_socks F ! i \<noteq> Ended" by auto
  with a(1,2) have "\<not> f_stopped F" by (auto simp: feed_ok_def left_ok_def)
  with a(1,2) \<open>f_socks F ! i \<noteq> Ended\<close> show ?thesis by (auto simp: feed_ok_def)
qed

lemma on_open_ok: "feed_ok ws F \<Longrightarrow> i < length (f_socks F) \<Longrightarrow> f_socks F ! i = Connecting \<Longrightarrow> feed_ok ws (on_open i F)"
proof -
  assume a: "feed_ok ws F" "i < length (f_socks F)" "f_socks F ! i = Connecting"
  then have "\<not> f_stopped F" "f_ws F = Some i" using connecting_is_current [of ws F i] by simp_all
  with a(1,2) show ?thesis by (simp add: feed_defs on_open_def WS_MAX_FAILS_def nth_list_update)
qed

lemma on_close_ok: "feed_ok ws F \<Longrightarrow> i < length (f_socks F) \<Longrightarrow> f_socks F ! i \<noteq> Ended \<Longrightarrow> feed_ok ws (on_close i F)"
proof (cases "f_stopped F")
  case True
  assume "feed_ok ws F" "i < length (f_socks F)"
  with True show ?thesis by (auto simp: feed_defs on_close_def Let_def nth_list_update)
next
  case False
  assume a: "feed_ok ws F" "i < length (f_socks F)" "f_socks F ! i \<noteq> Ended"
  then have cur: "f_ws F = Some i" using False by (auto simp: feed_ok_def)
  with a False have s: "socket_ok F i" "f_ago F" "\<forall>j<length (f_socks F). j \<noteq> i \<longrightarrow> f_socks F ! j = Ended"
    by (auto simp: feed_ok_def)
  then show ?thesis using False cur
    by (auto simp: feed_defs on_close_def startPolling_def Let_def nth_list_update WS_MAX_FAILS_def)
qed

lemma on_retry_ok: "feed_ok ws F \<Longrightarrow> f_retry F \<noteq> None \<Longrightarrow> feed_ok ws (on_retry ws F)"
  by (auto simp: feed_defs on_retry_def connect_def startPolling_def nth_append less_Suc_eq split: if_splits option.splits)

lemma stop_ok: "feed_ok ws F \<Longrightarrow> feed_ok ws (stop F)"
  by (auto simp: feed_defs stop_def Let_def nth_list_update split: if_splits option.splits)

lemma receive_ok: "feed_ok ws F \<Longrightarrow> feed_ok ws (receive d F)"
  by (auto simp: feed_defs receive_def split: if_splits option.splits)

lemma feed_step_ok: "feed_step ws F F' \<Longrightarrow> feed_ok ws F \<Longrightarrow> feed_ok ws F'"
  by (induction rule: feed_step.induct)
    (simp_all add: on_open_ok on_close_ok on_retry_ok stop_ok receive_ok on_message_def split: option.split)

lemma feed_reached_ok: "feed_reached ws F \<Longrightarrow> feed_ok ws F"
  by (induction rule: feed_reached.induct) (auto intro: start_feed_ok feed_step_ok)

text \<open>A page that was left stays left.\<close>

lemma stopped_for_good: "feed_step ws F F' \<Longrightarrow> feed_ok ws F \<Longrightarrow> f_stopped F \<Longrightarrow> f_stopped F'"
  by (induction rule: feed_step.induct)
    (auto simp: feed_defs on_open_def on_message_def receive_def on_close_def startPolling_def on_retry_def connect_def
      stop_def Let_def split: option.splits)

lemma stopped_run: "(feed_step ws)\<^sup>*\<^sup>* F F' \<Longrightarrow> feed_ok ws F \<Longrightarrow> f_stopped F \<Longrightarrow> f_stopped F' \<and> feed_ok ws F'"
  by (induction rule: rtranclp_induct) (auto intro: feed_step_ok stopped_for_good)

subsection \<open>Properties\<close>

text \<open>C26. While the page is open the blocked connections keep coming, by one way at a time: a current socket
  that is connecting or open, with the badge and without requests once it is open, or else requests every
  five seconds, with a new attempt planned unless three in a row never opened. After the page is left no
  timer is set, no socket is current, and nothing ever starts again.\<close>

theorem feed_keeps_coming:
  assumes "feed_reached ws F"
  shows "(\<not> f_stopped F \<longrightarrow> (case f_ws F of
        Some i \<Rightarrow> i < length (f_socks F) \<and> f_socks F ! i \<in> {Connecting, Opened} \<and> (f_pill F \<longleftrightarrow> f_socks F ! i = Opened)
          \<and> (f_socks F ! i = Opened \<longrightarrow> \<not> f_poll F)
      | None \<Rightarrow> f_poll F \<and> \<not> f_pill F \<and> (ws \<longrightarrow> f_retry F \<noteq> None \<or> f_fails F = WS_MAX_FAILS)))
    \<and> (\<forall>F'. (feed_step ws)\<^sup>*\<^sup>* (stop F) F' \<longrightarrow> \<not> f_poll F' \<and> f_retry F' = None \<and> \<not> f_ago F' \<and> f_ws F' = None)"
proof -
  have ok: "feed_ok ws F" by (rule feed_reached_ok [OF assms])
  have st: "f_stopped (stop F)" by (simp add: stop_def Let_def split: option.split)
  have left: "left_ok F'" if "(feed_step ws)\<^sup>*\<^sup>* (stop F) F'" for F'
    using stopped_run [OF that stop_ok [OF ok] st] by (simp add: feed_ok_def)
  show ?thesis using ok left by (auto simp: feed_ok_def left_ok_def socket_ok_def polling_ok_def split: option.splits)
qed

theorem feed_keeps_coming_witness:
  "f_poll (on_close 0 (start_feed True)) \<and> f_retry (on_close 0 (start_feed True)) \<noteq> None"
proof -
  have s: "f_socks (start_feed True) = [Connecting]" "f_ws (start_feed True) = Some 0" "\<not> f_stopped (start_feed True)"
    "f_fails (start_feed True) = 0"
    by (simp_all add: start_feed_def connect_def)
  have r: "feed_reached True (on_close 0 (start_feed True))"
    by (rule feed_reached.step [OF feed_reached.start feed_step.ends]) (simp_all add: s)
  have c: "f_ws (on_close 0 (start_feed True)) = None" "\<not> f_stopped (on_close 0 (start_feed True))"
    "f_fails (on_close 0 (start_feed True)) = 1"
    by (simp_all add: on_close_def Let_def s startPolling_def WS_MAX_FAILS_def)
  show ?thesis using feed_keeps_coming [OF r] c by (simp add: WS_MAX_FAILS_def)
qed

end
