(* ===== verification/Panel_I18n.thy ===== *)
theory Panel_I18n imports Js_Text Toml_Addr begin

text \<open>
  Translated texts (\<open>i18n.js\<close>) and the HTTP client (\<open>api.js\<close>). A dictionary is a tree; the dictionaries, the
  plural rules of a language (\<open>Intl\<close>) and the answers of the server are arguments. The values of the
  parameters are texts; the warning on the console is not modelled, the texts put in the page are in
  \<open>Panel_Shell\<close>.
\<close>

subsection \<open>Dictionaries\<close>

datatype dict = Txt jstr | Node "(jstr \<times> dict) list"

text \<open>\<open>undefined\<close> is \<open>None\<close>; the keys of the source never name a property every object inherits.\<close>

definition member :: "dict option \<Rightarrow> jstr \<Rightarrow> dict option" where
  "member d k = (case d of Some (Node ds) \<Rightarrow> map_of ds k | _ \<Rightarrow> None)"

definition lookup :: "dict \<Rightarrow> jstr \<Rightarrow> dict option" where
  "lookup d key = foldl member (Some d) (split_on c_dot key)"

definition hasKey :: "dict \<Rightarrow> dict \<Rightarrow> jstr \<Rightarrow> bool" where
  "hasKey d fb key \<longleftrightarrow> lookup d key \<noteq> None \<or> lookup fb key \<noteq> None"

subsection \<open>Texts with parameters\<close>

text \<open>\<open>/\{(\w+)\}/\<close> at the start of a text: the name, and what follows.\<close>

definition placeholder :: "jstr \<Rightarrow> (jstr \<times> jstr) option" where
  "placeholder s = (case s of
     c # r \<Rightarrow> (let name = takeWhile is_word r; rest = dropWhile is_word r
       in if c = c_lc \<and> name \<noteq> [] \<and> rest \<noteq> [] \<and> hd rest = c_rc then Some (name, tl rest) else None)
   | [] \<Rightarrow> None)"

lemma placeholder_shorter: "placeholder s = Some (n, r) \<Longrightarrow> length r < length s"
  by (auto simp: placeholder_def Let_def dest!: arg_cong [of _ _ length] split: list.splits if_splits)
    (metis Suc_le_eq diff_le_self le_SucI length_dropWhile_le less_Suc_eq_le order.trans)

text \<open>Replaced when the parameter is there, kept as it is otherwise.\<close>

function interpolate :: "(jstr \<times> jstr) list \<Rightarrow> jstr \<Rightarrow> jstr" where
  "interpolate ps [] = []"
| "interpolate ps (c # s) = (case placeholder (c # s) of
     Some (name, rest) \<Rightarrow> (case map_of ps name of Some v \<Rightarrow> v | None \<Rightarrow> [c_lc] @ name @ [c_rc]) @ interpolate ps rest
   | None \<Rightarrow> c # interpolate ps s)"
  by pat_completeness auto
termination
  by (relation "measure (\<lambda>(ps, s). length s)") (auto dest: placeholder_shorter)

text \<open>\<open>Number(params.count) || 0\<close>, and the text of a plural: its rule, else \<open>other\<close>, else nothing.\<close>

definition count_of_params :: "(jstr \<times> jstr) list \<Rightarrow> int" where
  "count_of_params ps = (case map_of ps (lit ''count'') of None \<Rightarrow> 0
     | Some v \<Rightarrow> (case toNumber v of Whole i \<Rightarrow> i | NaN \<Rightarrow> 0))"

definition dict_text :: "dict \<Rightarrow> jstr" where
  "dict_text d = (case d of Txt s \<Rightarrow> s | Node _ \<Rightarrow> lit ''[object Object]'')"

definition plural_text :: "(int \<Rightarrow> jstr) \<Rightarrow> (jstr \<times> dict) list \<Rightarrow> (jstr \<times> jstr) list \<Rightarrow> jstr" where
  "plural_text rule ds ps = (case map_of ds (rule (count_of_params ps)) of Some d \<Rightarrow> dict_text d
     | None \<Rightarrow> (case map_of ds (lit ''other'') of Some d \<Rightarrow> dict_text d | None \<Rightarrow> []))"

text \<open>\<open>t\<close>: the text of the language, else of the fallback language, else the key.\<close>

definition translate :: "(int \<Rightarrow> jstr) \<Rightarrow> dict \<Rightarrow> dict \<Rightarrow> jstr \<Rightarrow> (jstr \<times> jstr) list \<Rightarrow> jstr" where
  "translate rule d fb key ps =
     (case (case lookup d key of Some v \<Rightarrow> Some v | None \<Rightarrow> lookup fb key) of
        None \<Rightarrow> key
      | Some (Txt s) \<Rightarrow> interpolate ps s
      | Some (Node ds) \<Rightarrow> interpolate ps (plural_text rule ds ps))"

subsection \<open>Language\<close>

definition LOCALES :: "jstr list" where
  "LOCALES = [lit ''fr'', lit ''en'']"

definition PREVIEW_LOCALES :: "jstr list" where
  "PREVIEW_LOCALES = []"

definition DEFAULT_LOCALE :: jstr where
  "DEFAULT_LOCALE = lit ''fr''"

text \<open>\<open>LOCALES[code]\<close> is also true for the names every object inherits.\<close>

definition locale_known :: "jstr \<Rightarrow> bool" where
  "locale_known code \<longleftrightarrow> code \<in> set LOCALES \<or> code \<in> set inherited_names"

definition detectLocale :: "jstr option \<Rightarrow> jstr list \<Rightarrow> jstr" where
  "detectLocale saved languages =
     (case (case saved of Some s \<Rightarrow> (if s \<noteq> [] \<and> locale_known s then Some s else None) | None \<Rightarrow> None) of Some s \<Rightarrow> s
       | None \<Rightarrow> (case find (\<lambda>c. locale_known c \<and> c \<notin> set PREVIEW_LOCALES) (map (\<lambda>l. lower (take 2 l)) languages) of
           Some c \<Rightarrow> c | None \<Rightarrow> lit ''en''))"

text \<open>The dictionaries loaded: \<open>load\<close> gives the one of a language, or fails.\<close>

definition initI18n :: "(jstr \<Rightarrow> dict option) \<Rightarrow> jstr \<Rightarrow> (dict \<times> dict) option" where
  "initI18n load locale = (case load DEFAULT_LOCALE of None \<Rightarrow> None
     | Some fb \<Rightarrow> Some (if locale = DEFAULT_LOCALE then fb else case load locale of Some d \<Rightarrow> d | None \<Rightarrow> fb, fb))"

text \<open>The language stored when another one is chosen: unknown codes change nothing.\<close>

definition setLocale :: "jstr \<Rightarrow> jstr option" where
  "setLocale code = (if locale_known code then Some code else None)"

subsection \<open>Requests\<close>

datatype 'a fetched = Net_error | Aborted | Reply nat "'a option"

datatype 'a api_error = Abort_error | Api_error string "nat option" "'a option" "jstr option"

record 'a request_init =
  ri_method :: jstr
  ri_csrf :: bool
  ri_json :: "'a option"
  ri_form :: bool

text \<open>The token goes with every request that is not a read; a form excludes a JSON body.\<close>

definition request_of :: "jstr \<Rightarrow> 'a option \<Rightarrow> bool \<Rightarrow> 'a request_init" where
  "request_of meth body form = \<lparr>ri_method = meth, ri_csrf = (meth \<noteq> lit ''GET''), ri_json = (if form then None else body), ri_form = form\<rparr>"

text \<open>The answer of a request, and whether the browser is sent to the login page.\<close>

definition api :: "jstr \<Rightarrow> 'a fetched \<Rightarrow> ('a api_error + 'a) \<times> bool" where
  "api path f = (case f of
     Net_error \<Rightarrow> (Inl (Api_error ''errors.network'' None None None), False)
   | Aborted \<Rightarrow> (Inl Abort_error, False)
   | Reply status data \<Rightarrow>
       (if status = 401 \<and> \<not> startsWith path (lit ''/api/login'')
        then (Inl (Api_error ''errors.unauthenticated'' None None None), True)
        else (case data of None \<Rightarrow> (Inl (Api_error ''errors.badResponse'' (Some status) None None), False)
          | Some d \<Rightarrow> (Inr d, False))))"

text \<open>\<open>apiOk\<close> refuses an answer that is empty or not \<open>ok\<close>; its message is the one of the server, if any.\<close>

definition apiOk :: "('a \<Rightarrow> bool) \<Rightarrow> ('a \<Rightarrow> jstr) \<Rightarrow> jstr \<Rightarrow> 'a fetched \<Rightarrow> ('a api_error + 'a) \<times> bool" where
  "apiOk ok msg path f = (case api path f of
     (Inl e, r) \<Rightarrow> (Inl e, r)
   | (Inr d, r) \<Rightarrow> (if ok d then Inr d else Inl (Api_error ''errors.generic'' None (Some d) (if msg d \<noteq> [] then Some (msg d) else None)), r))"

subsection \<open>What the texts are made of\<close>

lemma lookup_text_shown: "lookup d key = Some (Txt s) \<Longrightarrow> c_lc \<notin> set s \<Longrightarrow> translate rule d fb key ps = s"
proof -
  have plain: "interpolate ps s = s" if "c_lc \<notin> set s" for s
    using that by (induction s) (simp_all add: placeholder_def Let_def)
  show "lookup d key = Some (Txt s) \<Longrightarrow> c_lc \<notin> set s \<Longrightarrow> translate rule d fb key ps = s"
    by (simp add: translate_def plain)
qed

lemma missing_key_shown: "\<not> hasKey d fb key \<Longrightarrow> translate rule d fb key ps = key"
  by (simp add: hasKey_def translate_def)

end
