(* ===== verification/Panel_Store.thy ===== *)
theory Panel_Store imports Panel_I18n Sort_By begin

text \<open>
  The state the pages share (\<open>store.js\<close>): the instances found by the server, the account and its
  permissions, the lists of instances in use, the connection that pushes the state of the instances, and
  waiting for an instance to run again. What listens to the store is in \<open>Panel_Shell\<close>; the
  collation of two names (\<open>localeCompare\<close>) and the answers of the server are arguments. A status the
  server does not give has all its values empty.
\<close>

subsection \<open>Instances\<close>

record inst =
  i_type :: jstr
  i_source :: jstr
  i_container_name :: jstr
  i_version :: jstr
  i_configured :: bool
  i_binary_found :: bool
  i_running :: bool
  i_enabled :: bool
  i_active :: jstr

text \<open>\<open>seenUsed\<close> is a variable of the module, not a field of the store.\<close>

record store =
  st_ready :: bool
  st_instances :: "(jstr \<times> inst) list"
  st_inDocker :: bool
  st_standalone :: bool
  st_nicknames :: "(jstr \<times> jstr) list"
  st_hasPassword :: bool
  st_update_frp :: bool
  st_update_panel :: bool
  st_me :: "jstr list option"
  st_seenUsed :: "jstr set"

definition can :: "jstr \<Rightarrow> store \<Rightarrow> bool" where
  "can perm S \<longleftrightarrow> (case st_me S of Some permissions \<Rightarrow> perm \<in> set permissions | None \<Rightarrow> False)"

text \<open>frps first, then the order of the names.\<close>

definition id_order :: "(jstr \<Rightarrow> jstr \<Rightarrow> int) \<Rightarrow> jstr \<times> inst \<Rightarrow> jstr \<times> inst \<Rightarrow> int" where
  "id_order coll a b = (if i_type (snd a) \<noteq> i_type (snd b) then (if i_type (snd a) = lit ''frps'' then -1 else 1)
     else coll (fst a) (fst b))"

definition instanceIds :: "(jstr \<Rightarrow> jstr \<Rightarrow> int) \<Rightarrow> (inst \<Rightarrow> jstr \<Rightarrow> bool) \<Rightarrow> (jstr \<times> inst) list \<Rightarrow> jstr list" where
  "instanceIds coll P insts = map fst (sort_by (id_order coll) (filter (\<lambda>(i, x). P x i) insts))"

definition isDocker :: "inst \<Rightarrow> bool" where
  "isDocker x \<longleftrightarrow> i_source x = lit ''docker''"

definition frpcIds :: "(jstr \<Rightarrow> jstr \<Rightarrow> int) \<Rightarrow> store \<Rightarrow> jstr list" where
  "frpcIds coll S = instanceIds coll (\<lambda>x i. i_type x = lit ''frpc'') (st_instances S)"

definition wantedUp :: "inst \<Rightarrow> bool" where
  "wantedUp x \<longleftrightarrow> i_running x \<or> i_enabled x \<or> i_active x \<in> {lit ''activating'', lit ''deactivating'', lit ''reloading''}"

text \<open>An instance seen in use stays in use; asking for the list remembers those it sees.\<close>

definition usedIds :: "(jstr \<Rightarrow> jstr \<Rightarrow> int) \<Rightarrow> jstr \<Rightarrow> (inst \<Rightarrow> bool) \<Rightarrow> store \<Rightarrow> jstr list \<times> store" where
  "usedIds coll ty used S =
     (let seen = st_seenUsed S \<union> fst ` {e \<in> set (st_instances S). i_type (snd e) = ty \<and> used (snd e)}
      in (instanceIds coll (\<lambda>x i. i_type x = ty \<and> i \<in> seen) (st_instances S), S\<lparr>st_seenUsed := seen\<rparr>))"

definition usedFrpcIds :: "(jstr \<Rightarrow> jstr \<Rightarrow> int) \<Rightarrow> store \<Rightarrow> jstr list \<times> store" where
  "usedFrpcIds coll S = usedIds coll (lit ''frpc'') (\<lambda>x. isDocker x \<or> i_configured x \<or> wantedUp x) S"

definition usedFrpsIds :: "(jstr \<Rightarrow> jstr \<Rightarrow> int) \<Rightarrow> store \<Rightarrow> jstr list \<times> store" where
  "usedFrpsIds coll S = usedIds coll (lit ''frps'') (\<lambda>x. isDocker x \<or> wantedUp x) S"

subsection \<open>Names and states shown\<close>

definition text_or :: "jstr \<Rightarrow> jstr \<Rightarrow> jstr" where
  "text_or a b = (if a \<noteq> [] then a else b)"

definition nickname :: "store \<Rightarrow> jstr \<Rightarrow> jstr" where
  "nickname S iid = (case map_of (st_nicknames S) iid of Some n \<Rightarrow> n | None \<Rightarrow> [])"

definition displayName :: "store \<Rightarrow> jstr \<Rightarrow> jstr" where
  "displayName S iid = text_or (nickname S iid)
     (case map_of (st_instances S) iid of Some x \<Rightarrow> (if isDocker x then text_or (i_container_name x) iid else iid) | None \<Rightarrow> iid)"

text \<open>\<open>tr\<close> gives the translated texts.\<close>

definition technicalLabel :: "(jstr \<Rightarrow> jstr) \<Rightarrow> store \<Rightarrow> jstr \<Rightarrow> jstr" where
  "technicalLabel tr S iid =
     (let inst = map_of (st_instances S) iid;
          is_frps = (case inst of Some x \<Rightarrow> i_type x = lit ''frps'' | None \<Rightarrow> False);
          source = (case inst of Some x \<Rightarrow> (if isDocker x then lit ''docker'' else if i_source x = lit ''standalone'' then lit ''standalone'' else lit ''systemd'')
                    | None \<Rightarrow> lit ''systemd'');
          version = (case inst of Some x \<Rightarrow> i_version x | None \<Rightarrow> [])
      in join (lit '', '') ((if nickname S iid \<noteq> [] then [iid] else [])
           @ [tr (lit ''instance.type.'' @ (if is_frps then lit ''frps'' else lit ''frpc'')), tr (lit ''instance.source.'' @ source)]
           @ (if version \<noteq> [] then [lit ''v'' @ version] else [])))"

datatype inst_status = Missing | Running | Stopped

definition statusOf :: "inst option \<Rightarrow> inst_status" where
  "statusOf inst = (case inst of None \<Rightarrow> Missing
     | Some x \<Rightarrow> if \<not> i_binary_found x \<and> \<not> isDocker x then Missing else if i_running x then Running else Stopped)"

subsection \<open>Loading\<close>

text \<open>What the server knows of itself and of the account: in the page, or asked for.\<close>

record boot =
  b_instances :: "(jstr \<times> inst) list"
  b_inDocker :: bool
  b_standalone :: bool
  b_hasPassword :: bool
  b_nicknames :: "(jstr \<times> jstr) list"
  b_me :: "jstr list option"

definition loadBoot :: "boot option \<Rightarrow> store \<Rightarrow> bool \<times> store" where
  "loadBoot b S = (case b of None \<Rightarrow> (False, S)
     | Some d \<Rightarrow> (True, S\<lparr>st_nicknames := b_nicknames d, st_instances := b_instances d, st_inDocker := b_inDocker d,
         st_standalone := b_standalone d, st_hasPassword := b_hasPassword d, st_me := b_me d, st_ready := True\<rparr>))"

definition detect :: "(jstr \<times> inst) list \<Rightarrow> bool \<Rightarrow> bool \<Rightarrow> store \<Rightarrow> store" where
  "detect insts in_docker standalone S =
     S\<lparr>st_instances := insts, st_inDocker := in_docker, st_standalone := standalone, st_ready := True\<rparr>"

text \<open>Failed requests (\<open>None\<close>) leave the store as it is.\<close>

definition loadNicknames :: "(jstr \<times> jstr) list option \<Rightarrow> store \<Rightarrow> store" where
  "loadNicknames d S = (case d of Some n \<Rightarrow> S\<lparr>st_nicknames := n\<rparr> | None \<Rightarrow> S)"

definition loadMe :: "jstr list option option \<Rightarrow> store \<Rightarrow> store" where
  "loadMe d S = (case d of Some u \<Rightarrow> S\<lparr>st_me := u\<rparr> | None \<Rightarrow> S)"

definition loadManagerState :: "bool option \<Rightarrow> store \<Rightarrow> store" where
  "loadManagerState d S = (case d of Some p \<Rightarrow> S\<lparr>st_hasPassword := p\<rparr> | None \<Rightarrow> S)"

text \<open>Answers about the updates: ok, an update is there, frp is installed. A failed request keeps the value.\<close>

definition checkUpdatesQuietly :: "(bool \<times> bool) option \<Rightarrow> (bool \<times> bool \<times> bool) option \<Rightarrow> store \<Rightarrow> store" where
  "checkUpdatesQuietly panel frp S =
     (if \<not> can (lit ''updates.view'') S then S
      else S\<lparr>st_update_panel := (case panel of Some (ok, av) \<Rightarrow> ok \<and> av | None \<Rightarrow> st_update_panel S),
             st_update_frp := (if \<not> st_inDocker S \<or> st_standalone S
               then (case frp of Some (ok, av, installed) \<Rightarrow> ok \<and> av \<and> installed | None \<Rightarrow> st_update_frp S)
               else st_update_frp S)\<rparr>)"

text \<open>The links of the navigation (\<open>main.js\<close>): a page the account may open, and for the ports and the
  firewall an instance in use. A permission \<open>None\<close> is a page for everybody.\<close>

definition canOpen :: "jstr option \<Rightarrow> store \<Rightarrow> bool" where
  "canOpen perm S \<longleftrightarrow> (case perm of None \<Rightarrow> True | Some p \<Rightarrow> can p S)"

definition nav_hidden :: "(jstr \<Rightarrow> jstr \<Rightarrow> int) \<Rightarrow> jstr \<Rightarrow> jstr option \<Rightarrow> store \<Rightarrow> bool \<times> store" where
  "nav_hidden coll page perm S =
     (if \<not> canOpen perm S then (True, S)
      else if page = lit ''ports'' then (if \<not> st_ready S then (True, S) else case usedFrpcIds coll S of (ids, S') \<Rightarrow> (ids = [], S'))
      else if page = lit ''firewall'' then (if \<not> st_ready S then (True, S) else case usedFrpsIds coll S of (ids, S') \<Rightarrow> (ids = [], S'))
      else (False, S))"

subsection \<open>State pushed by the server\<close>

text \<open>The socket is \<open>Some opened\<close>; the delays of the attempts to come are kept. \<open>ls_ws\<close>: the browser has
  WebSocket.\<close>

record link =
  ls_socket :: "bool option"
  ls_retries :: nat
  ls_failed :: nat
  ls_poll :: bool
  ls_planned :: "nat list"

definition MAX_FAILED_OPENINGS :: nat where "MAX_FAILED_OPENINGS = 3"

definition statusLive :: "link \<Rightarrow> bool" where
  "statusLive L \<longleftrightarrow> ls_socket L = Some True"

definition connectStatus :: "bool \<Rightarrow> link \<Rightarrow> link" where
  "connectStatus ws L = (if \<not> ws then L\<lparr>ls_poll := True\<rparr> else L\<lparr>ls_socket := Some False\<rparr>)"

definition socket_opens :: "link \<Rightarrow> link" where
  "socket_opens L = L\<lparr>ls_socket := Some True, ls_retries := 0, ls_failed := 0, ls_poll := False\<rparr>"

definition socket_closes :: "bool \<Rightarrow> link \<Rightarrow> link" where
  "socket_closes opened L =
     (let L1 = L\<lparr>ls_socket := None, ls_poll := True, ls_failed := (if opened then ls_failed L else Suc (ls_failed L))\<rparr>
      in if \<not> opened \<and> ls_failed L1 \<ge> MAX_FAILED_OPENINGS then L1
         else L1\<lparr>ls_retries := Suc (ls_retries L), ls_planned := min 30000 (1000 * 2 ^ ls_retries L) # ls_planned L\<rparr>)"

text \<open>A message that has instances; a refresh asks only when nothing is pushed.\<close>

definition status_message :: "(jstr \<times> inst) list option \<Rightarrow> store \<Rightarrow> store" where
  "status_message d S = (case d of Some i \<Rightarrow> S\<lparr>st_instances := i\<rparr> | None \<Rightarrow> S)"

definition refreshStatus :: "link \<Rightarrow> (jstr \<times> inst) list option \<Rightarrow> store \<Rightarrow> store" where
  "refreshStatus L answer S = (if statusLive L then S else status_message answer S)"

inductive link_step :: "bool \<Rightarrow> link \<Rightarrow> link \<Rightarrow> bool" for ws where
  link_opens: "ls_socket L = Some False \<Longrightarrow> link_step ws L (socket_opens L)"
| link_closes: "ls_socket L = Some opened \<Longrightarrow> link_step ws L (socket_closes opened L)"
| link_retry: "ls_planned L = a @ d # b \<Longrightarrow> link_step ws L (connectStatus ws (L\<lparr>ls_planned := a @ b\<rparr>))"

subsection \<open>Waiting for an instance\<close>

definition running_in :: "jstr \<Rightarrow> (jstr \<times> inst) list \<Rightarrow> bool" where
  "running_in iid insts \<longleftrightarrow> (case map_of insts iid of Some x \<Rightarrow> i_running x | None \<Rightarrow> False)"

text \<open>Without the pushed state: the answers of the attempts in turn; a request that fails or is refused is
  \<open>None\<close>.\<close>

fun wait_polled :: "jstr \<Rightarrow> (jstr \<times> inst) list option list \<Rightarrow> store \<Rightarrow> bool \<times> store" where
  "wait_polled iid [] S = (False, S)"
| "wait_polled iid (d # ds) S = (case d of None \<Rightarrow> wait_polled iid ds S
     | Some insts \<Rightarrow> (let S' = S\<lparr>st_instances := insts\<rparr>
         in if running_in iid insts then (True, S') else wait_polled iid ds S'))"

text \<open>With the pushed state: after the first second, the states that come before the time is up.\<close>

fun wait_pushed :: "jstr \<Rightarrow> (jstr \<times> inst) list list \<Rightarrow> store \<Rightarrow> bool \<times> store" where
  "wait_pushed iid [] S = (False, S)"
| "wait_pushed iid (insts # ds) S = (let S' = S\<lparr>st_instances := insts\<rparr>
     in if running_in iid insts then (True, S') else wait_pushed iid ds S')"

definition waitRunning :: "jstr \<Rightarrow> link \<Rightarrow> nat \<Rightarrow> (nat \<Rightarrow> (jstr \<times> inst) list option) \<Rightarrow> (jstr \<times> inst) list list \<Rightarrow> store \<Rightarrow> bool \<times> store" where
  "waitRunning iid L attempts answers pushed S =
     (if statusLive L then (if running_in iid (st_instances S) then (True, S) else wait_pushed iid pushed S)
      else wait_polled iid (map answers [0..<attempts]) S)"

end
