(* ===== verification/Panel_Store_Facts.thy ===== *)
theory Panel_Store_Facts imports Panel_Store begin

text \<open>
  The lists of instances in use never lose an instance that is still there, waiting for an instance always
  ends with the right answer, and the state of the instances keeps coming.
\<close>

subsection \<open>Instances in use\<close>

lemma set_sort_by_cmp: "set (sort_by cmp xs) = set xs"
proof -
  have "set (sort_into cmp x ys) = insert x (set ys)" for x ys by (induction ys) auto
  then show ?thesis by (induction xs) (simp_all add: sort_by_def)
qed

lemma set_instanceIds: "set (instanceIds coll P insts) = {i. \<exists>x. (i, x) \<in> set insts \<and> P x i}"
  by (force simp: instanceIds_def set_sort_by_cmp)

text \<open>What changes the store between two questions: new instances, an account, and the questions
  themselves.\<close>

inductive store_step :: "(jstr \<Rightarrow> jstr \<Rightarrow> int) \<Rightarrow> store \<Rightarrow> store \<Rightarrow> bool" for coll where
  "store_step coll S (status_message d S)"
| "store_step coll S (detect insts docker standalone S)"
| "store_step coll S (snd (loadBoot b S))"
| "store_step coll S (loadMe u S)"
| "store_step coll S (loadNicknames n S)"
| "store_step coll S (loadManagerState m S)"
| "store_step coll S (checkUpdatesQuietly p f S)"
| "store_step coll S (snd (waitRunning iid L attempts answers pushed S))"
| "store_step coll S (snd (nav_hidden coll page perm S))"
| "store_step coll S (snd (usedFrpcIds coll S))"
| "store_step coll S (snd (usedFrpsIds coll S))"

lemma usedIds_seen: "st_seenUsed S \<subseteq> st_seenUsed (snd (usedIds coll ty used S))"
  by (simp add: usedIds_def Let_def)

lemma usedIds_listed: "i \<in> set (fst (usedIds coll ty used S)) \<Longrightarrow> i \<in> st_seenUsed (snd (usedIds coll ty used S))"
  by (auto simp: usedIds_def Let_def set_instanceIds)

lemma used_now: "(i, x) \<in> set (st_instances S) \<Longrightarrow> i_type x = ty \<Longrightarrow> used x \<Longrightarrow> i \<in> set (fst (usedIds coll ty used S))"
  by (force simp: usedIds_def Let_def set_instanceIds)

lemma wait_seen: "st_seenUsed (snd (waitRunning iid L attempts answers pushed S)) = st_seenUsed S"
proof -
  have "st_seenUsed (snd (wait_polled iid ds S)) = st_seenUsed S" for ds S
    by (induction iid ds S rule: wait_polled.induct) (auto simp: Let_def split: option.splits)
  moreover have "st_seenUsed (snd (wait_pushed iid ds S)) = st_seenUsed S" for ds S
    by (induction iid ds S rule: wait_pushed.induct) (auto simp: Let_def)
  ultimately show ?thesis by (simp add: waitRunning_def)
qed

lemma store_step_seen: "store_step coll S S' \<Longrightarrow> st_seenUsed S \<subseteq> st_seenUsed S'"
proof (induction rule: store_step.induct)
  case (9 S page perm)
  show ?case
    using usedIds_seen [of S coll]
    by (auto simp: nav_hidden_def usedFrpcIds_def usedFrpsIds_def split: prod.split)
      (metis (no_types, lifting) snd_conv subsetD usedIds_seen)+
qed (auto simp: status_message_def detect_def loadBoot_def loadMe_def loadNicknames_def loadManagerState_def
    checkUpdatesQuietly_def wait_seen usedFrpcIds_def usedFrpsIds_def dest: usedIds_seen [THEN subsetD] split: option.splits)

lemma store_run_seen: "(store_step coll)\<^sup>*\<^sup>* S S' \<Longrightarrow> st_seenUsed S \<subseteq> st_seenUsed S'"
  by (induction rule: rtranclp_induct) (auto dest: store_step_seen)

lemma seen_listed:
  assumes "i \<in> st_seenUsed S" "(i, x) \<in> set (st_instances S)" "i_type x = ty"
  shows "i \<in> set (fst (usedIds coll ty used S))"
  using assms by (auto simp: usedIds_def Let_def set_instanceIds)

lemma used_stays:
  assumes "i \<in> set (fst (usedFrpcIds coll S))" "(store_step coll)\<^sup>*\<^sup>* (snd (usedFrpcIds coll S)) S'"
    and "(i, x) \<in> set (st_instances S')" "i_type x = lit ''frpc''"
  shows "i \<in> set (fst (usedFrpcIds coll S'))"
proof -
  have "i \<in> st_seenUsed (snd (usedFrpcIds coll S))" using assms(1) usedIds_listed unfolding usedFrpcIds_def by blast
  then have "i \<in> st_seenUsed S'" using store_run_seen [OF assms(2)] by blast
  then show ?thesis unfolding usedFrpcIds_def using assms(3,4) by (rule seen_listed)
qed

subsection \<open>Waiting\<close>

lemma wait_polled_true: "fst (wait_polled iid ds S) \<longleftrightarrow> (\<exists>insts. Some insts \<in> set ds \<and> running_in iid insts)"
  by (induction iid ds S rule: wait_polled.induct) (auto simp: Let_def split: option.splits)

lemma wait_polled_state: "fst (wait_polled iid ds S) \<Longrightarrow> running_in iid (st_instances (snd (wait_polled iid ds S)))"
  by (induction iid ds S rule: wait_polled.induct) (auto simp: Let_def split: option.splits if_splits)

lemma wait_pushed_true: "fst (wait_pushed iid ds S) \<longleftrightarrow> (\<exists>insts\<in>set ds. running_in iid insts)"
  by (induction iid ds S rule: wait_pushed.induct) (auto simp: Let_def)

lemma wait_pushed_state: "fst (wait_pushed iid ds S) \<Longrightarrow> running_in iid (st_instances (snd (wait_pushed iid ds S)))"
  by (induction iid ds S rule: wait_pushed.induct) (auto simp: Let_def split: if_splits)

subsection \<open>The connection\<close>

definition link_ok :: "link \<Rightarrow> bool" where
  "link_ok L \<longleftrightarrow> (statusLive L \<longrightarrow> \<not> ls_poll L) \<and> (ls_socket L = None \<longrightarrow> ls_poll L)
     \<and> length (ls_planned L) \<le> 1 \<and> (ls_planned L \<noteq> [] \<longrightarrow> ls_socket L = None)
     \<and> (ls_socket L = None \<longrightarrow> ls_planned L \<noteq> [] \<or> ls_failed L \<ge> MAX_FAILED_OPENINGS)"

lemma link_step_ok: "link_step True L L' \<Longrightarrow> link_ok L \<Longrightarrow> link_ok L'"
proof (induction rule: link_step.induct)
  case (link_retry L a d b)
  then have "a = []" "b = []" by (simp_all add: link_ok_def)
  with link_retry show ?case by (simp add: link_ok_def connectStatus_def statusLive_def)
qed (auto simp: link_ok_def socket_opens_def socket_closes_def statusLive_def Let_def)

lemma link_run_ok: "(link_step True)\<^sup>*\<^sup>* L L' \<Longrightarrow> link_ok L \<Longrightarrow> link_ok L'"
  by (induction rule: rtranclp_induct) (auto intro: link_step_ok)

subsection \<open>Properties\<close>

text \<open>C27. An frpc once counted as used stays in the list of those in use while it exists, whatever the server
  says of it later and whatever else is asked: its page does not come and go while it restarts.\<close>

theorem used_frpc_stays:
  assumes "i \<in> set (fst (usedFrpcIds coll S))" "(store_step coll)\<^sup>*\<^sup>* (snd (usedFrpcIds coll S)) S'"
    and "(i, x) \<in> set (st_instances S')" "i_type x = lit ''frpc''"
  shows "i \<in> set (fst (usedFrpcIds coll S'))"
  by (rule used_stays [OF assms])

definition ex_inst :: "bool \<Rightarrow> inst" where
  "ex_inst running = \<lparr>i_type = lit ''frpc'', i_source = lit ''systemd'', i_container_name = [], i_version = [], i_configured = False,
     i_binary_found = True, i_running = running, i_enabled = False, i_active = []\<rparr>"

definition ex_store :: store where
  "ex_store = \<lparr>st_ready = True, st_instances = [(lit ''c'', ex_inst True)], st_inDocker = False, st_standalone = False,
     st_nicknames = [], st_hasPassword = True, st_update_frp = False, st_update_panel = False, st_me = None, st_seenUsed = {}\<rparr>"

theorem used_frpc_stays_witness:
  "lit ''c'' \<in> set (fst (usedFrpcIds (\<lambda>a b. 0) (status_message (Some [(lit ''c'', ex_inst False)]) (snd (usedFrpcIds (\<lambda>a b. 0) ex_store)))))"
proof (rule used_frpc_stays)
  show "lit ''c'' \<in> set (fst (usedFrpcIds (\<lambda>a b. 0) ex_store))"
    unfolding usedFrpcIds_def by (rule used_now [of _ "ex_inst True"]) (simp_all add: ex_store_def ex_inst_def wantedUp_def)
  show "(store_step (\<lambda>a b. 0))\<^sup>*\<^sup>* (snd (usedFrpcIds (\<lambda>a b. 0) ex_store))
      (status_message (Some [(lit ''c'', ex_inst False)]) (snd (usedFrpcIds (\<lambda>a b. 0) ex_store)))"
    by (rule r_into_rtranclp) (rule store_step.intros)
  show "(lit ''c'', ex_inst False) \<in> set (st_instances (status_message (Some [(lit ''c'', ex_inst False)]) (snd (usedFrpcIds (\<lambda>a b. 0) ex_store))))"
    by (simp add: status_message_def)
qed (simp add: ex_inst_def)

text \<open>C28. Waiting for an instance to run again always ends, after at most the given number of requests or when
  the time is up; it says yes exactly when one of the answers (or the state already pushed) shows the
  instance running, and then the shared state shows it running too.\<close>

theorem wait_running_ends:
  "(fst (waitRunning iid L attempts answers pushed S) \<longleftrightarrow>
     (if statusLive L then running_in iid (st_instances S) \<or> (\<exists>insts. insts \<in> set pushed \<and> running_in iid insts)
      else \<exists>n insts. n < attempts \<and> answers n = Some insts \<and> running_in iid insts))
   \<and> (fst (waitRunning iid L attempts answers pushed S)
      \<longrightarrow> running_in iid (st_instances (snd (waitRunning iid L attempts answers pushed S))))"
proof -
  have "Some insts \<in> set (map answers [0..<attempts]) \<longleftrightarrow> (\<exists>n. n < attempts \<and> answers n = Some insts)" for insts
    by (simp add: image_iff) (metis atLeast0LessThan lessThan_iff)
  then have "(\<exists>insts. Some insts \<in> set (map answers [0..<attempts]) \<and> running_in iid insts)
      \<longleftrightarrow> (\<exists>n insts. n < attempts \<and> answers n = Some insts \<and> running_in iid insts)"
    by blast
  then show ?thesis
    using wait_polled_true [of iid "map answers [0..<attempts]" S] wait_polled_state [of iid "map answers [0..<attempts]" S]
      wait_pushed_true [of iid pushed S] wait_pushed_state [of iid pushed S]
    by (auto simp: waitRunning_def)
qed

theorem wait_running_ends_witness:
  "fst (waitRunning (lit ''c'') \<lparr>ls_socket = None, ls_retries = 0, ls_failed = 3, ls_poll = True, ls_planned = []\<rparr> 15
     (\<lambda>n. if n < 2 then None else Some [(lit ''c'', ex_inst True)]) [] ex_store)"
proof -
  let ?L = "\<lparr>ls_socket = None, ls_retries = 0, ls_failed = 3, ls_poll = True, ls_planned = []\<rparr> :: link"
    and ?a = "\<lambda>n::nat. if n < 2 then None else Some [(lit ''c'', ex_inst True)]"
  have "(2::nat) < 15 \<and> ?a 2 = Some [(lit ''c'', ex_inst True)] \<and> running_in (lit ''c'') [(lit ''c'', ex_inst True)]"
    by (simp add: running_in_def ex_inst_def)
  then show ?thesis using wait_running_ends [of "lit ''c''" ?L 15 ?a "[]" ex_store] by (auto simp: statusLive_def)
qed

end
