(* ===== verification/Panel_Router.thy ===== *)
theory Panel_Router imports Js_Text "HOL-Library.Code_Target_Nat" begin

text \<open>
  The pages of the panel by their addresses (\<open>router.js\<close>): the address of a page, the page of an address,
  old addresses, and what a change of address does. A page is what the router asks of it; mounting it is
  in the theory of the page, \<open>startRouter\<close> and \<open>remount\<close> in \<open>Panel_Shell\<close>; focus and scrolling are not modelled. \<open>untext\<close> decodes UTF-8 (\<open>URLSearchParams\<close>); the answer of
  \<open>canLeave\<close> is an argument, and an exception is \<open>None\<close>.
\<close>

subsection \<open>Query strings\<close>

type_synonym params = "(jstr \<times> jstr) list"

definition safe_byte :: "nat \<Rightarrow> bool" where
  "safe_byte b \<longleftrightarrow> is_alpha b \<or> is_digit b \<or> b \<in> {42, 45, 46, 95}"

definition hex_digit :: "nat \<Rightarrow> nat" where
  "hex_digit n = (if n < 10 then 48 + n else 55 + n)"

definition hex_value :: "nat \<Rightarrow> nat" where
  "hex_value c = (if is_digit c then c - 48 else if c \<ge> 97 then c - 87 else c - 55)"

definition form_byte :: "nat \<Rightarrow> jstr" where
  "form_byte b = (if b = c_sp then [43] else if safe_byte b then [b] else [37, hex_digit (b div 16), hex_digit (b mod 16)])"

definition form_text :: "jstr \<Rightarrow> jstr" where
  "form_text s = concat (map form_byte (utf8 s))"

definition form_encode :: "params \<Rightarrow> jstr" where
  "form_encode ps = join [38] (map (\<lambda>(k, v). form_text k @ [c_eq] @ form_text v) ps)"

fun unpercent :: "nat list \<Rightarrow> nat list" where
  "unpercent [] = []"
| "unpercent (c # s) = (case s of
     a # b # r \<Rightarrow> (if c = 37 \<and> is_hex a \<and> is_hex b then (16 * hex_value a + hex_value b) # unpercent r else c # unpercent s)
   | _ \<Rightarrow> c # unpercent s)"

definition form_untext :: "(nat list \<Rightarrow> jstr) \<Rightarrow> jstr \<Rightarrow> jstr" where
  "form_untext untext s = untext (unpercent (utf8 (map (\<lambda>c. if c = 43 then c_sp else c) s)))"

definition form_pair :: "(nat list \<Rightarrow> jstr) \<Rightarrow> jstr \<Rightarrow> jstr \<times> jstr" where
  "form_pair untext s = (form_untext untext (takeWhile (\<lambda>c. c \<noteq> c_eq) s), form_untext untext (tl (dropWhile (\<lambda>c. c \<noteq> c_eq) s)))"

text \<open>\<open>Object.fromEntries(new URLSearchParams(query))\<close>: the last value of a name wins.\<close>

definition form_decode :: "(nat list \<Rightarrow> jstr) \<Rightarrow> jstr \<Rightarrow> params" where
  "form_decode untext q = fold (\<lambda>(k, v). obj_set k v) (map (form_pair untext) (truthy (split_on 38 q))) []"

subsection \<open>Addresses\<close>

definition drop_hash :: "jstr \<Rightarrow> jstr" where
  "drop_hash s = (case s of c # r \<Rightarrow> if c = c_hash then (case r of d # r' \<Rightarrow> if d = 47 then r' else r | [] \<Rightarrow> []) else s | [] \<Rightarrow> [])"

definition parseHash :: "(nat list \<Rightarrow> jstr) \<Rightarrow> jstr \<Rightarrow> jstr \<Rightarrow> jstr \<times> params" where
  "parseHash untext fallback hash = (case split_on 63 (drop_hash hash) of
     [] \<Rightarrow> (fallback, [])
   | path # qs \<Rightarrow> (if path = [] then fallback else path, form_decode untext (case qs of q # _ \<Rightarrow> q | [] \<Rightarrow> [])))"

definition hrefFor :: "jstr \<Rightarrow> params \<Rightarrow> jstr" where
  "hrefFor name ps = lit ''#/'' @ name @ (let q = form_encode ps in if q \<noteq> [] then [63] @ q else [])"

text \<open>Old addresses: the page they lead to and the parameters they add. A name every object inherits gives a
  value that is not a list: \<open>None\<close> is the exception of its destructuring.\<close>

definition ALIASES :: "(jstr \<times> (jstr \<times> params)) list" where
  "ALIASES = [(lit ''tunnels'', (lit ''ports'', [])), (lit ''config'', (lit ''settings'', [(lit ''s'', lit ''config'')])),
     (lit ''notifications'', (lit ''settings'', [(lit ''s'', lit ''notifications'')])), (lit ''updates'', (lit ''settings'', [(lit ''s'', lit ''updates'')])),
     (lit ''users'', (lit ''settings'', [(lit ''s'', lit ''users'')]))]"

definition alias_of :: "jstr \<Rightarrow> params \<Rightarrow> (jstr \<times> params \<times> bool) option" where
  "alias_of name ps = (case map_of ALIASES name of
     Some (to, extra) \<Rightarrow> Some (to, fold (\<lambda>(k, v). obj_set k v) extra ps, True)
   | None \<Rightarrow> if name \<in> set inherited_names then None else Some (name, ps, False))"

subsection \<open>Opening a page\<close>

record page =
  pg_id :: jstr
  pg_perm :: "jstr option"
  pg_canLeave :: bool

record router =
  ro_routes :: "page list"
  ro_fallback :: jstr
  ro_current :: "page option"
  ro_currentHash :: jstr
  ro_hash :: jstr
  ro_params :: params

text \<open>\<open>routes.set(page.id, page)\<close>\<close>

definition registerPage :: "page \<Rightarrow> router \<Rightarrow> router" where
  "registerPage p R = R\<lparr>ro_routes := (if pg_id p \<in> pg_id ` set (ro_routes R)
     then map (\<lambda>q. if pg_id q = pg_id p then p else q) (ro_routes R) else ro_routes R @ [p])\<rparr>"

definition route :: "router \<Rightarrow> jstr \<Rightarrow> page option" where
  "route R name = find (\<lambda>p. pg_id p = name) (ro_routes R)"

text \<open>The page to open and the address to show instead of the one asked for, if any.\<close>

definition page_for :: "(page \<Rightarrow> bool) \<Rightarrow> router \<Rightarrow> jstr \<Rightarrow> (page \<times> bool) option" where
  "page_for allowed R name =
     (case (case route R name of Some p \<Rightarrow> Some p | None \<Rightarrow> route R (ro_fallback R)) of
        None \<Rightarrow> None
      | Some p \<Rightarrow> (if allowed p then Some (p, False)
          else (case route R (ro_fallback R) of None \<Rightarrow> None
            | Some f \<Rightarrow> Some (case find allowed (f # ro_routes R) of Some q \<Rightarrow> q | None \<Rightarrow> f, True))))"

text \<open>The page is left only when \<open>canLeave\<close> (\<open>leave\<close>) allows it; then the other is opened.\<close>

definition open_page :: "(page \<Rightarrow> bool) \<Rightarrow> bool \<Rightarrow> jstr \<Rightarrow> params \<Rightarrow> router \<Rightarrow> router option" where
  "open_page allowed leave name ps R =
     (let asks = (case ro_current R of Some c \<Rightarrow> pg_canLeave c \<and> ro_hash R \<noteq> ro_currentHash R | None \<Rightarrow> False)
      in if asks \<and> \<not> leave then Some (R\<lparr>ro_hash := ro_currentHash R\<rparr>)
         else (case page_for allowed R name of None \<Rightarrow> None
           | Some (p, moved) \<Rightarrow>
               (let hash = (if moved then hrefFor (pg_id p) [] else ro_hash R)
                in Some (R\<lparr>ro_hash := hash, ro_current := Some p,
                     ro_currentHash := (if hash \<noteq> [] then hash else hrefFor (pg_id p) []), ro_params := ps\<rparr>))))"

definition render :: "(nat list \<Rightarrow> jstr) \<Rightarrow> (page \<Rightarrow> bool) \<Rightarrow> bool \<Rightarrow> router \<Rightarrow> router option" where
  "render untext allowed leave R =
     (case parseHash untext (ro_fallback R) (ro_hash R) of (name0, ps0) \<Rightarrow>
      (case alias_of name0 ps0 of None \<Rightarrow> None
       | Some (name, ps, replaced) \<Rightarrow>
           open_page allowed leave name ps (if replaced then R\<lparr>ro_hash := hrefFor name ps\<rparr> else R)))"

text \<open>The address asked for; the same one again opens its page again.\<close>

definition navigate :: "(nat list \<Rightarrow> jstr) \<Rightarrow> (page \<Rightarrow> bool) \<Rightarrow> bool \<Rightarrow> jstr \<Rightarrow> params \<Rightarrow> router \<Rightarrow> router option" where
  "navigate untext allowed leave name ps R = render untext allowed leave (R\<lparr>ro_hash := hrefFor name ps\<rparr>)"

definition replaceParams :: "(nat list \<Rightarrow> jstr) \<Rightarrow> params \<Rightarrow> router \<Rightarrow> router" where
  "replaceParams untext ps R =
     (let href = hrefFor (fst (parseHash untext (ro_fallback R) (ro_hash R))) ps
      in R\<lparr>ro_currentHash := href, ro_hash := href\<rparr>)"

subsection \<open>A link leads back to its page\<close>

lemma points_bound: "list_all (\<lambda>c. c < 65536) s \<Longrightarrow> p \<in> set (points s) \<Longrightarrow> p < 1114112"
proof (induction s rule: points.induct)
  case (3 c d s)
  show ?case
  proof (cases "high_surrogate c \<and> low_surrogate d")
    case True
    then have "c - 55296 \<le> 1023" "d - 56320 \<le> 1023" unfolding high_surrogate_def low_surrogate_def by linarith+
    moreover have "p = 65536 + (c - 55296) * 1024 + (d - 56320) \<or> p \<in> set (points s)" using 3(4) True by simp
    ultimately show ?thesis using 3(1)[OF True] 3(3) by auto
  next
    case False
    have "p \<le> 65535 \<or> p \<in> set (points (d # s))" using 3(3,4) False by (auto split: if_splits)
    then show ?thesis using 3(2)[OF False] 3(3) by auto
  qed
qed (auto split: if_splits)

lemma point_bytes:
  assumes "p < 1114112" "b \<in> set (utf8_point p)"
  shows "b < 256"
proof -
  have m: "x mod 64 < 64" for x :: nat by simp
  have d: "p < 2048 \<Longrightarrow> p div 64 < 32" "p < 65536 \<Longrightarrow> p div 4096 < 16" "p div 262144 < 5"
    using assms(1) by (simp_all add: div_less_iff_less_mult)
  consider "p < 128" "b = p" | "p < 2048" "b = 192 + p div 64" | "p < 65536" "b = 224 + p div 4096" | "b = 240 + p div 262144"
    | x where "b = 128 + x mod 64"
    using assms(2) by (auto simp: utf8_point_def split: if_splits)
  then show ?thesis
  proof cases
    case (5 x)
    with m [of x] show ?thesis by linarith
  qed (use d in linarith)+
qed

lemma utf8_bytes: "list_all (\<lambda>c. c < 65536) s \<Longrightarrow> b \<in> set (utf8 s) \<Longrightarrow> b < 256"
  unfolding utf8_def using points_bound point_bytes by auto

lemma hex_digit_range: "n < 16 \<Longrightarrow> 48 \<le> hex_digit n \<and> hex_digit n \<le> 57 \<or> 65 \<le> hex_digit n \<and> hex_digit n \<le> 70"
  by (simp add: hex_digit_def)

lemma form_byte_units:
  assumes "b < 256" "c \<in> set (form_byte b)"
  shows "c < 128 \<and> c \<noteq> 38 \<and> c \<noteq> c_eq \<and> c \<noteq> 63 \<and> c \<noteq> c_hash"
proof -
  have r: "b div 16 < 16" "b mod 16 < 16" using assms(1) by auto
  have "c = 43 \<or> safe_byte c \<or> c = 37 \<or> c = hex_digit (b div 16) \<or> c = hex_digit (b mod 16)"
    using assms(2) by (auto simp: form_byte_def split: if_splits)
  then consider "c = 43" | "safe_byte c" | "c = 37" | n where "n < 16" "c = hex_digit n" using r by blast
  then show ?thesis
  proof cases
    case 2
    then show ?thesis by (auto simp: safe_byte_def unit_defs)
  next
    case (4 n)
    then show ?thesis using hex_digit_range [of n] by auto
  qed simp_all
qed

lemma form_text_units:
  "list_all (\<lambda>c. c < 65536) s \<Longrightarrow> c \<in> set (form_text s) \<Longrightarrow> c < 128 \<and> c \<noteq> 38 \<and> c \<noteq> c_eq \<and> c \<noteq> 63 \<and> c \<noteq> c_hash"
proof -
  assume s: "list_all (\<lambda>c. c < 65536) s" and "c \<in> set (form_text s)"
  then obtain b where b: "b \<in> set (utf8 s)" "c \<in> set (form_byte b)" by (auto simp: form_text_def)
  show ?thesis by (rule form_byte_units [OF utf8_bytes [OF s b(1)] b(2)])
qed

lemma hex_digit_hex: "n < 16 \<Longrightarrow> is_hex (hex_digit n) \<and> hex_value (hex_digit n) = n \<and> hex_digit n \<noteq> 43"
  by (auto simp: hex_digit_def hex_value_def unit_defs)

lemma unpercent_byte:
  assumes "b < 256"
  shows "unpercent (map (\<lambda>c. if c = 43 then c_sp else c) (form_byte b) @ s) = b # unpercent s"
proof -
  consider "b = c_sp" | "b \<noteq> c_sp" "safe_byte b" | "b \<noteq> c_sp" "\<not> safe_byte b" by blast
  then show ?thesis
  proof cases
    case 1
    then show ?thesis by (simp add: form_byte_def split: list.splits)
  next
    case 2
    then have "b \<noteq> 43" "b \<noteq> 37" by (auto simp: safe_byte_def unit_defs)
    with 2 show ?thesis by (simp add: form_byte_def split: list.splits)
  next
    case 3
    have h: "is_hex (hex_digit (b div 16))" "hex_value (hex_digit (b div 16)) = b div 16" "hex_digit (b div 16) \<noteq> 43"
      "is_hex (hex_digit (b mod 16))" "hex_value (hex_digit (b mod 16)) = b mod 16" "hex_digit (b mod 16) \<noteq> 43"
      using hex_digit_hex [of "b div 16"] hex_digit_hex [of "b mod 16"] assms by auto
    have "16 * (b div 16) + b mod 16 = b" by simp
    with 3 h show ?thesis by (simp add: form_byte_def)
  qed
qed

lemma form_untext_back:
  assumes "list_all (\<lambda>c. c < 65536) s" "untext (utf8 s) = s"
  shows "form_untext untext (form_text s) = s"
proof -
  let ?f = "\<lambda>c. if c = 43 then c_sp else (c::nat)"
  have bytes: "unpercent (map ?f (concat (map form_byte bs)) @ r) = bs @ unpercent r" if "list_all (\<lambda>b. b < 256) bs" for bs r
    using that by (induction bs) (simp_all add: unpercent_byte)
  have b: "list_all (\<lambda>b. b < 256) (utf8 s)" using utf8_bytes [OF assms(1)] by (simp add: list_all_iff)
  have "list_all (\<lambda>c. c < 128) (map ?f (form_text s))"
    using form_text_units [OF assms(1)] by (auto simp: list_all_iff)
  then have "unpercent (utf8 (map ?f (form_text s))) = utf8 s"
    using bytes [OF b, of "[]"] by (simp add: utf8_ascii form_text_def)
  then show ?thesis by (simp add: form_untext_def assms(2))
qed

text \<open>Parameters a page can have: texts that UTF-8 gives back, under different names.\<close>

definition params_ok :: "(nat list \<Rightarrow> jstr) \<Rightarrow> params \<Rightarrow> bool" where
  "params_ok untext ps \<longleftrightarrow> distinct (map fst ps)
     \<and> (\<forall>s\<in>set (map fst ps @ map snd ps). list_all (\<lambda>c. c < 65536) s \<and> untext (utf8 s) = s)"

lemma fold_obj_set: "distinct (map fst (acc @ ps)) \<Longrightarrow> fold (\<lambda>(k, v). obj_set k v) ps acc = acc @ ps"
proof (induction ps arbitrary: acc)
  case (Cons p ps)
  have new: "k \<notin> fst ` set acc \<Longrightarrow> obj_set k v acc = acc @ [(k, v)]" for k v acc
    by (induction k v acc rule: obj_set.induct) auto
  from Cons.prems have "obj_set (fst p) (snd p) acc = acc @ [p]" using new [of "fst p" acc "snd p"] by auto
  with Cons show ?case by (simp add: split_def)
qed simp

lemma form_decode_encode: "params_ok untext ps \<Longrightarrow> form_decode untext (form_encode ps) = ps"
proof -
  assume ok: "params_ok untext ps"
  let ?enc = "\<lambda>(k, v). form_text k @ [c_eq] @ form_text v"
  have pair: "form_pair untext (?enc p) = p \<and> ?enc p \<noteq> [] \<and> 38 \<notin> set (?enc p)" if "p \<in> set ps" for p
  proof -
    obtain k v where p: "p = (k, v)" by fastforce
    with that ok have kv: "list_all (\<lambda>c. c < 65536) k" "untext (utf8 k) = k" "list_all (\<lambda>c. c < 65536) v" "untext (utf8 v) = v"
      by (force simp: params_ok_def)+
    have units: "c_eq \<notin> set (form_text k)" "38 \<notin> set (form_text k)" "38 \<notin> set (form_text v)"
      using form_text_units [OF kv(1)] form_text_units [OF kv(3)] by auto
    then have "takeWhile (\<lambda>c. c \<noteq> c_eq) (?enc p) = form_text k" "dropWhile (\<lambda>c. c \<noteq> c_eq) (?enc p) = [c_eq] @ form_text v"
      by (auto simp: p takeWhile_append dropWhile_append)
    then show ?thesis using units kv by (simp add: form_pair_def p form_untext_back)
  qed
  have "truthy (split_on 38 (form_encode ps)) = map ?enc ps"
  proof (cases "ps = []")
    case False
    then have "split_on 38 (form_encode ps) = map ?enc ps"
      unfolding form_encode_def using pair by (intro split_on_join) auto
    then show ?thesis using pair by simp
  qed (simp add: form_encode_def)
  moreover have "map (form_pair untext) (map ?enc ps) = ps" using pair by (simp add: map_idI)
  ultimately show ?thesis using fold_obj_set [of "[]" ps] ok by (simp add: form_decode_def params_ok_def)
qed

lemma parse_href:
  assumes "params_ok untext ps" "name \<noteq> []" "63 \<notin> set name"
  shows "parseHash untext fallback (hrefFor name ps) = (name, ps)"
proof -
  have d: "drop_hash (hrefFor name ps) = name @ (if form_encode ps \<noteq> [] then [63] @ form_encode ps else [])"
    by (simp add: drop_hash_def hrefFor_def lit_simps Let_def)
  have join_units: "c \<notin> set (join [d] xs)" if "c \<noteq> d" "\<forall>x\<in>set xs. c \<notin> set x" for c d :: nat and xs
    using that by (induction "[d]" xs rule: join.induct) auto
  have "63 \<notin> set (form_text k @ [c_eq] @ form_text v)" if "(k, v) \<in> set ps" for k v
  proof -
    have "list_all (\<lambda>c. c < 65536) k" "list_all (\<lambda>c. c < 65536) v"
      using that assms(1) by (force simp: params_ok_def)+
    then show ?thesis using form_text_units [of k 63] form_text_units [of v 63] by auto
  qed
  then have q: "63 \<notin> set (form_encode ps)" unfolding form_encode_def by (intro join_units) auto
  show ?thesis
  proof (cases "form_encode ps = []")
    case True
    with d assms(2,3) form_decode_encode [OF assms(1)] show ?thesis by (simp add: parseHash_def split_on_plain)
  next
    case False
    then have "split_on 63 (drop_hash (hrefFor name ps)) = [name, form_encode ps]"
      using d q assms(3) by (simp add: split_on_append split_on_plain)
    with assms(2) form_decode_encode [OF assms(1)] show ?thesis by (simp add: parseHash_def)
  qed
qed

subsection \<open>Only allowed pages are opened\<close>

lemma page_for_allowed:
  assumes "page_for allowed R name = Some (p, m)" "q \<in> set (ro_routes R)" "allowed q"
  shows "allowed p"
  using assms
  by (auto simp: page_for_def find_None_iff dest!: find_Some_iff [THEN iffD1] split: option.splits if_splits)

lemma find_in: "find P xs = Some x \<Longrightarrow> x \<in> set xs"
  by (induction xs) (auto split: if_splits)

lemma page_for_registered: "page_for allowed R name = Some (p, m) \<Longrightarrow> p \<in> set (ro_routes R)"
  by (auto simp: page_for_def route_def dest: find_in split: option.splits if_splits)

lemma open_page_allowed:
  assumes "open_page allowed leave name ps R = Some R'" "q \<in> set (ro_routes R)" "allowed q"
  shows "(\<exists>p\<in>set (ro_routes R). ro_current R' = Some p \<and> allowed p)
    \<or> (\<not> leave \<and> ro_current R' = ro_current R \<and> ro_currentHash R' = ro_currentHash R \<and> ro_hash R' = ro_currentHash R)"
proof (cases "page_for allowed R name")
  case None
  with assms(1) show ?thesis by (auto simp: open_page_def Let_def split: if_splits)
next
  case (Some pm)
  then obtain p moved where p: "page_for allowed R name = Some (p, moved)" by (cases pm) simp
  have "p \<in> set (ro_routes R)" "allowed p" using page_for_registered [OF p] page_for_allowed [OF p assms(2,3)] by simp_all
  with assms(1) p show ?thesis by (auto simp: open_page_def Let_def split: if_splits)
qed

lemma render_allowed:
  assumes "render untext allowed leave R = Some R'" "q \<in> set (ro_routes R)" "allowed q"
  shows "(\<exists>p\<in>set (ro_routes R). ro_current R' = Some p \<and> allowed p)
    \<or> (\<not> leave \<and> ro_current R' = ro_current R \<and> ro_currentHash R' = ro_currentHash R \<and> ro_hash R' = ro_currentHash R)"
proof -
  obtain name0 ps0 where nm: "parseHash untext (ro_fallback R) (ro_hash R) = (name0, ps0)" by fastforce
  then obtain name ps replaced where al: "alias_of name0 ps0 = Some (name, ps, replaced)"
    using assms(1) by (auto simp: render_def split: option.splits)
  have "open_page allowed leave name ps (if replaced then R\<lparr>ro_hash := hrefFor name ps\<rparr> else R) = Some R'"
    using assms(1) by (simp add: render_def nm al)
  from open_page_allowed [OF this, of q] assms(2,3) show ?thesis by (cases replaced) simp_all
qed

lemma navigate_page:
  assumes "params_ok untext ps" "name \<noteq> []" "63 \<notin> set name" "name \<notin> fst ` set ALIASES" "name \<notin> set inherited_names"
    and "route R name = Some p" "allowed p"
  shows "navigate untext allowed True name ps R = Some (R\<lparr>ro_hash := hrefFor name ps, ro_current := Some p,
    ro_currentHash := hrefFor name ps, ro_params := ps\<rparr>)"
proof -
  have "alias_of name ps = Some (name, ps, False)" using assms(4,5) by (simp add: alias_of_def map_of_eq_None_iff [THEN iffD2])
  moreover have "page_for allowed (R\<lparr>ro_hash := hrefFor name ps\<rparr>) name = Some (p, False)"
    using assms(6,7) by (simp add: page_for_def route_def)
  moreover have "hrefFor name ps \<noteq> []" by (simp add: hrefFor_def)
  ultimately show ?thesis by (simp add: navigate_def render_def open_page_def parse_href [OF assms(1-3)] Let_def split: option.split)
qed

subsection \<open>Properties\<close>

text \<open>C29. Navigating to a page the account may open, with any parameters, opens this page with exactly these
  parameters, and the address shown is the one of the page.\<close>

theorem navigate_opens_page:
  assumes "params_ok untext ps" "name \<noteq> []" "63 \<notin> set name" "name \<notin> fst ` set ALIASES" "name \<notin> set inherited_names"
    and "route R name = Some p" "allowed p"
  shows "\<exists>R'. navigate untext allowed True name ps R = Some R' \<and> ro_current R' = Some p \<and> ro_params R' = ps
    \<and> ro_hash R' = hrefFor name ps \<and> ro_currentHash R' = hrefFor name ps"
  using navigate_page [where allowed = allowed, OF assms] by simp

definition ex_page :: page where
  "ex_page = \<lparr>pg_id = lit ''ports'', pg_perm = None, pg_canLeave = True\<rparr>"

definition ex_router :: router where
  "ex_router = \<lparr>ro_routes = [ex_page], ro_fallback = lit ''dashboard'', ro_current = None, ro_currentHash = [], ro_hash = [],
     ro_params = []\<rparr>"

theorem navigate_opens_page_witness:
  "\<exists>R'. navigate id (\<lambda>p. True) True (lit ''ports'') [(lit ''iid'', lit ''frpc a&b'')] ex_router = Some R' \<and> ro_params R' = [(lit ''iid'', lit ''frpc a&b'')]"
proof -
  have "params_ok id [(lit ''iid'', lit ''frpc a&b'')]" by (simp add: params_ok_def utf8_ascii lit_simps)
  moreover have "lit ''ports'' \<notin> fst ` set ALIASES" "lit ''ports'' \<notin> set inherited_names" by code_simp+
  moreover have "route ex_router (lit ''ports'') = Some ex_page" by (simp add: route_def ex_router_def ex_page_def)
  ultimately show ?thesis
    using navigate_opens_page [of id "[(lit ''iid'', lit ''frpc a&b'')]" "lit ''ports''" ex_router ex_page "\<lambda>p. True"] by (auto simp: lit_simps)
qed

text \<open>The router opens a page the account may open, or stays where it is when leaving is refused; and an
  address that names an inherited property of objects makes it fail.\<close>

theorem router_opens_allowed:
  assumes "render untext allowed leave R = Some R'" "q \<in> set (ro_routes R)" "allowed q"
  shows "(\<exists>p\<in>set (ro_routes R). ro_current R' = Some p \<and> allowed p)
    \<or> (\<not> leave \<and> ro_current R' = ro_current R \<and> ro_currentHash R' = ro_currentHash R \<and> ro_hash R' = ro_currentHash R)"
  by (rule render_allowed [where allowed = allowed, OF assms])

theorem inherited_address_fails: "render untext allowed leave (R\<lparr>ro_hash := lit ''#/constructor''\<rparr>) = None"
proof -
  have "drop_hash (lit ''#/constructor'') = lit ''constructor''" by (simp add: drop_hash_def lit_simps)
  moreover have "split_on 63 (lit ''constructor'') = [lit ''constructor'']" by (rule split_on_plain) (simp add: lit_simps)
  moreover have "alias_of (lit ''constructor'') ps = None" for ps
    by (simp add: alias_of_def) code_simp
  ultimately show ?thesis by (simp add: render_def parseHash_def)
qed

end
