(* ===== verification/Stats_Releases.thy ===== *)
theory Stats_Releases imports Stats_Render begin

text \<open>
  The releases of GitHub behind the dashboard (\<open>githubReleases\<close> of \<open>worker.js\<close>): the answer kept in the
  cache while it is fresh, otherwise a request whose outcome, good or bad, is kept in turn. The request is
  an argument, and so is whether the platform has a cache; an entry of the cache is served until its
  \<open>max-age\<close> is over (the platform may forget it earlier: the cache is then empty). Views are taken one after
  the other: two at once could both ask.
\<close>

subsection \<open>One request\<close>

text \<open>An answer that cannot be read as JSON raises, like a request that fails: its message.\<close>

datatype gh_answer = Gh_failed jstr | Gh_status nat bool | Gh_body json

definition gh_error_of :: "jstr \<Rightarrow> github" where
  "gh_error_of msg = \<lparr>gh_releases = None, gh_error = msg, gh_fetched = []\<rparr>"

definition gh_result :: "gh_answer \<Rightarrow> github" where
  "gh_result a = (case a of
     Gh_failed msg \<Rightarrow> gh_error_of (lit ''GitHub injoignable ('' @ msg @ lit '')'')
   | Gh_status status remaining0 \<Rightarrow>
       gh_error_of (if (status = 403 \<or> status = 429) \<and> remaining0 then lit ''limite d'' @ [39] @ lit ''appels de l'' @ [39] @ lit ''API GitHub atteinte''
         else lit ''GitHub a r'' @ [233] @ lit ''pondu HTTP '' @ digits status)
   | Gh_body v \<Rightarrow> (case releasesFrom v of
         Some rs \<Rightarrow> \<lparr>gh_releases = Some rs, gh_error = [], gh_fetched = []\<rparr>
       | None \<Rightarrow> gh_error_of (lit ''r'' @ [233] @ lit ''ponse inattendue de GitHub'')))"

subsection \<open>The cache\<close>

text \<open>An entry: the result and when it expires, in milliseconds.\<close>

type_synonym gh_cache = "(github \<times> nat) option"

definition fresh :: "nat \<Rightarrow> gh_cache \<Rightarrow> github option" where
  "fresh now c = (case c of Some (g, expiry) \<Rightarrow> (if now < expiry then Some g else None) | None \<Rightarrow> None)"

text \<open>Seconds an outcome is kept.\<close>

definition max_age :: "github \<Rightarrow> nat" where
  "max_age g = (if gh_releases g \<noteq> None then GITHUB_TTL else GITHUB_ERROR_TTL)"

text \<open>The result, the cache, and whether GitHub was asked.\<close>

definition githubReleases :: "bool \<Rightarrow> gh_answer \<Rightarrow> nat \<Rightarrow> gh_cache \<Rightarrow> github \<times> gh_cache \<times> bool" where
  "githubReleases has_cache answer now c =
     (case (if has_cache then fresh now c else None) of
        Some g \<Rightarrow> (g, c, False)
      | None \<Rightarrow> (let g = (gh_result answer)\<lparr>gh_fetched := isoText now\<rparr>
          in (g, if has_cache then Some (g, now + 1000 * max_age g) else c, True)))"

subsection \<open>Calls to GitHub\<close>

text \<open>Views of the dashboard, each with the time and the answer GitHub would give: the times it was asked.\<close>

fun asked_at :: "(nat \<times> gh_answer) list \<Rightarrow> gh_cache \<Rightarrow> nat list" where
  "asked_at [] c = []"
| "asked_at ((now, a) # vs) c = (case githubReleases True a now c of (g, c', asked) \<Rightarrow>
     (if asked then [now] else []) @ asked_at vs c')"

lemma max_age_least: "300 \<le> max_age g"
  by (simp add: max_age_def GITHUB_TTL_def GITHUB_ERROR_TTL_def)

lemma asked_after: "t \<in> set (asked_at vs c) \<Longrightarrow> c = Some (g, expiry) \<Longrightarrow> sorted (map fst vs) \<Longrightarrow> expiry \<le> t"
proof (induction vs c arbitrary: g expiry rule: asked_at.induct)
  case (2 now a vs c)
  show ?case
  proof (cases "now < expiry")
    case True
    then have "githubReleases True a now c = (g, c, False)" using 2(3) by (simp add: githubReleases_def fresh_def)
    with 2 show ?thesis by (cases "githubReleases True a now c") auto
  next
    case False
    then have "expiry \<le> now" by simp
    have "set (asked_at us d) \<subseteq> fst ` set us" for us d
    proof (induction us arbitrary: d)
      case (Cons u us)
      obtain n b where u: "u = (n, b)" by fastforce
      obtain g c' asked where "githubReleases True b n d = (g, c', asked)" by (cases "githubReleases True b n d")
      with Cons [of c'] show ?case by (auto simp: u)
    qed simp
    then have "t \<in> fst ` set ((now, a) # vs)" using 2(2) by (metis subsetD)
    then have "now \<le> t" using 2(4) by auto
    with \<open>expiry \<le> now\<close> show ?thesis by simp
  qed
qed simp

text \<open>Two requests are at least five minutes apart: with the limit of 60 calls an hour, the page never uses
  more than 12.\<close>

theorem github_calls_apart:
  "sorted (map fst vs) \<Longrightarrow> sorted_wrt (\<lambda>s t. s + 300000 \<le> t) (asked_at vs c)"
proof (induction vs c rule: asked_at.induct)
  case (2 now a vs c)
  obtain g c' asked where gr: "githubReleases True a now c = (g, c', asked)" by (cases "githubReleases True a now c")
  have rest: "sorted_wrt (\<lambda>s t. s + 300000 \<le> t) (asked_at vs c')" using 2(1)[OF gr [symmetric] refl] 2(2) by simp
  show ?case
  proof (cases asked)
    case True
    then have "c' = Some (g, now + 1000 * max_age g)"
      using gr by (auto simp: githubReleases_def Let_def split: option.splits)
    then have "now + 1000 * max_age g \<le> t" if "t \<in> set (asked_at vs c')" for t
      using asked_after [OF that] 2(2) by simp
    moreover have "300000 \<le> 1000 * max_age g" using max_age_least [of g] by simp
    ultimately show ?thesis using rest gr by (fastforce simp: True)
  qed (use rest gr in simp)
qed simp

end
