(* ===== verification/Page_Logs.thy ===== *)
theory Page_Logs imports Panel_Store begin

text \<open>
  The page of the logs (\<open>pages/logs.js\<close>): the level of a line, the filter, reading the last lines, and the
  live reading by WebSocket or server-sent events with its reconnections. The page is its state and one
  function per callback of the source: a button, a field, an answer of the server, an event of the
  connection, a timer. The instances of the store (\<open>insts\<close>), the translated texts (\<open>tr\<close>), whether the browser
  has WebSocket (\<open>has_ws\<close>) and the lower case of a text (\<open>low\<close>, Unicode) are arguments. A connection that was
  closed by the page, and a timer of a reading that was stopped, do nothing in the source (\<open>live.stopped\<close>):
  they are not part of the state. The position of the scroll bar is not modelled.
\<close>

subsection \<open>Lines\<close>

text \<open>The expressions of \<open>levelOf\<close> ignore the case of ASCII letters (\<open>lower\<close>); \<open>\b\<close> after \<open>ERR\<close> asks that no word
  unit follows. A line with \<open>login to server success\<close> has \<open>success\<close>.\<close>

fun err_word :: "jstr \<Rightarrow> bool" where
  "err_word [] = False"
| "err_word (c # s) = (startsWith (c # s) (lit ''err'') \<and> (case drop 2 s of d # _ \<Rightarrow> \<not> is_word d | [] \<Rightarrow> True) \<or> err_word s)"

definition has_ci :: "jstr \<Rightarrow> jstr \<Rightarrow> bool" where
  "has_ci line p \<longleftrightarrow> includesStr (lower line) p"

definition levelOf :: "jstr \<Rightarrow> jstr" where
  "levelOf line =
     (if has_ci line (lit ''error'') \<or> err_word (lower line) \<or> has_ci line (lit ''[e]'') then lit ''log-error''
      else if has_ci line (lit ''warn'') \<or> has_ci line (lit ''[w]'') then lit ''log-warn''
      else if has_ci line (lit ''start'') \<or> has_ci line (lit ''connect'') \<or> has_ci line (lit ''success'') then lit ''log-ok''
      else [])"

record log_line =
  ll_text :: jstr
  ll_class :: jstr
  ll_hidden :: bool

definition filtered_out :: "(jstr \<Rightarrow> jstr) \<Rightarrow> jstr \<Rightarrow> jstr \<Rightarrow> bool" where
  "filtered_out low filt text \<longleftrightarrow> filt \<noteq> [] \<and> \<not> includesStr (low text) filt"

definition lineEl :: "(jstr \<Rightarrow> jstr) \<Rightarrow> jstr \<Rightarrow> jstr \<Rightarrow> log_line" where
  "lineEl low filt text = \<lparr>ll_text = text @ [c_nl], ll_class = trim (lit ''log-line '' @ levelOf text),
     ll_hidden = filtered_out low filt text\<rparr>"

subsection \<open>State of the page\<close>

text \<open>What the frame holds: a text, then lines.\<close>

record log_view =
  vw_text :: jstr
  vw_lines :: "log_line list"

definition message_view :: "jstr \<Rightarrow> log_view" where
  "message_view s = \<lparr>vw_text = s, vw_lines = []\<rparr>"

definition lines_view :: "log_line list \<Rightarrow> log_view" where
  "lines_view ls = \<lparr>vw_text = [], vw_lines = ls\<rparr>"

record conn =
  cn_opened :: bool
  cn_history :: nat

text \<open>A live reading: its transport, the connection that is open or opening, the failures in a row, whether it
  was ever connected, the delay of the reconnection that is planned.\<close>

record live =
  lv_ws :: bool
  lv_conn :: "conn option"
  lv_failures :: nat
  lv_ever :: bool
  lv_timer :: "nat option"

text \<open>What the page did: a connection asked for (by WebSocket or not, source, lines of history), a connection
  that opened, a message to the user.\<close>

datatype log_effect = Ask bool jstr nat | Live_opened | Live_ended | Error_shown

record logs =
  lg_iid :: jstr
  lg_source :: jstr
  lg_filter :: jstr
  lg_view :: "log_view option"
  lg_seq :: nat
  lg_live :: "live option"
  lg_done :: "log_effect list"

definition logs_start :: logs where
  "logs_start = \<lparr>lg_iid = [], lg_source = lit ''journal'', lg_filter = [], lg_view = None, lg_seq = 0, lg_live = None, lg_done = []\<rparr>"

definition did :: "log_effect \<Rightarrow> logs \<Rightarrow> logs" where
  "did e G = G\<lparr>lg_done := lg_done G @ [e]\<rparr>"

definition MAX_LINES :: nat where "MAX_LINES = 2000"
definition MAX_RECONNECTS :: nat where "MAX_RECONNECTS = 5"

definition KEEPALIVE :: jstr where "KEEPALIVE = [0]"

subsection \<open>Live reading\<close>

definition log_source :: "(jstr \<times> inst) list \<Rightarrow> logs \<Rightarrow> jstr" where
  "log_source insts G = (case map_of insts (lg_iid G) of
     Some x \<Rightarrow> (if isDocker x then lit ''docker'' else lg_source G) | None \<Rightarrow> lg_source G)"

definition stopLive :: "logs \<Rightarrow> logs" where
  "stopLive G = G\<lparr>lg_live := None\<rparr>"

definition connect_live :: "(jstr \<times> inst) list \<Rightarrow> nat \<Rightarrow> logs \<Rightarrow> logs" where
  "connect_live insts history G = (case lg_live G of None \<Rightarrow> G
     | Some L \<Rightarrow> did (Ask (lv_ws L) (log_source insts G) history)
         (G\<lparr>lg_live := Some (L\<lparr>lv_conn := Some \<lparr>cn_opened = False, cn_history = history\<rparr>\<rparr>)\<rparr>))"

definition createLive :: "bool \<Rightarrow> live" where
  "createLive has_ws = \<lparr>lv_ws = has_ws, lv_conn = None, lv_failures = 0, lv_ever = False, lv_timer = None\<rparr>"

definition startLive :: "bool \<Rightarrow> (jstr \<times> inst) list \<Rightarrow> logs \<Rightarrow> logs" where
  "startLive has_ws insts G =
     connect_live insts 50 (G\<lparr>lg_seq := Suc (lg_seq G), lg_view := Some (lines_view []), lg_live := Some (createLive has_ws)\<rparr>)"

definition toggleLive :: "bool \<Rightarrow> (jstr \<times> inst) list \<Rightarrow> logs \<Rightarrow> logs" where
  "toggleLive has_ws insts G = (if lg_live G \<noteq> None then stopLive G else startLive has_ws insts G)"

definition retry :: "logs \<Rightarrow> logs" where
  "retry G = (case lg_live G of None \<Rightarrow> G
     | Some L \<Rightarrow> (let n = Suc (lv_failures L) in
         if n > MAX_RECONNECTS then did Live_ended (stopLive G)
         else G\<lparr>lg_live := Some (L\<lparr>lv_failures := n, lv_conn := None, lv_timer := Some (min 8000 (500 * 2 ^ n))\<rparr>)\<rparr>))"

definition reconnect :: "(jstr \<times> inst) list \<Rightarrow> logs \<Rightarrow> logs" where
  "reconnect insts G = (case lg_live G of None \<Rightarrow> G
     | Some L \<Rightarrow> (if lv_timer L = None then G
         else connect_live insts (if lv_ever L then 0 else 50) (G\<lparr>lg_live := Some (L\<lparr>lv_timer := None\<rparr>)\<rparr>)))"

text \<open>The connection opens; it ends (\<open>onclose\<close> of a WebSocket, \<open>onerror\<close> of an event source).\<close>

definition conn_opens :: "logs \<Rightarrow> logs" where
  "conn_opens G = (case lg_live G of None \<Rightarrow> G
     | Some L \<Rightarrow> (case lv_conn L of
         Some c \<Rightarrow> (if cn_opened c then G else did Live_opened
           (G\<lparr>lg_live := Some (L\<lparr>lv_conn := Some (c\<lparr>cn_opened := True\<rparr>), lv_failures := 0, lv_ever := True\<rparr>)\<rparr>))
       | None \<Rightarrow> G))"

definition conn_closes :: "(jstr \<times> inst) list \<Rightarrow> logs \<Rightarrow> logs" where
  "conn_closes insts G = (case lg_live G of None \<Rightarrow> G
     | Some L \<Rightarrow> (case lv_conn L of
         Some c \<Rightarrow> (if lv_ws L \<and> \<not> cn_opened c \<and> \<not> lv_ever L
           then connect_live insts (cn_history c) (G\<lparr>lg_live := Some (L\<lparr>lv_ws := False\<rparr>)\<rparr>)
           else retry G)
       | None \<Rightarrow> G))"

text \<open>\<open>while (out.children.length > MAX_LINES) out.firstChild.remove()\<close>\<close>

definition last_lines :: "'a list \<Rightarrow> 'a list" where
  "last_lines xs = drop (length xs - MAX_LINES) xs"

definition appendLive :: "(jstr \<Rightarrow> jstr) \<Rightarrow> jstr \<Rightarrow> logs \<Rightarrow> logs" where
  "appendLive low text G = (if text = KEEPALIVE then G else case lg_view G of None \<Rightarrow> G
     | Some v \<Rightarrow> (let ls = vw_lines v @ [lineEl low (lg_filter G) text]
         in G\<lparr>lg_view := Some \<lparr>vw_text = (if length ls > MAX_LINES then [] else vw_text v), vw_lines = last_lines ls\<rparr>\<rparr>))"

definition live_open :: "logs \<Rightarrow> bool" where
  "live_open G \<longleftrightarrow> (case lg_live G of None \<Rightarrow> False
     | Some L \<Rightarrow> (case lv_conn L of Some c \<Rightarrow> cn_opened c | None \<Rightarrow> False))"

definition conn_message :: "(jstr \<Rightarrow> jstr) \<Rightarrow> jstr \<Rightarrow> logs \<Rightarrow> logs" where
  "conn_message low text G = (if live_open G then appendLive low text G else G)"

subsection \<open>Last lines\<close>

definition load_l :: "(jstr \<Rightarrow> jstr) \<Rightarrow> logs \<Rightarrow> logs" where
  "load_l tr G = (let G = stopLive G in
     if lg_view G = None then G else G\<lparr>lg_seq := Suc (lg_seq G), lg_view := Some (message_view (tr (lit ''common.loading'')))\<rparr>)"

text \<open>The answer to the load of that number: the content, or a failure (\<open>None\<close>). An answer that comes too late
  changes nothing.\<close>

definition load_reply :: "(jstr \<Rightarrow> jstr) \<Rightarrow> (jstr \<Rightarrow> jstr) \<Rightarrow> nat \<Rightarrow> jstr option \<Rightarrow> logs \<Rightarrow> logs" where
  "load_reply low tr n d G =
     (if lg_view G = None \<or> n \<noteq> lg_seq G \<or> lg_live G \<noteq> None then G
      else case d of
        Some content \<Rightarrow> G\<lparr>lg_view := Some (if content = [] then message_view (tr (lit ''logs.none''))
            else lines_view (map (lineEl low (lg_filter G)) (split_on c_nl content)))\<rparr>
      | None \<Rightarrow> did Error_shown (G\<lparr>lg_view := Some (message_view [])\<rparr>))"

subsection \<open>The page\<close>

definition set_filter :: "(jstr \<Rightarrow> jstr) \<Rightarrow> jstr \<Rightarrow> logs \<Rightarrow> logs" where
  "set_filter low value0 G =
     (let f = low (trim value0)
      in G\<lparr>lg_filter := f, lg_view := map_option (\<lambda>v. v\<lparr>vw_lines := map (\<lambda>l. l\<lparr>ll_hidden := filtered_out low f (ll_text l)\<rparr>) (vw_lines v)\<rparr>) (lg_view G)\<rparr>)"

definition choose_source :: "bool \<Rightarrow> (jstr \<times> inst) list \<Rightarrow> (jstr \<Rightarrow> jstr) \<Rightarrow> jstr \<Rightarrow> logs \<Rightarrow> logs" where
  "choose_source has_ws insts tr v G = (let G = G\<lparr>lg_source := v\<rparr> in
     if lg_live G \<noteq> None then startLive has_ws insts (stopLive G) else load_l tr G)"

definition choose_instance :: "(jstr \<Rightarrow> jstr) \<Rightarrow> jstr \<Rightarrow> logs \<Rightarrow> logs" where
  "choose_instance tr iid G = load_l tr (G\<lparr>lg_iid := iid\<rparr>)"

text \<open>The choice between the journal and the file is not shown for a container.\<close>

definition syncSource :: "(jstr \<times> inst) list \<Rightarrow> logs \<Rightarrow> bool" where
  "syncSource insts G \<longleftrightarrow> (case map_of insts (lg_iid G) of Some x \<Rightarrow> isDocker x | None \<Rightarrow> False)"

definition mount_l :: "(jstr \<Rightarrow> jstr) \<Rightarrow> jstr list \<Rightarrow> jstr option \<Rightarrow> logs \<Rightarrow> logs" where
  "mount_l tr ids wanted G =
     (let iid = (case wanted of Some w \<Rightarrow> if w \<in> set ids then w else (case ids of i # _ \<Rightarrow> i | [] \<Rightarrow> [])
                 | None \<Rightarrow> (case ids of i # _ \<Rightarrow> i | [] \<Rightarrow> []));
          G1 = G\<lparr>lg_iid := iid, lg_filter := []\<rparr>
      in if iid = [] then G1 else load_l tr (G1\<lparr>lg_view := Some (lines_view [])\<rparr>))"

definition unmount_l :: "logs \<Rightarrow> logs" where
  "unmount_l G = (stopLive G)\<lparr>lg_view := None\<rparr>"

datatype log_event =
    Mount "jstr list" "jstr option" | Unmount | Choose_instance jstr | Choose_source jstr | Filter jstr | Refresh | Toggle
  | Load_reply nat "jstr option" | Opens | Message_comes jstr | Closes | Timer

text \<open>The buttons and fields exist while the page is shown; the router leaves a page before it shows another.\<close>

fun log_step :: "bool \<Rightarrow> (jstr \<times> inst) list \<Rightarrow> (jstr \<Rightarrow> jstr) \<Rightarrow> (jstr \<Rightarrow> jstr) \<Rightarrow> log_event \<Rightarrow> logs \<Rightarrow> logs" where
  "log_step w insts low tr (Mount ids wanted) G = (if lg_view G = None then mount_l tr ids wanted G else G)"
| "log_step w insts low tr Unmount G = unmount_l G"
| "log_step w insts low tr (Choose_instance iid) G = (if lg_view G = None then G else choose_instance tr iid G)"
| "log_step w insts low tr (Choose_source v) G = (if lg_view G = None then G else choose_source w insts tr v G)"
| "log_step w insts low tr (Filter v) G = (if lg_view G = None then G else set_filter low v G)"
| "log_step w insts low tr Refresh G = (if lg_view G = None then G else load_l tr G)"
| "log_step w insts low tr Toggle G = (if lg_view G = None then G else toggleLive w insts G)"
| "log_step w insts low tr (Load_reply n d) G = load_reply low tr n d G"
| "log_step w insts low tr Opens G = conn_opens G"
| "log_step w insts low tr (Message_comes text) G = conn_message low text G"
| "log_step w insts low tr Closes G = conn_closes insts G"
| "log_step w insts low tr Timer G = reconnect insts G"

text \<open>A history of the page: each event with the instances of the store at that time.\<close>

definition log_run :: "bool \<Rightarrow> (jstr \<Rightarrow> jstr) \<Rightarrow> (jstr \<Rightarrow> jstr) \<Rightarrow> ((jstr \<times> inst) list \<times> log_event) list \<Rightarrow> logs \<Rightarrow> logs" where
  "log_run w low tr es G = fold (\<lambda>(insts, e). log_step w insts low tr e) es G"

end
