(* ===== verification/Page_Logs_Facts.thy ===== *)
theory Page_Logs_Facts imports Page_Logs begin

text \<open>
  What the page of the logs shows and asks for: a live reading shows the last lines received whatever loads
  are answered meanwhile, never asks again for lines it was given, reconnects a bounded number of times, and
  the lines shown are those the filter keeps.
\<close>

subsection \<open>A live reading\<close>

text \<open>Events that are not a choice of the user about what is read.\<close>

fun unasked :: "log_event \<Rightarrow> bool" where
  "unasked (Filter v) = True"
| "unasked (Load_reply n d) = True"
| "unasked Opens = True"
| "unasked (Message_comes s) = True"
| "unasked Closes = True"
| "unasked Timer = True"
| "unasked e = False"

lemma live_None_stays: "unasked e \<Longrightarrow> lg_live G = None \<Longrightarrow> lg_live (log_step w insts low tr e G) = None"
  by (cases e) (auto simp: set_filter_def Let_def load_reply_def conn_opens_def conn_message_def live_open_def conn_closes_def
    reconnect_def did_def split: option.splits)

lemma live_None_run: "list_all (unasked \<circ> snd) es \<Longrightarrow> lg_live G = None \<Longrightarrow> lg_live (log_run w low tr es G) = None"
  by (induction es arbitrary: G) (auto simp: log_run_def live_None_stays)

text \<open>The messages that come through an open connection.\<close>

fun received :: "bool \<Rightarrow> (jstr \<Rightarrow> jstr) \<Rightarrow> (jstr \<Rightarrow> jstr) \<Rightarrow> ((jstr \<times> inst) list \<times> log_event) list \<Rightarrow> logs \<Rightarrow> jstr list" where
  "received w low tr [] G = []"
| "received w low tr ((insts, e) # es) G =
     (case e of Message_comes s \<Rightarrow> (if live_open G \<and> s \<noteq> KEEPALIVE then [s] else []) | _ \<Rightarrow> [])
     @ received w low tr es (log_step w insts low tr e G)"

definition showing :: "jstr list \<Rightarrow> logs \<Rightarrow> bool" where
  "showing ts G \<longleftrightarrow> (\<exists>v. lg_view G = Some v \<and> vw_text v = [] \<and> map ll_text (vw_lines v) = map (\<lambda>s. s @ [c_nl]) (last_lines ts))"

lemma last_lines_snoc: "last_lines (last_lines xs @ [x]) = last_lines (xs @ [x])"
proof (cases "length xs \<le> MAX_LINES")
  case False
  then have "Suc (length xs) - MAX_LINES = Suc (length xs - MAX_LINES)" "MAX_LINES < length xs" by simp_all
  then show ?thesis by (simp add: last_lines_def add.commute)
qed (simp add: last_lines_def)

lemma map_last_lines: "map f (last_lines xs) = last_lines (map f xs)"
  by (simp add: last_lines_def drop_map)

lemma view_kept [simp]:
  "lg_view (connect_live insts h G) = lg_view G" "lg_view (retry G) = lg_view G" "lg_view (reconnect insts G) = lg_view G"
  "lg_view (conn_opens G) = lg_view G" "lg_view (conn_closes insts G) = lg_view G"
  by (auto simp: connect_live_def retry_def reconnect_def conn_opens_def conn_closes_def did_def stopLive_def Let_def split: option.splits)

lemma showing_filter: "showing ts G \<Longrightarrow> showing ts (set_filter low v G)"
  by (auto simp: showing_def set_filter_def Let_def comp_def)

lemma showing_append: "showing ts G \<Longrightarrow> s \<noteq> KEEPALIVE \<Longrightarrow> showing (ts @ [s]) (appendLive low s G)"
proof -
  assume a: "showing ts G" "s \<noteq> KEEPALIVE"
  then obtain v where v: "lg_view G = Some v" "vw_text v = []" "map ll_text (vw_lines v) = map (\<lambda>s. s @ [c_nl]) (last_lines ts)"
    by (auto simp: showing_def)
  have "map ll_text (last_lines (vw_lines v @ [lineEl low (lg_filter G) s])) = last_lines (last_lines (map (\<lambda>s. s @ [c_nl]) ts) @ [s @ [c_nl]])"
    using v(3) by (simp add: map_last_lines lineEl_def)
  also have "\<dots> = map (\<lambda>s. s @ [c_nl]) (last_lines (ts @ [s]))" by (simp add: last_lines_snoc map_last_lines)
  finally show ?thesis using a(2) v(1,2) by (simp add: showing_def appendLive_def)
qed

lemma showing_step:
  "unasked e \<Longrightarrow> lg_live G \<noteq> None \<Longrightarrow> showing ts G
   \<Longrightarrow> showing (ts @ (case e of Message_comes s \<Rightarrow> (if live_open G \<and> s \<noteq> KEEPALIVE then [s] else []) | _ \<Rightarrow> [])) (log_step w insts low tr e G)"
proof (cases e)
  case (Message_comes s)
  assume "showing ts G"
  with Message_comes show ?thesis
    by (cases "live_open G \<and> s \<noteq> KEEPALIVE") (auto simp: conn_message_def showing_append, auto simp: appendLive_def)
next
  case (Filter v)
  assume "showing ts G"
  then have "showing ts (set_filter low v G)" by (rule showing_filter)
  with Filter \<open>showing ts G\<close> show ?thesis by (auto simp: showing_def)
qed (auto simp: load_reply_def showing_def)

lemma showing_run:
  "list_all (unasked \<circ> snd) es \<Longrightarrow> lg_live (log_run w low tr es G) \<noteq> None \<Longrightarrow> showing ts G
   \<Longrightarrow> showing (ts @ received w low tr es G) (log_run w low tr es G)"
proof (induction es arbitrary: G ts)
  case (Cons ie es)
  obtain insts e where ie: "ie = (insts, e)" by (cases ie)
  have run: "log_run w low tr (ie # es) G = log_run w low tr es (log_step w insts low tr e G)" by (simp add: log_run_def ie)
  have "lg_live G \<noteq> None" using live_None_run [OF Cons.prems(1), of G w low tr] Cons.prems(2) by blast
  from showing_step [OF _ this Cons.prems(3), of e w insts low tr] Cons.prems Cons.IH show ?case
    by (simp add: ie run [unfolded ie] comp_def del: not_None_eq flip: append_assoc)
qed (simp add: log_run_def)

text \<open>C30. Whatever the order of the answers, the live view shows the last lines received since it was opened, one line
  each.\<close>

theorem live_shows_last_lines:
  assumes "list_all (unasked \<circ> snd) es"
    and "lg_live (log_run w low tr es (startLive w insts G)) \<noteq> None"
  shows "\<exists>v. lg_view (log_run w low tr es (startLive w insts G)) = Some v \<and> vw_text v = []
    \<and> map ll_text (vw_lines v) = map (\<lambda>s. s @ [c_nl]) (last_lines (received w low tr es (startLive w insts G)))"
proof -
  have "showing [] (startLive w insts G)" by (simp add: showing_def startLive_def lines_view_def last_lines_def)
  from showing_run [OF assms this] show ?thesis by (simp add: showing_def)
qed

subsection \<open>Requests of a live reading\<close>

text \<open>Fifty lines of history are asked for until a connection opens, and none after.\<close>

fun asks_ok :: "bool \<Rightarrow> log_effect list \<Rightarrow> bool" where
  "asks_ok ever [] = True"
| "asks_ok ever (Ask w src n # ds) = (n = (if ever then 0 else 50) \<and> asks_ok ever ds)"
| "asks_ok ever (Live_opened # ds) = asks_ok True ds"
| "asks_ok ever (_ # ds) = asks_ok ever ds"

lemma asks_ok_append: "asks_ok ever (ds @ es) \<longleftrightarrow> asks_ok ever ds \<and> asks_ok (ever \<or> Live_opened \<in> set ds) es"
  by (induction ever ds rule: asks_ok.induct) auto

definition history_fits :: "log_effect list \<Rightarrow> logs \<Rightarrow> bool" where
  "history_fits d0 G \<longleftrightarrow> (\<exists>ds. lg_done G = d0 @ ds \<and> asks_ok False ds
     \<and> (\<forall>L. lg_live G = Some L \<longrightarrow> (lv_ever L \<longleftrightarrow> Live_opened \<in> set ds)
          \<and> (\<forall>c. lv_conn L = Some c \<longrightarrow> \<not> lv_ever L \<longrightarrow> cn_history c = 50)))"

lemma history_connect:
  "history_fits d0 G \<Longrightarrow> (\<And>L. lg_live G = Some L \<Longrightarrow> n = (if lv_ever L then 0 else 50)) \<Longrightarrow> history_fits d0 (connect_live insts n G)"
  unfolding history_fits_def connect_live_def did_def
  by (cases "lg_live G") (auto simp: asks_ok_append)

lemma history_retry: "history_fits d0 G \<Longrightarrow> history_fits d0 (retry G)"
  unfolding history_fits_def retry_def did_def stopLive_def Let_def
  by (cases "lg_live G") (auto simp: asks_ok_append)

lemma history_opens: "history_fits d0 G \<Longrightarrow> history_fits d0 (conn_opens G)"
  unfolding history_fits_def conn_opens_def did_def
  by (cases "lg_live G") (auto simp: asks_ok_append split: option.splits)

lemma history_live: "history_fits d0 G \<Longrightarrow> lg_live G = Some L \<Longrightarrow> lv_ever L' = lv_ever L \<Longrightarrow> lv_conn L' = lv_conn L
   \<Longrightarrow> history_fits d0 (G\<lparr>lg_live := Some L'\<rparr>)"
  by (auto simp: history_fits_def)

lemma history_closes: "history_fits d0 G \<Longrightarrow> history_fits d0 (conn_closes insts G)"
  by (auto simp: conn_closes_def history_retry split: option.splits intro!: history_connect history_live)
    (auto simp: history_fits_def)

lemma history_reconnect: "history_fits d0 G \<Longrightarrow> history_fits d0 (reconnect insts G)"
  by (auto simp: reconnect_def split: option.splits intro!: history_connect history_live)

lemma history_same: "history_fits d0 G \<Longrightarrow> lg_live G' = lg_live G \<Longrightarrow> lg_done G' = lg_done G \<Longrightarrow> history_fits d0 G'"
  by (simp add: history_fits_def)

lemma history_shown: "history_fits d0 G \<Longrightarrow> lg_live G = None \<Longrightarrow> history_fits d0 (did Error_shown (G\<lparr>lg_view := v\<rparr>))"
  by (auto simp: history_fits_def did_def asks_ok_append)

lemma history_reply: "history_fits d0 G \<Longrightarrow> history_fits d0 (load_reply low tr n d G)"
  by (cases d) (auto simp: load_reply_def history_shown elim!: history_same)

lemma history_step: "unasked e \<Longrightarrow> history_fits d0 G \<Longrightarrow> history_fits d0 (log_step w insts low tr e G)"
  by (cases e) (auto simp: history_reply history_closes history_reconnect history_opens set_filter_def conn_message_def appendLive_def Let_def
    elim!: history_same split: option.splits)


text \<open>How many connections a reading may still ask for.\<close>

definition is_ask :: "log_effect \<Rightarrow> bool" where
  "is_ask e \<longleftrightarrow> (case e of Ask w src n \<Rightarrow> True | _ \<Rightarrow> False)"

abbreviation asked_of :: "log_effect list \<Rightarrow> nat" where
  "asked_of ds \<equiv> length (filter is_ask ds)"

abbreviation opened_of :: "log_effect list \<Rightarrow> nat" where
  "opened_of ds \<equiv> length (filter (\<lambda>e. e = Live_opened) ds)"

definition reserve :: "live \<Rightarrow> nat" where
  "reserve L = (if lv_ws L then 1 else 0) + (MAX_RECONNECTS - lv_failures L) + (if lv_timer L \<noteq> None then 1 else 0)"

definition within :: "nat \<Rightarrow> log_effect list \<Rightarrow> logs \<Rightarrow> bool" where
  "within k d0 G \<longleftrightarrow> (\<exists>ds. lg_done G = d0 @ ds
     \<and> asked_of ds + (case lg_live G of Some L \<Rightarrow> reserve L | None \<Rightarrow> 0) + k \<le> 7 + 5 * opened_of ds)"

lemma within_connect: "within (Suc k) d0 G \<Longrightarrow> within k d0 (connect_live insts n G)"
  unfolding within_def connect_live_def did_def
  by (cases "lg_live G") (auto simp: is_ask_def reserve_def)

lemma within_retry: "within 0 d0 G \<Longrightarrow> within 0 d0 (retry G)"
  unfolding within_def retry_def did_def stopLive_def Let_def
  by (cases "lg_live G") (auto simp: is_ask_def reserve_def)

lemma within_opens: "within 0 d0 G \<Longrightarrow> within 0 d0 (conn_opens G)"
  unfolding within_def conn_opens_def did_def
  by (cases "lg_live G") (auto simp: is_ask_def reserve_def MAX_RECONNECTS_def split: option.splits)

lemma within_live: "within 0 d0 G \<Longrightarrow> lg_live G = Some L \<Longrightarrow> reserve L = Suc (reserve L') \<Longrightarrow> within (Suc 0) d0 (G\<lparr>lg_live := Some L'\<rparr>)"
  by (auto simp: within_def)

lemma within_closes: "within 0 d0 G \<Longrightarrow> within 0 d0 (conn_closes insts G)"
  by (auto simp: conn_closes_def within_retry reserve_def split: option.splits intro!: within_connect within_live)

lemma within_reconnect: "within 0 d0 G \<Longrightarrow> within 0 d0 (reconnect insts G)"
  by (auto simp: reconnect_def reserve_def split: option.splits intro!: within_connect within_live)

lemma within_same: "within 0 d0 G \<Longrightarrow> lg_live G' = lg_live G \<Longrightarrow> lg_done G' = lg_done G \<Longrightarrow> within 0 d0 G'"
  by (simp add: within_def)

lemma within_shown: "within 0 d0 G \<Longrightarrow> lg_live G = None \<Longrightarrow> within 0 d0 (did Error_shown (G\<lparr>lg_view := v\<rparr>))"
  by (auto simp: within_def did_def is_ask_def)

lemma within_reply: "within 0 d0 G \<Longrightarrow> within 0 d0 (load_reply low tr n d G)"
  by (cases d) (auto simp: load_reply_def within_shown elim!: within_same)

lemma within_step: "unasked e \<Longrightarrow> within 0 d0 G \<Longrightarrow> within 0 d0 (log_step w insts low tr e G)"
  by (cases e) (auto simp: within_reply within_closes within_reconnect within_opens set_filter_def conn_message_def appendLive_def Let_def
    elim!: within_same split: option.splits)

lemma unasked_run:
  assumes "\<And>insts e G. unasked e \<Longrightarrow> P G \<Longrightarrow> P (log_step w insts low tr e G)"
  shows "list_all (unasked \<circ> snd) es \<Longrightarrow> P G \<Longrightarrow> P (log_run w low tr es G)"
  by (induction es arbitrary: G) (auto simp: log_run_def assms)


text \<open>A server that never answers: seven connections, then the reading ends.\<close>

lemma live_gives_up: "lg_live (log_run w low tr (concat (replicate 7 [(insts, Closes), (insts, Timer)])) (startLive w insts G)) = None"
proof -
  have "replicate 7 x = [x, x, x, x, x, x, x]" for x :: "((jstr \<times> inst) list \<times> log_event) list" by (simp add: numeral_eq_Suc)
  then show ?thesis
    by (cases w) (simp_all add: log_run_def startLive_def createLive_def connect_live_def did_def conn_closes_def retry_def
      reconnect_def stopLive_def MAX_RECONNECTS_def)
qed

subsection \<open>The filter\<close>

text \<open>\<open>low\<close> is the lower case of the browser: a new line is left alone, and stays apart from the rest.\<close>

definition lower_case :: "(jstr \<Rightarrow> jstr) \<Rightarrow> bool" where
  "lower_case low \<longleftrightarrow> (\<forall>s. low (s @ [c_nl]) = low s @ [c_nl] \<and> (c_nl \<notin> set s \<longrightarrow> c_nl \<notin> set (low s)))"

definition well_filtered :: "(jstr \<Rightarrow> jstr) \<Rightarrow> logs \<Rightarrow> bool" where
  "well_filtered low G \<longleftrightarrow> c_nl \<notin> set (lg_filter G) \<and> (\<forall>v. lg_view G = Some v \<longrightarrow> (\<forall>l\<in>set (vw_lines v). \<exists>t.
     ll_text l = t @ [c_nl] \<and> ll_hidden l = filtered_out low (lg_filter G) t))"

lemma includesStr_iff: "includesStr s p \<longleftrightarrow> (\<exists>a b. s = a @ p @ b)"
proof -
  have "indexOf s p \<noteq> None \<longleftrightarrow> (\<exists>a b. s = a @ p @ b)"
  proof (induction s)
    case (Cons c s)
    show ?case
    proof (cases "startsWith (c # s) p")
      case True
      then show ?thesis by (auto simp: startsWith_iff intro: exI [of _ "[]"])
    next
      case False
      then have "(\<exists>a b. c # s = a @ p @ b) \<longleftrightarrow> (\<exists>a b. s = a @ p @ b)"
        by (auto simp: startsWith_iff Cons_eq_append_conv)
      with False Cons show ?thesis by simp
    qed
  qed auto
  then show ?thesis by (simp add: includesStr_def)
qed

lemma includes_snoc: "p \<noteq> [] \<Longrightarrow> c \<notin> set p \<Longrightarrow> includesStr (s @ [c]) p \<longleftrightarrow> includesStr s p"
proof -
  assume p: "p \<noteq> []" "c \<notin> set p"
  have "\<exists>b'. s = a @ p @ b'" if "s @ [c] = a @ p @ b" for a b
    using that p by (cases b rule: rev_cases) (auto simp: append_eq_append_conv2 Cons_eq_append_conv)
  moreover have "\<exists>a' b'. s @ [c] = a' @ p @ b'" if "s = a @ p @ b" for a b
    using that by (intro exI [of _ a] exI [of _ "b @ [c]"]) simp
  ultimately show ?thesis unfolding includesStr_iff by blast
qed

lemma filtered_nl: "lower_case low \<Longrightarrow> c_nl \<notin> set f \<Longrightarrow> filtered_out low f (t @ [c_nl]) = filtered_out low f t"
  by (cases "f = []") (simp_all add: filtered_out_def lower_case_def includes_snoc)


lemma well_same: "well_filtered low G \<Longrightarrow> lg_view G' = lg_view G \<Longrightarrow> lg_filter G' = lg_filter G \<Longrightarrow> well_filtered low G'"
  by (simp add: well_filtered_def)

lemma well_empty: "c_nl \<notin> set (lg_filter G) \<Longrightarrow> (\<And>v. lg_view G = Some v \<Longrightarrow> vw_lines v = []) \<Longrightarrow> well_filtered low G"
  by (simp add: well_filtered_def)

lemma filter_kept [simp]:
  "lg_filter (connect_live insts h G) = lg_filter G" "lg_filter (retry G) = lg_filter G" "lg_filter (reconnect insts G) = lg_filter G"
  "lg_filter (conn_opens G) = lg_filter G" "lg_filter (conn_closes insts G) = lg_filter G" "lg_filter (stopLive G) = lg_filter G"
  "lg_filter (startLive w insts G) = lg_filter G" "lg_filter (load_l tr G) = lg_filter G"
  by (auto simp: connect_live_def retry_def reconnect_def conn_opens_def conn_closes_def did_def stopLive_def startLive_def load_l_def
    Let_def split: option.splits)

lemma view_started [simp]: "lg_view (startLive w insts G) = Some (lines_view [])" "lg_view (stopLive G) = lg_view G"
  by (simp_all add: startLive_def stopLive_def)

lemma view_loading: "lg_view (load_l tr G) = Some v \<Longrightarrow> vw_lines v = []"
  by (auto simp: load_l_def stopLive_def Let_def message_view_def split: if_splits)

lemma well_start: "well_filtered low G \<Longrightarrow> well_filtered low (startLive w insts G)"
  by (rule well_empty) (auto simp: well_filtered_def lines_view_def)

lemma well_load: "c_nl \<notin> set (lg_filter G) \<Longrightarrow> well_filtered low (load_l tr G)"
  by (rule well_empty) (auto dest: view_loading)

lemma well_set: "lower_case low \<Longrightarrow> c_nl \<notin> set v \<Longrightarrow> well_filtered low G \<Longrightarrow> well_filtered low (set_filter low v G)"
proof -
  assume l: "lower_case low" and v: "c_nl \<notin> set v" and G: "well_filtered low G"
  have f: "c_nl \<notin> set (low (trim v))" using l v set_trim [of v] by (auto simp: lower_case_def)
  then show ?thesis using G filtered_nl [OF l f] by (fastforce simp: well_filtered_def set_filter_def Let_def)
qed

lemma well_lineEl: "ll_text (lineEl low f t) = t @ [c_nl] \<and> ll_hidden (lineEl low f t) = filtered_out low f t"
  by (simp add: lineEl_def)

lemma well_reply: "well_filtered low G \<Longrightarrow> well_filtered low (load_reply low tr n d G)"
  using well_lineEl [of low "lg_filter G"]
  by (cases d) (auto simp: load_reply_def well_filtered_def did_def message_view_def lines_view_def)

lemma well_append: "well_filtered low G \<Longrightarrow> well_filtered low (appendLive low s G)"
proof -
  assume G: "well_filtered low G"
  have "set (last_lines xs) \<subseteq> set xs" for xs :: "log_line list" by (simp add: last_lines_def set_drop_subset)
  with G well_lineEl [of low "lg_filter G" s] show ?thesis
    by (fastforce simp: appendLive_def well_filtered_def Let_def split: option.splits)
qed

fun field_event :: "log_event \<Rightarrow> bool" where
  "field_event (Filter v) = (c_nl \<notin> set v)"
| "field_event e = True"

lemma well_step: "lower_case low \<Longrightarrow> field_event e \<Longrightarrow> well_filtered low G \<Longrightarrow> well_filtered low (log_step w insts low tr e G)"
proof (cases e)
  case (Mount ids wanted)
  assume "well_filtered low G"
  with Mount show ?thesis by (auto simp: mount_l_def Let_def intro!: well_load intro: well_empty)
next
  case Unmount
  assume "well_filtered low G"
  with Unmount show ?thesis by (auto simp: unmount_l_def well_filtered_def)
next
  case (Message_comes s)
  assume "well_filtered low G"
  with Message_comes show ?thesis by (simp add: conn_message_def well_append)
qed (auto simp: choose_instance_def choose_source_def toggleLive_def Let_def well_set well_reply well_start
  elim: well_same intro!: well_load, auto simp: well_filtered_def lines_view_def)

text \<open>Every line of the view is hidden exactly when the filter is not empty and not in its text, in lower case.\<close>

theorem filter_shown:
  assumes "lower_case low" and "list_all (field_event \<circ> snd) es"
    and "lg_view (log_run w low tr es logs_start) = Some v" and "l \<in> set (vw_lines v)"
  shows "\<exists>t. ll_text l = t @ [c_nl]
    \<and> ll_hidden l = (lg_filter (log_run w low tr es logs_start) \<noteq> [] \<and> \<not> includesStr (low t) (lg_filter (log_run w low tr es logs_start)))"
proof -
  have "well_filtered low (log_run w low tr es G)" if "well_filtered low G" for G
    using assms(2) that by (induction es arbitrary: G) (auto simp: log_run_def well_step [OF assms(1)])
  then have "well_filtered low (log_run w low tr es logs_start)" by (simp add: well_filtered_def logs_start_def)
  then show ?thesis using assms(3,4) by (auto simp: well_filtered_def filtered_out_def)
qed


subsection \<open>Concrete histories\<close>

text \<open>A reading over a proxy without WebSocket, an answer that comes too late, three lines, one filtered out.\<close>

definition ex_log_events :: "((jstr \<times> inst) list \<times> log_event) list" where
  "ex_log_events = map (Pair []) [Closes, Opens, Message_comes (lit ''Login OK''), Load_reply 1 (Some (lit ''old'')), Filter (lit '' ok''),
     Message_comes KEEPALIVE, Message_comes (lit ''retrying''), Closes, Timer, Opens, Message_comes (lit ''OK'')]"

lemma ex_log_unasked: "list_all (unasked \<circ> snd) ex_log_events"
  by (simp add: ex_log_events_def)

lemmas log_eval = ex_log_events_def log_run_def logs_start_def startLive_def createLive_def connect_live_def did_def conn_closes_def
  conn_opens_def retry_def reconnect_def conn_message_def live_open_def appendLive_def set_filter_def load_reply_def
  MAX_RECONNECTS_def KEEPALIVE_def Let_def lit_simps

lemma ex_log_live: "lg_live (log_run True lower id ex_log_events (startLive True [] logs_start)) \<noteq> None"
  by (simp add: log_eval lines_view_def)

lemma ex_log_received: "received True lower id ex_log_events (startLive True [] logs_start) = [lit ''Login OK'', lit ''retrying'', lit ''OK'']"
  by (simp add: log_eval lines_view_def)

theorem live_shows_last_lines_witness:
  "\<exists>v. lg_view (log_run True lower id ex_log_events (startLive True [] logs_start)) = Some v
    \<and> map ll_text (vw_lines v) = map (\<lambda>s. s @ [c_nl]) [lit ''Login OK'', lit ''retrying'', lit ''OK'']"
  using live_shows_last_lines [OF ex_log_unasked ex_log_live] unfolding ex_log_received
  by (auto simp: last_lines_def MAX_LINES_def)


lemma lower_case_lower: "lower_case lower"
  by (auto simp: lower_case_def lower_def)

definition ex_log_loaded :: "((jstr \<times> inst) list \<times> log_event) list" where
  "ex_log_loaded = map (Pair []) [Mount [lit ''frpc''] None, Load_reply 1 (Some (lit ''start proxy'' @ [c_nl] @ lit ''login'')), Filter (lit '' LOG'')]"

lemma ex_log_fields: "list_all (field_event \<circ> snd) ex_log_loaded"
  by (simp add: ex_log_loaded_def lit_simps)

lemma ex_log_view: "lg_view (log_run True lower id ex_log_loaded logs_start)
  = Some (lines_view [\<lparr>ll_text = lit ''start proxy'' @ [c_nl], ll_class = lit ''log-line log-ok'', ll_hidden = True\<rparr>,
      \<lparr>ll_text = lit ''login'' @ [c_nl], ll_class = lit ''log-line'', ll_hidden = False\<rparr>])"
  by (simp add: ex_log_loaded_def log_eval mount_l_def load_l_def stopLive_def lineEl_def levelOf_def has_ci_def includesStr_def lower_def
    trim_def trimStart_def trimEnd_def is_ws_def filtered_out_def lines_view_def message_view_def)

theorem filter_shown_witness:
  "\<exists>t. lit ''start proxy'' @ [c_nl] = t @ [c_nl] \<and> lg_filter (log_run True lower id ex_log_loaded logs_start) \<noteq> []
    \<and> \<not> includesStr (lower t) (lg_filter (log_run True lower id ex_log_loaded logs_start))"
  using filter_shown [OF lower_case_lower ex_log_fields ex_log_view, of "\<lparr>ll_text = lit ''start proxy'' @ [c_nl], ll_class = lit ''log-line log-ok'', ll_hidden = True\<rparr>"]
  by (simp add: lines_view_def)

end
