(* ===== verification/Page_Users.thy ===== *)
theory Page_Users imports Panel_Store begin

text \<open>
  Accounts and single sign-on (\<open>pages/users.js\<close>): the permissions an account has by those it is given, the
  editor of an account with its boxes, what it sends, the list of the accounts and the form of the identity
  provider. The data of the server (\<open>users_data\<close>) and its answers are arguments; names of permissions and of
  roles are never names every object inherits. The dialogs and the markup are in \<open>View_Users\<close>.
\<close>

subsection \<open>Data of the server\<close>

record perm =
  pm_id :: jstr
  pm_scoped :: bool

datatype scope = All_instances | Instances "jstr list"

record account =
  u_id :: jstr
  u_username :: jstr
  u_display_name :: jstr
  u_email :: jstr
  u_source :: jstr
  u_role :: jstr
  u_permissions :: "jstr list"
  u_instances :: scope
  u_enabled :: bool
  u_owner :: bool
  u_linked :: bool
  u_passkeys :: nat

record users_data =
  ud_users :: "account list"
  ud_me :: jstr
  ud_permissions :: "perm list"
  ud_roles :: "(jstr \<times> jstr list) list"
  ud_implies :: "(jstr \<times> jstr list) list"
  ud_instances :: "jstr list"

definition perm_ids :: "users_data \<Rightarrow> jstr list" where
  "perm_ids D = map pm_id (ud_permissions D)"

definition role_perms :: "users_data \<Rightarrow> jstr \<Rightarrow> jstr list" where
  "role_perms D r = (case map_of (ud_roles D) r of Some ps \<Rightarrow> ps | None \<Rightarrow> [])"

subsection \<open>Permissions that follow from others\<close>

definition implied_by :: "(jstr \<times> jstr list) list \<Rightarrow> jstr \<Rightarrow> jstr list" where
  "implied_by imp p = (case map_of imp p of Some ps \<Rightarrow> ps | None \<Rightarrow> [])"

text \<open>The loop of \<open>expand\<close>: the permissions found, in order, and those to look at, the last one first.\<close>

definition in_play :: "(jstr \<times> jstr list) list \<Rightarrow> jstr list \<Rightarrow> jstr set" where
  "in_play imp todo = set todo \<union> (\<Union>e\<in>set imp. set (snd e))"

lemma implied_in_play: "set (implied_by imp p) \<subseteq> in_play imp todo"
  using map_of_SomeD [of imp p] by (force simp: implied_by_def in_play_def split: option.splits)

function expand_from :: "(jstr \<times> jstr list) list \<Rightarrow> jstr list \<Rightarrow> jstr list \<Rightarrow> jstr list" where
  "expand_from imp out todo =
     (if todo = [] then out
      else if last todo \<in> set out then expand_from imp out (butlast todo)
      else expand_from imp (out @ [last todo]) (butlast todo @ implied_by imp (last todo)))"
  by pat_completeness auto
termination
proof (relation "(\<lambda>(imp, out, todo). card (in_play imp todo - set out)) <*mlex*> measure (\<lambda>(imp, out, todo). length todo)")
  fix imp out todo
  assume todo: "todo \<noteq> ([] :: jstr list)"
  have fin: "finite (in_play imp todo - set out)" for todo and out :: "jstr list" by (simp add: in_play_def)
  have less: "in_play imp (butlast todo) \<subseteq> in_play imp todo" by (auto simp: in_play_def dest: in_set_butlastD)
  show "((imp, out, butlast todo), imp, out, todo) \<in> (\<lambda>(imp, out, todo). card (in_play imp todo - set out)) <*mlex*> measure (\<lambda>(imp, out, todo). length todo)"
    using todo card_mono [OF fin, of "in_play imp (butlast todo) - set out" todo out] less by (intro mlex_leq) auto
  assume "last todo \<notin> set out"
  moreover have "last todo \<in> in_play imp todo" using todo by (simp add: in_play_def)
  moreover have "in_play imp (butlast todo @ implied_by imp (last todo)) \<subseteq> in_play imp todo"
    using less implied_in_play [of imp "last todo" todo] by (auto simp: in_play_def)
  ultimately have "in_play imp (butlast todo @ implied_by imp (last todo)) - set (out @ [last todo]) \<subset> in_play imp todo - set out" by auto
  then show "((imp, out @ [last todo], butlast todo @ implied_by imp (last todo)), imp, out, todo)
      \<in> (\<lambda>(imp, out, todo). card (in_play imp todo - set out)) <*mlex*> measure (\<lambda>(imp, out, todo). length todo)"
    using psubset_card_mono [OF fin] by (intro mlex_less) simp
qed (auto intro: wf_mlex)

declare expand_from.simps [simp del]

definition expand :: "users_data \<Rightarrow> jstr list \<Rightarrow> jstr list" where
  "expand D perms = expand_from (ud_implies D) [] perms"

subsection \<open>The editor of an account\<close>

record box =
  bx_id :: jstr
  bx_scoped :: bool
  bx_checked :: bool
  bx_implied :: bool
  bx_disabled :: bool

text \<open>\<open>ef_prev\<close> is the role before the last change; an editor without an account creates one.\<close>

record editor =
  ef_account :: "account option"
  ef_source :: jstr
  ef_username :: jstr
  ef_password :: jstr
  ef_email :: jstr
  ef_role :: jstr
  ef_prev :: jstr
  ef_permissions :: "jstr list"
  ef_some :: bool
  ef_insts :: "(jstr \<times> bool) list"
  ef_enabled :: bool
  ef_drop_passkeys :: bool
  ef_boxes :: "box list"

definition restricted :: "editor \<Rightarrow> bool" where
  "restricted E \<longleftrightarrow> ef_some E \<and> ef_role E \<noteq> lit ''admin''"

definition granted :: "users_data \<Rightarrow> editor \<Rightarrow> jstr list" where
  "granted D E = (if ef_role E = lit ''admin'' then perm_ids D
     else if ef_role E = lit ''custom'' then expand D (ef_permissions E) else role_perms D (ef_role E))"

definition sync_box :: "users_data \<Rightarrow> editor \<Rightarrow> box \<Rightarrow> box" where
  "sync_box D E b =
     (let custom = ef_role E = lit ''custom'';
          has = bx_id b \<in> set (granted D E);
          implied = custom \<and> has \<and> bx_id b \<notin> set (ef_permissions E);
          cut = restricted E \<and> \<not> bx_scoped b
      in b\<lparr>bx_implied := implied, bx_checked := has \<and> \<not> cut, bx_disabled := \<not> custom \<or> implied \<or> cut\<rparr>)"

definition syncPerms :: "users_data \<Rightarrow> editor \<Rightarrow> editor" where
  "syncPerms D E = E\<lparr>ef_boxes := map (sync_box D E) (ef_boxes E)\<rparr>"

text \<open>The instances offered: those of the server, then those of the account that are gone.\<close>

definition offered :: "users_data \<Rightarrow> account option \<Rightarrow> jstr list" where
  "offered D a = (let own = (case a of Some u \<Rightarrow> (case u_instances u of Instances is \<Rightarrow> is | All_instances \<Rightarrow> []) | None \<Rightarrow> [])
     in rev (remdups (rev (ud_instances D @ own))))"

definition edit_user :: "users_data \<Rightarrow> account option \<Rightarrow> editor" where
  "edit_user D a =
     (let role = (case a of Some u \<Rightarrow> u_role u | None \<Rightarrow> lit ''viewer'');
          perms = (case a of Some u \<Rightarrow> (if role = lit ''custom'' then u_permissions u else []) | None \<Rightarrow> []);
          own = (case a of Some u \<Rightarrow> (case u_instances u of Instances is \<Rightarrow> Some is | All_instances \<Rightarrow> None) | None \<Rightarrow> None)
      in syncPerms D \<lparr>ef_account = a, ef_source = (case a of Some u \<Rightarrow> u_source u | None \<Rightarrow> lit ''local''),
           ef_username = (case a of Some u \<Rightarrow> u_username u | None \<Rightarrow> []), ef_password = [],
           ef_email = (case a of Some u \<Rightarrow> u_email u | None \<Rightarrow> []), ef_role = role, ef_prev = role, ef_permissions = perms,
           ef_some = (own \<noteq> None), ef_insts = map (\<lambda>i. (i, case own of Some is \<Rightarrow> i \<in> set is | None \<Rightarrow> False)) (offered D a),
           ef_enabled = (case a of Some u \<Rightarrow> u_enabled u | None \<Rightarrow> True), ef_drop_passkeys = False,
           ef_boxes = map (\<lambda>p. \<lparr>bx_id = pm_id p, bx_scoped = pm_scoped p, bx_checked = pm_id p \<in> set perms, bx_implied = False,
             bx_disabled = False\<rparr>) (ud_permissions D)\<rparr>)"

text \<open>A box that is not disabled is ticked or cleared: the permissions are those of the boxes ticked that do not
  follow from others.\<close>

definition tick :: "users_data \<Rightarrow> jstr \<Rightarrow> bool \<Rightarrow> editor \<Rightarrow> editor" where
  "tick D p on E =
     (let boxes = map (\<lambda>b. if bx_id b = p then b\<lparr>bx_checked := on\<rparr> else b) (ef_boxes E)
      in syncPerms D (E\<lparr>ef_boxes := boxes, ef_permissions := map bx_id (filter (\<lambda>b. bx_checked b \<and> \<not> bx_implied b) boxes)\<rparr>))"

definition set_role :: "users_data \<Rightarrow> jstr \<Rightarrow> editor \<Rightarrow> editor" where
  "set_role D r E = syncPerms D (E\<lparr>ef_role := r, ef_prev := r,
     ef_permissions := (if r = lit ''custom'' \<and> ef_prev E \<noteq> lit ''custom'' \<and> ef_permissions E = []
       then (if ef_prev E = lit ''admin'' then perm_ids D else role_perms D (ef_prev E)) else ef_permissions E)\<rparr>)"

definition set_scope :: "users_data \<Rightarrow> bool \<Rightarrow> editor \<Rightarrow> editor" where
  "set_scope D some E = syncPerms D (E\<lparr>ef_some := some\<rparr>)"

datatype user_edit =
    Tick jstr bool | Role jstr | Scope bool | Pick jstr bool | Username jstr | Password jstr | Email jstr | Source jstr
  | Enabled bool | Drop_passkeys bool

definition email_disabled :: "editor \<Rightarrow> bool" where
  "email_disabled E \<longleftrightarrow> (case ef_account E of Some u \<Rightarrow> u_linked u | None \<Rightarrow> False)"

fun user_step :: "users_data \<Rightarrow> user_edit \<Rightarrow> editor \<Rightarrow> editor" where
  "user_step D (Tick p on) E = (if list_ex (\<lambda>b. bx_id b = p \<and> \<not> bx_disabled b) (ef_boxes E) then tick D p on E else E)"
| "user_step D (Role r) E = set_role D r E"
| "user_step D (Scope some) E = set_scope D some E"
| "user_step D (Pick i on) E = E\<lparr>ef_insts := map (\<lambda>(j, v). (j, if j = i then on else v)) (ef_insts E)\<rparr>"
| "user_step D (Username s) E = E\<lparr>ef_username := s\<rparr>"
| "user_step D (Password s) E = E\<lparr>ef_password := s\<rparr>"
| "user_step D (Email s) E = (if email_disabled E then E else E\<lparr>ef_email := s\<rparr>)"
| "user_step D (Source s) E = (if ef_account E = None then E\<lparr>ef_source := s\<rparr> else E)"
| "user_step D (Enabled v) E = E\<lparr>ef_enabled := v\<rparr>"
| "user_step D (Drop_passkeys v) E = (case ef_account E of
     Some u \<Rightarrow> (if u_passkeys u \<noteq> 0 then E\<lparr>ef_drop_passkeys := v\<rparr> else E) | None \<Rightarrow> E)"

definition user_run :: "users_data \<Rightarrow> user_edit list \<Rightarrow> editor \<Rightarrow> editor" where
  "user_run D es E = fold (user_step D) es E"

subsection \<open>What is sent\<close>

datatype user_error = Username_missing | Password_short | Email_missing | No_instance

record user_body =
  ub_username :: jstr
  ub_role :: jstr
  ub_enabled :: bool
  ub_permissions :: "jstr list"
  ub_instances :: scope
  ub_password :: "jstr option"
  ub_remove_passkeys :: bool
  ub_email :: "jstr option"
  ub_source :: "jstr option"

definition wants_password :: "editor \<Rightarrow> bool" where
  "wants_password E \<longleftrightarrow> ef_source E = lit ''local'' \<and> (ef_account E = None \<or> ef_password E \<noteq> [])"

definition wants_email :: "editor \<Rightarrow> bool" where
  "wants_email E \<longleftrightarrow> ef_source E = lit ''oidc'' \<and> \<not> email_disabled E"

definition sent_instances :: "editor \<Rightarrow> scope" where
  "sent_instances E = (if \<not> ef_some E \<or> ef_role E = lit ''admin'' then All_instances
     else Instances (map fst (filter snd (ef_insts E))))"

text \<open>The first check that fails stops; \<open>ub_source\<close> is sent for a new account only.\<close>

definition account_error :: "editor \<Rightarrow> user_error option" where
  "account_error E =
     (if trim (ef_username E) = [] then Some Username_missing
      else if wants_password E \<and> length (ef_password E) < 12 then Some Password_short
      else if wants_email E \<and> trim (ef_email E) = [] then Some Email_missing
      else if sent_instances E = Instances [] then Some No_instance else None)"

definition account_body :: "editor \<Rightarrow> user_body" where
  "account_body E = \<lparr>ub_username = trim (ef_username E), ub_role = ef_role E, ub_enabled = ef_enabled E,
     ub_permissions = (if ef_role E = lit ''custom'' then ef_permissions E else []), ub_instances = sent_instances E,
     ub_password = (if wants_password E then Some (ef_password E) else None), ub_remove_passkeys = ef_drop_passkeys E,
     ub_email = (if wants_email E then Some (trim (ef_email E)) else None),
     ub_source = (if ef_account E = None then Some (ef_source E) else None)\<rparr>"

definition submit_user :: "editor \<Rightarrow> user_error + user_body" where
  "submit_user E = (case account_error E of Some e \<Rightarrow> Inl e | None \<Rightarrow> Inr (account_body E))"

subsection \<open>The list of the accounts\<close>

definition editable :: "users_data \<Rightarrow> account \<Rightarrow> bool" where
  "editable D u \<longleftrightarrow> \<not> u_owner u \<and> u_id u \<noteq> ud_me D"

datatype user_badge = Role_badge jstr | Owner_badge | You_badge | Oidc_badge bool | Passkeys_badge nat

definition user_badges :: "users_data \<Rightarrow> account \<Rightarrow> user_badge list" where
  "user_badges D u = [Role_badge (u_role u)] @ (if u_owner u then [Owner_badge] else []) @ (if u_id u = ud_me D then [You_badge] else [])
     @ (if u_source u = lit ''oidc'' then [Oidc_badge (u_linked u)] else [])
     @ (if u_passkeys u \<noteq> 0 then [Passkeys_badge (u_passkeys u)] else [])"

text \<open>An account is enabled or disabled by its switch: the switch goes back when the server refuses
  (\<open>answer\<close> is whether it accepted, \<open>None\<close> a failed request).\<close>

definition switch_user :: "bool option \<Rightarrow> bool \<Rightarrow> bool" where
  "switch_user answer on = (if answer = Some True then on else \<not> on)"

subsection \<open>Single sign-on\<close>

record oidc_form =
  oi_enabled :: bool
  oi_issuer :: jstr
  oi_client_id :: jstr
  oi_secret :: jstr
  oi_scopes :: jstr
  oi_label :: jstr
  oi_redirect :: jstr
  oi_username_claim :: jstr
  oi_groups_claim :: jstr
  oi_auto_create :: bool
  oi_default_role :: jstr
  oi_domains :: jstr
  oi_rows :: "(jstr \<times> jstr) list"

record 'd oidc_config =
  oc_enabled :: bool
  oc_issuer :: jstr
  oc_client_id :: jstr
  oc_scopes :: jstr
  oc_label :: jstr
  oc_redirect_uri :: jstr
  oc_username_claim :: jstr
  oc_groups_claim :: jstr
  oc_auto_create :: bool
  oc_default_role :: jstr
  oc_domains :: 'd
  oc_group_roles :: "(jstr \<times> jstr) list"

definition load_oidc :: "jstr list oidc_config \<Rightarrow> oidc_form" where
  "load_oidc c = \<lparr>oi_enabled = oc_enabled c, oi_issuer = oc_issuer c, oi_client_id = oc_client_id c, oi_secret = [],
     oi_scopes = oc_scopes c, oi_label = oc_label c, oi_redirect = oc_redirect_uri c, oi_username_claim = oc_username_claim c,
     oi_groups_claim = oc_groups_claim c, oi_auto_create = oc_auto_create c, oi_default_role = oc_default_role c,
     oi_domains = join (lit '', '') (oc_domains c), oi_rows = oc_group_roles c\<rparr>"

text \<open>The rows without a group are left out; a group given twice has the last role.\<close>

definition group_roles :: "(jstr \<times> jstr) list \<Rightarrow> (jstr \<times> jstr) list" where
  "group_roles rows = fold (\<lambda>(g, r) ob. let g' = trim g in if g' \<noteq> [] then obj_put g' r ob else ob) rows []"

text \<open>What is sent: the domains as they were typed, the secret only when one was.\<close>

record oidc_body = "jstr oidc_config" +
  ob_secret :: "jstr option"

definition submit_oidc :: "oidc_form \<Rightarrow> oidc_body" where
  "submit_oidc F = \<lparr>oc_enabled = oi_enabled F, oc_issuer = trim (oi_issuer F), oc_client_id = trim (oi_client_id F),
     oc_scopes = trim (oi_scopes F), oc_label = trim (oi_label F), oc_redirect_uri = trim (oi_redirect F),
     oc_username_claim = text_or (trim (oi_username_claim F)) (lit ''preferred_username''),
     oc_groups_claim = text_or (trim (oi_groups_claim F)) (lit ''groups''), oc_auto_create = oi_auto_create F,
     oc_default_role = oi_default_role F, oc_domains = oi_domains F, oc_group_roles = group_roles (oi_rows F),
     ob_secret = (if oi_secret F \<noteq> [] then Some (oi_secret F) else None)\<rparr>"

end
