(* ===== verification/Page_Users_Rights.thy ===== *)
theory Page_Users_Rights imports Page_Users begin

text \<open>
  Accounts: the permissions found by the loop are those reachable from the ones given, the boxes of the editor
  show what the account will have, and what is sent is complete.
\<close>

subsection \<open>Permissions reachable\<close>

definition implications :: "users_data \<Rightarrow> (jstr \<times> jstr) set" where
  "implications D = {(p, q). q \<in> set (implied_by (ud_implies D) p)}"

lemma expand_from_Nil [simp]: "expand_from imp out [] = out"
  by (subst expand_from.simps) simp

lemma expand_from_reaches:
  "R = {(p, q). q \<in> set (implied_by imp p)} \<Longrightarrow> R `` set out \<subseteq> set out \<union> set todo
   \<Longrightarrow> set (expand_from imp out todo) = R\<^sup>* `` (set out \<union> set todo)"
proof (induction imp out todo rule: expand_from.induct)
  case (1 imp out todo)
  show ?case
  proof (cases "todo = []")
    case True
    with 1(4) show ?thesis by (simp add: Image_closed_trancl)
  next
    case False
    then have todo: "set todo = insert (last todo) (set (butlast todo))" by (metis append_butlast_last_id list.simps(15) rotate1.simps(2) set_rotate1)
    show ?thesis
    proof (cases "last todo \<in> set out")
      case True
      then have "set out \<union> set todo = set out \<union> set (butlast todo)" using todo by auto
      with 1(1)[OF False True 1(3)] 1(4) False True show ?thesis by (simp add: expand_from.simps [of imp out todo])
    next
      case new: False
      have "R `` set (out @ [last todo]) \<subseteq> set (out @ [last todo]) \<union> set (butlast todo @ implied_by imp (last todo))"
        using 1(3,4) todo by auto
      from 1(2)[OF False new 1(3) this] False new
      have r: "set (expand_from imp out todo) = R\<^sup>* `` (set out \<union> set todo \<union> set (implied_by imp (last todo)))"
        using todo by (simp add: expand_from.simps [of imp out todo] Un_ac insert_commute)
      have "R\<^sup>* `` set (implied_by imp (last todo)) \<subseteq> R\<^sup>* `` set todo"
        using 1(3) todo by (auto intro: converse_rtrancl_into_rtrancl)
      then show ?thesis unfolding r by auto
    qed
  qed
qed

lemma expand_reaches_loop: "set (expand D ps) = {q. \<exists>p\<in>set ps. (p, q) \<in> (implications D)\<^sup>*}"
  using expand_from_reaches [OF refl, of "ud_implies D" "[]" ps] by (auto simp: expand_def implications_def)

text \<open>C34. The expanded permissions are exactly those reached by the implications of the server.\<close>

theorem expand_reaches: "set (expand D ps) = {q. \<exists>p\<in>set ps. (p, q) \<in> (implications D)\<^sup>*}"
  by (rule expand_reaches_loop)

subsection \<open>The boxes\<close>

text \<open>The boxes of an editor are those of the permissions, and shown as \<open>syncPerms\<close> shows them.\<close>

definition synced :: "users_data \<Rightarrow> editor \<Rightarrow> bool" where
  "synced D E \<longleftrightarrow> map (\<lambda>b. (bx_id b, bx_scoped b)) (ef_boxes E) = map (\<lambda>p. (pm_id p, pm_scoped p)) (ud_permissions D)
     \<and> (\<forall>b\<in>set (ef_boxes E). sync_box D E b = b)"

lemma sync_box_same:
  "bx_id (sync_box D E b) = bx_id b" "bx_scoped (sync_box D E b) = bx_scoped b"
  "sync_box D (E\<lparr>ef_boxes := bs\<rparr>) b = sync_box D E b" "sync_box D E (sync_box D E b) = sync_box D E b"
  by (simp_all add: sync_box_def Let_def granted_def restricted_def)

lemma syncPerms_synced:
  "map (\<lambda>b. (bx_id b, bx_scoped b)) (ef_boxes E) = map (\<lambda>p. (pm_id p, pm_scoped p)) (ud_permissions D) \<Longrightarrow> synced D (syncPerms D E)"
  by (simp add: synced_def syncPerms_def sync_box_same comp_def)

lemma sync_box_cong: "ef_role E' = ef_role E \<Longrightarrow> ef_some E' = ef_some E \<Longrightarrow> ef_permissions E' = ef_permissions E
   \<Longrightarrow> sync_box D E' b = sync_box D E b"
  by (simp add: sync_box_def Let_def granted_def restricted_def)

lemma synced_other: "synced D E \<Longrightarrow> ef_role E' = ef_role E \<Longrightarrow> ef_some E' = ef_some E \<Longrightarrow> ef_permissions E' = ef_permissions E
   \<Longrightarrow> ef_boxes E' = ef_boxes E \<Longrightarrow> synced D E'"
  using sync_box_cong [of E' E D] by (simp add: synced_def)

lemma synced_edit: "synced D (edit_user D a)"
  unfolding edit_user_def Let_def by (rule syncPerms_synced) (simp add: comp_def)

lemma synced_step: "synced D E \<Longrightarrow> synced D (user_step D e E)"
proof (cases e)
  case (Tick p on)
  assume "synced D E"
  moreover have "map (\<lambda>b. (bx_id b, bx_scoped b)) (map (\<lambda>b. if bx_id b = p then b\<lparr>bx_checked := on\<rparr> else b) bs)
      = map (\<lambda>b. (bx_id b, bx_scoped b)) bs" for bs :: "box list"
    by (auto simp: comp_def)
  ultimately have "synced D (tick D p on E)" unfolding tick_def Let_def by (intro syncPerms_synced) (simp add: synced_def del: map_map)
  with Tick \<open>synced D E\<close> show ?thesis by simp
qed (auto simp: set_role_def set_scope_def Let_def split: option.splits intro: synced_other intro!: syncPerms_synced, auto simp: synced_def)

lemma synced_run: "synced D E \<Longrightarrow> synced D (user_run D es E)"
  by (induction es arbitrary: E) (auto simp: user_run_def synced_step)

text \<open>What an account has, by what is sent: the permissions of its role, or those given and what follows from
  them; limited to some instances, only those that are about an instance (\<open>auth.go\<close>).\<close>

definition rights :: "users_data \<Rightarrow> user_body \<Rightarrow> jstr set" where
  "rights D b = (let all = (if ub_role b = lit ''admin'' then set (perm_ids D)
       else if ub_role b = lit ''custom'' then {q. \<exists>p\<in>set (ub_permissions b). (p, q) \<in> (implications D)\<^sup>*}
       else set (role_perms D (ub_role b)))
     in case ub_instances b of All_instances \<Rightarrow> all
        | Instances is \<Rightarrow> {p \<in> all. \<exists>m\<in>set (ud_permissions D). pm_id m = p \<and> pm_scoped m})"

lemma ids_meet:
  assumes "\<And>m n. m \<in> M \<Longrightarrow> n \<in> M \<Longrightarrow> f m = f n \<Longrightarrow> g m \<Longrightarrow> g n"
  shows "{f m |m. m \<in> M \<and> f m \<in> G \<and> (r \<longrightarrow> g m)} = {q \<in> G. r \<longrightarrow> (\<exists>m\<in>M. f m = q \<and> g m)} \<inter> f ` M"
  using assms unfolding set_eq_iff Int_iff image_iff mem_Collect_eq by (intro allI iffI; elim exE conjE bexE; blast)

lemma submit_sent: "submit_user E = Inr b \<Longrightarrow> account_error E = None \<and> b = account_body E"
  by (simp add: submit_user_def split: option.splits)

text \<open>C35. The boxes ticked in the editor of an account are the rights the request gives, after any edits.\<close>

theorem boxes_show_rights:
  assumes "submit_user (user_run D es (edit_user D a)) = Inr body" and "distinct (perm_ids D)"
  shows "{bx_id b |b. b \<in> set (ef_boxes (user_run D es (edit_user D a))) \<and> bx_checked b} = rights D body \<inter> set (perm_ids D)"
proof -
  let ?E = "user_run D es (edit_user D a)"
  have s: "synced D ?E" using synced_run [OF synced_edit] .
  have body: "ub_role body = ef_role ?E" "ub_permissions body = (if ef_role ?E = lit ''custom'' then ef_permissions ?E else [])"
    "(ub_instances body = All_instances) = (\<not> restricted ?E)"
    using submit_sent [OF assms(1)] by (simp_all add: account_body_def sent_instances_def restricted_def)
  have all: "set (granted D ?E) = (if ub_role body = lit ''admin'' then set (perm_ids D)
       else if ub_role body = lit ''custom'' then {q. \<exists>p\<in>set (ub_permissions body). (p, q) \<in> (implications D)\<^sup>*}
       else set (role_perms D (ub_role body)))"
    using expand_reaches_loop [of D "ef_permissions ?E"] by (auto simp: granted_def body)
  have "bx_checked b = (bx_id b \<in> set (granted D ?E) \<and> (restricted ?E \<longrightarrow> bx_scoped b))" if "b \<in> set (ef_boxes ?E)" for b
  proof -
    have "sync_box D ?E b = b" using s that by (simp add: synced_def)
    then have "bx_checked b = bx_checked (sync_box D ?E b)" by simp
    then show ?thesis by (auto simp: sync_box_def Let_def)
  qed
  then have "{bx_id b |b. b \<in> set (ef_boxes ?E) \<and> bx_checked b}
      = {i. \<exists>c. (i, c) \<in> (\<lambda>b. (bx_id b, bx_scoped b)) ` set (ef_boxes ?E) \<and> i \<in> set (granted D ?E) \<and> (restricted ?E \<longrightarrow> c)}"
    by auto
  also have "(\<lambda>b. (bx_id b, bx_scoped b)) ` set (ef_boxes ?E) = (\<lambda>p. (pm_id p, pm_scoped p)) ` set (ud_permissions D)"
    using s unfolding synced_def by (metis list.set_map)
  finally have shown: "{bx_id b |b. b \<in> set (ef_boxes ?E) \<and> bx_checked b}
      = {pm_id m |m. m \<in> set (ud_permissions D) \<and> pm_id m \<in> set (granted D ?E) \<and> (restricted ?E \<longrightarrow> pm_scoped m)}"
    by auto
  have scoped: "pm_scoped m = pm_scoped n" if "m \<in> set (ud_permissions D)" "n \<in> set (ud_permissions D)" "pm_id m = pm_id n" for m n
    using assms(2) that by (auto simp: perm_ids_def distinct_map inj_on_def)
  have "rights D body = {q \<in> set (granted D ?E). restricted ?E \<longrightarrow> (\<exists>m\<in>set (ud_permissions D). pm_id m = q \<and> pm_scoped m)}"
    unfolding rights_def Let_def all [symmetric] using body(3) by (cases "ub_instances body") simp_all
  then show ?thesis unfolding shown perm_ids_def set_map using scoped by (simp only:) (rule ids_meet, blast)
qed


subsection \<open>Ticking a box\<close>

lemma synced_ids: "synced D E \<Longrightarrow> map bx_id (ef_boxes E) = perm_ids D"
proof -
  assume "synced D E"
  then have "map fst (map (\<lambda>b. (bx_id b, bx_scoped b)) (ef_boxes E)) = map fst (map (\<lambda>p. (pm_id p, pm_scoped p)) (ud_permissions D))"
    by (simp add: synced_def del: map_map)
  then show ?thesis by (simp add: perm_ids_def comp_def)
qed

lemma box_chosen:
  assumes "synced D E" and "ef_role E = lit ''custom''" and "b \<in> set (ef_boxes E)"
  shows "bx_checked b \<and> \<not> bx_implied b \<longleftrightarrow> bx_id b \<in> set (ef_permissions E) \<and> (ef_some E \<longrightarrow> bx_scoped b)"
proof -
  have "sync_box D E b = b" using assms by (simp add: synced_def)
  then have b: "bx_checked b = bx_checked (sync_box D E b)" "bx_implied b = bx_implied (sync_box D E b)" by simp_all
  have g: "granted D E = expand D (ef_permissions E)" "restricted E = ef_some E"
    using assms(2) by (simp_all add: granted_def restricted_def lit_simps)
  have "set (ef_permissions E) \<subseteq> set (expand D (ef_permissions E))" by (auto simp: expand_reaches_loop)
  then show ?thesis unfolding b by (auto simp: sync_box_def Let_def g assms(2))
qed

text \<open>Ticking or clearing a box changes the permissions given by that one only. Under a limit to some instances
  those that are not about an instance are lost as well.\<close>

theorem tick_changes_one:
  assumes "ef_role E = lit ''custom''" and "E = user_run D es (edit_user D a)" and "distinct (perm_ids D)"
    and "b \<in> set (ef_boxes E)" and "\<not> bx_disabled b"
  shows "set (ef_permissions (user_step D (Tick (bx_id b) on) E))
    = {q \<in> set (ef_permissions E). \<exists>m\<in>set (ud_permissions D). pm_id m = q \<and> (ef_some E \<longrightarrow> pm_scoped m)} - {bx_id b}
      \<union> (if on then {bx_id b} else {})"
proof -
  have s: "synced D E" unfolding assms(2) using synced_run [OF synced_edit] .
  let ?tick = "\<lambda>c. if bx_id c = bx_id b then c\<lparr>bx_checked := on\<rparr> else c"
  have ids: "map bx_id (ef_boxes E) = perm_ids D" using synced_ids [OF s] .
  then have one: "c = b" if "c \<in> set (ef_boxes E)" "bx_id c = bx_id b" for c
    using that assms(3,4) by (metis distinct_map inj_onD)
  have notimp: "\<not> bx_implied b"
  proof -
    have "sync_box D E b = b" using s assms(4) by (simp add: synced_def)
    then have "bx_disabled b = bx_disabled (sync_box D E b)" "bx_implied b = bx_implied (sync_box D E b)" by simp_all
    with assms(5) show ?thesis by (auto simp: sync_box_def Let_def)
  qed
  have "list_ex (\<lambda>c. bx_id c = bx_id b \<and> \<not> bx_disabled c) (ef_boxes E)" using assms(4,5) by (auto simp: list_ex_iff)
  then have "set (ef_permissions (user_step D (Tick (bx_id b) on) E))
      = bx_id ` {c \<in> ?tick ` set (ef_boxes E). bx_checked c \<and> \<not> bx_implied c}"
    by (simp add: tick_def Let_def syncPerms_def)
  also have "\<dots> = bx_id ` {c \<in> set (ef_boxes E). bx_id c \<noteq> bx_id b \<and> bx_checked c \<and> \<not> bx_implied c} \<union> (if on then {bx_id b} else {})"
  proof -
    have t: "?tick ` set (ef_boxes E) = insert (b\<lparr>bx_checked := on\<rparr>) {c \<in> set (ef_boxes E). bx_id c \<noteq> bx_id b}"
      using one assms(4) by (auto simp: image_iff split: if_splits)
    show ?thesis unfolding t using notimp by (cases on) (force simp: image_iff)+
  qed
  also have "bx_id ` {c \<in> set (ef_boxes E). bx_id c \<noteq> bx_id b \<and> bx_checked c \<and> \<not> bx_implied c}
      = {q. \<exists>c. (q, c) \<in> (\<lambda>b. (bx_id b, bx_scoped b)) ` set (ef_boxes E) \<and> q \<noteq> bx_id b \<and> q \<in> set (ef_permissions E) \<and> (ef_some E \<longrightarrow> c)}"
    using box_chosen [OF s assms(1)] by auto
  also have "(\<lambda>b. (bx_id b, bx_scoped b)) ` set (ef_boxes E) = (\<lambda>p. (pm_id p, pm_scoped p)) ` set (ud_permissions D)"
    using s unfolding synced_def by (metis list.set_map)
  finally show ?thesis by auto
qed

subsection \<open>What is sent is complete\<close>

theorem sent_account_complete:
  assumes "submit_user E = Inr b"
  shows "ub_username b \<noteq> [] \<and> trim (ub_username b) = ub_username b \<and> (\<forall>is. ub_instances b = Instances is \<longrightarrow> is \<noteq> [] \<and> ub_role b \<noteq> lit ''admin'')
    \<and> (\<forall>p. ub_password b = Some p \<longrightarrow> 12 \<le> length p) \<and> (\<forall>m. ub_email b = Some m \<longrightarrow> m \<noteq> [])
    \<and> (ub_source b = Some (lit ''local'') \<longrightarrow> ub_password b \<noteq> None) \<and> (ub_source b = Some (lit ''oidc'') \<longrightarrow> ub_email b \<noteq> None)
    \<and> (ub_role b \<noteq> lit ''custom'' \<longrightarrow> ub_permissions b = [])"
proof -
  from submit_sent [OF assms] have ok: "account_error E = None" and b: "b = account_body E" by simp_all
  from ok have checks: "trim (ef_username E) \<noteq> []" "wants_password E \<Longrightarrow> 12 \<le> length (ef_password E)"
    "wants_email E \<Longrightarrow> trim (ef_email E) \<noteq> []" "sent_instances E \<noteq> Instances []"
    by (auto simp: account_error_def split: if_splits)
  have "ef_account E = None \<Longrightarrow> ef_source E = lit ''local'' \<Longrightarrow> wants_password E" "ef_account E = None \<Longrightarrow> ef_source E = lit ''oidc'' \<Longrightarrow> wants_email E"
    by (simp_all add: wants_password_def wants_email_def email_disabled_def)
  moreover have "sent_instances E = Instances is \<Longrightarrow> ef_role E \<noteq> lit ''admin''" for "is" by (auto simp: sent_instances_def)
  ultimately show ?thesis using checks unfolding b account_body_def by auto
qed


subsection \<open>Concrete accounts\<close>

definition ex_users :: users_data where
  "ex_users = \<lparr>ud_users = [], ud_me = lit ''owner'',
     ud_permissions = [\<lparr>pm_id = lit ''config.read'', pm_scoped = True\<rparr>, \<lparr>pm_id = lit ''config.write'', pm_scoped = True\<rparr>,
       \<lparr>pm_id = lit ''users.manage'', pm_scoped = False\<rparr>],
     ud_roles = [(lit ''viewer'', [lit ''config.read''])], ud_implies = [(lit ''config.write'', [lit ''config.read''])], ud_instances = [lit ''frps'', lit ''frpc'']\<rparr>"

lemma expand_from_loop: "todo \<noteq> [] \<Longrightarrow> expand_from imp out todo = (if last todo \<in> set out then expand_from imp out (butlast todo)
    else expand_from imp (out @ [last todo]) (butlast todo @ implied_by imp (last todo)))"
  by (subst expand_from.simps) simp

lemmas users_eval = ex_users_def edit_user_def user_run_def tick_def set_role_def set_scope_def syncPerms_def sync_box_def granted_def
  restricted_def role_perms_def perm_ids_def expand_def expand_from_loop implied_by_def offered_def email_disabled_def Let_def lit_simps

text \<open>A new account: given the writing of the configurations, of all instances and then of one.\<close>

definition ex_edits :: "user_edit list" where
  "ex_edits = [Username (lit ''ann''), Password (lit ''0123456789ab''), Role (lit ''custom''), Tick (lit ''config.read'') False, Tick (lit ''config.write'') True,
     Tick (lit ''users.manage'') True]"

definition ex_given :: editor where
  "ex_given = \<lparr>ef_account = None, ef_source = lit ''local'', ef_username = lit ''ann'', ef_password = lit ''0123456789ab'', ef_email = [],
     ef_role = lit ''custom'', ef_prev = lit ''custom'', ef_permissions = [lit ''config.write'', lit ''users.manage''], ef_some = False,
     ef_insts = [(lit ''frps'', False), (lit ''frpc'', False)], ef_enabled = True, ef_drop_passkeys = False,
     ef_boxes = [\<lparr>bx_id = lit ''config.read'', bx_scoped = True, bx_checked = True, bx_implied = True, bx_disabled = True\<rparr>,
       \<lparr>bx_id = lit ''config.write'', bx_scoped = True, bx_checked = True, bx_implied = False, bx_disabled = False\<rparr>,
       \<lparr>bx_id = lit ''users.manage'', bx_scoped = False, bx_checked = True, bx_implied = False, bx_disabled = False\<rparr>]\<rparr>"

lemma ex_start: "edit_user ex_users None = \<lparr>ef_account = None, ef_source = lit ''local'', ef_username = [], ef_password = [], ef_email = [],
     ef_role = lit ''viewer'', ef_prev = lit ''viewer'', ef_permissions = [], ef_some = False,
     ef_insts = [(lit ''frps'', False), (lit ''frpc'', False)], ef_enabled = True, ef_drop_passkeys = False,
     ef_boxes = [\<lparr>bx_id = lit ''config.read'', bx_scoped = True, bx_checked = True, bx_implied = False, bx_disabled = True\<rparr>,
       \<lparr>bx_id = lit ''config.write'', bx_scoped = True, bx_checked = False, bx_implied = False, bx_disabled = True\<rparr>,
       \<lparr>bx_id = lit ''users.manage'', bx_scoped = False, bx_checked = False, bx_implied = False, bx_disabled = True\<rparr>]\<rparr>"
  by (simp add: users_eval)

lemma ex_editor: "user_run ex_users ex_edits (edit_user ex_users None) = ex_given"
  unfolding ex_start by (simp add: ex_given_def ex_edits_def users_eval)

lemma user_run_append: "user_run D (es @ fs) E = user_run D fs (user_run D es E)"
  by (simp add: user_run_def)

definition ex_sent :: user_body where
  "ex_sent = \<lparr>ub_username = lit ''ann'', ub_role = lit ''custom'', ub_enabled = True, ub_permissions = [lit ''config.write'', lit ''users.manage''],
     ub_instances = Instances [lit ''frpc''], ub_password = Some (lit ''0123456789ab''), ub_remove_passkeys = False, ub_email = None,
     ub_source = Some (lit ''local'')\<rparr>"

definition ex_limited :: editor where
  "ex_limited = \<lparr>ef_account = None, ef_source = lit ''local'', ef_username = lit ''ann'', ef_password = lit ''0123456789ab'', ef_email = [],
     ef_role = lit ''custom'', ef_prev = lit ''custom'', ef_permissions = [lit ''config.write'', lit ''users.manage''], ef_some = True,
     ef_insts = [(lit ''frps'', False), (lit ''frpc'', True)], ef_enabled = True, ef_drop_passkeys = False,
     ef_boxes = [\<lparr>bx_id = lit ''config.read'', bx_scoped = True, bx_checked = True, bx_implied = True, bx_disabled = True\<rparr>,
       \<lparr>bx_id = lit ''config.write'', bx_scoped = True, bx_checked = True, bx_implied = False, bx_disabled = False\<rparr>,
       \<lparr>bx_id = lit ''users.manage'', bx_scoped = False, bx_checked = False, bx_implied = False, bx_disabled = True\<rparr>]\<rparr>"

lemma ex_limited_run: "user_run ex_users (ex_edits @ [Scope True, Pick (lit ''frpc'') True]) (edit_user ex_users None) = ex_limited"
  unfolding user_run_append ex_editor by (simp add: ex_limited_def ex_given_def users_eval)

lemma ex_submit: "submit_user (user_run ex_users (ex_edits @ [Scope True, Pick (lit ''frpc'') True]) (edit_user ex_users None)) = Inr ex_sent"
  unfolding ex_limited_run by (simp add: ex_sent_def ex_limited_def users_eval submit_user_def account_error_def account_body_def wants_password_def wants_email_def
    sent_instances_def trim_def trimStart_def trimEnd_def is_ws_def)

lemma ex_ids: "distinct (perm_ids ex_users)"
  by (simp add: users_eval)

theorem boxes_show_rights_witness:
  "{bx_id b |b. b \<in> set (ef_boxes (user_run ex_users (ex_edits @ [Scope True, Pick (lit ''frpc'') True]) (edit_user ex_users None))) \<and> bx_checked b}
    = rights ex_users ex_sent \<inter> set (perm_ids ex_users)"
  by (rule boxes_show_rights [OF ex_submit ex_ids])

theorem sent_account_complete_witness: "12 \<le> length (lit ''0123456789ab'') \<and> trim (lit ''ann'') = lit ''ann''"
  using sent_account_complete [OF ex_submit] by (simp add: ex_sent_def)

text \<open>The box of a permission about one instance, ticked while the account is limited to some instances: the
  permission over the accounts is lost, though its box was only shown empty.\<close>

lemma limited_tick_drops:
  "ef_permissions (user_run ex_users (ex_edits @ [Scope True, Tick (lit ''config.write'') False, Scope False]) (edit_user ex_users None)) = []"
  unfolding user_run_append ex_editor by (simp add: ex_given_def users_eval)

lemma limit_alone_keeps:
  "ef_permissions (user_run ex_users (ex_edits @ [Scope True, Scope False]) (edit_user ex_users None)) = [lit ''config.write'', lit ''users.manage'']"
  unfolding user_run_append ex_editor by (simp add: ex_given_def users_eval)

definition ex_box :: box where
  "ex_box = \<lparr>bx_id = lit ''config.write'', bx_scoped = True, bx_checked = True, bx_implied = False, bx_disabled = False\<rparr>"

theorem tick_changes_one_witness:
  "set (ef_permissions (user_step ex_users (Tick (bx_id ex_box) False) (user_run ex_users ex_edits (edit_user ex_users None)))) = {lit ''users.manage''}"
proof -
  let ?E = "user_run ex_users ex_edits (edit_user ex_users None)"
  have "ef_role ?E = lit ''custom''" "ex_box \<in> set (ef_boxes ?E)" "\<not> bx_disabled ex_box" "\<not> ef_some ?E"
    unfolding ex_editor by (simp_all add: ex_box_def ex_given_def)
  note tick_changes_one [OF this(1) refl ex_ids this(2,3), of False]
  also have "{q \<in> set (ef_permissions ?E). \<exists>m\<in>set (ud_permissions ex_users). pm_id m = q \<and> (ef_some ?E \<longrightarrow> pm_scoped m)} - {bx_id ex_box}
      \<union> (if False then {bx_id ex_box} else {}) = {lit ''users.manage''}"
    unfolding ex_editor by (auto simp: ex_given_def ex_box_def ex_users_def lit_simps)
  finally show ?thesis .
qed

end
