(* ===== verification/Page_Dashboard.thy ===== *)
theory Page_Dashboard imports Panel_Store begin

text \<open>
  The dashboard (\<open>pages/dashboard.js\<close>): the name of a new instance, the notices, what the card of an instance
  shows and offers to the account, creating again, deleting and renaming an instance, the form of a new
  instance, and the configurations without a service. \<open>S\<close> is the shared store; what only this page reads of an
  instance (\<open>dash_info\<close>), the answers of the server, the collation of names (\<open>coll\<close>), the lower case of a text
  (\<open>low\<close>) and the choices of the user are arguments. The markup is in \<open>View_Dashboard\<close>.
\<close>

subsection \<open>Name of a new instance\<close>

definition suffix_unit :: "nat \<Rightarrow> bool" where
  "suffix_unit c \<longleftrightarrow> (97 \<le> c \<and> c \<le> 122) \<or> is_digit c"

definition SUFFIX_RE :: "jstr \<Rightarrow> bool" where
  "SUFFIX_RE s \<longleftrightarrow> (case s of c # r \<Rightarrow> suffix_unit c \<and> length r \<le> 31 \<and> list_all (\<lambda>d. suffix_unit d \<or> d = 95 \<or> d = c_dash) r
     | [] \<Rightarrow> False)"

definition other_type :: "jstr \<Rightarrow> jstr" where
  "other_type ty = (if ty = lit ''frps'' then lit ''frpc'' else lit ''frps'')"

definition instanceIdOf :: "jstr \<Rightarrow> jstr \<Rightarrow> jstr" where
  "instanceIdOf ty suffix =
     (if suffix = ty then ty
      else let rest = (if startsWith suffix (ty @ [c_dash]) then drop (length ty + 1) suffix else suffix);
               other = other_type ty
           in if rest = other \<or> startsWith rest (other @ [c_dash]) then lit ''other''
              else if SUFFIX_RE rest then ty @ [c_dash] @ rest else [])"

text \<open>The rule of the server (\<open>newInstanceID\<close> of \<open>instances.go\<close>), for a name already trimmed and in lower case.\<close>

definition validServiceName :: "jstr \<Rightarrow> bool" where
  "validServiceName s \<longleftrightarrow> (startsWith s (lit ''frps'') \<or> startsWith s (lit ''frpc'')) \<and> length s \<le> 64
     \<and> list_all (\<lambda>c. is_alpha c \<or> is_digit c \<or> c \<in> {c_dot, 95, 64, c_dash}) (drop 4 s)"

definition newInstanceID :: "jstr \<Rightarrow> jstr \<Rightarrow> jstr" where
  "newInstanceID bin suffix0 =
     (if bin \<noteq> lit ''frps'' \<and> bin \<noteq> lit ''frpc'' then []
      else if suffix0 = bin then bin
      else let suffix = (if startsWith suffix0 (bin @ [c_dash]) then drop (length bin + 1) suffix0 else suffix0);
               other = other_type bin; id = bin @ [c_dash] @ suffix
           in if \<not> SUFFIX_RE suffix \<or> suffix = other \<or> startsWith suffix (other @ [c_dash]) then []
              else if \<not> validServiceName id then [] else id)"

subsection \<open>Notices\<close>

datatype alert = No_password | Update_there jstr | Standalone_note | Docker_note

definition renderAlerts :: "bool \<Rightarrow> store \<Rightarrow> alert list" where
  "renderAlerts owner S =
     (if \<not> st_hasPassword S \<and> owner then [No_password] else [])
     @ (if (st_update_frp S \<or> st_update_panel S) \<and> can (lit ''updates.view'') S
        then [Update_there (if st_update_frp S \<and> st_update_panel S then lit ''both'' else if st_update_frp S then lit ''frp'' else lit ''panel'')] else [])
     @ (if st_standalone S then [Standalone_note] else if st_inDocker S then [Docker_note] else [])"

text \<open>The services frps and frpc that are missing and can be created again.\<close>

definition renderReinstall :: "store \<Rightarrow> jstr list" where
  "renderReinstall S =
     (if st_ready S \<and> (\<not> st_inDocker S \<or> st_standalone S) \<and> can (lit ''updates.install'') S
      then filter (\<lambda>ty. \<not> list_ex (\<lambda>(i, x). i_type x = ty \<and> \<not> isDocker x) (st_instances S)) [lit ''frps'', lit ''frpc''] else [])"

datatype grid = Skeletons | Empty_grid bool | Cards "jstr list"

text \<open>Without instances: whether installing frp is offered.\<close>

definition renderGrid :: "(jstr \<Rightarrow> jstr \<Rightarrow> int) \<Rightarrow> store \<Rightarrow> grid" where
  "renderGrid coll S =
     (if \<not> st_ready S then Skeletons
      else let ids = instanceIds coll (\<lambda>x i. True) (st_instances S)
           in if ids = [] then Empty_grid (\<not> st_inDocker S \<and> can (lit ''updates.install'') S) else Cards ids)"

subsection \<open>The card of an instance\<close>

record dash_info =
  di_config_path :: jstr
  di_config_exists :: bool
  di_service :: jstr
  di_image :: jstr
  di_network_mode :: jstr

text \<open>\<open>s.replace(p, '')\<close>: the first occurrence goes.\<close>

definition remove_first :: "jstr \<Rightarrow> jstr \<Rightarrow> jstr" where
  "remove_first p s = (case indexOf s p of Some i \<Rightarrow> take i s @ drop (i + length p) s | None \<Rightarrow> s)"

text \<open>A row: its label, the value, the title, and whether it is shown as an error.\<close>

definition card_rows :: "(jstr \<Rightarrow> jstr) \<Rightarrow> jstr \<Rightarrow> inst \<Rightarrow> dash_info \<Rightarrow> (jstr \<times> jstr \<times> jstr \<times> bool) list" where
  "card_rows tr iid x d =
     (if isDocker x then
        [(lit ''image'', last (split_on 47 (text_or (di_image d) [8212])), di_image d, False),
         (lit ''container'', text_or (i_container_name x) iid, [], False)]
        @ (if di_network_mode d \<noteq> [] then [(lit ''network'', di_network_mode d, [], False)] else [])
      else
        [(lit ''config'', if di_config_path d \<noteq> [] then remove_first (lit ''/etc/frp/'') (di_config_path d) else tr (lit ''dashboard.noConfig''),
           di_config_path d, \<not> di_config_exists d),
         (lit ''service'', di_service d, [], False)])"

text \<open>The switch that starts the instance with the machine: shown or not, and on or off.\<close>

definition autostart :: "store \<Rightarrow> inst \<Rightarrow> bool option" where
  "autostart S x = (if \<not> isDocker x \<and> statusOf (Some x) \<noteq> Missing \<and> can (lit ''instances.control'') S then Some (i_enabled x) else None)"

text \<open>The switch after the answer: back when it is refused or fails (\<open>None\<close>).\<close>

definition autostart_after :: "bool option \<Rightarrow> bool \<Rightarrow> bool" where
  "autostart_after ok on = (if ok = Some True then on else \<not> on)"

datatype card_action = Stop_it | Start_it | Restart_it | Spacer | See_tunnels | See_firewall

definition card_actions :: "store \<Rightarrow> inst \<Rightarrow> card_action list" where
  "card_actions S x =
     (let status = statusOf (Some x) in
      (if status \<noteq> Missing \<and> can (lit ''instances.control'') S
       then [if status = Running then Stop_it else Start_it, Restart_it] else [])
      @ [Spacer]
      @ (if i_type x = lit ''frpc'' \<and> can (lit ''config.read'') S then [See_tunnels]
         else if i_type x = lit ''frps'' \<and> can (lit ''firewall.view'') S then [See_firewall] else []))"

datatype menu_item = Sep | Rename_it | See_logs | Edit_config | Reload_it | Delete_it

definition menu_items :: "store \<Rightarrow> inst \<Rightarrow> menu_item list" where
  "menu_items S x =
     (let items = (if can (lit ''instances.control'') S then [Rename_it] else [])
        @ (if can (lit ''logs.view'') S then [See_logs] else [])
        @ (if \<not> isDocker x then
             (if can (lit ''config.read'') S then [Edit_config] else [])
             @ (if statusOf (Some x) \<noteq> Missing \<and> can (lit ''instances.control'') S \<and> i_source x \<noteq> lit ''standalone'' then [Sep, Reload_it] else [])
           else [])
        @ (if can (lit ''instances.delete'') S then [Sep, Delete_it] else [])
      in case items of Sep # r \<Rightarrow> r | _ \<Rightarrow> items)"

record card =
  cd_name :: jstr
  cd_label :: jstr
  cd_status :: inst_status
  cd_icon :: jstr
  cd_rows :: "(jstr \<times> jstr \<times> jstr \<times> bool) list"
  cd_autostart :: "bool option"
  cd_actions :: "card_action list"
  cd_menu :: "menu_item list"

definition serviceCard :: "(jstr \<Rightarrow> jstr) \<Rightarrow> store \<Rightarrow> jstr \<Rightarrow> inst \<Rightarrow> dash_info \<Rightarrow> card" where
  "serviceCard tr S iid x d = \<lparr>cd_name = displayName S iid, cd_label = technicalLabel tr S iid, cd_status = statusOf (Some x),
     cd_icon = (if isDocker x then lit ''box'' else if i_type x = lit ''frps'' then lit ''server'' else lit ''laptop''), cd_rows = card_rows tr iid x d,
     cd_autostart = autostart S x, cd_actions = card_actions S x, cd_menu = menu_items S x\<rparr>"

subsection \<open>Deleting and renaming\<close>

text \<open>What can be deleted with an instance: the image and the configuration, as the server gives them for a
  container (\<open>None\<close>: refused or failed, nothing is deleted).\<close>

definition delete_rows :: "inst \<Rightarrow> dash_info \<Rightarrow> (jstr option \<times> jstr option) option \<Rightarrow> (jstr option \<times> jstr option) option" where
  "delete_rows x d info = (if isDocker x then info
     else Some (None, if di_config_exists d \<and> di_config_path d \<noteq> [] then Some (di_config_path d) else None))"

text \<open>The request: the image is ticked at first, the configuration is not; a row that is not there counts as no.\<close>

definition delete_body :: "jstr option \<times> jstr option \<Rightarrow> bool \<Rightarrow> bool \<Rightarrow> bool \<times> bool" where
  "delete_body rows image_on config_on =
     (case fst rows of Some i \<Rightarrow> i \<noteq> [] \<and> image_on | None \<Rightarrow> False, case snd rows of Some p \<Rightarrow> p \<noteq> [] \<and> config_on | None \<Rightarrow> False)"

text \<open>After the request: accepted or not (\<open>None\<close> when it failed), the names asked for again, the detection.\<close>

definition instance_deleted :: "jstr \<Rightarrow> bool option \<Rightarrow> (jstr \<times> jstr) list option \<Rightarrow> ((jstr \<times> inst) list \<times> bool \<times> bool) option \<Rightarrow> store \<Rightarrow> store" where
  "instance_deleted iid ok names found S =
     (let S1 = (if ok = Some True then loadNicknames names (S\<lparr>st_instances := filter (\<lambda>(i, x). i \<noteq> iid) (st_instances S)\<rparr>) else S)
      in case found of Some (is, dk, sa) \<Rightarrow> detect is dk sa S1 | None \<Rightarrow> S1)"

definition renamed :: "bool option \<Rightarrow> (jstr \<times> jstr) list option \<Rightarrow> store \<Rightarrow> store" where
  "renamed ok names S = (if ok = Some True then loadNicknames names S else S)"

text \<open>Following the installation after a service is created again: the answers in turn (whether it is running,
  whether it succeeded), a failed request is \<open>None\<close>. The result, when there is one.\<close>

fun reinstall_log :: "(bool \<times> bool) option list \<Rightarrow> bool option" where
  "reinstall_log [] = None"
| "reinstall_log (r # rs) = (case r of Some (running, success) \<Rightarrow> (if running then reinstall_log rs else Some success)
     | None \<Rightarrow> reinstall_log rs)"

subsection \<open>The form of a new instance\<close>

record new_form =
  nf_type :: jstr
  nf_name :: jstr
  nf_copy :: jstr

definition new_form :: new_form where
  "new_form = \<lparr>nf_type = lit ''frpc'', nf_name = [], nf_copy = []\<rparr>"

definition new_suffix :: "(jstr \<Rightarrow> jstr) \<Rightarrow> new_form \<Rightarrow> jstr" where
  "new_suffix low F = low (trim (nf_name F))"

text \<open>Instances whose configuration can be copied.\<close>

definition copy_sources :: "(jstr \<Rightarrow> jstr \<Rightarrow> int) \<Rightarrow> store \<Rightarrow> (jstr \<Rightarrow> dash_info) \<Rightarrow> jstr \<Rightarrow> jstr list" where
  "copy_sources coll S info ty =
     instanceIds coll (\<lambda>x i. i_type x = ty \<and> \<not> isDocker x \<and> di_config_exists (info i)) (st_instances S)"

definition refresh_new :: "jstr list \<Rightarrow> new_form \<Rightarrow> new_form" where
  "refresh_new sources F = F\<lparr>nf_copy := (if nf_copy F \<in> set sources then nf_copy F else [])\<rparr>"

text \<open>The identifier previewed, for the name typed or the example: none for a name that is refused.\<close>

definition new_preview :: "(jstr \<Rightarrow> jstr) \<Rightarrow> (jstr \<Rightarrow> jstr) \<Rightarrow> new_form \<Rightarrow> jstr option" where
  "new_preview low tr F = (let f = instanceIdOf (nf_type F) (text_or (new_suffix low F) (tr (lit ''dashboard.new.namePlaceholder'')))
     in if f = [] \<or> f = lit ''other'' then None else Some f)"

datatype new_event = New_name jstr | New_type jstr | New_copy jstr

fun new_step :: "(jstr \<Rightarrow> jstr list) \<Rightarrow> new_event \<Rightarrow> new_form \<Rightarrow> new_form" where
  "new_step sources (New_name s) F = refresh_new (sources (nf_type F)) (F\<lparr>nf_name := s\<rparr>)"
| "new_step sources (New_type ty) F = refresh_new (sources ty) (F\<lparr>nf_type := ty\<rparr>)"
| "new_step sources (New_copy i) F = refresh_new (sources (nf_type F)) (F\<lparr>nf_copy := i\<rparr>)"

datatype new_error = Name_other_type jstr | Name_invalid

text \<open>What is sent: type, name, instance copied.\<close>

definition submit_new :: "(jstr \<Rightarrow> jstr) \<Rightarrow> new_form \<Rightarrow> new_error + (jstr \<times> jstr \<times> jstr)" where
  "submit_new low F = (let f = instanceIdOf (nf_type F) (new_suffix low F)
     in if f = [] then Inl Name_invalid else if f = lit ''other'' then Inl (Name_other_type (other_type (nf_type F)))
        else Inr (nf_type F, new_suffix low F, nf_copy F))"

subsection \<open>Configurations without a service\<close>

record orphan =
  or_id :: jstr
  or_type :: jstr
  or_config_path :: jstr
  or_conflicts :: "jstr list"
  or_fixable :: bool

text \<open>\<open>oq_key\<close>: the instances of the last request (\<open>None\<close>: to be asked again).\<close>

record orphans =
  oq_key :: "jstr list option"
  oq_seq :: nat
  oq_shown :: "orphan list"

definition text_order :: "jstr \<Rightarrow> jstr \<Rightarrow> int" where
  "text_order a b = (if text_less a b then -1 else if text_less b a then 1 else 0)"

definition orphans_key :: "store \<Rightarrow> jstr list" where
  "orphans_key S = sort_by text_order (map fst (st_instances S))"

text \<open>The second result: the number of the request that is sent, if one is.\<close>

definition loadOrphans :: "store \<Rightarrow> orphans \<Rightarrow> orphans \<times> nat option" where
  "loadOrphans S Q =
     (if \<not> st_ready S \<or> st_standalone S \<or> \<not> can (lit ''instances.create'') S then (Q\<lparr>oq_shown := []\<rparr>, None)
      else if oq_key Q = Some (orphans_key S) then (Q, None)
      else (Q\<lparr>oq_key := Some (orphans_key S), oq_seq := Suc (oq_seq Q)\<rparr>, Some (Suc (oq_seq Q))))"

text \<open>The answer to the request of that number: a failure is \<open>None\<close>, an answer that is not ok gives no orphan.\<close>

definition orphans_reply :: "nat \<Rightarrow> (bool \<times> orphan list) option \<Rightarrow> orphans \<Rightarrow> orphans" where
  "orphans_reply n d Q = (case d of None \<Rightarrow> Q
     | Some (ok, os) \<Rightarrow> (if n \<noteq> oq_seq Q then Q else Q\<lparr>oq_shown := (if ok then os else [])\<rparr>))"

text \<open>The repair is offered for conflicts that can be repaired; what is sent: the path and whether to repair.\<close>

definition adopt_fix_offered :: "orphan \<Rightarrow> bool" where
  "adopt_fix_offered o1 \<longleftrightarrow> or_conflicts o1 \<noteq> [] \<and> or_fixable o1"

definition adopt_body :: "orphan \<Rightarrow> bool \<Rightarrow> jstr \<times> bool" where
  "adopt_body o1 fix_on = (or_config_path o1, adopt_fix_offered o1 \<and> fix_on)"

definition adopted :: "bool option \<Rightarrow> ((jstr \<times> inst) list \<times> bool \<times> bool) option \<Rightarrow> orphans \<Rightarrow> store \<Rightarrow> orphans \<times> store" where
  "adopted ok found Q S = (if ok = Some True then (Q\<lparr>oq_key := None\<rparr>,
       case found of Some (is, dk, sa) \<Rightarrow> detect is dk sa S | None \<Rightarrow> S) else (Q, S))"

end
