(* ===== verification/Page_Dashboard_Facts.thy ===== *)
theory Page_Dashboard_Facts imports Page_Dashboard begin

text \<open>
  The form of a new instance refuses exactly the names the server refuses and previews the identifier it gives;
  the cards offer only what the account may do.
\<close>

subsection \<open>Names\<close>

abbreviation frp_type :: "jstr \<Rightarrow> bool" where
  "frp_type ty \<equiv> ty = lit ''frps'' \<or> ty = lit ''frpc''"

lemma service_name_ok: "frp_type ty \<Longrightarrow> SUFFIX_RE s \<Longrightarrow> validServiceName (ty @ [c_dash] @ s)"
  by (auto simp: validServiceName_def SUFFIX_RE_def suffix_unit_def is_alpha_def is_digit_def lit_simps list_all_iff split: list.splits)

lemma server_names: "frp_type ty \<Longrightarrow> newInstanceID ty s = (if instanceIdOf ty s = lit ''other'' then [] else instanceIdOf ty s)"
proof -
  assume ty: "frp_type ty"
  have "ty @ c_dash # r \<noteq> lit ''other''" "ty \<noteq> lit ''other''" for r using ty by (auto simp: lit_simps)
  then show ?thesis using ty service_name_ok [OF ty] by (auto simp: newInstanceID_def instanceIdOf_def Let_def)
qed

text \<open>An identifier names its type, is short, plain, and the name of itself.\<close>

lemma instance_id_shape:
  assumes "frp_type ty" and "instanceIdOf ty s = r" and "r \<noteq> []" and "r \<noteq> lit ''other''"
  shows "(r = ty \<or> startsWith r (ty @ [c_dash])) \<and> length r \<le> 37 \<and> list_all (\<lambda>c. suffix_unit c \<or> c = 95 \<or> c = c_dash) r
    \<and> instanceIdOf ty r = r"
proof (cases "s = ty")
  case True
  with assms show ?thesis by (auto simp: instanceIdOf_def lit_simps suffix_unit_def)
next
  case False
  define rest where "rest = (if startsWith s (ty @ [c_dash]) then drop (length ty + 1) s else s)"
  have ok: "\<not> (rest = other_type ty \<or> startsWith rest (other_type ty @ [c_dash]))" "SUFFIX_RE rest" and r: "r = ty @ [c_dash] @ rest"
    using assms False by (auto simp: instanceIdOf_def rest_def Let_def split: if_splits)
  have l: "length ty = 4" "list_all (\<lambda>c. suffix_unit c) ty" using assms(1) by (auto simp: lit_simps suffix_unit_def)
  have "instanceIdOf ty r = r"
  proof -
    have "startsWith r (ty @ [c_dash])" unfolding r using startsWith_append [of "ty @ [c_dash]" rest] by simp
    moreover have "drop (length ty + 1) r = rest" "r \<noteq> ty" by (simp_all add: r)
    ultimately show ?thesis using ok r by (simp add: instanceIdOf_def Let_def)
  qed
  moreover have "length rest \<le> 32" "list_all (\<lambda>c. suffix_unit c \<or> c = 95 \<or> c = c_dash) rest"
    using ok(2) by (auto simp: SUFFIX_RE_def split: list.splits)
  ultimately show ?thesis unfolding r using l startsWith_append [of "ty @ [c_dash]" rest] by (auto simp: list_all_iff r)
qed


subsection \<open>What a card offers\<close>

fun action_perm :: "card_action \<Rightarrow> jstr option" where
  "action_perm Spacer = None"
| "action_perm See_tunnels = Some (lit ''config.read'')"
| "action_perm See_firewall = Some (lit ''firewall.view'')"
| "action_perm a = Some (lit ''instances.control'')"

fun menu_perm :: "menu_item \<Rightarrow> jstr option" where
  "menu_perm Sep = None"
| "menu_perm See_logs = Some (lit ''logs.view'')"
| "menu_perm Edit_config = Some (lit ''config.read'')"
| "menu_perm Delete_it = Some (lit ''instances.delete'')"
| "menu_perm m = Some (lit ''instances.control'')"

text \<open>No separator at either end, nor two in a row.\<close>

fun seps_apart :: "menu_item list \<Rightarrow> bool" where
  "seps_apart [] = True"
| "seps_apart [m] = (m \<noteq> Sep)"
| "seps_apart (m # n # ms) = (\<not> (m = Sep \<and> n = Sep) \<and> seps_apart (n # ms))"

lemma menu_allowed: "list_all (\<lambda>m. canOpen (menu_perm m) S) (menu_items S x)"
proof -
  have "(case items of Sep # r \<Rightarrow> r | _ \<Rightarrow> items) \<in> {items, tl items}" for items by (auto split: list.splits menu_item.splits)
  moreover have "list_all P (tl items)" if "list_all P items" for P and items :: "menu_item list" using that by (cases items) auto
  ultimately have "list_all P (case items of Sep # r \<Rightarrow> r | _ \<Rightarrow> items)" if "list_all P items" for P items using that by (metis insertE singletonD)
  then show ?thesis unfolding menu_items_def Let_def by this (simp add: canOpen_def)
qed

lemma menu_seps: "seps_apart (menu_items S x) \<and> hd (menu_items S x @ [Rename_it]) \<noteq> Sep"
proof -
  have "seps_apart (case i of Sep # r \<Rightarrow> r | _ \<Rightarrow> i) \<and> hd ((case i of Sep # r \<Rightarrow> r | _ \<Rightarrow> i) @ [Rename_it]) \<noteq> Sep"
    if "i = (if a then [Rename_it] else []) @ (if b then [See_logs] else []) @ (if c then (if d then [Edit_config] else []) @ (if a \<and> e then [Sep, Reload_it] else []) else [])
      @ (if f then [Sep, Delete_it] else [])" for i a b c d e f
    unfolding that by (cases a; cases b; cases c; cases d; cases e; cases f; simp)
  from this [OF refl, of "can (lit ''instances.control'') S" "can (lit ''logs.view'') S" "\<not> isDocker x" "can (lit ''config.read'') S"
      "statusOf (Some x) \<noteq> Missing \<and> i_source x \<noteq> lit ''standalone''" "can (lit ''instances.delete'') S"]
  show ?thesis by (simp add: menu_items_def Let_def conj_ac)
qed

lemma actions_allowed: "list_all (\<lambda>a. canOpen (action_perm a) S) (card_actions S x)"
  by (simp add: card_actions_def canOpen_def Let_def)

text \<open>The buttons and the menu of an instance offer only what the account may do, with separators between entries.\<close>

theorem card_offers_allowed:
  "list_all (\<lambda>a. canOpen (action_perm a) S) (cd_actions (serviceCard tr S iid x d))
   \<and> list_all (\<lambda>m. canOpen (menu_perm m) S) (cd_menu (serviceCard tr S iid x d))
   \<and> seps_apart (cd_menu (serviceCard tr S iid x d)) \<and> hd (cd_menu (serviceCard tr S iid x d) @ [Rename_it]) \<noteq> Sep
   \<and> (cd_autostart (serviceCard tr S iid x d) = None \<or> can (lit ''instances.control'') S)"
  using menu_allowed [of S x] menu_seps [of S x] actions_allowed [of S x] by (simp add: serviceCard_def autostart_def)

subsection \<open>Concrete forms\<close>


lemma ex_card_offers:
  "cd_actions (serviceCard id \<lparr>st_ready = True, st_instances = [], st_inDocker = False, st_standalone = False, st_nicknames = [], st_hasPassword = True,
      st_update_frp = False, st_update_panel = False, st_me = Some [lit ''firewall.view''], st_seenUsed = {}\<rparr> (lit ''frps'')
    \<lparr>i_type = lit ''frps'', i_source = lit ''systemd'', i_container_name = [], i_version = [], i_configured = True, i_binary_found = True, i_running = True,
      i_enabled = True, i_active = lit ''active''\<rparr>
    \<lparr>di_config_path = [], di_config_exists = False, di_service = [], di_image = [], di_network_mode = []\<rparr>) = [Spacer, See_firewall]"
  by (simp add: serviceCard_def card_actions_def can_def lit_simps)

end
