(* ===== verification/Panel_Passkey.thy ===== *)
theory Panel_Passkey imports Prelude begin

text \<open>
  Passkeys (\<open>passkey.js\<close>): bytes as base64url in both directions, why passkeys cannot be used on a page, and
  the conversion of the options of the server and of the answer of the browser. \<open>btoa\<close> and \<open>atob\<close> follow the
  HTML standard; a byte is a number below 256. \<open>navigator.credentials\<close> is an argument; fields that are passed
  on as they are (\<open>...publicKey\<close>, \<open>...c\<close>) are values of any type. An exception is \<open>None\<close>.
\<close>

subsection \<open>Base64\<close>

definition b64_unit :: "nat \<Rightarrow> nat" where
  "b64_unit n = (if n < 26 then 65 + n else if n < 52 then 71 + n else if n < 62 then n - 4 else if n = 62 then 43 else 47)"

definition b64_value :: "nat \<Rightarrow> nat option" where
  "b64_value c = (if 65 \<le> c \<and> c \<le> 90 then Some (c - 65) else if 97 \<le> c \<and> c \<le> 122 then Some (c - 71)
     else if is_digit c then Some (c + 4) else if c = 43 then Some 62 else if c = 47 then Some 63 else None)"

fun btoa :: "nat list \<Rightarrow> jstr" where
  "btoa [] = []"
| "btoa [a] = [b64_unit (a div 4), b64_unit (a mod 4 * 16), c_eq, c_eq]"
| "btoa [a, b] = [b64_unit (a div 4), b64_unit (a mod 4 * 16 + b div 16), b64_unit (b mod 16 * 4), c_eq]"
| "btoa (a # b # c # r) = b64_unit (a div 4) # b64_unit (a mod 4 * 16 + b div 16) # b64_unit (b mod 16 * 4 + c div 64)
     # b64_unit (c mod 64) # btoa r"

text \<open>Groups of six bits as bytes; the bits left over are dropped.\<close>

fun b64_bytes :: "nat list \<Rightarrow> nat list" where
  "b64_bytes (p # q # r # s # t) = (p * 4 + q div 16) # (q mod 16 * 16 + r div 4) # (r mod 4 * 64 + s) # b64_bytes t"
| "b64_bytes [p, q, r] = [p * 4 + q div 16, q mod 16 * 16 + r div 4]"
| "b64_bytes [p, q] = [p * 4 + q div 16]"
| "b64_bytes _ = []"

text \<open>ASCII white space is dropped, then at most two \<open>=\<close> that fill the last group of four.\<close>

definition ascii_space :: "nat \<Rightarrow> bool" where
  "ascii_space c \<longleftrightarrow> c \<in> {9, 10, 12, 13, 32}"

definition drop_fill :: "jstr \<Rightarrow> jstr" where
  "drop_fill s = (if length s mod 4 = 0 then
       (case rev s of c # d # r \<Rightarrow> (if c = c_eq then (if d = c_eq then rev r else rev (d # r)) else s) | _ \<Rightarrow> s)
     else s)"

definition atob :: "jstr \<Rightarrow> nat list option" where
  "atob s0 = (let s = drop_fill (filter (\<lambda>c. \<not> ascii_space c) s0)
     in if length s mod 4 = 1 \<or> list_ex (\<lambda>c. b64_value c = None) s then None
        else Some (b64_bytes (map (\<lambda>c. the (b64_value c)) s)))"

definition padEnd :: "nat \<Rightarrow> nat \<Rightarrow> jstr \<Rightarrow> jstr" where
  "padEnd n c s = s @ replicate (n - length s) c"

definition replace_unit :: "nat \<Rightarrow> nat \<Rightarrow> jstr \<Rightarrow> jstr" where
  "replace_unit a b s = map (\<lambda>c. if c = a then b else c) s"

definition fromB64 :: "jstr \<Rightarrow> nat list option" where
  "fromB64 s = (let b64 = replace_unit 95 47 (replace_unit c_dash 43 s)
     in atob (padEnd ((length b64 + 3) div 4 * 4) c_eq b64))"

definition toB64 :: "nat list \<Rightarrow> jstr" where
  "toB64 buf = rev (dropWhile (\<lambda>c. c = c_eq) (rev (replace_unit 47 95 (replace_unit 43 c_dash (btoa buf)))))"

subsection \<open>Can they be used?\<close>

text \<open>\<open>host\<close> is the name of the host in the address; \<open>supported\<close>: the browser has passkeys.\<close>

definition passkeysUnavailable :: "bool \<Rightarrow> jstr \<Rightarrow> bool \<Rightarrow> jstr" where
  "passkeysUnavailable secure host supported =
     (if \<not> secure then lit ''insecure''
      else if host \<noteq> [] \<and> list_all (\<lambda>c. is_digit c \<or> c = c_dot) host \<or> c_colon \<in> set host \<or> startsWith host [c_lb] then lit ''ip''
      else if \<not> supported then lit ''browser'' else [])"

text \<open>The answer of the browser: missing or an exception is \<open>None\<close>.\<close>

definition passkeyAutofill :: "jstr \<Rightarrow> bool option \<Rightarrow> bool" where
  "passkeyAutofill unavailable answer \<longleftrightarrow> unavailable = [] \<and> answer = Some True"

subsection \<open>Requests and answers\<close>

text \<open>The credentials of a list: their identifiers become bytes; a list that is missing is empty.\<close>

fun credList :: "(jstr \<times> 'r) list \<Rightarrow> (nat list \<times> 'r) list option" where
  "credList [] = Some []"
| "credList ((i, r) # cs) = (case fromB64 i of None \<Rightarrow> None
     | Some b \<Rightarrow> (case credList cs of None \<Rightarrow> None | Some bs \<Rightarrow> Some ((b, r) # bs)))"

record ('b, 'r, 'x) create_options =
  co_challenge :: 'b
  co_user :: 'b
  co_exclude :: "('b \<times> 'r) list"
  co_rest :: 'x

record 'b attestation =
  at_id :: jstr
  at_rawId :: 'b
  at_type :: jstr
  at_client :: 'b
  at_object :: 'b
  at_transports :: "jstr list"

definition create_request :: "(jstr, 'r, 'x) create_options \<Rightarrow> (nat list, 'r, 'x) create_options option" where
  "create_request p = (case (fromB64 (co_challenge p), fromB64 (co_user p), credList (co_exclude p)) of
     (Some c, Some u, Some ex) \<Rightarrow> Some \<lparr>co_challenge = c, co_user = u, co_exclude = ex, co_rest = co_rest p\<rparr>
   | _ \<Rightarrow> None)"

definition createPasskey :: "((nat list, 'r, 'x) create_options \<Rightarrow> nat list attestation option)
    \<Rightarrow> (jstr, 'r, 'x) create_options \<Rightarrow> jstr attestation option" where
  "createPasskey create p = (case create_request p of None \<Rightarrow> None
     | Some q \<Rightarrow> map_option (\<lambda>c. \<lparr>at_id = at_id c, at_rawId = toB64 (at_rawId c), at_type = at_type c,
         at_client = toB64 (at_client c), at_object = toB64 (at_object c), at_transports = at_transports c\<rparr>) (create q))"

record ('b, 'r, 'x) get_options =
  go_challenge :: 'b
  go_allow :: "('b \<times> 'r) list"
  go_rest :: 'x

record 'b assertion =
  as_id :: jstr
  as_rawId :: 'b
  as_type :: jstr
  as_client :: 'b
  as_data :: 'b
  as_signature :: 'b
  as_user :: "'b option"

definition get_request :: "(jstr, 'r, 'x) get_options \<Rightarrow> (nat list, 'r, 'x) get_options option" where
  "get_request p = (case (fromB64 (go_challenge p), credList (go_allow p)) of
     (Some c, Some al) \<Rightarrow> Some \<lparr>go_challenge = c, go_allow = al, go_rest = go_rest p\<rparr> | _ \<Rightarrow> None)"

text \<open>The browser raises (\<open>None\<close>), gives nothing (\<open>Some None\<close>) or an assertion.\<close>

definition getPasskey :: "((nat list, 'r, 'x) get_options \<Rightarrow> nat list assertion option option)
    \<Rightarrow> (jstr, 'r, 'x) get_options \<Rightarrow> jstr assertion option option" where
  "getPasskey get p = (case get_request p of None \<Rightarrow> None
     | Some q \<Rightarrow> map_option (map_option (\<lambda>c. \<lparr>as_id = as_id c, as_rawId = toB64 (as_rawId c), as_type = as_type c,
         as_client = toB64 (as_client c), as_data = toB64 (as_data c), as_signature = toB64 (as_signature c),
         as_user = map_option toB64 (as_user c)\<rparr>)) (get q))"

subsection \<open>Bytes kept\<close>

definition b64_alphabet :: "nat \<Rightarrow> bool" where
  "b64_alphabet c \<longleftrightarrow> is_alpha c \<or> is_digit c \<or> c = c_dash \<or> c = 95"

text \<open>The text of the bytes without its fill, in the alphabet of addresses.\<close>

fun b64_plain :: "nat list \<Rightarrow> nat list" where
  "b64_plain [] = []"
| "b64_plain [a] = [a div 4, a mod 4 * 16]"
| "b64_plain [a, b] = [a div 4, a mod 4 * 16 + b div 16, b mod 16 * 4]"
| "b64_plain (a # b # c # r) = (a div 4) # (a mod 4 * 16 + b div 16) # (b mod 16 * 4 + c div 64) # (c mod 64) # b64_plain r"

definition url_unit :: "nat \<Rightarrow> nat" where
  "url_unit n = (if n = 62 then c_dash else if n = 63 then 95 else b64_unit n)"

abbreviation bytes :: "nat list \<Rightarrow> bool" where
  "bytes bs \<equiv> list_all (\<lambda>b. b < 256) bs"

lemma plain_small: "bytes bs \<Longrightarrow> list_all (\<lambda>n. n < 64) (b64_plain bs)"
  by (induction bs rule: b64_plain.induct) auto

lemma url_unit_alphabet: "n < 64 \<Longrightarrow> b64_alphabet (url_unit n)"
  by (auto simp: url_unit_def b64_unit_def b64_alphabet_def is_alpha_def is_digit_def)

lemma plain_bytes: "bytes bs \<Longrightarrow> b64_bytes (b64_plain bs) = bs"
  by (induction bs rule: b64_plain.induct) auto

lemma to_url: "replace_unit 47 95 (replace_unit 43 c_dash s) = map (\<lambda>c. if c = 43 then c_dash else if c = 47 then 95 else c) s"
  by (simp add: replace_unit_def)

lemma from_url: "replace_unit 95 47 (replace_unit c_dash 43 s) = map (\<lambda>c. if c = c_dash then 43 else if c = 95 then 47 else c) s"
  by (simp add: replace_unit_def)

lemma url_of_unit: "n < 64 \<Longrightarrow> (if b64_unit n = 43 then c_dash else if b64_unit n = 47 then 95 else b64_unit n) = url_unit n"
  by (auto simp: b64_unit_def url_unit_def)

lemma unit_of_url: "n < 64 \<Longrightarrow> (if url_unit n = c_dash then 43 else if url_unit n = 95 then 47 else url_unit n) = b64_unit n"
  by (auto simp: b64_unit_def url_unit_def)

lemma unit_value: "n < 64 \<Longrightarrow> b64_value (b64_unit n) = Some n"
  by (auto simp: b64_unit_def b64_value_def is_digit_def)

lemma unit_plain: "n < 64 \<Longrightarrow> b64_unit n \<noteq> c_eq \<and> \<not> ascii_space (b64_unit n)" "n < 64 \<Longrightarrow> url_unit n \<noteq> c_eq"
  by (auto simp: b64_unit_def url_unit_def ascii_space_def)

lemma btoa_plain: "btoa bs = map b64_unit (b64_plain bs) @ replicate ((4 - length (b64_plain bs) mod 4) mod 4) c_eq"
proof (induction bs rule: b64_plain.induct)
  case (4 a b c r)
  have "length (b64_plain (a # b # c # r)) mod 4 = length (b64_plain r) mod 4" by simp
  with 4 show ?case by simp
qed (simp_all add: numeral_2_eq_2)

lemma plain_length: "length (b64_plain bs) mod 4 \<noteq> 1"
  by (induction bs rule: b64_plain.induct) simp_all

lemma toB64_plain: "bytes bs \<Longrightarrow> toB64 bs = map url_unit (b64_plain bs)"
proof -
  assume "bytes bs"
  then have small: "\<forall>n\<in>set (b64_plain bs). n < 64" using plain_small by (simp add: list_all_iff)
  then have "map (\<lambda>c. if c = 43 then c_dash else if c = 47 then 95 else c) (map b64_unit (b64_plain bs)) = map url_unit (b64_plain bs)"
    unfolding map_map comp_def by (intro map_cong refl url_of_unit) simp
  then have "replace_unit 47 95 (replace_unit 43 c_dash (btoa bs))
      = map url_unit (b64_plain bs) @ replicate ((4 - length (b64_plain bs) mod 4) mod 4) c_eq"
    by (simp add: btoa_plain to_url)
  moreover have "dropWhile (\<lambda>c. c = c_eq) (rev (map url_unit ns)) = rev (map url_unit ns)" if "\<forall>n\<in>set ns. n < 64" for ns
    using that unit_plain(2) by (cases ns rule: rev_cases) auto
  ultimately show ?thesis using small by (simp add: toB64_def dropWhile_append)
qed

lemma drop_fill_units:
  assumes "\<forall>c\<in>set s. c \<noteq> c_eq" and "length s mod 4 \<noteq> 1"
  shows "drop_fill (s @ replicate ((4 - length s mod 4) mod 4) c_eq) = s"
proof -
  have "length s mod 4 = 0 \<or> length s mod 4 = 2 \<or> length s mod 4 = 3" using assms(2) mod_less_divisor [of 4 "length s"] by linarith
  then show ?thesis
  proof (elim disjE)
    assume 1: "length s mod 4 = 0"
    have "(case rev s of c # d # r \<Rightarrow> (if c = c_eq then (if d = c_eq then rev r else rev (d # r)) else s) | _ \<Rightarrow> s) = s"
      using assms(1) by (cases s rule: rev_cases) (auto split: list.splits)
    with 1 show ?thesis by (simp add: drop_fill_def)
  next
    assume 2: "length s mod 4 = 2"
    then have "(length s + 2) mod 4 = 0" by presburger
    with 2 show ?thesis by (simp add: drop_fill_def numeral_2_eq_2)
  next
    assume 3: "length s mod 4 = 3"
    then obtain t d where s: "s = t @ [d]" by (cases s rule: rev_cases) auto
    from 3 have "(length s + 1) mod 4 = 0" by presburger
    with 3 s assms(1) show ?thesis by (simp add: drop_fill_def)
  qed
qed

lemma fill_length: "(n + 3) div 4 * 4 - n = (4 - n mod 4) mod (4::nat)"
proof -
  obtain q r where n: "n = q * 4 + r" "r < 4" using mod_div_mult_eq [of n 4] mod_less_divisor [of 4 n] by (metis add.commute zero_less_numeral)
  then consider "r = 0" | "r = 1" | "r = 2" | "r = 3" by linarith
  moreover have "Suc (q * 4) mod 4 = 1" "Suc (Suc (q * 4)) mod 4 = 2" by presburger+
  ultimately show ?thesis using n by cases simp_all
qed

text \<open>Bytes sent as a text are read back as they were, and the text needs no escape in an address.\<close>

lemma base64_kept: "bytes bs \<Longrightarrow> fromB64 (toB64 bs) = Some bs \<and> list_all b64_alphabet (toB64 bs)"
proof -
  assume b: "bytes bs"
  let ?ns = "b64_plain bs" and ?s = "map b64_unit (b64_plain bs)"
  have small: "\<forall>n\<in>set ?ns. n < 64" using plain_small [OF b] by (simp add: list_all_iff)
  have units: "replace_unit 95 47 (replace_unit c_dash 43 (toB64 bs)) = ?s"
    unfolding toB64_plain [OF b] from_url map_map comp_def using small by (intro map_cong refl unit_of_url) simp
  have n: "(length ?ns + 3) div 4 * 4 - length ?ns = (4 - length ?ns mod 4) mod 4" by (rule fill_length)
  have len: "length ?s mod 4 \<noteq> 1" using plain_length by simp
  have sp: "filter (\<lambda>c. \<not> ascii_space c) (?s @ replicate k c_eq) = ?s @ replicate k c_eq" for k
    unfolding filter_id_conv using small unit_plain(1) by (auto simp: ascii_space_def)
  have "\<forall>c\<in>set ?s. c \<noteq> c_eq" using small unit_plain(1) by auto
  note fill = drop_fill_units [OF this len]
  have "\<not> list_ex (\<lambda>c. b64_value c = None) ?s" using small unit_value by (auto simp: list_ex_iff)
  then have "atob (?s @ replicate ((4 - length ?s mod 4) mod 4) c_eq) = Some (b64_bytes (map (\<lambda>c. the (b64_value c)) ?s))"
    unfolding atob_def Let_def sp fill using len by (simp del: map_map length_map)
  moreover have "map (\<lambda>c. the (b64_value c)) ?s = ?ns" using small unit_value by (auto intro: map_idI)
  ultimately have "fromB64 (toB64 bs) = Some bs"
    using n by (simp add: fromB64_def Let_def units padEnd_def plain_bytes [OF b])
  moreover have "list_all b64_alphabet (toB64 bs)"
    using small url_unit_alphabet by (auto simp: toB64_plain [OF b] list_all_iff)
  ultimately show ?thesis by simp
qed


lemma credList_kept: "list_all (\<lambda>(i, r). bytes i) ex \<Longrightarrow> credList (map (\<lambda>(i, r). (toB64 i, r)) ex) = Some ex"
  by (induction ex) (auto simp: base64_kept)

text \<open>C33. What the server sends reaches the authenticator as the same bytes, and its answer comes back as texts of the
  same bytes.\<close>

theorem passkey_created:
  assumes "bytes challenge" and "bytes user" and "list_all (\<lambda>(i, r). bytes i) ex"
    and "create \<lparr>co_challenge = challenge, co_user = user, co_exclude = ex, co_rest = x\<rparr> = Some a"
    and "bytes (at_rawId a)" and "bytes (at_client a)" and "bytes (at_object a)"
  shows "\<exists>b. createPasskey create \<lparr>co_challenge = toB64 challenge, co_user = toB64 user,
        co_exclude = map (\<lambda>(i, r). (toB64 i, r)) ex, co_rest = x\<rparr> = Some b
      \<and> at_id b = at_id a \<and> fromB64 (at_rawId b) = Some (at_rawId a) \<and> fromB64 (at_client b) = Some (at_client a)
      \<and> fromB64 (at_object b) = Some (at_object a) \<and> list_all b64_alphabet (at_rawId b)"
  using assms by (simp add: createPasskey_def create_request_def base64_kept credList_kept)

theorem passkey_created_witness:
  "\<exists>b. createPasskey (\<lambda>q. Some \<lparr>at_id = lit ''k'', at_rawId = [251, 255], at_type = lit ''public-key'', at_client = co_challenge q, at_object = [],
        at_transports = []\<rparr>) \<lparr>co_challenge = toB64 [251, 0, 7], co_user = toB64 [1], co_exclude = [(toB64 [9, 9], ())], co_rest = ()\<rparr> = Some b
      \<and> fromB64 (at_rawId b) = Some [251, 255] \<and> fromB64 (at_client b) = Some [251, 0, 7]"
  using passkey_created [of "[251, 0, 7]" "[1]" "[([9, 9], ())]" "\<lambda>q. Some \<lparr>at_id = lit ''k'', at_rawId = [251, 255], at_type = lit ''public-key'',
      at_client = co_challenge q, at_object = [], at_transports = []\<rparr>" "()"] by auto

end
