(* ===== verification/Js_Number.thy ===== *)
theory Js_Number imports Prelude Complex_Main begin

text \<open>
  \<open>Number(text)\<close>: the number a text stands for, with the grammar of ECMAScript (white space around, decimal
  numbers with an exponent, binary, octal and hexadecimal integers, \<open>Infinity\<close>). Numbers are exact: the
  rounding to a double is left out, so that a number above 1.8e308 is finite here.
\<close>

datatype jsreal = Not_number | Infinite bool | Finite rat

definition digit_in :: "nat \<Rightarrow> nat \<Rightarrow> bool" where
  "digit_in base c \<longleftrightarrow> (if base \<le> 10 then 48 \<le> c \<and> c < 48 + base else is_hex c)"

definition digit_of :: "nat \<Rightarrow> nat" where
  "digit_of c = (if is_digit c then c - 48 else if c \<ge> 97 then c - 87 else c - 55)"

definition digits_value :: "nat \<Rightarrow> jstr \<Rightarrow> nat" where
  "digits_value base ds = fold (\<lambda>c n. n * base + digit_of c) ds 0"

definition radix_integer :: "jstr \<Rightarrow> rat option" where
  "radix_integer s = (case s of
     z # x # ds \<Rightarrow> (let base = (if x = 98 \<or> x = 66 then 2 else if x = 111 \<or> x = 79 then 8 else if x = 120 \<or> x = 88 then 16 else 0 :: nat)
       in if z = 48 \<and> base \<noteq> 0 \<and> ds \<noteq> [] \<and> list_all (digit_in base) ds then Some (of_nat (digits_value base ds)) else None)
   | _ \<Rightarrow> None)"

text \<open>An exponent, with its letter: nothing is 0.\<close>

definition exponent :: "jstr \<Rightarrow> int option" where
  "exponent s = (case s of [] \<Rightarrow> Some 0
     | c # r \<Rightarrow> (let neg = (case r of d # _ \<Rightarrow> d = c_dash | [] \<Rightarrow> False);
                      ds = (case r of d # r' \<Rightarrow> (if d = c_dash \<or> d = 43 then r' else r) | [] \<Rightarrow> [])
                  in if (c = 101 \<or> c = 69) \<and> ds \<noteq> [] \<and> list_all is_digit ds
                     then Some (if neg then - int (digits_value 10 ds) else int (digits_value 10 ds)) else None))"

definition decimal :: "jstr \<Rightarrow> rat option" where
  "decimal s =
     (let ip = takeWhile is_digit s; r = dropWhile is_digit s;
          fp = (case r of c # r' \<Rightarrow> (if c = c_dot then takeWhile is_digit r' else []) | [] \<Rightarrow> []);
          r2 = (case r of c # r' \<Rightarrow> (if c = c_dot then dropWhile is_digit r' else r) | [] \<Rightarrow> [])
      in if ip = [] \<and> fp = [] then None
         else map_option (\<lambda>e. let k = e - int (length fp); n = of_nat (digits_value 10 (ip @ fp))
           in if 0 \<le> k then n * 10 ^ nat k else n / 10 ^ nat (- k)) (exponent r2))"

definition js_number :: "jstr \<Rightarrow> jsreal" where
  "js_number text =
     (let s = trim text in
      if s = [] then Finite 0
      else case radix_integer s of Some n \<Rightarrow> Finite n
      | None \<Rightarrow>
        (let neg = (hd s = c_dash); u = (if hd s = c_dash \<or> hd s = 43 then tl s else s)
         in if u = lit ''Infinity'' then Infinite neg
            else case decimal u of Some n \<Rightarrow> Finite (if neg then - n else n) | None \<Rightarrow> Not_number))"

text \<open>Comparisons with a finite number; \<open>NaN\<close> compares with nothing.\<close>

definition at_least :: "jsreal \<Rightarrow> rat \<Rightarrow> bool" where
  "at_least x r \<longleftrightarrow> (case x of Finite q \<Rightarrow> r \<le> q | Infinite neg \<Rightarrow> \<not> neg | Not_number \<Rightarrow> False)"

definition at_most :: "jsreal \<Rightarrow> rat \<Rightarrow> bool" where
  "at_most x r \<longleftrightarrow> (case x of Finite q \<Rightarrow> q \<le> r | Infinite neg \<Rightarrow> neg | Not_number \<Rightarrow> False)"

definition is_integer :: "jsreal \<Rightarrow> bool" where
  "is_integer x \<longleftrightarrow> (case x of Finite q \<Rightarrow> q = of_int \<lfloor>q\<rfloor> | _ \<Rightarrow> False)"

definition is_finite :: "jsreal \<Rightarrow> bool" where
  "is_finite x \<longleftrightarrow> (case x of Finite q \<Rightarrow> True | _ \<Rightarrow> False)"

text \<open>\<open>Math.round(x * k)\<close>, and \<open>x || 0\<close>.\<close>

definition round_times :: "jsreal \<Rightarrow> rat \<Rightarrow> jsreal" where
  "round_times x k = (case x of Finite q \<Rightarrow> Finite (of_int \<lfloor>q * k + 1 / 2\<rfloor>) | _ \<Rightarrow> x)"

definition or_zero :: "jsreal \<Rightarrow> jsreal" where
  "or_zero x = (if x = Not_number then Finite 0 else x)"

subsection \<open>Whole numbers written in digits\<close>

lemma digits_value_snoc: "digits_value base (ds @ [c]) = digits_value base ds * base + digit_of c"
  by (simp add: digits_value_def)

lemma decimal_digits: "ds \<noteq> [] \<Longrightarrow> list_all is_digit ds \<Longrightarrow> decimal ds = Some (of_nat (digits_value 10 ds))"
proof -
  assume a: "ds \<noteq> []" "list_all is_digit ds"
  then have t: "takeWhile is_digit ds = ds" "dropWhile is_digit ds = []" by (auto simp: takeWhile_eq_all_conv dropWhile_eq_Nil_conv list_all_iff)
  show ?thesis unfolding decimal_def Let_def t using a by (simp add: exponent_def)
qed

end
