(* ===== verification/Page_Settings.thy ===== *)
theory Page_Settings imports Panel_Store Js_Number begin

text \<open>
  The settings (\<open>pages/settings.js\<close>) and the theme (\<open>theme.js\<close>): which sections an account sees and which
  one is opened, the two forms of a password, the passkeys of an account, the address the panel listens on and
  the switches of the access to the panel. \<open>S\<close> is the shared store; what the settings read of the account
  (\<open>me\<close>), the answers of the server and of the browser are arguments. The markup is in \<open>View_Settings\<close>.
\<close>

subsection \<open>Theme\<close>

text \<open>What the browser has stored (\<open>None\<close>: nothing, or no access), and the attribute of the page.\<close>

record theme =
  th_stored :: "jstr option"
  th_writable :: bool
  th_shown :: "jstr option"

definition getThemePref :: "theme \<Rightarrow> jstr" where
  "getThemePref T = (case th_stored T of Some s \<Rightarrow> text_or s (lit ''auto'') | None \<Rightarrow> lit ''auto'')"

definition applyTheme :: "jstr \<Rightarrow> theme \<Rightarrow> theme" where
  "applyTheme pref T = T\<lparr>th_shown := (if pref = lit ''light'' \<or> pref = lit ''dark'' then Some pref else None)\<rparr>"

definition setThemePref :: "jstr \<Rightarrow> theme \<Rightarrow> theme" where
  "setThemePref pref T = applyTheme pref (if th_writable T then T\<lparr>th_stored := Some pref\<rparr> else T)"

subsection \<open>Account\<close>

record me =
  me_username :: jstr
  me_display_name :: jstr
  me_source :: jstr
  me_role :: jstr
  me_owner :: bool
  me_full_admin :: bool
  me_instances :: "jstr list option"

datatype account_card = Profile_card | Owner_card | Password_card | Oidc_note | Passkeys_card

definition account_cards :: "me option \<Rightarrow> account_card list" where
  "account_cards m =
     (let oidc = (case m of Some u \<Rightarrow> me_source u = lit ''oidc'' | None \<Rightarrow> False)
      in [Profile_card, if (case m of Some u \<Rightarrow> me_owner u | None \<Rightarrow> False) then Owner_card else if oidc then Oidc_note else Password_card]
         @ (if oidc then [] else [Passkeys_card]))"

text \<open>The name, the role (and whether it is the owner), the instances (\<open>None\<close>: all).\<close>

definition profile_cells :: "me option \<Rightarrow> jstr \<times> jstr \<times> bool \<times> jstr option" where
  "profile_cells m = (case m of
     None \<Rightarrow> ([8212], lit ''viewer'', False, None)
   | Some u \<Rightarrow> (if me_display_name u \<noteq> [] then me_username u @ [32, 183, 32] @ me_display_name u else text_or (me_username u) [8212],
       text_or (me_role u) (lit ''viewer''), me_owner u, map_option (join (lit '', '')) (me_instances u)))"

definition PASSWORD_MIN :: nat where "PASSWORD_MIN = 12"

datatype password_error = Mismatch | Too_short | Username_required | Password_required

text \<open>The owner: the password may be left empty, and is then kept. What is shown, and what is sent.\<close>

record owner_form =
  ow_username :: jstr
  ow_password :: jstr
  ow_confirm :: jstr

definition owner_errors :: "owner_form \<Rightarrow> password_error list" where
  "owner_errors F =
     (let p1 = ow_password F;
          es = (if p1 \<noteq> [] \<and> p1 \<noteq> ow_confirm F then [Mismatch] else []) @ (if p1 \<noteq> [] \<and> length p1 < PASSWORD_MIN then [Too_short] else [])
      in if es \<noteq> [] then es else if trim (ow_username F) = [] then [Username_required] else [])"

definition owner_submit :: "owner_form \<Rightarrow> password_error list + (jstr \<times> jstr option)" where
  "owner_submit F = (if owner_errors F \<noteq> [] then Inl (owner_errors F)
     else Inr (trim (ow_username F), if ow_password F \<noteq> [] then Some (ow_password F) else None))"

text \<open>After the answer: accepted or not (\<open>None\<close>: the request failed).\<close>

definition owner_saved :: "bool option \<Rightarrow> owner_form \<Rightarrow> me \<Rightarrow> store \<Rightarrow> owner_form \<times> me \<times> store" where
  "owner_saved ok F m S =
     (if ok = Some True then (F\<lparr>ow_password := [], ow_confirm := []\<rparr>, m\<lparr>me_username := trim (ow_username F)\<rparr>,
        if ow_password F \<noteq> [] then S\<lparr>st_hasPassword := True\<rparr> else S)
      else (F, m, S))"

text \<open>Another account: its own password, with the current one.\<close>

record password_form =
  pf_current :: jstr
  pf_password :: jstr
  pf_confirm :: jstr

definition password_submit :: "password_form \<Rightarrow> password_error list + (jstr \<times> jstr)" where
  "password_submit F =
     (let es = (if length (pf_password F) < PASSWORD_MIN then [Too_short] else []) @ (if pf_password F \<noteq> pf_confirm F then [Mismatch] else [])
      in if es \<noteq> [] then Inl es else Inr (pf_current F, pf_password F))"

definition password_saved :: "bool option \<Rightarrow> password_form \<Rightarrow> password_form" where
  "password_saved ok F = (if ok = Some True then \<lparr>pf_current = [], pf_password = [], pf_confirm = []\<rparr> else F)"

subsection \<open>Passkeys of the account\<close>

record passkey =
  pk_id :: jstr
  pk_name :: jstr

text \<open>\<open>pk_failed\<close>: the list could not be read and the error is shown.\<close>

record passkeys =
  pk_items :: "passkey list"
  pk_max :: nat
  pk_add :: bool
  pk_failed :: bool

definition passkeys_card :: passkeys where
  "passkeys_card = \<lparr>pk_items = [], pk_max = 20, pk_add = False, pk_failed = False\<rparr>"

text \<open>\<open>reason\<close>: why passkeys cannot be used here, or nothing; a limit of 0 in the answer is no limit given.\<close>

definition load_passkeys :: "jstr \<Rightarrow> (passkey list \<times> nat) option \<Rightarrow> passkeys \<Rightarrow> passkeys" where
  "load_passkeys reason d K = (case d of
     Some (items, mx) \<Rightarrow> (let m = (if mx \<noteq> 0 then mx else pk_max K)
       in \<lparr>pk_items = items, pk_max = m, pk_add = (reason = [] \<and> length items < m), pk_failed = False\<rparr>)
   | None \<Rightarrow> K\<lparr>pk_failed := True\<rparr>)"

text \<open>Adding one: the password, the options of the server (refused with a message, or given), the credential of
  the browser (or the name of its exception), the answer of the server. \<open>None\<close> is a request that fails.\<close>

datatype add_result = Password_empty | Password_refused jstr | Browser_refused jstr | Server_refused | Request_failed | Added

definition browser_error :: "jstr \<Rightarrow> jstr" where
  "browser_error name0 = (if name0 = lit ''InvalidStateError'' then lit ''already'' else if name0 = lit ''NotAllowedError'' then lit ''cancelled''
     else if name0 = lit ''SecurityError'' then lit ''refused'' else lit ''failed'')"

definition add_passkey :: "jstr \<Rightarrow> (jstr + 'o) option \<Rightarrow> ('o \<Rightarrow> jstr + 'c) \<Rightarrow> ('c \<Rightarrow> bool option) \<Rightarrow> add_result" where
  "add_passkey pw options create answer =
     (if pw = [] then Password_empty
      else case options of None \<Rightarrow> Request_failed
      | Some (Inl msg) \<Rightarrow> Password_refused msg
      | Some (Inr o1) \<Rightarrow> (case create o1 of
          Inl name0 \<Rightarrow> Browser_refused (browser_error name0)
        | Inr cred \<Rightarrow> (case answer cred of None \<Rightarrow> Request_failed | Some ok \<Rightarrow> if ok then Added else Server_refused)))"

text \<open>Renaming: nothing is sent for an empty name or the same one.\<close>

definition rename_passkey :: "passkey \<Rightarrow> jstr option \<Rightarrow> (jstr \<times> jstr) option" where
  "rename_passkey k answer = (case answer of None \<Rightarrow> None
     | Some n \<Rightarrow> if n = [] \<or> n = pk_name k then None else Some (pk_id k, n))"

subsection \<open>Access to the panel\<close>

record access_config =
  ac_host :: jstr
  ac_port :: nat
  ac_timeout :: nat
  ac_mirrors :: "bool option"
  ac_stats :: "bool option"

record listen_form =
  lf_host :: jstr
  lf_port :: jstr
  lf_timeout :: jstr

definition listen_form :: "access_config \<Rightarrow> listen_form" where
  "listen_form c = \<lparr>lf_host = text_or (ac_host c) (lit ''127.0.0.1''), lf_port = digits (if ac_port c \<noteq> 0 then ac_port c else 8765),
     lf_timeout = digits (((if ac_timeout c \<noteq> 0 then ac_timeout c else 3600) + 30) div 60)\<rparr>"

datatype listen_error = Port_error | Timeout_error

definition port_ok :: "jsreal \<Rightarrow> bool" where
  "port_ok p \<longleftrightarrow> is_integer p \<and> at_least p 1 \<and> at_most p 65535"

text \<open>The errors shown, and those that stop the form: they differ for an infinite delay.\<close>

definition listen_shown :: "listen_form \<Rightarrow> listen_error list" where
  "listen_shown F =
     (let m = js_number (lf_timeout F)
      in (if port_ok (js_number (lf_port F)) then [] else [Port_error])
         @ (if is_finite m \<and> at_least m 5 then [] else [Timeout_error]))"

definition listen_submit :: "listen_form \<Rightarrow> (jstr \<times> jsreal \<times> jsreal) option" where
  "listen_submit F =
     (let p = js_number (lf_port F); m = js_number (lf_timeout F)
      in if \<not> port_ok p \<or> \<not> at_least m 5 then None else Some (trim (lf_host F), p, round_times m 60))"

text \<open>The two switches: their first position; they stay where the user put them, whatever the answer.\<close>

definition mirrors_switch :: "access_config \<Rightarrow> bool" where
  "mirrors_switch c \<longleftrightarrow> ac_mirrors c \<noteq> Some False"

definition stats_switch :: "access_config \<Rightarrow> bool" where
  "stats_switch c \<longleftrightarrow> ac_stats c = Some True"

definition switched :: "bool option \<Rightarrow> bool \<Rightarrow> bool" where
  "switched ok on = on"

subsection \<open>Sections\<close>

definition GROUPS :: "(jstr \<times> jstr list) list" where
  "GROUPS = [(lit ''personal'', [lit ''account'', lit ''appearance'']), (lit ''frp'', [lit ''config'']), (lit ''access'', [lit ''access'', lit ''users'', lit ''sso'']),
     (lit ''system'', [lit ''notifications'', lit ''updates''])]"

definition section_visible :: "me option \<Rightarrow> store \<Rightarrow> jstr \<Rightarrow> bool" where
  "section_visible m S s \<longleftrightarrow>
     (if s = lit ''config'' then can (lit ''config.read'') S else if s = lit ''access'' then can (lit ''settings.manage'') S
      else if s = lit ''users'' then can (lit ''users.manage'') S
      else if s = lit ''sso'' then (case m of Some u \<Rightarrow> me_full_admin u | None \<Rightarrow> False)
      else if s = lit ''notifications'' then can (lit ''webhooks.view'') S else if s = lit ''updates'' then can (lit ''updates.view'') S else True)"

definition visible_groups :: "me option \<Rightarrow> store \<Rightarrow> (jstr \<times> jstr list) list" where
  "visible_groups m S = filter (\<lambda>(g, ss). ss \<noteq> []) (map (\<lambda>(g, ss). (g, filter (section_visible m S) ss)) GROUPS)"

definition sections :: "me option \<Rightarrow> store \<Rightarrow> jstr list" where
  "sections m S = concat (map snd (visible_groups m S))"

text \<open>The section opened for the one asked for, and the address put in its place when it differs.\<close>

definition open_section :: "me option \<Rightarrow> store \<Rightarrow> jstr option \<Rightarrow> jstr \<times> jstr option" where
  "open_section m S asked =
     (let ss = sections m S;
          s = (case asked of Some a \<Rightarrow> (if a \<in> set ss then a else hd ss) | None \<Rightarrow> hd ss)
      in (s, case asked of Some a \<Rightarrow> (if a \<noteq> [] \<and> a \<noteq> s then Some s else None) | None \<Rightarrow> None))"

text \<open>The dot beside the updates.\<close>

definition section_dot :: "store \<Rightarrow> jstr \<Rightarrow> bool" where
  "section_dot S s \<longleftrightarrow> s = lit ''updates'' \<and> (st_update_frp S \<or> st_update_panel S)"

text \<open>The section shown decides whether the page may be left: only the configuration asks.\<close>

definition canLeave_settings :: "jstr option \<Rightarrow> bool \<Rightarrow> bool \<Rightarrow> bool" where
  "canLeave_settings active dirty confirmed \<longleftrightarrow> (if active = Some (lit ''config'') then (if dirty then confirmed else True) else True)"

subsection \<open>Sections shown\<close>

lemma sections_account: "\<exists>r. sections m S = lit ''account'' # lit ''appearance'' # r"
  by (simp add: sections_def visible_groups_def GROUPS_def section_visible_def lit_simps)

lemma sections_visible: "s \<in> set (sections m S) \<Longrightarrow> section_visible m S s"
  by (auto simp: sections_def visible_groups_def)

theorem opened_section_allowed:
  "section_visible m S (fst (open_section m S asked)) \<and> fst (open_section m S asked) \<in> set (sections m S)
   \<and> (case asked of Some a \<Rightarrow> open_section m S asked = (if a \<in> set (sections m S) then (a, None) else (lit ''account'', if a = [] then None else Some (lit ''account'')))
      | None \<Rightarrow> open_section m S asked = (lit ''account'', None))"
proof -
  obtain r where r: "sections m S = lit ''account'' # lit ''appearance'' # r" using sections_account by blast
  then have "lit ''account'' \<in> set (sections m S)" by simp
  with r sections_visible [of _ m S] show ?thesis by (cases asked) (auto simp: open_section_def Let_def)
qed



subsection \<open>Passwords and passkeys\<close>

text \<open>A password that is sent is long enough and was typed twice.\<close>

lemma owner_password: "owner_submit F = Inr (name0, Some p) \<Longrightarrow> PASSWORD_MIN \<le> length p \<and> p = ow_confirm F \<and> name0 \<noteq> [] \<and> trim name0 = name0"
  by (auto simp: owner_submit_def owner_errors_def Let_def split: if_splits)

lemma own_password: "password_submit F = Inr (c, p) \<Longrightarrow> PASSWORD_MIN \<le> length p \<and> p = pf_confirm F"
  by (auto simp: password_submit_def Let_def split: if_splits)

text \<open>The button that adds a passkey is offered below the limit only, where passkeys can be used.\<close>

definition add_fits :: "jstr \<Rightarrow> passkeys \<Rightarrow> bool" where
  "add_fits reason K \<longleftrightarrow> (pk_add K \<longrightarrow> reason = [] \<and> length (pk_items K) < pk_max K)"

lemma load_fits: "add_fits reason K \<Longrightarrow> add_fits reason (load_passkeys reason d K)"
  by (cases d) (auto simp: add_fits_def load_passkeys_def Let_def)

lemma passkeys_limit: "add_fits reason (fold (load_passkeys reason) ds passkeys_card)"
proof -
  have "add_fits reason K \<Longrightarrow> add_fits reason (fold (load_passkeys reason) ds K)" for K
    by (induction ds arbitrary: K) (simp_all add: load_fits)
  moreover have "add_fits reason passkeys_card" by (simp add: add_fits_def passkeys_card_def)
  ultimately show ?thesis by blast
qed

text \<open>The theme chosen is the one shown, and the one found again.\<close>

lemma theme_kept: "th_writable T \<Longrightarrow> pref \<noteq> [] \<Longrightarrow> getThemePref (setThemePref pref T) = pref"
  by (simp add: getThemePref_def setThemePref_def applyTheme_def text_or_def)

end
