(* ===== verification/Page_Updates.thy ===== *)
theory Page_Updates imports Panel_Store begin

text \<open>
  The updates (\<open>pages/updates.js\<close>): what the check of a version shows and offers, for frp and for the panel,
  following the log of an installation until it ends, and the manual installation. The answers of the server
  and the translated texts (\<open>tr\<close>, with their parameters) are arguments; a failed request is the message of its
  error. Timers run one after the other; the markup is in \<open>View_Updates\<close>.
\<close>

subsection \<open>Lines of a log\<close>

definition logClass :: "jstr \<Rightarrow> jstr" where
  "logClass line = (if includesStr line (lit ''[OK]'') then lit ''log-ok'' else if includesStr line (lit ''[ERROR]'') then lit ''log-error''
     else if includesStr line (lit ''[WARN]'') then lit ''log-warn'' else [])"

definition renderLog :: "jstr list \<Rightarrow> (jstr \<times> jstr) list" where
  "renderLog lines = map (\<lambda>l. (trim (lit ''log-line '' @ logClass l), l @ [c_nl])) lines"

subsection \<open>Versions of frp\<close>

record cells =
  ce_installed :: jstr
  ce_latest :: jstr
  ce_kind :: jstr
  ce_status :: jstr

record frp_card =
  fc_cells :: cells
  fc_install :: "jstr option"

record frp_answer =
  fa_ok :: bool
  fa_msg :: jstr
  fa_installed :: jstr
  fa_latest :: jstr
  fa_update :: bool

type_synonym translator = "jstr \<Rightarrow> (jstr \<times> jstr) list \<Rightarrow> jstr"

definition DASH :: jstr where "DASH = [8212]"

definition frp_card_start :: frp_card where
  "frp_card_start = \<lparr>fc_cells = \<lparr>ce_installed = DASH, ce_latest = DASH, ce_kind = [], ce_status = DASH\<rparr>, fc_install = None\<rparr>"

text \<open>While it asks: the cells are cleared, the button keeps its state.\<close>

definition checking_cells :: "translator \<Rightarrow> cells" where
  "checking_cells tr = \<lparr>ce_installed = [8230], ce_latest = [8230], ce_kind = [], ce_status = tr (lit ''updates.checking'') []\<rparr>"

definition check_frp :: "translator \<Rightarrow> jstr + frp_answer \<Rightarrow> frp_card \<times> store \<Rightarrow> frp_card \<times> store" where
  "check_frp tr ans CS =
     (let (C, S) = CS in
      case ans of
        Inl msg \<Rightarrow> (C\<lparr>fc_cells := (checking_cells tr)\<lparr>ce_kind := lit ''danger'', ce_status := msg\<rparr>\<rparr>, S)
      | Inr d \<Rightarrow>
          (if \<not> fa_ok d then
             (C\<lparr>fc_cells := \<lparr>ce_installed = DASH, ce_latest = DASH, ce_kind = lit ''danger'', ce_status = text_or (fa_msg d) (tr (lit ''updates.unreachable'') [])\<rparr>\<rparr>, S)
           else
             (\<lparr>fc_cells = \<lparr>ce_installed = (if fa_installed d \<noteq> [] then lit ''v'' @ fa_installed d else tr (lit ''updates.notInstalled'') []),
                 ce_latest = lit ''v'' @ fa_latest d, ce_kind = (if fa_update d then lit ''warn'' else lit ''success''),
                 ce_status = (if fa_update d then (if fa_installed d \<noteq> [] then tr (lit ''updates.available'') [] else tr (lit ''updates.notInstalled'') [])
                   else tr (lit ''updates.upToDate'') [])\<rparr>,
                fc_install = (if fa_update d \<and> can (lit ''updates.install'') S
                  then Some (tr (if fa_installed d \<noteq> [] then lit ''updates.installVersion'' else lit ''updates.installFrp'') [(lit ''v'', fa_latest d)]) else None)\<rparr>,
              S\<lparr>st_update_frp := (fa_update d \<and> fa_installed d \<noteq> [])\<rparr>)))"

text \<open>Following an installation: at each step whether the page is still there, and the answer: lines, still
  running, success.\<close>

datatype follow = Following | Left | Ended bool

fun pollFrpLog :: "(bool \<times> (jstr list \<times> bool \<times> bool) option) list \<Rightarrow> jstr list \<Rightarrow> follow \<times> jstr list" where
  "pollFrpLog [] shown = (Following, shown)"
| "pollFrpLog ((here, r) # rs) shown =
     (if \<not> here then (Left, shown)
      else case r of None \<Rightarrow> pollFrpLog rs shown
      | Some (lines, running, success) \<Rightarrow> (if running then pollFrpLog rs lines else (Ended success, lines)))"

text \<open>The manual installation: the file and the version, the first that is missing stops.\<close>

datatype upload_error = No_file | No_version

definition upload :: "'f option \<Rightarrow> jstr \<Rightarrow> upload_error + ('f \<times> jstr)" where
  "upload file version0 = (case file of None \<Rightarrow> Inl No_file
     | Some f \<Rightarrow> if trim version0 = [] then Inl No_version else Inr (f, trim version0))"

text \<open>The sources that answer: name, and the version or the error.\<close>

definition connectivity :: "translator \<Rightarrow> (jstr \<times> bool \<times> jstr \<times> jstr) list \<Rightarrow> (jstr \<times> bool \<times> jstr) list option" where
  "connectivity tr sources0 = (if sources0 = [] then None
     else Some (map (\<lambda>(name0, ok, ver, err). (name0, ok, if ok then ver else text_or err (tr (lit ''updates.unreachable'') []))) sources0))"

subsection \<open>Version of the panel\<close>

record panel_answer =
  pa_ok :: bool
  pa_current :: jstr
  pa_repo_configured :: bool
  pa_repo :: jstr
  pa_latest :: jstr
  pa_prerelease :: bool
  pa_in_docker :: bool
  pa_update :: bool
  pa_release_url :: jstr

datatype extra = Prerelease_docker | Prerelease_channel | Docker_command

text \<open>The address of the release notes and the button of the update, when they are shown.\<close>

record panel_card =
  pc_cells :: cells
  pc_extra :: "extra list"
  pc_release :: "jstr option"
  pc_update :: bool

definition panel_card_start :: panel_card where
  "panel_card_start = \<lparr>pc_cells = \<lparr>ce_installed = DASH, ce_latest = DASH, ce_kind = [], ce_status = DASH\<rparr>, pc_extra = [],
     pc_release = None, pc_update = False\<rparr>"

definition check_panel :: "translator \<Rightarrow> jstr + panel_answer \<Rightarrow> panel_card \<times> store \<Rightarrow> panel_card \<times> store" where
  "check_panel tr ans CS =
     (let (C, S) = CS; wait = checking_cells tr in
      case ans of
        Inl msg \<Rightarrow> (C\<lparr>pc_cells := wait\<lparr>ce_kind := lit ''danger'', ce_status := msg\<rparr>\<rparr>, S)
      | Inr d \<Rightarrow>
         (let cells = (\<lambda>l k s. \<lparr>ce_installed = lit ''v'' @ pa_current d, ce_latest = l, ce_kind = k, ce_status = tr s []\<rparr>);
              latest = lit ''v'' @ pa_latest d; S' = S\<lparr>st_update_panel := pa_update d\<rparr>;
              channel = (if pa_prerelease d then [Prerelease_channel] else [])
          in if \<not> pa_ok d then (C\<lparr>pc_cells := wait\<lparr>ce_kind := lit ''danger'', ce_status := tr (lit ''errors.generic'') []\<rparr>\<rparr>, S)
             else if \<not> pa_repo_configured d then (C\<lparr>pc_cells := cells DASH [] (lit ''updates.repoMissing''), pc_extra := []\<rparr>, S)
             else if pa_latest d = [] then (C\<lparr>pc_cells := cells DASH [] (lit ''updates.unreachable''), pc_extra := []\<rparr>, S)
             else if pa_prerelease d \<and> pa_in_docker d then
               (\<lparr>pc_cells = cells latest (lit ''info'') (lit ''updates.prerelease''), pc_extra = [Prerelease_docker], pc_release = None, pc_update = False\<rparr>, S')
             else if pa_update d then
               (\<lparr>pc_cells = cells latest (lit ''warn'') (if pa_prerelease d then lit ''updates.prereleaseAvailable'' else lit ''updates.available''),
                  pc_extra = channel @ (if pa_in_docker d then [Docker_command] else []),
                  pc_release = Some (text_or (pa_release_url d) (lit ''https://github.com/'' @ pa_repo d @ lit ''/releases'')),
                  pc_update = (\<not> pa_in_docker d \<and> can (lit ''updates.panel'') S)\<rparr>, S')
             else
               (\<lparr>pc_cells = cells latest (if pa_prerelease d then lit ''info'' else lit ''success'')
                    (if pa_prerelease d then lit ''updates.prereleaseUpToDate'' else lit ''updates.upToDate''),
                  pc_extra = channel, pc_release = None, pc_update = False\<rparr>, S')))"

text \<open>Following the update of the panel: the lines at each step. It ends with a new load of the page, or with the
  button given back after an error; otherwise it goes on.\<close>

datatype panel_follow = Panel_following | Panel_left | Reloads | Button_back

definition RESTART_WORD :: jstr where
  "RESTART_WORD = lit ''Red'' @ [233] @ lit ''marrage''"

fun follow_panel :: "(bool \<times> jstr list option) list \<Rightarrow> panel_follow" where
  "follow_panel [] = Panel_following"
| "follow_panel ((here, r) # rs) =
     (if \<not> here then Panel_left
      else case r of None \<Rightarrow> follow_panel rs
      | Some lines \<Rightarrow> (let l = (if lines = [] then [] else last lines)
          in if includesStr l RESTART_WORD then Reloads
             else if includesStr l (lit ''[ERROR]'') then Button_back
             else follow_panel rs))"

subsection \<open>What is offered\<close>

text \<open>A button is shown only after an answer that has an update, to an account that may install it; the update of
  the panel never inside a container.\<close>

lemma check_frp_offers:
  "fc_install (fst (check_frp tr ans (C, S))) \<noteq> None \<Longrightarrow>
     fc_install C \<noteq> None \<or> (\<exists>d. ans = Inr d \<and> fa_ok d \<and> fa_update d \<and> can (lit ''updates.install'') S)"
  by (auto simp: check_frp_def Let_def split: sum.splits if_splits)

lemma check_frp_can: "can p (snd (check_frp tr ans (C, S))) = can p S"
  by (auto simp: check_frp_def Let_def can_def split: sum.splits)

lemma check_panel_offers:
  "pc_update (fst (check_panel tr ans (C, S))) \<Longrightarrow>
     pc_update C \<or> (\<exists>d. ans = Inr d \<and> pa_ok d \<and> pa_update d \<and> \<not> pa_in_docker d \<and> can (lit ''updates.panel'') S)"
  by (auto simp: check_panel_def Let_def split: sum.splits if_splits)

lemma check_panel_can: "can p (snd (check_panel tr ans (C, S))) = can p S"
  by (auto simp: check_panel_def Let_def can_def split: sum.splits)

lemma frp_fold:
  "(fc_install C \<noteq> None \<Longrightarrow> can (lit ''updates.install'') S \<and> P) \<Longrightarrow> \<forall>d. Inr d \<in> set ans \<longrightarrow> fa_update d \<longrightarrow> P
   \<Longrightarrow> fc_install (fst (fold (check_frp tr) ans (C, S))) \<noteq> None \<Longrightarrow> can (lit ''updates.install'') S \<and> P"
proof (induction ans arbitrary: C S)
  case (Cons x xs)
  obtain C1 S1 where c: "check_frp tr x (C, S) = (C1, S1)" by fastforce
  have "can (lit ''updates.install'') S1 = can (lit ''updates.install'') S" using check_frp_can [of "lit ''updates.install''" tr x C S] c by simp
  moreover have "can (lit ''updates.install'') S1 \<and> P" if "fc_install C1 \<noteq> None"
    using check_frp_offers [of tr x C S] c that Cons.prems(1,2) calculation by fastforce
  ultimately show ?case using Cons.IH [of C1 S1] Cons.prems(2,3) c by auto
qed simp

lemma panel_fold:
  "(pc_update C \<Longrightarrow> can (lit ''updates.panel'') S \<and> P) \<Longrightarrow> \<forall>d. Inr d \<in> set ans \<longrightarrow> pa_update d \<longrightarrow> \<not> pa_in_docker d \<longrightarrow> P
   \<Longrightarrow> pc_update (fst (fold (check_panel tr) ans (C, S))) \<Longrightarrow> can (lit ''updates.panel'') S \<and> P"
proof (induction ans arbitrary: C S)
  case (Cons x xs)
  obtain C1 S1 where c: "check_panel tr x (C, S) = (C1, S1)" by fastforce
  have "can (lit ''updates.panel'') S1 = can (lit ''updates.panel'') S" using check_panel_can [of "lit ''updates.panel''" tr x C S] c by simp
  moreover have "can (lit ''updates.panel'') S1 \<and> P" if "pc_update C1"
    using check_panel_offers [of tr x C S] c that Cons.prems(1,2) calculation by fastforce
  ultimately show ?case using Cons.IH [of C1 S1] Cons.prems(2,3) c by auto
qed simp

theorem updates_offered:
  "(if fc_install (fst (fold (check_frp tr) as (frp_card_start, S))) = None then True
      else can (lit ''updates.install'') S \<and> (\<exists>d. Inr d \<in> set as \<and> fa_update d))
   \<and> (if pc_update (fst (fold (check_panel tr) bs (panel_card_start, S)))
      then can (lit ''updates.panel'') S \<and> (\<exists>d. Inr d \<in> set bs \<and> pa_update d \<and> \<not> pa_in_docker d) else True)"
  using frp_fold [of frp_card_start S "\<exists>d. Inr d \<in> set as \<and> fa_update d" as tr]
    panel_fold [of panel_card_start S "\<exists>d. Inr d \<in> set bs \<and> pa_update d \<and> \<not> pa_in_docker d" bs tr]
  by (auto simp: frp_card_start_def panel_card_start_def)

subsection \<open>Following\<close>

text \<open>An installation is followed to its end: the first answer that is not running.\<close>

lemma poll_ends: "list_all (\<lambda>(here, r). here) ts \<Longrightarrow> (\<exists>ls ok. (True, Some (ls, False, ok)) \<in> set ts)
   \<Longrightarrow> \<exists>ok. fst (pollFrpLog ts shown) = Ended ok"
proof (induction ts arbitrary: shown)
  case (Cons t ts)
  obtain here a where t: "t = (here, a)" by (cases t)
  show ?case
  proof (cases a)
    case None
    with Cons t show ?thesis by auto
  next
    case (Some x)
    obtain ls running ok where x: "x = (ls, running, ok)" by (cases x)
    have "running \<Longrightarrow> \<exists>ls ok. (True, Some (ls, False, ok)) \<in> set ts" using Cons.prems(2) t Some x by auto
    with Cons t Some x show ?thesis by (cases running) auto
  qed
qed simp

text \<open>The page is loaded again only when the last line has the French word; in another language it never is.\<close>

theorem panel_follow_ends:
  assumes "list_all (\<lambda>(here, r). here) ts"
  shows "follow_panel ts = Panel_following \<longleftrightarrow>
    (\<forall>(here, r)\<in>set ts. case r of None \<Rightarrow> True | Some ls \<Rightarrow> ls = [] \<or> \<not> includesStr (last ls) RESTART_WORD \<and> \<not> includesStr (last ls) (lit ''[ERROR]''))"
  using assms
proof (induction ts rule: follow_panel.induct)
  case (2 here r rs)
  have "\<not> includesStr [] RESTART_WORD" "\<not> includesStr [] (lit ''[ERROR]'')" by (simp_all add: includesStr_def RESTART_WORD_def)
  with 2 show ?case by (auto simp: Let_def split: option.splits)
qed simp


text \<open>The two last lines the server writes, in French and in English (\<open>updates.go\<close>).\<close>

lemma restart_lines:
  "includesStr (lit ''[OK] Panel v2 install'' @ [233] @ lit ''. Red'' @ [233] @ lit ''marrage dans 2s'' @ [8230]) RESTART_WORD"
  "\<not> includesStr (lit ''[OK] Panel v2 installed. Restarting in 2 s'' @ [8230]) RESTART_WORD"
  "\<not> includesStr (lit ''[OK] Panel v2 installed. Restarting in 2 s'' @ [8230]) (lit ''[ERROR]'')"
  by (simp_all add: RESTART_WORD_def includesStr_def lit_simps)

theorem panel_follow_ends_witness:
  "follow_panel (replicate n (True, Some [lit ''[OK] Panel v2 installed. Restarting in 2 s'' @ [8230]])) = Panel_following
   \<and> follow_panel [(True, Some [lit ''[OK] Panel v2 install'' @ [233] @ lit ''. Red'' @ [233] @ lit ''marrage dans 2s'' @ [8230]])] = Reloads"
proof
  have "list_all (\<lambda>(here, r). here) (replicate n (True, Some [lit ''[OK] Panel v2 installed. Restarting in 2 s'' @ [8230]]))"
    by (simp add: list_all_iff)
  from panel_follow_ends [OF this] show "follow_panel (replicate n (True, Some [lit ''[OK] Panel v2 installed. Restarting in 2 s'' @ [8230]])) = Panel_following"
    using restart_lines(2,3) by (auto simp: set_replicate_conv_if)
  show "follow_panel [(True, Some [lit ''[OK] Panel v2 install'' @ [233] @ lit ''. Red'' @ [233] @ lit ''marrage dans 2s'' @ [8230]])] = Reloads"
    using restart_lines(1) by simp
qed

end
