(* ===== verification/Page_Notifications.thy ===== *)
theory Page_Notifications imports Panel_Store Js_Number begin

text \<open>
  The notifications (\<open>pages/notifications.js\<close>): the list of the webhooks as the server keeps it, turning one on
  or off, deleting, the editor of a webhook with its events, instances and fields, and what it sends. The
  address, the secret and the headers never come back from the server: fields left empty keep them. Answers of
  the server, the instances shown (\<open>ids\<close>) and translated texts (\<open>tr\<close>) are arguments. The delay between two
  notifications is a number as typed (\<open>Number\<close>); the markup is in \<open>View_Notifications\<close>.
\<close>

subsection \<open>Formats and events\<close>

definition FORMATS :: "jstr list" where
  "FORMATS = [lit ''discord'', lit ''slack'', lit ''telegram'', lit ''ntfy'', lit ''gotify'', lit ''generic'', lit ''text'']"

definition EVENT_GROUPS :: "(jstr \<times> jstr list) list" where
  "EVENT_GROUPS =
    [(lit ''instances'', [lit ''instance.down'', lit ''instance.up'']),
     (lit ''security'', [lit ''login.locked'', lit ''login.success'']),
     (lit ''changes'', [lit ''config.saved'', lit ''firewall.saved'']),
     (lit ''updates'', [lit ''update.panel'', lit ''update.frp'', lit ''update.frp_installed'', lit ''panel.started''])]"

definition event_ids :: "jstr list" where
  "event_ids = concat (map snd EVENT_GROUPS)"

definition STAR :: jstr where "STAR = [42]"

record preset =
  ps_id :: jstr
  ps_events :: "jstr list"
  ps_cooldown :: nat

definition PRESETS :: "preset list" where
  "PRESETS =
    [\<lparr>ps_id = lit ''outages'', ps_events = [lit ''instance.down'', lit ''instance.up''], ps_cooldown = 60\<rparr>,
     \<lparr>ps_id = lit ''security'', ps_events = [lit ''login.locked'', lit ''login.success'', lit ''firewall.saved''], ps_cooldown = 0\<rparr>,
     \<lparr>ps_id = lit ''updates'', ps_events = [lit ''update.panel'', lit ''update.frp'', lit ''update.frp_installed''], ps_cooldown = 0\<rparr>,
     \<lparr>ps_id = lit ''all'', ps_events = [STAR], ps_cooldown = 0\<rparr>]"

definition eventLabel :: "(jstr \<Rightarrow> jstr) \<Rightarrow> jstr \<Rightarrow> jstr" where
  "eventLabel tr i = (if i = STAR then tr (lit ''notifications.allEvents'') else tr (lit ''notifications.events.'' @ i))"

subsection \<open>Webhooks\<close>

text \<open>\<open>wh_url_hint\<close>, \<open>wh_has_secret\<close> and \<open>wh_has_headers\<close> stand for what the server does not give back.\<close>

record webhook =
  wh_id :: jstr
  wh_name :: jstr
  wh_enabled :: bool
  wh_format :: jstr
  wh_url_hint :: jstr
  wh_has_secret :: bool
  wh_has_headers :: bool
  wh_chat_id :: jstr
  wh_events :: "jstr list"
  wh_instances :: "jstr list"
  wh_lang :: jstr
  wh_cooldown :: jsreal
  wh_template :: jstr

text \<open>A webhook as it is sent: with what was typed for the fields that are not given back.\<close>

record sent_hook = webhook +
  sh_url :: jstr
  sh_secret :: jstr
  sh_secret_clear :: bool
  sh_headers :: jstr
  sh_headers_clear :: bool

record event_info =
  ev_id :: jstr
  ev_level :: jstr

record history_line =
  hi_name :: jstr
  hi_event :: jstr
  hi_ok :: bool
  hi_msg :: jstr

record hooks =
  hk_hooks :: "webhook list"
  hk_events :: "event_info list"
  hk_history :: "history_line list"

text \<open>What an answer of the server has is taken.\<close>

definition apply_hooks :: "webhook list option \<Rightarrow> event_info list option \<Rightarrow> history_line list option \<Rightarrow> hooks \<Rightarrow> hooks" where
  "apply_hooks ws es hs H = \<lparr>hk_hooks = (case ws of Some w \<Rightarrow> w | None \<Rightarrow> hk_hooks H),
     hk_events = (case es of Some e \<Rightarrow> e | None \<Rightarrow> hk_events H), hk_history = (case hs of Some h \<Rightarrow> h | None \<Rightarrow> hk_history H)\<rparr>"

definition refreshHistory :: "history_line list option \<Rightarrow> hooks \<Rightarrow> hooks" where
  "refreshHistory d H = (case d of Some h \<Rightarrow> H\<lparr>hk_history := h\<rparr> | None \<Rightarrow> H)"

text \<open>The lines of the history that are shown, none at all without webhooks and history.\<close>

definition shown_history :: "hooks \<Rightarrow> history_line list option" where
  "shown_history H = (if hk_hooks H = [] \<and> hk_history H = [] then None else Some (take 20 (hk_history H)))"

text \<open>The list is sent whole; the server answers with the list it keeps (\<open>None\<close>: refused or failed).\<close>

definition persist :: "webhook list option \<Rightarrow> hooks \<Rightarrow> bool \<times> hooks" where
  "persist d H = (case d of Some ws \<Rightarrow> (True, H\<lparr>hk_hooks := ws\<rparr>) | None \<Rightarrow> (False, H))"

text \<open>A webhook as it is, in a list that is sent: a field that is not sent is empty here.\<close>

definition resend :: "webhook \<Rightarrow> sent_hook" where
  "resend w = webhook.extend w \<lparr>sh_url = [], sh_secret = [], sh_secret_clear = False, sh_headers = [], sh_headers_clear = False\<rparr>"

definition switched_list :: "jstr \<Rightarrow> bool \<Rightarrow> hooks \<Rightarrow> sent_hook list" where
  "switched_list i on H = map (\<lambda>x. resend (if wh_id x = i then x\<lparr>wh_enabled := on\<rparr> else x)) (hk_hooks H)"

definition removed_list :: "jstr \<Rightarrow> hooks \<Rightarrow> sent_hook list" where
  "removed_list i H = map resend (filter (\<lambda>x. wh_id x \<noteq> i) (hk_hooks H))"

text \<open>The events of a row: all of them, or how many.\<close>

definition events_shown :: "webhook \<Rightarrow> nat option" where
  "events_shown w = (if STAR \<in> set (wh_events w) then None else Some (length (wh_events w)))"

subsection \<open>The editor\<close>

record hook_form =
  hf_draft :: webhook
  hf_isNew :: bool
  hf_name :: jstr
  hf_format :: jstr
  hf_url :: jstr
  hf_chat :: jstr
  hf_secret :: jstr
  hf_secret_clear :: bool
  hf_headers :: jstr
  hf_headers_clear :: bool
  hf_template :: jstr
  hf_cooldown :: jstr
  hf_lang :: jstr
  hf_checks :: "(jstr \<times> bool) list"
  hf_instances :: "(jstr \<times> bool) list"

definition new_hook :: "jstr \<Rightarrow> webhook" where
  "new_hook locale0 = \<lparr>wh_id = [], wh_name = [], wh_enabled = True, wh_format = lit ''discord'', wh_url_hint = [], wh_has_secret = False,
     wh_has_headers = False, wh_chat_id = [], wh_events = [lit ''instance.down'', lit ''instance.up''], wh_instances = [],
     wh_lang = (if locale0 = lit ''en'' then lit ''en'' else lit ''fr''), wh_cooldown = Finite 60, wh_template = []\<rparr>"

definition wants :: "jstr list \<Rightarrow> jstr \<Rightarrow> bool" where
  "wants es i \<longleftrightarrow> STAR \<in> set es \<or> i \<in> set es"

text \<open>\<open>text\<close> is a number as the browser writes it in a field.\<close>

definition edit_hook :: "(jsreal \<Rightarrow> jstr) \<Rightarrow> jstr \<Rightarrow> jstr list \<Rightarrow> webhook option \<Rightarrow> hook_form" where
  "edit_hook shown_num locale0 ids existing =
     (let d = (case existing of Some w \<Rightarrow> w | None \<Rightarrow> new_hook locale0)
      in \<lparr>hf_draft = d, hf_isNew = (existing = None), hf_name = wh_name d, hf_format = wh_format d, hf_url = [], hf_chat = wh_chat_id d,
          hf_secret = [], hf_secret_clear = False, hf_headers = [], hf_headers_clear = False, hf_template = wh_template d,
          hf_cooldown = shown_num (wh_cooldown d), hf_lang = wh_lang d,
          hf_checks = map (\<lambda>i. (i, wants (wh_events d) i)) event_ids,
          hf_instances = map (\<lambda>i. (i, i \<in> set (wh_instances d))) ids\<rparr>)"

definition setEvents :: "jstr list \<Rightarrow> hook_form \<Rightarrow> hook_form" where
  "setEvents es F = F\<lparr>hf_checks := map (\<lambda>(i, v). (i, wants es i)) (hf_checks F)\<rparr>"

text \<open>The name of a preset is put in when none is typed yet.\<close>

definition use_preset :: "(jstr \<Rightarrow> jstr) \<Rightarrow> preset \<Rightarrow> hook_form \<Rightarrow> hook_form" where
  "use_preset tr p F = (let G = (setEvents (ps_events p) F)\<lparr>hf_cooldown := digits (ps_cooldown p)\<rparr>
     in if trim (hf_name F) = [] then G\<lparr>hf_name := tr (lit ''notifications.presets.'' @ ps_id p)\<rparr> else G)"

text \<open>Fields that are hidden for a format: chat, secret, template.\<close>

definition hidden_fields :: "jstr \<Rightarrow> bool \<times> bool \<times> bool" where
  "hidden_fields f = (f \<noteq> lit ''telegram'', f \<noteq> lit ''generic'' \<and> f \<noteq> lit ''text'', f \<noteq> lit ''generic'')"

datatype hook_error = Name_missing | Events_missing

definition picked :: "(jstr \<times> bool) list \<Rightarrow> jstr list" where
  "picked cs = map fst (filter snd cs)"

definition submit_hook :: "hook_form \<Rightarrow> hook_error + sent_hook" where
  "submit_hook F =
     (let es = picked (hf_checks F) in
      if trim (hf_name F) = [] then Inl Name_missing
      else if es = [] then Inl Events_missing
      else Inr (webhook.extend ((hf_draft F)\<lparr>wh_name := trim (hf_name F), wh_format := hf_format F, wh_chat_id := trim (hf_chat F),
          wh_events := (if length es = length (hf_checks F) then [STAR] else es), wh_instances := picked (hf_instances F),
          wh_lang := hf_lang F, wh_cooldown := or_zero (js_number (hf_cooldown F)), wh_template := hf_template F\<rparr>)
        \<lparr>sh_url = trim (hf_url F), sh_secret = hf_secret F, sh_secret_clear = hf_secret_clear F, sh_headers = hf_headers F,
          sh_headers_clear = hf_headers_clear F\<rparr>))"

text \<open>The list sent after the editor: a new webhook at the end, another one in its place.\<close>

definition saved_list :: "bool \<Rightarrow> sent_hook \<Rightarrow> hooks \<Rightarrow> sent_hook list" where
  "saved_list isNew saved H = (if isNew then map resend (hk_hooks H) @ [saved]
     else map (\<lambda>x. if wh_id x = wh_id saved then saved else resend x) (hk_hooks H))"

text \<open>A test from the editor: a webhook without a name has a dash for one.\<close>

record test_body =
  tb_id :: jstr
  tb_name :: jstr
  tb_format :: jstr
  tb_url :: jstr
  tb_chat_id :: jstr
  tb_secret :: jstr
  tb_headers :: jstr
  tb_template :: jstr
  tb_lang :: jstr

definition test_hook :: "hook_form \<Rightarrow> test_body" where
  "test_hook F = \<lparr>tb_id = wh_id (hf_draft F), tb_name = text_or (trim (hf_name F)) [8212], tb_format = hf_format F, tb_url = trim (hf_url F),
     tb_chat_id = trim (hf_chat F), tb_secret = hf_secret F, tb_headers = hf_headers F, tb_template = hf_template F, tb_lang = hf_lang F\<rparr>"

subsection \<open>An unchanged webhook\<close>

text \<open>Which events a webhook is sent (\<open>webhookMatches\<close> of \<open>webhooks.go\<close>): those it has, among the known ones.\<close>

lemma all_picked: "length (filter P xs) = length xs \<Longrightarrow> j \<in> set xs \<Longrightarrow> P j"
  by (metis filter_id_conv length_filter_less less_irrefl)

lemma star_unknown: "STAR \<notin> set event_ids"
  by (simp add: STAR_def event_ids_def EVENT_GROUPS_def lit_simps)

lemma picked_checks: "picked (map (\<lambda>i. (i, P i)) xs) = filter P xs"
  by (simp add: picked_def filter_map comp_def)

text \<open>C38. Opened and applied unchanged, a webhook keeps the same events and fields, and its address, secret and
  headers are neither sent nor cleared. The instances it is limited to are kept only while they exist.\<close>

theorem unchanged_hook:
  assumes "trim (wh_name w) = wh_name w" and "wh_name w \<noteq> []" and "trim (wh_chat_id w) = wh_chat_id w"
    and "i \<in> set event_ids" and "wants (wh_events w) i"
    and "js_number (shown_num (wh_cooldown w)) = wh_cooldown w" and "wh_cooldown w \<noteq> Not_number"
  shows "\<exists>s. submit_hook (edit_hook shown_num locale0 ids (Some w)) = Inr s
    \<and> (\<forall>j\<in>set event_ids. wants (wh_events s) j = wants (wh_events w) j)
    \<and> webhook.truncate s = w\<lparr>wh_events := wh_events s, wh_instances := filter (\<lambda>j. j \<in> set (wh_instances w)) ids\<rparr>
    \<and> sh_url s = [] \<and> sh_secret s = [] \<and> sh_headers s = [] \<and> \<not> sh_secret_clear s \<and> \<not> sh_headers_clear s"
proof -
  let ?F = "edit_hook shown_num locale0 ids (Some w)" and ?es = "filter (wants (wh_events w)) event_ids"
  have F: "hf_draft ?F = w" "hf_name ?F = wh_name w" "hf_chat ?F = wh_chat_id w" "hf_format ?F = wh_format w" "hf_url ?F = []"
    "hf_secret ?F = []" "hf_headers ?F = []" "\<not> hf_secret_clear ?F" "\<not> hf_headers_clear ?F" "hf_lang ?F = wh_lang w"
    "hf_template ?F = wh_template w" "hf_cooldown ?F = shown_num (wh_cooldown w)" "picked (hf_checks ?F) = ?es"
    "length (hf_checks ?F) = length event_ids" "picked (hf_instances ?F) = filter (\<lambda>j. j \<in> set (wh_instances w)) ids"
    by (simp_all add: edit_hook_def picked_checks)
  have some: "?es \<noteq> []" using assms(4,5) by (auto simp: filter_empty_conv)
  define es where "es = (if length ?es = length event_ids then [STAR] else ?es)"
  have events: "wants es j = wants (wh_events w) j" if "j \<in> set event_ids" for j
  proof (cases "length ?es = length event_ids")
    case True
    with that all_picked [of "wants (wh_events w)" event_ids j] show ?thesis by (simp add: es_def wants_def [of "[STAR]"])
  next
    case False
    with that star_unknown show ?thesis by (simp add: es_def wants_def [of ?es])
  qed
  have cool: "or_zero (js_number (shown_num (wh_cooldown w))) = wh_cooldown w" using assms(6,7) by (simp add: or_zero_def)
  have "submit_hook ?F = Inr (webhook.extend (w\<lparr>wh_events := es, wh_instances := filter (\<lambda>j. j \<in> set (wh_instances w)) ids\<rparr>)
      \<lparr>sh_url = [], sh_secret = [], sh_secret_clear = False, sh_headers = [], sh_headers_clear = False\<rparr>)"
    using assms(1-3) some by (simp add: submit_hook_def Let_def F cool es_def trim_def trimStart_def trimEnd_def)
  then show ?thesis using events by (auto simp: webhook.defs)
qed

text \<open>A webhook limited to an instance that is gone is sent without a limit: it is then about every instance.\<close>

lemma limit_lost: "set (wh_instances w) \<inter> set ids = {} \<Longrightarrow> submit_hook (edit_hook shown_num locale0 ids (Some w)) = Inr s \<Longrightarrow> wh_instances s = []"
  by (auto simp: submit_hook_def edit_hook_def picked_checks Let_def webhook.defs filter_empty_conv split: if_splits)

text \<open>Every preset picks known events, or all of them.\<close>

lemma presets_known: "p \<in> set PRESETS \<Longrightarrow> ps_events p = [STAR] \<or> set (ps_events p) \<subseteq> set event_ids"
  by (auto simp: PRESETS_def event_ids_def EVENT_GROUPS_def)

text \<open>The list sent has each other webhook as it was, in its place.\<close>

lemma saved_others: "x \<in> set (hk_hooks H) \<Longrightarrow> isNew \<or> wh_id x \<noteq> wh_id saved \<Longrightarrow> resend x \<in> set (saved_list isNew saved H)"
  by (auto simp: saved_list_def)

text \<open>A switch sends the others as the page last knew them: one that was switched before, and whose answer has not
  come yet, is sent back in its old state.\<close>

lemma switch_sends_known: "x \<in> set (hk_hooks H) \<Longrightarrow> wh_id x \<noteq> i \<Longrightarrow> resend x \<in> set (switched_list i on H)"
  by (auto simp: switched_list_def image_iff)

subsection \<open>A concrete webhook\<close>

definition ex_hook :: webhook where
  "ex_hook = \<lparr>wh_id = lit ''a'', wh_name = lit ''home'', wh_enabled = True, wh_format = lit ''ntfy'', wh_url_hint = lit ''ntfy.sh'', wh_has_secret = True,
     wh_has_headers = False, wh_chat_id = [], wh_events = [lit ''instance.down''], wh_instances = [lit ''frpc'', lit ''gone''], wh_lang = lit ''fr'',
     wh_cooldown = Finite 60, wh_template = []\<rparr>"

theorem unchanged_hook_witness:
  "\<exists>s. submit_hook (edit_hook (\<lambda>n. lit ''60'') (lit ''fr'') [lit ''frpc'', lit ''frps''] (Some ex_hook)) = Inr s
    \<and> wh_instances s = [lit ''frpc''] \<and> sh_secret s = [] \<and> (\<forall>j\<in>set event_ids. wants (wh_events s) j = (j = lit ''instance.down''))"
proof -
  have w: "trim (wh_name ex_hook) = wh_name ex_hook" "wh_name ex_hook \<noteq> []" "trim (wh_chat_id ex_hook) = wh_chat_id ex_hook"
    "lit ''instance.down'' \<in> set event_ids" "wants (wh_events ex_hook) (lit ''instance.down'')" "wh_cooldown ex_hook \<noteq> Not_number"
    by (simp_all add: ex_hook_def trim_def trimStart_def trimEnd_def is_ws_def event_ids_def EVENT_GROUPS_def wants_def lit_simps)
  have n: "js_number (lit ''60'') = wh_cooldown ex_hook"
    by (simp add: ex_hook_def js_number_def radix_integer_def decimal_def exponent_def digits_value_def digit_of_def is_digit_def trim_def
      trimStart_def trimEnd_def is_ws_def Let_def lit_simps)
  obtain s where s: "submit_hook (edit_hook (\<lambda>n. lit ''60'') (lit ''fr'') [lit ''frpc'', lit ''frps''] (Some ex_hook)) = Inr s"
    "\<forall>j\<in>set event_ids. wants (wh_events s) j = wants (wh_events ex_hook) j"
    "webhook.truncate s = ex_hook\<lparr>wh_events := wh_events s, wh_instances := filter (\<lambda>j. j \<in> set (wh_instances ex_hook)) [lit ''frpc'', lit ''frps'']\<rparr>"
    "sh_secret s = []"
    using unchanged_hook [of ex_hook "lit ''instance.down''" "\<lambda>n. lit ''60''" "lit ''fr''" "[lit ''frpc'', lit ''frps'']", OF w(1-5) n w(6)] by blast
  have "wh_instances s = filter (\<lambda>j. j \<in> set (wh_instances ex_hook)) [lit ''frpc'', lit ''frps'']"
    using arg_cong [OF s(3), of wh_instances] by (simp add: webhook.defs)
  then have "wh_instances s = [lit ''frpc'']" by (simp add: ex_hook_def lit_simps)
  moreover have "wants (wh_events ex_hook) j = (j = lit ''instance.down'')" for j
    by (auto simp: ex_hook_def wants_def STAR_def lit_simps)
  ultimately show ?thesis using s(1,2,4) by auto
qed


end
