(* ===== verification/Panel_Lang.thy ===== *)
theory Panel_Lang imports Panel_I18n begin

text \<open>
  The dictionaries as the source writes them (\<open>locales/fr.js\<close>, \<open>locales/en.js\<close>): object literals of texts. A character
  outside ASCII (and the two quotes) is written \<open>~\<close> and its four hexadecimal digits. The last of two properties of
  the same name is the one an object has.
\<close>

datatype lang = Leaf string | Group "(string \<times> lang) list"

definition hex_value :: "char \<Rightarrow> nat" where
  "hex_value c = (let n = of_char c :: nat in if n \<le> 57 then n - 48 else n - 87)"

fun js_text :: "string \<Rightarrow> jstr" where
  "js_text (c # a # b # d # e # s) =
     (if c = CHR ''~'' then (((hex_value a * 16 + hex_value b) * 16 + hex_value d) * 16 + hex_value e) # js_text s
      else of_char c # js_text (a # b # d # e # s))"
| "js_text s = lit s"

fun dict_of :: "lang \<Rightarrow> dict" and members_of :: "(string \<times> lang) list \<Rightarrow> (jstr \<times> dict) list" where
  "dict_of (Leaf s) = Txt (js_text s)"
| "dict_of (Group es) = Node (members_of es)"
| "members_of [] = []"
| "members_of ((k, l) # es) = members_of es @ [(lit k, dict_of l)]"

text \<open>The names of the parameters of a text.\<close>

primrec params_in :: "jstr \<Rightarrow> jstr list" where
  "params_in [] = []"
| "params_in (c # s) = (case placeholder (c # s) of Some (name, rest) \<Rightarrow> [name] | None \<Rightarrow> []) @ params_in s"

lemma placeholder_parts: "placeholder s = Some (n, r) \<Longrightarrow> s = c_lc # n @ c_rc # r"
proof -
  assume "placeholder s = Some (n, r)"
  then obtain x where x: "s = c_lc # x" "n = takeWhile is_word x" "dropWhile is_word x \<noteq> []" "hd (dropWhile is_word x) = c_rc" "r = tl (dropWhile is_word x)"
    by (auto simp: placeholder_def Let_def split: list.splits if_splits)
  then have "dropWhile is_word x = c_rc # r" by (metis list.collapse)
  with x(1,2) show ?thesis by (metis takeWhile_dropWhile_id)
qed

lemma params_in_suffix: "set (params_in r) \<subseteq> set (params_in (p @ r))"
  by (induction p) (simp_all add: le_supI2)

lemma interpolate_params:
  "(\<forall>p\<in>set (params_in s). map_of ps p = map_of qs p) \<Longrightarrow> interpolate ps s = interpolate qs s"
proof (induction ps s rule: interpolate.induct)
  case (2 ps c s)
  show ?case
  proof (cases "placeholder (c # s)")
    case None
    then show ?thesis using 2 by simp
  next
    case (Some nr)
    obtain n r where nr: "nr = (n, r)" by (cases nr)
    have "s = (n @ [c_rc]) @ r" using placeholder_parts [of "c # s"] Some nr by simp
    then have "set (params_in r) \<subseteq> set (params_in s)" using params_in_suffix by blast
    then show ?thesis using 2 Some nr by fastforce
  qed
qed simp

text \<open>On the texts as they are written: at a brace the name it opens, and a mark at an escape that is not four
  hexadecimal digits of a character which is neither a brace nor of a word.\<close>

definition word_char :: "char \<Rightarrow> bool" where
  "word_char c \<longleftrightarrow> c \<in> set ''abcdefghijklmnopqrstuvwxyzABCDEFGHIJKLMNOPQRSTUVWXYZ_0123456789''"

definition name_at :: "string \<Rightarrow> string list" where
  "name_at s = (let n = takeWhile word_char s in
     if n \<noteq> [] \<and> take 1 (dropWhile word_char s) = ''}'' then [n] else [])"

definition HEX :: string where "HEX = ''0123456789abcdef''"
definition HIGH_HEX :: string where "HIGH_HEX = ''89abcdef''"

definition good_escape :: "string \<Rightarrow> bool" where
  "good_escape s \<longleftrightarrow> (case s of a # b # d # e # r \<Rightarrow> list_all (\<lambda>c. c \<in> set HEX) [a, b, d, e]
     \<and> ([a, b] \<noteq> ''00'' \<or> d \<in> set HIGH_HEX \<or> [d, e] = ''22'' \<or> [d, e] = ''27'') | _ \<Rightarrow> False)"

definition names_here :: "char \<Rightarrow> string \<Rightarrow> string list" where
  "names_here c s = (if c = CHR ''{'' then name_at s else if c = CHR ''~'' \<and> \<not> good_escape s then [''~''] else [])"

primrec special :: "char \<Rightarrow> bool" where
  "special (Char b0 b1 b2 b3 b4 b5 b6 b7) = (if b3 then if b4 then b6 else False else False)"

primrec holes :: "string \<Rightarrow> string list" where
  "holes [] = []"
| "holes (c # s) = (if special c then names_here c s @ holes s else holes s)"

definition same_names :: "string list \<Rightarrow> string list \<Rightarrow> bool" where
  "same_names h h' \<longleftrightarrow> list_all (\<lambda>n. n \<noteq> ''~'' \<and> n \<in> set h') h \<and> list_all (\<lambda>n. n \<noteq> ''~'' \<and> n \<in> set h) h'"

fun agree :: "lang \<Rightarrow> lang \<Rightarrow> bool" and agree_all :: "(string \<times> lang) list \<Rightarrow> (string \<times> lang) list \<Rightarrow> bool" where
  "agree (Leaf s) (Leaf s') = same_names (holes s) (holes s')"
| "agree (Group es) (Group es') = agree_all es es'"
| "agree (Leaf s) (Group es) = False"
| "agree (Group es) (Leaf s) = False"
| "agree_all [] [] = True"
| "agree_all ((k, l) # es) ((k', l') # es') = (k = k' \<and> agree l l' \<and> agree_all es es')"
| "agree_all [] (e # es) = False"
| "agree_all (e # es) [] = False"

lemma names_special: "\<not> special c \<Longrightarrow> names_here c s = []"
  by (cases c) (auto simp: names_here_def split: if_splits)

lemma holes_step: "holes (c # s) = names_here c s @ holes s"
  by (simp add: names_special)

lemma word_units: "is_word (of_char c) \<longleftrightarrow> word_char c"
proof -
  have w: "is_word n \<longleftrightarrow> n \<in> set ([97..<123] @ [65..<91] @ [95] @ [48..<58])" for n
    unfolding set_append set_upt by (auto simp: is_word_def is_alpha_def is_digit_def)
  have "map of_char ''abcdefghijklmnopqrstuvwxyzABCDEFGHIJKLMNOPQRSTUVWXYZ_0123456789'' = [97..<123] @ [65..<91] @ [95] @ [48..<58]"
    by simp
  from this [symmetric] show ?thesis unfolding w word_char_def by (simp only: set_map inj_image_mem_iff [OF inj_of_char])
qed

lemma hex_digit_value:
  assumes "c \<in> set HEX"
  shows "c \<noteq> CHR ''0'' \<Longrightarrow> 1 \<le> hex_value c" and "c \<in> set HIGH_HEX \<Longrightarrow> 8 \<le> hex_value c" and "names_here c s = []"
proof -
  have "list_all (\<lambda>c. 1 \<le> hex_value c) ''123456789abcdef''" and "list_all (\<lambda>c. 8 \<le> hex_value c) HIGH_HEX"
    and "list_all (\<lambda>c. names_here c s = []) HEX"
    by (simp_all add: hex_value_def names_here_def HEX_def HIGH_HEX_def)
  note h = this [unfolded list_all_iff]
  show "c \<noteq> CHR ''0'' \<Longrightarrow> 1 \<le> hex_value c" using h(1) set_ConsD [OF assms [unfolded HEX_def]] by blast
  show "c \<in> set HIGH_HEX \<Longrightarrow> 8 \<le> hex_value c" and "names_here c s = []" using h(2,3) assms by blast+
qed

lemma good_escape_unit:
  assumes "good_escape (a # b # d # e # r)"
  defines "u \<equiv> ((hex_value a * 16 + hex_value b) * 16 + hex_value d) * 16 + hex_value e"
  shows "\<not> is_word u" and "u \<noteq> c_lc" and "u \<noteq> c_rc"
proof -
  have h: "c \<in> {a, b, d, e} \<Longrightarrow> c \<in> set HEX" for c using assms(1) by (auto simp: good_escape_def)
  have "128 \<le> u \<or> u = 34 \<or> u = 39"
  proof (cases "[a, b] = ''00'' \<and> d \<notin> set HIGH_HEX")
    case True
    then have "[d, e] = ''22'' \<or> [d, e] = ''27''" using assms(1) by (simp add: good_escape_def)
    with True show ?thesis by (auto simp: u_def hex_value_def)
  next
    case False
    then have "1 \<le> hex_value a \<or> 1 \<le> hex_value b \<or> 8 \<le> hex_value d"
      using hex_digit_value(1) [OF h, of a] hex_digit_value(1) [OF h, of b] hex_digit_value(2) [OF h, of d] by auto
    then show ?thesis by (auto simp: u_def)
  qed
  then show "\<not> is_word u" and "u \<noteq> c_lc" and "u \<noteq> c_rc" by (auto simp: is_word_def is_alpha_def is_digit_def)
qed

lemma params_in_skip: "c \<noteq> c_lc \<Longrightarrow> params_in (c # s) = params_in s"
  by (simp add: placeholder_def)

lemma unmarked_escape: "''~'' \<notin> set (holes (CHR ''~'' # s)) \<Longrightarrow> good_escape s"
  by (simp add: holes_step names_here_def del: holes.simps split: if_splits)

text \<open>The texts of a dictionary without a mark: their units and their characters have the same words.\<close>

lemma words_of_text:
  "''~'' \<notin> set (holes s) \<Longrightarrow> takeWhile is_word (js_text s) = lit (takeWhile word_char s)
    \<and> dropWhile is_word (js_text s) = js_text (dropWhile word_char s)"
proof (induction s rule: js_text.induct)
  case (1 c a b d e s)
  show ?case
  proof (cases "c = CHR ''~''")
    case True
    then have "good_escape (a # b # d # e # s)" using unmarked_escape "1.prems" by blast
    from good_escape_unit [OF this] show ?thesis using True by (simp add: word_char_def)
  next
    case False
    have "''~'' \<notin> set (holes (a # b # d # e # s))" using "1.prems" by (simp add: holes_step del: holes.simps)
    from "1.IH"(2) [OF False this] False show ?thesis by (simp add: word_units lit_simps)
  qed
qed (simp_all add: word_units lit_simps)

lemma text_starts: "''~'' \<notin> set (holes s) \<Longrightarrow> (js_text s \<noteq> [] \<and> hd (js_text s) = c_rc) \<longleftrightarrow> take 1 s = ''}''"
proof (cases s)
  case (Cons c r)
  assume m: "''~'' \<notin> set (holes s)"
  show ?thesis
  proof (cases "c = CHR ''~''")
    case True
    then have "good_escape r" using unmarked_escape m Cons by blast
    moreover from this obtain a b d e t where "r = a # b # d # e # t" by (auto simp: good_escape_def split: list.splits)
    ultimately show ?thesis using good_escape_unit(3) [of a b d e t] True Cons by simp
  next
    case False
    have "(of_char c :: nat) = c_rc \<longleftrightarrow> c = CHR ''}''" using of_char_eq_iff [of c "CHR ''}''", where ?'a = nat] by simp
    moreover have "\<exists>x. js_text s = of_char c # x" using False Cons by (cases "c # r" rule: js_text.cases) (auto simp: lit_simps)
    ultimately show ?thesis using Cons by auto
  qed
qed simp

lemma holes_suffix: "set (holes r) \<subseteq> set (holes (p @ r))"
  by (induction p) (auto simp: holes_step simp del: holes.simps)

lemma name_placeholder:
  assumes "''~'' \<notin> set (holes s)"
  shows "(case placeholder (c_lc # js_text s) of Some (n, r) \<Rightarrow> [n] | None \<Rightarrow> []) = map lit (name_at s)"
proof -
  have "''~'' \<notin> set (holes (dropWhile word_char s))"
    using assms holes_suffix [of "dropWhile word_char s" "takeWhile word_char s"] by auto
  from text_starts [OF this] show ?thesis using words_of_text [OF assms]
    by (auto simp: placeholder_def name_at_def Let_def simp del: dropWhile_eq_Nil_conv)
qed

lemma plain_text: "CHR ''~'' \<notin> set s \<Longrightarrow> js_text s = lit s \<and> ''~'' \<notin> set (holes s)"
proof (induction s)
  case (Cons c s)
  have "takeWhile word_char s \<noteq> ''~''" using set_takeWhileD [of "CHR ''~''" word_char s] by (auto simp: word_char_def)
  then have "''~'' \<notin> set (name_at s)" by (auto simp: name_at_def Let_def)
  with Cons show ?case by (cases "c # s" rule: js_text.cases) (auto simp: holes_step names_here_def lit_simps simp del: holes.simps)
qed simp

lemma plain_params: "CHR ''~'' \<notin> set s \<Longrightarrow> params_in (lit s) = map lit (holes s)"
proof (induction s)
  case (Cons c s)
  have b: "(of_char c :: nat) = c_lc \<longleftrightarrow> c = CHR ''{''" using of_char_eq_iff [of c "CHR ''{''", where ?'a = nat] by simp
  show ?case using Cons name_placeholder [of s] plain_text [of s] b
    by (cases "c = CHR ''{''") (auto simp: lit_simps holes_step names_here_def params_in_skip params_in.simps(2) [of 123] simp del: holes.simps params_in.simps(2))
qed simp

lemma short_plain: "length s \<le> 4 \<Longrightarrow> ''~'' \<notin> set (holes s) \<Longrightarrow> CHR ''~'' \<notin> set s"
proof
  assume l: "length s \<le> 4" and m: "''~'' \<notin> set (holes s)" and "CHR ''~'' \<in> set s"
  then obtain p r where s: "s = p @ CHR ''~'' # r" using split_list by metis
  then have "''~'' \<notin> set (holes (CHR ''~'' # r))" using m holes_suffix by blast
  then have "good_escape r" by (rule unmarked_escape)
  with l s show False by (auto simp: good_escape_def split: list.splits)
qed

lemma params_of_text: "''~'' \<notin> set (holes s) \<Longrightarrow> params_in (js_text s) = map lit (holes s)"
proof (induction s rule: js_text.induct)
  case (1 c a b d e s)
  show ?case
  proof (cases "c = CHR ''~''")
    case True
    then have g: "good_escape (a # b # d # e # s)" using unmarked_escape "1.prems" by blast
    then have "names_here x r = []" if "x \<in> {a, b, d, e}" for x r using that hex_digit_value(3) by (auto simp: good_escape_def)
    then have h: "holes (c # a # b # d # e # s) = holes s" using True g by (simp add: holes_step names_here_def del: holes.simps)
    have "params_in (js_text s) = map lit (holes s)" using "1.IH"(1) [OF True] "1.prems" unfolding h by blast
    then show ?thesis unfolding h using True good_escape_unit(2) [OF g] by (simp add: params_in_skip del: params_in.simps)
  next
    case False
    have m: "''~'' \<notin> set (holes (a # b # d # e # s))" using "1.prems" by (simp add: holes_step del: holes.simps)
    have b: "(of_char c :: nat) = c_lc \<longleftrightarrow> c = CHR ''{''" using of_char_eq_iff [of c "CHR ''{''", where ?'a = nat] by simp
    from "1.IH"(2) [OF False m] show ?thesis
    proof (cases "c = CHR ''{''")
      case True
      from "1.IH"(2) [OF False m] name_placeholder [OF m] show ?thesis
        using True unfolding holes_step [of c] by (simp add: names_here_def del: holes.simps js_text.simps(1) [of a])
    next
      case False
      with \<open>c \<noteq> CHR ''~''\<close> "1.IH"(2) [OF _ m] b show ?thesis
        unfolding holes_step [of c] by (simp add: params_in_skip names_here_def del: holes.simps params_in.simps)
    qed
  qed
qed (simp_all add: plain_params [OF short_plain] del: holes.simps(2) params_in.simps(2))

lemma same_names_params:
  assumes "same_names (holes s) (holes s')"
  shows "set (params_in (js_text s)) = set (params_in (js_text s'))"
proof -
  have "''~'' \<notin> set (holes s)" and "''~'' \<notin> set (holes s')" and h: "set (holes s) = set (holes s')"
    using assms unfolding same_names_def list_all_iff by blast+
  then show ?thesis by (simp add: params_of_text)
qed

text \<open>The same property of two dictionaries, read one after the other from a key.\<close>

definition alike :: "dict option \<Rightarrow> dict option \<Rightarrow> bool" where
  "alike a b \<longleftrightarrow> (case a of None \<Rightarrow> b = None
     | Some d \<Rightarrow> \<exists>l l'. d = dict_of l \<and> b = Some (dict_of l') \<and> agree l l')"

lemma alike_Some: "agree l l' \<Longrightarrow> alike (Some (dict_of l)) (Some (dict_of l'))"
  by (auto simp: alike_def)

lemma agree_member: "agree_all es es' \<Longrightarrow> alike (map_of (members_of es) k) (map_of (members_of es') k)"
proof (induction es es' rule: agree_agree_all.induct(2) [where P = "\<lambda>_ _. True"])
  case (6 k' l es k'' l' es')
  then have h: "alike (map_of (members_of es) k) (map_of (members_of es') k)" "agree l l'" "k' = k''" by simp_all
  show ?case
  proof (cases "map_of (members_of es) k")
    case None
    then have "map_of (members_of es') k = None" using h(1) by (simp add: alike_def)
    with None h show ?thesis by (auto simp: map_add_def alike_Some)
  next
    case (Some d)
    then obtain d' where "map_of (members_of es') k = Some d'" using h(1) by (auto simp: alike_def)
    with Some h(1) show ?thesis by (simp add: map_add_def)
  qed
qed (simp_all add: alike_def)

lemma alike_member: "alike a b \<Longrightarrow> alike (member a k) (member b k)"
proof (cases a)
  case (Some d)
  assume "alike a b"
  then obtain l l' where l: "d = dict_of l" "b = Some (dict_of l')" "agree l l'" using Some by (auto simp: alike_def)
  then show ?thesis using Some agree_member [of _ _ k] by (cases l; cases l') (auto simp: member_def alike_def)
qed (simp add: alike_def member_def)

lemma agree_lookup: "agree l l' \<Longrightarrow> alike (lookup (dict_of l) key) (lookup (dict_of l') key)"
proof -
  have "alike a b \<Longrightarrow> alike (foldl member a ks) (foldl member b ks)" for a b ks
    by (induction ks arbitrary: a b) (simp_all add: alike_member)
  then show "agree l l' \<Longrightarrow> ?thesis" using alike_Some unfolding lookup_def by blast
qed

lemma agree_names: "agree_all es es' \<Longrightarrow> map fst (members_of es) = map fst (members_of es')"
  by (induction es es' rule: agree_agree_all.induct(2) [where P = "\<lambda>_ _. True"]) simp_all

lemma agree_texts:
  assumes "agree l l'"
  shows "case lookup (dict_of l) key of None \<Rightarrow> lookup (dict_of l') key = None
    | Some (Txt s) \<Rightarrow> \<exists>s'. lookup (dict_of l') key = Some (Txt s') \<and> set (params_in s') = set (params_in s)
    | Some (Node ds) \<Rightarrow> \<exists>ds'. lookup (dict_of l') key = Some (Node ds') \<and> map fst ds' = map fst ds"
proof (cases "lookup (dict_of l) key")
  case None
  then show ?thesis using agree_lookup [OF assms, of key] by (simp add: alike_def)
next
  case (Some d)
  then obtain m m' where m: "d = dict_of m" "lookup (dict_of l') key = Some (dict_of m')" "agree m m'"
    using agree_lookup [OF assms, of key] by (auto simp: alike_def)
  then show ?thesis using Some same_names_params agree_names
    by (cases m; cases m') (auto)
qed

lemma agree_all_append: "agree_all es es' \<Longrightarrow> agree_all fs fs' \<Longrightarrow> agree_all (es @ fs) (es' @ fs')"
  by (induction es es' rule: agree_agree_all.induct(2) [where P = "\<lambda>_ _. True"]) simp_all

text \<open>The names of a dictionary, without its texts.\<close>

datatype outline = Tx | Gr "(string \<times> outline) list"

fun outline_of :: "lang \<Rightarrow> outline" and outlines_of :: "(string \<times> lang) list \<Rightarrow> (string \<times> outline) list" where
  "outline_of (Leaf s) = Tx"
| "outline_of (Group es) = Gr (outlines_of es)"
| "outlines_of [] = []"
| "outlines_of ((k, l) # es) = outlines_of es @ [(k, outline_of l)]"

primrec push :: "char \<Rightarrow> string list \<Rightarrow> string list" where
  "push c [] = [[c]]"
| "push c (w # ws) = (c # w) # ws"

primrec splits :: "string \<Rightarrow> string list" where
  "splits [] = [[]]"
| "splits (c # s) = (if c = CHR ''.'' then [] # splits s else push c (splits s))"

fun names_text :: "outline \<Rightarrow> string list \<Rightarrow> bool" where
  "names_text Tx ks = (ks = [])"
| "names_text (Gr os) [] = False"
| "names_text (Gr os) (k # ks) = (case map_of os k of Some a \<Rightarrow> names_text a ks | None \<Rightarrow> False)"

lemma push_not_Nil [simp]: "push c ws \<noteq> []"
  by (cases ws) simp_all

lemma splits_not_Nil [simp]: "splits s \<noteq> []"
  by (cases s) simp_all

lemma splits_lit: "split_on c_dot (lit s) = map lit (splits s)"
proof (induction s)
  case (Cons c s)
  have b: "(of_char c :: nat) = c_dot \<longleftrightarrow> c = CHR ''.''" using of_char_eq_iff [of c "CHR ''.''", where ?'a = nat] by simp
  show ?case using Cons b splits_not_Nil [of s] by (cases "splits s") (auto simp: lit_simps)
qed simp

lemma lit_same: "lit s = lit s' \<longleftrightarrow> s = s'"
  by (simp add: lit_def inj_map_eq_map inj_of_char)

lemma map_of_outline:
  "rel_option (\<lambda>d a. \<exists>l. d = dict_of l \<and> a = outline_of l) (map_of (members_of es) (lit k)) (map_of (outlines_of es) k)"
proof (induction es rule: outline_of_outlines_of.induct(2) [where P = "\<lambda>_. True"])
  case (4 k' l es)
  then show ?case
    by (cases "map_of (members_of es) (lit k)"; cases "map_of (outlines_of es) k") (auto simp: map_add_def lit_same)
qed simp_all

lemma names_text_lookup:
  assumes "names_text (outline_of l) (splits s)"
  shows "\<exists>w. lookup (dict_of l) (lit s) = Some (Txt w)"
proof -
  have "names_text (outline_of l) ks \<Longrightarrow> \<exists>w. foldl member (Some (dict_of l)) (map lit ks) = Some (Txt w)" for l ks
  proof (induction ks arbitrary: l)
    case Nil
    then show ?case by (cases l) simp_all
  next
    case (Cons k ks)
    then obtain es a where l: "l = Group es" "map_of (outlines_of es) k = Some a" "names_text a ks"
      by (cases l) (auto split: option.splits)
    then obtain m where "map_of (members_of es) (lit k) = Some (dict_of m)" "a = outline_of m"
      using map_of_outline [of es k] by (auto simp: rel_option_iff split: option.splits)
    then show ?case using Cons.IH [of m] l by (simp add: member_def)
  qed
  with assms show ?thesis by (simp add: lookup_def splits_lit)
qed

end
