(* ===== verification/Panel_Fr.thy ===== *)
theory Panel_Fr imports Panel_Lang begin

text \<open>
  The French dictionary (\<open>locales/fr.js\<close>), one definition per group of texts.
\<close>

definition fr_nav :: "(string \<times> lang) list" where
  "fr_nav = [
    (''label'', Leaf ''Navigation principale''),
    (''dashboard'', Leaf ''Tableau de bord''),
    (''tunnels'', Leaf ''Ports''),
    (''firewall'', Leaf ''Pare-feu''),
    (''logs'', Leaf ''Journaux''),
    (''settings'', Leaf ''R~00e9glages''),
    (''logout'', Leaf ''Se d~00e9connecter''),
    (''open'', Leaf ''Ouvrir le menu''),
    (''updateAvailable'', Leaf ''Mise ~00e0 jour disponible'')]"

definition fr_footer :: "(string \<times> lang) list" where
  "fr_footer = [
    (''madeWith'', Leaf ''D~00e9velopp~00e9 avec'')]"

definition fr_common :: "(string \<times> lang) list" where
  "fr_common = [
    (''close'', Leaf ''Fermer''),
    (''confirm'', Leaf ''Confirmer''),
    (''cancel'', Leaf ''Annuler''),
    (''save'', Leaf ''Enregistrer''),
    (''saveAndRestart'', Leaf ''Enregistrer et red~00e9marrer''),
    (''discard'', Leaf ''Annuler les modifications''),
    (''unsaved'', Leaf ''Modifications non enregistr~00e9es''),
    (''optional'', Leaf ''facultatif''),
    (''tomlKey'', Leaf ''Cl~00e9 dans le fichier TOML''),
    (''show'', Leaf ''Afficher''),
    (''hide'', Leaf ''Masquer''),
    (''moreActions'', Leaf ''Plus d~2019actions''),
    (''copy'', Leaf ''Copier''),
    (''copied'', Leaf ''Copi~00e9 dans le presse-papiers''),
    (''instance'', Leaf ''Instance''),
    (''leaveTitle'', Leaf ''Quitter sans enregistrer ?''),
    (''leaveText'', Leaf ''Vos modifications seront perdues.''),
    (''leave'', Leaf ''Quitter sans enregistrer''),
    (''edit'', Leaf ''Modifier''),
    (''delete'', Leaf ''Supprimer''),
    (''refresh'', Leaf ''Actualiser''),
    (''loading'', Leaf ''Chargement~2026''),
    (''state'', Group [
      (''new'', Leaf ''nouveau''),
      (''changed'', Leaf ''modifi~00e9'')]),
    (''readOnly'', Leaf ''Lecture seule.'')]"

definition fr_errors :: "(string \<times> lang) list" where
  "fr_errors = [
    (''network'', Leaf ''Le panel ne r~00e9pond pas. V~00e9rifiez votre connexion puis r~00e9essayez.''),
    (''unauthenticated'', Leaf ''Session expir~00e9e, reconnectez-vous.''),
    (''badResponse'', Leaf ''R~00e9ponse inattendue du serveur (HTTP {status}).''),
    (''generic'', Leaf ''L~2019op~00e9ration a ~00e9chou~00e9.''),
    (''clipboard'', Leaf ''Copie impossible : s~00e9lectionnez le texte manuellement.'')]"

definition fr_instance :: "(string \<times> lang) list" where
  "fr_instance = [
    (''type'', Group [
      (''frps'', Leaf ''Serveur frps''),
      (''frpc'', Leaf ''Client frpc'')]),
    (''source'', Group [
      (''docker'', Leaf ''conteneur Docker''),
      (''systemd'', Leaf ''service systemd''),
      (''standalone'', Leaf ''lanc~00e9 par le panel'')])]"

definition fr_status :: "(string \<times> lang) list" where
  "fr_status = [
    (''running'', Leaf ''En marche''),
    (''stopped'', Leaf ''Arr~00eat~00e9''),
    (''missing'', Leaf ''Introuvable'')]"

definition fr_actions :: "(string \<times> lang) list" where
  "fr_actions = [
    (''start'', Leaf ''D~00e9marrer''),
    (''stop'', Leaf ''Arr~00eater''),
    (''restart'', Leaf ''Red~00e9marrer''),
    (''done'', Group [
      (''start'', Leaf ''{name} d~00e9marr~00e9''),
      (''stop'', Leaf ''{name} arr~00eat~00e9''),
      (''restart'', Leaf ''{name} red~00e9marr~00e9''),
      (''reload'', Leaf ''Configuration de {name} recharg~00e9e''),
      (''enable'', Leaf ''D~00e9marrage automatique activ~00e9''),
      (''disable'', Leaf ''D~00e9marrage automatique d~00e9sactiv~00e9'')])]"

definition fr_dashboard :: "(string \<times> lang) list" where
  "fr_dashboard = [
    (''title'', Leaf ''Tableau de bord''),
    (''description'', Leaf ''Les services frp de cette machine. Le serveur frps tourne sur la machine publique, le client frpc expose vos services locaux ~00e0 travers lui.''),
    (''redetect'', Leaf ''Relancer la d~00e9tection''),
    (''detected'', Leaf ''D~00e9tection termin~00e9e''),
    (''noPasswordTitle'', Leaf ''Le panel n~2019a pas de mot de passe''),
    (''noPasswordText'', Leaf ''N~2019importe qui pouvant joindre cette page peut modifier vos ports ouverts. D~00e9finissez un mot de passe maintenant.''),
    (''setPassword'', Leaf ''D~00e9finir un mot de passe''),
    (''update'', Group [
      (''frp'', Leaf ''Une nouvelle version de frp est disponible.''),
      (''panel'', Leaf ''Une nouvelle version du panel est disponible.''),
      (''both'', Leaf ''De nouvelles versions de frp et du panel sont disponibles.'')]),
    (''seeUpdates'', Leaf ''Voir les mises ~00e0 jour''),
    (''dockerTitle'', Leaf ''Le panel tourne dans Docker''),
    (''dockerText'', Leaf ''~00ab Nouvelle instance ~00bb cr~00e9e un frps ou un frpc sur l~2019h~00f4te. Un conteneur avec l~2019image fatedier/frps ou fatedier/frpc, configuration mont~00e9e dans /etc/frp/, est aussi d~00e9tect~00e9.''),
    (''emptyTitle'', Leaf ''Aucun service frp trouv~00e9''),
    (''emptyText'', Leaf ''frps et frpc ne sont pas install~00e9s sur cette machine, ou leur service systemd est introuvable. Installez frp depuis R~00e9glages ~2192 Mises ~00e0 jour.''),
    (''emptyTextDocker'', Leaf ''Aucun conteneur frps ou frpc n~2019a ~00e9t~00e9 d~00e9tect~00e9 via le socket Docker.''),
    (''standaloneTitle'', Leaf ''Mode autonome''),
    (''standaloneText'', Leaf ''frps et frpc font partie de l~2019image Docker et sont lanc~00e9s par le panel. Leurs configurations (/etc/frp/) et leurs journaux sont gard~00e9s dans le volume /data.''),
    (''emptyTextStandalone'', Leaf ''Aucune configuration frps ou frpc dans /etc/frp/. Recr~00e9ez-en une avec les boutons ci-dessus.''),
    (''installFrp'', Leaf ''Installer frp''),
    (''fields'', Group [
      (''image'', Leaf ''Image''),
      (''container'', Leaf ''Conteneur''),
      (''network'', Leaf ''R~00e9seau''),
      (''config'', Leaf ''Configuration''),
      (''service'', Leaf ''Service'')]),
    (''noConfig'', Leaf ''aucun fichier''),
    (''binaryMissing'', Leaf ''Le programme {type} est introuvable. Installez ou r~00e9installez frp depuis R~00e9glages ~2192 Mises ~00e0 jour.''),
    (''autostart'', Leaf ''D~00e9marrage automatique''),
    (''autostartHint'', Leaf ''Relance le service au d~00e9marrage de la machine.''),
    (''autostartHintStandalone'', Leaf ''Lance le programme au d~00e9marrage du conteneur.''),
    (''autostartOn'', Leaf ''D~00e9marrage automatique activ~00e9''),
    (''autostartOff'', Leaf ''D~00e9marrage automatique d~00e9sactiv~00e9''),
    (''rename'', Leaf ''Renommer''),
    (''viewLogs'', Leaf ''Voir les journaux''),
    (''editConfig'', Leaf ''Modifier la configuration''),
    (''reload'', Leaf ''Recharger la configuration''),
    (''reinstall'', Leaf ''R~00e9installer {type}''),
    (''reinstallTitle'', Leaf ''R~00e9installer {type} ?''),
    (''reinstallHint'', Leaf ''Recr~00e9e le service {type}.service supprim~00e9''),
    (''reinstallText'', Leaf ''Le service {type}.service sera recr~00e9~00e9 avec /etc/frp/{type}.toml : la configuration conserv~00e9e ~00e0 la suppression, sinon une configuration par d~00e9faut. Le programme {type} sera ret~00e9l~00e9charg~00e9 s~2019il manque. Le service restera arr~00eat~00e9 : d~00e9marrez-le ensuite depuis sa carte.''),
    (''reinstallHintStandalone'', Leaf ''Recr~00e9e {type} avec /etc/frp/{type}.toml''),
    (''reinstallTextStandalone'', Leaf ''{type} sera recr~00e9~00e9 avec /etc/frp/{type}.toml : la configuration conserv~00e9e ~00e0 la suppression, sinon une configuration par d~00e9faut. Il restera arr~00eat~00e9 : d~00e9marrez-le ensuite depuis sa carte.''),
    (''reinstallingTitle'', Leaf ''R~00e9installation de {type}''),
    (''reinstalled'', Leaf ''Service {type} r~00e9install~00e9''),
    (''stopTitle'', Leaf ''Arr~00eater {name} ?''),
    (''stopTextClient'', Leaf ''Tous les ports ouverts par ce client seront ferm~00e9s. Si vous acc~00e9dez ~00e0 ce panel ~00e0 travers l~2019un d~2019eux, vous perdrez l~2019acc~00e8s jusqu~2019au red~00e9marrage du service.''),
    (''stopTextServer'', Leaf ''Tous les clients connect~00e9s ~00e0 ce serveur seront d~00e9connect~00e9s et leurs ports ferm~00e9s.''),
    (''renameTitle'', Leaf ''Renommer l~2019instance''),
    (''renameLabel'', Leaf ''Nom affich~00e9''),
    (''renameHint'', Leaf ''Laissez vide pour revenir au nom d~2019origine ({id}).''),
    (''renamePlaceholder'', Leaf ''Ex. : Serveur maison''),
    (''renamed'', Leaf ''Nom mis ~00e0 jour''),
    (''deleteTitle'', Leaf ''Supprimer {name} ?''),
    (''deleteTextService'', Leaf ''Le service {service} sera arr~00eat~00e9, d~00e9sactiv~00e9 et son fichier d~2019unit~00e9 systemd supprim~00e9. Le programme frp reste install~00e9.''),
    (''deleteTextDocker'', Leaf ''Le conteneur {container} sera arr~00eat~00e9 et supprim~00e9.''),
    (''deleteTextStandalone'', Leaf ''{service} sera arr~00eat~00e9 et ne d~00e9marrera plus avec le conteneur. Le programme frp reste dans l~2019image.''),
    (''deleteImage'', Leaf ''Supprimer aussi l~2019image''),
    (''deleteImageHint'', Leaf ''{image} ~2014 conserv~00e9e si un autre conteneur l~2019utilise. Elle se ret~00e9l~00e9charge au besoin.''),
    (''deleteConfig'', Leaf ''Supprimer aussi la configuration''),
    (''deleteConfigHint'', Leaf ''Efface {path} et tous les ports ou r~00e9glages qu~2019il contient.''),
    (''deleteWarning'', Leaf ''Cette action est irr~00e9versible.''),
    (''deleted'', Leaf ''{name} supprim~00e9''),
    (''newInstance'', Leaf ''Nouvelle instance''),
    (''new'', Group [
      (''title'', Leaf ''Nouvelle instance''),
      (''description'', Leaf ''Un frpc de plus (vers un autre serveur, ou pour s~00e9parer des ports) ou un frps de plus, avec son propre fichier de configuration, son propre journal et ses propres ports.''),
      (''type'', Leaf ''Type''),
      (''name'', Leaf ''Nom''),
      (''namePlaceholder'', Leaf ''maison''),
      (''nameHint'', Leaf ''Lettres minuscules, chiffres, - et _ (32 au plus). Il suit le type : ~00ab maison ~00bb donne frpc-maison ou frps-maison.''),
      (''nameInvalid'', Leaf ''De 1 ~00e0 32 caract~00e8res parmi a-z, 0-9, - et _, en commen~00e7ant par une lettre ou un chiffre.''),
      (''nameOtherType'', Leaf ''Ce nom d~00e9signe une instance {other} : choisissez-en un autre.''),
      (''preview'', Leaf ''Cr~00e9e {path} et le service {service}, arr~00eat~00e9.''),
      (''previewStandalone'', Leaf ''Cr~00e9e {path}, lanc~00e9 par le panel une fois d~00e9marr~00e9.''),
      (''copy'', Leaf ''Configuration de d~00e9part''),
      (''copyNone'', Leaf ''Configuration par d~00e9faut''),
      (''copyFrom'', Leaf ''Copie de {name}''),
      (''copyHint'', Group [
        (''frpc'', Leaf ''Garde le serveur, l~2019authentification et les r~00e9glages, sans les ports ouverts ni les visiteurs : ils entreraient en conflit avec ceux de l~2019instance d~2019origine. Le journal et le port du tableau de bord local changent.''),
        (''frps'', Leaf ''Garde les r~00e9glages, avec un nouveau jeton tir~00e9 au hasard. Les ports d~2019~00e9coute (connexion, KCP, QUIC, vhost, tableau de bord) et le journal sont remplac~00e9s par des libres.'')]),
      (''defaultHint'', Group [
        (''frpc'', Leaf ''Sans serveur : renseignez-le dans sa configuration avant de le d~00e9marrer.''),
        (''frps'', Leaf ''Port de connexion libre et jeton tir~00e9s au hasard.'')]),
      (''manual'', Leaf ''Un fichier {type}-nom.toml d~00e9j~00e0 d~00e9pos~00e9 ~00e0 la main dans /etc/frp n~2019a pas besoin d~2019~00eatre recr~00e9~00e9 : sans service systemd, il est signal~00e9 sur le tableau de bord avec un bouton ~00ab Cr~00e9er le service ~00bb.''),
      (''manualStandalone'', Leaf ''Un fichier {type}-nom.toml d~00e9pos~00e9 ~00e0 la main dans /etc/frp/ devient aussi une instance, sans rien d~2019autre ~00e0 faire.''),
      (''create'', Leaf ''Cr~00e9er l~2019instance''),
      (''created'', Leaf ''{id} cr~00e9~00e9'')]),
    (''orphan'', Group [
      (''title'', Leaf ''{path} n~2019a pas de service''),
      (''text'', Leaf ''Aucun service systemd ne lance cette configuration : le panel ne peut pas la d~00e9marrer. Cr~00e9ez {service} pour la piloter d~2019ici.''),
      (''adopt'', Leaf ''Cr~00e9er le service''),
      (''adoptTitle'', Leaf ''Cr~00e9er {service} ?''),
      (''adoptText'', Leaf ''{service} lancera {type} avec {path}, sans r~00e9~00e9crire ce fichier. Il sera cr~00e9~00e9 arr~00eat~00e9 et non activ~00e9 : d~00e9marrez-le ensuite depuis sa carte.''),
      (''conflicts'', Leaf ''Cette configuration entre en conflit avec une autre instance :''),
      (''fix'', Leaf ''Corriger le journal et les ports''),
      (''fixHint'', Leaf ''Donne ~00e0 ce fichier son propre journal et des ports d~2019~00e9coute libres ; le reste ne change pas. Des tunnels en double se corrigent ~00e0 la main, dans la page Ports.''),
      (''adopted'', Leaf ''{service} cr~00e9~00e9'')])]"

definition fr_tunnels :: "(string \<times> lang) list" where
  "fr_tunnels = [
    (''title'', Leaf ''Ports''),
    (''description'', Leaf ''Chaque port ouvert rend accessible depuis Internet un service de cette machine, via votre serveur frp.''),
    (''add'', Leaf ''Ouvrir un port''),
    (''saveRestart'', Leaf ''Enregistrer et red~00e9marrer frpc''),
    (''noClientTitle'', Leaf ''Aucun client frpc sur cette machine''),
    (''noClientText'', Leaf ''Les ports s~2019ouvrent depuis la machine qui h~00e9berge vos services, l~00e0 o~00f9 tourne frpc.''),
    (''server'', Leaf ''serveur''),
    (''randomPort'', Leaf ''port attribu~00e9 par le serveur''),
    (''copyAddress'', Leaf ''Copier l~2019adresse {addr}''),
    (''randomPortNoAdmin'', Leaf ''Un port ouvert sans num~00e9ro re~00e7oit du serveur un port qui change ~00e0 chaque d~00e9marrage de frpc. Pour le voir, le panel le demande ~00e0 frpc sur son tableau de bord local (127.0.0.1 seulement, mot de passe al~00e9atoire).''),
    (''showAssigned'', Leaf ''Afficher le port attribu~00e9''),
    (''admin'', Group [
      (''title'', Leaf ''Activer le tableau de bord local de frpc ?''),
      (''intro'', Leaf ''frpc ne donne le port choisi par le serveur que par son tableau de bord local (son API web). Pour l~2019afficher, le panel va l~2019activer dans frpc.toml :''),
      (''listen'', Leaf ''il n~2019~00e9coute que sur 127.0.0.1, sur un port libre ~00e0 partir de 7400 : injoignable depuis le r~00e9seau ou Internet ;''),
      (''password'', Leaf ''il est prot~00e9g~00e9 par l~2019utilisateur ~00ab frp-manager ~00bb et un mot de passe tir~00e9 au hasard, ~00e9crits dans frpc.toml (lisible par root seul) ;''),
      (''restart'', Leaf ''frpc red~00e9marre pour l~2019ouvrir : les ports ouverts sont coup~00e9s quelques secondes.''),
      (''undo'', Leaf ''Pour le retirer : R~00e9glages ~2192 Configuration de frpc, section ~00ab Tableau de bord local ~00bb.''),
      (''confirm'', Leaf ''Activer et red~00e9marrer frpc'')]),
    (''restartFrpc'', Leaf ''Red~00e9marrer frpc''),
    (''randomPortUnreachable'', Leaf ''frpc ne r~00e9pond pas sur son tableau de bord local : red~00e9marrez-le (ou d~00e9marrez-le) pour voir les ports attribu~00e9s par le serveur.''),
    (''noDomain'', Leaf ''aucun domaine''),
    (''privateOnly'', Leaf ''priv~00e9, via un visiteur''),
    (''public'', Leaf ''Acc~00e8s public''),
    (''local'', Leaf ''Service local''),
    (''unnamed'', Leaf ''sans nom''),
    (''flags'', Group [
      (''range'', Group [
        (''one'', Leaf ''Plage ~00b7 {count} port''),
        (''other'', Leaf ''Plage ~00b7 {count} ports'')]),
      (''proxyProtocol'', Leaf ''PROXY {v}''),
      (''encrypted'', Leaf ''Chiffr~00e9''),
      (''compressed'', Leaf ''Compress~00e9''),
      (''assigned'', Leaf ''Attribu~00e9''),
      (''assignedHint'', Leaf ''Port choisi par le serveur au d~00e9marrage de frpc : il peut changer au prochain red~00e9marrage.''),
      (''error'', Leaf ''Erreur'')]),
    (''emptyTitle'', Leaf ''Aucun port ouvert pour l~2019instant''),
    (''emptyText'', Leaf ''Ouvrez un port pour rendre un service local (site web, SSH, serveur de jeu~2026) accessible depuis Internet.''),
    (''deleteTitle'', Leaf ''Supprimer ~00ab {name} ~00bb ?''),
    (''deleteText'', Leaf ''La suppression prendra effet ~00e0 l~2019enregistrement.''),
    (''deletePairText'', Leaf ''Les deux tunnels, {tcp} (TCP) et {udp} (UDP), seront supprim~00e9s. La suppression prendra effet ~00e0 l~2019enregistrement.''),
    (''editTitle'', Leaf ''Modifier ~00ab {name} ~00bb''),
    (''newTitle'', Leaf ''Nouveau port''),
    (''editorHint'', Leaf ''Les changements sont appliqu~00e9s ~00e0 la liste ; enregistrez ensuite pour mettre ~00e0 jour frpc.''),
    (''apply'', Leaf ''Appliquer''),
    (''addToList'', Leaf ''Ajouter''),
    (''extrasKept'', Leaf ''R~00e9glages avanc~00e9s conserv~00e9s tels quels : {keys}.''),
    (''saved'', Leaf ''Configuration frpc enregistr~00e9e''),
    (''restarting'', Leaf ''Red~00e9marrage de {name}~2026''),
    (''restarted'', Leaf ''{name} a red~00e9marr~00e9''),
    (''restartUnknown'', Leaf ''Red~00e9marrage lanc~00e9. V~00e9rifiez l~2019~00e9tat du service sur le tableau de bord.''),
    (''fields'', Group [
      (''name'', Leaf ''Nom''),
      (''nameHint'', Leaf ''Unique, sans espace. Il identifie le port aupr~00e8s du serveur.''),
      (''nameHintBoth'', Leaf ''Unique, sans espace. frpc cr~00e9e deux tunnels : {tcp} et {udp}, affich~00e9s ici sur une seule ligne.''),
      (''namePlaceholder'', Leaf ''site-web''),
      (''type'', Leaf ''Type''),
      (''localService'', Leaf ''Service sur cette machine''),
      (''localIP'', Leaf ''Adresse''),
      (''localPort'', Leaf ''Port''),
      (''localHint'', Leaf ''L~00e0 o~00f9 le service ~00e9coute. 127.0.0.1 si le service tourne sur cette machine.''),
      (''rangeHint'', Leaf ''Plusieurs ports d~2019un coup : une plage (30000-30010) ou une liste (6000-6006,6007), avec autant de ports pour le port public, alors obligatoire. frpc cr~00e9e un tunnel par port, nomm~00e9 nom-<port> ; il faut frp 0.56 ou plus r~00e9cent.''),
      (''rangeHintDomains'', Leaf ''Plusieurs ports d~2019un coup : une plage (8080-8082) ou une liste (8080,8090). frpc cr~00e9e un tunnel par port, nomm~00e9 nom-<port>, et chacun a besoin de son propre domaine : ~00e9crivez {token} dans le domaine (app-{token}.example.com). Il faut frp 0.56 ou plus r~00e9cent.''),
      (''rangeHintPrivate'', Leaf ''Plusieurs ports d~2019un coup : une plage (6000-6005) ou une liste (6000,6010). frpc cr~00e9e un port priv~00e9 par port, nomm~00e9 nom-<port> ; un visiteur avec une plage les rejoint tous. Il faut frp 0.56 ou plus r~00e9cent.''),
      (''publicAccess'', Leaf ''Acc~00e8s depuis Internet''),
      (''remotePort'', Leaf ''Port public''),
      (''remotePortHint'', Leaf ''Port ouvert sur {server}. Laissez vide pour que le serveur en choisisse un (il change ~00e0 chaque d~00e9marrage de frpc).''),
      (''remotePortHintBoth'', Leaf ''Port ouvert sur {server}, en TCP et en UDP. Obligatoire : sinon le serveur choisirait un port diff~00e9rent pour chacun.''),
      (''domains'', Leaf ''Domaines''),
      (''domainsHint'', Leaf ''S~00e9par~00e9s par des virgules. Ils doivent pointer vers le serveur frps.''),
      (''domainsHintRange'', Leaf ''S~00e9par~00e9s par des virgules, chacun avec {token}, remplac~00e9 par le port de chaque tunnel (app-{token}.example.com donne app-8080.example.com). Ils doivent pointer vers le serveur frps.''),
      (''secret'', Leaf ''Cl~00e9 secr~00e8te''),
      (''secretHint'', Leaf ''Les visiteurs doivent utiliser la m~00eame cl~00e9 pour se connecter.''),
      (''secretPlaceholder'', Leaf ''cl~00e9 partag~00e9e''),
      (''options'', Leaf ''Options''),
      (''proxyProtocol'', Leaf ''PROXY protocol''),
      (''proxyProtocolHint'', Leaf ''Transmet l~2019IP du visiteur au service. Le service doit le prendre en charge (nginx, HAProxy~2026).''),
      (''ppOff'', Leaf ''D~00e9sactiv~00e9''),
      (''ppV2'', Leaf ''v2 (recommand~00e9)''),
      (''encryption'', Leaf ''Chiffrer le trafic''),
      (''encryptionHint'', Leaf ''Entre frpc et frps. Inutile si le service utilise d~00e9j~00e0 TLS.''),
      (''compression'', Leaf ''Compresser le trafic''),
      (''compressionHint'', Leaf ''~00c9conomise de la bande passante, co~00fbte un peu de processeur.'')]),
    (''types'', Group [
      (''tcp'', Leaf ''Pour la plupart des services : SSH, bases de donn~00e9es, jeux, sites en HTTPS g~00e9r~00e9 par le service.''),
      (''udp'', Leaf ''Pour les services UDP : DNS, VPN (WireGuard), certains jeux.''),
      (''both'', Leaf ''Le m~00eame port en TCP et en UDP (jeux, DNS~2026) : cr~00e9e deux tunnels, nom-tcp et nom-udp, avec les m~00eames ports et options.''),
      (''http'', Leaf ''Site web servi sur un nom de domaine, via le port HTTP du serveur.''),
      (''https'', Leaf ''Site web en HTTPS sur un nom de domaine, via le port HTTPS du serveur.''),
      (''stcp'', Leaf ''Port priv~00e9 : accessible seulement aux machines qui ont la cl~00e9 (visiteurs).''),
      (''xtcp'', Leaf ''Port priv~00e9 en pair-~00e0-pair : la connexion ~00e9vite le serveur quand c~2019est possible.'')])]"

definition fr_firewall_1 :: "(string \<times> lang) list" where
  "fr_firewall_1 = [
    (''title'', Leaf ''Pare-feu''),
    (''description'', Leaf ''Choisissez qui peut se connecter aux ports qu~2019ouvre frps. Le filtrage est fait par le noyau de cette machine (nftables) et continue m~00eame si le panel s~2019arr~00eate.''),
    (''noFrpsTitle'', Leaf ''Aucun frps sur cette machine''),
    (''noFrpsText'', Leaf ''Le pare-feu filtre les connexions aux ports ouverts par frps. Il se r~00e8gle sur la machine o~00f9 tourne le serveur frps.''),
    (''noNftTitle'', Leaf ''nftables est introuvable''),
    (''noNftText'', Leaf ''Le pare-feu s~2019appuie sur nftables. Installez-le avec le bouton ci-dessous, ou ~00e0 la main : apt install nftables ({detail})''),
    (''noNftTextDocker'', Leaf ''Le pare-feu s~2019appuie sur nftables, sur la machine h~00f4te. Le bouton ci-dessous l~2019installe sur l~2019h~00f4te, ou ~00e0 la main : apt install nftables ({detail})''),
    (''noNftTitleStandalone'', Leaf ''Le conteneur ne peut pas filtrer''),
    (''noNftTextStandalone'', Leaf ''nftables fait partie de l~2019image, mais le conteneur n~2019a pas la capacit~00e9 NET_ADMIN. Ajoutez cap_add: [NET_ADMIN] dans docker-compose.yml (avec network_mode: host pour filtrer le trafic de la machine), puis recr~00e9ez le conteneur. ({detail})''),
    (''noNetfilterTitle'', Leaf ''Le noyau ne permet pas de filtrer''),
    (''noNetfilterText'', Leaf ''nftables est pr~00e9sent, mais le noyau, ou l~2019~00e9mulation (QEMU pour une autre architecture, par exemple), ne prend pas en charge netfilter : la capacit~00e9 NET_ADMIN n~2019y changerait rien. Le pare-feu fonctionne sur une machine dont le noyau prend en charge nftables. ({detail})''),
    (''installNft'', Leaf ''Installer nftables''),
    (''statusTitle'', Leaf ''~00c9tat du filtrage''),
    (''enable'', Leaf ''Filtrer les connexions''),
    (''enableHint'', Leaf ''D~00e9sactiv~00e9, aucune r~00e8gle n~2019est appliqu~00e9e : les ports restent ouverts comme avant.''),
    (''enableHintOn'', Leaf ''Activ~00e9 : les r~00e8gles actives filtrent les connexions aux ports de frps. Le port du panel n~2019est jamais filtr~00e9.''),
    (''state'', Group [
      (''on'', Group [
        (''one'', Leaf ''Actif ~2014 {count} r~00e8gle appliqu~00e9e''),
        (''other'', Leaf ''Actif ~2014 {count} r~00e8gles appliqu~00e9es'')]),
      (''idle'', Leaf ''Activ~00e9, rien ~00e0 filtrer''),
      (''off'', Leaf ''D~00e9sactiv~00e9''),
      (''pending'', Leaf ''Modifications non appliqu~00e9es'')]),
    (''yourIp'', Leaf ''Votre adresse :''),
    (''youFree'', Leaf ''les r~00e8gles appliqu~00e9es ne vous bloquent sur aucun port.''),
    (''youBlocked'', Leaf ''bloqu~00e9e sur : {ports}''),
    (''rulesTitle'', Leaf ''R~00e8gles''),
    (''rulesDesc'', Leaf ''Une connexion doit passer toutes les r~00e8gles qui concernent son port. Le pare-feu ne fait que bloquer : il n~2019ouvre jamais un port.''),
    (''addRule'', Leaf ''Ajouter une r~00e8gle''),
    (''emptyTitle'', Leaf ''Aucune r~00e8gle''),
    (''emptyText'', Leaf ''Par exemple : n~2019autoriser que vos clients frpc ~00e0 se connecter au serveur, ou bloquer une adresse qui abuse d~2019un de vos ports.''),
    (''mode'', Group [
      (''allow'', Leaf ''Autoriser seulement''),
      (''block'', Leaf ''Bloquer'')]),
    (''modeHint'', Group [
      (''allow'', Leaf ''Seules les adresses de la liste peuvent se connecter. Liste vide : personne.''),
      (''block'', Leaf ''Les adresses de la liste ne peuvent plus se connecter ; les autres, si.'')]),
    (''untitledAllow'', Leaf ''Liste autoris~00e9e''),
    (''untitledBlock'', Leaf ''Liste bloqu~00e9e''),
    (''ruleEnabled'', Leaf ''R~00e8gle active''),
    (''portsLabel'', Leaf ''Ports''),
    (''allPorts'', Leaf ''Tous les ports frp''),
    (''frpsLabel'', Leaf ''frps concern~00e9''),
    (''allFrpsPorts'', Leaf ''Tous les ports, de tous les frps''),
    (''orphanBadge'', Leaf ''frps introuvable : {frps}''),
    (''allFrps'', Leaf ''Tous les frps''),
    (''frpsHint'', Leaf ''~00ab Tous les ports frp ~00bb d~00e9signe les ports de ce frps.''),
    (''frpsHintAll'', Leaf ''~00ab Tous les ports frp ~00bb d~00e9signe les ports de tous les frps de la machine.''),
    (''orphanHint'', Leaf ''Ce frps n~2019existe plus. La r~00e8gle filtre encore les ports qu~2019elle nomme (~00ab Tous les ports frp ~00bb n~2019en d~00e9signe plus aucun). Pour la modifier, choisissez un frps existant ou ~00ab Tous les frps ~00bb, ou supprimez-la.''),
    (''movedTo'', Leaf ''R~00e8gle rattach~00e9e ~00e0 {frps} : choisissez ce frps en haut de la page pour la voir.''),
    (''allFrpsHint'', Leaf ''R~00e8gle cr~00e9~00e9e avant le choix du frps : elle vaut pour les ports de tous les frps de la machine.''),
    (''somePorts'', Leaf ''Ports choisis''),
    (''portsHint'', Leaf ''S~00e9par~00e9s par des virgules, plages avec un tiret. ~00ab Tous les ports frp ~00bb suit automatiquement les ports ouverts par frps. Le port du panel ({port}) n~2019est jamais filtr~00e9.''),
    (''sourcesLabel'', Leaf ''Adresses''),
    (''sourcesHint'', Leaf ''Une par ligne : une IP (203.0.113.4), un r~00e9seau (198.51.100.0/24) ou un op~00e9rateur entier par son num~00e9ro d~2019AS (AS16276), IPv4 ou IPv6. Ajoutez une note apr~00e8s un #.''),
    (''asInfo'', Group [
      (''one'', Leaf ''{holder}, {count} pr~00e9fixe''),
      (''other'', Leaf ''{holder}, {count} pr~00e9fixes'')]),
    (''asPending'', Leaf ''pr~00e9fixes r~00e9cup~00e9r~00e9s ~00e0 l~2019application''),
    (''noSource'', Leaf ''aucune''),
    (''addMyIp'', Leaf ''Ajouter mon adresse ({ip})''),
    (''myIpNote'', Leaf ''mon adresse''),
    (''blockedCount'', Group [
      (''one'', Leaf ''{count} bloqu~00e9e''),
      (''other'', Leaf ''{count} bloqu~00e9es'')]),
    (''countHint'', Leaf ''Paquets de connexion bloqu~00e9s depuis la derni~00e8re application des r~00e8gles.''),
    (''name'', Leaf ''Nom''),
    (''namePlaceholder'', Leaf ''Ex. : Clients frpc''),
    (''action'', Leaf ''Action''),
    (''newTitle'', Leaf ''Nouvelle r~00e8gle''),
    (''editTitle'', Leaf ''Modifier ~00ab {name} ~00bb''),
    (''editorHint'', Leaf ''Les changements sont appliqu~00e9s ~00e0 la liste ; appliquez ensuite pour mettre ~00e0 jour le pare-feu.''),
    (''blockNeedsSource'', Leaf ''Indiquez au moins une adresse ~00e0 bloquer.''),
    (''deleteTitle'', Leaf ''Supprimer ~00ab {name} ~00bb ?''),
    (''apply'', Leaf ''Appliquer''),
    (''applied'', Leaf ''Pare-feu appliqu~00e9''),
    (''selfBlockTitle'', Leaf ''Vous allez bloquer votre propre adresse''),
    (''selfBlockText'', Leaf ''Avec ces r~00e8gles, votre adresse ({ip}) ne pourra plus se connecter aux ports {ports}. Si vous acc~00e9dez au panel ~00e0 travers l~2019un d~2019eux, vous perdrez l~2019acc~00e8s.''),
    (''portsTitle'', Leaf ''Ports ouverts par frps''),
    (''portsDesc'', Leaf ''D~00e9tect~00e9s dans la configuration de frps et, si son tableau de bord est activ~00e9, parmi les ports ouverts par les clients.''),
    (''noPorts'', Leaf ''Aucun port d~00e9tect~00e9. V~00e9rifiez la configuration de frps.''),
    (''online'', Leaf ''connect~00e9''),
    (''offline'', Leaf ''hors ligne''),
    (''openToAll'', Leaf ''Ouvert ~00e0 tous''),
    (''col'', Group [
      (''port'', Leaf ''Port''),
      (''use'', Leaf ''Usage''),
      (''access'', Leaf ''Filtrage''),
      (''last'', Leaf ''Derni~00e8re tentative''),
      (''source'', Leaf ''Adresse''),
      (''as'', Leaf ''Op~00e9rateur (AS)''),
      (''rule'', Leaf ''R~00e8gle'')]),
    (''testTitle'', Leaf ''Tester une adresse''),
    (''testDesc'', Leaf ''Ce que les r~00e8gles, y compris celles pas encore appliqu~00e9es, feraient d~2019une adresse.''),
    (''testLabel'', Leaf ''Adresse ~00e0 tester''),
    (''test'', Leaf ''Tester''),
    (''testOk'', Leaf ''autoris~00e9e''),
    (''testBlocked'', Leaf ''bloqu~00e9e par {rules}''),
    (''blockedTitle'', Leaf ''Connexions bloqu~00e9es''),
    (''blockedDesc'', Leaf ''Les adresses bloqu~00e9es ces derni~00e8res 24 heures, retenues par le pare-feu lui-m~00eame, en temps r~00e9el. Le bouton bouclier d~2019une ligne bloque l~2019adresse ou tout son op~00e9rateur partout.''),
    (''blockedEmpty'', Leaf ''Aucune connexion bloqu~00e9e ces derni~00e8res 24 heures.''),
    (''blockedUnavailable'', Leaf ''La version de nftables de cette machine ne permet pas de retenir les adresses bloqu~00e9es. Le filtrage fonctionne quand m~00eame, et les compteurs de chaque r~00e8gle restent ~00e0 jour.''),
    (''blockedMore'', Leaf ''Les 200 plus r~00e9centes sur {count}.''),
    (''live'', Leaf ''En direct''),
    (''ago'', Group [
      (''s'', Leaf ''il y a {n} s''),
      (''m'', Leaf ''il y a {n} min''),
      (''h'', Leaf ''il y a {n} h'')]),
    (''quickTitle'', Leaf ''Bloquer {ip}''),
    (''quickDesc'', Leaf ''Ajout~00e9 ~00e0 la r~00e8gle ~00ab Blocages rapides ~00bb, qui bloque sur tous les ports frp. Appliquez ensuite pour que le blocage prenne effet.''),
    (''quickIp'', Leaf ''Bloquer {ip} partout''),
    (''quickAs'', Leaf ''Bloquer AS{asn} ({holder}) partout''),
    (''quickRule'', Leaf ''Blocages rapides''),
    (''quickAdded'', Leaf ''{what} ajout~00e9 ~00e0 la r~00e8gle ~00ab {rule} ~00bb. Appliquez pour bloquer.''),
    (''deletedRule'', Leaf ''r~00e8gle supprim~00e9e'')]"

definition fr_firewall_2 :: "(string \<times> lang) list" where
  "fr_firewall_2 = [
    (''lists'', Group [
      (''open'', Leaf ''Listes communautaires''),
      (''title'', Leaf ''Listes de blocage communautaires''),
      (''desc'', Leaf ''Des listes d~2019adresses partag~00e9es par les utilisateurs de FRP Manager, ~00e0 bloquer ou ~00e0 autoriser seulement. S~2019abonner cr~00e9e une r~00e8gle sur tous les ports frp, tenue ~00e0 jour automatiquement.''),
      (''emptyTitle'', Leaf ''Le catalogue est vide pour l~2019instant''),
      (''emptyText'', Leaf ''Publiez la premi~00e8re avec le bouton ~00ab Publier une liste ~00bb ci-dessous.''),
      (''by'', Leaf ''par {author}''),
      (''updated'', Leaf ''mise ~00e0 jour le {date}''),
      (''count'', Group [
        (''one'', Leaf ''{count} entr~00e9e''),
        (''other'', Leaf ''{count} entr~00e9es'')]),
      (''show'', Group [
        (''one'', Leaf ''Voir l~2019entr~00e9e''),
        (''other'', Leaf ''Voir les {count} entr~00e9es'')]),
      (''more'', Leaf ''~2026 et {count} de plus''),
      (''subscribe'', Leaf ''S~2019abonner''),
      (''subscribed'', Leaf ''Abonn~00e9''),
      (''added'', Leaf ''R~00e8gle ~00ab {name} ~00bb ajout~00e9e. Appliquez pour qu~2019elle prenne effet.''),
      (''allowTitle'', Leaf ''Autoriser seulement ~00ab {name} ~00bb ?''),
      (''allowText'', Leaf ''Seules les adresses de cette liste pourront se connecter ~00e0 vos ports frp, y compris au port des clients frpc. Si certains de vos clients ou utilisateurs n~2019y figurent pas, ajoutez leurs adresses ~00e0 la r~00e8gle avant d~2019appliquer.''),
      (''browse'', Leaf ''Voir sur GitHub''),
      (''fetchedAt'', Leaf ''Catalogue r~00e9cup~00e9r~00e9 le {date}.''),
      (''stale'', Leaf ''GitHub injoignable, derni~00e8re version connue affich~00e9e ({error}).''),
      (''unreachable'', Leaf ''Catalogue injoignable : {error}''),
      (''tag'', Group [
        (''one'', Leaf ''Liste ~00ab {name} ~00bb ({count} entr~00e9e)''),
        (''other'', Leaf ''Liste ~00ab {name} ~00bb ({count} entr~00e9es)'')]),
      (''unknown'', Leaf ''Liste ~00ab {id} ~00bb (pas encore r~00e9cup~00e9r~00e9e)''),
      (''ruleUses'', Leaf ''Abonn~00e9e ~00e0 : {name}.''),
      (''ruleUsesHint'', Leaf ''Les adresses de la liste sont mises ~00e0 jour automatiquement.''),
      (''unsubscribe'', Leaf ''Se d~00e9sabonner''),
      (''extraSources'', Leaf ''Adresses en plus de la liste'')]),
    (''publish'', Group [
      (''action'', Leaf ''Publier dans les listes communautaires''),
      (''title'', Leaf ''Publier ~00ab {name} ~00bb''),
      (''titleNew'', Leaf ''Publier une liste''),
      (''new'', Leaf ''Publier une liste''),
      (''sources'', Leaf ''Adresses ~00e0 publier''),
      (''fromRule'', Leaf ''Reprendre les adresses de :''),
      (''desc'', Leaf ''Publie une liste dans le catalogue communautaire, par une issue GitHub que vous envoyez vous-m~00eame. Elle est v~00e9rifi~00e9e puis ajout~00e9e automatiquement en quelques minutes : tous les panels peuvent alors s~2019y abonner.''),
      (''mode'', Leaf ''Type de liste''),
      (''modeHint'', Group [
        (''block'', Leaf ''Les abonn~00e9s bloqueront ces adresses.''),
        (''allow'', Leaf ''Les abonn~00e9s n~2019autoriseront que ces adresses : tout le reste sera coup~00e9.'')]),
      (''name'', Leaf ''Nom de la liste''),
      (''namePlaceholder'', Leaf ''Ex. : Scanners de ports''),
      (''nameHint'', Leaf ''M~00eame nom qu~2019une de vos listes d~00e9j~00e0 publi~00e9es : elle est mise ~00e0 jour. Une liste publi~00e9e par quelqu~2019un d~2019autre ne peut pas ~00eatre remplac~00e9e.''),
      (''description'', Leaf ''Description''),
      (''descPlaceholder'', Leaf ''Ce que bloque cette liste, et d~2019o~00f9 viennent les adresses.''),
      (''author'', Leaf ''Auteur''),
      (''authorPlaceholder'', Leaf ''Votre pseudo''),
      (''authorHint'', Leaf ''Affich~00e9 dans le catalogue.''),
      (''notes'', Leaf ''Inclure les notes''),
      (''notesHint'', Leaf ''Tout ce qui est publi~00e9 est public : v~00e9rifiez qu~2019aucune note n~2019est personnelle.''),
      (''prepare'', Leaf ''Pr~00e9parer''),
      (''skipped'', Group [
        (''one'', Leaf ''{count} entr~00e9e non publiable, ~00e9cart~00e9e''),
        (''other'', Leaf ''{count} entr~00e9es non publiables, ~00e9cart~00e9es'')]),
      (''review'', Leaf ''Relisez l~2019entr~00e9e ci-dessous : elle est d~00e9j~00e0 dans l~2019issue, il ne reste qu~2019~00e0 l~2019envoyer sur GitHub. La r~00e9ponse (ajout~00e9e ou refus~00e9e, avec la raison) arrive en commentaire de l~2019issue.''),
      (''tooLong'', Leaf ''Liste trop longue pour un lien : elle est copi~00e9e quand vous ouvrez l~2019issue, collez-la ~00e0 l~2019endroit indiqu~00e9.''),
      (''open'', Leaf ''Ouvrir l~2019issue sur GitHub''),
      (''openUpdate'', Leaf ''Proposer la mise ~00e0 jour sur GitHub'')])]"

definition fr_visitors :: "(string \<times> lang) list" where
  "fr_visitors = [
    (''title'', Leaf ''Acc~00e8s ~00e0 des ports priv~00e9s''),
    (''description'', Leaf ''Un visiteur rend accessible sur cette machine un port priv~00e9 (STCP ou XTCP) partag~00e9 par un autre client frpc.''),
    (''add'', Leaf ''Ajouter un visiteur''),
    (''empty'', Leaf ''Aucun visiteur configur~00e9.''),
    (''shared'', Leaf ''Port partag~00e9''),
    (''here'', Leaf ''Accessible ici sur''),
    (''deleteTitle'', Leaf ''Supprimer le visiteur ~00ab {name} ~00bb ?''),
    (''editTitle'', Leaf ''Modifier ~00ab {name} ~00bb''),
    (''newTitle'', Leaf ''Nouveau visiteur''),
    (''editorHint'', Leaf ''Les changements sont appliqu~00e9s ~00e0 la liste ; enregistrez ensuite pour mettre ~00e0 jour frpc.''),
    (''fields'', Group [
      (''namePlaceholder'', Leaf ''acces-nas''),
      (''serverName'', Leaf ''Port ~00e0 rejoindre''),
      (''serverNameHint'', Leaf ''Le nom du port STCP/XTCP sur l~2019autre machine.''),
      (''secretHint'', Leaf ''La m~00eame cl~00e9 que celle du port partag~00e9.''),
      (''bindAddr'', Leaf ''Adresse locale''),
      (''bindPort'', Leaf ''Port local''),
      (''bindHint'', Leaf ''Connectez-vous ~00e0 cette adresse sur cette machine pour atteindre le service partag~00e9.''),
      (''rangeHint'', Leaf ''Plusieurs ports d~2019un coup : une plage (6000-6005) ou une liste. frpc cr~00e9e un visiteur par port, nomm~00e9 nom-<port>, qui rejoint le port partag~00e9 suivi de -<port> (db-6000, db-6001~2026) : celui de l~2019autre machine doit ~00eatre une plage lui aussi. Il faut frp 0.56 ou plus r~00e9cent.''),
      (''serverPorts'', Leaf ''Ports sur l~2019autre machine''),
      (''serverPortsHint'', Leaf ''Les ports de la plage sur l~2019autre machine, si ce ne sont pas les m~00eames qu~2019ici : le 1er port local rejoint le 1er, et ainsi de suite.''),
      (''serverPortsPlaceholder'', Leaf ''les m~00eames'')])]"

definition fr_validation :: "(string \<times> lang) list" where
  "fr_validation = [
    (''required'', Leaf ''Champ obligatoire.''),
    (''nameTaken'', Leaf ''Ce nom est d~00e9j~00e0 utilis~00e9.''),
    (''nameClash'', Leaf ''~00ab {name} ~00bb est d~00e9j~00e0 le nom d~2019un autre tunnel.''),
    (''nameFormat'', Leaf ''Sans espace ni caract~00e8re de contr~00f4le, 64 caract~00e8res au plus.''),
    (''visitorNameClash'', Leaf ''~00ab {name} ~00bb est d~00e9j~00e0 le nom d~2019un autre visiteur.''),
    (''port'', Leaf ''Entrez un port entre 1 et 65535.''),
    (''portSpec'', Leaf ''Entrez un port (8080), une plage (30000-30010) ou une liste (6000-6006,6007), entre 1 et 65535.''),
    (''rangeTooBig'', Leaf ''Une plage compte au plus {max} ports.''),
    (''rangeRemote'', Leaf ''Obligatoire pour une plage de ports.''),
    (''bothRemote'', Leaf ''Obligatoire pour TCP + UDP : sans lui, le serveur choisirait un port diff~00e9rent pour chacun.''),
    (''rangeCount'', Leaf ''Il faut autant de ports des deux c~00f4t~00e9s : {local} pour le service, {remote} ici.''),
    (''rangeCountVisitor'', Leaf ''Il faut autant de ports qu~2019en local : {local} pour le port local, {remote} ici.''),
    (''domainPort'', Leaf ''Avec une plage de ports, chaque domaine doit contenir {token} : sans lui, tous les tunnels auraient le m~00eame domaine.''),
    (''domainPortSingle'', Leaf ''{token} ne sert qu~2019avec une plage de ports.'')]"

definition fr_config :: "(string \<times> lang) list" where
  "fr_config = [
    (''title'', Leaf ''Configuration''),
    (''generatedBy'', Leaf ''g~00e9n~00e9r~00e9 par FRP Manager''),
    (''randomPort'', Leaf ''Al~00e9atoire''),
    (''randomPortHint'', Leaf ''Tirer un port au hasard (10000~201332767)''),
    (''readOnly'', Leaf ''Votre compte peut consulter cette configuration, pas la modifier.''),
    (''description'', Leaf ''Connexion et s~00e9curit~00e9 de frps ou frpc. Chaque champ indique la cl~00e9 correspondante dans le fichier TOML.''),
    (''emptyTitle'', Leaf ''Rien ~00e0 configurer''),
    (''emptyText'', Leaf ''Aucun service frp n~2019a ~00e9t~00e9 d~00e9tect~00e9 sur cette machine.''),
    (''dockerTitle'', Leaf ''Configuration g~00e9r~00e9e hors du panel''),
    (''dockerText'', Leaf ''Ce conteneur lit sa configuration dans le fichier mont~00e9 dans /etc/frp/. Modifiez ce fichier puis red~00e9marrez le conteneur. Les ports d~2019un frpc restent modifiables ici.''),
    (''loadError'', Leaf ''Impossible de lire la configuration''),
    (''missingFile'', Leaf ''Le fichier {path} n~2019existe pas encore. Les valeurs ci-dessous sont celles par d~00e9faut ; il sera cr~00e9~00e9 ~00e0 l~2019enregistrement.''),
    (''tunnelsElsewhere'', Leaf ''Les ports se g~00e8rent dans la page Ports. Ils sont conserv~00e9s quand vous enregistrez cette page.''),
    (''advanced'', Leaf ''R~00e9glages avanc~00e9s''),
    (''advancedDesc'', Leaf ''Les valeurs par d~00e9faut conviennent dans la plupart des cas.''),
    (''saved'', Leaf ''Configuration enregistr~00e9e''),
    (''readBackError'', Leaf ''Impossible de relire le fichier actuel : enregistrement annul~00e9 pour ne rien perdre de ce qu~2019il contient.''),
    (''inlineRefused'', Leaf ''Impossible d~2019~00e9crire {keys} : dans le fichier, la valeur qui doit la contenir n~2019est pas une table. Corrigez cette ligne ~00e0 la main ; rien n~2019a ~00e9t~00e9 enregistr~00e9.''),
    (''toggles'', Group [
      (''webEnabled'', Leaf ''Activer le tableau de bord web de frp''),
      (''tlsEnabled'', Leaf ''Utiliser TLS avec vos propres certificats'')]),
    (''sections'', Group [
      (''frps'', Group [
        (''connection'', Group [
          (''title'', Leaf ''Connexion des clients''),
          (''desc'', Leaf ''O~00f9 frps attend les clients frpc.'')]),
        (''auth'', Group [
          (''title'', Leaf ''Authentification''),
          (''desc'', Leaf ''Les clients frpc doivent pr~00e9senter le m~00eame jeton.'')]),
        (''dashboard'', Group [
          (''title'', Leaf ''Tableau de bord frp''),
          (''desc'', Leaf ''L~2019interface web int~00e9gr~00e9e ~00e0 frps, avec ses statistiques.'')]),
        (''tls'', Group [
          (''title'', Leaf ''TLS''),
          (''desc'', Leaf ''Chiffre la connexion entre frpc et frps avec vos certificats.'')]),
        (''extraPorts'', Group [
          (''title'', Leaf ''Ports suppl~00e9mentaires''),
          (''desc'', Leaf ''Activez seulement ceux que vous utilisez.'')]),
        (''limits'', Group [
          (''title'', Leaf ''Limites et performance''),
          (''desc'', Leaf ''Les valeurs par d~00e9faut conviennent dans la plupart des cas.'')]),
        (''logs'', Group [
          (''title'', Leaf ''Journalisation''),
          (''desc'', Leaf ''Fichier et niveau de d~00e9tail des journaux de frps.'')])]),
      (''frpc'', Group [
        (''server'', Group [
          (''title'', Leaf ''Serveur frp''),
          (''desc'', Leaf ''Le serveur frps auquel ce client se connecte.'')]),
        (''auth'', Group [
          (''title'', Leaf ''Authentification''),
          (''desc'', Leaf ''Doit correspondre au jeton configur~00e9 sur le serveur.'')]),
        (''tls'', Group [
          (''title'', Leaf ''TLS''),
          (''desc'', Leaf ''Certificats client, si le serveur l~2019exige.'')]),
        (''localDashboard'', Group [
          (''title'', Leaf ''Tableau de bord local''),
          (''desc'', Leaf ''L~2019interface web int~00e9gr~00e9e ~00e0 frpc.'')]),
        (''network'', Group [
          (''title'', Leaf ''R~00e9seau''),
          (''desc'', Leaf ''Les valeurs par d~00e9faut conviennent dans la plupart des cas.'')]),
        (''logs'', Group [
          (''title'', Leaf ''Journalisation''),
          (''desc'', Leaf ''Fichier et niveau de d~00e9tail des journaux de frpc.'')])])]),
    (''fields'', Group [
      (''bindPort'', Group [
        (''label'', Leaf ''Port d~2019~00e9coute''),
        (''hint'', Leaf ''Le port que les clients frpc utilisent pour se connecter. Un port al~00e9atoire ~00e9vite les robots qui visent 7000 ; reportez-le dans serverPort des clients.'')]),
      (''bindAddr'', Group [
        (''label'', Leaf ''Adresse d~2019~00e9coute''),
        (''hint'', Leaf ''0.0.0.0 pour toutes les interfaces IPv4, :: pour IPv6.'')]),
      (''proxyBindAddr'', Group [
        (''label'', Leaf ''Adresse des ports''),
        (''hint'', Leaf ''IP publique sur laquelle ouvrir les ports, si elle diff~00e8re.'')]),
      (''authMethod'', Group [
        (''label'', Leaf ''M~00e9thode'')]),
      (''authToken'', Group [
        (''label'', Leaf ''Jeton''),
        (''hint'', Leaf ''Une longue cha~00eene al~00e9atoire, identique sur le serveur et les clients.'')]),
      (''webPort'', Group [
        (''label'', Leaf ''Port'')]),
      (''webAddr'', Group [
        (''label'', Leaf ''Adresse'')]),
      (''webUser'', Group [
        (''label'', Leaf ''Utilisateur'')]),
      (''webPassword'', Group [
        (''label'', Leaf ''Mot de passe'')]),
      (''tlsCert'', Group [
        (''label'', Leaf ''Certificat'')]),
      (''tlsKey'', Group [
        (''label'', Leaf ''Cl~00e9 priv~00e9e'')]),
      (''tlsCa'', Group [
        (''label'', Leaf ''Autorit~00e9 de certification'')]),
      (''tlsForce'', Group [
        (''label'', Leaf ''Refuser les clients sans TLS'')]),
      (''tlsServerName'', Group [
        (''label'', Leaf ''Nom du serveur''),
        (''hint'', Leaf ''Nom attendu dans le certificat du serveur.'')]),
      (''kcpBindPort'', Group [
        (''label'', Leaf ''KCP''),
        (''hint'', Leaf ''Transport UDP plus rapide sur les r~00e9seaux instables.'')]),
      (''quicBindPort'', Group [
        (''label'', Leaf ''QUIC''),
        (''hint'', Leaf ''Transport UDP moderne.'')]),
      (''vhostHTTPPort'', Group [
        (''label'', Leaf ''HTTP (vhost)''),
        (''hint'', Leaf ''Requis pour les ports de type HTTP.'')]),
      (''vhostHTTPSPort'', Group [
        (''label'', Leaf ''HTTPS (vhost)''),
        (''hint'', Leaf ''Requis pour les ports de type HTTPS.'')]),
      (''maxPortsPerClient'', Group [
        (''label'', Leaf ''Ports par client''),
        (''hint'', Leaf ''0 = illimit~00e9.'')]),
      (''maxPoolCount'', Group [
        (''label'', Leaf ''Connexions pr~00e9ouvertes max.'')]),
      (''heartbeatTimeout'', Group [
        (''label'', Leaf ''D~00e9lai de coupure (s)''),
        (''hint'', Leaf ''Un client silencieux plus longtemps est d~00e9connect~00e9.'')]),
      (''logTo'', Group [
        (''label'', Leaf ''Fichier'')]),
      (''logLevel'', Group [
        (''label'', Leaf ''Niveau'')]),
      (''logMaxDays'', Group [
        (''label'', Leaf ''Conservation (jours)'')]),
      (''serverAddr'', Group [
        (''label'', Leaf ''Adresse du serveur''),
        (''hint'', Leaf ''IP ou nom de domaine de la machine o~00f9 tourne frps.'')]),
      (''serverPort'', Group [
        (''label'', Leaf ''Port du serveur''),
        (''hint'', Leaf ''Le ~00ab port d~2019~00e9coute ~00bb configur~00e9 sur frps.'')]),
      (''protocol'', Group [
        (''label'', Leaf ''Protocole''),
        (''hint'', Leaf ''tcp sauf si le serveur a activ~00e9 KCP, QUIC ou websocket.'')]),
      (''poolCount'', Group [
        (''label'', Leaf ''Connexions pr~00e9ouvertes'')]),
      (''heartbeatInterval'', Group [
        (''label'', Leaf ''Intervalle de pr~00e9sence (s)'')]),
      (''dnsServer'', Group [
        (''label'', Leaf ''Serveur DNS'')]),
      (''proxyURL'', Group [
        (''label'', Leaf ''Proxy sortant''),
        (''hint'', Leaf ''Pour joindre le serveur ~00e0 travers un proxy HTTP ou SOCKS5.'')])])]"

definition fr_logs :: "(string \<times> lang) list" where
  "fr_logs = [
    (''title'', Leaf ''Journaux''),
    (''description'', Leaf ''Les 200 derni~00e8res lignes, ou le flux en direct.''),
    (''emptyTitle'', Leaf ''Aucun journal ~00e0 afficher''),
    (''emptyText'', Leaf ''Aucun service frp n~2019a ~00e9t~00e9 d~00e9tect~00e9 sur cette machine.''),
    (''source'', Leaf ''Source''),
    (''sources'', Group [
      (''journal'', Leaf ''systemd''),
      (''console'', Leaf ''Console''),
      (''file'', Leaf ''Fichier'')]),
    (''filter'', Leaf ''Filtrer les lignes''),
    (''live'', Leaf ''En direct''),
    (''stopLive'', Leaf ''Arr~00eater''),
    (''liveOn'', Leaf ''En direct''),
    (''liveEnded'', Leaf ''Flux en direct interrompu. Relancez-le avec ~00ab En direct ~00bb.''),
    (''toBottom'', Leaf ''Aller en bas''),
    (''none'', Leaf ''(aucune ligne)'')]"

definition fr_updates :: "(string \<times> lang) list" where
  "fr_updates = [
    (''title'', Leaf ''Mises ~00e0 jour''),
    (''description'', Leaf ''Gardez frp et le panel ~00e0 jour.''),
    (''installed'', Leaf ''Install~00e9e''),
    (''latest'', Leaf ''Derni~00e8re version''),
    (''status'', Leaf ''~00c9tat''),
    (''checking'', Leaf ''V~00e9rification~2026''),
    (''check'', Leaf ''V~00e9rifier''),
    (''upToDate'', Leaf ''~00c0 jour''),
    (''available'', Leaf ''Mise ~00e0 jour disponible''),
    (''notInstalled'', Leaf ''Non install~00e9''),
    (''unreachable'', Leaf ''GitHub injoignable''),
    (''source'', Leaf ''Source : {source}''),
    (''log'', Leaf ''Journal d~2019installation''),
    (''logEmpty'', Leaf ''En attente~2026''),
    (''install'', Leaf ''Installer''),
    (''installVersion'', Leaf ''Installer la v{v}''),
    (''installFrp'', Leaf ''Installer frp v{v}''),
    (''installConfirmTitle'', Leaf ''Installer la nouvelle version de frp ?''),
    (''installConfirmText'', Leaf ''Les binaires frps et frpc seront remplac~00e9s et les services red~00e9marr~00e9s. Les ports seront coup~00e9s quelques secondes.''),
    (''installing'', Leaf ''Installation en cours~2026''),
    (''installDone'', Leaf ''frp est ~00e0 jour''),
    (''installFailed'', Leaf ''L~2019installation a ~00e9chou~00e9, consultez le journal.''),
    (''frpTitle'', Leaf ''frp''),
    (''frpDesc'', Leaf ''Les programmes frps et frpc de cette machine.''),
    (''dockerTitle'', Leaf ''frp est g~00e9r~00e9 par vos conteneurs''),
    (''dockerText'', Leaf ''En mode Docker, mettez frp ~00e0 jour en changeant la version des images fatedier/frps et fatedier/frpc.''),
    (''standaloneTitle'', Leaf ''Mode autonome''),
    (''standaloneText'', Leaf ''La version de frp install~00e9e ici est gard~00e9e dans le volume /data et remplace celle de l~2019image, tant qu~2019une nouvelle image n~2019en apporte pas une plus r~00e9cente.''),
    (''toolsTitle'', Leaf ''D~00e9pannage''),
    (''toolsDesc'', Leaf ''Si une mise ~00e0 jour de frp n~2019aboutit pas.''),
    (''manualTitle'', Leaf ''Installer depuis une archive''),
    (''manualHint'', Leaf ''si GitHub est inaccessible depuis ce serveur''),
    (''manualText1'', Leaf ''T~00e9l~00e9chargez l~2019archive frp_X.Y.Z_linux_amd64.tar.gz depuis''),
    (''manualText2'', Leaf '' sur votre ordinateur, puis envoyez-la ici.''),
    (''manualVersion'', Leaf ''Version''),
    (''manualFile'', Leaf ''Archive .tar.gz''),
    (''manualInstall'', Leaf ''Envoyer et installer''),
    (''manualNoFile'', Leaf ''Choisissez une archive .tar.gz.''),
    (''manualNoVersion'', Leaf ''Indiquez la version de l~2019archive.''),
    (''connTitle'', Leaf ''Tester l~2019acc~00e8s aux sources''),
    (''connHint'', Leaf ''pour comprendre un ~00e9chec de mise ~00e0 jour''),
    (''connTest'', Leaf ''Lancer le test''),
    (''connTesting'', Leaf ''Test en cours~2026''),
    (''connNone'', Leaf ''Aucune source ~00e0 tester.''),
    (''panelTitle'', Leaf ''Panel FRP Manager''),
    (''panelDesc'', Leaf ''Cette interface.''),
    (''panelUpdate'', Leaf ''Mettre ~00e0 jour le panel''),
    (''panelConfirmTitle'', Leaf ''Mettre ~00e0 jour le panel ?''),
    (''panelConfirmText'', Leaf ''Le panel va t~00e9l~00e9charger la nouvelle version puis red~00e9marrer. La page se rechargera toute seule.''),
    (''panelUpdating'', Leaf ''Mise ~00e0 jour du panel~2026''),
    (''panelRestarting'', Leaf ''Le panel red~00e9marre, rechargement dans quelques secondes~2026''),
    (''panelDockerTitle'', Leaf ''Mise ~00e0 jour via Docker''),
    (''panelDockerText'', Leaf ''T~00e9l~00e9chargez la nouvelle image, puis recr~00e9ez le conteneur (par exemple depuis Portainer).''),
    (''releaseNotes'', Leaf ''Notes de version''),
    (''repoMissing'', Leaf ''D~00e9p~00f4t non configur~00e9''),
    (''prerelease'', Leaf ''Pr~00e9-release''),
    (''prereleaseDockerText'', Leaf ''Version de test sous Docker : changez le tag de l~2019image (par exemple :dev ou :latest) pour mettre ~00e0 jour.''),
    (''prereleaseChannel'', Leaf ''Version de test : ce panel suit les pr~00e9-releases et se met ~00e0 jour vers la version publi~00e9e la plus r~00e9cente, pr~00e9-release ou release.''),
    (''prereleaseAvailable'', Leaf ''Nouvelle version disponible''),
    (''prereleaseUpToDate'', Leaf ''Pr~00e9-release ~00e0 jour'')]"

definition fr_settings :: "(string \<times> lang) list" where
  "fr_settings = [
    (''title'', Leaf ''R~00e9glages''),
    (''description'', Leaf ''Votre compte, la configuration de frp, l~2019acc~00e8s au panel, les notifications et les mises ~00e0 jour.''),
    (''sections'', Leaf ''Sections des r~00e9glages''),
    (''groups'', Group [
      (''personal'', Leaf ''Personnel''),
      (''frp'', Leaf ''frp''),
      (''access'', Leaf ''Acc~00e8s et s~00e9curit~00e9''),
      (''system'', Leaf ''Syst~00e8me'')]),
    (''loadError'', Leaf ''Impossible de lire les r~00e9glages''),
    (''security'', Group [
      (''title'', Leaf ''Identifiants''),
      (''desc'', Leaf ''Demand~00e9s ~00e0 l~2019ouverture du panel.''),
      (''protected'', Leaf ''Le panel est prot~00e9g~00e9 par un mot de passe.''),
      (''unprotectedTitle'', Leaf ''Aucun mot de passe''),
      (''unprotectedText'', Leaf ''Le panel est ouvert ~00e0 toute personne qui peut l~2019atteindre.''),
      (''username'', Leaf ''Identifiant''),
      (''newPassword'', Leaf ''Nouveau mot de passe''),
      (''passwordHint'', Leaf ''12 caract~00e8res minimum.''),
      (''keepPassword'', Leaf ''Laisser vide pour le conserver''),
      (''confirm'', Leaf ''Confirmer le mot de passe''),
      (''mismatch'', Leaf ''Les deux mots de passe sont diff~00e9rents.''),
      (''tooShort'', Leaf ''12 caract~00e8res minimum.''),
      (''save'', Leaf ''Mettre ~00e0 jour les identifiants''),
      (''saved'', Leaf ''Identifiant enregistr~00e9''),
      (''passwordSaved'', Leaf ''Mot de passe enregistr~00e9'')]),
    (''network'', Group [
      (''title'', Leaf ''Acc~00e8s au panel''),
      (''desc'', Leaf ''O~00f9 le panel ~00e9coute, combien de temps une session reste ouverte et d~2019o~00f9 frp est t~00e9l~00e9charg~00e9.''),
      (''listenTitle'', Leaf ''~00c9coute et session''),
      (''listenDesc'', Leaf ''Adresse et port du panel, d~00e9connexion apr~00e8s inactivit~00e9.''),
      (''downloadsTitle'', Leaf ''T~00e9l~00e9chargements''),
      (''host'', Leaf ''Adresse d~2019~00e9coute''),
      (''hostHint'', Leaf ''127.0.0.1 : cette machine seulement (par d~00e9faut, id~00e9al derri~00e8re un reverse proxy). 0.0.0.0 : tout le r~00e9seau.''),
      (''port'', Leaf ''Port''),
      (''timeout'', Leaf ''D~00e9connexion apr~00e8s (minutes)''),
      (''timeoutHint'', Leaf ''Dur~00e9e d~2019inactivit~00e9 avant de devoir se reconnecter.''),
      (''timeoutMin'', Leaf ''5 minutes minimum.''),
      (''restartNote'', Leaf ''L~2019adresse et le port prennent effet au prochain red~00e9marrage de frp-manager.''),
      (''saved'', Leaf ''Enregistr~00e9. Red~00e9marrez frp-manager pour appliquer l~2019adresse et le port.''),
      (''mirrors'', Leaf ''Miroirs de t~00e9l~00e9chargement tiers''),
      (''mirrorsDesc'', Leaf ''Si github.com ne r~00e9pond pas, frp est t~00e9l~00e9charg~00e9 via ghproxy, ghfast ou gh-proxy. Ces services interm~00e9diaires pourraient modifier le fichier : il n~2019est accept~00e9 que si sa somme SHA-256 correspond ~00e0 celle publi~00e9e.''),
      (''mirrorsSaved'', Leaf ''Pr~00e9f~00e9rence de t~00e9l~00e9chargement enregistr~00e9e''),
      (''statsTitle'', Leaf ''Statistiques anonymes''),
      (''stats'', Leaf ''Envoyer des statistiques anonymes''),
      (''statsDesc'', Leaf ''Une fois par jour, le panel indique au site du projet sa version, son architecture et sa m~00e9thode d~2019installation. Aucun identifiant ni adresse : le site ne garde que des compteurs par jour, sans les adresses IP. Cela aide ~00e0 savoir quelles versions sont encore utilis~00e9es.''),
      (''statsPayload'', Leaf ''Contenu envoy~00e9, rien d~2019autre''),
      (''statsOn'', Leaf ''Statistiques anonymes activ~00e9es. Merci !''),
      (''statsOff'', Leaf ''Statistiques anonymes d~00e9sactiv~00e9es'')]),
    (''account'', Group [
      (''title'', Leaf ''Mon compte''),
      (''desc'', Leaf ''Votre identifiant, vos droits, votre mot de passe et vos passkeys.''),
      (''oidcDesc'', Leaf ''Votre identifiant et vos droits.''),
      (''oidcNote'', Leaf ''Vous vous connectez par OpenID Connect : votre mot de passe se g~00e8re chez le fournisseur d~2019identit~00e9.''),
      (''profile'', Leaf ''Profil''),
      (''password'', Leaf ''Mot de passe''),
      (''username'', Leaf ''Identifiant''),
      (''role'', Leaf ''R~00f4le''),
      (''instances'', Leaf ''Instances''),
      (''current'', Leaf ''Mot de passe actuel''),
      (''change'', Leaf ''Changer le mot de passe'')]),
    (''passkeys'', Group [
      (''title'', Leaf ''Passkeys''),
      (''desc'', Leaf ''Connectez-vous sans mot de passe : l~2019appareil vous reconna~00eet (empreinte, visage, code PIN) et signe la connexion. Votre mot de passe reste valable.''),
      (''add'', Leaf ''Ajouter une passkey''),
      (''empty'', Leaf ''Aucune passkey pour ce compte.''),
      (''synced'', Leaf ''synchronis~00e9e''),
      (''created'', Leaf ''Ajout~00e9e le''),
      (''lastUsed'', Leaf ''Derni~00e8re utilisation''),
      (''rename'', Leaf ''Renommer''),
      (''renameTitle'', Leaf ''Renommer la passkey''),
      (''name'', Leaf ''Nom''),
      (''nameHint'', Leaf ''Pour la reconna~00eetre dans cette liste. Laiss~00e9 vide : nom du gestionnaire de passkeys s~2019il est connu.''),
      (''namePlaceholder'', Leaf ''T~00e9l~00e9phone, cl~00e9 de s~00e9curit~00e9~2026''),
      (''addTitle'', Leaf ''Ajouter une passkey''),
      (''addDesc'', Leaf ''Confirmez votre mot de passe, puis suivez les instructions de votre navigateur ou de votre appareil.''),
      (''continue'', Leaf ''Continuer''),
      (''already'', Leaf ''Cet appareil a d~00e9j~00e0 une passkey pour ce compte.''),
      (''cancelled'', Leaf ''Cr~00e9ation de la passkey annul~00e9e.''),
      (''failed'', Leaf ''Le navigateur n~2019a pas pu cr~00e9er la passkey.''),
      (''refused'', Leaf ''Le navigateur refuse les passkeys sur ce site : il faut un nom de domaine avec un certificat HTTPS valide (le certificat auto-sign~00e9 du panel ne suffit pas).''),
      (''deleteTitle'', Leaf ''Supprimer la passkey ~00ab {name} ~00bb ?''),
      (''deleteText'', Leaf ''Elle ne permettra plus de se connecter, et les sessions ouvertes avec elle sont ferm~00e9es. Pensez ~00e0 la retirer aussi de votre gestionnaire de passkeys.''),
      (''unavailable'', Group [
        (''insecure'', Leaf ''Les passkeys exigent une connexion HTTPS : ouvrez le panel en https:// (ou par http://localhost).''),
        (''ip'', Leaf ''Les passkeys exigent un nom de domaine : ouvrez le panel par son nom (ex. panel.exemple.fr ou localhost) plut~00f4t que par une adresse IP.''),
        (''browser'', Leaf ''Ce navigateur ne prend pas en charge les passkeys.'')])]),
    (''prefs'', Group [
      (''title'', Leaf ''Apparence''),
      (''desc'', Leaf ''Th~00e8me et langue, enregistr~00e9s dans ce navigateur.''),
      (''theme'', Leaf ''Th~00e8me''),
      (''themeAuto'', Leaf ''Syst~00e8me''),
      (''themeLight'', Leaf ''Clair''),
      (''themeDark'', Leaf ''Sombre''),
      (''language'', Leaf ''Langue''),
      (''languageSoon'', Leaf ''D~2019autres langues arriveront dans une prochaine version.''),
      (''preview'', Leaf ''aper~00e7u''),
      (''languagePreview'', Leaf ''Traduction r~00e9cente : signalez toute erreur sur GitHub.'')])]"

definition fr_notifications :: "(string \<times> lang) list" where
  "fr_notifications = [
    (''title'', Leaf ''Notifications''),
    (''description'', Leaf ''Recevez une alerte sur Discord, Slack, Telegram, ntfy, Gotify ou votre propre service quand une instance tombe, qu~2019une adresse est verrouill~00e9e ou qu~2019une mise ~00e0 jour sort.''),
    (''add'', Leaf ''Ajouter un webhook''),
    (''loadError'', Leaf ''Impossible de lire les webhooks''),
    (''emptyTitle'', Leaf ''Aucun webhook''),
    (''emptyText'', Leaf ''Un webhook envoie un message ~00e0 l~2019adresse de votre choix quand quelque chose se passe : instance arr~00eat~00e9e, connexion suspecte, mise ~00e0 jour disponible~2026''),
    (''enabled'', Leaf ''Webhook actif''),
    (''allEvents'', Leaf ''Tous les ~00e9v~00e9nements''),
    (''eventCount'', Group [
      (''one'', Leaf ''{count} ~00e9v~00e9nement''),
      (''other'', Leaf ''{count} ~00e9v~00e9nements'')]),
    (''destination'', Leaf ''Destination''),
    (''eventsLabel'', Leaf ''~00c9v~00e9nements''),
    (''test'', Leaf ''Envoyer un essai''),
    (''deleteTitle'', Leaf ''Supprimer ~00ab {name} ~00bb ?''),
    (''deleteText'', Leaf ''Ce webhook ne recevra plus aucune notification.''),
    (''deleted'', Leaf ''Webhook supprim~00e9''),
    (''saved'', Leaf ''Webhook enregistr~00e9''),
    (''newTitle'', Leaf ''Nouveau webhook''),
    (''editTitle'', Leaf ''Modifier ~00ab {name} ~00bb''),
    (''editorHint'', Leaf ''L~2019adresse et le secret restent sur le serveur : laissez-les vides pour conserver ceux d~00e9j~00e0 enregistr~00e9s.''),
    (''name'', Leaf ''Nom''),
    (''namePlaceholder'', Leaf ''Alertes serveur''),
    (''nameMissing'', Leaf ''Donnez un nom au webhook.''),
    (''eventsMissing'', Leaf ''Choisissez au moins un ~00e9v~00e9nement.''),
    (''format'', Leaf ''Format''),
    (''url'', Leaf ''Adresse du webhook''),
    (''keepUrl'', Leaf ''Laisser vide pour garder {url}''),
    (''chatId'', Leaf ''Identifiant de conversation''),
    (''chatIdHint'', Leaf ''Telegram : ~00e9crivez au bot puis lisez chat.id dans getUpdates.''),
    (''secret'', Leaf ''Secret de signature''),
    (''secretHint'', Leaf ''Chaque envoi porte l~2019en-t~00eate X-FRPManager-Signature (HMAC-SHA256 du corps), pour v~00e9rifier qu~2019il vient bien du panel.''),
    (''keepSecret'', Leaf ''Laisser vide pour le conserver''),
    (''clearSecret'', Leaf ''Supprimer le secret enregistr~00e9''),
    (''headers'', Leaf ''En-t~00eates HTTP''),
    (''headersHint'', Leaf ''Un par ligne, ~00ab Nom: valeur ~00bb (jeton d~2019API, Authorization~2026).''),
    (''keepHeaders'', Leaf ''Laisser vide pour conserver les en-t~00eates enregistr~00e9s''),
    (''clearHeaders'', Leaf ''Supprimer les en-t~00eates enregistr~00e9s''),
    (''template'', Leaf ''Mod~00e8le du corps (JSON)''),
    (''templateHint'', Leaf ''Remplace le JSON standard. Variables : {{event}}, {{title}}, {{message}}, {{level}}, {{host}}, {{time}}, {{instance}}, {{subject}}, {{version}}.''),
    (''lang'', Leaf ''Langue des messages''),
    (''cooldown'', Leaf ''D~00e9lai entre deux envois (s)''),
    (''cooldownHint'', Leaf ''Un m~00eame ~00e9v~00e9nement sur le m~00eame sujet n~2019est renvoy~00e9 qu~2019apr~00e8s ce d~00e9lai (0 : aucun).''),
    (''presetsHint'', Leaf ''Points de d~00e9part :''),
    (''onlyInstances'', Leaf ''Limiter aux instances''),
    (''onlyInstancesHint'', Leaf ''Aucune case coch~00e9e : toutes les instances.''),
    (''formats'', Group [
      (''discord'', Leaf ''Discord''),
      (''slack'', Leaf ''Slack / Mattermost''),
      (''telegram'', Leaf ''Telegram''),
      (''ntfy'', Leaf ''ntfy''),
      (''gotify'', Leaf ''Gotify''),
      (''generic'', Leaf ''JSON (g~00e9n~00e9rique)''),
      (''text'', Leaf ''Texte brut'')]),
    (''formatHint'', Group [
      (''discord'', Leaf ''Adresse du webhook (Param~00e8tres du salon ~203a Int~00e9grations). Message pr~00e9sent~00e9 en carte color~00e9e.''),
      (''slack'', Leaf ''Adresse d~2019un ~00ab Incoming Webhook ~00bb ; Mattermost et Rocket.Chat acceptent le m~00eame format.''),
      (''telegram'', Leaf ''https://api.telegram.org/bot<jeton> : le panel ajoute /sendMessage.''),
      (''ntfy'', Leaf ''Adresse du sujet, sur ntfy.sh ou votre serveur. La priorit~00e9 suit la gravit~00e9.''),
      (''gotify'', Leaf ''Adresse de /message avec ?token=~2026 de votre application Gotify.''),
      (''generic'', Leaf ''JSON {event, level, title, message, host, time, instance, data}, signable, ou votre propre mod~00e8le.''),
      (''text'', Leaf ''Le titre, le message et le nom de la machine en texte brut.'')]),
    (''levels'', Group [
      (''info'', Leaf ''info''),
      (''success'', Leaf ''succ~00e8s''),
      (''warning'', Leaf ''alerte''),
      (''error'', Leaf ''critique'')]),
    (''groups'', Group [
      (''instances'', Leaf ''Instances frp''),
      (''security'', Leaf ''S~00e9curit~00e9''),
      (''changes'', Leaf ''Modifications''),
      (''updates'', Leaf ''Mises ~00e0 jour et panel'')]),
    (''presets'', Group [
      (''outages'', Leaf ''Pannes''),
      (''security'', Leaf ''S~00e9curit~00e9''),
      (''updates'', Leaf ''Mises ~00e0 jour''),
      (''all'', Leaf ''Tout'')]),
    (''events'', Group [
      (''instance'', Group [
        (''down'', Leaf ''Instance arr~00eat~00e9e''),
        (''up'', Leaf ''Instance d~00e9marr~00e9e'')]),
      (''login'', Group [
        (''success'', Leaf ''Connexion au panel''),
        (''locked'', Leaf ''Adresse verrouill~00e9e (~00e9checs de connexion)'')]),
      (''config'', Group [
        (''saved'', Leaf ''Configuration modifi~00e9e'')]),
      (''firewall'', Group [
        (''saved'', Leaf ''R~00e8gles du pare-feu modifi~00e9es'')]),
      (''update'', Group [
        (''panel'', Leaf ''Mise ~00e0 jour du panel disponible''),
        (''frp'', Leaf ''Nouvelle version de frp disponible''),
        (''frp_installed'', Leaf ''frp mis ~00e0 jour'')]),
      (''panel'', Group [
        (''started'', Leaf ''Panel d~00e9marr~00e9'')])]),
    (''history'', Group [
      (''title'', Leaf ''Derniers envois''),
      (''desc'', Leaf ''Depuis le d~00e9marrage du panel.''),
      (''time'', Leaf ''Heure''),
      (''webhook'', Leaf ''Webhook''),
      (''event'', Leaf ''~00c9v~00e9nement''),
      (''result'', Leaf ''R~00e9sultat''),
      (''test'', Leaf ''Essai''),
      (''sent'', Leaf ''Envoy~00e9''),
      (''failed'', Leaf ''~00c9chec : {detail}''),
      (''empty'', Leaf ''Aucun envoi pour l~2019instant.'')])]"

definition fr_welcome :: "(string \<times> lang) list" where
  "fr_welcome = [
    (''title'', Leaf ''Avant de commencer''),
    (''warnTitle'', Leaf ''Ce panel contr~00f4le vos ports ouverts''),
    (''warnText'', Leaf ''S~2019il est accessible depuis Internet, prot~00e9gez-le d~00e8s maintenant.''),
    (''tip1'', Leaf ''D~00e9finissez un mot de passe solide dans R~00e9glages.''),
    (''tip2'', Leaf ''Limitez l~2019acc~00e8s par IP avec votre pare-feu ou votre reverse proxy.''),
    (''tip3'', Leaf ''Servez le panel en HTTPS, derri~00e8re nginx ou Caddy par exemple.''),
    (''tip4'', Leaf ''N~2019exposez jamais le panel sans mot de passe.''),
    (''later'', Leaf ''Me le rappeler plus tard''),
    (''setPassword'', Leaf ''D~00e9finir un mot de passe''),
    (''ok'', Leaf ''J~2019ai compris'')]"

definition fr_users :: "(string \<times> lang) list" where
  "fr_users = [
    (''title'', Leaf ''Utilisateurs''),
    (''description'', Leaf ''Qui peut ouvrir le panel, et pour y faire quoi. Les droits s~2019appliquent aussit~00f4t, sessions ouvertes comprises.''),
    (''add'', Leaf ''Ajouter un compte''),
    (''loadError'', Leaf ''Impossible de lire les comptes''),
    (''emptyTitle'', Leaf ''Aucun compte''),
    (''owner'', Leaf ''propri~00e9taire''),
    (''you'', Leaf ''vous''),
    (''oidcPending'', Leaf ''OIDC, en attente''),
    (''enabled'', Leaf ''Compte actif''),
    (''enabledDesc'', Leaf ''D~00e9sactiv~00e9, le compte ne peut plus se connecter et ses sessions sont ferm~00e9es.''),
    (''enabledOn'', Leaf ''Compte activ~00e9''),
    (''enabledOff'', Leaf ''Compte d~00e9sactiv~00e9''),
    (''instancesLabel'', Leaf ''Instances''),
    (''allInstances'', Leaf ''Toutes les instances''),
    (''someInstances'', Leaf ''Certaines instances''),
    (''noInstances'', Leaf ''Aucune instance d~00e9tect~00e9e.''),
    (''pickInstance'', Leaf ''Cochez au moins une instance.''),
    (''scopeNote'', Leaf ''Limit~00e9 ~00e0 certaines instances, un compte ne garde que les droits sur ces instances (~00e9tat, pilotage, configuration, journaux) : ports, pare-feu, mises ~00e0 jour, notifications et r~00e9glages lui sont retir~00e9s.''),
    (''lastLogin'', Leaf ''Derni~00e8re connexion''),
    (''never'', Leaf ''jamais''),
    (''passkeysBadge'', Group [
      (''one'', Leaf ''{count} passkey''),
      (''other'', Leaf ''{count} passkeys'')]),
    (''removePasskeys'', Group [
      (''one'', Leaf ''Retirer sa passkey''),
      (''other'', Leaf ''Retirer ses {count} passkeys'')]),
    (''removePasskeysDesc'', Leaf ''Appareil perdu ou vol~00e9 : le compte ne pourra plus se connecter qu~2019avec son mot de passe, et les sessions ouvertes par passkey sont ferm~00e9es.''),
    (''deleteTitle'', Leaf ''Supprimer le compte ~00ab {name} ~00bb ?''),
    (''deleteText'', Leaf ''Ses sessions ouvertes sont ferm~00e9es aussit~00f4t.''),
    (''newTitle'', Leaf ''Nouveau compte''),
    (''editTitle'', Leaf ''Compte ~00ab {name} ~00bb''),
    (''editorHint'', Leaf ''Un r~00f4le pr~00eat ~00e0 l~2019emploi, ou ~00ab Personnalis~00e9 ~00bb pour choisir chaque permission.''),
    (''create'', Leaf ''Cr~00e9er le compte''),
    (''source'', Leaf ''Connexion''),
    (''sourceLocal'', Leaf ''Mot de passe''),
    (''username'', Leaf ''Identifiant''),
    (''password'', Leaf ''Mot de passe''),
    (''newPassword'', Leaf ''Nouveau mot de passe''),
    (''keepPassword'', Leaf ''Laisser vide pour le conserver''),
    (''passwordHint'', Leaf ''12 caract~00e8res minimum. Changer le mot de passe ferme les sessions du compte.''),
    (''email'', Leaf ''Adresse e-mail''),
    (''emailHint'', Leaf ''Le compte est li~00e9 ~00e0 la premi~00e8re connexion OpenID Connect dont l~2019e-mail, v~00e9rifi~00e9 par le fournisseur, est celui-ci.''),
    (''role'', Leaf ''R~00f4le''),
    (''roles'', Group [
      (''admin'', Leaf ''Administrateur''),
      (''operator'', Leaf ''Op~00e9rateur''),
      (''viewer'', Leaf ''Lecteur''),
      (''custom'', Leaf ''Personnalis~00e9'')]),
    (''roleHints'', Group [
      (''admin'', Leaf ''Tout, sur toutes les instances, y compris les comptes et la connexion unique.''),
      (''operator'', Leaf ''Pilote les instances, modifie les configurations et les ports. Ni comptes, ni r~00e9glages, ni mise ~00e0 jour du panel.''),
      (''viewer'', Leaf ''Consulte l~2019~00e9tat, les journaux, les ports et le pare-feu. Ne voit pas les configurations (elles contiennent les jetons frp).''),
      (''custom'', Leaf ''Cochez les permissions voulues ; celles qu~2019elles impliquent sont ajout~00e9es d~2019office.'')]),
    (''sensitive'', Leaf ''sensible''),
    (''permGroups'', Group [
      (''instances'', Leaf ''Instances''),
      (''config'', Leaf ''Configuration''),
      (''logs'', Leaf ''Journaux''),
      (''ports'', Leaf ''Ports''),
      (''firewall'', Leaf ''Pare-feu''),
      (''updates'', Leaf ''Mises ~00e0 jour''),
      (''webhooks'', Leaf ''Notifications''),
      (''settings'', Leaf ''R~00e9glages''),
      (''users'', Leaf ''Comptes'')]),
    (''perms'', Group [
      (''instances_view'', Leaf ''Voir les instances et leur ~00e9tat''),
      (''instances_control'', Leaf ''D~00e9marrer, arr~00eater, renommer''),
      (''instances_create'', Leaf ''Cr~00e9er une instance''),
      (''instances_delete'', Leaf ''Supprimer une instance''),
      (''config_read'', Leaf ''Lire les configurations''),
      (''config_write'', Leaf ''Modifier les configurations''),
      (''logs_view'', Leaf ''Lire les journaux''),
      (''ports_view'', Leaf ''Voir les ports''),
      (''ports_manage'', Leaf ''Ouvrir des ports (ufw)''),
      (''firewall_view'', Leaf ''Voir le pare-feu''),
      (''firewall_manage'', Leaf ''Modifier le pare-feu''),
      (''updates_view'', Leaf ''Voir les mises ~00e0 jour''),
      (''updates_install'', Leaf ''Installer frp''),
      (''updates_panel'', Leaf ''Mettre ~00e0 jour le panel''),
      (''webhooks_view'', Leaf ''Voir les notifications''),
      (''webhooks_manage'', Leaf ''G~00e9rer les notifications''),
      (''settings_manage'', Leaf ''R~00e9glages du panel''),
      (''users_manage'', Leaf ''G~00e9rer les comptes'')]),
    (''oidc'', Group [
      (''title'', Leaf ''Connexion unique''),
      (''desc'', Leaf ''OpenID Connect : Keycloak, Authentik, Authelia, Zitadel, Google, Microsoft Entra~2026 D~00e9clarez le panel comme client ~00ab confidentiel ~00bb chez le fournisseur, avec l~2019adresse de retour ci-dessous.''),
      (''loadError'', Leaf ''Impossible de lire la connexion unique''),
      (''enable'', Leaf ''Activer la connexion unique''),
      (''enableDesc'', Leaf ''Ajoute un bouton sur la page de connexion. La connexion par mot de passe reste toujours possible.''),
      (''issuer'', Leaf ''~00c9metteur (issuer)''),
      (''issuerHint'', Leaf ''Adresse de base : le panel lit <~00e9metteur>/.well-known/openid-configuration.''),
      (''clientId'', Leaf ''Identifiant client''),
      (''clientSecret'', Leaf ''Secret client''),
      (''clientSecretHint'', Leaf ''Vide pour un client public (PKCE seul).''),
      (''keepSecret'', Leaf ''Enregistr~00e9 : laisser vide pour le conserver''),
      (''noSecret'', Leaf ''Aucun secret enregistr~00e9''),
      (''redirect'', Leaf ''Adresse de retour (redirect URI)''),
      (''redirectHint'', Leaf ''~00c0 d~00e9clarer chez le fournisseur. Derri~00e8re un reverse proxy, saisissez l~2019adresse publique si celle propos~00e9e est fausse.''),
      (''label'', Leaf ''Nom du bouton''),
      (''labelHint'', Leaf ''~00ab Se connecter avec ~2026 ~00bb''),
      (''scopes'', Leaf ''Port~00e9es (scopes)''),
      (''usernameClaim'', Leaf ''Revendication de l~2019identifiant''),
      (''autoCreate'', Leaf ''Cr~00e9er les comptes ~00e0 la premi~00e8re connexion''),
      (''autoCreateDesc'', Leaf ''Sinon, seuls les comptes pr~00e9par~00e9s ici (par e-mail) peuvent se connecter.''),
      (''defaultRole'', Leaf ''R~00f4le des nouveaux comptes''),
      (''defaultRoleHint'', Leaf ''Jamais administrateur par d~00e9faut.''),
      (''domains'', Leaf ''Domaines e-mail autoris~00e9s''),
      (''domainsHint'', Leaf ''S~00e9par~00e9s par des virgules. Vide : tous (cr~00e9ation automatique seulement).''),
      (''groupsClaim'', Leaf ''Revendication des groupes''),
      (''groupRoles'', Leaf ''R~00f4le selon les groupes''),
      (''groupRolesHint'', Leaf ''Si renseign~00e9, les groupes d~00e9cident du r~00f4le ~00e0 chaque connexion (le plus ~00e9lev~00e9 l~2019emporte ; aucun groupe reconnu : r~00f4le des nouveaux comptes).''),
      (''group'', Leaf ''Groupe''),
      (''addGroup'', Leaf ''Ajouter un groupe''),
      (''test'', Leaf ''Tester le fournisseur'')])]"

definition fr_login :: "(string \<times> lang) list" where
  "fr_login = [
    (''docTitle'', Leaf ''Connexion''),
    (''title'', Leaf ''Connexion ~00e0 FRP Manager''),
    (''subtitle'', Leaf ''Entrez vos identifiants pour g~00e9rer vos ports.''),
    (''username'', Leaf ''Identifiant''),
    (''password'', Leaf ''Mot de passe''),
    (''submit'', Leaf ''Se connecter''),
    (''missing'', Leaf ''Entrez votre identifiant et votre mot de passe.''),
    (''failed'', Leaf ''Identifiant ou mot de passe incorrect.''),
    (''or'', Leaf ''ou''),
    (''sso'', Leaf ''Se connecter avec {name}''),
    (''passkey'', Leaf ''Se connecter avec une passkey''),
    (''passkeyFailed'', Leaf ''Connexion par passkey impossible.''),
    (''passkeyCancelled'', Leaf ''Connexion par passkey annul~00e9e.''),
    (''passkeyRefused'', Leaf ''Le navigateur refuse les passkeys sur ce site (certificat HTTPS non valide ?).''),
    (''oidcError'', Group [
      (''disabled'', Leaf ''La connexion unique n~2019est pas activ~00e9e.''),
      (''state'', Leaf ''La connexion a expir~00e9 ou a ~00e9t~00e9 ouverte dans un autre onglet : recommencez.''),
      (''denied'', Leaf ''Connexion refus~00e9e par le fournisseur d~2019identit~00e9.''),
      (''provider'', Leaf ''Le fournisseur d~2019identit~00e9 ne r~00e9pond pas ou est mal configur~00e9.''),
      (''token'', Leaf ''Le fournisseur d~2019identit~00e9 a refus~00e9 l~2019~00e9change du code de connexion.''),
      (''claims'', Leaf ''R~00e9ponse du fournisseur d~2019identit~00e9 invalide.''),
      (''no_account'', Leaf ''Aucun compte du panel ne correspond ~00e0 cette identit~00e9. Demandez ~00e0 un administrateur de vous en cr~00e9er un.''),
      (''disabled_user'', Leaf ''Ce compte est d~00e9sactiv~00e9.''),
      (''domain'', Leaf ''Votre adresse e-mail n~2019appartient pas ~00e0 un domaine autoris~00e9 (ou n~2019est pas v~00e9rifi~00e9e).'')])]"

definition fr_setup :: "(string \<times> lang) list" where
  "fr_setup = [
    (''docTitle'', Leaf ''Configuration initiale''),
    (''title'', Leaf ''Configuration initiale''),
    (''subtitle'', Leaf ''Cr~00e9ez l~2019identifiant administrateur. Le panel reste inaccessible tant que ce n~2019est pas fait.''),
    (''username'', Leaf ''Identifiant''),
    (''password'', Leaf ''Mot de passe''),
    (''stats'', Leaf ''Envoyer des statistiques anonymes''),
    (''statsHint'', Leaf ''Version, architecture et m~00e9thode d~2019installation, une fois par jour. Aucune donn~00e9e personnelle ; modifiable dans R~00e9glages ~2192 Acc~00e8s au panel.''),
    (''passwordHint'', Leaf ''12 caract~00e8res minimum. Une phrase de passe fait tr~00e8s bien l~2019affaire.''),
    (''confirm'', Leaf ''Confirmer le mot de passe''),
    (''submit'', Leaf ''Cr~00e9er l~2019identifiant''),
    (''usernameMissing'', Leaf ''Choisissez un identifiant.''),
    (''tooShort'', Leaf ''Le mot de passe doit faire au moins {n} caract~00e8res.''),
    (''mismatch'', Leaf ''Les deux mots de passe sont diff~00e9rents.''),
    (''stats'', Leaf ''Envoyer des statistiques anonymes''),
    (''statsHint'', Leaf ''Version, architecture et m~00e9thode d~2019installation, une fois par jour. Aucune donn~00e9e personnelle ; modifiable dans R~00e9glages ~2192 Acc~00e8s au panel.'')]"

definition fr_groups :: "(string \<times> lang) list" where
  "fr_groups = [
    (''nav'', Group fr_nav),
    (''footer'', Group fr_footer),
    (''common'', Group fr_common),
    (''errors'', Group fr_errors),
    (''instance'', Group fr_instance),
    (''status'', Group fr_status),
    (''actions'', Group fr_actions),
    (''dashboard'', Group fr_dashboard),
    (''tunnels'', Group fr_tunnels),
    (''firewall'', Group (fr_firewall_1 @ fr_firewall_2)),
    (''visitors'', Group fr_visitors),
    (''validation'', Group fr_validation),
    (''config'', Group fr_config),
    (''logs'', Group fr_logs),
    (''updates'', Group fr_updates),
    (''settings'', Group fr_settings),
    (''notifications'', Group fr_notifications),
    (''welcome'', Group fr_welcome),
    (''users'', Group fr_users),
    (''login'', Group fr_login),
    (''setup'', Group fr_setup)]"

definition fr :: dict where
  "fr = dict_of (Group fr_groups)"

end
