(* ===== verification/Panel_En.thy ===== *)
theory Panel_En imports Panel_Lang begin

text \<open>
  The English dictionary (\<open>locales/en.js\<close>), one definition per group of texts.
\<close>

definition en_nav :: "(string \<times> lang) list" where
  "en_nav = [
    (''label'', Leaf ''Main navigation''),
    (''dashboard'', Leaf ''Dashboard''),
    (''tunnels'', Leaf ''Ports''),
    (''firewall'', Leaf ''Firewall''),
    (''logs'', Leaf ''Logs''),
    (''settings'', Leaf ''Settings''),
    (''logout'', Leaf ''Log out''),
    (''open'', Leaf ''Open menu''),
    (''updateAvailable'', Leaf ''Update available'')]"

definition en_footer :: "(string \<times> lang) list" where
  "en_footer = [
    (''madeWith'', Leaf ''Built with'')]"

definition en_common :: "(string \<times> lang) list" where
  "en_common = [
    (''close'', Leaf ''Close''),
    (''confirm'', Leaf ''Confirm''),
    (''cancel'', Leaf ''Cancel''),
    (''save'', Leaf ''Save''),
    (''saveAndRestart'', Leaf ''Save and restart''),
    (''discard'', Leaf ''Discard changes''),
    (''unsaved'', Leaf ''Unsaved changes''),
    (''optional'', Leaf ''optional''),
    (''tomlKey'', Leaf ''Key in the TOML file''),
    (''show'', Leaf ''Show''),
    (''hide'', Leaf ''Hide''),
    (''moreActions'', Leaf ''More actions''),
    (''copy'', Leaf ''Copy''),
    (''copied'', Leaf ''Copied to clipboard''),
    (''instance'', Leaf ''Instance''),
    (''leaveTitle'', Leaf ''Leave without saving?''),
    (''leaveText'', Leaf ''Your changes will be lost.''),
    (''leave'', Leaf ''Leave without saving''),
    (''edit'', Leaf ''Edit''),
    (''delete'', Leaf ''Delete''),
    (''refresh'', Leaf ''Refresh''),
    (''loading'', Leaf ''Loading~2026''),
    (''state'', Group [
      (''new'', Leaf ''new''),
      (''changed'', Leaf ''changed'')]),
    (''readOnly'', Leaf ''Read only.'')]"

definition en_errors :: "(string \<times> lang) list" where
  "en_errors = [
    (''network'', Leaf ''The panel is not responding. Check your connection and try again.''),
    (''unauthenticated'', Leaf ''Session expired, please log in again.''),
    (''badResponse'', Leaf ''Unexpected response from the server (HTTP {status}).''),
    (''generic'', Leaf ''The operation failed.''),
    (''clipboard'', Leaf ''Could not copy: select the text manually.'')]"

definition en_instance :: "(string \<times> lang) list" where
  "en_instance = [
    (''type'', Group [
      (''frps'', Leaf ''frps server''),
      (''frpc'', Leaf ''frpc client'')]),
    (''source'', Group [
      (''docker'', Leaf ''Docker container''),
      (''systemd'', Leaf ''systemd service''),
      (''standalone'', Leaf ''run by the panel'')])]"

definition en_status :: "(string \<times> lang) list" where
  "en_status = [
    (''running'', Leaf ''Running''),
    (''stopped'', Leaf ''Stopped''),
    (''missing'', Leaf ''Not found'')]"

definition en_actions :: "(string \<times> lang) list" where
  "en_actions = [
    (''start'', Leaf ''Start''),
    (''stop'', Leaf ''Stop''),
    (''restart'', Leaf ''Restart''),
    (''done'', Group [
      (''start'', Leaf ''{name} started''),
      (''stop'', Leaf ''{name} stopped''),
      (''restart'', Leaf ''{name} restarted''),
      (''reload'', Leaf ''{name} configuration reloaded''),
      (''enable'', Leaf ''Start on boot enabled''),
      (''disable'', Leaf ''Start on boot disabled'')])]"

definition en_dashboard :: "(string \<times> lang) list" where
  "en_dashboard = [
    (''title'', Leaf ''Dashboard''),
    (''description'', Leaf ''The frp services on this machine. The frps server runs on the public machine; the frpc client exposes your local services through it.''),
    (''redetect'', Leaf ''Detect again''),
    (''detected'', Leaf ''Detection complete''),
    (''noPasswordTitle'', Leaf ''The panel has no password''),
    (''noPasswordText'', Leaf ''Anyone who can reach this page can change your open ports. Set a password now.''),
    (''setPassword'', Leaf ''Set a password''),
    (''update'', Group [
      (''frp'', Leaf ''A new version of frp is available.''),
      (''panel'', Leaf ''A new version of the panel is available.''),
      (''both'', Leaf ''New versions of frp and the panel are available.'')]),
    (''seeUpdates'', Leaf ''See updates''),
    (''dockerTitle'', Leaf ''The panel is running in Docker''),
    (''dockerText'', Leaf ''~0022New instance~0022 creates an frps or an frpc on the host. A container from the fatedier/frps or fatedier/frpc image, with its configuration mounted in /etc/frp/, is detected too.''),
    (''emptyTitle'', Leaf ''No frp service found''),
    (''emptyText'', Leaf ''frps and frpc are not installed on this machine, or their systemd service cannot be found. Install frp from Settings ~2192 Updates.''),
    (''emptyTextDocker'', Leaf ''No frps or frpc container was detected through the Docker socket.''),
    (''standaloneTitle'', Leaf ''Standalone mode''),
    (''standaloneText'', Leaf ''frps and frpc are part of the Docker image and run by the panel. Their configurations (/etc/frp/) and logs are kept in the /data volume.''),
    (''emptyTextStandalone'', Leaf ''No frps or frpc configuration in /etc/frp/. Create one again with the buttons above.''),
    (''installFrp'', Leaf ''Install frp''),
    (''fields'', Group [
      (''image'', Leaf ''Image''),
      (''container'', Leaf ''Container''),
      (''network'', Leaf ''Network''),
      (''config'', Leaf ''Configuration''),
      (''service'', Leaf ''Service'')]),
    (''noConfig'', Leaf ''no file''),
    (''binaryMissing'', Leaf ''The {type} program cannot be found. Install or reinstall frp from Settings ~2192 Updates.''),
    (''autostart'', Leaf ''Start on boot''),
    (''autostartHint'', Leaf ''Starts the service again when the machine boots.''),
    (''autostartHintStandalone'', Leaf ''Starts the program when the container starts.''),
    (''autostartOn'', Leaf ''Start on boot enabled''),
    (''autostartOff'', Leaf ''Start on boot disabled''),
    (''rename'', Leaf ''Rename''),
    (''viewLogs'', Leaf ''View logs''),
    (''editConfig'', Leaf ''Edit configuration''),
    (''reload'', Leaf ''Reload configuration''),
    (''reinstall'', Leaf ''Reinstall {type}''),
    (''reinstallTitle'', Leaf ''Reinstall {type}?''),
    (''reinstallHint'', Leaf ''Creates the deleted {type}.service service again''),
    (''reinstallText'', Leaf ''The {type}.service service will be created again with /etc/frp/{type}.toml: the configuration kept when it was deleted, or else a default one. The {type} program will be downloaded if it is missing. The service stays stopped: start it afterwards from its card.''),
    (''reinstallHintStandalone'', Leaf ''Creates {type} again with /etc/frp/{type}.toml''),
    (''reinstallTextStandalone'', Leaf ''{type} will be created again with /etc/frp/{type}.toml: the configuration kept when it was deleted, or else a default one. It stays stopped: start it afterwards from its card.''),
    (''reinstallingTitle'', Leaf ''Reinstalling {type}''),
    (''reinstalled'', Leaf ''{type} service reinstalled''),
    (''stopTitle'', Leaf ''Stop {name}?''),
    (''stopTextClient'', Leaf ''All ports opened by this client will be closed. If you reach this panel through one of them, you will lose access until the service is restarted.''),
    (''stopTextServer'', Leaf ''All clients connected to this server will be disconnected and their ports closed.''),
    (''renameTitle'', Leaf ''Rename instance''),
    (''renameLabel'', Leaf ''Display name''),
    (''renameHint'', Leaf ''Leave empty to go back to the original name ({id}).''),
    (''renamePlaceholder'', Leaf ''E.g. Home server''),
    (''renamed'', Leaf ''Name updated''),
    (''deleteTitle'', Leaf ''Delete {name}?''),
    (''deleteTextService'', Leaf ''The {service} service will be stopped, disabled and its systemd unit file deleted. The frp program stays installed.''),
    (''deleteTextDocker'', Leaf ''The {container} container will be stopped and removed.''),
    (''deleteTextStandalone'', Leaf ''{service} will be stopped and will no longer start with the container. The frp program stays in the image.''),
    (''deleteImage'', Leaf ''Also delete the image''),
    (''deleteImageHint'', Leaf ''{image} ~2014 kept if another container uses it. It is downloaded again when needed.''),
    (''deleteConfig'', Leaf ''Also delete the configuration''),
    (''deleteConfigHint'', Leaf ''Erases {path} and every port or setting it contains.''),
    (''deleteWarning'', Leaf ''This cannot be undone.''),
    (''deleted'', Leaf ''{name} deleted''),
    (''newInstance'', Leaf ''New instance''),
    (''new'', Group [
      (''title'', Leaf ''New instance''),
      (''description'', Leaf ''One more frpc (to another server, or to keep ports apart) or one more frps, with its own configuration file, its own log and its own ports.''),
      (''type'', Leaf ''Type''),
      (''name'', Leaf ''Name''),
      (''namePlaceholder'', Leaf ''home''),
      (''nameHint'', Leaf ''Lowercase letters, digits, - and _ (32 at most). It follows the type: ~0022home~0022 gives frpc-home or frps-home.''),
      (''nameInvalid'', Leaf ''1 to 32 characters among a-z, 0-9, - and _, starting with a letter or a digit.''),
      (''nameOtherType'', Leaf ''This name points at an {other} instance: choose another one.''),
      (''preview'', Leaf ''Creates {path} and the {service} service, stopped.''),
      (''previewStandalone'', Leaf ''Creates {path}, run by the panel once started.''),
      (''copy'', Leaf ''Starting configuration''),
      (''copyNone'', Leaf ''Default configuration''),
      (''copyFrom'', Leaf ''Copy of {name}''),
      (''copyHint'', Group [
        (''frpc'', Leaf ''Keeps the server, the authentication and the settings, without the open ports or the visitors: they would conflict with the original instance~2019s ones. The log and the local dashboard port change.''),
        (''frps'', Leaf ''Keeps the settings, with a new token drawn at random. The listening ports (connection, KCP, QUIC, vhost, dashboard) and the log are replaced by free ones.'')]),
      (''defaultHint'', Group [
        (''frpc'', Leaf ''No server: fill it in its configuration before starting it.''),
        (''frps'', Leaf ''Free connection port and token drawn at random.'')]),
      (''manual'', Leaf ''An {type}-name.toml file already dropped by hand in /etc/frp does not need to be created again: without a systemd service, it is reported on the dashboard with a ~0022Create the service~0022 button.''),
      (''manualStandalone'', Leaf ''An {type}-name.toml file dropped by hand in /etc/frp/ also becomes an instance, with nothing else to do.''),
      (''create'', Leaf ''Create the instance''),
      (''created'', Leaf ''{id} created'')]),
    (''orphan'', Group [
      (''title'', Leaf ''{path} has no service''),
      (''text'', Leaf ''No systemd service runs this configuration: the panel cannot start it. Create {service} to drive it from here.''),
      (''adopt'', Leaf ''Create the service''),
      (''adoptTitle'', Leaf ''Create {service}?''),
      (''adoptText'', Leaf ''{service} will run {type} with {path}, without rewriting this file. It is created stopped and not enabled: start it afterwards from its card.''),
      (''conflicts'', Leaf ''This configuration conflicts with another instance:''),
      (''fix'', Leaf ''Fix the log and the ports''),
      (''fixHint'', Leaf ''Gives this file its own log and free listening ports; nothing else changes. Duplicate tunnels are fixed by hand, on the Ports page.''),
      (''adopted'', Leaf ''{service} created'')])]"

definition en_tunnels :: "(string \<times> lang) list" where
  "en_tunnels = [
    (''title'', Leaf ''Ports''),
    (''description'', Leaf ''Each open port makes a service on this machine reachable from the Internet, through your frp server.''),
    (''add'', Leaf ''Open a port''),
    (''saveRestart'', Leaf ''Save and restart frpc''),
    (''noClientTitle'', Leaf ''No frpc client on this machine''),
    (''noClientText'', Leaf ''Ports are opened from the machine that hosts your services, where frpc runs.''),
    (''server'', Leaf ''server''),
    (''randomPort'', Leaf ''port assigned by the server''),
    (''copyAddress'', Leaf ''Copy the address {addr}''),
    (''randomPortNoAdmin'', Leaf ''A port opened without a number gets a port from the server that changes each time frpc starts. To see it, the panel asks frpc on its local dashboard (127.0.0.1 only, random password).''),
    (''showAssigned'', Leaf ''Show the assigned port''),
    (''admin'', Group [
      (''title'', Leaf ''Turn on frpc~2019s local dashboard?''),
      (''intro'', Leaf ''frpc only gives the port picked by the server through its local dashboard (its web API). To show it, the panel will turn it on in frpc.toml:''),
      (''listen'', Leaf ''it only listens on 127.0.0.1, on a free port from 7400: unreachable from the network or the Internet;''),
      (''password'', Leaf ''it is protected by the ~201cfrp-manager~201d user and a random password, written in frpc.toml (readable by root only);''),
      (''restart'', Leaf ''frpc restarts to open it: open ports are cut for a few seconds.''),
      (''undo'', Leaf ''To remove it: Settings ~2192 frpc configuration, ~201cLocal dashboard~201d section.''),
      (''confirm'', Leaf ''Turn on and restart frpc'')]),
    (''restartFrpc'', Leaf ''Restart frpc''),
    (''randomPortUnreachable'', Leaf ''frpc does not answer on its local dashboard: restart it (or start it) to see the ports assigned by the server.''),
    (''noDomain'', Leaf ''no domain''),
    (''privateOnly'', Leaf ''private, through a visitor''),
    (''public'', Leaf ''Public access''),
    (''local'', Leaf ''Local service''),
    (''unnamed'', Leaf ''unnamed''),
    (''flags'', Group [
      (''range'', Group [
        (''one'', Leaf ''Range ~00b7 {count} port''),
        (''other'', Leaf ''Range ~00b7 {count} ports'')]),
      (''proxyProtocol'', Leaf ''PROXY {v}''),
      (''encrypted'', Leaf ''Encrypted''),
      (''compressed'', Leaf ''Compressed''),
      (''assigned'', Leaf ''Assigned''),
      (''assignedHint'', Leaf ''Port picked by the server when frpc started: it may change on the next restart.''),
      (''error'', Leaf ''Error'')]),
    (''emptyTitle'', Leaf ''No open ports yet''),
    (''emptyText'', Leaf ''Open a port to make a local service (website, SSH, game server~2026) reachable from the Internet.''),
    (''deleteTitle'', Leaf ''Delete ~201c{name}~201d?''),
    (''deleteText'', Leaf ''The deletion takes effect when you save.''),
    (''deletePairText'', Leaf ''Both tunnels, {tcp} (TCP) and {udp} (UDP), will be deleted. The deletion takes effect when you save.''),
    (''editTitle'', Leaf ''Edit ~201c{name}~201d''),
    (''newTitle'', Leaf ''New port''),
    (''editorHint'', Leaf ''Changes are applied to the list; then save to update frpc.''),
    (''apply'', Leaf ''Apply''),
    (''addToList'', Leaf ''Add''),
    (''extrasKept'', Leaf ''Advanced settings kept as they are: {keys}.''),
    (''saved'', Leaf ''frpc configuration saved''),
    (''restarting'', Leaf ''Restarting {name}~2026''),
    (''restarted'', Leaf ''{name} restarted''),
    (''restartUnknown'', Leaf ''Restart started. Check the service status on the dashboard.''),
    (''fields'', Group [
      (''name'', Leaf ''Name''),
      (''nameHint'', Leaf ''Unique, no spaces. It identifies the port on the server.''),
      (''nameHintBoth'', Leaf ''Unique, no spaces. frpc creates two tunnels: {tcp} and {udp}, shown here on a single row.''),
      (''namePlaceholder'', Leaf ''website''),
      (''type'', Leaf ''Type''),
      (''localService'', Leaf ''Service on this machine''),
      (''localIP'', Leaf ''Address''),
      (''localPort'', Leaf ''Port''),
      (''localHint'', Leaf ''Where the service listens. 127.0.0.1 if the service runs on this machine.''),
      (''rangeHint'', Leaf ''Several ports at once: a range (30000-30010) or a list (6000-6006,6007), with as many ports for the public port, which is then required. frpc creates one tunnel per port, named name-<port>; this needs frp 0.56 or later.''),
      (''rangeHintDomains'', Leaf ''Several ports at once: a range (8080-8082) or a list (8080,8090). frpc creates one tunnel per port, named name-<port>, and each one needs its own domain: write {token} in the domain (app-{token}.example.com). This needs frp 0.56 or later.''),
      (''rangeHintPrivate'', Leaf ''Several ports at once: a range (6000-6005) or a list (6000,6010). frpc creates one private port per port, named name-<port>; a visitor with a range joins them all. This needs frp 0.56 or later.''),
      (''publicAccess'', Leaf ''Access from the Internet''),
      (''remotePort'', Leaf ''Public port''),
      (''remotePortHint'', Leaf ''Port opened on {server}. Leave empty to let the server pick one (it changes each time frpc starts).''),
      (''remotePortHintBoth'', Leaf ''Port opened on {server}, in TCP and UDP. Required: otherwise the server would pick a different port for each.''),
      (''domains'', Leaf ''Domains''),
      (''domainsHint'', Leaf ''Comma-separated. They must point to the frps server.''),
      (''domainsHintRange'', Leaf ''Comma-separated, each with {token}, replaced by each tunnel~2019s port (app-{token}.example.com gives app-8080.example.com). They must point to the frps server.''),
      (''secret'', Leaf ''Secret key''),
      (''secretHint'', Leaf ''Visitors must use the same key to connect.''),
      (''secretPlaceholder'', Leaf ''shared key''),
      (''options'', Leaf ''Options''),
      (''proxyProtocol'', Leaf ''PROXY protocol''),
      (''proxyProtocolHint'', Leaf ''Passes the visitor~2019s IP to the service. The service must support it (nginx, HAProxy~2026).''),
      (''ppOff'', Leaf ''Off''),
      (''ppV2'', Leaf ''v2 (recommended)''),
      (''encryption'', Leaf ''Encrypt traffic''),
      (''encryptionHint'', Leaf ''Between frpc and frps. Not needed if the service already uses TLS.''),
      (''compression'', Leaf ''Compress traffic''),
      (''compressionHint'', Leaf ''Saves bandwidth, costs a little CPU.'')]),
    (''types'', Group [
      (''tcp'', Leaf ''For most services: SSH, databases, games, sites whose HTTPS is handled by the service.''),
      (''udp'', Leaf ''For UDP services: DNS, VPN (WireGuard), some games.''),
      (''both'', Leaf ''The same port in TCP and UDP (games, DNS~2026): creates two tunnels, name-tcp and name-udp, with the same ports and options.''),
      (''http'', Leaf ''Website served on a domain name, through the server~2019s HTTP port.''),
      (''https'', Leaf ''HTTPS website on a domain name, through the server~2019s HTTPS port.''),
      (''stcp'', Leaf ''Private port: only reachable by machines that have the key (visitors).''),
      (''xtcp'', Leaf ''Peer-to-peer private port: the connection skips the server when possible.'')])]"

definition en_firewall_1 :: "(string \<times> lang) list" where
  "en_firewall_1 = [
    (''title'', Leaf ''Firewall''),
    (''description'', Leaf ''Choose who can connect to the ports opened by frps. Filtering is done by this machine~2019s kernel (nftables) and keeps working even if the panel stops.''),
    (''noFrpsTitle'', Leaf ''No frps on this machine''),
    (''noFrpsText'', Leaf ''The firewall filters connections to the ports opened by frps. It is set up on the machine where the frps server runs.''),
    (''noNftTitle'', Leaf ''nftables cannot be found''),
    (''noNftText'', Leaf ''The firewall relies on nftables. Install it with the button below, or by hand: apt install nftables ({detail})''),
    (''noNftTextDocker'', Leaf ''The firewall relies on nftables on the host machine. The button below installs it on the host, or do it by hand: apt install nftables ({detail})''),
    (''noNftTitleStandalone'', Leaf ''The container cannot filter''),
    (''noNftTextStandalone'', Leaf ''nftables is part of the image, but the container does not have the NET_ADMIN capability. Add cap_add: [NET_ADMIN] to docker-compose.yml (with network_mode: host to filter the machine~2019s traffic), then recreate the container. ({detail})''),
    (''noNetfilterTitle'', Leaf ''The kernel cannot filter''),
    (''noNetfilterText'', Leaf ''nftables is present, but the kernel, or the emulation (QEMU for another architecture, for example), does not support netfilter: the NET_ADMIN capability would change nothing. The firewall works on a machine whose kernel supports nftables. ({detail})''),
    (''installNft'', Leaf ''Install nftables''),
    (''statusTitle'', Leaf ''Filtering status''),
    (''enable'', Leaf ''Filter connections''),
    (''enableHint'', Leaf ''When off, no rule is applied: ports stay open as before.''),
    (''enableHintOn'', Leaf ''On: the active rules filter connections to the frps ports. The panel port is never filtered.''),
    (''state'', Group [
      (''on'', Group [
        (''one'', Leaf ''Active ~2014 {count} rule applied''),
        (''other'', Leaf ''Active ~2014 {count} rules applied'')]),
      (''idle'', Leaf ''On, nothing to filter''),
      (''off'', Leaf ''Off''),
      (''pending'', Leaf ''Changes not applied'')]),
    (''yourIp'', Leaf ''Your address:''),
    (''youFree'', Leaf ''the applied rules don~2019t block you on any port.''),
    (''youBlocked'', Leaf ''blocked on: {ports}''),
    (''rulesTitle'', Leaf ''Rules''),
    (''rulesDesc'', Leaf ''A connection must pass every rule that covers its port. The firewall only blocks: it never opens a port.''),
    (''addRule'', Leaf ''Add a rule''),
    (''emptyTitle'', Leaf ''No rules''),
    (''emptyText'', Leaf ''For example: only allow your frpc clients to connect to the server, or block an address that abuses one of your ports.''),
    (''mode'', Group [
      (''allow'', Leaf ''Allow only''),
      (''block'', Leaf ''Block'')]),
    (''modeHint'', Group [
      (''allow'', Leaf ''Only the addresses in the list can connect. Empty list: nobody.''),
      (''block'', Leaf ''The addresses in the list can no longer connect; everyone else can.'')]),
    (''untitledAllow'', Leaf ''Allow list''),
    (''untitledBlock'', Leaf ''Block list''),
    (''ruleEnabled'', Leaf ''Rule active''),
    (''portsLabel'', Leaf ''Ports''),
    (''allPorts'', Leaf ''All frp ports''),
    (''frpsLabel'', Leaf ''frps concerned''),
    (''allFrpsPorts'', Leaf ''All ports, of every frps''),
    (''orphanBadge'', Leaf ''frps not found: {frps}''),
    (''allFrps'', Leaf ''All frps''),
    (''frpsHint'', Leaf ''~201cAll frp ports~201d means the ports of this frps.''),
    (''frpsHintAll'', Leaf ''~201cAll frp ports~201d means the ports of every frps on the machine.''),
    (''orphanHint'', Leaf ''This frps no longer exists. The rule still filters the ports it names (~201cAll frp ports~201d no longer covers any). To change it, choose an existing frps or ~201cAll frps~201d, or delete it.''),
    (''movedTo'', Leaf ''Rule attached to {frps}: choose this frps at the top of the page to see it.''),
    (''allFrpsHint'', Leaf ''Rule created before the frps choice: it applies to the ports of every frps on the machine.''),
    (''somePorts'', Leaf ''Selected ports''),
    (''portsHint'', Leaf ''Comma-separated, ranges with a dash. ~201cAll frp ports~201d automatically follows the ports opened by frps. The panel port ({port}) is never filtered.''),
    (''sourcesLabel'', Leaf ''Addresses''),
    (''sourcesHint'', Leaf ''One per line: an IP (203.0.113.4), a network (198.51.100.0/24) or a whole provider by its AS number (AS16276), IPv4 or IPv6. Add a note after a #.''),
    (''asInfo'', Group [
      (''one'', Leaf ''{holder}, {count} prefix''),
      (''other'', Leaf ''{holder}, {count} prefixes'')]),
    (''asPending'', Leaf ''prefixes fetched when applied''),
    (''noSource'', Leaf ''none''),
    (''addMyIp'', Leaf ''Add my address ({ip})''),
    (''myIpNote'', Leaf ''my address''),
    (''blockedCount'', Group [
      (''one'', Leaf ''{count} blocked''),
      (''other'', Leaf ''{count} blocked'')]),
    (''countHint'', Leaf ''Connection packets blocked since the rules were last applied.''),
    (''name'', Leaf ''Name''),
    (''namePlaceholder'', Leaf ''E.g. frpc clients''),
    (''action'', Leaf ''Action''),
    (''newTitle'', Leaf ''New rule''),
    (''editTitle'', Leaf ''Edit ~201c{name}~201d''),
    (''editorHint'', Leaf ''Changes are applied to the list; then apply to update the firewall.''),
    (''blockNeedsSource'', Leaf ''Enter at least one address to block.''),
    (''deleteTitle'', Leaf ''Delete ~201c{name}~201d?''),
    (''apply'', Leaf ''Apply''),
    (''applied'', Leaf ''Firewall applied''),
    (''selfBlockTitle'', Leaf ''You are about to block your own address''),
    (''selfBlockText'', Leaf ''With these rules, your address ({ip}) will no longer be able to connect to ports {ports}. If you reach the panel through one of them, you will lose access.''),
    (''portsTitle'', Leaf ''Ports opened by frps''),
    (''portsDesc'', Leaf ''Detected in the frps configuration and, if its dashboard is enabled, among the ports opened by clients.''),
    (''noPorts'', Leaf ''No port detected. Check the frps configuration.''),
    (''online'', Leaf ''online''),
    (''offline'', Leaf ''offline''),
    (''openToAll'', Leaf ''Open to everyone''),
    (''col'', Group [
      (''port'', Leaf ''Port''),
      (''use'', Leaf ''Used by''),
      (''access'', Leaf ''Filtering''),
      (''last'', Leaf ''Last attempt''),
      (''source'', Leaf ''Address''),
      (''as'', Leaf ''Provider (AS)''),
      (''rule'', Leaf ''Rule'')]),
    (''testTitle'', Leaf ''Test an address''),
    (''testDesc'', Leaf ''What the rules, including those not yet applied, would do with an address.''),
    (''testLabel'', Leaf ''Address to test''),
    (''test'', Leaf ''Test''),
    (''testOk'', Leaf ''allowed''),
    (''testBlocked'', Leaf ''blocked by {rules}''),
    (''blockedTitle'', Leaf ''Blocked connections''),
    (''blockedDesc'', Leaf ''Addresses blocked in the last 24 hours, recorded by the firewall itself, in real time. The shield button on a row blocks the address or its whole provider everywhere.''),
    (''blockedEmpty'', Leaf ''No connection blocked in the last 24 hours.''),
    (''blockedUnavailable'', Leaf ''The nftables version on this machine cannot record blocked addresses. Filtering still works, and each rule~2019s counters stay up to date.''),
    (''blockedMore'', Leaf ''The 200 most recent out of {count}.''),
    (''live'', Leaf ''Live''),
    (''ago'', Group [
      (''s'', Leaf ''{n} s ago''),
      (''m'', Leaf ''{n} min ago''),
      (''h'', Leaf ''{n} h ago'')]),
    (''quickTitle'', Leaf ''Block {ip}''),
    (''quickDesc'', Leaf ''Added to the ~201cQuick blocks~201d rule, which blocks on every frp port. Then apply for the block to take effect.''),
    (''quickIp'', Leaf ''Block {ip} everywhere''),
    (''quickAs'', Leaf ''Block AS{asn} ({holder}) everywhere''),
    (''quickRule'', Leaf ''Quick blocks''),
    (''quickAdded'', Leaf ''{what} added to the ~201c{rule}~201d rule. Apply to block.''),
    (''deletedRule'', Leaf ''deleted rule'')]"

definition en_firewall_2 :: "(string \<times> lang) list" where
  "en_firewall_2 = [
    (''lists'', Group [
      (''open'', Leaf ''Community lists''),
      (''title'', Leaf ''Community block lists''),
      (''desc'', Leaf ''Address lists shared by FRP Manager users, to block or to allow only. Subscribing creates a rule on every frp port, kept up to date automatically.''),
      (''emptyTitle'', Leaf ''The catalog is empty for now''),
      (''emptyText'', Leaf ''Publish the first one with the ~201cPublish a list~201d button below.''),
      (''by'', Leaf ''by {author}''),
      (''updated'', Leaf ''updated on {date}''),
      (''count'', Group [
        (''one'', Leaf ''{count} entry''),
        (''other'', Leaf ''{count} entries'')]),
      (''show'', Group [
        (''one'', Leaf ''Show the entry''),
        (''other'', Leaf ''Show the {count} entries'')]),
      (''more'', Leaf ''~2026 and {count} more''),
      (''subscribe'', Leaf ''Subscribe''),
      (''subscribed'', Leaf ''Subscribed''),
      (''added'', Leaf ''~201c{name}~201d rule added. Apply for it to take effect.''),
      (''allowTitle'', Leaf ''Allow only ~201c{name}~201d?''),
      (''allowText'', Leaf ''Only the addresses in this list will be able to connect to your frp ports, including the port used by frpc clients. If some of your clients or users are not in it, add their addresses to the rule before applying.''),
      (''browse'', Leaf ''View on GitHub''),
      (''fetchedAt'', Leaf ''Catalog fetched on {date}.''),
      (''stale'', Leaf ''GitHub unreachable, showing the last known version ({error}).''),
      (''unreachable'', Leaf ''Catalog unreachable: {error}''),
      (''tag'', Group [
        (''one'', Leaf ''~201c{name}~201d list ({count} entry)''),
        (''other'', Leaf ''~201c{name}~201d list ({count} entries)'')]),
      (''unknown'', Leaf ''~201c{id}~201d list (not fetched yet)''),
      (''ruleUses'', Leaf ''Subscribed to: {name}.''),
      (''ruleUsesHint'', Leaf ''The list~2019s addresses are updated automatically.''),
      (''unsubscribe'', Leaf ''Unsubscribe''),
      (''extraSources'', Leaf ''Addresses in addition to the list'')]),
    (''publish'', Group [
      (''action'', Leaf ''Publish to the community lists''),
      (''title'', Leaf ''Publish ~201c{name}~201d''),
      (''titleNew'', Leaf ''Publish a list''),
      (''new'', Leaf ''Publish a list''),
      (''sources'', Leaf ''Addresses to publish''),
      (''fromRule'', Leaf ''Take the addresses from:''),
      (''desc'', Leaf ''Publishes a list to the community catalog, through a GitHub issue that you submit yourself. It is checked and then added automatically within a few minutes: every panel can then subscribe to it.''),
      (''mode'', Leaf ''List type''),
      (''modeHint'', Group [
        (''block'', Leaf ''Subscribers will block these addresses.''),
        (''allow'', Leaf ''Subscribers will only allow these addresses: everything else will be cut off.'')]),
      (''name'', Leaf ''List name''),
      (''namePlaceholder'', Leaf ''E.g. Port scanners''),
      (''nameHint'', Leaf ''Same name as one of your already published lists: it gets updated. A list published by someone else cannot be replaced.''),
      (''description'', Leaf ''Description''),
      (''descPlaceholder'', Leaf ''What this list blocks, and where the addresses come from.''),
      (''author'', Leaf ''Author''),
      (''authorPlaceholder'', Leaf ''Your nickname''),
      (''authorHint'', Leaf ''Shown in the catalog.''),
      (''notes'', Leaf ''Include notes''),
      (''notesHint'', Leaf ''Everything published is public: make sure no note is personal.''),
      (''prepare'', Leaf ''Prepare''),
      (''skipped'', Group [
        (''one'', Leaf ''{count} entry cannot be published, left out''),
        (''other'', Leaf ''{count} entries cannot be published, left out'')]),
      (''review'', Leaf ''Review the entry below: it is already in the issue, you only need to submit it on GitHub. The answer (added or refused, with the reason) arrives as a comment on the issue.''),
      (''tooLong'', Leaf ''List too long for a link: it is copied when you open the issue, paste it where indicated.''),
      (''open'', Leaf ''Open the issue on GitHub''),
      (''openUpdate'', Leaf ''Propose the update on GitHub'')])]"

definition en_visitors :: "(string \<times> lang) list" where
  "en_visitors = [
    (''title'', Leaf ''Access to private ports''),
    (''description'', Leaf ''A visitor makes a private port (STCP or XTCP) shared by another frpc client reachable on this machine.''),
    (''add'', Leaf ''Add a visitor''),
    (''empty'', Leaf ''No visitor configured.''),
    (''shared'', Leaf ''Shared port''),
    (''here'', Leaf ''Reachable here on''),
    (''deleteTitle'', Leaf ''Delete the ~201c{name}~201d visitor?''),
    (''editTitle'', Leaf ''Edit ~201c{name}~201d''),
    (''newTitle'', Leaf ''New visitor''),
    (''editorHint'', Leaf ''Changes are applied to the list; then save to update frpc.''),
    (''fields'', Group [
      (''namePlaceholder'', Leaf ''nas-access''),
      (''serverName'', Leaf ''Port to join''),
      (''serverNameHint'', Leaf ''The name of the STCP/XTCP port on the other machine.''),
      (''secretHint'', Leaf ''The same key as the shared port.''),
      (''bindAddr'', Leaf ''Local address''),
      (''bindPort'', Leaf ''Local port''),
      (''bindHint'', Leaf ''Connect to this address on this machine to reach the shared service.''),
      (''rangeHint'', Leaf ''Several ports at once: a range (6000-6005) or a list. frpc creates one visitor per port, named name-<port>, which joins the shared port followed by -<port> (db-6000, db-6001~2026): the one on the other machine must be a range too. This needs frp 0.56 or later.''),
      (''serverPorts'', Leaf ''Ports on the other machine''),
      (''serverPortsHint'', Leaf ''The ports of the range on the other machine, if they are not the same as here: the 1st local port joins the 1st, and so on.''),
      (''serverPortsPlaceholder'', Leaf ''the same'')])]"

definition en_validation :: "(string \<times> lang) list" where
  "en_validation = [
    (''required'', Leaf ''Required field.''),
    (''nameTaken'', Leaf ''This name is already in use.''),
    (''nameClash'', Leaf ''~201c{name}~201d is already the name of another tunnel.''),
    (''nameFormat'', Leaf ''No spaces or control characters, 64 characters at most.''),
    (''visitorNameClash'', Leaf ''~201c{name}~201d is already the name of another visitor.''),
    (''port'', Leaf ''Enter a port between 1 and 65535.''),
    (''portSpec'', Leaf ''Enter a port (8080), a range (30000-30010) or a list (6000-6006,6007), between 1 and 65535.''),
    (''rangeTooBig'', Leaf ''A range has at most {max} ports.''),
    (''rangeRemote'', Leaf ''Required for a port range.''),
    (''bothRemote'', Leaf ''Required for TCP + UDP: without it, the server would pick a different port for each.''),
    (''rangeCount'', Leaf ''Both sides need as many ports: {local} for the service, {remote} here.''),
    (''rangeCountVisitor'', Leaf ''This needs as many ports as the local port: {local} there, {remote} here.''),
    (''domainPort'', Leaf ''With a port range, each domain must contain {token}: without it, all the tunnels would have the same domain.''),
    (''domainPortSingle'', Leaf ''{token} is only used with a port range.'')]"

definition en_config :: "(string \<times> lang) list" where
  "en_config = [
    (''title'', Leaf ''Configuration''),
    (''generatedBy'', Leaf ''generated by FRP Manager''),
    (''randomPort'', Leaf ''Random''),
    (''randomPortHint'', Leaf ''Pick a random port (10000~201332767)''),
    (''readOnly'', Leaf ''Your account can view this configuration, not change it.''),
    (''description'', Leaf ''Connection and security of frps or frpc. Each field shows the matching key in the TOML file.''),
    (''emptyTitle'', Leaf ''Nothing to configure''),
    (''emptyText'', Leaf ''No frp service was detected on this machine.''),
    (''dockerTitle'', Leaf ''Configuration managed outside the panel''),
    (''dockerText'', Leaf ''This container reads its configuration from the file mounted in /etc/frp/. Edit that file, then restart the container. An frpc~2019s ports can still be edited here.''),
    (''loadError'', Leaf ''Could not read the configuration''),
    (''missingFile'', Leaf ''The file {path} does not exist yet. The values below are the defaults; it will be created when you save.''),
    (''tunnelsElsewhere'', Leaf ''Ports are managed on the Ports page. They are kept when you save this page.''),
    (''advanced'', Leaf ''Advanced settings''),
    (''advancedDesc'', Leaf ''The defaults fit most setups.''),
    (''saved'', Leaf ''Configuration saved''),
    (''readBackError'', Leaf ''Could not read the current file back: saving cancelled so nothing it contains is lost.''),
    (''inlineRefused'', Leaf ''Could not write {keys}: in the file, the value that should hold it is not a table. Fix that line by hand; nothing was saved.''),
    (''toggles'', Group [
      (''webEnabled'', Leaf ''Enable the frp web dashboard''),
      (''tlsEnabled'', Leaf ''Use TLS with your own certificates'')]),
    (''sections'', Group [
      (''frps'', Group [
        (''connection'', Group [
          (''title'', Leaf ''Client connections''),
          (''desc'', Leaf ''Where frps waits for frpc clients.'')]),
        (''auth'', Group [
          (''title'', Leaf ''Authentication''),
          (''desc'', Leaf ''frpc clients must present the same token.'')]),
        (''dashboard'', Group [
          (''title'', Leaf ''frp dashboard''),
          (''desc'', Leaf ''The web interface built into frps, with its statistics.'')]),
        (''tls'', Group [
          (''title'', Leaf ''TLS''),
          (''desc'', Leaf ''Encrypts the connection between frpc and frps with your certificates.'')]),
        (''extraPorts'', Group [
          (''title'', Leaf ''Extra ports''),
          (''desc'', Leaf ''Only enable the ones you use.'')]),
        (''limits'', Group [
          (''title'', Leaf ''Limits and performance''),
          (''desc'', Leaf ''The defaults are fine in most cases.'')]),
        (''logs'', Group [
          (''title'', Leaf ''Logging''),
          (''desc'', Leaf ''File and detail level of the frps logs.'')])]),
      (''frpc'', Group [
        (''server'', Group [
          (''title'', Leaf ''frp server''),
          (''desc'', Leaf ''The frps server this client connects to.'')]),
        (''auth'', Group [
          (''title'', Leaf ''Authentication''),
          (''desc'', Leaf ''Must match the token configured on the server.'')]),
        (''tls'', Group [
          (''title'', Leaf ''TLS''),
          (''desc'', Leaf ''Client certificates, if the server requires them.'')]),
        (''localDashboard'', Group [
          (''title'', Leaf ''Local dashboard''),
          (''desc'', Leaf ''The web interface built into frpc.'')]),
        (''network'', Group [
          (''title'', Leaf ''Network''),
          (''desc'', Leaf ''The defaults are fine in most cases.'')]),
        (''logs'', Group [
          (''title'', Leaf ''Logging''),
          (''desc'', Leaf ''File and detail level of the frpc logs.'')])])]),
    (''fields'', Group [
      (''bindPort'', Group [
        (''label'', Leaf ''Listening port''),
        (''hint'', Leaf ''The port frpc clients use to connect. A random port avoids bots that target 7000; set it as serverPort on clients.'')]),
      (''bindAddr'', Group [
        (''label'', Leaf ''Listening address''),
        (''hint'', Leaf ''0.0.0.0 for all IPv4 interfaces, :: for IPv6.'')]),
      (''proxyBindAddr'', Group [
        (''label'', Leaf ''Ports address''),
        (''hint'', Leaf ''Public IP to open the ports on, if different.'')]),
      (''authMethod'', Group [
        (''label'', Leaf ''Method'')]),
      (''authToken'', Group [
        (''label'', Leaf ''Token''),
        (''hint'', Leaf ''A long random string, identical on the server and the clients.'')]),
      (''webPort'', Group [
        (''label'', Leaf ''Port'')]),
      (''webAddr'', Group [
        (''label'', Leaf ''Address'')]),
      (''webUser'', Group [
        (''label'', Leaf ''User'')]),
      (''webPassword'', Group [
        (''label'', Leaf ''Password'')]),
      (''tlsCert'', Group [
        (''label'', Leaf ''Certificate'')]),
      (''tlsKey'', Group [
        (''label'', Leaf ''Private key'')]),
      (''tlsCa'', Group [
        (''label'', Leaf ''Certificate authority'')]),
      (''tlsForce'', Group [
        (''label'', Leaf ''Refuse clients without TLS'')]),
      (''tlsServerName'', Group [
        (''label'', Leaf ''Server name''),
        (''hint'', Leaf ''Name expected in the server certificate.'')]),
      (''kcpBindPort'', Group [
        (''label'', Leaf ''KCP''),
        (''hint'', Leaf ''Faster UDP transport on unstable networks.'')]),
      (''quicBindPort'', Group [
        (''label'', Leaf ''QUIC''),
        (''hint'', Leaf ''Modern UDP transport.'')]),
      (''vhostHTTPPort'', Group [
        (''label'', Leaf ''HTTP (vhost)''),
        (''hint'', Leaf ''Required for HTTP ports.'')]),
      (''vhostHTTPSPort'', Group [
        (''label'', Leaf ''HTTPS (vhost)''),
        (''hint'', Leaf ''Required for HTTPS ports.'')]),
      (''maxPortsPerClient'', Group [
        (''label'', Leaf ''Ports per client''),
        (''hint'', Leaf ''0 = unlimited.'')]),
      (''maxPoolCount'', Group [
        (''label'', Leaf ''Max pre-opened connections'')]),
      (''heartbeatTimeout'', Group [
        (''label'', Leaf ''Disconnect timeout (s)''),
        (''hint'', Leaf ''A client silent for longer is disconnected.'')]),
      (''logTo'', Group [
        (''label'', Leaf ''File'')]),
      (''logLevel'', Group [
        (''label'', Leaf ''Level'')]),
      (''logMaxDays'', Group [
        (''label'', Leaf ''Retention (days)'')]),
      (''serverAddr'', Group [
        (''label'', Leaf ''Server address''),
        (''hint'', Leaf ''IP or domain name of the machine running frps.'')]),
      (''serverPort'', Group [
        (''label'', Leaf ''Server port''),
        (''hint'', Leaf ''The ~201clistening port~201d configured on frps.'')]),
      (''protocol'', Group [
        (''label'', Leaf ''Protocol''),
        (''hint'', Leaf ''tcp unless the server has enabled KCP, QUIC or websocket.'')]),
      (''poolCount'', Group [
        (''label'', Leaf ''Pre-opened connections'')]),
      (''heartbeatInterval'', Group [
        (''label'', Leaf ''Heartbeat interval (s)'')]),
      (''dnsServer'', Group [
        (''label'', Leaf ''DNS server'')]),
      (''proxyURL'', Group [
        (''label'', Leaf ''Outgoing proxy''),
        (''hint'', Leaf ''To reach the server through an HTTP or SOCKS5 proxy.'')])])]"

definition en_logs :: "(string \<times> lang) list" where
  "en_logs = [
    (''title'', Leaf ''Logs''),
    (''description'', Leaf ''The last 200 lines, or the live stream.''),
    (''emptyTitle'', Leaf ''No logs to show''),
    (''emptyText'', Leaf ''No frp service was detected on this machine.''),
    (''source'', Leaf ''Source''),
    (''sources'', Group [
      (''journal'', Leaf ''systemd''),
      (''console'', Leaf ''Console''),
      (''file'', Leaf ''File'')]),
    (''filter'', Leaf ''Filter lines''),
    (''live'', Leaf ''Live''),
    (''stopLive'', Leaf ''Stop''),
    (''liveOn'', Leaf ''Live''),
    (''liveEnded'', Leaf ''Live stream interrupted. Restart it with ~201cLive~201d.''),
    (''toBottom'', Leaf ''Go to bottom''),
    (''none'', Leaf ''(no lines)'')]"

definition en_updates :: "(string \<times> lang) list" where
  "en_updates = [
    (''title'', Leaf ''Updates''),
    (''description'', Leaf ''Keep frp and the panel up to date.''),
    (''installed'', Leaf ''Installed''),
    (''latest'', Leaf ''Latest version''),
    (''status'', Leaf ''Status''),
    (''checking'', Leaf ''Checking~2026''),
    (''check'', Leaf ''Check''),
    (''upToDate'', Leaf ''Up to date''),
    (''available'', Leaf ''Update available''),
    (''notInstalled'', Leaf ''Not installed''),
    (''unreachable'', Leaf ''GitHub unreachable''),
    (''source'', Leaf ''Source: {source}''),
    (''log'', Leaf ''Installation log''),
    (''logEmpty'', Leaf ''Waiting~2026''),
    (''install'', Leaf ''Install''),
    (''installVersion'', Leaf ''Install v{v}''),
    (''installFrp'', Leaf ''Install frp v{v}''),
    (''installConfirmTitle'', Leaf ''Install the new version of frp?''),
    (''installConfirmText'', Leaf ''The frps and frpc binaries will be replaced and the services restarted. Ports will be down for a few seconds.''),
    (''installing'', Leaf ''Installing~2026''),
    (''installDone'', Leaf ''frp is up to date''),
    (''installFailed'', Leaf ''Installation failed, check the log.''),
    (''frpTitle'', Leaf ''frp''),
    (''frpDesc'', Leaf ''The frps and frpc programs on this machine.''),
    (''dockerTitle'', Leaf ''frp is managed by your containers''),
    (''dockerText'', Leaf ''In Docker mode, update frp by changing the version of the fatedier/frps and fatedier/frpc images.''),
    (''standaloneTitle'', Leaf ''Standalone mode''),
    (''standaloneText'', Leaf ''The frp version installed here is kept in the /data volume and replaces the image~2019s one, until a new image brings a newer one.''),
    (''toolsTitle'', Leaf ''Troubleshooting''),
    (''toolsDesc'', Leaf ''If an frp update does not go through.''),
    (''manualTitle'', Leaf ''Install from an archive''),
    (''manualHint'', Leaf ''if GitHub cannot be reached from this server''),
    (''manualText1'', Leaf ''Download the frp_X.Y.Z_linux_amd64.tar.gz archive from''),
    (''manualText2'', Leaf '' on your computer, then upload it here.''),
    (''manualVersion'', Leaf ''Version''),
    (''manualFile'', Leaf ''.tar.gz archive''),
    (''manualInstall'', Leaf ''Upload and install''),
    (''manualNoFile'', Leaf ''Choose a .tar.gz archive.''),
    (''manualNoVersion'', Leaf ''Enter the archive~2019s version.''),
    (''connTitle'', Leaf ''Test access to the sources''),
    (''connHint'', Leaf ''to understand a failed update''),
    (''connTest'', Leaf ''Run the test''),
    (''connTesting'', Leaf ''Testing~2026''),
    (''connNone'', Leaf ''No source to test.''),
    (''panelTitle'', Leaf ''FRP Manager panel''),
    (''panelDesc'', Leaf ''This interface.''),
    (''panelUpdate'', Leaf ''Update the panel''),
    (''panelConfirmTitle'', Leaf ''Update the panel?''),
    (''panelConfirmText'', Leaf ''The panel will download the new version, then restart. The page will reload on its own.''),
    (''panelUpdating'', Leaf ''Updating the panel~2026''),
    (''panelRestarting'', Leaf ''The panel is restarting, reloading in a few seconds~2026''),
    (''panelDockerTitle'', Leaf ''Update through Docker''),
    (''panelDockerText'', Leaf ''Pull the new image, then recreate the container (for example from Portainer).''),
    (''releaseNotes'', Leaf ''Release notes''),
    (''repoMissing'', Leaf ''Repository not configured''),
    (''prerelease'', Leaf ''Pre-release''),
    (''prereleaseDockerText'', Leaf ''Test version under Docker: change the image tag (for example :dev or :latest) to update.''),
    (''prereleaseChannel'', Leaf ''Test version: this panel follows pre-releases and updates to the most recently published version, pre-release or release.''),
    (''prereleaseAvailable'', Leaf ''New version available''),
    (''prereleaseUpToDate'', Leaf ''Pre-release up to date'')]"

definition en_settings :: "(string \<times> lang) list" where
  "en_settings = [
    (''title'', Leaf ''Settings''),
    (''description'', Leaf ''Your account, frp configuration, panel access, notifications and updates.''),
    (''sections'', Leaf ''Settings sections''),
    (''groups'', Group [
      (''personal'', Leaf ''Personal''),
      (''frp'', Leaf ''frp''),
      (''access'', Leaf ''Access and security''),
      (''system'', Leaf ''System'')]),
    (''loadError'', Leaf ''Could not read the settings''),
    (''security'', Group [
      (''title'', Leaf ''Credentials''),
      (''desc'', Leaf ''Asked for when opening the panel.''),
      (''protected'', Leaf ''The panel is protected by a password.''),
      (''unprotectedTitle'', Leaf ''No password''),
      (''unprotectedText'', Leaf ''The panel is open to anyone who can reach it.''),
      (''username'', Leaf ''Username''),
      (''newPassword'', Leaf ''New password''),
      (''passwordHint'', Leaf ''At least 12 characters.''),
      (''keepPassword'', Leaf ''Leave empty to keep it''),
      (''confirm'', Leaf ''Confirm password''),
      (''mismatch'', Leaf ''The two passwords don~2019t match.''),
      (''tooShort'', Leaf ''At least 12 characters.''),
      (''save'', Leaf ''Update credentials''),
      (''saved'', Leaf ''Username saved''),
      (''passwordSaved'', Leaf ''Password saved'')]),
    (''network'', Group [
      (''title'', Leaf ''Panel access''),
      (''desc'', Leaf ''Where the panel listens, how long a session stays open and where frp is downloaded from.''),
      (''listenTitle'', Leaf ''Listening and sessions''),
      (''listenDesc'', Leaf ''Panel address and port, sign-out after inactivity.''),
      (''downloadsTitle'', Leaf ''Downloads''),
      (''host'', Leaf ''Listening address''),
      (''hostHint'', Leaf ''127.0.0.1: this machine only (default, ideal behind a reverse proxy). 0.0.0.0: the whole network.''),
      (''port'', Leaf ''Port''),
      (''timeout'', Leaf ''Log out after (minutes)''),
      (''timeoutHint'', Leaf ''Idle time before you have to log in again.''),
      (''timeoutMin'', Leaf ''At least 5 minutes.''),
      (''restartNote'', Leaf ''The address and port take effect the next time frp-manager restarts.''),
      (''saved'', Leaf ''Saved. Restart frp-manager to apply the address and port.''),
      (''mirrors'', Leaf ''Third-party download mirrors''),
      (''mirrorsDesc'', Leaf ''If github.com does not respond, frp is downloaded through ghproxy, ghfast or gh-proxy. These intermediaries could tamper with the file: it is only accepted if its SHA-256 matches the published one.''),
      (''mirrorsSaved'', Leaf ''Download preference saved''),
      (''statsTitle'', Leaf ''Anonymous statistics''),
      (''stats'', Leaf ''Send anonymous statistics''),
      (''statsDesc'', Leaf ''Once a day, the panel tells the project website its version, its architecture and its install method. No identifier or address: the website only keeps daily counters, without IP addresses. It helps to know which versions are still in use.''),
      (''statsPayload'', Leaf ''Content sent, nothing else''),
      (''statsOn'', Leaf ''Anonymous statistics turned on. Thank you!''),
      (''statsOff'', Leaf ''Anonymous statistics turned off'')]),
    (''account'', Group [
      (''title'', Leaf ''My account''),
      (''desc'', Leaf ''Your username, your rights, your password and your passkeys.''),
      (''oidcDesc'', Leaf ''Your username and your rights.''),
      (''oidcNote'', Leaf ''You sign in with OpenID Connect: your password is managed by the identity provider.''),
      (''profile'', Leaf ''Profile''),
      (''password'', Leaf ''Password''),
      (''username'', Leaf ''Username''),
      (''role'', Leaf ''Role''),
      (''instances'', Leaf ''Instances''),
      (''current'', Leaf ''Current password''),
      (''change'', Leaf ''Change password'')]),
    (''passkeys'', Group [
      (''title'', Leaf ''Passkeys''),
      (''desc'', Leaf ''Sign in without a password: your device recognises you (fingerprint, face, PIN) and signs the sign-in. Your password keeps working.''),
      (''add'', Leaf ''Add a passkey''),
      (''empty'', Leaf ''No passkey for this account.''),
      (''synced'', Leaf ''synced''),
      (''created'', Leaf ''Added''),
      (''lastUsed'', Leaf ''Last used''),
      (''rename'', Leaf ''Rename''),
      (''renameTitle'', Leaf ''Rename the passkey''),
      (''name'', Leaf ''Name''),
      (''nameHint'', Leaf ''To recognise it in this list. Left empty: the passkey manager~2019s name, if known.''),
      (''namePlaceholder'', Leaf ''Phone, security key~2026''),
      (''addTitle'', Leaf ''Add a passkey''),
      (''addDesc'', Leaf ''Confirm your password, then follow the instructions of your browser or device.''),
      (''continue'', Leaf ''Continue''),
      (''already'', Leaf ''This device already has a passkey for this account.''),
      (''cancelled'', Leaf ''Passkey creation cancelled.''),
      (''failed'', Leaf ''The browser could not create the passkey.''),
      (''refused'', Leaf ''The browser refuses passkeys on this site: it needs a domain name with a valid HTTPS certificate (the panel~2019s self-signed certificate is not enough).''),
      (''deleteTitle'', Leaf ''Delete the passkey ~201c{name}~201d?''),
      (''deleteText'', Leaf ''It will no longer sign you in, and the sessions opened with it are closed. Remember to remove it from your passkey manager too.''),
      (''unavailable'', Group [
        (''insecure'', Leaf ''Passkeys require HTTPS: open the panel over https:// (or via http://localhost).''),
        (''ip'', Leaf ''Passkeys require a domain name: open the panel by its name (e.g. panel.example.com or localhost) rather than by an IP address.''),
        (''browser'', Leaf ''This browser does not support passkeys.'')])]),
    (''prefs'', Group [
      (''title'', Leaf ''Appearance''),
      (''desc'', Leaf ''Theme and language, saved in this browser.''),
      (''theme'', Leaf ''Theme''),
      (''themeAuto'', Leaf ''System''),
      (''themeLight'', Leaf ''Light''),
      (''themeDark'', Leaf ''Dark''),
      (''language'', Leaf ''Language''),
      (''languageSoon'', Leaf ''More languages will come in a future version.''),
      (''preview'', Leaf ''preview''),
      (''languagePreview'', Leaf ''Recent translation: please report any mistake on GitHub.'')])]"

definition en_notifications :: "(string \<times> lang) list" where
  "en_notifications = [
    (''title'', Leaf ''Notifications''),
    (''description'', Leaf ''Get an alert on Discord, Slack, Telegram, ntfy, Gotify or your own service when an instance goes down, an address gets locked out or an update is released.''),
    (''add'', Leaf ''Add a webhook''),
    (''loadError'', Leaf ''Could not read the webhooks''),
    (''emptyTitle'', Leaf ''No webhooks''),
    (''emptyText'', Leaf ''A webhook sends a message to the address of your choice when something happens: instance stopped, suspicious sign-in, update available~2026''),
    (''enabled'', Leaf ''Webhook enabled''),
    (''allEvents'', Leaf ''All events''),
    (''eventCount'', Group [
      (''one'', Leaf ''{count} event''),
      (''other'', Leaf ''{count} events'')]),
    (''destination'', Leaf ''Destination''),
    (''eventsLabel'', Leaf ''Events''),
    (''test'', Leaf ''Send a test''),
    (''deleteTitle'', Leaf ''Delete ~201c{name}~201d?''),
    (''deleteText'', Leaf ''This webhook will stop receiving notifications.''),
    (''deleted'', Leaf ''Webhook deleted''),
    (''saved'', Leaf ''Webhook saved''),
    (''newTitle'', Leaf ''New webhook''),
    (''editTitle'', Leaf ''Edit ~201c{name}~201d''),
    (''editorHint'', Leaf ''The address and secret stay on the server: leave them empty to keep the ones already saved.''),
    (''name'', Leaf ''Name''),
    (''namePlaceholder'', Leaf ''Server alerts''),
    (''nameMissing'', Leaf ''Give the webhook a name.''),
    (''eventsMissing'', Leaf ''Pick at least one event.''),
    (''format'', Leaf ''Format''),
    (''url'', Leaf ''Webhook address''),
    (''keepUrl'', Leaf ''Leave empty to keep {url}''),
    (''chatId'', Leaf ''Chat ID''),
    (''chatIdHint'', Leaf ''Telegram: message the bot, then read chat.id in getUpdates.''),
    (''secret'', Leaf ''Signing secret''),
    (''secretHint'', Leaf ''Every request carries an X-FRPManager-Signature header (HMAC-SHA256 of the body), to check it really comes from the panel.''),
    (''keepSecret'', Leaf ''Leave empty to keep it''),
    (''clearSecret'', Leaf ''Remove the saved secret''),
    (''headers'', Leaf ''HTTP headers''),
    (''headersHint'', Leaf ''One per line, ~201cName: value~201d (API token, Authorization~2026).''),
    (''keepHeaders'', Leaf ''Leave empty to keep the saved headers''),
    (''clearHeaders'', Leaf ''Remove the saved headers''),
    (''template'', Leaf ''Body template (JSON)''),
    (''templateHint'', Leaf ''Replaces the standard JSON. Variables: {{event}}, {{title}}, {{message}}, {{level}}, {{host}}, {{time}}, {{instance}}, {{subject}}, {{version}}.''),
    (''lang'', Leaf ''Message language''),
    (''cooldown'', Leaf ''Delay between two sends (s)''),
    (''cooldownHint'', Leaf ''The same event on the same subject is only sent again after this delay (0: none).''),
    (''presetsHint'', Leaf ''Starting points:''),
    (''onlyInstances'', Leaf ''Limit to instances''),
    (''onlyInstancesHint'', Leaf ''Nothing ticked: all instances.''),
    (''formats'', Group [
      (''discord'', Leaf ''Discord''),
      (''slack'', Leaf ''Slack / Mattermost''),
      (''telegram'', Leaf ''Telegram''),
      (''ntfy'', Leaf ''ntfy''),
      (''gotify'', Leaf ''Gotify''),
      (''generic'', Leaf ''JSON (generic)''),
      (''text'', Leaf ''Plain text'')]),
    (''formatHint'', Group [
      (''discord'', Leaf ''Webhook address (channel settings ~203a Integrations). Shown as a coloured card.''),
      (''slack'', Leaf ''Address of an Incoming Webhook; Mattermost and Rocket.Chat accept the same format.''),
      (''telegram'', Leaf ''https://api.telegram.org/bot<token>: the panel appends /sendMessage.''),
      (''ntfy'', Leaf ''Topic address, on ntfy.sh or your own server. Priority follows severity.''),
      (''gotify'', Leaf ''Address of /message with ?token=~2026 from your Gotify application.''),
      (''generic'', Leaf ''JSON {event, level, title, message, host, time, instance, data}, signable, or your own template.''),
      (''text'', Leaf ''Title, message and machine name as plain text.'')]),
    (''levels'', Group [
      (''info'', Leaf ''info''),
      (''success'', Leaf ''success''),
      (''warning'', Leaf ''warning''),
      (''error'', Leaf ''critical'')]),
    (''groups'', Group [
      (''instances'', Leaf ''frp instances''),
      (''security'', Leaf ''Security''),
      (''changes'', Leaf ''Changes''),
      (''updates'', Leaf ''Updates and panel'')]),
    (''presets'', Group [
      (''outages'', Leaf ''Outages''),
      (''security'', Leaf ''Security''),
      (''updates'', Leaf ''Updates''),
      (''all'', Leaf ''Everything'')]),
    (''events'', Group [
      (''instance'', Group [
        (''down'', Leaf ''Instance stopped''),
        (''up'', Leaf ''Instance started'')]),
      (''login'', Group [
        (''success'', Leaf ''Panel sign-in''),
        (''locked'', Leaf ''Address locked out (failed sign-ins)'')]),
      (''config'', Group [
        (''saved'', Leaf ''Configuration changed'')]),
      (''firewall'', Group [
        (''saved'', Leaf ''Firewall rules changed'')]),
      (''update'', Group [
        (''panel'', Leaf ''Panel update available''),
        (''frp'', Leaf ''New frp version available''),
        (''frp_installed'', Leaf ''frp updated'')]),
      (''panel'', Group [
        (''started'', Leaf ''Panel started'')])]),
    (''history'', Group [
      (''title'', Leaf ''Latest sends''),
      (''desc'', Leaf ''Since the panel started.''),
      (''time'', Leaf ''Time''),
      (''webhook'', Leaf ''Webhook''),
      (''event'', Leaf ''Event''),
      (''result'', Leaf ''Result''),
      (''test'', Leaf ''Test''),
      (''sent'', Leaf ''Sent''),
      (''failed'', Leaf ''Failed: {detail}''),
      (''empty'', Leaf ''Nothing sent yet.'')])]"

definition en_welcome :: "(string \<times> lang) list" where
  "en_welcome = [
    (''title'', Leaf ''Before you start''),
    (''warnTitle'', Leaf ''This panel controls your open ports''),
    (''warnText'', Leaf ''If it can be reached from the Internet, protect it now.''),
    (''tip1'', Leaf ''Set a strong password in Settings.''),
    (''tip2'', Leaf ''Restrict access by IP with your firewall or reverse proxy.''),
    (''tip3'', Leaf ''Serve the panel over HTTPS, behind nginx or Caddy for example.''),
    (''tip4'', Leaf ''Never expose the panel without a password.''),
    (''later'', Leaf ''Remind me later''),
    (''setPassword'', Leaf ''Set a password''),
    (''ok'', Leaf ''Got it'')]"

definition en_users :: "(string \<times> lang) list" where
  "en_users = [
    (''title'', Leaf ''Users''),
    (''description'', Leaf ''Who can open the panel, and to do what. Rights apply at once, open sessions included.''),
    (''add'', Leaf ''Add an account''),
    (''loadError'', Leaf ''Unable to read the accounts''),
    (''emptyTitle'', Leaf ''No accounts''),
    (''owner'', Leaf ''owner''),
    (''you'', Leaf ''you''),
    (''oidcPending'', Leaf ''OIDC, pending''),
    (''enabled'', Leaf ''Active account''),
    (''enabledDesc'', Leaf ''When disabled, the account can no longer sign in and its sessions are closed.''),
    (''enabledOn'', Leaf ''Account enabled''),
    (''enabledOff'', Leaf ''Account disabled''),
    (''instancesLabel'', Leaf ''Instances''),
    (''allInstances'', Leaf ''All instances''),
    (''someInstances'', Leaf ''Some instances''),
    (''noInstances'', Leaf ''No instance detected.''),
    (''pickInstance'', Leaf ''Tick at least one instance.''),
    (''scopeNote'', Leaf ''Limited to some instances, an account only keeps rights on those instances (status, control, configuration, logs): ports, firewall, updates, notifications and settings are removed.''),
    (''lastLogin'', Leaf ''Last sign-in''),
    (''never'', Leaf ''never''),
    (''passkeysBadge'', Group [
      (''one'', Leaf ''{count} passkey''),
      (''other'', Leaf ''{count} passkeys'')]),
    (''removePasskeys'', Group [
      (''one'', Leaf ''Remove their passkey''),
      (''other'', Leaf ''Remove their {count} passkeys'')]),
    (''removePasskeysDesc'', Leaf ''Lost or stolen device: the account can then only sign in with its password, and sessions opened with a passkey are closed.''),
    (''deleteTitle'', Leaf ''Delete the account ~201c{name}~201d?''),
    (''deleteText'', Leaf ''Its open sessions are closed at once.''),
    (''newTitle'', Leaf ''New account''),
    (''editTitle'', Leaf ''Account ~201c{name}~201d''),
    (''editorHint'', Leaf ''A ready-made role, or ~201cCustom~201d to pick each permission.''),
    (''create'', Leaf ''Create account''),
    (''source'', Leaf ''Sign-in''),
    (''sourceLocal'', Leaf ''Password''),
    (''username'', Leaf ''Username''),
    (''password'', Leaf ''Password''),
    (''newPassword'', Leaf ''New password''),
    (''keepPassword'', Leaf ''Leave empty to keep it''),
    (''passwordHint'', Leaf ''At least 12 characters. Changing the password closes the account~2019s sessions.''),
    (''email'', Leaf ''Email address''),
    (''emailHint'', Leaf ''The account is linked on the first OpenID Connect sign-in whose email, verified by the provider, is this one.''),
    (''role'', Leaf ''Role''),
    (''roles'', Group [
      (''admin'', Leaf ''Administrator''),
      (''operator'', Leaf ''Operator''),
      (''viewer'', Leaf ''Viewer''),
      (''custom'', Leaf ''Custom'')]),
    (''roleHints'', Group [
      (''admin'', Leaf ''Everything, on every instance, including accounts and single sign-on.''),
      (''operator'', Leaf ''Controls instances, edits configurations and ports. No accounts, settings or panel update.''),
      (''viewer'', Leaf ''Sees status, logs, ports and firewall. Can~2019t see configurations (they hold the frp tokens).''),
      (''custom'', Leaf ''Tick the permissions you want; the ones they imply are added automatically.'')]),
    (''sensitive'', Leaf ''sensitive''),
    (''permGroups'', Group [
      (''instances'', Leaf ''Instances''),
      (''config'', Leaf ''Configuration''),
      (''logs'', Leaf ''Logs''),
      (''ports'', Leaf ''Ports''),
      (''firewall'', Leaf ''Firewall''),
      (''updates'', Leaf ''Updates''),
      (''webhooks'', Leaf ''Notifications''),
      (''settings'', Leaf ''Settings''),
      (''users'', Leaf ''Accounts'')]),
    (''perms'', Group [
      (''instances_view'', Leaf ''See instances and their status''),
      (''instances_control'', Leaf ''Start, stop, rename''),
      (''instances_create'', Leaf ''Create an instance''),
      (''instances_delete'', Leaf ''Delete an instance''),
      (''config_read'', Leaf ''Read configurations''),
      (''config_write'', Leaf ''Edit configurations''),
      (''logs_view'', Leaf ''Read logs''),
      (''ports_view'', Leaf ''See ports''),
      (''ports_manage'', Leaf ''Open ports (ufw)''),
      (''firewall_view'', Leaf ''See the firewall''),
      (''firewall_manage'', Leaf ''Edit the firewall''),
      (''updates_view'', Leaf ''See updates''),
      (''updates_install'', Leaf ''Install frp''),
      (''updates_panel'', Leaf ''Update the panel''),
      (''webhooks_view'', Leaf ''See notifications''),
      (''webhooks_manage'', Leaf ''Manage notifications''),
      (''settings_manage'', Leaf ''Panel settings''),
      (''users_manage'', Leaf ''Manage accounts'')]),
    (''oidc'', Group [
      (''title'', Leaf ''Single sign-on''),
      (''desc'', Leaf ''OpenID Connect: Keycloak, Authentik, Authelia, Zitadel, Google, Microsoft Entra~2026 Register the panel as a ~201cconfidential~201d client at the provider, with the redirect address below.''),
      (''loadError'', Leaf ''Unable to read single sign-on''),
      (''enable'', Leaf ''Enable single sign-on''),
      (''enableDesc'', Leaf ''Adds a button to the sign-in page. Password sign-in always remains available.''),
      (''issuer'', Leaf ''Issuer''),
      (''issuerHint'', Leaf ''Base address: the panel reads <issuer>/.well-known/openid-configuration.''),
      (''clientId'', Leaf ''Client ID''),
      (''clientSecret'', Leaf ''Client secret''),
      (''clientSecretHint'', Leaf ''Empty for a public client (PKCE only).''),
      (''keepSecret'', Leaf ''Saved: leave empty to keep it''),
      (''noSecret'', Leaf ''No secret saved''),
      (''redirect'', Leaf ''Redirect URI''),
      (''redirectHint'', Leaf ''To register at the provider. Behind a reverse proxy, enter the public address if the suggested one is wrong.''),
      (''label'', Leaf ''Button name''),
      (''labelHint'', Leaf ''~201cSign in with ~2026~201d''),
      (''scopes'', Leaf ''Scopes''),
      (''usernameClaim'', Leaf ''Username claim''),
      (''autoCreate'', Leaf ''Create accounts on first sign-in''),
      (''autoCreateDesc'', Leaf ''Otherwise, only accounts prepared here (by email) can sign in.''),
      (''defaultRole'', Leaf ''Role of new accounts''),
      (''defaultRoleHint'', Leaf ''Never administrator by default.''),
      (''domains'', Leaf ''Allowed email domains''),
      (''domainsHint'', Leaf ''Comma-separated. Empty: all (automatic creation only).''),
      (''groupsClaim'', Leaf ''Groups claim''),
      (''groupRoles'', Leaf ''Role by group''),
      (''groupRolesHint'', Leaf ''If set, groups decide the role at each sign-in (the highest wins; no known group: role of new accounts).''),
      (''group'', Leaf ''Group''),
      (''addGroup'', Leaf ''Add a group''),
      (''test'', Leaf ''Test the provider'')])]"

definition en_login :: "(string \<times> lang) list" where
  "en_login = [
    (''docTitle'', Leaf ''Log in''),
    (''title'', Leaf ''Log in to FRP Manager''),
    (''subtitle'', Leaf ''Enter your credentials to manage your ports.''),
    (''username'', Leaf ''Username''),
    (''password'', Leaf ''Password''),
    (''submit'', Leaf ''Log in''),
    (''missing'', Leaf ''Enter your username and password.''),
    (''failed'', Leaf ''Wrong username or password.''),
    (''or'', Leaf ''or''),
    (''sso'', Leaf ''Sign in with {name}''),
    (''passkey'', Leaf ''Sign in with a passkey''),
    (''passkeyFailed'', Leaf ''Passkey sign-in failed.''),
    (''passkeyCancelled'', Leaf ''Passkey sign-in cancelled.''),
    (''passkeyRefused'', Leaf ''The browser refuses passkeys on this site (invalid HTTPS certificate?).''),
    (''oidcError'', Group [
      (''disabled'', Leaf ''Single sign-on is not enabled.''),
      (''state'', Leaf ''The sign-in expired or was started in another tab: try again.''),
      (''denied'', Leaf ''Sign-in refused by the identity provider.''),
      (''provider'', Leaf ''The identity provider is unreachable or misconfigured.''),
      (''token'', Leaf ''The identity provider refused to exchange the sign-in code.''),
      (''claims'', Leaf ''Invalid response from the identity provider.''),
      (''no_account'', Leaf ''No panel account matches this identity. Ask an administrator to create one for you.''),
      (''disabled_user'', Leaf ''This account is disabled.''),
      (''domain'', Leaf ''Your email address is not in an allowed domain (or is not verified).'')])]"

definition en_setup :: "(string \<times> lang) list" where
  "en_setup = [
    (''docTitle'', Leaf ''Initial setup''),
    (''title'', Leaf ''Initial setup''),
    (''subtitle'', Leaf ''Create the administrator account. The panel stays locked until this is done.''),
    (''username'', Leaf ''Username''),
    (''password'', Leaf ''Password''),
    (''stats'', Leaf ''Send anonymous statistics''),
    (''statsHint'', Leaf ''Version, architecture and install method, once a day. No personal data; can be changed in Settings ~2192 Panel access.''),
    (''passwordHint'', Leaf ''At least 12 characters. A passphrase works great.''),
    (''confirm'', Leaf ''Confirm password''),
    (''submit'', Leaf ''Create account''),
    (''usernameMissing'', Leaf ''Choose a username.''),
    (''tooShort'', Leaf ''The password must be at least {n} characters long.''),
    (''mismatch'', Leaf ''The two passwords don~2019t match.''),
    (''stats'', Leaf ''Send anonymous statistics''),
    (''statsHint'', Leaf ''Version, architecture and install method, once a day. No personal data; can be changed in Settings ~2192 Panel access.'')]"

definition en_groups :: "(string \<times> lang) list" where
  "en_groups = [
    (''nav'', Group en_nav),
    (''footer'', Group en_footer),
    (''common'', Group en_common),
    (''errors'', Group en_errors),
    (''instance'', Group en_instance),
    (''status'', Group en_status),
    (''actions'', Group en_actions),
    (''dashboard'', Group en_dashboard),
    (''tunnels'', Group en_tunnels),
    (''firewall'', Group (en_firewall_1 @ en_firewall_2)),
    (''visitors'', Group en_visitors),
    (''validation'', Group en_validation),
    (''config'', Group en_config),
    (''logs'', Group en_logs),
    (''updates'', Group en_updates),
    (''settings'', Group en_settings),
    (''notifications'', Group en_notifications),
    (''welcome'', Group en_welcome),
    (''users'', Group en_users),
    (''login'', Group en_login),
    (''setup'', Group en_setup)]"

definition en :: dict where
  "en = dict_of (Group en_groups)"

end
