(* ===== verification/Panel_Languages.thy ===== *)
theory Panel_Languages imports Panel_Fr Panel_En begin

text \<open>
  The two dictionaries, one group of texts after the other: the same names, and the same parameters in the texts.
\<close>

lemma agree_nav: "agree_all fr_nav en_nav"
  by code_simp

lemma agree_footer: "agree_all fr_footer en_footer"
  by code_simp

lemma agree_common: "agree_all fr_common en_common"
  by code_simp

lemma agree_errors: "agree_all fr_errors en_errors"
  by code_simp

lemma agree_instance: "agree_all fr_instance en_instance"
  by code_simp

lemma agree_status: "agree_all fr_status en_status"
  by code_simp

lemma agree_actions: "agree_all fr_actions en_actions"
  by code_simp

lemma agree_dashboard: "agree_all fr_dashboard en_dashboard"
  by code_simp

lemma agree_tunnels: "agree_all fr_tunnels en_tunnels"
  by code_simp

lemma agree_firewall_1: "agree_all fr_firewall_1 en_firewall_1"
  by code_simp

lemma agree_firewall_2: "agree_all fr_firewall_2 en_firewall_2"
  by code_simp

lemma agree_visitors: "agree_all fr_visitors en_visitors"
  by code_simp

lemma agree_validation: "agree_all fr_validation en_validation"
  by code_simp

lemma agree_config: "agree_all fr_config en_config"
  by code_simp

lemma agree_logs: "agree_all fr_logs en_logs"
  by code_simp

lemma agree_updates: "agree_all fr_updates en_updates"
  by code_simp

lemma agree_settings: "agree_all fr_settings en_settings"
  by code_simp

lemma agree_notifications: "agree_all fr_notifications en_notifications"
  by code_simp

lemma agree_welcome: "agree_all fr_welcome en_welcome"
  by code_simp

lemma agree_users: "agree_all fr_users en_users"
  by code_simp

lemma agree_login: "agree_all fr_login en_login"
  by code_simp

lemma agree_setup: "agree_all fr_setup en_setup"
  by code_simp

lemma agree_groups: "agree (Group fr_groups) (Group en_groups)"
  by (simp add: fr_groups_def en_groups_def agree_all_append
    agree_nav agree_footer agree_common agree_errors agree_instance agree_status agree_actions agree_dashboard
    agree_tunnels agree_firewall_1 agree_firewall_2 agree_visitors agree_validation agree_config agree_logs
    agree_updates agree_settings agree_notifications agree_welcome agree_users agree_login agree_setup)

text \<open>C39. The two languages name the same texts: for every name, either both dictionaries have a text, with the same
  parameters, or both have a group of the same names, or neither has anything.\<close>

theorem languages_agree:
  "case lookup fr key of None \<Rightarrow> lookup en key = None
    | Some (Txt s) \<Rightarrow> \<exists>s'. lookup en key = Some (Txt s') \<and> set (params_in s') = set (params_in s)
    | Some (Node ds) \<Rightarrow> \<exists>ds'. lookup en key = Some (Node ds') \<and> map fst ds' = map fst ds"
  unfolding fr_def en_def by (rule agree_texts [OF agree_groups])

end
