(* ===== verification/Panel_Keys.thy ===== *)
theory Panel_Keys imports Page_Config Page_Notifications Page_Settings Page_Tunnels Page_Users Page_Dashboard Panel_Passkey begin

text \<open>
  The names of texts that the pages build from their own data (\<open>i18n.js\<close> looks them up): settings of an instance,
  kinds of notifications, roles and permissions, sections.
\<close>

subsection \<open>The names of texts the pages build\<close>

definition sectionTitle :: "bool \<Rightarrow> csection \<Rightarrow> jstr" where
  "sectionTitle frps s = lit ''config.sections.'' @ (if frps then lit ''frps'' else lit ''frpc'') @ lit ''.'' @ s_id s @ lit ''.title''"

definition sectionDesc :: "bool \<Rightarrow> csection \<Rightarrow> jstr" where
  "sectionDesc frps s = lit ''config.sections.'' @ (if frps then lit ''frps'' else lit ''frpc'') @ lit ''.'' @ s_id s @ lit ''.desc''"

definition toggle_label :: "csection \<Rightarrow> jstr list" where
  "toggle_label s = (case s_toggle s of Some (name, key) \<Rightarrow> [lit ''config.toggles.'' @ name] | None \<Rightarrow> [])"

definition field_label :: "cfield \<Rightarrow> jstr" where
  "field_label f = lit ''config.fields.'' @ f_name f @ lit ''.label''"

definition config_keys :: "jstr list" where
  "config_keys = concat (map (\<lambda>frps. concat (map (\<lambda>s. sectionTitle frps s # sectionDesc frps s # toggle_label s
     @ map field_label (s_fields s)) (SCHEMA frps))) [True, False])"

definition notification_keys :: "jstr list" where
  "notification_keys = map (eventLabel (\<lambda>k. k)) (STAR # event_ids) @ map (\<lambda>g. lit ''notifications.groups.'' @ fst g) EVENT_GROUPS
     @ map (\<lambda>p. lit ''notifications.presets.'' @ ps_id p) PRESETS
     @ concat (map (\<lambda>f. [lit ''notifications.formats.'' @ f, lit ''notifications.formatHint.'' @ f]) FORMATS)"

text \<open>The permissions of the server (\<open>auth.go\<close>), and how a page names a role, a permission and a group of them.\<close>

definition permissionOrder :: "jstr list" where
  "permissionOrder = map lit [''instances.view'', ''instances.control'', ''instances.create'', ''instances.delete'', ''config.read'',
     ''config.write'', ''logs.view'', ''ports.view'', ''ports.manage'', ''firewall.view'', ''firewall.manage'', ''updates.view'',
     ''updates.install'', ''updates.panel'', ''webhooks.view'', ''webhooks.manage'', ''settings.manage'', ''users.manage'']"

definition roleOrder :: "jstr list" where
  "roleOrder = map lit [''admin'', ''operator'', ''viewer'']"

definition roleLabel :: "jstr \<Rightarrow> jstr" where
  "roleLabel role = lit ''users.roles.'' @ role"

definition permLabel :: "jstr \<Rightarrow> jstr" where
  "permLabel i = lit ''users.perms.'' @ (case indexOf i (lit ''.'') of Some n \<Rightarrow> take n i @ lit ''_'' @ drop (n + 1) i | None \<Rightarrow> i)"

definition group_label :: "jstr \<Rightarrow> jstr" where
  "group_label i = lit ''users.permGroups.'' @ hd (split_on c_dot i)"

definition user_keys :: "jstr list" where
  "user_keys = concat (map (\<lambda>r. [roleLabel r, lit ''users.roleHints.'' @ r]) (roleOrder @ [lit ''custom'']))
     @ concat (map (\<lambda>i. [permLabel i, group_label i]) permissionOrder)"

definition other_keys :: "jstr list" where
  "other_keys = map (\<lambda>g. lit ''settings.groups.'' @ fst g) GROUPS
     @ map (\<lambda>r. lit ''settings.passkeys.unavailable.'' @ r)
         [passkeysUnavailable False [] True, passkeysUnavailable True (lit ''1.2.3.4'') True, passkeysUnavailable True [] False]
     @ map (\<lambda>tp. lit ''tunnels.types.'' @ tp) (PROXY_TYPES @ [TCP_UDP])"

end
