(* ===== verification/Panel_Texts.thy ===== *)
theory Panel_Texts imports Panel_Languages Panel_Keys begin

text \<open>
  The two dictionaries against each other, and against the pages that build the name of a text from their own
  data: what a user reads is never the name of a text, and a text of one language takes the parameters of the
  other.
\<close>


lemma config_keys_written:
  "config_keys = map lit
    [''config.sections.frps.connection.title'', ''config.sections.frps.connection.desc'',
     ''config.fields.bindPort.label'', ''config.fields.bindAddr.label'', ''config.fields.proxyBindAddr.label'',
     ''config.sections.frps.auth.title'', ''config.sections.frps.auth.desc'', ''config.fields.authMethod.label'',
     ''config.fields.authToken.label'', ''config.sections.frps.dashboard.title'',
     ''config.sections.frps.dashboard.desc'', ''config.toggles.webEnabled'', ''config.fields.webPort.label'',
     ''config.fields.webAddr.label'', ''config.fields.webUser.label'', ''config.fields.webPassword.label'',
     ''config.sections.frps.tls.title'', ''config.sections.frps.tls.desc'', ''config.toggles.tlsEnabled'',
     ''config.fields.tlsCert.label'', ''config.fields.tlsKey.label'', ''config.fields.tlsCa.label'',
     ''config.fields.tlsForce.label'', ''config.sections.frps.extraPorts.title'',
     ''config.sections.frps.extraPorts.desc'', ''config.fields.kcpBindPort.label'',
     ''config.fields.quicBindPort.label'', ''config.fields.vhostHTTPPort.label'',
     ''config.fields.vhostHTTPSPort.label'', ''config.sections.frps.limits.title'',
     ''config.sections.frps.limits.desc'', ''config.fields.maxPortsPerClient.label'',
     ''config.fields.maxPoolCount.label'', ''config.fields.heartbeatTimeout.label'',
     ''config.sections.frps.logs.title'', ''config.sections.frps.logs.desc'', ''config.fields.logTo.label'',
     ''config.fields.logLevel.label'', ''config.fields.logMaxDays.label'', ''config.sections.frpc.server.title'',
     ''config.sections.frpc.server.desc'', ''config.fields.serverAddr.label'',
     ''config.fields.serverPort.label'', ''config.fields.protocol.label'', ''config.sections.frpc.auth.title'',
     ''config.sections.frpc.auth.desc'', ''config.fields.authMethod.label'', ''config.fields.authToken.label'',
     ''config.sections.frpc.tls.title'', ''config.sections.frpc.tls.desc'', ''config.toggles.tlsEnabled'',
     ''config.fields.tlsCert.label'', ''config.fields.tlsKey.label'', ''config.fields.tlsCa.label'',
     ''config.fields.tlsServerName.label'', ''config.sections.frpc.localDashboard.title'',
     ''config.sections.frpc.localDashboard.desc'', ''config.toggles.webEnabled'',
     ''config.fields.webPort.label'', ''config.fields.webAddr.label'', ''config.fields.webUser.label'',
     ''config.fields.webPassword.label'', ''config.sections.frpc.network.title'',
     ''config.sections.frpc.network.desc'', ''config.fields.poolCount.label'',
     ''config.fields.heartbeatInterval.label'', ''config.fields.dnsServer.label'',
     ''config.fields.proxyURL.label'', ''config.sections.frpc.logs.title'', ''config.sections.frpc.logs.desc'',
     ''config.fields.logTo.label'', ''config.fields.logLevel.label'', ''config.fields.logMaxDays.label'']"
  by (simp add: config_keys_def SCHEMA_def SCHEMA_frps_def SCHEMA_frpc_def sect_def fld_def fld_addr_def fld_with_def sectionTitle_def sectionDesc_def toggle_label_def field_label_def lit_simps)

lemma notification_keys_written:
  "notification_keys = map lit
    [''notifications.allEvents'', ''notifications.events.instance.down'', ''notifications.events.instance.up'',
     ''notifications.events.login.locked'', ''notifications.events.login.success'',
     ''notifications.events.config.saved'', ''notifications.events.firewall.saved'',
     ''notifications.events.update.panel'', ''notifications.events.update.frp'',
     ''notifications.events.update.frp_installed'', ''notifications.events.panel.started'',
     ''notifications.groups.instances'', ''notifications.groups.security'', ''notifications.groups.changes'',
     ''notifications.groups.updates'', ''notifications.presets.outages'', ''notifications.presets.security'',
     ''notifications.presets.updates'', ''notifications.presets.all'', ''notifications.formats.discord'',
     ''notifications.formatHint.discord'', ''notifications.formats.slack'', ''notifications.formatHint.slack'',
     ''notifications.formats.telegram'', ''notifications.formatHint.telegram'', ''notifications.formats.ntfy'',
     ''notifications.formatHint.ntfy'', ''notifications.formats.gotify'', ''notifications.formatHint.gotify'',
     ''notifications.formats.generic'', ''notifications.formatHint.generic'', ''notifications.formats.text'',
     ''notifications.formatHint.text'']"
  by (simp add: notification_keys_def eventLabel_def STAR_def event_ids_def EVENT_GROUPS_def PRESETS_def FORMATS_def lit_simps)

lemma user_keys_written:
  "user_keys = map lit
    [''users.roles.admin'', ''users.roleHints.admin'', ''users.roles.operator'', ''users.roleHints.operator'',
     ''users.roles.viewer'', ''users.roleHints.viewer'', ''users.roles.custom'', ''users.roleHints.custom'',
     ''users.perms.instances_view'', ''users.permGroups.instances'', ''users.perms.instances_control'',
     ''users.permGroups.instances'', ''users.perms.instances_create'', ''users.permGroups.instances'',
     ''users.perms.instances_delete'', ''users.permGroups.instances'', ''users.perms.config_read'',
     ''users.permGroups.config'', ''users.perms.config_write'', ''users.permGroups.config'',
     ''users.perms.logs_view'', ''users.permGroups.logs'', ''users.perms.ports_view'',
     ''users.permGroups.ports'', ''users.perms.ports_manage'', ''users.permGroups.ports'',
     ''users.perms.firewall_view'', ''users.permGroups.firewall'', ''users.perms.firewall_manage'',
     ''users.permGroups.firewall'', ''users.perms.updates_view'', ''users.permGroups.updates'',
     ''users.perms.updates_install'', ''users.permGroups.updates'', ''users.perms.updates_panel'',
     ''users.permGroups.updates'', ''users.perms.webhooks_view'', ''users.permGroups.webhooks'',
     ''users.perms.webhooks_manage'', ''users.permGroups.webhooks'', ''users.perms.settings_manage'',
     ''users.permGroups.settings'', ''users.perms.users_manage'', ''users.permGroups.users'']"
  by (simp add: user_keys_def roleOrder_def permissionOrder_def roleLabel_def permLabel_def group_label_def lit_simps)

lemma other_keys_written:
  "other_keys = map lit
    [''settings.groups.personal'', ''settings.groups.frp'', ''settings.groups.access'',
     ''settings.groups.system'', ''settings.passkeys.unavailable.insecure'',
     ''settings.passkeys.unavailable.ip'', ''settings.passkeys.unavailable.browser'', ''tunnels.types.tcp'',
     ''tunnels.types.udp'', ''tunnels.types.http'', ''tunnels.types.https'', ''tunnels.types.stcp'',
     ''tunnels.types.xtcp'', ''tunnels.types.both'']"
  by (simp add: other_keys_def GROUPS_def PROXY_TYPES_def TCP_UDP_def passkeysUnavailable_def is_digit_def lit_simps)

subsection \<open>The names of the English dictionary\<close>

lemma config_outline: "outlines_of en_config =
     [(''fields'', Gr [(''proxyURL'', Gr [(''hint'', Tx), (''label'', Tx)]), (''dnsServer'', Gr [(''label'', Tx)]),
     (''heartbeatInterval'', Gr [(''label'', Tx)]), (''poolCount'', Gr [(''label'', Tx)]), (''protocol'', Gr
     [(''hint'', Tx), (''label'', Tx)]), (''serverPort'', Gr [(''hint'', Tx), (''label'', Tx)]), (''serverAddr'',
     Gr [(''hint'', Tx), (''label'', Tx)]), (''logMaxDays'', Gr [(''label'', Tx)]), (''logLevel'', Gr [(''label'',
     Tx)]), (''logTo'', Gr [(''label'', Tx)]), (''heartbeatTimeout'', Gr [(''hint'', Tx), (''label'', Tx)]),
     (''maxPoolCount'', Gr [(''label'', Tx)]), (''maxPortsPerClient'', Gr [(''hint'', Tx), (''label'', Tx)]),
     (''vhostHTTPSPort'', Gr [(''hint'', Tx), (''label'', Tx)]), (''vhostHTTPPort'', Gr [(''hint'', Tx),
     (''label'', Tx)]), (''quicBindPort'', Gr [(''hint'', Tx), (''label'', Tx)]), (''kcpBindPort'', Gr [(''hint'',
     Tx), (''label'', Tx)]), (''tlsServerName'', Gr [(''hint'', Tx), (''label'', Tx)]), (''tlsForce'', Gr
     [(''label'', Tx)]), (''tlsCa'', Gr [(''label'', Tx)]), (''tlsKey'', Gr [(''label'', Tx)]), (''tlsCert'', Gr
     [(''label'', Tx)]), (''webPassword'', Gr [(''label'', Tx)]), (''webUser'', Gr [(''label'', Tx)]),
     (''webAddr'', Gr [(''label'', Tx)]), (''webPort'', Gr [(''label'', Tx)]), (''authToken'', Gr [(''hint'', Tx),
     (''label'', Tx)]), (''authMethod'', Gr [(''label'', Tx)]), (''proxyBindAddr'', Gr [(''hint'', Tx), (''label'',
     Tx)]), (''bindAddr'', Gr [(''hint'', Tx), (''label'', Tx)]), (''bindPort'', Gr [(''hint'', Tx), (''label'',
     Tx)])]), (''sections'', Gr [(''frpc'', Gr [(''logs'', Gr [(''desc'', Tx), (''title'', Tx)]), (''network'', Gr
     [(''desc'', Tx), (''title'', Tx)]), (''localDashboard'', Gr [(''desc'', Tx), (''title'', Tx)]), (''tls'', Gr
     [(''desc'', Tx), (''title'', Tx)]), (''auth'', Gr [(''desc'', Tx), (''title'', Tx)]), (''server'', Gr
     [(''desc'', Tx), (''title'', Tx)])]), (''frps'', Gr [(''logs'', Gr [(''desc'', Tx), (''title'', Tx)]),
     (''limits'', Gr [(''desc'', Tx), (''title'', Tx)]), (''extraPorts'', Gr [(''desc'', Tx), (''title'', Tx)]),
     (''tls'', Gr [(''desc'', Tx), (''title'', Tx)]), (''dashboard'', Gr [(''desc'', Tx), (''title'', Tx)]),
     (''auth'', Gr [(''desc'', Tx), (''title'', Tx)]), (''connection'', Gr [(''desc'', Tx), (''title'', Tx)])])]),
     (''toggles'', Gr [(''tlsEnabled'', Tx), (''webEnabled'', Tx)]), (''inlineRefused'', Tx), (''readBackError'',
     Tx), (''saved'', Tx), (''advancedDesc'', Tx), (''advanced'', Tx), (''tunnelsElsewhere'', Tx),
     (''missingFile'', Tx), (''loadError'', Tx), (''dockerText'', Tx), (''dockerTitle'', Tx), (''emptyText'', Tx),
     (''emptyTitle'', Tx), (''description'', Tx), (''readOnly'', Tx), (''randomPortHint'', Tx), (''randomPort'',
     Tx), (''generatedBy'', Tx), (''title'', Tx)]"
  by (simp add: en_config_def)

lemma notifications_outline: "outlines_of en_notifications =
     [(''history'', Gr [(''empty'', Tx), (''failed'', Tx), (''sent'', Tx), (''test'', Tx), (''result'', Tx),
     (''event'', Tx), (''webhook'', Tx), (''time'', Tx), (''desc'', Tx), (''title'', Tx)]), (''events'', Gr
     [(''panel'', Gr [(''started'', Tx)]), (''update'', Gr [(''frp_installed'', Tx), (''frp'', Tx), (''panel'',
     Tx)]), (''firewall'', Gr [(''saved'', Tx)]), (''config'', Gr [(''saved'', Tx)]), (''login'', Gr [(''locked'',
     Tx), (''success'', Tx)]), (''instance'', Gr [(''up'', Tx), (''down'', Tx)])]), (''presets'', Gr [(''all'',
     Tx), (''updates'', Tx), (''security'', Tx), (''outages'', Tx)]), (''groups'', Gr [(''updates'', Tx),
     (''changes'', Tx), (''security'', Tx), (''instances'', Tx)]), (''levels'', Gr [(''error'', Tx), (''warning'',
     Tx), (''success'', Tx), (''info'', Tx)]), (''formatHint'', Gr [(''text'', Tx), (''generic'', Tx), (''gotify'',
     Tx), (''ntfy'', Tx), (''telegram'', Tx), (''slack'', Tx), (''discord'', Tx)]), (''formats'', Gr [(''text'',
     Tx), (''generic'', Tx), (''gotify'', Tx), (''ntfy'', Tx), (''telegram'', Tx), (''slack'', Tx), (''discord'',
     Tx)]), (''onlyInstancesHint'', Tx), (''onlyInstances'', Tx), (''presetsHint'', Tx), (''cooldownHint'', Tx),
     (''cooldown'', Tx), (''lang'', Tx), (''templateHint'', Tx), (''template'', Tx), (''clearHeaders'', Tx),
     (''keepHeaders'', Tx), (''headersHint'', Tx), (''headers'', Tx), (''clearSecret'', Tx), (''keepSecret'', Tx),
     (''secretHint'', Tx), (''secret'', Tx), (''chatIdHint'', Tx), (''chatId'', Tx), (''keepUrl'', Tx), (''url'',
     Tx), (''format'', Tx), (''eventsMissing'', Tx), (''nameMissing'', Tx), (''namePlaceholder'', Tx), (''name'',
     Tx), (''editorHint'', Tx), (''editTitle'', Tx), (''newTitle'', Tx), (''saved'', Tx), (''deleted'', Tx),
     (''deleteText'', Tx), (''deleteTitle'', Tx), (''test'', Tx), (''eventsLabel'', Tx), (''destination'', Tx),
     (''eventCount'', Gr [(''other'', Tx), (''one'', Tx)]), (''allEvents'', Tx), (''enabled'', Tx), (''emptyText'',
     Tx), (''emptyTitle'', Tx), (''loadError'', Tx), (''add'', Tx), (''description'', Tx), (''title'', Tx)]"
  by (simp add: en_notifications_def)

lemma users_outline: "outlines_of en_users =
     [(''oidc'', Gr [(''test'', Tx), (''addGroup'', Tx), (''group'', Tx), (''groupRolesHint'', Tx),
     (''groupRoles'', Tx), (''groupsClaim'', Tx), (''domainsHint'', Tx), (''domains'', Tx), (''defaultRoleHint'',
     Tx), (''defaultRole'', Tx), (''autoCreateDesc'', Tx), (''autoCreate'', Tx), (''usernameClaim'', Tx),
     (''scopes'', Tx), (''labelHint'', Tx), (''label'', Tx), (''redirectHint'', Tx), (''redirect'', Tx),
     (''noSecret'', Tx), (''keepSecret'', Tx), (''clientSecretHint'', Tx), (''clientSecret'', Tx), (''clientId'',
     Tx), (''issuerHint'', Tx), (''issuer'', Tx), (''enableDesc'', Tx), (''enable'', Tx), (''loadError'', Tx),
     (''desc'', Tx), (''title'', Tx)]), (''perms'', Gr [(''users_manage'', Tx), (''settings_manage'', Tx),
     (''webhooks_manage'', Tx), (''webhooks_view'', Tx), (''updates_panel'', Tx), (''updates_install'', Tx),
     (''updates_view'', Tx), (''firewall_manage'', Tx), (''firewall_view'', Tx), (''ports_manage'', Tx),
     (''ports_view'', Tx), (''logs_view'', Tx), (''config_write'', Tx), (''config_read'', Tx),
     (''instances_delete'', Tx), (''instances_create'', Tx), (''instances_control'', Tx), (''instances_view'',
     Tx)]), (''permGroups'', Gr [(''users'', Tx), (''settings'', Tx), (''webhooks'', Tx), (''updates'', Tx),
     (''firewall'', Tx), (''ports'', Tx), (''logs'', Tx), (''config'', Tx), (''instances'', Tx)]), (''sensitive'',
     Tx), (''roleHints'', Gr [(''custom'', Tx), (''viewer'', Tx), (''operator'', Tx), (''admin'', Tx)]),
     (''roles'', Gr [(''custom'', Tx), (''viewer'', Tx), (''operator'', Tx), (''admin'', Tx)]), (''role'', Tx),
     (''emailHint'', Tx), (''email'', Tx), (''passwordHint'', Tx), (''keepPassword'', Tx), (''newPassword'', Tx),
     (''password'', Tx), (''username'', Tx), (''sourceLocal'', Tx), (''source'', Tx), (''create'', Tx),
     (''editorHint'', Tx), (''editTitle'', Tx), (''newTitle'', Tx), (''deleteText'', Tx), (''deleteTitle'', Tx),
     (''removePasskeysDesc'', Tx), (''removePasskeys'', Gr [(''other'', Tx), (''one'', Tx)]), (''passkeysBadge'',
     Gr [(''other'', Tx), (''one'', Tx)]), (''never'', Tx), (''lastLogin'', Tx), (''scopeNote'', Tx),
     (''pickInstance'', Tx), (''noInstances'', Tx), (''someInstances'', Tx), (''allInstances'', Tx),
     (''instancesLabel'', Tx), (''enabledOff'', Tx), (''enabledOn'', Tx), (''enabledDesc'', Tx), (''enabled'', Tx),
     (''oidcPending'', Tx), (''you'', Tx), (''owner'', Tx), (''emptyTitle'', Tx), (''loadError'', Tx), (''add'',
     Tx), (''description'', Tx), (''title'', Tx)]"
  by (simp add: en_users_def)

lemma settings_outline: "outlines_of en_settings =
     [(''prefs'', Gr [(''languagePreview'', Tx), (''preview'', Tx), (''languageSoon'', Tx), (''language'', Tx),
     (''themeDark'', Tx), (''themeLight'', Tx), (''themeAuto'', Tx), (''theme'', Tx), (''desc'', Tx), (''title'',
     Tx)]), (''passkeys'', Gr [(''unavailable'', Gr [(''browser'', Tx), (''ip'', Tx), (''insecure'', Tx)]),
     (''deleteText'', Tx), (''deleteTitle'', Tx), (''refused'', Tx), (''failed'', Tx), (''cancelled'', Tx),
     (''already'', Tx), (''continue'', Tx), (''addDesc'', Tx), (''addTitle'', Tx), (''namePlaceholder'', Tx),
     (''nameHint'', Tx), (''name'', Tx), (''renameTitle'', Tx), (''rename'', Tx), (''lastUsed'', Tx), (''created'',
     Tx), (''synced'', Tx), (''empty'', Tx), (''add'', Tx), (''desc'', Tx), (''title'', Tx)]), (''account'', Gr
     [(''change'', Tx), (''current'', Tx), (''instances'', Tx), (''role'', Tx), (''username'', Tx), (''password'',
     Tx), (''profile'', Tx), (''oidcNote'', Tx), (''oidcDesc'', Tx), (''desc'', Tx), (''title'', Tx)]),
     (''network'', Gr [(''statsOff'', Tx), (''statsOn'', Tx), (''statsPayload'', Tx), (''statsDesc'', Tx),
     (''stats'', Tx), (''statsTitle'', Tx), (''mirrorsSaved'', Tx), (''mirrorsDesc'', Tx), (''mirrors'', Tx),
     (''saved'', Tx), (''restartNote'', Tx), (''timeoutMin'', Tx), (''timeoutHint'', Tx), (''timeout'', Tx),
     (''port'', Tx), (''hostHint'', Tx), (''host'', Tx), (''downloadsTitle'', Tx), (''listenDesc'', Tx),
     (''listenTitle'', Tx), (''desc'', Tx), (''title'', Tx)]), (''security'', Gr [(''passwordSaved'', Tx),
     (''saved'', Tx), (''save'', Tx), (''tooShort'', Tx), (''mismatch'', Tx), (''confirm'', Tx), (''keepPassword'',
     Tx), (''passwordHint'', Tx), (''newPassword'', Tx), (''username'', Tx), (''unprotectedText'', Tx),
     (''unprotectedTitle'', Tx), (''protected'', Tx), (''desc'', Tx), (''title'', Tx)]), (''loadError'', Tx),
     (''groups'', Gr [(''system'', Tx), (''access'', Tx), (''frp'', Tx), (''personal'', Tx)]), (''sections'', Tx),
     (''description'', Tx), (''title'', Tx)]"
  by (simp add: en_settings_def)

lemma tunnels_outline: "outlines_of en_tunnels =
     [(''types'', Gr [(''xtcp'', Tx), (''stcp'', Tx), (''https'', Tx), (''http'', Tx), (''both'', Tx), (''udp'',
     Tx), (''tcp'', Tx)]), (''fields'', Gr [(''compressionHint'', Tx), (''compression'', Tx), (''encryptionHint'',
     Tx), (''encryption'', Tx), (''ppV2'', Tx), (''ppOff'', Tx), (''proxyProtocolHint'', Tx), (''proxyProtocol'',
     Tx), (''options'', Tx), (''secretPlaceholder'', Tx), (''secretHint'', Tx), (''secret'', Tx),
     (''domainsHintRange'', Tx), (''domainsHint'', Tx), (''domains'', Tx), (''remotePortHintBoth'', Tx),
     (''remotePortHint'', Tx), (''remotePort'', Tx), (''publicAccess'', Tx), (''rangeHintPrivate'', Tx),
     (''rangeHintDomains'', Tx), (''rangeHint'', Tx), (''localHint'', Tx), (''localPort'', Tx), (''localIP'', Tx),
     (''localService'', Tx), (''type'', Tx), (''namePlaceholder'', Tx), (''nameHintBoth'', Tx), (''nameHint'', Tx),
     (''name'', Tx)]), (''restartUnknown'', Tx), (''restarted'', Tx), (''restarting'', Tx), (''saved'', Tx),
     (''extrasKept'', Tx), (''addToList'', Tx), (''apply'', Tx), (''editorHint'', Tx), (''newTitle'', Tx),
     (''editTitle'', Tx), (''deletePairText'', Tx), (''deleteText'', Tx), (''deleteTitle'', Tx), (''emptyText'',
     Tx), (''emptyTitle'', Tx), (''flags'', Gr [(''error'', Tx), (''assignedHint'', Tx), (''assigned'', Tx),
     (''compressed'', Tx), (''encrypted'', Tx), (''proxyProtocol'', Tx), (''range'', Gr [(''other'', Tx), (''one'',
     Tx)])]), (''unnamed'', Tx), (''local'', Tx), (''public'', Tx), (''privateOnly'', Tx), (''noDomain'', Tx),
     (''randomPortUnreachable'', Tx), (''restartFrpc'', Tx), (''admin'', Gr [(''confirm'', Tx), (''undo'', Tx),
     (''restart'', Tx), (''password'', Tx), (''listen'', Tx), (''intro'', Tx), (''title'', Tx)]),
     (''showAssigned'', Tx), (''randomPortNoAdmin'', Tx), (''copyAddress'', Tx), (''randomPort'', Tx), (''server'',
     Tx), (''noClientText'', Tx), (''noClientTitle'', Tx), (''saveRestart'', Tx), (''add'', Tx), (''description'',
     Tx), (''title'', Tx)]"
  by (simp add: en_tunnels_def)

text \<open>The texts of a section named by the rest of their names.\<close>

definition names_texts :: "string \<Rightarrow> (string \<times> outline) list \<Rightarrow> string list \<Rightarrow> bool" where
  "names_texts g os ss = list_all (\<lambda>s. hd (splits s) = g \<and> names_text (Gr os) (tl (splits s))) ss"

lemma names_texts_lookup:
  assumes "names_texts g os ss" and "map_of (outlines_of es) g = Some (Gr os)"
  shows "list_all (\<lambda>k. \<exists>w. lookup (dict_of (Group es)) k = Some (Txt w)) (map lit ss)"
proof -
  have "names_text (outline_of (Group es)) (splits s)" if "s \<in> set ss" for s
    using that assms splits_not_Nil [of s] by (cases "splits s") (auto simp: names_texts_def list_all_iff simp del: splits_not_Nil)
  then show ?thesis using names_text_lookup [of "Group es"] by (auto simp: list_all_iff)
qed

lemma config_known:
  "names_texts ''config'' (outlines_of en_config)
    [''config.sections.frps.connection.title'', ''config.sections.frps.connection.desc'',
     ''config.fields.bindPort.label'', ''config.fields.bindAddr.label'', ''config.fields.proxyBindAddr.label'',
     ''config.sections.frps.auth.title'', ''config.sections.frps.auth.desc'', ''config.fields.authMethod.label'',
     ''config.fields.authToken.label'', ''config.sections.frps.dashboard.title'',
     ''config.sections.frps.dashboard.desc'', ''config.toggles.webEnabled'', ''config.fields.webPort.label'',
     ''config.fields.webAddr.label'', ''config.fields.webUser.label'', ''config.fields.webPassword.label'',
     ''config.sections.frps.tls.title'', ''config.sections.frps.tls.desc'', ''config.toggles.tlsEnabled'',
     ''config.fields.tlsCert.label'', ''config.fields.tlsKey.label'', ''config.fields.tlsCa.label'',
     ''config.fields.tlsForce.label'', ''config.sections.frps.extraPorts.title'',
     ''config.sections.frps.extraPorts.desc'', ''config.fields.kcpBindPort.label'',
     ''config.fields.quicBindPort.label'', ''config.fields.vhostHTTPPort.label'',
     ''config.fields.vhostHTTPSPort.label'', ''config.sections.frps.limits.title'',
     ''config.sections.frps.limits.desc'', ''config.fields.maxPortsPerClient.label'',
     ''config.fields.maxPoolCount.label'', ''config.fields.heartbeatTimeout.label'',
     ''config.sections.frps.logs.title'', ''config.sections.frps.logs.desc'', ''config.fields.logTo.label'',
     ''config.fields.logLevel.label'', ''config.fields.logMaxDays.label'', ''config.sections.frpc.server.title'',
     ''config.sections.frpc.server.desc'', ''config.fields.serverAddr.label'',
     ''config.fields.serverPort.label'', ''config.fields.protocol.label'', ''config.sections.frpc.auth.title'',
     ''config.sections.frpc.auth.desc'', ''config.fields.authMethod.label'', ''config.fields.authToken.label'',
     ''config.sections.frpc.tls.title'', ''config.sections.frpc.tls.desc'', ''config.toggles.tlsEnabled'',
     ''config.fields.tlsCert.label'', ''config.fields.tlsKey.label'', ''config.fields.tlsCa.label'',
     ''config.fields.tlsServerName.label'', ''config.sections.frpc.localDashboard.title'',
     ''config.sections.frpc.localDashboard.desc'', ''config.toggles.webEnabled'',
     ''config.fields.webPort.label'', ''config.fields.webAddr.label'', ''config.fields.webUser.label'',
     ''config.fields.webPassword.label'', ''config.sections.frpc.network.title'',
     ''config.sections.frpc.network.desc'', ''config.fields.poolCount.label'',
     ''config.fields.heartbeatInterval.label'', ''config.fields.dnsServer.label'',
     ''config.fields.proxyURL.label'', ''config.sections.frpc.logs.title'', ''config.sections.frpc.logs.desc'',
     ''config.fields.logTo.label'', ''config.fields.logLevel.label'', ''config.fields.logMaxDays.label'']"
  by (simp add: names_texts_def config_outline)

lemma notifications_known:
  "names_texts ''notifications'' (outlines_of en_notifications)
    [''notifications.allEvents'', ''notifications.events.instance.down'', ''notifications.events.instance.up'',
     ''notifications.events.login.locked'', ''notifications.events.login.success'',
     ''notifications.events.config.saved'', ''notifications.events.firewall.saved'',
     ''notifications.events.update.panel'', ''notifications.events.update.frp'',
     ''notifications.events.update.frp_installed'', ''notifications.events.panel.started'',
     ''notifications.groups.instances'', ''notifications.groups.security'', ''notifications.groups.changes'',
     ''notifications.groups.updates'', ''notifications.presets.outages'', ''notifications.presets.security'',
     ''notifications.presets.updates'', ''notifications.presets.all'', ''notifications.formats.discord'',
     ''notifications.formatHint.discord'', ''notifications.formats.slack'', ''notifications.formatHint.slack'',
     ''notifications.formats.telegram'', ''notifications.formatHint.telegram'', ''notifications.formats.ntfy'',
     ''notifications.formatHint.ntfy'', ''notifications.formats.gotify'', ''notifications.formatHint.gotify'',
     ''notifications.formats.generic'', ''notifications.formatHint.generic'', ''notifications.formats.text'',
     ''notifications.formatHint.text'']"
  by (simp add: names_texts_def notifications_outline)

lemma users_known:
  "names_texts ''users'' (outlines_of en_users)
    [''users.roles.admin'', ''users.roleHints.admin'', ''users.roles.operator'', ''users.roleHints.operator'',
     ''users.roles.viewer'', ''users.roleHints.viewer'', ''users.roles.custom'', ''users.roleHints.custom'',
     ''users.perms.instances_view'', ''users.permGroups.instances'', ''users.perms.instances_control'',
     ''users.permGroups.instances'', ''users.perms.instances_create'', ''users.permGroups.instances'',
     ''users.perms.instances_delete'', ''users.permGroups.instances'', ''users.perms.config_read'',
     ''users.permGroups.config'', ''users.perms.config_write'', ''users.permGroups.config'',
     ''users.perms.logs_view'', ''users.permGroups.logs'', ''users.perms.ports_view'',
     ''users.permGroups.ports'', ''users.perms.ports_manage'', ''users.permGroups.ports'',
     ''users.perms.firewall_view'', ''users.permGroups.firewall'', ''users.perms.firewall_manage'',
     ''users.permGroups.firewall'', ''users.perms.updates_view'', ''users.permGroups.updates'',
     ''users.perms.updates_install'', ''users.permGroups.updates'', ''users.perms.updates_panel'',
     ''users.permGroups.updates'', ''users.perms.webhooks_view'', ''users.permGroups.webhooks'',
     ''users.perms.webhooks_manage'', ''users.permGroups.webhooks'', ''users.perms.settings_manage'',
     ''users.permGroups.settings'', ''users.perms.users_manage'', ''users.permGroups.users'']"
  by (simp add: names_texts_def users_outline)

lemma settings_known:
  "names_texts ''settings'' (outlines_of en_settings)
    [''settings.groups.personal'', ''settings.groups.frp'', ''settings.groups.access'',
     ''settings.groups.system'', ''settings.passkeys.unavailable.insecure'',
     ''settings.passkeys.unavailable.ip'', ''settings.passkeys.unavailable.browser'']"
  by (simp add: names_texts_def settings_outline)

lemma tunnels_known:
  "names_texts ''tunnels'' (outlines_of en_tunnels)
    [''tunnels.types.tcp'', ''tunnels.types.udp'', ''tunnels.types.http'', ''tunnels.types.https'',
     ''tunnels.types.stcp'', ''tunnels.types.xtcp'', ''tunnels.types.both'']"
  by (simp add: names_texts_def tunnels_outline)

definition built_keys :: "jstr list" where
  "built_keys = config_keys @ notification_keys @ user_keys @ other_keys"

lemma group_outlines: "map_of (outlines_of en_groups) ''config'' = Some (Gr (outlines_of en_config))"
    "map_of (outlines_of en_groups) ''notifications'' = Some (Gr (outlines_of en_notifications))"
    "map_of (outlines_of en_groups) ''users'' = Some (Gr (outlines_of en_users))"
    "map_of (outlines_of en_groups) ''settings'' = Some (Gr (outlines_of en_settings))"
    "map_of (outlines_of en_groups) ''tunnels'' = Some (Gr (outlines_of en_tunnels))"
  by (simp_all add: en_groups_def)

lemma other_keys_parts: "other_keys = map lit [''settings.groups.personal'', ''settings.groups.frp'', ''settings.groups.access'',
     ''settings.groups.system'', ''settings.passkeys.unavailable.insecure'',
     ''settings.passkeys.unavailable.ip'', ''settings.passkeys.unavailable.browser''] @ map lit
    [''tunnels.types.tcp'', ''tunnels.types.udp'', ''tunnels.types.http'', ''tunnels.types.https'',
     ''tunnels.types.stcp'', ''tunnels.types.xtcp'', ''tunnels.types.both'']"
  unfolding other_keys_written by simp

lemma built_names_in_english: "list_all (\<lambda>k. \<exists>w. lookup en k = Some (Txt w)) built_keys"
  unfolding built_keys_def config_keys_written notification_keys_written user_keys_written other_keys_parts list_all_append en_def
  by (intro conjI; rule names_texts_lookup, (rule config_known notifications_known users_known settings_known tunnels_known)?, (rule group_outlines)?)


end
