(* ===== verification/Toml_Roundtrip.thy ===== *)
theory Toml_Roundtrip imports Toml_Tunnels Toml_Quotes begin

text \<open>
  What the panel writes for tunnels and visitors (\<open>generateProxy\<close>, \<open>generateVisitor\<close>, \<open>composeClientConfig\<close>) reads
  back (\<open>parseToml\<close>, \<open>proxyFromBlock\<close>, \<open>visitorFromBlock\<close>) as the tunnels and visitors it was made from.
\<close>

subsection \<open>One line of a block\<close>

text \<open>A value that stands on one line, with no comment and no bracket left open.\<close>

definition good_value :: "jstr \<Rightarrow> bool" where
  "good_value w \<longleftrightarrow> w \<noteq> [] \<and> trim w = w \<and> splitComment w = (w, []) \<and> left_open w = []
     \<and> (startsWith w [c_lb] \<longrightarrow> \<not> bracketDepth w > 0)"

lemma anchored_none:
  assumes "runs r (at_point s 0) = []"
  shows "exec (RSeq RStart r) s 0 = None"
proof (rule ccontr)
  assume "exec (RSeq RStart r) s 0 \<noteq> None"
  then obtain j m where m: "m \<in> set (runs (RSeq RStart r) (at_point s j))"
    by (auto simp: exec_def dest: exec_from_runs split: if_splits)
  then have "take j s = []" by (simp add: at_point_def split: if_splits)
  then have "at_point s j = at_point s 0" by (auto simp: at_point_def)
  with m assms show False by (simp split: if_splits)
qed

lemma no_template_line:
  assumes "s \<noteq> []" and "hd s \<noteq> c_lc"
  shows "exec RANGE_RE s 0 = None" and "test END_RE s = False"
proof -
  obtain c r where s: "s = c # r" "c \<noteq> c_lc" using assms by (cases s) auto
  show "exec RANGE_RE s 0 = None" using s
    by (auto simp: RANGE_RE_def RANGE_LINE_def lit_simps at_point_def intro: anchored_none)
  show "test END_RE s = False" using s
    by (auto simp: test_def END_RE_def lit_simps at_point_def intro: anchored_none)
qed

text \<open>The head of a key.\<close>

lemma plain_key_hd: "plain_key k \<Longrightarrow> \<exists>c r. k = c # r \<and> (is_word c \<or> c = c_dot \<or> c = c_dash)"
  by (cases k) (auto simp: plain_key_def)

lemma trim_eq_ends: "trim w = w \<Longrightarrow> w \<noteq> [] \<Longrightarrow> \<not> is_ws (hd w) \<and> \<not> is_ws (last w)"
  using trim_ends [of w] by simp

lemma trim_value_text:
  assumes "plain_key k" and "good_value w"
  shows "trim (value_text k w) = value_text k w"
proof (rule trim_fixed)
  obtain c r where "k = c # r" and "is_word c \<or> c = c_dot \<or> c = c_dash" using plain_key_hd [OF assms(1)] by blast
  then show "value_text k w = [] \<or> \<not> is_ws (hd (value_text k w)) \<and> \<not> is_ws (last (value_text k w))"
    using assms(2) trim_eq_ends [of w] key_unit by (auto simp: value_text_def good_value_def)
qed

lemma hd_trim: "\<not> is_ws c \<Longrightarrow> \<exists>r'. trim (c # r) = c # r'"
  by (simp add: trim_def trimStart_def trimEnd_def dropWhile_append3)

lemma not_block_line:
  assumes "s \<noteq> []" and "hd s \<noteq> c_lb" and "trim s = s"
  shows "blockKind s = None"
proof -
  obtain c r where s: "s = c # r" "c \<noteq> c_lb" "\<not> is_ws c" using assms trim_eq_ends [of s] by (cases s) auto
  have "fst (splitComment s) = [] \<or> (\<exists>r'. fst (splitComment s) = c # r')"
  proof (cases "comment_pos None s")
    case (Some i)
    then show ?thesis using s hd_trim [of c "take (i - 1) r"] by (cases i) (auto simp: splitComment_def trim_def trimStart_def trimEnd_def)
  qed (use assms(3) s in \<open>simp add: splitComment_def\<close>)
  then show ?thesis using s assms(3) by (auto simp: blockKind_def Let_def startsWith_iff)
qed

lemma parse_value_line:
  assumes "plain_key k" and "good_value w" and "unquote w = Some v" and "p_cur st = Some kd" and "p_prefix st = []"
  shows "parse_step (value_text k w) rest st
    = Some (change_block kd (put_key k v w (p_comments st) []) (st\<lparr>p_comments := []\<rparr>), rest)"
proof -
  let ?l = "value_text k w"
  obtain c r where k: "k = c # r" and c: "is_word c \<or> c = c_dot \<or> c = c_dash" using plain_key_hd [OF assms(1)] by blast
  have l: "?l \<noteq> []" "hd ?l = c" "trim ?l = ?l" using k trim_value_text [OF assms(1,2)] by (simp_all add: value_text_def)
  have tm: "exec RANGE_RE ?l 0 = None" "test END_RE ?l = False" using no_template_line [of ?l] l key_unit [OF c] by auto
  have e: "keyEnd ?l = Some (length k + 1)" by (rule keyEnd_value_text [OF assms(1)])
  have sw: "\<not> startsWith ?l (lit ''{{'')" "\<not> startsWith ?l [c_lb]" "\<not> is_comment ?l" using l key_unit [OF c]
    by (auto simp: is_comment_def startsWith_iff lit_simps)
  have v: "value_line ?l ?l (length k + 1) (p_comments st) rest (st\<lparr>p_comments := []\<rparr>)
      = Some (change_block kd (put_key k v w (p_comments st) []) (st\<lparr>p_comments := []\<rparr>), rest)"
  proof -
    have d: "drop (length k + 2) ?l = c_sp # w" by (simp add: drop_value_text numeral_2_eq_2)
    have w: "trim w = w" "splitComment w = (w, [])" "left_open w = []" "startsWith w [c_lb] \<longrightarrow> \<not> bracketDepth w > 0"
      using assms(2) by (auto simp: good_value_def)
    have "read_value True ?l ?l (length k + 1) rest = ((w, [], []), rest)"
      using d w by (auto simp: read_value_def value_after_def splitComment_sp trim_sp Let_def)
    moreover have "block_key (take (length k + 1) ?l) = k"
    proof -
      have t: "take (length k + 1) ?l = k @ [c_sp]" by (simp add: value_text_def)
      have "k = [] \<or> \<not> is_ws (hd k) \<and> \<not> is_ws (last k)"
        using assms(1) key_unit by (auto simp: plain_key_def list_all_iff)
      then have "trim (k @ [c_sp]) = k" using trim_white [OF trim_fixed, of k "[]" "[c_sp]"] by (simp add: is_ws_def)
      moreover have "\<not> is_quote c" using key_unit [OF c] by (simp add: is_quote_def)
      ultimately show ?thesis unfolding block_key_def t using k by (simp add: unquote_name_def split: list.splits)
    qed
    ultimately show ?thesis using assms(3-5) by (simp add: value_line_def)
  qed
  show ?thesis using l(1) tm e sw not_block_line [OF l(1)] l key_unit [OF c] v
    by (simp add: parse_step_def Let_def)
qed

subsection \<open>The lines of a block\<close>

lemma parse_blank_line: "parse_step [] rest st = Some (st, rest)"
  by (simp add: parse_step_def is_comment_def Let_def trim_def trimStart_def trimEnd_def)

definition block_head :: "kind \<Rightarrow> jstr" where
  "block_head k = lit ''[['' @ kind_name k @ lit '']]''"

lemma parse_head_line: "parse_step (block_head k) rest st = Some (open_block k [] st, rest)"
proof -
  have "trim (block_head k) = block_head k" by (cases k) (auto simp: block_head_def kind_name_def lit_simps trim_fixed is_ws_def intro!: trim_fixed)
  moreover have "splitComment (block_head k) = (block_head k, [])" by (cases k) (simp_all add: splitComment_def block_head_def kind_name_def lit_simps opens_multiline_def trim_fixed is_ws_def)
  moreover have "blockKind (block_head k) = Some k"
    by (cases k) (simp_all add: blockKind_def block_head_def kind_name_def lit_simps splitComment_def trim_def trimStart_def trimEnd_def
      is_ws_def opens_multiline_def endsWith_def slice_def keyPath_def unquote_name_def is_quote_def kind_of_def)
  ultimately show ?thesis using no_template_line [of "block_head k"]
    by (simp add: parse_step_def Let_def block_head_def lit_simps is_comment_def)
qed

lemma parse_comment_line:
  assumes "trim c = c" and "is_comment c" and "p_seen st \<or> p_any st"
  shows "parse_step c rest st = Some (st\<lparr>p_comments := p_comments st @ [c]\<rparr>, rest)"
  using assms by (simp add: parse_step_def Let_def)

text \<open>The pairs of a block as they are written: key, raw value, value.\<close>

definition entry_line :: "jstr \<times> jstr \<times> jstr \<Rightarrow> jstr" where
  "entry_line e = (case e of (k, w, v) \<Rightarrow> value_text k w)"

definition good_entry :: "jstr \<times> jstr \<times> jstr \<Rightarrow> bool" where
  "good_entry e \<longleftrightarrow> (case e of (k, w, v) \<Rightarrow> plain_key k \<and> k \<noteq> lit ''__proto__'' \<and> k \<notin> set inherited_names \<and> good_value w \<and> unquote w = Some v)"

definition put_entry :: "jstr \<times> jstr \<times> jstr \<Rightarrow> block \<Rightarrow> block" where
  "put_entry e = (case e of (k, w, v) \<Rightarrow> put_key k v w [] [])"

lemma change_block_comp: "change_block k g (change_block k f st) = change_block k (g \<circ> f) st"
  by (cases k) (auto simp: change_block_def change_last_def)

lemma change_block_id: "change_block k id st = st"
  by (cases k) (auto simp: change_block_def change_last_def)

lemma change_block_sel [simp]: "p_cur (change_block k f st) = p_cur st" "p_prefix (change_block k f st) = p_prefix st"
    "p_comments (change_block k f st) = p_comments st" "p_range (change_block k f st) = p_range st"
    "p_seen (change_block k f st) = p_seen st" "p_any (change_block k f st) = p_any st" "p_vals (change_block k f st) = p_vals st"
  by (cases k; simp add: change_block_def)+

lemma parse_entries:
  assumes "list_all good_entry es" and "p_cur st = Some kd" and "p_prefix st = []" and "p_comments st = []"
  shows "parse_lines (map entry_line es @ rest) st = parse_lines rest (change_block kd (fold put_entry es) st)"
  using assms
proof (induction es arbitrary: st)
  case Nil
  then show ?case by (simp add: change_block_id [unfolded id_def] fold.simps(1) [abs_def] id_def)
next
  case (Cons e es)
  obtain k w v where e: "e = (k, w, v)" by (cases e)
  have same: "st\<lparr>p_comments := []\<rparr> = st" using Cons.prems(4) by (cases st) simp
  have "parse_step (entry_line e) (map entry_line es @ rest) st = Some (change_block kd (put_entry e) st, map entry_line es @ rest)"
    using parse_value_line [of k w v st kd "map entry_line es @ rest", unfolded same] Cons.prems e
    by (simp add: good_entry_def entry_line_def put_entry_def)
  then show ?case using Cons.IH [of "change_block kd (put_entry e) st"] Cons.prems by (simp add: change_block_comp comp_def)
qed

lemma obj_set_new: "k \<notin> fst ` set ob \<Longrightarrow> obj_set k v ob = ob @ [(k, v)]"
  by (induction k v ob rule: obj_set.induct) auto

lemma fold_put_entry:
  assumes "list_all good_entry es" and "distinct (map fst es)" and "\<forall>e\<in>set es. fst e \<notin> fst ` set (b_raw b)"
    and "map fst (b_vals b) = map fst (b_raw b)"
  shows "fold put_entry es b = b\<lparr>b_vals := b_vals b @ map (\<lambda>(k, w, v). (k, v)) es, b_raw := b_raw b @ map (\<lambda>(k, w, v). (k, w)) es,
    b_order := b_order b @ map fst es\<rparr>"
  using assms
proof (induction es arbitrary: b)
  case (Cons e es)
  obtain k w v where e: "e = (k, w, v)" by (cases e)
  have "fst ` set (b_vals b) = fst ` set (b_raw b)" using Cons.prems(4) by (metis set_map)
  then have n: "k \<notin> fst ` set (b_raw b)" "k \<notin> fst ` set (b_vals b)" "k \<notin> set inherited_names" "k \<noteq> lit ''__proto__''"
    using Cons.prems e by (auto simp: good_entry_def)
  then have "put_entry e b = b\<lparr>b_vals := b_vals b @ [(k, v)], b_raw := b_raw b @ [(k, w)], b_order := b_order b @ [k]\<rparr>"
    by (simp add: e put_entry_def put_key_def obj_put_def obj_set_new key_in_def)
  then show ?case using Cons.IH [of "put_entry e b"] Cons.prems e by (auto simp: n)
qed simp

subsection \<open>The blocks of a file\<close>

text \<open>A block to be written: its kind, the comments above it and its entries.\<close>

type_synonym wblock = "kind \<times> jstr list \<times> (jstr \<times> jstr \<times> jstr) list"

definition good_block :: "wblock \<Rightarrow> bool" where
  "good_block b \<longleftrightarrow> (case b of (k, cs, es) \<Rightarrow> list_all (\<lambda>c. trim c = c \<and> is_comment c) cs \<and> list_all good_entry es \<and> distinct (map fst es))"

definition block_lines :: "wblock \<Rightarrow> jstr list" where
  "block_lines b = (case b of (k, cs, es) \<Rightarrow> cs @ block_head k # map entry_line es)"

definition read_block :: "wblock \<Rightarrow> block" where
  "read_block b = (case b of (k, cs, es) \<Rightarrow> \<lparr>b_vals = map (\<lambda>(k, w, v). (k, v)) es, b_raw = map (\<lambda>(k, w, v). (k, w)) es,
     b_order = map fst es, b_comments = cs, b_notes = [], b_range = None\<rparr>)"

definition after_block :: "wblock \<Rightarrow> pstate \<Rightarrow> pstate" where
  "after_block b st = (push_block (fst b) (read_block b) st)
     \<lparr>p_cur := Some (fst b), p_comments := [], p_seen := True, p_range := None, p_prefix := []\<rparr>"

lemma parse_comments:
  assumes "list_all (\<lambda>c. trim c = c \<and> is_comment c) cs" and "cs = [] \<or> p_seen st \<or> p_any st"
  shows "parse_lines (cs @ rest) st = parse_lines rest (st\<lparr>p_comments := p_comments st @ cs\<rparr>)"
  using assms
proof (induction cs arbitrary: st)
  case (Cons c cs)
  have "parse_step c (cs @ rest) st = Some (st\<lparr>p_comments := p_comments st @ [c]\<rparr>, cs @ rest)"
    using Cons.prems by (intro parse_comment_line) auto
  then show ?case using Cons by simp
qed simp

lemma parse_block:
  assumes "good_block b" and "fst (snd b) = [] \<or> p_seen st \<or> p_any st" and "p_comments st = []" and "p_range st = None"
  shows "parse_lines (block_lines b @ rest) st = parse_lines rest (after_block b st)"
proof -
  obtain k cs es where b: "b = (k, cs, es)" by (cases b)
  let ?st = "open_block k [] (st\<lparr>p_comments := cs\<rparr>)"
  let ?b = "\<lparr>b_vals = [], b_raw = [], b_order = [], b_comments = cs, b_notes = [], b_range = None\<rparr>"
  have "parse_lines (block_lines b @ rest) st = parse_lines (map entry_line es @ rest) ?st"
    using assms parse_comments [of cs st "block_head k # map entry_line es @ rest"]
    by (simp add: b block_lines_def good_block_def parse_head_line)
  also have "\<dots> = parse_lines rest (change_block k (fold put_entry es) ?st)"
    using assms(1) by (intro parse_entries) (cases k; simp add: b good_block_def open_block_def push_block_def)+
  also have "change_block k (fold put_entry es) ?st = after_block b st"
    using fold_put_entry [of es ?b] assms
    by (cases k) (simp_all add: b good_block_def open_block_def push_block_def change_block_def change_last_def after_block_def read_block_def)
  finally show ?thesis .
qed

lemma after_block_sel [simp]: "p_comments (after_block b st) = []" "p_range (after_block b st) = None" "p_seen (after_block b st)"
    "p_vals (after_block b st) = p_vals st"
  by (cases "fst b"; simp add: after_block_def push_block_def)+

definition file_lines :: "wblock list \<Rightarrow> jstr list" where
  "file_lines bs = concat (map (\<lambda>b. block_lines b @ [[]]) bs)"

lemma parse_blocks:
  assumes "list_all good_block bs" and "bs \<noteq> [] \<Longrightarrow> fst (snd (hd bs)) = [] \<or> p_seen st \<or> p_any st"
    and "p_comments st = []" and "p_range st = None"
  shows "parse_lines (file_lines bs @ rest) st = parse_lines rest (fold after_block bs st)"
  using assms
proof (induction bs arbitrary: st)
  case (Cons b bs)
  have "parse_lines (block_lines b @ [] # file_lines bs @ rest) st = parse_lines ([] # file_lines bs @ rest) (after_block b st)"
    using Cons.prems by (intro parse_block) auto
  then show ?case using Cons by (simp add: file_lines_def parse_blank_line)
qed (simp add: file_lines_def)

lemma fold_after_block:
  "p_proxies (fold after_block bs st) = p_proxies st @ map read_block (filter (\<lambda>b. fst b = Proxies) bs)"
  "p_visitors (fold after_block bs st) = p_visitors st @ map read_block (filter (\<lambda>b. fst b = Visitors) bs)"
  "p_vals (fold after_block bs st) = p_vals st"
  by (induction bs arbitrary: st) (auto simp: after_block_def push_block_def split: kind.splits)

lemma init_sel [simp]: "p_vals init_pstate = []" "p_proxies init_pstate = []" "p_visitors init_pstate = []" "p_comments init_pstate = []"
    "p_range init_pstate = None" "p_seen init_pstate = False" "p_any init_pstate = False"
  by (simp_all add: init_pstate_def)

lemma parse_file:
  assumes "list_all good_block bs" and "bs \<noteq> [] \<Longrightarrow> fst (snd (hd bs)) = []"
  shows "\<exists>st. parse_lines (file_lines bs) init_pstate = Some st \<and> p_vals st = [] \<and> p_comments st = []
    \<and> p_proxies st = map read_block (filter (\<lambda>b. fst b = Proxies) bs)
    \<and> p_visitors st = map read_block (filter (\<lambda>b. fst b = Visitors) bs)"
proof -
  have "p_comments (fold after_block bs init_pstate) = []"
    by (cases bs rule: rev_cases) simp_all
  then show ?thesis using parse_blocks [of bs init_pstate "[]"] assms by (simp add: fold_after_block)
qed

subsection \<open>The text of the file\<close>

definition one_liner :: "jstr \<Rightarrow> bool" where
  "one_liner l \<longleftrightarrow> list_all (\<lambda>c. \<not> is_lt c) l"

lemma split_one_line: "one_liner l \<Longrightarrow> splitLines (l @ c_nl # s) = l # splitLines s"
  by (induction l) (auto simp: one_liner_def is_lt_def split: list.splits)

lemma split_join_lines: "list_all one_liner ls \<Longrightarrow> splitLines (join [c_nl] (ls @ [[]])) = ls @ [[]]"
proof (induction ls)
  case (Cons l ls)
  then show ?case using split_one_line [of l] by (simp add: join_Cons)
qed simp

lemma join_append: "a \<noteq> [] \<Longrightarrow> b \<noteq> [] \<Longrightarrow> join d (a @ b) = join d a @ d @ join d b"
proof (induction a)
  case (Cons x a)
  then show ?case by (cases a) (simp_all add: join_Cons)
qed simp

lemma join_blocks:
  "bs \<noteq> [] \<Longrightarrow> join [c_nl, c_nl] (map (join [c_nl] \<circ> block_lines) bs) @ [c_nl] = join [c_nl] (file_lines bs)"
proof (induction bs)
  case (Cons b bs)
  have n: "block_lines b \<noteq> []" by (cases b) (simp add: block_lines_def)
  show ?case
  proof (cases "bs = []")
    case True
    then show ?thesis using n join_append [of "block_lines b" "[[]]" "[c_nl]"] by (simp add: file_lines_def)
  next
    case False
    have f: "file_lines bs \<noteq> []" using False by (cases bs) (simp_all add: file_lines_def)
    have "join [c_nl] (file_lines (b # bs)) = join [c_nl] (block_lines b @ [] # file_lines bs)" by (simp add: file_lines_def)
    also have "\<dots> = join [c_nl] (block_lines b) @ [c_nl] @ [c_nl] @ join [c_nl] (file_lines bs)"
      using n f join_append [of "block_lines b" "[] # file_lines bs" "[c_nl]"] by (simp add: join_Cons)
    finally show ?thesis using Cons False by (simp add: join_Cons)
  qed
qed simp

lemma file_lines_end: "bs \<noteq> [] \<Longrightarrow> \<exists>ls. file_lines bs = ls @ [[]]"
  by (cases bs rule: rev_cases) (simp_all add: file_lines_def)

text \<open>No line of the file opens an inline list of blocks.\<close>

definition opens_list :: "jstr \<Rightarrow> bool" where
  "opens_list s \<longleftrightarrow> (case s of [] \<Rightarrow> False | c # _ \<Rightarrow> is_blank c \<or> is_quote c) \<or> startsWith s (lit ''proxies'') \<or> startsWith s (lit ''visitors'')"

definition plain_line :: "jstr \<Rightarrow> bool" where
  "plain_line l \<longleftrightarrow> one_liner l \<and> \<not> opens_list l"

lemma startsWith_line: "c \<notin> set p \<Longrightarrow> startsWith (l @ c # x) p = startsWith l p"
proof (induction l p rule: startsWith.induct)
  case (3 a s b p)
  then show ?case by auto
qed auto

lemma opens_list_line: "opens_list (l @ c_nl # x) = opens_list l"
proof -
  have "startsWith (l @ c_nl # x) (lit ''proxies'') = startsWith l (lit ''proxies'')" "startsWith (l @ c_nl # x) (lit ''visitors'') = startsWith l (lit ''visitors'')"
    by (rule startsWith_line, simp add: lit_simps)+
  then show ?thesis by (cases l) (auto simp: opens_list_def is_blank_def is_quote_def)
qed

lemma plain_line_starts:
  assumes "list_all plain_line ls" and "join [c_nl] ls = a @ b" and "a = [] \<or> is_lt (last a)"
  shows "\<not> opens_list b"
  using assms
proof (induction ls arbitrary: a)
  case Nil
  then show ?case by (simp add: opens_list_def lit_simps)
next
  case (Cons l ls)
  have l: "list_all (\<lambda>c. \<not> is_lt c) l" "\<not> opens_list l" using Cons.prems(1) by (auto simp: plain_line_def one_liner_def)
  show ?case
  proof (cases "ls = []")
    case True
    then have "l = a @ b" using Cons.prems(2) by simp
    with l Cons.prems(3) show ?thesis by (cases a rule: rev_cases) auto
  next
    case False
    then have t: "l @ c_nl # join [c_nl] ls = a @ b" using Cons.prems(2) by (simp add: join_Cons)
    then consider r where "a = l @ c_nl # r" "join [c_nl] ls = r @ b" | r where "l = a @ r" "b = r @ c_nl # join [c_nl] ls"
      by (auto simp: append_eq_append_conv2 Cons_eq_append_conv)
    then show ?thesis
    proof cases
      case 1
      then have "r = [] \<or> is_lt (last r)" using Cons.prems(3) by (cases r rule: rev_cases) auto
      with 1 Cons.IH [of r] Cons.prems(1) show ?thesis by simp
    next
      case 2
      then have "a = []" using Cons.prems(3) l(1) by (cases a rule: rev_cases) auto
      with 2 l show ?thesis by (simp add: opens_list_line)
    qed
  qed
qed

lemma runs_str: "\<not> startsWith (ahead m) w \<Longrightarrow> runs (str_r w) m = []"
proof (induction w arbitrary: m)
  case (Cons c w)
  then show ?case by (cases "ahead m") (auto simp: eat_def)
qed simp

lemma star_runs_none: "f m = [] \<Longrightarrow> star_runs f n m = [m]"
  by (cases n) simp_all

lemma no_inline_here:
  assumes "\<not> opens_list (ahead m)"
  shows "runs INLINE_RE m = []"
proof -
  obtain R where R: "INLINE_RE = RSeq RBol (RSeq blank_star (RSeq quote_opt (RSeq (RCap 1 kinds_r) R)))"
    by (simp add: INLINE_RE_def)
  have "runs (RCls is_blank) m = []" "runs (RCls is_quote) m = []" using assms by (cases "ahead m"; auto simp: opens_list_def)+
  then have "runs blank_star m = [m]" "runs quote_opt m = [m]" by (simp_all add: star_runs_none quote_opt_def opt_r_def)
  moreover have "runs kinds_r m = []" using assms by (simp add: kinds_r_def opens_list_def runs_str)
  ultimately show ?thesis by (simp add: R del: runs.simps(5) split: list.splits)
qed

lemma no_inline_list:
  assumes "list_all plain_line ls"
  shows "exec INLINE_RE (join [c_nl] ls) 0 = None"
proof (rule ccontr)
  let ?t = "join [c_nl] ls"
  assume "exec INLINE_RE ?t 0 \<noteq> None"
  then obtain j m where m: "m \<in> set (runs INLINE_RE (at_point ?t j))"
    by (auto simp: exec_def dest: exec_from_runs split: if_splits)
  then have "take j ?t = [] \<or> is_lt (last (take j ?t))"
    by (auto simp: INLINE_RE_def at_point_def hd_rev [symmetric] split: list.splits if_splits)
  then have "\<not> opens_list (drop j ?t)"
    using plain_line_starts [OF assms, of "take j ?t" "drop j ?t"] by simp
  with m no_inline_here [of "at_point ?t j"] show False by (simp add: at_point_def)
qed

lemma lone_cr_none: "c_cr \<notin> set t \<Longrightarrow> lone_cr t = t"
  by (induction t) auto

lemma prep_file:
  assumes "list_all plain_line ls" and "ls \<noteq> []" and "hd ls \<noteq> [] \<Longrightarrow> hd (hd ls) \<noteq> 65279"
  shows "prep (join [c_nl] ls) = join [c_nl] ls"
proof -
  let ?t = "join [c_nl] ls"
  have "c_cr \<notin> set ?t" using assms(1)
  proof (induction ls)
    case (Cons l ls)
    then show ?case by (cases ls) (auto simp: plain_line_def one_liner_def list_all_iff is_lt_def)
  qed simp
  then have "lone_cr ?t = ?t" by (rule lone_cr_none)
  moreover have "strip_bom ?t = ?t"
    using assms(2,3) by (cases ls; cases "hd ls"; cases "tl ls") (auto simp: strip_bom_def)
  ultimately show ?thesis using no_inline_list [OF assms(1)]
    by (simp add: prep_def expandInline_def expand_from.simps)
qed

end
