(* ===== verification/Toml_Reread.thy ===== *)
theory Toml_Reread imports Toml_Roundtrip begin

text \<open>
  Each tunnel and each visitor is written as one block whose entries are read back, value by value; a new file made of
  any number of them reads back as the same tunnels and visitors.
\<close>

subsection \<open>Values\<close>

text \<open>A text a value can be: its template actions hold neither a backslash nor a double quote, and it has no
  Unicode line separator.\<close>

definition clean :: "jstr \<Rightarrow> bool" where
  "clean v \<longleftrightarrow> actions_avoid {c_bs, c_dq} v \<and> 8232 \<notin> set v \<and> 8233 \<notin> set v"

lemma set_esc_text: "c \<in> set (esc_text v) \<Longrightarrow> c \<in> set v \<or> c < 128"
proof (induction v rule: esc_text.induct)
  case (2 x s)
  have h: "hex_digit (n mod 16) < 128" for n
    using mod_less_divisor [of 16 n] by (auto simp: hex_digit_def)
  have e: "c \<in> set (esc1 x) \<Longrightarrow> c = x \<or> c < 128"
    using h [of "x div 16"] h [of x] by (auto simp: esc1_def hex4_def split: if_splits)
  show ?case
  proof (cases "action_len (x # s)")
    case None
    with 2 e show ?thesis by auto
  next
    case (Some k)
    have "set (take k (x # s)) \<subseteq> set (x # s)" "set (drop (k - 1) s) \<subseteq> set s" by (rule set_take_subset, rule set_drop_subset)
    with 2 Some show ?thesis by auto
  qed
qed simp

lemma one_liner_str: "clean v \<Longrightarrow> one_liner (str v)"
proof -
  assume v: "clean v"
  have "\<not> is_lt c" if "c \<in> set (str v)" for c
    using that v set_esc_text [of c v] str_units [of v]
    by (auto simp: str_def clean_def list_all_iff is_lt_def is_ctrl_def)
  then show ?thesis by (simp add: one_liner_def list_all_iff)
qed

lemma good_str: "clean v \<Longrightarrow> good_value (str v) \<and> unquote (str v) = Some v"
proof -
  assume v: "clean v"
  have "str v \<noteq> []" "\<not> startsWith (str v) [c_lb]" by (simp_all add: str_def)
  then show ?thesis using v splitComment_str [of v] unquote_str [of v] actions_avoid_mono [of "{c_bs, c_dq}" v "{c_bs}"]
    by (simp add: good_value_def clean_def)
qed

text \<open>A bare value: no white space, quote, comment or bracket.\<close>

definition bare_value :: "jstr \<Rightarrow> bool" where
  "bare_value w \<longleftrightarrow> w \<noteq> [] \<and> list_all (\<lambda>c. \<not> is_ws c \<and> \<not> is_quote c \<and> c \<noteq> c_hash \<and> c \<noteq> c_lb) w"

lemma comment_pos_bare: "list_all (\<lambda>c. \<not> is_quote c \<and> c \<noteq> c_hash) w \<Longrightarrow> comment_pos None w = None"
proof (induction w)
  case (Cons c w)
  then have "\<not> opens_multiline (c # w)" using opens_multiline_hd [of c w] by (auto simp: is_quote_def)
  with Cons show ?case by (auto simp: is_quote_def)
qed simp

lemma good_bare: "bare_value w \<Longrightarrow> good_value w \<and> unquote w = Some w"
proof -
  assume b: "bare_value w"
  then obtain c r where w: "w = c # r" "\<not> is_quote c" "c \<noteq> c_lb" by (cases w) (auto simp: bare_value_def)
  have t: "trim w = w" using b by (intro trim_fixed) (auto simp: bare_value_def list_all_iff)
  have "comment_pos None w = None" using b by (intro comment_pos_bare) (auto simp: bare_value_def list_all_iff)
  then have "splitComment w = (w, [])" using t by (simp add: splitComment_def)
  moreover have "delim_of w = []" "take 3 w \<noteq> dq3" "take 3 w \<noteq> sq3" using w by (auto simp: delim_of_def startsWith_iff is_quote_def)
  ultimately show ?thesis using t w
    by (auto simp: good_value_def left_open_def unquote_def multilineValue_def quoted_by_def is_quote_def)
qed

subsection \<open>Lists of domains\<close>

definition simple_domain :: "jstr \<Rightarrow> bool" where
  "simple_domain d \<longleftrightarrow> d \<noteq> [] \<and> list_all (\<lambda>c. is_word c \<or> c = c_dot \<or> c = c_dash \<or> c = 42) d"

lemma simple_unit: "is_word c \<or> c = c_dot \<or> c = c_dash \<or> c = 42 \<Longrightarrow>
    \<not> is_quote c \<and> c \<noteq> c_bs \<and> c \<noteq> c_lb \<and> c \<noteq> c_rb \<and> c \<noteq> c_lc \<and> c \<noteq> c_comma \<and> \<not> is_ws c \<and> \<not> is_ctrl c \<and> c < 128"
  by (auto simp: unit_defs)

lemma esc_text_simple: "list_all (\<lambda>c. is_word c \<or> c = c_dot \<or> c = c_dash \<or> c = 42) d \<Longrightarrow> esc_text d = d"
proof (induction d)
  case (Cons c d)
  then have "action_len (c # d) = None" "esc1 c = [c]" using simple_unit [of c] action_len_None [of c d]
    by (auto simp: esc1_def is_quote_def is_ctrl_def)
  with Cons show ?case by simp
qed simp

lemma str_simple: "simple_domain d \<Longrightarrow> str d = c_dq # d @ [c_dq]"
  by (simp add: str_def simple_domain_def esc_text_simple)

lemma simple_body: "simple_domain d \<Longrightarrow> dq_body d"
  using simple_unit by (intro dq_body_plain) (auto simp: simple_domain_def list_all_iff is_quote_def)

lemma comment_pos_string: "simple_domain d \<Longrightarrow> comment_pos None s = None \<Longrightarrow> comment_pos None (str d @ s) = None"
proof -
  assume d: "simple_domain d" and s: "comment_pos None s = None"
  then obtain c r where c: "d = c # r" "\<not> is_quote c" using simple_unit by (cases d) (auto simp: simple_domain_def)
  then have "\<not> opens_multiline (c_dq # d @ c_dq # s)" by (auto simp: opens_multiline_def startsWith_iff is_quote_def)
  then show ?thesis using cm.scan_body [OF simple_body [OF d], of s] s by (simp add: str_simple [OF d])
qed

lemma comma_join_Cons: "comma_join (d # ds) = (if ds = [] then d else d @ c_comma # c_sp # comma_join ds)"
  by (cases ds) (simp_all add: comma_join_def)

lemma comment_pos_unit: "\<not> is_quote c \<Longrightarrow> c \<noteq> c_hash \<Longrightarrow> comment_pos None (c # s) = map_option Suc (comment_pos None s)"
  using opens_multiline_hd [of c s] by (auto simp: is_quote_def)

lemma comment_pos_domains: "list_all simple_domain ds \<Longrightarrow> comment_pos None s = None \<Longrightarrow> comment_pos None (comma_join (map str ds) @ s) = None"
proof (induction ds)
  case Nil
  then show ?case by (simp add: comma_join_def)
next
  case (Cons d ds)
  then show ?case
    by (auto simp: comma_join_Cons comment_pos_unit is_quote_def simp del: comment_pos.simps(3) intro!: comment_pos_string)
qed

lemma bracket_depth_domains: "list_all simple_domain ds \<Longrightarrow> bracket_depth None (comma_join (map str ds) @ s) = bracket_depth None s"
proof (induction ds)
  case (Cons d ds)
  have "bracket_depth None (str d @ r) = bracket_depth None r" for r
    using bd.scan_string [OF simple_body, of d r] Cons.prems by (simp add: str_simple)
  with Cons show ?case by (simp add: comma_join_Cons)
qed (simp add: comma_join_def)

definition domains_text :: "jstr list \<Rightarrow> jstr" where
  "domains_text ds = [c_lb] @ comma_join (map str ds) @ [c_rb]"

lemma good_domains:
  assumes "list_all simple_domain ds"
  shows "good_value (domains_text ds) \<and> unquote (domains_text ds) = Some (domains_text ds)"
proof -
  let ?w = "domains_text ds"
  have t: "trim ?w = ?w" by (rule trim_fixed) (simp add: domains_text_def is_ws_def)
  have "comment_pos None [c_rb] = None" by (simp add: comment_pos_unit is_quote_def del: comment_pos.simps(3))
  then have "comment_pos None ?w = None" using comment_pos_domains [OF assms] by (simp add: domains_text_def comment_pos_unit is_quote_def del: comment_pos.simps(3))
  moreover have "bracketDepth ?w = 0" using bracket_depth_domains [OF assms] by (simp add: bracketDepth_def domains_text_def)
  ultimately show ?thesis using t
    by (auto simp: good_value_def splitComment_def left_open_def delim_of_def startsWith_iff unquote_def multilineValue_def quoted_by_def domains_text_def)
qed

definition domain_filter :: "jstr \<Rightarrow> jstr" where
  "domain_filter s = filter (\<lambda>c. \<not> is_quote c \<and> c \<noteq> c_lb \<and> c \<noteq> c_rb) s"

lemma domain_filter_text: "list_all simple_domain ds \<Longrightarrow> domain_filter (domains_text ds) = comma_join ds"
proof -
  have d: "simple_domain d \<Longrightarrow> domain_filter (str d) = d" for d
    using simple_unit by (auto simp: domain_filter_def str_simple simple_domain_def list_all_iff is_quote_def intro!: filter_True)
  have "list_all simple_domain ds \<Longrightarrow> domain_filter (comma_join (map str ds)) = comma_join ds"
  proof (induction ds)
    case (Cons e es)
    then show ?case using d [of e] by (auto simp: comma_join_Cons domain_filter_def is_quote_def)
  qed (simp add: comma_join_def domain_filter_def)
  then show "list_all simple_domain ds \<Longrightarrow> ?thesis" by (simp add: domains_text_def domain_filter_def)
qed

lemma domain_list_join: "list_all simple_domain ds \<Longrightarrow> domain_list (comma_join ds) = ds"
proof -
  have d: "c_comma \<notin> set d" "trim d = d" "trim (c_sp # d) = d" if "simple_domain d" for d
  proof -
    show "c_comma \<notin> set d" using that simple_unit by (auto simp: simple_domain_def list_all_iff)
    show "trim d = d" using that simple_unit by (intro trim_fixed) (auto simp: simple_domain_def list_all_iff)
    then show "trim (c_sp # d) = d" by (simp add: trim_sp)
  qed
  have "list_all simple_domain ds \<Longrightarrow> ds \<noteq> [] \<Longrightarrow> truthy (map trim (split_on c_comma (comma_join ds))) = ds
      \<and> truthy (map trim (split_on c_comma (c_sp # comma_join ds))) = ds"
  proof (induction ds)
    case (Cons e es)
    show ?case
    proof (cases "es = []")
      case True
      then show ?thesis using d [of e] Cons.prems by (auto simp: comma_join_Cons split_on_plain simple_domain_def)
    next
      case False
      have "split_on c_comma (e @ c_comma # c_sp # comma_join es) = e # split_on c_comma (c_sp # comma_join es)"
        "split_on c_comma (c_sp # e @ c_comma # c_sp # comma_join es) = (c_sp # e) # split_on c_comma (c_sp # comma_join es)"
        using split_on_append [of c_comma e "c_sp # comma_join es"] split_on_append [of c_comma "c_sp # e" "c_sp # comma_join es"] d(1) [of e] Cons.prems
        by simp_all
      then show ?thesis using Cons d [of e] False by (simp add: comma_join_Cons simple_domain_def del: split_on.simps)
    qed
  qed simp
  then show "list_all simple_domain ds \<Longrightarrow> ?thesis" by (cases "ds = []") (auto simp: domain_list_def comma_join_def trim_def trimStart_def trimEnd_def)
qed

subsection \<open>The entries of a tunnel\<close>

text \<open>The lines a tunnel may have, each with its condition: key, raw value, value.\<close>

type_synonym option_entry = "bool \<times> jstr \<times> jstr \<times> jstr"

definition chosen :: "option_entry list \<Rightarrow> (jstr \<times> jstr \<times> jstr) list" where
  "chosen cs = map snd (filter fst cs)"

definition text_entry :: "bool \<Rightarrow> string \<Rightarrow> jstr \<Rightarrow> option_entry" where
  "text_entry c k v = (c, lit k, str v, v)"

definition bare_entry :: "bool \<Rightarrow> string \<Rightarrow> jstr \<Rightarrow> option_entry" where
  "bare_entry c k w = (c, lit k, w, w)"

definition proxy_entries :: "proxy \<Rightarrow> option_entry list" where
  "proxy_entries p =
     [text_entry True ''name'' (p_name p), text_entry True ''type'' (p_type p),
      text_entry (p_localIP p \<noteq> []) ''localIP'' (unbracket (Some (p_localIP p))),
      bare_entry (p_localPort p \<noteq> []) ''localPort'' (p_localPort p),
      bare_entry (hasRemotePort (p_type p) \<and> p_remotePort p \<noteq> []) ''remotePort'' (p_remotePort p),
      bare_entry (hasDomains (p_type p) \<and> p_domains p \<noteq> []) ''customDomains'' (domains_text (domain_list (p_domains p))),
      text_entry (hasSecret (p_type p) \<and> p_secretKey p \<noteq> []) ''secretKey'' (p_secretKey p),
      bare_entry (p_compression p) ''transport.useCompression'' ((lit ''true'')),
      bare_entry (p_encryption p) ''transport.useEncryption'' ((lit ''true'')),
      text_entry (p_proxyProtocol p \<noteq> []) ''transport.proxyProtocolVersion'' (p_proxyProtocol p)]"

definition extra_entries :: "(jstr \<times> jstr) list \<Rightarrow> (jstr \<times> jstr \<times> jstr) list" where
  "extra_entries xs = map (\<lambda>(k, w). (k, w, the (unquote w))) xs"

definition proxy_block :: "proxy \<Rightarrow> wblock" where
  "proxy_block p = (Proxies, p_cmts p, chosen (proxy_entries p) @ extra_entries (p_extras p))"

lemma chosen_simps [simp]: "chosen [] = []" "chosen ((c, e) # cs) = (if c then e # chosen cs else chosen cs)"
  by (simp_all add: chosen_def)

definition given :: "bool \<Rightarrow> 'a \<Rightarrow> 'a list" where
  "given c x = (if c then [x] else [])"

lemma given_fold: "(if c then [x] else []) = given c x"
  by (simp add: given_def)

lemma given_const: "given True x = [x]" "given False x = []"
  by (simp_all add: given_def)

lemma lit_append: "lit (a @ b) = lit a @ lit b"
  by (simp add: lit_def)

lemma chosen_text: "map entry_line (chosen (text_entry c k v # cs)) = given c (lit (k @ '' = '') @ str v) @ map entry_line (chosen cs)"
  by (simp add: given_def text_entry_def entry_line_def value_text_def lit_append) (simp add: lit_simps)

lemma chosen_bare: "map entry_line (chosen (bare_entry c k w # cs)) = given c (lit (k @ '' = '') @ w) @ map entry_line (chosen cs)"
  by (simp add: given_def bare_entry_def entry_line_def value_text_def lit_append) (simp add: lit_simps)

lemma extra_lines: "map entry_line (extra_entries xs) = map extra_line xs"
  by (induction xs) (auto simp: extra_entries_def entry_line_def extra_line_def value_text_def lit_simps)

lemma head_lines: "block_head Proxies = (lit ''[[proxies]]'')" "block_head Visitors = (lit ''[[visitors]]'')"
  by (simp_all add: block_head_def kind_name_def lit_simps)

lemma domains_line_text: "domains_line False port ds = (lit ''customDomains = '') @ domains_text (domain_list ds)"
  by (simp add: domains_line_def domains_text_def lit_simps)

lemma true_line: "lit a @ (lit ''true'') = lit (a @ ''true'')"
  by (simp add: lit_append)

lemma proxy_block_lines: "\<not> isRanged p \<Longrightarrow> p_cmts p @ proxy_lines p = block_lines (proxy_block p)"
  unfolding proxy_block_def block_lines_def proxy_lines_def proxy_entries_def Let_def
  by (simp add: given_fold given_const chosen_text chosen_bare extra_lines head_lines domains_line_text true_line
      split del: if_split del: chosen_simps(2))

subsection \<open>What is read back\<close>

definition entry_value :: "option_entry list \<Rightarrow> (jstr \<times> jstr \<times> jstr) list \<Rightarrow> jstr \<Rightarrow> jstr option" where
  "entry_value cs ex k = map_of (map (\<lambda>(k, w, v). (k, v)) (chosen cs @ ex)) k"

lemma entry_value_Cons: "entry_value ((c, k, w, v) # cs) ex key = (if c \<and> k = key then Some v else entry_value cs ex key)"
  by (simp add: entry_value_def)

lemma entry_value_Nil: "key \<notin> fst ` set ex \<Longrightarrow> entry_value [] ex key = None"
  by (force simp: entry_value_def map_of_eq_None_iff)

definition good_extras :: "jstr list \<Rightarrow> (jstr \<times> jstr) list \<Rightarrow> bool" where
  "good_extras known xs \<longleftrightarrow> distinct (map fst xs) \<and> list_all (\<lambda>(k, w). plain_key k \<and> k \<notin> set known \<and> k \<notin> set inherited_names
     \<and> \<not> startsWith k ((lit ''proxies'')) \<and> \<not> startsWith k ((lit ''visitors'')) \<and> good_value w \<and> one_liner w \<and> unquote w \<noteq> None) xs"

definition good_comments :: "jstr list \<Rightarrow> bool" where
  "good_comments cs \<longleftrightarrow> list_all (\<lambda>c. trim c = c \<and> is_comment c \<and> one_liner c) cs"

definition port_field :: "jstr \<Rightarrow> bool" where
  "port_field s \<longleftrightarrow> s = [] \<or> all_digits s"

text \<open>A tunnel with a single port, and the tunnel it is once read back: what its kind does not use is not written.\<close>

definition writable :: "proxy \<Rightarrow> bool" where
  "writable p \<longleftrightarrow> p_type p \<noteq> [] \<and> list_all clean [p_name p, p_type p, p_localIP p, p_secretKey p, p_proxyProtocol p]
     \<and> unbracket (Some (p_localIP p)) = p_localIP p \<and> port_field (p_localPort p) \<and> port_field (p_remotePort p)
     \<and> list_all simple_domain (domain_list (p_domains p))
     \<and> good_extras PROXY_KEYS (p_extras p) \<and> good_comments (p_cmts p) \<and> (p_notes p = None \<or> p_notes p = Some [])"

definition kept :: "proxy \<Rightarrow> nat \<Rightarrow> proxy" where
  "kept p n = p\<lparr>p_uid := n, p_localIP := or_else (p_localIP p) ((lit ''127.0.0.1'')),
     p_remotePort := (if hasRemotePort (p_type p) \<and> num_true (toNumber (p_remotePort p)) then p_remotePort p else []),
     p_domains := (if hasDomains (p_type p) then comma_join (domain_list (p_domains p)) else []),
     p_secretKey := (if hasSecret (p_type p) then p_secretKey p else []),
     p_notes := Some [], p_udpComments := None, p_udpNotes := None\<rparr>"

lemma intText_field: "port_field s \<Longrightarrow> intText s = s"
proof -
  assume s: "port_field s"
  have "95 \<notin> set s" using s by (auto simp: port_field_def all_digits_def list_all_iff is_digit_def)
  then show ?thesis by (auto simp: intText_def split_on_plain filter_id_conv)
qed

lemma keys_of_entries: "map (fst \<circ> snd) (proxy_entries p) = PROXY_KEYS"
  by (simp add: proxy_entries_def text_entry_def bare_entry_def PROXY_KEYS_def)

lemma extras_order: "good_extras known xs \<Longrightarrow> filter (\<lambda>k. k \<notin> set known) (map fst (extra_entries xs)) = map fst xs"
  by (induction xs) (auto simp: extra_entries_def good_extras_def)

lemma chosen_keys: "fst ` set (chosen cs) \<subseteq> fst ` snd ` set cs"
  by (force simp: chosen_def)

lemma extras_read:
  assumes "good_extras known xs" and "fst ` snd ` set cs \<subseteq> set known"
  shows "extrasOf (read_block (kd, cm, chosen cs @ extra_entries xs)) known = xs"
proof -
  let ?es = "chosen cs @ extra_entries xs"
  have cs: "k \<in> set known" if "k \<in> fst ` set (chosen cs)" for k using that chosen_keys [of cs] assms(2) by blast
  then have "filter (\<lambda>k. k \<notin> set known) (map fst (chosen cs)) = []" by (auto simp: filter_empty_conv)
  then have "filter (\<lambda>k. k \<notin> set known) (map fst ?es) = map fst xs" using extras_order [OF assms(1)] by simp
  moreover have "map_of (map (\<lambda>(k, w, v). (k, w)) ?es) (fst x) = Some (snd x)" if x: "x \<in> set xs" for x
  proof -
    have "fst x \<notin> set known" using assms(1) x by (auto simp: good_extras_def list_all_iff)
    then have "map_of (map (\<lambda>(k, w, v). (k, w)) (chosen cs)) (fst x) = None" using cs by (force simp: map_of_eq_None_iff)
    moreover have "map (\<lambda>(k, w, v). (k, w)) (extra_entries xs) = xs" by (induction xs) (auto simp: extra_entries_def)
    moreover have "map_of xs (fst x) = Some (snd x)" using assms(1) x by (auto simp: good_extras_def intro!: map_of_is_SomeI)
    ultimately show ?thesis by (simp add: map_add_def)
  qed
  ultimately show ?thesis by (simp add: extrasOf_def read_block_def map_idI cong: map_cong)
qed

lemma read_proxy:
  assumes "writable p"
  shows "proxyFromBlock (read_block (proxy_block p)) n = (kept p (n + 1), n + 1)"
proof -
  let ?ex = "extra_entries (p_extras p)" and ?b = "read_block (proxy_block p)"
  have ex: "fst ` set ?ex = fst ` set (p_extras p)" by (force simp: extra_entries_def)
  have no: "lit k \<notin> fst ` set ?ex" if "lit k \<in> set PROXY_KEYS" for k
    using assms that unfolding ex by (auto simp: writable_def good_extras_def list_all_iff)
  have val: "bval ?b k = (case entry_value (proxy_entries p) ?ex (lit k) of Some v \<Rightarrow> v | None \<Rightarrow> [])" for k
    by (simp add: bval_def read_block_def proxy_block_def entry_value_def)
  have vals: "bval ?b ''name'' = p_name p" "bval ?b ''type'' = p_type p" "bval ?b ''localIP'' = p_localIP p"
    "bval ?b ''localPort'' = p_localPort p" 
    "bval ?b ''remotePort'' = (if hasRemotePort (p_type p) then p_remotePort p else [])"
    "bval ?b ''secretKey'' = (if hasSecret (p_type p) then p_secretKey p else [])"
    "bval ?b ''transport.proxyProtocolVersion'' = p_proxyProtocol p"
    "bval ?b ''transport.useCompression'' = (if p_compression p then (lit ''true'') else [])"
    "bval ?b ''transport.useEncryption'' = (if p_encryption p then (lit ''true'') else [])"
    "bval ?b ''customDomains'' = (if hasDomains (p_type p) \<and> p_domains p \<noteq> [] then domains_text (domain_list (p_domains p)) else [])"
    unfolding val using no assms
    by (simp_all add: proxy_entries_def text_entry_def bare_entry_def entry_value_Cons entry_value_Nil lit_inject PROXY_KEYS_def writable_def)
  have dom: "block_domains ?b = (if hasDomains (p_type p) then comma_join (domain_list (p_domains p)) else [])"
  proof -
    have nil: "domain_list [] = []" "comma_join [] = []" "domain_filter [] = []"
      by (simp_all add: domain_list_def comma_join_def domain_filter_def trim_def trimStart_def trimEnd_def)
    have "block_domains ?b = comma_join (domain_list (domain_filter (bval ?b ''customDomains'')))"
      by (simp add: block_domains_def domain_filter_def)
    then show ?thesis using assms domain_filter_text [of "domain_list (p_domains p)"] domain_list_join [of "domain_list (p_domains p)"]
      by (simp add: vals writable_def nil)
  qed
  have "fst ` snd ` set (proxy_entries p) = set PROXY_KEYS" unfolding keys_of_entries [of p, symmetric] by (simp add: image_image)
  then have ext: "extrasOf ?b PROXY_KEYS = p_extras p" unfolding proxy_block_def
    using assms by (intro extras_read) (auto simp: writable_def)
  have b: "b_range ?b = None" "b_comments ?b = p_cmts p" "b_notes ?b = []" by (simp_all add: read_block_def proxy_block_def)
  have fields: "intText (p_localPort p) = p_localPort p" "intText (p_remotePort p) = p_remotePort p" "p_type p \<noteq> []" "intText [] = []"
    using assms intText_field by (auto simp: writable_def port_field_def)
  have remote: "intText (if hasRemotePort (p_type p) then p_remotePort p else []) = (if hasRemotePort (p_type p) then p_remotePort p else [])"
    using fields by simp
  have zero: "\<not> num_true (toNumber [])" by (simp add: toNumber_def num_true_def trim_def trimStart_def trimEnd_def)
  have set_if: "((if c then (lit ''true'') else []) = (lit ''true'')) = c" for c by (simp add: lit_simps)
  show ?thesis
    unfolding proxyFromBlock_def kept_def Let_def vals dom ext b remote set_if fields
    using zero fields(3) by (auto simp: or_else_def intro!: proxy.equality split del: if_split) (simp_all add: or_else_def)
qed

lemma good_entries_chosen: "list_all (\<lambda>(c, e). c \<longrightarrow> good_entry e) cs \<Longrightarrow> list_all good_entry (chosen cs)"
  by (induction cs) auto

lemma distinct_chosen: "distinct (map (fst \<circ> snd) cs) \<Longrightarrow> distinct (map fst (chosen cs))"
  by (simp add: chosen_def distinct_map_filter)

definition line_key :: "string \<Rightarrow> bool" where
  "line_key k \<longleftrightarrow> plain_key (lit k) \<and> lit k \<notin> set inherited_names \<and> \<not> opens_list (lit k)"

lemma text_entry_good: "line_key k \<Longrightarrow> clean v \<Longrightarrow> (case text_entry c k v of (c, e) \<Rightarrow> c \<longrightarrow> good_entry e)"
  using good_str [of v] by (simp add: text_entry_def good_entry_def line_key_def inherited_names_def)

lemma bare_entry_good: "line_key k \<Longrightarrow> (c \<Longrightarrow> good_value w \<and> unquote w = Some w) \<Longrightarrow> (case bare_entry c k w of (c, e) \<Rightarrow> c \<longrightarrow> good_entry e)"
  by (auto simp: bare_entry_def good_entry_def line_key_def inherited_names_def)

lemma good_port: "port_field s \<Longrightarrow> s \<noteq> [] \<Longrightarrow> good_value s \<and> unquote s = Some s"
  by (intro good_bare) (auto simp: port_field_def bare_value_def all_digits_def list_all_iff unit_defs)

lemma good_true: "good_value ((lit ''true'')) \<and> unquote ((lit ''true'')) = Some ((lit ''true''))"
  by (rule good_bare) (simp add: bare_value_def lit_simps unit_defs)

lemma proxy_line_keys: "list_all line_key [''name'', ''type'', ''localIP'', ''localPort'', ''remotePort'', ''customDomains'',
    ''secretKey'', ''transport.useCompression'', ''transport.useEncryption'', ''transport.proxyProtocolVersion'']"
  by (simp add: line_key_def plain_key_def opens_list_def inherited_names_def lit_simps unit_defs)

lemma proxy_entries_good: "writable p \<Longrightarrow> list_all (\<lambda>(c, e). c \<longrightarrow> good_entry e) (proxy_entries p)"
  using proxy_line_keys good_port good_true good_domains [of "domain_list (p_domains p)"]
  unfolding proxy_entries_def list.pred_inject
  by (intro conjI text_entry_good bare_entry_good) (auto simp: writable_def)

lemma extra_entries_good: "good_extras known xs \<Longrightarrow> list_all good_entry (extra_entries xs)"
  by (auto simp: good_extras_def extra_entries_def good_entry_def list_all_iff inherited_names_def)

lemma good_blockI:
  assumes "list_all (\<lambda>(c, e). c \<longrightarrow> good_entry e) cs" and "map (fst \<circ> snd) cs = known" and "distinct known"
    and "good_extras known xs" and "good_comments cm"
  shows "good_block (k, cm, chosen cs @ extra_entries xs)"
proof -
  have "distinct (map fst (chosen cs))" using assms(2,3) by (intro distinct_chosen) simp
  moreover have "set (map fst (chosen cs)) \<subseteq> set known"
    using chosen_keys [of cs] unfolding assms(2) [symmetric] by (simp add: image_image)
  moreover have "distinct (map fst xs)" "set (map fst xs) \<inter> set known = {}"
    using assms(4) unfolding good_extras_def list_all_iff by auto
  ultimately have "distinct (map fst (chosen cs) @ map fst xs)" unfolding distinct_append by blast
  moreover have "map fst (extra_entries xs) = map fst xs" by (auto simp: extra_entries_def)
  ultimately have d: "distinct (map fst (chosen cs @ extra_entries xs))" by simp
  have "list_all good_entry (extra_entries xs)" using assms(4) by (rule extra_entries_good)
  moreover have "list_all good_entry (chosen cs)" by (rule good_entries_chosen [OF assms(1)])
  moreover have "list_all (\<lambda>c. trim c = c \<and> is_comment c) cm"
    using assms(5) by (auto simp: good_comments_def list_all_iff)
  ultimately show ?thesis using d by (simp add: good_block_def)
qed

lemma good_proxy_block: "writable p \<Longrightarrow> good_block (proxy_block p)"
  unfolding proxy_block_def
  by (rule good_blockI [OF proxy_entries_good keys_of_entries])
    (auto simp: writable_def PROXY_KEYS_def lit_inject)

end
