(* ===== verification/Toml_Reread_File.thy ===== *)
theory Toml_Reread_File imports Toml_Reread Page_Tunnels_Pairs begin

text \<open>
  The file the panel makes of any number of tunnels and visitors with no file to begin with, read again: the lines it
  has, the blocks they open, and the tunnels and visitors of the page.
\<close>

subsection \<open>Lines that are one line\<close>

lemma one_liner_append [simp]: "one_liner (a @ b) \<longleftrightarrow> one_liner a \<and> one_liner b"
  by (simp add: one_liner_def)

lemma one_liner_Cons [simp]: "one_liner (c # s) \<longleftrightarrow> \<not> is_lt c \<and> one_liner s"
  by (simp add: one_liner_def)

lemma one_liner_Nil [simp]: "one_liner []"
  by (simp add: one_liner_def)

lemma lt_ws: "is_lt c \<Longrightarrow> is_ws c"
  by (auto simp: is_lt_def is_ws_def)

lemma one_liner_bare: "list_all (\<lambda>c. \<not> is_ws c) w \<Longrightarrow> one_liner w"
  using lt_ws by (auto simp: one_liner_def list_all_iff)

lemma one_liner_key: "plain_key k \<Longrightarrow> one_liner k"
  using key_unit by (intro one_liner_bare) (auto simp: plain_key_def list_all_iff)

lemma one_liner_domains: "list_all simple_domain ds \<Longrightarrow> one_liner (domains_text ds)"
proof -
  have "simple_domain d \<Longrightarrow> one_liner (str d)" for d
    using simple_unit one_liner_bare [of d] by (auto simp: simple_domain_def str_simple list_all_iff is_lt_def)
  then have "list_all simple_domain ds \<Longrightarrow> one_liner (comma_join (map str ds))"
    by (induction ds) (auto simp: comma_join_Cons is_lt_def, simp add: comma_join_def)
  then show "list_all simple_domain ds \<Longrightarrow> ?thesis" by (simp add: domains_text_def is_lt_def)
qed

definition plain_entry :: "jstr \<times> jstr \<times> jstr \<Rightarrow> bool" where
  "plain_entry e \<longleftrightarrow> (case e of (k, w, v) \<Rightarrow> plain_key k \<and> \<not> opens_list k \<and> one_liner w)"

lemma plain_entry_line: "plain_entry e \<Longrightarrow> plain_line (entry_line e)"
proof -
  assume e: "plain_entry e"
  obtain k w v where kw: "e = (k, w, v)" "plain_key k" "\<not> opens_list k" "one_liner w" using e by (cases e) (auto simp: plain_entry_def)
  have "startsWith (k @ c_sp # x) ((lit ''proxies'')) = startsWith k ((lit ''proxies''))" "startsWith (k @ c_sp # x) ((lit ''visitors'')) = startsWith k ((lit ''visitors''))" for x
    by (rule startsWith_line, simp add: lit_simps)+
  then have "\<not> opens_list (value_text k w)" using kw(2,3) by (cases k) (auto simp: opens_list_def value_text_def plain_key_def)
  then show ?thesis using kw one_liner_key [of k] by (simp add: plain_line_def entry_line_def value_text_def is_lt_def)
qed

lemma plain_head: "plain_line (block_head k)"
  by (cases k) (simp_all add: plain_line_def block_head_def kind_name_def opens_list_def lit_simps is_lt_def is_blank_def is_quote_def)

lemma plain_comment: "is_comment c \<Longrightarrow> one_liner c \<Longrightarrow> plain_line c"
  by (cases c) (auto simp: plain_line_def opens_list_def is_comment_def startsWith_iff lit_simps is_blank_def is_quote_def)

definition whole_block :: "wblock \<Rightarrow> bool" where
  "whole_block b \<longleftrightarrow> good_block b \<and> list_all plain_line (block_lines b)"

lemma whole_blockI:
  assumes "good_block (k, cm, es)" and "good_comments cm" and "list_all plain_entry es"
  shows "whole_block (k, cm, es)"
  using assms plain_head plain_entry_line plain_comment
  by (auto simp: whole_block_def block_lines_def good_comments_def list_all_iff)

lemma plain_chosen: "list_all (\<lambda>(c, e). c \<longrightarrow> plain_entry e) cs \<Longrightarrow> list_all plain_entry (chosen cs)"
  by (induction cs) auto

lemma plain_text_entry: "line_key k \<Longrightarrow> clean v \<Longrightarrow> (case text_entry c k v of (c, e) \<Rightarrow> c \<longrightarrow> plain_entry e)"
  using one_liner_str [of v] by (simp add: text_entry_def plain_entry_def line_key_def)

lemma plain_bare_entry: "line_key k \<Longrightarrow> (c \<Longrightarrow> one_liner w) \<Longrightarrow> (case bare_entry c k w of (c, e) \<Rightarrow> c \<longrightarrow> plain_entry e)"
  by (auto simp: bare_entry_def plain_entry_def line_key_def)

lemma plain_port: "port_field s \<Longrightarrow> one_liner s"
  by (intro one_liner_bare) (auto simp: port_field_def all_digits_def list_all_iff unit_defs)

lemma plain_true: "one_liner ((lit ''true''))"
  by (simp add: lit_simps unit_defs)

lemma plain_proxy_entries: "writable p \<Longrightarrow> list_all (\<lambda>(c, e). c \<longrightarrow> plain_entry e) (proxy_entries p)"
  using proxy_line_keys plain_port plain_true one_liner_domains [of "domain_list (p_domains p)"]
  unfolding proxy_entries_def list.pred_inject
  by (intro conjI plain_text_entry plain_bare_entry) (auto simp: writable_def)

lemma plain_extras: "good_extras known xs \<Longrightarrow> list_all plain_entry (extra_entries xs)"
proof -
  have o: "\<not> opens_list k" if k: "plain_key k" "\<not> startsWith k ((lit ''proxies''))" "\<not> startsWith k ((lit ''visitors''))" for k
  proof -
    obtain c r where "k = c # r" "is_word c \<or> c = c_dot \<or> c = c_dash" using plain_key_hd [OF k(1)] by blast
    then show ?thesis using k key_unit [of c] by (auto simp: opens_list_def is_blank_def is_ws_def is_quote_def)
  qed
  have "plain_entry (k, w, v)" if "(k, w) \<in> set xs" "good_extras known xs" for k w v
    using that o [of k] by (auto simp: good_extras_def plain_entry_def list_all_iff)
  then show "good_extras known xs \<Longrightarrow> ?thesis" by (auto simp: extra_entries_def list_all_iff)
qed

lemma whole_proxy_block: "writable p \<Longrightarrow> whole_block (proxy_block p)"
  unfolding proxy_block_def
  by (rule whole_blockI)
    (auto simp: writable_def plain_chosen plain_proxy_entries plain_extras [of PROXY_KEYS] good_proxy_block [unfolded proxy_block_def])

subsection \<open>Visitors\<close>

definition visitor_entries :: "visitor \<Rightarrow> option_entry list" where
  "visitor_entries v =
     [text_entry True ''name'' (v_name v), text_entry True ''type'' (v_type v),
      text_entry (v_serverName v \<noteq> []) ''serverName'' (v_serverName v),
      text_entry (v_secretKey v \<noteq> []) ''secretKey'' (v_secretKey v),
      text_entry (v_bindAddr v \<noteq> []) ''bindAddr'' (unbracket (Some (v_bindAddr v))),
      bare_entry (v_bindPort v \<noteq> []) ''bindPort'' (v_bindPort v)]"

definition visitor_block :: "visitor \<Rightarrow> wblock" where
  "visitor_block v = (Visitors, v_comments v, chosen (visitor_entries v) @ extra_entries (v_extras v))"

definition visitor_writable :: "visitor \<Rightarrow> bool" where
  "visitor_writable v \<longleftrightarrow> v_name v \<noteq> [] \<and> list_all clean [v_name v, v_type v, v_serverName v, v_secretKey v, v_bindAddr v]
     \<and> unbracket (Some (v_bindAddr v)) = v_bindAddr v \<and> port_field (v_bindPort v)
     \<and> good_extras VISITOR_KEYS (v_extras v) \<and> good_comments (v_comments v) \<and> (v_notes v = None \<or> v_notes v = Some [])"

definition visitor_kept :: "visitor \<Rightarrow> nat \<Rightarrow> visitor" where
  "visitor_kept v n = v\<lparr>v_uid := n, v_type := or_else (v_type v) ((lit ''stcp'')), v_bindAddr := or_else (v_bindAddr v) ((lit ''127.0.0.1'')),
     v_serverPorts := [], v_notes := Some []\<rparr>"

lemma visitor_block_lines: "\<not> isVisitorRanged v \<Longrightarrow> v_comments v @ visitor_lines v = block_lines (visitor_block v)"
  unfolding visitor_block_def block_lines_def visitor_lines_def visitor_entries_def Let_def
  by (simp add: given_fold given_const chosen_text chosen_bare extra_lines head_lines split del: if_split del: chosen_simps(2))

lemma visitor_keys: "map (fst \<circ> snd) (visitor_entries v) = VISITOR_KEYS"
  by (simp add: visitor_entries_def text_entry_def bare_entry_def VISITOR_KEYS_def)

lemma visitor_line_keys: "list_all line_key [''name'', ''type'', ''serverName'', ''secretKey'', ''bindAddr'', ''bindPort'']"
  by (simp add: line_key_def plain_key_def opens_list_def inherited_names_def lit_simps unit_defs)

lemma read_visitor:
  assumes "visitor_writable v"
  shows "visitorFromBlock (read_block (visitor_block v)) n = (visitor_kept v (n + 1), n + 1)"
proof -
  let ?ex = "extra_entries (v_extras v)" and ?b = "read_block (visitor_block v)"
  have ex: "fst ` set ?ex = fst ` set (v_extras v)" by (force simp: extra_entries_def)
  have no: "lit k \<notin> fst ` set ?ex" if "lit k \<in> set VISITOR_KEYS" for k
    using assms that unfolding ex by (auto simp: visitor_writable_def good_extras_def list_all_iff)
  have val: "bval ?b k = (case entry_value (visitor_entries v) ?ex (lit k) of Some v \<Rightarrow> v | None \<Rightarrow> [])" for k
    by (simp add: bval_def read_block_def visitor_block_def entry_value_def)
  have vals: "bval ?b ''name'' = v_name v" "bval ?b ''type'' = v_type v" "bval ?b ''serverName'' = v_serverName v"
    "bval ?b ''secretKey'' = v_secretKey v" "bval ?b ''bindAddr'' = v_bindAddr v" "bval ?b ''bindPort'' = v_bindPort v"
    unfolding val using no assms
    by (simp_all add: visitor_entries_def text_entry_def bare_entry_def entry_value_Cons entry_value_Nil lit_inject VISITOR_KEYS_def visitor_writable_def)
  have "fst ` snd ` set (visitor_entries v) = set VISITOR_KEYS" unfolding visitor_keys [of v, symmetric] by (simp add: image_image)
  then have ext: "extrasOf ?b VISITOR_KEYS = v_extras v" unfolding visitor_block_def
    using assms by (intro extras_read) (auto simp: visitor_writable_def)
  have b: "b_range ?b = None" "b_comments ?b = v_comments v" "b_notes ?b = []" by (simp_all add: read_block_def visitor_block_def)
  have "intText (v_bindPort v) = v_bindPort v" using assms intText_field by (simp add: visitor_writable_def)
  then show ?thesis unfolding visitorFromBlock_def visitor_kept_def Let_def vals ext b by simp
qed

lemma visitor_entries_good: "visitor_writable v \<Longrightarrow> list_all (\<lambda>(c, e). c \<longrightarrow> good_entry e) (visitor_entries v)"
  using visitor_line_keys good_port unfolding visitor_entries_def list.pred_inject
  by (intro conjI text_entry_good bare_entry_good) (auto simp: visitor_writable_def)

lemma plain_visitor_entries: "visitor_writable v \<Longrightarrow> list_all (\<lambda>(c, e). c \<longrightarrow> plain_entry e) (visitor_entries v)"
  using visitor_line_keys plain_port unfolding visitor_entries_def list.pred_inject
  by (intro conjI plain_text_entry plain_bare_entry) (auto simp: visitor_writable_def)

lemma whole_visitor_block: "visitor_writable v \<Longrightarrow> whole_block (visitor_block v)"
proof -
  assume v: "visitor_writable v"
  have "good_block (visitor_block v)" unfolding visitor_block_def
    by (rule good_blockI [OF visitor_entries_good [OF v] visitor_keys]) (use v in \<open>auto simp: visitor_writable_def VISITOR_KEYS_def lit_inject\<close>)
  then show ?thesis unfolding visitor_block_def
    by (rule whole_blockI)
      (use v in \<open>auto simp: visitor_writable_def plain_chosen plain_visitor_entries plain_extras [of VISITOR_KEYS]\<close>)
qed

subsection \<open>The whole file\<close>

lemma not_ranged: "port_field s \<Longrightarrow> \<not> isPortRange s"
  by (auto simp: port_field_def isPortRange_def all_digits_def list_all_iff is_digit_def)

lemma annotate_nothing: "annotated ls None = ls" "annotated ls (Some []) = ls"
proof -
  have "annotate_line [] l = [l]" for l by (simp add: annotate_line_def note_of_def split: option.splits)
  then have "concat (map (annotate_line []) ls) = ls" by (induction ls) simp_all
  then have "annotate ls [] = ls" by (simp add: annotate_def)
  then show "annotated ls None = ls" "annotated ls (Some []) = ls" by (simp_all add: annotated_def)
qed

lemma proxy_text: "writable p \<Longrightarrow> generateProxy p = join [c_nl] (block_lines (proxy_block p))"
  using proxy_block_lines [of p] not_ranged [of "p_localPort p"] not_ranged [of "p_remotePort p"]
  by (auto simp: generateProxy_def writable_def isRanged_def annotate_nothing)

lemma visitor_text: "visitor_writable v \<Longrightarrow> generateVisitor v = join [c_nl] (block_lines (visitor_block v))"
  using visitor_block_lines [of v] not_ranged [of "v_bindPort v"]
  by (auto simp: generateVisitor_def visitor_writable_def isVisitorRanged_def annotate_nothing)

lemma empty_base: "prep [] = []" "findBlock [] = None" "unbracketConnection (stripBlocks []) = []" "tablesAfterBlocks [] = []"
    "parseToml [] = Some \<lparr>o_vals = [], o_proxies = [], o_visitors = [], o_trailing = []\<rparr>"
  by code_simp+

definition file_blocks :: "proxy list \<Rightarrow> visitor list \<Rightarrow> wblock list" where
  "file_blocks ps vs = map proxy_block (concat (map splitPair ps)) @ map visitor_block vs"

lemma named_writable: "list_all visitor_writable vs \<Longrightarrow> filter (\<lambda>v. v_name v \<noteq> []) vs = vs"
  by (simp add: list_all_iff visitor_writable_def)

lemma block_text: "join [c_nl] (block_lines b) \<noteq> []"
proof -
  obtain k cs es where "b = (k, cs, es)" by (cases b)
  then have "block_head k \<in> set (block_lines b)" "block_head k \<noteq> []" by (simp_all add: block_lines_def block_head_def lit_simps)
  moreover have "join d ls = [] \<Longrightarrow> x \<in> set ls \<Longrightarrow> x = []" for d x and ls :: "jstr list"
  proof (induction ls)
    case (Cons a ls)
    then show ?case by (cases "ls = []") (auto simp: join_Cons)
  qed simp
  ultimately show ?thesis by blast
qed

lemma compose_blocks:
  assumes "list_all writable (concat (map splitPair ps))" and "list_all visitor_writable vs" and "file_blocks ps vs \<noteq> []"
  shows "composeClientConfig [] ps vs = Some (join [c_nl] (file_lines (file_blocks ps vs)))"
proof -
  let ?bs = "file_blocks ps vs" and ?t = "join [c_nl] \<circ> block_lines"
  have "map generateProxy qs = map (?t \<circ> proxy_block) qs" if "list_all writable qs" for qs
    using that by (induction qs) (auto simp: proxy_text)
  moreover have "map generateVisitor us = map (?t \<circ> visitor_block) us" if "list_all visitor_writable us" for us
    using that by (induction us) (auto simp: visitor_text)
  ultimately have c: "client_blocks ps vs = map ?t ?bs"
    using assms by (simp add: client_blocks_def file_blocks_def named_writable)
  have "truthy ([[], []] @ map ?t ?bs @ [[]]) = map ?t ?bs"
    using block_text by (auto simp: filter_empty_conv intro!: filter_True)
  then show ?thesis using join_blocks [OF assms(3)]
    by (simp add: composeClientConfig_def Let_def empty_base c includesStr_def join_Cons crlf_def)
qed

lemma file_blocks_whole:
  assumes "list_all writable (concat (map splitPair ps))" and "list_all visitor_writable vs"
  shows "list_all whole_block (file_blocks ps vs)"
  using assms whole_proxy_block whole_visitor_block by (auto simp: file_blocks_def list_all_iff)

lemma plain_file: "list_all whole_block bs \<Longrightarrow> list_all plain_line (file_lines bs)"
  by (induction bs) (auto simp: file_lines_def whole_block_def plain_line_def opens_list_def lit_simps)

lemma parse_composed:
  assumes "list_all whole_block bs" and "bs \<noteq> []" and "fst (snd (hd bs)) = []"
  shows "\<exists>cfg. parseToml (join [c_nl] (file_lines bs)) = Some cfg \<and> o_vals cfg = [] \<and> o_trailing cfg = []
    \<and> o_proxies cfg = map read_block (filter (\<lambda>b. fst b = Proxies) bs)
    \<and> o_visitors cfg = map read_block (filter (\<lambda>b. fst b = Visitors) bs)"
proof -
  obtain k es bs' where bs: "bs = (k, [], es) # bs'" using assms(2,3) by (cases bs) auto
  have "file_lines bs \<noteq> []" "hd (file_lines bs) = block_head k" "hd (block_head k) = c_lb"
    by (simp_all add: bs file_lines_def block_lines_def block_head_def lit_simps)
  then have p: "prep (join [c_nl] (file_lines bs)) = join [c_nl] (file_lines bs)"
    using plain_file [OF assms(1)] by (intro prep_file) auto
  obtain ls where ls: "file_lines bs = ls @ [[]]" using file_lines_end [OF assms(2)] by blast
  have "list_all one_liner ls" using plain_file [OF assms(1)] by (simp add: ls plain_line_def list_all_iff)
  then have "splitLines (join [c_nl] (file_lines bs)) = file_lines bs" unfolding ls by (rule split_join_lines)
  moreover have "list_all good_block bs" using assms(1) by (simp add: whole_block_def list_all_iff)
  ultimately show ?thesis using parse_file [of bs] assms(3) p by (auto simp: parseToml_def)
qed

text \<open>The numbers the tunnels get as they are read.\<close>

fun numbered :: "('a \<Rightarrow> nat \<Rightarrow> 'a) \<Rightarrow> nat \<Rightarrow> 'a list \<Rightarrow> 'a list" where
  "numbered f n [] = []"
| "numbered f n (x # xs) = f x (n + 1) # numbered f (n + 1) xs"

lemma proxies_read: "list_all writable ps \<Longrightarrow> proxies_from (map (read_block \<circ> proxy_block) ps) n = (numbered kept n ps, n + length ps)"
  by (induction ps arbitrary: n) (auto simp: read_proxy Let_def)

lemma visitors_read: "list_all visitor_writable vs \<Longrightarrow>
    visitors_from (map (read_block \<circ> visitor_block) vs) n = (numbered visitor_kept n vs, n + length vs)"
  by (induction vs arbitrary: n) (auto simp: read_visitor Let_def)

lemma kinds_of_blocks:
  "filter (\<lambda>b. fst b = Proxies) (file_blocks ps vs) = map proxy_block (concat (map splitPair ps))"
  "filter (\<lambda>b. fst b = Visitors) (file_blocks ps vs) = map visitor_block vs"
  by (simp_all add: file_blocks_def proxy_block_def visitor_block_def filter_map comp_def)

definition no_first_note :: "proxy list \<Rightarrow> visitor list \<Rightarrow> bool" where
  "no_first_note ps vs \<longleftrightarrow> (case (concat (map splitPair ps), vs) of
     (p # _, _) \<Rightarrow> p_cmts p = [] | ([], v # _) \<Rightarrow> v_comments v = [] | ([], []) \<Rightarrow> True)"

lemma read_back:
  assumes "list_all writable (concat (map splitPair ps))" and "list_all visitor_writable vs" and "no_first_note ps vs"
  shows "\<exists>out cfg. composeClientConfig [] ps vs = Some out \<and> parseToml out = Some cfg \<and> o_vals cfg = [] \<and> o_trailing cfg = []
    \<and> proxies_from (o_proxies cfg) n = (numbered kept n (concat (map splitPair ps)), n + length (concat (map splitPair ps)))
    \<and> visitors_from (o_visitors cfg) k = (numbered visitor_kept k vs, k + length vs)"
proof (cases "file_blocks ps vs = []")
  case True
  then have e: "client_blocks ps vs = []" "concat (map splitPair ps) = []" "vs = []" by (auto simp: file_blocks_def client_blocks_def)
  then have "composeClientConfig [] ps vs = Some [c_nl]"
    by (simp add: composeClientConfig_def Let_def empty_base includesStr_def crlf_def)
  moreover have "parseToml [c_nl] = Some \<lparr>o_vals = [], o_proxies = [], o_visitors = [], o_trailing = []\<rparr>"
  proof -
    have "prep [c_nl] = [c_nl]" using prep_file [of "[[], []]"] by (simp add: plain_line_def opens_list_def lit_simps)
    then show ?thesis by (simp add: parseToml_def parse_blank_line)
  qed
  ultimately show ?thesis unfolding e(2,3) by simp
next
  case False
  have "fst (snd (hd (file_blocks ps vs))) = []"
  proof (cases "concat (map splitPair ps)")
    case Nil
    show ?thesis using assms(3) False unfolding no_first_note_def file_blocks_def Nil by (cases vs) (simp_all add: visitor_block_def)
  next
    case (Cons q qs)
    show ?thesis using assms(3) unfolding no_first_note_def file_blocks_def Cons by (simp add: proxy_block_def)
  qed
  from parse_composed [OF file_blocks_whole [OF assms(1,2)] False this] obtain cfg
    where cfg: "parseToml (join [c_nl] (file_lines (file_blocks ps vs))) = Some cfg" "o_vals cfg = []" "o_trailing cfg = []"
      "o_proxies cfg = map (read_block \<circ> proxy_block) (concat (map splitPair ps))"
      "o_visitors cfg = map (read_block \<circ> visitor_block) vs"
    unfolding kinds_of_blocks map_map by blast
  show ?thesis
    by (intro exI conjI, rule compose_blocks [OF assms(1,2) False], rule cfg(1))
      (use cfg proxies_read [OF assms(1), of n] visitors_read [OF assms(2), of k] in \<open>simp_all only:\<close>)
qed

subsection \<open>The page\<close>

lemma fixed_ip_kept: "unbracket (Some a) = a \<Longrightarrow> fixed_ip (or_else a ((lit ''127.0.0.1''))) = or_else a ((lit ''127.0.0.1''))"
proof -
  have "unbracket (Some ((lit ''127.0.0.1''))) = (lit ''127.0.0.1'')" by code_simp
  then show "unbracket (Some a) = a \<Longrightarrow> ?thesis" by (simp add: fixed_ip_def or_else_def)
qed

lemma fix_numbered:
  "list_all writable ps \<Longrightarrow> map fix_proxy (numbered kept n ps) = numbered kept n ps"
  "list_all visitor_writable vs \<Longrightarrow> map fix_visitor (numbered visitor_kept n vs) = numbered visitor_kept n vs"
proof -
  have "fix_proxy (kept p m) = kept p m" if "writable p" for p m
    using that fixed_ip_kept [of "p_localIP p"] by (simp add: fix_proxy_def kept_def writable_def)
  then show "list_all writable ps \<Longrightarrow> map fix_proxy (numbered kept n ps) = numbered kept n ps"
    by (induction ps arbitrary: n) auto
  have "fix_visitor (visitor_kept v m) = visitor_kept v m" if "visitor_writable v" for v m
    using that fixed_ip_kept [of "v_bindAddr v"] by (simp add: fix_visitor_def visitor_kept_def visitor_writable_def)
  then show "list_all visitor_writable vs \<Longrightarrow> map fix_visitor (numbered visitor_kept n vs) = numbered visitor_kept n vs"
    by (induction vs arbitrary: n) auto
qed

lemma written_kept: "p_type q \<noteq> TCP_UDP \<Longrightarrow> written_tunnels [kept q n] = [kept q 0]"
  by (simp add: written_tunnels_def splitPair_def kept_def tunnel_of_def)

lemma split_types: "q \<in> set (concat (map splitPair ps)) \<Longrightarrow> p_type q \<noteq> TCP_UDP"
  by (auto simp: splitPair_def Let_def t_tcp_def t_udp_def TCP_UDP_def lit_inject split: if_splits)

lemma written_numbered: "\<forall>q\<in>set qs. p_type q \<noteq> TCP_UDP \<Longrightarrow> written_tunnels (numbered kept n qs) = map (\<lambda>q. kept q 0) qs"
proof (induction qs arbitrary: n)
  case (Cons q qs)
  then show ?case using written_kept [of q "n + 1"] by (simp add: written_tunnels_def)
qed (simp add: written_tunnels_def)

lemma reopened:
  assumes "list_all writable (concat (map splitPair ps))" and "list_all visitor_writable vs" and "no_first_note ps vs"
  shows "\<exists>out. composeClientConfig [] ps vs = Some out
    \<and> mset (written_tunnels (tp_proxies (fst (load_t discarded (Some (out, docker)) seq S))))
        = mset (map (\<lambda>q. kept q 0) (concat (map splitPair ps)))
    \<and> tp_visitors (fst (load_t discarded (Some (out, docker)) seq S))
        = numbered visitor_kept (seq + length (concat (map splitPair ps))) vs"
proof -
  let ?qs = "concat (map splitPair ps)"
  obtain out cfg where out: "composeClientConfig [] ps vs = Some out" "parseToml out = Some cfg"
    and px: "proxies_from (o_proxies cfg) seq = (numbered kept seq ?qs, seq + length ?qs)"
    and vx: "visitors_from (o_visitors cfg) (seq + length ?qs) = (numbered visitor_kept (seq + length ?qs) vs, seq + length ?qs + length vs)"
    using read_back [OF assms, of seq "seq + length ?qs"] by blast
  obtain T n where T: "load_t discarded (Some (out, docker)) seq S = (T, n)" by fastforce
  have "mset (written_tunnels (tp_proxies T)) = mset (written_tunnels (map fix_proxy (numbered kept seq ?qs)))"
    using load_keeps_tunnels [OF T out(2)] px by simp
  also have "written_tunnels (map fix_proxy (numbered kept seq ?qs)) = map (\<lambda>q. kept q 0) ?qs"
    using split_types unfolding fix_numbered(1) [OF assms(1)] by (intro written_numbered) blast
  finally have t: "mset (written_tunnels (tp_proxies T)) = mset (map (\<lambda>q. kept q 0) ?qs)" .
  have "tp_visitors T = map fix_visitor (numbered visitor_kept (seq + length ?qs) vs)"
    using T unfolding load_t_def Let_def option.case prod.case out(2) px vx by auto
  then have "tp_visitors T = numbered visitor_kept (seq + length ?qs) vs" unfolding fix_numbered(2) [OF assms(2)] .
  with t show ?thesis using out(1) T by auto
qed

subsection \<open>Properties\<close>


definition site :: proxy where
  \<open>site = \<lparr>p_uid = 3, p_name = (lit ''my "site"''), p_type = (lit ''http''), p_localIP = [], p_localPort = (lit ''8080''), p_remotePort = [],
     p_domains = (lit ''a.example.org, *.b.net''), p_secretKey = [], p_proxyProtocol = (lit ''v2''), p_compression = True, p_encryption = False,
     p_extras = [((lit ''hostHeaderRewrite''), (lit ''"x"''))], p_cmts = [], p_notes = None, p_udpComments = None, p_udpNotes = None\<rparr>\<close>

definition game :: proxy where
  "game = \<lparr>p_uid = 4, p_name = (lit ''game''), p_type = (lit ''both''), p_localIP = (lit ''10.0.0.2''), p_localPort = (lit ''27015''), p_remotePort = (lit ''27015''),
     p_domains = [], p_secretKey = [], p_proxyProtocol = [], p_compression = False, p_encryption = True,
     p_extras = [], p_cmts = [(lit ''# the server'')], p_notes = Some [], p_udpComments = None, p_udpNotes = None\<rparr>"

definition backup_visitor :: visitor where
  "backup_visitor = \<lparr>v_uid = 5, v_name = (lit ''nas''), v_type = (lit ''stcp''), v_serverName = (lit ''nas-home''), v_secretKey = (lit ''k'' @ [92, 92] @ lit ''1''), v_bindAddr = [],
     v_bindPort = (lit ''9000''), v_serverPorts = [], v_extras = [], v_comments = [(lit ''# backup'')], v_notes = None\<rparr>"

lemma witness_writable: "list_all writable (concat (map splitPair [site, game]))" "list_all visitor_writable [backup_visitor]"
    "no_first_note [site, game] [backup_visitor]"
  by code_simp+




end
