(* ===== verification/Json_Fuel.thy ===== *)
theory Json_Fuel imports Json begin

text \<open>
  The fuel of the JSON reader is enough: each call reads at least a unit, so that twice the length of the text and
  two more give the same result as any larger fuel.
\<close>

lemma json_skip_le: "length (json_skip s) \<le> length s"
  by (simp add: json_skip_def length_dropWhile_le)

lemma json_skip_split: "json_skip s = c # t \<Longrightarrow> length t < length s"
  using json_skip_le [of s] by simp

lemma json_chars_le: "json_chars s = Some (k, r) \<Longrightarrow> length r < length s"
proof (induction s arbitrary: k r rule: json_chars.induct)
  case (2 c s)
  show ?case
  proof (cases "c = c_bs \<and> c \<noteq> c_dq")
    case True
    then obtain d t where s: "s = d # t" using 2(4) by (auto split: if_splits list.splits)
    show ?thesis
    proof (cases "json_escape d")
      case None
      then obtain k' where "json_chars (drop 4 t) = Some (k', r)" "d = 117 \<and> hex_run 4 t" using 2(4) True s by (auto split: if_splits)
      then show ?thesis using 2(1) [of d t k' r] True s None by auto
    next
      case (Some u)
      then obtain k' where "json_chars t = Some (k', r)" using 2(4) True s by (auto split: if_splits)
      then show ?thesis using 2(2) [of d t u k' r] True s Some by auto
    qed
  next
    case False
    show ?thesis
    proof (cases "c = c_dq \<or> c < 32")
      case True
      then show ?thesis using 2(4) by (auto split: if_splits)
    next
      case no: False
      then obtain k' where "json_chars s = Some (k', r)" using 2(4) False by auto
      then show ?thesis using 2(3) [of k' r] False no by auto
    qed
  qed
qed simp

lemma json_number_pos: "json_number s = Some k \<Longrightarrow> 0 < k"
  by (auto simp: json_number_def int_part_def Let_def split: if_splits option.splits)

lemma json_reads:
  "json_value n s = Some (v, r) \<Longrightarrow> length r < length s"
  "json_items n s xs = Some (v, r) \<Longrightarrow> length r < length s"
  "json_members n s ms = Some (v, r) \<Longrightarrow> length r < length s"
proof (induction n arbitrary: s xs ms v r)
  case 0
  { case 1 then show ?case by (simp add: json_value.simps) }
  { case 2 then show ?case by (simp add: json_items.simps) }
  { case 3 then show ?case by (simp add: json_members.simps) }
next
  case (Suc n)
  { case 1
    then obtain c t where c: "json_skip s = c # t" by (auto simp: json_value.simps split: list.splits)
    have le: "length t < length s" by (rule json_skip_split [OF c])
    have tl: "length (tl (json_skip u)) \<le> length u" for u using json_skip_le [of u] by simp
    have num: "length (drop k (c # t)) < length s" if "json_number (c # t) = Some k" for k
      using json_number_pos [OF that] le by simp
    note e = 1 [unfolded json_value.simps c list.case]
    consider "c = c_lc" | "c = c_lb" "c \<noteq> c_lc" | "c = c_dq" "c \<noteq> c_lb" "c \<noteq> c_lc" | "c \<noteq> c_dq" "c \<noteq> c_lb" "c \<noteq> c_lc" by blast
    then show ?case
    proof cases
      case 1
      then show ?thesis using e Suc.IH(3) [of t "[]" v r] tl [of t] le by (auto split: if_splits)
    next
      case 2
      then show ?thesis using e Suc.IH(2) [of t "[]" v r] tl [of t] le by (auto split: if_splits)
    next
      case 3
      then show ?thesis using e json_chars_le [of t] le by auto
    next
      case 4
      then show ?thesis using e num le by (auto split: if_splits)
    qed }
  { case 2
    then obtain x u c t where v: "json_value n s = Some (x, u)" and c: "json_skip u = c # t"
      by (auto simp: json_items.simps split: option.splits list.splits)
    have "length t < length s" using Suc.IH(1) [OF v] json_skip_split [OF c] by simp
    then show ?case using 2 Suc.IH(2) [of t "xs @ [x]" v r] by (auto simp: json_items.simps v c split: if_splits) }
  { case 3
    then obtain q s1 k u1 c t x u2 d u where s: "json_skip s = q # s1" "json_chars s1 = Some (k, u1)" "json_skip u1 = c # t"
        "json_value n t = Some (x, u2)" "json_skip u2 = d # u"
      by (auto simp: json_members.simps split: option.splits list.splits if_splits)
    have "length u < length s"
      using json_skip_split [OF s(1)] json_chars_le [OF s(2)] json_skip_split [OF s(3)] Suc.IH(1) [OF s(4)] json_skip_split [OF s(5)] by simp
    then show ?case using 3 Suc.IH(3) [of u "obj_set k x ms" v r] by (auto simp: json_members.simps s split: if_splits) }
qed

lemma json_fuel:
  "2 * length s + 1 \<le> n \<Longrightarrow> json_value (Suc n) s = json_value n s"
  "2 * length s + 2 \<le> n \<Longrightarrow> json_items (Suc n) s xs = json_items n s xs"
  "2 * length s + 2 \<le> n \<Longrightarrow> json_members (Suc n) s ms = json_members n s ms"
proof (induction n arbitrary: s xs ms)
  case 0
  { case 1 then show ?case by simp }
  { case 2 then show ?case by simp }
  { case 3 then show ?case by simp }
next
  case (Suc n)
  { case 1
    have "json_members (Suc n) t [] = json_members n t []" "json_items (Suc n) t [] = json_items n t []"
      if "json_skip s = c # t" for c t
      using Suc.IH(2,3) [of t "[]"] json_skip_split [OF that] 1 by simp_all
    then show ?case by (auto simp: json_value.simps(2) split: list.splits) }
  { case 2
    have v: "json_value (Suc n) s = json_value n s" using Suc.IH(1) [of s] 2 by simp
    have "json_items (Suc n) t (xs @ [x]) = json_items n t (xs @ [x])" if "json_value n s = Some (x, u)" "json_skip u = c # t" for x u c t
      using Suc.IH(2) [of t "xs @ [x]"] json_reads(1) [OF that(1)] json_skip_split [OF that(2)] 2 by simp
    then show ?case by (auto simp: json_items.simps(2) [of "Suc n" s xs] json_items.simps(2) [of n s xs] v split: list.splits option.splits) }
  { case 3
    have v: "json_value (Suc n) t = json_value n t" if "json_skip s = q # s1" "json_chars s1 = Some (k, u1)" "json_skip u1 = c # t" for q s1 k u1 c t
      using Suc.IH(1) [of t] json_skip_split [OF that(1)] json_chars_le [OF that(2)] json_skip_split [OF that(3)] 3 by simp
    have m: "json_members (Suc n) u m = json_members n u m"
      if "json_skip s = q # s1" "json_chars s1 = Some (k, u1)" "json_skip u1 = c # t" "json_value n t = Some (x, u2)" "json_skip u2 = d # u"
      for q s1 k u1 c t x u2 d u m
      using Suc.IH(3) [of u m] json_skip_split [OF that(1)] json_chars_le [OF that(2)] json_skip_split [OF that(3)]
        json_reads(1) [OF that(4)] json_skip_split [OF that(5)] 3 by simp
    show ?case
    proof (cases "\<exists>q s1 k u1 c t. json_skip s = q # s1 \<and> json_chars s1 = Some (k, u1) \<and> json_skip u1 = c # t")
      case True
      then obtain q s1 k u1 c t where s: "json_skip s = q # s1" "json_chars s1 = Some (k, u1)" "json_skip u1 = c # t" by blast
      show ?thesis using m [OF s] unfolding json_members.simps(2) [of "Suc n" s ms] json_members.simps(2) [of n s ms] s v [OF s] list.case option.case prod.case
        by (auto split: list.splits option.splits)
    next
      case False
      then show ?thesis by (auto simp: json_members.simps(2) [of "Suc n" s ms] json_members.simps(2) [of n s ms] split: list.splits option.splits)
    qed }
qed

theorem json_enough:
  assumes "2 * length s + 2 \<le> n"
  shows "parseJson s = (case json_value n s of Some (v, r) \<Rightarrow> if json_skip r = [] then Some v else None | None \<Rightarrow> None)"
proof -
  have "json_value n s = json_value (2 * length s + 2) s" using assms
    by (induction n rule: dec_induct) (simp_all add: json_fuel(1))
  then show ?thesis by (simp add: parseJson_def)
qed

end
