(* ===== verification/Panel_Dom.thy ===== *)
theory Panel_Dom imports Js_Text begin

text \<open>
  The elements of the pages (\<open>ui.js\<close>): \<open>h\<close> makes every one of them from a tag, an object of attributes and its
  children, and the blocks of the interface are made with it. A page is a tree: an element has its attributes, the
  properties that are not texts, its style and its listeners, and children that are elements or texts. A listener
  is a value of the type of the actions of the page that is built. \<open>tr\<close> translates (\<open>i18n.js\<close>); an argument left
  out is \<open>None\<close>.
\<close>

subsection \<open>Trees\<close>

datatype 'e attr = ANull | ABool bool | AText jstr | ANum jstr | AData "(string \<times> jstr) list" | AStyle "(string \<times> jstr) list" | AFun 'e

record 'e info =
  e_tag :: string
  e_attrs :: "(string \<times> jstr) list"
  e_props :: "(string \<times> 'e attr) list"
  e_style :: "(string \<times> jstr) list"
  e_listeners :: "(string \<times> 'e) list"

datatype 'e node = Txt_node jstr | Elem "'e info" "'e node list"

text \<open>A child given to \<open>h\<close>; a number is its text.\<close>

datatype 'e child = CNull | CFalse | CText jstr | CNode "'e node" | CList "'e child list"

subsection \<open>Making an element\<close>

text \<open>The properties of the DOM that are given values other than texts (\<open>key in el\<close>).\<close>

definition in_el :: "string \<Rightarrow> string \<Rightarrow> bool" where
  "in_el tag key \<longleftrightarrow> key \<in> set [''hidden'', ''autofocus'', ''title'', ''id'', ''spellcheck'', ''tabIndex'']
     \<or> tag \<in> set [''input'', ''textarea'', ''select'', ''button''] \<and> key \<in> set [''disabled'', ''value'', ''name'', ''type'']
     \<or> tag \<in> set [''input'', ''textarea''] \<and> key \<in> set [''maxLength'', ''required'', ''readOnly'', ''placeholder'']
     \<or> tag = ''input'' \<and> key \<in> set [''checked'', ''min'', ''max'', ''step'']
     \<or> tag = ''textarea'' \<and> key \<in> set [''rows'', ''cols'']
     \<or> tag = ''option'' \<and> key \<in> set [''value'', ''disabled'', ''selected'']
     \<or> tag = ''details'' \<and> key = ''open''"

text \<open>The text an attribute is set to: empty for \<open>true\<close>. The source sets none to an object or a function.\<close>

definition attr_text :: "'e attr \<Rightarrow> jstr" where
  "attr_text v = (case v of AText s \<Rightarrow> s | ANum s \<Rightarrow> s | _ \<Rightarrow> [])"

definition is_text :: "'e attr \<Rightarrow> bool" where
  "is_text v = (case v of AText s \<Rightarrow> True | _ \<Rightarrow> False)"

definition is_upper :: "char \<Rightarrow> bool" where
  "is_upper c \<longleftrightarrow> c \<in> set ''ABCDEFGHIJKLMNOPQRSTUVWXYZ''"

definition lower_char :: "char \<Rightarrow> char" where
  "lower_char c = (if is_upper c then char_of (of_char c + 32 :: nat) else c)"

text \<open>The attribute of a property of \<open>dataset\<close>.\<close>

definition data_name :: "string \<Rightarrow> string" where
  "data_name k = ''data-'' @ concat (map (\<lambda>c. if is_upper c then [CHR ''-'', lower_char c] else [c]) k)"

definition set_attribute :: "string \<Rightarrow> jstr \<Rightarrow> 'e info \<Rightarrow> 'e info" where
  "set_attribute k v i = i\<lparr>e_attrs := obj_set k v (e_attrs i)\<rparr>"

definition skipped :: "'e attr \<Rightarrow> bool" where
  "skipped v = (case v of ANull \<Rightarrow> True | ABool b \<Rightarrow> \<not> b | _ \<Rightarrow> False)"

definition set_plain :: "string \<Rightarrow> 'e attr \<Rightarrow> 'e info \<Rightarrow> 'e info" where
  "set_plain k v i = (if in_el (e_tag i) k \<and> \<not> is_text v then i\<lparr>e_props := obj_set k v (e_props i)\<rparr>
     else set_attribute k (attr_text v) i)"

definition apply_attr :: "string \<times> 'e attr \<Rightarrow> 'e info \<Rightarrow> 'e info" where
  "apply_attr kv i = (case kv of (k, v) \<Rightarrow>
     if skipped v then i
     else if k = ''class'' then set_attribute ''class'' (attr_text v) i
     else (case v of
         AData ds \<Rightarrow> (if k = ''dataset'' then fold (\<lambda>(d, t). set_attribute (data_name d) t) ds i else set_plain k v i)
       | AStyle ss \<Rightarrow> (if k = ''style'' then i\<lparr>e_style := fold (\<lambda>(p, t). obj_set p t) ss (e_style i)\<rparr> else set_plain k v i)
       | AFun f \<Rightarrow> (if take 2 k = ''on'' then i\<lparr>e_listeners := e_listeners i @ [(map lower_char (drop 2 k), f)]\<rparr> else set_plain k v i)
       | _ \<Rightarrow> set_plain k v i))"

definition new_info :: "string \<Rightarrow> 'e info" where
  "new_info tag = \<lparr>e_tag = tag, e_attrs = [], e_props = [], e_style = [], e_listeners = []\<rparr>"

text \<open>\<open>append\<close>: lists are gone through, nothing is made of \<open>null\<close> and \<open>false\<close>.\<close>

fun nodes_of :: "'e child list \<Rightarrow> 'e node list" where
  "nodes_of [] = []"
| "nodes_of (CNull # r) = nodes_of r"
| "nodes_of (CFalse # r) = nodes_of r"
| "nodes_of (CText t # r) = Txt_node t # nodes_of r"
| "nodes_of (CNode n # r) = n # nodes_of r"
| "nodes_of (CList cs # r) = nodes_of cs @ nodes_of r"

definition h :: "string \<Rightarrow> (string \<times> 'e attr) list \<Rightarrow> 'e child list \<Rightarrow> 'e node" where
  "h tag attrs children = Elem (fold apply_attr attrs (new_info tag)) (nodes_of children)"

text \<open>\<open>{ ...a, ...b }\<close>.\<close>

definition spread :: "(string \<times> 'e attr) list \<Rightarrow> (string \<times> 'e attr) list \<Rightarrow> (string \<times> 'e attr) list" where
  "spread a b = fold (\<lambda>(k, v). obj_set k v) b a"

text \<open>\<open>x && f(x)\<close> as a child.\<close>

definition when_text :: "jstr option \<Rightarrow> (jstr \<Rightarrow> 'e child) \<Rightarrow> 'e child" where
  "when_text s f = (case s of None \<Rightarrow> CNull | Some t \<Rightarrow> if t = [] then CText [] else f t)"

definition when_child :: "bool \<Rightarrow> 'e child \<Rightarrow> 'e child" where
  "when_child b c = (if b then c else CFalse)"

definition some_child :: "'e node option \<Rightarrow> 'e child" where
  "some_child n = (case n of None \<Rightarrow> CNull | Some x \<Rightarrow> CNode x)"

abbreviation cls :: "string \<Rightarrow> string \<times> 'e attr" where
  "cls c \<equiv> (''class'', AText (lit c))"

abbreviation s_attr :: "string \<Rightarrow> string \<Rightarrow> string \<times> 'e attr" where
  "s_attr k v \<equiv> (k, AText (lit v))"

text \<open>A property is read from what was assigned, an attribute otherwise.\<close>

definition opt_attr :: "jstr option \<Rightarrow> 'e attr" where
  "opt_attr s = (case s of None \<Rightarrow> ANull | Some t \<Rightarrow> AText t)"

end
