(* ===== verification/Panel_Ui.thy ===== *)
theory Panel_Ui imports Panel_Dom Toml_Addr begin

text \<open>
  The blocks of the interface (\<open>ui.js\<close>): icons, buttons, fields and their errors, the controls of the forms, cards,
  notices, the save bar. A function of the source that returns an element is a function to trees; what it adds to
  the element (\<open>wrap.input\<close>, \<open>wrap.value\<close>) is found in the tree.
\<close>

subsection \<open>Looking in a tree\<close>

definition node_attr :: "string \<Rightarrow> 'e node \<Rightarrow> jstr option" where
  "node_attr k n = (case n of Elem i cs \<Rightarrow> map_of (e_attrs i) k | Txt_node t \<Rightarrow> None)"

definition node_tag :: "'e node \<Rightarrow> string" where
  "node_tag n = (case n of Elem i cs \<Rightarrow> e_tag i | Txt_node t \<Rightarrow> [])"

definition node_prop :: "string \<Rightarrow> 'e node \<Rightarrow> 'e attr option" where
  "node_prop k n = (case n of Elem i cs \<Rightarrow> map_of (e_props i) k | Txt_node t \<Rightarrow> None)"

definition is_hidden :: "'e node \<Rightarrow> bool" where
  "is_hidden n \<longleftrightarrow> node_prop ''hidden'' n = Some (ABool True)"

definition change_info :: "('e info \<Rightarrow> 'e info) \<Rightarrow> 'e node \<Rightarrow> 'e node" where
  "change_info f n = (case n of Elem i cs \<Rightarrow> Elem (f i) cs | Txt_node t \<Rightarrow> Txt_node t)"

definition put_attr :: "string \<Rightarrow> jstr \<Rightarrow> 'e node \<Rightarrow> 'e node" where
  "put_attr k v = change_info (set_attribute k v)"

definition put_prop :: "string \<Rightarrow> 'e attr \<Rightarrow> 'e node \<Rightarrow> 'e node" where
  "put_prop k v = change_info (\<lambda>i. i\<lparr>e_props := obj_set k v (e_props i)\<rparr>)"

definition has_class :: "string \<Rightarrow> 'e node \<Rightarrow> bool" where
  "has_class c n \<longleftrightarrow> (case node_attr ''class'' n of Some s \<Rightarrow> lit c \<in> set (split_on c_sp s) | None \<Rightarrow> False)"

text \<open>\<open>textContent = s\<close>\<close>

definition put_text :: "jstr \<Rightarrow> 'e node \<Rightarrow> 'e node" where
  "put_text s n = (case n of Elem i cs \<Rightarrow> Elem i (if s = [] then [] else [Txt_node s]) | Txt_node t \<Rightarrow> Txt_node t)"

fun text_of :: "'e node list \<Rightarrow> jstr" where
  "text_of [] = []"
| "text_of (Txt_node t # r) = t @ text_of r"
| "text_of (Elem i cs # r) = text_of cs @ text_of r"

text \<open>The first node of a list of trees that satisfies \<open>q\<close>, in the order of the document.\<close>

fun find_node :: "('e node \<Rightarrow> bool) \<Rightarrow> 'e node list \<Rightarrow> 'e node option" where
  "find_node q [] = None"
| "find_node q (Txt_node t # r) = find_node q r"
| "find_node q (Elem i cs # r) = (if q (Elem i cs) then Some (Elem i cs)
     else case find_node q cs of Some x \<Rightarrow> Some x | None \<Rightarrow> find_node q r)"

fun map_first :: "('e node \<Rightarrow> bool) \<Rightarrow> ('e node \<Rightarrow> 'e node) \<Rightarrow> 'e node list \<Rightarrow> 'e node list \<times> bool" where
  "map_first q f [] = ([], False)"
| "map_first q f (Txt_node t # r) = apfst (Cons (Txt_node t)) (map_first q f r)"
| "map_first q f (Elem i cs # r) =
     (if q (Elem i cs) then (f (Elem i cs) # r, True)
      else case map_first q f cs of
          (cs', True) \<Rightarrow> (Elem i cs' # r, True)
        | (cs', False) \<Rightarrow> apfst (Cons (Elem i cs)) (map_first q f r))"

subsection \<open>Icons and buttons\<close>

definition icon :: "string \<Rightarrow> string \<Rightarrow> 'e node" where
  "icon name c = Elem (set_attribute ''aria-hidden'' (lit ''true'') (set_attribute ''class'' (trim (lit (''icon '' @ c))) (new_info ''svg'')))
     [Elem (set_attribute ''href'' (lit (''#i-'' @ name)) (new_info ''use'')) []]"

record 'e btn =
  bo_variant :: string
  bo_size :: string
  bo_icon :: string
  bo_click :: "'e option"
  bo_type :: string
  bo_title :: "jstr option"
  bo_rest :: "(string \<times> 'e attr) list"

definition plain_btn :: "'e btn" where
  "plain_btn = \<lparr>bo_variant = ''secondary'', bo_size = [], bo_icon = [], bo_click = None, bo_type = ''button'', bo_title = None, bo_rest = []\<rparr>"

definition fun_attr :: "'e option \<Rightarrow> 'e attr" where
  "fun_attr f = (case f of Some e \<Rightarrow> AFun e | None \<Rightarrow> ANull)"

definition button :: "jstr \<Rightarrow> 'e btn \<Rightarrow> 'e node" where
  "button label o' = h ''button''
     (spread [(''type'', AText (lit (bo_type o'))),
        (''class'', AText (join [c_sp] (truthy [(lit ''btn''), lit (''btn-'' @ bo_variant o'),
            if bo_size o' = [] then [] else lit (''btn-'' @ bo_size o'), if label = [] then (lit ''btn-icon'') else []]))),
        (''onClick'', fun_attr (bo_click o')), (''title'', opt_attr (bo_title o')),
        (''aria-label'', if label = [] then opt_attr (bo_title o') else ANull)] (bo_rest o'))
     [if bo_icon o' = [] then CNull else CNode (icon (bo_icon o') []), CText label]"

subsection \<open>Fields\<close>

text \<open>A labelled control. \<open>seq\<close> is the number of the last identifier given.\<close>

definition set_id :: "jstr \<Rightarrow> 'e node \<Rightarrow> 'e node" where
  "set_id = put_attr ''id''"

record field_opts =
  fo_label :: jstr
  fo_hint :: "jstr option"
  fo_key :: "jstr option"
  fo_optional :: bool
  fo_error :: jstr

definition plain_field :: "jstr \<Rightarrow> field_opts" where
  "plain_field label = \<lparr>fo_label = label, fo_hint = None, fo_key = None, fo_optional = False, fo_error = []\<rparr>"

definition has_text :: "jstr option \<Rightarrow> bool" where
  "has_text s \<longleftrightarrow> s \<noteq> None \<and> s \<noteq> Some []"

definition field :: "(string \<Rightarrow> jstr) \<Rightarrow> field_opts \<Rightarrow> 'e node \<Rightarrow> nat \<Rightarrow> 'e node \<times> nat" where
  "field tr o' control seq =
     (let own = (case node_attr ''id'' control of Some i \<Rightarrow> i | None \<Rightarrow> []);
          seq' = (if own = [] then seq + 1 else seq);
          ident = (if own = [] then (lit ''f-'') @ digits seq' else own);
          hintId = (if has_text (fo_hint o') then AText (ident @ (lit ''-hint'')) else ANull);
          ctl = set_id ident control;
          ctl' = (if has_text (fo_hint o') then put_attr ''aria-describedby'' (ident @ (lit ''-hint'')) ctl else ctl)
      in (h ''div'' [cls ''field'']
           [CNode (h ''label'' [cls ''field-label'', (''for'', AText ident)]
              [CText (fo_label o'),
               when_child (fo_optional o') (CNode (h ''span'' [cls ''field-optional''] [CText (tr ''common.optional'')])),
               when_text (fo_key o') (\<lambda>k. CNode (h ''span'' [cls ''field-key'', (''title'', AText (tr ''common.tomlKey''))] [CText k]))]),
            CNode ctl',
            when_text (fo_hint o') (\<lambda>t. CNode (h ''p'' [cls ''field-hint'', (''id'', hintId)] [CText t])),
            CNode (h ''p'' [cls ''field-error'', (''hidden'', ABool (fo_error o' = []))] [CText (fo_error o')])], seq'))"

text \<open>\<open>setFieldError\<close>: the control is the first node that satisfies \<open>isc\<close>; its field is the innermost element around
  it of that class, and the message goes to the first place for errors in it.\<close>

datatype found = Not_found | Wants_error | Error_done

definition show_error :: "jstr \<Rightarrow> 'e node \<Rightarrow> 'e node" where
  "show_error msg n = put_prop ''hidden'' (ABool (msg = [])) (put_text msg n)"

definition mark_invalid :: "jstr \<Rightarrow> 'e node \<Rightarrow> 'e node" where
  "mark_invalid msg = put_attr ''aria-invalid'' (lit (if msg \<noteq> [] then ''true'' else ''false''))"

fun field_error_in :: "('e node \<Rightarrow> bool) \<Rightarrow> jstr \<Rightarrow> 'e node list \<Rightarrow> 'e node list \<times> found" where
  "field_error_in isc msg [] = ([], Not_found)"
| "field_error_in isc msg (Txt_node t # r) = apfst (Cons (Txt_node t)) (field_error_in isc msg r)"
| "field_error_in isc msg (Elem i cs # r) =
     (let (n, st) = (if isc (Elem i cs) then (mark_invalid msg (Elem i cs), Wants_error)
                     else case field_error_in isc msg cs of (cs', st) \<Rightarrow> (Elem i cs', st))
      in if st = Not_found then apfst (Cons (Elem i cs)) (field_error_in isc msg r)
         else if st = Wants_error \<and> has_class ''field'' n
           then ((case n of Elem j ds \<Rightarrow> Elem j (fst (map_first (has_class ''field-error'') (show_error msg) ds)) | Txt_node t \<Rightarrow> n) # r, Error_done)
         else (n # r, st))"

definition setFieldError :: "('e node \<Rightarrow> bool) \<Rightarrow> jstr \<Rightarrow> 'e node \<Rightarrow> 'e node" where
  "setFieldError isc msg root = hd (fst (field_error_in isc msg [root]))"

subsection \<open>Controls\<close>

text \<open>\<open>attrs.mono\<close> only chooses the class.\<close>

definition input :: "(string \<times> 'e attr) list \<Rightarrow> 'e node" where
  "input attrs = h ''input''
     (spread [(''class'', AText (if map_of attrs ''mono'' = Some (ABool True) then (lit ''input input-mono'') else (lit ''input''))),
        s_attr ''type'' ''text''] (spread attrs [(''mono'', ANull)])) []"

text \<open>An option of a list: its value and what it shows.\<close>

definition choose_option :: "jstr option \<Rightarrow> 'e node \<Rightarrow> 'e node" where
  "choose_option v n = (case v of None \<Rightarrow> n | Some s \<Rightarrow> put_prop ''value'' (AText s) n)"

definition select :: "(jstr \<times> jstr) list \<Rightarrow> jstr option \<Rightarrow> (string \<times> 'e attr) list \<Rightarrow> 'e node" where
  "select options v attrs = choose_option v
     (h ''select'' (spread [cls ''select''] attrs)
        [CList (map (\<lambda>(val, label). CNode (h ''option'' [(''value'', AText val)] [CText label])) options)])"

text \<open>A password and the button that shows it; \<open>toggle\<close> is the action of the button.\<close>

definition secretInput :: "(string \<Rightarrow> jstr) \<Rightarrow> 'e \<Rightarrow> (string \<times> 'e attr) list \<Rightarrow> 'e node" where
  "secretInput tr toggle attrs = h ''div'' [cls ''input-group'']
     [CNode (input (spread [s_attr ''type'' ''password'', s_attr ''autocomplete'' ''off'', (''mono'', ABool True)] attrs)),
      CNode (button [] (plain_btn\<lparr>bo_icon := ''eye'', bo_title := Some (tr ''common.show''), bo_click := Some toggle\<rparr>))]"

text \<open>The button again: \<open>shown\<close> is whether the password is shown now.\<close>

definition toggle_secret :: "(string \<Rightarrow> jstr) \<Rightarrow> 'e node \<Rightarrow> 'e node" where
  "toggle_secret tr n = (case n of
     Elem i [inp, Elem j [Elem s [use], l]] \<Rightarrow>
       (let shown = (node_attr ''type'' inp = Some ((lit ''password''))); title = tr (if shown then ''common.hide'' else ''common.show'')
        in Elem i [put_attr ''type'' (lit (if shown then ''text'' else ''password'')) inp,
             put_attr ''aria-label'' title (put_attr ''title'' title
               (Elem j [Elem s [put_attr ''href'' (lit (if shown then ''#i-eye-off'' else ''#i-eye'')) use], l]))])
   | _ \<Rightarrow> n)"

record 'e switch_opts =
  so_checked :: bool
  so_disabled :: bool
  so_label :: "jstr option"
  so_change :: "'e option"
  so_id :: "jstr option"

definition plain_switch :: "'e switch_opts" where
  "plain_switch = \<lparr>so_checked = False, so_disabled = False, so_label = None, so_change = None, so_id = None\<rparr>"

definition add_listener :: "string \<Rightarrow> 'e \<Rightarrow> 'e node \<Rightarrow> 'e node" where
  "add_listener k f = change_info (\<lambda>i. i\<lparr>e_listeners := e_listeners i @ [(k, f)]\<rparr>)"

definition switchControl :: "'e switch_opts \<Rightarrow> 'e node" where
  "switchControl o' =
     (let inp = h ''input'' [s_attr ''type'' ''checkbox'', s_attr ''role'' ''switch'', (''checked'', ABool (so_checked o')),
          (''disabled'', ABool (so_disabled o')), (''id'', opt_attr (so_id o')), (''aria-label'', opt_attr (so_label o'))] [];
          inp' = (case so_change o' of Some f \<Rightarrow> add_listener ''change'' f inp | None \<Rightarrow> inp)
      in h ''label'' [cls ''switch''] [CNode inp', CNode (h ''span'' [cls ''switch-track''] [])])"

definition switchRow :: "jstr \<Rightarrow> jstr option \<Rightarrow> 'e switch_opts \<Rightarrow> 'e node" where
  "switchRow label description o' = h ''div'' [cls ''switch-row'']
     [CNode (h ''div'' [cls ''switch-text'']
        [CNode (h ''div'' [cls ''switch-label''] [CText label]),
         when_text description (\<lambda>d. CNode (h ''div'' [cls ''switch-desc''] [CText d]))]),
      CNode (switchControl (o'\<lparr>so_label := Some label\<rparr>))]"

text \<open>A choice among a few: value, text and icon (empty: none) of each. \<open>pick\<close> is the action of an option.\<close>

definition radio_state :: "jstr \<Rightarrow> jstr \<Rightarrow> jstr" where
  "radio_state value chosen_value = lit (if value = chosen_value then ''true'' else ''false'')"

definition segmented :: "(jstr \<times> jstr \<times> string) list \<Rightarrow> jstr \<Rightarrow> (jstr \<Rightarrow> 'e) \<Rightarrow> jstr option \<Rightarrow> 'e node" where
  "segmented options value pick label = h ''div'' [cls ''segmented'', s_attr ''role'' ''radiogroup'', (''aria-label'', opt_attr label)]
     [CList (map (\<lambda>(v, text, ic). CNode (h ''button'' [s_attr ''type'' ''button'', s_attr ''role'' ''radio'',
          (''aria-checked'', AText (radio_state v value)), (''onClick'', AFun (pick v)), (''dataset'', AData [(''value'', v)])]
        [if ic = [] then CNull else CNode (icon ic []), CText text])) options)]"

text \<open>A click on an option: the value of the control and the state of the options, nothing when it is the one chosen.
  The result says whether \<open>onChange\<close> is called.\<close>

definition pick_option :: "jstr \<Rightarrow> jstr \<Rightarrow> 'e node \<Rightarrow> jstr \<times> 'e node \<times> bool" where
  "pick_option v value n = (if value = v then (value, n, False)
     else (v, (case n of
         Elem i bs \<Rightarrow> Elem i (map (\<lambda>b. put_attr ''aria-checked'' (lit (if node_attr ''data-value'' b = Some v then ''true'' else ''false'')) b) bs)
       | Txt_node t \<Rightarrow> n), True))"

subsection \<open>Notices, cards and the save bar\<close>

definition callout_icon :: "string \<Rightarrow> string" where
  "callout_icon ty = the (map_of [(''info'', ''info''), (''warn'', ''alert''), (''danger'', ''alert''),
     (''success'', ''check-circle''), (''neutral'', ''info'')] ty)"

record 'e callout_opts =
  co_type :: string
  co_title :: "jstr option"
  co_text :: "'e child"
  co_actions :: "'e child list"
  co_icon :: string
  co_compact :: bool

definition plain_callout :: "'e callout_opts" where
  "plain_callout = \<lparr>co_type = ''info'', co_title = None, co_text = CNull, co_actions = [], co_icon = [], co_compact = False\<rparr>"

text \<open>Whether a value that may be a text or an element counts as given.\<close>

definition child_given :: "'e child \<Rightarrow> bool" where
  "child_given c \<longleftrightarrow> (case c of CNull \<Rightarrow> False | CFalse \<Rightarrow> False | CText t \<Rightarrow> t \<noteq> [] | _ \<Rightarrow> True)"

definition around :: "'e child \<Rightarrow> ('e child \<Rightarrow> 'e child) \<Rightarrow> 'e child" where
  "around c f = (if child_given c then f c else c)"

definition callout :: "'e callout_opts \<Rightarrow> 'e node" where
  "callout o' =
     (let ic = icon (if co_icon o' = [] then callout_icon (co_type o') else co_icon o') [];
          acts = (\<lambda>c. if co_actions o' = [] then CNull else CNode (h ''div'' [cls c] [CList (co_actions o')]))
      in if co_compact o'
         then h ''div'' [cls (''callout callout-compact callout-'' @ co_type o')]
           [CNode ic, CNode (h ''div'' [cls ''callout-body'']
              [when_text (co_title o') (\<lambda>t. CNode (h ''strong'' [] [CText t])),
               if has_text (co_title o') \<and> child_given (co_text o') then CText [c_sp] else CNull, co_text o']),
            acts ''callout-inline-actions'']
         else h ''div'' [cls (''callout callout-'' @ co_type o'), (''role'', if co_type o' = ''danger'' then AText (lit ''alert'') else ANull)]
           [CNode ic, CNode (h ''div'' [cls ''callout-body'']
              [when_text (co_title o') (\<lambda>t. CNode (h ''div'' [cls ''callout-title''] [CText t])),
               around (co_text o') (\<lambda>c. CNode (h ''div'' [cls ''callout-text''] [c])),
               acts ''callout-actions''])])"

definition emptyState :: "string \<Rightarrow> jstr \<Rightarrow> jstr option \<Rightarrow> 'e child list \<Rightarrow> 'e node" where
  "emptyState ic title text actions = h ''div'' [cls ''empty'']
     [CNode (h ''div'' [cls ''empty-icon''] [CNode (icon ic ''icon-lg'')]), CNode (h ''div'' [cls ''empty-title''] [CText title]),
      when_text text (\<lambda>t. CNode (h ''p'' [cls ''empty-text''] [CText t])),
      if actions = [] then CNull else CNode (h ''div'' [cls ''empty-actions''] [CList actions])]"

definition pageHeader :: "jstr \<Rightarrow> jstr option \<Rightarrow> 'e child list \<Rightarrow> 'e node" where
  "pageHeader title description actions = h ''header'' [cls ''page-head'']
     [CNode (h ''div'' [] [CNode (h ''h1'' [cls ''page-title'', s_attr ''tabindex'' ''-1''] [CText title]),
        when_text description (\<lambda>d. CNode (h ''p'' [cls ''page-desc''] [CText d]))]),
      if actions = [] then CNull else CNode (h ''div'' [cls ''page-actions''] [CList actions])]"

record 'e card_opts =
  ca_title :: "jstr option"
  ca_description :: "jstr option"
  ca_head :: "'e child"
  ca_body :: "'e child"
  ca_foot :: "'e child"
  ca_cls :: jstr

definition plain_card :: "'e card_opts" where
  "plain_card = \<lparr>ca_title = None, ca_description = None, ca_head = CNull, ca_body = CNull, ca_foot = CNull, ca_cls = []\<rparr>"

definition card_box :: "'e card_opts \<Rightarrow> 'e node" where
  "card_box o' = h ''section'' [(''class'', AText (trim ((lit ''card '') @ ca_cls o')))]
     [when_text (ca_title o') (\<lambda>t. CNode (h ''div'' [cls ''card-head'']
        [CNode (h ''div'' [] [CNode (h ''h2'' [cls ''card-title''] [CText t]),
           when_text (ca_description o') (\<lambda>d. CNode (h ''p'' [cls ''card-desc''] [CText d]))]), ca_head o'])),
      around (ca_body o') (\<lambda>c. CNode (h ''div'' [cls ''card-body''] [c])),
      around (ca_foot o') (\<lambda>c. CNode (h ''div'' [cls ''card-foot''] [c]))]"

definition badge :: "jstr \<Rightarrow> string \<Rightarrow> (string \<times> 'e attr) list \<Rightarrow> 'e node" where
  "badge text variant attrs = h ''span'' (spread
     [(''class'', AText (trim (lit (''badge '' @ (if variant = [] then [] else ''badge-'' @ variant)))))] attrs) [CText text]"

text \<open>The bar of changes that are not saved; a button whose work has begun is busy (\<open>busy\<close>).\<close>

record 'e save_opts =
  sv_discard :: 'e
  sv_save :: 'e
  sv_restart :: "'e option"
  sv_restart_label :: "jstr option"
  sv_save_label :: "jstr option"

definition or_text :: "jstr option \<Rightarrow> jstr \<Rightarrow> jstr" where
  "or_text s d = (case s of Some t \<Rightarrow> if t = [] then d else t | None \<Rightarrow> d)"

definition saveBar :: "(string \<Rightarrow> jstr) \<Rightarrow> 'e save_opts \<Rightarrow> 'e node" where
  "saveBar tr o' =
     (let save = button (or_text (sv_save_label o') (tr ''common.save'')) (plain_btn\<lparr>bo_click := Some (sv_save o')\<rparr>);
          save' = (if sv_restart o' = None then put_attr ''class'' ((lit ''btn btn-primary'')) save else save);
          restart = map_option (\<lambda>f. button (or_text (sv_restart_label o') (tr ''common.saveAndRestart''))
            (plain_btn\<lparr>bo_variant := ''primary'', bo_click := Some f\<rparr>)) (sv_restart o')
      in h ''div'' [cls ''savebar'', s_attr ''role'' ''region'', (''aria-label'', AText (tr ''common.unsaved'')), (''hidden'', ABool True)]
           [CNode (h ''div'' [cls ''savebar-text''] [CNode (icon ''alert'' []), CText (tr ''common.unsaved'')]),
            CNode (button (tr ''common.discard'') (plain_btn\<lparr>bo_variant := ''ghost'', bo_click := Some (sv_discard o')\<rparr>)),
            CNode save', some_child restart])"

definition copyButton :: "(string \<Rightarrow> jstr) \<Rightarrow> 'e \<Rightarrow> 'e node" where
  "copyButton tr copy = button [] (plain_btn\<lparr>bo_variant := ''ghost'', bo_size := ''sm'', bo_icon := ''copy'',
     bo_title := Some (tr ''common.copy''), bo_click := Some copy\<rparr>)"

text \<open>\<open>busy\<close>: a button while the work of its click lasts; whatever its end, the button is as before.\<close>

definition busy_start :: "'e node \<Rightarrow> 'e node" where
  "busy_start btn = put_prop ''disabled'' (ABool True) (put_attr ''aria-busy'' ((lit ''true'')) btn)"

definition busy_end :: "'e node \<Rightarrow> 'e node" where
  "busy_end btn = put_prop ''disabled'' (ABool False) (change_info (\<lambda>i. i\<lparr>e_attrs := filter (\<lambda>kv. fst kv \<noteq> ''aria-busy'') (e_attrs i)\<rparr>) btn)"

end
