(* ===== verification/Panel_Ui_Events.thy ===== *)
theory Panel_Ui_Events imports Panel_Ui begin

text \<open>
  What lives in the interface (\<open>ui.js\<close>): messages that go away, the one menu that is open, dialogs and their
  answers. Timers are the time they end at; the browser decides which event comes next.
\<close>

subsection \<open>Messages\<close>

text \<open>A message of \<open>#toasts\<close>: it begins to leave at \<open>ti_leave\<close> (milliseconds) and is gone 220 ms later.\<close>

record toast_item =
  ti_type :: string
  ti_message :: jstr
  ti_leave :: nat

definition toast_alive :: "nat \<Rightarrow> toast_item list \<Rightarrow> toast_item list" where
  "toast_alive now ts = filter (\<lambda>x. now < ti_leave x + 220) ts"

definition toast_leaving :: "nat \<Rightarrow> toast_item \<Rightarrow> bool" where
  "toast_leaving now x \<longleftrightarrow> ti_leave x \<le> now"

definition toast_end :: "string \<Rightarrow> nat \<Rightarrow> nat \<Rightarrow> nat" where
  "toast_end ty duration now = now + (if ty = ''error'' then duration + 2000 else duration)"

text \<open>\<open>while (host.children.length > 4) host.firstChild.remove()\<close>\<close>

definition last_four :: "'a list \<Rightarrow> 'a list" where
  "last_four xs = drop (length xs - 4) xs"

definition toast :: "jstr \<Rightarrow> string \<Rightarrow> nat \<Rightarrow> nat \<Rightarrow> toast_item list \<Rightarrow> toast_item list" where
  "toast message ty duration now ts = (if message = [] then toast_alive now ts
     else last_four (toast_alive now ts @ [\<lparr>ti_type = ty, ti_message = message, ti_leave = toast_end ty duration now\<rparr>]))"

text \<open>The answer of the server: whether it is good, and its message.\<close>

definition toastResult :: "(string \<Rightarrow> jstr) \<Rightarrow> (bool \<times> jstr option) option \<Rightarrow> jstr \<Rightarrow> nat \<Rightarrow> toast_item list \<Rightarrow> toast_item list" where
  "toastResult tr d fallbackOk = (case d of
     Some (True, msg) \<Rightarrow> toast (if has_text msg \<and> msg \<noteq> Some ((lit ''OK'')) then the msg else fallbackOk) ''success'' 4000
   | _ \<Rightarrow> toast (or_text (case d of Some (b, msg) \<Rightarrow> msg | None \<Rightarrow> None) (tr ''errors.generic'')) ''error'' 4000)"

definition toastError :: "(string \<Rightarrow> jstr) \<Rightarrow> jstr option \<Rightarrow> nat \<Rightarrow> toast_item list \<Rightarrow> toast_item list" where
  "toastError tr msg = toast (or_text msg (tr ''errors.generic'')) ''error'' 4000"

text \<open>The element of a message.\<close>

definition toast_node :: "nat \<Rightarrow> toast_item \<Rightarrow> 'e node" where
  "toast_node now x = h ''div''
     [cls (''toast toast-'' @ ti_type x @ (if toast_leaving now x then '' is-leaving'' else [])),
      s_attr ''role'' (if ti_type x = ''error'' then ''alert'' else ''status'')]
     [CNode (icon (case map_of [(''success'', ''check-circle''), (''error'', ''alert''), (''info'', ''info'')] (ti_type x) of
         Some i \<Rightarrow> i | None \<Rightarrow> ''info'') []), CNode (h ''div'' [] [CText (ti_message x)])]"

text \<open>A copy that the browser allows or refuses.\<close>

definition copied :: "(string \<Rightarrow> jstr) \<Rightarrow> bool \<Rightarrow> nat \<Rightarrow> toast_item list \<Rightarrow> toast_item list" where
  "copied tr allowed = (if allowed then toast (tr ''common.copied'') ''success'' 1800 else toast (tr ''errors.clipboard'') ''error'' 4000)"

subsection \<open>Menus\<close>

text \<open>The menus of a page by number; \<open>sizes\<close> gives how many items each has. \<open>mn_shown\<close> are the menus in the page,
  \<open>mn_expanded\<close> the buttons that say so, \<open>mn_ran\<close> the items whose action ran.\<close>

datatype focus = Elsewhere | On_trigger nat | On_item nat

record menus =
  mn_open :: "nat option"
  mn_shown :: "nat list"
  mn_expanded :: "nat list"
  mn_focus :: focus
  mn_ran :: "(nat \<times> nat) list"

definition closeOpenMenu :: "menus \<Rightarrow> menus" where
  "closeOpenMenu M = (case mn_open M of None \<Rightarrow> M
     | Some i \<Rightarrow> M\<lparr>mn_shown := filter (\<lambda>j. j \<noteq> i) (mn_shown M), mn_expanded := filter (\<lambda>j. j \<noteq> i) (mn_expanded M), mn_open := None,
         mn_focus := (case mn_focus M of On_item k \<Rightarrow> Elsewhere | f \<Rightarrow> f)\<rparr>)"

text \<open>A click on the button of a menu does not reach the document.\<close>

definition click_trigger :: "(nat \<Rightarrow> nat) \<Rightarrow> nat \<Rightarrow> menus \<Rightarrow> menus" where
  "click_trigger sizes i M0 = (let M = M0\<lparr>mn_focus := On_trigger i\<rparr> in
     if mn_open M = Some i then closeOpenMenu M
     else (let C = closeOpenMenu M
           in C\<lparr>mn_shown := mn_shown C @ [i], mn_expanded := mn_expanded C @ [i], mn_open := Some i,
                mn_focus := (if sizes i = 0 then mn_focus C else On_item 0)\<rparr>))"

text \<open>A click elsewhere; \<open>inside\<close> is the menu whose surroundings were clicked.\<close>

definition click_document :: "nat option \<Rightarrow> menus \<Rightarrow> menus" where
  "click_document inside M = (if mn_open M \<noteq> None \<and> inside \<noteq> mn_open M then closeOpenMenu M else M)"

definition press_escape :: "menus \<Rightarrow> menus" where
  "press_escape M = (case mn_open M of None \<Rightarrow> M | Some i \<Rightarrow> (closeOpenMenu M)\<lparr>mn_focus := On_trigger i\<rparr>)"

definition click_item :: "nat \<Rightarrow> menus \<Rightarrow> menus" where
  "click_item k M = (case mn_open M of None \<Rightarrow> M | Some i \<Rightarrow> (closeOpenMenu M)\<lparr>mn_ran := mn_ran M @ [(i, k)]\<rparr>)"

text \<open>The arrows, on an item of the open menu.\<close>

definition arrow :: "(nat \<Rightarrow> nat) \<Rightarrow> bool \<Rightarrow> menus \<Rightarrow> menus" where
  "arrow sizes down M = (case (mn_open M, mn_focus M) of
     (Some i, On_item k) \<Rightarrow> M\<lparr>mn_focus := On_item (if down then (k + 1) mod sizes i else (k + sizes i - 1) mod sizes i)\<rparr>
   | _ \<Rightarrow> M)"

inductive menu_step :: "(nat \<Rightarrow> nat) \<Rightarrow> menus \<Rightarrow> menus \<Rightarrow> bool" for sizes where
  menu_trigger: "menu_step sizes M (click_trigger sizes i M)"
| menu_outside: "menu_step sizes M (click_document inside M)"
| menu_escape: "menu_step sizes M (press_escape M)"
| menu_item: "mn_open M = Some i \<Longrightarrow> k < sizes i \<Longrightarrow> menu_step sizes M (click_item k M)"
| menu_arrow: "menu_step sizes M (arrow sizes down M)"

definition no_menu :: menus where
  "no_menu = \<lparr>mn_open = None, mn_shown = [], mn_expanded = [], mn_focus = Elsewhere, mn_ran = []\<rparr>"

text \<open>What a menu is made of: its items and separators (\<open>None\<close>); an item has a text, an icon and whether it is
  dangerous. \<open>pick\<close> is the action of the item of a number.\<close>

definition menu_node :: "(jstr \<times> string \<times> bool) option list \<Rightarrow> (nat \<Rightarrow> 'e) \<Rightarrow> 'e node" where
  "menu_node items pick = h ''div'' [cls ''menu'', s_attr ''role'' ''menu'']
     [CList (map (\<lambda>(k, it). case it of
         None \<Rightarrow> CNode (h ''div'' [cls ''menu-sep'', s_attr ''role'' ''separator''] [])
       | Some (label, ic, danger) \<Rightarrow> CNode (h ''button'' [s_attr ''type'' ''button'', s_attr ''role'' ''menuitem'',
           cls (if danger then ''menu-item is-danger'' else ''menu-item''), (''onClick'', AFun (pick k))]
           [if ic = [] then CNull else CNode (icon ic []), CText label])) (zip [0..<length items] items))]"

definition menuButton :: "(string \<Rightarrow> jstr) \<Rightarrow> jstr option \<Rightarrow> 'e \<Rightarrow> 'e node option \<Rightarrow> 'e node" where
  "menuButton tr title click menu = h ''div'' [cls ''menu-wrap'']
     [CNode (button [] (plain_btn\<lparr>bo_variant := ''ghost'', bo_icon := ''more'', bo_click := Some click,
        bo_title := Some (case title of Some t \<Rightarrow> t | None \<Rightarrow> tr ''common.moreActions''),
        bo_rest := [s_attr ''aria-haspopup'' ''menu'', s_attr ''aria-expanded'' (if menu = None then ''false'' else ''true'')]\<rparr>)),
      some_child menu]"

subsection \<open>Dialogs\<close>

text \<open>A dialog is open, closed with its event \<open>close\<close> still to come, or answered. \<open>None\<close> is no answer.\<close>

datatype phase_of_dialog = Dialog_open | Dialog_closing | Dialog_closed

record 'r dialog =
  dg_phase :: phase_of_dialog
  dg_returned :: "'r option"

definition open_dialog :: "'r dialog" where
  "open_dialog = \<lparr>dg_phase = Dialog_open, dg_returned = None\<rparr>"

datatype 'r dialog_event = Close_with "'r option" | Escape_key | Close_event

definition dialog_event :: "'r dialog_event \<Rightarrow> 'r dialog \<Rightarrow> 'r dialog" where
  "dialog_event e D = (case e of
     Close_with v \<Rightarrow> (if dg_phase D = Dialog_closed then D\<lparr>dg_returned := v\<rparr>
       else D\<lparr>dg_returned := v, dg_phase := Dialog_closing\<rparr>)
   | Escape_key \<Rightarrow> (if dg_phase D = Dialog_open then D\<lparr>dg_phase := Dialog_closing\<rparr> else D)
   | Close_event \<Rightarrow> (if dg_phase D = Dialog_closing then D\<lparr>dg_phase := Dialog_closed\<rparr> else D))"

text \<open>The answer is the value when the event \<open>close\<close> comes: the events until then.\<close>

fun dialog_answer :: "'r dialog_event list \<Rightarrow> 'r dialog \<Rightarrow> 'r option option" where
  "dialog_answer [] D = None"
| "dialog_answer (e # es) D = (let D' = dialog_event e D in if dg_phase D' = Dialog_closed then Some (dg_returned D') else dialog_answer es D')"

definition confirmDialog :: "bool dialog_event list \<Rightarrow> bool option" where
  "confirmDialog es = map_option (\<lambda>r. r = Some True) (dialog_answer es open_dialog)"

text \<open>The value typed when the form is sent.\<close>

definition prompt_value :: "jstr \<Rightarrow> jstr" where
  "prompt_value typed = trim typed"

definition dialog_node :: "(string \<Rightarrow> jstr) \<Rightarrow> jstr \<Rightarrow> 'e child \<Rightarrow> string \<Rightarrow> 'e \<Rightarrow> 'e child list \<Rightarrow> 'e child list \<Rightarrow> 'e node" where
  "dialog_node tr title description sz shut body foot =
     h ''dialog'' [cls (''dialog '' @ (if sz = [] then [] else ''dialog-'' @ sz)), s_attr ''aria-labelledby'' ''dlg-title'']
       [CNode (h ''div'' [cls ''dialog-head'']
          [CNode (h ''div'' [(''style'', AStyle [(''flex'', (lit ''1'')), (''minWidth'', (lit ''0''))])]
             [CNode (h ''h2'' [cls ''dialog-title'', s_attr ''id'' ''dlg-title''] [CText title]),
              around description (\<lambda>d. CNode (h ''p'' [cls ''dialog-desc''] [d]))]),
           CNode (button [] (plain_btn\<lparr>bo_variant := ''ghost'', bo_size := ''sm'', bo_icon := ''x'',
             bo_title := Some (tr ''common.close''), bo_click := Some shut\<rparr>))]),
        CNode (h ''div'' [cls ''dialog-body''] [CList body]),
        if foot = [] then CNull else CNode (h ''div'' [cls ''dialog-foot''] [CList foot])]"

definition confirm_body :: "jstr \<Rightarrow> 'e child list" where
  "confirm_body message = [CNode (h ''p'' [cls ''muted'', (''style'', AStyle [(''color'', (lit ''var(--text-2)''))])] [CText message])]"

definition confirm_foot :: "(string \<Rightarrow> jstr) \<Rightarrow> jstr option \<Rightarrow> bool \<Rightarrow> (bool \<Rightarrow> 'e) \<Rightarrow> 'e child list" where
  "confirm_foot tr label danger answer =
     [CNode (button (tr ''common.cancel'') (plain_btn\<lparr>bo_click := Some (answer False)\<rparr>)),
      CNode (button (case label of Some t \<Rightarrow> t | None \<Rightarrow> tr ''common.confirm'')
        (plain_btn\<lparr>bo_variant := (if danger then ''danger'' else ''primary''), bo_click := Some (answer True), bo_rest := [(''autofocus'', ABool True)]\<rparr>))]"

definition prompt_body :: "(string \<Rightarrow> jstr) \<Rightarrow> jstr \<Rightarrow> jstr option \<Rightarrow> jstr \<Rightarrow> jstr \<Rightarrow> jstr option \<Rightarrow> 'e \<Rightarrow> nat \<Rightarrow> 'e child list \<times> nat" where
  "prompt_body tr label hint value placeholder maxLength submit seq =
     (let inp = h ''input'' [cls ''input'', (''value'', AText value), (''placeholder'', AText placeholder),
          (''maxLength'', case maxLength of Some n \<Rightarrow> ANum n | None \<Rightarrow> ANull), (''autofocus'', ABool True)] [];
          (f, seq') = field tr ((plain_field label)\<lparr>fo_hint := hint\<rparr>) inp seq
      in ([CNode (h ''form'' [(''onSubmit'', AFun submit), s_attr ''id'' ''prompt-form''] [CNode f])], seq'))"

definition prompt_foot :: "(string \<Rightarrow> jstr) \<Rightarrow> jstr option \<Rightarrow> 'e \<Rightarrow> 'e child list" where
  "prompt_foot tr label cancel =
     [CNode (button (tr ''common.cancel'') (plain_btn\<lparr>bo_click := Some cancel\<rparr>)),
      CNode (button (case label of Some t \<Rightarrow> t | None \<Rightarrow> tr ''common.save'')
        (plain_btn\<lparr>bo_variant := ''primary'', bo_type := ''submit'', bo_rest := [s_attr ''form'' ''prompt-form'']\<rparr>))]"

end
