(* ===== verification/Panel_Ui_Facts.thy ===== *)
theory Panel_Ui_Facts imports Panel_Ui_Events begin

text \<open>
  What the interface keeps: one menu at most is open and its button says so, a message is seen for its whole time
  unless four others follow, a field names its control, an error goes to the field of its control.
\<close>

subsection \<open>Menus\<close>

definition one_menu :: "(nat \<Rightarrow> nat) \<Rightarrow> menus \<Rightarrow> bool" where
  "one_menu sizes M \<longleftrightarrow> mn_shown M = (case mn_open M of None \<Rightarrow> [] | Some i \<Rightarrow> [i]) \<and> mn_expanded M = mn_shown M
     \<and> (\<forall>k. mn_focus M = On_item k \<longrightarrow> (\<exists>i. mn_open M = Some i \<and> k < sizes i))"

lemma close_one_menu: "one_menu sizes M \<Longrightarrow> one_menu sizes (closeOpenMenu M) \<and> mn_open (closeOpenMenu M) = None"
  by (auto simp: one_menu_def closeOpenMenu_def split: option.splits focus.splits)

lemma menu_step_one: "menu_step sizes M M' \<Longrightarrow> one_menu sizes M \<Longrightarrow> one_menu sizes M'"
proof (induction rule: menu_step.induct)
  case (menu_trigger M i)
  then have "one_menu sizes (M\<lparr>mn_focus := On_trigger i\<rparr>)" by (simp add: one_menu_def)
  from close_one_menu [OF this] show ?case by (auto simp: click_trigger_def one_menu_def Let_def)
next
  case (menu_outside M inside)
  then show ?case using close_one_menu by (simp add: click_document_def)
next
  case (menu_escape M)
  from close_one_menu [OF this] menu_escape show ?case by (auto simp: press_escape_def one_menu_def split: option.splits)
next
  case (menu_item M i k)
  from close_one_menu [OF menu_item(3)] menu_item(1) show ?case by (auto simp: click_item_def one_menu_def split: option.splits)
next
  case (menu_arrow M down)
  then show ?case by (auto simp: arrow_def one_menu_def split: option.splits focus.splits intro!: mod_less_divisor)
qed

lemma menus_reachable: "rtranclp (menu_step sizes) no_menu M \<Longrightarrow> one_menu sizes M"
  by (induction rule: rtranclp_induct) (simp add: one_menu_def no_menu_def, rule menu_step_one)

lemma arrows_back: "one_menu sizes M \<Longrightarrow> arrow sizes False (arrow sizes True M) = M"
proof -
  assume o: "one_menu sizes M"
  have "((k + 1) mod n + n - 1) mod n = k" if "k < n" for k n :: nat
    using that by (cases "k + 1 = n") (auto simp: mod_if)
  then show ?thesis using o by (cases M) (auto simp: arrow_def one_menu_def split: option.splits focus.splits)
qed

subsection \<open>Messages\<close>

text \<open>The messages posted, oldest first: text, type, duration and time.\<close>

type_synonym post = "jstr \<times> string \<times> nat \<times> nat"

definition post_item :: "post \<Rightarrow> toast_item" where
  "post_item p = (case p of (m, ty, d, now) \<Rightarrow> \<lparr>ti_type = ty, ti_message = m, ti_leave = toast_end ty d now\<rparr>)"

fun posted :: "post list \<Rightarrow> toast_item list \<Rightarrow> toast_item list" where
  "posted [] ts = ts"
| "posted ((m, ty, d, now) # ps) ts = posted ps (toast m ty d now ts)"

lemma last_four_length: "length (last_four xs) \<le> 4"
  by (simp add: last_four_def)

lemma toast_at_most_four: "length ts \<le> 4 \<Longrightarrow> length (toast m ty d now ts) \<le> 4"
  using last_four_length by (auto simp: toast_def toast_alive_def intro: order_trans [OF length_filter_le])

lemma posted_at_most_four: "length ts \<le> 4 \<Longrightarrow> length (posted ps ts) \<le> 4"
  by (induction ps ts rule: posted.induct) (auto simp: toast_at_most_four)

lemma last_four_keep: "length b < 4 \<Longrightarrow> x \<in> set (last_four (a @ x # b))"
proof -
  assume b: "length b < 4"
  have "last_four (a @ x # b) = drop (length a + Suc (length b) - 4) a @ x # b"
    using b by (simp add: last_four_def)
  then show ?thesis by simp
qed

text \<open>A message with fewer than four after it among those shown stays until its end.\<close>

lemma toast_keeps:
  assumes "ts = a @ x # b" and "length b < 3" and "now < ti_leave x + 220"
  shows "\<exists>a' b'. toast m ty d now ts = a' @ x # b' \<and> length b' \<le> Suc (length b)"
proof (cases "m = []")
  case True
  then show ?thesis using assms le_SucI [OF length_filter_le] by (auto simp: toast_def toast_alive_def)
next
  case False
  let ?b = "toast_alive now b" and ?y = "\<lparr>ti_type = ty, ti_message = m, ti_leave = toast_end ty d now\<rparr>"
  have l: "length ?b < 3" using assms(2) by (metis toast_alive_def length_filter_le le_less_trans)
  have "toast m ty d now ts = last_four (toast_alive now a @ x # ?b @ [?y])"
    using False assms(1,3) by (simp add: toast_def toast_alive_def)
  also have "\<dots> = drop (length (toast_alive now a) + Suc (Suc (length ?b)) - 4) (toast_alive now a) @ x # ?b @ [?y]"
    using l by (simp add: last_four_def)
  finally show ?thesis using length_filter_le [of _ b] unfolding toast_alive_def by fastforce
qed

lemma posted_keeps:
  assumes "ts = a @ x # b" and "length b + length ps < 4" and "\<forall>p\<in>set ps. snd (snd (snd p)) < ti_leave x + 220"
  shows "x \<in> set (posted ps ts)"
  using assms
proof (induction ps ts arbitrary: a b rule: posted.induct)
  case (2 m ty d now ps ts)
  then obtain a' b' where "toast m ty d now ts = a' @ x # b'" "length b' \<le> Suc (length b)"
    using toast_keeps [of ts a x b now m ty d] by auto
  then show ?case using 2(1) [of a' b'] 2(3,4) by simp
qed simp

subsection \<open>Elements\<close>

lemma obj_set_over: "obj_set k v (obj_set k w xs) = obj_set k v xs"
  by (induction k w xs rule: obj_set.induct) auto

text \<open>An attribute that is \<open>false\<close> is not set: \<open>spellcheck: false\<close> (the name of a new instance) does nothing.\<close>

lemma false_not_set: "h tag ((k, ABool False) # attrs) cs = h tag attrs cs"
  by (simp add: h_def apply_attr_def skipped_def)

lemma new_name_checked: "node_attr ''spellcheck'' (input [(''mono'', ABool True), (''spellcheck'', ABool False)] :: unit node) = None
    \<and> node_prop ''spellcheck'' (input [(''mono'', ABool True), (''spellcheck'', ABool False)] :: unit node) = None"
  by code_simp

lemma nodes_of_append: "nodes_of (a @ b) = nodes_of a @ nodes_of b"
  by (induction a rule: nodes_of.induct) simp_all

lemma nodes_of_map [simp]: "nodes_of (map (\<lambda>x. CNode (f x)) xs) = map f xs"
  by (induction xs) simp_all

subsection \<open>Fields\<close>

definition label_of :: "'e node \<Rightarrow> jstr option" where
  "label_of f = (case find_node (\<lambda>n. node_tag n = ''label'') [f] of Some l \<Rightarrow> node_attr ''for'' l | None \<Rightarrow> None)"

text \<open>The control of a field is its second child.\<close>

definition control_of :: "'e node \<Rightarrow> 'e node option" where
  "control_of f = (case f of Elem i (l # c # r) \<Rightarrow> Some c | _ \<Rightarrow> None)"

lemma node_attr_put: "n = Elem i cs \<Longrightarrow> node_attr k (put_attr k' v n) = (if k = k' then Some v else node_attr k n)"
  by (simp add: node_attr_def put_attr_def change_info_def set_attribute_def)

lemma field_shape:
  assumes "control = Elem i cs"
  shows "\<exists>ident ctl. control_of (fst (field tr o' control seq)) = Some ctl \<and> node_attr ''id'' ctl = Some ident \<and> ident \<noteq> []
    \<and> label_of (fst (field tr o' control seq)) = Some ident
    \<and> node_tag ctl = node_tag control
    \<and> (snd (field tr o' control seq) = seq \<and> node_attr ''id'' control = Some ident
       \<or> snd (field tr o' control seq) = Suc seq \<and> ident = (lit ''f-'') @ digits (Suc seq))"
proof -
  obtain own where own: "own = (case node_attr ''id'' control of Some i \<Rightarrow> i | None \<Rightarrow> [])" by simp
  have tags: "node_tag (put_attr k v n) = node_tag n" for k v and n :: "'a node"
    by (cases n) (simp_all add: node_tag_def put_attr_def change_info_def set_attribute_def)
  show ?thesis
    using assms own
    by (cases "own = []")
      (auto simp: field_def Let_def h_def control_of_def label_of_def set_id_def node_tag_def node_attr_def apply_attr_def
         skipped_def set_plain_def is_text_def new_info_def set_attribute_def attr_text_def in_el_def put_attr_def change_info_def when_child_def when_text_def split: option.splits)
qed

text \<open>The fields of a form, made one after the other.\<close>

fun fields :: "(string \<Rightarrow> jstr) \<Rightarrow> (field_opts \<times> 'e node) list \<Rightarrow> nat \<Rightarrow> 'e node list \<times> nat" where
  "fields tr [] seq = ([], seq)"
| "fields tr ((o', control) # r) seq = (case field tr o' control seq of (f, s1) \<Rightarrow> apfst (Cons f) (fields tr r s1))"

definition unnamed :: "'e node \<Rightarrow> bool" where
  "unnamed n \<longleftrightarrow> (\<exists>i cs. n = Elem i cs) \<and> node_attr ''id'' n = None"

definition ident_of :: "'e node \<Rightarrow> jstr" where
  "ident_of f = (case control_of f of Some c \<Rightarrow> (case node_attr ''id'' c of Some i \<Rightarrow> i | None \<Rightarrow> []) | None \<Rightarrow> [])"

lemma unnamed_field:
  assumes "unnamed control"
  shows "snd (field tr o' control seq) = Suc seq \<and> ident_of (fst (field tr o' control seq)) = (lit ''f-'') @ digits (Suc seq)
    \<and> label_of (fst (field tr o' control seq)) = Some ((lit ''f-'') @ digits (Suc seq))"
proof -
  obtain i cs where c: "control = Elem i cs" "node_attr ''id'' control = None" using assms by (auto simp: unnamed_def)
  from field_shape [OF c(1), of tr o' seq] c(2) show ?thesis by (auto simp: ident_of_def)
qed

lemma fields_idents:
  assumes "\<forall>c\<in>set cs. unnamed (snd c)"
  shows "map ident_of (fst (fields tr cs seq)) = map (\<lambda>n. (lit ''f-'') @ digits n) [Suc seq..<Suc seq + length cs]
    \<and> (\<forall>f\<in>set (fst (fields tr cs seq)). label_of f = Some (ident_of f))"
  using assms
proof (induction cs arbitrary: seq)
  case (Cons c cs)
  obtain o' control where c: "c = (o', control)" by (cases c)
  obtain f s1 where f: "field tr o' control seq = (f, s1)" by (cases "field tr o' control seq")
  have u: "s1 = Suc seq" "ident_of f = (lit ''f-'') @ digits (Suc seq)" "label_of f = Some (ident_of f)"
    using unnamed_field [of control tr o' seq] Cons.prems by (simp_all add: c f)
  show ?case using Cons.IH [of "Suc seq"] Cons.prems u
    by (auto simp: c f upt_conv_Cons simp del: upt_Suc)
qed simp

lemma fields_distinct:
  assumes "\<forall>c\<in>set cs. unnamed (snd c)"
  shows "distinct (map ident_of (fst (fields tr cs seq)))"
proof -
  have "inj_on (\<lambda>n. (lit ''f-'') @ digits n) A" for A by (rule inj_onI) (simp add: digits_inject)
  then show ?thesis using fields_idents [OF assms, of tr seq] by (simp add: distinct_map)
qed

text \<open>A field made with a password has the identifier on the element around the input: its label names no control.\<close>

definition labelable :: "'e node \<Rightarrow> bool" where
  "labelable n \<longleftrightarrow> node_tag n \<in> set [''input'', ''select'', ''textarea'', ''button'', ''meter'', ''output'', ''progress'']"

lemma secret_label_names_nothing:
  "\<exists>ctl. control_of (fst (field tr (plain_field label) (secretInput tr toggle attrs) seq)) = Some ctl
    \<and> node_attr ''id'' ctl = label_of (fst (field tr (plain_field label) (secretInput tr toggle attrs) seq)) \<and> \<not> labelable ctl"
proof -
  obtain i cs where g: "secretInput tr toggle attrs = Elem i cs" "e_tag i = ''div''"
    by (simp add: secretInput_def h_def apply_attr_def skipped_def set_attribute_def new_info_def)
  from field_shape [OF g(1), of tr "plain_field label" seq] obtain ident ctl where
    "control_of (fst (field tr (plain_field label) (secretInput tr toggle attrs) seq)) = Some ctl" "node_attr ''id'' ctl = Some ident"
    "label_of (fst (field tr (plain_field label) (secretInput tr toggle attrs) seq)) = Some ident"
    "node_tag ctl = node_tag (secretInput tr toggle attrs)"
    unfolding g(1) by blast
  moreover have "\<not> labelable ctl" using calculation(4) g by (simp add: labelable_def node_tag_def)
  ultimately show ?thesis by auto
qed

subsection \<open>Choices\<close>

lemma nodes_update: "(\<And>v t ic. g (A v t ic) = B v t ic) \<Longrightarrow>
    map g (nodes_of (map (\<lambda>(v, t, ic). CNode (A v t ic)) os)) = nodes_of (map (\<lambda>(v, t, ic). CNode (B v t ic)) os)"
  by (induction os) auto

lemma segmented_checked:
  "pick_option v value (segmented options value pick label) = (v, segmented options v pick label, v \<noteq> value)"
proof (cases "v = value")
  case False
  let ?B = "\<lambda>x w t ic. h ''button'' [s_attr ''type'' ''button'', s_attr ''role'' ''radio'', (''aria-checked'', AText (radio_state w x)),
      (''onClick'', AFun (pick w)), (''dataset'', AData [(''value'', w)])] [if ic = [] then CNull else CNode (icon ic []), CText t]"
  have "put_attr ''aria-checked'' (lit (if node_attr ''data-value'' (?B value w t ic) = Some v then ''true'' else ''false'')) (?B value w t ic) = ?B v w t ic"
    for w t ic
    by (simp add: h_def apply_attr_def skipped_def set_plain_def is_text_def in_el_def set_attribute_def new_info_def attr_text_def
        put_attr_def change_info_def node_attr_def data_name_def is_upper_def radio_state_def)
  then have "map (\<lambda>b. put_attr ''aria-checked'' (lit (if node_attr ''data-value'' b = Some v then ''true'' else ''false'')) b)
      (nodes_of (map (\<lambda>(w, t, ic). CNode (?B value w t ic)) options)) = nodes_of (map (\<lambda>(w, t, ic). CNode (?B v w t ic)) options)"
    by (rule nodes_update)
  then show ?thesis using False by (simp add: pick_option_def segmented_def h_def [of "''div''"])
qed (simp add: pick_option_def)

subsection \<open>Errors of fields\<close>

lemma map_first_here: "find_node q ns = None \<Longrightarrow> map_first q g (ns @ r) = apfst ((@) ns) (map_first q g r)"
proof (induction q g ns rule: map_first.induct)
  case (3 q f i cs r')
  have "map_first q f cs = (cs, False)" if "find_node q cs = None" for cs
    using that by (induction q f cs rule: map_first.induct) (auto split: option.splits if_splits)
  then show ?case using 3 by (auto split: option.splits if_splits simp: apfst_def map_prod_def split_beta)
qed (auto simp: apfst_def map_prod_def split_beta)

lemma find_class_put: "k \<noteq> ''class'' \<Longrightarrow> find_node (has_class c) [put_attr k v n] = None \<longleftrightarrow> find_node (has_class c) [n] = None"
  by (cases n) (auto simp: put_attr_def change_info_def set_attribute_def has_class_def node_attr_def split: option.splits)

text \<open>What a field is made of: its label, its control, its hint, the place of its error.\<close>

definition error_place :: "jstr \<Rightarrow> 'e node \<Rightarrow> bool" where
  "error_place msg e \<longleftrightarrow> has_class ''field-error'' e \<and> text_of [e] = msg \<and> (is_hidden e \<longleftrightarrow> msg = [])"

lemma show_error_place:
  "has_class ''field-error'' (Elem i cs) \<Longrightarrow> error_place msg (show_error msg (Elem i cs))"
  by (auto simp: error_place_def show_error_def put_prop_def put_text_def change_info_def has_class_def node_attr_def is_hidden_def node_prop_def
      split: option.splits)

lemma field_parts:
  assumes "control = Elem i cs"
  shows "\<exists>j L C H k d. fst (field tr o' control seq) = Elem j (L # C # H @ [Elem k d])
    \<and> has_class ''field'' (Elem j []) \<and> \<not> has_class ''field-error'' (Elem j []) \<and> node_attr ''id'' (Elem j []) = None
    \<and> find_node (\<lambda>n. node_attr ''id'' n \<noteq> None) [L] = None \<and> find_node (has_class ''field-error'') (L # H) = None
    \<and> (find_node (has_class c) [C] = None \<longleftrightarrow> find_node (has_class c) [control] = None)
    \<and> has_class ''field-error'' (Elem k d)"
proof -
  have cw: "split_on c_sp (lit ''field'') = [lit ''field'']" "split_on c_sp (lit ''field-label'') = [lit ''field-label'']"
    "split_on c_sp (lit ''field-optional'') = [lit ''field-optional'']" "split_on c_sp (lit ''field-key'') = [lit ''field-key'']"
    "split_on c_sp (lit ''field-hint'') = [lit ''field-hint'']" "split_on c_sp (lit ''field-error'') = [lit ''field-error'']"
    by (simp_all add: lit_simps)
  show ?thesis
    by (cases "has_text (fo_hint o')"; cases "fo_hint o'")
      (simp_all add: field_def Let_def h_def set_id_def find_class_put apply_attr_def skipped_def set_plain_def is_text_def new_info_def
        set_attribute_def attr_text_def in_el_def when_child_def when_text_def has_text_def has_class_def node_attr_def cw lit_inject
        split: option.splits)
qed

lemma error_passes: "find_node isc ns = None \<Longrightarrow> field_error_in isc msg (ns @ r) = apfst ((@) ns) (field_error_in isc msg r)"
proof (induction isc msg ns rule: field_error_in.induct)
  case (3 isc msg i cs r')
  have "field_error_in isc msg cs = (cs, Not_found)" if "find_node isc cs = None" for cs
    using that by (induction isc msg cs rule: field_error_in.induct) (auto split: option.splits if_splits)
  then show ?case using 3 by (auto split: option.splits if_splits simp: apfst_def map_prod_def split_beta)
qed (auto simp: apfst_def map_prod_def split_beta)

lemma find_node_append: "find_node q (a @ b) = (case find_node q a of Some x \<Rightarrow> Some x | None \<Rightarrow> find_node q b)"
  by (induction q a rule: find_node.induct) (auto split: option.splits)

lemma class_of_info: "has_class c (Elem i cs) = has_class c (Elem i [])" "node_attr k (Elem i cs) = node_attr k (Elem i [])"
  by (simp_all add: has_class_def node_attr_def)

lemma find_node_weaker: "find_node q ns = None \<Longrightarrow> (\<And>n. q' n \<Longrightarrow> q n) \<Longrightarrow> find_node q' ns = None"
  by (induction q ns rule: find_node.induct) (auto split: option.splits if_splits)

text \<open>The error of a control goes to the place its field has for it, and is hidden when there is none.\<close>

lemma error_in_field:
  assumes c: "control = Elem i cs" and no: "find_node (has_class ''field-error'') [control] = None" "find_node (has_class ''field'') [control] = None"
    and f: "f = fst (field tr o' control seq)"
  shows "\<exists>e. find_node (has_class ''field-error'') [setFieldError (\<lambda>n. node_attr ''id'' n = Some (ident_of f)) msg f] = Some e \<and> error_place msg e"
proof -
  let ?q = "has_class ''field-error''"
  obtain j L C H k d where s: "f = Elem j (L # C # H @ [Elem k d])"
    and cl: "has_class ''field'' (Elem j [])" "\<not> ?q (Elem j [])" "node_attr ''id'' (Elem j []) = None"
      "find_node (\<lambda>n. node_attr ''id'' n \<noteq> None) [L] = None" "find_node ?q (L # H) = None"
      "find_node ?q [C] = None" "?q (Elem k d)"
    using field_parts [OF c, of tr o' seq "''field-error''"] no(1) unfolding f [symmetric] by blast
  obtain ident where C: "node_attr ''id'' C = Some ident" "node_tag C = node_tag control"
    using field_shape [OF c, of tr o' seq] unfolding f [symmetric] s by (auto simp: control_of_def)
  let ?isc = "\<lambda>n. node_attr ''id'' n = Some ident"
  have isc: "?isc C" "ident_of f = ident" using C(1) by (simp_all add: ident_of_def control_of_def s)
  obtain ci cc where E: "C = Elem ci cc" using isc(1) by (cases C) (auto simp: node_attr_def)
  have L: "find_node ?isc [L] = None" by (rule find_node_weaker [OF cl(4)]) simp
  have inner: "field_error_in ?isc msg (L # C # H @ [Elem k d])
      = (L # fst (field_error_in ?isc msg (C # H @ [Elem k d])), snd (field_error_in ?isc msg (C # H @ [Elem k d])))"
    using error_passes [OF L, of msg "C # H @ [Elem k d]"] by (simp add: apfst_def map_prod_def split_beta)
  have m: "find_node (has_class c) [mark_invalid msg C] = None \<longleftrightarrow> find_node (has_class c) [C] = None" for c
    unfolding mark_invalid_def by (rule find_class_put) simp
  have "find_node (has_class ''field'') [C] = None"
    using field_parts [OF c, of tr o' seq "''field''"] no(2) unfolding f [symmetric] s by auto
  then have nf: "\<not> has_class ''field'' (mark_invalid msg C)"
    using m [of "''field''"] by (auto simp: E mark_invalid_def put_attr_def change_info_def split: if_splits)
  have C': "field_error_in ?isc msg (C # H @ [Elem k d]) = (mark_invalid msg C # H @ [Elem k d], Wants_error)"
    using isc(1) nf by (simp add: E)
  have nr: "\<not> ?isc (Elem j (L # C # H @ [Elem k d]))" using cl(3) class_of_info(2) [of "''id''" j "L # C # H @ [Elem k d]"] by simp
  have "find_node ?q [L] = None" "find_node ?q H = None"
    using cl(5) find_node_append [of ?q "[L]" H] by (auto split: option.splits)
  moreover have "find_node ?q [mark_invalid msg C] = None" using m cl(6) by simp
  ultimately have e: "find_node ?q (L # mark_invalid msg C # H) = None"
    using find_node_append [of ?q "[L]" "mark_invalid msg C # H"] find_node_append [of ?q "[mark_invalid msg C]" H] by simp
  have "setFieldError ?isc msg (Elem j (L # C # H @ [Elem k d])) = Elem j ((L # mark_invalid msg C # H) @ [show_error msg (Elem k d)])"
    using nr cl(1) class_of_info(1) [of "''field''" j "L # mark_invalid msg C # H @ [Elem k d]"]
      map_first_here [OF e, of "show_error msg" "[Elem k d]"] cl(7)
    by (simp add: setFieldError_def inner C')
  moreover have "?q (show_error msg (Elem k d))" "error_place msg (show_error msg (Elem k d))"
    using show_error_place [OF cl(7)] by (simp_all add: error_place_def)
  moreover have "\<exists>k' d'. show_error msg (Elem k d) = Elem k' d'" by (simp add: show_error_def put_prop_def put_text_def change_info_def)
  ultimately show ?thesis
    unfolding isc(2) unfolding s using e cl(2) class_of_info(1) [of "''field-error''" j] find_node_append [of ?q "L # mark_invalid msg C # H" "[show_error msg (Elem k d)]"]
    by auto
qed

subsection \<open>What an element offers\<close>

text \<open>The actions a tree can start.\<close>

fun listeners :: "'e node list \<Rightarrow> 'e list" where
  "listeners [] = []"
| "listeners (Txt_node t # r) = listeners r"
| "listeners (Elem i cs # r) = map snd (e_listeners i) @ listeners cs @ listeners r"

lemma listeners_append: "listeners (a @ b) = listeners a @ listeners b"
  by (induction a rule: listeners.induct) simp_all

lemma listeners_mem: "a \<in> set (listeners ns) \<longleftrightarrow> (\<exists>n\<in>set ns. a \<in> set (listeners [n]))"
  by (induction ns rule: listeners.induct) auto

text \<open>The actions set on an element by its attributes.\<close>

definition attr_actions :: "(string \<times> 'e attr) list \<Rightarrow> 'e list" where
  "attr_actions attrs = concat (map (\<lambda>(k, v). case v of AFun f \<Rightarrow> (if take 2 k = ''on'' then [f] else []) | _ \<Rightarrow> []) attrs)"

lemma listeners_attr: "e_listeners (fold (\<lambda>(d, t). set_attribute (data_name d) t) ds i) = e_listeners i"
  by (induction ds arbitrary: i) (auto simp: set_attribute_def)

lemma apply_attr_actions: "(\<forall>k f. kv = (k, AFun f) \<longrightarrow> k \<noteq> ''class'') \<Longrightarrow>
    map snd (e_listeners (apply_attr kv i)) = map snd (e_listeners i) @ attr_actions [kv]"
  by (cases kv) (auto simp: apply_attr_def attr_actions_def skipped_def set_plain_def set_attribute_def listeners_attr split: attr.splits)

definition no_class_action :: "(string \<times> 'e attr) list \<Rightarrow> bool" where
  "no_class_action attrs \<longleftrightarrow> (\<forall>k f. (k, AFun f) \<in> set attrs \<longrightarrow> k \<noteq> ''class'')"

lemma h_actions: "no_class_action attrs \<Longrightarrow> listeners [h tag attrs cs] = attr_actions attrs @ listeners (nodes_of cs)"
proof -
  have "no_class_action attrs \<Longrightarrow> map snd (e_listeners (fold apply_attr attrs i)) = map snd (e_listeners i) @ attr_actions attrs" for i
  proof (induction attrs arbitrary: i)
    case (Cons kv attrs)
    have "\<forall>k f. kv = (k, AFun f) \<longrightarrow> k \<noteq> ''class''" "no_class_action attrs" using Cons.prems by (auto simp: no_class_action_def)
    then show ?case using Cons.IH apply_attr_actions [of kv i] by (simp add: attr_actions_def)
  qed (simp add: attr_actions_def)
  then show "no_class_action attrs \<Longrightarrow> ?thesis" by (simp add: h_def new_info_def)
qed

lemma icon_actions [simp]: "listeners (icon name c # r) = listeners r"
  by (simp add: icon_def set_attribute_def new_info_def)

lemma button_actions: "bo_rest o' = [] \<Longrightarrow> listeners [button label o'] = (case bo_click o' of Some e \<Rightarrow> [e] | None \<Rightarrow> [])"
  by (auto simp: button_def h_actions no_class_action_def attr_actions_def spread_def fun_attr_def opt_attr_def split: option.splits)

lemma child_action: "n \<in> set (nodes_of cs) \<Longrightarrow> a \<in> set (listeners [n]) \<Longrightarrow> no_class_action attrs \<Longrightarrow> a \<in> set (listeners [h tag attrs cs])"
  using listeners_mem [of a "nodes_of cs"] by (auto simp: h_actions)

end
