(* ===== verification/Panel_Shell.thy ===== *)
theory Panel_Shell imports Panel_Store Panel_Router Panel_Ui_Facts begin

text \<open>
  The shell of the panel (\<open>main.js\<close>): the drawer and the links of the navigation, the account shown, the mark of the
  updates, the title, the welcome, the texts put in the page of the server (\<open>applyI18n\<close> of \<open>i18n.js\<close>), and the order of the
  start. \<open>coll\<close> is the collation of names, \<open>tr\<close> translates; the
  answers of the server are arguments.
\<close>

subsection \<open>The navigation\<close>

record account =
  ac_display_name :: jstr
  ac_username :: jstr
  ac_role :: jstr
  ac_owner :: bool

record shell =
  sh_nav_open :: bool
  sh_hidden :: "(jstr \<times> bool) list"
  sh_marked :: "jstr list"
  sh_user :: "(jstr \<times> jstr) option"
  sh_badge :: bool
  sh_title :: jstr

definition toggle_nav :: "shell \<Rightarrow> shell" where
  "toggle_nav H = H\<lparr>sh_nav_open := \<not> sh_nav_open H\<rparr>"

definition closeNav :: "shell \<Rightarrow> shell" where
  "closeNav H = H\<lparr>sh_nav_open := False\<rparr>"

text \<open>Whatever the server answers, the account is sent to the page of the login.\<close>

definition logout_to :: "bool \<Rightarrow> jstr" where
  "logout_to answered = (lit ''/login'')"

text \<open>The links of all pages; asking for the instances in use remembers them.\<close>

fun link_states :: "(jstr \<Rightarrow> jstr \<Rightarrow> int) \<Rightarrow> page list \<Rightarrow> store \<Rightarrow> (jstr \<times> bool) list \<times> store" where
  "link_states coll [] S = ([], S)"
| "link_states coll (p # ps) S = (case nav_hidden coll (pg_id p) (pg_perm p) S of (hide, S1) \<Rightarrow>
     apfst (Cons (pg_id p, hide)) (link_states coll ps S1))"

definition user_shown :: "(string \<Rightarrow> jstr) \<Rightarrow> account \<Rightarrow> jstr \<times> jstr" where
  "user_shown tr a = (text_or (ac_display_name a) (ac_username a), tr (''users.roles.'' @ map char_of (ac_role a)))"

definition store_changed :: "(jstr \<Rightarrow> jstr \<Rightarrow> int) \<Rightarrow> (string \<Rightarrow> jstr) \<Rightarrow> page list \<Rightarrow> account option \<Rightarrow> store \<times> shell \<Rightarrow> store \<times> shell" where
  "store_changed coll tr pages me SH = (case SH of (S, H) \<Rightarrow> (case link_states coll pages S of (links, S') \<Rightarrow>
     (S', H\<lparr>sh_hidden := links, sh_user := map_option (user_shown tr) me, sh_badge := st_update_frp S \<or> st_update_panel S\<rparr>)))"

definition onRouteChange :: "page list \<Rightarrow> page \<Rightarrow> jstr \<Rightarrow> shell \<Rightarrow> shell" where
  "onRouteChange pages p title H = H\<lparr>sh_marked := filter (\<lambda>i. i = pg_id p) (map pg_id pages), sh_title := title @ (lit '' '' @ [8212] @ lit '' FRP Manager'')\<rparr>"

subsection \<open>The welcome\<close>

text \<open>What the storage of the browser holds: it may refuse to be read or written.\<close>

datatype storage = Refused | Empty_storage | Seen_storage

definition welcome_shown :: "storage \<Rightarrow> bool" where
  "welcome_shown st = (st = Empty_storage)"

definition welcome_closed :: "bool \<Rightarrow> jstr option \<Rightarrow> storage \<Rightarrow> storage" where
  "welcome_closed writable_now r st = (if r = Some ((lit ''ok'')) \<and> writable_now then Seen_storage else st)"

datatype welcome_button = Later | Set_password | Got_it

definition welcome_buttons :: "bool \<Rightarrow> welcome_button list" where
  "welcome_buttons hasPassword = [Later] @ (if hasPassword then [] else [Set_password]) @ [Got_it]"

definition welcome_answer :: "welcome_button \<Rightarrow> jstr \<times> bool" where
  "welcome_answer b = (case b of Later \<Rightarrow> ((lit ''later''), False) | Set_password \<Rightarrow> ((lit ''ok''), True) | Got_it \<Rightarrow> ((lit ''ok''), False))"

definition welcome_body :: "(string \<Rightarrow> jstr) \<Rightarrow> 'e child list" where
  "welcome_body tr =
     [CNode (callout (plain_callout\<lparr>co_type := ''warn'', co_title := Some (tr ''welcome.warnTitle''), co_text := CText (tr ''welcome.warnText'')\<rparr>)),
      CNode (h ''ul'' [cls ''welcome-list'']
        [CList (map (\<lambda>k. CNode (h ''li'' [] [CText (tr k)])) [''welcome.tip1'', ''welcome.tip2'', ''welcome.tip3'', ''welcome.tip4''])])]"

definition welcome_foot :: "(string \<Rightarrow> jstr) \<Rightarrow> bool \<Rightarrow> (welcome_button \<Rightarrow> 'e) \<Rightarrow> 'e child list" where
  "welcome_foot tr hasPassword press = map (\<lambda>b. CNode (case b of
       Later \<Rightarrow> button (tr ''welcome.later'') (plain_btn\<lparr>bo_variant := ''ghost'', bo_click := Some (press b)\<rparr>)
     | Set_password \<Rightarrow> button (tr ''welcome.setPassword'') (plain_btn\<lparr>bo_click := Some (press b)\<rparr>)
     | Got_it \<Rightarrow> button (tr ''welcome.ok'') (plain_btn\<lparr>bo_variant := ''primary'', bo_click := Some (press b)\<rparr>))) (welcome_buttons hasPassword)"

subsection \<open>The texts in the page of the server\<close>

text \<open>\<open>applyI18n\<close>: an element with \<open>data-i18n\<close> has that text, one with \<open>data-i18n-x\<close> has it as its attribute \<open>x\<close>.\<close>

definition I18N_ATTRS :: "string list" where
  "I18N_ATTRS = [''placeholder'', ''title'', ''aria-label'']"

definition label_attrs :: "(jstr \<Rightarrow> jstr) \<Rightarrow> 'e info \<Rightarrow> (string \<times> jstr) list" where
  "label_attrs tr i = map (\<lambda>a. (a, tr (the (map_of (e_attrs i) (''data-i18n-'' @ a)))))
     (filter (\<lambda>a. map_of (e_attrs i) (''data-i18n-'' @ a) \<noteq> None) I18N_ATTRS)"

definition relabel :: "(jstr \<Rightarrow> jstr) \<Rightarrow> 'e info \<Rightarrow> 'e info" where
  "relabel tr i = fold (\<lambda>(k, v). set_attribute k v) (label_attrs tr i) i"

fun applyI18n :: "(jstr \<Rightarrow> jstr) \<Rightarrow> 'e node list \<Rightarrow> 'e node list" where
  "applyI18n tr [] = []"
| "applyI18n tr (Txt_node t # r) = Txt_node t # applyI18n tr r"
| "applyI18n tr (Elem i cs # r) = (case map_of (e_attrs i) ''data-i18n'' of
     Some k \<Rightarrow> put_text (tr k) (Elem (relabel tr i) cs)
   | None \<Rightarrow> Elem (relabel tr i) (applyI18n tr cs)) # applyI18n tr r"

subsection \<open>The start\<close>

text \<open>What the server answers at the start: the data in the page, and each request when they are missing.\<close>

record start_answers =
  sa_boot :: "boot option"
  sa_nicknames :: "(jstr \<times> jstr) list option"
  sa_state :: "bool option"
  sa_me :: "jstr list option option"
  sa_detect :: "((jstr \<times> inst) list \<times> bool \<times> bool) option"

definition boot_store :: "start_answers \<Rightarrow> store \<Rightarrow> store" where
  "boot_store A S0 = (case loadBoot (sa_boot A) S0 of (loaded, S) \<Rightarrow>
     if loaded \<and> st_me S \<noteq> None then S
     else (let S1 = loadMe (sa_me A) (loadManagerState (sa_state A) (loadNicknames (sa_nicknames A) S))
           in case sa_detect A of Some (insts, docker, alone) \<Rightarrow> detect insts docker alone S1 | None \<Rightarrow> S1\<lparr>st_ready := True\<rparr>))"

text \<open>The start: the store, the page opened (\<open>None\<close>: the address makes the router fail), whether the welcome is shown
  and whether the state of the instances is followed.\<close>

definition page_allowed :: "store \<Rightarrow> page \<Rightarrow> bool" where
  "page_allowed S p = canOpen (pg_perm p) S"

text \<open>\<open>startRouter\<close>: nothing is open yet, then the page of the address is opened. \<open>remount\<close> mounts the page that is open
  again, with the parameters of the address of that moment.\<close>

definition startRouter :: "(nat list \<Rightarrow> jstr) \<Rightarrow> (page \<Rightarrow> bool) \<Rightarrow> page list \<Rightarrow> jstr \<Rightarrow> jstr \<Rightarrow> router option" where
  "startRouter untext allowed pages fallback hash = render untext allowed True
     \<lparr>ro_routes = pages, ro_fallback = fallback, ro_current = None, ro_currentHash = [], ro_hash = hash, ro_params = []\<rparr>"

definition remount :: "(nat list \<Rightarrow> jstr) \<Rightarrow> router \<Rightarrow> (page \<times> params) option" where
  "remount untext R = map_option (\<lambda>p. (p, snd (parseHash untext (ro_fallback R) (ro_hash R)))) (ro_current R)"

definition start :: "(nat list \<Rightarrow> jstr) \<Rightarrow> start_answers \<Rightarrow> page list \<Rightarrow> jstr \<Rightarrow> bool \<Rightarrow> storage \<Rightarrow> store \<Rightarrow> (store \<times> router \<times> bool \<times> bool) option" where
  "start untext A pages hash owner st S0 =
     (let S = boot_store A S0
      in map_option (\<lambda>R. (S, R, owner \<and> welcome_shown st, can ((lit ''instances.view'')) S)) (startRouter untext (page_allowed S) pages ((lit ''dashboard'')) hash))"

subsection \<open>What it comes to\<close>

lemma boot_ready: "st_ready (boot_store A S)"
  by (auto simp: boot_store_def loadBoot_def detect_def Let_def split: option.splits prod.splits)

lemma link_states_pages: "map fst (fst (link_states coll ps S)) = map pg_id ps"
proof (induction ps arbitrary: S)
  case (Cons p ps)
  obtain b S1 where "nav_hidden coll (pg_id p) (pg_perm p) S = (b, S1)" by fastforce
  then show ?case using Cons.IH [of S1] by (simp add: apfst_def map_prod_def split_beta)
qed simp

lemma one_link_marked: "distinct (map pg_id pages) \<Longrightarrow> p \<in> set pages \<Longrightarrow> sh_marked (onRouteChange pages p title H) = [pg_id p]"
proof -
  have "distinct xs \<Longrightarrow> x \<in> set xs \<Longrightarrow> filter (\<lambda>i. i = x) xs = [x]" for x and xs :: "jstr list"
    by (induction xs) (auto simp: filter_empty_conv)
  then show "distinct (map pg_id pages) \<Longrightarrow> p \<in> set pages \<Longrightarrow> ?thesis" by (simp add: onRouteChange_def)
qed

lemma start_allowed:
  assumes "start untext A pages hash owner st S0 = Some (S, R, w, c)" and "q \<in> set pages" and "page_allowed S q"
  shows "\<exists>p\<in>set pages. ro_current R = Some p \<and> page_allowed S p"
proof -
  let ?R = "\<lparr>ro_routes = pages, ro_fallback = (lit ''dashboard''), ro_current = None, ro_currentHash = [], ro_hash = hash, ro_params = []\<rparr>"
  have S: "S = boot_store A S0" and r: "render untext (page_allowed S) True ?R = Some R"
    using assms(1) by (auto simp: start_def startRouter_def Let_def)
  from render_allowed [where allowed = "page_allowed S", OF r, of q] assms(2,3) show ?thesis by simp
qed

text \<open>Applied in another language, the texts are those of that language, as if it had been the first.\<close>

lemma obj_set_swap: "a \<in> fst ` set xs \<Longrightarrow> a \<noteq> b \<Longrightarrow> obj_set a v (obj_set b w xs) = obj_set b w (obj_set a v xs)"
proof (induction xs)
  case (Cons x xs)
  then show ?case by (cases x) auto
qed simp

abbreviation set_all :: "('k \<times> 'v) list \<Rightarrow> ('k \<times> 'v) list \<Rightarrow> ('k \<times> 'v) list" where
  "set_all kvs xs \<equiv> fold (\<lambda>(k, v). obj_set k v) kvs xs"

lemma set_all_later: "k \<in> fst ` set xs \<Longrightarrow> k \<notin> fst ` set kvs \<Longrightarrow> obj_set k v (set_all kvs xs) = set_all kvs (obj_set k v xs)"
proof (induction kvs arbitrary: xs)
  case (Cons kv kvs)
  obtain j w where j: "kv = (j, w)" by (cases kv)
  have "fst ` set (obj_set j w xs) = insert j (fst ` set xs)" by (induction j w xs rule: obj_set.induct) auto
  with Cons j show ?case by (simp add: obj_set_swap)
qed simp

lemma set_all_over: "map fst kvs = map fst ls \<Longrightarrow> distinct (map fst kvs) \<Longrightarrow> set_all ls (set_all kvs xs) = set_all ls xs"
proof (induction kvs ls arbitrary: xs rule: list_induct2')
  case (4 kv kvs l ls)
  obtain k v w where k: "kv = (k, v)" "l = (k, w)" using 4(2) by (cases kv; cases l) auto
  have "k \<in> fst ` set (obj_set k v xs)" by (induction k v xs rule: obj_set.induct) auto
  moreover have "fst ` set kvs = fst ` set ls" using 4(2) k by (metis list.inject list.simps(9) set_map)
  ultimately show ?case using 4 k by (simp add: set_all_later obj_set_over)
qed simp_all

lemma relabel_attrs: "relabel tr i = i\<lparr>e_attrs := set_all (label_attrs tr i) (e_attrs i)\<rparr>"
proof -
  have "fold (\<lambda>(k, v). set_attribute k v) kvs i = i\<lparr>e_attrs := set_all kvs (e_attrs i)\<rparr>" for kvs and i :: "'a info"
    by (induction kvs arbitrary: i) (auto simp: set_attribute_def)
  then show ?thesis by (simp add: relabel_def)
qed

lemma set_all_other: "k \<notin> fst ` set kvs \<Longrightarrow> map_of (set_all kvs xs) k = map_of xs k"
  by (induction kvs arbitrary: xs) auto

lemma label_keys: "map fst (label_attrs tr i) = filter (\<lambda>a. map_of (e_attrs i) (''data-i18n-'' @ a) \<noteq> None) I18N_ATTRS"
  by (simp add: label_attrs_def comp_def)

lemma data_kept: "k \<notin> set I18N_ATTRS \<Longrightarrow> map_of (e_attrs (relabel tr i)) k = map_of (e_attrs i) k"
  by (simp add: relabel_attrs set_all_other label_attrs_def image_image)

lemma data_names: "a \<in> set I18N_ATTRS \<Longrightarrow> ''data-i18n-'' @ a \<notin> set I18N_ATTRS" "''data-i18n'' \<notin> set I18N_ATTRS"
  by (auto simp: I18N_ATTRS_def)

lemma relabel_again: "relabel tr' (relabel tr i) = relabel tr' i"
proof -
  have "label_attrs tr' (relabel tr i) = label_attrs tr' i"
    unfolding label_attrs_def by (rule map_cong [OF filter_cong]) (auto simp only: data_kept [OF data_names(1)] set_filter mem_Collect_eq)
  moreover have "set_all (label_attrs tr' i) (set_all (label_attrs tr i) (e_attrs i)) = set_all (label_attrs tr' i) (e_attrs i)"
    by (rule set_all_over) (simp_all add: label_keys I18N_ATTRS_def)
  ultimately show ?thesis by (simp add: relabel_attrs)
qed

lemma language_changed: "applyI18n tr' (applyI18n tr ns) = applyI18n tr' ns"
  by (induction tr ns rule: applyI18n.induct) (auto simp: put_text_def relabel_again data_kept data_names split: option.splits)

end
