(* ===== verification/View_Base.thy ===== *)
theory View_Base imports Panel_Ui_Facts begin

text \<open>
  What the views of the pages share: the texts with their parameters (\<open>i18n.js\<close>), an element that may be missing,
  answers of the server and the messages they give.
\<close>

type_synonym texts = "string \<Rightarrow> (string \<times> jstr) list \<Rightarrow> jstr"

definition said :: "texts \<Rightarrow> string \<Rightarrow> jstr" where
  "said tr k = tr k []"

text \<open>A key that is built from data.\<close>

definition said_j :: "texts \<Rightarrow> jstr \<Rightarrow> jstr" where
  "said_j tr k = said tr (map char_of k)"

definition int_shown :: "int \<Rightarrow> jstr" where
  "int_shown n = (if n < 0 then [c_dash] else []) @ digits (nat (abs n))"

definition as_list :: "'e node option \<Rightarrow> 'e child list" where
  "as_list n = (case n of Some x \<Rightarrow> [CNode x] | None \<Rightarrow> [])"

definition hide :: "bool \<Rightarrow> 'e node \<Rightarrow> 'e node" where
  "hide b = put_prop ''hidden'' (ABool b)"

subsection \<open>Answers\<close>

text \<open>The answer to a request: an exception with its message, or whether it is good and its message. A message is
  what \<open>toastResult\<close> and \<open>toastError\<close> post.\<close>

type_synonym reply = "jstr option + bool \<times> jstr option"

definition reply_ok :: "reply \<Rightarrow> bool" where
  "reply_ok r = (case r of Inr (b, m) \<Rightarrow> b | Inl m \<Rightarrow> False)"

definition reply_message :: "texts \<Rightarrow> reply \<Rightarrow> jstr \<Rightarrow> jstr \<times> string" where
  "reply_message tr r fallback = (case r of
     Inr (True, msg) \<Rightarrow> (if has_text msg \<and> msg \<noteq> Some ((lit ''OK'')) then the msg else fallback, ''success'')
   | Inr (False, msg) \<Rightarrow> (or_text msg (said tr ''errors.generic''), ''error'')
   | Inl msg \<Rightarrow> (or_text msg (said tr ''errors.generic''), ''error''))"

text \<open>They are the messages of \<open>ui.js\<close>.\<close>

lemma reply_message_posted: "toast (fst (reply_message tr r fallback)) (snd (reply_message tr r fallback)) 4000
   = (case r of Inl msg \<Rightarrow> toastError (said tr) msg | Inr d \<Rightarrow> toastResult (said tr) (Some d) fallback)"
  by (auto simp: reply_message_def toastError_def toastResult_def split: sum.split prod.split bool.split)

subsection \<open>Forms\<close>

text \<open>The error of a field, once it is known: empty when there is none.\<close>

definition with_error :: "jstr option \<Rightarrow> 'e node \<Rightarrow> 'e node" where
  "with_error e f = (case e of None \<Rightarrow> f | Some m \<Rightarrow> setFieldError (\<lambda>n. node_tag n = ''input'') m f)"

definition hinted :: "jstr \<Rightarrow> jstr \<Rightarrow> field_opts" where
  "hinted label hint = (plain_field label)\<lparr>fo_hint := Some hint\<rparr>"

definition submit_button :: "texts \<Rightarrow> string \<Rightarrow> string \<Rightarrow> 'e node" where
  "submit_button tr key ident = button (said tr key) (plain_btn\<lparr>bo_variant := ''primary'', bo_type := ''submit'', bo_rest := [s_attr ''form'' ident]\<rparr>)"

definition form_node :: "string \<Rightarrow> 'e \<Rightarrow> 'e child list \<Rightarrow> 'e node" where
  "form_node ident act cs = h ''form'' [s_attr ''id'' ident, cls ''form-stack'', (''onSubmit'', AFun act), (''novalidate'', ABool True)] cs"

subsection \<open>Leaving\<close>

text \<open>Leaving a page with changes that are not saved: title, message and button of the question.\<close>

definition leave_texts :: "texts \<Rightarrow> jstr \<times> jstr \<times> jstr" where
  "leave_texts tr = (said tr ''common.leaveTitle'', said tr ''common.leaveText'', said tr ''common.leave'')"

subsection \<open>Events\<close>

text \<open>What is heard of an event by the elements around the one it happens to, from the innermost: a listener that
  \<open>stops\<close> keeps it from those further out.\<close>

fun heard :: "string \<Rightarrow> ('e \<Rightarrow> bool) \<Rightarrow> 'e node list \<Rightarrow> 'e list" where
  "heard ev stops [] = []"
| "heard ev stops (Txt_node t # up) = heard ev stops up"
| "heard ev stops (Elem i cs # up) = (let fs = map snd (filter (\<lambda>kv. fst kv = ev) (e_listeners i))
     in fs @ (if list_ex stops fs then [] else heard ev stops up))"

end
