(* ===== verification/View_Tunnels.thy ===== *)
theory View_Tunnels imports Page_Tunnels View_Base begin

text \<open>
  What the tunnels page shows (\<open>pages/tunnels.js\<close>): the page and its rows, the notice about the ports the server
  picks with what it offers, the two dialogs and what their controls show, as element trees whose listeners are the
  actions of the page (\<open>tunnel_act\<close>); and the state of frpc the page asks for. \<open>tr\<close> translates a text with its
  parameters.
\<close>

subsection \<open>State of frpc\<close>

text \<open>What frpc answers: whether its panel is set up, whether it answers, and for a tunnel its address and error.\<close>

record live_proxy =
  lp_addr :: jstr
  lp_err :: jstr

record frpc_status =
  fs_admin :: bool
  fs_reachable :: bool
  fs_proxies :: "(jstr \<times> live_proxy) list"

definition live_of :: "frpc_status option \<Rightarrow> jstr \<Rightarrow> live_proxy option" where
  "live_of st n = (case st of None \<Rightarrow> None | Some s \<Rightarrow> map_of (fs_proxies s) n)"

definition live_addr :: "frpc_status option \<Rightarrow> jstr \<Rightarrow> jstr" where
  "live_addr st n = (case live_of st n of Some l \<Rightarrow> lp_addr l | None \<Rightarrow> [])"

text \<open>A tunnel whose port the server has not given yet.\<close>

definition status_pending :: "frpc_status option \<Rightarrow> proxy list \<Rightarrow> bool" where
  "status_pending st ps \<longleftrightarrow> (case st of None \<Rightarrow> False
     | Some s \<Rightarrow> fs_reachable s \<and> list_ex (\<lambda>p. serverPicked p \<and> live_addr st (p_name p) = []) ps)"

text \<open>\<open>loadStatus\<close>: an answer for another instance than the one shown, or once the page is left, is dropped (the state
  is then left as it is and nothing is planned); otherwise the state, and whether it is asked for again.\<close>

datatype status_answer = Status_failed | Status_ok frpc_status

definition loadStatus :: "bool \<Rightarrow> bool \<Rightarrow> status_answer \<Rightarrow> proxy list \<Rightarrow> frpc_status option \<Rightarrow> frpc_status option \<times> bool" where
  "loadStatus retry same answer ps st = (case answer of
     Status_ok s \<Rightarrow> (if \<not> same then (st, False) else (Some s, retry \<and> status_pending (Some s) ps))
   | Status_failed \<Rightarrow> (None, False))"

subsection \<open>Addresses\<close>

datatype tunnel_act = Add_proxy | Add_visitor | Open_proxy nat | Open_visitor nat | Delete_proxy nat | Delete_visitor nat
  | Copy_address jstr | Not_further | On_enter tunnel_act | Dashboard | Discard_draft | Save_draft bool | Show_assigned | Restart_frpc
  | Instance_chosen | Submit_proxy | Submit_visitor | Cancel_editor | Type_chosen jstr | Toggle_shown | Ports_typed | Name_typed
  | Confirm_assigned bool

definition piece_child :: "piece \<Rightarrow> 'e child" where
  "piece_child p = (case p of Piece s \<Rightarrow> CText s | Break \<Rightarrow> CNode (h ''wbr'' [] []) | Port_piece s \<Rightarrow> CNode (h ''span'' [cls ''route-port''] [CText s]))"

definition copyAddress :: "texts \<Rightarrow> jstr \<Rightarrow> tunnel_act node" where
  "copyAddress tr a = (let label = tr ''tunnels.copyAddress'' [(''addr'', a)]
     in h ''button'' [s_attr ''type'' ''button'', cls ''route-copy'', (''title'', AText label), (''aria-label'', AText label),
          (''onClick'', AFun (Copy_address a)), (''onKeydown'', AFun Not_further)]
        [CNode (h ''span'' [cls ''mono''] [CList (map piece_child (breakable a))]), CNode (icon ''copy'' [])])"

definition route_node :: "texts \<Rightarrow> jstr \<Rightarrow> jstr \<Rightarrow> jstr \<Rightarrow> jstr \<Rightarrow> bool \<Rightarrow> jstr \<Rightarrow> tunnel_act node" where
  "route_node tr fromLabel from' toLabel to' fromIsText fromCopy =
     h ''div'' [cls ''route''] [CNode (h ''div'' [cls ''route-in'']
       [CNode (h ''span'' [cls ''route-end'']
          [CNode (h ''small'' [] [CText fromLabel]),
           if fromCopy \<noteq> [] then CNode (copyAddress tr fromCopy)
           else CNode (h ''span'' [cls (if fromIsText then ''route-text'' else ''mono''), (''title'', AText from')]
             (if fromIsText then [CText from'] else [CList (map piece_child (breakable from'))]))]),
        CNode (h ''span'' [cls ''route-line'', s_attr ''aria-hidden'' ''true''] []),
        CNode (h ''span'' [cls ''route-end'']
          [CNode (h ''small'' [] [CText toLabel]), CNode (h ''span'' [cls ''mono'', (''title'', AText to')] [CList (map piece_child (breakable to'))])])])]"

subsection \<open>Rows\<close>

definition upper :: "jstr \<Rightarrow> jstr" where
  "upper s = map (\<lambda>c. if 97 \<le> c \<and> c \<le> 122 then c - 32 else c) s"

text \<open>The state of frpc shown for an entry: with several tunnels, the first that has an error.\<close>

definition row_live :: "frpc_status option \<Rightarrow> proxy \<Rightarrow> live_proxy option" where
  "row_live st p = (let names = frpcNames p
     in if length names > 1
        then (case find (\<lambda>x. case x of Some l \<Rightarrow> lp_err l \<noteq> [] | None \<Rightarrow> False) (map (live_of st) names) of Some x \<Rightarrow> x | None \<Rightarrow> None)
        else live_of st (p_name p))"

definition row_assigned :: "frpc_status option \<Rightarrow> proxy \<Rightarrow> bool" where
  "row_assigned st p \<longleftrightarrow> serverPicked p \<and> (case row_live st p of Some l \<Rightarrow> lp_addr l \<noteq> [] | None \<Rightarrow> False)"

definition proxy_flags :: "texts \<Rightarrow> frpc_status option \<Rightarrow> proxy \<Rightarrow> tunnel_act node list" where
  "proxy_flags tr st p =
     (if isRanged p then [badge (tr ''tunnels.flags.range'' [(''count'', int_shown (portSpecCount (p_localPort p)))]) [] []] else [])
     @ (if p_proxyProtocol p \<noteq> [] then [badge (tr ''tunnels.flags.proxyProtocol'' [(''v'', p_proxyProtocol p)]) [] []] else [])
     @ (if p_encryption p then [badge (said tr ''tunnels.flags.encrypted'') [] []] else [])
     @ (if p_compression p then [badge (said tr ''tunnels.flags.compressed'') [] []] else [])
     @ (if row_assigned st p then [badge (said tr ''tunnels.flags.assigned'') ''info'' [(''title'', AText (said tr ''tunnels.flags.assignedHint''))]] else [])
     @ (case row_live st p of Some l \<Rightarrow> (if lp_err l \<noteq> [] then [badge (said tr ''tunnels.flags.error'') ''danger'' [(''title'', AText (lp_err l))]] else [])
        | None \<Rightarrow> [])"

definition state_name :: "row_state \<Rightarrow> string" where
  "state_name s = (case s of New \<Rightarrow> ''new'' | Same \<Rightarrow> [] | Changed \<Rightarrow> ''changed'')"

definition row_attrs :: "texts \<Rightarrow> row_state \<Rightarrow> tunnel_act \<Rightarrow> (string \<times> tunnel_act attr) list" where
  "row_attrs tr s open' = [cls (''row'' @ (if s = Same then [] else '' is-'' @ state_name s)),
     (''dataset'', AData [(''state'', if s = Same then [] else said tr (''common.state.'' @ state_name s))]),
     s_attr ''tabindex'' ''0'', (''onClick'', AFun open'), (''onKeydown'', AFun (On_enter open'))]"

definition delete_button :: "texts \<Rightarrow> tunnel_act \<Rightarrow> tunnel_act node" where
  "delete_button tr del = button [] (plain_btn\<lparr>bo_variant := ''ghost-danger'', bo_size := ''sm'', bo_icon := ''trash'',
     bo_title := Some (said tr ''common.delete''), bo_click := Some del\<rparr>)"

definition row_actions :: "texts \<Rightarrow> tunnel_act \<Rightarrow> tunnel_act \<Rightarrow> tunnel_act node" where
  "row_actions tr edit del = h ''div'' [cls ''row-actions'']
     [CNode (button [] (plain_btn\<lparr>bo_variant := ''ghost'', bo_size := ''sm'', bo_icon := ''edit'', bo_title := Some (said tr ''common.edit''), bo_click := Some edit\<rparr>)),
      CNode (delete_button tr del)]"

text \<open>\<open>up\<close> is the upper case of any text.\<close>

definition type_badge :: "(jstr \<Rightarrow> jstr) \<Rightarrow> jstr \<Rightarrow> tunnel_act child" where
  "type_badge up ty = CNode (h ''span'' [cls ''badge badge-mono badge-outline''] [CText (up ty)])"

definition proxyRow :: "texts \<Rightarrow> (jstr \<Rightarrow> jstr) \<Rightarrow> frpc_status option \<Rightarrow> tpage \<Rightarrow> proxy \<Rightarrow> tunnel_act node" where
  "proxyRow tr up st S p =
     (let halves = splitPair p; server = tp_serverAddr S
      in h ''li'' (row_attrs tr (stateOf_p S p) (Open_proxy (p_uid p)))
        [CNode (h ''div'' [cls ''row-name'']
           [CNode (h ''span'' [(''title'', if length halves > 1 then AText (comma_join (map p_name halves)) else ANull)]
              [CText (or_else (p_name p) (said tr ''tunnels.unnamed''))]),
            CList (map (\<lambda>x. type_badge up (p_type x)) halves)]),
         CNode (route_node tr (said tr ''tunnels.public'') (publicEndpoint (said tr) server (live_addr st) p)
           (said tr ''tunnels.local'') (joinHostPort (or_else (p_localIP p) ((lit ''127.0.0.1''))) (or_else (p_localPort p) ((lit ''?''))))
           (hasSecret (p_type p) \<or> (serverPicked p \<and> \<not> row_assigned st p) \<or> (hasDomains (p_type p) \<and> p_domains p = []))
           (publicCopyValue server (live_addr st) p)),
         CNode (h ''div'' [cls ''row-flags''] [CList (map CNode (proxy_flags tr st p))]),
         CNode (row_actions tr (Open_proxy (p_uid p)) (Delete_proxy (p_uid p)))])"

definition renderProxies :: "texts \<Rightarrow> (jstr \<Rightarrow> jstr) \<Rightarrow> frpc_status option \<Rightarrow> tpage \<Rightarrow> tunnel_act node" where
  "renderProxies tr up st S = (if tp_proxies S = []
     then emptyState ''tunnels'' (said tr ''tunnels.emptyTitle'') (Some (said tr ''tunnels.emptyText''))
       [CNode (button (said tr ''tunnels.add'') (plain_btn\<lparr>bo_variant := ''primary'', bo_icon := ''plus'', bo_click := Some Add_proxy\<rparr>))]
     else h ''ul'' [cls ''rows'', (''aria-label'', AText (said tr ''tunnels.title''))] [CList (map (\<lambda>p. CNode (proxyRow tr up st S p)) (tp_proxies S))])"

definition visitorRow :: "texts \<Rightarrow> (jstr \<Rightarrow> jstr) \<Rightarrow> tpage \<Rightarrow> visitor \<Rightarrow> tunnel_act node" where
  "visitorRow tr up S v = h ''li'' (row_attrs tr (stateOf_v S v) (Open_visitor (v_uid v)))
     [CNode (h ''div'' [cls ''row-name''] [CNode (h ''span'' [] [CText (or_else (v_name v) (said tr ''tunnels.unnamed''))]), type_badge up (v_type v)]),
      CNode (route_node tr (said tr ''visitors.shared'') (or_else (v_serverName v) ((lit ''?''))) (said tr ''visitors.here'')
        (joinHostPort (or_else (v_bindAddr v) ((lit ''127.0.0.1''))) (or_else (v_bindPort v) ((lit ''?'')))) False []),
      CNode (h ''div'' [cls ''row-flags'']
        [if isVisitorRanged v then CNode (badge (tr ''tunnels.flags.range'' [(''count'', int_shown (portSpecCount (v_bindPort v)))]) [] []) else CNull]),
      CNode (row_actions tr (Open_visitor (v_uid v)) (Delete_visitor (v_uid v)))]"

definition renderVisitors :: "texts \<Rightarrow> (jstr \<Rightarrow> jstr) \<Rightarrow> tpage \<Rightarrow> tunnel_act node" where
  "renderVisitors tr up S = (if tp_visitors S = []
     then h ''p'' [cls ''muted'', (''style'', AStyle [(''padding'', (lit ''16px 20px''))])] [CText (said tr ''visitors.empty'')]
     else h ''ul'' [cls ''rows''] [CList (map (\<lambda>v. CNode (visitorRow tr up S v)) (tp_visitors S))])"

subsection \<open>Ports the server picks\<close>

text \<open>The notice above the rows: why an address is not known, and what can be done about it. Both buttons change the
  configuration saved or the instance of this machine.\<close>

definition fixable_here :: "bool \<Rightarrow> bool \<Rightarrow> tpage \<Rightarrow> bool" where
  "fixable_here can_write can_control S \<longleftrightarrow> \<not> tp_docker S \<and> \<not> isDirty_t can_write S \<and> can_write \<and> can_control"

definition status_hint :: "texts \<Rightarrow> bool \<Rightarrow> bool \<Rightarrow> frpc_status option \<Rightarrow> tpage \<Rightarrow> tunnel_act node option" where
  "status_hint tr can_write can_control st S = (case st of None \<Rightarrow> None
     | Some s \<Rightarrow> if \<not> list_ex serverPicked (tp_proxies S) then None
         else if \<not> fs_admin s then Some (callout (plain_callout\<lparr>co_compact := True, co_text := CText (said tr ''tunnels.randomPortNoAdmin''),
           co_actions := (if fixable_here can_write can_control S
             then [CNode (button (said tr ''tunnels.showAssigned'') (plain_btn\<lparr>bo_size := ''sm'', bo_icon := ''eye'', bo_click := Some Show_assigned\<rparr>))] else [])\<rparr>))
         else if \<not> fs_reachable s then Some (callout (plain_callout\<lparr>co_type := ''warn'', co_compact := True, co_text := CText (said tr ''tunnels.randomPortUnreachable''),
           co_actions := (if fixable_here can_write can_control S
             then [CNode (button (said tr ''tunnels.restartFrpc'') (plain_btn\<lparr>bo_size := ''sm'', bo_click := Some Restart_frpc\<rparr>))] else [])\<rparr>))
         else None)"

text \<open>What happens, in order: requests, messages and loading again. \<open>up\<close> is the answer of \<open>waitRunning\<close>.\<close>

datatype tunnel_effect = Ask_admin | Ask_restart | Say jstr string | Post_config jstr | Reload

definition restartFrpc :: "texts \<Rightarrow> jstr \<Rightarrow> bool \<Rightarrow> tunnel_effect list" where
  "restartFrpc tr name up = [Say (tr ''tunnels.restarting'' [(''name'', name)]) ''info'', Ask_restart,
     if up then Say (tr ''tunnels.restarted'' [(''name'', name)]) ''success'' else Say (said tr ''tunnels.restartUnknown'') ''info'']"

text \<open>The answer of the server: \<open>Inl\<close> the message of an exception.\<close>

definition showAssigned :: "texts \<Rightarrow> jstr \<Rightarrow> bool \<Rightarrow> (jstr option + bool \<times> jstr option) \<Rightarrow> bool \<Rightarrow> tunnel_effect list" where
  "showAssigned tr name confirmed answer up = (if \<not> confirmed then []
     else Ask_admin # (case answer of
         Inr (True, msg) \<Rightarrow> restartFrpc tr name up
       | Inr (False, msg) \<Rightarrow> [Say (or_text msg (said tr ''errors.generic'')) ''error'']
       | Inl msg \<Rightarrow> [Say (or_text msg (said tr ''errors.generic'')) ''error'']) @ [Reload])"

definition assigned_body :: "texts \<Rightarrow> tunnel_act child list" where
  "assigned_body tr = [CNode (h ''p'' [] [CText (said tr ''tunnels.admin.intro'')]),
     CNode (h ''ul'' [cls ''admin-steps'']
       [CList (map (\<lambda>k. CNode (h ''li'' [] [CText (said tr k)])) [''tunnels.admin.listen'', ''tunnels.admin.password'', ''tunnels.admin.restart''])]),
     CNode (h ''p'' [cls ''field-hint''] [CText (said tr ''tunnels.admin.undo'')])]"

definition assigned_foot :: "texts \<Rightarrow> tunnel_act child list" where
  "assigned_foot tr = [CNode (button (said tr ''common.cancel'') (plain_btn\<lparr>bo_click := Some (Confirm_assigned False)\<rparr>)),
     CNode (button (said tr ''tunnels.admin.confirm'') (plain_btn\<lparr>bo_variant := ''primary'', bo_click := Some (Confirm_assigned True),
       bo_rest := [(''autofocus'', ABool True)]\<rparr>))]"

text \<open>Saving: the content made from the file as it is now, the answer of the server (\<open>Inl\<close> an exception), and the page
  before it is loaded again. A configuration that cannot be read again raises.\<close>

definition save_flow :: "texts \<Rightarrow> jstr \<Rightarrow> bool \<Rightarrow> jstr option \<Rightarrow> (jstr option + bool \<times> jstr option) \<Rightarrow> bool \<Rightarrow> tpage \<Rightarrow> tunnel_effect list \<times> tpage" where
  "save_flow tr name restart current answer up S = (case save_text current S of
     None \<Rightarrow> ([Say (said tr ''errors.generic'') ''error'', Reload], S)
   | Some content \<Rightarrow> (case answer of
       Inl msg \<Rightarrow> ([Post_config content, Say (or_text msg (said tr ''errors.generic'')) ''error'', Reload], S)
     | Inr (False, msg) \<Rightarrow> ([Post_config content, Say (or_text msg (said tr ''errors.generic'')) ''error''], S)
     | Inr (True, msg) \<Rightarrow> ([Post_config content, Say (said tr ''tunnels.saved'') ''success'']
         @ (if restart then restartFrpc tr name up else []) @ [Reload], saved_t content S)))"

subsection \<open>The page\<close>

text \<open>The elements of the page: \<open>ids\<close> are the frpc with their names, \<open>iid\<close> the one shown (empty: none).\<close>

definition tunnels_actions :: "texts \<Rightarrow> bool \<Rightarrow> (jstr \<times> jstr) list \<Rightarrow> jstr \<Rightarrow> tunnel_act child list" where
  "tunnels_actions tr can_write ids iid =
     (if length ids > 1 then [CNode (add_listener ''change'' Instance_chosen (select ids (Some iid)
        [cls ''select select-inline'', (''aria-label'', AText (said tr ''common.instance''))]))] else [])
     @ (if iid \<noteq> [] \<and> can_write then [CNode (button (said tr ''tunnels.add'') (plain_btn\<lparr>bo_variant := ''primary'', bo_icon := ''plus'', bo_click := Some Add_proxy\<rparr>))] else [])"

definition tunnels_page :: "texts \<Rightarrow> (jstr \<Rightarrow> jstr) \<Rightarrow> bool \<Rightarrow> bool \<Rightarrow> (jstr \<times> jstr) list \<Rightarrow> jstr \<Rightarrow> frpc_status option \<Rightarrow> tpage \<Rightarrow> tunnel_act node" where
  "tunnels_page tr up can_write can_control ids iid st S =
     (let hint = (if iid = [] then None else status_hint tr can_write can_control st S);
          hint_box = (if iid = [] then h ''div'' [] [] else put_prop ''hidden'' (ABool (hint = None)) (h ''div'' [] (as_list hint)));
          bar = saveBar (said tr) \<lparr>sv_discard = Discard_draft, sv_save = Save_draft False, sv_restart = Some (Save_draft True),
            sv_restart_label = Some (said tr ''tunnels.saveRestart''), sv_save_label = None\<rparr>;
          bar' = (if iid = [] then bar else put_prop ''hidden'' (ABool (\<not> isDirty_t can_write S)) bar);
          visitors = h ''section'' []
            [CNode (h ''div'' [cls ''section-head'']
               [CNode (h ''div'' [] [CNode (h ''h2'' [cls ''section-title''] [CText (said tr ''visitors.title'')]),
                  CNode (h ''p'' [cls ''section-desc''] [CText (said tr ''visitors.description'')])]),
                if iid \<noteq> [] \<and> can_write then CNode (button (said tr ''visitors.add'') (plain_btn\<lparr>bo_icon := ''plus'', bo_click := Some Add_visitor\<rparr>)) else CFalse]),
             CNode (h ''div'' [cls ''card''] (if iid = [] then [] else [CNode (renderVisitors tr up S)]))]
      in h ''div'' [cls ''page'']
           [CNode (pageHeader (said tr ''tunnels.title'') (Some (said tr ''tunnels.description'')) (tunnels_actions tr can_write ids iid)),
            if can_write then CFalse else CNode (callout (plain_callout\<lparr>co_type := ''neutral'', co_compact := True, co_icon := ''eye'',
              co_title := Some (said tr ''common.readOnly''), co_text := CText (said tr ''config.readOnly'')\<rparr>)),
            CNode hint_box,
            CNode (h ''div'' [cls ''card''] [CNode (if iid = []
              then emptyState ''laptop'' (said tr ''tunnels.noClientTitle'') (Some (said tr ''tunnels.noClientText''))
                [CNode (button (said tr ''nav.dashboard'') (plain_btn\<lparr>bo_click := Some Dashboard\<rparr>))]
              else renderProxies tr up st S)]),
            CNode (if iid = [] then put_prop ''hidden'' (ABool True) visitors else visitors), CNode bar'])"

subsection \<open>The instance shown and what is asked first\<close>

definition shown_instance :: "jstr list \<Rightarrow> jstr option \<Rightarrow> jstr" where
  "shown_instance ids asked = (case asked of
     Some i \<Rightarrow> if i \<in> set ids then i else (case ids of [] \<Rightarrow> [] | j # _ \<Rightarrow> j)
   | None \<Rightarrow> (case ids of [] \<Rightarrow> [] | j # _ \<Rightarrow> j))"

text \<open>Another instance is chosen: unsaved changes are asked about (\<open>leave\<close>), and a refusal puts the choice back. The
  result: the instance shown, what the list shows, and whether it is loaded.\<close>

definition tunnel_instance_chosen :: "bool \<Rightarrow> bool \<Rightarrow> jstr \<Rightarrow> jstr \<Rightarrow> jstr \<times> jstr \<times> bool" where
  "tunnel_instance_chosen dirty leave chosen iid = (if dirty \<and> \<not> leave then (iid, iid, False) else (chosen, chosen, True))"

text \<open>Title and message of the question before a tunnel or a visitor is removed; a pair names its two tunnels.\<close>

definition delete_proxy_texts :: "texts \<Rightarrow> proxy \<Rightarrow> jstr \<times> jstr" where
  "delete_proxy_texts tr p = (tr ''tunnels.deleteTitle'' [(''name'', or_else (p_name p) (said tr ''tunnels.unnamed''))],
     case splitPair p of [tcp, udp] \<Rightarrow> tr ''tunnels.deletePairText'' [(''tcp'', p_name tcp), (''udp'', p_name udp)]
     | _ \<Rightarrow> said tr ''tunnels.deleteText'')"

definition delete_visitor_texts :: "texts \<Rightarrow> visitor \<Rightarrow> jstr \<times> jstr" where
  "delete_visitor_texts tr v = (tr ''visitors.deleteTitle'' [(''name'', or_else (v_name v) (said tr ''tunnels.unnamed''))], said tr ''tunnels.deleteText'')"

definition answered_removal :: "bool \<Rightarrow> (tpage \<Rightarrow> tpage) \<Rightarrow> tpage \<Rightarrow> tpage" where
  "answered_removal ok remove S = (if ok then remove S else S)"

subsection \<open>What the page offers\<close>

text \<open>The two actions of the notice concern a configuration that is saved and an instance of this machine, and need
  both rights.\<close>

lemma hint_actions:
  assumes "status_hint tr can_write can_control st S = Some n" and "a \<in> set (listeners [n])"
  shows "(a = Show_assigned \<or> a = Restart_frpc) \<and> can_write \<and> can_control \<and> \<not> tp_docker S \<and> \<not> isDirty_t can_write S
    \<and> list_ex serverPicked (tp_proxies S)"
  using assms
  by (auto simp: status_hint_def callout_def h_def button_def icon_def plain_callout_def plain_btn_def spread_def apply_attr_def skipped_def
      set_plain_def is_text_def in_el_def set_attribute_def new_info_def when_text_def has_text_def fun_attr_def opt_attr_def Let_def fixable_here_def
      callout_icon_def child_given_def split: option.splits if_splits)

text \<open>An account that may only read is still offered to edit and delete each tunnel.\<close>

lemma read_only_offers_delete:
  "Delete_proxy (p_uid p) \<in> set (listeners [proxyRow tr up st S p])"
proof -
  let ?b = "delete_button tr (Delete_proxy (p_uid p))"
  have "Delete_proxy (p_uid p) \<in> set (listeners [?b])" by (simp add: delete_button_def button_actions plain_btn_def)
  then have "Delete_proxy (p_uid p) \<in> set (listeners [row_actions tr (Open_proxy (p_uid p)) (Delete_proxy (p_uid p))])"
    unfolding row_actions_def by (intro child_action [of ?b]) (simp_all add: no_class_action_def)
  then show ?thesis unfolding proxyRow_def Let_def
    by (intro child_action [of "row_actions tr (Open_proxy (p_uid p)) (Delete_proxy (p_uid p))"]) (auto simp: no_class_action_def row_attrs_def)
qed

text \<open>A key pressed on a button of a row is heard by the row too: Enter on the button that deletes opens the editor of
  the tunnel. Enter on the address that is copied does not.\<close>

lemma lower_k: "char_of (107 :: nat) = CHR ''k''"
  by code_simp

lemma enter_on_delete_opens:
  "heard ''keydown'' (\<lambda>a. a = Not_further) [delete_button tr (Delete_proxy (p_uid p)), row_actions tr (Open_proxy (p_uid p)) (Delete_proxy (p_uid p)),
     proxyRow tr up st S p] = [On_enter (Open_proxy (p_uid p))]"
  "heard ''keydown'' (\<lambda>a. a = Not_further) [copyAddress tr a, proxyRow tr up st S p] = [Not_further]"
  by (auto simp: delete_button_def row_actions_def proxyRow_def row_attrs_def copyAddress_def h_def button_def plain_btn_def spread_def apply_attr_def skipped_def
      set_plain_def is_text_def in_el_def set_attribute_def new_info_def fun_attr_def opt_attr_def Let_def lower_char_def is_upper_def data_name_def lower_k)

end
