(* ===== verification/View_Tunnel_Editors.thy ===== *)
theory View_Tunnel_Editors imports View_Tunnels begin

text \<open>
  The two dialogs of the tunnels page (\<open>editProxy\<close>, \<open>editVisitor\<close> of \<open>pages/tunnels.js\<close>): their titles, their forms
  and what their controls show for the values typed so far. The controls are made once with the values of the draft;
  \<open>f\<close> are their values now. \<open>seq\<close> numbers the fields (\<open>ui.js\<close>).
\<close>

definition vmsg_text :: "texts \<Rightarrow> vmsg \<Rightarrow> jstr" where
  "vmsg_text tr m = (case m of
     VRequired \<Rightarrow> said tr ''validation.required''
   | VPort \<Rightarrow> said tr ''validation.port''
   | VPortSpec \<Rightarrow> said tr ''validation.portSpec''
   | VRangeTooBig n \<Rightarrow> tr ''validation.rangeTooBig'' [(''max'', digits n)]
   | VRangeRemote \<Rightarrow> said tr ''validation.rangeRemote''
   | VRangeCount l r \<Rightarrow> tr ''validation.rangeCount'' [(''local'', int_shown l), (''remote'', int_shown r)]
   | VDomainPort \<Rightarrow> tr ''validation.domainPort'' [(''token'', PORT_TOKEN)]
   | VDomainPortSingle \<Rightarrow> tr ''validation.domainPortSingle'' [(''token'', PORT_TOKEN)]
   | VNameFormat \<Rightarrow> said tr ''validation.nameFormat''
   | VNameTaken \<Rightarrow> said tr ''validation.nameTaken''
   | VNameClash n \<Rightarrow> tr ''validation.nameClash'' [(''name'', n)]
   | VBothRemote \<Rightarrow> said tr ''validation.bothRemote''
   | VVisitorNameClash n \<Rightarrow> tr ''validation.visitorNameClash'' [(''name'', n)]
   | VRangeCountVisitor l r \<Rightarrow> tr ''validation.rangeCountVisitor'' [(''local'', int_shown l), (''remote'', int_shown r)])"

subsection \<open>Tunnels\<close>

text \<open>TCP + UDP when a tunnel is created or is a pair already.\<close>

definition editor_kinds :: "proxy option \<Rightarrow> jstr list" where
  "editor_kinds existing = concat (map (\<lambda>v. if v = t_udp \<and> (case existing of None \<Rightarrow> True | Some e \<Rightarrow> p_type e = TCP_UDP) then [v, TCP_UDP] else [v]) PROXY_TYPES)"

definition kind_label :: "jstr \<Rightarrow> jstr" where
  "kind_label v = (if v = TCP_UDP then (lit ''TCP + UDP'') else upper v)"

definition server_name_or :: "texts \<Rightarrow> jstr \<Rightarrow> jstr" where
  "server_name_or tr server = or_else server (said tr ''tunnels.server'')"

text \<open>The hints that follow what is typed (\<open>sync\<close>, \<open>syncDomainsHint\<close>, \<open>syncNameHint\<close>).\<close>

definition remote_hint :: "texts \<Rightarrow> jstr \<Rightarrow> proxy_form \<Rightarrow> jstr" where
  "remote_hint tr server f = tr (if fp_type f = TCP_UDP then ''tunnels.fields.remotePortHintBoth'' else ''tunnels.fields.remotePortHint'')
     [(''server'', server_name_or tr server)]"

definition domains_hint :: "texts \<Rightarrow> proxy_form \<Rightarrow> jstr" where
  "domains_hint tr f = (if ranged_at (kind_of_type (fp_type f)) (fp_localPort f) (fp_remotePort f)
     then tr ''tunnels.fields.domainsHintRange'' [(''token'', PORT_TOKEN)] else said tr ''tunnels.fields.domainsHint'')"

definition name_hint :: "texts \<Rightarrow> proxy_form \<Rightarrow> jstr" where
  "name_hint tr f = (let base = or_else (trim (fp_name f)) (said tr ''tunnels.fields.namePlaceholder'')
     in if fp_type f = TCP_UDP then tr ''tunnels.fields.nameHintBoth'' [(''tcp'', base @ (lit ''-tcp'')), (''udp'', base @ (lit ''-udp''))]
        else said tr ''tunnels.fields.nameHint'')"

definition mono_input :: "jstr \<Rightarrow> jstr \<Rightarrow> 'e node" where
  "mono_input value placeholder = input [(''value'', AText value), (''placeholder'', AText placeholder), (''mono'', ABool True)]"

definition keyed_field :: "jstr \<Rightarrow> jstr option \<Rightarrow> string \<Rightarrow> field_opts" where
  "keyed_field label hint key = (plain_field label)\<lparr>fo_hint := hint, fo_key := Some (lit key)\<rparr>"

text \<open>The fields in the order they are made: name, public port, domains, secret, PROXY protocol, then address and port.\<close>

definition proxy_fields :: "texts \<Rightarrow> jstr \<Rightarrow> proxy \<Rightarrow> proxy_form \<Rightarrow> nat \<Rightarrow> (tunnel_act node \<times> tunnel_act node \<times> tunnel_act node \<times> tunnel_act node \<times> tunnel_act node \<times> tunnel_act node \<times> tunnel_act node) \<times> nat" where
  "proxy_fields tr server draft f seq =
     (let kind = kind_of_type (fp_type f); sd = said tr;
          nameI = add_listener ''input'' Name_typed (input [(''value'', AText (p_name draft)), (''placeholder'', AText (sd ''tunnels.fields.namePlaceholder'')),
            (''mono'', ABool True), s_attr ''autocomplete'' ''off'']);
          localPortI = add_listener ''input'' Ports_typed (mono_input (p_localPort draft) ((lit ''8080'')));
          secretI = secretInput sd Toggle_shown [(''value'', AText (p_secretKey draft)), (''placeholder'', AText (sd ''tunnels.fields.secretPlaceholder''))];
          ppvI = select [([], sd ''tunnels.fields.ppOff''), ((lit ''v1''), (lit ''v1'')), ((lit ''v2''), sd ''tunnels.fields.ppV2'')] (Some (p_proxyProtocol draft)) [];
          (nameF, s1) = field sd (keyed_field (sd ''tunnels.fields.name'') (Some (name_hint tr f)) ''name'') nameI seq;
          (remoteF, s2) = field sd (keyed_field (sd ''tunnels.fields.remotePort'') (Some (remote_hint tr server f)) ''remotePort'') (mono_input (p_remotePort draft) ((lit ''8080''))) s1;
          (domainsF, s3) = field sd (keyed_field (sd ''tunnels.fields.domains'') (Some (domains_hint tr f)) ''customDomains'') (mono_input (p_domains draft) ((lit ''app.example.com''))) s2;
          (secretF, s4) = field sd (keyed_field (sd ''tunnels.fields.secret'') (Some (sd ''tunnels.fields.secretHint'')) ''secretKey'') secretI s3;
          (ppF, s5) = field sd (keyed_field (sd ''tunnels.fields.proxyProtocol'') (Some (sd ''tunnels.fields.proxyProtocolHint'')) ''transport.proxyProtocolVersion'') ppvI s4;
          (ipF, s6) = field sd (keyed_field (sd ''tunnels.fields.localIP'') None ''localIP'') (mono_input (p_localIP draft) ((lit ''127.0.0.1''))) s5;
          (portF, s7) = field sd (keyed_field (sd ''tunnels.fields.localPort'') None ''localPort'') localPortI s6
      in ((nameF, hide (\<not> hasRemotePort kind) remoteF, hide (\<not> hasDomains kind) domainsF, hide (\<not> hasSecret kind) secretF, ppF, ipF, portF), s7))"

definition type_choice :: "texts \<Rightarrow> jstr list \<Rightarrow> jstr \<Rightarrow> tunnel_act node" where
  "type_choice tr kinds value = segmented (map (\<lambda>v. (v, kind_label v, [])) kinds) value Type_chosen (Some (said tr ''tunnels.fields.type''))"

definition type_field :: "texts \<Rightarrow> jstr list \<Rightarrow> jstr \<Rightarrow> tunnel_act node" where
  "type_field tr kinds value = h ''div'' [cls ''field'']
     [CNode (h ''span'' [cls ''field-label''] [CText (said tr ''tunnels.fields.type''), CNode (h ''span'' [cls ''field-key''] [CText ((lit ''type''))])]),
      CNode (type_choice tr kinds value),
      CNode (h ''p'' [cls ''field-hint''] [CText (said tr (''tunnels.types.'' @ map char_of value))])]"

definition proxy_form_id :: "proxy \<Rightarrow> jstr" where
  "proxy_form_id draft = (lit ''proxy-form-'') @ digits (p_uid draft)"

definition proxy_editor :: "texts \<Rightarrow> proxy option \<Rightarrow> proxy \<Rightarrow> jstr \<Rightarrow> proxy_form \<Rightarrow> nat \<Rightarrow> tunnel_act child list \<times> nat" where
  "proxy_editor tr existing draft server f seq = (case proxy_fields tr server draft f seq of
     ((nameF, remoteF, domainsF, secretF, ppF, ipF, portF), seq') \<Rightarrow>
       ([CNode (h ''form'' [(''id'', AText (proxy_form_id draft)), cls ''form-stack'', (''onSubmit'', AFun Submit_proxy), (''novalidate'', ABool True)]
          [CNode nameF, CNode (type_field tr (editor_kinds existing) (fp_type f)),
           CNode (h ''fieldset'' [cls ''fieldset'']
             [CNode (h ''legend'' [cls ''fieldset-title''] [CText (said tr ''tunnels.fields.localService'')]),
              CNode (h ''div'' [cls ''form-grid-2''] [CNode ipF, CNode portF]),
              CNode (h ''p'' [cls ''field-hint''] [CText (said tr ''tunnels.fields.localHint'')]),
              CNode (h ''p'' [cls ''field-hint''] [CText (tr (rangeHintKey (kind_of_type (fp_type f))) [(''token'', PORT_TOKEN)])])]),
           CNode (h ''fieldset'' [cls ''fieldset'']
             [CNode (h ''legend'' [cls ''fieldset-title''] [CText (said tr ''tunnels.fields.publicAccess'')]), CNode remoteF, CNode domainsF, CNode secretF]),
           CNode (h ''details'' [cls ''fieldset disclosure-inline'', (''open'', if p_encryption draft \<or> p_compression draft \<or> p_proxyProtocol draft \<noteq> [] then ABool True else ANull)]
             [CNode (h ''summary'' [] [CNode (icon ''chevron-down'' []), CText (said tr ''tunnels.fields.options'')]),
              CNode (h ''div'' [cls ''form-stack'', (''style'', AStyle [(''paddingTop'', (lit ''12px''))])]
                [CNode ppF,
                 CNode (switchRow (said tr ''tunnels.fields.encryption'') (Some (said tr ''tunnels.fields.encryptionHint'')) (plain_switch\<lparr>so_checked := p_encryption draft\<rparr>)),
                 CNode (switchRow (said tr ''tunnels.fields.compression'') (Some (said tr ''tunnels.fields.compressionHint'')) (plain_switch\<lparr>so_checked := p_compression draft\<rparr>))])]),
           if p_extras draft = [] then CNull
           else CNode (h ''p'' [cls ''field-hint''] [CText (tr ''tunnels.extrasKept'' [(''keys'', comma_join (map fst (p_extras draft)))])])])], seq'))"

definition editor_foot :: "texts \<Rightarrow> bool \<Rightarrow> jstr \<Rightarrow> tunnel_act child list" where
  "editor_foot tr existing formId =
     [CNode (button (said tr ''common.cancel'') (plain_btn\<lparr>bo_click := Some Cancel_editor\<rparr>)),
      CNode (button (said tr (if existing then ''tunnels.apply'' else ''tunnels.addToList''))
        (plain_btn\<lparr>bo_variant := ''primary'', bo_type := ''submit'', bo_rest := [(''form'', AText formId)]\<rparr>))]"

definition proxy_title :: "texts \<Rightarrow> proxy option \<Rightarrow> jstr" where
  "proxy_title tr existing = (case existing of Some e \<Rightarrow> tr ''tunnels.editTitle'' [(''name'', p_name e)] | None \<Rightarrow> said tr ''tunnels.newTitle'')"

subsection \<open>Visitors\<close>

definition VISITOR_TYPES :: "jstr list" where
  "VISITOR_TYPES = [(lit ''stcp''), (lit ''xtcp'')]"

definition visitor_fields :: "texts \<Rightarrow> visitor \<Rightarrow> visitor_form \<Rightarrow> nat \<Rightarrow> (tunnel_act node \<times> tunnel_act node \<times> tunnel_act node \<times> tunnel_act node \<times> tunnel_act node \<times> tunnel_act node) \<times> nat" where
  "visitor_fields tr draft f seq =
     (let sd = said tr;
          bindPortI = add_listener ''input'' Ports_typed (mono_input (v_bindPort draft) ((lit ''9001'')));
          secretI = secretInput sd Toggle_shown [(''value'', AText (v_secretKey draft)), (''placeholder'', AText (sd ''tunnels.fields.secretPlaceholder''))];
          (portsF, s1) = field sd ((plain_field (sd ''visitors.fields.serverPorts''))\<lparr>fo_hint := Some (sd ''visitors.fields.serverPortsHint''), fo_optional := True\<rparr>)
            (mono_input (v_serverPorts draft) (sd ''visitors.fields.serverPortsPlaceholder'')) seq;
          (nameF, s2) = field sd (keyed_field (sd ''tunnels.fields.name'') None ''name'') (mono_input (v_name draft) (sd ''visitors.fields.namePlaceholder'')) s1;
          (serverF, s3) = field sd (keyed_field (sd ''visitors.fields.serverName'') (Some (sd ''visitors.fields.serverNameHint'')) ''serverName'')
            (mono_input (v_serverName draft) ((lit ''service-partage''))) s2;
          (secretF, s4) = field sd (keyed_field (sd ''tunnels.fields.secret'') (Some (sd ''visitors.fields.secretHint'')) ''secretKey'') secretI s3;
          (addrF, s5) = field sd (keyed_field (sd ''visitors.fields.bindAddr'') None ''bindAddr'') (mono_input (v_bindAddr draft) ((lit ''127.0.0.1''))) s4;
          (bindF, s6) = field sd (keyed_field (sd ''visitors.fields.bindPort'') None ''bindPort'') bindPortI s5
      in ((nameF, serverF, secretF, addrF, bindF, hide (\<not> isPortRange (fv_bindPort f)) portsF), s6))"

definition visitor_editor :: "texts \<Rightarrow> visitor \<Rightarrow> visitor_form \<Rightarrow> nat \<Rightarrow> tunnel_act child list \<times> nat" where
  "visitor_editor tr draft f seq = (case visitor_fields tr draft f seq of
     ((nameF, serverF, secretF, addrF, bindF, portsF), seq') \<Rightarrow>
       ([CNode (h ''form'' [(''id'', AText ((lit ''visitor-form-'') @ digits (v_uid draft))), cls ''form-stack'', (''onSubmit'', AFun Submit_visitor), (''novalidate'', ABool True)]
          [CNode nameF, CNode (type_field tr VISITOR_TYPES (fv_type f)), CNode serverF, CNode secretF,
           CNode (h ''div'' [cls ''form-grid-2''] [CNode addrF, CNode bindF]),
           CNode (h ''p'' [cls ''field-hint''] [CText (said tr ''visitors.fields.bindHint'')]),
           CNode (h ''p'' [cls ''field-hint''] [CText (said tr ''visitors.fields.rangeHint'')]), CNode portsF])], seq'))"

definition visitor_title :: "texts \<Rightarrow> visitor option \<Rightarrow> jstr" where
  "visitor_title tr existing = (case existing of Some e \<Rightarrow> tr ''visitors.editTitle'' [(''name'', v_name e)] | None \<Rightarrow> said tr ''visitors.newTitle'')"

end
