(* ===== verification/View_Dashboard.thy ===== *)
theory View_Dashboard imports Page_Dashboard Page_Updates View_Base begin

text \<open>
  What the dashboard shows (\<open>pages/dashboard.js\<close>): the notices, the card of each instance, the dialogs, as element
  trees whose listeners are the actions of the page (\<open>dash_act\<close>); and what each action does, in order
  (\<open>dash_effect\<close>), from the answers of the dialogs and of the server. \<open>Page_Dashboard\<close> has what the cards hold and
  what the forms send.
\<close>

datatype dash_act = Detect_now | New_instance | Create_again jstr | Set_password | See_updates | Do_service jstr string | Stop_service jstr
  | Autostart_of jstr | Tunnels_of jstr | Firewall_of jstr | Menu_of jstr | Rename_instance jstr | Logs_of jstr | Config_of jstr
  | Delete_instance jstr | Adopt jstr | Cancel_dialog | Delete_confirmed | Adopt_confirmed | New_submitted | New_type_picked jstr | New_name_changed
  | New_copy_changed

subsection \<open>Notices and what is empty\<close>

definition alert_node :: "texts \<Rightarrow> alert \<Rightarrow> dash_act node" where
  "alert_node tr a = (case a of
     No_password \<Rightarrow> callout (plain_callout\<lparr>co_type := ''danger'', co_title := Some (said tr ''dashboard.noPasswordTitle''), co_text := CText (said tr ''dashboard.noPasswordText''),
       co_actions := [CNode (button (said tr ''dashboard.setPassword'') (plain_btn\<lparr>bo_variant := ''primary'', bo_size := ''sm'', bo_click := Some Set_password\<rparr>))]\<rparr>)
   | Update_there what \<Rightarrow> callout (plain_callout\<lparr>co_icon := ''download'', co_title := Some (said_j tr ((lit ''dashboard.update.'') @ what)),
       co_actions := [CNode (button (said tr ''dashboard.seeUpdates'') (plain_btn\<lparr>bo_size := ''sm'', bo_click := Some See_updates\<rparr>))]\<rparr>)
   | Standalone_note \<Rightarrow> callout (plain_callout\<lparr>co_compact := True, co_icon := ''box'', co_title := Some (said tr ''dashboard.standaloneTitle''),
       co_text := CText (said tr ''dashboard.standaloneText'')\<rparr>)
   | Docker_note \<Rightarrow> callout (plain_callout\<lparr>co_type := ''warn'', co_compact := True, co_icon := ''box'', co_title := Some (said tr ''dashboard.dockerTitle''),
       co_text := CText (said tr ''dashboard.dockerText'')\<rparr>))"

definition alerts_box :: "texts \<Rightarrow> alert list \<Rightarrow> dash_act node" where
  "alerts_box tr as = hide (as = []) (h ''div'' [cls ''form-stack''] [CList (map (\<lambda>a. CNode (alert_node tr a)) as)])"

definition empty_grid :: "texts \<Rightarrow> store \<Rightarrow> bool \<Rightarrow> dash_act node" where
  "empty_grid tr S offer = h ''div'' [cls ''card'', (''style'', AStyle [(''gridColumn'', (lit ''1 / -1''))])]
     [CNode (emptyState ''server'' (said tr ''dashboard.emptyTitle'')
        (Some (said tr (if st_standalone S then ''dashboard.emptyTextStandalone'' else if st_inDocker S then ''dashboard.emptyTextDocker'' else ''dashboard.emptyText'')))
        (if offer then [CNode (button (said tr ''dashboard.installFrp'') (plain_btn\<lparr>bo_variant := ''primary'', bo_icon := ''download'', bo_click := Some See_updates\<rparr>))] else []))]"

definition reinstall_buttons :: "texts \<Rightarrow> store \<Rightarrow> dash_act child list" where
  "reinstall_buttons tr S = map (\<lambda>ty. CNode (button (tr ''dashboard.reinstall'' [(''type'', ty)]) (plain_btn\<lparr>bo_icon := ''plus'',
     bo_title := Some (tr (if st_standalone S then ''dashboard.reinstallHintStandalone'' else ''dashboard.reinstallHint'') [(''type'', ty)]),
     bo_click := Some (Create_again ty)\<rparr>))) (renderReinstall S)"

subsection \<open>The card of an instance\<close>

definition status_shown :: "texts \<Rightarrow> inst_status \<Rightarrow> 'e node" where
  "status_shown tr s = (case s of
     Running \<Rightarrow> h ''span'' [cls ''badge badge-success''] [CNode (h ''span'' [cls ''dot dot-pulse''] []), CText (said tr ''status.running'')]
   | Stopped \<Rightarrow> h ''span'' [cls ''badge badge-danger''] [CNode (h ''span'' [cls ''dot''] []), CText (said tr ''status.stopped'')]
   | Missing \<Rightarrow> h ''span'' [cls ''badge''] [CNode (h ''span'' [cls ''dot''] []), CText (said tr ''status.missing'')])"

definition row_nodes :: "texts \<Rightarrow> jstr \<times> jstr \<times> jstr \<times> bool \<Rightarrow> dash_act child list" where
  "row_nodes tr r = (case r of (label, value, title, bad) \<Rightarrow>
     [CNode (h ''dt'' [] [CText (said_j tr ((lit ''dashboard.fields.'') @ label))]),
      CNode (h ''dd'' [cls ''mono'', (''title'', AText (text_or title value)),
          (''style'', if bad then AStyle [(''color'', (lit ''var(--danger-text)''))] else ANull)] [CText (text_or value [8212])])])"

definition autostart_switch :: "texts \<Rightarrow> jstr \<Rightarrow> inst \<Rightarrow> bool \<Rightarrow> dash_act node" where
  "autostart_switch tr iid x on = h ''div'' [cls ''switch-row'']
     [CNode (h ''div'' [cls ''switch-text'']
        [CNode (h ''div'' [cls ''switch-label''] [CText (said tr ''dashboard.autostart'')]),
         CNode (h ''div'' [cls ''switch-desc''] [CText (said tr (if i_source x = (lit ''standalone'') then ''dashboard.autostartHintStandalone'' else ''dashboard.autostartHint''))])]),
      CNode (switchControl (plain_switch\<lparr>so_checked := on, so_label := Some (said tr ''dashboard.autostart''), so_change := Some (Autostart_of iid)\<rparr>))]"

definition action_node :: "texts \<Rightarrow> jstr \<Rightarrow> card_action \<Rightarrow> dash_act node" where
  "action_node tr iid a = (case a of
     Stop_it \<Rightarrow> button (said tr ''actions.stop'') (plain_btn\<lparr>bo_icon := ''stop'', bo_click := Some (Stop_service iid)\<rparr>)
   | Start_it \<Rightarrow> button (said tr ''actions.start'') (plain_btn\<lparr>bo_variant := ''primary'', bo_icon := ''play'', bo_click := Some (Do_service iid ''start'')\<rparr>)
   | Restart_it \<Rightarrow> button (said tr ''actions.restart'') (plain_btn\<lparr>bo_icon := ''refresh'', bo_click := Some (Do_service iid ''restart'')\<rparr>)
   | Spacer \<Rightarrow> h ''span'' [cls ''spacer''] []
   | See_tunnels \<Rightarrow> button (said tr ''nav.tunnels'') (plain_btn\<lparr>bo_variant := ''ghost'', bo_size := ''sm'', bo_icon := ''tunnels'', bo_click := Some (Tunnels_of iid)\<rparr>)
   | See_firewall \<Rightarrow> button (said tr ''nav.firewall'') (plain_btn\<lparr>bo_variant := ''ghost'', bo_size := ''sm'', bo_icon := ''shield'', bo_click := Some (Firewall_of iid)\<rparr>))"

text \<open>An item of the menu: its text, its icon and whether it is dangerous; \<open>None\<close> is a separator.\<close>

definition item_shown :: "texts \<Rightarrow> menu_item \<Rightarrow> (jstr \<times> string \<times> bool) option" where
  "item_shown tr m = (case m of Sep \<Rightarrow> None
   | Rename_it \<Rightarrow> Some (said tr ''dashboard.rename'', ''edit'', False)
   | See_logs \<Rightarrow> Some (said tr ''dashboard.viewLogs'', ''logs'', False)
   | Edit_config \<Rightarrow> Some (said tr ''dashboard.editConfig'', ''config'', False)
   | Reload_it \<Rightarrow> Some (said tr ''dashboard.reload'', ''refresh'', False)
   | Delete_it \<Rightarrow> Some (said tr ''common.delete'', ''trash'', True))"

definition item_act :: "jstr \<Rightarrow> menu_item \<Rightarrow> dash_act" where
  "item_act iid m = (case m of Sep \<Rightarrow> Menu_of iid | Rename_it \<Rightarrow> Rename_instance iid | See_logs \<Rightarrow> Logs_of iid | Edit_config \<Rightarrow> Config_of iid
   | Reload_it \<Rightarrow> Do_service iid ''reload'' | Delete_it \<Rightarrow> Delete_instance iid)"

definition card_menu :: "texts \<Rightarrow> jstr \<Rightarrow> bool \<Rightarrow> menu_item list \<Rightarrow> dash_act node" where
  "card_menu tr iid opened items = menuButton (said tr) None (Menu_of iid)
     (if opened then Some (menu_node (map (item_shown tr) items) (\<lambda>k. item_act iid (items ! k))) else None)"

definition card_body :: "texts \<Rightarrow> jstr \<Rightarrow> inst \<Rightarrow> card \<Rightarrow> dash_act child list" where
  "card_body tr iid x c =
     (if cd_status c = Missing then [CNode (callout (plain_callout\<lparr>co_type := ''warn'', co_text := CText (tr ''dashboard.binaryMissing'' [(''type'', i_type x)])\<rparr>))] else [])
     @ [CNode (h ''dl'' [cls ''kv''] [CList (concat (map (row_nodes tr) (cd_rows c)))])]
     @ (case cd_autostart c of Some on \<Rightarrow> [CNode (autostart_switch tr iid x on)] | None \<Rightarrow> [])"

definition card_node :: "texts \<Rightarrow> jstr \<Rightarrow> inst \<Rightarrow> bool \<Rightarrow> card \<Rightarrow> dash_act node" where
  "card_node tr iid x opened c = h ''article''
     [cls (if cd_status c = Running then ''card svc is-running'' else ''card svc''), (''aria-label'', AText (cd_name c))]
     [CNode (h ''div'' [cls ''svc-head'']
        [CNode (h ''div'' [cls ''svc-icon''] [CNode (icon (map char_of (cd_icon c)) ''icon-lg'')]),
         CNode (h ''div'' [cls ''svc-title'']
           [CNode (h ''h2'' [cls ''svc-name'', (''title'', AText (cd_name c))] [CText (cd_name c)]),
            CNode (h ''div'' [cls ''svc-meta''] [CNode (status_shown tr (cd_status c)),
              CNode (h ''p'' [cls ''svc-sub'', (''title'', AText (cd_label c))] [CText (cd_label c)])])]),
         if cd_menu c = [] then CNull else CNode (card_menu tr iid opened (cd_menu c))]),
      CNode (h ''div'' [cls ''svc-body''] [CList (card_body tr iid x c)]),
      CNode (h ''div'' [cls ''svc-actions''] [CList (map (\<lambda>a. CNode (action_node tr iid a)) (cd_actions c))])]"

subsection \<open>The page\<close>

text \<open>The menu that is open belongs to one card at most.\<close>

definition grid_nodes :: "texts \<Rightarrow> (jstr \<Rightarrow> dash_info) \<Rightarrow> jstr option \<Rightarrow> store \<Rightarrow> grid \<Rightarrow> dash_act node list" where
  "grid_nodes tr info opened S g = (case g of
     Skeletons \<Rightarrow> replicate 2 (h ''div'' [cls ''skeleton'', (''style'', AStyle [(''height'', (lit ''220px''))])] [])
   | Empty_grid offer \<Rightarrow> [empty_grid tr S offer]
   | Cards ids \<Rightarrow> map (\<lambda>i. case map_of (st_instances S) i of
         Some x \<Rightarrow> card_node tr i x (opened = Some i) (serviceCard (said_j tr) S i x (info i)) | None \<Rightarrow> Txt_node []) ids)"

definition dashboard_page :: "texts \<Rightarrow> (jstr \<Rightarrow> jstr \<Rightarrow> int) \<Rightarrow> (jstr \<Rightarrow> dash_info) \<Rightarrow> bool \<Rightarrow> jstr option \<Rightarrow> dash_act node \<Rightarrow> store \<Rightarrow> dash_act node" where
  "dashboard_page tr coll info owner opened orphan_box S = h ''div'' [cls ''page'']
     [CNode (pageHeader (said tr ''dashboard.title'') (Some (said tr ''dashboard.description''))
        [CNode (h ''div'' [(''style'', AStyle [(''display'', (lit ''contents''))])] [CList (reinstall_buttons tr S)]),
         if can (lit ''instances.create'') S then CNode (button (said tr ''dashboard.newInstance'') (plain_btn\<lparr>bo_icon := ''plus'', bo_click := Some New_instance\<rparr>)) else CNull,
         CNode (button (said tr ''dashboard.redetect'') (plain_btn\<lparr>bo_icon := ''refresh'', bo_click := Some Detect_now\<rparr>))]),
      CNode (alerts_box tr (renderAlerts owner S)), CNode orphan_box,
      CNode (h ''div'' [cls ''svc-grid''] [CList (map CNode (grid_nodes tr info opened S (renderGrid coll S)))])]"

text \<open>The page is made again when what it depends on has changed since it was drawn: the text compared has the
  instances with all they hold, the names, and what the notices show. \<open>updates\<close> is all the store knows of them.\<close>

type_synonym drawn = "((jstr \<times> inst) \<times> dash_info) list \<times> (jstr \<times> jstr) list \<times> bool \<times> (bool \<times> bool) \<times> bool \<times> bool \<times> bool"

definition drawn_signature :: "(jstr \<Rightarrow> dash_info) \<Rightarrow> store \<Rightarrow> drawn" where
  "drawn_signature info S = (map (\<lambda>ix. (ix, info (fst ix))) (st_instances S), st_nicknames S, st_hasPassword S, (st_update_frp S, st_update_panel S),
     st_inDocker S, st_standalone S, st_ready S)"

definition render_dashboard :: "(jstr \<Rightarrow> dash_info) \<Rightarrow> store \<Rightarrow> drawn option \<Rightarrow> drawn option \<times> bool" where
  "render_dashboard info S lastSignature = (if lastSignature = Some (drawn_signature info S) then (lastSignature, False) else (Some (drawn_signature info S), True))"

text \<open>The account is not part of it: when only the permissions change, the page keeps the buttons it had.\<close>

lemma permissions_not_drawn: "snd (render_dashboard info (S\<lparr>st_me := m\<rparr>) (fst (render_dashboard info S sig))) = False"
  by (simp add: render_dashboard_def drawn_signature_def)

end
