(* ===== verification/View_Dashboard_Dialogs.thy ===== *)
theory View_Dashboard_Dialogs imports View_Dashboard begin

text \<open>
  The dialogs of the dashboard and what its actions do (\<open>pages/dashboard.js\<close>): starting, stopping, starting with the
  machine, deleting, creating again, a new instance, adopting a configuration and renaming. An action is the list of
  its effects in order, from the answers: the requests, the messages (\<open>Message\<close>), what is loaded again.
\<close>

datatype dash_effect = Service_request jstr string | Ask_delete_info jstr | Delete_request jstr "bool \<times> bool" | Reinstall_request jstr
  | Create_request "jstr \<times> jstr \<times> jstr" | Adopt_request "jstr \<times> bool" | Nickname_request jstr jstr
  | Message "jstr \<times> string" | Message_for "jstr \<times> string" nat | Refresh_status | Refresh_later nat | Detect_instances | Load_nicknames | Redraw | Open_log | Orphans_again

subsection \<open>Services\<close>

definition serviceAction :: "texts \<Rightarrow> jstr \<Rightarrow> jstr \<Rightarrow> string \<Rightarrow> reply \<Rightarrow> dash_effect list" where
  "serviceAction tr name iid action r = [Service_request iid action,
     Message (reply_message tr r (tr (''actions.done.'' @ action) [(''name'', name)])), Refresh_later 700]"

definition stop_texts :: "texts \<Rightarrow> jstr \<Rightarrow> inst \<Rightarrow> jstr \<times> jstr \<times> jstr" where
  "stop_texts tr name x = (tr ''dashboard.stopTitle'' [(''name'', name)],
     said tr (if i_type x = (lit ''frpc'') then ''dashboard.stopTextClient'' else ''dashboard.stopTextServer''), said tr ''actions.stop'')"

definition stopService :: "texts \<Rightarrow> jstr \<Rightarrow> jstr \<Rightarrow> bool \<Rightarrow> reply \<Rightarrow> dash_effect list" where
  "stopService tr name iid confirmed r = (if confirmed then serviceAction tr name iid ''stop'' r else [])"

text \<open>The switch that starts an instance with the machine: what it shows at the end, and the effects. The state is
  asked for again after any answer; \<open>again\<close> is the message of an exception there.\<close>

definition autostart_changed :: "texts \<Rightarrow> jstr \<Rightarrow> bool \<Rightarrow> reply \<Rightarrow> jstr option option \<Rightarrow> bool \<times> dash_effect list" where
  "autostart_changed tr iid on r again =
     (let sent = [Service_request iid (if on then ''enable'' else ''disable''),
            Message (reply_message tr r (said tr (if on then ''dashboard.autostartOn'' else ''dashboard.autostartOff'')))]
      in case r of Inl m \<Rightarrow> (\<not> on, sent)
       | Inr (ok, m) \<Rightarrow> (case again of
           None \<Rightarrow> (if ok then on else \<not> on, sent @ [Refresh_status])
         | Some msg \<Rightarrow> (\<not> on, sent @ [Refresh_status, Message (reply_message tr (Inl msg) [])])))"

text \<open>With the answers that come, it is the switch of \<open>Page_Dashboard\<close>.\<close>

lemma autostart_changed_shows: "fst (autostart_changed tr iid on r None) = autostart_after (case r of Inl m \<Rightarrow> None | Inr (ok, m) \<Rightarrow> Some ok) on"
  by (auto simp: autostart_changed_def autostart_after_def Let_def split: sum.split)

text \<open>A request that was accepted is shown as refused when the state cannot be read after it.\<close>

lemma accepted_but_put_back: "fst (autostart_changed tr iid on (Inr (True, m)) (Some e)) = (\<not> on)"
  by (simp add: autostart_changed_def Let_def)

text \<open>The button of the header: the orphans are asked for again when the page is drawn.\<close>

definition detect_clicked :: "texts \<Rightarrow> jstr option option \<Rightarrow> dash_effect list" where
  "detect_clicked tr failed = [Orphans_again, Detect_instances,
     case failed of None \<Rightarrow> Message_for (said tr ''dashboard.detected'', ''success'') 2000 | Some m \<Rightarrow> Message (reply_message tr (Inl m) [])]"

subsection \<open>Deleting an instance\<close>

definition delete_title :: "texts \<Rightarrow> jstr \<Rightarrow> jstr" where
  "delete_title tr name = tr ''dashboard.deleteTitle'' [(''name'', name)]"

definition delete_question :: "texts \<Rightarrow> jstr \<Rightarrow> inst \<Rightarrow> dash_info \<Rightarrow> jstr" where
  "delete_question tr iid x d = (if isDocker x then tr ''dashboard.deleteTextDocker'' [(''container'', text_or (i_container_name x) iid)]
     else tr (if i_source x = (lit ''standalone'') then ''dashboard.deleteTextStandalone'' else ''dashboard.deleteTextService'') [(''service'', di_service d)])"

definition delete_dialog_body :: "texts \<Rightarrow> jstr \<Rightarrow> inst \<Rightarrow> dash_info \<Rightarrow> jstr option \<times> jstr option \<Rightarrow> dash_act child list" where
  "delete_dialog_body tr iid x d rows = [CNode (h ''div'' [cls ''form-stack''] [CList
     ([CNode (h ''p'' [(''style'', AStyle [(''color'', (lit ''var(--text-2)''))])] [CText (delete_question tr iid x d)])]
      @ (case fst rows of Some i \<Rightarrow> (if i \<noteq> [] then [CNode (switchRow (said tr ''dashboard.deleteImage'') (Some (tr ''dashboard.deleteImageHint'' [(''image'', i)])) (plain_switch\<lparr>so_checked := True\<rparr>))] else []) | None \<Rightarrow> [])
      @ (case snd rows of Some p \<Rightarrow> (if p \<noteq> [] then [CNode (switchRow (said tr ''dashboard.deleteConfig'') (Some (tr ''dashboard.deleteConfigHint'' [(''path'', p)])) plain_switch)] else []) | None \<Rightarrow> [])
      @ [CNode (callout (plain_callout\<lparr>co_type := ''danger'', co_compact := True, co_text := CText (said tr ''dashboard.deleteWarning'')\<rparr>))])])]"

definition delete_dialog_foot :: "texts \<Rightarrow> dash_act child list" where
  "delete_dialog_foot tr = [CNode (button (said tr ''common.cancel'') (plain_btn\<lparr>bo_click := Some Cancel_dialog, bo_rest := [(''autofocus'', ABool True)]\<rparr>)),
     CNode (button (said tr ''common.delete'') (plain_btn\<lparr>bo_variant := ''danger'', bo_icon := ''trash'', bo_click := Some Delete_confirmed\<rparr>))]"

text \<open>What a container can be deleted with is asked first: \<open>Inl\<close> the answer that stops there, \<open>Inr\<close> the image and the
  configuration. \<open>chosen\<close> is the answer of the dialog: the two switches, if it was confirmed.\<close>

definition deleteInstance :: "texts \<Rightarrow> jstr \<Rightarrow> jstr \<Rightarrow> inst \<Rightarrow> dash_info \<Rightarrow> reply + jstr option \<times> jstr option \<Rightarrow> (bool \<times> bool) option \<Rightarrow> reply \<Rightarrow> dash_effect list" where
  "deleteInstance tr name iid x d info chosen r =
     (let asked = (if isDocker x then [Ask_delete_info iid] else []);
          rows = (case info of Inl e \<Rightarrow> delete_rows x d None | Inr ic \<Rightarrow> delete_rows x d (Some ic))
      in case rows of
          None \<Rightarrow> asked @ (case info of Inl e \<Rightarrow> [Message (reply_message tr e [])] | Inr ic \<Rightarrow> [])
        | Some ic \<Rightarrow> (case chosen of None \<Rightarrow> asked
            | Some (image_on, config_on) \<Rightarrow> asked @ [Delete_request iid (delete_body ic image_on config_on),
                 Message (reply_message tr r (tr ''dashboard.deleted'' [(''name'', name)]))]
               @ (if reply_ok r then [Redraw, Load_nicknames] else []) @ [Detect_instances]))"

text \<open>Nothing is deleted that was not confirmed, nor before the server said what goes with a container.\<close>

lemma deleted_only_confirmed:
  assumes "Delete_request i b \<in> set (deleteInstance tr name iid x d info chosen r)"
  shows "i = iid \<and> chosen \<noteq> None \<and> (isDocker x \<longrightarrow> (\<exists>ic. info = Inr ic))"
  using assms by (auto simp: deleteInstance_def delete_rows_def Let_def split: if_splits sum.splits option.splits)

subsection \<open>Creating a service again\<close>

definition reinstall_texts :: "texts \<Rightarrow> bool \<Rightarrow> jstr \<Rightarrow> jstr \<times> jstr \<times> jstr" where
  "reinstall_texts tr standalone ty = (tr ''dashboard.reinstallTitle'' [(''type'', ty)],
     tr (if standalone then ''dashboard.reinstallTextStandalone'' else ''dashboard.reinstallText'') [(''type'', ty)], tr ''dashboard.reinstall'' [(''type'', ty)])"

definition log_terminal :: "texts \<Rightarrow> jstr list \<Rightarrow> dash_act node" where
  "log_terminal tr lines = h ''pre'' [cls ''term'', (''data-empty'', AText (said tr ''updates.logEmpty'')), s_attr ''aria-live'' ''polite'']
     [CList (map (\<lambda>(c, t). CNode (h ''span'' [(''class'', AText c)] [CText t])) (renderLog lines))]"

definition reinstall_foot :: "texts \<Rightarrow> dash_act child list" where
  "reinstall_foot tr = [CNode (button (said tr ''common.close'') (plain_btn\<lparr>bo_click := Some Cancel_dialog\<rparr>))]"

text \<open>\<open>rs\<close> are the answers of the log in turn.\<close>

definition reinstall :: "texts \<Rightarrow> jstr \<Rightarrow> bool \<Rightarrow> reply \<Rightarrow> (bool \<times> bool) option list \<Rightarrow> dash_effect list" where
  "reinstall tr ty confirmed r rs = (if \<not> confirmed then []
     else Reinstall_request ty # (if \<not> reply_ok r then [Message (reply_message tr r [])]
       else Open_log # (case reinstall_log rs of None \<Rightarrow> []
         | Some success \<Rightarrow> [Message (tr (if success then ''dashboard.reinstalled'' else ''updates.installFailed'') [(''type'', ty)], if success then ''success'' else ''error''),
             Detect_instances])))"

subsection \<open>A new instance\<close>

definition new_example :: "texts \<Rightarrow> jstr" where
  "new_example tr = said tr ''dashboard.new.namePlaceholder''"

definition name_input :: "texts \<Rightarrow> jstr \<Rightarrow> dash_act node" where
  "name_input tr typed = add_listener ''input'' New_name_changed (put_prop ''value'' (AText typed)
     (input [(''mono'', ABool True), (''maxLength'', ANum (lit ''32'')), s_attr ''autocomplete'' ''off'', (''spellcheck'', ABool False),
        (''autofocus'', ABool True), (''placeholder'', AText (new_example tr))]))"

text \<open>The files that would be made, shown for a name that is accepted.\<close>

definition preview_node :: "(jstr \<Rightarrow> jstr) \<Rightarrow> texts \<Rightarrow> bool \<Rightarrow> new_form \<Rightarrow> dash_act node" where
  "preview_node low tr standalone F =
     (let shown = new_preview low (said_j tr) F; iid = (case shown of Some i \<Rightarrow> i | None \<Rightarrow> [])
      in put_text (tr (if standalone then ''dashboard.new.previewStandalone'' else ''dashboard.new.preview'')
            [(''id'', iid), (''path'', (lit ''/etc/frp/'') @ iid @ (lit ''.toml'')), (''service'', iid @ (lit ''.service''))])
          (hide (shown = None) (h ''p'' [cls ''field-hint'', s_attr ''aria-live'' ''polite''] [])))"

definition copy_select :: "texts \<Rightarrow> store \<Rightarrow> jstr list \<Rightarrow> new_form \<Rightarrow> dash_act node" where
  "copy_select tr S sources F = add_listener ''change'' New_copy_changed
     (select (([], said tr ''dashboard.new.copyNone'') # map (\<lambda>i. (i, tr ''dashboard.new.copyFrom'' [(''name'', displayName S i)])) sources) (Some (nf_copy F)) [])"

definition copy_hint :: "texts \<Rightarrow> new_form \<Rightarrow> jstr" where
  "copy_hint tr F = said_j tr ((if nf_copy F \<noteq> [] then (lit ''dashboard.new.copyHint.'') else (lit ''dashboard.new.defaultHint.'')) @ nf_type F)"

definition new_types :: "texts \<Rightarrow> jstr \<Rightarrow> dash_act node" where
  "new_types tr ty = segmented (map (\<lambda>v. (lit v, said tr (''instance.type.'' @ v), if v = ''frps'' then ''server'' else ''laptop'')) [''frpc'', ''frps''])
     ty New_type_picked (Some (said tr ''dashboard.new.type''))"

definition new_error_text :: "texts \<Rightarrow> new_error \<Rightarrow> jstr" where
  "new_error_text tr e = (case e of Name_invalid \<Rightarrow> tr ''dashboard.new.nameInvalid'' [] | Name_other_type other \<Rightarrow> tr ''dashboard.new.nameOtherType'' [(''other'', other)])"

text \<open>The form: what is typed, the error of the name since it was last changed, and what the server refused.\<close>

definition new_instance_form :: "(jstr \<Rightarrow> jstr) \<Rightarrow> texts \<Rightarrow> store \<Rightarrow> jstr list \<Rightarrow> new_form \<Rightarrow> new_error option \<Rightarrow> jstr option \<Rightarrow> nat \<Rightarrow> dash_act node \<times> nat" where
  "new_instance_form low tr S sources F err refused seq =
     (let (nameF, s1) = field (said tr) ((plain_field (said tr ''dashboard.new.name''))\<lparr>fo_hint := Some (said tr ''dashboard.new.nameHint'')\<rparr>) (name_input tr (nf_name F)) seq;
          (copyF, s2) = field (said tr) (plain_field (said tr ''dashboard.new.copy'')) (copy_select tr S sources F) s1;
          nameF' = (case err of None \<Rightarrow> nameF | Some e \<Rightarrow> setFieldError (\<lambda>n. node_tag n = ''input'') (new_error_text tr e) nameF)
      in (h ''form'' [s_attr ''id'' ''new-instance-form'', cls ''form-stack'', (''onSubmit'', AFun New_submitted), (''novalidate'', ABool True)]
         [CNode (h ''div'' [cls ''field''] [CNode (h ''span'' [cls ''field-label''] [CText (said tr ''dashboard.new.type'')]), CNode (new_types tr (nf_type F))]),
          CNode (h ''div'' [] [CNode nameF', CNode (preview_node low tr (st_standalone S) F)]),
          CNode (h ''div'' [] [CNode copyF, CNode (put_text (copy_hint tr F) (h ''p'' [cls ''field-hint''] []))]),
          CNode (h ''div'' [] [CNode (callout (plain_callout\<lparr>co_type := ''neutral'', co_compact := True,
            co_text := CText (tr (if st_standalone S then ''dashboard.new.manualStandalone'' else ''dashboard.new.manual'') [(''type'', nf_type F)])\<rparr>))]),
          CNode (hide (refused = None) (h ''div'' [] (case refused of None \<Rightarrow> []
            | Some m \<Rightarrow> [CNode (callout (plain_callout\<lparr>co_type := ''danger'', co_compact := True, co_text := CText (text_or m (said tr ''errors.generic''))\<rparr>))])))], s2))"

definition new_instance_foot :: "texts \<Rightarrow> dash_act child list" where
  "new_instance_foot tr = [CNode (button (said tr ''common.cancel'') (plain_btn\<lparr>bo_click := Some Cancel_dialog\<rparr>)),
     CNode (button (said tr ''dashboard.new.create'') (plain_btn\<lparr>bo_variant := ''primary'', bo_type := ''submit'', bo_icon := ''plus'',
       bo_rest := [s_attr ''form'' ''new-instance-form'']\<rparr>))]"

text \<open>Sending the form: the effects, and whether the dialog is closed. \<open>new_id\<close> is the instance the server made.\<close>

definition create_instance :: "(jstr \<Rightarrow> jstr) \<Rightarrow> texts \<Rightarrow> new_form \<Rightarrow> jstr option + bool \<times> jstr option \<times> jstr \<Rightarrow> dash_effect list \<times> bool" where
  "create_instance low tr F r = (case submit_new low F of Inl e \<Rightarrow> ([], False)
     | Inr body \<Rightarrow> (case r of
         Inl m \<Rightarrow> ([Create_request body, Message (reply_message tr (Inl m) [])], False)
       | Inr (False, m, new_id) \<Rightarrow> ([Create_request body], False)
       | Inr (True, m, new_id) \<Rightarrow> ([Create_request body, Message_for (or_text m (tr ''dashboard.new.created'' [(''id'', new_id)]), ''success'') 6000,
           Orphans_again, Detect_instances], True)))"

subsection \<open>Configurations without a service\<close>

definition service_file :: "jstr \<Rightarrow> jstr" where
  "service_file iid = iid @ (lit ''.service'')"

definition orphan_node :: "texts \<Rightarrow> orphan \<Rightarrow> dash_act node" where
  "orphan_node tr orp = callout (plain_callout\<lparr>co_type := ''warn'', co_icon := ''config'',
     co_title := Some (tr ''dashboard.orphan.title'' [(''path'', or_config_path orp)]), co_text := CText (tr ''dashboard.orphan.text'' [(''service'', service_file (or_id orp))]),
     co_actions := [CNode (button (said tr ''dashboard.orphan.adopt'') (plain_btn\<lparr>bo_size := ''sm'', bo_variant := ''primary'', bo_icon := ''plus'', bo_click := Some (Adopt (or_id orp))\<rparr>))]\<rparr>)"

definition orphans_box :: "texts \<Rightarrow> orphan list \<Rightarrow> dash_act node" where
  "orphans_box tr os = hide (os = []) (h ''div'' [cls ''form-stack'', (''hidden'', ABool True)] [CList (map (\<lambda>x. CNode (orphan_node tr x)) os)])"

definition adopt_body_nodes :: "texts \<Rightarrow> orphan \<Rightarrow> dash_act child list" where
  "adopt_body_nodes tr orp = [CNode (h ''div'' [cls ''form-stack''] [CList
     ([CNode (h ''p'' [(''style'', AStyle [(''color'', (lit ''var(--text-2)''))])]
         [CText (tr ''dashboard.orphan.adoptText'' [(''service'', service_file (or_id orp)), (''path'', or_config_path orp), (''type'', or_type orp)])])]
      @ (if or_conflicts orp \<noteq> [] then [CNode (callout (plain_callout\<lparr>co_type := ''warn'', co_title := Some (said tr ''dashboard.orphan.conflicts''),
           co_text := CNode (h ''ul'' [cls ''admin-steps''] [CList (map (\<lambda>c. CNode (h ''li'' [] [CText c])) (or_conflicts orp))])\<rparr>))] else [])
      @ (if adopt_fix_offered orp then [CNode (switchRow (said tr ''dashboard.orphan.fix'') (Some (said tr ''dashboard.orphan.fixHint'')) plain_switch)] else []))])]"

definition adopt_foot :: "texts \<Rightarrow> dash_act child list" where
  "adopt_foot tr = [CNode (button (said tr ''common.cancel'') (plain_btn\<lparr>bo_click := Some Cancel_dialog\<rparr>)),
     CNode (button (said tr ''dashboard.orphan.adopt'') (plain_btn\<lparr>bo_variant := ''primary'', bo_icon := ''plus'', bo_click := Some Adopt_confirmed,
       bo_rest := [(''autofocus'', ABool True)]\<rparr>))]"

definition adopt :: "texts \<Rightarrow> orphan \<Rightarrow> bool option \<Rightarrow> reply \<Rightarrow> dash_effect list" where
  "adopt tr orp chosen r = (case chosen of None \<Rightarrow> []
     | Some fix_on \<Rightarrow> [Adopt_request (adopt_body orp fix_on), Message (reply_message tr r (tr ''dashboard.orphan.adopted'' [(''service'', service_file (or_id orp))]))]
         @ (if reply_ok r then [Orphans_again, Detect_instances] else []))"

text \<open>The file is repaired only where the repair was offered and asked for.\<close>

lemma repaired_only_asked: "Adopt_request (p, True) \<in> set (adopt tr orp chosen r) \<Longrightarrow> chosen = Some True \<and> or_conflicts orp \<noteq> [] \<and> or_fixable orp"
  by (auto simp: adopt_def adopt_body_def adopt_fix_offered_def split: option.splits if_splits)

subsection \<open>Renaming\<close>

text \<open>\<open>value\<close> is the answer of the dialog: the text, without spaces around it.\<close>

definition rename_dialog :: "texts \<Rightarrow> store \<Rightarrow> jstr \<Rightarrow> (jstr \<times> jstr \<times> jstr \<times> jstr \<times> jstr \<times> jstr)" where
  "rename_dialog tr S iid = (said tr ''dashboard.renameTitle'', said tr ''dashboard.renameLabel'', tr ''dashboard.renameHint'' [(''id'', iid)],
     nickname S iid, said tr ''dashboard.renamePlaceholder'', (lit ''64''))"

definition rename :: "texts \<Rightarrow> jstr \<Rightarrow> jstr option \<Rightarrow> reply \<Rightarrow> dash_effect list" where
  "rename tr iid value r = (case value of None \<Rightarrow> []
     | Some v \<Rightarrow> [Nickname_request iid v, Message (reply_message tr r (said tr ''dashboard.renamed''))] @ (if reply_ok r then [Load_nicknames, Redraw] else []))"

end
