(* ===== verification/View_Firewall.thy ===== *)
theory View_Firewall imports Page_Firewall_Rules Page_Firewall_Feed View_Base begin

text \<open>
  What the firewall page shows (\<open>pages/firewall.js\<close>): the screens, the state and the address of the visitor, the
  rules, the ports, the test of an address and the connections that were blocked, as element trees whose listeners
  are the actions of the page (\<open>fw_act\<close>). What only the views read of the answers of the server is \<open>fw_data\<close>.
\<close>

datatype fw_act = Fw_dashboard | Install_nft | Frps_chosen | Discard_rules | Apply_rules | Open_catalog | Add_rule | All_switched
  | Rule_switched nat | Click_kept | Open_rule nat | Rule_key nat | Publish_rule "nat option" | Remove_rule nat | Test_submitted | Quick_of "jstr \<times> (nat \<times> jstr) option"
  | Quick_address jstr | Quick_operator nat jstr | Fw_cancel | Show_list nat | Subscribe_to nat | Refresh_catalog | Chip_added nat | Publish_submitted
  | Mode_picked jstr | Open_issue | Copy_json | Scope_picked jstr | Port_added nat | My_address | Rule_frps_changed | Unsubscribe | Rule_submitted

record port_info =
  pi_port :: fport
  pi_proto :: jstr
  pi_label :: jstr
  pi_proxy :: bool
  pi_online :: bool

record port_verdict =
  pv_port :: fport
  pv_label :: jstr
  pv_blocked_by :: "jstr list"

text \<open>\<open>fd_asns\<close>: the holder and the number of networks of an operator.\<close>

record fw_data =
  fd_active :: bool
  fd_ports :: "port_info list"
  fd_verdicts :: "port_verdict list"
  fd_counters :: "(jstr \<times> nat) list"
  fd_lists :: "(jstr \<times> flist_info) list"
  fd_catalog :: "flist list option"
  fd_asns :: "(nat \<times> jstr \<times> nat) list"
  fd_panel_port :: jstr
  fd_nft :: jstr

subsection \<open>Screens\<close>

definition empty_rules_actions :: "texts \<Rightarrow> bool \<Rightarrow> fw_act child list" where
  "empty_rules_actions tr can_manage = (if can_manage then [CNode (button (said tr ''firewall.addRule'')
     (plain_btn\<lparr>bo_variant := ''primary'', bo_icon := ''plus'', bo_click := Some Add_rule\<rparr>))] else [])"

definition nft_notice :: "texts \<Rightarrow> string \<Rightarrow> string \<Rightarrow> string \<Rightarrow> string \<Rightarrow> jstr \<Rightarrow> fw_act child list \<Rightarrow> fw_act node" where
  "nft_notice tr ty ic title text detail acts = callout (plain_callout\<lparr>co_type := ty, co_icon := ic, co_title := Some (said tr title),
     co_text := CText (tr text [(''detail'', detail)]), co_actions := acts\<rparr>)"

text \<open>What is shown instead of the rules; \<open>None\<close> when they are.\<close>

definition screen_node :: "texts \<Rightarrow> bool \<Rightarrow> jstr \<Rightarrow> fscreen \<Rightarrow> fw_act node option" where
  "screen_node tr can_manage nft s =
     (let install = (if can_manage then [CNode (button (said tr ''firewall.installNft'')
            (plain_btn\<lparr>bo_variant := ''primary'', bo_icon := ''download'', bo_click := Some Install_nft\<rparr>))] else [])
      in case s of
        NoFrps \<Rightarrow> Some (h ''div'' [cls ''card''] [CNode (emptyState ''shield'' (said tr ''firewall.noFrpsTitle'') (Some (said tr ''firewall.noFrpsText''))
          [CNode (button (said tr ''nav.dashboard'') (plain_btn\<lparr>bo_click := Some Fw_dashboard\<rparr>))])])
      | NoNetfilter \<Rightarrow> Some (nft_notice tr ''warn'' ''shield'' ''firewall.noNetfilterTitle'' ''firewall.noNetfilterText'' nft [])
      | NoNftStandalone \<Rightarrow> Some (nft_notice tr ''warn'' ''box'' ''firewall.noNftTitleStandalone'' ''firewall.noNftTextStandalone'' nft [])
      | NoNftDocker \<Rightarrow> Some (nft_notice tr ''danger'' [] ''firewall.noNftTitle'' ''firewall.noNftTextDocker'' nft install)
      | NoNft \<Rightarrow> Some (nft_notice tr ''danger'' [] ''firewall.noNftTitle'' ''firewall.noNftText'' nft install)
      | Rules \<Rightarrow> None)"

text \<open>The choice of the frps, when there are several; \<open>name_of\<close> is the name of an instance.\<close>

definition frpsPicker :: "texts \<Rightarrow> (jstr \<Rightarrow> jstr) \<Rightarrow> fpage \<Rightarrow> fw_act child list" where
  "frpsPicker tr name_of S = (if length (d_frps S) < 2 then []
     else [CNode (add_listener ''change'' Frps_chosen (select (map (\<lambda>i. (i, name_of i)) (d_frps S)) (Some (fw_frps S))
       [cls ''select select-inline'', (''aria-label'', AText (said tr ''firewall.frpsLabel''))]))])"

text \<open>Another frps: the state, what is remembered, and the frps of the address.\<close>

definition choose_frps :: "jstr \<Rightarrow> fpage \<Rightarrow> fpage \<times> jstr \<times> jstr" where
  "choose_frps v S = (S\<lparr>fw_frps := v\<rparr>, v, v)"

subsection \<open>State\<close>

text \<open>The long dash between spaces.\<close>

definition spaced_dash :: jstr where
  "spaced_dash = [c_sp, 8212, c_sp]"

definition state_node :: "texts \<Rightarrow> fstate \<Rightarrow> fw_act node" where
  "state_node tr s = (case s of
     Pending \<Rightarrow> badge (said tr ''firewall.state.pending'') ''warn'' []
   | On n \<Rightarrow> badge (tr ''firewall.state.on'' [(''count'', digits n)]) ''success'' []
   | Idle \<Rightarrow> badge (said tr ''firewall.state.idle'') ''info'' []
   | Off \<Rightarrow> badge (said tr ''firewall.state.off'') [] [])"

definition port_texts :: "port_verdict list \<Rightarrow> jstr" where
  "port_texts vs = join ((lit '', '')) (map (\<lambda>v. portText (pv_port v)) vs)"

definition your_address :: "texts \<Rightarrow> fw_data \<Rightarrow> fpage \<Rightarrow> fw_act child list" where
  "your_address tr D S = (if d_client_ip S = [] then []
     else (let blocked = filter (\<lambda>v. pv_blocked_by v \<noteq> [] \<and> ofFrps S (fp_frps (pv_port v))) (fd_verdicts D)
       in [CNode (h ''p'' [cls ''fw-you'']
         [CNode (icon ''globe'' []), CText (said tr ''firewall.yourIp''), CText [c_sp], CNode (h ''span'' [cls ''mono''] [CText (d_client_ip S)]),
          CNode (if blocked \<noteq> []
            then h ''span'' [cls ''fw-you-warn''] [CText spaced_dash, CText (tr ''firewall.youBlocked'' [(''ports'', port_texts blocked)])]
            else h ''span'' [cls ''muted''] [CText spaced_dash, CText (said tr ''firewall.youFree'')])])]))"

definition renderStatus :: "texts \<Rightarrow> bool \<Rightarrow> fw_data \<Rightarrow> fpage \<Rightarrow> fw_act node" where
  "renderStatus tr can_manage D S = h ''div'' [cls ''card'']
     [CNode (h ''div'' [cls ''card-head'']
        [CNode (h ''h2'' [cls ''card-title''] [CNode (icon ''shield'' []), CText (said tr ''firewall.statusTitle'')]),
         CNode (state_node tr (status_badge can_manage (fd_active D) S))]),
      CNode (h ''div'' [cls ''card-body form-stack'']
        (CNode (switchRow (said tr ''firewall.enable'') (Some (said tr (if fw_enabled S then ''firewall.enableHintOn'' else ''firewall.enableHint'')))
           (plain_switch\<lparr>so_checked := fw_enabled S, so_change := Some All_switched\<rparr>)) # your_address tr D S))]"

subsection \<open>Rules\<close>

definition listText :: "texts \<Rightarrow> fw_data \<Rightarrow> jstr \<Rightarrow> jstr" where
  "listText tr D i = (case listInfo (map_of (fd_lists D)) (fd_catalog D) i of
     Some x \<Rightarrow> tr ''firewall.lists.tag'' [(''name'', i_name x), (''count'', digits (i_count x))]
   | None \<Rightarrow> tr ''firewall.lists.unknown'' [(''id'', i)])"

definition sourceTitle :: "texts \<Rightarrow> fw_data \<Rightarrow> source \<Rightarrow> jstr" where
  "sourceTitle tr D src = (case so_addr src of
     Cidr c \<Rightarrow> (if so_note src \<noteq> [] then c @ spaced_dash @ so_note src else c)
   | Asn n \<Rightarrow> (lit ''AS'') @ digits n @ spaced_dash
       @ (case map_of (fd_asns D) n of
            Some (holder, count) \<Rightarrow> tr ''firewall.asInfo'' [(''holder'', or_text (Some holder) ((lit ''?''))), (''count'', digits count)]
          | None \<Rightarrow> said tr ''firewall.asPending'')
       @ (if so_note src \<noteq> [] then (lit '' ('') @ so_note src @ (lit '')'') else []))"

definition row_name :: "frow \<Rightarrow> string" where
  "row_name s = (case s of NewRule \<Rightarrow> ''new'' | SameRule \<Rightarrow> [] | ChangedRule \<Rightarrow> ''changed'')"

definition rule_badges :: "texts \<Rightarrow> fpage \<Rightarrow> frule \<Rightarrow> fw_act child list" where
  "rule_badges tr S r =
     [CNode (badge (said_j tr ((lit ''firewall.mode.'') @ r_mode r)) (if r_mode r = (lit ''allow'') then ''success'' else ''danger'') []),
      if orphan S (frps_text (r_frps r))
      then (let text = tr ''firewall.orphanBadge'' [(''frps'', frps_text (r_frps r))]
        in CNode (badge text ''warn'' [cls ''badge badge-warn fw-orphan'', (''title'', AText (text @ [c_nl] @ said tr ''firewall.orphanHint''))]))
      else CNull]"

definition rule_ports_node :: "texts \<Rightarrow> fpage \<Rightarrow> frule \<Rightarrow> fw_act node" where
  "rule_ports_node tr S r = h ''span'' [] [CNode (h ''small'' [] [CText (said tr ''firewall.portsLabel'')]),
     CNode (if r_ports r \<noteq> (lit ''*'') then h ''span'' [cls ''mono''] [CText (r_ports r)]
       else if length (d_frps S) > 1 \<and> frps_text (r_frps r) = []
         then h ''span'' [(''title'', AText (said tr ''firewall.allFrpsHint''))] [CText (said tr ''firewall.allFrpsPorts'')]
       else h ''span'' [] [CText (said tr ''firewall.allPorts'')])]"

definition rule_sources_node :: "texts \<Rightarrow> fw_data \<Rightarrow> frule \<Rightarrow> fw_act node" where
  "rule_sources_node tr D r =
     (let lst = frps_text (r_list r)
      in h ''span'' [] [CNode (h ''small'' [] [CText (said tr ''firewall.sourcesLabel'')]),
        CNode (h ''span'' [(''title'', AText (join [c_nl] (truthy ((if lst \<noteq> [] then [listText tr D lst] else []) @ map (sourceTitle tr D) (r_sources r)))))]
          [if lst \<noteq> [] then CNode (h ''span'' [cls ''fw-list-tag''] [CNode (icon ''globe'' []), CText (listText tr D lst)]) else CNull,
           if lst \<noteq> [] \<and> r_sources r \<noteq> [] then CText (lit '' + '') else CNull,
           if r_sources r \<noteq> [] then CText (row_sources r) else if lst \<noteq> [] then CNull else CText (said tr ''firewall.noSource'')])])"

text \<open>How many were blocked: only for a rule that is applied as it is shown.\<close>

definition counted :: "fpage \<Rightarrow> frule \<Rightarrow> bool" where
  "counted S r \<longleftrightarrow> rule_state S r = SameRule \<and> r_enabled r"

definition rule_count_node :: "texts \<Rightarrow> fw_data \<Rightarrow> fpage \<Rightarrow> frule \<Rightarrow> fw_act node" where
  "rule_count_node tr D S r = h ''div''
     [cls ''fw-count'', (''title'', AText (said tr ''firewall.countHint'')), (''dataset'', AData [(''rule'', if counted S r then r_id r else [])])]
     [CText (case map_of (fd_counters D) (r_id r) of
        Some n \<Rightarrow> (if counted S r then tr ''firewall.blockedCount'' [(''count'', digits n)] else []) | None \<Rightarrow> [])]"

definition rule_switch :: "texts \<Rightarrow> bool \<Rightarrow> nat \<Rightarrow> frule \<Rightarrow> fw_act node" where
  "rule_switch tr can_manage i r = add_listener ''click'' Click_kept (switchControl (plain_switch\<lparr>so_checked := r_enabled r,
     so_label := Some (said tr ''firewall.ruleEnabled''), so_disabled := \<not> can_manage, so_change := Some (Rule_switched i)\<rparr>))"

definition rule_actions :: "texts \<Rightarrow> bool \<Rightarrow> nat \<Rightarrow> frule \<Rightarrow> fw_act child list" where
  "rule_actions tr can_manage i r =
     [CNode (rule_switch tr can_manage i r),
      if r_sources r \<noteq> [] then CNode (button [] (plain_btn\<lparr>bo_variant := ''ghost'', bo_size := ''sm'', bo_icon := ''upload'',
        bo_title := Some (said tr ''firewall.publish.action''), bo_click := Some (Publish_rule (Some i))\<rparr>)) else CNull,
      CNode (button [] (plain_btn\<lparr>bo_variant := ''ghost'', bo_size := ''sm'', bo_icon := ''edit'', bo_title := Some (said tr ''common.edit''), bo_click := Some (Open_rule i)\<rparr>)),
      CNode (button [] (plain_btn\<lparr>bo_variant := ''ghost-danger'', bo_size := ''sm'', bo_icon := ''trash'', bo_title := Some (said tr ''common.delete''), bo_click := Some (Remove_rule i)\<rparr>))]"

text \<open>\<open>i\<close> is the place of the rule among all of them. Opening does nothing for an account that may not change rules.\<close>

definition rule_row :: "texts \<Rightarrow> bool \<Rightarrow> fw_data \<Rightarrow> fpage \<Rightarrow> nat \<Rightarrow> frule \<Rightarrow> fw_act node" where
  "rule_row tr can_manage D S i r = (let state = row_name (rule_state S r) in h ''li''
     [cls (''row fw-row'' @ (if state = [] then [] else '' is-'' @ state) @ (if r_enabled r then [] else '' is-off'')),
      (''dataset'', AData [(''state'', if state = [] then [] else said tr (''common.state.'' @ state))]),
      s_attr ''tabindex'' ''0'', (''onClick'', AFun (Open_rule i)), (''onKeydown'', AFun (Rule_key i))]
     [CNode (h ''div'' [cls ''row-name''] (CNode (h ''span'' [] [CText (ruleTitle (said tr) r)]) # rule_badges tr S r)),
      CNode (h ''div'' [cls ''fw-detail''] [CNode (rule_ports_node tr S r), CNode (rule_sources_node tr D r)]),
      CNode (rule_count_node tr D S r), CNode (h ''div'' [cls ''row-actions''] (rule_actions tr can_manage i r))])"

definition shown_rules :: "fpage \<Rightarrow> (nat \<times> frule) list" where
  "shown_rules S = filter (\<lambda>(i, r). shownRule S r) (zip [0..<length (fw_rules S)] (fw_rules S))"

definition renderRules :: "texts \<Rightarrow> bool \<Rightarrow> fw_data \<Rightarrow> fpage \<Rightarrow> fw_act node" where
  "renderRules tr can_manage D S = (if shown_rules S = []
     then emptyState ''shield'' (said tr ''firewall.emptyTitle'') (Some (said tr ''firewall.emptyText'')) (empty_rules_actions tr can_manage)
     else h ''ul'' [cls ''rows''] [CList (map (\<lambda>(i, r). CNode (rule_row tr can_manage D S i r)) (shown_rules S))])"

definition open_rule :: "bool \<Rightarrow> nat \<Rightarrow> nat option" where
  "open_rule can_manage i = (if can_manage then Some i else None)"

text \<open>New counters: the texts of the rules that have one change, nothing else is drawn again.\<close>

fun map_tree :: "('e node \<Rightarrow> 'e node) \<Rightarrow> 'e node list \<Rightarrow> 'e node list" where
  "map_tree f [] = []"
| "map_tree f (Txt_node t # r) = Txt_node t # map_tree f r"
| "map_tree f (Elem i cs # r) = f (Elem i (map_tree f cs)) # map_tree f r"

definition count_text :: "texts \<Rightarrow> (jstr \<times> nat) list \<Rightarrow> 'e node \<Rightarrow> 'e node" where
  "count_text tr counters n = (if \<not> has_class ''fw-count'' n then n else case node_attr ''data-rule'' n of
     None \<Rightarrow> n | Some rid \<Rightarrow> (case map_of counters rid of
         None \<Rightarrow> n | Some k \<Rightarrow> if rid = [] then n else put_text (tr ''firewall.blockedCount'' [(''count'', digits k)]) n))"

definition updateCounts :: "texts \<Rightarrow> (jstr \<times> nat) list \<Rightarrow> fw_data \<Rightarrow> fw_act node list \<Rightarrow> fw_data \<times> fw_act node list" where
  "updateCounts tr counters D shown = (D\<lparr>fd_counters := counters\<rparr>, map_tree (count_text tr counters) shown)"

subsection \<open>Ports\<close>

definition port_row :: "texts \<Rightarrow> fpage \<Rightarrow> port_info \<Rightarrow> fw_act node" where
  "port_row tr S p = (let rules = port_rules S (pi_port p) in h ''tr'' []
     [CNode (h ''td'' [cls ''mono''] [CText (portText (pi_port p)),
        if pi_proto p \<noteq> (lit ''any'') then CNode (h ''span'' [cls ''muted''] [CText ((lit '' /'') @ pi_proto p)]) else CNull]),
      CNode (h ''td'' [] [CText (pi_label p),
        if pi_proxy p then CNode (badge (said tr (if pi_online p then ''firewall.online'' else ''firewall.offline'')) (if pi_online p then ''success'' else [])
          [(''style'', AStyle [(''marginLeft'', (lit ''8px''))])]) else CNull]),
      CNode (h ''td'' [] [CNode (if rules \<noteq> []
        then h ''span'' [cls ''fw-filtered''] [CNode (icon ''shield'' []), CText (join ((lit '', '')) (map (ruleTitle (said tr)) rules))]
        else h ''span'' [cls ''muted''] [CText (said tr ''firewall.openToAll'')])])])"

definition table_of :: "texts \<Rightarrow> string list \<Rightarrow> fw_act child list \<Rightarrow> fw_act child list \<Rightarrow> fw_act node" where
  "table_of tr cols last_col rows = h ''div'' [cls ''fw-table-wrap''] [CNode (h ''table'' [cls ''fw-table'']
     [CNode (h ''thead'' [] [CNode (h ''tr'' [] (map (\<lambda>c. CNode (h ''th'' [] [CText (said tr (''firewall.col.'' @ c))])) cols @ last_col))]),
      CNode (h ''tbody'' [] [CList rows])])]"

definition renderPorts :: "texts \<Rightarrow> fw_data \<Rightarrow> fpage \<Rightarrow> fw_act node" where
  "renderPorts tr D S = (let ports = filter (\<lambda>p. ofFrps S (fp_frps (pi_port p))) (fd_ports D)
     in if ports = [] then h ''p'' [cls ''muted'', (''style'', AStyle [(''padding'', (lit ''16px 20px''))])] [CText (said tr ''firewall.noPorts'')]
        else table_of tr [''port'', ''use'', ''access''] [] (map (\<lambda>p. CNode (port_row tr S p)) ports))"

subsection \<open>Testing an address\<close>

text \<open>What is sent: the address, and the rules of the draft when the firewall is on.\<close>

definition test_request :: "jstr \<Rightarrow> fpage \<Rightarrow> jstr \<times> frule list" where
  "test_request typed S = (trim typed, if fw_enabled S then fw_rules S else [])"

definition verdict_row :: "texts \<Rightarrow> port_verdict \<Rightarrow> fw_act node" where
  "verdict_row tr v = h ''li'' []
     [CNode (h ''span'' [cls (if pv_blocked_by v \<noteq> [] then ''fw-dot is-blocked'' else ''fw-dot is-ok'')] []),
      CNode (h ''span'' [cls ''mono''] [CText (portText (pv_port v))]), CText [c_sp], CNode (h ''span'' [cls ''muted''] [CText (pv_label v)]), CText spaced_dash,
      CText (if pv_blocked_by v \<noteq> [] then tr ''firewall.testBlocked'' [(''rules'', join ((lit '', '')) (pv_blocked_by v))] else said tr ''firewall.testOk'')]"

definition verdicts_node :: "texts \<Rightarrow> fpage \<Rightarrow> port_verdict list \<Rightarrow> fw_act node" where
  "verdicts_node tr S vs = h ''ul'' [cls ''fw-verdicts''] [CList (map (\<lambda>v. CNode (verdict_row tr v)) (filter (\<lambda>v. ofFrps S (fp_frps (pv_port v))) vs))]"

text \<open>\<open>out\<close> is what the last test gave.\<close>

definition testSection :: "texts \<Rightarrow> fpage \<Rightarrow> fw_act node list \<Rightarrow> fw_act node" where
  "testSection tr S out = card_box (plain_card\<lparr>ca_title := Some (said tr ''firewall.testTitle''), ca_description := Some (said tr ''firewall.testDesc''),
     ca_body := CNode (h ''div'' [cls ''form-stack'']
       [CNode (h ''form'' [s_attr ''id'' ''fw-test'', cls ''fw-test-form'', (''onSubmit'', AFun Test_submitted)]
          [CNode (input [(''value'', AText (d_client_ip S)), s_attr ''placeholder'' ''203.0.113.4'', (''mono'', ABool True), (''aria-label'', AText (said tr ''firewall.testLabel''))]),
           CNode (button (said tr ''firewall.test'') (plain_btn\<lparr>bo_type := ''submit'', bo_rest := [s_attr ''form'' ''fw-test'']\<rparr>))]),
        CNode (h ''div'' [cls ''fw-test-out''] (map CNode out))])\<rparr>)"

end
