(* ===== verification/View_Firewall_Dialogs.thy ===== *)
theory View_Firewall_Dialogs imports View_Firewall begin

text \<open>
  The rest of the firewall page (\<open>pages/firewall.js\<close>): the connections that were blocked, the quick block, the
  catalogue of lists, the publication of a list, the editor of a rule and the whole page. Dates are written by the
  browser (\<open>dated\<close>, from seconds); \<open>seq\<close> numbers the fields.
\<close>

subsection \<open>Connections that were blocked\<close>

record blocked =
  bl_last :: int
  bl_src :: jstr
  bl_as :: "(nat \<times> jstr) option"
  bl_port :: jstr
  bl_proto :: jstr
  bl_rule :: jstr

text \<open>The clock of the server against that of the browser, in milliseconds, and how long ago something was, rounded
  to the second.\<close>

definition skew_after :: "int option \<Rightarrow> int \<Rightarrow> int \<Rightarrow> int" where
  "skew_after now clock skew = (case now of Some n \<Rightarrow> if n = 0 then skew else 1000 * n - clock | None \<Rightarrow> skew)"

definition seconds_ago :: "int \<Rightarrow> int \<Rightarrow> int \<Rightarrow> int" where
  "seconds_ago clock skew seen = (clock + skew - 1000 * seen + 500) div 1000"

definition ago_text :: "texts \<Rightarrow> fago \<Rightarrow> jstr" where
  "ago_text tr a = (case a of Ago_s n \<Rightarrow> tr ''firewall.ago.s'' [(''n'', int_text n)] | Ago_m n \<Rightarrow> tr ''firewall.ago.m'' [(''n'', int_text n)]
     | Ago_h n \<Rightarrow> tr ''firewall.ago.h'' [(''n'', int_text n)])"

text \<open>The rule of a row, by its identifier: the last of that identifier.\<close>

definition blocking_rule :: "texts \<Rightarrow> frule list \<Rightarrow> jstr \<Rightarrow> jstr" where
  "blocking_rule tr rules rid = (case map_of (rev (map (\<lambda>r. (r_id r, ruleTitle (said tr) r)) rules)) rid of Some t \<Rightarrow> t | None \<Rightarrow> [])"

definition blocked_row :: "texts \<Rightarrow> (int \<Rightarrow> jstr) \<Rightarrow> frule list \<Rightarrow> int \<Rightarrow> int \<Rightarrow> blocked \<Rightarrow> fw_act node" where
  "blocked_row tr dated rules clock skew e = h ''tr'' []
     [CNode (h ''td'' [cls ''muted'', (''title'', AText (dated (bl_last e)))] [CText (ago_text tr (ago (seconds_ago clock skew (bl_last e))))]),
      CNode (h ''td'' [cls ''mono''] [CText (bl_src e)]),
      CNode (h ''td'' [cls ''fw-as''] (case bl_as e of
          Some (asn, holder) \<Rightarrow> [CList [CNode (h ''span'' [cls ''mono''] [CText ((lit ''AS'') @ digits asn)]), CText [c_sp], CNode (h ''span'' [cls ''muted''] [CText holder])]]
        | None \<Rightarrow> [CNode (h ''span'' [cls ''muted''] [CText [8212]])])),
      CNode (h ''td'' [cls ''mono''] [CText (bl_port e), CNode (h ''span'' [cls ''muted''] [CText ((lit '' /'') @ bl_proto e)])]),
      CNode (h ''td'' [] [let t = blocking_rule tr rules (bl_rule e) in
        if t \<noteq> [] then CText t else CNode (h ''span'' [cls ''muted''] [CText (said tr ''firewall.deletedRule'')])]),
      CNode (h ''td'' [cls ''fw-cell-menu''] [CNode (button [] (plain_btn\<lparr>bo_variant := ''ghost'', bo_size := ''sm'', bo_icon := ''shield'',
        bo_title := Some (tr ''firewall.quickTitle'' [(''ip'', bl_src e)]), bo_click := Some (Quick_of (bl_src e, bl_as e))\<rparr>))])]"

definition blocked_note :: "jstr \<Rightarrow> fw_act child list" where
  "blocked_note text = [CNode (h ''p'' [cls ''muted fw-pad''] [CText text])]"

text \<open>What the card shows for an answer (\<open>shown_for\<close>): its message, its entries and how many there are in all.\<close>

definition blocked_body :: "texts \<Rightarrow> (int \<Rightarrow> jstr) \<Rightarrow> frule list \<Rightarrow> int \<Rightarrow> int \<Rightarrow> answer \<Rightarrow> jstr \<Rightarrow> blocked list \<Rightarrow> fw_act child list" where
  "blocked_body tr dated rules clock skew d msg entries = (case shown_for d of
     ServerMessage \<Rightarrow> blocked_note msg
   | GenericError \<Rightarrow> blocked_note (said tr ''errors.generic'')
   | Unavailable \<Rightarrow> blocked_note (said tr ''firewall.blockedUnavailable'')
   | Empty \<Rightarrow> blocked_note (said tr ''firewall.blockedEmpty'')
   | Table n others \<Rightarrow> CNode (table_of tr [''last'', ''source'', ''as'', ''port'', ''rule''] [CNode (h ''th'' [(''aria-label'', AText (said tr ''common.moreActions''))] [])]
         (map (\<lambda>e. CNode (blocked_row tr dated rules clock skew e)) entries))
       # (if others then blocked_note (tr ''firewall.blockedMore'' [(''count'', digits (a_total d))]) else []))"

definition blockedSection :: "texts \<Rightarrow> bool \<Rightarrow> fw_act child list \<Rightarrow> fw_act node" where
  "blockedSection tr live body = h ''section'' []
     [CNode (h ''div'' [cls ''section-head''] [CNode (h ''div'' []
        [CNode (h ''h2'' [cls ''section-title''] [CText (said tr ''firewall.blockedTitle''), CText [c_sp],
           CNode (hide (\<not> live) (h ''span'' [cls ''badge badge-success fw-live'', (''hidden'', ABool True)]
             [CNode (h ''span'' [cls ''dot dot-pulse''] []), CText (said tr ''firewall.live'')]))]),
         CNode (h ''p'' [cls ''section-desc''] [CText (said tr ''firewall.blockedDesc'')])])]),
      CNode (h ''div'' [cls ''card''] [CNode (h ''div'' [] body)])]"

text \<open>An address to block: alone, or with all its operator.\<close>

definition quick_body :: "texts \<Rightarrow> jstr \<Rightarrow> (nat \<times> jstr) option \<Rightarrow> fw_act child list" where
  "quick_body tr ip op = [CNode (h ''div'' [cls ''form-stack fw-quick-choices'']
     [CNode (button (tr ''firewall.quickIp'' [(''ip'', ip)]) (plain_btn\<lparr>bo_icon := ''shield'', bo_click := Some (Quick_address ip)\<rparr>)),
      case op of Some (asn, holder) \<Rightarrow> CNode (button (tr ''firewall.quickAs'' [(''asn'', digits asn), (''holder'', holder)])
          (plain_btn\<lparr>bo_icon := ''shield'', bo_click := Some (Quick_operator asn holder)\<rparr>)) | None \<Rightarrow> CNull])]"

definition quick_choice :: "jstr \<Rightarrow> fw_act \<Rightarrow> source option" where
  "quick_choice ip a = (case a of
     Quick_address c \<Rightarrow> Some \<lparr>so_addr = Cidr c, so_note = [], so_note_first = True\<rparr>
   | Quick_operator n holder \<Rightarrow> Some \<lparr>so_addr = Asn n, so_note = holder, so_note_first = True\<rparr>
   | _ \<Rightarrow> None)"

definition quick_added :: "texts \<Rightarrow> source \<Rightarrow> jstr" where
  "quick_added tr src = tr ''firewall.quickAdded'' [(''what'', sourceLabel src), (''rule'', said tr ''firewall.quickRule'')]"

subsection \<open>Catalogue of lists\<close>

text \<open>What the server says of the catalogue: an error of the last time it was read, and when it was.\<close>

definition catalog_status :: "texts \<Rightarrow> (int \<Rightarrow> jstr) \<Rightarrow> jstr \<Rightarrow> int \<Rightarrow> jstr" where
  "catalog_status tr dated err fetched = (if err \<noteq> [] then tr (if fetched \<noteq> 0 then ''firewall.lists.stale'' else ''firewall.lists.unreachable'') [(''error'', err)]
     else if fetched \<noteq> 0 then tr ''firewall.lists.fetchedAt'' [(''date'', dated fetched)] else [])"

definition middle_dot :: jstr where
  "middle_dot = [c_sp, 183, c_sp]"

definition list_meta :: "texts \<Rightarrow> flist \<Rightarrow> jstr" where
  "list_meta tr l = join middle_dot (truthy
     [if l_author l \<noteq> [] then tr ''firewall.lists.by'' [(''author'', l_author l)] else [],
      if l_updated l \<noteq> [] then tr ''firewall.lists.updated'' [(''date'', l_updated l)] else [],
      tr ''firewall.lists.count'' [(''count'', digits (length (l_sources l)))]])"

text \<open>Five hundred addresses at most are shown; the button shows and hides them.\<close>

definition list_entries :: "texts \<Rightarrow> bool \<Rightarrow> flist \<Rightarrow> fw_act node" where
  "list_entries tr opened l = hide (\<not> opened) (h ''ul'' [cls ''fw-catalog-entries mono'', (''hidden'', ABool True)]
     [CList (map (\<lambda>s. CNode (h ''li'' [] [CText (sourceLabel s),
        if so_note s \<noteq> [] then CNode (h ''span'' [cls ''muted''] [CText ((lit ''  # '') @ so_note s)]) else CNull])) (take 500 (l_sources l))),
      if length (l_sources l) > 500 then CNode (h ''li'' [cls ''muted''] [CText (tr ''firewall.lists.more'' [(''count'', digits (length (l_sources l) - 500))])]) else CNull])"

definition subscribed_to :: "fpage \<Rightarrow> flist \<Rightarrow> bool" where
  "subscribed_to S l \<longleftrightarrow> list_ex (\<lambda>r. r_list r = Some (l_id l)) (fw_rules S)"

definition catalog_item :: "texts \<Rightarrow> fpage \<Rightarrow> (jstr \<Rightarrow> jstr) \<Rightarrow> (nat \<Rightarrow> bool) \<Rightarrow> nat \<Rightarrow> flist \<Rightarrow> fw_act node" where
  "catalog_item tr S description opened k l = h ''li'' [cls ''fw-catalog-item'']
     [CNode (h ''div'' [cls ''fw-catalog-head'']
        [CNode (h ''div'' [] [CNode (h ''strong'' [] [CText (l_name l)]), CText [c_sp],
           CNode (badge (said_j tr ((lit ''firewall.mode.'') @ l_mode l)) (if l_mode l = (lit ''allow'') then ''success'' else ''danger'') []),
           CNode (h ''div'' [cls ''muted fw-catalog-meta''] [CText (list_meta tr l)])]),
         CNode (if subscribed_to S l then badge (said tr ''firewall.lists.subscribed'') ''success'' []
           else button (said tr ''firewall.lists.subscribe'') (plain_btn\<lparr>bo_variant := ''primary'', bo_size := ''sm'', bo_icon := ''plus'', bo_click := Some (Subscribe_to k)\<rparr>))]),
      if description (l_id l) \<noteq> [] then CNode (h ''p'' [cls ''fw-catalog-desc''] [CText (description (l_id l))]) else CNull,
      CNode (h ''div'' [] [CNode (button (tr ''firewall.lists.show'' [(''count'', digits (length (l_sources l)))])
        (plain_btn\<lparr>bo_variant := ''ghost'', bo_size := ''sm'', bo_icon := ''eye'', bo_click := Some (Show_list k)\<rparr>))]),
      CNode (list_entries tr (opened k) l)]"

datatype catalog_reply = Catalog_failed jstr | Catalog_ok "flist list"

text \<open>While the catalogue is asked for, \<open>None\<close>.\<close>

definition catalog_body :: "texts \<Rightarrow> fpage \<Rightarrow> (jstr \<Rightarrow> jstr) \<Rightarrow> (nat \<Rightarrow> bool) \<Rightarrow> catalog_reply option \<Rightarrow> fw_act child list" where
  "catalog_body tr S description opened answer = (case answer of
     None \<Rightarrow> [CNode (h ''p'' [cls ''muted''] [CText (said tr ''common.loading'')])]
   | Some (Catalog_failed m) \<Rightarrow> [CNode (callout (plain_callout\<lparr>co_type := ''danger'', co_text := CText (or_text (Some m) (said tr ''errors.generic''))\<rparr>))]
   | Some (Catalog_ok ls) \<Rightarrow> (if ls = [] then [CNode (emptyState ''globe'' (said tr ''firewall.lists.emptyTitle'') (Some (said tr ''firewall.lists.emptyText'')) [])]
       else [CNode (h ''ul'' [cls ''fw-catalog-list''] [CList (map (\<lambda>(k, l). CNode (catalog_item tr S description opened k l)) (zip [0..<length ls] ls))])]))"

definition catalog_foot :: "texts \<Rightarrow> jstr option \<Rightarrow> fw_act child list" where
  "catalog_foot tr browse_url =
     [CNode (hide (browse_url = None) (h ''a'' [cls ''btn btn-ghost'', s_attr ''target'' ''_blank'', s_attr ''rel'' ''noopener'', (''hidden'', ABool True), (''href'', opt_attr browse_url)]
        [CNode (icon ''external'' []), CText (said tr ''firewall.lists.browse'')])),
      CNode (button (said tr ''firewall.publish.new'') (plain_btn\<lparr>bo_icon := ''upload'', bo_click := Some (Publish_rule None)\<rparr>)),
      CNode (button (said tr ''common.refresh'') (plain_btn\<lparr>bo_icon := ''refresh'', bo_click := Some Refresh_catalog\<rparr>)),
      CNode (button (said tr ''common.close'') (plain_btn\<lparr>bo_click := Some Fw_cancel\<rparr>))]"

definition allow_texts :: "texts \<Rightarrow> flist \<Rightarrow> jstr \<times> jstr \<times> jstr" where
  "allow_texts tr l = (tr ''firewall.lists.allowTitle'' [(''name'', l_name l)], said tr ''firewall.lists.allowText'', said tr ''firewall.lists.subscribe'')"

end
