(* ===== verification/View_Firewall_Editors.thy ===== *)
theory View_Firewall_Editors imports View_Firewall_Dialogs begin

text \<open>
  The two forms of the firewall page (\<open>publishRule\<close>, \<open>editRule\<close> of \<open>pages/firewall.js\<close>), what their controls show and
  do, the questions asked before a change, and the whole page. Facts: a row acts on the rule it
  shows, counters brought up to date in place give the page that would be drawn, a list just followed is shown so.
\<close>

subsection \<open>Publishing a list\<close>

record publish_form =
  pf_name :: jstr
  pf_author :: jstr
  pf_desc :: jstr
  pf_mode :: jstr
  pf_notes :: bool
  pf_sources :: jstr

text \<open>The form as it opens, for a rule or for none; \<open>author\<close> is the one remembered.\<close>

definition open_publish :: "jstr \<Rightarrow> frule option \<Rightarrow> publish_form" where
  "open_publish author rule = \<lparr>pf_name = (case rule of Some r \<Rightarrow> one_line (r_name r) | None \<Rightarrow> []), pf_author = author, pf_desc = [],
     pf_mode = (case rule of Some r \<Rightarrow> (if r_mode r = [] then (lit ''block'') else r_mode r) | None \<Rightarrow> (lit ''block'')), pf_notes = False,
     pf_sources = area_text (sourcesToText (case rule of Some r \<Rightarrow> r_sources r | None \<Rightarrow> []))\<rparr>"

definition publish_title :: "texts \<Rightarrow> frule option \<Rightarrow> jstr" where
  "publish_title tr rule = (case rule of Some r \<Rightarrow> tr ''firewall.publish.title'' [(''name'', ruleTitle (said tr) r)] | None \<Rightarrow> said tr ''firewall.publish.titleNew'')"

text \<open>The rules whose addresses can be added, when no rule was chosen.\<close>

definition publish_chips :: "texts \<Rightarrow> fpage \<Rightarrow> frule option \<Rightarrow> fw_act child" where
  "publish_chips tr S rule = (if rule = None \<and> publishable S \<noteq> []
     then CNode (h ''div'' [cls ''fw-chips''] [CNode (h ''span'' [cls ''field-hint''] [CText (said tr ''firewall.publish.fromRule'')]),
       CList (map (\<lambda>(i, r). CNode (h ''button'' [s_attr ''type'' ''button'', cls ''fw-chip'', (''onClick'', AFun (Chip_added i))] [CText (ruleTitle (said tr) r)]))
         (zip [0..<length (publishable S)] (publishable S)))])
     else CNull)"

definition chip_added :: "fpage \<Rightarrow> nat \<Rightarrow> publish_form \<Rightarrow> publish_form" where
  "chip_added S i P = (let r = publishable S ! i
     in P\<lparr>pf_sources := area_text (publish_add r (pf_sources P)), pf_name := (if pf_name P = [] then one_line (r_name r) else pf_name P)\<rparr>)"

definition area_node :: "string \<Rightarrow> (string \<times> fw_act attr) list \<Rightarrow> jstr \<Rightarrow> fw_act node" where
  "area_node c attrs value = put_prop ''value'' (AText value) (h ''textarea'' (cls c # attrs) [])"

definition mode_choice :: "texts \<Rightarrow> string list \<Rightarrow> jstr \<Rightarrow> string \<Rightarrow> fw_act node" where
  "mode_choice tr modes value label = segmented (map (\<lambda>v. (lit v, said tr (''firewall.mode.'' @ v), [])) modes) value Mode_picked (Some (said tr label))"

text \<open>\<open>out\<close> is what the last request gave.\<close>

definition publish_body :: "texts \<Rightarrow> fpage \<Rightarrow> frule option \<Rightarrow> publish_form \<Rightarrow> fw_act child list \<Rightarrow> nat \<Rightarrow> fw_act child list \<times> nat" where
  "publish_body tr S rule P out seq =
     (let (nameF, s1) = field (said tr) ((plain_field (said tr ''firewall.publish.name''))\<lparr>fo_hint := Some (said tr ''firewall.publish.nameHint'')\<rparr>)
            (input [(''value'', AText (pf_name P)), (''placeholder'', AText (said tr ''firewall.publish.namePlaceholder'')), (''maxLength'', ANum (lit ''60'')), (''required'', ABool True)]) seq;
          (descF, s2) = field (said tr) ((plain_field (said tr ''firewall.publish.description''))\<lparr>fo_optional := True\<rparr>)
            (area_node ''input fw-textarea'' [(''rows'', ANum (lit ''3'')), (''maxLength'', ANum (lit ''300'')), (''placeholder'', AText (said tr ''firewall.publish.descPlaceholder''))] (pf_desc P)) s1;
          (authorF, s3) = field (said tr) ((plain_field (said tr ''firewall.publish.author''))\<lparr>fo_optional := True, fo_hint := Some (said tr ''firewall.publish.authorHint'')\<rparr>)
            (input [(''value'', AText (pf_author P)), (''placeholder'', AText (said tr ''firewall.publish.authorPlaceholder'')), (''maxLength'', ANum (lit ''40''))]) s2;
          sources = put_attr ''id'' ((lit ''fw-publish-sources'')) (area_node ''input input-mono fw-textarea'' [(''rows'', ANum (lit ''6'')), s_attr ''spellcheck'' ''false'', (''required'', ABool True),
            (''placeholder'', AText ((lit ''203.0.113.4  # scanner'') @ [c_nl] @ (lit ''198.51.100.0/24'') @ [c_nl] @ (lit ''AS64500'')))] (pf_sources P))
      in ([CNode (h ''form'' [s_attr ''id'' ''fw-publish-form'', cls ''form-stack'', (''onSubmit'', AFun Publish_submitted)]
         [CNode nameF,
          CNode (h ''div'' [cls ''field''] [CNode (h ''span'' [cls ''field-label''] [CText (said tr ''firewall.publish.mode'')]),
            CNode (mode_choice tr [''block'', ''allow''] (pf_mode P) ''firewall.publish.mode''),
            CNode (put_text (said_j tr ((lit ''firewall.publish.modeHint.'') @ pf_mode P)) (h ''p'' [cls ''field-hint''] []))]),
          CNode (h ''div'' [cls ''field''] [CNode (h ''label'' [cls ''field-label'', s_attr ''for'' ''fw-publish-sources''] [CText (said tr ''firewall.publish.sources'')]),
            CNode sources, CNode (h ''p'' [cls ''field-hint''] [CText (said tr ''firewall.sourcesHint'')]), publish_chips tr S rule]),
          CNode descF, CNode authorF,
          CNode (switchRow (said tr ''firewall.publish.notes'') (Some (said tr ''firewall.publish.notesHint'')) (plain_switch\<lparr>so_checked := pf_notes P\<rparr>))]),
          CNode (h ''div'' [cls ''form-stack''] out)], s3))"

text \<open>What is sent, and the author remembered.\<close>

record publish_request =
  pr_name :: jstr
  pr_mode :: jstr
  pr_author :: jstr
  pr_description :: jstr
  pr_notes :: bool
  pr_sources :: "source list"

definition publish_sent :: "publish_form \<Rightarrow> publish_request \<times> jstr" where
  "publish_sent P = (\<lparr>pr_name = pf_name P, pr_mode = pf_mode P, pr_author = pf_author P, pr_description = pf_desc P, pr_notes = pf_notes P,
     pr_sources = textToSources (pf_sources P)\<rparr>, trim (pf_author P))"

record publish_answer =
  pa_ok :: bool
  pa_msg :: jstr
  pa_skipped :: "(jstr \<times> jstr) list"
  pa_update :: bool
  pa_too_long :: bool
  pa_issue_url :: jstr
  pa_json :: jstr

definition skipped_notice :: "texts \<Rightarrow> (jstr \<times> jstr) list \<Rightarrow> fw_act child" where
  "skipped_notice tr sk = (if sk = [] then CText [] else CNode (callout (plain_callout\<lparr>co_type := ''warn'',
     co_title := Some (tr ''firewall.publish.skipped'' [(''count'', digits (length sk))]),
     co_text := CNode (h ''ul'' [cls ''fw-skipped''] [CList (map (\<lambda>(entry, reason). CNode (h ''li'' [] [CNode (h ''span'' [cls ''mono''] [CText entry]), CText (spaced_dash @ reason)])) (take 20 sk))])\<rparr>)))"

definition publish_result :: "texts \<Rightarrow> publish_answer \<Rightarrow> fw_act child list" where
  "publish_result tr a = (if \<not> pa_ok a
     then [CNode (callout (plain_callout\<lparr>co_type := ''danger'', co_text := CText (pa_msg a)\<rparr>)), skipped_notice tr (pa_skipped a)]
     else [skipped_notice tr (pa_skipped a),
       CNode (callout (plain_callout\<lparr>co_compact := True, co_text := CText (said tr (if pa_too_long a then ''firewall.publish.tooLong'' else ''firewall.publish.review''))\<rparr>)),
       CNode (h ''div'' [cls ''fw-publish-preview'']
         [CNode (h ''div'' [cls ''fw-publish-copy''] [CNode (copyButton (said tr) Copy_json)]), CNode (h ''pre'' [cls ''mono''] [CText (pa_json a)])]),
       CNode (h ''div'' [] [CNode (h ''a'' [cls ''btn btn-primary'', (''href'', AText (pa_issue_url a)), s_attr ''target'' ''_blank'', s_attr ''rel'' ''noopener'', (''onClick'', AFun Open_issue)]
         [CNode (icon ''external'' []), CText (said tr (if pa_update a then ''firewall.publish.openUpdate'' else ''firewall.publish.open''))])])])"

text \<open>What opening the request copies.\<close>

definition issue_copies :: "publish_answer \<Rightarrow> jstr option" where
  "issue_copies a = (if pa_too_long a then Some (pa_json a) else None)"

subsection \<open>Editor of a rule\<close>

definition rule_title :: "texts \<Rightarrow> frule option \<Rightarrow> jstr" where
  "rule_title tr existing = (case existing of Some r \<Rightarrow> tr ''firewall.editTitle'' [(''name'', ruleTitle (said tr) r)] | None \<Rightarrow> said tr ''firewall.newTitle'')"

definition port_chips :: "fw_data \<Rightarrow> fw_act child" where
  "port_chips D = (if fd_ports D = [] then CNull else CNode (h ''div'' [cls ''fw-chips'']
     [CList (map (\<lambda>(i, p). CNode (h ''button'' [s_attr ''type'' ''button'', cls ''fw-chip'', (''title'', AText (pi_label p)), (''onClick'', AFun (Port_added i))]
       [CText (portText (pi_port p))])) (zip [0..<length (fd_ports D)] (fd_ports D)))]))"

definition scope_choice :: "texts \<Rightarrow> bool \<Rightarrow> fw_act node" where
  "scope_choice tr all = segmented [((lit ''all''), said tr ''firewall.allPorts'', []), ((lit ''some''), said tr ''firewall.somePorts'', [])]
     (if all then (lit ''all'') else (lit ''some'')) Scope_picked (Some (said tr ''firewall.portsLabel''))"

text \<open>The frps of the rule: asked for when there are several, or when the rule has one that is gone.\<close>

definition frps_options :: "texts \<Rightarrow> (jstr \<Rightarrow> jstr) \<Rightarrow> fpage \<Rightarrow> jstr \<Rightarrow> (jstr \<times> jstr) list" where
  "frps_options tr name_of S frps = map (\<lambda>i. (i, name_of i)) (d_frps S) @ [([], said tr ''firewall.allFrps'')]
     @ (if orphan S frps then [(frps, tr ''firewall.orphanBadge'' [(''frps'', frps)])] else [])"

definition frps_hint :: "texts \<Rightarrow> fpage \<Rightarrow> jstr \<Rightarrow> jstr" where
  "frps_hint tr S v = said tr (if v \<noteq> [] \<and> v \<notin> set (d_frps S) then ''firewall.orphanHint'' else if v \<noteq> [] then ''firewall.frpsHint'' else ''firewall.frpsHintAll'')"

definition subscribed_notice :: "texts \<Rightarrow> fw_data \<Rightarrow> fw_form \<Rightarrow> frule \<Rightarrow> fw_act child" where
  "subscribed_notice tr D f draft = (let lst = frps_text (r_list draft) in if lst = [] \<or> ff_unsubscribed f then CNull
     else CNode (callout (plain_callout\<lparr>co_icon := ''globe'', co_compact := True, co_title := Some (tr ''firewall.lists.ruleUses'' [(''name'', listText tr D lst)]),
       co_text := CText (said tr ''firewall.lists.ruleUsesHint''),
       co_actions := [CNode (button (said tr ''firewall.lists.unsubscribe'') (plain_btn\<lparr>bo_size := ''sm'', bo_click := Some Unsubscribe\<rparr>))]\<rparr>)))"

definition my_address :: "texts \<Rightarrow> fpage \<Rightarrow> fw_act child" where
  "my_address tr S = (if d_client_ip S = [] then CNull else CNode (h ''div'' [] [CNode (button (tr ''firewall.addMyIp'' [(''ip'', d_client_ip S)])
     (plain_btn\<lparr>bo_size := ''sm'', bo_icon := ''plus'', bo_click := Some My_address\<rparr>))]))"

definition rule_sources_area :: "jstr \<Rightarrow> fw_act node" where
  "rule_sources_area value = put_attr ''id'' ((lit ''fw-sources'')) (area_node ''input input-mono fw-textarea'' [(''rows'', ANum (lit ''6'')), s_attr ''spellcheck'' ''false'',
     (''placeholder'', AText (join [c_nl] (map lit [''203.0.113.4  # maison'', ''198.51.100.0/24  # bureau'', ''AS16276  # OVH'', ''2001:db8::/32''])))] value)"

text \<open>The labels that depend on the list of the rule are those it opened with.\<close>

definition rule_form :: "texts \<Rightarrow> (jstr \<Rightarrow> jstr) \<Rightarrow> fw_data \<Rightarrow> fpage \<Rightarrow> frule \<Rightarrow> fw_form \<Rightarrow> nat \<Rightarrow> fw_act node \<times> nat" where
  "rule_form tr name_of D S draft f seq =
     (let (nameF, s1) = field (said tr) ((plain_field (said tr ''firewall.name''))\<lparr>fo_optional := True\<rparr>)
            (input [(''value'', AText (ff_name f)), (''placeholder'', AText (said tr ''firewall.namePlaceholder'')), (''maxLength'', ANum (lit ''60''))]) seq;
          follows = frps_text (r_list draft) \<noteq> []
      in (h ''form'' [s_attr ''id'' ''fw-rule-form'', cls ''form-stack'', (''onSubmit'', AFun Rule_submitted)]
         [CNode nameF,
          CNode (h ''div'' [cls ''field''] [CNode (h ''span'' [cls ''field-label''] [CText (said tr ''firewall.action'')]),
            CNode (mode_choice tr [''allow'', ''block''] (ff_mode f) ''firewall.action''),
            CNode (put_text (said_j tr ((lit ''firewall.modeHint.'') @ ff_mode f)) (h ''p'' [cls ''field-hint''] []))]),
          (case ff_frps f of None \<Rightarrow> CNull
           | Some v \<Rightarrow> CNode (h ''div'' [cls ''field''] [CNode (h ''label'' [cls ''field-label'', s_attr ''for'' ''fw-frps''] [CText (said tr ''firewall.frpsLabel'')]),
               CNode (add_listener ''change'' Rule_frps_changed (select (frps_options tr name_of S (frps_text (r_frps draft))) (Some v) [s_attr ''id'' ''fw-frps''])),
               CNode (put_text (frps_hint tr S v) (h ''p'' [cls ''field-hint''] []))])),
          CNode (h ''div'' [cls ''field''] [CNode (h ''span'' [cls ''field-label''] [CText (said tr ''firewall.portsLabel'')]), CNode (scope_choice tr (ff_all f)),
            CNode (hide (ff_all f) (h ''div'' [cls ''form-stack'', (''style'', AStyle [(''gap'', (lit ''8px''))])]
              [CNode (input [(''value'', AText (ff_ports f)), s_attr ''placeholder'' ''7000, 25565, 30000-30010'', (''mono'', ABool True)]), port_chips D])),
            CNode (h ''p'' [cls ''field-hint''] [CText (tr ''firewall.portsHint'' [(''port'', fd_panel_port D)])])]),
          subscribed_notice tr D f draft,
          CNode (h ''div'' [cls ''field'']
            [CNode (h ''label'' [cls ''field-label'', s_attr ''for'' ''fw-sources''] [CText (said tr (if follows then ''firewall.lists.extraSources'' else ''firewall.sourcesLabel'')),
               if follows then CNode (h ''span'' [cls ''field-optional''] [CText (said tr ''common.optional'')]) else CNull]),
             CNode (rule_sources_area (ff_sources f)), CNode (h ''p'' [cls ''field-hint''] [CText (said tr ''firewall.sourcesHint'')]), my_address tr S])], s1))"

definition rule_foot :: "texts \<Rightarrow> bool \<Rightarrow> fw_act child list" where
  "rule_foot tr existing = [CNode (button (said tr ''common.cancel'') (plain_btn\<lparr>bo_click := Some Fw_cancel\<rparr>)),
     CNode (button (said tr (if existing then ''tunnels.apply'' else ''tunnels.addToList'')) (plain_btn\<lparr>bo_variant := ''primary'', bo_type := ''submit'', bo_rest := [s_attr ''form'' ''fw-rule-form'']\<rparr>))]"

text \<open>What a control of the editor changes in its values.\<close>

definition form_act :: "texts \<Rightarrow> fw_data \<Rightarrow> fpage \<Rightarrow> fw_act \<Rightarrow> fw_form \<Rightarrow> fw_form" where
  "form_act tr D S a f = (case a of
     Mode_picked v \<Rightarrow> f\<lparr>ff_mode := v\<rparr>
   | Scope_picked v \<Rightarrow> f\<lparr>ff_all := (v = (lit ''all''))\<rparr>
   | Port_added i \<Rightarrow> f\<lparr>ff_ports := add_port (pi_port (fd_ports D ! i)) (ff_ports f)\<rparr>
   | My_address \<Rightarrow> f\<lparr>ff_sources := area_text (add_my_ip (d_client_ip S) (said tr ''firewall.myIpNote'') (ff_sources f))\<rparr>
   | Unsubscribe \<Rightarrow> f\<lparr>ff_unsubscribed := True\<rparr>
   | _ \<Rightarrow> f)"

text \<open>The message after the editor is submitted: a refusal, or that the rule has left the list shown.\<close>

definition edited_message :: "texts \<Rightarrow> (jstr \<Rightarrow> jstr) \<Rightarrow> fpage \<Rightarrow> frule \<Rightarrow> (jstr \<times> string \<times> nat) option" where
  "edited_message tr name_of S r = (if r_mode r = (lit ''block'') \<and> r_sources r = [] \<and> r_list r = None then Some (said tr ''firewall.blockNeedsSource'', ''error'', 4000)
     else if \<not> shownRule S r then Some (tr ''firewall.movedTo'' [(''frps'', name_of (frps_text (r_frps r)))], ''info'', 6000) else None)"

subsection \<open>Questions\<close>

definition remove_texts :: "texts \<Rightarrow> frule \<Rightarrow> jstr \<times> jstr \<times> jstr" where
  "remove_texts tr r = (tr ''firewall.deleteTitle'' [(''name'', ruleTitle (said tr) r)], said tr ''tunnels.deleteText'', said tr ''common.delete'')"

definition removed_if :: "bool \<Rightarrow> nat \<Rightarrow> fpage \<Rightarrow> fpage" where
  "removed_if ok i S = (if ok then removeRule i S else S)"

definition self_block_texts :: "texts \<Rightarrow> fpage \<Rightarrow> port_verdict list \<Rightarrow> jstr \<times> jstr \<times> jstr" where
  "self_block_texts tr S vs = (said tr ''firewall.selfBlockTitle'',
     tr ''firewall.selfBlockText'' [(''ip'', d_client_ip S), (''ports'', port_texts (filter (\<lambda>v. pv_blocked_by v \<noteq> []) vs))], said tr ''firewall.apply'')"

text \<open>Installing nft: the message, and whether the page is loaded again.\<close>

definition installNft :: "texts \<Rightarrow> reply \<Rightarrow> (jstr \<times> string) \<times> bool" where
  "installNft tr r = (case r of Inr (True, msg) \<Rightarrow> ((or_text msg [], ''success''), True) | _ \<Rightarrow> (reply_message tr r [], False))"

subsection \<open>The page\<close>

definition rules_head :: "texts \<Rightarrow> bool \<Rightarrow> fw_act node" where
  "rules_head tr can_manage = h ''div'' [cls ''section-head'']
     [CNode (h ''div'' [] [CNode (h ''h2'' [cls ''section-title''] [CText (said tr ''firewall.rulesTitle'')]), CNode (h ''p'' [cls ''section-desc''] [CText (said tr ''firewall.rulesDesc'')])]),
      CNode (h ''div'' [cls ''fw-head-actions'']
        [CNode (button (said tr ''firewall.lists.open'') (plain_btn\<lparr>bo_icon := ''globe'', bo_click := Some Open_catalog\<rparr>)),
         if can_manage then CNode (button (said tr ''firewall.addRule'') (plain_btn\<lparr>bo_variant := ''primary'', bo_icon := ''plus'', bo_click := Some Add_rule\<rparr>)) else CFalse])]"

definition fw_savebar :: "texts \<Rightarrow> bool \<Rightarrow> fpage \<Rightarrow> fw_act node" where
  "fw_savebar tr can_manage S = hide (\<not> isDirty_f can_manage S) (saveBar (said tr)
     \<lparr>sv_discard = Discard_rules, sv_save = Apply_rules, sv_restart = None, sv_restart_label = None, sv_save_label = Some (said tr ''firewall.apply'')\<rparr>)"

definition firewall_page :: "texts \<Rightarrow> (jstr \<Rightarrow> jstr) \<Rightarrow> bool \<Rightarrow> bool \<Rightarrow> fscreen \<Rightarrow> fw_data \<Rightarrow> fpage \<Rightarrow> fw_act node list \<Rightarrow> fw_act node \<Rightarrow> fw_act node" where
  "firewall_page tr name_of can_manage available s D S tested blocked_section = h ''div'' [cls ''page'']
     (CNode (pageHeader (said tr ''firewall.title'') (Some (said tr ''firewall.description'')) (if available then frpsPicker tr name_of S else []))
      # (case screen_node tr can_manage (fd_nft D) s of
          Some n \<Rightarrow> [CNode n]
        | None \<Rightarrow> [CNode (h ''div'' [cls ''grid-2 card-pair''] [CNode (renderStatus tr can_manage D S), CNode (testSection tr S tested)]),
            CNode (h ''section'' [] [CNode (rules_head tr can_manage), CNode (h ''div'' [cls ''card''] [CNode (renderRules tr can_manage D S)])]),
            CNode (h ''section'' [] [CNode (h ''div'' [cls ''section-head''] [CNode (h ''div'' [] [CNode (h ''h2'' [cls ''section-title''] [CText (said tr ''firewall.portsTitle'')]),
              CNode (h ''p'' [cls ''section-desc''] [CText (said tr ''firewall.portsDesc'')])])]), CNode (h ''div'' [cls ''card''] [CNode (renderPorts tr D S)])]),
            CNode blocked_section, CNode (fw_savebar tr can_manage S)]))"

definition firewall_loading :: "texts \<Rightarrow> fw_act node" where
  "firewall_loading tr = h ''div'' [cls ''page''] [CNode (pageHeader (said tr ''firewall.title'') (Some (said tr ''firewall.description'')) []),
     CNode (h ''div'' [cls ''skeleton'', (''style'', AStyle [(''height'', (lit ''160px''))])] [])]"


subsection \<open>Rows\<close>

lemma shown_rules_at: "(i, r) \<in> set (shown_rules S) \<longleftrightarrow> i < length (fw_rules S) \<and> fw_rules S ! i = r \<and> shownRule S r"
  by (auto simp: shown_rules_def in_set_zip intro!: exI [of _ i])

lemma removed_row: "(i, r) \<in> set (shown_rules S) \<Longrightarrow> fw_rules S = a @ x # b \<Longrightarrow> length a = i
    \<Longrightarrow> x = r \<and> fw_rules (removed_if True i S) = a @ b"
  by (auto simp: shown_rules_at removed_if_def removeRule_def nth_append)

text \<open>Opening asks for the right to change rules, removing does not: the button is there for every account that sees
  the page.\<close>

definition remove_button :: "texts \<Rightarrow> nat \<Rightarrow> fw_act node" where
  "remove_button tr i = button [] (plain_btn\<lparr>bo_variant := ''ghost-danger'', bo_size := ''sm'', bo_icon := ''trash'', bo_title := Some (said tr ''common.delete''), bo_click := Some (Remove_rule i)\<rparr>)"

lemma read_only_offers_removal: "CNode (remove_button tr i) \<in> set (rule_actions tr False i r) \<and> Remove_rule i \<in> set (listeners [remove_button tr i])
    \<and> open_rule False i = None"
  by (simp add: rule_actions_def remove_button_def button_actions plain_btn_def open_rule_def)

subsection \<open>Counters\<close>

lemma counts_in_place:
  assumes "\<And>n. tr ''firewall.blockedCount'' n \<noteq> []"
    and "r_id r \<noteq> []" and "counted S r \<Longrightarrow> map_of counters (r_id r) \<noteq> None"
  shows "count_text tr counters (rule_count_node tr D S r) = rule_count_node tr (D\<lparr>fd_counters := counters\<rparr>) S r"
proof -
  have k: "has_class ''fw-count'' (Elem i cs)" if "map_of (e_attrs i) ''class'' = Some (lit ''fw-count'')" for i :: "fw_act info" and cs
    using that by (simp add: has_class_def node_attr_def) code_simp
  show ?thesis using assms
    by (auto simp: rule_count_node_def count_text_def h_def apply_attr_def skipped_def set_plain_def is_text_def in_el_def set_attribute_def new_info_def
        attr_text_def data_name_def is_upper_def k node_attr_def put_text_def split: option.splits)
qed

subsection \<open>Lists and the editor\<close>

lemma subscribed_shown: "subscribed_to (subscribe rid True l S) l"
  by (simp add: subscribed_to_def subscribe_def)

lemma refused_with_message:
  "(\<exists>m. edited_message tr name_of S r = Some (m, ''error'', 4000)) \<longleftrightarrow> r_mode r = (lit ''block'') \<and> r_sources r = [] \<and> r_list r = None"
  by (simp add: edited_message_def)

lemma refusal_changes_nothing:
  assumes "r = edited_rule (case at of Some i \<Rightarrow> fw_rules S ! i | None \<Rightarrow> new_draft S) f"
    and "edited_message tr name_of S r = Some (m, ''error'', 4000)"
  shows "editRule at rid f S = S"
  using assms by (auto simp: edited_message_def editRule_def Let_def split: if_splits)

lemma accepted_left_list:
  assumes "r = edited_rule (fw_rules S ! i) f" and "edited_message tr name_of S r = Some (m, ''info'', 6000)" and "i < length (fw_rules S)"
  shows "fw_rules (editRule (Some i) rid f S) ! i = r \<and> i \<notin> fst ` set (shown_rules (editRule (Some i) rid f S))"
proof -
  let ?E = "editRule (Some i) rid f S"
  have e: "fw_rules ?E ! i = r" "\<not> shownRule S r" using assms by (auto simp: edited_message_def editRule_def Let_def split: if_splits)
  have "shownRule ?E = shownRule S" by (auto simp: shownRule_def ofFrps_def orphan_def editRule_def Let_def)
  then show ?thesis using e by (auto simp: shown_rules_at)
qed

subsection \<open>The frps shown\<close>

lemma chosen_frps_next_visit:
  assumes "choose_frps v S = (S', remembered, address)" and "v \<in> set frps" and "[] \<notin> set frps"
  shows "fw_frps (fst (load_f (Some (enabled, rules, frps, ip)) remembered (N\<lparr>fw_frps := []\<rparr>))) = v"
    and "fw_frps (fst (load_f (Some (enabled, rules, frps, ip)) x (N\<lparr>fw_frps := address\<rparr>))) = v"
  using assms by (auto simp: choose_frps_def load_f_def Let_def)

subsection \<open>Time\<close>

lemma ago_positive: "ago (seconds_ago clock skew seen) = Ago_s n \<Longrightarrow> 1 \<le> n \<and> n < 60"
  by (auto simp: ago_def split: if_splits)

text \<open>With the clock of the server known, the time shown is within half a second, whatever the clock of the browser.\<close>

lemma skew_corrects:
  assumes "n \<noteq> 0"
  shows "seconds_ago clock (skew_after (Some n) clock sk) seen = n - seen"
  using assms by (simp add: seconds_ago_def skew_after_def)

end
