(* ===== verification/View_Settings.thy ===== *)
theory View_Settings imports Page_Settings Panel_Router View_Base begin

text \<open>
  What the settings show (\<open>pages/settings.js\<close>): the sections of an account, its profile, the two forms of a
  password, the passkeys and the dialog that adds one, the appearance and the access to the panel, as element trees;
  and the effects of what is sent. An error of a field is \<open>None\<close> before the first time the form is sent, then its
  message, empty when there is none. \<open>seq\<close> numbers the fields; dates are written by the browser (\<open>dated\<close>). Facts: the links
  lead to the sections the account may see, and mark the one shown; a password that is sent has shown no error.
\<close>

datatype set_act = Owner_submitted | Password_submitted | Eye_clicked | Passkey_add | Passkey_rename jstr | Passkey_delete jstr | Passkey_submitted | Set_cancel
  | Theme_picked jstr | Language_picked | Listen_submitted | Mirrors_switched | Stats_switched

subsection \<open>Fields with their errors\<close>

definition secret :: "texts \<Rightarrow> string \<Rightarrow> jstr \<Rightarrow> set_act node" where
  "secret tr completion ph = secretInput (said tr) Eye_clicked [s_attr ''autocomplete'' completion, (''placeholder'', AText ph)]"

definition bare_secret :: "texts \<Rightarrow> string \<Rightarrow> set_act node" where
  "bare_secret tr completion = secretInput (said tr) Eye_clicked [s_attr ''autocomplete'' completion]"

subsection \<open>My account\<close>

definition account_desc :: "texts \<Rightarrow> me option \<Rightarrow> jstr" where
  "account_desc tr m = said tr (if (case m of Some u \<Rightarrow> me_source u = (lit ''oidc'') | None \<Rightarrow> False) then ''settings.account.oidcDesc'' else ''settings.account.desc'')"

definition profile_cell :: "jstr \<Rightarrow> jstr \<Rightarrow> set_act child" where
  "profile_cell label value = CNode (h ''div'' [cls ''version-cell''] [CNode (h ''dt'' [] [CText label]), CNode (h ''dd'' [(''title'', AText value)] [CText value])])"

definition role_text :: "texts \<Rightarrow> jstr \<Rightarrow> bool \<Rightarrow> jstr" where
  "role_text tr role owner = (let r = said_j tr ((lit ''users.roles.'') @ role) in if owner then r @ [c_sp, 183, c_sp] @ said tr ''users.owner'' else r)"

definition profileCard :: "texts \<Rightarrow> me option \<Rightarrow> set_act node" where
  "profileCard tr m = (case profile_cells m of (name, role, owner, instances) \<Rightarrow>
     card_box (plain_card\<lparr>ca_title := Some (said tr ''settings.account.profile''), ca_body := CNode (h ''dl'' [cls ''versions profile-cells'']
       [profile_cell (said tr ''settings.account.username'') name, profile_cell (said tr ''settings.account.role'') (role_text tr role owner),
        profile_cell (said tr ''settings.account.instances'') (case instances of Some i \<Rightarrow> i | None \<Rightarrow> said tr ''users.allInstances'')])\<rparr>))"

text \<open>Whether the panel has a password: what the card of the owner says.\<close>

definition password_status :: "texts \<Rightarrow> bool \<Rightarrow> set_act node" where
  "password_status tr has = (if has
     then callout (plain_callout\<lparr>co_type := ''success'', co_compact := True, co_icon := ''shield'', co_text := CText (said tr ''settings.security.protected'')\<rparr>)
     else callout (plain_callout\<lparr>co_type := ''danger'', co_title := Some (said tr ''settings.security.unprotectedTitle''), co_text := CText (said tr ''settings.security.unprotectedText'')\<rparr>))"

text \<open>The errors of the fields of the owner: name, password, second password.\<close>

type_synonym owner_errors_shown = "jstr option \<times> jstr option \<times> jstr option"

definition owner_shown :: "texts \<Rightarrow> owner_form \<Rightarrow> owner_errors_shown \<Rightarrow> owner_errors_shown" where
  "owner_shown tr F shown =
     (let es = owner_errors F; said_if = (\<lambda>e k. Some (if e \<in> set es then said tr k else []))
      in (if Mismatch \<in> set es \<or> Too_short \<in> set es then fst shown else said_if Username_required ''validation.required'',
          said_if Too_short ''settings.security.tooShort'', said_if Mismatch ''settings.security.mismatch''))"

definition ownerCard :: "texts \<Rightarrow> store \<Rightarrow> jstr \<Rightarrow> owner_errors_shown \<Rightarrow> nat \<Rightarrow> set_act node \<times> nat" where
  "ownerCard tr S username shown seq =
     (let name = input [(''value'', AText (text_or username ((lit ''admin'')))), s_attr ''autocomplete'' ''username''];
          pass = secret tr ''new-password'' (if st_hasPassword S then said tr ''settings.security.keepPassword'' else []);
          (f1, s1) = field (said tr) (plain_field (said tr ''settings.security.username'')) name seq;
          (f2, s2) = field (said tr) (hinted (said tr ''settings.security.newPassword'') (said tr ''settings.security.passwordHint'')) pass s1;
          (f3, s3) = field (said tr) (plain_field (said tr ''settings.security.confirm'')) (bare_secret tr ''new-password'') s2
      in (card_box (plain_card\<lparr>ca_title := Some (said tr ''settings.security.title''), ca_description := Some (said tr ''settings.security.desc''),
            ca_body := CNode (form_node ''security-form'' Owner_submitted [CNode (password_status tr (st_hasPassword S)),
              CNode (h ''div'' [cls ''form-grid''] [CNode (with_error (fst shown) f1), CNode (with_error (fst (snd shown)) f2), CNode (with_error (snd (snd shown)) f3)])]),
            ca_foot := CList [CNode (submit_button tr ''settings.security.save'' ''security-form'')]\<rparr>), s3))"

text \<open>The message of an answer; what the store has after it is \<open>owner_saved\<close>.\<close>

definition owner_message :: "texts \<Rightarrow> owner_form \<Rightarrow> reply \<Rightarrow> jstr \<times> string" where
  "owner_message tr F r = (if reply_ok r then (said tr (if ow_password F \<noteq> [] then ''settings.security.passwordSaved'' else ''settings.security.saved''), ''success'')
     else reply_message tr r [])"

definition password_shown :: "texts \<Rightarrow> password_form \<Rightarrow> jstr option \<times> jstr option" where
  "password_shown tr F = (let es = (case password_submit F of Inl es \<Rightarrow> es | Inr x \<Rightarrow> [])
     in (Some (if Too_short \<in> set es then said tr ''settings.security.tooShort'' else []), Some (if Mismatch \<in> set es then said tr ''settings.security.mismatch'' else [])))"

definition passwordCard :: "texts \<Rightarrow> jstr option \<times> jstr option \<Rightarrow> nat \<Rightarrow> set_act node \<times> nat" where
  "passwordCard tr shown seq =
     (let (f1, s1) = field (said tr) (plain_field (said tr ''settings.account.current'')) (bare_secret tr ''current-password'') seq;
          (f2, s2) = field (said tr) (hinted (said tr ''settings.security.newPassword'') (said tr ''settings.security.passwordHint'')) (bare_secret tr ''new-password'') s1;
          (f3, s3) = field (said tr) (plain_field (said tr ''settings.security.confirm'')) (bare_secret tr ''new-password'') s2
      in (card_box (plain_card\<lparr>ca_title := Some (said tr ''settings.account.password''),
            ca_body := CNode (form_node ''account-form'' Password_submitted [CNode (h ''div'' [cls ''form-grid'']
              [CNode f1, CNode (with_error (fst shown) f2), CNode (with_error (snd shown) f3)])]),
            ca_foot := CList [CNode (submit_button tr ''settings.account.change'' ''account-form'')]\<rparr>), s3))"

definition oidc_note :: "texts \<Rightarrow> set_act node" where
  "oidc_note tr = callout (plain_callout\<lparr>co_type := ''neutral'', co_icon := ''key'', co_text := CText (said tr ''settings.account.oidcNote'')\<rparr>)"

subsection \<open>Passkeys\<close>

record passkey_dates =
  kd_rp_id :: jstr
  kd_synced :: bool
  kd_created :: jstr
  kd_last_used :: jstr

definition moment_text :: "texts \<Rightarrow> (jstr \<Rightarrow> jstr) \<Rightarrow> jstr \<Rightarrow> jstr" where
  "moment_text tr dated moment = (if moment \<noteq> [] then dated moment else said tr ''users.never'')"

definition dated_cell :: "texts \<Rightarrow> (jstr \<Rightarrow> jstr) \<Rightarrow> string \<Rightarrow> jstr \<Rightarrow> set_act child" where
  "dated_cell tr dated key moment = CNode (h ''span'' [] [CNode (h ''small'' [] [CText (said tr key)]), CNode (h ''span'' [] [CText (moment_text tr dated moment)])])"

definition passkey_row :: "texts \<Rightarrow> (jstr \<Rightarrow> jstr) \<Rightarrow> (jstr \<Rightarrow> passkey_dates) \<Rightarrow> passkey \<Rightarrow> set_act node" where
  "passkey_row tr dated more' k = (let x = more' (pk_id k) in h ''li'' [cls ''row us-row'']
     [CNode (h ''div'' [cls ''row-name''] [CNode (h ''span'' [(''title'', AText (kd_rp_id x))] [CText (pk_name k)]),
        when_child (kd_synced x) (CNode (badge (said tr ''settings.passkeys.synced'') ''info'' []))]),
      CNode (h ''div'' [cls ''fw-detail''] [dated_cell tr dated ''settings.passkeys.created'' (kd_created x), dated_cell tr dated ''settings.passkeys.lastUsed'' (kd_last_used x)]),
      CNode (h ''div'' [cls ''row-actions'']
        [CNode (button [] (plain_btn\<lparr>bo_variant := ''ghost'', bo_size := ''sm'', bo_icon := ''edit'', bo_title := Some (said tr ''settings.passkeys.rename''), bo_click := Some (Passkey_rename (pk_id k))\<rparr>)),
         CNode (button [] (plain_btn\<lparr>bo_variant := ''ghost-danger'', bo_size := ''sm'', bo_icon := ''trash'', bo_title := Some (said tr ''common.delete''), bo_click := Some (Passkey_delete (pk_id k))\<rparr>))])])"

text \<open>The list: loading, the error of the server, or the passkeys.\<close>

datatype passkeys_state = Passkeys_loading | Passkeys_error jstr | Passkeys_shown

definition passkey_list :: "texts \<Rightarrow> (jstr \<Rightarrow> jstr) \<Rightarrow> (jstr \<Rightarrow> passkey_dates) \<Rightarrow> passkeys_state \<Rightarrow> passkeys \<Rightarrow> set_act node" where
  "passkey_list tr dated more' st K = h ''div'' [] [CNode (case st of
     Passkeys_loading \<Rightarrow> h ''p'' [cls ''muted''] [CText (said tr ''common.loading'')]
   | Passkeys_error m \<Rightarrow> callout (plain_callout\<lparr>co_type := ''danger'', co_title := Some (said tr ''settings.loadError''), co_text := CText m\<rparr>)
   | Passkeys_shown \<Rightarrow> (if pk_items K = [] then h ''p'' [cls ''muted''] [CText (said tr ''settings.passkeys.empty'')]
       else h ''ul'' [cls ''rows''] [CList (map (\<lambda>k. CNode (passkey_row tr dated more' k)) (pk_items K))]))]"

definition passkeysCard :: "texts \<Rightarrow> (jstr \<Rightarrow> jstr) \<Rightarrow> (jstr \<Rightarrow> passkey_dates) \<Rightarrow> jstr \<Rightarrow> passkeys_state \<Rightarrow> passkeys \<Rightarrow> set_act node" where
  "passkeysCard tr dated more' reason st K =
     (let add = put_prop ''disabled'' (ABool (\<not> pk_add K)) (button (said tr ''settings.passkeys.add'') (plain_btn\<lparr>bo_variant := ''primary'', bo_icon := ''plus'', bo_click := Some Passkey_add\<rparr>))
      in card_box (plain_card\<lparr>ca_title := Some (said tr ''settings.passkeys.title''), ca_description := Some (said tr ''settings.passkeys.desc''),
        ca_body := CList [if reason = [] then CText [] else CNode (callout (plain_callout\<lparr>co_type := ''neutral'', co_compact := True, co_icon := ''info'',
            co_text := CText (said_j tr ((lit ''settings.passkeys.unavailable.'') @ reason))\<rparr>)), CNode (passkey_list tr dated more' st K)],
        ca_foot := CList [CNode add]\<rparr>))"

text \<open>The dialog: the error of the password, and the message of each end. Only a password that is refused and an
  empty one are shown in the form.\<close>

definition passkey_form :: "texts \<Rightarrow> jstr option \<Rightarrow> nat \<Rightarrow> set_act node \<times> nat" where
  "passkey_form tr err seq =
     (let (f1, s1) = field (said tr) (plain_field (said tr ''settings.account.current'')) (bare_secret tr ''current-password'') seq;
          (f2, s2) = field (said tr) ((hinted (said tr ''settings.passkeys.name'') (said tr ''settings.passkeys.nameHint''))\<lparr>fo_optional := True\<rparr>)
            (input [(''maxLength'', ANum (lit ''64'')), (''placeholder'', AText (said tr ''settings.passkeys.namePlaceholder''))]) s1
      in (form_node ''passkey-form'' Passkey_submitted [CNode (with_error err f1), CNode f2], s2))"

definition passkey_error :: "texts \<Rightarrow> add_result \<Rightarrow> jstr" where
  "passkey_error tr r = (case r of Password_empty \<Rightarrow> said tr ''validation.required'' | Password_refused m \<Rightarrow> text_or m (said tr ''errors.generic'') | _ \<Rightarrow> [])"

text \<open>\<open>last\<close> is the answer or the exception of the request that ended it.\<close>

definition passkey_message :: "texts \<Rightarrow> add_result \<Rightarrow> reply \<Rightarrow> (jstr \<times> string) option" where
  "passkey_message tr r last' = (case r of
     Browser_refused k \<Rightarrow> Some (said_j tr ((lit ''settings.passkeys.'') @ k), ''error'')
   | Server_refused \<Rightarrow> Some (reply_message tr last' [])
   | Request_failed \<Rightarrow> Some (reply_message tr last' [])
   | Added \<Rightarrow> Some (case last' of Inr (b, m) \<Rightarrow> or_text m [] | Inl m \<Rightarrow> [], ''success'')
   | _ \<Rightarrow> None)"

definition passkey_foot :: "texts \<Rightarrow> set_act child list" where
  "passkey_foot tr = [CNode (button (said tr ''common.cancel'') (plain_btn\<lparr>bo_click := Some Set_cancel\<rparr>)), CNode (submit_button tr ''settings.passkeys.continue'' ''passkey-form'')]"

definition passkey_delete_texts :: "texts \<Rightarrow> passkey \<Rightarrow> jstr \<times> jstr \<times> jstr" where
  "passkey_delete_texts tr k = (tr ''settings.passkeys.deleteTitle'' [(''name'', pk_name k)], said tr ''settings.passkeys.deleteText'', said tr ''common.delete'')"

text \<open>After a change: the message, and whether the list is read again.\<close>

definition passkey_changed :: "texts \<Rightarrow> reply \<Rightarrow> (jstr \<times> string) \<times> bool" where
  "passkey_changed tr r = (reply_message tr r [], reply_ok r)"

subsection \<open>Appearance\<close>

definition theme_choice :: "texts \<Rightarrow> jstr \<Rightarrow> set_act node" where
  "theme_choice tr pref = segmented [((lit ''auto''), said tr ''settings.prefs.themeAuto'', ''monitor''), ((lit ''light''), said tr ''settings.prefs.themeLight'', ''sun''),
     ((lit ''dark''), said tr ''settings.prefs.themeDark'', ''moon'')] pref Theme_picked (Some (said tr ''settings.prefs.theme''))"

text \<open>\<open>native\<close> is the name of a language in itself.\<close>

definition language_label :: "texts \<Rightarrow> (jstr \<Rightarrow> jstr) \<Rightarrow> jstr \<Rightarrow> jstr" where
  "language_label tr native c = (if c \<in> set PREVIEW_LOCALES then native c @ (lit '' ('') @ said tr ''settings.prefs.preview'' @ (lit '')'') else native c)"

definition language_select :: "texts \<Rightarrow> (jstr \<Rightarrow> jstr) \<Rightarrow> jstr \<Rightarrow> set_act node" where
  "language_select tr native current = add_listener ''change'' Language_picked (put_prop ''disabled'' (ABool (length LOCALES < 2))
     (select (map (\<lambda>c. (c, language_label tr native c)) LOCALES) (Some current) [cls ''select select-inline'']))"

definition appearance_section :: "texts \<Rightarrow> (jstr \<Rightarrow> jstr) \<Rightarrow> jstr \<Rightarrow> jstr \<Rightarrow> nat \<Rightarrow> set_act node \<times> nat" where
  "appearance_section tr native pref current seq =
     (let hint = (if length LOCALES < 2 then Some (said tr ''settings.prefs.languageSoon'') else if current \<in> set PREVIEW_LOCALES then Some (said tr ''settings.prefs.languagePreview'') else None);
          (f, s1) = field (said tr) ((plain_field (said tr ''settings.prefs.language''))\<lparr>fo_hint := hint\<rparr>) (language_select tr native current) seq
      in (card_box (plain_card\<lparr>ca_body := CNode (h ''div'' [cls ''form-grid-2'']
            [CNode (h ''div'' [cls ''field''] [CNode (h ''span'' [cls ''field-label''] [CText (said tr ''settings.prefs.theme'')]), CNode (theme_choice tr pref)]), CNode f])\<rparr>), s1))"

subsection \<open>Access to the panel\<close>

definition numeric_input :: "jstr \<Rightarrow> set_act node" where
  "numeric_input v = input [(''value'', AText v), s_attr ''inputmode'' ''numeric'', (''mono'', ABool True)]"

text \<open>The errors shown of the port and of the delay.\<close>

definition listenCard :: "texts \<Rightarrow> access_config \<Rightarrow> listen_error list option \<Rightarrow> nat \<Rightarrow> set_act node \<times> nat" where
  "listenCard tr c shown seq =
     (let F = listen_form c; err = (\<lambda>e k. map_option (\<lambda>es. if e \<in> set es then said tr k else []) shown);
          (f1, s1) = field (said tr) ((hinted (said tr ''settings.network.host'') (said tr ''settings.network.hostHint''))\<lparr>fo_key := Some (lit ''bind_host'')\<rparr>)
            (input [(''value'', AText (lf_host F)), (''mono'', ABool True)]) seq;
          (f2, s2) = field (said tr) ((plain_field (said tr ''settings.network.port''))\<lparr>fo_key := Some (lit ''bind_port'')\<rparr>) (numeric_input (lf_port F)) s1;
          (f3, s3) = field (said tr) (hinted (said tr ''settings.network.timeout'') (said tr ''settings.network.timeoutHint'')) (numeric_input (lf_timeout F)) s2
      in (card_box (plain_card\<lparr>ca_title := Some (said tr ''settings.network.listenTitle''), ca_description := Some (said tr ''settings.network.listenDesc''),
            ca_body := CNode (form_node ''network-form'' Listen_submitted
              [CNode (h ''div'' [cls ''form-grid''] [CNode f1, CNode (with_error (err Port_error ''validation.port'') f2),
                 CNode (with_error (err Timeout_error ''settings.network.timeoutMin'') f3)]),
               CNode (callout (plain_callout\<lparr>co_type := ''neutral'', co_compact := True, co_text := CText (said tr ''settings.network.restartNote'')\<rparr>))]),
            ca_foot := CList [CNode (submit_button tr ''common.save'' ''network-form'')]\<rparr>), s3))"

text \<open>The message after a setting is sent: its own when it is accepted.\<close>

definition saved_message :: "texts \<Rightarrow> string \<Rightarrow> reply \<Rightarrow> jstr \<times> string" where
  "saved_message tr key r = (if reply_ok r then (said tr key, ''success'') else reply_message tr r [])"

definition downloadsCard :: "texts \<Rightarrow> access_config \<Rightarrow> set_act node" where
  "downloadsCard tr c = card_box (plain_card\<lparr>ca_title := Some (said tr ''settings.network.downloadsTitle''),
     ca_body := CNode (switchRow (said tr ''settings.network.mirrors'') (Some (said tr ''settings.network.mirrorsDesc''))
       (plain_switch\<lparr>so_checked := mirrors_switch c, so_change := Some Mirrors_switched\<rparr>))\<rparr>)"

definition stats_message :: "texts \<Rightarrow> bool \<Rightarrow> reply \<Rightarrow> jstr \<times> string" where
  "stats_message tr on r = saved_message tr (if on then ''settings.network.statsOn'' else ''settings.network.statsOff'') r"

text \<open>\<open>payload\<close> is the text of what would be sent.\<close>

definition statsCard :: "texts \<Rightarrow> access_config \<Rightarrow> jstr \<Rightarrow> set_act node" where
  "statsCard tr c payload = card_box (plain_card\<lparr>ca_title := Some (said tr ''settings.network.statsTitle''),
     ca_body := CNode (h ''div'' [cls ''form-stack'']
       [CNode (switchRow (said tr ''settings.network.stats'') (Some (said tr ''settings.network.statsDesc'')) (plain_switch\<lparr>so_checked := stats_switch c, so_change := Some Stats_switched\<rparr>)),
        CNode (h ''div'' [cls ''field''] [CNode (h ''span'' [cls ''field-label''] [CText (said tr ''settings.network.statsPayload'')]),
          CNode (h ''div'' [cls ''code-block''] [CNode (h ''code'' [] [CText payload])])])])\<rparr>)"

text \<open>The answer of the server: the message of an exception, or the settings with the payload.\<close>

definition access_section :: "texts \<Rightarrow> jstr + access_config \<times> jstr \<Rightarrow> listen_error list option \<Rightarrow> nat \<Rightarrow> set_act node list \<times> nat" where
  "access_section tr answer shown seq = (case answer of
     Inl m \<Rightarrow> ([callout (plain_callout\<lparr>co_type := ''danger'', co_title := Some (said tr ''settings.loadError''), co_text := CText m\<rparr>)], seq)
   | Inr (c, payload) \<Rightarrow> (case listenCard tr c shown seq of (n, s1) \<Rightarrow> ([n, downloadsCard tr c, statsCard tr c payload], s1)))"

subsection \<open>The page\<close>

text \<open>A section: the key of its title, of its description and its icon.\<close>

definition section_icon :: "jstr \<Rightarrow> string" where
  "section_icon s = (case map_of [((lit ''account''), ''user''), ((lit ''appearance''), ''palette''), ((lit ''config''), ''config''), ((lit ''access''), ''server''), ((lit ''users''), ''users''), ((lit ''sso''), ''key''),
     ((lit ''notifications''), ''bell''), ((lit ''updates''), ''download'')] s of Some i \<Rightarrow> i | None \<Rightarrow> [])"

definition section_title :: "jstr \<Rightarrow> string" where
  "section_title s = (case map_of [((lit ''account''), ''settings.account.title''), ((lit ''appearance''), ''settings.prefs.title''), ((lit ''config''), ''config.title''), ((lit ''access''), ''settings.network.title''),
     ((lit ''users''), ''users.title''), ((lit ''sso''), ''users.oidc.title''), ((lit ''notifications''), ''notifications.title''), ((lit ''updates''), ''updates.title'')] s of Some i \<Rightarrow> i | None \<Rightarrow> [])"

definition section_desc :: "texts \<Rightarrow> me option \<Rightarrow> jstr \<Rightarrow> jstr" where
  "section_desc tr m s = (if s = (lit ''account'') then account_desc tr m else case map_of [((lit ''appearance''), ''settings.prefs.desc''), ((lit ''config''), ''config.description''), ((lit ''access''), ''settings.network.desc''),
     ((lit ''users''), ''users.description''), ((lit ''sso''), ''users.oidc.desc''), ((lit ''notifications''), ''notifications.description''), ((lit ''updates''), ''updates.description'')] s of
       Some k \<Rightarrow> said tr k | None \<Rightarrow> [])"

definition nav_link :: "texts \<Rightarrow> store \<Rightarrow> jstr \<Rightarrow> jstr \<Rightarrow> set_act node" where
  "nav_link tr S shown s = h ''a'' [cls ''settings-nav-link'', (''href'', AText (hrefFor (lit ''settings'') [((lit ''s''), s)])), (''aria-current'', if s = shown then AText (lit ''page'') else ANull)]
     [CNode (icon (section_icon s) []), CNode (h ''span'' [] [CText (said tr (section_title s))]),
      if s = (lit ''updates'') then CNode (hide (\<not> section_dot S s) (h ''span'' [cls ''nav-badge'', (''title'', AText (said tr ''nav.updateAvailable'')), (''hidden'', ABool (\<not> section_dot S s))] [])) else CNull]"

definition settings_nav :: "texts \<Rightarrow> me option \<Rightarrow> store \<Rightarrow> jstr \<Rightarrow> set_act node" where
  "settings_nav tr m S shown = h ''nav'' [cls ''settings-nav'', (''aria-label'', AText (said tr ''settings.sections''))]
     [CList (map (\<lambda>(g, ss). CNode (h ''div'' [cls ''settings-nav-group''] [CNode (h ''div'' [cls ''settings-nav-title''] [CText (said_j tr ((lit ''settings.groups.'') @ g))]),
        CList (map (\<lambda>s. CNode (nav_link tr S shown s)) ss)])) (visible_groups m S))]"

definition settings_page :: "texts \<Rightarrow> me option \<Rightarrow> store \<Rightarrow> jstr \<Rightarrow> set_act child list \<Rightarrow> set_act node list \<Rightarrow> set_act node" where
  "settings_page tr m S shown actions body = h ''div'' [cls ''page'']
     [CNode (pageHeader (said tr ''settings.title'') (Some (said tr ''settings.description'')) []),
      CNode (h ''div'' [cls ''settings-layout''] [CNode (settings_nav tr m S shown),
        CNode (h ''section'' [cls ''settings-pane'', s_attr ''aria-labelledby'' ''settings-pane-title'']
          [CNode (h ''header'' [cls ''settings-pane-head'']
             [CNode (h ''div'' [] [CNode (h ''h2'' [cls ''settings-pane-title'', s_attr ''id'' ''settings-pane-title''] [CText (said tr (section_title shown))]),
                CNode (h ''p'' [cls ''settings-pane-desc''] [CText (section_desc tr m shown)])]),
              CNode (h ''div'' [cls ''page-actions''] actions)]),
           CNode (h ''div'' [cls ''settings-body''] (map CNode body))])])]"


text \<open>The links of a tree: their address, and whether they are marked as the current page.\<close>

fun anchors :: "'e node list \<Rightarrow> (jstr \<times> bool) list" where
  "anchors [] = []"
| "anchors (Txt_node t # r) = anchors r"
| "anchors (Elem i cs # r) = (if e_tag i = ''a'' then [(case map_of (e_attrs i) ''href'' of Some x \<Rightarrow> x | None \<Rightarrow> [], map_of (e_attrs i) ''aria-current'' = Some (lit ''page''))] else [])
     @ anchors cs @ anchors r"

lemma anchors_append [simp]: "anchors (a @ b) = anchors a @ anchors b"
  by (induction a rule: anchors.induct) simp_all

lemma anchors_nav_link: "anchors [nav_link tr S shown s] = [(hrefFor (lit ''settings'') [((lit ''s''), s)], s = shown)]"
  by (simp add: nav_link_def h_def apply_attr_def skipped_def set_plain_def is_text_def in_el_def set_attribute_def new_info_def attr_text_def icon_def
      hide_def put_prop_def change_info_def)

lemma anchors_links: "anchors (map (nav_link tr S shown) ss) = map (\<lambda>s. (hrefFor (lit ''settings'') [((lit ''s''), s)], s = shown)) ss"
proof (induction ss)
  case (Cons s ss)
  have "anchors (nav_link tr S shown s # r) = anchors [nav_link tr S shown s] @ anchors r" for r
    using anchors_append [of "[nav_link tr S shown s]" r] by simp
  then show ?case using Cons by (simp add: anchors_nav_link)
qed simp

lemma anchors_group: "anchors (h ''div'' [cls c] cs # r) = anchors (nodes_of cs) @ anchors r"
  by (simp add: h_def apply_attr_def skipped_def set_attribute_def new_info_def)

lemma anchors_groups: "anchors (nodes_of (map (\<lambda>(g, ss). CNode (h ''div'' [cls ''settings-nav-group''] [CNode (h ''div'' [cls ''settings-nav-title''] [CText (said_j tr ((lit ''settings.groups.'') @ g))]),
        CList (map (\<lambda>s. CNode (nav_link tr S shown s)) ss)])) gs)) = map (\<lambda>s. (hrefFor (lit ''settings'') [((lit ''s''), s)], s = shown)) (concat (map snd gs))"
  by (induction gs) (auto simp: anchors_group anchors_links)

lemma anchors_settings_nav: "anchors [settings_nav tr m S shown] = map (\<lambda>s. (hrefFor (lit ''settings'') [((lit ''s''), s)], s = shown)) (sections m S)"
  by (simp add: settings_nav_def h_def [of "''nav''"] apply_attr_def skipped_def set_plain_def is_text_def in_el_def set_attribute_def new_info_def anchors_groups sections_def)

lemma section_ascii:
  assumes "s \<in> set (sections m S)"
  shows "list_all (\<lambda>c. c < 128) s"
proof -
  have g: "\<forall>g\<in>set GROUPS. \<forall>x\<in>set (snd g). list_all (\<lambda>c. c < 128) x" by code_simp
  from assms obtain g where "g \<in> set GROUPS" "s \<in> set (snd g)" by (force simp: sections_def visible_groups_def)
  with g show ?thesis by blast
qed

lemma section_params:
  assumes "\<And>s. list_all (\<lambda>c. c < 128) s \<Longrightarrow> untext s = s" and "s \<in> set (sections m S)"
  shows "params_ok untext [((lit ''s''), s)]"
proof -
  have k: "list_all (\<lambda>c. c < 128) ((lit ''s''))" by code_simp
  have w: "list_all (\<lambda>c. c < 128) x \<Longrightarrow> list_all (\<lambda>c. c < 65536) x" for x :: jstr by (auto simp: list_all_iff)
  show ?thesis using k w [OF k] section_ascii [OF assms(2)] w [OF section_ascii [OF assms(2)]] assms(1)
    by (simp add: params_ok_def utf8_ascii)
qed

lemma open_own: "s \<in> set (sections m S) \<Longrightarrow> open_section m S (Some s) = (s, None)"
  by (simp add: open_section_def Let_def)

text \<open>What is sent has shown no error.\<close>

lemma owner_sent_clean: "owner_submit F = Inr x \<Longrightarrow> snd (owner_shown tr F sh) = (Some [], Some []) \<and> fst (owner_shown tr F sh) = Some []"
  by (auto simp: owner_submit_def owner_shown_def Let_def split: if_splits)

lemma password_sent_clean: "password_submit F = Inr x \<Longrightarrow> password_shown tr F = (Some [], Some [])"
  by (simp add: password_shown_def)

text \<open>The server's text is read back from its bytes by \<open>untext\<close>; for these names, that is the text itself.\<close>

theorem settings_links_open:
  assumes "\<And>s. list_all (\<lambda>c. c < 128) s \<Longrightarrow> untext s = s"
  shows "anchors [settings_nav tr m S shown] = map (\<lambda>s. (hrefFor (lit ''settings'') [((lit ''s''), s)], s = shown)) (sections m S)
    \<and> (\<forall>s\<in>set (sections m S). parseHash untext fallback (hrefFor (lit ''settings'') [((lit ''s''), s)]) = ((lit ''settings''), [((lit ''s''), s)])
         \<and> open_section m S (Some s) = (s, None) \<and> section_visible m S s)"
proof -
  have n: "(lit ''settings'') \<noteq> []" "63 \<notin> set ((lit ''settings''))" by code_simp+
  have "parseHash untext fallback (hrefFor (lit ''settings'') [((lit ''s''), s)]) = ((lit ''settings''), [((lit ''s''), s)])" if "s \<in> set (sections m S)" for s
    by (rule parse_href [OF section_params [OF assms that] n])
  then show ?thesis by (simp add: anchors_settings_nav open_own sections_visible)
qed

text \<open>An account that may change the access to the panel.\<close>

definition ex_settings :: store where
  "ex_settings = \<lparr>st_ready = True, st_instances = [], st_inDocker = False, st_standalone = False, st_nicknames = [], st_hasPassword = True,
     st_update_frp = False, st_update_panel = False, st_me = Some [(lit ''settings.manage'')], st_seenUsed = {}\<rparr>"

theorem settings_links_open_witness:
  "anchors [settings_nav (\<lambda>k ps. []) None ex_settings (lit ''access'')] = [((lit ''#/settings?s=account''), False), ((lit ''#/settings?s=appearance''), False), ((lit ''#/settings?s=access''), True)]
    \<and> open_section None ex_settings (Some (lit ''access'')) = ((lit ''access''), None)"
proof -
  have s: "sections None ex_settings = [(lit ''account''), (lit ''appearance''), (lit ''access'')]" by code_simp
  have h: "map (\<lambda>s. (hrefFor (lit ''settings'') [((lit ''s''), s)], s = (lit ''access''))) [(lit ''account''), (lit ''appearance''), (lit ''access'')]
    = [((lit ''#/settings?s=account''), False), ((lit ''#/settings?s=appearance''), False), ((lit ''#/settings?s=access''), True)]" by code_simp
  from settings_links_open [of "\<lambda>x. x" "\<lambda>k ps. []" None ex_settings "(lit ''access'')" "(lit ''dashboard'')"] show ?thesis
    unfolding s h by simp
qed

end
