(* ===== verification/View_Users.thy ===== *)
theory View_Users imports Panel_Keys View_Base begin

text \<open>
  What the accounts and the single sign-on show (\<open>pages/users.js\<close>): the list of the accounts, the editor of one with
  its boxes, the form of the identity provider, as element trees; and the messages after each request. What only the
  views read of an account (\<open>last_login\<close>, whether a permission is sensitive) and the names of the instances are
  arguments, dates are written by the browser (\<open>dated\<close>). Facts: what a box
  shows is what the editor holds, the groups keep every permission, the rows that open are those that can be edited.
\<close>

datatype user_act = New_account | Open_account jstr | Account_key jstr | Delete_account jstr | Account_switched jstr | Us_click_kept | Eye_shown
  | Source_picked jstr | Role_chosen | Box_ticked jstr | Scope_chosen jstr | User_submitted | Us_cancel
  | Provider_tested | Provider_submitted | Group_added | Group_removed nat | Redirect_copied

subsection \<open>List of the accounts\<close>

definition role_name :: "texts \<Rightarrow> jstr \<Rightarrow> jstr" where
  "role_name tr r = said_j tr (roleLabel r)"

definition perm_name :: "texts \<Rightarrow> jstr \<Rightarrow> jstr" where
  "perm_name tr p = said_j tr (permLabel p)"

definition ROLE_BADGE :: "jstr \<Rightarrow> string" where
  "ROLE_BADGE r = (case map_of [((lit ''admin''), ''danger''), ((lit ''operator''), ''warn''), ((lit ''viewer''), []), ((lit ''custom''), ''info'')] r of Some b \<Rightarrow> b | None \<Rightarrow> [])"

definition user_badge_node :: "texts \<Rightarrow> user_badge \<Rightarrow> user_act node" where
  "user_badge_node tr b = (case b of
     Role_badge r \<Rightarrow> badge (role_name tr r) (ROLE_BADGE r) []
   | Owner_badge \<Rightarrow> badge (said tr ''users.owner'') ''success'' []
   | You_badge \<Rightarrow> badge (said tr ''users.you'') [] []
   | Oidc_badge linked \<Rightarrow> (if linked then badge ((lit ''OIDC'')) ''info'' [] else badge (said tr ''users.oidcPending'') ''warn'' [])
   | Passkeys_badge n \<Rightarrow> badge (tr ''users.passkeysBadge'' [(''count'', digits n)]) [] [])"

definition login_text :: "texts \<Rightarrow> (jstr \<Rightarrow> jstr) \<Rightarrow> jstr \<Rightarrow> jstr" where
  "login_text tr dated moment = (if moment \<noteq> [] then dated moment else said tr ''users.never'')"

definition instances_text :: "texts \<Rightarrow> (jstr \<Rightarrow> jstr) \<Rightarrow> scope \<Rightarrow> jstr" where
  "instances_text tr inst_name s = (case s of All_instances \<Rightarrow> said tr ''users.allInstances'' | Instances is \<Rightarrow> text_or (join ((lit '', '')) (map inst_name is)) [8212])"

definition account_name :: "account \<Rightarrow> jstr" where
  "account_name u = (if u_display_name u \<noteq> [] then u_username u @ [c_sp, 183, c_sp] @ u_display_name u else u_username u)"

definition edit_buttons :: "texts \<Rightarrow> jstr \<Rightarrow> user_act node \<times> user_act node" where
  "edit_buttons tr i =
     (button [] (plain_btn\<lparr>bo_variant := ''ghost'', bo_size := ''sm'', bo_icon := ''edit'', bo_title := Some (said tr ''common.edit''), bo_click := Some (Open_account i)\<rparr>),
      button [] (plain_btn\<lparr>bo_variant := ''ghost-danger'', bo_size := ''sm'', bo_icon := ''trash'', bo_title := Some (said tr ''common.delete''), bo_click := Some (Delete_account i)\<rparr>))"

definition account_switch :: "texts \<Rightarrow> bool \<Rightarrow> account \<Rightarrow> user_act node" where
  "account_switch tr can_edit u = add_listener ''click'' Us_click_kept (switchControl (plain_switch\<lparr>so_checked := u_enabled u, so_disabled := \<not> can_edit,
     so_label := Some (said tr ''users.enabled''), so_change := Some (Account_switched (u_id u))\<rparr>))"

text \<open>Opening does nothing for the owner and for the account itself.\<close>

definition account_row :: "texts \<Rightarrow> (jstr \<Rightarrow> jstr) \<Rightarrow> (jstr \<Rightarrow> jstr) \<Rightarrow> (jstr \<Rightarrow> jstr) \<Rightarrow> users_data \<Rightarrow> account \<Rightarrow> user_act node" where
  "account_row tr dated inst_name last_login D u = (let can_edit = editable D u in h ''li''
     [cls (if u_enabled u then ''row us-row'' else ''row us-row is-off''), (''tabindex'', if can_edit then AText (lit ''0'') else ANull),
      (''onClick'', AFun (Open_account (u_id u))), (''onKeydown'', AFun (Account_key (u_id u)))]
     [CNode (h ''div'' [cls ''row-name''] [CNode (h ''span'' [] [CText (account_name u)]), CList (map (\<lambda>b. CNode (user_badge_node tr b)) (user_badges D u))]),
      CNode (h ''div'' [cls ''fw-detail'']
        [CNode (h ''span'' [] [CNode (h ''small'' [] [CText (said tr ''users.instancesLabel'')]), CNode (h ''span'' [] [CText (instances_text tr inst_name (u_instances u))])]),
         CNode (h ''span'' [] [CNode (h ''small'' [] [CText (said tr ''users.lastLogin'')]), CNode (h ''span'' [] [CText (login_text tr dated (last_login (u_id u)))])])]),
      CNode (h ''div'' [cls ''row-actions'']
        [CNode (account_switch tr can_edit u), when_child can_edit (CNode (fst (edit_buttons tr (u_id u)))), when_child can_edit (CNode (snd (edit_buttons tr (u_id u))))])])"

datatype accounts_state = Accounts_loading | Accounts_error jstr | Accounts_shown

definition renderList :: "texts \<Rightarrow> (jstr \<Rightarrow> jstr) \<Rightarrow> (jstr \<Rightarrow> jstr) \<Rightarrow> (jstr \<Rightarrow> jstr) \<Rightarrow> accounts_state \<Rightarrow> users_data \<Rightarrow> user_act node" where
  "renderList tr dated inst_name last_login st D = h ''div'' [cls ''card''] [CNode (case st of
     Accounts_loading \<Rightarrow> h ''div'' [cls ''skeleton'', (''style'', AStyle [(''height'', (lit ''120px''))])] []
   | Accounts_error m \<Rightarrow> callout (plain_callout\<lparr>co_type := ''danger'', co_title := Some (said tr ''users.loadError''), co_text := CText m\<rparr>)
   | Accounts_shown \<Rightarrow> (if ud_users D = [] then emptyState ''shield'' (said tr ''users.emptyTitle'') None []
       else h ''ul'' [cls ''rows''] [CList (map (\<lambda>u. CNode (account_row tr dated inst_name last_login D u)) (ud_users D))]))]"

definition users_actions :: "texts \<Rightarrow> user_act child list" where
  "users_actions tr = [CNode (button (said tr ''users.add'') (plain_btn\<lparr>bo_variant := ''primary'', bo_icon := ''plus'', bo_click := Some New_account\<rparr>))]"

text \<open>An account found by the row that is clicked, if it may be edited.\<close>

definition open_account :: "users_data \<Rightarrow> jstr \<Rightarrow> account option" where
  "open_account D i = (case find (\<lambda>u. u_id u = i) (ud_users D) of Some u \<Rightarrow> (if editable D u then Some u else None) | None \<Rightarrow> None)"

text \<open>After a change of an account: the message, and whether the list is read again.\<close>

definition saved_user :: "texts \<Rightarrow> jstr option \<Rightarrow> reply \<Rightarrow> (jstr \<times> string) \<times> bool" where
  "saved_user tr okMessage r = (case r of
     Inr (True, msg) \<Rightarrow> ((case okMessage of Some m \<Rightarrow> (if m = [] then or_text msg [] else m) | None \<Rightarrow> or_text msg [], ''success''), True)
   | _ \<Rightarrow> (reply_message tr r [], False))"

definition enabled_message :: "texts \<Rightarrow> bool \<Rightarrow> jstr" where
  "enabled_message tr v = said tr (if v then ''users.enabledOn'' else ''users.enabledOff'')"

definition delete_user_texts :: "texts \<Rightarrow> account \<Rightarrow> jstr \<times> jstr \<times> jstr" where
  "delete_user_texts tr u = (tr ''users.deleteTitle'' [(''name'', u_username u)], said tr ''users.deleteText'', said tr ''common.delete'')"

definition deleted_user :: "texts \<Rightarrow> reply \<Rightarrow> (jstr \<times> string) \<times> bool" where
  "deleted_user tr r = (reply_message tr r [], reply_ok r)"

subsection \<open>Editor of an account\<close>

definition editor_title :: "texts \<Rightarrow> account option \<Rightarrow> jstr" where
  "editor_title tr a = (case a of None \<Rightarrow> said tr ''users.newTitle'' | Some u \<Rightarrow> tr ''users.editTitle'' [(''name'', u_username u)])"

text \<open>The permissions in order, one group for each run of the same first part of the name.\<close>

fun perm_groups :: "perm list \<Rightarrow> (jstr \<times> perm list) list" where
  "perm_groups [] = []"
| "perm_groups (p # ps) = (let g = hd (split_on c_dot (pm_id p)) in
     case perm_groups ps of
       (g', qs) # r \<Rightarrow> (if g' = g then (g, p # qs) # r else (g, [p]) # (g', qs) # r)
     | [] \<Rightarrow> [(g, [p])])"

definition box_state :: "editor \<Rightarrow> jstr \<Rightarrow> box" where
  "box_state E p = (case find (\<lambda>b. bx_id b = p) (ef_boxes E) of Some b \<Rightarrow> b
     | None \<Rightarrow> \<lparr>bx_id = p, bx_scoped = False, bx_checked = False, bx_implied = False, bx_disabled = False\<rparr>)"

definition box_dimmed :: "editor \<Rightarrow> box \<Rightarrow> bool" where
  "box_dimmed E b \<longleftrightarrow> bx_implied b \<or> restricted E \<and> \<not> bx_scoped b"

definition perm_item :: "texts \<Rightarrow> (jstr \<Rightarrow> bool) \<Rightarrow> editor \<Rightarrow> perm \<Rightarrow> user_act node" where
  "perm_item tr sensitive E p = (let b = box_state E (pm_id p) in h ''label'' [cls (if box_dimmed E b then ''perm-item is-implied'' else ''perm-item'')]
     [CNode (put_prop ''disabled'' (ABool (bx_disabled b)) (put_prop ''checked'' (ABool (bx_checked b))
        (add_listener ''change'' (Box_ticked (pm_id p)) (h ''input'' [s_attr ''type'' ''checkbox''] [])))),
      CNode (h ''span'' [] [CText (perm_name tr (pm_id p)), CText [c_sp], when_child (sensitive (pm_id p)) (CNode (badge (said tr ''users.sensitive'') ''warn'' [])),
        CNode (h ''br'' [] []), CNode (h ''code'' [] [CText (pm_id p)])])])"

definition perm_grid :: "texts \<Rightarrow> (jstr \<Rightarrow> bool) \<Rightarrow> users_data \<Rightarrow> editor \<Rightarrow> user_act node" where
  "perm_grid tr sensitive D E = h ''div'' [cls ''perm-grid''] [CList (map (\<lambda>(g, ps). CList
     [CNode (h ''div'' [cls ''perm-group-title''] [CText (said_j tr ((lit ''users.permGroups.'') @ g))]), CList (map (\<lambda>p. CNode (perm_item tr sensitive E p)) ps)])
     (perm_groups (ud_permissions D)))]"

definition inst_list :: "texts \<Rightarrow> (jstr \<Rightarrow> jstr) \<Rightarrow> editor \<Rightarrow> user_act node" where
  "inst_list tr inst_name E = hide (\<not> ef_some E) (h ''div'' [cls ''inst-list''] [if ef_insts E = []
     then CNode (h ''span'' [cls ''muted''] [CText (said tr ''users.noInstances'')])
     else CList (map (\<lambda>(i, v). CNode (h ''label'' [cls ''nt-check''] [CNode (put_prop ''checked'' (ABool v) (h ''input'' [s_attr ''type'' ''checkbox''] [])),
       CNode (h ''span'' [] [CText (inst_name i)])])) (ef_insts E))])"

definition scope_block :: "texts \<Rightarrow> (jstr \<Rightarrow> jstr) \<Rightarrow> editor \<Rightarrow> user_act node" where
  "scope_block tr inst_name E = hide (ef_role E = (lit ''admin'')) (h ''div'' [cls ''field'']
     [CNode (h ''span'' [cls ''field-label''] [CText (said tr ''users.instancesLabel'')]),
      CNode (segmented [((lit ''all''), said tr ''users.allInstances'', []), ((lit ''some''), said tr ''users.someInstances'', [])] (if ef_some E then (lit ''some'') else (lit ''all''))
        Scope_chosen (Some (said tr ''users.instancesLabel''))),
      CNode (inst_list tr inst_name E),
      CNode (hide (\<not> ef_some E) (callout (plain_callout\<lparr>co_type := ''neutral'', co_compact := True, co_text := CText (said tr ''users.scopeNote'')\<rparr>)))])"

text \<open>The errors shown, of the name, of the password and of the address: the checks in turn, each one changed only
  when it is reached.\<close>

type_synonym user_errors = "jstr option \<times> jstr option \<times> jstr option"

definition user_errors :: "texts \<Rightarrow> editor \<Rightarrow> user_errors \<Rightarrow> user_errors" where
  "user_errors tr E shown = (case shown of (_, pass, mail) \<Rightarrow>
     (let name_bad = (trim (ef_username E) = []); short = (wants_password E \<and> length (ef_password E) < 12)
      in (Some (if name_bad then said tr ''validation.required'' else []),
          if name_bad \<or> \<not> wants_password E then pass else Some (if short then said tr ''settings.security.tooShort'' else []),
          if name_bad \<or> short \<or> \<not> wants_email E then mail else Some (if trim (ef_email E) = [] then said tr ''validation.required'' else []))))"

definition user_form :: "texts \<Rightarrow> (jstr \<Rightarrow> jstr) \<Rightarrow> (jstr \<Rightarrow> bool) \<Rightarrow> users_data \<Rightarrow> editor \<Rightarrow> user_errors \<Rightarrow> nat \<Rightarrow> user_act node \<times> nat" where
  "user_form tr inst_name sensitive D E errs seq =
     (let isNew = (ef_account E = None);
          (passF, s1) = field (said tr) (hinted (said tr (if isNew then ''users.password'' else ''users.newPassword'')) (said tr ''users.passwordHint''))
            (secretInput (said tr) Eye_shown [s_attr ''autocomplete'' ''new-password'', (''placeholder'', AText (if isNew then [] else said tr ''users.keepPassword''))]) seq;
          (mailF, s2) = field (said tr) (hinted (said tr ''users.email'') (said tr ''users.emailHint''))
            (put_prop ''disabled'' (ABool (email_disabled E)) (input [(''value'', AText (ef_email E)), s_attr ''type'' ''email'', s_attr ''autocomplete'' ''off'', s_attr ''spellcheck'' ''false'',
              s_attr ''placeholder'' ''prenom.nom@exemple.fr''])) s1;
          (nameF, s3) = field (said tr) (plain_field (said tr ''users.username''))
            (input [(''value'', AText (ef_username E)), (''maxLength'', ANum (lit ''64'')), s_attr ''autocomplete'' ''off'', s_attr ''spellcheck'' ''false'']) s2;
          role = put_attr ''id'' ((lit ''us-role'')) (add_listener ''change'' Role_chosen (select (map (\<lambda>r. (lit r, role_name tr (lit r))) [''admin'', ''operator'', ''viewer'', ''custom'']) (Some (ef_role E)) []))
      in (form_node ''us-form'' User_submitted
         [when_child isNew (CNode (h ''div'' [cls ''field''] [CNode (h ''span'' [cls ''field-label''] [CText (said tr ''users.source'')]),
            CNode (segmented [((lit ''local''), said tr ''users.sourceLocal'', []), ((lit ''oidc''), (lit ''OpenID Connect''), [])] (ef_source E) Source_picked (Some (said tr ''users.source'')))])),
          CNode (h ''div'' [cls ''form-grid''] [CNode (with_error (fst errs) nameF), CNode (hide (ef_source E \<noteq> (lit ''local'')) (with_error (fst (snd errs)) passF)),
            CNode (hide (ef_source E \<noteq> (lit ''oidc'')) (with_error (snd (snd errs)) mailF))]),
          CNode (h ''div'' [cls ''field''] [CNode (h ''label'' [cls ''field-label'', s_attr ''for'' ''us-role''] [CText (said tr ''users.role'')]), CNode role,
            CNode (put_text (said_j tr ((lit ''users.roleHints.'') @ ef_role E)) (h ''p'' [cls ''field-hint''] []))]),
          CNode (perm_grid tr sensitive D E), CNode (scope_block tr inst_name E),
          CNode (switchRow (said tr ''users.enabled'') (Some (said tr ''users.enabledDesc'')) (plain_switch\<lparr>so_checked := ef_enabled E\<rparr>)),
          (case ef_account E of Some u \<Rightarrow> (if u_passkeys u \<noteq> 0 then CNode (switchRow (tr ''users.removePasskeys'' [(''count'', digits (u_passkeys u))])
              (Some (said tr ''users.removePasskeysDesc'')) (plain_switch\<lparr>so_checked := ef_drop_passkeys E\<rparr>)) else CNull) | None \<Rightarrow> CNull)], s3))"

definition user_foot :: "texts \<Rightarrow> account option \<Rightarrow> user_act child list" where
  "user_foot tr a = [CNode (button (said tr ''common.cancel'') (plain_btn\<lparr>bo_click := Some Us_cancel\<rparr>)), CNode (submit_button tr (if a = None then ''users.create'' else ''common.save'') ''us-form'')]"

text \<open>Without an instance nothing is sent, and a message says so.\<close>

definition refused_toast :: "texts \<Rightarrow> editor \<Rightarrow> (jstr \<times> string) option" where
  "refused_toast tr E = (if account_error E = Some No_instance then Some (said tr ''users.pickInstance'', ''error'') else None)"


subsection \<open>The form\<close>

definition mono_text :: "jstr \<Rightarrow> (string \<times> user_act attr) list \<Rightarrow> user_act node" where
  "mono_text v attrs = input ([(''value'', AText v), (''mono'', ABool True), s_attr ''spellcheck'' ''false''] @ attrs)"

definition group_row :: "texts \<Rightarrow> nat \<Rightarrow> jstr \<times> jstr \<Rightarrow> user_act node" where
  "group_row tr i gr = h ''div'' [cls ''kv-row'']
     [CNode (mono_text (fst gr) [s_attr ''placeholder'' ''frp-admins'', (''aria-label'', AText (said tr ''users.oidc.group''))]),
      CNode (select (map (\<lambda>r. (lit r, role_name tr (lit r))) [''admin'', ''operator'', ''viewer'']) (Some (snd gr)) [(''aria-label'', AText (said tr ''users.role''))]),
      CNode (button [] (plain_btn\<lparr>bo_variant := ''ghost-danger'', bo_size := ''sm'', bo_icon := ''trash'', bo_title := Some (said tr ''common.delete''), bo_click := Some (Group_removed i)\<rparr>))]"

definition add_group :: "oidc_form \<Rightarrow> oidc_form" where
  "add_group F = F\<lparr>oi_rows := oi_rows F @ [([], (lit ''viewer''))]\<rparr>"

definition remove_group :: "nat \<Rightarrow> oidc_form \<Rightarrow> oidc_form" where
  "remove_group i F = F\<lparr>oi_rows := take i (oi_rows F) @ drop (Suc i) (oi_rows F)\<rparr>"

definition secret_placeholder :: "texts \<Rightarrow> bool \<Rightarrow> jstr" where
  "secret_placeholder tr has_secret = said tr (if has_secret then ''users.oidc.keepSecret'' else ''users.oidc.noSecret'')"

text \<open>The copy button copies the address the form was made with, not the one typed since.\<close>

definition redirect_copied :: "jstr list oidc_config \<Rightarrow> jstr \<Rightarrow> jstr" where
  "redirect_copied c default_redirect = text_or (one_line (oc_redirect_uri c)) default_redirect"

definition provider_form :: "texts \<Rightarrow> bool \<Rightarrow> jstr \<Rightarrow> oidc_form \<Rightarrow> nat \<Rightarrow> user_act node \<times> nat" where
  "provider_form tr has_secret default_redirect F seq =
     (let (f1, s1) = field (said tr) (hinted (said tr ''users.oidc.issuer'') (said tr ''users.oidc.issuerHint''))
            (mono_text (oi_issuer F) [s_attr ''placeholder'' ''https://auth.exemple.fr/realms/maison'']) seq;
          (f2, s2) = field (said tr) (plain_field (said tr ''users.oidc.clientId'')) (mono_text (oi_client_id F) []) s1;
          (f3, s3) = field (said tr) (hinted (said tr ''users.oidc.clientSecret'') (said tr ''users.oidc.clientSecretHint''))
            (secretInput (said tr) Eye_shown [(''placeholder'', AText (secret_placeholder tr has_secret))]) s2;
          (f4, s4) = field (said tr) ((hinted (said tr ''users.oidc.label'') (said tr ''users.oidc.labelHint''))\<lparr>fo_optional := True\<rparr>)
            (input [(''value'', AText (oi_label F)), (''maxLength'', ANum (lit ''40'')), (''placeholder'', AText ((lit ''Keycloak, Authentik, Google'') @ [8230]))]) s3;
          (f5, s5) = field (said tr) (plain_field (said tr ''users.oidc.scopes'')) (mono_text (oi_scopes F) []) s4;
          (f6, s6) = field (said tr) (plain_field (said tr ''users.oidc.usernameClaim'')) (mono_text (oi_username_claim F) []) s5;
          (f7, s7) = field (said tr) (hinted (said tr ''users.oidc.defaultRole'') (said tr ''users.oidc.defaultRoleHint''))
            (select (map (\<lambda>r. (lit r, role_name tr (lit r))) [''viewer'', ''operator'']) (Some (oi_default_role F)) []) s6;
          (f8, s8) = field (said tr) ((hinted (said tr ''users.oidc.domains'') (said tr ''users.oidc.domainsHint''))\<lparr>fo_optional := True\<rparr>)
            (mono_text (oi_domains F) [s_attr ''placeholder'' ''exemple.fr'']) s7;
          (f9, s9) = field (said tr) (plain_field (said tr ''users.oidc.groupsClaim'')) (mono_text (oi_groups_claim F) []) s8
      in (form_node ''oidc-form'' Provider_submitted
         [CNode (switchRow (said tr ''users.oidc.enable'') (Some (said tr ''users.oidc.enableDesc'')) (plain_switch\<lparr>so_checked := oi_enabled F\<rparr>)),
          CNode (h ''div'' [cls ''form-grid''] [CNode f1, CNode f2, CNode f3]),
          CNode (h ''div'' [cls ''field''] [CNode (h ''span'' [cls ''field-label''] [CText (said tr ''users.oidc.redirect'')]),
            CNode (h ''div'' [cls ''input-group''] [CNode (mono_text (oi_redirect F) [(''placeholder'', AText default_redirect)]), CNode (copyButton (said tr) Redirect_copied)]),
            CNode (h ''p'' [cls ''field-hint''] [CText (said tr ''users.oidc.redirectHint'')])]),
          CNode (h ''div'' [cls ''form-grid''] [CNode f4, CNode f5, CNode f6]),
          CNode (switchRow (said tr ''users.oidc.autoCreate'') (Some (said tr ''users.oidc.autoCreateDesc'')) (plain_switch\<lparr>so_checked := oi_auto_create F\<rparr>)),
          CNode (h ''div'' [cls ''form-grid''] [CNode f7, CNode f8, CNode f9]),
          CNode (h ''div'' [cls ''field''] [CNode (h ''span'' [cls ''field-label''] [CText (said tr ''users.oidc.groupRoles'')]),
            CNode (h ''div'' [cls ''kv-rows''] [CList (map (\<lambda>(i, gr). CNode (group_row tr i gr)) (zip [0..<length (oi_rows F)] (oi_rows F)))]),
            CNode (h ''div'' [] [CNode (button (said tr ''users.oidc.addGroup'') (plain_btn\<lparr>bo_size := ''sm'', bo_icon := ''plus'', bo_click := Some Group_added\<rparr>))]),
            CNode (h ''p'' [cls ''field-hint''] [CText (said tr ''users.oidc.groupRolesHint'')])])], s9))"

definition provider_card :: "texts \<Rightarrow> bool \<Rightarrow> jstr \<Rightarrow> oidc_form \<Rightarrow> nat \<Rightarrow> user_act node \<times> nat" where
  "provider_card tr has_secret default_redirect F seq = (case provider_form tr has_secret default_redirect F seq of (f, s1) \<Rightarrow>
     (card_box (plain_card\<lparr>ca_body := CNode f, ca_foot := CList
        [CNode (button (said tr ''users.oidc.test'') (plain_btn\<lparr>bo_icon := ''globe'', bo_click := Some Provider_tested\<rparr>)), CNode (submit_button tr ''common.save'' ''oidc-form'')]\<rparr>), s1))"

definition provider_error :: "texts \<Rightarrow> jstr \<Rightarrow> user_act node" where
  "provider_error tr m = callout (plain_callout\<lparr>co_type := ''danger'', co_title := Some (said tr ''users.oidc.loadError''), co_text := CText m\<rparr>)"

text \<open>The test of the provider sends the address typed; its message is that of the server.\<close>

definition provider_test :: "oidc_form \<Rightarrow> jstr" where
  "provider_test F = trim (oi_issuer F)"

definition tested_message :: "texts \<Rightarrow> reply \<Rightarrow> jstr \<times> string" where
  "tested_message tr r = (case r of Inr (ok, msg) \<Rightarrow> (or_text msg [], if ok then ''success'' else ''error'') | Inl m \<Rightarrow> reply_message tr (Inl m) [])"

text \<open>After saving: the secret typed goes, and its hint follows the answer (\<open>has_secret\<close>).\<close>

definition provider_saved :: "reply \<Rightarrow> bool \<Rightarrow> oidc_form \<times> bool \<Rightarrow> oidc_form \<times> bool" where
  "provider_saved r has_secret Fh = (if reply_ok r then ((fst Fh)\<lparr>oi_secret := []\<rparr>, has_secret) else Fh)"

subsection \<open>Boxes\<close>

lemma perm_groups_all: "concat (map snd (perm_groups ps)) = ps"
  by (induction ps) (auto simp: Let_def split: list.splits)

lemma perm_groups_named: "(g, qs) \<in> set (perm_groups ps) \<Longrightarrow> qs \<noteq> [] \<and> (\<forall>p\<in>set qs. hd (split_on c_dot (pm_id p)) = g)"
proof (induction ps arbitrary: g qs)
  case (Cons p ps)
  note prems = Cons.prems and IH = Cons.IH
  show ?case
  proof (cases "perm_groups ps")
    case Nil
    with prems show ?thesis by simp
  next
    case (Cons x r)
    then have "fst x = g' \<Longrightarrow> \<forall>q\<in>set (snd x). hd (split_on c_dot (pm_id q)) = g'" for g'
      using IH [of "fst x" "snd x"] by (cases x) auto
    with Cons prems IH show ?thesis by (cases x) (auto simp: Let_def split: if_splits)
  qed
qed simp

text \<open>No two groups in a row have the same name.\<close>

lemma perm_groups_apart: "successively (\<lambda>x y. fst x \<noteq> fst y) (perm_groups ps)"
proof (induction ps)
  case (Cons p ps)
  note IH = Cons.IH
  show ?case
  proof (cases "perm_groups ps")
    case (Cons x r)
    then show ?thesis using IH by (cases x; cases r) (auto simp: Let_def)
  qed (simp add: Let_def)
qed simp

lemma box_state_kept: "distinct (map bx_id (ef_boxes E)) \<Longrightarrow> b \<in> set (ef_boxes E) \<Longrightarrow> box_state E (bx_id b) = b"
proof -
  assume d: "distinct (map bx_id (ef_boxes E))" and b: "b \<in> set (ef_boxes E)"
  have "find (\<lambda>x. bx_id x = bx_id b) bs = Some b" if "distinct (map bx_id bs)" "b \<in> set bs" for bs
    using that by (induction bs) auto
  then show ?thesis using d b by (simp add: box_state_def)
qed

text \<open>A box that is dimmed cannot be changed.\<close>

lemma dimmed_disabled:
  assumes "b \<in> set (ef_boxes (syncPerms D E))"
  shows "box_dimmed (syncPerms D E) b \<longrightarrow> bx_disabled b"
  using assms by (auto simp: syncPerms_def sync_box_def box_dimmed_def restricted_def Let_def)

subsection \<open>Rows\<close>

lemma opened_editable: "open_account D i = Some u \<Longrightarrow> editable D u \<and> u_id u = i \<and> u \<in> set (ud_users D)"
  by (auto simp: open_account_def dest!: find_Some_iff [THEN iffD1] split: option.splits if_splits)

lemma added_group_removed: "remove_group (length (oi_rows F)) (add_group F) = F"
  by (simp add: remove_group_def add_group_def)

text \<open>An error is shown only for what is checked, and what is sent shows none.\<close>

lemma sent_without_errors: "submit_user E = Inr body \<Longrightarrow> fst (user_errors tr E sh) = Some []
    \<and> (wants_password E \<longrightarrow> fst (snd (user_errors tr E sh)) = Some []) \<and> (wants_email E \<longrightarrow> snd (snd (user_errors tr E sh)) = Some [])"
  by (cases sh) (auto simp: submit_user_def account_error_def user_errors_def Let_def split: if_splits option.splits)

end
