(* ===== verification/View_Updates.thy ===== *)
theory View_Updates imports Page_Updates View_Base begin

text \<open>
  What the updates show and do (\<open>pages/updates.js\<close>): the cards of frp and of the panel, the manual installation, the
  test of the sources, as element trees; and what installing does, in order, from the confirmation and the answers.
\<close>

datatype update_act = Check_frp | Install_frp | Upload_frp | Test_sources | Check_panel | Update_panel | Command_copied

subsection \<open>Cells of versions\<close>

definition j_texts :: "texts \<Rightarrow> translator" where
  "j_texts tr k ps = tr (map char_of k) (map (\<lambda>(x, v). (map char_of x, v)) ps)"

definition version_cell :: "texts \<Rightarrow> string \<Rightarrow> update_act node \<Rightarrow> update_act child" where
  "version_cell tr key dd = CNode (h ''div'' [cls ''version-cell''] [CNode (h ''dt'' [] [CText (said tr key)]), CNode dd])"

text \<open>\<open>asked\<close> is whether a check has begun: the state is then a badge; \<open>source\<close> is where the last version comes from.\<close>

definition setStatus :: "jstr \<Rightarrow> jstr \<Rightarrow> update_act child list" where
  "setStatus kind text = [CNode (h ''span'' [(''class'', AText ((lit ''badge badge-'') @ kind))] [CText text])]"

definition versionCells :: "texts \<Rightarrow> bool \<Rightarrow> jstr option \<Rightarrow> cells \<Rightarrow> update_act node" where
  "versionCells tr asked source c = h ''dl'' [cls ''versions'']
     [version_cell tr ''updates.installed'' (h ''dd'' [] [CText (ce_installed c)]),
      version_cell tr ''updates.latest'' (h ''dd'' (case source of Some s \<Rightarrow> [(''title'', AText (tr ''updates.source'' [(''source'', text_or s [8212])]))] | None \<Rightarrow> []) [CText (ce_latest c)]),
      version_cell tr ''updates.status'' (h ''dd'' [(''style'', AStyle [(''fontFamily'', (lit ''var(--font-sans)'')), (''fontSize'', (lit ''14px''))])]
        (if asked then setStatus (ce_kind c) (ce_status c) else [CText (ce_status c)]))]"

text \<open>The log of an installation, once there is one.\<close>

definition log_box :: "texts \<Rightarrow> jstr list option \<Rightarrow> update_act node" where
  "log_box tr lines = hide (lines = None) (h ''div'' [cls ''field'', (''hidden'', ABool True)]
     [CNode (h ''span'' [cls ''field-label''] [CText (said tr ''updates.log'')]),
      CNode (h ''pre'' [cls ''term'', (''data-empty'', AText (said tr ''updates.logEmpty'')), s_attr ''aria-live'' ''polite'']
        [CList (map (\<lambda>(c, t). CNode (h ''span'' [(''class'', AText c)] [CText t])) (renderLog (case lines of Some ls \<Rightarrow> ls | None \<Rightarrow> [])))])])"

definition check_button :: "texts \<Rightarrow> update_act \<Rightarrow> update_act node" where
  "check_button tr act = button (said tr ''updates.check'') (plain_btn\<lparr>bo_icon := ''refresh'', bo_click := Some act\<rparr>)"

subsection \<open>frp\<close>

text \<open>The button is made once with its first text; the check gives it another.\<close>

definition install_button :: "texts \<Rightarrow> jstr option \<Rightarrow> update_act node" where
  "install_button tr offer = hide (offer = None) (button (case offer of Some t \<Rightarrow> t | None \<Rightarrow> said tr ''updates.install'')
     (plain_btn\<lparr>bo_variant := ''primary'', bo_icon := ''download'', bo_click := Some Install_frp\<rparr>))"

definition frpCard :: "texts \<Rightarrow> bool \<Rightarrow> jstr option \<Rightarrow> jstr list option \<Rightarrow> frp_card \<Rightarrow> update_act node" where
  "frpCard tr asked source lines C = card_box (plain_card\<lparr>ca_title := Some (said tr ''updates.frpTitle''), ca_description := Some (said tr ''updates.frpDesc''),
     ca_body := CNode (h ''div'' [cls ''form-stack''] [CNode (versionCells tr asked source (fc_cells C)), CNode (log_box tr lines)]),
     ca_foot := CList [CNode (check_button tr Check_frp), CNode (install_button tr (fc_install C))]\<rparr>)"

datatype update_effect = Install_request | Upload_request | Update_request | Notice "jstr \<times> string" | Follow_log | Ask_status | Check_again | Reload_in nat | Give_back

text \<open>The end of an installation that is followed; a page that was left stops without a word.\<close>

definition after_log :: "texts \<Rightarrow> bool \<Rightarrow> follow \<Rightarrow> update_effect list" where
  "after_log tr again f = (case f of
     Ended ok \<Rightarrow> [Notice (if ok then (said tr ''updates.installDone'', ''success'') else (said tr ''updates.installFailed'', ''error'')), Ask_status]
       @ (if again then [Check_again] else [])
   | _ \<Rightarrow> [])"

definition refused_install :: "texts \<Rightarrow> reply \<Rightarrow> jstr \<times> string" where
  "refused_install tr r = (case r of Inr (ok, msg) \<Rightarrow> (or_text msg [], ''error'') | Inl m \<Rightarrow> reply_message tr (Inl m) [])"

definition install :: "texts \<Rightarrow> bool \<Rightarrow> reply \<Rightarrow> follow \<Rightarrow> update_effect list" where
  "install tr confirmed r f = (if \<not> confirmed then []
     else Install_request # (if \<not> reply_ok r then [Notice (refused_install tr r)]
       else [Notice (said tr ''updates.installing'', ''info''), Follow_log] @ after_log tr True f))"

definition upload_flow :: "texts \<Rightarrow> 'f option \<Rightarrow> jstr \<Rightarrow> reply \<Rightarrow> follow \<Rightarrow> update_effect list" where
  "upload_flow tr file version0 r f = (case upload file version0 of
     Inl No_file \<Rightarrow> [Notice (said tr ''updates.manualNoFile'', ''error'')]
   | Inl No_version \<Rightarrow> [Notice (said tr ''updates.manualNoVersion'', ''error'')]
   | Inr x \<Rightarrow> Upload_request # (if \<not> reply_ok r then [Notice (refused_install tr r)]
       else [Notice (said tr ''updates.installing'', ''info''), Follow_log] @ after_log tr False f))"

definition install_texts :: "texts \<Rightarrow> jstr \<times> jstr \<times> jstr" where
  "install_texts tr = (said tr ''updates.installConfirmTitle'', said tr ''updates.installConfirmText'', said tr ''updates.install'')"

subsection \<open>Manual installation and sources\<close>

definition disclosure :: "texts \<Rightarrow> string \<Rightarrow> string \<Rightarrow> update_act child list \<Rightarrow> update_act node" where
  "disclosure tr title hint body = h ''details'' [cls ''disclosure'']
     [CNode (h ''summary'' [] [CNode (icon ''chevron-down'' []), CText (said tr title), CNode (h ''span'' [cls ''summary-hint''] [CText (said tr hint)])]),
      CNode (h ''div'' [cls ''disclosure-body''] body)]"

definition manualCard :: "texts \<Rightarrow> nat \<Rightarrow> update_act node \<times> nat" where
  "manualCard tr seq =
     (let releases = h ''a'' [s_attr ''href'' ''https://github.com/fatedier/frp/releases'', s_attr ''target'' ''_blank'', s_attr ''rel'' ''noopener''] [CText ((lit ''github.com/fatedier/frp/releases''))];
          (f1, s1) = field (said tr) (plain_field (said tr ''updates.manualVersion''))
            (input [s_attr ''placeholder'' ''0.68.1'', (''mono'', ABool True), (''style'', AStyle [(''maxWidth'', (lit ''160px''))])]) seq;
          (f2, s2) = field (said tr) (plain_field (said tr ''updates.manualFile'')) (h ''input'' [s_attr ''type'' ''file'', cls ''input'', s_attr ''accept'' ''.tar.gz,.gz''] []) s1
      in (disclosure tr ''updates.manualTitle'' ''updates.manualHint''
         [CNode (h ''p'' [cls ''field-hint'', (''style'', AStyle [(''fontSize'', (lit ''13.5px''))])]
            [CText (said tr ''updates.manualText1''), CText [c_sp], CNode releases, CText (said tr ''updates.manualText2'')]),
          CNode (h ''div'' [cls ''form-grid'', (''style'', AStyle [(''gridTemplateColumns'', (lit ''minmax(0,160px) minmax(0,1fr)''))])] [CNode f1, CNode f2]),
          CNode (h ''div'' [] [CNode (button (said tr ''updates.manualInstall'') (plain_btn\<lparr>bo_variant := ''primary'', bo_icon := ''upload'', bo_click := Some Upload_frp\<rparr>))])], s2))"

text \<open>What the test of the sources shows: nothing yet or after a failure, while it runs, and its answer.\<close>

datatype sources_state = Sources_empty | Sources_testing | Sources_answer "(jstr \<times> bool \<times> jstr \<times> jstr) list"

definition source_node :: "jstr \<times> bool \<times> jstr \<Rightarrow> update_act node" where
  "source_node s = (case s of (name, ok, text) \<Rightarrow> h ''div'' [cls (if ok then ''source ok'' else ''source ko'')]
     [CNode (icon (if ok then ''check-circle'' else ''alert'') []),
      CNode (h ''div'' [(''style'', AStyle [(''minWidth'', (lit ''0''))])] [CNode (h ''div'' [cls ''source-name''] [CText name]), CNode (h ''div'' [cls ''source-meta''] [CText text])])])"

definition sources_nodes :: "texts \<Rightarrow> sources_state \<Rightarrow> update_act child list" where
  "sources_nodes tr st = (case st of Sources_empty \<Rightarrow> []
   | Sources_testing \<Rightarrow> [CNode (h ''p'' [cls ''muted''] [CText (said tr ''updates.connTesting'')])]
   | Sources_answer ss \<Rightarrow> (case connectivity (j_texts tr) ss of None \<Rightarrow> [CNode (h ''p'' [cls ''muted''] [CText (said tr ''updates.connNone'')])]
       | Some xs \<Rightarrow> map (\<lambda>x. CNode (source_node x)) xs))"

definition connectivityCard :: "texts \<Rightarrow> sources_state \<Rightarrow> update_act node" where
  "connectivityCard tr st = disclosure tr ''updates.connTitle'' ''updates.connHint''
     [CNode (h ''div'' [] [CNode (button (said tr ''updates.connTest'') (plain_btn\<lparr>bo_icon := ''globe'', bo_click := Some Test_sources\<rparr>))]),
      CNode (h ''div'' [cls ''source-grid''] (sources_nodes tr st))]"

subsection \<open>Panel\<close>

definition DOCKER_PULL :: jstr where
  "DOCKER_PULL = (lit ''docker pull ghcr.io/gogowwww/frp-manager:latest'')"

definition extra_nodes :: "texts \<Rightarrow> extra \<Rightarrow> update_act child list" where
  "extra_nodes tr e = (case e of
     Prerelease_docker \<Rightarrow> [CNode (callout (plain_callout\<lparr>co_compact := True, co_text := CText (said tr ''updates.prereleaseDockerText'')\<rparr>))]
   | Prerelease_channel \<Rightarrow> [CNode (callout (plain_callout\<lparr>co_compact := True, co_text := CText (said tr ''updates.prereleaseChannel'')\<rparr>))]
   | Docker_command \<Rightarrow> [CNode (callout (plain_callout\<lparr>co_type := ''warn'', co_compact := True, co_icon := ''box'', co_title := Some (said tr ''updates.panelDockerTitle''),
         co_text := CText (said tr ''updates.panelDockerText'')\<rparr>)),
       CNode (h ''div'' [cls ''code-block''] [CNode (h ''code'' [] [CText DOCKER_PULL]), CNode (copyButton (said tr) Command_copied)])])"

definition release_link :: "texts \<Rightarrow> jstr option \<Rightarrow> update_act node" where
  "release_link tr url = hide (url = None) (h ''a'' [cls ''btn btn-ghost'', s_attr ''target'' ''_blank'', s_attr ''rel'' ''noopener'', (''hidden'', ABool True), (''href'', opt_attr url)]
     [CNode (icon ''external'' []), CText (said tr ''updates.releaseNotes'')])"

text \<open>\<open>given_back\<close> is whether the button can be used: it stays busy from the request to an error.\<close>

definition update_button :: "texts \<Rightarrow> bool \<Rightarrow> bool \<Rightarrow> update_act node" where
  "update_button tr shown given_back = (let b = hide (\<not> shown) (button (said tr ''updates.panelUpdate'')
       (plain_btn\<lparr>bo_variant := ''primary'', bo_icon := ''download'', bo_click := Some Update_panel\<rparr>)) in if given_back then b else busy_start b)"

definition panelCard :: "texts \<Rightarrow> bool \<Rightarrow> jstr list option \<Rightarrow> bool \<Rightarrow> panel_card \<Rightarrow> update_act node" where
  "panelCard tr asked lines given_back C = card_box (plain_card\<lparr>ca_title := Some (said tr ''updates.panelTitle''), ca_description := Some (said tr ''updates.panelDesc''),
     ca_body := CNode (h ''div'' [cls ''form-stack''] [CNode (versionCells tr asked None (pc_cells C)), CNode (h ''div'' [cls ''form-stack''] (concat (map (extra_nodes tr) (pc_extra C)))), CNode (log_box tr lines)]),
     ca_foot := CList [CNode (release_link tr (pc_release C)), CNode (check_button tr Check_panel), CNode (update_button tr (pc_update C) given_back)]\<rparr>)"

definition panel_texts :: "texts \<Rightarrow> jstr \<times> jstr \<times> jstr" where
  "panel_texts tr = (said tr ''updates.panelConfirmTitle'', said tr ''updates.panelConfirmText'', said tr ''updates.panelUpdate'')"

definition after_panel_log :: "texts \<Rightarrow> panel_follow \<Rightarrow> update_effect list" where
  "after_panel_log tr f = (case f of Reloads \<Rightarrow> [Notice (said tr ''updates.panelRestarting'', ''info''), Reload_in 4000] | Button_back \<Rightarrow> [Give_back] | _ \<Rightarrow> [])"

definition update_panel :: "texts \<Rightarrow> bool \<Rightarrow> reply \<Rightarrow> panel_follow \<Rightarrow> update_effect list" where
  "update_panel tr confirmed r f = (if \<not> confirmed then []
     else Update_request # (if \<not> reply_ok r then [Notice (refused_install tr r), Give_back]
       else [Notice (said tr ''updates.panelUpdating'', ''info''), Follow_log] @ after_panel_log tr f))"

subsection \<open>The section\<close>

definition updates_section :: "texts \<Rightarrow> store \<Rightarrow> update_act node \<Rightarrow> update_act node \<Rightarrow> update_act node \<Rightarrow> update_act node \<Rightarrow> update_act node list" where
  "updates_section tr S frp_card' panel_card' manual_card connectivity_card =
     (if st_inDocker S \<and> \<not> st_standalone S
      then [callout (plain_callout\<lparr>co_type := ''warn'', co_compact := True, co_icon := ''box'', co_title := Some (said tr ''updates.dockerTitle''), co_text := CText (said tr ''updates.dockerText'')\<rparr>), panel_card']
      else (if st_standalone S then [callout (plain_callout\<lparr>co_compact := True, co_icon := ''box'', co_title := Some (said tr ''updates.standaloneTitle''), co_text := CText (said tr ''updates.standaloneText'')\<rparr>)] else [])
        @ [h ''div'' [cls ''grid-2 card-pair update-cards''] [CNode frp_card', CNode panel_card'],
           h ''section'' [] [CNode (h ''div'' [cls ''section-head''] [CNode (h ''div'' []
               [CNode (h ''h3'' [cls ''section-title''] [CText (said tr ''updates.toolsTitle'')]), CNode (h ''p'' [cls ''section-desc''] [CText (said tr ''updates.toolsDesc'')])])]),
             CNode (h ''div'' [cls ''card''] [when_child (can (lit ''updates.install'') S) (CNode manual_card), CNode connectivity_card])]])"

subsection \<open>What is offered and given back\<close>

text \<open>The button that installs is hidden without an offer, and an account that may not install has no manual
  installation either.\<close>

lemma install_hidden: "is_hidden (install_button tr None)"
  by (simp add: install_button_def hide_def is_hidden_def put_prop_def change_info_def node_prop_def button_def h_def)

text \<open>A busy button comes back after a refusal, an exception or an error in the log; after the message of the restart
  the page is loaded again instead.\<close>

lemma given_back_iff: "Give_back \<in> set (update_panel tr True r f) \<longleftrightarrow> \<not> reply_ok r \<or> f = Button_back"
  by (auto simp: update_panel_def after_panel_log_def split: panel_follow.splits)

lemma reloaded_iff: "Reload_in 4000 \<in> set (update_panel tr True r f) \<longleftrightarrow> reply_ok r \<and> f = Reloads"
  by (auto simp: update_panel_def after_panel_log_def split: panel_follow.splits)

lemma nothing_unconfirmed: "install tr False r f = []" "update_panel tr False r g = []"
  by (simp_all add: install_def update_panel_def)

end
