(* ===== verification/Page_Tunnels_Sessions.thy ===== *)
theory Page_Tunnels_Sessions imports Page_Tunnels "HOL-Library.Code_Target_Nat" begin

text \<open>
  The tunnels page and the server over time (\<open>mount\<close>, \<open>load\<close>, \<open>save\<close>, \<open>discard\<close> of \<open>pages/tunnels.js\<close>): requests that
  are under way, answers in any order, another instance chosen meanwhile. A handler that waits for an answer goes on with
  the draft and the instance of that moment (\<open>S.iid\<close>, \<open>S.proxies\<close>), whatever they were when it asked. The last fields
  are only observed: whose file the draft and the text kept were read from, whether the last reading succeeded, and for
  each configuration sent the instance it goes to, whose file it completes, whose draft it has and whether the file of
  the instance was read, then or when the page was loaded. The account may write, frpc is not in a container;
  \<open>loadStatus\<close> and \<open>restartFrpc\<close>, which change neither, are in \<open>View_Tunnels\<close>.
\<close>

datatype pending = Load_of jstr bool | Reread_of jstr | Post_of jstr jstr jstr

record sent_config =
  w_to :: jstr
  w_base :: jstr
  w_draft :: jstr
  w_read :: bool

record session =
  ss_iid :: jstr
  ss_page :: tpage
  ss_bar :: bool
  ss_uid :: nat
  ss_asked :: "pending list"
  ss_files :: "(jstr \<times> jstr) list"
  ss_base :: jstr
  ss_draft :: jstr
  ss_read :: bool
  ss_writes :: "sent_config list"

definition ask :: "pending \<Rightarrow> session \<Rightarrow> session" where
  "ask p S = S\<lparr>ss_asked := ss_asked S @ [p]\<rparr>"

definition ask_load :: "bool \<Rightarrow> session \<Rightarrow> session" where
  "ask_load discarded S = ask (Load_of (ss_iid S) discarded) (S\<lparr>ss_page := (ss_page S)\<lparr>tp_baseFix := False\<rparr>\<rparr>)"

text \<open>\<open>render\<close>: the bar that saves is shown when something is to be saved, and stays as it is until the next time.\<close>

definition render_bar :: "session \<Rightarrow> session" where
  "render_bar S = S\<lparr>ss_bar := isDirty_t True (ss_page S)\<rparr>"

text \<open>Another instance in the list: unsaved changes are asked about (\<open>leave\<close>), then it is loaded. Nothing of the page
  changes before the answer.\<close>

definition choose_iid :: "jstr \<Rightarrow> bool \<Rightarrow> session \<Rightarrow> session" where
  "choose_iid j leave S = (if isDirty_t True (ss_page S) \<and> \<not> leave then S else ask_load False (S\<lparr>ss_iid := j\<rparr>))"

definition click_save :: "session \<Rightarrow> session" where
  "click_save S = (if ss_bar S then ask (Reread_of (ss_iid S)) S else S)"

definition click_discard :: "session \<Rightarrow> session" where
  "click_discard S = (if ss_bar S then ask_load True (S\<lparr>ss_page := (ss_page S)\<lparr>tp_snapshot := None\<rparr>\<rparr>) else S)"

text \<open>Whatever the dialogs and the buttons of the rows make of the lists.\<close>

definition edit_draft :: "proxy list \<Rightarrow> visitor list \<Rightarrow> session \<Rightarrow> session" where
  "edit_draft ps vs S = render_bar (S\<lparr>ss_page := (ss_page S)\<lparr>tp_proxies := ps, tp_visitors := vs\<rparr>\<rparr>)"

text \<open>An answer: good, refused by the server, none at all, or lost once the server had done what was asked. After a
  configuration that was refused nothing is loaded again.\<close>

datatype reply_kind = Good | Refused | No_answer | Lost

definition loaded :: "jstr \<Rightarrow> bool \<Rightarrow> reply_kind \<Rightarrow> session \<Rightarrow> session" where
  "loaded i discarded a S =
     (let file = (if a = Good then map_of (ss_files S) i else None);
          (P, n) = load_t discarded (map_option (\<lambda>c. (c, False)) file) (ss_uid S) (ss_page S)
      in render_bar (S\<lparr>ss_page := P, ss_uid := n, ss_draft := i, ss_base := (if file = None then ss_base S else i), ss_read := (file \<noteq> None)\<rparr>))"

definition reread :: "jstr \<Rightarrow> reply_kind \<Rightarrow> session \<Rightarrow> session" where
  "reread i a S =
     (let current = (if a = Good then map_of (ss_files S) i else None); base = (if current = None then ss_base S else i)
      in case save_text current (ss_page S) of
          None \<Rightarrow> ask_load False S
        | Some c \<Rightarrow> ask (Post_of (ss_iid S) c base) (S\<lparr>ss_writes := ss_writes S @
            [\<lparr>w_to = ss_iid S, w_base = base, w_draft = ss_draft S, w_read = (current \<noteq> None \<or> ss_read S)\<rparr>]\<rparr>))"

definition posted_config :: "jstr \<Rightarrow> jstr \<Rightarrow> jstr \<Rightarrow> reply_kind \<Rightarrow> session \<Rightarrow> session" where
  "posted_config i c base a S =
     (let T = (if a = Good \<or> a = Lost then S\<lparr>ss_files := obj_set i c (ss_files S)\<rparr> else S)
      in case a of Good \<Rightarrow> ask_load False (T\<lparr>ss_page := saved_t c (ss_page T), ss_base := base\<rparr>)
         | Refused \<Rightarrow> T
         | No_answer \<Rightarrow> ask_load False T
         | Lost \<Rightarrow> ask_load False T)"

definition answered :: "nat \<Rightarrow> reply_kind \<Rightarrow> session \<Rightarrow> session" where
  "answered k a S0 =
     (let S = S0\<lparr>ss_asked := take k (ss_asked S0) @ drop (Suc k) (ss_asked S0)\<rparr>
      in case ss_asked S0 ! k of
          Load_of i d \<Rightarrow> loaded i d a S
        | Reread_of i \<Rightarrow> reread i a S
        | Post_of i c b \<Rightarrow> posted_config i c b a S)"

text \<open>\<open>waits\<close>: whether the user lets every answer come before choosing an instance, saving or giving up.\<close>

inductive session_step :: "bool \<Rightarrow> session \<Rightarrow> session \<Rightarrow> bool" for waits where
  session_choose: "\<not> waits \<or> ss_asked S = [] \<Longrightarrow> session_step waits S (choose_iid j leave S)"
| session_save: "\<not> waits \<or> ss_asked S = [] \<Longrightarrow> session_step waits S (click_save S)"
| session_discard: "\<not> waits \<or> ss_asked S = [] \<Longrightarrow> session_step waits S (click_discard S)"
| session_edit: "session_step waits S (edit_draft ps vs S)"
| session_answer: "k < length (ss_asked S) \<Longrightarrow> session_step waits S (answered k a S)"

definition blank_page :: tpage where
  "blank_page = \<lparr>tp_baseText = [], tp_serverAddr = [], tp_baseFix = False, tp_docker = False, tp_proxies = [], tp_visitors = [], tp_snapshot = None\<rparr>"

definition open_session :: "jstr \<Rightarrow> (jstr \<times> jstr) list \<Rightarrow> session" where
  "open_session i files = \<lparr>ss_iid = i, ss_page = blank_page, ss_bar = False, ss_uid = 0, ss_asked = [Load_of i False], ss_files = files,
     ss_base = i, ss_draft = i, ss_read = False, ss_writes = []\<rparr>"

subsection \<open>Waiting for the answers\<close>

text \<open>At most one request is under way, for the instance shown, and the draft is of that instance unless it is being
  read; so is the text kept, if the last reading succeeded.\<close>

definition own_read :: "session \<Rightarrow> bool" where
  "own_read S \<longleftrightarrow> ss_draft S = ss_iid S \<and> (ss_read S \<longrightarrow> ss_base S = ss_iid S)"

definition own_request :: "session \<Rightarrow> bool" where
  "own_request S \<longleftrightarrow> (case ss_asked S of [] \<Rightarrow> own_read S
     | [Load_of j d] \<Rightarrow> j = ss_iid S | [Reread_of j] \<Rightarrow> j = ss_iid S \<and> own_read S | [Post_of j c b] \<Rightarrow> j = ss_iid S \<and> own_read S | _ \<Rightarrow> False)"

definition own_write :: "sent_config \<Rightarrow> bool" where
  "own_write w \<longleftrightarrow> w_draft w = w_to w \<and> (w_read w \<longrightarrow> w_base w = w_to w)"

definition own_session :: "session \<Rightarrow> bool" where
  "own_session S \<longleftrightarrow> own_request S \<and> (\<forall>w\<in>set (ss_writes S). own_write w)"

lemmas own_defs = own_session_def own_request_def own_read_def own_write_def

lemma own_asked:
  assumes "own_session S" and "k < length (ss_asked S)"
  shows "\<exists>p. ss_asked S = [p] \<and> k = 0"
  using assms by (cases "ss_asked S" rule: list.exhaust; cases "tl (ss_asked S)") (auto simp: own_defs split: pending.splits)

lemma own_ask_load: "\<forall>w\<in>set (ss_writes S). own_write w \<Longrightarrow> ss_asked S = [] \<Longrightarrow> own_session (ask_load d S)"
  by (simp add: own_session_def own_request_def ask_load_def ask_def)

lemma loaded_own: "own_session S \<Longrightarrow> ss_asked S = [Load_of i d] \<Longrightarrow> own_session (loaded i d a (S\<lparr>ss_asked := []\<rparr>))"
  by (auto simp: own_defs loaded_def render_bar_def Let_def split: prod.splits)

lemma reread_own: "own_session S \<Longrightarrow> ss_asked S = [Reread_of i] \<Longrightarrow> own_session (reread i a (S\<lparr>ss_asked := []\<rparr>))"
  by (auto simp: own_defs reread_def ask_load_def ask_def Let_def split: option.splits)

lemma posted_own: "own_session S \<Longrightarrow> ss_asked S = [Post_of i c b] \<Longrightarrow> own_session (posted_config i c b a (S\<lparr>ss_asked := []\<rparr>))"
  by (auto simp: own_defs posted_config_def ask_load_def ask_def Let_def split: reply_kind.splits)

lemma answered_own:
  assumes "own_session S" and "k < length (ss_asked S)"
  shows "own_session (answered k a S)"
proof -
  obtain p where p: "ss_asked S = [p]" "k = 0" using own_asked [OF assms] by blast
  with assms(1) show ?thesis
    by (cases p) (simp_all add: answered_def loaded_own reread_own posted_own)
qed

lemma step_own: "session_step True S S' \<Longrightarrow> own_session S \<Longrightarrow> own_session S'"
proof (induction rule: session_step.induct)
  case (session_choose S j leave)
  then show ?case by (auto simp: choose_iid_def own_session_def [of S] intro!: own_ask_load)
next
  case (session_save S)
  then show ?case by (auto simp: click_save_def own_defs ask_def)
next
  case (session_discard S)
  then show ?case by (auto simp: click_discard_def own_session_def [of S] intro!: own_ask_load)
next
  case (session_edit S ps vs)
  then show ?case by (auto simp: edit_draft_def render_bar_def own_defs split: list.splits pending.splits)
next
  case (session_answer k S a)
  then show ?case by (simp add: answered_own)
qed

lemma run_own: "rtranclp (session_step True) (open_session i files) S \<Longrightarrow> own_session S"
  by (induction rule: rtranclp_induct) (simp add: own_defs open_session_def, rule step_own)


definition ex_visitor :: visitor where
  "ex_visitor = (fst (newVisitor 0))\<lparr>v_name := (lit ''v'')\<rparr>"

definition ex_edited :: session where
  "ex_edited = edit_draft [] [ex_visitor] (answered 0 Good (open_session ((lit ''frpc'')) [((lit ''frpc''), (lit ''serverPort=7000''))]))"

definition ex_saving :: session where
  "ex_saving = answered 0 Good (click_save ex_edited)"

definition ex_sent :: sent_config where
  "ex_sent = \<lparr>w_to = (lit ''frpc''), w_base = (lit ''frpc''), w_draft = (lit ''frpc''), w_read = True\<rparr>"

lemma ex_saving_write: "ex_sent \<in> set (ss_writes ex_saving)"
  by code_simp

lemma ex_saving_run: "rtranclp (session_step True) (open_session ((lit ''frpc'')) [((lit ''frpc''), (lit ''serverPort=7000''))]) ex_saving"
proof -
  let ?S0 = "open_session ((lit ''frpc'')) [((lit ''frpc''), (lit ''serverPort=7000''))]"
  have 1: "session_step True ?S0 (answered 0 Good ?S0)" by (rule session_answer) (simp add: open_session_def)
  have 2: "session_step True (answered 0 Good ?S0) ex_edited" unfolding ex_edited_def by (rule session_edit)
  have "ss_asked ex_edited = []" by code_simp
  then have 3: "session_step True ex_edited (click_save ex_edited)" by (simp add: session_save)
  have "ss_asked (click_save ex_edited) = [Reread_of ((lit ''frpc''))]" by code_simp
  then have 4: "session_step True (click_save ex_edited) ex_saving" unfolding ex_saving_def by (simp add: session_answer)
  show ?thesis using 1 2 3 4 by (meson rtranclp.intros)
qed


subsection \<open>Not waiting\<close>

lemma compose_defined: "parseToml (prep b) \<noteq> None \<Longrightarrow> composeClientConfig b ps vs \<noteq> None"
  by (auto simp: composeClientConfig_def Let_def)

lemma loaded_rest:
  "ss_iid (loaded i d a S) = ss_iid S" "ss_asked (loaded i d a S) = ss_asked S" "ss_files (loaded i d a S) = ss_files S"
  "ss_writes (loaded i d a S) = ss_writes S" "ss_draft (loaded i d a S) = i"
  by (simp_all add: loaded_def render_bar_def Let_def split: prod.splits)

lemma loaded_page:
  "map_of (ss_files S) i = Some c \<Longrightarrow> ss_page (loaded i d Good S) = fst (load_t d (Some (c, False)) (ss_uid S) (ss_page S))"
  by (simp add: loaded_def render_bar_def Let_def split: prod.splits)

lemma choose_opened:
  "choose_iid j False (open_session i files) =
   \<lparr>ss_iid = j, ss_page = blank_page, ss_bar = False, ss_uid = 0, ss_asked = [Load_of i False, Load_of j False], ss_files = files,
     ss_base = i, ss_draft = i, ss_read = False, ss_writes = []\<rparr>"
  by (simp add: open_session_def choose_iid_def isDirty_t_def blank_page_def ask_load_def ask_def)

text \<open>Another instance is chosen before the first one has been read, and the answer for the first comes last.\<close>

definition crossed :: "jstr \<Rightarrow> jstr \<Rightarrow> (jstr \<times> jstr) list \<Rightarrow> session" where
  "crossed i j files = answered 0 Good (answered 1 Good (choose_iid j False (open_session i files)))"

lemma crossed_has:
  "ss_iid (crossed i j files) = j" "ss_asked (crossed i j files) = []" "ss_files (crossed i j files) = files"
  "ss_writes (crossed i j files) = []" "ss_draft (crossed i j files) = i"
  by (simp_all add: crossed_def choose_opened answered_def loaded_rest)

lemma crossed_page: "map_of files i = Some fA \<Longrightarrow> \<exists>n P. ss_page (crossed i j files) = fst (load_t False (Some (fA, False)) n P)"
  by (simp add: crossed_def choose_opened answered_def loaded_page loaded_rest) blast

lemma crossed_run: "rtranclp (session_step False) (open_session i files) (crossed i j files)"
proof -
  let ?S0 = "open_session i files" let ?S1 = "choose_iid j False ?S0" let ?S2 = "answered 1 Good ?S1"
  have "session_step False ?S0 ?S1" by (simp add: session_choose)
  moreover have "session_step False ?S1 ?S2" by (rule session_answer) (simp add: choose_opened)
  moreover have "session_step False ?S2 (crossed i j files)"
    unfolding crossed_def by (rule session_answer) (simp add: choose_opened answered_def loaded_rest)
  ultimately show ?thesis by (meson rtranclp.intros)
qed

text \<open>Lists changed, then saved, when nothing else is under way.\<close>

lemma quiet_save:
  assumes "ss_asked S = []" and "map_of (ss_files S) (ss_iid S) = Some f" and "tp_snapshot (ss_page S) \<noteq> None"
    and "Some (ps, vs) \<noteq> tp_snapshot (ss_page S)" and "composeClientConfig f ps vs = Some c"
  obtains S' where "rtranclp (session_step False) S S'" and "map_of (ss_files S') (ss_iid S) = Some c"
    and "ss_writes S' = ss_writes S @ [\<lparr>w_to = ss_iid S, w_base = ss_iid S, w_draft = ss_draft S, w_read = True\<rparr>]"
proof -
  let ?w = "\<lparr>w_to = ss_iid S, w_base = ss_iid S, w_draft = ss_draft S, w_read = True\<rparr>"
  let ?S1 = "edit_draft ps vs S" let ?S2 = "click_save ?S1" let ?S3 = "answered 0 Good ?S2" let ?S4 = "answered 0 Good ?S3"
  have S1: "ss_bar ?S1" "ss_asked ?S1 = []" "ss_iid ?S1 = ss_iid S" "ss_files ?S1 = ss_files S" "ss_writes ?S1 = ss_writes S"
    "ss_draft ?S1 = ss_draft S" "tp_proxies (ss_page ?S1) = ps" "tp_visitors (ss_page ?S1) = vs"
    using assms(1,3,4) by (simp_all add: edit_draft_def render_bar_def isDirty_t_def)
  then have e2: "?S2 = ?S1\<lparr>ss_asked := [Reread_of (ss_iid S)]\<rparr>" by (simp add: click_save_def ask_def)
  have e3: "?S3 = ?S1\<lparr>ss_writes := ss_writes S @ [?w], ss_asked := [Post_of (ss_iid S) c (ss_iid S)]\<rparr>"
    unfolding e2 using S1 assms(2,5) by (simp add: answered_def reread_def save_text_def ask_def Let_def)
  have "session_step False S ?S1" by (rule session_edit)
  moreover have "session_step False ?S1 ?S2" by (simp add: session_save)
  moreover have "session_step False ?S2 ?S3" by (rule session_answer) (simp add: e2)
  moreover have "session_step False ?S3 ?S4" by (rule session_answer) (simp add: e3)
  ultimately have "rtranclp (session_step False) S ?S4" by (meson rtranclp.intros)
  moreover have "map_of (ss_files ?S4) (ss_iid S) = Some c" "ss_writes ?S4 = ss_writes S @ [?w]"
    unfolding e3 by (simp_all add: answered_def posted_config_def ask_load_def ask_def)
  ultimately show ?thesis using that by blast
qed

lemma load_snapshot: "tp_snapshot (fst (load_t False a n P)) \<noteq> None"
  by (auto simp: load_t_def Let_def split: option.splits prod.splits)

text \<open>C25. When another instance is chosen before the first one has been read, and the answer for the first comes last,
  the page shows the tunnels of the first under the name of the second. Saving a change to these lists then writes the
  file of the second, read again, with the tunnels and visitors of the first, changed, in place of its own: for any two
  files, if the second can be parsed.\<close>

theorem late_answer_crosses:
  assumes "map_of files i = Some fA" and "map_of files j = Some fB" and "parseToml (prep fB) \<noteq> None"
    and "Some (ps, vs) \<noteq> tp_snapshot (ss_page (crossed i j files))"
  shows "rtranclp (session_step False) (open_session i files) (crossed i j files) \<and> ss_iid (crossed i j files) = j
    \<and> (\<exists>n P. ss_page (crossed i j files) = fst (load_t False (Some (fA, False)) n P))
    \<and> (\<exists>S. rtranclp (session_step False) (crossed i j files) S \<and> map_of (ss_files S) j = composeClientConfig fB ps vs
         \<and> ss_writes S = [\<lparr>w_to = j, w_base = j, w_draft = i, w_read = True\<rparr>])"
proof -
  let ?S = "crossed i j files"
  obtain n P where D: "ss_page ?S = fst (load_t False (Some (fA, False)) n P)" using crossed_page [OF assms(1)] by blast
  obtain c where c: "composeClientConfig fB ps vs = Some c" using compose_defined [OF assms(3)] by blast
  obtain S where "rtranclp (session_step False) ?S S" "map_of (ss_files S) j = Some c"
    "ss_writes S = [\<lparr>w_to = j, w_base = j, w_draft = i, w_read = True\<rparr>]"
    using quiet_save [of ?S fB ps vs c] assms(2,4) c D load_snapshot by (auto simp: crossed_has)
  then show ?thesis using crossed_run crossed_has(1) D c by metis
qed

definition ex_two :: "(jstr \<times> jstr) list" where
  "ex_two = [((lit ''frpc''), (lit ''serverPort=7000'')), ((lit ''frpc-b''), (lit ''serverPort=7001''))]"

theorem late_answer_crosses_witness:
  "\<exists>S. rtranclp (session_step False) (crossed ((lit ''frpc'')) ((lit ''frpc-b'')) ex_two) S
    \<and> ss_writes S = [\<lparr>w_to = (lit ''frpc-b''), w_base = (lit ''frpc-b''), w_draft = (lit ''frpc''), w_read = True\<rparr>]"
proof -
  have "map_of ex_two ((lit ''frpc'')) = Some ((lit ''serverPort=7000''))" "map_of ex_two ((lit ''frpc-b'')) = Some ((lit ''serverPort=7001''))"
    by (simp_all add: ex_two_def lit_inject)
  moreover have "parseToml (prep ((lit ''serverPort=7001''))) \<noteq> None" by code_simp
  moreover have "Some ([], [ex_visitor]) \<noteq> tp_snapshot (ss_page (crossed ((lit ''frpc'')) ((lit ''frpc-b'')) ex_two))" by code_simp
  ultimately show ?thesis using late_answer_crosses by blast
qed

end
