(* ===== verification/View_Config.thy ===== *)
theory View_Config imports Page_Config_Saves Panel_Keys Panel_Router View_Base begin

text \<open>
  What the settings form of an instance shows (\<open>pages/config.js\<close>): the notices above it, the main sections two by two,
  the advanced ones, each field with its control, as element trees; what the switches do to the tree, and the messages
  after a save. The values behind the controls are those of \<open>Page_Config\<close>: a control of the tree has the value the page
  keeps for it. \<open>hints\<close> is the text of a hint that the dictionary has (\<open>hasKey\<close>); \<open>seq\<close> numbers the fields.
\<close>

datatype config_act = Section_toggled jstr | Port_toggled jstr | Random_port jstr | Cf_eye | Cf_tunnels | Cf_dashboard | Cf_instance
  | Cf_discard | Cf_save bool | Cf_typed

subsection \<open>What only the form reads of the schema\<close>

text \<open>\<open>placeholder\<close>, \<open>optional\<close> and \<open>random\<close> of the fields.\<close>

definition field_placeholder :: "bool \<Rightarrow> cfield \<Rightarrow> jstr" where
  "field_placeholder frps f = (case map_of (map (\<lambda>(n, p). (lit n, lit p))
     (if frps then [(''bindAddr'', ''0.0.0.0''), (''proxyBindAddr'', ''203.0.113.10''), (''tlsCert'', ''/etc/frp/server.crt''),
        (''tlsKey'', ''/etc/frp/server.key''), (''tlsCa'', ''/etc/frp/ca.crt'')]
      else [(''serverAddr'', ''vps.example.com''), (''tlsCert'', ''/etc/frp/client.crt''), (''tlsKey'', ''/etc/frp/client.key''),
        (''tlsCa'', ''/etc/frp/ca.crt''), (''tlsServerName'', ''vps.example.com''), (''dnsServer'', ''1.1.1.1''), (''proxyURL'', ''http://proxy:8080'')]))
     (f_name f) of Some p \<Rightarrow> p | None \<Rightarrow> [])"

definition field_optional :: "cfield \<Rightarrow> bool" where
  "field_optional f \<longleftrightarrow> f_name f \<in> set (map lit [''proxyBindAddr'', ''tlsCa'', ''tlsServerName'', ''dnsServer'', ''proxyURL''])"

definition field_random :: "cfield \<Rightarrow> bool" where
  "field_random f \<longleftrightarrow> f_name f = (lit ''bindPort'')"

subsection \<open>Fields\<close>

text \<open>The control of a line or a list; a value given to an \<open>input\<close> keeps its line breaks until the browser drops them.\<close>

definition control_node :: "texts \<Rightarrow> bool \<Rightarrow> cfg \<Rightarrow> cfield \<Rightarrow> config_act node" where
  "control_node tr frps cfg f = (case f_kind f of
     Select opts \<Rightarrow> select (map (\<lambda>x. (x, x)) opts) (Some (raw_or_def cfg f)) []
   | Secret \<Rightarrow> secretInput (said tr) Cf_eye [(''value'', AText (raw_or_def cfg f)), (''placeholder'', AText (field_placeholder frps f))]
   | _ \<Rightarrow> input [(''value'', AText (if f_addr f then unbracket (Some (raw_or_def cfg f)) else raw_or_def cfg f)),
       (''placeholder'', AText (field_placeholder frps f)), (''mono'', ABool True),
       (''inputmode'', if f_kind f = Number then AText ((lit ''numeric'')) else ANull)])"

definition with_random :: "texts \<Rightarrow> bool \<Rightarrow> cfield \<Rightarrow> config_act node \<Rightarrow> config_act node" where
  "with_random tr can_write f ctrl = (if field_random f \<and> can_write
     then h ''div'' [cls ''input-group''] [CNode ctrl, CNode (button (said tr ''config.randomPort'')
       (plain_btn\<lparr>bo_icon := ''refresh'', bo_title := Some (said tr ''config.randomPortHint''), bo_click := Some (Random_port (f_name f))\<rparr>))]
     else ctrl)"

text \<open>A port that is optional: its switch adds the key to the file or removes it.\<close>

definition optional_port :: "jstr \<Rightarrow> jstr option \<Rightarrow> jstr \<Rightarrow> cfg \<Rightarrow> cfield \<Rightarrow> config_act node \<Rightarrow> config_act node" where
  "optional_port label hint sw cfg f ctrl = h ''div'' [cls ''field'']
     [CNode (switchRow label hint (plain_switch\<lparr>so_checked := has_key cfg (f_key f), so_change := Some (Port_toggled sw)\<rparr>)),
      CNode (h ''div'' [cls ''field-inline''] [CNode (put_attr ''aria-label'' label (put_prop ''disabled'' (ABool (\<not> has_key cfg (f_key f))) ctrl)),
        CNode (h ''span'' [cls ''field-key''] [CText (f_key f)])])]"

definition field_node :: "texts \<Rightarrow> (jstr \<Rightarrow> jstr option) \<Rightarrow> bool \<Rightarrow> bool \<Rightarrow> cfg \<Rightarrow> cfield \<Rightarrow> nat \<Rightarrow> config_act node \<times> nat" where
  "field_node tr hints frps can_write cfg f seq =
     (let label = said_j tr (field_label f); hint = hints ((lit ''config.fields.'') @ f_name f @ (lit ''.hint''))
      in if f_kind f = Switch
         then (h ''div'' [cls ''field'', (''style'', AStyle [(''justifyContent'', (lit ''flex-end''))])]
           [CNode (switchRow label hint (plain_switch\<lparr>so_checked := (raw_of cfg f = (lit ''true''))\<rparr>))], seq)
         else (case f_with f of
             Some sw \<Rightarrow> (optional_port label hint sw cfg f (control_node tr frps cfg f), seq)
           | None \<Rightarrow> field (said tr) ((plain_field label)\<lparr>fo_hint := hint, fo_key := Some (f_key f), fo_optional := field_optional f\<rparr>)
               (with_random tr can_write f (control_node tr frps cfg f)) seq))"

fun field_nodes :: "(cfield \<Rightarrow> nat \<Rightarrow> config_act node \<times> nat) \<Rightarrow> cfield list \<Rightarrow> nat \<Rightarrow> config_act node list \<times> nat" where
  "field_nodes mk [] seq = ([], seq)"
| "field_nodes mk (f # fs) seq = (let (n, s) = mk f seq; (ns, s') = field_nodes mk fs s in (n # ns, s'))"

text \<open>The fields of a section, after its switch when it has one; they are hidden while it is off.\<close>

definition section_switch :: "texts \<Rightarrow> cfg \<Rightarrow> csection \<Rightarrow> config_act node list" where
  "section_switch tr cfg sec = (case s_toggle sec of None \<Rightarrow> []
     | Some (name, key) \<Rightarrow> [switchRow (said_j tr ((lit ''config.toggles.'') @ name)) None (plain_switch\<lparr>so_checked := has_key cfg key, so_change := Some (Section_toggled name)\<rparr>)])"

definition fields_of :: "texts \<Rightarrow> (jstr \<Rightarrow> jstr option) \<Rightarrow> bool \<Rightarrow> bool \<Rightarrow> cfg \<Rightarrow> csection \<Rightarrow> nat \<Rightarrow> config_act node list \<times> nat" where
  "fields_of tr hints frps can_write cfg sec seq =
     (let (ns, s) = field_nodes (field_node tr hints frps can_write cfg) (s_fields sec) seq;
          grid = h ''div'' [cls ''form-grid''] (map CNode ns)
      in (section_switch tr cfg sec @ [if s_toggle sec = None then grid else hide (\<not> section_on sec cfg) grid], s))"

text \<open>The switch of a section moved: \<open>checked\<close> is its new state.\<close>

definition section_toggled :: "bool \<Rightarrow> config_act node list \<Rightarrow> config_act node list" where
  "section_toggled checked els = (case els of [sw, grid] \<Rightarrow> [sw, hide (\<not> checked) grid] | _ \<Rightarrow> els)"

definition port_toggled :: "bool \<Rightarrow> config_act node \<Rightarrow> config_act node" where
  "port_toggled checked n = (case n of
     Elem i [sw, Elem j (ctrl # r)] \<Rightarrow> Elem i [sw, Elem j (put_prop ''disabled'' (ABool (\<not> checked)) ctrl # r)]
   | _ \<Rightarrow> n)"

text \<open>A port drawn at random goes to the line, as if it were typed (the bar is brought up to date).\<close>

definition random_typed :: "jstr \<Rightarrow> jstr \<Rightarrow> cpage \<Rightarrow> cpage" where
  "random_typed name port S = put_control name (Line port) S"

subsection \<open>Sections\<close>

definition sectionCard :: "texts \<Rightarrow> bool \<Rightarrow> csection \<Rightarrow> config_act node list \<Rightarrow> config_act node" where
  "sectionCard tr frps sec els = card_box (plain_card\<lparr>ca_title := Some (said_j tr (sectionTitle frps sec)),
     ca_description := Some (said_j tr (sectionDesc frps sec)), ca_body := CNode (h ''div'' [cls ''form-stack''] (map CNode els))\<rparr>)"

definition sectionBlock :: "texts \<Rightarrow> bool \<Rightarrow> csection \<Rightarrow> config_act node list \<Rightarrow> config_act node" where
  "sectionBlock tr frps sec els = h ''details'' [cls ''disclosure'']
     [CNode (h ''summary'' [] [CNode (icon ''chevron-down'' []), CText (said_j tr (sectionTitle frps sec)),
        CNode (h ''span'' [cls ''summary-hint''] [CText (said_j tr (sectionDesc frps sec))])]),
      CNode (h ''div'' [cls ''disclosure-body''] [CNode (h ''div'' [cls ''form-stack''] (map CNode els))])]"

fun section_nodes :: "(csection \<Rightarrow> nat \<Rightarrow> config_act node \<times> nat) \<Rightarrow> csection list \<Rightarrow> nat \<Rightarrow> config_act node list \<times> nat" where
  "section_nodes mk [] seq = ([], seq)"
| "section_nodes mk (s # ss) seq = (let (n, q) = mk s seq; (ns, q') = section_nodes mk ss q in (n # ns, q'))"

text \<open>Two by two, the last one alone when their number is odd.\<close>

fun paired :: "config_act node list \<Rightarrow> config_act node list" where
  "paired (a # b # r) = h ''div'' [cls ''grid-2 card-pair''] [CNode a, CNode b] # paired r"
| "paired [a] = [a]"
| "paired [] = []"

definition advanced_node :: "texts \<Rightarrow> config_act node list \<Rightarrow> config_act node" where
  "advanced_node tr blocks = h ''section'' []
     [CNode (h ''div'' [cls ''section-head''] [CNode (h ''div'' []
        [CNode (h ''h2'' [cls ''section-title''] [CText (said tr ''config.advanced'')]),
         CNode (h ''p'' [cls ''section-desc''] [CText (said tr ''config.advancedDesc'')])])]),
      CNode (h ''div'' [cls ''card''] (map CNode blocks))]"

subsection \<open>The page\<close>

definition tunnels_button :: "texts \<Rightarrow> config_act child" where
  "tunnels_button tr = CNode (button (said tr ''nav.tunnels'') (plain_btn\<lparr>bo_size := ''sm'', bo_click := Some Cf_tunnels\<rparr>))"

definition config_notices :: "texts \<Rightarrow> bool \<Rightarrow> bool \<Rightarrow> jstr \<Rightarrow> config_act node list" where
  "config_notices tr frps exists path =
     (if exists then [] else [callout (plain_callout\<lparr>co_text := CText (tr ''config.missingFile'' [(''path'', path)])\<rparr>)])
     @ (if frps then [] else [callout (plain_callout\<lparr>co_type := ''neutral'', co_icon := ''tunnels'', co_text := CText (said tr ''config.tunnelsElsewhere''), co_actions := [tunnels_button tr]\<rparr>)])"

definition form_nodes :: "texts \<Rightarrow> (jstr \<Rightarrow> jstr option) \<Rightarrow> bool \<Rightarrow> bool \<Rightarrow> bool \<Rightarrow> jstr \<Rightarrow> cfg \<Rightarrow> nat \<Rightarrow> config_act node list \<times> nat" where
  "form_nodes tr hints frps can_write exists path cfg seq =
     (let fs = (\<lambda>mk sec q. apfst (mk tr frps sec) (fields_of tr hints frps can_write cfg sec q));
          (basic, s1) = section_nodes (fs sectionCard) (filter (\<lambda>s. \<not> s_advanced s) (SCHEMA frps)) seq;
          (advanced, s2) = section_nodes (fs sectionBlock) (filter s_advanced (SCHEMA frps)) s1
      in (config_notices tr frps exists path @ paired basic @ [advanced_node tr advanced], s2))"

text \<open>What the body shows: the notice of an instance in a container, the place kept while the file is read, the error of
  the server, or the form. A file that cannot be parsed raises outside of the \<open>try\<close>: the place kept stays.\<close>

datatype config_file = In_docker | Reading | Read_error jstr | File bool jstr

definition config_skeleton :: "config_act node" where
  "config_skeleton = h ''div'' [cls ''skeleton'', (''style'', AStyle [(''height'', (lit ''240px''))])] []"

definition config_body :: "texts \<Rightarrow> (jstr \<Rightarrow> jstr option) \<Rightarrow> bool \<Rightarrow> bool \<Rightarrow> jstr \<Rightarrow> config_file \<Rightarrow> nat \<Rightarrow> config_act node list \<times> nat" where
  "config_body tr hints frps can_write path file seq = (case file of
     In_docker \<Rightarrow> ([callout (plain_callout\<lparr>co_type := ''warn'', co_compact := True, co_icon := ''box'', co_title := Some (said tr ''config.dockerTitle''),
        co_text := CText (said tr ''config.dockerText''), co_actions := (if frps then [] else [tunnels_button tr])\<rparr>)], seq)
   | Reading \<Rightarrow> ([config_skeleton], seq)
   | Read_error m \<Rightarrow> ([callout (plain_callout\<lparr>co_type := ''danger'', co_title := Some (said tr ''config.loadError''), co_text := CText m\<rparr>)], seq)
   | File exists content \<Rightarrow> (case parseToml content of None \<Rightarrow> ([config_skeleton], seq)
       | Some p \<Rightarrow> form_nodes tr hints frps can_write exists path (o_vals p) seq))"

text \<open>What is kept in \<open>S\<close>: reading forgets the controls of the form shown before, but its snapshot only when the instance
  is in a container or when the form is there.\<close>

definition reading_state :: "cpage \<Rightarrow> cpage" where
  "reading_state P = init_cpage\<lparr>cp_loaded := cp_loaded P, cp_snapshot := cp_snapshot P\<rparr>"

definition config_state :: "bool \<Rightarrow> bool \<Rightarrow> config_file \<Rightarrow> cpage \<Rightarrow> cpage" where
  "config_state frps discarded file P = (case file of
     File exists content \<Rightarrow> (case load frps discarded content of Some Q \<Rightarrow> Q | None \<Rightarrow> reading_state P)
   | In_docker \<Rightarrow> (reading_state P)\<lparr>cp_snapshot := None\<rparr>
   | _ \<Rightarrow> reading_state P)"

text \<open>The bar is hidden when the reading begins, and brought up to date once the form is there.\<close>

definition form_shown :: "config_file \<Rightarrow> bool" where
  "form_shown file \<longleftrightarrow> (case file of File exists content \<Rightarrow> parseToml content \<noteq> None | _ \<Rightarrow> False)"

definition config_bar :: "texts \<Rightarrow> bool \<Rightarrow> config_file \<Rightarrow> cpage \<Rightarrow> config_act node" where
  "config_bar tr can_write file S = hide (\<not> (form_shown file \<and> isDirty can_write S)) (saveBar (said tr)
     \<lparr>sv_discard = Cf_discard, sv_save = Cf_save False, sv_restart = Some (Cf_save True), sv_restart_label = None, sv_save_label = None\<rparr>)"

text \<open>Leaving the page, or choosing another instance: the question asked, if any.\<close>

definition config_leave :: "texts \<Rightarrow> bool \<Rightarrow> cpage \<Rightarrow> (jstr \<times> jstr \<times> jstr) option" where
  "config_leave tr can_write S = (if isDirty can_write S then Some (leave_texts tr) else None)"

text \<open>The instance shown: the one asked for, or the first that is not in a container, or the first.\<close>

definition opened_iid :: "(jstr \<Rightarrow> bool) \<Rightarrow> jstr list \<Rightarrow> jstr option \<Rightarrow> jstr" where
  "opened_iid docker ids asked = (case asked of
     Some i \<Rightarrow> if i \<in> set ids then i else (case find (\<lambda>j. \<not> docker j) ids of Some j \<Rightarrow> j | None \<Rightarrow> (case ids of [] \<Rightarrow> [] | j # r \<Rightarrow> j))
   | None \<Rightarrow> (case find (\<lambda>j. \<not> docker j) ids of Some j \<Rightarrow> j | None \<Rightarrow> (case ids of [] \<Rightarrow> [] | j # r \<Rightarrow> j)))"

definition config_picker :: "texts \<Rightarrow> store \<Rightarrow> jstr list \<Rightarrow> jstr \<Rightarrow> config_act node list" where
  "config_picker tr S ids iid = (if length ids > 1
     then [add_listener ''change'' Cf_instance (select (map (\<lambda>i. (i, displayName S i)) ids) (Some iid) [cls ''select select-inline'', (''aria-label'', AText (said tr ''common.instance''))])]
     else [])"

definition config_empty :: "texts \<Rightarrow> config_act node" where
  "config_empty tr = h ''div'' [cls ''card''] [CNode (emptyState ''config'' (said tr ''config.emptyTitle'') (Some (said tr ''config.emptyText''))
     [CNode (button (said tr ''nav.dashboard'') (plain_btn\<lparr>bo_click := Some Cf_dashboard\<rparr>))])]"

definition config_page :: "texts \<Rightarrow> bool \<Rightarrow> jstr \<Rightarrow> config_file \<Rightarrow> config_act node list \<Rightarrow> cpage \<Rightarrow> config_act node list" where
  "config_page tr can_write iid file body S =
     (if can_write then [] else [callout (plain_callout\<lparr>co_type := ''neutral'', co_compact := True, co_icon := ''eye'', co_title := Some (said tr ''common.readOnly''), co_text := CText (said tr ''config.readOnly'')\<rparr>)])
     @ [add_listener ''change'' Cf_typed (add_listener ''input'' Cf_typed (h ''div'' [cls ''form-stack'', (''style'', AStyle [(''gap'', (lit ''20px''))])]
          (if iid = [] then [CNode (config_empty tr)] else map CNode body))), config_bar tr can_write file S]"

subsection \<open>Messages of a save\<close>

text \<open>\<open>raised\<close> is the message of the exception when the merge fails otherwise; \<open>up\<close> whether the instance runs again.\<close>

definition save_messages :: "texts \<Rightarrow> jstr \<Rightarrow> save_result \<Rightarrow> jstr option \<Rightarrow> reply \<Rightarrow> bool \<Rightarrow> bool \<Rightarrow> (jstr \<times> string) list" where
  "save_messages tr name result raised r restart up = (case result of
     Unreadable \<Rightarrow> [(said tr ''config.readBackError'', ''error'')]
   | Not_stored ks \<Rightarrow> [(tr ''config.inlineRefused'' [(''keys'', join ((lit '', '')) ks)], ''error'')]
   | Failed \<Rightarrow> [(or_text raised (said tr ''errors.generic''), ''error'')]
   | Posted c \<Rightarrow> (if \<not> reply_ok r then [reply_message tr r []]
       else (said tr ''config.saved'', ''success'') # (if \<not> restart then [] else
         [(tr ''tunnels.restarting'' [(''name'', name)], ''info''),
          (if up then tr ''tunnels.restarted'' [(''name'', name)] else said tr ''tunnels.restartUnknown'', if up then ''success'' else ''info'')])))"

text \<open>The page after it: only a configuration that is accepted changes it.\<close>

definition after_save :: "save_result \<Rightarrow> reply \<Rightarrow> cpage \<Rightarrow> cpage" where
  "after_save result r S = (case result of Posted c \<Rightarrow> if reply_ok r then saved_page S else S | _ \<Rightarrow> S)"

subsection \<open>Facts\<close>

lemma opened_iid_listed: "ids \<noteq> [] \<Longrightarrow> opened_iid docker ids asked \<in> set ids"
  by (auto simp: opened_iid_def dest: find_in split: option.splits list.splits)

text \<open>What a control shows is what the form reads: an \<open>input\<close> drops the line breaks of its value.\<close>

lemma control_shows_line:
  assumes "f_kind f = Text \<or> f_kind f = Number"
  shows "\<exists>v. node_attr ''value'' (control_node tr frps cfg f) = Some v \<and> field_line cfg f = one_line v"
  using assms by (auto simp: control_node_def field_line_def input_def h_def spread_def node_attr_def apply_attr_def skipped_def set_plain_def
      in_el_def is_text_def set_attribute_def attr_text_def new_info_def map_of_obj_set)

lemma text_of_append: "text_of (a @ b) = text_of a @ text_of b"
  by (induction a rule: text_of.induct) auto

lemma paired_texts: "text_of (paired xs) = text_of xs"
proof (induction xs rule: paired.induct)
  case (1 a b r)
  then show ?case using text_of_append [of "[a]" "b # r"] text_of_append [of "[b]" r] text_of_append [of "[a]" "[b]"] by (simp add: h_def)
qed simp_all

lemma hide_again: "hide b (hide c n) = hide b n"
  by (cases n) (simp_all add: hide_def put_prop_def change_info_def obj_set_over)

lemma toggled_again: "section_toggled b (section_toggled c els) = section_toggled b els"
  by (auto simp: section_toggled_def hide_again split: list.splits)

text \<open>After a save that is accepted nothing is left to save, the bar is hidden; otherwise nothing has changed.\<close>

lemma bar_after_save:
  "is_hidden (config_bar tr can_write file (after_save (Posted c) (Inr (True, m)) S))" "\<not> reply_ok r \<Longrightarrow> after_save result r S = S"
  by (simp_all add: config_bar_def after_save_def reply_ok_def saved_clean(1) hide_def is_hidden_def put_prop_def change_info_def node_prop_def saveBar_def h_def Let_def split: save_result.split)

text \<open>Once a form has been shown, an instance whose file cannot be read leaves a page with nothing to save that still asks
  before it is left.\<close>

lemma failed_read_asks:
  assumes "cp_snapshot P = Some (v # vs)"
  shows "config_leave tr True (config_state frps d (Read_error m) P) = Some (leave_texts tr)
    \<and> cp_controls (config_state frps d (Read_error m) P) = []"
  using assms by (simp add: config_leave_def isDirty_def config_state_def reading_state_def init_cpage_def form_values_def)

end
