(* ===== verification/View_Notifications.thy ===== *)
theory View_Notifications imports Page_Notifications View_Base begin

text \<open>
  What the notifications show (\<open>pages/notifications.js\<close>): the list of the webhooks with their switches, the history, the
  editor with its boxes and the fields that a format has, as element trees; and the messages after each request. The
  dates of the history (\<open>dates\<close>, one for each line) are written by the browser, the names of the instances are an
  argument.
\<close>

datatype hook_act = New_hook | Open_hook jstr | Hook_key jstr | Hook_switched jstr | Hook_kept | Test_hook jstr | Edit_hook jstr | Delete_hook jstr
  | Refresh_history | Preset_used preset | Format_chosen | Lang_picked jstr | Nt_eye | Test_typed | Hook_submitted | Nt_cancel

subsection \<open>List of the webhooks\<close>

definition add_hook_button :: "texts \<Rightarrow> hook_act node" where
  "add_hook_button tr = button (said tr ''notifications.add'') (plain_btn\<lparr>bo_variant := ''primary'', bo_icon := ''plus'', bo_click := Some New_hook\<rparr>)"

definition hook_actions :: "texts \<Rightarrow> bool \<Rightarrow> hook_act child list" where
  "hook_actions tr manage = (if manage then [CNode (add_hook_button tr)] else [])"

definition hook_switch :: "texts \<Rightarrow> bool \<Rightarrow> webhook \<Rightarrow> hook_act node" where
  "hook_switch tr manage w = add_listener ''click'' Hook_kept (switchControl (plain_switch\<lparr>so_checked := wh_enabled w, so_disabled := \<not> manage,
     so_label := Some (said tr ''notifications.enabled''), so_change := Some (Hook_switched (wh_id w))\<rparr>))"

definition row_button :: "texts \<Rightarrow> string \<Rightarrow> string \<Rightarrow> string \<Rightarrow> hook_act \<Rightarrow> hook_act node" where
  "row_button tr variant ic title act = button [] (plain_btn\<lparr>bo_variant := variant, bo_size := ''sm'', bo_icon := ic, bo_title := Some (said tr title), bo_click := Some act\<rparr>)"

definition events_text :: "texts \<Rightarrow> webhook \<Rightarrow> jstr" where
  "events_text tr w = (case events_shown w of None \<Rightarrow> said tr ''notifications.allEvents'' | Some n \<Rightarrow> tr ''notifications.eventCount'' [(''count'', digits n)])"

definition hook_row :: "texts \<Rightarrow> bool \<Rightarrow> webhook \<Rightarrow> hook_act node" where
  "hook_row tr manage w = h ''li'' [cls (''row nt-row'' @ (if wh_enabled w then [] else '' is-off'')), s_attr ''tabindex'' ''0'',
       (''onClick'', AFun (Open_hook (wh_id w))), (''onKeydown'', AFun (Hook_key (wh_id w)))]
     [CNode (h ''div'' [cls ''row-name''] [CNode (h ''span'' [] [CText (wh_name w)]), CNode (badge (said_j tr ((lit ''notifications.formats.'') @ wh_format w)) [] [])]),
      CNode (h ''div'' [cls ''fw-detail'']
        [CNode (h ''span'' [] [CNode (h ''small'' [] [CText (said tr ''notifications.destination'')]), CNode (h ''span'' [cls ''mono''] [CText (wh_url_hint w)])]),
         CNode (h ''span'' [] [CNode (h ''small'' [] [CText (said tr ''notifications.eventsLabel'')]),
           CNode (h ''span'' [(''title'', AText (join [c_nl] (map (eventLabel (said_j tr)) (wh_events w))))] [CText (events_text tr w)])])]),
      CNode (h ''div'' [cls ''row-actions'']
        [CNode (hook_switch tr manage w), when_child manage (CNode (row_button tr ''ghost'' ''send'' ''notifications.test'' (Test_hook (wh_id w)))),
         when_child manage (CNode (row_button tr ''ghost'' ''edit'' ''common.edit'' (Edit_hook (wh_id w)))),
         when_child manage (CNode (row_button tr ''ghost-danger'' ''trash'' ''common.delete'' (Delete_hook (wh_id w))))])]"

datatype hooks_state = Hooks_loading | Hooks_error jstr | Hooks_shown

definition hooks_card :: "texts \<Rightarrow> bool \<Rightarrow> hooks_state \<Rightarrow> hooks \<Rightarrow> hook_act node" where
  "hooks_card tr manage st H = h ''div'' [cls ''card''] (case st of
     Hooks_loading \<Rightarrow> []
   | Hooks_error m \<Rightarrow> [CNode (callout (plain_callout\<lparr>co_type := ''danger'', co_title := Some (said tr ''notifications.loadError''), co_text := CText m\<rparr>))]
   | Hooks_shown \<Rightarrow> [CNode (if hk_hooks H = []
       then emptyState ''bell'' (said tr ''notifications.emptyTitle'') (Some (said tr ''notifications.emptyText'')) (hook_actions tr manage)
       else h ''ul'' [cls ''rows''] [CList (map (\<lambda>w. CNode (hook_row tr manage w)) (hk_hooks H))])])"

text \<open>What a row does with an event: its click and the key Enter open the editor of a webhook that may be changed, and the
  keys pressed on its buttons come to it as well. A click on a button stays there.\<close>

definition opened_hook :: "bool \<Rightarrow> hooks \<Rightarrow> jstr \<Rightarrow> webhook option" where
  "opened_hook manage H i = (if manage then find (\<lambda>w. wh_id w = i) (hk_hooks H) else None)"

text \<open>A switch that was refused goes back; it shows what the list has otherwise.\<close>

definition hook_switched :: "jstr \<Rightarrow> bool \<Rightarrow> webhook list option \<Rightarrow> hooks \<Rightarrow> bool \<times> hooks" where
  "hook_switched i now d H = (let (ok, H') = persist d H in (if ok then (case find (\<lambda>w. wh_id w = i) (hk_hooks H') of Some w \<Rightarrow> wh_enabled w | None \<Rightarrow> now) else \<not> now, H'))"

subsection \<open>History\<close>

definition history_row :: "texts \<Rightarrow> jstr \<Rightarrow> history_line \<Rightarrow> hook_act node" where
  "history_row tr time l = h ''tr'' []
     [CNode (h ''td'' [] [CText time]), CNode (h ''td'' [] [CText (hi_name l)]),
      CNode (h ''td'' [] [CText (if hi_event l = (lit ''test'') then said tr ''notifications.history.test'' else eventLabel (said_j tr) (hi_event l))]),
      CNode (h ''td'' [] [CNode (badge (if hi_ok l then said tr ''notifications.history.sent'' else tr ''notifications.history.failed'' [(''detail'', hi_msg l)])
        (if hi_ok l then ''success'' else ''danger'') [])])]"

definition history_body :: "texts \<Rightarrow> jstr list \<Rightarrow> history_line list \<Rightarrow> hook_act node" where
  "history_body tr dates ls = (if ls = [] then h ''p'' [cls ''fw-pad muted''] [CText (said tr ''notifications.history.empty'')]
     else h ''div'' [cls ''fw-table-wrap''] [CNode (h ''table'' [cls ''fw-table'']
       [CNode (h ''thead'' [] [CNode (h ''tr'' [] [CList (map (\<lambda>k. CNode (h ''th'' [] [CText (said tr (''notifications.history.'' @ k))]))
          [''time'', ''webhook'', ''event'', ''result''])])]),
        CNode (h ''tbody'' [] [CList (map (\<lambda>(t, l). CNode (history_row tr t l)) (zip dates ls))])])])"

definition renderHistory :: "texts \<Rightarrow> jstr list \<Rightarrow> hooks \<Rightarrow> hook_act node" where
  "renderHistory tr dates H = h ''div'' [] (case shown_history H of None \<Rightarrow> []
     | Some ls \<Rightarrow> [CNode (card_box (plain_card\<lparr>ca_title := Some (said tr ''notifications.history.title''), ca_description := Some (said tr ''notifications.history.desc''),
         ca_head := CNode (row_button tr ''ghost'' ''refresh'' ''common.refresh'' Refresh_history), ca_body := CNode (history_body tr dates ls), ca_cls := (lit ''nt-history'')\<rparr>))])"

subsection \<open>Messages\<close>

text \<open>\<open>None\<close>: none is posted. A message of a kind that \<open>ui.js\<close> does not know (\<open>danger\<close>) is posted as it is. A test sends
  what the server says, then the history is read again; so it is after an exception.\<close>

definition persist_message :: "texts \<Rightarrow> reply \<Rightarrow> jstr option \<Rightarrow> (jstr \<times> string) option" where
  "persist_message tr r okMessage = (if \<not> reply_ok r then Some (reply_message tr r []) else (case okMessage of
     Some m \<Rightarrow> (if m = [] then None else Some (m, ''success'')) | None \<Rightarrow> None))"

definition test_message :: "texts \<Rightarrow> reply \<Rightarrow> jstr option \<times> string" where
  "test_message tr r = (case r of Inr (ok, m) \<Rightarrow> (m, if ok then ''success'' else ''danger'') | Inl m \<Rightarrow> (Some (or_text m (said tr ''errors.generic'')), ''error''))"

definition delete_hook_texts :: "texts \<Rightarrow> webhook \<Rightarrow> jstr \<times> jstr \<times> jstr" where
  "delete_hook_texts tr w = (tr ''notifications.deleteTitle'' [(''name'', wh_name w)], said tr ''notifications.deleteText'', said tr ''common.delete'')"

text \<open>Only a deletion that is confirmed is sent.\<close>

definition remove_hook :: "texts \<Rightarrow> bool \<Rightarrow> reply \<Rightarrow> (jstr \<times> string) option" where
  "remove_hook tr confirmed r = (if confirmed then persist_message tr r (Some (said tr ''notifications.deleted'')) else None)"

definition hook_error_message :: "texts \<Rightarrow> hook_error \<Rightarrow> jstr \<times> string" where
  "hook_error_message tr e = (said tr (case e of Name_missing \<Rightarrow> ''notifications.nameMissing'' | Events_missing \<Rightarrow> ''notifications.eventsMissing''), ''danger'')"

subsection \<open>The editor\<close>

definition URL_PLACEHOLDERS :: "(jstr \<times> jstr) list" where
  "URL_PLACEHOLDERS = [((lit ''discord''), (lit ''https://discord.com/api/webhooks/'') @ [8230]), ((lit ''slack''), (lit ''https://hooks.slack.com/services/'') @ [8230]),
     ((lit ''telegram''), (lit ''https://api.telegram.org/bot<TOKEN>'')), ((lit ''ntfy''), (lit ''https://ntfy.sh/mon-sujet'')),
     ((lit ''gotify''), (lit ''https://gotify.example.org/message?token='') @ [8230]), ((lit ''generic''), (lit ''https://example.org/hooks/frp'')), ((lit ''text''), (lit ''https://example.org/hooks/frp''))]"

definition url_placeholder :: "texts \<Rightarrow> webhook option \<Rightarrow> jstr \<Rightarrow> jstr" where
  "url_placeholder tr existing f = (case existing of Some w \<Rightarrow> tr ''notifications.keepUrl'' [(''url'', wh_url_hint w)]
     | None \<Rightarrow> (case map_of URL_PLACEHOLDERS f of Some p \<Rightarrow> p | None \<Rightarrow> (lit ''undefined'')))"

definition event_level :: "event_info list \<Rightarrow> jstr \<Rightarrow> jstr" where
  "event_level es i = (case find (\<lambda>e. ev_id e = i) es of Some e \<Rightarrow> text_or (ev_level e) ((lit ''info'')) | None \<Rightarrow> (lit ''info''))"

definition level_badge :: "jstr \<Rightarrow> string" where
  "level_badge l = (case map_of [((lit ''info''), []), ((lit ''success''), ''success''), ((lit ''warning''), ''warn''), ((lit ''error''), ''danger'')] l of Some b \<Rightarrow> b | None \<Rightarrow> [])"

definition check_box :: "bool \<Rightarrow> hook_act child list \<Rightarrow> hook_act node" where
  "check_box checked texts0 = h ''label'' [cls ''nt-check''] [CNode (h ''input'' [s_attr ''type'' ''checkbox'', (''checked'', ABool checked)] []), CNode (h ''span'' [] texts0)]"

definition event_box :: "texts \<Rightarrow> event_info list \<Rightarrow> hook_form \<Rightarrow> jstr \<Rightarrow> hook_act node" where
  "event_box tr es F i = check_box (map_of (hf_checks F) i = Some True) [CText (eventLabel (said_j tr) i),
     CNode (badge (said_j tr ((lit ''notifications.levels.'') @ event_level es i)) (level_badge (event_level es i)) [])]"

definition event_groups :: "texts \<Rightarrow> event_info list \<Rightarrow> hook_form \<Rightarrow> hook_act node" where
  "event_groups tr es F = h ''div'' [cls ''nt-groups''] (map (\<lambda>(g, ids). CNode (h ''div'' [cls ''nt-group'']
     (CNode (h ''div'' [cls ''nt-group-title''] [CText (said_j tr ((lit ''notifications.groups.'') @ g))]) # map (\<lambda>i. CNode (event_box tr es F i)) ids))) EVENT_GROUPS)"

definition preset_chips :: "texts \<Rightarrow> hook_act node" where
  "preset_chips tr = h ''div'' [cls ''fw-chips''] (map (\<lambda>p. CNode (h ''button'' [s_attr ''type'' ''button'', cls ''fw-chip nt-preset'', (''onClick'', AFun (Preset_used p))]
     [CText (said_j tr ((lit ''notifications.presets.'') @ ps_id p))])) PRESETS)"

definition instance_boxes :: "texts \<Rightarrow> (jstr \<Rightarrow> jstr) \<Rightarrow> hook_form \<Rightarrow> hook_act child" where
  "instance_boxes tr name_of F = (if hf_instances F = [] then CNull else CNode (h ''div'' [cls ''nt-group'']
     (CNode (h ''div'' [cls ''nt-group-title''] [CText (said tr ''notifications.onlyInstances'')])
      # map (\<lambda>(i, b). CNode (check_box b [CText (name_of i)])) (hf_instances F)
      @ [CNode (h ''p'' [cls ''field-hint''] [CText (said tr ''notifications.onlyInstancesHint'')])])))"

definition hook_area :: "string \<Rightarrow> jstr \<Rightarrow> jstr \<Rightarrow> hook_act node" where
  "hook_area rows ph value = put_prop ''value'' (AText value) (h ''textarea''
     [cls ''input input-mono fw-textarea'', (''rows'', ANum (lit rows)), s_attr ''spellcheck'' ''false'', (''placeholder'', AText ph)] [])"

definition format_list :: "texts \<Rightarrow> jstr \<Rightarrow> hook_act node" where
  "format_list tr f = put_attr ''id'' ((lit ''nt-format'')) (add_listener ''change'' Format_chosen
     (select (map (\<lambda>x. (x, said_j tr ((lit ''notifications.formats.'') @ x))) FORMATS) (Some f) []))"

definition lang_choice :: "texts \<Rightarrow> jstr \<Rightarrow> hook_act node" where
  "lang_choice tr l = segmented [((lit ''fr''), (lit ''Fran'') @ [231] @ (lit ''ais''), []), ((lit ''en''), (lit ''English''), [])] l Lang_picked (Some (said tr ''notifications.lang''))"

text \<open>The four fields that depend on the format are made before the others, in this order.\<close>

record format_fields =
  ff_url :: "hook_act node"
  ff_chat :: "hook_act node"
  ff_secret :: "hook_act node"
  ff_template :: "hook_act node"

definition hook_fields :: "texts \<Rightarrow> hook_form \<Rightarrow> nat \<Rightarrow> format_fields \<times> nat" where
  "hook_fields tr F seq =
     (let existing = (if hf_isNew F then None else Some (hf_draft F)); (no_chat, no_secret, no_template) = hidden_fields (hf_format F);
          kept = (\<lambda>b key. if b then said tr key else []);
          (u, s1) = field (said tr) (plain_field (said tr ''notifications.url''))
            (put_attr ''placeholder'' (url_placeholder tr existing (hf_format F)) (put_prop ''value'' (AText (hf_url F)) (input [(''mono'', ABool True), s_attr ''autocomplete'' ''off'', s_attr ''spellcheck'' ''false'']))) seq;
          (c, s2) = field (said tr) (hinted (said tr ''notifications.chatId'') (said tr ''notifications.chatIdHint''))
            (input [(''value'', AText (hf_chat F)), (''mono'', ABool True), s_attr ''placeholder'' ''-1001234567890'']) s1;
          (x, s3) = field (said tr) ((hinted (said tr ''notifications.secret'') (said tr ''notifications.secretHint''))\<lparr>fo_optional := True\<rparr>)
            (secretInput (said tr) Nt_eye [(''placeholder'', AText (kept (existing \<noteq> None \<and> wh_has_secret (hf_draft F)) ''notifications.keepSecret''))]) s2;
          (t, s4) = field (said tr) ((hinted (said tr ''notifications.template'') (said tr ''notifications.templateHint''))\<lparr>fo_optional := True\<rparr>)
            (hook_area ''5'' (lit (''{'' @ [CHR 0x22] @ ''text'' @ [CHR 0x22] @ '': '' @ [CHR 0x22] @ ''{{title}} '') @ [8212] @ lit ('' {{message}}'' @ [CHR 0x22] @ ''}'')) (hf_template F)) s3
      in (\<lparr>ff_url = u, ff_chat = hide no_chat c, ff_secret = hide no_secret x, ff_template = hide no_template t\<rparr>, s4))"

definition clear_box :: "texts \<Rightarrow> bool \<Rightarrow> bool \<Rightarrow> string \<Rightarrow> hook_act child" where
  "clear_box tr there checked key = (if there then CNode (check_box checked [CText (said tr key)]) else CNull)"

definition hook_editor :: "texts \<Rightarrow> (jstr \<Rightarrow> jstr) \<Rightarrow> event_info list \<Rightarrow> hook_form \<Rightarrow> nat \<Rightarrow> hook_act node \<times> nat" where
  "hook_editor tr name_of es F seq =
     (let (ff, s0) = hook_fields tr F seq; there = \<not> hf_isNew F;
          (n, s1) = field (said tr) (plain_field (said tr ''notifications.name''))
            (input [(''value'', AText (hf_name F)), (''maxLength'', ANum ((lit ''64''))), (''placeholder'', AText (said tr ''notifications.namePlaceholder''))]) s0;
          (c, s2) = field (said tr) (hinted (said tr ''notifications.cooldown'') (said tr ''notifications.cooldownHint''))
            (input [(''value'', ANum (hf_cooldown F)), s_attr ''inputmode'' ''numeric'', (''mono'', ABool True)]) s1;
          (hd', s3) = field (said tr) ((hinted (said tr ''notifications.headers'') (said tr ''notifications.headersHint''))\<lparr>fo_optional := True\<rparr>)
            (hook_area ''3'' (if there \<and> wh_has_headers (hf_draft F) then said tr ''notifications.keepHeaders'' else (lit ''Authorization: Bearer '') @ [8230]) (hf_headers F)) s2
      in (form_node ''nt-form'' Hook_submitted
        [CNode (h ''div'' [cls ''form-grid''] [CNode n, CNode (h ''div'' [cls ''field'']
           [CNode (h ''label'' [cls ''field-label'', s_attr ''for'' ''nt-format''] [CText (said tr ''notifications.format'')]), CNode (format_list tr (hf_format F)),
            CNode (h ''p'' [cls ''field-hint''] [CText (said_j tr ((lit ''notifications.formatHint.'') @ hf_format F))])])]),
         CNode (ff_url ff), CNode (ff_chat ff),
         CNode (h ''div'' [cls ''field''] [CNode (h ''span'' [cls ''field-label''] [CText (said tr ''notifications.eventsLabel'')]),
           if hf_isNew F then CNode (h ''p'' [cls ''field-hint''] [CText (said tr ''notifications.presetsHint'')]) else CNull,
           if hf_isNew F then CNode (preset_chips tr) else CNull, CNode (event_groups tr es F), instance_boxes tr name_of F]),
         CNode (h ''div'' [cls ''form-grid''] [CNode (h ''div'' [cls ''field'']
           [CNode (h ''span'' [cls ''field-label''] [CText (said tr ''notifications.lang'')]), CNode (lang_choice tr (hf_lang F))]), CNode c]),
         CNode (ff_secret ff), clear_box tr (there \<and> wh_has_secret (hf_draft F)) (hf_secret_clear F) ''notifications.clearSecret'',
         CNode hd', clear_box tr (there \<and> wh_has_headers (hf_draft F)) (hf_headers_clear F) ''notifications.clearHeaders'',
         CNode (ff_template ff)], s3))"

definition hook_foot :: "texts \<Rightarrow> hook_act node list" where
  "hook_foot tr = [button (said tr ''notifications.test'') (plain_btn\<lparr>bo_icon := ''send'', bo_click := Some Test_typed\<rparr>), h ''span'' [cls ''spacer''] [],
     button (said tr ''common.cancel'') (plain_btn\<lparr>bo_click := Some Nt_cancel\<rparr>), submit_button tr ''common.save'' ''nt-form'']"

definition editor_texts :: "texts \<Rightarrow> hook_form \<Rightarrow> jstr \<times> jstr" where
  "editor_texts tr F = (if hf_isNew F then said tr ''notifications.newTitle'' else tr ''notifications.editTitle'' [(''name'', wh_name (hf_draft F))], said tr ''notifications.editorHint'')"

subsection \<open>Facts\<close>

lemma is_hidden_hide: "is_hidden (hide b (h tag attrs cs)) = b"
  by (simp add: is_hidden_def hide_def h_def put_prop_def change_info_def node_prop_def)

lemma field_hidden: "field tr f ctl seq = (n, s) \<Longrightarrow> is_hidden (hide b n) = b"
  by (auto simp: field_def Let_def is_hidden_hide)

text \<open>Only the fields of the format are shown: the chat of telegram, the secret of the two formats without a service, the
  template of the generic one.\<close>

lemma fields_of_format:
  "is_hidden (ff_chat (fst (hook_fields tr F seq))) \<longleftrightarrow> hf_format F \<noteq> (lit ''telegram'')"
  "is_hidden (ff_secret (fst (hook_fields tr F seq))) \<longleftrightarrow> hf_format F \<noteq> (lit ''generic'') \<and> hf_format F \<noteq> (lit ''text'')"
  "is_hidden (ff_template (fst (hook_fields tr F seq))) \<longleftrightarrow> hf_format F \<noteq> (lit ''generic'')"
  by (auto simp: hook_fields_def hidden_fields_def Let_def field_hidden split: prod.splits)

text \<open>The boxes of an editor that opens are the events the webhook wants, in every group.\<close>

lemma opened_boxes: "i \<in> set event_ids \<Longrightarrow> (map_of (hf_checks (edit_hook shown ids0 ids w)) i = Some True)
   \<longleftrightarrow> wants (wh_events (hf_draft (edit_hook shown ids0 ids w))) i"
  by (auto simp: edit_hook_def Let_def map_of_map_restrict restrict_map_def)

text \<open>The key Enter on a button of a row is also heard by the row, which opens the editor: the webhook is tested, or its
  deletion asked about, behind it.\<close>

lemma lowered_k: "char_of (107 :: nat) = CHR ''k''"
  by code_simp

lemma enter_on_hook_button: "heard ''keydown'' (\<lambda>a. a = Hook_kept) [row_button tr v ic ti act, h ''div'' [cls ''row-actions''] cs, hook_row tr manage w] = [Hook_key (wh_id w)]"
  using lowered_k by (auto simp: row_button_def hook_row_def h_def button_def plain_btn_def spread_def apply_attr_def skipped_def set_plain_def is_text_def in_el_def
      set_attribute_def new_info_def fun_attr_def opt_attr_def Let_def lower_char_def is_upper_def)

lemma refused_switch_back: "hook_switched i now None H = (\<not> now, H)"
  by (simp add: hook_switched_def persist_def)

end
