(* ===== verification/Spec2Isabelle.thy ===== *)
theory Spec2Isabelle imports Toml_Frame Toml_Tunnels Stats_Gate Stats_Concurrency Stats_Html Stats_Sums Page_Config_Saves Page_Tunnels_Pairs Page_Tunnels_Checks Page_Firewall_Rules Page_Firewall_Feed Panel_Store_Facts Panel_Router Stats_Releases Page_Logs_Facts Page_Users_Rights Page_Dashboard_Facts Panel_Passkey Page_Settings Page_Updates Page_Notifications Panel_Texts Toml_Reread_File Json_Fuel Panel_Ui_Facts Panel_Shell View_Tunnel_Editors View_Dashboard_Dialogs View_Firewall_Editors View_Settings View_Users View_Updates Page_Tunnels_Sessions View_Config View_Notifications begin

text \<open>
  FRP Manager is a web panel for frp, the reverse proxy: it finds the frps and frpc instances of a machine, edits
  their TOML configuration files, their tunnels, the firewall in front of them, accounts and notifications. The
  panel is a server in Go and pages in JavaScript; a Cloudflare worker in JavaScript counts the installations that
  accept it. This library models the JavaScript of the program, as it is written: what the pages read, compute,
  show and send, and what the worker keeps. The paths below are under \<open>src/panel/templates/assets/\<close> (the pages)
  and \<open>src/tools/stats-worker/\<close> (the worker).

  Parts and how they meet. \<open>js/toml.js\<close> reads and writes configuration files; \<open>pages/config.js\<close> and
  \<open>pages/tunnels.js\<close> are its clients: a page asks the server for a file (an argument of the model), builds its
  state from what \<open>toml.js\<close> reads, checks what is typed, and posts the text \<open>toml.js\<close> writes. \<open>js/store.js\<close> holds
  what the pages share (instances, account, permissions, lists in use), \<open>js/router.js\<close> opens one page at a time
  and asks the one that is left, \<open>js/main.js\<close> starts them, \<open>js/ui.js\<close> makes every element of the pages,
  \<open>js/i18n.js\<close> gives their texts from the dictionaries \<open>locales/fr.js\<close> and \<open>locales/en.js\<close>, \<open>js/api.js\<close> makes the
  requests. The worker (\<open>worker.js\<close>) applies the rules of \<open>logic.js\<close> to a request and its database and shows the
  sums of \<open>render.js\<close> to whoever has the password.

  Shared vocabulary. \<open>Prelude\<close> (texts as lists of UTF-16 units, string methods, objects with the order of their
  keys), \<open>Regex\<close> (the matching rule of ECMAScript), \<open>Json\<close>, \<open>Json_Fuel\<close>, \<open>Js_Number\<close>, \<open>Js_Text\<close>, \<open>Sort_By\<close>.

  Configuration files (\<open>js/toml.js\<close>). \<open>Toml_Lex\<close>, \<open>Toml_Strings\<close>, \<open>Toml_Inline\<close>: comments, keys, brackets,
  strings, inline tables. \<open>Toml_Text\<close>, \<open>Toml_Parse\<close>: normalising a file, \<open>parseToml\<close>, the parts of a file.
  \<open>Toml_Addr\<close>, \<open>Toml_Tunnels\<close>: addresses, ports, tunnels and visitors, the file made of them. \<open>Toml_Generate\<close>,
  \<open>Toml_Scan\<close>, \<open>Toml_Merge\<close>: the configurations of the form, and their merge into an existing file. Facts:
  \<open>Toml_Quotes\<close> (one interface for the five scanning loops, interpreted for each; a written value reads back),
  \<open>Toml_Frame\<close> (what a merge may change), \<open>Toml_Roundtrip\<close>, \<open>Toml_Reread\<close>, \<open>Toml_Reread_File\<close> (any tunnels and
  visitors with single ports written to a new file are read again, and shown again by the page).

  Statistics. \<open>Stats_Logic\<close>, \<open>Stats_Worker\<close>, \<open>Stats_Releases\<close>, \<open>Stats_Render\<close> are the four parts of the worker;
  \<open>Stats_Tables\<close> is the interface of its tables (locales, interpreted for the rows of the database). Facts:
  \<open>Stats_Gate\<close> (the password of the private area, its lock-out over any sequence of requests), \<open>Stats_Concurrency\<close>
  (requests as interleaved database steps, what the limits still guarantee, and what they do not), \<open>Stats_Keys\<close>,
  \<open>Stats_Sums\<close> (figures agree; \<open>comparison\<close> is the interface of the sorts), \<open>Stats_Html\<close> (data never adds markup).

  Pages. \<open>Page_Config\<close>, \<open>Page_Config_Saves\<close>; \<open>Page_Tunnels\<close>, \<open>Page_Tunnels_Pairs\<close>, \<open>Page_Tunnels_Checks\<close>,
  \<open>Page_Tunnels_Sessions\<close> (requests under way, an instance chosen meanwhile: whose file a save writes);
  \<open>Page_Firewall\<close>, \<open>Page_Firewall_Rules\<close>, \<open>Page_Firewall_Feed\<close>; \<open>Page_Dashboard\<close>, \<open>Page_Dashboard_Facts\<close>;
  \<open>Page_Logs\<close>, \<open>Page_Logs_Facts\<close>; \<open>Page_Users\<close>, \<open>Page_Users_Rights\<close>; \<open>Page_Settings\<close> (with \<open>theme.js\<close>);
  \<open>Page_Updates\<close>; \<open>Page_Notifications\<close>. Each has the state of the page as a record and one function per callback
  of the source; a sequence of events is a fold or a step relation over them, and the invariants hold for all
  sequences.

  What the pages show. \<open>View_Base\<close> (texts, answers and their messages, who hears an event) and one theory or more per
  page: \<open>View_Config\<close>; \<open>View_Tunnels\<close>, \<open>View_Tunnel_Editors\<close>; \<open>View_Firewall\<close>, \<open>View_Firewall_Dialogs\<close>,
  \<open>View_Firewall_Editors\<close>; \<open>View_Dashboard\<close>, \<open>View_Dashboard_Dialogs\<close>; \<open>View_Users\<close>; \<open>View_Settings\<close>; \<open>View_Updates\<close>;
  \<open>View_Notifications\<close>. They make the element trees of \<open>Panel_Dom\<close> from the state of the page, with its actions as
  listeners, as \<open>render\<close> and the \<open>build\<close> of the dialogs do; what is done to a tree afterwards is a function on trees.
  Their facts: what a tree shows and lets do is what the state has (rows, boxes, counters, hidden fields, links), a
  dialog sends only what was confirmed, and where a page offers what it should not.

  The panel around them. \<open>Panel_Store\<close>, \<open>Panel_Store_Facts\<close>, \<open>Panel_Router\<close>, \<open>Panel_I18n\<close> (with \<open>api.js\<close>),
  \<open>Panel_Passkey\<close>, \<open>Panel_Dom\<close>, \<open>Panel_Ui\<close>, \<open>Panel_Ui_Events\<close>, \<open>Panel_Ui_Facts\<close> (\<open>ui.js\<close>: elements as trees, messages, menus, dialogs, fields), \<open>Panel_Shell\<close> (\<open>main.js\<close>, the start of the router), and the dictionaries themselves: \<open>Panel_Lang\<close> (their form), \<open>Panel_Fr\<close>, \<open>Panel_En\<close> (every text),
  \<open>Panel_Languages\<close> (both have the same names and parameters), \<open>Panel_Keys\<close> (the names the pages build from their own
  data), \<open>Panel_Texts\<close> (each of them has a text).

  Conventions. An exception is \<open>None\<close> or a value of an error type. A message is the key of its translation.
  Time passes as timer events. Random draws, the answers of the server, of GitHub and of the browser
  (\<open>navigator.credentials\<close>, \<open>localStorage\<close>), the choices in dialogs, the parsing of a URL, base64 and SHA-256 in
  the worker, the decoding of UTF-8 (\<open>untext\<close>), the collation of names, the lower case of Unicode (\<open>low\<close>), plural
  rules and formats of \<open>Intl\<close> and the style sheets are arguments: the theorems hold for all of them, or name what
  they ask of them.

  Bounds. The matcher of \<open>Regex\<close> and the loops of \<open>toml.js\<close> are total functions with their termination proofs;
  loops on an index become recursion on the text left. \<open>JSON.parse\<close> carries a fuel of twice the length of the text
  plus two, and any larger one gives the same result (\<open>json_enough\<close> of \<open>Json_Fuel\<close>). \<open>Number\<close> is exact: decimal integers in the generators,
  rational numbers in the settings; the rounding to doubles is modelled where it shows (the percentages of
  \<open>render.js\<close>). Dates are milliseconds from 1970 to 9999. Counts, ports and network numbers are below 2 to the 53,
  where doubles are exact. In the dictionaries a character outside ASCII is written as a tilde and its four
  hexadecimal digits, and the last of two properties of one name is the one an object has.

  Not modelled. The server in Go, another language, but for its rules the pages repeat (the name of an instance,
  the name of a service, the order of permissions), which the properties compare with. The focus, scrolling
  and style of the pages, and formats of dates; but for the tunnels, the logs,
  the blocked connections, the store and the worker, a request is answered before the next event. Shell scripts, packaging and maintenance tools.
\<close>

end
